(* ===== verification/Prelude.thy ===== *)
theory Prelude
  imports Main "HOL-Library.Multiset"
begin

text \<open>
  What the components share: the JavaScript string and array operations the sources call, written
  out on lists, with the generic lemmas about them.

  A JavaScript string is a list of code units; here it is a \<open>string\<close>, a list of \<open>char\<close>,
  so the code units 0 to 255. Every delimiter, quote, keyword and pattern of the sources is ASCII.
  Upper and lower case are the ASCII ones. White space is what \<open>\s\<close> and \<open>trim\<close> accept below 256.
\<close>

named_theorems str_simps \<open>unfolding rules for the string operations\<close>
named_theorems ids_simps \<open>what an operation does to the identifiers of a structure\<close>

section \<open>Characters\<close>

abbreviation SQ :: char where "SQ \<equiv> CHR 0x27"
abbreviation DQ :: char where "DQ \<equiv> CHR 0x22"
abbreviation BT :: char where "BT \<equiv> CHR 0x60"
abbreviation BSL :: char where "BSL \<equiv> CHR 0x5C"
abbreviation LF :: char where "LF \<equiv> CHR 0x0A"
abbreviation CR :: char where "CR \<equiv> CHR 0x0D"
abbreviation TAB :: char where "TAB \<equiv> CHR 0x09"

definition is_space :: "char \<Rightarrow> bool" where
  "is_space c \<longleftrightarrow> c = CHR 0x20 \<or> c = TAB \<or> c = LF \<or> c = CHR 0x0B \<or> c = CHR 0x0C \<or> c = CR \<or> c = CHR 0xA0"

definition is_digit :: "char \<Rightarrow> bool" where
  "is_digit c \<longleftrightarrow> 48 \<le> (of_char c :: nat) \<and> (of_char c :: nat) \<le> 57"

definition is_upper :: "char \<Rightarrow> bool" where
  "is_upper c \<longleftrightarrow> 65 \<le> (of_char c :: nat) \<and> (of_char c :: nat) \<le> 90"

definition is_lower :: "char \<Rightarrow> bool" where
  "is_lower c \<longleftrightarrow> 97 \<le> (of_char c :: nat) \<and> (of_char c :: nat) \<le> 122"

definition lower_char :: "char \<Rightarrow> char" where
  "lower_char c = (if is_upper c then char_of ((of_char c :: nat) + 32) else c)"

definition upper_char :: "char \<Rightarrow> char" where
  "upper_char c = (if is_lower c then char_of ((of_char c :: nat) - 32) else c)"

definition to_lower :: "string \<Rightarrow> string" where
  "to_lower = map lower_char"

definition to_upper :: "string \<Rightarrow> string" where
  "to_upper = map upper_char"

lemma length_to_lower [simp]: "length (to_lower s) = length s"
  by (simp add: to_lower_def)

lemma length_to_upper [simp]: "length (to_upper s) = length s"
  by (simp add: to_upper_def)

section \<open>Trimming, joining, splitting\<close>

definition trim_start :: "string \<Rightarrow> string" where
  "trim_start = dropWhile is_space"

definition trim_end :: "string \<Rightarrow> string" where
  "trim_end s = rev (dropWhile is_space (rev s))"

definition trim :: "string \<Rightarrow> string" where
  "trim s = trim_end (trim_start s)"

lemma trim_Nil [simp]: "trim [] = []"
  by (simp add: trim_def trim_end_def trim_start_def)

text \<open>A string that neither begins nor ends with white space is its own trim.\<close>

definition trimmed :: "string \<Rightarrow> bool" where
  "trimmed s \<longleftrightarrow> s = [] \<or> (\<not> is_space (hd s) \<and> \<not> is_space (last s))"

lemma trim_id: "trimmed s \<Longrightarrow> trim s = s"
proof -
  assume t: "trimmed s"
  show ?thesis
  proof (cases s)
    case Nil
    then show ?thesis by simp
  next
    case (Cons c cs)
    with t have h: "\<not> is_space c" and l: "\<not> is_space (last s)"
      by (auto simp: trimmed_def)
    have "trim_start s = s" using Cons h by (simp add: trim_start_def)
    moreover obtain us where "s = us @ [last s]"
      using Cons by (metis append_butlast_last_id list.discI)
    then have "trim_end s = s" using l
      by (metis dropWhile.simps(2) rev_eq_Cons_iff rev_rev_ident trim_end_def)
    ultimately show ?thesis by (simp add: trim_def)
  qed
qed

lemma hd_dropWhile_not: "dropWhile P xs \<noteq> [] \<Longrightarrow> \<not> P (hd (dropWhile P xs))"
  by (rule hd_dropWhile)

lemma dropWhile_rev_prefix: "\<exists>ys. xs = rev (dropWhile P (rev xs)) @ ys"
  by (metis rev_append rev_rev_ident takeWhile_dropWhile_id)

lemma trimmed_trim: "trimmed (trim s)"
proof (cases "trim s = []")
  case True
  then show ?thesis by (simp add: trimmed_def)
next
  case False
  let ?u = "trim_start s"
  have "trim s = rev (dropWhile is_space (rev ?u))"
    by (simp add: trim_def trim_end_def)
  with False have d: "dropWhile is_space (rev ?u) \<noteq> []" by auto
  have l: "\<not> is_space (last (trim s))"
    using hd_dropWhile_not [OF d] d by (simp add: trim_def trim_end_def last_rev)
  obtain ys where ys: "?u = trim s @ ys"
    using dropWhile_rev_prefix [of ?u is_space] by (auto simp: trim_def trim_end_def)
  with False have "?u \<noteq> []" and "hd ?u = hd (trim s)"
    by (simp_all add: hd_append)
  then have "\<not> is_space (hd (trim s))"
    using hd_dropWhile_not [of is_space s] by (simp add: trim_start_def)
  with l show ?thesis by (simp add: trimmed_def)
qed

lemma trim_trim [simp]: "trim (trim s) = trim s"
  by (rule trim_id) (rule trimmed_trim)

fun join :: "'a list \<Rightarrow> 'a list list \<Rightarrow> 'a list" where
  "join sep [] = []"
| "join sep [x] = x"
| "join sep (x # y # ys) = x @ sep @ join sep (y # ys)"

lemma join_Cons: "join sep (x # xs) = (if xs = [] then x else x @ sep @ join sep xs)"
  by (cases xs) simp_all

lemma join_append:
  "xs \<noteq> [] \<Longrightarrow> ys \<noteq> [] \<Longrightarrow> join sep (xs @ ys) = join sep xs @ sep @ join sep ys"
  by (induction xs) (auto simp: join_Cons)

fun strip_prefix :: "'a list \<Rightarrow> 'a list \<Rightarrow> 'a list option" where
  "strip_prefix [] ys = Some ys"
| "strip_prefix (x # xs) [] = None"
| "strip_prefix (x # xs) (y # ys) = (if x = y then strip_prefix xs ys else None)"

lemma strip_prefix_Some: "strip_prefix xs ys = Some zs \<longleftrightarrow> ys = xs @ zs"
  by (induction xs ys rule: strip_prefix.induct) auto

definition starts_with :: "'a list \<Rightarrow> 'a list \<Rightarrow> bool" where
  "starts_with s p \<longleftrightarrow> strip_prefix p s \<noteq> None"

lemma starts_with_iff: "starts_with s p \<longleftrightarrow> (\<exists>r. s = p @ r)"
  by (auto simp: starts_with_def strip_prefix_Some)

fun str_includes :: "'a list \<Rightarrow> 'a list \<Rightarrow> bool" where
  "str_includes [] p \<longleftrightarrow> p = []"
| "str_includes (c # s) p \<longleftrightarrow> starts_with (c # s) p \<or> str_includes s p"

text \<open>\<open>s.split(sep)\<close>: an empty separator gives the code units, otherwise a left-to-right scan.\<close>

function split_scan :: "string \<Rightarrow> string \<Rightarrow> string \<Rightarrow> string list" where
  "split_scan sep cur s =
     (case s of
        [] \<Rightarrow> [cur]
      | c # cs \<Rightarrow>
          (if sep \<noteq> [] \<and> starts_with s sep then cur # split_scan sep [] (drop (length sep) s)
           else split_scan sep (cur @ [c]) cs))"
  by pat_completeness auto
termination
  by (relation "measure (\<lambda>(sep, cur, s). length s)") (auto split: list.splits)

declare split_scan.simps [simp del]

definition split :: "string \<Rightarrow> string \<Rightarrow> string list" where
  "split sep s = (if sep = [] then map (\<lambda>c. [c]) s else split_scan sep [] s)"

lemma split_scan_Nil [simp]: "split_scan sep cur [] = [cur]"
  by (simp add: split_scan.simps)

lemma starts_with_single [simp]: "starts_with s [q] \<longleftrightarrow> s \<noteq> [] \<and> hd s = q"
  by (cases s) (auto simp: starts_with_def)

lemma split_scan_char_Cons:
  "split_scan [q] cur (c # cs) = (if c = q then cur # split_scan [q] [] cs else split_scan [q] (cur @ [c]) cs)"
  by (subst split_scan.simps) simp

lemma split_scan_nonempty [simp]: "split_scan sep cur s \<noteq> []"
proof (induction sep cur s rule: split_scan.induct)
  case (1 sep cur s)
  show ?case
    by (subst split_scan.simps) (use 1 in \<open>auto split: list.splits\<close>)
qed

lemma split_nonempty: "sep \<noteq> [] \<Longrightarrow> split sep s \<noteq> []"
  by (simp add: split_def)

text \<open>Joining with the separator undoes the split.\<close>

lemma join_split_scan: "sep \<noteq> [] \<Longrightarrow> join sep (split_scan sep cur s) = cur @ s"
proof (induction sep cur s rule: split_scan.induct)
  case (1 sep cur s)
  show ?case
  proof (cases s)
    case Nil
    then show ?thesis by simp
  next
    case (Cons c cs)
    show ?thesis
    proof (cases "starts_with s sep")
      case True
      then obtain r where r: "s = sep @ r" by (auto simp: starts_with_iff)
      have "split_scan sep cur s = cur # split_scan sep [] r"
        using Cons True "1.prems" r by (subst split_scan.simps) (simp, metis append_eq_conv_conj)
      moreover have "join sep (split_scan sep [] r) = r"
        using "1.IH"(1) [OF Cons] True "1.prems" Cons r
        by (metis append_Nil append_eq_conv_conj)
      ultimately show ?thesis using r by (simp add: join_Cons)
    next
      case False
      have "split_scan sep cur s = split_scan sep (cur @ [c]) cs"
        using Cons False by (subst split_scan.simps) simp
      then show ?thesis using "1.IH"(2) [OF Cons] False "1.prems" Cons by simp
    qed
  qed
qed

lemma join_split: "sep \<noteq> [] \<Longrightarrow> join sep (split sep s) = s"
  by (simp add: split_def join_split_scan)

text \<open>Splitting at a character undoes the join of parts that do not hold it.\<close>

lemma split_scan_part:
  "q \<notin> set x \<Longrightarrow> split_scan [q] cur (x @ s) = split_scan [q] (cur @ x) s"
  by (induction x arbitrary: cur) (auto simp: split_scan_char_Cons)

lemma split_join:
  "xs \<noteq> [] \<Longrightarrow> \<forall>x\<in>set xs. q \<notin> set x \<Longrightarrow> split [q] (join [q] xs) = xs"
proof (induction xs)
  case Nil
  then show ?case by simp
next
  case (Cons x xs)
  have x: "split_scan [q] [] (x @ s) = split_scan [q] x s" for s
    using Cons.prems split_scan_part [of q x "[]"] by simp
  show ?case
  proof (cases "xs = []")
    case True
    then show ?thesis using x [of "[]"] by (simp add: split_def)
  next
    case False
    with Cons have "split [q] (join [q] xs) = xs" by simp
    with False x show ?thesis by (simp add: split_def join_Cons split_scan_char_Cons)
  qed
qed

section \<open>Doubling and quoting\<close>

text \<open>\<open>s.replace(/q/g, "qq")\<close> and the quoted token built from it.\<close>

fun double_char :: "char \<Rightarrow> string \<Rightarrow> string" where
  "double_char q [] = []"
| "double_char q (c # s) = (if c = q then q # q # double_char q s else c # double_char q s)"

definition quote_with :: "char \<Rightarrow> string \<Rightarrow> string" where
  "quote_with q s = q # double_char q s @ [q]"

lemma double_char_append: "double_char q (s @ t) = double_char q s @ double_char q t"
  by (induction s) simp_all

lemma double_char_id [simp]: "q \<notin> set s \<Longrightarrow> double_char q s = s"
  by (induction s) auto

lemma set_double_char [simp]: "set (double_char q s) = set s"
  by (induction s) auto

lemma join_split_double: "join [q, q] (split [q] s) = double_char q s"
proof -
  have "join [q, q] (split_scan [q] cur s) = cur @ double_char q s" for cur
    by (induction s arbitrary: cur) (auto simp: split_scan_char_Cons join_Cons)
  then show ?thesis by (simp add: split_def)
qed

section \<open>Decimal numerals\<close>

definition digit_char :: "nat \<Rightarrow> char" where
  "digit_char d = char_of (48 + d)"

definition digit_val :: "char \<Rightarrow> nat" where
  "digit_val c = of_char c - 48"

fun nat_str :: "nat \<Rightarrow> string" where
  "nat_str n = (if n < 10 then [digit_char n] else nat_str (n div 10) @ [digit_char (n mod 10)])"

declare nat_str.simps [simp del]

definition int_str :: "int \<Rightarrow> string" where
  "int_str i = (if i < 0 then CHR ''-'' # nat_str (nat (- i)) else nat_str (nat i))"

text \<open>\<open>/^\d+$/\<close> and \<open>Number\<close> on a string of digits.\<close>

definition all_digits :: "string \<Rightarrow> bool" where
  "all_digits s \<longleftrightarrow> s \<noteq> [] \<and> list_all is_digit s"

definition digits_val :: "string \<Rightarrow> nat" where
  "digits_val s = foldl (\<lambda>n c. 10 * n + digit_val c) 0 s"

definition pad_start :: "nat \<Rightarrow> char \<Rightarrow> string \<Rightarrow> string" where
  "pad_start w c s = replicate (w - length s) c @ s"

lemma of_char_digit: "d < 10 \<Longrightarrow> (of_char (digit_char d) :: nat) = 48 + d"
  by (simp add: digit_char_def)

lemma is_digit_digit_char [simp]: "d < 10 \<Longrightarrow> is_digit (digit_char d)"
  by (simp add: is_digit_def of_char_digit)

lemma digit_val_digit_char [simp]: "d < 10 \<Longrightarrow> digit_val (digit_char d) = d"
  by (simp add: digit_val_def of_char_digit)

lemma all_digits_nat_str: "all_digits (nat_str n)"
proof (induction n rule: nat_str.induct)
  case (1 n)
  then show ?case
    by (subst nat_str.simps) (auto simp: all_digits_def)
qed

lemma digits_val_append: "digits_val (s @ [c]) = 10 * digits_val s + digit_val c"
  by (simp add: digits_val_def)

lemma digits_val_nat_str [simp]: "digits_val (nat_str n) = n"
proof (induction n rule: nat_str.induct)
  case (1 n)
  show ?case
  proof (cases "n < 10")
    case True
    then show ?thesis by (subst nat_str.simps) (simp add: digits_val_def)
  next
    case False
    then show ?thesis using 1 by (subst nat_str.simps) (simp add: digits_val_append)
  qed
qed

lemma nat_str_inject [simp]: "nat_str m = nat_str n \<longleftrightarrow> m = n"
  by (metis digits_val_nat_str)

lemma length_pad_start: "length (pad_start w c s) = max w (length s)"
  by (simp add: pad_start_def)

lemma digits_val_pad: "digits_val (pad_start w CHR ''0'' s) = digits_val s"
proof -
  have "foldl (\<lambda>n c. 10 * n + digit_val c) 0 (replicate k CHR ''0'' @ s) = digits_val s" for k
    by (induction k) (simp_all add: digits_val_def digit_val_def)
  then show ?thesis by (simp add: pad_start_def digits_val_def)
qed

lemma all_digits_pad: "all_digits s \<Longrightarrow> all_digits (pad_start w CHR ''0'' s)"
  by (auto simp: pad_start_def all_digits_def list_all_iff is_digit_def)

section \<open>Arrays\<close>

text \<open>\<open>findIndex\<close> and \<open>indexOf\<close>, with \<open>None\<close> for -1; \<open>slice\<close>; the two \<open>splice\<close> calls of a move.\<close>

fun find_index :: "('a \<Rightarrow> bool) \<Rightarrow> 'a list \<Rightarrow> nat option" where
  "find_index P [] = None"
| "find_index P (x # xs) = (if P x then Some 0 else map_option Suc (find_index P xs))"

definition index_of :: "'a \<Rightarrow> 'a list \<Rightarrow> nat option" where
  "index_of x = find_index (\<lambda>y. y = x)"

definition slice :: "nat \<Rightarrow> nat \<Rightarrow> 'a list \<Rightarrow> 'a list" where
  "slice i j xs = take (j - i) (drop i xs)"

definition remove_at :: "nat \<Rightarrow> 'a list \<Rightarrow> 'a list" where
  "remove_at i xs = take i xs @ drop (Suc i) xs"

definition insert_at :: "nat \<Rightarrow> 'a \<Rightarrow> 'a list \<Rightarrow> 'a list" where
  "insert_at i x xs = take i xs @ x # drop i xs"

definition move_elem :: "nat \<Rightarrow> nat \<Rightarrow> 'a list \<Rightarrow> 'a list" where
  "move_elem i j xs = insert_at j (xs ! i) (remove_at i xs)"

lemma find_index_None [simp]: "find_index P xs = None \<longleftrightarrow> (\<forall>x\<in>set xs. \<not> P x)"
  by (induction xs) auto

lemma find_index_Some:
  "find_index P xs = Some i \<Longrightarrow> i < length xs \<and> P (xs ! i) \<and> (\<forall>j<i. \<not> P (xs ! j))"
  by (induction xs arbitrary: i) (auto simp: less_Suc_eq_0_disj split: if_splits)

lemma find_find_index: "find P xs = map_option ((!) xs) (find_index P xs)"
  by (induction xs) (auto simp: option.map_comp o_def)

lemma find_Some_prop: "find P xs = Some x \<Longrightarrow> x \<in> set xs \<and> P x"
  by (induction xs) (auto split: if_splits)

lemma find_None_iff_set: "find P xs = None \<longleftrightarrow> (\<forall>x\<in>set xs. \<not> P x)"
  by (induction xs) auto

lemma length_remove_at: "i < length xs \<Longrightarrow> length (remove_at i xs) = length xs - 1"
  by (simp add: remove_at_def)

lemma mset_remove_at: "i < length xs \<Longrightarrow> mset xs = add_mset (xs ! i) (mset (remove_at i xs))"
  by (metis id_take_nth_drop mset_append mset.simps(2) remove_at_def union_mset_add_mset_right)

lemma mset_insert_at [simp]: "mset (insert_at i x xs) = add_mset x (mset xs)"
  by (metis append_take_drop_id insert_at_def mset.simps(2) mset_append union_mset_add_mset_right)

lemma mset_move_elem [simp]: "i < length xs \<Longrightarrow> mset (move_elem i j xs) = mset xs"
  using mset_remove_at [of i xs] by (simp add: move_elem_def)

lemma set_move_elem [simp]: "i < length xs \<Longrightarrow> set (move_elem i j xs) = set xs"
  by (metis mset_eq_setD mset_move_elem)

lemma length_move_elem [simp]: "i < length xs \<Longrightarrow> length (move_elem i j xs) = length xs"
  by (metis mset_eq_length mset_move_elem)

lemma map_move_elem: "i < length xs \<Longrightarrow> map f (move_elem i j xs) = move_elem i j (map f xs)"
  by (simp add: move_elem_def insert_at_def remove_at_def take_map drop_map)

lemma distinct_map_move_elem:
  "i < length xs \<Longrightarrow> distinct (map f (move_elem i j xs)) \<longleftrightarrow> distinct (map f xs)"
  by (metis length_map map_move_elem mset_eq_imp_distinct_iff mset_move_elem)

lemma nth_insert_at: "j \<le> length xs \<Longrightarrow> insert_at j x xs ! j = x"
  by (simp add: insert_at_def nth_append)

lemma nth_move_elem: "i < length xs \<Longrightarrow> j < length xs \<Longrightarrow> move_elem i j xs ! j = xs ! i"
  by (simp add: move_elem_def nth_insert_at length_remove_at)

text \<open>The other elements keep their order.\<close>

lemma remove_at_insert_at: "j \<le> length xs \<Longrightarrow> remove_at j (insert_at j x xs) = xs"
  by (simp add: remove_at_def insert_at_def Suc_diff_le)

lemma insert_at_remove_at: "i < length xs \<Longrightarrow> insert_at i (xs ! i) (remove_at i xs) = xs"
  by (simp add: insert_at_def remove_at_def id_take_nth_drop [symmetric])

text \<open>Moving an element there and back gives the list again.\<close>

lemma move_elem_inverse:
  assumes "i < length xs" and "j < length xs"
  shows "move_elem j i (move_elem i j xs) = xs"
proof -
  have j: "j \<le> length (remove_at i xs)"
    using assms by (simp add: length_remove_at)
  then have "remove_at j (move_elem i j xs) = remove_at i xs"
    by (simp add: move_elem_def remove_at_insert_at)
  moreover have "move_elem i j xs ! j = xs ! i"
    using assms by (rule nth_move_elem)
  ultimately have "move_elem j i (move_elem i j xs) = insert_at i (xs ! i) (remove_at i xs)"
    by (simp only: move_elem_def [of j i])
  then show ?thesis using assms by (simp add: insert_at_remove_at)
qed

lemma move_elem_same: "i < length xs \<Longrightarrow> move_elem i i xs = xs"
  by (simp add: move_elem_def insert_at_remove_at)

lemma find_index_eqI:
  "k < length xs \<Longrightarrow> P (xs ! k) \<Longrightarrow> (\<And>j. j < k \<Longrightarrow> \<not> P (xs ! j)) \<Longrightarrow> find_index P xs = Some k"
proof (induction xs arbitrary: k)
  case (Cons x xs)
  then show ?case
    by (cases k) (fastforce, metis (mono_tags, lifting) Suc_less_eq find_index.simps(2) length_Cons nth_Cons_0 nth_Cons_Suc option.simps(9) zero_less_Suc)
qed simp

text \<open>The first match, moved one place up, is the first match again.\<close>

lemma find_index_move_up:
  assumes "find_index P xs = Some k" and "k \<noteq> 0"
  shows "find_index P (move_elem k (k - 1) xs) = Some (k - 1)"
proof (rule find_index_eqI)
  from assms have k: "k < length xs" "P (xs ! k)" "\<forall>j<k. \<not> P (xs ! j)"
    by (auto dest: find_index_Some)
  from k(1) assms(2) show "k - 1 < length (move_elem k (k - 1) xs)" by simp
  from k assms(2) show "P (move_elem k (k - 1) xs ! (k - 1))" by (simp add: nth_move_elem)
  show "\<not> P (move_elem k (k - 1) xs ! j)" if "j < k - 1" for j
    using that k by (simp add: move_elem_def insert_at_def remove_at_def nth_append)
qed

section \<open>Stable sorting\<close>

text \<open>\<open>Array.prototype.sort\<close> with a comparator, which is stable; \<open>le a b\<close> is a result of at most 0.\<close>

fun insort_by :: "('a \<Rightarrow> 'a \<Rightarrow> bool) \<Rightarrow> 'a \<Rightarrow> 'a list \<Rightarrow> 'a list" where
  "insort_by le x [] = [x]"
| "insort_by le x (y # ys) = (if le x y then x # y # ys else y # insort_by le x ys)"

definition sort_by :: "('a \<Rightarrow> 'a \<Rightarrow> bool) \<Rightarrow> 'a list \<Rightarrow> 'a list" where
  "sort_by le xs = foldr (insort_by le) xs []"

lemma mset_insort_by [simp]: "mset (insort_by le x xs) = add_mset x (mset xs)"
  by (induction xs) auto

lemma mset_sort_by [simp]: "mset (sort_by le xs) = mset xs"
  by (induction xs) (auto simp: sort_by_def)

lemma set_sort_by [simp]: "set (sort_by le xs) = set xs"
  by (metis mset_sort_by set_mset_mset)

lemma sorted_insort_by:
  assumes "\<And>a b. le a b \<or> le b a" and "\<And>a b c. le a b \<Longrightarrow> le b c \<Longrightarrow> le a c"
  shows "sorted_wrt le ys \<Longrightarrow> sorted_wrt le (insort_by le x ys)"
proof (induction ys)
  case (Cons y ys)
  have set_insort: "set (insort_by le x ys) = insert x (set ys)"
    by (metis mset_insort_by set_mset_add_mset_insert set_mset_mset)
  show ?case
  proof (cases "le x y")
    case True
    with Cons.prems assms(2) show ?thesis by (auto intro: assms(2) [OF True])
  next
    case False
    with assms(1) have "le y x" by blast
    with Cons False show ?thesis by (simp add: set_insort)
  qed
qed simp

lemma sorted_sort_by:
  "(\<And>a b. le a b \<or> le b a) \<Longrightarrow> (\<And>a b c. le a b \<Longrightarrow> le b c \<Longrightarrow> le a c) \<Longrightarrow> sorted_wrt le (sort_by le xs)"
  by (induction xs) (simp_all add: sort_by_def sorted_insort_by)

end
