(* ===== verification/JsValue.thy ===== *)
theory JsValue
  imports Prelude
begin

text \<open>
  The values the sources type as \<open>unknown\<close>: cell values, filter values, parsed JSON. A number is
  either an integer that \<open>String\<close> prints in plain decimal (\<open>JInt\<close>) or any other number (a
  fraction, an exponent form, -0, NaN, an infinity), given by the text \<open>String\<close> prints for it
  (\<open>JFloat\<close>). An object is its own enumerable properties in insertion order. A date is its local
  fields (none for an invalid date), its \<open>String\<close> text and its ISO text; \<open>JBytes\<close> is a
  \<open>Uint8Array\<close>.
\<close>

datatype jsval =
    JUndef
  | JNull
  | JBool bool
  | JInt int
  | JFloat string
  | JStr string
  | JArr "jsval list"
  | JObj "(string \<times> jsval) list"
  | JDate "(nat \<times> nat \<times> nat \<times> nat \<times> nat \<times> nat) option" string string
  | JBytes "nat list"

definition nullish :: "jsval \<Rightarrow> bool" where
  "nullish v \<longleftrightarrow> v = JUndef \<or> v = JNull"

lemma nullish_simps [simp]:
  "nullish JUndef" "nullish JNull" "\<not> nullish (JBool b)" "\<not> nullish (JInt i)" "\<not> nullish (JFloat t)"
  "\<not> nullish (JStr s)" "\<not> nullish (JArr vs)" "\<not> nullish (JObj ps)" "\<not> nullish (JDate d t u)"
  "\<not> nullish (JBytes bs)"
  by (simp_all add: nullish_def)

text \<open>\<open>String(v)\<close>: an array joins its elements with commas, nullish ones as the empty string.\<close>

fun js_string :: "jsval \<Rightarrow> string" where
  "js_string JUndef = ''undefined''"
| "js_string JNull = ''null''"
| "js_string (JBool b) = (if b then ''true'' else ''false'')"
| "js_string (JInt i) = int_str i"
| "js_string (JFloat t) = t"
| "js_string (JStr s) = s"
| "js_string (JArr vs) = join '','' (map (\<lambda>v. if nullish v then [] else js_string v) vs)"
| "js_string (JObj ps) = ''[object Object]''"
| "js_string (JDate d t i) = t"
| "js_string (JBytes bs) = join '','' (map nat_str bs)"

text \<open>Truthiness of a value: \<open>JFloat\<close> covers -0 and NaN, whose texts are ''0'' and ''NaN''.\<close>

fun truthy :: "jsval \<Rightarrow> bool" where
  "truthy JUndef = False"
| "truthy JNull = False"
| "truthy (JBool b) = b"
| "truthy (JInt i) = (i \<noteq> 0)"
| "truthy (JFloat t) = (t \<noteq> ''0'' \<and> t \<noteq> ''NaN'')"
| "truthy (JStr s) = (s \<noteq> [])"
| "truthy (JArr vs) = True"
| "truthy (JObj ps) = True"
| "truthy (JDate d t i) = True"
| "truthy (JBytes bs) = True"

text \<open>Reading a property of a row: \<open>undefined\<close> when there is none.\<close>

definition get_prop :: "(string \<times> jsval) list \<Rightarrow> string \<Rightarrow> jsval" where
  "get_prop ps k = (case map_of ps k of None \<Rightarrow> JUndef | Some v \<Rightarrow> v)"

text \<open>Writing one: an existing property keeps its place, a new one goes last.\<close>

fun set_prop :: "(string \<times> 'v) list \<Rightarrow> string \<Rightarrow> 'v \<Rightarrow> (string \<times> 'v) list" where
  "set_prop [] k v = [(k, v)]"
| "set_prop ((k', v') # ps) k v = (if k' = k then (k, v) # ps else (k', v') # set_prop ps k v)"

lemma map_of_set_prop [simp]: "map_of (set_prop ps k v) = (map_of ps)(k \<mapsto> v)"
  by (induction ps) auto

lemma keys_set_prop: "map fst (set_prop ps k v) = (if k \<in> fst ` set ps then map fst ps else map fst ps @ [k])"
  by (induction ps) (auto simp: rev_image_eqI)

lemma distinct_set_prop [simp]: "distinct (map fst ps) \<Longrightarrow> distinct (map fst (set_prop ps k v))"
  by (auto simp: keys_set_prop)

text \<open>\<open>delete\<close>.\<close>

definition del_prop :: "(string \<times> 'v) list \<Rightarrow> string \<Rightarrow> (string \<times> 'v) list" where
  "del_prop ps k = filter (\<lambda>(k', v). k' \<noteq> k) ps"

lemma map_of_filter_keys: "map_of (filter (\<lambda>(k, v). P k) ps) k = (if P k then map_of ps k else None)"
  by (induction ps) auto

lemma map_of_del_prop [simp]: "map_of (del_prop ps k) = (map_of ps)(k := None)"
  by (rule ext) (simp add: del_prop_def map_of_filter_keys)

lemma distinct_del_prop [simp]: "distinct (map fst ps) \<Longrightarrow> distinct (map fst (del_prop ps k))"
  unfolding del_prop_def by (induction ps) auto

lemma keys_of_set_prop: "fst ` set (set_prop ps k v) = insert k (fst ` set ps)"
  by (simp flip: dom_map_of_conv_image_fst)

lemma set_prop_values: "(i, p) \<in> set (set_prop ps k v) \<Longrightarrow> (i, p) = (k, v) \<or> (i, p) \<in> set ps"
  by (induction ps) (auto split: if_splits)

lemma keys_of_del_prop: "fst ` set (del_prop ps k) = fst ` set ps - {k}"
  by (auto simp: del_prop_def image_iff)

lemma set_del_prop: "set (del_prop ps k) \<subseteq> set ps"
  by (auto simp: del_prop_def)

lemma map_of_filter_distinct:
  "distinct (map fst ps) \<Longrightarrow>
   map_of (filter P ps) k = (case map_of ps k of None \<Rightarrow> None | Some v \<Rightarrow> if P (k, v) then Some v else None)"
  by (induction ps) (auto simp: map_of_eq_None_iff image_iff split: option.split)

section \<open>JSON.stringify\<close>

definition hex_digit :: "nat \<Rightarrow> char" where
  "hex_digit d = char_of (if d < 10 then 48 + d else 87 + d)"

definition hex_byte :: "nat \<Rightarrow> string" where
  "hex_byte n = [hex_digit (n div 16 mod 16), hex_digit (n mod 16)]"

definition json_char :: "char \<Rightarrow> string" where
  "json_char c =
     (if c = DQ then [BSL, DQ]
      else if c = BSL then [BSL, BSL]
      else if c = CHR 0x08 then [BSL, CHR ''b'']
      else if c = CHR 0x0C then [BSL, CHR ''f'']
      else if c = LF then [BSL, CHR ''n'']
      else if c = CR then [BSL, CHR ''r'']
      else if c = TAB then [BSL, CHR ''t'']
      else if (of_char c :: nat) < 32 then [BSL, CHR ''u'', CHR ''0'', CHR ''0''] @ hex_byte (of_char c)
      else [c])"

definition json_string :: "string \<Rightarrow> string" where
  "json_string s = DQ # concat (map json_char s) @ [DQ]"

definition json_number :: "string \<Rightarrow> string" where
  "json_number t = (if t = ''NaN'' \<or> t = ''Infinity'' \<or> t = ''-Infinity'' then ''null'' else t)"

text \<open>\<open>None\<close> is the \<open>undefined\<close> that \<open>JSON.stringify(undefined)\<close> returns.\<close>

fun json_stringify :: "jsval \<Rightarrow> string option" where
  "json_stringify JUndef = None"
| "json_stringify JNull = Some ''null''"
| "json_stringify (JBool b) = Some (if b then ''true'' else ''false'')"
| "json_stringify (JInt i) = Some (int_str i)"
| "json_stringify (JFloat t) = Some (json_number t)"
| "json_stringify (JStr s) = Some (json_string s)"
| "json_stringify (JArr vs) =
     Some (''['' @ join '','' (map (\<lambda>v. case json_stringify v of None \<Rightarrow> ''null'' | Some s \<Rightarrow> s) vs) @ '']'')"
| "json_stringify (JObj ps) =
     Some (''{'' @ join '',''
       (concat (map (\<lambda>kv. case json_stringify (snd kv) of
                            None \<Rightarrow> []
                          | Some s \<Rightarrow> [json_string (fst kv) @ '':'' @ s]) ps)) @ ''}'')"
| "json_stringify (JDate d t u) = Some (if d = None then ''null'' else json_string u)"
| "json_stringify (JBytes bs) =
     Some (''{'' @ join '','' (map (\<lambda>(i, b). json_string (nat_str i) @ '':'' @ nat_str b) (enumerate 0 bs)) @ ''}'')"

lemma json_stringify_None [simp]: "json_stringify v = None \<longleftrightarrow> v = JUndef"
  by (cases v) simp_all

end
