(* ===== verification/Base64.thy ===== *)
theory Base64
  imports JsValue
begin

text \<open>
  The standard functions \<open>btoa\<close> and \<open>atob\<close> on byte lists (a binary string is its code units), and the
  two-digit hexadecimal text of bytes. \<open>atob\<close> is the forgiving decoding: it drops white space, drops
  the padding of a text of full groups, and fails on other characters or a lone last one.
\<close>

definition b64_char :: "nat \<Rightarrow> char" where
  "b64_char n =
     (if n < 26 then char_of (65 + n)
      else if n < 52 then char_of (71 + n)
      else if n < 62 then char_of (n - 4)
      else if n = 62 then CHR ''+'' else CHR ''/'')"

definition b64_val :: "char \<Rightarrow> nat option" where
  "b64_val c =
     (if is_upper c then Some (of_char c - 65)
      else if is_lower c then Some (of_char c - 71)
      else if is_digit c then Some (of_char c + 4)
      else if c = CHR ''+'' then Some 62
      else if c = CHR ''/'' then Some 63
      else None)"

fun sextets :: "nat list \<Rightarrow> nat list" where
  "sextets (a # b # c # r) =
     a div 4 # ((a mod 4) * 16 + b div 16) # ((b mod 16) * 4 + c div 64) # (c mod 64) # sextets r"
| "sextets [a, b] = [a div 4, (a mod 4) * 16 + b div 16, (b mod 16) * 4]"
| "sextets [a] = [a div 4, (a mod 4) * 16]"
| "sextets [] = []"

definition b64_padding :: "nat list \<Rightarrow> string" where
  "b64_padding bs = (if length bs mod 3 = 0 then [] else if length bs mod 3 = 1 then ''=='' else ''='')"

definition btoa :: "nat list \<Rightarrow> string" where
  "btoa bs = map b64_char (sextets bs) @ b64_padding bs"

fun octets :: "nat list \<Rightarrow> nat list" where
  "octets (a # b # c # d # r) =
     (a * 4 + b div 16) # ((b mod 16) * 16 + c div 4) # ((c mod 4) * 64 + d) # octets r"
| "octets [a, b, c] = [a * 4 + b div 16, (b mod 16) * 16 + c div 4]"
| "octets [a, b] = [a * 4 + b div 16]"
| "octets _ = []"

definition drop_padding :: "string \<Rightarrow> string" where
  "drop_padding s =
     (if length s mod 4 = 0 then
        (case rev s of
           [] \<Rightarrow> s
         | c # cs \<Rightarrow>
             if c \<noteq> CHR ''='' then s
             else (case cs of
                     [] \<Rightarrow> []
                   | e # es \<Rightarrow> rev (if e = CHR ''='' then es else cs)))
      else s)"

fun all_some :: "'a option list \<Rightarrow> 'a list option" where
  "all_some [] = Some []"
| "all_some (None # xs) = None"
| "all_some (Some x # xs) = map_option ((#) x) (all_some xs)"

definition atob :: "string \<Rightarrow> nat list option" where
  "atob s =
     (let t = drop_padding (filter (\<lambda>c. \<not> is_space c) s)
      in if length t mod 4 = 1 then None else map_option octets (all_some (map b64_val t)))"

definition bytes :: "nat list \<Rightarrow> bool" where
  "bytes bs \<longleftrightarrow> (\<forall>b\<in>set bs. b < 256)"

section \<open>Decoding what was encoded\<close>

lemma b64_val_char: "n < 64 \<Longrightarrow> b64_val (b64_char n) = Some n"
  by (auto simp: b64_val_def b64_char_def is_upper_def is_lower_def is_digit_def)

lemma b64_char_plain:
  assumes "n < 64"
  shows "\<not> is_space (b64_char n) \<and> b64_char n \<noteq> CHR ''=''"
proof -
  have "b64_val (b64_char n) = Some n" using assms by (rule b64_val_char)
  then show ?thesis by (auto simp: b64_val_def is_space_def is_upper_def is_lower_def is_digit_def)
qed

lemma sextets_bound: "bytes bs \<Longrightarrow> \<forall>n\<in>set (sextets bs). n < 64"
  by (induction bs rule: sextets.induct) (auto simp: bytes_def)

lemma octets_sextets: "bytes bs \<Longrightarrow> octets (sextets bs) = bs"
proof (induction bs rule: sextets.induct)
  case (1 a b c r)
  then have "a < 256" "b < 256" "c < 256" "octets (sextets r) = r" by (simp_all add: bytes_def)
  then show ?case by simp
next
  case (2 a b)
  then have "a < 256" "b < 256" by (simp_all add: bytes_def)
  then show ?case by simp
next
  case (3 a)
  then show ?case by (simp add: bytes_def)
qed simp

lemma length_sextets:
  "length (sextets bs) =
     4 * (length bs div 3) + (if length bs mod 3 = 0 then 0 else if length bs mod 3 = 1 then 2 else 3)"
proof (induction bs rule: sextets.induct)
  case (1 a b c r)
  have "Suc (Suc (Suc n)) div 3 = Suc (n div 3)" "Suc (Suc (Suc n)) mod 3 = n mod 3" for n :: nat
    by presburger+
  with 1 show ?case by simp
qed simp_all

lemma length_btoa: "length (btoa bs) mod 4 = 0"
  by (auto simp: btoa_def b64_padding_def length_sextets)

lemma sextets_not_lone: "length (sextets bs) mod 4 \<noteq> 1"
  by (auto simp: length_sextets)

lemma all_some_Some: "(\<And>x. x \<in> set xs \<Longrightarrow> f x = Some (g x)) \<Longrightarrow> all_some (map f xs) = Some (map g xs)"
  by (induction xs) simp_all

lemma drop_padding_btoa:
  assumes "bytes bs"
  shows "drop_padding (btoa bs) = map b64_char (sextets bs)"
proof -
  let ?m = "map b64_char (sextets bs)"
  have four: "length (btoa bs) mod 4 = 0"
    by (rule length_btoa)
  have plain: "\<forall>c\<in>set ?m. c \<noteq> CHR ''=''"
    using sextets_bound [OF assms] b64_char_plain by auto
  have shape: "rev ?m = c # cs \<Longrightarrow> c \<noteq> CHR ''=''" for c cs
    using plain by (metis list.set_intros(1) set_rev)
  consider "b64_padding bs = []" | "b64_padding bs = ''==''" | "b64_padding bs = ''=''"
    unfolding b64_padding_def by metis
  then show ?thesis
  proof cases
    case 1
    then show ?thesis using shape by (auto simp: drop_padding_def btoa_def split: list.split)
  next
    case 2
    then show ?thesis using four by (simp add: drop_padding_def btoa_def)
  next
    case 3
    then show ?thesis using four shape
      by (auto simp: drop_padding_def btoa_def rev_map split: list.split)
  qed
qed

text \<open>Bytes survive the encoding.\<close>

theorem atob_btoa:
  assumes "bytes bs"
  shows "atob (btoa bs) = Some bs"
proof -
  have "\<forall>c\<in>set (btoa bs). \<not> is_space c"
    using sextets_bound [OF assms] b64_char_plain
    by (auto simp: btoa_def b64_padding_def is_space_def split: if_splits)
  then have "filter (\<lambda>c. \<not> is_space c) (btoa bs) = btoa bs" by simp
  moreover have "all_some (map b64_val (map b64_char (sextets bs))) = Some (sextets bs)"
    using all_some_Some [of "sextets bs" "b64_val \<circ> b64_char" id] sextets_bound [OF assms] b64_val_char
    by simp
  ultimately show ?thesis
    using assms sextets_not_lone [of bs] by (simp add: atob_def drop_padding_btoa octets_sextets Let_def)
qed

end
