(* ===== verification/K8sPage.thy ===== *)
theory K8sPage
  imports JsValue Base64 "HOL-Library.AList"
begin

text \<open>
  The page of a Kubernetes cluster, \<^verbatim>\<open>components/k8s/K8sClusterPage.tsx\<close> with \<^verbatim>\<open>k8sLogState.ts\<close> and \<^verbatim>\<open>utils.ts\<close>: the
  cluster, its namespaces and their resources, loaded when they are expanded, the tabs inside the page, refreshing single
  resources by hand and every five seconds, the state of the log tabs, and the snapshots that outlive the page. A request of the
  page is a call and an entry of what waits; its answer, already parsed, is an argument, and a \<open>null\<close> is \<open>None\<close>.
  Translations and \<open>JSON.parse\<close> are arguments. What is drawn is left out, but what decides whether the panel of the logs is
  there is kept.
\<close>

section \<open>What the backend sends\<close>

record node_info =
  no_name :: string
  no_status :: string
  no_roles :: "string list"
  no_version :: string
  no_cpu :: string
  no_memory :: string
  no_os :: string
  no_arch :: string

record namespace_info =
  na_name :: string
  na_status :: string

record namespace_resources =
  nr_namespace :: string
  nr_pods :: int
  nr_deployments :: int
  nr_services :: int
  nr_config_maps :: int
  nr_secrets :: int
  nr_pvcs :: int
  nr_service_accounts :: int

record cluster_info =
  cl_version :: string
  cl_platform :: string
  cl_nodes :: "node_info list"
  cl_namespaces :: "namespace_info list"

record pod_item =
  po_name :: string
  po_namespace :: string
  po_status :: string
  po_node_name :: string
  po_pod_ip :: string
  po_age :: string
  po_ready :: string
  po_restart_count :: int

record deployment_item =
  de_name :: string
  de_namespace :: string
  de_ready :: string
  de_up_to_date :: int
  de_available :: int
  de_age :: string
  de_pods :: "pod_item list"

record service_port =
  sp_name :: string
  sp_port :: int
  sp_target_port :: string
  sp_node_port :: int
  sp_protocol :: string

record service_item =
  se_name :: string
  se_namespace :: string
  se_type :: string
  se_cluster_ip :: string
  se_ports :: "service_port list"
  se_age :: string

record config_map_item =
  cm_name :: string
  cm_namespace :: string
  cm_data :: "(string \<times> string) list"
  cm_age :: string

record secret_item =
  sc_name :: string
  sc_namespace :: string
  sc_type :: string
  sc_data :: "(string \<times> string) list"
  sc_age :: string

record container_detail =
  ct_name :: string
  ct_image :: string
  ct_state :: string
  ct_ready :: bool
  ct_restart_count :: int

record condition_detail =
  cd_type :: string
  cd_status :: string
  cd_reason :: string
  cd_message :: string

record event_detail =
  ev_type :: string
  ev_reason :: string
  ev_message :: string
  ev_first_time :: string
  ev_last_time :: string
  ev_count :: int

record pod_detail =
  pd_name :: string
  pd_namespace :: string
  pd_status :: string
  pd_node_name :: string
  pd_pod_ip :: string
  pd_host_ip :: string
  pd_creation_time :: string
  pd_age :: string
  pd_ready :: string
  pd_restart_count :: int
  pd_qos_class :: string
  pd_containers :: "container_detail list"
  pd_conditions :: "condition_detail list"
  pd_events :: "event_detail list"
  pd_labels :: "(string \<times> string) list"
  pd_annotations :: "(string \<times> string) list"
  pd_yaml :: string

datatype 'a k8s_reply = K_ok 'a | K_failed string

text \<open>The resources with a list of their own: the count of a namespace and the key of its label.\<close>

definition RESOURCE_TYPES :: "(string \<times> string \<times> (namespace_resources \<Rightarrow> int)) list" where
  "RESOURCE_TYPES =
     [(''pods'', ''asset.k8sPods'', nr_pods), (''deployments'', ''asset.k8sDeployments'', nr_deployments),
      (''services'', ''asset.k8sServices'', nr_services), (''config_maps'', ''asset.k8sConfigMaps'', nr_config_maps),
      (''secrets'', ''asset.k8sSecrets'', nr_secrets)]"

section \<open>The state\<close>

record k8s_inner_tab =
  it_id :: string
  it_label :: string

record log_buffer =
  lb_container :: string
  lb_tailLines :: int
  lb_chunks :: "string list"

record log_tab_state =
  lt_logStreamID :: "string option"
  lt_logContainer :: string
  lt_logTailLines :: int
  lt_logError :: "string option"
  lt_currentPod :: "string option"
  lt_logBuffers :: "(string \<times> log_buffer) list"

definition buildLogBufferKey :: "string \<Rightarrow> string \<Rightarrow> int \<Rightarrow> string" where
  "buildLogBufferKey podName container tailLines = podName @ ''::'' @ container @ ''::'' @ int_str tailLines"

text \<open>One kind of data that is loaded by key: what is there, what is loading, what failed.\<close>

record 'a loads =
  ld_data :: "(string \<times> 'a option) list"
  ld_loading :: "string list"
  ld_errors :: "(string \<times> string) list"

record k8s_snapshot =
  ks_info :: "cluster_info option"
  ks_innerTabs :: "k8s_inner_tab list"
  ks_activeTabId :: string
  ks_expandedNodes :: bool
  ks_expandedNamespaces :: "string list"
  ks_expandedPods :: "string list"
  ks_expandedDeployments :: "string list"
  ks_expandedServices :: "string list"
  ks_expandedConfigMaps :: "string list"
  ks_expandedSecrets :: "string list"
  ks_expandedDeploymentItems :: "string list"
  ks_resourceSearch :: "(string \<times> string) list"
  ks_namespaceResources :: "(string \<times> namespace_resources option) list"
  ks_namespacePodList :: "(string \<times> pod_item list option) list"
  ks_namespaceDeploymentList :: "(string \<times> deployment_item list option) list"
  ks_namespaceServiceList :: "(string \<times> service_item list option) list"
  ks_namespaceConfigMapList :: "(string \<times> config_map_item list option) list"
  ks_namespaceSecretList :: "(string \<times> secret_item list option) list"
  ks_podDetails :: "(string \<times> pod_detail option) list"
  ks_logTabStates :: "(string \<times> log_tab_state) list"
  ks_autoRefreshingItems :: "string list"

text \<open>
  A panel of logs: its stream, the stream whose events it listens to, and what its last render gave it: the tab, the pod, the
  container and the number of lines.
\<close>

record log_view =
  lv_deploy :: bool
  lv_tab :: string
  lv_namespace :: string
  lv_podName :: string
  lv_container :: string
  lv_tailLines :: int

record log_panel =
  lp_stream :: "string option"
  lp_events :: "string option"
  lp_view :: log_view

record log_listener =
  ll_panel :: nat
  ll_stream :: string
  ll_key :: string
  ll_container :: string
  ll_tailLines :: int

datatype k8s_wait =
    KW_info bool string
  | KW_refresh_info
  | KW_refresh_resources string
  | KW_resources string
  | KW_pods string
  | KW_deployments string
  | KW_services string
  | KW_configMaps string
  | KW_secrets string
  | KW_pod_item string string
  | KW_deployment_item string string
  | KW_service_item string string
  | KW_configMap_item string string
  | KW_secret_item string string
  | KW_detail string
  | KW_silent_detail string
  | KW_start nat string string int

datatype k8s_call =
    KC_GetK8sClusterInfo int
  | KC_GetK8sNamespaceResources int string
  | KC_GetK8sNamespacePods int string
  | KC_GetK8sNamespaceDeployments int string
  | KC_GetK8sNamespaceServices int string
  | KC_GetK8sNamespaceConfigMaps int string
  | KC_GetK8sNamespaceSecrets int string
  | KC_GetK8sPodDetail int string string
  | KC_StartK8sPodLogs int string string string int
  | KC_StopK8sPodLogs string
  | KC_term_clear
  | KC_term_write "nat list"

record k8s_asset =
  ka_ID :: int
  ka_Config :: string

record k8s_page =
  kp_asset :: k8s_asset
  kp_loading :: bool
  kp_refreshing :: bool
  kp_info :: "cluster_info option"
  kp_error :: "string option"
  kp_innerTabs :: "k8s_inner_tab list"
  kp_activeTabId :: string
  kp_expandedNodes :: bool
  kp_expandedNamespaces :: "string list"
  kp_expandedPods :: "string list"
  kp_expandedDeployments :: "string list"
  kp_expandedServices :: "string list"
  kp_expandedConfigMaps :: "string list"
  kp_expandedSecrets :: "string list"
  kp_expandedDeploymentItems :: "string list"
  kp_resourceSearch :: "(string \<times> string) list"
  kp_namespaces :: "namespace_resources loads"
  kp_pods :: "pod_item list loads"
  kp_deployments :: "deployment_item list loads"
  kp_services :: "service_item list loads"
  kp_configMaps :: "config_map_item list loads"
  kp_secrets :: "secret_item list loads"
  kp_details :: "pod_detail loads"
  kp_logTabStates :: "(string \<times> log_tab_state) list"
  kp_refreshingItems :: "string list"
  kp_autoRefreshingItems :: "string list"
  kp_panels :: "log_panel list"
  kp_panel :: "nat option"
  kp_listeners :: "log_listener list"
  kp_cache :: "(int \<times> k8s_snapshot) list"
  kp_waits :: "k8s_wait list"
  kp_calls :: "k8s_call list"

definition kp_send :: "k8s_call \<Rightarrow> k8s_page \<Rightarrow> k8s_page" where
  "kp_send c s = s\<lparr>kp_calls := kp_calls s @ [c]\<rparr>"

definition kp_await :: "k8s_wait \<Rightarrow> k8s_page \<Rightarrow> k8s_page" where
  "kp_await w s = s\<lparr>kp_waits := kp_waits s @ [w]\<rparr>"

definition kp_settled :: "k8s_wait \<Rightarrow> k8s_page \<Rightarrow> k8s_page" where
  "kp_settled w s = s\<lparr>kp_waits := remove1 w (kp_waits s)\<rparr>"

text \<open>Sets of keys, in the order of insertion.\<close>

definition set_add :: "string \<Rightarrow> string list \<Rightarrow> string list" where
  "set_add x xs = (if x \<in> set xs then xs else xs @ [x])"

definition set_del :: "string \<Rightarrow> string list \<Rightarrow> string list" where
  "set_del x xs = filter (\<lambda>y. y \<noteq> x) xs"

definition set_toggle :: "string \<Rightarrow> string list \<Rightarrow> string list" where
  "set_toggle x xs = (if x \<in> set xs then set_del x xs else xs @ [x])"

section \<open>Loading by key\<close>

text \<open>A \<open>null\<close> that was stored counts as not loaded.\<close>

definition is_loaded :: "string \<Rightarrow> 'a loads \<Rightarrow> bool" where
  "is_loaded key ld \<longleftrightarrow> (case map_of (ld_data ld) key of Some (Some d) \<Rightarrow> True | _ \<Rightarrow> False)"

definition no_loads :: "'a loads" where
  "no_loads = \<lparr>ld_data = [], ld_loading = [], ld_errors = []\<rparr>"

definition load_begun :: "string \<Rightarrow> 'a loads \<Rightarrow> 'a loads" where
  "load_begun key ld = ld\<lparr>ld_loading := set_add key (ld_loading ld)\<rparr>"

definition load_stored :: "string \<Rightarrow> 'a option k8s_reply \<Rightarrow> 'a loads \<Rightarrow> 'a loads" where
  "load_stored key answer ld =
     (case answer of
        K_ok d \<Rightarrow> ld\<lparr>ld_data := set_prop (ld_data ld) key d, ld_errors := del_prop (ld_errors ld) key\<rparr>
      | K_failed e \<Rightarrow> ld\<lparr>ld_errors := set_prop (ld_errors ld) key e\<rparr>)"

definition k8s_load_answered :: "string \<Rightarrow> 'a option k8s_reply \<Rightarrow> 'a loads \<Rightarrow> 'a loads" where
  "k8s_load_answered key answer ld = (let ld' = load_stored key answer ld in ld'\<lparr>ld_loading := set_del key (ld_loading ld')\<rparr>)"

definition error_cleared :: "string \<Rightarrow> 'a loads \<Rightarrow> 'a loads" where
  "error_cleared key ld = ld\<lparr>ld_errors := del_prop (ld_errors ld) key\<rparr>"

text \<open>One item of a list is replaced by its newer version when both lists have it.\<close>

definition replace_item :: "('a \<Rightarrow> string) \<Rightarrow> string \<Rightarrow> string \<Rightarrow> 'a list \<Rightarrow> 'a list loads \<Rightarrow> 'a list loads" where
  "replace_item name_of ns nm answered ld =
     (case find (\<lambda>d. name_of d = nm) answered of
        None \<Rightarrow> ld
      | Some updated \<Rightarrow>
          (let listed = (case map_of (ld_data ld) ns of Some (Some l) \<Rightarrow> l | _ \<Rightarrow> [])
           in case find_index (\<lambda>d. name_of d = nm) listed of
                Some idx \<Rightarrow> ld\<lparr>ld_data := set_prop (ld_data ld) ns (Some (listed[idx := updated]))\<rparr>
              | None \<Rightarrow> ld))"

text \<open>A \<open>null\<close> in place of the list throws and counts as a failure.\<close>

definition item_answered :: "('a \<Rightarrow> string) \<Rightarrow> string \<Rightarrow> string \<Rightarrow> 'a list k8s_reply \<Rightarrow> 'a list loads \<Rightarrow> 'a list loads" where
  "item_answered name_of ns nm answer ld =
     (case answer of
        K_ok answered \<Rightarrow> error_cleared ns (replace_item name_of ns nm answered ld)
      | K_failed e \<Rightarrow> ld\<lparr>ld_errors := set_prop (ld_errors ld) ns e\<rparr>)"

section \<open>Namespaces\<close>

definition kp_id :: "k8s_page \<Rightarrow> int" where
  "kp_id s = ka_ID (kp_asset s)"

definition loadNamespaceResources :: "string \<Rightarrow> k8s_page \<Rightarrow> k8s_page" where
  "loadNamespaceResources ns s =
     (if is_loaded ns (kp_namespaces s) \<or> ns \<in> set (ld_loading (kp_namespaces s)) then s
      else kp_await (KW_resources ns) (kp_send (KC_GetK8sNamespaceResources (kp_id s) ns)
             (s\<lparr>kp_namespaces := load_begun ns (kp_namespaces s)\<rparr>)))"

definition resources_answered :: "string \<Rightarrow> namespace_resources option k8s_reply \<Rightarrow> k8s_page \<Rightarrow> k8s_page" where
  "resources_answered ns answer s0 =
     (let s = kp_settled (KW_resources ns) s0 in s\<lparr>kp_namespaces := k8s_load_answered ns answer (kp_namespaces s)\<rparr>)"

definition toggleNamespace :: "string \<Rightarrow> k8s_page \<Rightarrow> k8s_page" where
  "toggleNamespace ns s =
     (let s' = s\<lparr>kp_expandedNamespaces := set_toggle ns (kp_expandedNamespaces s)\<rparr>
      in if ns \<in> set (kp_expandedNamespaces s) then s' else loadNamespaceResources ns s')"

text \<open>The message of a failure is a button that tries again.\<close>

definition retry_namespace :: "string \<Rightarrow> k8s_page \<Rightarrow> k8s_page" where
  "retry_namespace ns s = loadNamespaceResources ns (s\<lparr>kp_namespaces := error_cleared ns (kp_namespaces s)\<rparr>)"

section \<open>The lists of a namespace\<close>

definition loadPods :: "string \<Rightarrow> k8s_page \<Rightarrow> k8s_page" where
  "loadPods ns s =
     (if is_loaded ns (kp_pods s) \<or> ns \<in> set (ld_loading (kp_pods s)) then s
      else kp_await (KW_pods ns) (kp_send (KC_GetK8sNamespacePods (kp_id s) ns) (s\<lparr>kp_pods := load_begun ns (kp_pods s)\<rparr>)))"

definition pods_answered :: "string \<Rightarrow> pod_item list option k8s_reply \<Rightarrow> k8s_page \<Rightarrow> k8s_page" where
  "pods_answered ns answer s0 = (let s = kp_settled (KW_pods ns) s0 in s\<lparr>kp_pods := k8s_load_answered ns answer (kp_pods s)\<rparr>)"

definition togglePods :: "string \<Rightarrow> k8s_page \<Rightarrow> k8s_page" where
  "togglePods ns s =
     (let s' = s\<lparr>kp_expandedPods := set_toggle ns (kp_expandedPods s)\<rparr>
      in if ns \<in> set (kp_expandedPods s) then s' else loadPods ns s')"

definition retry_pods :: "string \<Rightarrow> k8s_page \<Rightarrow> k8s_page" where
  "retry_pods ns s = loadPods ns (s\<lparr>kp_pods := error_cleared ns (kp_pods s)\<rparr>)"

definition loadDeployments :: "string \<Rightarrow> k8s_page \<Rightarrow> k8s_page" where
  "loadDeployments ns s =
     (if is_loaded ns (kp_deployments s) \<or> ns \<in> set (ld_loading (kp_deployments s)) then s
      else kp_await (KW_deployments ns) (kp_send (KC_GetK8sNamespaceDeployments (kp_id s) ns)
             (s\<lparr>kp_deployments := load_begun ns (kp_deployments s)\<rparr>)))"

definition deployments_answered :: "string \<Rightarrow> deployment_item list option k8s_reply \<Rightarrow> k8s_page \<Rightarrow> k8s_page" where
  "deployments_answered ns answer s0 =
     (let s = kp_settled (KW_deployments ns) s0 in s\<lparr>kp_deployments := k8s_load_answered ns answer (kp_deployments s)\<rparr>)"

definition toggleDeployments :: "string \<Rightarrow> k8s_page \<Rightarrow> k8s_page" where
  "toggleDeployments ns s =
     (let s' = s\<lparr>kp_expandedDeployments := set_toggle ns (kp_expandedDeployments s)\<rparr>
      in if ns \<in> set (kp_expandedDeployments s) then s' else loadDeployments ns s')"

definition retry_deployments :: "string \<Rightarrow> k8s_page \<Rightarrow> k8s_page" where
  "retry_deployments ns s = loadDeployments ns (s\<lparr>kp_deployments := error_cleared ns (kp_deployments s)\<rparr>)"

definition loadServices :: "string \<Rightarrow> k8s_page \<Rightarrow> k8s_page" where
  "loadServices ns s =
     (if is_loaded ns (kp_services s) \<or> ns \<in> set (ld_loading (kp_services s)) then s
      else kp_await (KW_services ns) (kp_send (KC_GetK8sNamespaceServices (kp_id s) ns)
             (s\<lparr>kp_services := load_begun ns (kp_services s)\<rparr>)))"

definition services_answered :: "string \<Rightarrow> service_item list option k8s_reply \<Rightarrow> k8s_page \<Rightarrow> k8s_page" where
  "services_answered ns answer s0 =
     (let s = kp_settled (KW_services ns) s0 in s\<lparr>kp_services := k8s_load_answered ns answer (kp_services s)\<rparr>)"

definition toggleServices :: "string \<Rightarrow> k8s_page \<Rightarrow> k8s_page" where
  "toggleServices ns s =
     (let s' = s\<lparr>kp_expandedServices := set_toggle ns (kp_expandedServices s)\<rparr>
      in if ns \<in> set (kp_expandedServices s) then s' else loadServices ns s')"

definition retry_services :: "string \<Rightarrow> k8s_page \<Rightarrow> k8s_page" where
  "retry_services ns s = loadServices ns (s\<lparr>kp_services := error_cleared ns (kp_services s)\<rparr>)"

definition loadConfigMaps :: "string \<Rightarrow> k8s_page \<Rightarrow> k8s_page" where
  "loadConfigMaps ns s =
     (if is_loaded ns (kp_configMaps s) \<or> ns \<in> set (ld_loading (kp_configMaps s)) then s
      else kp_await (KW_configMaps ns) (kp_send (KC_GetK8sNamespaceConfigMaps (kp_id s) ns)
             (s\<lparr>kp_configMaps := load_begun ns (kp_configMaps s)\<rparr>)))"

definition configMaps_answered :: "string \<Rightarrow> config_map_item list option k8s_reply \<Rightarrow> k8s_page \<Rightarrow> k8s_page" where
  "configMaps_answered ns answer s0 =
     (let s = kp_settled (KW_configMaps ns) s0 in s\<lparr>kp_configMaps := k8s_load_answered ns answer (kp_configMaps s)\<rparr>)"

definition toggleConfigMaps :: "string \<Rightarrow> k8s_page \<Rightarrow> k8s_page" where
  "toggleConfigMaps ns s =
     (let s' = s\<lparr>kp_expandedConfigMaps := set_toggle ns (kp_expandedConfigMaps s)\<rparr>
      in if ns \<in> set (kp_expandedConfigMaps s) then s' else loadConfigMaps ns s')"

definition retry_configMaps :: "string \<Rightarrow> k8s_page \<Rightarrow> k8s_page" where
  "retry_configMaps ns s = loadConfigMaps ns (s\<lparr>kp_configMaps := error_cleared ns (kp_configMaps s)\<rparr>)"

definition loadSecrets :: "string \<Rightarrow> k8s_page \<Rightarrow> k8s_page" where
  "loadSecrets ns s =
     (if is_loaded ns (kp_secrets s) \<or> ns \<in> set (ld_loading (kp_secrets s)) then s
      else kp_await (KW_secrets ns) (kp_send (KC_GetK8sNamespaceSecrets (kp_id s) ns)
             (s\<lparr>kp_secrets := load_begun ns (kp_secrets s)\<rparr>)))"

definition secrets_answered :: "string \<Rightarrow> secret_item list option k8s_reply \<Rightarrow> k8s_page \<Rightarrow> k8s_page" where
  "secrets_answered ns answer s0 =
     (let s = kp_settled (KW_secrets ns) s0 in s\<lparr>kp_secrets := k8s_load_answered ns answer (kp_secrets s)\<rparr>)"

definition toggleSecrets :: "string \<Rightarrow> k8s_page \<Rightarrow> k8s_page" where
  "toggleSecrets ns s =
     (let s' = s\<lparr>kp_expandedSecrets := set_toggle ns (kp_expandedSecrets s)\<rparr>
      in if ns \<in> set (kp_expandedSecrets s) then s' else loadSecrets ns s')"

definition retry_secrets :: "string \<Rightarrow> k8s_page \<Rightarrow> k8s_page" where
  "retry_secrets ns s = loadSecrets ns (s\<lparr>kp_secrets := error_cleared ns (kp_secrets s)\<rparr>)"

section \<open>The details of a pod\<close>

definition pod_key :: "string \<Rightarrow> string \<Rightarrow> string" where
  "pod_key ns podName = ns @ ''/'' @ podName"

definition loadPodDetail :: "string \<Rightarrow> string \<Rightarrow> bool \<Rightarrow> k8s_page \<Rightarrow> k8s_page" where
  "loadPodDetail ns podName force s =
     (let key = pod_key ns podName
      in if \<not> force \<and> (is_loaded key (kp_details s) \<or> key \<in> set (ld_loading (kp_details s))) then s
         else kp_await (KW_detail key) (kp_send (KC_GetK8sPodDetail (kp_id s) ns podName)
                (s\<lparr>kp_details := load_begun key (kp_details s)\<rparr>)))"

definition detail_answered :: "string \<Rightarrow> pod_detail option k8s_reply \<Rightarrow> k8s_page \<Rightarrow> k8s_page" where
  "detail_answered key answer s0 =
     (let s = kp_settled (KW_detail key) s0 in s\<lparr>kp_details := k8s_load_answered key answer (kp_details s)\<rparr>)"

definition silentReloadPodDetail :: "string \<Rightarrow> string \<Rightarrow> k8s_page \<Rightarrow> k8s_page" where
  "silentReloadPodDetail ns podName s =
     kp_await (KW_silent_detail (pod_key ns podName)) (kp_send (KC_GetK8sPodDetail (kp_id s) ns podName) s)"

definition silent_detail_answered :: "string \<Rightarrow> pod_detail option k8s_reply \<Rightarrow> k8s_page \<Rightarrow> k8s_page" where
  "silent_detail_answered key answer s0 =
     (let s = kp_settled (KW_silent_detail key) s0 in s\<lparr>kp_details := load_stored key answer (kp_details s)\<rparr>)"

definition retry_detail :: "string \<Rightarrow> string \<Rightarrow> k8s_page \<Rightarrow> k8s_page" where
  "retry_detail ns podName s =
     loadPodDetail ns podName False (s\<lparr>kp_details := error_cleared (pod_key ns podName) (kp_details s)\<rparr>)"

section \<open>Refreshing one resource\<close>

definition item_key :: "string \<Rightarrow> string \<Rightarrow> string \<Rightarrow> string" where
  "item_key type ns nm = type @ '':'' @ ns @ ''/'' @ nm"

definition item_refreshed :: "string \<Rightarrow> k8s_page \<Rightarrow> k8s_page" where
  "item_refreshed itemKey s = s\<lparr>kp_refreshingItems := set_del itemKey (kp_refreshingItems s)\<rparr>"

definition refreshDeploymentItem :: "string \<Rightarrow> string \<Rightarrow> k8s_page \<Rightarrow> k8s_page" where
  "refreshDeploymentItem ns deploymentName s =
     (let itemKey = item_key ''deploy'' ns deploymentName
      in if itemKey \<in> set (kp_refreshingItems s) then s
         else kp_await (KW_deployment_item ns deploymentName) (kp_send (KC_GetK8sNamespaceDeployments (kp_id s) ns)
                (s\<lparr>kp_refreshingItems := set_add itemKey (kp_refreshingItems s)\<rparr>)))"

definition deployment_item_answered :: "string \<Rightarrow> string \<Rightarrow> deployment_item list k8s_reply \<Rightarrow> k8s_page \<Rightarrow> k8s_page" where
  "deployment_item_answered ns nm answer s0 =
     (let s = kp_settled (KW_deployment_item ns nm) s0
      in item_refreshed (item_key ''deploy'' ns nm) (s\<lparr>kp_deployments := item_answered de_name ns nm answer (kp_deployments s)\<rparr>))"

definition refreshPodItem :: "string \<Rightarrow> string \<Rightarrow> k8s_page \<Rightarrow> k8s_page" where
  "refreshPodItem ns podName s =
     (let itemKey = item_key ''pod'' ns podName
      in if itemKey \<in> set (kp_refreshingItems s) then s
         else kp_await (KW_pod_item ns podName) (kp_send (KC_GetK8sNamespacePods (kp_id s) ns)
                (s\<lparr>kp_refreshingItems := set_add itemKey (kp_refreshingItems s)\<rparr>)))"

definition pod_item_answered :: "string \<Rightarrow> string \<Rightarrow> pod_item list k8s_reply \<Rightarrow> k8s_page \<Rightarrow> k8s_page" where
  "pod_item_answered ns nm answer s0 =
     (let s = kp_settled (KW_pod_item ns nm) s0
      in item_refreshed (item_key ''pod'' ns nm) (s\<lparr>kp_pods := item_answered po_name ns nm answer (kp_pods s)\<rparr>))"

definition refreshServiceItem :: "string \<Rightarrow> string \<Rightarrow> k8s_page \<Rightarrow> k8s_page" where
  "refreshServiceItem ns svcName s =
     (let itemKey = item_key ''svc'' ns svcName
      in if itemKey \<in> set (kp_refreshingItems s) then s
         else kp_await (KW_service_item ns svcName) (kp_send (KC_GetK8sNamespaceServices (kp_id s) ns)
                (s\<lparr>kp_refreshingItems := set_add itemKey (kp_refreshingItems s)\<rparr>)))"

definition service_item_answered :: "string \<Rightarrow> string \<Rightarrow> service_item list k8s_reply \<Rightarrow> k8s_page \<Rightarrow> k8s_page" where
  "service_item_answered ns nm answer s0 =
     (let s = kp_settled (KW_service_item ns nm) s0
      in item_refreshed (item_key ''svc'' ns nm) (s\<lparr>kp_services := item_answered se_name ns nm answer (kp_services s)\<rparr>))"

definition refreshConfigMapItem :: "string \<Rightarrow> string \<Rightarrow> k8s_page \<Rightarrow> k8s_page" where
  "refreshConfigMapItem ns cmName s =
     (let itemKey = item_key ''cm'' ns cmName
      in if itemKey \<in> set (kp_refreshingItems s) then s
         else kp_await (KW_configMap_item ns cmName) (kp_send (KC_GetK8sNamespaceConfigMaps (kp_id s) ns)
                (s\<lparr>kp_refreshingItems := set_add itemKey (kp_refreshingItems s)\<rparr>)))"

definition configMap_item_answered :: "string \<Rightarrow> string \<Rightarrow> config_map_item list k8s_reply \<Rightarrow> k8s_page \<Rightarrow> k8s_page" where
  "configMap_item_answered ns nm answer s0 =
     (let s = kp_settled (KW_configMap_item ns nm) s0
      in item_refreshed (item_key ''cm'' ns nm) (s\<lparr>kp_configMaps := item_answered cm_name ns nm answer (kp_configMaps s)\<rparr>))"

definition refreshSecretItem :: "string \<Rightarrow> string \<Rightarrow> k8s_page \<Rightarrow> k8s_page" where
  "refreshSecretItem ns secretName s =
     (let itemKey = item_key ''secret'' ns secretName
      in if itemKey \<in> set (kp_refreshingItems s) then s
         else kp_await (KW_secret_item ns secretName) (kp_send (KC_GetK8sNamespaceSecrets (kp_id s) ns)
                (s\<lparr>kp_refreshingItems := set_add itemKey (kp_refreshingItems s)\<rparr>)))"

definition secret_item_answered :: "string \<Rightarrow> string \<Rightarrow> secret_item list k8s_reply \<Rightarrow> k8s_page \<Rightarrow> k8s_page" where
  "secret_item_answered ns nm answer s0 =
     (let s = kp_settled (KW_secret_item ns nm) s0
      in item_refreshed (item_key ''secret'' ns nm) (s\<lparr>kp_secrets := item_answered sc_name ns nm answer (kp_secrets s)\<rparr>))"

section \<open>Refreshing again and again\<close>

text \<open>What is refreshed for a type of resource.\<close>

definition refresh_typed :: "string \<Rightarrow> string \<Rightarrow> string \<Rightarrow> k8s_page \<Rightarrow> k8s_page" where
  "refresh_typed type ns nm s =
     (if type = ''pod'' then silentReloadPodDetail ns nm (refreshPodItem ns nm s)
      else if type = ''deploy'' then refreshDeploymentItem ns nm s
      else if type = ''svc'' then refreshServiceItem ns nm s
      else if type = ''cm'' then refreshConfigMapItem ns nm s
      else if type = ''secret'' then refreshSecretItem ns nm s
      else s)"

text \<open>\<open>slice(0, indexOf(":"))\<close>: without a colon all but the last character.\<close>

definition type_of_key :: "string \<Rightarrow> string" where
  "type_of_key itemKey = (case index_of CHR '':'' itemKey of Some i \<Rightarrow> take i itemKey | None \<Rightarrow> butlast itemKey)"

definition toggleAutoRefresh :: "string \<Rightarrow> string \<Rightarrow> string \<Rightarrow> k8s_page \<Rightarrow> k8s_page" where
  "toggleAutoRefresh itemKey ns nm s =
     (if itemKey \<in> set (kp_autoRefreshingItems s) then s\<lparr>kp_autoRefreshingItems := set_del itemKey (kp_autoRefreshingItems s)\<rparr>
      else refresh_typed (type_of_key itemKey) ns nm (s\<lparr>kp_autoRefreshingItems := set_add itemKey (kp_autoRefreshingItems s)\<rparr>))"

definition parsed_key :: "string \<Rightarrow> (string \<times> string \<times> string) option" where
  "parsed_key itemKey =
     (case (index_of CHR '':'' itemKey, index_of CHR ''/'' itemKey) of
        (Some colonIdx, Some slashIdx) \<Rightarrow>
          Some (take colonIdx itemKey, slice (Suc colonIdx) slashIdx itemKey, drop (Suc slashIdx) itemKey)
      | _ \<Rightarrow> None)"

text \<open>The timer, every five seconds while the set is not empty.\<close>

definition refresh_key :: "string \<Rightarrow> k8s_page \<Rightarrow> k8s_page" where
  "refresh_key itemKey s = (case parsed_key itemKey of None \<Rightarrow> s | Some (type, ns, nm) \<Rightarrow> refresh_typed type ns nm s)"

definition auto_refresh_tick :: "k8s_page \<Rightarrow> k8s_page" where
  "auto_refresh_tick s = fold refresh_key (kp_autoRefreshingItems s) s"

definition toggleDeploymentItem :: "string \<Rightarrow> string \<Rightarrow> k8s_page \<Rightarrow> k8s_page" where
  "toggleDeploymentItem ns deploymentName s =
     s\<lparr>kp_expandedDeploymentItems := set_toggle (pod_key ns deploymentName) (kp_expandedDeploymentItems s)\<rparr>"

definition search_resources :: "string \<Rightarrow> string \<Rightarrow> string \<Rightarrow> k8s_page \<Rightarrow> k8s_page" where
  "search_resources kind ns v s = s\<lparr>kp_resourceSearch := set_prop (kp_resourceSearch s) (kind @ '':'' @ ns) v\<rparr>"

section \<open>The state of a log tab\<close>

definition new_log_state :: log_tab_state where
  "new_log_state = \<lparr>lt_logStreamID = None, lt_logContainer = [], lt_logTailLines = 200, lt_logError = None,
     lt_currentPod = None, lt_logBuffers = []\<rparr>"

definition updateLogTabState :: "string \<Rightarrow> (log_tab_state \<Rightarrow> log_tab_state) \<Rightarrow> k8s_page \<Rightarrow> k8s_page" where
  "updateLogTabState tabId upd s =
     (let existing = (case map_of (kp_logTabStates s) tabId of Some st \<Rightarrow> st | None \<Rightarrow> new_log_state)
      in s\<lparr>kp_logTabStates := set_prop (kp_logTabStates s) tabId (upd existing)\<rparr>)"

section \<open>The tabs inside the page\<close>

definition tab_parts :: "string \<Rightarrow> string \<times> string" where
  "tab_parts tabId =
     (let parts = split '':'' tabId
      in (if length parts > 1 then parts ! 1 else ''undefined'', join '':'' (drop 2 parts)))"

definition tab_open :: "string \<Rightarrow> k8s_page \<Rightarrow> bool" where
  "tab_open tabId s \<longleftrightarrow> list_ex (\<lambda>t. it_id t = tabId) (kp_innerTabs s)"

definition k8s_openTab :: "string \<Rightarrow> string \<Rightarrow> k8s_page \<Rightarrow> k8s_page" where
  "k8s_openTab tabId label s =
     (if tabId = ''overview'' then s\<lparr>kp_activeTabId := ''overview''\<rparr>
      else let s1 = (if tab_open tabId s then s else s\<lparr>kp_innerTabs := kp_innerTabs s @ [\<lparr>it_id = tabId, it_label = label\<rparr>]\<rparr>);
               s2 = s1\<lparr>kp_activeTabId := tabId\<rparr>
           in if starts_with tabId ''pod:'' then (case tab_parts tabId of (ns, podName) \<Rightarrow> loadPodDetail ns podName True s2) else s2)"

definition logs_label :: "(string \<Rightarrow> string) \<Rightarrow> string \<Rightarrow> string" where
  "logs_label t nm = t ''asset.k8sPodLogs'' @ '': '' @ nm"

definition openLogTab :: "(string \<Rightarrow> string) \<Rightarrow> string \<Rightarrow> string \<Rightarrow> string \<Rightarrow> k8s_page \<Rightarrow> k8s_page" where
  "openLogTab t ns podName container s =
     (let tabId = ''log:'' @ ns @ '':'' @ podName
      in (if tab_open tabId s then s
          else s\<lparr>kp_innerTabs := kp_innerTabs s @ [\<lparr>it_id = tabId, it_label = logs_label t podName\<rparr>],
                 kp_logTabStates := set_prop (kp_logTabStates s) tabId (new_log_state\<lparr>lt_logContainer := container\<rparr>)\<rparr>)
           \<lparr>kp_activeTabId := tabId\<rparr>)"

definition openDeploymentLogs :: "(string \<Rightarrow> string) \<Rightarrow> string \<Rightarrow> deployment_item \<Rightarrow> k8s_page \<Rightarrow> k8s_page" where
  "openDeploymentLogs t ns deployment s =
     (let firstPod = (case de_pods deployment of p # _ \<Rightarrow> po_name p | [] \<Rightarrow> []);
          tabId = ''log-deploy:'' @ ns @ '':'' @ de_name deployment;
          s1 = (if tab_open tabId s then s
            else s\<lparr>kp_innerTabs := kp_innerTabs s @ [\<lparr>it_id = tabId, it_label = logs_label t (de_name deployment)\<rparr>],
                   kp_logTabStates := set_prop (kp_logTabStates s) tabId (new_log_state\<lparr>lt_currentPod := Some firstPod\<rparr>)\<rparr>)
             \<lparr>kp_activeTabId := tabId\<rparr>
      in if firstPod \<noteq> [] then loadPodDetail ns firstPod False s1 else s1)"

definition is_log_tab :: "string \<Rightarrow> bool" where
  "is_log_tab tabId \<longleftrightarrow> starts_with tabId ''log:'' \<or> starts_with tabId ''log-deploy:''"

definition has_stream :: "string option \<Rightarrow> bool" where
  "has_stream st \<longleftrightarrow> (case st of Some i \<Rightarrow> i \<noteq> [] | None \<Rightarrow> False)"

text \<open>The stream that the state of a log tab names is stopped.\<close>

definition stop_tab_stream :: "string \<Rightarrow> k8s_page \<Rightarrow> k8s_page" where
  "stop_tab_stream tabId s =
     (case map_of (kp_logTabStates s) tabId of
        Some st \<Rightarrow> if is_log_tab tabId \<and> has_stream (lt_logStreamID st) then kp_send (KC_StopK8sPodLogs (the (lt_logStreamID st))) s else s
      | None \<Rightarrow> s)"

definition k8s_closeTab :: "string \<Rightarrow> k8s_page \<Rightarrow> k8s_page" where
  "k8s_closeTab tabId s =
     (let s1 = (if is_log_tab tabId then (stop_tab_stream tabId s)\<lparr>kp_logTabStates := del_prop (kp_logTabStates s) tabId\<rparr> else s);
          s2 = s1\<lparr>kp_innerTabs := filter (\<lambda>t. it_id t \<noteq> tabId) (kp_innerTabs s)\<rparr>;
          neighbor = (case find_index (\<lambda>t. it_id t = tabId) (kp_innerTabs s) of
              Some idx \<Rightarrow> if Suc idx < length (kp_innerTabs s) then Some (kp_innerTabs s ! Suc idx)
                         else if 0 < idx then Some (kp_innerTabs s ! (idx - 1)) else None
            | None \<Rightarrow> (case kp_innerTabs s of t # _ \<Rightarrow> Some t | [] \<Rightarrow> None))
      in if kp_activeTabId s = tabId
         then s2\<lparr>kp_activeTabId := (case neighbor of Some t \<Rightarrow> if it_id t = [] then ''overview'' else it_id t | None \<Rightarrow> ''overview'')\<rparr>
         else s2)"

definition closeInnerTabs :: "string list \<Rightarrow> string option \<Rightarrow> k8s_page \<Rightarrow> k8s_page" where
  "closeInnerTabs ids newActiveId s =
     (let s1 = fold stop_tab_stream ids s;
          s2 = s1\<lparr>kp_logTabStates := filter (\<lambda>(i, st). i \<notin> set ids) (kp_logTabStates s1),
                  kp_innerTabs := filter (\<lambda>t. it_id t \<notin> set ids) (kp_innerTabs s1)\<rparr>
      in case newActiveId of Some i \<Rightarrow> s2\<lparr>kp_activeTabId := i\<rparr> | None \<Rightarrow> s2)"

definition close_others :: "string \<Rightarrow> k8s_page \<Rightarrow> k8s_page" where
  "close_others tabId s =
     closeInnerTabs (map it_id (filter (\<lambda>t. it_id t \<noteq> tabId \<and> it_id t \<noteq> ''overview'') (kp_innerTabs s))) (Some tabId) s"

definition close_left :: "nat \<Rightarrow> k8s_page \<Rightarrow> k8s_page" where
  "close_left idx s =
     closeInnerTabs (map it_id (filter (\<lambda>t. it_id t \<noteq> ''overview'') (slice 0 idx (kp_innerTabs s)))) None s"

definition close_right :: "nat \<Rightarrow> k8s_page \<Rightarrow> k8s_page" where
  "close_right idx s = closeInnerTabs (map it_id (drop (Suc idx) (kp_innerTabs s))) None s"

section \<open>The cluster\<close>

definition defaultNamespace :: "(string \<Rightarrow> string + jsval) \<Rightarrow> k8s_asset \<Rightarrow> string" where
  "defaultNamespace parse_json asset =
     (case parse_json (if ka_Config asset = [] then ''{}'' else ka_Config asset) of
        Inl e \<Rightarrow> []
      | Inr (JObj ps) \<Rightarrow> (case get_prop ps ''namespace'' of JStr t \<Rightarrow> trim t | _ \<Rightarrow> [])
      | Inr v \<Rightarrow> [])"

definition overview_tab :: "(string \<Rightarrow> string) \<Rightarrow> k8s_inner_tab" where
  "overview_tab t = \<lparr>it_id = ''overview'', it_label = t ''asset.k8sClusterOverview''\<rparr>"

definition loadInfo :: "(string \<Rightarrow> string + jsval) \<Rightarrow> bool \<Rightarrow> k8s_page \<Rightarrow> k8s_page" where
  "loadInfo parse_json resetState s =
     (let s1 = (if resetState \<or> kp_info s = None then s\<lparr>kp_loading := True\<rparr> else s)
      in kp_await (KW_info resetState (defaultNamespace parse_json (kp_asset s)))
           (kp_send (KC_GetK8sClusterInfo (kp_id s)) (s1\<lparr>kp_error := None\<rparr>)))"

definition reset_page :: "(string \<Rightarrow> string) \<Rightarrow> string \<Rightarrow> cluster_info \<Rightarrow> k8s_page \<Rightarrow> k8s_page" where
  "reset_page t ns data s =
     (let hasDefault = ns \<noteq> [] \<and> list_ex (\<lambda>n. na_name n = ns) (cl_namespaces data);
          s1 = (if hasDefault
            then s\<lparr>kp_innerTabs := [overview_tab t, \<lparr>it_id = ''ns:'' @ ns, it_label = ns\<rparr>], kp_activeTabId := ''ns:'' @ ns,
                   kp_expandedNamespaces := [ns]\<rparr>
            else s\<lparr>kp_innerTabs := [overview_tab t], kp_activeTabId := ''overview'', kp_expandedNamespaces := []\<rparr>)
      in s1\<lparr>kp_expandedNodes := False, kp_expandedPods := [], kp_expandedDeployments := [], kp_expandedServices := [],
            kp_expandedConfigMaps := [], kp_expandedSecrets := [], kp_expandedDeploymentItems := [], kp_resourceSearch := [],
            kp_namespaces := no_loads, kp_pods := no_loads, kp_deployments := no_loads, kp_services := no_loads,
            kp_configMaps := no_loads, kp_secrets := no_loads, kp_details := no_loads, kp_autoRefreshingItems := []\<rparr>)"

definition info_answered :: "(string \<Rightarrow> string) \<Rightarrow> bool \<Rightarrow> string \<Rightarrow> cluster_info k8s_reply \<Rightarrow> k8s_page \<Rightarrow> k8s_page" where
  "info_answered t resetState ns answer s0 =
     (let s = kp_settled (KW_info resetState ns) s0;
          s1 = (case answer of
            K_ok data \<Rightarrow> (if resetState then reset_page t ns data (s\<lparr>kp_info := Some data\<rparr>) else s\<lparr>kp_info := Some data\<rparr>)
          | K_failed e \<Rightarrow> s\<lparr>kp_error := Some e\<rparr>)
      in s1\<lparr>kp_loading := False\<rparr>)"

text \<open>The button that retries is there after the first commit only, so a snapshot exists and nothing is reset.\<close>

definition has_snapshot :: "k8s_page \<Rightarrow> bool" where
  "has_snapshot s \<longleftrightarrow> map_of (kp_cache s) (kp_id s) \<noteq> None"

definition retry_info :: "(string \<Rightarrow> string + jsval) \<Rightarrow> k8s_page \<Rightarrow> k8s_page" where
  "retry_info parse_json s = loadInfo parse_json (\<not> has_snapshot s) s"

definition is_refresh_wait :: "k8s_wait \<Rightarrow> bool" where
  "is_refresh_wait w \<longleftrightarrow> (case w of KW_refresh_info \<Rightarrow> True | KW_refresh_resources ns \<Rightarrow> True | _ \<Rightarrow> False)"

definition refresh_resources :: "string \<Rightarrow> k8s_page \<Rightarrow> k8s_page" where
  "refresh_resources ns s =
     kp_await (KW_refresh_resources ns) (kp_send (KC_GetK8sNamespaceResources (kp_id s) ns)
       (s\<lparr>kp_namespaces := load_begun ns (kp_namespaces s)\<rparr>))"

definition refreshInfo :: "k8s_page \<Rightarrow> k8s_page" where
  "refreshInfo s =
     fold refresh_resources (map fst (ld_data (kp_namespaces s)))
       (kp_await KW_refresh_info (kp_send (KC_GetK8sClusterInfo (kp_id s)) (s\<lparr>kp_refreshing := True, kp_autoRefreshingItems := []\<rparr>)))"

text \<open>\<open>Promise.all\<close> ends when the last request of the refresh has its answer; the button is disabled until then.\<close>

definition refresh_settled :: "k8s_page \<Rightarrow> k8s_page" where
  "refresh_settled s = (if list_ex is_refresh_wait (kp_waits s) then s else s\<lparr>kp_refreshing := False\<rparr>)"

definition refresh_info_answered :: "cluster_info k8s_reply \<Rightarrow> k8s_page \<Rightarrow> k8s_page" where
  "refresh_info_answered answer s0 =
     (let s = kp_settled KW_refresh_info s0
      in refresh_settled (case answer of K_ok data \<Rightarrow> s\<lparr>kp_info := Some data\<rparr> | K_failed e \<Rightarrow> s\<lparr>kp_error := Some e\<rparr>))"

definition refresh_resources_answered :: "string \<Rightarrow> namespace_resources option k8s_reply \<Rightarrow> k8s_page \<Rightarrow> k8s_page" where
  "refresh_resources_answered ns answer s0 =
     (let s = kp_settled (KW_refresh_resources ns) s0
      in refresh_settled (s\<lparr>kp_namespaces := k8s_load_answered ns answer (kp_namespaces s)\<rparr>))"

section \<open>Snapshots\<close>

definition snapshot_of :: "k8s_page \<Rightarrow> k8s_snapshot" where
  "snapshot_of s = \<lparr>ks_info = kp_info s, ks_innerTabs = kp_innerTabs s, ks_activeTabId = kp_activeTabId s,
     ks_expandedNodes = kp_expandedNodes s, ks_expandedNamespaces = kp_expandedNamespaces s, ks_expandedPods = kp_expandedPods s,
     ks_expandedDeployments = kp_expandedDeployments s, ks_expandedServices = kp_expandedServices s,
     ks_expandedConfigMaps = kp_expandedConfigMaps s, ks_expandedSecrets = kp_expandedSecrets s,
     ks_expandedDeploymentItems = kp_expandedDeploymentItems s, ks_resourceSearch = kp_resourceSearch s,
     ks_namespaceResources = ld_data (kp_namespaces s), ks_namespacePodList = ld_data (kp_pods s),
     ks_namespaceDeploymentList = ld_data (kp_deployments s), ks_namespaceServiceList = ld_data (kp_services s),
     ks_namespaceConfigMapList = ld_data (kp_configMaps s), ks_namespaceSecretList = ld_data (kp_secrets s),
     ks_podDetails = ld_data (kp_details s), ks_logTabStates = kp_logTabStates s, ks_autoRefreshingItems = kp_autoRefreshingItems s\<rparr>"

definition save_snapshot :: "k8s_page \<Rightarrow> k8s_page" where
  "save_snapshot s = s\<lparr>kp_cache := AList.update (kp_id s) (snapshot_of s) (kp_cache s)\<rparr>"

text \<open>The state of the first render.\<close>

definition kept :: "(string \<times> 'a option) list \<Rightarrow> 'a loads" where
  "kept dat = \<lparr>ld_data = dat, ld_loading = [], ld_errors = []\<rparr>"

definition empty_page :: "(string \<Rightarrow> string) \<Rightarrow> (int \<times> k8s_snapshot) list \<Rightarrow> k8s_asset \<Rightarrow> k8s_page" where
  "empty_page t cache asset =
     \<lparr>kp_asset = asset, kp_loading = True, kp_refreshing = False, kp_info = None, kp_error = None, kp_innerTabs = [overview_tab t],
      kp_activeTabId = ''overview'', kp_expandedNodes = False, kp_expandedNamespaces = [], kp_expandedPods = [],
      kp_expandedDeployments = [], kp_expandedServices = [], kp_expandedConfigMaps = [], kp_expandedSecrets = [],
      kp_expandedDeploymentItems = [], kp_resourceSearch = [], kp_namespaces = no_loads, kp_pods = no_loads, kp_deployments = no_loads,
      kp_services = no_loads, kp_configMaps = no_loads, kp_secrets = no_loads, kp_details = no_loads, kp_logTabStates = [],
      kp_refreshingItems = [], kp_autoRefreshingItems = [], kp_panels = [], kp_panel = None, kp_listeners = [], kp_cache = cache,
      kp_waits = [], kp_calls = []\<rparr>"

definition page_of :: "(string \<Rightarrow> string) \<Rightarrow> (int \<times> k8s_snapshot) list \<Rightarrow> k8s_asset \<Rightarrow> k8s_page" where
  "page_of t cache asset =
     (case map_of cache (ka_ID asset) of
        None \<Rightarrow> empty_page t cache asset
      | Some snap \<Rightarrow> (empty_page t cache asset)
          \<lparr>kp_loading := False, kp_info := ks_info snap, kp_innerTabs := ks_innerTabs snap,
           kp_activeTabId := (if ks_activeTabId snap = [] then ''overview'' else ks_activeTabId snap),
           kp_expandedNodes := ks_expandedNodes snap, kp_expandedNamespaces := ks_expandedNamespaces snap,
           kp_expandedPods := ks_expandedPods snap, kp_expandedDeployments := ks_expandedDeployments snap,
           kp_expandedServices := ks_expandedServices snap, kp_expandedConfigMaps := ks_expandedConfigMaps snap,
           kp_expandedSecrets := ks_expandedSecrets snap, kp_expandedDeploymentItems := ks_expandedDeploymentItems snap,
           kp_resourceSearch := ks_resourceSearch snap, kp_namespaces := kept (ks_namespaceResources snap),
           kp_pods := kept (ks_namespacePodList snap), kp_deployments := kept (ks_namespaceDeploymentList snap),
           kp_services := kept (ks_namespaceServiceList snap), kp_configMaps := kept (ks_namespaceConfigMapList snap),
           kp_secrets := kept (ks_namespaceSecretList snap), kp_details := kept (ks_podDetails snap),
           kp_logTabStates := ks_logTabStates snap, kp_autoRefreshingItems := ks_autoRefreshingItems snap\<rparr>)"

section \<open>What is shown\<close>

definition active_ns :: "k8s_page \<Rightarrow> namespace_info option" where
  "active_ns s =
     (case kp_info s of
        Some info \<Rightarrow> if starts_with (kp_activeTabId s) ''ns:'' then find (\<lambda>n. na_name n = drop 3 (kp_activeTabId s)) (cl_namespaces info) else None
      | None \<Rightarrow> None)"

definition activeNode :: "cluster_info \<Rightarrow> k8s_page \<Rightarrow> node_info option" where
  "activeNode info s =
     (if starts_with (kp_activeTabId s) ''node:'' then find (\<lambda>n. no_name n = drop 5 (kp_activeTabId s)) (cl_nodes info) else None)"

definition any_contains :: "string \<Rightarrow> string list \<Rightarrow> bool" where
  "any_contains normalized = list_ex (\<lambda>v. str_includes (to_lower v) normalized)"

definition podMatchesSearch :: "string \<Rightarrow> pod_item \<Rightarrow> bool" where
  "podMatchesSearch query pod =
     any_contains (to_lower query) (filter (\<lambda>v. v \<noteq> []) [po_name pod, po_status pod, po_node_name pod, po_pod_ip pod, po_ready pod])"

definition deploymentMatchesSearch :: "string \<Rightarrow> deployment_item \<Rightarrow> bool" where
  "deploymentMatchesSearch query deployment =
     (let normalized = to_lower query
      in any_contains normalized [de_name deployment, de_ready deployment, de_age deployment] \<or>
         list_ex (podMatchesSearch normalized) (de_pods deployment))"

definition serviceMatchesSearch :: "string \<Rightarrow> service_item \<Rightarrow> bool" where
  "serviceMatchesSearch query svc =
     any_contains (to_lower query) (filter (\<lambda>v. v \<noteq> []) [se_name svc, se_type svc, se_cluster_ip svc])"

definition configMapMatchesSearch :: "string \<Rightarrow> config_map_item \<Rightarrow> bool" where
  "configMapMatchesSearch query cm \<longleftrightarrow> str_includes (to_lower (cm_name cm)) (to_lower query)"

definition secretMatchesSearch :: "string \<Rightarrow> secret_item \<Rightarrow> bool" where
  "secretMatchesSearch query sc = any_contains (to_lower query) [sc_name sc, sc_type sc]"

definition search_query :: "string \<Rightarrow> string \<Rightarrow> k8s_page \<Rightarrow> string" where
  "search_query kind ns s =
     to_lower (trim (case map_of (kp_resourceSearch s) (kind @ '':'' @ ns) of Some v \<Rightarrow> v | None \<Rightarrow> []))"

text \<open>The items that are shown and their count; the count of the namespace until a search has a list.\<close>

definition visible_items :: "(string \<Rightarrow> 'a \<Rightarrow> bool) \<Rightarrow> string \<Rightarrow> 'a list option \<Rightarrow> 'a list option" where
  "visible_items fits query items = (if query \<noteq> [] then map_option (filter (fits query)) items else items)"

definition displayCount :: "(string \<Rightarrow> 'a \<Rightarrow> bool) \<Rightarrow> string \<Rightarrow> 'a list option \<Rightarrow> int \<Rightarrow> int" where
  "displayCount fits query items n =
     (case items of Some l \<Rightarrow> if query \<noteq> [] then int (length (filter (fits query) l)) else n | None \<Rightarrow> n)"

definition decodeValue :: "string \<Rightarrow> string" where
  "decodeValue encoded = (case atob encoded of Some bs \<Rightarrow> map char_of bs | None \<Rightarrow> encoded)"

datatype status_variant = V_success | V_warning | V_error | V_info | V_neutral

definition getK8sStatusColor :: "string \<Rightarrow> status_variant" where
  "getK8sStatusColor status =
     (let s = to_lower status
      in if s = ''running'' \<or> s = ''true'' \<or> s = ''ready'' then V_success
         else if s = ''pending'' then V_warning
         else if s = ''failed'' \<or> s = ''false'' \<or> s = ''unknown'' then V_error
         else V_neutral)"

definition getContainerStateColor :: "string \<Rightarrow> status_variant" where
  "getContainerStateColor state =
     (if starts_with state ''Running'' then V_success else if starts_with state ''Waiting'' then V_warning else V_error)"

definition statusVariantToClass :: "status_variant \<Rightarrow> string" where
  "statusVariantToClass v =
     (case v of
        V_success \<Rightarrow> ''bg-green-100 text-green-700 dark:bg-green-900/50 dark:text-green-400''
      | V_warning \<Rightarrow> ''bg-yellow-100 text-yellow-700 dark:bg-yellow-900/50 dark:text-yellow-400''
      | V_error \<Rightarrow> ''bg-red-100 text-red-700 dark:bg-red-900/50 dark:text-red-400''
      | V_info \<Rightarrow> ''bg-blue-100 text-blue-700 dark:bg-blue-900/50 dark:text-blue-400''
      | V_neutral \<Rightarrow> ''bg-muted text-muted-foreground'')"

end
