(* ===== verification/K8sLogs.thy ===== *)
theory K8sLogs
  imports K8sPage
begin

text \<open>
  The panel that shows the logs of a pod (\<^verbatim>\<open>components/k8s/K8sLogsPanel.tsx\<close>) inside the page, and the effects of a render of the page
  (\<^verbatim>\<open>K8sClusterPage.tsx\<close>). React keeps the panel when the page goes from one log tab of a kind to another, and makes a new
  one otherwise; a panel that is gone may still get the answer to its start and the events of its stream. A log tab is of
  a pod or of a deployment. The number of lines is a whole number, and the chunks of a log are base64.
\<close>

section \<open>The panel\<close>

definition MAX_LOG_CHUNKS :: nat where
  "MAX_LOG_CHUNKS = 2000"

definition panel_at :: "nat \<Rightarrow> k8s_page \<Rightarrow> log_panel" where
  "panel_at i s = kp_panels s ! i"

definition upd_panel :: "nat \<Rightarrow> (log_panel \<Rightarrow> log_panel) \<Rightarrow> k8s_page \<Rightarrow> k8s_page" where
  "upd_panel i f s = s\<lparr>kp_panels := (kp_panels s)[i := f (panel_at i s)]\<rparr>"

text \<open>A change of the state goes to the tab of the panel's last render.\<close>

definition onStateChange :: "nat \<Rightarrow> (log_tab_state \<Rightarrow> log_tab_state) \<Rightarrow> k8s_page \<Rightarrow> k8s_page" where
  "onStateChange i upd s = updateLogTabState (lv_tab (lp_view (panel_at i s))) upd s"

definition offEvents :: "nat \<Rightarrow> k8s_page \<Rightarrow> k8s_page" where
  "offEvents i s =
     (case lp_events (panel_at i s) of
        None \<Rightarrow> s
      | Some st \<Rightarrow> upd_panel i (\<lambda>p. p\<lparr>lp_events := None\<rparr>) (s\<lparr>kp_listeners := filter (\<lambda>l. ll_stream l \<noteq> st) (kp_listeners s)\<rparr>))"

definition stop_stream :: "nat \<Rightarrow> k8s_page \<Rightarrow> k8s_page" where
  "stop_stream i s =
     (if has_stream (lp_stream (panel_at i s))
      then upd_panel i (\<lambda>p. p\<lparr>lp_stream := None\<rparr>) (kp_send (KC_StopK8sPodLogs (the (lp_stream (panel_at i s)))) s)
      else s)"

definition stop_logs :: "nat \<Rightarrow> k8s_page \<Rightarrow> k8s_page" where
  "stop_logs i s = onStateChange i (\<lambda>st. st\<lparr>lt_logStreamID := None\<rparr>) (offEvents i (stop_stream i s))"

definition view_key :: "log_view \<Rightarrow> string" where
  "view_key v = buildLogBufferKey (lv_podName v) (lv_container v) (lv_tailLines v)"

definition start_logs :: "nat \<Rightarrow> k8s_page \<Rightarrow> k8s_page" where
  "start_logs i s =
     (let v = lp_view (panel_at i s);
          bufferKey = view_key v;
          s1 = kp_send KC_term_clear (stop_logs i s);
          s2 = onStateChange i (\<lambda>prev. prev\<lparr>lt_logError := None,
                 lt_logBuffers := set_prop (lt_logBuffers prev) bufferKey
                   \<lparr>lb_container = lv_container v, lb_tailLines = lv_tailLines v, lb_chunks = []\<rparr>\<rparr>) s1
      in kp_await (KW_start i bufferKey (lv_container v) (lv_tailLines v))
           (kp_send (KC_StartK8sPodLogs (kp_id s) (lv_namespace v) (lv_podName v) (lv_container v) (lv_tailLines v)) s2))"

definition start_answered :: "nat \<Rightarrow> string \<Rightarrow> string \<Rightarrow> int \<Rightarrow> string k8s_reply \<Rightarrow> k8s_page \<Rightarrow> k8s_page" where
  "start_answered i bufferKey container tailLines answer s0 =
     (let s = kp_settled (KW_start i bufferKey container tailLines) s0
      in case answer of
           K_failed e \<Rightarrow> onStateChange i (\<lambda>st. st\<lparr>lt_logError := Some e\<rparr>) s
         | K_ok streamID \<Rightarrow>
             (let s1 = onStateChange i (\<lambda>st. st\<lparr>lt_logStreamID := Some streamID\<rparr>) (upd_panel i (\<lambda>p. p\<lparr>lp_stream := Some streamID\<rparr>) s);
                  s2 = upd_panel i (\<lambda>p. p\<lparr>lp_events := Some streamID\<rparr>) s1
              in s2\<lparr>kp_listeners := kp_listeners s2 @ [\<lparr>ll_panel = i, ll_stream = streamID, ll_key = bufferKey,
                   ll_container = container, ll_tailLines = tailLines\<rparr>]\<rparr>))"

definition add_chunk :: "log_listener \<Rightarrow> string \<Rightarrow> log_tab_state \<Rightarrow> log_tab_state" where
  "add_chunk l dat prev =
     (let existing = map_of (lt_logBuffers prev) (ll_key l);
          chunks = (case existing of Some b \<Rightarrow> lb_chunks b | None \<Rightarrow> []) @ [dat];
          nextChunks = (if length chunks > MAX_LOG_CHUNKS then drop (length chunks - MAX_LOG_CHUNKS) chunks else chunks)
      in prev\<lparr>lt_logBuffers := set_prop (lt_logBuffers prev) (ll_key l)
           \<lparr>lb_container = ll_container l, lb_tailLines = ll_tailLines l, lb_chunks = nextChunks\<rparr>\<rparr>)"

text \<open>What is not base64 throws before it is kept, as long as the panel has its terminal.\<close>

definition term_write :: "string \<Rightarrow> k8s_page \<Rightarrow> k8s_page" where
  "term_write dat s = (case atob dat of Some bs \<Rightarrow> kp_send (KC_term_write bs) s | None \<Rightarrow> s)"

definition log_data :: "log_listener \<Rightarrow> string \<Rightarrow> k8s_page \<Rightarrow> k8s_page" where
  "log_data l dat s =
     (let i = ll_panel l
      in if lp_stream (panel_at i s) \<noteq> Some (ll_stream l) then s
         else if kp_panel s \<noteq> Some i then onStateChange i (add_chunk l dat) s
         else if atob dat = None then s
         else onStateChange i (add_chunk l dat) (term_write dat s))"

definition log_err :: "log_listener \<Rightarrow> string \<Rightarrow> k8s_page \<Rightarrow> k8s_page" where
  "log_err l err s =
     (let i = ll_panel l
      in if lp_stream (panel_at i s) \<noteq> Some (ll_stream l) \<or> str_includes err ''context canceled'' then s
         else onStateChange i (\<lambda>st. st\<lparr>lt_logError := Some err\<rparr>) s)"

definition log_end :: "log_listener \<Rightarrow> k8s_page \<Rightarrow> k8s_page" where
  "log_end l s =
     (let i = ll_panel l
      in if lp_stream (panel_at i s) \<noteq> Some (ll_stream l) then s
         else offEvents i (onStateChange i (\<lambda>st. st\<lparr>lt_logStreamID := None\<rparr>) (upd_panel i (\<lambda>p. p\<lparr>lp_stream := None\<rparr>) s)))"

text \<open>The fields of the panel. The container cannot be chosen while a stream is shown.\<close>

definition shown_stream :: "nat \<Rightarrow> k8s_page \<Rightarrow> string option" where
  "shown_stream i s = Option.bind (map_of (kp_logTabStates s) (lv_tab (lp_view (panel_at i s)))) lt_logStreamID"

definition choose_container :: "nat \<Rightarrow> string \<Rightarrow> k8s_page \<Rightarrow> k8s_page" where
  "choose_container i container s =
     (let s1 = onStateChange i (\<lambda>st. st\<lparr>lt_logContainer := container\<rparr>) s
      in if has_stream (shown_stream i s) then stop_logs i s1 else s1)"

definition choose_lines :: "nat \<Rightarrow> int \<Rightarrow> k8s_page \<Rightarrow> k8s_page" where
  "choose_lines i n s = onStateChange i (\<lambda>st. st\<lparr>lt_logTailLines := n\<rparr>) s"

definition switch_pod :: "nat \<Rightarrow> string \<Rightarrow> k8s_page \<Rightarrow> k8s_page" where
  "switch_pod i newPod s =
     (let v = lp_view (panel_at i s)
      in if newPod = lv_podName v then s
         else loadPodDetail (lv_namespace v) newPod False
                (updateLogTabState (lv_tab v) (\<lambda>st. st\<lparr>lt_currentPod := Some newPod\<rparr>) (stop_logs i s)))"

section \<open>The effects of the panel\<close>

definition panel_unmounted :: "nat \<Rightarrow> k8s_page \<Rightarrow> k8s_page" where
  "panel_unmounted i s = (offEvents i (stop_stream i s))\<lparr>kp_panel := None\<rparr>"

text \<open>The chunks are those of the render, before the effect changes the state.\<close>

definition kept_chunks :: "log_view \<Rightarrow> k8s_page \<Rightarrow> string list" where
  "kept_chunks v s =
     (case map_of (kp_logTabStates s) (lv_tab v) of
        Some st \<Rightarrow> (case map_of (lt_logBuffers st) (view_key v) of Some b \<Rightarrow> lb_chunks b | None \<Rightarrow> [])
      | None \<Rightarrow> [])"

definition panel_restored :: "nat \<Rightarrow> k8s_page \<Rightarrow> k8s_page" where
  "panel_restored i s =
     (let s1 = (if has_stream (lp_stream (panel_at i s)) then onStateChange i (\<lambda>st. st\<lparr>lt_logStreamID := None\<rparr>) (stop_stream i s) else s)
      in fold term_write (kept_chunks (lp_view (panel_at i s)) s) (kp_send KC_term_clear s1))"

definition panel_mounted :: "log_view \<Rightarrow> k8s_page \<Rightarrow> k8s_page" where
  "panel_mounted v s =
     (let i = length (kp_panels s)
      in panel_restored i (s\<lparr>kp_panels := kp_panels s @ [\<lparr>lp_stream = None, lp_events = None, lp_view = v\<rparr>], kp_panel := Some i\<rparr>))"

definition active_container :: "log_tab_state \<Rightarrow> container_detail list \<Rightarrow> string" where
  "active_container st containers =
     (if lt_logContainer st \<noteq> [] then lt_logContainer st else case containers of c # _ \<Rightarrow> ct_name c | [] \<Rightarrow> [])"

definition page_shown :: "k8s_page \<Rightarrow> bool" where
  "page_shown s \<longleftrightarrow> \<not> kp_loading s \<and> (case kp_error s of Some e \<Rightarrow> e = [] | None \<Rightarrow> True) \<and> kp_info s \<noteq> None"

definition detail_of :: "string \<Rightarrow> k8s_page \<Rightarrow> pod_detail option" where
  "detail_of key s = (case map_of (ld_data (kp_details s)) key of Some d \<Rightarrow> d | None \<Rightarrow> None)"

definition current_pod :: "log_tab_state \<Rightarrow> deployment_item \<Rightarrow> string" where
  "current_pod st deployment =
     (case lt_currentPod st of
        Some p \<Rightarrow> if p \<noteq> [] then p else (case de_pods deployment of q # _ \<Rightarrow> po_name q | [] \<Rightarrow> [])
      | None \<Rightarrow> (case de_pods deployment of q # _ \<Rightarrow> po_name q | [] \<Rightarrow> []))"

definition log_view_of :: "k8s_page \<Rightarrow> log_view option" where
  "log_view_of s =
     (let tabId = kp_activeTabId s; (ns, nm) = tab_parts tabId
      in if \<not> page_shown s then None
         else if starts_with tabId ''log:'' then
           (case (map_of (kp_logTabStates s) tabId, detail_of (pod_key ns nm) s) of
              (Some st, Some d) \<Rightarrow> Some \<lparr>lv_deploy = False, lv_tab = tabId, lv_namespace = ns, lv_podName = nm,
                lv_container = active_container st (pd_containers d), lv_tailLines = lt_logTailLines st\<rparr>
            | _ \<Rightarrow> None)
         else if starts_with tabId ''log-deploy:'' then
           (let listed = (case map_of (ld_data (kp_deployments s)) ns of Some (Some l) \<Rightarrow> l | _ \<Rightarrow> [])
            in case (map_of (kp_logTabStates s) tabId, find (\<lambda>d. de_name d = nm) listed) of
                 (Some st, Some deployment) \<Rightarrow>
                   (let pod = current_pod st deployment;
                        containers = (case detail_of (pod_key ns pod) s of Some d \<Rightarrow> pd_containers d | None \<Rightarrow> [])
                    in Some \<lparr>lv_deploy = True, lv_tab = tabId, lv_namespace = ns, lv_podName = pod,
                         lv_container = active_container st containers, lv_tailLines = lt_logTailLines st\<rparr>)
               | _ \<Rightarrow> None)
         else None)"

definition panel_shows :: "log_view \<Rightarrow> string \<times> string \<times> int" where
  "panel_shows v = (lv_container v, lv_podName v, lv_tailLines v)"

definition panel_effects :: "k8s_page \<Rightarrow> k8s_page" where
  "panel_effects s =
     (case (kp_panel s, log_view_of s) of
        (None, None) \<Rightarrow> s
      | (None, Some v) \<Rightarrow> panel_mounted v s
      | (Some i, None) \<Rightarrow> panel_unmounted i s
      | (Some i, Some v) \<Rightarrow>
          (let shown = lp_view (panel_at i s); s1 = upd_panel i (\<lambda>p. p\<lparr>lp_view := v\<rparr>) s
           in if lv_deploy shown \<noteq> lv_deploy v then panel_mounted v (panel_unmounted i s)
              else if panel_shows shown \<noteq> panel_shows v then panel_restored i s1
              else s1))"

section \<open>The effects of the page\<close>

definition info_effect :: "(string \<Rightarrow> string + jsval) \<Rightarrow> k8s_page \<Rightarrow> k8s_page" where
  "info_effect parse_json s = loadInfo parse_json (\<not> has_snapshot s) s"

definition namespace_effect :: "k8s_page \<Rightarrow> k8s_page" where
  "namespace_effect s = (case active_ns s of Some n \<Rightarrow> loadNamespaceResources (na_name n) s | None \<Rightarrow> s)"

definition pod_effect :: "k8s_page \<Rightarrow> k8s_page" where
  "pod_effect s =
     (if starts_with (kp_activeTabId s) ''pod:'' then
        (case tab_parts (kp_activeTabId s) of (ns, podName) \<Rightarrow>
           if item_key ''pod'' ns podName \<in> set (kp_autoRefreshingItems s) then silentReloadPodDetail ns podName s else s)
      else s)"

text \<open>
  The effects after a render, those of the panel first. The state that is saved is that of the render which the changes made by
  effects cause; the effect of the namespace looks for its namespace whenever its loads have changed, and does nothing otherwise.
\<close>

definition k8s_page_effects :: "(string \<Rightarrow> string + jsval) \<Rightarrow> bool \<Rightarrow> bool \<Rightarrow> k8s_page \<Rightarrow> k8s_page" where
  "k8s_page_effects parse_json other_asset other_pod s =
     (let s1 = panel_effects s;
          s2 = (if other_asset then info_effect parse_json s1 else s1);
          s3 = namespace_effect s2;
          s4 = (if other_pod then pod_effect s3 else s3)
      in save_snapshot s4)"

definition pod_changed :: "k8s_page \<Rightarrow> k8s_page \<Rightarrow> bool" where
  "pod_changed old new \<longleftrightarrow> kp_autoRefreshingItems old \<noteq> kp_autoRefreshingItems new \<or> kp_activeTabId old \<noteq> kp_activeTabId new"

definition rendered :: "(string \<Rightarrow> string + jsval) \<Rightarrow> k8s_page \<Rightarrow> k8s_page \<Rightarrow> k8s_page" where
  "rendered parse_json old new = k8s_page_effects parse_json (kp_id old \<noteq> kp_id new) (pod_changed old new) new"

definition mounted :: "(string \<Rightarrow> string) \<Rightarrow> (string \<Rightarrow> string + jsval) \<Rightarrow> (int \<times> k8s_snapshot) list \<Rightarrow> k8s_asset \<Rightarrow> k8s_page" where
  "mounted t parse_json cache asset = k8s_page_effects parse_json True True (page_of t cache asset)"

text \<open>The tab store shows the page of another cluster in its place: React keeps the component.\<close>

definition show_asset :: "k8s_asset \<Rightarrow> k8s_page \<Rightarrow> k8s_page" where
  "show_asset asset s = s\<lparr>kp_asset := asset\<rparr>"

end
