(* ===== verification/K8sRuns.thy ===== *)
theory K8sRuns
  imports K8sLogs
begin

text \<open>The runs of the page of a cluster, and what holds over them.\<close>

section \<open>Steps\<close>

inductive k8s_action :: "(string \<Rightarrow> string) \<Rightarrow> k8s_page \<Rightarrow> k8s_page \<Rightarrow> bool" for t :: "string \<Rightarrow> string" and s :: k8s_page where
  "\<not> kp_refreshing s \<Longrightarrow> k8s_action t s (refreshInfo s)"
| "k8s_action t s (s\<lparr>kp_activeTabId := ''overview''\<rparr>)"
| "k8s_action t s (s\<lparr>kp_expandedNodes := b\<rparr>)"
| "f \<in> {toggleNamespace, togglePods, toggleDeployments, toggleServices, toggleConfigMaps, toggleSecrets, retry_namespace,
         retry_pods, retry_deployments, retry_services, retry_configMaps, retry_secrets} \<Longrightarrow> k8s_action t s (f ns s)"
| "k8s_action t s (retry_detail ns nm s)"
| "k8s_action t s (toggleDeploymentItem ns nm s)"
| "k8s_action t s (search_resources kind ns v s)"
| "k8s_action t s (toggleAutoRefresh (item_key type ns nm) ns nm s)"
| "tab_open tabId s \<or> \<not> is_log_tab tabId \<Longrightarrow> k8s_action t s (k8s_openTab tabId label s)"
| "k8s_action t s (openLogTab t ns nm container s)"
| "k8s_action t s (openDeploymentLogs t ns deployment s)"
| "tabId \<noteq> ''overview'' \<Longrightarrow> k8s_action t s (k8s_closeTab tabId s)"
| "tab_open tabId s \<Longrightarrow> k8s_action t s (close_others tabId s)"
| "idx < length (kp_innerTabs s) \<Longrightarrow> it_id (kp_innerTabs s ! idx) \<noteq> ''overview'' \<Longrightarrow> k8s_action t s (close_left idx s)"
| "idx < length (kp_innerTabs s) \<Longrightarrow> it_id (kp_innerTabs s ! idx) \<noteq> ''overview'' \<Longrightarrow> k8s_action t s (close_right idx s)"
| "kp_panel s = Some i \<Longrightarrow> f \<in> {start_logs, stop_logs} \<Longrightarrow> k8s_action t s (f i s)"
| "kp_panel s = Some i \<Longrightarrow> k8s_action t s (choose_container i container s)"
| "kp_panel s = Some i \<Longrightarrow> k8s_action t s (choose_lines i n s)"
| "kp_panel s = Some i \<Longrightarrow> k8s_action t s (switch_pod i nm s)"

text \<open>An answer or an event; an answer belongs to a request that waits.\<close>

inductive k8s_answer :: "(string \<Rightarrow> string) \<Rightarrow> k8s_page \<Rightarrow> k8s_page \<Rightarrow> bool" for t :: "string \<Rightarrow> string" and s :: k8s_page where
  "KW_info reset ns \<in> set (kp_waits s) \<Longrightarrow> k8s_answer t s (info_answered t reset ns info s)"
| "KW_refresh_info \<in> set (kp_waits s) \<Longrightarrow> k8s_answer t s (refresh_info_answered info s)"
| "KW_refresh_resources ns \<in> set (kp_waits s) \<Longrightarrow> k8s_answer t s (refresh_resources_answered ns res s)"
| "KW_resources ns \<in> set (kp_waits s) \<Longrightarrow> k8s_answer t s (resources_answered ns res s)"
| "KW_pods ns \<in> set (kp_waits s) \<Longrightarrow> k8s_answer t s (pods_answered ns pods s)"
| "KW_deployments ns \<in> set (kp_waits s) \<Longrightarrow> k8s_answer t s (deployments_answered ns deployments s)"
| "KW_services ns \<in> set (kp_waits s) \<Longrightarrow> k8s_answer t s (services_answered ns services s)"
| "KW_configMaps ns \<in> set (kp_waits s) \<Longrightarrow> k8s_answer t s (configMaps_answered ns configMaps s)"
| "KW_secrets ns \<in> set (kp_waits s) \<Longrightarrow> k8s_answer t s (secrets_answered ns secrets s)"
| "KW_pod_item ns nm \<in> set (kp_waits s) \<Longrightarrow> k8s_answer t s (pod_item_answered ns nm pods' s)"
| "KW_deployment_item ns nm \<in> set (kp_waits s) \<Longrightarrow> k8s_answer t s (deployment_item_answered ns nm deployments' s)"
| "KW_service_item ns nm \<in> set (kp_waits s) \<Longrightarrow> k8s_answer t s (service_item_answered ns nm services' s)"
| "KW_configMap_item ns nm \<in> set (kp_waits s) \<Longrightarrow> k8s_answer t s (configMap_item_answered ns nm configMaps' s)"
| "KW_secret_item ns nm \<in> set (kp_waits s) \<Longrightarrow> k8s_answer t s (secret_item_answered ns nm secrets' s)"
| "KW_detail key \<in> set (kp_waits s) \<Longrightarrow> k8s_answer t s (detail_answered key detail s)"
| "KW_silent_detail key \<in> set (kp_waits s) \<Longrightarrow> k8s_answer t s (silent_detail_answered key detail s)"
| "KW_start i bufferKey container n \<in> set (kp_waits s) \<Longrightarrow> k8s_answer t s (start_answered i bufferKey container n stream s)"
| "l \<in> set (kp_listeners s) \<Longrightarrow> k8s_answer t s (log_data l dat s)"
| "l \<in> set (kp_listeners s) \<Longrightarrow> k8s_answer t s (log_err l err s)"
| "l \<in> set (kp_listeners s) \<Longrightarrow> k8s_answer t s (log_end l s)"

inductive k8s_change :: "(string \<Rightarrow> string) \<Rightarrow> (string \<Rightarrow> string + jsval) \<Rightarrow> k8s_page \<Rightarrow> k8s_page \<Rightarrow> bool"
  for t :: "string \<Rightarrow> string" and parse_json :: "string \<Rightarrow> string + jsval" and s :: k8s_page where
  "page_shown s \<Longrightarrow> k8s_action t s s' \<Longrightarrow> k8s_change t parse_json s s'"
| "kp_error s \<noteq> None \<Longrightarrow> k8s_change t parse_json s (retry_info parse_json s)"
| "k8s_answer t s s' \<Longrightarrow> k8s_change t parse_json s s'"
| "kp_autoRefreshingItems s \<noteq> [] \<Longrightarrow> k8s_change t parse_json s (auto_refresh_tick s)"
| "k8s_change t parse_json s (show_asset asset s)"

inductive k8s_run :: "(string \<Rightarrow> string) \<Rightarrow> (string \<Rightarrow> string + jsval) \<Rightarrow> k8s_page \<Rightarrow> k8s_page \<Rightarrow> bool"
  for t :: "string \<Rightarrow> string" and parse_json :: "string \<Rightarrow> string + jsval" and s :: k8s_page where
  k8s_run_refl: "k8s_run t parse_json s s"
| k8s_run_step: "k8s_run t parse_json s s' \<Longrightarrow> k8s_change t parse_json s' s'' \<Longrightarrow> k8s_run t parse_json s (rendered parse_json s' s'')"

section \<open>Spinners and tabs\<close>

lemma set_set_add [simp]: "set (set_add x xs) = insert x (set xs)"
  by (auto simp: set_add_def)

lemma set_set_del [simp]: "set (set_del x xs) = set xs - {x}"
  by (auto simp: set_del_def)

text \<open>Every key that is shown as loading has a request; what else may have asked for the resources of a namespace is a refresh.\<close>

definition spins :: "(string \<Rightarrow> k8s_wait) \<Rightarrow> 'a loads \<Rightarrow> k8s_wait list \<Rightarrow> bool" where
  "spins w ld ws \<longleftrightarrow> w ` set (ld_loading ld) \<subseteq> set ws"

definition item_waits :: "k8s_wait \<Rightarrow> string list" where
  "item_waits w =
     (case w of
        KW_pod_item ns nm \<Rightarrow> [item_key ''pod'' ns nm]
      | KW_deployment_item ns nm \<Rightarrow> [item_key ''deploy'' ns nm]
      | KW_service_item ns nm \<Rightarrow> [item_key ''svc'' ns nm]
      | KW_configMap_item ns nm \<Rightarrow> [item_key ''cm'' ns nm]
      | KW_secret_item ns nm \<Rightarrow> [item_key ''secret'' ns nm]
      | _ \<Rightarrow> [])"

definition items_spin :: "string list \<Rightarrow> k8s_wait list \<Rightarrow> bool" where
  "items_spin items ws \<longleftrightarrow> set items \<subseteq> set (concat (map item_waits ws))"

definition is_info_wait :: "k8s_wait \<Rightarrow> bool" where
  "is_info_wait w \<longleftrightarrow> (case w of KW_info reset ns \<Rightarrow> True | _ \<Rightarrow> False)"

definition spinners_ok :: "k8s_page \<Rightarrow> bool" where
  "spinners_ok s \<longleftrightarrow>
     (kp_loading s \<longrightarrow> list_ex is_info_wait (kp_waits s)) \<and> (kp_refreshing s \<longrightarrow> list_ex is_refresh_wait (kp_waits s)) \<and>
     (\<forall>ns\<in>set (ld_loading (kp_namespaces s)). KW_resources ns \<in> set (kp_waits s) \<or> KW_refresh_resources ns \<in> set (kp_waits s)) \<and>
     spins KW_pods (kp_pods s) (kp_waits s) \<and> spins KW_deployments (kp_deployments s) (kp_waits s) \<and>
     spins KW_services (kp_services s) (kp_waits s) \<and> spins KW_configMaps (kp_configMaps s) (kp_waits s) \<and>
     spins KW_secrets (kp_secrets s) (kp_waits s) \<and> spins KW_detail (kp_details s) (kp_waits s) \<and>
     items_spin (kp_refreshingItems s) (kp_waits s)"

definition k8s_tabs_ok :: "k8s_inner_tab list \<Rightarrow> (string \<times> log_tab_state) list \<Rightarrow> bool" where
  "k8s_tabs_ok tabs states \<longleftrightarrow> distinct (map it_id tabs) \<and> tabs \<noteq> [] \<and> it_id (hd tabs) = ''overview'' \<and>
     (\<forall>tab\<in>set tabs. is_log_tab (it_id tab) \<longrightarrow> map_of states (it_id tab) \<noteq> None)"

definition k8s_cache_ok :: "(int \<times> k8s_snapshot) list \<Rightarrow> bool" where
  "k8s_cache_ok cache \<longleftrightarrow> (\<forall>(i, snap)\<in>set cache. k8s_tabs_ok (ks_innerTabs snap) (ks_logTabStates snap))"

definition page_tabs_ok :: "k8s_page \<Rightarrow> bool" where
  "page_tabs_ok s \<longleftrightarrow> k8s_tabs_ok (kp_innerTabs s) (kp_logTabStates s) \<and> k8s_cache_ok (kp_cache s)"

lemma spins_more [simp]: "spins w ld ws \<Longrightarrow> spins w ld (ws @ vs)"
  by (auto simp: spins_def)

lemma spins_begun [simp]: "spins w (load_begun k ld) ws \<longleftrightarrow> spins w ld ws \<and> w k \<in> set ws"
  by (auto simp: spins_def load_begun_def)

lemma spins_errors [simp]:
  "spins w (error_cleared k ld) ws = spins w ld ws" "spins w (load_stored k a ld) ws = spins w ld ws"
  "spins w (item_answered f ns nm a' ld') ws = spins w ld' ws"
  by (auto simp: spins_def error_cleared_def load_stored_def item_answered_def replace_item_def Let_def split: k8s_reply.splits option.splits)

lemma spins_none [simp]: "spins w no_loads ws" "spins w (kept dat) ws"
  by (simp_all add: spins_def no_loads_def kept_def)

lemma spins_other: "spins w ld ws \<Longrightarrow> (\<And>k. w k \<noteq> v) \<Longrightarrow> spins w ld (remove1 v ws)"
  by (auto simp: spins_def)

lemma spins_answered: "spins w ld ws \<Longrightarrow> inj w \<Longrightarrow> spins w (k8s_load_answered k a ld) (remove1 (w k) ws)"
  by (cases a) (auto simp: spins_def k8s_load_answered_def Let_def load_stored_def inj_eq subset_iff image_iff, (metis in_set_remove1 injD)+)

lemma items_spin_simps [simp]:
  "items_spin items ws \<Longrightarrow> items_spin items (ws @ vs)" "items_spin [] ws"
  "items_spin (set_add k items) ws \<longleftrightarrow> items_spin items ws \<and> (\<exists>w\<in>set ws. k \<in> set (item_waits w))"
  by (auto simp: items_spin_def)

lemma items_spin_removed: "items_spin items ws \<Longrightarrow> item_waits v = [k] \<Longrightarrow> items_spin (set_del k items) (remove1 v ws)"
  unfolding items_spin_def
proof
  fix t assume s: "set items \<subseteq> set (concat (map item_waits ws))" "item_waits v = [k]" and t: "t \<in> set (set_del k items)"
  then obtain w where w: "w \<in> set ws" "t \<in> set (item_waits w)" by auto
  then have "w \<noteq> v" using s t by auto
  then show "t \<in> set (concat (map item_waits (remove1 v ws)))" using w by auto
qed

lemma items_spin_other: "items_spin items ws \<Longrightarrow> item_waits v = [] \<Longrightarrow> items_spin items (remove1 v ws)"
proof -
  have "set (concat (map item_waits (remove1 v ws))) = set (concat (map item_waits ws))" if "item_waits v = []"
    using that by (induction ws) auto
  then show "items_spin items ws \<Longrightarrow> item_waits v = [] \<Longrightarrow> ?thesis" by (simp add: items_spin_def)
qed

lemma list_ex_other: "list_ex P ws \<Longrightarrow> \<not> P v \<Longrightarrow> list_ex P (remove1 v ws)"
  by (induction ws) auto

lemma spinners_send [simp]: "spinners_ok (kp_send c s) = spinners_ok s"
  by (simp add: spinners_ok_def kp_send_def)

lemma spinners_await: "spinners_ok s \<Longrightarrow> spinners_ok (kp_await w s)"
  by (auto simp: spinners_ok_def kp_await_def)

lemma spinners_loads:
  "spinners_ok s \<Longrightarrow> spinners_ok (loadNamespaceResources ns s)" "spinners_ok s \<Longrightarrow> spinners_ok (loadPods ns s)"
  "spinners_ok s \<Longrightarrow> spinners_ok (loadDeployments ns s)" "spinners_ok s \<Longrightarrow> spinners_ok (loadServices ns s)"
  "spinners_ok s \<Longrightarrow> spinners_ok (loadConfigMaps ns s)" "spinners_ok s \<Longrightarrow> spinners_ok (loadSecrets ns s)"
  "spinners_ok s \<Longrightarrow> spinners_ok (loadPodDetail ns nm b s)" "spinners_ok s \<Longrightarrow> spinners_ok (silentReloadPodDetail ns nm s)"
  "spinners_ok s \<Longrightarrow> spinners_ok (refresh_resources ns s)" "spinners_ok s \<Longrightarrow> spinners_ok (loadInfo parse_json b s)"
  by (auto simp: loadNamespaceResources_def loadPods_def loadDeployments_def loadServices_def loadConfigMaps_def loadSecrets_def
      loadPodDetail_def silentReloadPodDetail_def refresh_resources_def loadInfo_def spinners_ok_def kp_await_def kp_send_def Let_def
      is_info_wait_def load_begun_def [of _ "kp_namespaces s"])

lemma spinners_refreshed:
  "spinners_ok s \<Longrightarrow> spinners_ok (refreshPodItem ns nm s)" "spinners_ok s \<Longrightarrow> spinners_ok (refreshDeploymentItem ns nm s)"
  "spinners_ok s \<Longrightarrow> spinners_ok (refreshServiceItem ns nm s)" "spinners_ok s \<Longrightarrow> spinners_ok (refreshConfigMapItem ns nm s)"
  "spinners_ok s \<Longrightarrow> spinners_ok (refreshSecretItem ns nm s)"
  by (auto simp: refreshPodItem_def refreshDeploymentItem_def refreshServiceItem_def refreshConfigMapItem_def refreshSecretItem_def
      spinners_ok_def kp_await_def kp_send_def Let_def item_waits_def)

lemma spinners_typed: "spinners_ok s \<Longrightarrow> spinners_ok (refresh_typed type ns nm s)"
  by (simp add: refresh_typed_def spinners_loads spinners_refreshed)

text \<open>An operation that leaves the spinners alone, and only adds to what waits.\<close>

definition spin_view :: "k8s_page \<Rightarrow> _" where
  "spin_view s = ((kp_loading s, kp_refreshing s, kp_refreshingItems s),
     (ld_loading (kp_namespaces s), ld_loading (kp_pods s), ld_loading (kp_deployments s), ld_loading (kp_services s)),
     (ld_loading (kp_configMaps s), ld_loading (kp_secrets s), ld_loading (kp_details s)), kp_waits s)"

lemma spin_frame: "spin_view s' = spin_view s \<Longrightarrow> spinners_ok s' = spinners_ok s"
  by (simp add: spin_view_def spinners_ok_def spins_def)

lemma spin_view_send [simp]: "spin_view (kp_send c s) = spin_view s"
  by (simp add: spin_view_def kp_send_def)

lemma spin_view_fields [simp]:
  "spin_view (s\<lparr>kp_logTabStates := a\<rparr>) = spin_view s" "spin_view (s\<lparr>kp_innerTabs := b\<rparr>) = spin_view s"
  "spin_view (s\<lparr>kp_activeTabId := c\<rparr>) = spin_view s" "spin_view (s\<lparr>kp_autoRefreshingItems := d\<rparr>) = spin_view s"
  "spin_view (s\<lparr>kp_panel := e\<rparr>) = spin_view s" "spin_view (s\<lparr>kp_listeners := f\<rparr>) = spin_view s"
  "spin_view (s\<lparr>kp_expandedNodes := g\<rparr>) = spin_view s"
  by (simp_all add: spin_view_def)

lemma spin_view_logs [simp]:
  "spin_view (updateLogTabState i f s) = spin_view s" "spin_view (upd_panel k g s) = spin_view s"
  "spin_view (onStateChange k f s) = spin_view s" "spin_view (offEvents k s) = spin_view s" "spin_view (stop_stream k s) = spin_view s"
  "spin_view (stop_logs k s) = spin_view s" "spin_view (stop_tab_stream i s) = spin_view s" "spin_view (save_snapshot s) = spin_view s"
  "spin_view (choose_container k c s) = spin_view s" "spin_view (choose_lines k n s) = spin_view s" "spin_view (term_write dat s) = spin_view s"
  "spin_view (panel_unmounted k s) = spin_view s"
proof -
  show u: "spin_view (updateLogTabState i f s) = spin_view s" for s i and f :: "log_tab_state \<Rightarrow> log_tab_state"
    by (simp add: spin_view_def updateLogTabState_def Let_def)
  show p: "spin_view (upd_panel k g s) = spin_view s" for s k and g :: "log_panel \<Rightarrow> log_panel"
    by (simp add: spin_view_def upd_panel_def)
  show c: "spin_view (onStateChange k f s) = spin_view s" for s k and f :: "log_tab_state \<Rightarrow> log_tab_state"
    by (simp add: onStateChange_def u)
  show e: "spin_view (offEvents k s) = spin_view s" for s by (simp add: offEvents_def p split: option.split)
  show st: "spin_view (stop_stream k s) = spin_view s" for s by (simp add: stop_stream_def p)
  show sl: "spin_view (stop_logs k s) = spin_view s" for s by (simp add: stop_logs_def c e st)
  show "spin_view (stop_tab_stream i s) = spin_view s" by (simp add: stop_tab_stream_def split: option.split)
  show "spin_view (save_snapshot s) = spin_view s" by (simp add: save_snapshot_def spin_view_def)
  show "spin_view (choose_container k c s) = spin_view s" by (simp add: choose_container_def Let_def c sl)
  show "spin_view (choose_lines k n s) = spin_view s" by (simp add: choose_lines_def c)
  show "spin_view (term_write dat s) = spin_view s" by (simp add: term_write_def split: option.split)
  show "spin_view (panel_unmounted k s) = spin_view s" using e [of "stop_stream k s"] st by (simp add: panel_unmounted_def spin_view_def)
qed

lemma spin_view_writes [simp]: "spin_view (fold term_write cs s) = spin_view s"
  by (induction cs arbitrary: s) auto

lemma spin_view_stops [simp]: "spin_view (fold stop_tab_stream ids s) = spin_view s"
  by (induction ids arbitrary: s) auto

lemma spin_view_panels [simp]:
  "spin_view (panel_restored k s) = spin_view s" "spin_view (panel_mounted v s) = spin_view s" "spin_view (panel_effects s) = spin_view s"
proof -
  show r: "spin_view (panel_restored k s) = spin_view s" for k s by (simp add: panel_restored_def Let_def)
  show m: "spin_view (panel_mounted v s) = spin_view s" for v s by (simp add: panel_mounted_def Let_def r) (simp add: spin_view_def)
  show "spin_view (panel_effects s) = spin_view s" by (simp add: panel_effects_def Let_def r m split: option.split)
qed

lemma spin_view_events [simp]:
  "spin_view (log_data l dat s) = spin_view s" "spin_view (log_err l err s) = spin_view s" "spin_view (log_end l s) = spin_view s"
  by (simp_all add: log_data_def log_err_def log_end_def Let_def)

lemma spin_view_tabs [simp]:
  "spin_view (k8s_closeTab i s) = spin_view s" "spin_view (closeInnerTabs ids act s) = spin_view s"
  "spin_view (openLogTab t ns nm c s) = spin_view s" "spin_view (toggleDeploymentItem ns nm s) = spin_view s"
  "spin_view (search_resources kind ns v s) = spin_view s" "spin_view (s\<lparr>kp_activeTabId := a\<rparr>) = spin_view s"
  "spin_view (s\<lparr>kp_expandedNodes := b\<rparr>) = spin_view s" "spin_view (show_asset asset s) = spin_view s"
proof -
  show "spin_view (k8s_closeTab i s) = spin_view s"
    by (simp add: k8s_closeTab_def Let_def)
  show "spin_view (closeInnerTabs ids act s) = spin_view s"
    by (simp add: closeInnerTabs_def Let_def split: option.split)
qed (simp_all add: spin_view_def openLogTab_def toggleDeploymentItem_def search_resources_def show_asset_def Let_def)

lemma spin_same: "spin_view s' = spin_view s \<Longrightarrow> spinners_ok s \<Longrightarrow> spinners_ok s'"
  by (rule iffD2 [OF spin_frame])

lemmas spinners_frames = spin_view_fields [THEN spin_frame] spin_view_logs [THEN spin_frame] spin_view_panels [THEN spin_frame]
  spin_view_events [THEN spin_frame] spin_view_tabs [THEN spin_frame]

lemma spinners_fields [simp]:
  "spinners_ok (s\<lparr>kp_expandedNamespaces := a\<rparr>) = spinners_ok s" "spinners_ok (s\<lparr>kp_expandedPods := a\<rparr>) = spinners_ok s"
  "spinners_ok (s\<lparr>kp_expandedDeployments := a\<rparr>) = spinners_ok s" "spinners_ok (s\<lparr>kp_expandedServices := a\<rparr>) = spinners_ok s"
  "spinners_ok (s\<lparr>kp_expandedConfigMaps := a\<rparr>) = spinners_ok s" "spinners_ok (s\<lparr>kp_expandedSecrets := a\<rparr>) = spinners_ok s"
  "spinners_ok (s\<lparr>kp_namespaces := error_cleared k (kp_namespaces s)\<rparr>) = spinners_ok s"
  "spinners_ok (s\<lparr>kp_pods := error_cleared k (kp_pods s)\<rparr>) = spinners_ok s"
  "spinners_ok (s\<lparr>kp_deployments := error_cleared k (kp_deployments s)\<rparr>) = spinners_ok s"
  "spinners_ok (s\<lparr>kp_services := error_cleared k (kp_services s)\<rparr>) = spinners_ok s"
  "spinners_ok (s\<lparr>kp_configMaps := error_cleared k (kp_configMaps s)\<rparr>) = spinners_ok s"
  "spinners_ok (s\<lparr>kp_secrets := error_cleared k (kp_secrets s)\<rparr>) = spinners_ok s"
  "spinners_ok (s\<lparr>kp_details := error_cleared k (kp_details s)\<rparr>) = spinners_ok s"
  by (simp_all add: spinners_ok_def) (simp add: error_cleared_def)

lemma spinners_toggle:
  "spinners_ok s \<Longrightarrow> spinners_ok (toggleNamespace ns s)" "spinners_ok s \<Longrightarrow> spinners_ok (togglePods ns s)"
  "spinners_ok s \<Longrightarrow> spinners_ok (toggleDeployments ns s)" "spinners_ok s \<Longrightarrow> spinners_ok (toggleServices ns s)"
  "spinners_ok s \<Longrightarrow> spinners_ok (toggleConfigMaps ns s)" "spinners_ok s \<Longrightarrow> spinners_ok (toggleSecrets ns s)"
  "spinners_ok s \<Longrightarrow> spinners_ok (retry_namespace ns s)" "spinners_ok s \<Longrightarrow> spinners_ok (retry_pods ns s)"
  "spinners_ok s \<Longrightarrow> spinners_ok (retry_deployments ns s)" "spinners_ok s \<Longrightarrow> spinners_ok (retry_services ns s)"
  "spinners_ok s \<Longrightarrow> spinners_ok (retry_configMaps ns s)" "spinners_ok s \<Longrightarrow> spinners_ok (retry_secrets ns s)"
  by (simp_all add: toggleNamespace_def togglePods_def toggleDeployments_def toggleServices_def toggleConfigMaps_def
      toggleSecrets_def retry_namespace_def retry_pods_def retry_deployments_def retry_services_def retry_configMaps_def retry_secrets_def Let_def
      spinners_loads)

lemma spinners_toggles:
  "f \<in> {toggleNamespace, togglePods, toggleDeployments, toggleServices, toggleConfigMaps, toggleSecrets, retry_namespace,
     retry_pods, retry_deployments, retry_services, retry_configMaps, retry_secrets} \<Longrightarrow> spinners_ok s \<Longrightarrow> spinners_ok (f ns s)"
  using spinners_toggle [of s ns] by blast

lemma spinners_fold: "(\<And>x s. spinners_ok s \<Longrightarrow> spinners_ok (f x s)) \<Longrightarrow> spinners_ok s \<Longrightarrow> spinners_ok (fold f xs s)"
  by (induction xs arbitrary: s) auto

lemma spinners_tick: "spinners_ok s \<Longrightarrow> spinners_ok (auto_refresh_tick s)"
  by (simp add: auto_refresh_tick_def) (rule spinners_fold; simp add: refresh_key_def spinners_typed split: option.split)

lemma spinners_auto: "spinners_ok s \<Longrightarrow> spinners_ok (toggleAutoRefresh k ns nm s)"
  by (simp add: toggleAutoRefresh_def spinners_typed spinners_frames)

lemma refreshing_started: "spinners_ok s \<Longrightarrow>
    spinners_ok (kp_await KW_refresh_info (kp_send c (s\<lparr>kp_refreshing := True, kp_autoRefreshingItems := []\<rparr>)))"
  by (auto simp: spinners_ok_def kp_await_def kp_send_def is_refresh_wait_def)

lemma spinners_refreshInfo: "spinners_ok s \<Longrightarrow> spinners_ok (refreshInfo s)"
  unfolding refreshInfo_def by (rule spinners_fold [OF _ refreshing_started]) (simp_all add: spinners_loads)

lemma spinners_open:
  "spinners_ok s \<Longrightarrow> spinners_ok (k8s_openTab i label s)" "spinners_ok s \<Longrightarrow> spinners_ok (openDeploymentLogs t ns deployment s)"
proof -
  assume ok: "spinners_ok s"
  have o: "spinners_ok (s\<lparr>kp_innerTabs := a, kp_activeTabId := b\<rparr>)" "spinners_ok (s\<lparr>kp_activeTabId := b\<rparr>)"
    "spinners_ok (s\<lparr>kp_innerTabs := a, kp_logTabStates := l, kp_activeTabId := b\<rparr>)" for a b l
    using ok by (simp_all add: spinners_frames)
  show "spinners_ok (k8s_openTab i label s)" by (simp add: k8s_openTab_def Let_def o spinners_loads split: prod.split)
  show "spinners_ok (openDeploymentLogs t ns deployment s)" by (simp add: openDeploymentLogs_def Let_def o spinners_loads)
qed

lemma spinners_panel:
  "spinners_ok s \<Longrightarrow> spinners_ok (start_logs i s)" "spinners_ok s \<Longrightarrow> spinners_ok (switch_pod i nm s)"
  by (simp_all add: start_logs_def switch_pod_def Let_def spinners_await spinners_loads spinners_frames)

lemma spinners_action: "k8s_action t s s' \<Longrightarrow> spinners_ok s \<Longrightarrow> spinners_ok s'"
  by (induction rule: k8s_action.induct)
     (simp_all only: spinners_refreshInfo spinners_toggles retry_detail_def close_others_def close_left_def close_right_def spinners_auto
       spinners_open spinners_panel spinners_frames spinners_loads spinners_fields,
      auto simp: spinners_panel spinners_frames)

lemma inj_waits: "inj KW_resources" "inj KW_pods" "inj KW_deployments" "inj KW_services" "inj KW_configMaps" "inj KW_secrets" "inj KW_detail"
  by (simp_all add: inj_def)

lemmas spinner_answers = spins_other spins_answered inj_waits items_spin_other list_ex_other

lemma spinners_list_answers:
  "spinners_ok s \<Longrightarrow> spinners_ok (pods_answered ns a s)" "spinners_ok s \<Longrightarrow> spinners_ok (deployments_answered ns b s)"
  "spinners_ok s \<Longrightarrow> spinners_ok (services_answered ns c s)" "spinners_ok s \<Longrightarrow> spinners_ok (configMaps_answered ns d s)"
  "spinners_ok s \<Longrightarrow> spinners_ok (secrets_answered ns e s)" "spinners_ok s \<Longrightarrow> spinners_ok (detail_answered key f s)"
  "spinners_ok s \<Longrightarrow> spinners_ok (silent_detail_answered key f s)"
  unfolding spinners_ok_def pods_answered_def deployments_answered_def services_answered_def configMaps_answered_def secrets_answered_def
    detail_answered_def silent_detail_answered_def kp_settled_def Let_def
  by (simp_all add: spinner_answers is_info_wait_def is_refresh_wait_def item_waits_def [of "KW_pods _"] item_waits_def [of "KW_deployments _"]
      item_waits_def [of "KW_services _"] item_waits_def [of "KW_configMaps _"] item_waits_def [of "KW_secrets _"]
      item_waits_def [of "KW_detail _"] item_waits_def [of "KW_silent_detail _"])

lemma spinners_item_answers:
  "spinners_ok s \<Longrightarrow> spinners_ok (pod_item_answered ns nm a s)" "spinners_ok s \<Longrightarrow> spinners_ok (deployment_item_answered ns nm b s)"
  "spinners_ok s \<Longrightarrow> spinners_ok (service_item_answered ns nm c s)" "spinners_ok s \<Longrightarrow> spinners_ok (configMap_item_answered ns nm d s)"
  "spinners_ok s \<Longrightarrow> spinners_ok (secret_item_answered ns nm e s)"
  unfolding spinners_ok_def pod_item_answered_def deployment_item_answered_def service_item_answered_def configMap_item_answered_def
    secret_item_answered_def item_refreshed_def kp_settled_def Let_def
  by (simp_all add: spinner_answers is_info_wait_def is_refresh_wait_def item_waits_def items_spin_removed)

lemma loading_answered: "ld_loading (k8s_load_answered k a ld) = set_del k (ld_loading ld)"
  by (cases a) (simp_all add: k8s_load_answered_def load_stored_def Let_def)

lemma spinners_resources: "spinners_ok s \<Longrightarrow> spinners_ok (resources_answered ns a s)"
  unfolding spinners_ok_def resources_answered_def kp_settled_def Let_def
  by (simp add: spinner_answers is_info_wait_def is_refresh_wait_def item_waits_def [of "KW_resources _"]) (auto simp: loading_answered)

lemma spinners_refresh_answers:
  "spinners_ok s \<Longrightarrow> spinners_ok (refresh_info_answered i s)" "spinners_ok s \<Longrightarrow> spinners_ok (refresh_resources_answered ns a s)"
  unfolding spinners_ok_def refresh_info_answered_def refresh_resources_answered_def kp_settled_def refresh_settled_def Let_def
  by (simp_all add: spinner_answers is_info_wait_def item_waits_def [of "KW_refresh_resources _"] item_waits_def [of KW_refresh_info] split: k8s_reply.split)
     (auto simp: loading_answered)

lemma spinners_info: "spinners_ok s \<Longrightarrow> spinners_ok (info_answered t reset ns a s)"
  unfolding spinners_ok_def info_answered_def kp_settled_def Let_def
  by (simp add: spinner_answers is_refresh_wait_def item_waits_def [of "KW_info _ _"] reset_page_def split: k8s_reply.split)
     (auto simp: no_loads_def)

lemma spinners_start: "spinners_ok s \<Longrightarrow> spinners_ok (start_answered i key c n a s)"
proof -
  assume ok: "spinners_ok s"
  have "spinners_ok (kp_settled (KW_start i key c n) s)"
    using ok by (simp add: spinners_ok_def kp_settled_def spinner_answers is_info_wait_def is_refresh_wait_def item_waits_def [of "KW_start _ _ _ _"])
  then show ?thesis by (simp add: start_answered_def Let_def spinners_frames split: k8s_reply.split)
qed

lemma spinners_answer: "k8s_answer t s s' \<Longrightarrow> spinners_ok s \<Longrightarrow> spinners_ok s'"
  by (induction rule: k8s_answer.induct)
     (simp_all only: spinners_list_answers spinners_item_answers spinners_resources spinners_refresh_answers spinners_info spinners_start
       spinners_frames)

lemma spinners_effects: "spinners_ok s \<Longrightarrow> spinners_ok (k8s_page_effects parse_json a b s)"
  by (simp add: k8s_page_effects_def Let_def info_effect_def namespace_effect_def pod_effect_def spinners_frames spinners_loads
      split: option.split prod.split)

lemma spinners_change: "k8s_change t parse_json s s' \<Longrightarrow> spinners_ok s \<Longrightarrow> spinners_ok s'"
  by (induction rule: k8s_change.induct)
     (auto simp: spinners_action spinners_answer spinners_tick retry_info_def spinners_loads spinners_frames)

lemma spinners_mounted: "spinners_ok (mounted t parse_json cache asset)"
proof (cases "map_of cache (ka_ID asset)")
  case None
  let ?s = "panel_effects (page_of t cache asset)"
  have v: "spin_view ?s = spin_view (empty_page t cache asset)" using None by (simp add: page_of_def)
  have "spinners_ok (info_effect parse_json ?s)"
    using v by (simp add: spinners_ok_def spin_view_def info_effect_def loadInfo_def kp_await_def kp_send_def is_info_wait_def empty_page_def
        spins_def no_loads_def Let_def)
  then show ?thesis
    by (simp add: mounted_def k8s_page_effects_def Let_def namespace_effect_def pod_effect_def spinners_frames spinners_loads
        split: option.split prod.split)
next
  case (Some snap)
  then have "spinners_ok (page_of t cache asset)" by (simp add: page_of_def empty_page_def spinners_ok_def) (simp add: kept_def)
  then show ?thesis by (simp add: mounted_def spinners_effects)
qed

lemma spinners_run: "k8s_run t parse_json (mounted t parse_json cache asset) s \<Longrightarrow> spinners_ok s"
  by (induction rule: k8s_run.induct) (auto simp: spinners_mounted rendered_def spinners_effects spinners_change)

section \<open>The tabs\<close>

lemma tabs_more: "k8s_tabs_ok tabs states \<Longrightarrow> k8s_tabs_ok tabs (set_prop states k v)"
  by (auto simp: k8s_tabs_ok_def)

lemma tabs_add: "k8s_tabs_ok tabs states \<Longrightarrow> \<not> list_ex (\<lambda>t. it_id t = i) tabs \<Longrightarrow> \<not> is_log_tab i \<or> map_of states i \<noteq> None \<Longrightarrow>
    k8s_tabs_ok (tabs @ [\<lparr>it_id = i, it_label = l\<rparr>]) states"
  by (auto simp: k8s_tabs_ok_def list_ex_iff)

lemma tabs_new: "k8s_tabs_ok tabs states \<Longrightarrow> \<not> list_ex (\<lambda>t. it_id t = i) tabs \<Longrightarrow>
    k8s_tabs_ok (tabs @ [\<lparr>it_id = i, it_label = l\<rparr>]) (set_prop states i v)"
  by (rule tabs_add) (simp_all add: tabs_more)

lemma set_updated: "set (AList.update k v xs) \<subseteq> insert (k, v) (set xs)"
  by (induction xs) auto

lemma tabs_removed: "k8s_tabs_ok tabs states \<Longrightarrow> ''overview'' \<notin> I \<Longrightarrow>
    k8s_tabs_ok (filter (\<lambda>t. it_id t \<notin> I) tabs) (filter (\<lambda>(k, v). k \<notin> I) states)"
  by (cases tabs) (auto simp: k8s_tabs_ok_def map_of_filter_keys distinct_map_filter)

definition tab_view :: "k8s_page \<Rightarrow> k8s_inner_tab list \<times> (string \<times> log_tab_state) list \<times> (int \<times> k8s_snapshot) list" where
  "tab_view s = (kp_innerTabs s, kp_logTabStates s, kp_cache s)"

lemma k8s_tab_frame: "tab_view s' = tab_view s \<Longrightarrow> page_tabs_ok s' = page_tabs_ok s"
  by (simp add: tab_view_def page_tabs_ok_def)

lemma tab_view_send [simp]: "tab_view (kp_send c s) = tab_view s" "tab_view (kp_await w s) = tab_view s" "tab_view (kp_settled w s) = tab_view s"
  by (simp_all add: tab_view_def kp_send_def kp_await_def kp_settled_def)

lemma tab_view_fields [simp]:
  "tab_view (s\<lparr>kp_namespaces := a\<rparr>) = tab_view s" "tab_view (s\<lparr>kp_pods := b\<rparr>) = tab_view s" "tab_view (s\<lparr>kp_deployments := c\<rparr>) = tab_view s"
  "tab_view (s\<lparr>kp_services := d\<rparr>) = tab_view s" "tab_view (s\<lparr>kp_configMaps := e\<rparr>) = tab_view s" "tab_view (s\<lparr>kp_secrets := f\<rparr>) = tab_view s"
  "tab_view (s\<lparr>kp_details := g\<rparr>) = tab_view s" "tab_view (s\<lparr>kp_refreshingItems := h\<rparr>) = tab_view s"
  "tab_view (s\<lparr>kp_autoRefreshingItems := i\<rparr>) = tab_view s" "tab_view (s\<lparr>kp_loading := j\<rparr>) = tab_view s"
  "tab_view (s\<lparr>kp_refreshing := j\<rparr>) = tab_view s" "tab_view (s\<lparr>kp_error := k\<rparr>) = tab_view s" "tab_view (s\<lparr>kp_info := l\<rparr>) = tab_view s"
  "tab_view (s\<lparr>kp_activeTabId := m\<rparr>) = tab_view s" "tab_view (s\<lparr>kp_expandedNamespaces := n\<rparr>) = tab_view s"
  "tab_view (s\<lparr>kp_expandedPods := n\<rparr>) = tab_view s" "tab_view (s\<lparr>kp_expandedDeployments := n\<rparr>) = tab_view s"
  "tab_view (s\<lparr>kp_expandedServices := n\<rparr>) = tab_view s" "tab_view (s\<lparr>kp_expandedConfigMaps := n\<rparr>) = tab_view s"
  "tab_view (s\<lparr>kp_expandedSecrets := n\<rparr>) = tab_view s" "tab_view (s\<lparr>kp_expandedDeploymentItems := n\<rparr>) = tab_view s"
  "tab_view (s\<lparr>kp_expandedNodes := j\<rparr>) = tab_view s" "tab_view (s\<lparr>kp_resourceSearch := p\<rparr>) = tab_view s"
  "tab_view (s\<lparr>kp_panel := q\<rparr>) = tab_view s" "tab_view (s\<lparr>kp_panels := r\<rparr>) = tab_view s" "tab_view (s\<lparr>kp_listeners := t\<rparr>) = tab_view s"
  "tab_view (s\<lparr>kp_asset := u\<rparr>) = tab_view s"
  by (simp_all add: tab_view_def)

lemma tab_view_loads [simp]:
  "tab_view (loadNamespaceResources ns s) = tab_view s" "tab_view (loadPods ns s) = tab_view s" "tab_view (loadDeployments ns s) = tab_view s"
  "tab_view (loadServices ns s) = tab_view s" "tab_view (loadConfigMaps ns s) = tab_view s" "tab_view (loadSecrets ns s) = tab_view s"
  "tab_view (loadPodDetail ns nm b s) = tab_view s" "tab_view (silentReloadPodDetail ns nm s) = tab_view s"
  "tab_view (refresh_resources ns s) = tab_view s" "tab_view (loadInfo parse_json b s) = tab_view s"
  "tab_view (refreshPodItem ns nm s) = tab_view s" "tab_view (refreshDeploymentItem ns nm s) = tab_view s"
  "tab_view (refreshServiceItem ns nm s) = tab_view s" "tab_view (refreshConfigMapItem ns nm s) = tab_view s"
  "tab_view (refreshSecretItem ns nm s) = tab_view s"
  by (simp_all add: loadNamespaceResources_def loadPods_def loadDeployments_def loadServices_def loadConfigMaps_def loadSecrets_def
      loadPodDetail_def silentReloadPodDetail_def refresh_resources_def loadInfo_def refreshPodItem_def refreshDeploymentItem_def
      refreshServiceItem_def refreshConfigMapItem_def refreshSecretItem_def Let_def)

lemma tab_view_typed [simp]: "tab_view (refresh_typed type ns nm s) = tab_view s"
  by (simp add: refresh_typed_def)

lemma tab_view_fold: "(\<And>x s. tab_view (f x s) = tab_view s) \<Longrightarrow> tab_view (fold f xs s) = tab_view s"
  by (induction xs arbitrary: s) auto

lemma tab_view_refreshes [simp]:
  "tab_view (toggleAutoRefresh k ns nm s) = tab_view s" "tab_view (auto_refresh_tick s) = tab_view s" "tab_view (refreshInfo s) = tab_view s"
proof -
  have k: "tab_view (refresh_key x s) = tab_view s" for x s by (simp add: refresh_key_def split: option.split prod.split)
  show "tab_view (auto_refresh_tick s) = tab_view s" by (simp add: auto_refresh_tick_def tab_view_fold [of refresh_key, OF k])
  have r: "tab_view (refresh_resources ns s) = tab_view s" for ns s by simp
  show "tab_view (refreshInfo s) = tab_view s" by (simp add: refreshInfo_def tab_view_fold [of refresh_resources, OF r])
qed (simp add: toggleAutoRefresh_def)

lemma tab_view_toggles:
  "f \<in> {toggleNamespace, togglePods, toggleDeployments, toggleServices, toggleConfigMaps, toggleSecrets, retry_namespace,
     retry_pods, retry_deployments, retry_services, retry_configMaps, retry_secrets} \<Longrightarrow> tab_view (f ns s) = tab_view s"
  by (elim insertE emptyE) (simp_all add: toggleNamespace_def togglePods_def toggleDeployments_def toggleServices_def toggleConfigMaps_def
      toggleSecrets_def retry_namespace_def retry_pods_def retry_deployments_def retry_services_def retry_configMaps_def retry_secrets_def Let_def)

lemma tab_view_answers [simp]:
  "tab_view (pods_answered ns a s) = tab_view s" "tab_view (deployments_answered ns b s) = tab_view s" "tab_view (services_answered ns c s) = tab_view s"
  "tab_view (configMaps_answered ns d s) = tab_view s" "tab_view (secrets_answered ns e s) = tab_view s" "tab_view (detail_answered key f s) = tab_view s"
  "tab_view (silent_detail_answered key f s) = tab_view s" "tab_view (resources_answered ns g s) = tab_view s"
  "tab_view (pod_item_answered ns nm h s) = tab_view s" "tab_view (deployment_item_answered ns nm i s) = tab_view s"
  "tab_view (service_item_answered ns nm j s) = tab_view s" "tab_view (configMap_item_answered ns nm k s) = tab_view s"
  "tab_view (secret_item_answered ns nm l s) = tab_view s" "tab_view (refresh_info_answered m s) = tab_view s"
  "tab_view (refresh_resources_answered ns g s) = tab_view s"
  by (simp_all add: pods_answered_def deployments_answered_def services_answered_def configMaps_answered_def secrets_answered_def
      detail_answered_def silent_detail_answered_def resources_answered_def pod_item_answered_def deployment_item_answered_def
      service_item_answered_def configMap_item_answered_def secret_item_answered_def refresh_info_answered_def refresh_resources_answered_def
      item_refreshed_def refresh_settled_def Let_def split: k8s_reply.split)

lemmas page_tabs_frames = tab_view_send [THEN k8s_tab_frame] tab_view_fields [THEN k8s_tab_frame] tab_view_loads [THEN k8s_tab_frame]
  tab_view_typed [THEN k8s_tab_frame] tab_view_refreshes [THEN k8s_tab_frame] tab_view_answers [THEN k8s_tab_frame]

text \<open>Changes of the state of a log tab keep the tabs.\<close>

lemma page_tabs_logs:
  "page_tabs_ok s \<Longrightarrow> page_tabs_ok (updateLogTabState i f s)" "page_tabs_ok s \<Longrightarrow> page_tabs_ok (onStateChange k f s)"
  "page_tabs_ok s \<Longrightarrow> page_tabs_ok (upd_panel k g s)" "page_tabs_ok s \<Longrightarrow> page_tabs_ok (offEvents k s)"
  "page_tabs_ok s \<Longrightarrow> page_tabs_ok (stop_stream k s)" "page_tabs_ok s \<Longrightarrow> page_tabs_ok (stop_logs k s)"
  "page_tabs_ok s \<Longrightarrow> page_tabs_ok (term_write dat s)" "page_tabs_ok s \<Longrightarrow> page_tabs_ok (panel_unmounted k s)"
proof -
  show u: "page_tabs_ok s \<Longrightarrow> page_tabs_ok (updateLogTabState i f s)" for s i and f :: "log_tab_state \<Rightarrow> log_tab_state"
    by (simp add: updateLogTabState_def Let_def page_tabs_ok_def tabs_more)
  show c: "page_tabs_ok s \<Longrightarrow> page_tabs_ok (onStateChange k f s)" for s k and f :: "log_tab_state \<Rightarrow> log_tab_state"
    by (simp add: onStateChange_def u)
  show p: "page_tabs_ok s \<Longrightarrow> page_tabs_ok (upd_panel k g s)" for s k and g :: "log_panel \<Rightarrow> log_panel"
    by (simp add: upd_panel_def page_tabs_frames)
  show e: "page_tabs_ok s \<Longrightarrow> page_tabs_ok (offEvents k s)" for s by (simp add: offEvents_def p page_tabs_frames split: option.split)
  show st: "page_tabs_ok s \<Longrightarrow> page_tabs_ok (stop_stream k s)" for s by (simp add: stop_stream_def p page_tabs_frames)
  show "page_tabs_ok s \<Longrightarrow> page_tabs_ok (stop_logs k s)" by (simp add: stop_logs_def c e st)
  show "page_tabs_ok s \<Longrightarrow> page_tabs_ok (term_write dat s)" by (simp add: term_write_def page_tabs_frames split: option.split)
  show "page_tabs_ok s \<Longrightarrow> page_tabs_ok (panel_unmounted k s)" by (simp add: panel_unmounted_def e st page_tabs_frames)
qed

lemma page_tabs_fold: "(\<And>x s. page_tabs_ok s \<Longrightarrow> page_tabs_ok (f x s)) \<Longrightarrow> page_tabs_ok s \<Longrightarrow> page_tabs_ok (fold f xs s)"
  by (induction xs arbitrary: s) auto

lemma page_tabs_panels:
  "page_tabs_ok s \<Longrightarrow> page_tabs_ok (panel_restored k s)" "page_tabs_ok s \<Longrightarrow> page_tabs_ok (panel_mounted v s)"
  "page_tabs_ok s \<Longrightarrow> page_tabs_ok (panel_effects s)" "page_tabs_ok s \<Longrightarrow> page_tabs_ok (start_logs k s)"
  "page_tabs_ok s \<Longrightarrow> page_tabs_ok (choose_container k c s)" "page_tabs_ok s \<Longrightarrow> page_tabs_ok (choose_lines k n s)"
  "page_tabs_ok s \<Longrightarrow> page_tabs_ok (switch_pod k nm s)" "page_tabs_ok s \<Longrightarrow> page_tabs_ok (start_answered k key c n a s)"
  "page_tabs_ok s \<Longrightarrow> page_tabs_ok (log_data l dat s)" "page_tabs_ok s \<Longrightarrow> page_tabs_ok (log_err l dat s)"
  "page_tabs_ok s \<Longrightarrow> page_tabs_ok (log_end l s)"
proof -
  show r: "page_tabs_ok s \<Longrightarrow> page_tabs_ok (panel_restored k s)" for k s
    by (auto simp: panel_restored_def Let_def page_tabs_frames intro!: page_tabs_fold page_tabs_logs)
  show m: "page_tabs_ok s \<Longrightarrow> page_tabs_ok (panel_mounted v s)" for v s by (simp add: panel_mounted_def Let_def r page_tabs_frames)
  show "page_tabs_ok s \<Longrightarrow> page_tabs_ok (panel_effects s)" by (simp add: panel_effects_def Let_def r m page_tabs_logs split: option.split)
qed (simp_all add: start_logs_def choose_container_def choose_lines_def switch_pod_def start_answered_def log_data_def log_err_def log_end_def
    Let_def page_tabs_logs page_tabs_frames split: k8s_reply.split)

lemma overview_not_log: "\<not> is_log_tab ''overview''" "\<not> is_log_tab (''ns:'' @ ns)" "\<not> is_log_tab ''''"
  by (auto simp: is_log_tab_def starts_with_def)

lemma stop_tab_fields [simp]: "kp_innerTabs (stop_tab_stream i s) = kp_innerTabs s" "kp_logTabStates (stop_tab_stream i s) = kp_logTabStates s"
  "kp_cache (stop_tab_stream i s) = kp_cache s"
  by (simp_all add: stop_tab_stream_def kp_send_def split: option.split)

lemma stop_tabs_fields [simp]: "kp_innerTabs (fold stop_tab_stream ids s) = kp_innerTabs s"
  "kp_logTabStates (fold stop_tab_stream ids s) = kp_logTabStates s" "kp_cache (fold stop_tab_stream ids s) = kp_cache s"
  by (induction ids arbitrary: s) auto

lemma page_tabs_close:
  "page_tabs_ok s \<Longrightarrow> i \<noteq> ''overview'' \<Longrightarrow> page_tabs_ok (k8s_closeTab i s)"
  "page_tabs_ok s \<Longrightarrow> ''overview'' \<notin> set ids \<Longrightarrow> page_tabs_ok (closeInnerTabs ids act s)"
proof -
  assume ok: "page_tabs_ok s"
  show "page_tabs_ok (closeInnerTabs ids act s)" if "''overview'' \<notin> set ids"
    using tabs_removed [OF _ that] ok by (simp add: closeInnerTabs_def Let_def page_tabs_ok_def split: option.split)
  assume i: "i \<noteq> ''overview''"
  have "k8s_tabs_ok (filter (\<lambda>t. it_id t \<noteq> i) (kp_innerTabs s)) (if is_log_tab i then del_prop (kp_logTabStates s) i else kp_logTabStates s)"
  proof (cases "is_log_tab i")
    case True
    then show ?thesis using tabs_removed [of _ _ "{i}"] ok i by (simp add: page_tabs_ok_def del_prop_def)
  next
    case False
    then show ?thesis using ok i by (cases "kp_innerTabs s") (auto simp: page_tabs_ok_def k8s_tabs_ok_def distinct_map_filter)
  qed
  then show "page_tabs_ok (k8s_closeTab i s)"
    using ok by (simp add: k8s_closeTab_def Let_def page_tabs_ok_def split: if_splits)
qed

lemma page_tabs_open:
  "page_tabs_ok s \<Longrightarrow> tab_open i s \<or> \<not> is_log_tab i \<Longrightarrow> page_tabs_ok (k8s_openTab i label s)"
  "page_tabs_ok s \<Longrightarrow> page_tabs_ok (openLogTab t ns nm c s)"
  "page_tabs_ok s \<Longrightarrow> page_tabs_ok (openDeploymentLogs t ns deployment s)"
proof -
  assume ok: "page_tabs_ok s"
  show "page_tabs_ok (k8s_openTab i label s)" if "tab_open i s \<or> \<not> is_log_tab i"
    using ok that by (auto simp: k8s_openTab_def Let_def page_tabs_frames tab_open_def split: prod.split) (auto simp: page_tabs_ok_def tabs_add)
  show "page_tabs_ok (openLogTab t ns nm c s)"
    using ok by (auto simp: openLogTab_def Let_def page_tabs_frames tab_open_def page_tabs_ok_def intro!: tabs_new)
  show "page_tabs_ok (openDeploymentLogs t ns deployment s)"
    using ok by (auto simp: openDeploymentLogs_def Let_def page_tabs_frames tab_open_def)
      (auto simp: page_tabs_ok_def intro!: tabs_new)
qed

lemma page_tabs_action: "k8s_action t s s' \<Longrightarrow> page_tabs_ok s \<Longrightarrow> page_tabs_ok s'"
proof (induction rule: k8s_action.induct)
  case (4 f ns)
  then show ?case using k8s_tab_frame [OF tab_view_toggles] by blast
next
  case (15 idx)
  obtain tab tabs where tabs: "kp_innerTabs s = tab # tabs" "it_id tab = ''overview''" "''overview'' \<notin> it_id ` set tabs"
    using 15 by (cases "kp_innerTabs s") (auto simp: page_tabs_ok_def k8s_tabs_ok_def)
  then have "''overview'' \<notin> set (map it_id (drop (Suc idx) (kp_innerTabs s)))" by (auto dest: in_set_dropD)
  with 15(3) show ?case unfolding close_right_def by (rule page_tabs_close(2))
next
  case (16 i f)
  then show ?case by (auto simp: page_tabs_panels page_tabs_logs)
qed (auto simp: page_tabs_frames retry_detail_def toggleDeploymentItem_def search_resources_def close_others_def close_left_def
    intro!: page_tabs_close page_tabs_open page_tabs_panels)

lemma page_tabs_answer: "k8s_answer t s s' \<Longrightarrow> page_tabs_ok s \<Longrightarrow> page_tabs_ok s'"
proof (induction rule: k8s_answer.induct)
  case (1 reset ns info)
  have r: "page_tabs_ok (reset_page t ns dat x)" if "page_tabs_ok x" for dat x
    using that overview_not_log by (auto simp: reset_page_def Let_def page_tabs_ok_def k8s_tabs_ok_def overview_tab_def)
  show ?case using 1 by (auto simp: info_answered_def Let_def page_tabs_frames r split: k8s_reply.split)
qed (simp_all add: page_tabs_frames page_tabs_panels)

lemma page_tabs_effects: "page_tabs_ok s \<Longrightarrow> page_tabs_ok (k8s_page_effects parse_json a b s)"
proof -
  have save: "page_tabs_ok (save_snapshot s)" if "page_tabs_ok s" for s
    using that by (auto simp: save_snapshot_def page_tabs_ok_def k8s_cache_ok_def snapshot_of_def dest!: set_updated [THEN subsetD])
  show "page_tabs_ok s \<Longrightarrow> ?thesis"
    by (simp add: k8s_page_effects_def Let_def info_effect_def namespace_effect_def pod_effect_def save page_tabs_frames page_tabs_panels
        split: option.split prod.split)
qed

lemma page_tabs_change: "k8s_change t parse_json s s' \<Longrightarrow> page_tabs_ok s \<Longrightarrow> page_tabs_ok s'"
  by (induction rule: k8s_change.induct)
     (auto simp: page_tabs_action page_tabs_answer retry_info_def show_asset_def page_tabs_frames)

lemma page_tabs_mounted: "k8s_cache_ok cache \<Longrightarrow> page_tabs_ok (mounted t parse_json cache asset)"
proof -
  assume ok: "k8s_cache_ok cache"
  have "k8s_tabs_ok (ks_innerTabs snap) (ks_logTabStates snap)" if "map_of cache (ka_ID asset) = Some snap" for snap
    using ok map_of_SomeD [OF that] by (auto simp: k8s_cache_ok_def)
  then have "page_tabs_ok (page_of t cache asset)"
    using ok overview_not_log by (auto simp: page_of_def page_tabs_ok_def empty_page_def k8s_tabs_ok_def overview_tab_def split: option.split)
  then show ?thesis by (simp add: mounted_def page_tabs_effects)
qed

lemma page_tabs_run: "k8s_run t parse_json (mounted t parse_json cache asset) s \<Longrightarrow> k8s_cache_ok cache \<Longrightarrow> page_tabs_ok s"
  by (induction rule: k8s_run.induct) (auto simp: page_tabs_mounted rendered_def page_tabs_effects page_tabs_change)

text \<open>
  C39: Over every run of the page of a cluster, other clusters shown in its place included, whatever is shown as loading or as being
  refreshed has a request that waits for its answer; the tabs inside the page are distinct, the overview is the
  first, and every open log tab has its state.
\<close>

theorem k8s_page_consistent:
  assumes "k8s_run t parse_json (mounted t parse_json cache asset) s" and "k8s_cache_ok cache"
  shows "(kp_loading s \<longrightarrow> list_ex is_info_wait (kp_waits s)) \<and> (kp_refreshing s \<longrightarrow> list_ex is_refresh_wait (kp_waits s)) \<and>
    (\<forall>ns\<in>set (ld_loading (kp_namespaces s)). KW_resources ns \<in> set (kp_waits s) \<or> KW_refresh_resources ns \<in> set (kp_waits s)) \<and>
    KW_pods ` set (ld_loading (kp_pods s)) \<subseteq> set (kp_waits s) \<and> KW_deployments ` set (ld_loading (kp_deployments s)) \<subseteq> set (kp_waits s) \<and>
    KW_services ` set (ld_loading (kp_services s)) \<subseteq> set (kp_waits s) \<and>
    KW_configMaps ` set (ld_loading (kp_configMaps s)) \<subseteq> set (kp_waits s) \<and>
    KW_secrets ` set (ld_loading (kp_secrets s)) \<subseteq> set (kp_waits s) \<and> KW_detail ` set (ld_loading (kp_details s)) \<subseteq> set (kp_waits s) \<and>
    set (kp_refreshingItems s) \<subseteq> set (concat (map item_waits (kp_waits s))) \<and>
    distinct (map it_id (kp_innerTabs s)) \<and> kp_innerTabs s \<noteq> [] \<and> it_id (hd (kp_innerTabs s)) = ''overview'' \<and>
    (\<forall>tab\<in>set (kp_innerTabs s). is_log_tab (it_id tab) \<longrightarrow> map_of (kp_logTabStates s) (it_id tab) \<noteq> None)"
  using spinners_run [OF assms(1)] page_tabs_run [OF assms]
  by (simp add: spinners_ok_def spins_def items_spin_def page_tabs_ok_def k8s_tabs_ok_def)

section \<open>Another cluster in the place of one\<close>

definition page_data :: "k8s_page \<Rightarrow> _" where
  "page_data s = (kp_innerTabs s, (ld_data (kp_namespaces s), ld_data (kp_pods s), ld_data (kp_deployments s)),
     (ld_data (kp_services s), ld_data (kp_configMaps s), ld_data (kp_secrets s), ld_data (kp_details s)))"

definition snapshot_data :: "k8s_snapshot \<Rightarrow> _" where
  "snapshot_data snap = (ks_innerTabs snap, (ks_namespaceResources snap, ks_namespacePodList snap, ks_namespaceDeploymentList snap),
     (ks_namespaceServiceList snap, ks_namespaceConfigMapList snap, ks_namespaceSecretList snap, ks_podDetails snap))"

lemma data_simps [simp]:
  "page_data (kp_send c s) = page_data s" "page_data (kp_await w s) = page_data s" "page_data (kp_settled w s) = page_data s"
  "page_data (s\<lparr>kp_loading := j\<rparr>) = page_data s" "page_data (s\<lparr>kp_error := k\<rparr>) = page_data s" "page_data (s\<lparr>kp_info := l\<rparr>) = page_data s"
  "page_data (s\<lparr>kp_panel := q\<rparr>) = page_data s" "page_data (s\<lparr>kp_panels := r\<rparr>) = page_data s" "page_data (s\<lparr>kp_listeners := t\<rparr>) = page_data s"
  "page_data (s\<lparr>kp_logTabStates := u\<rparr>) = page_data s" "page_data (save_snapshot s) = page_data s" "page_data (show_asset a s) = page_data s"
  "page_data (s\<lparr>kp_namespaces := load_begun ns (kp_namespaces s)\<rparr>) = page_data s"
  by (simp_all add: page_data_def kp_send_def kp_await_def kp_settled_def save_snapshot_def show_asset_def load_begun_def)

lemma data_logs [simp]:
  "page_data (updateLogTabState i f s) = page_data s" "page_data (onStateChange k f s) = page_data s" "page_data (upd_panel k g s) = page_data s"
  "page_data (offEvents k s) = page_data s" "page_data (stop_stream k s) = page_data s" "page_data (term_write dat s) = page_data s"
  "page_data (panel_unmounted k s) = page_data s"
proof -
  show u: "page_data (updateLogTabState i f s) = page_data s" for i s and f :: "log_tab_state \<Rightarrow> log_tab_state"
    by (simp add: updateLogTabState_def Let_def)
  show "page_data (onStateChange k f s) = page_data s" by (simp add: onStateChange_def u)
  show p: "page_data (upd_panel k g s) = page_data s" for k s and g :: "log_panel \<Rightarrow> log_panel" by (simp add: upd_panel_def)
  show o: "page_data (offEvents k s) = page_data s" for s by (simp add: offEvents_def p split: option.split)
  show t: "page_data (stop_stream k s) = page_data s" for s by (simp add: stop_stream_def p)
  show "page_data (term_write dat s) = page_data s" by (simp add: term_write_def split: option.split)
  show "page_data (panel_unmounted k s) = page_data s" by (simp add: panel_unmounted_def o t)
qed

lemma data_writes [simp]: "page_data (fold term_write cs s) = page_data s"
  by (induction cs arbitrary: s) auto

lemma data_panels [simp]: "page_data (panel_effects s) = page_data s"
proof -
  have r: "page_data (panel_restored k s) = page_data s" for k s by (simp add: panel_restored_def Let_def)
  have m: "page_data (panel_mounted v s) = page_data s" for v s by (simp add: panel_mounted_def Let_def r)
  show ?thesis by (simp add: panel_effects_def Let_def r m split: option.split)
qed

lemma data_loads [simp]:
  "page_data (loadInfo parse_json r s) = page_data s" "page_data (loadNamespaceResources ns s) = page_data s"
  "page_data (silentReloadPodDetail ns nm s) = page_data s"
  by (simp_all add: loadInfo_def loadNamespaceResources_def silentReloadPodDetail_def Let_def)

lemma data_page_effects [simp]:
  "page_data (info_effect parse_json s) = page_data s" "page_data (namespace_effect s) = page_data s" "page_data (pod_effect s) = page_data s"
  by (simp_all add: info_effect_def namespace_effect_def pod_effect_def split: option.split prod.split)

lemma data_effects [simp]: "page_data (k8s_page_effects parse_json a b s) = page_data s"
  by (simp add: k8s_page_effects_def Let_def)

definition asset_view :: "k8s_page \<Rightarrow> k8s_asset \<times> (int \<times> k8s_snapshot) list" where
  "asset_view s = (kp_asset s, kp_cache s)"

lemma asset_fields [simp]:
  "asset_view (kp_send c s) = asset_view s" "asset_view (kp_await w s) = asset_view s" "asset_view (s\<lparr>kp_panel := q\<rparr>) = asset_view s"
  "asset_view (s\<lparr>kp_panels := r\<rparr>) = asset_view s" "asset_view (s\<lparr>kp_listeners := t\<rparr>) = asset_view s"
  "asset_view (s\<lparr>kp_logTabStates := u\<rparr>) = asset_view s" "asset_view (s\<lparr>kp_namespaces := n\<rparr>) = asset_view s"
  "asset_view (s\<lparr>kp_loading := j\<rparr>) = asset_view s" "asset_view (s\<lparr>kp_error := k\<rparr>) = asset_view s" "asset_view (s\<lparr>kp_info := l\<rparr>) = asset_view s"
  "asset_view (kp_settled w s) = asset_view s"
  by (simp_all add: asset_view_def kp_send_def kp_await_def kp_settled_def)

lemma asset_panels [simp]: "asset_view (panel_effects s) = asset_view s"
proof -
  have u: "asset_view (updateLogTabState i f s) = asset_view s" for i s f by (simp add: updateLogTabState_def Let_def)
  have c: "asset_view (onStateChange k f s) = asset_view s" for k s f by (simp add: onStateChange_def u)
  have p: "asset_view (upd_panel k g s) = asset_view s" for k s g by (simp add: upd_panel_def)
  have o: "asset_view (offEvents k s) = asset_view s" for k s by (simp add: offEvents_def p split: option.split)
  have t: "asset_view (stop_stream k s) = asset_view s" for k s by (simp add: stop_stream_def p)
  have w: "asset_view (fold term_write cs s) = asset_view s" for cs s
    by (induction cs arbitrary: s) (auto simp: term_write_def split: option.split)
  have r: "asset_view (panel_restored k s) = asset_view s" for k s by (simp add: panel_restored_def Let_def w c t)
  have m: "asset_view (panel_mounted v s) = asset_view s" for v s by (simp add: panel_mounted_def Let_def r)
  show ?thesis by (simp add: panel_effects_def panel_unmounted_def Let_def r m p o t split: option.split)
qed

lemma asset_effects [simp]:
  "asset_view (loadInfo parse_json r s) = asset_view s" "asset_view (loadNamespaceResources ns s) = asset_view s"
  "asset_view (silentReloadPodDetail ns nm s) = asset_view s" "asset_view (info_effect parse_json s) = asset_view s"
  "asset_view (namespace_effect s) = asset_view s" "asset_view (pod_effect s) = asset_view s"
proof -
  show i: "asset_view (loadInfo parse_json r s) = asset_view s" for r by (simp add: loadInfo_def Let_def)
  show l: "asset_view (loadNamespaceResources ns s) = asset_view s" for ns by (simp add: loadNamespaceResources_def)
  show p: "asset_view (silentReloadPodDetail ns nm s) = asset_view s" for ns nm by (simp add: silentReloadPodDetail_def)
  show "asset_view (info_effect parse_json s) = asset_view s" by (simp add: info_effect_def i)
  show "asset_view (namespace_effect s) = asset_view s" by (simp add: namespace_effect_def l split: option.split)
  show "asset_view (pod_effect s) = asset_view s" by (simp add: pod_effect_def p split: prod.split)
qed

lemma saved_data:
  "kp_id (k8s_page_effects parse_json a b s) = kp_id s"
  "\<exists>snap. map_of (kp_cache (k8s_page_effects parse_json a b s)) (kp_id s) = Some snap \<and> snapshot_data snap = page_data s"
proof -
  define x where "x = (let s1 = panel_effects s; s2 = (if a then info_effect parse_json s1 else s1); s3 = namespace_effect s2
    in if b then pod_effect s3 else s3)"
  have e: "k8s_page_effects parse_json a b s = save_snapshot x" by (simp add: k8s_page_effects_def x_def Let_def)
  have "asset_view x = asset_view s" by (simp add: x_def Let_def)
  then have i: "kp_id x = kp_id s" by (simp add: asset_view_def kp_id_def)
  then show "kp_id (k8s_page_effects parse_json a b s) = kp_id s" by (simp add: e save_snapshot_def kp_id_def)
  have "map_of (kp_cache (k8s_page_effects parse_json a b s)) (kp_id s) = Some (snapshot_of x)"
    by (simp add: e save_snapshot_def update_conv' i)
  moreover have "snapshot_data (snapshot_of x) = page_data x" by (simp add: snapshot_data_def snapshot_of_def page_data_def)
  moreover have "page_data x = page_data s" by (simp add: x_def Let_def)
  ultimately show "\<exists>snap. map_of (kp_cache (k8s_page_effects parse_json a b s)) (kp_id s) = Some snap \<and> snapshot_data snap = page_data s"
    by simp
qed

lemma waits_loads: "set (kp_waits s) \<subseteq> set (kp_waits (loadNamespaceResources ns s))"
  "set (kp_waits s) \<subseteq> set (kp_waits (silentReloadPodDetail ns nm s))"
  by (auto simp: loadNamespaceResources_def silentReloadPodDetail_def kp_await_def kp_send_def)

lemma info_asked:
  assumes "has_snapshot s"
  shows "KW_info False (defaultNamespace parse_json (kp_asset s)) \<in> set (kp_waits (k8s_page_effects parse_json True b s))"
proof -
  have v: "asset_view (panel_effects s) = asset_view s" by simp
  then have a: "kp_asset (panel_effects s) = kp_asset s" by (simp add: asset_view_def)
  have "has_snapshot (panel_effects s)" using v assms by (simp add: has_snapshot_def asset_view_def kp_id_def)
  then have "KW_info False (defaultNamespace parse_json (kp_asset s)) \<in> set (kp_waits (info_effect parse_json (panel_effects s)))"
    by (simp add: info_effect_def loadInfo_def Let_def kp_await_def kp_send_def a)
  then have "KW_info False (defaultNamespace parse_json (kp_asset s)) \<in> set (kp_waits (namespace_effect (info_effect parse_json (panel_effects s))))"
    using waits_loads(1) by (auto simp: namespace_effect_def split: option.split)
  then show ?thesis using waits_loads(2) by (auto simp: k8s_page_effects_def Let_def save_snapshot_def pod_effect_def split: prod.split)
qed

text \<open>
  When the tab of another cluster that was shown before is chosen, its page goes on with everything of the first cluster:
  the tabs inside the page, the resources of namespaces, all lists and details stay, also after the new cluster has
  answered, and they replace what was saved for the new cluster.
\<close>

theorem other_cluster_keeps_page:
  assumes "map_of (kp_cache s) (ka_ID other) \<noteq> None" and "ka_ID other \<noteq> kp_id s"
    and "s1 = rendered parse_json s (show_asset other s)"
    and "s2 = rendered parse_json s1 (info_answered t False (defaultNamespace parse_json other) (K_ok info) s1)"
  shows "kp_id s2 = ka_ID other \<and> KW_info False (defaultNamespace parse_json other) \<in> set (kp_waits s1) \<and>
    page_data s1 = page_data s \<and> page_data s2 = page_data s \<and>
    (\<exists>snap. map_of (kp_cache s2) (ka_ID other) = Some snap \<and> snapshot_data snap = page_data s)"
proof -
  let ?new = "show_asset other s" and ?a = "info_answered t False (defaultNamespace parse_json other) (K_ok info) s1"
  have n: "kp_id ?new = ka_ID other" "kp_asset ?new = other" "has_snapshot ?new"
    using assms(1) by (simp_all add: show_asset_def kp_id_def has_snapshot_def)
  have "KW_info False (defaultNamespace parse_json other) \<in> set (kp_waits s1)"
    using info_asked [OF n(3), of parse_json "pod_changed s ?new"] assms(2,3) n by (simp add: rendered_def)
  moreover have d1: "page_data s1 = page_data s" by (simp add: assms(3) rendered_def)
  moreover have i1: "kp_id s1 = ka_ID other" using saved_data(1) n(1) by (simp add: assms(3) rendered_def)
  moreover have a: "page_data ?a = page_data s1" "kp_id ?a = kp_id s1" by (simp_all add: info_answered_def Let_def) (simp add: kp_id_def kp_settled_def)
  moreover have "kp_id s2 = kp_id ?a" using saved_data(1) by (simp add: assms(4) rendered_def)
  moreover have "page_data s2 = page_data ?a" by (simp add: assms(4) rendered_def)
  ultimately show ?thesis using saved_data(2) [of parse_json "kp_id s1 \<noteq> kp_id ?a" "pod_changed s1 ?a" ?a] by (simp add: assms(4) rendered_def)
qed

section \<open>A namespace that fails\<close>

lemma namespace_shown: "active_ns s = Some n \<Longrightarrow> kp_panel s = None \<Longrightarrow> panel_effects s = s"
proof -
  assume "active_ns s = Some n" and "kp_panel s = None"
  then have "\<not> starts_with (kp_activeTabId s) ''log:''" "\<not> starts_with (kp_activeTabId s) ''log-deploy:''"
    by (auto simp: active_ns_def starts_with_iff split: option.splits if_splits)
  then have "log_view_of s = None" by (simp add: log_view_of_def Let_def split: prod.split)
  then show ?thesis using \<open>kp_panel s = None\<close> by (simp add: panel_effects_def)
qed

lemma active_ns_frame: "kp_info s' = kp_info s \<Longrightarrow> kp_activeTabId s' = kp_activeTabId s \<Longrightarrow> active_ns s' = active_ns s"
  by (auto simp: active_ns_def split: option.split)

lemma loaded_simps [simp]: "is_loaded key (k8s_load_answered k (K_failed e) ld) = is_loaded key ld" "is_loaded key (load_begun k ld) = is_loaded key ld"
  by (simp_all add: is_loaded_def k8s_load_answered_def load_stored_def load_begun_def Let_def)

definition fails_once :: "(string \<Rightarrow> string + jsval) \<Rightarrow> string \<Rightarrow> string \<Rightarrow> k8s_page \<Rightarrow> k8s_page" where
  "fails_once parse_json ns e s = rendered parse_json s (resources_answered ns (K_failed e) s)"

lemma failed_again:
  assumes "active_ns s = Some n" and "kp_panel s = None" and "\<not> is_loaded (na_name n) (kp_namespaces s)"
    and "s' = fails_once parse_json (na_name n) e s"
  shows "kp_calls s' = kp_calls s @ [KC_GetK8sNamespaceResources (kp_id s) (na_name n)] \<and> KW_resources (na_name n) \<in> set (kp_waits s') \<and>
    active_ns s' = Some n \<and> kp_panel s' = None \<and> \<not> is_loaded (na_name n) (kp_namespaces s') \<and> kp_id s' = kp_id s"
proof -
  let ?r = "resources_answered (na_name n) (K_failed e) s"
  have r: "active_ns ?r = Some n" "kp_panel ?r = None" "\<not> is_loaded (na_name n) (kp_namespaces ?r)" "kp_id ?r = kp_id s" "kp_calls ?r = kp_calls s"
    "na_name n \<notin> set (ld_loading (kp_namespaces ?r))" "kp_autoRefreshingItems ?r = kp_autoRefreshingItems s" "kp_activeTabId ?r = kp_activeTabId s"
    using assms(1-3) active_ns_frame [of ?r s] by (simp_all add: resources_answered_def kp_settled_def Let_def loading_answered kp_id_def)
  have "s' = save_snapshot (loadNamespaceResources (na_name n) ?r)"
    using r by (simp add: assms(4) fails_once_def rendered_def k8s_page_effects_def pod_changed_def Let_def namespace_shown [OF r(1,2)] namespace_effect_def)
  then show ?thesis
    using r active_ns_frame [of s' ?r] by (simp add: loadNamespaceResources_def save_snapshot_def kp_await_def kp_send_def kp_id_def)
qed

text \<open>
  C34: A namespace whose resources cannot be loaded while its tab is shown is asked for again after each failure at once, without an
  end and without anything that the user does.
\<close>

theorem failing_namespace_asked_again:
  assumes "active_ns s = Some n" and "kp_panel s = None" and "\<not> is_loaded (na_name n) (kp_namespaces s)"
  shows "kp_calls ((fails_once parse_json (na_name n) e ^^ k) s) =
      kp_calls s @ replicate k (KC_GetK8sNamespaceResources (kp_id s) (na_name n)) \<and>
    (0 < k \<longrightarrow> KW_resources (na_name n) \<in> set (kp_waits ((fails_once parse_json (na_name n) e ^^ k) s)))"
proof -
  have "kp_calls ((fails_once parse_json (na_name n) e ^^ k) s) = kp_calls s @ replicate k (KC_GetK8sNamespaceResources (kp_id s) (na_name n)) \<and>
      (0 < k \<longrightarrow> KW_resources (na_name n) \<in> set (kp_waits ((fails_once parse_json (na_name n) e ^^ k) s))) \<and>
      (let s' = (fails_once parse_json (na_name n) e ^^ k) s
       in active_ns s' = Some n \<and> kp_panel s' = None \<and> \<not> is_loaded (na_name n) (kp_namespaces s') \<and> kp_id s' = kp_id s)"
  proof (induction k)
    case (Suc k)
    then show ?case
      using failed_again [of "(fails_once parse_json (na_name n) e ^^ k) s" n "(fails_once parse_json (na_name n) e ^^ Suc k) s" parse_json e]
      by (simp add: Let_def replicate_append_same [symmetric])
  qed (use assms in simp)
  then show ?thesis by blast
qed

section \<open>Two log tabs\<close>

lemma tab_opened_view:
  assumes "starts_with i ''log:''" and "tab_open i s" and "log_view_of (k8s_openTab i label s) = Some v"
    and "kp_panel s = Some k" and "lv_deploy (lp_view (panel_at k s)) = lv_deploy v" and "panel_shows (lp_view (panel_at k s)) = panel_shows v"
  shows "rendered parse_json s (k8s_openTab i label s) = save_snapshot (upd_panel k (\<lambda>p. p\<lparr>lp_view := v\<rparr>) (s\<lparr>kp_activeTabId := i\<rparr>))"
proof -
  have n: "i \<noteq> ''overview''" "\<not> starts_with i ''pod:''" "\<not> starts_with i ''ns:''" using assms(1) by (auto simp: starts_with_iff)
  have o: "k8s_openTab i label s = s\<lparr>kp_activeTabId := i\<rparr>" using n assms(2) by (simp add: k8s_openTab_def)
  have p: "panel_effects (s\<lparr>kp_activeTabId := i\<rparr>) = upd_panel k (\<lambda>p. p\<lparr>lp_view := v\<rparr>) (s\<lparr>kp_activeTabId := i\<rparr>)"
    using assms(3-6) by (simp add: panel_effects_def o panel_at_def Let_def)
  show ?thesis
    using n by (auto simp: rendered_def o k8s_page_effects_def p Let_def namespace_effect_def pod_effect_def active_ns_def upd_panel_def
        kp_id_def pod_changed_def split: option.split)
qed

lemma add_chunk_last: "map_of (lt_logBuffers (add_chunk l dat st)) (ll_key l) = Some b \<Longrightarrow> lb_chunks b \<noteq> [] \<and> last (lb_chunks b) = dat"
  by (auto simp: add_chunk_def Let_def MAX_LOG_CHUNKS_def split: if_splits option.splits)

text \<open>
  Going from the log of a pod to the log tab of another pod with the same name, in another namespace, keeps the stream: it
  is not stopped, and what the first pod writes is then kept and shown as the log of the second.
\<close>

theorem same_named_pods_share_logs:
  assumes "starts_with i ''log:''" and "tab_open i s" and "log_view_of (k8s_openTab i label s) = Some v"
    and "kp_panel s = Some k" and "k < length (kp_panels s)" and "lv_deploy (lp_view (panel_at k s)) = lv_deploy v"
    and "panel_shows (lp_view (panel_at k s)) = panel_shows v" and "lv_tab v \<noteq> lv_tab (lp_view (panel_at k s))"
    and "lp_stream (panel_at k s) = Some (ll_stream l)" and "ll_panel l = k" and "ll_key l = view_key v" and "atob dat = Some bs"
    and "s1 = rendered parse_json s (k8s_openTab i label s)" and "s2 = log_data l dat s1"
  shows "kp_calls s1 = kp_calls s \<and> kp_calls s2 = kp_calls s1 @ [KC_term_write bs] \<and>
    kept_chunks v s2 \<noteq> [] \<and> last (kept_chunks v s2) = dat \<and>
    map_of (kp_logTabStates s2) (lv_tab (lp_view (panel_at k s))) = map_of (kp_logTabStates s) (lv_tab (lp_view (panel_at k s)))"
proof -
  have s1: "s1 = save_snapshot (upd_panel k (\<lambda>p. p\<lparr>lp_view := v\<rparr>) (s\<lparr>kp_activeTabId := i\<rparr>))"
    using tab_opened_view [OF assms(1-4,6,7)] by (simp add: assms(13))
  have p: "panel_at k s1 = (panel_at k s)\<lparr>lp_view := v\<rparr>" "kp_panel s1 = Some k" "kp_calls s1 = kp_calls s" "kp_logTabStates s1 = kp_logTabStates s"
    using assms(4,5) by (simp_all add: s1 save_snapshot_def upd_panel_def panel_at_def)
  have s2: "s2 = updateLogTabState (lv_tab v) (add_chunk l dat) (kp_send (KC_term_write bs) s1)"
    using assms(9,10,12) p by (simp add: assms(14) log_data_def Let_def term_write_def onStateChange_def) (simp add: panel_at_def kp_send_def)
  define old where "old = (case map_of (kp_logTabStates s) (lv_tab v) of Some st \<Rightarrow> st | None \<Rightarrow> new_log_state)"
  have b: "map_of (kp_logTabStates s2) (lv_tab v) = Some (add_chunk l dat old)"
    by (simp add: s2 updateLogTabState_def Let_def kp_send_def p old_def)
  obtain buf where buf: "map_of (lt_logBuffers (add_chunk l dat old)) (view_key v) = Some buf" by (simp add: add_chunk_def Let_def assms(11) [symmetric])
  have "kept_chunks v s2 = lb_chunks buf" using b buf by (simp add: kept_chunks_def)
  moreover have "lb_chunks buf \<noteq> [] \<and> last (lb_chunks buf) = dat" using add_chunk_last [of l dat old buf] buf by (simp add: assms(11))
  ultimately show ?thesis using assms(8) p by (simp add: s2 updateLogTabState_def Let_def kp_send_def)
qed

section \<open>Refreshing by the timer\<close>

lemma index_of_first: "x \<notin> set xs \<Longrightarrow> index_of x (xs @ x # ys) = Some (length xs)"
  by (induction xs) (auto simp: index_of_def)

lemma parsed_item_key: "CHR '':'' \<notin> set type \<Longrightarrow> CHR ''/'' \<notin> set type \<union> set ns \<Longrightarrow> parsed_key (item_key type ns nm) = Some (type, ns, nm)"
  using index_of_first [of "CHR '':''" type "ns @ ''/'' @ nm"] index_of_first [of "CHR ''/''" "type @ '':'' @ ns" nm]
  by (simp add: parsed_key_def item_key_def slice_def)

definition item_types :: "string list" where
  "item_types = [''pod'', ''deploy'', ''svc'', ''cm'', ''secret'']"

definition list_call :: "string \<Rightarrow> int \<Rightarrow> string \<Rightarrow> k8s_call" where
  "list_call type i ns =
     (if type = ''pod'' then KC_GetK8sNamespacePods i ns else if type = ''deploy'' then KC_GetK8sNamespaceDeployments i ns
      else if type = ''svc'' then KC_GetK8sNamespaceServices i ns else if type = ''cm'' then KC_GetK8sNamespaceConfigMaps i ns
      else KC_GetK8sNamespaceSecrets i ns)"

fun item_calls :: "k8s_page \<Rightarrow> string \<times> string \<times> string \<Rightarrow> k8s_call list" where
  "item_calls s (type, ns, nm) =
     (if item_key type ns nm \<in> set (kp_refreshingItems s) then [] else [list_call type (kp_id s) ns]) @
     (if type = ''pod'' then [KC_GetK8sPodDetail (kp_id s) ns nm] else [])"

fun key_of :: "string \<times> string \<times> string \<Rightarrow> string" where
  "key_of (type, ns, nm) = item_key type ns nm"

lemma typed_calls:
  assumes "type \<in> set item_types"
  shows "kp_calls (refresh_typed type ns nm s) = kp_calls s @ item_calls s (type, ns, nm)"
    "set (kp_refreshingItems (refresh_typed type ns nm s)) = insert (item_key type ns nm) (set (kp_refreshingItems s))"
    "kp_id (refresh_typed type ns nm s) = kp_id s"
  using assms
  by (auto simp: item_types_def refresh_typed_def refreshPodItem_def refreshDeploymentItem_def refreshServiceItem_def refreshConfigMapItem_def
      refreshSecretItem_def silentReloadPodDetail_def list_call_def kp_await_def kp_send_def kp_id_def Let_def)

lemma refresh_keys:
  assumes "list_all (\<lambda>(type, ns, nm). type \<in> set item_types \<and> CHR ''/'' \<notin> set ns) items" and "distinct (map key_of items)"
  shows "kp_calls (fold refresh_key (map key_of items) s) = kp_calls s @ concat (map (item_calls s) items)"
  using assms
proof (induction items arbitrary: s)
  case (Cons it items)
  obtain type ns nm where it: "it = (type, ns, nm)" by (cases it) auto
  have t: "type \<in> set item_types" "CHR ''/'' \<notin> set ns" using Cons.prems by (simp_all add: it)
  then have "parsed_key (key_of it) = Some (type, ns, nm)" by (simp add: it) (rule parsed_item_key; auto simp: item_types_def)
  then have k: "refresh_key (key_of it) s = refresh_typed type ns nm s" by (simp add: refresh_key_def)
  have "item_calls (refresh_typed type ns nm s) x = item_calls s x" if "x \<in> set items" for x
  proof -
    obtain a b c where x: "x = (a, b, c)" by (cases x) auto
    have "key_of x \<noteq> key_of it" using Cons.prems(2) imageI [OF that, of key_of] by (auto simp del: key_of.simps imageI)
    then have "item_key a b c \<noteq> item_key type ns nm" by (simp add: x it)
    then show ?thesis by (simp add: x typed_calls(2,3) [OF t(1)])
  qed
  then have m: "map (item_calls (refresh_typed type ns nm s)) items = map (item_calls s) items" by (rule map_cong [OF refl])
  have i: "kp_calls (fold refresh_key (map key_of items) (refresh_typed type ns nm s)) =
      kp_calls (refresh_typed type ns nm s) @ concat (map (item_calls (refresh_typed type ns nm s)) items)"
    by (rule Cons.IH) (use Cons.prems in simp_all)
  have f: "fold refresh_key (map key_of (it # items)) s = fold refresh_key (map key_of items) (refresh_typed type ns nm s)"
    using k by (simp del: key_of.simps)
  show ?case unfolding f i m by (simp only: typed_calls(1) [OF t(1)] it list.map concat.simps append_assoc)
qed simp

text \<open>
  The timer reads back from the keys what is to be refreshed: it asks once for the list of every chosen resource that is not
  being refreshed already, and for the details of every chosen pod. A slash is in no name of a namespace.
\<close>

theorem timer_refreshes_items:
  assumes "kp_autoRefreshingItems s = map key_of items" and "distinct (map key_of items)"
    and "list_all (\<lambda>(type, ns, nm). type \<in> set item_types \<and> CHR ''/'' \<notin> set ns) items"
  shows "kp_calls (auto_refresh_tick s) = kp_calls s @ concat (map (item_calls s) items)"
  using refresh_keys [OF assms(3,2), of s] by (simp add: auto_refresh_tick_def assms(1))

section \<open>The log\<close>

definition chunks_of :: "string \<Rightarrow> log_listener \<Rightarrow> k8s_page \<Rightarrow> string list" where
  "chunks_of tabId l s =
     (case map_of (kp_logTabStates s) tabId of
        Some st \<Rightarrow> (case map_of (lt_logBuffers st) (ll_key l) of Some b \<Rightarrow> lb_chunks b | None \<Rightarrow> [])
      | None \<Rightarrow> [])"

definition receives :: "log_listener \<Rightarrow> k8s_page \<Rightarrow> bool" where
  "receives l s \<longleftrightarrow> ll_panel l < length (kp_panels s) \<and> lp_stream (panel_at (ll_panel l) s) = Some (ll_stream l)"

lemma data_received:
  assumes "receives l s" and "atob dat \<noteq> None"
  shows "receives l (log_data l dat s)" "kp_panels (log_data l dat s) = kp_panels s"
    "chunks_of (lv_tab (lp_view (panel_at (ll_panel l) s))) l (log_data l dat s) =
      (let c = chunks_of (lv_tab (lp_view (panel_at (ll_panel l) s))) l s @ [dat] in drop (length c - MAX_LOG_CHUNKS) c)"
proof -
  have w: "kp_panels (term_write dat s) = kp_panels s" "kp_logTabStates (term_write dat s) = kp_logTabStates s"
    by (simp_all add: term_write_def kp_send_def split: option.split)
  show p: "kp_panels (log_data l dat s) = kp_panels s"
    by (simp add: log_data_def Let_def onStateChange_def updateLogTabState_def w)
  show "receives l (log_data l dat s)" using assms(1) by (simp add: receives_def panel_at_def p)
  have "kp_logTabStates (log_data l dat s) = kp_logTabStates (onStateChange (ll_panel l) (add_chunk l dat) s)"
    using assms by (auto simp: log_data_def Let_def receives_def onStateChange_def updateLogTabState_def panel_at_def w)
  then show "chunks_of (lv_tab (lp_view (panel_at (ll_panel l) s))) l (log_data l dat s) =
      (let c = chunks_of (lv_tab (lp_view (panel_at (ll_panel l) s))) l s @ [dat] in drop (length c - MAX_LOG_CHUNKS) c)"
    by (simp add: chunks_of_def onStateChange_def updateLogTabState_def Let_def add_chunk_def new_log_state_def split: option.split)
qed

text \<open>
  Of the chunks that a stream sends, in their order, a log tab keeps the last two thousand and nothing else.
\<close>

theorem log_keeps_last_chunks:
  assumes "receives l s" and "list_all (\<lambda>d. atob d \<noteq> None) chunks" and "chunks_of (lv_tab (lp_view (panel_at (ll_panel l) s))) l s = []"
  shows "chunks_of (lv_tab (lp_view (panel_at (ll_panel l) s))) l (fold (log_data l) chunks s) = drop (length chunks - 2000) chunks"
proof -
  let ?tab = "lv_tab (lp_view (panel_at (ll_panel l) s))"
  have "receives l (fold (log_data l) chunks s) \<and> kp_panels (fold (log_data l) chunks s) = kp_panels s \<and>
      chunks_of ?tab l (fold (log_data l) chunks s) = drop (length chunks - 2000) chunks"
    using assms(2)
  proof (induction chunks rule: rev_induct)
    case (snoc d ds)
    let ?s = "fold (log_data l) ds s"
    have r: "receives l ?s" and p: "kp_panels ?s = kp_panels s" and c: "chunks_of ?tab l ?s = drop (length ds - 2000) ds" using snoc by auto
    have v: "lv_tab (lp_view (panel_at (ll_panel l) ?s)) = ?tab" by (simp add: panel_at_def p)
    have "atob d \<noteq> None" using snoc.prems by simp
    moreover have "length ds - (length ds - 2000 + 1999) + (length ds - 2000) = length ds - 1999" by arith
    ultimately show ?case
      using data_received [OF r, of d] p c v by (simp add: Let_def MAX_LOG_CHUNKS_def)
  qed (use assms in simp)
  then show ?thesis by blast
qed

text \<open>
  A panel that is started a second time before the first start has its answer gets two streams, and stopping it, and closing its
  tab, stops only the second; the first goes on and its events stay registered.
\<close>

theorem second_start_leaks_stream:
  assumes "kp_panel s = Some i" and "i < length (kp_panels s)" and "a \<noteq> b" and "b \<noteq> []"
    and "s1 = start_answered i key c n (K_ok a) s" and "s2 = start_answered i key c n (K_ok b) s1" and "s3 = stop_logs i s2"
  shows "kp_calls s3 = kp_calls s @ [KC_StopK8sPodLogs b] \<and> a \<in> ll_stream ` set (kp_listeners s3) \<and>
    kp_calls (k8s_closeTab (lv_tab (lp_view (panel_at i s))) s3) = kp_calls s3"
proof -
  let ?tab = "lv_tab (lp_view (panel_at i s))"
  have answered: "kp_calls s' = kp_calls x \<and> kp_listeners s' = kp_listeners x @ [\<lparr>ll_panel = i, ll_stream = st, ll_key = key, ll_container = c, ll_tailLines = n\<rparr>] \<and>
      kp_panels s' = (kp_panels x)[i := (kp_panels x ! i)\<lparr>lp_stream := Some st, lp_events := Some st\<rparr>]"
    if "s' = start_answered i key c n (K_ok st) x" "i < length (kp_panels x)" for s' x st
    using that by (simp add: start_answered_def Let_def upd_panel_def panel_at_def onStateChange_def updateLogTabState_def kp_settled_def)
  have l1: "i < length (kp_panels s1)" using answered [OF assms(5,2)] assms(2) by simp
  have p: "panel_at i s2 = (panel_at i s)\<lparr>lp_stream := Some b, lp_events := Some b\<rparr>" "i < length (kp_panels s2)" "kp_calls s2 = kp_calls s"
    "a \<in> ll_stream ` set (kp_listeners s2)"
    using answered [OF assms(5,2)] answered [OF assms(6) l1] assms(2) by (simp_all add: panel_at_def)
  have calls: "kp_calls s3 = kp_calls s @ [KC_StopK8sPodLogs b]" and l: "a \<in> ll_stream ` set (kp_listeners s3)"
    using p assms(3,4) by (auto simp: assms(7) stop_logs_def stop_stream_def offEvents_def has_stream_def onStateChange_def updateLogTabState_def
        upd_panel_def panel_at_def kp_send_def Let_def image_iff)
  have "\<exists>st. map_of (kp_logTabStates s3) ?tab = Some st \<and> lt_logStreamID st = None"
    using p assms(4) by (simp add: assms(7) stop_logs_def stop_stream_def offEvents_def has_stream_def onStateChange_def updateLogTabState_def
        upd_panel_def panel_at_def kp_send_def Let_def)
  then have "kp_calls (k8s_closeTab ?tab s3) = kp_calls s3" by (auto simp: k8s_closeTab_def stop_tab_stream_def has_stream_def Let_def)
  with calls l show ?thesis by simp
qed

text \<open>
  Closing the tabs at the right of one, the shown tab among them, leaves a tab active that is not there any more.
\<close>

lemma closed_tab_stays_active: "kp_activeTabId (close_right idx s) = kp_activeTabId s" "kp_activeTabId (close_left idx s) = kp_activeTabId s"
proof -
  have "kp_activeTabId (fold stop_tab_stream ids s) = kp_activeTabId s" for ids
    by (induction ids arbitrary: s) (auto simp: stop_tab_stream_def kp_send_def split: option.split)
  then show "kp_activeTabId (close_right idx s) = kp_activeTabId s" "kp_activeTabId (close_left idx s) = kp_activeTabId s"
    by (simp_all add: close_right_def close_left_def closeInnerTabs_def Let_def)
qed

section \<open>Witnesses\<close>

definition no_json :: "string \<Rightarrow> string + jsval" where
  "no_json = (\<lambda>s. Inl [])"

definition ex_cluster :: cluster_info where
  "ex_cluster = \<lparr>cl_version = ''1.30'', cl_platform = ''linux'', cl_nodes = [], cl_namespaces = [\<lparr>na_name = ''a'', na_status = ''Active''\<rparr>]\<rparr>"

definition ex_k8s_asset :: "int \<Rightarrow> k8s_asset" where
  "ex_k8s_asset i = \<lparr>ka_ID = i, ka_Config = []\<rparr>"

definition ex_k8s_page :: k8s_page where
  "ex_k8s_page = (empty_page (\<lambda>k. k) [(2, snapshot_of (empty_page (\<lambda>k. k) [] (ex_k8s_asset 2)))] (ex_k8s_asset 1))
     \<lparr>kp_loading := False, kp_info := Some ex_cluster, kp_activeTabId := ''ns:a'', kp_pods := kept [(''a'', Some [])]\<rparr>"

theorem k8s_page_consistent_witness:
  "list_ex is_info_wait (kp_waits (mounted (\<lambda>k. k) no_json [] (ex_k8s_asset 1))) \<and>
   distinct (map it_id (kp_innerTabs (mounted (\<lambda>k. k) no_json [] (ex_k8s_asset 1))))"
proof -
  have "k8s_cache_ok []" by (simp add: k8s_cache_ok_def)
  note c = k8s_page_consistent [OF k8s_run_refl [of "\<lambda>k. k" no_json "mounted (\<lambda>k. k) no_json [] (ex_k8s_asset 1)"] this]
  have "kp_loading (mounted (\<lambda>k. k) no_json [] (ex_k8s_asset 1))" by code_simp
  then show ?thesis using c by blast
qed

theorem other_cluster_keeps_page_witness:
  "\<exists>snap. map_of (kp_cache (rendered no_json (rendered no_json ex_k8s_page (show_asset (ex_k8s_asset 2) ex_k8s_page))
       (info_answered (\<lambda>k. k) False (defaultNamespace no_json (ex_k8s_asset 2)) (K_ok ex_cluster)
         (rendered no_json ex_k8s_page (show_asset (ex_k8s_asset 2) ex_k8s_page))))) 2 = Some snap \<and> snapshot_data snap = page_data ex_k8s_page"
proof -
  have a: "map_of (kp_cache ex_k8s_page) (ka_ID (ex_k8s_asset 2)) \<noteq> None" and b: "ka_ID (ex_k8s_asset 2) \<noteq> kp_id ex_k8s_page"
    by (simp_all add: ex_k8s_page_def ex_k8s_asset_def empty_page_def kp_id_def)
  have "ka_ID (ex_k8s_asset 2) = 2" by (simp add: ex_k8s_asset_def)
  then show ?thesis
    using other_cluster_keeps_page [where parse_json = no_json and t = "\<lambda>k. k" and info = ex_cluster, OF a b refl refl] by simp
qed

theorem failing_namespace_asked_again_witness:
  "kp_calls ((fails_once no_json ''a'' ''down'' ^^ 3) ex_k8s_page) = replicate 3 (KC_GetK8sNamespaceResources 1 ''a'')"
proof -
  let ?n = "\<lparr>na_name = ''a'', na_status = ''Active''\<rparr>"
  have "active_ns ex_k8s_page = Some ?n" by code_simp
  moreover have "kp_panel ex_k8s_page = None" "\<not> is_loaded (na_name ?n) (kp_namespaces ex_k8s_page)" "kp_calls ex_k8s_page = []" "kp_id ex_k8s_page = 1"
    by (simp_all add: ex_k8s_page_def empty_page_def is_loaded_def no_loads_def kp_id_def ex_k8s_asset_def)
  ultimately show ?thesis using failing_namespace_asked_again [where s = ex_k8s_page and n = ?n and parse_json = no_json and e = "''down''" and k = 3] by simp
qed

definition ex_pod :: "string \<Rightarrow> pod_detail" where
  "ex_pod ns = \<lparr>pd_name = ''web'', pd_namespace = ns, pd_status = ''Running'', pd_node_name = [], pd_pod_ip = [], pd_host_ip = [],
     pd_creation_time = [], pd_age = [], pd_ready = [], pd_restart_count = 0, pd_qos_class = [],
     pd_containers = [\<lparr>ct_name = ''main'', ct_image = [], ct_state = ''Running'', ct_ready = True, ct_restart_count = 0\<rparr>],
     pd_conditions = [], pd_events = [], pd_labels = [], pd_annotations = [], pd_yaml = []\<rparr>"

definition ex_log_view :: "string \<Rightarrow> log_view" where
  "ex_log_view ns = \<lparr>lv_deploy = False, lv_tab = ''log:'' @ ns @ '':web'', lv_namespace = ns, lv_podName = ''web'', lv_container = ''main'', lv_tailLines = 200\<rparr>"

definition ex_listener :: log_listener where
  "ex_listener = \<lparr>ll_panel = 0, ll_stream = ''st1'', ll_key = view_key (ex_log_view ''b''), ll_container = ''main'', ll_tailLines = 200\<rparr>"

definition ex_logs :: k8s_page where
  "ex_logs = ex_k8s_page\<lparr>kp_activeTabId := ''log:a:web'', kp_details := kept [(''a/web'', Some (ex_pod ''a'')), (''b/web'', Some (ex_pod ''b''))],
     kp_innerTabs := [\<lparr>it_id = ''overview'', it_label = []\<rparr>, \<lparr>it_id = ''log:a:web'', it_label = []\<rparr>, \<lparr>it_id = ''log:b:web'', it_label = []\<rparr>],
     kp_logTabStates := [(''log:a:web'', new_log_state\<lparr>lt_logStreamID := Some ''st1''\<rparr>), (''log:b:web'', new_log_state)],
     kp_panels := [\<lparr>lp_stream = Some ''st1'', lp_events = Some ''st1'', lp_view = ex_log_view ''a''\<rparr>], kp_panel := Some 0,
     kp_listeners := [ex_listener]\<rparr>"

theorem same_named_pods_share_logs_witness:
  "last (kept_chunks (ex_log_view ''b'') (log_data ex_listener ''aGk='' (rendered no_json ex_logs (k8s_openTab ''log:b:web'' [] ex_logs)))) = ''aGk=''"
proof -
  have v: "log_view_of (k8s_openTab ''log:b:web'' [] ex_logs) = Some (ex_log_view ''b'')" by code_simp
  have i: "starts_with ''log:b:web'' ''log:''" "tab_open ''log:b:web'' ex_logs" by (simp_all add: starts_with_iff tab_open_def ex_logs_def)
  have b: "atob ''aGk='' = Some [104, 105]" by code_simp
  have p: "panel_at 0 ex_logs = \<lparr>lp_stream = Some ''st1'', lp_events = Some ''st1'', lp_view = ex_log_view ''a''\<rparr>"
    by (simp add: ex_logs_def panel_at_def)
  have k: "kp_panel ex_logs = Some 0" "0 < length (kp_panels ex_logs)" by (simp_all add: ex_logs_def)
  have d: "lv_deploy (lp_view (panel_at 0 ex_logs)) = lv_deploy (ex_log_view ''b'')"
    "panel_shows (lp_view (panel_at 0 ex_logs)) = panel_shows (ex_log_view ''b'')"
    "lv_tab (ex_log_view ''b'') \<noteq> lv_tab (lp_view (panel_at 0 ex_logs))"
    "lp_stream (panel_at 0 ex_logs) = Some (ll_stream ex_listener)"
    by (simp_all add: p ex_log_view_def panel_shows_def ex_listener_def)
  have l: "ll_panel ex_listener = 0" "ll_key ex_listener = view_key (ex_log_view ''b'')" by (simp_all add: ex_listener_def)
  show ?thesis
    using same_named_pods_share_logs [where parse_json = no_json, OF i v k d l b refl refl] by blast
qed

theorem log_keeps_last_chunks_witness:
  "chunks_of ''log:a:web'' ex_listener (fold (log_data ex_listener) [''aGk='', ''aGk=''] ex_logs) = [''aGk='', ''aGk='']"
proof -
  have "receives ex_listener ex_logs" by (simp add: receives_def ex_listener_def ex_logs_def panel_at_def)
  moreover have "list_all (\<lambda>d. atob d \<noteq> None) [''aGk='', ''aGk='']" by code_simp
  moreover have t: "lv_tab (lp_view (panel_at (ll_panel ex_listener) ex_logs)) = ''log:a:web''"
    by (simp add: ex_listener_def ex_logs_def panel_at_def ex_log_view_def)
  moreover have "chunks_of ''log:a:web'' ex_listener ex_logs = []" by (simp add: chunks_of_def ex_logs_def new_log_state_def)
  ultimately show ?thesis using log_keeps_last_chunks [of ex_listener ex_logs "[''aGk='', ''aGk='']"] by simp
qed

end
