(* ===== verification/SqlLex.thy ===== *)
theory SqlLex
  imports Prelude
begin

text \<open>
  How a database server splits SQL text into tokens: the specification the SQL builders are judged
  against. A dialect is the quote of its identifiers and whether a backslash escapes the next
  character inside a string literal (MySQL's default; not PostgreSQL's). The lexer is a machine
  that reads one character at a time, so that reading a concatenation is reading its parts in turn.
\<close>

datatype sql_tok = TStr string | TId string | TWord string | TSym char

record dialect =
  id_quote :: char
  str_escapes :: bool

datatype lex_mode =
    Plain
  | InWord string
  | InStr string
  | InEsc string
  | StrEnd string
  | InId string
  | IdEnd string

type_synonym lex_state = "lex_mode \<times> sql_tok list"

text \<open>Characters of keywords, numbers and operators that form one word; the rest are symbols.\<close>

definition is_word_char :: "char \<Rightarrow> bool" where
  "is_word_char c \<longleftrightarrow> is_digit c \<or> is_upper c \<or> is_lower c \<or> c = CHR 0x5F"

definition start_tok :: "dialect \<Rightarrow> sql_tok list \<Rightarrow> char \<Rightarrow> lex_state" where
  "start_tok d ts c =
     (if c = SQ then (InStr [], ts)
      else if c = id_quote d then (InId [], ts)
      else if is_space c then (Plain, ts)
      else if is_word_char c then (InWord [c], ts)
      else (Plain, ts @ [TSym c]))"

fun lex_step :: "dialect \<Rightarrow> lex_state \<Rightarrow> char \<Rightarrow> lex_state" where
  "lex_step d (Plain, ts) c = start_tok d ts c"
| "lex_step d (InWord w, ts) c =
     (if is_word_char c then (InWord (w @ [c]), ts) else start_tok d (ts @ [TWord w]) c)"
| "lex_step d (InStr s, ts) c =
     (if c = SQ then (StrEnd s, ts)
      else if str_escapes d \<and> c = BSL then (InEsc s, ts)
      else (InStr (s @ [c]), ts))"
| "lex_step d (InEsc s, ts) c = (InStr (s @ [c]), ts)"
| "lex_step d (StrEnd s, ts) c =
     (if c = SQ then (InStr (s @ [SQ]), ts) else start_tok d (ts @ [TStr s]) c)"
| "lex_step d (InId s, ts) c = (if c = id_quote d then (IdEnd s, ts) else (InId (s @ [c]), ts))"
| "lex_step d (IdEnd s, ts) c =
     (if c = id_quote d then (InId (s @ [c]), ts) else start_tok d (ts @ [TId s]) c)"

fun lex_run :: "dialect \<Rightarrow> lex_state \<Rightarrow> string \<Rightarrow> lex_state" where
  "lex_run d st [] = st"
| "lex_run d st (c # s) = lex_run d (lex_step d st c) s"

text \<open>The end of the text ends a word or a closed token; an open literal or identifier is an error.\<close>

fun lex_end :: "lex_state \<Rightarrow> sql_tok list option" where
  "lex_end (Plain, ts) = Some ts"
| "lex_end (InWord w, ts) = Some (ts @ [TWord w])"
| "lex_end (StrEnd s, ts) = Some (ts @ [TStr s])"
| "lex_end (IdEnd s, ts) = Some (ts @ [TId s])"
| "lex_end (InStr s, ts) = None"
| "lex_end (InEsc s, ts) = None"
| "lex_end (InId s, ts) = None"

definition sql_tokens :: "dialect \<Rightarrow> string \<Rightarrow> sql_tok list option" where
  "sql_tokens d s = lex_end (lex_run d (Plain, []) s)"

definition mysql :: dialect where
  "mysql = \<lparr>id_quote = BT, str_escapes = True\<rparr>"

definition postgres :: dialect where
  "postgres = \<lparr>id_quote = DQ, str_escapes = False\<rparr>"

section \<open>Reading a concatenation\<close>

lemma lex_run_append: "lex_run d st (s @ t) = lex_run d (lex_run d st s) t"
  by (induction s arbitrary: st) simp_all

text \<open>Tokens already produced are carried along unchanged.\<close>

definition prefix_toks :: "sql_tok list \<Rightarrow> lex_state \<Rightarrow> lex_state" where
  "prefix_toks us st = (fst st, us @ snd st)"

lemma start_tok_prefix: "start_tok d (us @ ts) c = prefix_toks us (start_tok d ts c)"
  by (simp add: start_tok_def prefix_toks_def)

lemma lex_step_prefix: "lex_step d (m, us @ ts) c = prefix_toks us (lex_step d (m, ts) c)"
proof (cases m)
  case (InWord w)
  then show ?thesis
    using start_tok_prefix [of d us "ts @ [TWord w]" c] by (simp add: prefix_toks_def)
next
  case (StrEnd s)
  then show ?thesis
    using start_tok_prefix [of d us "ts @ [TStr s]" c] by (simp add: prefix_toks_def)
next
  case (IdEnd s)
  then show ?thesis
    using start_tok_prefix [of d us "ts @ [TId s]" c] by (simp add: prefix_toks_def)
qed (simp_all add: start_tok_prefix, simp_all add: prefix_toks_def)

lemma lex_run_prefix: "lex_run d (m, us @ ts) s = prefix_toks us (lex_run d (m, ts) s)"
proof (induction s arbitrary: m ts)
  case Nil
  then show ?case by (simp add: prefix_toks_def)
next
  case (Cons c s)
  obtain m' ts' where st: "lex_step d (m, ts) c = (m', ts')" by fastforce
  have "lex_step d (m, us @ ts) c = (m', us @ ts')"
    by (simp add: lex_step_prefix st prefix_toks_def)
  then show ?case by (simp add: st Cons.IH)
qed

lemma lex_end_prefix: "lex_end (prefix_toks us st) = map_option ((@) us) (lex_end st)"
  by (cases st rule: lex_end.cases) (simp_all add: prefix_toks_def)

lemma lex_run_tokens: "lex_end (lex_run d (Plain, us) s) = map_option ((@) us) (sql_tokens d s)"
  using lex_run_prefix [of d Plain us "[]" s]
  by (simp add: sql_tokens_def lex_end_prefix)

text \<open>
  A separator ends whatever token is complete before it: white space or a symbol. This is the rule
  by which the tokens of a composed statement are those of its parts.
\<close>

definition separator :: "dialect \<Rightarrow> char \<Rightarrow> bool" where
  "separator d c \<longleftrightarrow> c \<noteq> SQ \<and> c \<noteq> id_quote d \<and> \<not> is_word_char c"

lemma lex_step_separator:
  "separator d c \<Longrightarrow> lex_end st = Some us \<Longrightarrow> lex_step d st c = start_tok d us c"
  by (cases st rule: lex_end.cases) (auto simp: separator_def)

lemma lex_run_separator:
  assumes "sql_tokens d s = Some us" and "separator d c"
  shows "lex_run d (Plain, ts) (s @ c # t) = lex_run d (start_tok d (ts @ us) c) t"
proof -
  have "lex_end (lex_run d (Plain, ts) s) = Some (ts @ us)"
    using assms(1) by (simp add: lex_run_tokens)
  with assms(2) have "lex_step d (lex_run d (Plain, ts) s) c = start_tok d (ts @ us) c"
    by (rule lex_step_separator)
  then show ?thesis by (simp add: lex_run_append)
qed

lemma sql_tokens_separator:
  assumes "sql_tokens d s = Some us" and "separator d c"
  shows "sql_tokens d (s @ c # t) = map_option ((@) us) (sql_tokens d (c # t))"
proof -
  have "lex_run d (Plain, []) (s @ c # t) = lex_run d (Plain, us) (c # t)"
    using lex_run_separator [OF assms, of "[]"] by simp
  then show ?thesis by (simp only: sql_tokens_def [of d "s @ c # t"] lex_run_tokens)
qed

lemma sql_tokens_Nil [simp]: "sql_tokens d [] = Some []"
  by (simp add: sql_tokens_def)

lemma sql_tokens_space [simp]:
  "is_space c \<Longrightarrow> separator d c \<Longrightarrow> sql_tokens d (c # t) = sql_tokens d t"
  by (simp add: sql_tokens_def start_tok_def separator_def)

lemma sql_tokens_symbol [simp]:
  "separator d c \<Longrightarrow> \<not> is_space c \<Longrightarrow> sql_tokens d (c # t) = map_option ((#) (TSym c)) (sql_tokens d t)"
  using lex_run_tokens [of d "[TSym c]" t]
  by (simp add: sql_tokens_def start_tok_def separator_def, cases "lex_end (lex_run d (Plain, []) t)") auto

section \<open>Quoted tokens\<close>

lemma lex_run_InStr:
  "str_escapes d \<longrightarrow> BSL \<notin> set s \<Longrightarrow>
   lex_run d (InStr a, ts) (double_char SQ s) = (InStr (a @ s), ts)"
  by (induction s arbitrary: a) auto

lemma lex_run_InId: "lex_run d (InId a, ts) (double_char (id_quote d) s) = (InId (a @ s), ts)"
  by (induction s arbitrary: a) auto

lemma lex_run_string:
  "str_escapes d \<longrightarrow> BSL \<notin> set s \<Longrightarrow>
   lex_run d (Plain, ts) (quote_with SQ s @ t) = lex_run d (StrEnd s, ts) t"
  by (simp add: quote_with_def start_tok_def lex_run_append lex_run_InStr)

lemma lex_run_ident:
  "id_quote d \<noteq> SQ \<Longrightarrow>
   lex_run d (Plain, ts) (quote_with (id_quote d) s @ t) = lex_run d (IdEnd s, ts) t"
  by (simp add: quote_with_def start_tok_def lex_run_append lex_run_InId)

lemma sql_tokens_string: "str_escapes d \<longrightarrow> BSL \<notin> set s \<Longrightarrow> sql_tokens d (quote_with SQ s) = Some [TStr s]"
  using lex_run_string [of d s "[]" "[]"] by (simp add: sql_tokens_def)

lemma sql_tokens_ident: "id_quote d \<noteq> SQ \<Longrightarrow> sql_tokens d (quote_with (id_quote d) s) = Some [TId s]"
  using lex_run_ident [of d "[]" s "[]"] by (simp add: sql_tokens_def)

section \<open>Words and separators of generated SQL\<close>

text \<open>Reading on inside a word; \<open>w\<close> is what has been read of it.\<close>

definition word_tokens :: "dialect \<Rightarrow> string \<Rightarrow> string \<Rightarrow> sql_tok list option" where
  "word_tokens d w s = lex_end (lex_run d (InWord w, []) s)"

lemma sql_tokens_word:
  "is_word_char c \<Longrightarrow> c \<noteq> SQ \<Longrightarrow> c \<noteq> id_quote d \<Longrightarrow> \<not> is_space c \<Longrightarrow>
   sql_tokens d (c # s) = word_tokens d [c] s"
  by (simp add: sql_tokens_def word_tokens_def start_tok_def)

lemma word_tokens_Nil: "word_tokens d w [] = Some [TWord w]"
  by (simp add: word_tokens_def)

lemma word_tokens_Cons: "is_word_char c \<Longrightarrow> word_tokens d w (c # s) = word_tokens d (w @ [c]) s"
  by (simp add: word_tokens_def)

lemma word_tokens_separator:
  assumes "separator d c"
  shows "word_tokens d w (c # s) = map_option ((#) (TWord w)) (sql_tokens d (c # s))"
proof -
  have "lex_step d (InWord w, []) c = lex_step d (Plain, [TWord w]) c"
    using assms by (simp add: separator_def)
  then have "word_tokens d w (c # s) = lex_end (lex_run d (Plain, [TWord w]) (c # s))"
    by (simp add: word_tokens_def)
  also have "\<dots> = map_option ((@) [TWord w]) (sql_tokens d (c # s))"
    by (rule lex_run_tokens)
  finally show ?thesis by (cases "sql_tokens d (c # s)") simp_all
qed

lemma word_tokens_string:
  "str_escapes d \<longrightarrow> BSL \<notin> set s \<Longrightarrow>
   word_tokens d w (quote_with SQ s) = Some [TWord w, TStr s]"
  using lex_run_string [of d s "[TWord w]" "[]"]
  by (simp add: word_tokens_def quote_with_def start_tok_def is_word_char_def is_digit_def is_upper_def is_lower_def)

lemma sql_tokens_append:
  "sql_tokens d s = Some us \<Longrightarrow> separator d c \<Longrightarrow> sql_tokens d (c # t) = Some vs \<Longrightarrow>
   sql_tokens d (s @ c # t) = Some (us @ vs)"
  by (simp add: sql_tokens_separator)

text \<open>The two dialects the drivers name.\<close>

lemma mysql_simps [simp]: "id_quote mysql = BT" "str_escapes mysql"
  by (simp_all add: mysql_def)

lemma postgres_simps [simp]: "id_quote postgres = DQ" "\<not> str_escapes postgres"
  by (simp_all add: postgres_def)

definition sql_dialect :: "bool \<Rightarrow> dialect" where
  "sql_dialect pg = (if pg then postgres else mysql)"

lemma id_quote_dialect [simp]: "id_quote (sql_dialect pg) = (if pg then DQ else BT)"
  by (simp add: sql_dialect_def)

lemma str_escapes_dialect [simp]: "str_escapes (sql_dialect pg) \<longleftrightarrow> \<not> pg"
  by (simp add: sql_dialect_def)

lemmas char_class = is_word_char_def is_digit_def is_upper_def is_lower_def is_space_def separator_def

lemma separator_dialect:
  "separator (sql_dialect pg) c \<longleftrightarrow> c \<noteq> SQ \<and> c \<noteq> (if pg then DQ else BT) \<and> \<not> is_word_char c"
  by (simp add: separator_def)

lemmas sql_lex = sql_tokens_word word_tokens_Nil word_tokens_Cons word_tokens_separator
  word_tokens_string sql_tokens_separator sql_tokens_string sql_tokens_ident char_class

text \<open>
  Interface: a text that separates the parts of a list, and the tokens it stands for. The builders
  join columns, values and conditions with four such separators.
\<close>

locale sql_separator =
  fixes d :: dialect
    and sep :: string
    and sep_toks :: "sql_tok list"
  assumes sep_tokens:
    "sql_tokens d s = Some us \<Longrightarrow> sql_tokens d t = Some vs \<Longrightarrow>
     sql_tokens d (s @ sep @ t) = Some (us @ sep_toks @ vs)"
begin

lemma join_tokens:
  "(\<And>x. x \<in> set xs \<Longrightarrow> sql_tokens d (f x) = Some (g x)) \<Longrightarrow>
   sql_tokens d (join sep (map f xs)) = Some (join sep_toks (map g xs))"
proof (induction xs)
  case Nil
  then show ?case by simp
next
  case (Cons x xs)
  then show ?case
    by (cases "xs = []") (simp_all add: join_Cons sep_tokens)
qed

end

interpretation comma: sql_separator "sql_dialect pg" "'', ''" "[TSym CHR '','']" for pg
  by unfold_locales (auto simp: sql_lex)

interpretation conj: sql_separator "sql_dialect pg" "'' AND ''" "[TWord ''AND'']" for pg
  by unfold_locales (auto simp: sql_lex)

interpretation disj: sql_separator "sql_dialect pg" "'' OR ''" "[TWord ''OR'']" for pg
  by unfold_locales (auto simp: sql_lex)

interpretation dot: sql_separator "sql_dialect pg" "''.''" "[TSym CHR ''.'']" for pg
  by unfold_locales (auto simp: sql_lex)

end
