(* ===== verification/TableFilterOperators.thy ===== *)
theory TableFilterOperators
  imports Prelude
begin

text \<open>
  The comparison operators of the table filters, \<^verbatim>\<open>lib/tableFilterOperators.ts\<close>: the operators, the
  ones offered in the menu, the translation keys and which of them take a value or a range.
\<close>

datatype filter_op =
    Op_eq | Op_ne | Op_lt | Op_le | Op_gt | Op_ge
  | Op_contains | Op_not_contains
  | Op_begins_with | Op_not_begins_with
  | Op_ends_with | Op_not_ends_with
  | Op_is_null | Op_is_not_null | Op_is_empty | Op_is_not_empty
  | Op_between | Op_not_between
  | Op_in_list | Op_not_in_list
  | Op_like | Op_not_like

text \<open>The string that names an operator in the source.\<close>

fun op_text :: "filter_op \<Rightarrow> string" where
  "op_text Op_eq = ''=''"
| "op_text Op_ne = ''!=''"
| "op_text Op_lt = ''<''"
| "op_text Op_le = ''<=''"
| "op_text Op_gt = ''>''"
| "op_text Op_ge = ''>=''"
| "op_text Op_contains = ''contains''"
| "op_text Op_not_contains = ''not_contains''"
| "op_text Op_begins_with = ''begins_with''"
| "op_text Op_not_begins_with = ''not_begins_with''"
| "op_text Op_ends_with = ''ends_with''"
| "op_text Op_not_ends_with = ''not_ends_with''"
| "op_text Op_is_null = ''is_null''"
| "op_text Op_is_not_null = ''is_not_null''"
| "op_text Op_is_empty = ''is_empty''"
| "op_text Op_is_not_empty = ''is_not_empty''"
| "op_text Op_between = ''between''"
| "op_text Op_not_between = ''not_between''"
| "op_text Op_in_list = ''in_list''"
| "op_text Op_not_in_list = ''not_in_list''"
| "op_text Op_like = ''like''"
| "op_text Op_not_like = ''not_like''"

definition TABLE_FILTER_OPERATOR_OPTIONS :: "filter_op list" where
  "TABLE_FILTER_OPERATOR_OPTIONS =
     [Op_eq, Op_ne, Op_lt, Op_le, Op_gt, Op_ge, Op_contains, Op_not_contains, Op_begins_with,
      Op_not_begins_with, Op_ends_with, Op_not_ends_with, Op_is_null, Op_is_not_null, Op_is_empty,
      Op_is_not_empty, Op_between, Op_not_between, Op_in_list, Op_not_in_list]"

fun TABLE_FILTER_OPERATOR_LABEL_KEYS :: "filter_op \<Rightarrow> string" where
  "TABLE_FILTER_OPERATOR_LABEL_KEYS Op_eq = ''query.filterOperatorIs''"
| "TABLE_FILTER_OPERATOR_LABEL_KEYS Op_ne = ''query.filterOperatorIsNot''"
| "TABLE_FILTER_OPERATOR_LABEL_KEYS Op_lt = ''query.filterOperatorLessThan''"
| "TABLE_FILTER_OPERATOR_LABEL_KEYS Op_le = ''query.filterOperatorLessThanOrEqual''"
| "TABLE_FILTER_OPERATOR_LABEL_KEYS Op_gt = ''query.filterOperatorGreaterThan''"
| "TABLE_FILTER_OPERATOR_LABEL_KEYS Op_ge = ''query.filterOperatorGreaterThanOrEqual''"
| "TABLE_FILTER_OPERATOR_LABEL_KEYS Op_contains = ''query.filterOperatorContains''"
| "TABLE_FILTER_OPERATOR_LABEL_KEYS Op_not_contains = ''query.filterOperatorDoesNotContain''"
| "TABLE_FILTER_OPERATOR_LABEL_KEYS Op_begins_with = ''query.filterOperatorBeginsWith''"
| "TABLE_FILTER_OPERATOR_LABEL_KEYS Op_not_begins_with = ''query.filterOperatorDoesNotBeginWith''"
| "TABLE_FILTER_OPERATOR_LABEL_KEYS Op_ends_with = ''query.filterOperatorEndsWith''"
| "TABLE_FILTER_OPERATOR_LABEL_KEYS Op_not_ends_with = ''query.filterOperatorDoesNotEndWith''"
| "TABLE_FILTER_OPERATOR_LABEL_KEYS Op_is_null = ''query.filterOperatorIsNull''"
| "TABLE_FILTER_OPERATOR_LABEL_KEYS Op_is_not_null = ''query.filterOperatorIsNotNull''"
| "TABLE_FILTER_OPERATOR_LABEL_KEYS Op_is_empty = ''query.filterOperatorIsEmpty''"
| "TABLE_FILTER_OPERATOR_LABEL_KEYS Op_is_not_empty = ''query.filterOperatorIsNotEmpty''"
| "TABLE_FILTER_OPERATOR_LABEL_KEYS Op_between = ''query.filterOperatorIsBetween''"
| "TABLE_FILTER_OPERATOR_LABEL_KEYS Op_not_between = ''query.filterOperatorIsNotBetween''"
| "TABLE_FILTER_OPERATOR_LABEL_KEYS Op_in_list = ''query.filterOperatorIsInList''"
| "TABLE_FILTER_OPERATOR_LABEL_KEYS Op_not_in_list = ''query.filterOperatorIsNotInList''"
| "TABLE_FILTER_OPERATOR_LABEL_KEYS Op_like = ''query.filterOperatorContains''"
| "TABLE_FILTER_OPERATOR_LABEL_KEYS Op_not_like = ''query.filterOperatorDoesNotContain''"

definition filterOperatorNeedsValue :: "filter_op \<Rightarrow> bool" where
  "filterOperatorNeedsValue oper \<longleftrightarrow>
     oper \<notin> set [Op_is_null, Op_is_not_null, Op_is_empty, Op_is_not_empty]"

definition filterOperatorNeedsRange :: "filter_op \<Rightarrow> bool" where
  "filterOperatorNeedsRange oper \<longleftrightarrow> oper = Op_between \<or> oper = Op_not_between"

lemma needs_range_needs_value: "filterOperatorNeedsRange oper \<Longrightarrow> filterOperatorNeedsValue oper"
  by (auto simp: filterOperatorNeedsRange_def filterOperatorNeedsValue_def)

lemma distinct_options: "distinct TABLE_FILTER_OPERATOR_OPTIONS"
  by (simp add: TABLE_FILTER_OPERATOR_OPTIONS_def)

end
