(* ===== verification/SqlCond.thy ===== *)
theory SqlCond
  imports SqlLex TableFilterOperators
begin

text \<open>
  What a condition on one column means: the abstract specification of the WHERE clauses the client
  builds. A condition is a tree, not a text; \<open>cond_toks\<close> are the tokens that write it and
  \<open>cond_value\<close> its truth value in SQL's three-valued logic for a column value (\<open>None\<close> is NULL).
  How the server orders texts and what its LIKE matches is a parameter.
\<close>

datatype sql_cmp = Cmp_eq | Cmp_ne | Cmp_lt | Cmp_le | Cmp_gt | Cmp_ge

datatype sql_cond =
    C_null bool
  | C_empty bool
  | C_cmp sql_cmp string
  | C_like bool string
  | C_between bool "string option" "string option"
  | C_in bool "string option list"

text \<open>The flag of a condition says that it is the negated form.\<close>

section \<open>Tokens\<close>

fun cmp_syms :: "sql_cmp \<Rightarrow> string" where
  "cmp_syms Cmp_eq = ''=''"
| "cmp_syms Cmp_ne = ''<>''"
| "cmp_syms Cmp_lt = ''<''"
| "cmp_syms Cmp_le = ''<=''"
| "cmp_syms Cmp_gt = ''>''"
| "cmp_syms Cmp_ge = ''>=''"

definition not_toks :: "bool \<Rightarrow> sql_tok list" where
  "not_toks n = (if n then [TWord ''NOT''] else [])"

definition lit_toks :: "string option \<Rightarrow> sql_tok list" where
  "lit_toks v = (case v of None \<Rightarrow> [TWord ''NULL''] | Some s \<Rightarrow> [TStr s])"

fun cond_toks :: "string \<Rightarrow> sql_cond \<Rightarrow> sql_tok list" where
  "cond_toks col (C_null n) = [TId col, TWord ''IS''] @ not_toks n @ [TWord ''NULL'']"
| "cond_toks col (C_empty n) =
     (if n then [TSym CHR ''('', TId col, TWord ''IS'', TWord ''NOT'', TWord ''NULL'', TWord ''AND'', TId col,
                 TSym CHR ''<'', TSym CHR ''>'', TStr [], TSym CHR '')'']
      else [TSym CHR ''('', TId col, TWord ''IS'', TWord ''NULL'', TWord ''OR'', TId col,
            TSym CHR ''='', TStr [], TSym CHR '')''])"
| "cond_toks col (C_cmp c v) = TId col # map TSym (cmp_syms c) @ [TStr v]"
| "cond_toks col (C_like n p) = [TId col] @ not_toks n @ [TWord ''LIKE'', TStr p]"
| "cond_toks col (C_between n a b) =
     [TId col] @ not_toks n @ [TWord ''BETWEEN''] @ lit_toks a @ [TWord ''AND''] @ lit_toks b"
| "cond_toks col (C_in n vs) =
     [TId col] @ not_toks n @ [TWord ''IN'', TSym CHR ''(''] @ join [TSym CHR '',''] (map lit_toks vs) @ [TSym CHR '')'']"

text \<open>The texts a condition writes as literals.\<close>

fun cond_texts :: "sql_cond \<Rightarrow> string list" where
  "cond_texts (C_null n) = []"
| "cond_texts (C_empty n) = []"
| "cond_texts (C_cmp c v) = [v]"
| "cond_texts (C_like n p) = [p]"
| "cond_texts (C_between n a b) = map the (filter (\<lambda>v. v \<noteq> None) [a, b])"
| "cond_texts (C_in n vs) = map the (filter (\<lambda>v. v \<noteq> None) vs)"

section \<open>Truth values\<close>

type_synonym tv = "bool option"

fun not3 :: "tv \<Rightarrow> tv" where
  "not3 None = None"
| "not3 (Some b) = Some (\<not> b)"

fun and3 :: "tv \<Rightarrow> tv \<Rightarrow> tv" where
  "and3 (Some True) b = b"
| "and3 (Some False) b = Some False"
| "and3 None b = (if b = Some False then Some False else None)"

definition or3 :: "tv \<Rightarrow> tv \<Rightarrow> tv" where
  "or3 a b = not3 (and3 (not3 a) (not3 b))"

lemma not3_not3 [simp]: "not3 (not3 a) = a"
  by (cases a) simp_all

record server =
  srv_cmp :: "string \<Rightarrow> string \<Rightarrow> int"
  srv_like :: "string \<Rightarrow> string \<Rightarrow> bool"

fun cmp_holds :: "sql_cmp \<Rightarrow> int \<Rightarrow> bool" where
  "cmp_holds Cmp_eq i \<longleftrightarrow> i = 0"
| "cmp_holds Cmp_ne i \<longleftrightarrow> i \<noteq> 0"
| "cmp_holds Cmp_lt i \<longleftrightarrow> i < 0"
| "cmp_holds Cmp_le i \<longleftrightarrow> i \<le> 0"
| "cmp_holds Cmp_gt i \<longleftrightarrow> i > 0"
| "cmp_holds Cmp_ge i \<longleftrightarrow> i \<ge> 0"

definition cmp3 :: "server \<Rightarrow> sql_cmp \<Rightarrow> string option \<Rightarrow> string option \<Rightarrow> tv" where
  "cmp3 srv c x v =
     (case (x, v) of (Some s, Some t) \<Rightarrow> Some (cmp_holds c (srv_cmp srv s t)) | _ \<Rightarrow> None)"

definition neg3 :: "bool \<Rightarrow> tv \<Rightarrow> tv" where
  "neg3 n t = (if n then not3 t else t)"

fun cond_value :: "server \<Rightarrow> string option \<Rightarrow> sql_cond \<Rightarrow> tv" where
  "cond_value srv x (C_null n) = Some ((x = None) \<noteq> n)"
| "cond_value srv x (C_empty n) =
     (if n then and3 (Some (x \<noteq> None)) (cmp3 srv Cmp_ne x (Some []))
      else or3 (Some (x = None)) (cmp3 srv Cmp_eq x (Some [])))"
| "cond_value srv x (C_cmp c v) = cmp3 srv c x (Some v)"
| "cond_value srv x (C_like n p) =
     neg3 n (case x of None \<Rightarrow> None | Some s \<Rightarrow> Some (srv_like srv s p))"
| "cond_value srv x (C_between n a b) = neg3 n (and3 (cmp3 srv Cmp_ge x a) (cmp3 srv Cmp_le x b))"
| "cond_value srv x (C_in n vs) = neg3 n (foldr (\<lambda>v. or3 (cmp3 srv Cmp_eq x v)) vs (Some False))"

section \<open>The condition an operator and a value stand for\<close>

text \<open>
  \<open>rng\<close> and \<open>lst\<close> are the bounds and the members read off the value. Without a condition there is
  nothing to filter by.
\<close>

fun value_cond ::
  "filter_op \<Rightarrow> string \<Rightarrow> (string option \<times> string option) option \<Rightarrow> string option list \<Rightarrow> sql_cond option" where
  "value_cond Op_eq v rng lst = Some (C_cmp Cmp_eq v)"
| "value_cond Op_ne v rng lst = Some (C_cmp Cmp_ne v)"
| "value_cond Op_lt v rng lst = Some (C_cmp Cmp_lt v)"
| "value_cond Op_le v rng lst = Some (C_cmp Cmp_le v)"
| "value_cond Op_gt v rng lst = Some (C_cmp Cmp_gt v)"
| "value_cond Op_ge v rng lst = Some (C_cmp Cmp_ge v)"
| "value_cond Op_contains v rng lst = Some (C_like False (''%'' @ v @ ''%''))"
| "value_cond Op_like v rng lst = Some (C_like False (''%'' @ v @ ''%''))"
| "value_cond Op_not_contains v rng lst = Some (C_like True (''%'' @ v @ ''%''))"
| "value_cond Op_not_like v rng lst = Some (C_like True (''%'' @ v @ ''%''))"
| "value_cond Op_begins_with v rng lst = Some (C_like False (v @ ''%''))"
| "value_cond Op_not_begins_with v rng lst = Some (C_like True (v @ ''%''))"
| "value_cond Op_ends_with v rng lst = Some (C_like False (''%'' @ v))"
| "value_cond Op_not_ends_with v rng lst = Some (C_like True (''%'' @ v))"
| "value_cond Op_between v rng lst = map_option (\<lambda>(a, b). C_between False a b) rng"
| "value_cond Op_not_between v rng lst = map_option (\<lambda>(a, b). C_between True a b) rng"
| "value_cond Op_in_list v rng lst = (if lst = [] then None else Some (C_in False lst))"
| "value_cond Op_not_in_list v rng lst = (if lst = [] then None else Some (C_in True lst))"
| "value_cond Op_is_null v rng lst = Some (C_null False)"
| "value_cond Op_is_not_null v rng lst = Some (C_null True)"
| "value_cond Op_is_empty v rng lst = Some (C_empty False)"
| "value_cond Op_is_not_empty v rng lst = Some (C_empty True)"

definition value_free :: "filter_op \<Rightarrow> bool" where
  "value_free oper \<longleftrightarrow> oper \<in> {Op_is_null, Op_is_not_null, Op_is_empty, Op_is_not_empty}"

text \<open>The condition for a NULL value: only a comparison for (in)equality has one.\<close>

fun null_cond :: "filter_op \<Rightarrow> sql_cond option" where
  "null_cond Op_eq = Some (C_null False)"
| "null_cond Op_ne = Some (C_null True)"
| "null_cond oper = None"

lemma cond_value_empty_not: "cond_value srv x (C_empty True) = not3 (cond_value srv x (C_empty False))"
  by (cases x) (simp_all add: or3_def cmp3_def)

lemma neg3_True: "neg3 True t = not3 (neg3 False t)"
  by (simp add: neg3_def)

lemma cmp3_not [simp]:
  "cmp3 srv Cmp_ne x v = not3 (cmp3 srv Cmp_eq x v)"
  "cmp3 srv Cmp_ge x v = not3 (cmp3 srv Cmp_lt x v)"
  "cmp3 srv Cmp_gt x v = not3 (cmp3 srv Cmp_le x v)"
  by (auto simp: cmp3_def split: option.splits)

end
