(* ===== verification/TableSql.thy ===== *)
theory TableSql
  imports JsValue SqlCond
begin

text \<open>
  The SQL builders of \<^verbatim>\<open>lib/tableSql.ts\<close>: quoting of values and identifiers, CREATE TABLE, the
  statements of the ALTER TABLE dialog, the condition "filter by this cell" and the DELETE of one
  row. The lemmas read the generated text with the lexer of \<open>SqlLex\<close>.

  \<open>driver\<close> is the optional driver name; only ''postgresql'' is treated apart.
\<close>

type_synonym driver = "string option"

definition is_pg :: "driver \<Rightarrow> bool" where
  "is_pg driver \<longleftrightarrow> driver = Some ''postgresql''"

section \<open>Quoting\<close>

definition sqlQuote :: "jsval \<Rightarrow> string" where
  "sqlQuote v = (if nullish v then ''NULL'' else quote_with SQ (js_string v))"

definition quoteIdent :: "string \<Rightarrow> driver \<Rightarrow> string" where
  "quoteIdent name driver = (if is_pg driver then quote_with DQ name else quote_with BT name)"

definition quoteQualifiedIdent :: "string \<Rightarrow> driver \<Rightarrow> string" where
  "quoteQualifiedIdent name driver =
     join ''.'' (map (\<lambda>part. quoteIdent part driver) (filter (\<lambda>part. part \<noteq> []) (split ''.'' name)))"

definition quoteTableRef :: "string \<Rightarrow> string \<Rightarrow> driver \<Rightarrow> string" where
  "quoteTableRef database table driver =
     (if is_pg driver then quoteQualifiedIdent table driver
      else quoteIdent database driver @ ''.'' @ quoteIdent table driver)"

section \<open>CREATE TABLE\<close>

text \<open>\<open>/^[-+]?\d+(\.\d+)?$/\<close>\<close>

definition is_number_literal :: "string \<Rightarrow> bool" where
  "is_number_literal v =
     (let u = (case v of [] \<Rightarrow> [] | c # cs \<Rightarrow> if c = CHR ''-'' \<or> c = CHR ''+'' then cs else v);
          rest = dropWhile is_digit u
      in takeWhile is_digit u \<noteq> [] \<and>
         (case rest of [] \<Rightarrow> True | c # cs \<Rightarrow> c = CHR ''.'' \<and> all_digits cs))"

definition formatDefaultValue :: "string \<Rightarrow> string" where
  "formatDefaultValue value =
     (let v = trim value
      in if v = [] then []
         else if is_number_literal v then v
         else if to_lower v \<in> set [''true'', ''false'', ''null''] then to_upper v
         else if to_lower v \<in> set [''current_timestamp'', ''current_timestamp()'', ''now()''] then v
         else sqlQuote (JStr v))"

record create_column =
  cc_name :: string
  cc_type :: string
  cc_nullable :: bool
  cc_default :: string

definition create_column_def :: "driver \<Rightarrow> create_column \<Rightarrow> string" where
  "create_column_def driver col =
     (let nullable = (if cc_nullable col then [] else '' NOT NULL'');
          dflt = (if trim (cc_default col) \<noteq> [] then '' DEFAULT '' @ formatDefaultValue (cc_default col) else [])
      in quoteIdent (trim (cc_name col)) driver @ '' '' @ trim (cc_type col) @ nullable @ dflt)"

definition buildCreateTableSql :: "driver \<Rightarrow> string \<Rightarrow> string \<Rightarrow> create_column list \<Rightarrow> string" where
  "buildCreateTableSql driver database name columns =
     (let tableRef = quoteTableRef database name driver;
          defs = map (create_column_def driver) columns
      in ''CREATE TABLE '' @ tableRef @ '' ('' @ [LF] @ ''  '' @ join ('','' @ [LF] @ ''  '') defs @ [LF] @ '')'')"

section \<open>ALTER TABLE\<close>

record alter_loaded =
  al_name :: string
  al_type :: string
  al_nullable :: bool
  al_default :: string
  al_comment :: string

record alter_draft =
  ad_id :: int
  ad_originalName :: "string option"
  ad_name :: string
  ad_type :: string
  ad_nullable :: bool
  ad_default :: string
  ad_comment :: string
  ad_isNew :: bool

definition normalizeDefault :: "string \<Rightarrow> string" where
  "normalizeDefault value = trim value"

definition normalizeComment :: "string \<Rightarrow> string" where
  "normalizeComment value = trim value"

definition buildColumnDefinition :: "alter_draft \<Rightarrow> driver \<Rightarrow> bool \<Rightarrow> string" where
  "buildColumnDefinition column driver forceComment =
     (let nullable = (if ad_nullable column then [] else '' NOT NULL'');
          defaultPart = (if normalizeDefault (ad_default column) \<noteq> []
                         then '' DEFAULT '' @ formatDefaultValue (ad_default column) else []);
          includeComment = (\<not> is_pg driver \<and> (forceComment \<or> normalizeComment (ad_comment column) \<noteq> []));
          commentPart = (if includeComment then '' COMMENT '' @ sqlQuote (JStr (ad_comment column)) else [])
      in quoteIdent (trim (ad_name column)) driver @ '' '' @ trim (ad_type column) @ nullable @ defaultPart @ commentPart)"

text \<open>The arrays and the set the loop over the draft columns fills.\<close>

record alter_acc =
  kept :: "string set"
  additions :: "string list"
  renames :: "string list"
  modifications :: "string list"
  comments :: "string list"

definition empty_acc :: alter_acc where
  "empty_acc = \<lparr>kept = {}, additions = [], renames = [], modifications = [], comments = []\<rparr>"

text \<open>The PostgreSQL and the MySQL branch for a column that was loaded and is still there.\<close>

definition alter_pg :: "driver \<Rightarrow> string \<Rightarrow> alter_loaded \<Rightarrow> alter_draft \<Rightarrow> string \<Rightarrow> alter_acc \<Rightarrow> alter_acc" where
  "alter_pg driver tref original col orig_name acc =
     (let name = trim (ad_name col);
          typeChanged = (to_lower (trim (al_type original)) \<noteq> to_lower (trim (ad_type col)));
          nullableChanged = (al_nullable original \<noteq> ad_nullable col);
          defaultChanged = (normalizeDefault (al_default original) \<noteq> normalizeDefault (ad_default col));
          commentChanged = (normalizeComment (al_comment original) \<noteq> normalizeComment (ad_comment col));
          renamed = (orig_name \<noteq> name);
          currentName = (if renamed then name else orig_name);
          column = ''ALTER TABLE '' @ tref @ '' ALTER COLUMN '' @ quoteIdent currentName driver
      in acc\<lparr>renames := renames acc @
               (if renamed then [''ALTER TABLE '' @ tref @ '' RENAME COLUMN '' @ quoteIdent orig_name driver @
                                 '' TO '' @ quoteIdent name driver] else []),
             modifications := modifications acc @
               (if typeChanged then [column @ '' TYPE '' @ trim (ad_type col)] else []) @
               (if nullableChanged then
                  [column @ (if ad_nullable col then '' DROP NOT NULL'' else '' SET NOT NULL'')] else []) @
               (if defaultChanged then
                  [column @ (if normalizeDefault (ad_default col) \<noteq> []
                             then '' SET DEFAULT '' @ formatDefaultValue (ad_default col)
                             else '' DROP DEFAULT'')] else []),
             comments := comments acc @
               (if commentChanged then
                  [''COMMENT ON COLUMN '' @ tref @ ''.'' @ quoteIdent currentName driver @ '' IS '' @
                   (if normalizeComment (ad_comment col) \<noteq> [] then sqlQuote (JStr (ad_comment col)) else ''NULL'')]
                else [])\<rparr>)"

definition alter_mysql :: "driver \<Rightarrow> alter_loaded \<Rightarrow> alter_draft \<Rightarrow> string \<Rightarrow> alter_acc \<Rightarrow> alter_acc" where
  "alter_mysql driver original col orig_name acc =
     (let name = trim (ad_name col);
          typeChanged = (to_lower (trim (al_type original)) \<noteq> to_lower (trim (ad_type col)));
          nullableChanged = (al_nullable original \<noteq> ad_nullable col);
          defaultChanged = (normalizeDefault (al_default original) \<noteq> normalizeDefault (ad_default col));
          commentChanged = (normalizeComment (al_comment original) \<noteq> normalizeComment (ad_comment col));
          renamed = (orig_name \<noteq> name)
      in if \<not> renamed \<and> \<not> typeChanged \<and> \<not> nullableChanged \<and> \<not> defaultChanged \<and> \<not> commentChanged then acc
         else if renamed then
           acc\<lparr>modifications := modifications acc @
                 [''CHANGE COLUMN '' @ quoteIdent orig_name driver @ '' '' @
                  buildColumnDefinition col driver commentChanged]\<rparr>
         else
           acc\<lparr>modifications := modifications acc @
                 [''MODIFY COLUMN '' @ buildColumnDefinition col driver commentChanged]\<rparr>)"

text \<open>One round of the loop; \<open>originals\<close> is \<open>originalMap\<close>.\<close>

definition alter_column ::
  "driver \<Rightarrow> string \<Rightarrow> (string \<Rightarrow> alter_loaded option) \<Rightarrow> alter_draft \<Rightarrow> alter_acc \<Rightarrow> alter_acc" where
  "alter_column driver tref originals col acc =
     (let name = trim (ad_name col)
      in if name = [] then acc
         else case (case ad_originalName col of None \<Rightarrow> [] | Some n \<Rightarrow> if ad_isNew col then [] else n) of
             [] \<Rightarrow>
               acc\<lparr>additions := additions acc @ [buildColumnDefinition col driver False],
                   comments := comments acc @
                     (if is_pg driver \<and> normalizeComment (ad_comment col) \<noteq> []
                      then [''COMMENT ON COLUMN '' @ tref @ ''.'' @ quoteIdent name driver @ '' IS '' @
                            sqlQuote (JStr (ad_comment col))]
                      else [])\<rparr>
           | c # cs \<Rightarrow>
               (let acc = acc\<lparr>kept := insert (c # cs) (kept acc)\<rparr>
                in case originals (c # cs) of
                     None \<Rightarrow> acc
                   | Some original \<Rightarrow>
                       if is_pg driver then alter_pg driver tref original col (c # cs) acc
                       else alter_mysql driver original col (c # cs) acc))"

fun alter_columns ::
  "driver \<Rightarrow> string \<Rightarrow> (string \<Rightarrow> alter_loaded option) \<Rightarrow> alter_draft list \<Rightarrow> alter_acc \<Rightarrow> alter_acc" where
  "alter_columns driver tref originals [] acc = acc"
| "alter_columns driver tref originals (col # cols) acc =
     alter_columns driver tref originals cols (alter_column driver tref originals col acc)"

record alter_params =
  ap_driver :: driver
  ap_database :: string
  ap_table :: string
  ap_tableNameDraft :: string
  ap_tableCommentDraft :: string
  ap_originalTableComment :: string
  ap_originalColumns :: "alter_loaded list"
  ap_draftColumns :: "alter_draft list"

definition alter_drops :: "alter_params \<Rightarrow> alter_acc \<Rightarrow> string list" where
  "alter_drops p acc =
     map (\<lambda>original. quoteIdent (al_name original) (ap_driver p))
       (filter (\<lambda>original. al_name original \<notin> kept acc) (ap_originalColumns p))"

definition original_map :: "alter_params \<Rightarrow> string \<Rightarrow> alter_loaded option" where
  "original_map p = map_of (rev (map (\<lambda>col. (al_name col, col)) (ap_originalColumns p)))"

definition buildAlterStatements :: "alter_params \<Rightarrow> string list \<times> string option" where
  "buildAlterStatements p =
     (let driver = ap_driver p; database = ap_database p; table = ap_table p;
          nextTableName = trim (ap_tableNameDraft p);
          hasRenameTable = (nextTableName \<noteq> [] \<and> nextTableName \<noteq> table);
          originalTableRef = quoteTableRef database table driver;
          targetTable = (if hasRenameTable then nextTableName else table);
          tref = quoteTableRef database targetTable driver;
          rename = (if hasRenameTable then
                      [if is_pg driver
                       then ''ALTER TABLE '' @ originalTableRef @ '' RENAME TO '' @ quoteIdent nextTableName driver
                       else ''RENAME TABLE '' @ originalTableRef @ '' TO '' @ quoteTableRef database nextTableName driver]
                    else []);
          tableCommentChanged =
            (normalizeComment (ap_originalTableComment p) \<noteq> normalizeComment (ap_tableCommentDraft p));
          acc = alter_columns driver tref (original_map p) (ap_draftColumns p) empty_acc;
          drops = alter_drops p acc;
          changes =
            (if is_pg driver then
               map (\<lambda>definition. ''ALTER TABLE '' @ tref @ '' ADD COLUMN '' @ definition) (additions acc) @
               renames acc @ modifications acc @
               map (\<lambda>dropName. ''ALTER TABLE '' @ tref @ '' DROP COLUMN '' @ dropName) drops @
               (if tableCommentChanged then
                  [''COMMENT ON TABLE '' @ tref @ '' IS '' @
                   (if normalizeComment (ap_tableCommentDraft p) \<noteq> []
                    then sqlQuote (JStr (ap_tableCommentDraft p)) else ''NULL'')]
                else []) @
               comments acc
             else
               (let clauses =
                  map (\<lambda>definition. ''ADD COLUMN '' @ definition) (additions acc) @
                  modifications acc @
                  map (\<lambda>dropName. ''DROP COLUMN '' @ dropName) drops @
                  (if tableCommentChanged then [''COMMENT = '' @ sqlQuote (JStr (ap_tableCommentDraft p))] else [])
                in if clauses \<noteq> [] then [''ALTER TABLE '' @ tref @ '' '' @ join '', '' clauses] else []))
      in (rename @ changes, if hasRenameTable then Some nextTableName else None))"

section \<open>Filter by a cell value\<close>

fun toRangeValues :: "jsval \<Rightarrow> (jsval \<times> jsval) option" where
  "toRangeValues (JArr (a # b # vs)) = Some (a, b)"
| "toRangeValues value = (if nullish value then None else Some (value, value))"

fun toListValues :: "jsval \<Rightarrow> jsval list" where
  "toListValues (JArr vs) = filter (\<lambda>item. item \<noteq> JUndef) vs"
| "toListValues (JStr s) = map JStr (filter (\<lambda>part. part \<noteq> []) (map trim (split '','' s)))"
| "toListValues value = (if value \<noteq> JUndef then [value] else [])"

definition like_clause :: "string \<Rightarrow> string \<Rightarrow> string \<Rightarrow> jsval \<Rightarrow> string \<Rightarrow> string" where
  "like_clause column keyword before value after =
     column @ keyword @ sqlQuote (JStr (before @ js_string value @ after))"

definition buildFilterByCellValueClause :: "string \<Rightarrow> jsval \<Rightarrow> driver \<Rightarrow> filter_op \<Rightarrow> string" where
  "buildFilterByCellValueClause col value driver oper =
     (let quotedCol = quoteIdent col driver
      in if oper = Op_is_null then quotedCol @ '' IS NULL''
         else if oper = Op_is_not_null then quotedCol @ '' IS NOT NULL''
         else if oper = Op_is_empty then ''('' @ quotedCol @ '' IS NULL OR '' @ quotedCol @ '' = '' @ [SQ, SQ] @ '')''
         else if oper = Op_is_not_empty then
           ''('' @ quotedCol @ '' IS NOT NULL AND '' @ quotedCol @ '' <> '' @ [SQ, SQ] @ '')''
         else if nullish value then
           (if oper = Op_ne then quotedCol @ '' IS NOT NULL''
            else if oper = Op_eq then quotedCol @ '' IS NULL''
            else [])
         else if oper = Op_contains \<or> oper = Op_like then like_clause quotedCol '' LIKE '' ''%'' value ''%''
         else if oper = Op_not_contains \<or> oper = Op_not_like then like_clause quotedCol '' NOT LIKE '' ''%'' value ''%''
         else if oper = Op_begins_with then like_clause quotedCol '' LIKE '' [] value ''%''
         else if oper = Op_not_begins_with then like_clause quotedCol '' NOT LIKE '' [] value ''%''
         else if oper = Op_ends_with then like_clause quotedCol '' LIKE '' ''%'' value []
         else if oper = Op_not_ends_with then like_clause quotedCol '' NOT LIKE '' ''%'' value []
         else if oper = Op_between \<or> oper = Op_not_between then
           (case toRangeValues value of
              None \<Rightarrow> []
            | Some (a, b) \<Rightarrow>
                quotedCol @ '' '' @ (if oper = Op_not_between then ''NOT '' else []) @
                ''BETWEEN '' @ sqlQuote a @ '' AND '' @ sqlQuote b)
         else if oper = Op_in_list \<or> oper = Op_not_in_list then
           (let listValues = toListValues value
            in if listValues = [] then []
               else quotedCol @ '' '' @ (if oper = Op_not_in_list then ''NOT '' else []) @
                    ''IN ('' @ join '', '' (map sqlQuote listValues) @ '')'')
         else quotedCol @ '' '' @ (if oper = Op_ne then ''<>'' else op_text oper) @ '' '' @ sqlQuote value)"

section \<open>DELETE of one row\<close>

type_synonym table_row = "(string \<times> jsval) list"

record delete_args =
  da_database :: string
  da_table :: string
  da_columns :: "string list"
  da_row :: table_row
  da_primaryKeys :: "string list"
  da_driver :: driver

record delete_statement =
  ds_sql :: string
  ds_usesPrimaryKey :: bool

definition where_equals :: "driver \<Rightarrow> table_row \<Rightarrow> string \<Rightarrow> string" where
  "where_equals driver row col =
     (let value = get_prop row col
      in if nullish value then quoteIdent col driver @ '' IS NULL''
         else quoteIdent col driver @ '' = '' @ sqlQuote value)"

definition buildDeleteStatement :: "delete_args \<Rightarrow> delete_statement" where
  "buildDeleteStatement a =
     (let driver = da_driver a;
          usesPrimaryKey = (da_primaryKeys a \<noteq> []);
          whereCols = (if usesPrimaryKey then da_primaryKeys a else da_columns a);
          whereSQL = join '' AND '' (map (where_equals driver (da_row a)) whereCols);
          tableName = quoteTableRef (da_database a) (da_table a) driver;
          sql = (if is_pg driver then
                   (if usesPrimaryKey then ''DELETE FROM '' @ tableName @ '' WHERE '' @ whereSQL @ '';''
                    else ''DELETE FROM '' @ tableName @ '' WHERE ctid = (SELECT ctid FROM '' @ tableName @
                         '' WHERE '' @ whereSQL @ '' LIMIT 1);'')
                 else ''DELETE FROM '' @ tableName @ '' WHERE '' @ whereSQL @ '' LIMIT 1;'')
      in \<lparr>ds_sql = sql, ds_usesPrimaryKey = usesPrimaryKey\<rparr>)"

section \<open>What the server reads: quoting\<close>

text \<open>
  A value is safe for a server when a backslash in its text cannot escape the closing quote: always
  for PostgreSQL, and for MySQL when its text has none.
\<close>

definition safe_value :: "driver \<Rightarrow> jsval \<Rightarrow> bool" where
  "safe_value driver v \<longleftrightarrow> is_pg driver \<or> nullish v \<or> BSL \<notin> set (js_string v)"

definition value_toks :: "jsval \<Rightarrow> sql_tok list" where
  "value_toks v = (if nullish v then [TWord ''NULL''] else [TStr (js_string v)])"

definition reads :: "driver \<Rightarrow> string \<Rightarrow> sql_tok list option" where
  "reads driver s = sql_tokens (sql_dialect (is_pg driver)) s"

lemma is_pg_simps [simp]: "is_pg (Some ''postgresql'')" "\<not> is_pg None" "\<not> is_pg (Some ''mysql'')"
  by (simp_all add: is_pg_def)

lemma null_tokens [simp]: "sql_tokens (sql_dialect pg) ''NULL'' = Some [TWord ''NULL'']"
  by (simp add: sql_lex)

lemma sqlQuote_tokens:
  "safe_value driver v \<Longrightarrow> sql_tokens (sql_dialect (is_pg driver)) (sqlQuote v) = Some (value_toks v)"
  by (auto simp: sqlQuote_def safe_value_def value_toks_def sql_tokens_string)

lemma quoteIdent_tokens: "sql_tokens (sql_dialect (is_pg driver)) (quoteIdent n driver) = Some [TId n]"
  using sql_tokens_ident [of "sql_dialect (is_pg driver)" n] by (auto simp: quoteIdent_def)

text \<open>The parts of a dotted name, each an identifier of its own.\<close>

definition ident_toks :: "string list \<Rightarrow> sql_tok list" where
  "ident_toks names = join [TSym CHR ''.''] (map (\<lambda>n. [TId n]) names)"

lemma quoteQualifiedIdent_tokens:
  "sql_tokens (sql_dialect (is_pg driver)) (quoteQualifiedIdent n driver) =
   Some (ident_toks (filter (\<lambda>part. part \<noteq> []) (split ''.'' n)))"
  unfolding quoteQualifiedIdent_def ident_toks_def
  by (rule dot.join_tokens) (rule quoteIdent_tokens)

definition table_toks :: "driver \<Rightarrow> string \<Rightarrow> string \<Rightarrow> sql_tok list" where
  "table_toks driver database table =
     ident_toks (if is_pg driver then filter (\<lambda>part. part \<noteq> []) (split ''.'' table) else [database, table])"

lemma quoteTableRef_tokens:
  "sql_tokens (sql_dialect (is_pg driver)) (quoteTableRef database table driver) =
   Some (table_toks driver database table)"
proof (cases "is_pg driver")
  case True
  then show ?thesis
    using quoteQualifiedIdent_tokens [of driver table] by (simp add: quoteTableRef_def table_toks_def)
next
  case False
  then show ?thesis
    using dot.sep_tokens [OF quoteIdent_tokens quoteIdent_tokens, of driver database table]
    by (simp add: quoteTableRef_def table_toks_def ident_toks_def)
qed

lemmas quote_tokens = quoteIdent_tokens quoteTableRef_tokens sqlQuote_tokens

section \<open>What the server reads: the row DELETE\<close>

definition where_toks :: "table_row \<Rightarrow> string \<Rightarrow> sql_tok list" where
  "where_toks row col =
     (if nullish (get_prop row col) then [TId col, TWord ''IS'', TWord ''NULL'']
      else [TId col, TSym CHR ''='', TStr (js_string (get_prop row col))])"

lemma where_equals_tokens:
  assumes "safe_value driver (get_prop row col)"
  shows "sql_tokens (sql_dialect (is_pg driver)) (where_equals driver row col) = Some (where_toks row col)"
proof (cases "nullish (get_prop row col)")
  case True
  then show ?thesis
    using quoteIdent_tokens [of driver col] by (auto simp: where_equals_def where_toks_def sql_lex)
next
  case False
  then show ?thesis
    using quoteIdent_tokens [of driver col] sqlQuote_tokens [OF assms]
    by (auto simp: where_equals_def where_toks_def value_toks_def sql_lex)
qed

definition delete_where_cols :: "delete_args \<Rightarrow> string list" where
  "delete_where_cols a = (if da_primaryKeys a \<noteq> [] then da_primaryKeys a else da_columns a)"

definition delete_where_toks :: "delete_args \<Rightarrow> sql_tok list" where
  "delete_where_toks a = join [TWord ''AND''] (map (where_toks (da_row a)) (delete_where_cols a))"

definition delete_toks :: "delete_args \<Rightarrow> sql_tok list" where
  "delete_toks a =
     (let tbl = table_toks (da_driver a) (da_database a) (da_table a);
          head_toks = [TWord ''DELETE'', TWord ''FROM''] @ tbl @ [TWord ''WHERE''];
          limit_toks = [TWord ''LIMIT'', TWord ''1'']
      in if is_pg (da_driver a) then
           (if da_primaryKeys a \<noteq> [] then head_toks @ delete_where_toks a @ [TSym CHR '';'']
            else head_toks @ [TWord ''ctid'', TSym CHR ''='', TSym CHR ''('', TWord ''SELECT'', TWord ''ctid'', TWord ''FROM''] @
                 tbl @ [TWord ''WHERE''] @ delete_where_toks a @ limit_toks @ [TSym CHR '')'', TSym CHR '';''])
         else head_toks @ delete_where_toks a @ limit_toks @ [TSym CHR '';''])"

lemma delete_where_tokens:
  assumes "\<forall>col\<in>set (delete_where_cols a). safe_value (da_driver a) (get_prop (da_row a) col)"
  shows "sql_tokens (sql_dialect (is_pg (da_driver a)))
           (join '' AND '' (map (where_equals (da_driver a) (da_row a)) (delete_where_cols a))) =
         Some (delete_where_toks a)"
  unfolding delete_where_toks_def
  by (rule conj.join_tokens) (use assms where_equals_tokens in blast)

text \<open>
  C1: The statement that deletes one row of a table is read by the server as exactly the intended
  statement, for every driver and with or without a primary key: the quoted table, one comparison
  (or IS NULL) per key column with the cell's text as a single literal, and outside a PostgreSQL
  table with a key, a limit of one row. The cells compared must be safe for the server.
\<close>

theorem delete_statement_reads:
  assumes "\<forall>col\<in>set (delete_where_cols a). safe_value (da_driver a) (get_prop (da_row a) col)"
  shows "reads (da_driver a) (ds_sql (buildDeleteStatement a)) = Some (delete_toks a)"
proof -
  note w = delete_where_tokens [OF assms]
  note t = quoteTableRef_tokens [of "da_driver a" "da_database a" "da_table a"]
  show ?thesis
    using w t
    by (cases "is_pg (da_driver a)"; cases "da_primaryKeys a = []")
       (auto simp: reads_def buildDeleteStatement_def delete_toks_def delete_where_cols_def Let_def sql_lex)
qed

text \<open>A witness: a row with a quote in its key, deleted through MySQL.\<close>

definition ex_delete :: delete_args where
  "ex_delete = \<lparr>da_database = ''shop'', da_table = ''users'', da_columns = [''id'', ''name''],
     da_row = [(''id'', JInt 7), (''name'', JStr [CHR ''O'', SQ, CHR ''B''])],
     da_primaryKeys = [''name''], da_driver = Some ''mysql''\<rparr>"

theorem delete_statement_reads_witness:
  "reads (da_driver ex_delete) (ds_sql (buildDeleteStatement ex_delete)) =
   Some [TWord ''DELETE'', TWord ''FROM'', TId ''shop'', TSym CHR ''.'', TId ''users'', TWord ''WHERE'',
         TId ''name'', TSym CHR ''='', TStr [CHR ''O'', SQ, CHR ''B''], TWord ''LIMIT'', TWord ''1'', TSym CHR '';'']"
proof -
  have "\<forall>col\<in>set (delete_where_cols ex_delete). safe_value (da_driver ex_delete) (get_prop (da_row ex_delete) col)"
    by (simp add: ex_delete_def delete_where_cols_def safe_value_def get_prop_def is_pg_def)
  from delete_statement_reads [OF this] show ?thesis
    by (simp add: ex_delete_def delete_toks_def delete_where_toks_def delete_where_cols_def where_toks_def
        table_toks_def ident_toks_def get_prop_def is_pg_def)
qed

definition ex_escape :: delete_args where
  "ex_escape = \<lparr>da_database = ''d'', da_table = ''t'', da_columns = [],
     da_row = [(''a'', JStr [BSL]), (''b'', JStr '' OR 1=1 -- '')],
     da_primaryKeys = [''a'', ''b''], da_driver = Some ''mysql''\<rparr>"

text \<open>
  A backslash in a cell breaks out of its literal on MySQL. The row whose key columns \<open>a\<close> and
  \<open>b\<close> hold a single backslash and the text \<open> OR 1=1 -- \<close> gives a DELETE that the server reads as
  comparing \<open>a\<close> with the text up to the quote that opens the value of \<open>b\<close>, then \<open>OR 1=1\<close> as SQL and
  the start of a comment that hides the row limit: every row is deleted.
\<close>

theorem delete_statement_mysql_escape:
  "sql_tokens mysql (take 58 (ds_sql (buildDeleteStatement ex_escape))) =
     Some [TWord ''DELETE'', TWord ''FROM'', TId ''d'', TSym CHR ''.'', TId ''t'', TWord ''WHERE'',
           TId ''a'', TSym CHR ''='', TStr ([SQ] @ '' AND '' @ [BT] @ ''b'' @ [BT] @ '' = ''),
           TWord ''OR'', TWord ''1'', TSym CHR ''='', TWord ''1'', TSym CHR ''-'', TSym CHR ''-'']"
  by code_simp

section \<open>What the server reads: the condition on a cell value\<close>

text \<open>The text of a condition tree, and its tokens when its literals are safe for the server.\<close>

definition lit_of :: "jsval \<Rightarrow> string option" where
  "lit_of v = (if nullish v then None else Some (js_string v))"

definition lit_text :: "string option \<Rightarrow> string" where
  "lit_text v = (case v of None \<Rightarrow> ''NULL'' | Some s \<Rightarrow> quote_with SQ s)"

definition not_text :: "bool \<Rightarrow> string" where
  "not_text n = (if n then ''NOT '' else [])"

fun cond_text :: "string \<Rightarrow> sql_cond \<Rightarrow> string" where
  "cond_text c (C_null n) = c @ '' IS '' @ not_text n @ ''NULL''"
| "cond_text c (C_empty n) =
     (if n then ''('' @ c @ '' IS NOT NULL AND '' @ c @ '' <> '' @ [SQ, SQ] @ '')''
      else ''('' @ c @ '' IS NULL OR '' @ c @ '' = '' @ [SQ, SQ] @ '')'')"
| "cond_text c (C_cmp k v) = c @ '' '' @ cmp_syms k @ '' '' @ quote_with SQ v"
| "cond_text c (C_like n p) = c @ '' '' @ not_text n @ ''LIKE '' @ quote_with SQ p"
| "cond_text c (C_between n a b) = c @ '' '' @ not_text n @ ''BETWEEN '' @ lit_text a @ '' AND '' @ lit_text b"
| "cond_text c (C_in n vs) = c @ '' '' @ not_text n @ ''IN ('' @ join '', '' (map lit_text vs) @ '')''"

definition safe_text :: "driver \<Rightarrow> string \<Rightarrow> bool" where
  "safe_text driver s \<longleftrightarrow> is_pg driver \<or> BSL \<notin> set s"

definition safe_cond :: "driver \<Rightarrow> sql_cond \<Rightarrow> bool" where
  "safe_cond driver c \<longleftrightarrow> list_all (safe_text driver) (cond_texts c)"

lemma sqlQuote_lit: "sqlQuote v = lit_text (lit_of v)"
  by (simp add: sqlQuote_def lit_text_def lit_of_def)

lemma quoted_tokens:
  "safe_text driver s \<Longrightarrow> sql_tokens (sql_dialect (is_pg driver)) (quote_with SQ s) = Some [TStr s]"
  by (auto simp: safe_text_def sql_tokens_string)

lemma lit_text_tokens:
  "(case v of None \<Rightarrow> True | Some s \<Rightarrow> safe_text driver s) \<Longrightarrow>
   sql_tokens (sql_dialect (is_pg driver)) (lit_text v) = Some (lit_toks v)"
  by (cases v) (simp_all add: lit_text_def lit_toks_def quoted_tokens)

lemma empty_string_tokens:
  "sql_tokens (sql_dialect pg) (SQ # SQ # CHR '')'' # s) =
   map_option ((@) [TStr [], TSym CHR '')'']) (sql_tokens (sql_dialect pg) s)"
  using sql_tokens_separator [OF sql_tokens_string [of "sql_dialect pg" "[]"], of "CHR '')''" s]
  by (cases "sql_tokens (sql_dialect pg) s") (simp_all add: quote_with_def separator_dialect char_class)

lemma in_list_tokens:
  assumes "\<forall>v\<in>set vs. case v of None \<Rightarrow> True | Some s \<Rightarrow> safe_text driver s"
  shows "sql_tokens (sql_dialect (is_pg driver)) (join '', '' (map lit_text vs)) =
         Some (join [TSym CHR '',''] (map lit_toks vs))"
  by (rule comma.join_tokens) (use assms lit_text_tokens in blast)

lemma cond_text_tokens:
  assumes "safe_cond driver c"
  shows "sql_tokens (sql_dialect (is_pg driver)) (cond_text (quoteIdent col driver) c) = Some (cond_toks col c)"
proof (cases c)
  case (C_null n)
  then show ?thesis
    using quoteIdent_tokens [of driver col] by (cases n) (auto simp: sql_lex not_text_def not_toks_def)
next
  case (C_empty n)
  then show ?thesis
    using quoteIdent_tokens [of driver col]
    by (cases n) (auto simp: sql_lex empty_string_tokens)
next
  case (C_cmp k v)
  with assms have "sql_tokens (sql_dialect (is_pg driver)) (quote_with SQ v) = Some [TStr v]"
    by (simp add: safe_cond_def quoted_tokens)
  with C_cmp show ?thesis
    using quoteIdent_tokens [of driver col] by (cases k) (auto simp: sql_lex)
next
  case (C_like n p)
  with assms have "sql_tokens (sql_dialect (is_pg driver)) (quote_with SQ p) = Some [TStr p]"
    by (simp add: safe_cond_def quoted_tokens)
  with C_like show ?thesis
    using quoteIdent_tokens [of driver col] by (cases n) (auto simp: sql_lex not_text_def not_toks_def)
next
  case (C_between n a b)
  with assms have "sql_tokens (sql_dialect (is_pg driver)) (lit_text a) = Some (lit_toks a)"
    and "sql_tokens (sql_dialect (is_pg driver)) (lit_text b) = Some (lit_toks b)"
    by (auto simp: safe_cond_def lit_text_tokens split: if_splits option.split)
  with C_between show ?thesis
    using quoteIdent_tokens [of driver col] by (cases n) (auto simp: sql_lex not_text_def not_toks_def)
next
  case (C_in n vs)
  with assms have "\<forall>v\<in>set vs. case v of None \<Rightarrow> True | Some s \<Rightarrow> safe_text driver s"
    by (auto simp: safe_cond_def list_all_iff split: option.split)
  with C_in in_list_tokens [of vs driver] show ?thesis
    using quoteIdent_tokens [of driver col] by (cases n) (auto simp: sql_lex not_text_def not_toks_def)
qed

definition cell_cond :: "filter_op \<Rightarrow> jsval \<Rightarrow> sql_cond option" where
  "cell_cond oper v =
     (if value_free oper then value_cond oper [] None []
      else if nullish v then null_cond oper
      else value_cond oper (js_string v) (map_option (map_prod lit_of lit_of) (toRangeValues v))
             (map lit_of (toListValues v)))"

definition opt_text :: "string \<Rightarrow> sql_cond option \<Rightarrow> string" where
  "opt_text c k = (case k of None \<Rightarrow> [] | Some k \<Rightarrow> cond_text c k)"

lemma cell_clause_text:
  "buildFilterByCellValueClause col v driver oper = opt_text (quoteIdent col driver) (cell_cond oper v)"
  by (cases oper)
     (auto simp: buildFilterByCellValueClause_def cell_cond_def value_free_def opt_text_def like_clause_def
        not_text_def sqlQuote_lit lit_of_def lit_text_def Let_def comp_def intro!: arg_cong [where f = "join '', ''"]
        split: option.split)

text \<open>
  C3: "Filter by this cell" gives, for every operator and cell value, the text the server reads as
  the condition the operator names on that column (with every value a literal of its own), or no
  text when the operator has no condition for the value.
\<close>

theorem filter_by_cell_reads:
  assumes "\<forall>c. cell_cond oper v = Some c \<longrightarrow> safe_cond driver c"
  shows "reads driver (buildFilterByCellValueClause col v driver oper) =
         Some (case cell_cond oper v of None \<Rightarrow> [] | Some c \<Rightarrow> cond_toks col c)"
  using assms
  by (cases "cell_cond oper v") (simp_all add: cell_clause_text opt_text_def reads_def cond_text_tokens)

theorem filter_by_cell_reads_witness:
  "reads (Some ''postgresql'') (buildFilterByCellValueClause ''size'' (JArr [JInt 1, JNull, JInt (- 5)])
     (Some ''postgresql'') Op_not_in_list) =
   Some [TId ''size'', TWord ''NOT'', TWord ''IN'', TSym CHR ''('', TStr ''1'', TSym CHR '','', TWord ''NULL'',
         TSym CHR '','', TStr ''-5'', TSym CHR '')'']"
proof -
  have n: "int_str 1 = ''1''" "int_str (- 5) = ''-5''" by code_simp+
  show ?thesis
    using filter_by_cell_reads [of Op_not_in_list "JArr [JInt 1, JNull, JInt (- 5)]" "Some ''postgresql''" "''size''"]
    by (simp add: cell_cond_def value_free_def lit_of_def safe_cond_def safe_text_def not_toks_def lit_toks_def n)
qed

section \<open>ALTER TABLE: what is kept, dropped and left alone\<close>

lemma empty_acc_simps [simp]:
  "kept empty_acc = {}" "additions empty_acc = []" "renames empty_acc = []"
  "modifications empty_acc = []" "comments empty_acc = []"
  by (simp_all add: empty_acc_def)

text \<open>The original column a draft row stands for, when its name is not blank.\<close>

definition keeps :: "alter_draft \<Rightarrow> string \<Rightarrow> bool" where
  "keeps col n \<longleftrightarrow> trim (ad_name col) \<noteq> [] \<and> \<not> ad_isNew col \<and> ad_originalName col = Some n \<and> n \<noteq> []"

lemma kept_alter_pg [simp]: "kept (alter_pg driver tref original col orig_name acc) = kept acc"
  by (simp add: alter_pg_def Let_def)

lemma kept_alter_mysql [simp]: "kept (alter_mysql driver original col orig_name acc) = kept acc"
  by (simp add: alter_mysql_def Let_def)

lemma kept_alter_column:
  "kept (alter_column driver tref originals col acc) = kept acc \<union> {n. keeps col n}"
  by (auto simp: alter_column_def keeps_def Let_def split: list.splits option.splits)

lemma kept_alter_columns:
  "kept (alter_columns driver tref originals cols acc) = kept acc \<union> {n. \<exists>col\<in>set cols. keeps col n}"
  by (induction cols arbitrary: acc) (auto simp: kept_alter_column)

text \<open>What a draft row asks for, without the loop: a new column, or a loaded one under another name.\<close>

definition added_row :: "alter_draft \<Rightarrow> bool" where
  "added_row col \<longleftrightarrow> trim (ad_name col) \<noteq> [] \<and> (ad_isNew col \<or> ad_originalName col = None \<or> ad_originalName col = Some [])"

definition row_name :: "alter_draft \<Rightarrow> string" where
  "row_name col = (case ad_originalName col of None \<Rightarrow> [] | Some n \<Rightarrow> n)"

definition renamed_row :: "(string \<Rightarrow> alter_loaded option) \<Rightarrow> alter_draft \<Rightarrow> bool" where
  "renamed_row originals col \<longleftrightarrow>
     keeps col (row_name col) \<and> originals (row_name col) \<noteq> None \<and> row_name col \<noteq> trim (ad_name col)"

lemma alter_column_cases:
  "alter_column driver tref originals col acc =
   (if trim (ad_name col) = [] then acc
    else if added_row col then
      acc\<lparr>additions := additions acc @ [buildColumnDefinition col driver False],
          comments := comments acc @
            (if is_pg driver \<and> normalizeComment (ad_comment col) \<noteq> []
             then [''COMMENT ON COLUMN '' @ tref @ ''.'' @ quoteIdent (trim (ad_name col)) driver @ '' IS '' @
                   sqlQuote (JStr (ad_comment col))]
             else [])\<rparr>
    else (let acc = acc\<lparr>kept := insert (row_name col) (kept acc)\<rparr>
          in case originals (row_name col) of None \<Rightarrow> acc
             | Some original \<Rightarrow> if is_pg driver then alter_pg driver tref original col (row_name col) acc
                                else alter_mysql driver original col (row_name col) acc))"
  by (auto simp: alter_column_def added_row_def row_name_def Let_def split: option.splits list.splits)

lemma renamed_row_iff:
  "renamed_row originals col \<longleftrightarrow> trim (ad_name col) \<noteq> [] \<and> \<not> added_row col \<and>
     originals (row_name col) \<noteq> None \<and> row_name col \<noteq> trim (ad_name col)"
  by (auto simp: renamed_row_def keeps_def added_row_def row_name_def split: option.splits)

lemma additions_alter [simp]:
  "additions (alter_pg driver tref original col n acc) = additions acc"
  "additions (alter_mysql driver original col n acc) = additions acc"
  by (simp_all add: alter_pg_def alter_mysql_def Let_def)

lemma additions_alter_columns:
  "additions (alter_columns driver tref originals cols acc) =
   additions acc @ map (\<lambda>col. buildColumnDefinition col driver False) (filter added_row cols)"
proof (induction cols arbitrary: acc)
  case (Cons col cols)
  have "additions (alter_column driver tref originals col acc) =
      additions acc @ (if added_row col then [buildColumnDefinition col driver False] else [])"
    by (auto simp: alter_column_cases Let_def added_row_def split: option.splits)
  then show ?case by (simp add: Cons.IH)
qed simp

section \<open>ALTER TABLE: the statements that add, rename and drop columns\<close>

definition pg_rename :: "driver \<Rightarrow> string \<Rightarrow> alter_draft \<Rightarrow> string" where
  "pg_rename driver tref col =
     ''ALTER TABLE '' @ tref @ '' RENAME COLUMN '' @ quoteIdent (row_name col) driver @ '' TO '' @
     quoteIdent (trim (ad_name col)) driver"

definition mysql_rename :: "driver \<Rightarrow> (string \<Rightarrow> alter_loaded option) \<Rightarrow> alter_draft \<Rightarrow> string" where
  "mysql_rename driver originals col =
     ''CHANGE COLUMN '' @ quoteIdent (row_name col) driver @ '' '' @
     buildColumnDefinition col driver
       (normalizeComment (al_comment (the (originals (row_name col)))) \<noteq> normalizeComment (ad_comment col))"

text \<open>The lines of a list that start with a given text.\<close>

definition lines_from :: "string \<Rightarrow> string list \<Rightarrow> string list" where
  "lines_from w = filter (\<lambda>l. starts_with l w)"

lemma lines_from_simps [simp]:
  "lines_from w [] = []" "lines_from w (xs @ ys) = lines_from w xs @ lines_from w ys"
  "lines_from w (x # xs) = (if starts_with x w then x # lines_from w xs else lines_from w xs)"
  by (simp_all add: lines_from_def)

lemma starts_with_text [simp]:
  "starts_with (u @ v) (u @ w) = starts_with v w" "starts_with (c # v) (d # w) = (c = d \<and> starts_with v w)"
  "starts_with v []" "starts_with [] (d # w) = False"
  by (auto simp: starts_with_iff)

lemma lines_from_all: "(\<And>x. x \<in> set xs \<Longrightarrow> starts_with (f x) w) \<Longrightarrow> lines_from w (map f xs) = map f xs"
  by (simp add: lines_from_def)

lemma lines_from_none: "(\<And>x. x \<in> set xs \<Longrightarrow> \<not> starts_with x w) \<Longrightarrow> lines_from w xs = []"
  by (simp add: lines_from_def filter_empty_conv)

lemma renames_alter_columns:
  "is_pg driver \<Longrightarrow> renames (alter_columns driver tref originals cols acc) =
   renames acc @ map (pg_rename driver tref) (filter (renamed_row originals) cols)"
proof (induction cols arbitrary: acc)
  case (Cons col cols)
  have "renames (alter_column driver tref originals col acc) =
      renames acc @ (if renamed_row originals col then [pg_rename driver tref col] else [])"
    using Cons.prems
    by (auto simp: alter_column_cases Let_def renamed_row_iff alter_pg_def pg_rename_def added_row_def split: option.splits)
  with Cons show ?case by simp
qed simp

text \<open>The lines of the loop that are not about a table's columns being added, renamed or dropped.\<close>

lemma pg_modifications:
  assumes "is_pg driver" "l \<in> set (modifications (alter_columns driver tref originals cols acc))"
    "\<forall>l\<in>set (modifications acc). starts_with l (''ALTER TABLE '' @ tref @ '' ALTER COLUMN '')"
  shows "starts_with l (''ALTER TABLE '' @ tref @ '' ALTER COLUMN '')"
  using assms(2,3)
proof (induction cols arbitrary: acc)
  case (Cons col cols)
  have "\<forall>l\<in>set (modifications (alter_column driver tref originals col acc)).
      starts_with l (''ALTER TABLE '' @ tref @ '' ALTER COLUMN '')"
    using assms(1) Cons.prems(2)
    by (auto simp: alter_column_cases Let_def alter_pg_def split: option.splits if_splits)
  with Cons show ?case by simp
qed simp

lemma pg_comments:
  assumes "is_pg driver" "l \<in> set (comments (alter_columns driver tref originals cols acc))"
    "\<forall>l\<in>set (comments acc). starts_with l ''COMMENT ON ''"
  shows "starts_with l ''COMMENT ON ''"
  using assms(2,3)
proof (induction cols arbitrary: acc)
  case (Cons col cols)
  have "\<forall>l\<in>set (comments (alter_column driver tref originals col acc)). starts_with l ''COMMENT ON ''"
    using assms(1) Cons.prems(2)
    by (auto simp: alter_column_cases Let_def alter_pg_def split: option.splits if_splits)
  with Cons show ?case by simp
qed simp

lemma mysql_modifications:
  assumes "\<not> is_pg driver"
  shows "lines_from ''CHANGE COLUMN '' (modifications (alter_columns driver tref originals cols acc)) =
      lines_from ''CHANGE COLUMN '' (modifications acc) @
      map (mysql_rename driver originals) (filter (renamed_row originals) cols)"
    and "lines_from ''ADD COLUMN '' (modifications (alter_columns driver tref originals cols acc)) =
      lines_from ''ADD COLUMN '' (modifications acc)"
    and "lines_from ''DROP COLUMN '' (modifications (alter_columns driver tref originals cols acc)) =
      lines_from ''DROP COLUMN '' (modifications acc)"
proof (induction cols arbitrary: acc)
  case (Cons col cols)
  have m: "modifications (alter_column driver tref originals col acc) =
      modifications acc @ m' \<Longrightarrow> lines_from w (modifications (alter_column driver tref originals col acc)) =
      lines_from w (modifications acc) @ lines_from w m'" for w m' by simp
  { case 1
    have "lines_from ''CHANGE COLUMN '' (modifications (alter_column driver tref originals col acc)) =
        lines_from ''CHANGE COLUMN '' (modifications acc) @
        (if renamed_row originals col then [mysql_rename driver originals col] else [])"
      using assms by (auto simp: alter_column_cases Let_def renamed_row_iff alter_mysql_def mysql_rename_def added_row_def
          split: option.splits)
    with Cons show ?case by simp
  next
    case 2
    have "lines_from ''ADD COLUMN '' (modifications (alter_column driver tref originals col acc)) =
        lines_from ''ADD COLUMN '' (modifications acc)"
      using assms by (auto simp: alter_column_cases Let_def alter_mysql_def split: option.splits)
    with Cons show ?case by simp
  next
    case 3
    have "lines_from ''DROP COLUMN '' (modifications (alter_column driver tref originals col acc)) =
        lines_from ''DROP COLUMN '' (modifications acc)"
      using assms by (auto simp: alter_column_cases Let_def alter_mysql_def split: option.splits)
    with Cons show ?case by simp }
qed simp_all

text \<open>The name of the table after the dialog, and the statement that gives it that name.\<close>

definition table_after :: "alter_params \<Rightarrow> string" where
  "table_after p = (if trim (ap_tableNameDraft p) = [] then ap_table p else trim (ap_tableNameDraft p))"

definition table_rename :: "alter_params \<Rightarrow> string list" where
  "table_rename p =
     (let d = ap_driver p; old = quoteTableRef (ap_database p) (ap_table p) d
      in if table_after p = ap_table p then []
         else if is_pg d then [''ALTER TABLE '' @ old @ '' RENAME TO '' @ quoteIdent (table_after p) d]
         else [''RENAME TABLE '' @ old @ '' TO '' @ quoteTableRef (ap_database p) (table_after p) d])"

definition dropped_columns :: "alter_params \<Rightarrow> alter_loaded list" where
  "dropped_columns p =
     filter (\<lambda>c. \<not> (\<exists>col\<in>set (ap_draftColumns p). keeps col (al_name c))) (ap_originalColumns p)"

text \<open>The statements after the new table name, in the two forms.\<close>

definition pg_changes :: "alter_params \<Rightarrow> string \<Rightarrow> alter_acc \<Rightarrow> string list" where
  "pg_changes p tref acc =
     map (\<lambda>definition. ''ALTER TABLE '' @ tref @ '' ADD COLUMN '' @ definition) (additions acc) @
     renames acc @ modifications acc @
     map (\<lambda>dropName. ''ALTER TABLE '' @ tref @ '' DROP COLUMN '' @ dropName) (alter_drops p acc) @
     (if normalizeComment (ap_originalTableComment p) \<noteq> normalizeComment (ap_tableCommentDraft p) then
        [''COMMENT ON TABLE '' @ tref @ '' IS '' @
         (if normalizeComment (ap_tableCommentDraft p) \<noteq> []
          then sqlQuote (JStr (ap_tableCommentDraft p)) else ''NULL'')]
      else []) @ comments acc"

definition mysql_clauses :: "alter_params \<Rightarrow> alter_acc \<Rightarrow> string list" where
  "mysql_clauses p acc =
     map (\<lambda>definition. ''ADD COLUMN '' @ definition) (additions acc) @ modifications acc @
     map (\<lambda>dropName. ''DROP COLUMN '' @ dropName) (alter_drops p acc) @
     (if normalizeComment (ap_originalTableComment p) \<noteq> normalizeComment (ap_tableCommentDraft p)
      then [''COMMENT = '' @ sqlQuote (JStr (ap_tableCommentDraft p))] else [])"

lemma alter_statements_eq:
  "fst (buildAlterStatements p) = table_rename p @
     (let tref = quoteTableRef (ap_database p) (table_after p) (ap_driver p);
          acc = alter_columns (ap_driver p) tref (original_map p) (ap_draftColumns p) empty_acc
      in if is_pg (ap_driver p) then pg_changes p tref acc
         else if mysql_clauses p acc = [] then []
         else [''ALTER TABLE '' @ tref @ '' '' @ join '', '' (mysql_clauses p acc)])"
  by (cases "trim (ap_tableNameDraft p) = []"; cases "trim (ap_tableNameDraft p) = ap_table p"; cases "is_pg (ap_driver p)")
    (simp_all add: buildAlterStatements_def table_rename_def table_after_def Let_def pg_changes_def mysql_clauses_def
      del: append_Cons)

lemma alter_drops_eq:
  "alter_drops p (alter_columns driver tref originals (ap_draftColumns p) empty_acc) =
   map (\<lambda>c. quoteIdent (al_name c) (ap_driver p)) (dropped_columns p)"
  by (simp add: alter_drops_def dropped_columns_def kept_alter_columns)

lemma lines_from_map: "lines_from w (map f xs) = map f (filter (\<lambda>x. starts_with (f x) w) xs)"
  by (simp add: lines_from_def filter_map comp_def)

text \<open>
  C2: The statements of the ALTER dialog, as they are sent. First comes the new name of the table, if
  it has one. What follows, for PostgreSQL, are statements: those that start as ADD COLUMN are one for
  each new draft row, those that start as RENAME COLUMN one for each kept row under another name, those
  that start as DROP COLUMN one for each loaded column that no draft row with a non-blank name stands for,
  each with its text and in the order of the rows. For the other drivers it is one ALTER TABLE with the same
  parts as clauses (CHANGE COLUMN for a new name), and none when there is no clause.
\<close>

theorem alter_statements_emitted:
  "\<exists>changes. fst (buildAlterStatements p) = table_rename p @ changes \<and>
     (let d = ap_driver p; tref = quoteTableRef (ap_database p) (table_after p) d;
          added = filter added_row (ap_draftColumns p);
          renamed = filter (renamed_row (original_map p)) (ap_draftColumns p);
          at = ''ALTER TABLE '' @ tref
      in if is_pg d then
           lines_from (at @ '' ADD COLUMN '') changes =
             map (\<lambda>col. at @ '' ADD COLUMN '' @ buildColumnDefinition col d False) added \<and>
           lines_from (at @ '' RENAME COLUMN '') changes = map (pg_rename d tref) renamed \<and>
           lines_from (at @ '' DROP COLUMN '') changes =
             map (\<lambda>c. at @ '' DROP COLUMN '' @ quoteIdent (al_name c) d) (dropped_columns p)
         else (\<exists>clauses.
           changes = (if clauses = [] then [] else [at @ '' '' @ join '', '' clauses]) \<and>
           lines_from ''ADD COLUMN '' clauses = map (\<lambda>col. ''ADD COLUMN '' @ buildColumnDefinition col d False) added \<and>
           lines_from ''CHANGE COLUMN '' clauses = map (mysql_rename d (original_map p)) renamed \<and>
           lines_from ''DROP COLUMN '' clauses =
             map (\<lambda>c. ''DROP COLUMN '' @ quoteIdent (al_name c) d) (dropped_columns p)))"
proof -
  let ?d = "ap_driver p" and ?tref = "quoteTableRef (ap_database p) (table_after p) (ap_driver p)"
  let ?acc = "alter_columns ?d ?tref (original_map p) (ap_draftColumns p) empty_acc"
  let ?at = "''ALTER TABLE '' @ ?tref"
  show ?thesis
  proof (cases "is_pg ?d")
    case True
    have mods: "lines_from (?at @ w) (modifications ?acc) = []"
      if "w \<in> {'' ADD COLUMN '', '' RENAME COLUMN '', '' DROP COLUMN ''}" for w
      using pg_modifications [OF True] that by (intro lines_from_none) (fastforce simp: starts_with_iff)
    have coms: "lines_from (?at @ w) (comments ?acc) = []" for w
      using pg_comments [OF True] by (intro lines_from_none) (fastforce simp: starts_with_iff)
    note none = mods [of "'' ADD COLUMN ''", simplified] mods [of "'' RENAME COLUMN ''", simplified]
      mods [of "'' DROP COLUMN ''", simplified] coms [of "'' ADD COLUMN ''", simplified]
      coms [of "'' RENAME COLUMN ''", simplified] coms [of "'' DROP COLUMN ''", simplified]
    show ?thesis
      by (rule exI [of _ "pg_changes p ?tref ?acc"])
        (simp add: True alter_statements_eq pg_changes_def Let_def none additions_alter_columns
          renames_alter_columns alter_drops_eq comp_def lines_from_map pg_rename_def)
  next
    case False
    have c: "lines_from ''ADD COLUMN '' (mysql_clauses p ?acc) =
        map (\<lambda>col. ''ADD COLUMN '' @ buildColumnDefinition col ?d False) (filter added_row (ap_draftColumns p))"
      "lines_from ''CHANGE COLUMN '' (mysql_clauses p ?acc) =
        map (mysql_rename ?d (original_map p)) (filter (renamed_row (original_map p)) (ap_draftColumns p))"
      "lines_from ''DROP COLUMN '' (mysql_clauses p ?acc) =
        map (\<lambda>c. ''DROP COLUMN '' @ quoteIdent (al_name c) ?d) (dropped_columns p)"
      by (simp_all add: mysql_clauses_def additions_alter_columns mysql_modifications [OF False] alter_drops_eq
          comp_def lines_from_map)
    show ?thesis
    proof (rule exI, rule conjI)
      show "fst (buildAlterStatements p) = table_rename p @
          (if mysql_clauses p ?acc = [] then [] else [?at @ '' '' @ join '', '' (mysql_clauses p ?acc)])"
        by (simp add: alter_statements_eq Let_def False)
    qed (simp only: Let_def False if_False, rule exI [of _ "mysql_clauses p ?acc"], simp only: c append_assoc simp_thms)
  qed
qed

text \<open>The draft row the dialog starts from, for a loaded column.\<close>

definition draft_of :: "int \<Rightarrow> alter_loaded \<Rightarrow> alter_draft" where
  "draft_of i c =
     \<lparr>ad_id = i, ad_originalName = Some (al_name c), ad_name = al_name c, ad_type = al_type c,
      ad_nullable = al_nullable c, ad_default = al_default c, ad_comment = al_comment c, ad_isNew = False\<rparr>"

definition plain_name :: "string \<Rightarrow> bool" where
  "plain_name n \<longleftrightarrow> n \<noteq> [] \<and> trimmed n"

lemma plain_name_trim: "plain_name n \<Longrightarrow> trim n = n"
  by (simp add: plain_name_def trim_id)

lemma alter_column_unchanged:
  "plain_name (al_name c) \<Longrightarrow> originals (al_name c) = Some c \<Longrightarrow>
   alter_column driver tref originals (draft_of i c) acc = acc\<lparr>kept := insert (al_name c) (kept acc)\<rparr>"
  by (auto simp: alter_column_def alter_pg_def alter_mysql_def draft_of_def plain_name_trim Let_def plain_name_def
      split: list.splits)

lemma alter_columns_unchanged:
  "\<forall>c\<in>set cols. plain_name (al_name c) \<and> originals (al_name c) = Some c \<Longrightarrow>
   alter_columns driver tref originals (map (\<lambda>c. draft_of (ids c) c) cols) acc =
   acc\<lparr>kept := al_name ` set cols \<union> kept acc\<rparr>"
  by (induction cols arbitrary: acc) (simp_all add: alter_column_unchanged)

lemma original_map_self:
  "distinct (map al_name (ap_originalColumns p)) \<Longrightarrow> c \<in> set (ap_originalColumns p) \<Longrightarrow>
   original_map p (al_name c) = Some c"
  unfolding original_map_def
  by (rule map_of_is_SomeI) (simp_all add: rev_map [symmetric] comp_def image_iff)

text \<open>
  Opening the dialog and changing nothing changes nothing: for a draft made of the loaded
  columns, with the loaded table name (or a blank one) and comment, no statement is produced, on
  any driver. Loaded column names are distinct, not blank and without white space around them.
\<close>

theorem alter_unchanged_is_empty:
  assumes "ap_draftColumns p = map (\<lambda>c. draft_of (ids c) c) (ap_originalColumns p)"
    and "\<forall>c\<in>set (ap_originalColumns p). plain_name (al_name c)"
    and "distinct (map al_name (ap_originalColumns p))"
    and "trim (ap_tableNameDraft p) \<in> {[], ap_table p}"
    and "trim (ap_tableCommentDraft p) = trim (ap_originalTableComment p)"
  shows "buildAlterStatements p = ([], None)"
proof -
  have acc: "alter_columns driver tref (original_map p) (ap_draftColumns p) empty_acc =
      empty_acc\<lparr>kept := al_name ` set (ap_originalColumns p)\<rparr>" for driver tref
    using assms(1-3) alter_columns_unchanged [of "ap_originalColumns p" "original_map p"]
    by (simp add: original_map_self)
  have "alter_drops p (empty_acc\<lparr>kept := al_name ` set (ap_originalColumns p)\<rparr>) = []"
    by (simp add: alter_drops_def filter_empty_conv)
  with assms(4,5) show ?thesis
    by (auto simp: buildAlterStatements_def acc normalizeComment_def Let_def)
qed

definition ex_alter :: alter_params where
  "ex_alter =
     (let c = \<lparr>al_name = ''id'', al_type = ''int'', al_nullable = False, al_default = '' 0'', al_comment = ''key''\<rparr>
      in \<lparr>ap_driver = Some ''mysql'', ap_database = ''d'', ap_table = ''t'', ap_tableNameDraft = '' t '',
          ap_tableCommentDraft = [], ap_originalTableComment = '' '', ap_originalColumns = [c],
          ap_draftColumns = [draft_of 1 c]\<rparr>)"

theorem alter_unchanged_is_empty_witness: "buildAlterStatements ex_alter = ([], None)"
  by (rule alter_unchanged_is_empty [where ids = "\<lambda>c. 1"])
     (simp_all add: ex_alter_def Let_def plain_name_def trimmed_def is_space_def trim_def trim_start_def trim_end_def)

end
