(* ===== verification/TableFilter.thy ===== *)
theory TableFilter
  imports TableSql
begin

text \<open>
  The filter panel of \<^verbatim>\<open>lib/tableFilter.ts\<close>: a tree of conditions and groups, the edits the panel
  makes to it, the WHERE clause and the ORDER BY clause it stands for. Functions that map over the
  items and descend into groups are recursions over the item list. The module's id counter is passed
  in and out where an id is drawn.
\<close>

datatype filter_join = Join_and | Join_or

record filter_condition =
  fc_id :: string
  fc_column :: string
  fc_operator :: filter_op
  fc_value :: jsval
  fc_enabled :: bool
  fc_join :: filter_join

text \<open>
  A group is its id, items, join, and the optional flags \<open>enabled\<close> and \<open>negated\<close>.
\<close>

datatype filter_item =
    Condition filter_condition
  | Group string "filter_item list" filter_join "bool option" "bool option"

type_synonym filter_items = "filter_item list"

fun item_id :: "filter_item \<Rightarrow> string" where
  "item_id (Condition c) = fc_id c"
| "item_id (Group i its j e n) = i"

section \<open>Creating items\<close>

text \<open>The counter counts the ids drawn.\<close>

definition nextFilterId :: "string \<Rightarrow> nat \<Rightarrow> string \<times> nat" where
  "nextFilterId prefix seq = (prefix @ ''-'' @ nat_str (seq + 1), seq + 1)"

record condition_options =
  co_value :: jsval
  co_enabled :: "bool option"
  co_join :: "filter_join option"
  co_operator :: "filter_op option"

definition no_options :: condition_options where
  "no_options = \<lparr>co_value = JUndef, co_enabled = None, co_join = None, co_operator = None\<rparr>"

definition createFilterCondition :: "string \<Rightarrow> string \<Rightarrow> condition_options \<Rightarrow> filter_condition" where
  "createFilterCondition i column options =
     \<lparr>fc_id = i, fc_column = column,
      fc_operator = (case co_operator options of None \<Rightarrow> Op_eq | Some oper \<Rightarrow> oper),
      fc_value = co_value options,
      fc_enabled = (case co_enabled options of None \<Rightarrow> True | Some b \<Rightarrow> b),
      fc_join = (case co_join options of None \<Rightarrow> Join_and | Some j \<Rightarrow> j)\<rparr>"

fun usedColumns :: "filter_items \<Rightarrow> string list" where
  "usedColumns [] = []"
| "usedColumns (Condition c # items) = fc_column c # usedColumns items"
| "usedColumns (Group i its j e n # items) = usedColumns its @ usedColumns items"

text \<open>\<open>columns.find(column => !used.has(column)) ?? columns[0]\<close>\<close>

definition first_unused :: "string list \<Rightarrow> string list \<Rightarrow> string option" where
  "first_unused used columns =
     (case columns of
        [] \<Rightarrow> None
      | c # cs \<Rightarrow> (case find (\<lambda>column. column \<notin> set used) columns of None \<Rightarrow> Some c | Some column \<Rightarrow> Some column))"

definition pickNextFilterColumn :: "filter_items \<Rightarrow> string list \<Rightarrow> string option" where
  "pickNextFilterColumn items columns = first_unused (usedColumns items) columns"

text \<open>A missing id argument draws one, whether or not the item is then added.\<close>

definition given_or_next :: "string \<Rightarrow> string option \<Rightarrow> nat \<Rightarrow> string \<times> nat" where
  "given_or_next prefix i seq = (case i of Some i \<Rightarrow> (i, seq) | None \<Rightarrow> nextFilterId prefix seq)"

definition addFilterCondition ::
  "filter_items \<Rightarrow> string list \<Rightarrow> string option \<Rightarrow> nat \<Rightarrow> filter_items \<times> nat" where
  "addFilterCondition items columns i seq =
     (let (i, seq) = given_or_next ''filter'' i seq
      in case pickNextFilterColumn items columns of
           None \<Rightarrow> (items, seq)
         | Some column \<Rightarrow>
             if column = [] then (items, seq)
             else (items @ [Condition (createFilterCondition i column no_options)], seq))"

definition addFilterGroup :: "filter_items \<Rightarrow> string option \<Rightarrow> nat \<Rightarrow> filter_items \<times> nat" where
  "addFilterGroup items i seq =
     (let (i, seq) = given_or_next ''group'' i seq
      in (items @ [Group i [] Join_and (Some True) None], seq))"

section \<open>The WHERE clause\<close>

text \<open>Here a range needs two values, neither undefined; the list is read as in \<open>TableSql\<close>.\<close>

definition filter_toRangeValues :: "jsval \<Rightarrow> (jsval \<times> jsval) option" where
  "filter_toRangeValues value =
     (case value of
        JArr (a # b # vs) \<Rightarrow> if a = JUndef \<or> b = JUndef then None else Some (a, b)
      | _ \<Rightarrow> None)"

fun filter_toListValues :: "jsval \<Rightarrow> jsval list" where
  "filter_toListValues (JArr vs) = filter (\<lambda>v. v \<noteq> JUndef) vs"
| "filter_toListValues (JStr s) = map JStr (filter (\<lambda>part. part \<noteq> []) (map trim (split '','' s)))"
| "filter_toListValues value = (if value \<noteq> JUndef then [value] else [])"

definition conditionSql :: "filter_condition \<Rightarrow> driver \<Rightarrow> string" where
  "conditionSql condition driver =
     (if \<not> fc_enabled condition then []
      else
        let column = quoteIdent (fc_column condition) driver;
            oper = fc_operator condition;
            value = fc_value condition
        in if oper = Op_is_null then column @ '' IS NULL''
           else if oper = Op_is_not_null then column @ '' IS NOT NULL''
           else if oper = Op_is_empty then ''('' @ column @ '' IS NULL OR '' @ column @ '' = '' @ [SQ, SQ] @ '')''
           else if oper = Op_is_not_empty then
             ''('' @ column @ '' IS NOT NULL AND '' @ column @ '' <> '' @ [SQ, SQ] @ '')''
           else if value = JUndef then []
           else if nullish value then
             (if oper = Op_ne then column @ '' IS NOT NULL''
              else if oper = Op_eq then column @ '' IS NULL''
              else [])
           else if oper = Op_contains \<or> oper = Op_like then like_clause column '' LIKE '' ''%'' value ''%''
           else if oper = Op_not_contains \<or> oper = Op_not_like then
             like_clause column '' NOT LIKE '' ''%'' value ''%''
           else if oper = Op_begins_with then like_clause column '' LIKE '' [] value ''%''
           else if oper = Op_not_begins_with then like_clause column '' NOT LIKE '' [] value ''%''
           else if oper = Op_ends_with then like_clause column '' LIKE '' ''%'' value []
           else if oper = Op_not_ends_with then like_clause column '' NOT LIKE '' ''%'' value []
           else if oper = Op_between \<or> oper = Op_not_between then
             (case filter_toRangeValues value of
                None \<Rightarrow> []
              | Some (a, b) \<Rightarrow>
                  column @ '' '' @ (if oper = Op_not_between then ''NOT '' else []) @
                  ''BETWEEN '' @ sqlQuote a @ '' AND '' @ sqlQuote b)
           else if oper = Op_in_list \<or> oper = Op_not_in_list then
             (let listValues = filter_toListValues value
              in if listValues = [] then []
                 else column @ '' '' @ (if oper = Op_not_in_list then ''NOT '' else []) @
                      ''IN ('' @ join '', '' (map sqlQuote listValues) @ '')'')
           else column @ '' '' @ (if oper = Op_ne then ''<>'' else op_text oper) @ '' '' @ sqlQuote value)"

fun join_text :: "filter_join \<Rightarrow> string" where
  "join_text Join_and = ''and''"
| "join_text Join_or = ''or''"

text \<open>The \<open>reduce\<close> over the parts: each is joined by the join of the one before.\<close>

fun reduce_parts :: "string \<Rightarrow> filter_join \<Rightarrow> (string \<times> filter_join) list \<Rightarrow> string" where
  "reduce_parts acc j [] = acc"
| "reduce_parts acc j ((sql, j') # parts) =
     reduce_parts (acc @ '' '' @ to_upper (join_text j) @ '' '' @ sql) j' parts"

fun join_parts :: "(string \<times> filter_join) list \<Rightarrow> string" where
  "join_parts [] = []"
| "join_parts ((sql, j) # parts) = reduce_parts sql j parts"

fun where_parts :: "driver \<Rightarrow> filter_items \<Rightarrow> (string \<times> filter_join) list" where
  "where_parts driver [] = []"
| "where_parts driver (Condition c # items) =
     (let sql = conditionSql c driver
      in if sql = [] then where_parts driver items else (sql, fc_join c) # where_parts driver items)"
| "where_parts driver (Group i its j e n # items) =
     (let sql = (if e = Some False then [] else join_parts (where_parts driver its))
      in if sql = [] then where_parts driver items
         else ((if n = Some True then ''NOT '' else []) @ ''('' @ sql @ '')'', j) # where_parts driver items)"

definition buildItemsWhere :: "filter_items \<Rightarrow> driver \<Rightarrow> string" where
  "buildItemsWhere items driver = join_parts (where_parts driver items)"

definition buildFilterWhereClause :: "filter_items \<Rightarrow> driver \<Rightarrow> string" where
  "buildFilterWhereClause items driver = buildItemsWhere items driver"

section \<open>Edits\<close>

fun flip_join :: "filter_join \<Rightarrow> filter_join" where
  "flip_join Join_and = Join_or"
| "flip_join Join_or = Join_and"

fun toggleFilterJoin :: "filter_items \<Rightarrow> string \<Rightarrow> filter_items" where
  "toggleFilterJoin [] i = []"
| "toggleFilterJoin (Condition c # items) i =
     (if fc_id c = i then Condition (c\<lparr>fc_join := flip_join (fc_join c)\<rparr>) else Condition c) #
     toggleFilterJoin items i"
| "toggleFilterJoin (Group k its j e n # items) i =
     (if k = i then Group k its (flip_join j) e n else Group k (toggleFilterJoin its i) j e n) #
     toggleFilterJoin items i"

text \<open>A patch of a condition or a group: the fields it has replace those of the item.\<close>

record condition_patch =
  cp_id :: "string option"
  cp_column :: "string option"
  cp_operator :: "filter_op option"
  cp_value :: "jsval option"
  cp_enabled :: "bool option"
  cp_join :: "filter_join option"

definition patched :: "'a option \<Rightarrow> 'a \<Rightarrow> 'a" where
  "patched p old = (case p of None \<Rightarrow> old | Some new \<Rightarrow> new)"

definition patch_condition :: "condition_patch \<Rightarrow> filter_condition \<Rightarrow> filter_condition" where
  "patch_condition p c =
     \<lparr>fc_id = patched (cp_id p) (fc_id c), fc_column = patched (cp_column p) (fc_column c),
      fc_operator = patched (cp_operator p) (fc_operator c), fc_value = patched (cp_value p) (fc_value c),
      fc_enabled = patched (cp_enabled p) (fc_enabled c), fc_join = patched (cp_join p) (fc_join c)\<rparr>"

fun updateFilterItem :: "filter_items \<Rightarrow> string \<Rightarrow> condition_patch \<Rightarrow> filter_items" where
  "updateFilterItem [] i patch = []"
| "updateFilterItem (Condition c # items) i patch =
     (if fc_id c = i then Condition (patch_condition patch c) else Condition c) # updateFilterItem items i patch"
| "updateFilterItem (Group k its j e n # items) i patch =
     Group k (updateFilterItem its i patch) j e n # updateFilterItem items i patch"

record group_patch =
  gp_id :: "string option"
  gp_items :: "filter_items option"
  gp_join :: "filter_join option"
  gp_enabled :: "bool option option"
  gp_negated :: "bool option option"

fun updateFilterGroup :: "filter_items \<Rightarrow> string \<Rightarrow> group_patch \<Rightarrow> filter_items" where
  "updateFilterGroup [] i patch = []"
| "updateFilterGroup (Condition c # items) i patch = Condition c # updateFilterGroup items i patch"
| "updateFilterGroup (Group k its j e n # items) i patch =
     (if k = i then Group (patched (gp_id patch) k) (patched (gp_items patch) its) (patched (gp_join patch) j)
                      (patched (gp_enabled patch) e) (patched (gp_negated patch) n)
      else Group k (updateFilterGroup its i patch) j e n) # updateFilterGroup items i patch"

fun NEGATED_OPERATOR :: "filter_op \<Rightarrow> filter_op" where
  "NEGATED_OPERATOR Op_eq = Op_ne"
| "NEGATED_OPERATOR Op_ne = Op_eq"
| "NEGATED_OPERATOR Op_lt = Op_ge"
| "NEGATED_OPERATOR Op_le = Op_gt"
| "NEGATED_OPERATOR Op_gt = Op_le"
| "NEGATED_OPERATOR Op_ge = Op_lt"
| "NEGATED_OPERATOR Op_contains = Op_not_contains"
| "NEGATED_OPERATOR Op_not_contains = Op_contains"
| "NEGATED_OPERATOR Op_begins_with = Op_not_begins_with"
| "NEGATED_OPERATOR Op_not_begins_with = Op_begins_with"
| "NEGATED_OPERATOR Op_ends_with = Op_not_ends_with"
| "NEGATED_OPERATOR Op_not_ends_with = Op_ends_with"
| "NEGATED_OPERATOR Op_is_null = Op_is_not_null"
| "NEGATED_OPERATOR Op_is_not_null = Op_is_null"
| "NEGATED_OPERATOR Op_is_empty = Op_is_not_empty"
| "NEGATED_OPERATOR Op_is_not_empty = Op_is_empty"
| "NEGATED_OPERATOR Op_between = Op_not_between"
| "NEGATED_OPERATOR Op_not_between = Op_between"
| "NEGATED_OPERATOR Op_in_list = Op_not_in_list"
| "NEGATED_OPERATOR Op_not_in_list = Op_in_list"
| "NEGATED_OPERATOR Op_like = Op_not_like"
| "NEGATED_OPERATOR Op_not_like = Op_like"

fun toggleFilterNegator :: "filter_items \<Rightarrow> string \<Rightarrow> filter_items" where
  "toggleFilterNegator [] i = []"
| "toggleFilterNegator (Condition c # items) i =
     (if fc_id c = i then Condition (c\<lparr>fc_operator := NEGATED_OPERATOR (fc_operator c)\<rparr>) else Condition c) #
     toggleFilterNegator items i"
| "toggleFilterNegator (Group k its j e n # items) i =
     (if k = i then Group k its j e (Some (n \<noteq> Some True))
      else Group k (toggleFilterNegator its i) j e n) # toggleFilterNegator items i"

fun toggleFilterItemEnabled :: "filter_items \<Rightarrow> string \<Rightarrow> filter_items" where
  "toggleFilterItemEnabled [] i = []"
| "toggleFilterItemEnabled (Condition c # items) i =
     (if fc_id c = i then Condition (c\<lparr>fc_enabled := \<not> fc_enabled c\<rparr>) else Condition c) #
     toggleFilterItemEnabled items i"
| "toggleFilterItemEnabled (Group k its j e n # items) i =
     (if k = i then Group k its j (Some (e = Some False)) n
      else Group k (toggleFilterItemEnabled its i) j e n) # toggleFilterItemEnabled items i"

fun updateFilterGroupItems :: "filter_items \<Rightarrow> string \<Rightarrow> (filter_items \<Rightarrow> filter_items) \<Rightarrow> filter_items" where
  "updateFilterGroupItems [] i updater = []"
| "updateFilterGroupItems (Condition c # items) i updater = Condition c # updateFilterGroupItems items i updater"
| "updateFilterGroupItems (Group k its j e n # items) i updater =
     (if k = i then Group k (updater its) j e n
      else Group k (updateFilterGroupItems its i updater) j e n) # updateFilterGroupItems items i updater"

fun removeFilterItem :: "filter_items \<Rightarrow> string \<Rightarrow> filter_items" where
  "removeFilterItem [] i = []"
| "removeFilterItem (Condition c # items) i =
     (if fc_id c = i then removeFilterItem items i else Condition c # removeFilterItem items i)"
| "removeFilterItem (Group k its j e n # items) i =
     (if k = i then removeFilterItem items i
      else Group k (removeFilterItem its i) j e n # removeFilterItem items i)"

fun removeFilterItemsByColumn :: "filter_items \<Rightarrow> string \<Rightarrow> filter_items" where
  "removeFilterItemsByColumn [] column = []"
| "removeFilterItemsByColumn (Condition c # items) column =
     (if fc_column c = column then removeFilterItemsByColumn items column
      else Condition c # removeFilterItemsByColumn items column)"
| "removeFilterItemsByColumn (Group k its j e n # items) column =
     Group k (removeFilterItemsByColumn its column) j e n # removeFilterItemsByColumn items column"

fun unwrapFilterGroup :: "filter_items \<Rightarrow> string \<Rightarrow> filter_items" where
  "unwrapFilterGroup [] i = []"
| "unwrapFilterGroup (Condition c # items) i = Condition c # unwrapFilterGroup items i"
| "unwrapFilterGroup (Group k its j e n # items) i =
     (if k = i then its @ unwrapFilterGroup items i
      else Group k (unwrapFilterGroup its i) j e n # unwrapFilterGroup items i)"

fun setAllFilterItemsEnabled :: "filter_items \<Rightarrow> bool \<Rightarrow> filter_items" where
  "setAllFilterItemsEnabled [] b = []"
| "setAllFilterItemsEnabled (Condition c # items) b =
     Condition (c\<lparr>fc_enabled := b\<rparr>) # setAllFilterItemsEnabled items b"
| "setAllFilterItemsEnabled (Group k its j e n # items) b =
     Group k (setAllFilterItemsEnabled its b) j (Some b) n # setAllFilterItemsEnabled items b"

fun findFilterItem :: "filter_items \<Rightarrow> string \<Rightarrow> filter_item option" where
  "findFilterItem [] i = None"
| "findFilterItem (Condition c # items) i =
     (if fc_id c = i then Some (Condition c) else findFilterItem items i)"
| "findFilterItem (Group k its j e n # items) i =
     (if k = i then Some (Group k its j e n)
      else case findFilterItem its i of
             None \<Rightarrow> findFilterItem items i
           | Some child \<Rightarrow> Some child)"

text \<open>
  The id of a clone is drawn before those of its children; \<open>clone_items\<close> is the \<open>map\<close> over the items.
\<close>

fun clone_items :: "filter_items \<Rightarrow> nat \<Rightarrow> filter_items \<times> nat" where
  "clone_items [] seq = ([], seq)"
| "clone_items (Condition c # items) seq =
     (let (i, seq) = nextFilterId ''filter'' seq;
          (rest, seq) = clone_items items seq
      in (Condition (c\<lparr>fc_id := i\<rparr>) # rest, seq))"
| "clone_items (Group k its j e n # items) seq =
     (let (i, seq) = nextFilterId ''group'' seq;
          (its', seq) = clone_items its seq;
          (rest, seq) = clone_items items seq
      in (Group i its' j e n # rest, seq))"

definition cloneFilterItem :: "filter_item \<Rightarrow> nat \<Rightarrow> filter_item \<times> nat" where
  "cloneFilterItem item seq = (let (items, seq) = clone_items [item] seq in (hd items, seq))"

text \<open>
  Inserting and moving look for the id among the items of a level first and only then in the groups
  of that level.
\<close>

function insertFilterItemAfter :: "filter_items \<Rightarrow> string \<Rightarrow> filter_item \<Rightarrow> filter_items" where
  "insertFilterItemAfter items i new =
     (case find_index (\<lambda>item. item_id item = i) items of
        Some index \<Rightarrow> insert_at (index + 1) new items
      | None \<Rightarrow>
          map (\<lambda>item. case item of
                 Condition c \<Rightarrow> Condition c
               | Group k its j e n \<Rightarrow> Group k (insertFilterItemAfter its i new) j e n) items)"
  by pat_completeness auto
termination
  by (relation "measure (\<lambda>(items, i, new). size_list size items)")
     (auto dest!: size_list_estimation' [where f = size, OF _ order_refl])

datatype move_direction = Move_up | Move_down

function moveFilterItem :: "filter_items \<Rightarrow> string \<Rightarrow> move_direction \<Rightarrow> filter_items" where
  "moveFilterItem items i direction =
     (case find_index (\<lambda>item. item_id item = i) items of
        Some index \<Rightarrow>
          (if direction = Move_up then
             (if index = 0 then items else move_elem index (index - 1) items)
           else
             (if index + 1 \<ge> length items then items else move_elem index (index + 1) items))
      | None \<Rightarrow>
          map (\<lambda>item. case item of
                 Condition c \<Rightarrow> Condition c
               | Group k its j e n \<Rightarrow> Group k (moveFilterItem its i direction) j e n) items)"
  by pat_completeness auto
termination
  by (relation "measure (\<lambda>(items, i, direction). size_list size items)")
     (auto dest!: size_list_estimation' [where f = size, OF _ order_refl])

declare insertFilterItemAfter.simps [simp del] moveFilterItem.simps [simp del]

section \<open>Sorting\<close>

datatype sort_dir = Asc | Desc

fun dir_text :: "sort_dir \<Rightarrow> string" where
  "dir_text Asc = ''asc''"
| "dir_text Desc = ''desc''"

record sort_item =
  so_id :: string
  so_column :: string
  so_dir :: sort_dir

definition createSortCriterion :: "string \<Rightarrow> string \<Rightarrow> sort_dir option \<Rightarrow> sort_item" where
  "createSortCriterion i column dir = \<lparr>so_id = i, so_column = column, so_dir = patched dir Asc\<rparr>"

definition usedSortColumns :: "sort_item list \<Rightarrow> string list" where
  "usedSortColumns items = map so_column items"

definition pickNextSortColumn :: "sort_item list \<Rightarrow> string list \<Rightarrow> string option" where
  "pickNextSortColumn items columns = first_unused (usedSortColumns items) columns"

definition addSortCriterion :: "sort_item list \<Rightarrow> string list \<Rightarrow> string option \<Rightarrow> nat \<Rightarrow> sort_item list \<times> nat" where
  "addSortCriterion items columns i seq =
     (let (i, seq) = given_or_next ''sort'' i seq
      in case pickNextSortColumn items columns of
           None \<Rightarrow> (items, seq)
         | Some column \<Rightarrow>
             if column = [] then (items, seq) else (items @ [createSortCriterion i column None], seq))"

definition toggleSortDirection :: "sort_item list \<Rightarrow> string \<Rightarrow> sort_item list" where
  "toggleSortDirection items i =
     map (\<lambda>item. if so_id item = i then item\<lparr>so_dir := (if so_dir item = Asc then Desc else Asc)\<rparr> else item) items"

record sort_patch =
  sp_id :: "string option"
  sp_column :: "string option"
  sp_dir :: "sort_dir option"

definition updateSortCriterion :: "sort_item list \<Rightarrow> string \<Rightarrow> sort_patch \<Rightarrow> sort_item list" where
  "updateSortCriterion items i patch =
     map (\<lambda>item. if so_id item = i
                 then \<lparr>so_id = patched (sp_id patch) (so_id item), so_column = patched (sp_column patch) (so_column item),
                       so_dir = patched (sp_dir patch) (so_dir item)\<rparr>
                 else item) items"

definition buildSortOrderByClause :: "sort_item list \<Rightarrow> driver \<Rightarrow> string" where
  "buildSortOrderByClause items driver =
     join '', '' (map (\<lambda>item. quoteIdent (so_column item) driver @ '' '' @ to_upper (dir_text (so_dir item))) items)"

section \<open>What the WHERE clause says\<close>

text \<open>
  The abstract filter: a chain of conditions and parenthesised groups, each with the connective to
  the next. Disabled items, items without a usable value and empty groups are not in it.
\<close>

datatype where_expr = W_cond string sql_cond | W_group bool where_chain
  and where_chain = W_end | W_item where_expr filter_join where_chain

definition condition_cond :: "filter_condition \<Rightarrow> sql_cond option" where
  "condition_cond c =
     (let oper = fc_operator c; v = fc_value c
      in if \<not> fc_enabled c then None
         else if value_free oper then value_cond oper [] None []
         else if v = JUndef then None
         else if nullish v then null_cond oper
         else value_cond oper (js_string v) (map_option (map_prod lit_of lit_of) (filter_toRangeValues v))
                (map lit_of (filter_toListValues v)))"

fun where_ast :: "filter_items \<Rightarrow> where_chain" where
  "where_ast [] = W_end"
| "where_ast (Condition c # items) =
     (case condition_cond c of
        None \<Rightarrow> where_ast items
      | Some k \<Rightarrow> W_item (W_cond (fc_column c) k) (fc_join c) (where_ast items))"
| "where_ast (Group i its j e n # items) =
     (if e = Some False \<or> where_ast its = W_end then where_ast items
      else W_item (W_group (n = Some True) (where_ast its)) j (where_ast items))"

definition join_word :: "filter_join \<Rightarrow> string" where
  "join_word j = (case j of Join_and \<Rightarrow> ''AND'' | Join_or \<Rightarrow> ''OR'')"

fun expr_toks :: "where_expr \<Rightarrow> sql_tok list" and chain_toks :: "where_chain \<Rightarrow> sql_tok list" where
  "expr_toks (W_cond col k) = cond_toks col k"
| "expr_toks (W_group n ch) = not_toks n @ [TSym CHR ''(''] @ chain_toks ch @ [TSym CHR '')'']"
| "chain_toks W_end = []"
| "chain_toks (W_item e j ch) = expr_toks e @ (if ch = W_end then [] else TWord (join_word j) # chain_toks ch)"

fun expr_text :: "driver \<Rightarrow> where_expr \<Rightarrow> string" and chain_text :: "driver \<Rightarrow> where_chain \<Rightarrow> string" where
  "expr_text driver (W_cond col k) = cond_text (quoteIdent col driver) k"
| "expr_text driver (W_group n ch) = not_text n @ ''('' @ chain_text driver ch @ '')''"
| "chain_text driver W_end = []"
| "chain_text driver (W_item e j ch) =
     expr_text driver e @ (if ch = W_end then [] else '' '' @ join_word j @ '' '' @ chain_text driver ch)"

fun safe_expr :: "driver \<Rightarrow> where_expr \<Rightarrow> bool" and safe_chain :: "driver \<Rightarrow> where_chain \<Rightarrow> bool" where
  "safe_expr driver (W_cond col k) \<longleftrightarrow> safe_cond driver k"
| "safe_expr driver (W_group n ch) \<longleftrightarrow> safe_chain driver ch"
| "safe_chain driver W_end \<longleftrightarrow> True"
| "safe_chain driver (W_item e j ch) \<longleftrightarrow> safe_expr driver e \<and> safe_chain driver ch"

lemma connective_tokens:
  "sql_tokens (sql_dialect pg) s = Some us \<Longrightarrow> sql_tokens (sql_dialect pg) t = Some vs \<Longrightarrow>
   sql_tokens (sql_dialect pg) (s @ CHR '' '' # join_word j @ CHR '' '' # t) = Some (us @ TWord (join_word j) # vs)"
  using conj.sep_tokens [of pg s us t vs] disj.sep_tokens [of pg s us t vs]
  by (cases j) (simp_all add: join_word_def)

lemma expr_text_tokens:
  "safe_expr driver e \<Longrightarrow> sql_tokens (sql_dialect (is_pg driver)) (expr_text driver e) = Some (expr_toks e)"
  and chain_text_tokens:
  "safe_chain driver ch \<Longrightarrow> sql_tokens (sql_dialect (is_pg driver)) (chain_text driver ch) = Some (chain_toks ch)"
proof (induction e and ch)
  case (W_cond col k)
  then show ?case by (simp add: cond_text_tokens)
next
  case (W_group n ch)
  then show ?case by (cases n) (auto simp: not_text_def not_toks_def sql_lex)
next
  case W_end
  then show ?case by simp
next
  case (W_item e j ch)
  then show ?case by (simp add: connective_tokens)
qed

lemma upper_join_text: "to_upper (join_text j) = join_word j"
  by (cases j) (simp_all add: join_word_def, code_simp+)

lemma reduce_parts_append: "reduce_parts (acc @ s) j parts = acc @ reduce_parts s j parts"
  by (induction parts arbitrary: s j) auto

lemma join_parts_Cons:
  "join_parts ((s, j) # parts) =
   s @ (if parts = [] then [] else '' '' @ join_word j @ '' '' @ join_parts parts)"
proof (cases parts)
  case (Cons p ps)
  then show ?thesis
    using reduce_parts_append [of "s @ '' '' @ join_word j @ '' ''" "fst p" "snd p" ps]
    by (cases p) (simp add: upper_join_text)
qed simp

declare join_parts.simps(2) [simp del]

lemma quoteIdent_nonempty [simp]: "quoteIdent col driver \<noteq> []"
  by (simp add: quoteIdent_def quote_with_def)

lemma cond_text_nonempty [simp]: "cond_text (quoteIdent col driver) k \<noteq> []"
  by (cases k) auto

lemma conditionSql_text:
  "conditionSql c driver = opt_text (quoteIdent (fc_column c) driver) (condition_cond c)"
  by (cases "fc_operator c")
     (auto simp: conditionSql_def condition_cond_def value_free_def opt_text_def like_clause_def
        not_text_def sqlQuote_lit lit_of_def lit_text_def Let_def comp_def intro!: arg_cong [where f = "join '', ''"]
        split: option.split)

lemma join_parts_empty: "\<forall>p\<in>set parts. fst p \<noteq> [] \<Longrightarrow> join_parts parts = [] \<longleftrightarrow> parts = []"
  by (cases parts) (auto simp: join_parts_Cons)

lemma where_parts_nonempty: "p \<in> set (where_parts driver items) \<Longrightarrow> fst p \<noteq> []"
  by (induction driver items rule: where_parts.induct) (auto simp: Let_def split: if_splits)

lemma buildItemsWhere_text:
  "join_parts (where_parts driver items) = chain_text driver (where_ast items) \<and>
   (where_parts driver items = [] \<longleftrightarrow> where_ast items = W_end)"
proof (induction driver items rule: where_parts.induct)
  case (1 driver)
  then show ?case by simp
next
  case (2 driver c items)
  then show ?case
    by (cases "condition_cond c") (simp_all add: conditionSql_text opt_text_def join_parts_Cons)
next
  case (3 driver i its j e n items)
  then show ?case
    using join_parts_empty [of "where_parts driver its"] where_parts_nonempty [of _ driver its]
    by (cases "e = Some False") (auto simp: join_parts_Cons not_text_def Let_def)
qed

text \<open>
  C3: The WHERE clause of any filter tree is read by the server as the chain of conditions, groups
  and connectives the tree stands for: every value is one literal, every group keeps its parentheses
  and its NOT, and disabled or value-less items leave no trace, not even their connective.
\<close>

theorem filter_where_reads:
  assumes "safe_chain driver (where_ast items)"
  shows "reads driver (buildFilterWhereClause items driver) = Some (chain_toks (where_ast items))"
  using chain_text_tokens [OF assms] buildItemsWhere_text [of driver items]
  by (simp add: reads_def buildFilterWhereClause_def buildItemsWhere_def)

definition ex_filter :: filter_items where
  "ex_filter =
     [Condition \<lparr>fc_id = ''1'', fc_column = ''a'', fc_operator = Op_eq, fc_value = JStr [CHR ''x'', SQ],
        fc_enabled = True, fc_join = Join_or\<rparr>,
      Condition \<lparr>fc_id = ''2'', fc_column = ''b'', fc_operator = Op_lt, fc_value = JStr ''5'',
        fc_enabled = False, fc_join = Join_and\<rparr>,
      Group ''3'' [Condition \<lparr>fc_id = ''4'', fc_column = ''c'', fc_operator = Op_is_null, fc_value = JUndef,
        fc_enabled = True, fc_join = Join_and\<rparr>] Join_and None (Some True)]"

theorem filter_where_reads_witness:
  "reads (Some ''mysql'') (buildFilterWhereClause ex_filter (Some ''mysql'')) =
   Some [TId ''a'', TSym CHR ''='', TStr [CHR ''x'', SQ], TWord ''OR'', TWord ''NOT'', TSym CHR ''('',
         TId ''c'', TWord ''IS'', TWord ''NULL'', TSym CHR '')'']"
proof -
  have ast: "where_ast ex_filter =
      W_item (W_cond ''a'' (C_cmp Cmp_eq [CHR ''x'', SQ])) Join_or
        (W_item (W_group True (W_item (W_cond ''c'' (C_null False)) Join_and W_end)) Join_and W_end)"
    by (simp add: ex_filter_def condition_cond_def value_free_def)
  show ?thesis
    using filter_where_reads [of "Some ''mysql''" ex_filter]
    by (simp add: ast safe_cond_def safe_text_def not_toks_def join_word_def)
qed

section \<open>The meaning of negating an item\<close>

text \<open>
  The truth value of a chain for a row: AND binds tighter than OR. \<open>chain_from\<close> carries the
  connective before the item and the value of the AND run so far.
\<close>

type_synonym db_row = "string \<Rightarrow> string option"

fun expr_value :: "server \<Rightarrow> db_row \<Rightarrow> where_expr \<Rightarrow> tv"
  and chain_value :: "server \<Rightarrow> db_row \<Rightarrow> where_chain \<Rightarrow> tv"
  and chain_from :: "server \<Rightarrow> db_row \<Rightarrow> filter_join \<Rightarrow> tv \<Rightarrow> where_chain \<Rightarrow> tv" where
  "expr_value srv row (W_cond col k) = cond_value srv (row col) k"
| "expr_value srv row (W_group n ch) = neg3 n (chain_value srv row ch)"
| "chain_value srv row W_end = Some True"
| "chain_value srv row (W_item e j ch) = chain_from srv row j (expr_value srv row e) ch"
| "chain_from srv row j cur W_end = cur"
| "chain_from srv row j cur (W_item e j' ch) =
     (case j of
        Join_and \<Rightarrow> chain_from srv row j' (and3 cur (expr_value srv row e)) ch
      | Join_or \<Rightarrow> or3 cur (chain_from srv row j' (expr_value srv row e) ch))"

definition item_expr :: "filter_item \<Rightarrow> where_expr option" where
  "item_expr item = (case where_ast [item] of W_end \<Rightarrow> None | W_item e j ch \<Rightarrow> Some e)"

lemma NEGATED_OPERATOR_inverse [simp]: "NEGATED_OPERATOR (NEGATED_OPERATOR oper) = oper"
  by (cases oper) simp_all

lemma value_free_negated [simp]: "value_free (NEGATED_OPERATOR oper) = value_free oper"
  by (cases oper) (simp_all add: value_free_def)

definition negation_of :: "server \<Rightarrow> string option \<Rightarrow> sql_cond option \<Rightarrow> sql_cond option \<Rightarrow> bool" where
  "negation_of srv x k k' \<longleftrightarrow>
     (case (k, k') of
        (None, None) \<Rightarrow> True
      | (Some k, Some k') \<Rightarrow> cond_value srv x k' = not3 (cond_value srv x k)
      | _ \<Rightarrow> False)"

lemma value_cond_negated: "negation_of srv x (value_cond oper v rng lst) (value_cond (NEGATED_OPERATOR oper) v rng lst)"
  by (cases oper)
     (auto simp: negation_of_def neg3_def cond_value_empty_not simp del: cond_value.simps(2) split: option.splits)

lemma null_cond_negated: "negation_of srv x (null_cond oper) (null_cond (NEGATED_OPERATOR oper))"
  by (cases oper) (simp_all add: negation_of_def)

lemma condition_cond_negated:
  "negation_of srv x (condition_cond c) (condition_cond (c\<lparr>fc_operator := NEGATED_OPERATOR (fc_operator c)\<rparr>))"
  by (auto simp: condition_cond_def Let_def value_cond_negated null_cond_negated) (simp_all add: negation_of_def)

text \<open>
  C4: Negating an item from the panel negates what it asks of a row, in three-valued logic and for
  every operator, value and server collation: the item stays in the WHERE clause if and only if it
  was there, and its truth value becomes NOT of the old one, NULL staying NULL. For a group this is
  NOT before its parentheses, for a condition the operator's counterpart.
\<close>

theorem toggle_negator_negates:
  "rel_option (\<lambda>e e'. \<forall>srv row. expr_value srv row e' = not3 (expr_value srv row e))
     (item_expr item) (item_expr (hd (toggleFilterNegator [item] (item_id item))))"
proof (cases item)
  case (Condition c)
  have "negation_of srv x (condition_cond c) (condition_cond (c\<lparr>fc_operator := NEGATED_OPERATOR (fc_operator c)\<rparr>))" for srv x
    by (rule condition_cond_negated)
  then show ?thesis
    by (cases "condition_cond c"; cases "condition_cond (c\<lparr>fc_operator := NEGATED_OPERATOR (fc_operator c)\<rparr>)")
       (simp_all add: Condition item_expr_def negation_of_def)
next
  case (Group i its j e n)
  then show ?thesis
    by (cases "e = Some False \<or> where_ast its = W_end") (auto simp: item_expr_def neg3_def)
qed

section \<open>Identifiers and edits\<close>

fun item_ids :: "filter_items \<Rightarrow> string list" where
  "item_ids [] = []"
| "item_ids (Condition c # items) = fc_id c # item_ids items"
| "item_ids (Group k its j e n # items) = k # item_ids its @ item_ids items"

lemma item_ids_append [simp]: "item_ids (xs @ ys) = item_ids xs @ item_ids ys"
  by (induction xs rule: item_ids.induct) simp_all

lemma item_ids_Cons: "item_ids (x # xs) = item_ids [x] @ item_ids xs"
  by (cases x) simp_all

lemma findFilterItem_None: "findFilterItem items i = None \<longleftrightarrow> i \<notin> set (item_ids items)"
  by (induction items i rule: findFilterItem.induct) (auto split: option.splits)

text \<open>
  Interface: an edit by id that changes items in place. Such an edit keeps every id where it is, so
  uniqueness of ids and the result of a lookup by id (found or not) survive it.
\<close>

locale in_place_edit =
  fixes edit :: "filter_items \<Rightarrow> string \<Rightarrow> filter_items"
  assumes ids [ids_simps]: "item_ids (edit items i) = item_ids items"
    and absent: "i \<notin> set (item_ids items) \<Longrightarrow> edit items i = items"
begin

lemma distinct_ids: "distinct (item_ids (edit items i)) \<longleftrightarrow> distinct (item_ids items)"
  by (simp add: ids_simps)

lemma found: "findFilterItem (edit items i) k = None \<longleftrightarrow> findFilterItem items k = None"
  by (simp add: findFilterItem_None ids_simps)

lemma edits_in_place: "item_ids (foldl edit items is) = item_ids items"
  by (induction "is" arbitrary: items) (simp_all add: ids_simps)

end

lemma toggle_join_ids: "item_ids (toggleFilterJoin items i) = item_ids items"
  by (induction items i rule: toggleFilterJoin.induct) simp_all

lemma toggle_join_absent: "i \<notin> set (item_ids items) \<Longrightarrow> toggleFilterJoin items i = items"
  by (induction items i rule: toggleFilterJoin.induct) auto

lemma toggle_negator_ids: "item_ids (toggleFilterNegator items i) = item_ids items"
  by (induction items i rule: toggleFilterNegator.induct) simp_all

lemma toggle_negator_absent: "i \<notin> set (item_ids items) \<Longrightarrow> toggleFilterNegator items i = items"
  by (induction items i rule: toggleFilterNegator.induct) auto

lemma toggle_enabled_ids: "item_ids (toggleFilterItemEnabled items i) = item_ids items"
  by (induction items i rule: toggleFilterItemEnabled.induct) simp_all

lemma toggle_enabled_absent: "i \<notin> set (item_ids items) \<Longrightarrow> toggleFilterItemEnabled items i = items"
  by (induction items i rule: toggleFilterItemEnabled.induct) auto

interpretation edit_join: in_place_edit toggleFilterJoin
  by unfold_locales (simp_all add: toggle_join_ids toggle_join_absent)

interpretation edit_negator: in_place_edit toggleFilterNegator
  by unfold_locales (simp_all add: toggle_negator_ids toggle_negator_absent)

interpretation edit_enabled: in_place_edit toggleFilterItemEnabled
  by unfold_locales (simp_all add: toggle_enabled_ids toggle_enabled_absent)

lemma flip_join_inverse [simp]: "flip_join (flip_join j) = j"
  by (cases j) simp_all

lemma toggle_join_twice: "toggleFilterJoin (toggleFilterJoin items i) i = items"
  by (induction items i rule: toggleFilterJoin.induct) simp_all

lemma toggle_negator_twice_where: "where_ast (toggleFilterNegator (toggleFilterNegator items i) i) = where_ast items"
  by (induction items i rule: toggleFilterNegator.induct) (auto split: option.split)

section \<open>Removing, moving, inserting and cloning\<close>

text \<open>The removed ids are the item's own and, for a group, those of everything inside it.\<close>

lemma remove_ids: "set (item_ids (removeFilterItem items i)) \<subseteq> set (item_ids items) - {i}"
  by (induction items i rule: removeFilterItem.induct) auto

lemma remove_absent: "i \<notin> set (item_ids items) \<Longrightarrow> removeFilterItem items i = items"
  by (induction items i rule: removeFilterItem.induct) auto

lemma remove_distinct: "distinct (item_ids items) \<Longrightarrow> distinct (item_ids (removeFilterItem items i))"
proof (induction items i rule: removeFilterItem.induct)
  case (3 k its j e n items i)
  then show ?case using remove_ids [of its i] remove_ids [of items i] by (auto; blast)
qed (use remove_ids in auto)

lemma remove_column: "column \<notin> set (usedColumns (removeFilterItemsByColumn items column))"
  by (induction items column rule: removeFilterItemsByColumn.induct) auto

lemma disabled_where: "where_ast (setAllFilterItemsEnabled items False) = W_end"
  by (induction items False rule: setAllFilterItemsEnabled.induct) (simp_all add: condition_cond_def)

lemma unwrap_conditions:
  "usedColumns (xs @ ys) = usedColumns xs @ usedColumns ys"
  by (induction xs rule: usedColumns.induct) simp_all

lemma unwrap_columns: "usedColumns (unwrapFilterGroup items i) = usedColumns items"
  by (induction items i rule: unwrapFilterGroup.induct) (simp_all add: unwrap_conditions)

lemma item_ids_mset: "mset (item_ids items) = (\<Sum>x\<in>#mset items. mset (item_ids [x]))"
proof (induction items)
  case (Cons x xs)
  then show ?case by (subst item_ids_Cons) simp
qed simp

lemma set_item_ids: "set (item_ids items) = (\<Union>x\<in>set items. set (item_ids [x]))"
proof (induction items)
  case (Cons x xs)
  then show ?case by (subst item_ids_Cons) simp
qed simp

lemma item_id_in [simp]: "item_id x \<in> set (item_ids [x])"
  by (cases x) simp_all

lemma absent_here: "i \<notin> set (item_ids items) \<Longrightarrow> \<forall>x\<in>set items. item_id x \<noteq> i"
  using item_id_in unfolding set_item_ids [of items] by blast

definition map_groups :: "(filter_items \<Rightarrow> filter_items) \<Rightarrow> filter_item \<Rightarrow> filter_item" where
  "map_groups f item = (case item of
      Condition c \<Rightarrow> Condition c
    | Group k its j e n \<Rightarrow> Group k (f its) j e n)"

lemma item_ids_map_groups: "mset (item_ids [map_groups f x]) =
   (case x of Condition c \<Rightarrow> {#fc_id c#} | Group k its j e n \<Rightarrow> add_mset k (mset (item_ids (f its))))"
  by (cases x) (simp_all add: map_groups_def)

text \<open>Both operations act on the level that holds the id, or else on the groups of the level.\<close>

lemma move_here:
  "find_index (\<lambda>item. item_id item = i) items = Some index \<Longrightarrow>
   moveFilterItem items i d =
     (if d = Move_up then (if index = 0 then items else move_elem index (index - 1) items)
      else (if index + 1 \<ge> length items then items else move_elem index (index + 1) items))"
  by (subst moveFilterItem.simps) simp

lemma move_below:
  assumes "\<forall>x\<in>set items. item_id x \<noteq> i"
  shows "moveFilterItem items i d = map (map_groups (\<lambda>its. moveFilterItem its i d)) items"
proof -
  have none: "find_index (\<lambda>item. item_id item = i) items = None" using assms by simp
  show ?thesis
    by (subst moveFilterItem.simps) (simp add: none map_groups_def [abs_def] del: find_index_None)
qed

lemma insert_here:
  "find_index (\<lambda>item. item_id item = i) items = Some index \<Longrightarrow>
   insertFilterItemAfter items i new = insert_at (index + 1) new items"
  by (subst insertFilterItemAfter.simps) simp

lemma insert_below:
  assumes "\<forall>x\<in>set items. item_id x \<noteq> i"
  shows "insertFilterItemAfter items i new = map (map_groups (\<lambda>its. insertFilterItemAfter its i new)) items"
proof -
  have none: "find_index (\<lambda>item. item_id item = i) items = None" using assms by simp
  show ?thesis
    by (subst insertFilterItemAfter.simps) (simp add: none map_groups_def [abs_def] del: find_index_None)
qed

text \<open>Induction over the levels of a tree.\<close>

lemma level_induct [case_names level]:
  assumes "\<And>items. (\<And>k its j e n. Group k its j e n \<in> set items \<Longrightarrow> P its) \<Longrightarrow> P items"
  shows "P items"
proof (induction "size_list size items" arbitrary: items rule: less_induct)
  case less
  show ?case
  proof (rule assms)
    fix k its j e n
    assume "Group k its j e n \<in> set items"
    then have "size (Group k its j e n) \<le> size_list size items"
      by (simp add: size_list_estimation')
    then show "P its" by (intro less) simp
  qed
qed

lemma group_ids: "Group k its j e n \<in> set items \<Longrightarrow> set (item_ids its) \<subseteq> set (item_ids items)"
proof -
  assume "Group k its j e n \<in> set items"
  then have "set (item_ids [Group k its j e n]) \<subseteq> set (item_ids items)"
    unfolding set_item_ids [of items] by (rule UN_upper)
  then show ?thesis by simp
qed

lemma move_absent: "i \<notin> set (item_ids items) \<Longrightarrow> moveFilterItem items i d = items"
proof (induction items rule: level_induct)
  case (level items)
  have "map_groups (\<lambda>its. moveFilterItem its i d) x = x" if x: "x \<in> set items" for x
  proof (cases x)
    case (Group k its j e n)
    with x group_ids level.prems have "i \<notin> set (item_ids its)" by blast
    with level.IH x Group show ?thesis by (simp add: map_groups_def)
  qed (simp add: map_groups_def)
  then show ?case using absent_here [OF level.prems] by (simp add: move_below map_idI)
qed

lemma move_ids_mset: "mset (item_ids (moveFilterItem items i d)) = mset (item_ids items)"
proof (induction items rule: level_induct)
  case (level items)
  show ?case
  proof (cases "find_index (\<lambda>item. item_id item = i) items")
    case None
    have "mset (item_ids [map_groups (\<lambda>its. moveFilterItem its i d) x]) = mset (item_ids [x])"
      if x: "x \<in> set items" for x
      using level x by (cases x) (simp_all add: item_ids_map_groups)
    then have "(\<Sum>x\<in>#mset items. mset (item_ids [map_groups (\<lambda>its. moveFilterItem its i d) x])) =
        (\<Sum>x\<in>#mset items. mset (item_ids [x]))"
      by (intro arg_cong [where f = sum_mset] image_mset_cong) simp
    moreover have "moveFilterItem items i d = map (map_groups (\<lambda>its. moveFilterItem its i d)) items"
      using None by (simp add: move_below)
    ultimately show ?thesis
      by (simp add: item_ids_mset [of "map _ _"] item_ids_mset [of items] image_mset.compositionality comp_def)
  next
    case (Some index)
    then have "index < length items" by (blast dest: find_index_Some)
    then have "mset (moveFilterItem items i d) = mset items"
      using Some by (auto simp: move_here)
    then show ?thesis by (simp add: item_ids_mset [of "moveFilterItem items i d"] item_ids_mset [of items])
  qed
qed

lemma distinct_levels:
  "distinct (item_ids items) \<Longrightarrow> x \<in> set items \<Longrightarrow> y \<in> set items \<Longrightarrow>
   k \<in> set (item_ids [x]) \<Longrightarrow> k \<in> set (item_ids [y]) \<Longrightarrow> x = y"
proof (induction items)
  case (Cons z zs)
  have "item_ids (z # zs) = item_ids [z] @ item_ids zs" by (rule item_ids_Cons)
  with Cons.prems(1) have d: "distinct (item_ids zs)" "set (item_ids [z]) \<inter> set (item_ids zs) = {}" by simp_all
  have "set (item_ids [w]) \<subseteq> set (item_ids zs)" if "w \<in> set zs" for w
    unfolding set_item_ids [of zs] using that by (rule UN_upper)
  with Cons d show ?case by auto
qed simp

lemma distinct_group: "distinct (item_ids items) \<Longrightarrow> Group k its j e n \<in> set items \<Longrightarrow> distinct (item_ids its)"
proof (induction items)
  case (Cons z zs)
  have "item_ids (z # zs) = item_ids [z] @ item_ids zs" by (rule item_ids_Cons)
  with Cons show ?case by auto
qed simp

text \<open>
  Moving an item keeps every item (the same ids with the same multiplicity), and with distinct
  ids a move up that had an effect is undone by moving the item down, at whatever depth it is.
\<close>

theorem move_keeps_items_and_undoes:
  assumes "distinct (item_ids items)" and "moveFilterItem items i Move_up \<noteq> items"
  shows "moveFilterItem (moveFilterItem items i Move_up) i Move_down = items \<and>
         mset (item_ids (moveFilterItem items i Move_up)) = mset (item_ids items)"
proof -
  have "moveFilterItem (moveFilterItem items i Move_up) i Move_down = items"
    using assms
  proof (induction items rule: level_induct)
    case (level items)
    show ?case
    proof (cases "find_index (\<lambda>item. item_id item = i) items")
      case (Some index)
      have ind: "index < length items" "item_id (items ! index) = i"
        using find_index_Some [OF Some] by simp_all
      from Some level.prems(2) have pos: "index \<noteq> 0" by (simp add: move_here split: if_splits)
      let ?moved = "move_elem index (index - 1) items"
      from Some pos have up: "moveFilterItem items i Move_up = ?moved" by (simp add: move_here)
      from ind pos have at: "?moved ! (index - 1) = items ! index" by (simp add: nth_move_elem)
      have "find_index (\<lambda>item. item_id item = i) ?moved = Some (index - 1)"
        by (rule find_index_move_up) (use Some pos in simp_all)
      with ind pos show ?thesis by (simp add: up move_here move_elem_inverse)
    next
      case None
      then have here: "\<forall>x\<in>set items. item_id x \<noteq> i" by simp
      let ?up = "map_groups (\<lambda>its. moveFilterItem its i Move_up)"
      let ?down = "map_groups (\<lambda>its. moveFilterItem its i Move_down)"
      have up: "moveFilterItem items i Move_up = map ?up items" using here by (rule move_below)
      with level.prems(2) obtain y where y: "y \<in> set items" "?up y \<noteq> y" by (metis map_idI)
      have "?down (?up x) = x" if x: "x \<in> set items" for x
      proof (cases x)
        case (Group k its j e n)
        show ?thesis
        proof (cases "i \<in> set (item_ids its)")
          case True
          then have "i \<in> set (item_ids [x])" using Group by simp
          moreover from y(2) have "i \<in> set (item_ids [y])"
            by (cases y) (auto simp: map_groups_def dest: move_absent)
          ultimately have "x = y" using distinct_levels level.prems(1) x y(1) by blast
          with y(2) Group have "moveFilterItem its i Move_up \<noteq> its" by (auto simp: map_groups_def)
          with level.IH x Group distinct_group [OF level.prems(1)] show ?thesis by (simp add: map_groups_def)
        next
          case False
          then show ?thesis using Group by (simp add: map_groups_def move_absent)
        qed
      qed (simp add: map_groups_def)
      moreover have "\<forall>x\<in>set (map ?up items). item_id x \<noteq> i"
        using here by (auto simp: map_groups_def split: filter_item.split)
      then have "moveFilterItem (map ?up items) i Move_down = map ?down (map ?up items)" by (rule move_below)
      ultimately show ?thesis unfolding up by (simp add: map_idI)
    qed
  qed
  then show ?thesis by (simp add: move_ids_mset)
qed

theorem move_keeps_items_and_undoes_witness:
  "moveFilterItem (moveFilterItem ex_filter ''3'' Move_up) ''3'' Move_down = ex_filter \<and>
   mset (item_ids (moveFilterItem ex_filter ''3'' Move_up)) = mset (item_ids ex_filter)"
proof (rule move_keeps_items_and_undoes)
  show "distinct (item_ids ex_filter)" by (simp add: ex_filter_def)
  have "map item_id (moveFilterItem ex_filter ''3'' Move_up) = [''1'', ''3'', ''2'']"
    by (simp add: ex_filter_def move_here move_elem_def insert_at_def remove_at_def)
  then show "moveFilterItem ex_filter ''3'' Move_up \<noteq> ex_filter" by (auto simp: ex_filter_def)
qed

text \<open>The ids drawn from the counter after \<open>a\<close> and up to \<open>b\<close>.\<close>

definition drawn_between :: "nat \<Rightarrow> nat \<Rightarrow> string set" where
  "drawn_between a b =
     {p @ ''-'' @ nat_str n | p n. p \<in> {''filter'', ''group'', ''sort''} \<and> a < n \<and> n \<le> b}"

lemma drawn_disjoint: "b \<le> c \<Longrightarrow> drawn_between a b \<inter> drawn_between c e = {}"
  by (auto simp: drawn_between_def)

lemma drawn_mono: "a' \<le> a \<Longrightarrow> b \<le> b' \<Longrightarrow> drawn_between a b \<subseteq> drawn_between a' b'"
  by (fastforce simp: drawn_between_def)

lemma drawn_next: "p \<in> {''filter'', ''group'', ''sort''} \<Longrightarrow> p @ CHR ''-'' # nat_str (Suc n) \<in> drawn_between n (Suc n)"
  by (auto simp: drawn_between_def)

definition fresh_copy :: "nat \<Rightarrow> filter_items \<Rightarrow> filter_items \<Rightarrow> nat \<Rightarrow> bool" where
  "fresh_copy a items items' b \<longleftrightarrow>
     a \<le> b \<and> distinct (item_ids items') \<and> set (item_ids items') \<subseteq> drawn_between a b \<and>
     length (item_ids items') = length (item_ids items) \<and> where_ast items' = where_ast items"

lemma condition_cond_id [simp]: "condition_cond (c\<lparr>fc_id := i\<rparr>) = condition_cond c"
  by (simp add: condition_cond_def)

lemma clone_items_fresh: "clone_items items seq = (items', seq') \<Longrightarrow> fresh_copy seq items items' seq'"
proof (induction items seq arbitrary: items' seq' rule: clone_items.induct)
  case (1 seq)
  then show ?case by (simp add: fresh_copy_def)
next
  case (2 c items seq)
  obtain rest where r: "clone_items items (Suc seq) = (rest, seq')"
    and items': "items' = Condition (c\<lparr>fc_id := ''filter-'' @ nat_str (Suc seq)\<rparr>) # rest"
    using "2.prems" by (auto simp: nextFilterId_def Let_def split: prod.splits)
  have f: "fresh_copy (Suc seq) items rest seq'"
    by (rule "2.IH") (use r in \<open>simp_all add: nextFilterId_def\<close>)
  have new: "''filter-'' @ nat_str (Suc seq) \<in> drawn_between seq (Suc seq)"
    using drawn_next [of "''filter''" seq] by simp
  then have "''filter-'' @ nat_str (Suc seq) \<notin> set (item_ids rest)"
    using f drawn_disjoint [of "Suc seq" "Suc seq" seq seq'] by (auto simp: fresh_copy_def)
  with f new items' show ?case
    using drawn_mono [of seq "Suc seq" seq' seq'] drawn_mono [of seq seq "Suc seq" seq']
    by (auto simp: fresh_copy_def split: option.split)
next
  case (3 k its j e n items seq)
  obtain its' s rest where c: "clone_items its (Suc seq) = (its', s)" and r: "clone_items items s = (rest, seq')"
    and items': "items' = Group (''group-'' @ nat_str (Suc seq)) its' j e n # rest"
    using "3.prems" by (auto simp: nextFilterId_def Let_def split: prod.splits)
  have f: "fresh_copy (Suc seq) its its' s"
    by (rule "3.IH"(1)) (use c in \<open>simp_all add: nextFilterId_def\<close>)
  have g: "fresh_copy s items rest seq'"
    using "3.IH"(2) [OF refl _ refl, of "''group-'' @ nat_str (Suc seq)" "Suc seq" its' s] c r
    by (simp add: nextFilterId_def)
  have new: "''group-'' @ nat_str (Suc seq) \<in> drawn_between seq (Suc seq)"
    using drawn_next [of "''group''" seq] by simp
  then have "''group-'' @ nat_str (Suc seq) \<notin> set (item_ids its') \<union> set (item_ids rest)"
    using f g drawn_disjoint [of "Suc seq" "Suc seq" seq s] drawn_disjoint [of "Suc seq" s seq seq']
    by (auto simp: fresh_copy_def)
  moreover have "set (item_ids its') \<inter> set (item_ids rest) = {}"
    using f g drawn_disjoint [of s s "Suc seq" seq'] by (auto simp: fresh_copy_def)
  ultimately show ?case
    using f g new items' drawn_mono [of seq "Suc seq" s seq'] drawn_mono [of seq s seq' seq']
      drawn_mono [of seq seq "Suc seq" seq']
    by (auto simp: fresh_copy_def)
qed

text \<open>
  Cloning an item (a condition, or a group with everything in it) asks the same of a row, and
  gives it and all its descendants ids that differ from each other and from every id drawn from
  the counter before, so that an edit by id of the copy cannot touch the original.
\<close>

theorem clone_is_fresh:
  "case cloneFilterItem item seq of (item', seq') \<Rightarrow>
     item_expr item' = item_expr item \<and>
     distinct (item_ids [item']) \<and>
     set (item_ids [item']) \<inter> drawn_between 0 seq = {} \<and>
     set (item_ids [item']) \<subseteq> drawn_between 0 seq'"
proof -
  obtain items' seq' where c: "clone_items [item] seq = (items', seq')" by fastforce
  then obtain item' where i: "items' = [item']"
    by (cases item) (auto simp: Let_def split: prod.splits)
  have f: "fresh_copy seq [item] [item'] seq'" using clone_items_fresh [OF c] i by simp
  moreover have "cloneFilterItem item seq = (item', seq')" using c i by (simp add: cloneFilterItem_def)
  ultimately show ?thesis
    using drawn_disjoint [of seq seq 0 seq'] drawn_mono [of 0 seq seq' seq']
    by (auto simp: fresh_copy_def item_expr_def)
qed

end
