(* ===== verification/TableExport.thy ===== *)
theory TableExport
  imports TableSql Base64
begin

text \<open>
  Exporting table data, \<^verbatim>\<open>lib/tableExport.ts\<close>: the text of a cell, delimited text, INSERT and UPDATE
  statements and the export query; with the insert-row helpers of \<^verbatim>\<open>lib/tableEdit.ts\<close> and the cell
  text of \<^verbatim>\<open>lib/cellValue.ts\<close>.
\<close>

section \<open>Options\<close>

datatype record_delimiter = RD_lf | RD_crlf
datatype field_delimiter = FD_comma | FD_tab | FD_semicolon | FD_pipe
datatype text_qualifier = TQ_double | TQ_single | TQ_none
datatype date_order = DO_ymd | DO_dmy | DO_mdy
datatype binary_encoding = BE_base64 | BE_hex
datatype export_format = EF_csv | EF_tsv | EF_sql

record export_options =
  eo_includeHeaders :: "bool option"
  eo_recordDelimiter :: "record_delimiter option"
  eo_fieldDelimiter :: "field_delimiter option"
  eo_textQualifier :: "text_qualifier option"
  eo_blankIfZero :: "bool option"
  eo_zeroPaddingDate :: "bool option"
  eo_dateOrder :: "date_order option"
  eo_dateDelimiter :: "string option"
  eo_timeDelimiter :: "string option"
  eo_decimalSymbol :: "char option"
  eo_binaryDataEncoding :: "binary_encoding option"
  eo_nullValue :: "string option"

definition no_export_options :: export_options where
  "no_export_options =
     \<lparr>eo_includeHeaders = None, eo_recordDelimiter = None, eo_fieldDelimiter = None, eo_textQualifier = None,
      eo_blankIfZero = None, eo_zeroPaddingDate = None, eo_dateOrder = None, eo_dateDelimiter = None,
      eo_timeDelimiter = None, eo_decimalSymbol = None, eo_binaryDataEncoding = None, eo_nullValue = None\<rparr>"

text \<open>\<open>a ?? b\<close>\<close>

definition or_else :: "'a option \<Rightarrow> 'a \<Rightarrow> 'a" where
  "or_else a b = (case a of None \<Rightarrow> b | Some x \<Rightarrow> x)"

lemma or_else_simps [simp]: "or_else None b = b" "or_else (Some x) b = x"
  by (simp_all add: or_else_def)

definition fieldDelimiterValue :: "field_delimiter option \<Rightarrow> char \<Rightarrow> char" where
  "fieldDelimiterValue kind fallback =
     (if kind = Some FD_tab then TAB
      else if kind = Some FD_semicolon then CHR '';''
      else if kind = Some FD_pipe then CHR ''|''
      else if kind = Some FD_comma then CHR '',''
      else fallback)"

definition recordDelimiterValue :: "record_delimiter option \<Rightarrow> string" where
  "recordDelimiterValue kind = (if kind = Some RD_crlf then [CR, LF] else [LF])"

definition textQualifierValue :: "text_qualifier option \<Rightarrow> string" where
  "textQualifierValue kind =
     (if kind = Some TQ_single then [SQ] else if kind = Some TQ_none then [] else [DQ])"

section \<open>The text of a cell\<close>

definition encodeBinary :: "nat list \<Rightarrow> binary_encoding option \<Rightarrow> string" where
  "encodeBinary bs encoding =
     (if encoding = Some BE_hex then concat (map hex_byte bs) else btoa bs)"

record date_parts =
  dp_year :: nat
  dp_month :: nat
  dp_day :: nat
  dp_hour :: "nat option"
  dp_minute :: "nat option"
  dp_second :: "nat option"

text \<open>
  The pattern \<open>^(\d{4})[-/](\d{1,2})[-/](\d{1,2})(?:[ T](\d{1,2}):(\d{1,2})(?::(\d{1,2}))?)?\<close>, matched
  at the start of the text only; what follows the match is not looked at.
\<close>

definition take_digits :: "nat \<Rightarrow> nat \<Rightarrow> string \<Rightarrow> (nat \<times> string) option" where
  "take_digits lo hi s =
     (let ds = takeWhile is_digit (take hi s)
      in if length ds < lo then None else Some (digits_val ds, drop (length ds) s))"

definition take_char :: "char list \<Rightarrow> string \<Rightarrow> string option" where
  "take_char cs s = (case s of [] \<Rightarrow> None | c # r \<Rightarrow> if c \<in> set cs then Some r else None)"

definition match_time :: "string \<Rightarrow> (nat \<times> nat \<times> nat option) option" where
  "match_time s =
     (case take_char [CHR '' '', CHR ''T''] s of
        None \<Rightarrow> None
      | Some s \<Rightarrow>
          (case take_digits 1 2 s of
             None \<Rightarrow> None
           | Some (h, s) \<Rightarrow>
               (case take_char '':'' s of
                  None \<Rightarrow> None
                | Some s \<Rightarrow>
                    (case take_digits 1 2 s of
                       None \<Rightarrow> None
                     | Some (m, s) \<Rightarrow>
                         Some (h, m,
                           case take_char '':'' s of
                             None \<Rightarrow> None
                           | Some s \<Rightarrow> map_option fst (take_digits 1 2 s))))))"

definition match_date :: "string \<Rightarrow> date_parts option" where
  "match_date s =
     (case take_digits 4 4 s of
        None \<Rightarrow> None
      | Some (y, s) \<Rightarrow>
          (case take_char ''-/'' s of
             None \<Rightarrow> None
           | Some s \<Rightarrow>
               (case take_digits 1 2 s of
                  None \<Rightarrow> None
                | Some (m, s) \<Rightarrow>
                    (case take_char ''-/'' s of
                       None \<Rightarrow> None
                     | Some s \<Rightarrow>
                         (case take_digits 1 2 s of
                            None \<Rightarrow> None
                          | Some (d, s) \<Rightarrow>
                              Some (case match_time s of
                                  None \<Rightarrow> \<lparr>dp_year = y, dp_month = m, dp_day = d,
                                           dp_hour = None, dp_minute = None, dp_second = None\<rparr>
                                | Some (h, mi, sec) \<Rightarrow>
                                    \<lparr>dp_year = y, dp_month = m, dp_day = d,
                                     dp_hour = Some h, dp_minute = Some mi, dp_second = sec\<rparr>))))))"

fun parseDateParts :: "jsval \<Rightarrow> date_parts option" where
  "parseDateParts (JDate (Some (y, m, d, h, mi, s)) t u) =
     Some \<lparr>dp_year = y, dp_month = m, dp_day = d, dp_hour = Some h, dp_minute = Some mi, dp_second = Some s\<rparr>"
| "parseDateParts (JStr s) = match_date (trim s)"
| "parseDateParts v = None"

definition formatDateParts :: "date_parts \<Rightarrow> export_options \<Rightarrow> string" where
  "formatDateParts parts options =
     (let padded = or_else (eo_zeroPaddingDate options) True;
          dateDelimiter = or_else (eo_dateDelimiter options) ''-'';
          timeDelimiter = or_else (eo_timeDelimiter options) '':'';
          num = (\<lambda>n. if padded then pad_start 2 CHR ''0'' (nat_str n) else nat_str n);
          y = nat_str (dp_year parts); m = num (dp_month parts); d = num (dp_day parts);
          order = or_else (eo_dateOrder options) DO_ymd;
          date = join dateDelimiter
            (if order = DO_dmy then [d, m, y] else if order = DO_mdy then [m, d, y] else [y, m, d])
      in case (dp_hour parts, dp_minute parts) of
           (Some h, Some mi) \<Rightarrow>
             date @ '' '' @ join timeDelimiter [num h, num mi, num (or_else (dp_second parts) 0)]
         | _ \<Rightarrow> date)"

text \<open>\<open>text.replace(".", ",")\<close> replaces the first occurrence.\<close>

fun replace_first :: "char \<Rightarrow> char \<Rightarrow> string \<Rightarrow> string" where
  "replace_first a b [] = []"
| "replace_first a b (c # s) = (if c = a then b # s else c # replace_first a b s)"

definition number_text :: "string \<Rightarrow> export_options \<Rightarrow> string" where
  "number_text t options =
     (if eo_decimalSymbol options = Some CHR '','' then replace_first CHR ''.'' CHR '','' t else t)"

definition date_or_string :: "jsval \<Rightarrow> export_options \<Rightarrow> string" where
  "date_or_string v options =
     (case parseDateParts v of
        Some parts \<Rightarrow> formatDateParts parts options
      | None \<Rightarrow> js_string v)"

fun cellText :: "jsval \<Rightarrow> export_options \<Rightarrow> string" where
  "cellText (JBytes bs) options = encodeBinary bs (eo_binaryDataEncoding options)"
| "cellText (JInt i) options =
     (if eo_blankIfZero options = Some True \<and> i = 0 then [] else number_text (int_str i) options)"
| "cellText (JFloat t) options = number_text t options"
| "cellText v options =
     (if nullish v then or_else (eo_nullValue options) [] else date_or_string v options)"

section \<open>Delimited text\<close>

definition escapeDelimited :: "jsval \<Rightarrow> char \<Rightarrow> export_options \<Rightarrow> string" where
  "escapeDelimited value delimiter options =
     (let text = cellText value options
      in case textQualifierValue (eo_textQualifier options) of
           [] \<Rightarrow> text
         | q # qs \<Rightarrow>
             if delimiter \<notin> set text \<and> q \<notin> set text \<and> LF \<notin> set text \<and> CR \<notin> set text then text
             else [q] @ join [q, q] (split [q] text) @ [q])"

definition export_line :: "string list \<Rightarrow> table_row \<Rightarrow> char \<Rightarrow> export_options \<Rightarrow> string" where
  "export_line columns row delimiter options =
     join [delimiter] (map (\<lambda>col. escapeDelimited (get_prop row col) delimiter options) columns)"

definition toDelimited :: "string list \<Rightarrow> table_row list \<Rightarrow> char \<Rightarrow> export_options \<Rightarrow> string" where
  "toDelimited columns rows delimiter options =
     (let includeHeaders = or_else (eo_includeHeaders options) True;
          actualDelimiter = fieldDelimiterValue (eo_fieldDelimiter options) delimiter;
          recordDelimiter = recordDelimiterValue (eo_recordDelimiter options);
          header = (if includeHeaders
                    then [join [actualDelimiter] (map (\<lambda>col. escapeDelimited (JStr col) actualDelimiter options) columns)]
                    else []);
          lines = header @ map (\<lambda>row. export_line columns row actualDelimiter options) rows
      in join recordDelimiter lines)"

definition toDelimitedData :: "string list \<Rightarrow> table_row list \<Rightarrow> char \<Rightarrow> string" where
  "toDelimitedData columns rows delimiter =
     join [LF] (map (\<lambda>row. export_line columns row delimiter no_export_options) rows)"

definition toTsv :: "string list \<Rightarrow> table_row list \<Rightarrow> export_options \<Rightarrow> string" where
  "toTsv columns rows options = toDelimited columns rows TAB options"

definition toCsv :: "string list \<Rightarrow> table_row list \<Rightarrow> export_options \<Rightarrow> string" where
  "toCsv columns rows options = toDelimited columns rows CHR '','' options"

definition toTsvData :: "string list \<Rightarrow> table_row list \<Rightarrow> string" where
  "toTsvData columns rows = toDelimitedData columns rows TAB"

definition toTsvFields :: "string list \<Rightarrow> string" where
  "toTsvFields columns = join [TAB] (map (\<lambda>col. escapeDelimited (JStr col) TAB no_export_options) columns)"

section \<open>Statements\<close>

definition insert_row_sql :: "string \<Rightarrow> string list \<Rightarrow> table_row \<Rightarrow> driver \<Rightarrow> string" where
  "insert_row_sql tableName columns row driver =
     ''INSERT INTO '' @ quoteQualifiedIdent tableName driver @ '' ('' @
     join '', '' (map (\<lambda>col. quoteIdent col driver) columns) @ '') VALUES ('' @
     join '', '' (map (\<lambda>col. sqlQuote (get_prop row col)) columns) @ '');''"

definition toInsertSql :: "string \<Rightarrow> string list \<Rightarrow> table_row list \<Rightarrow> driver \<Rightarrow> string" where
  "toInsertSql tableName columns rows driver =
     join [LF] (map (\<lambda>row. insert_row_sql tableName columns row driver) rows)"

definition toUpdateSql :: "string \<Rightarrow> string list \<Rightarrow> table_row \<Rightarrow> string list \<Rightarrow> driver \<Rightarrow> string" where
  "toUpdateSql tableName columns row primaryKeys driver =
     (let quotedTable = quoteQualifiedIdent tableName driver;
          setSql = join '', '' (map (\<lambda>col. quoteIdent col driver @ '' = '' @ sqlQuote (get_prop row col)) columns);
          whereColumns = (if primaryKeys \<noteq> [] then primaryKeys else columns);
          whereSql = join '' AND '' (map (\<lambda>col.
            let value = get_prop row col
            in if nullish value then quoteIdent col driver @ '' IS NULL''
               else quoteIdent col driver @ '' = '' @ sqlQuote value) whereColumns)
      in if is_pg driver then ''UPDATE '' @ quotedTable @ '' SET '' @ setSql @ '' WHERE '' @ whereSql @ '';''
         else ''UPDATE '' @ quotedTable @ '' SET '' @ setSql @ '' WHERE '' @ whereSql @ '' LIMIT 1;'')"

definition buildTableExportContent ::
  "export_format \<Rightarrow> string list \<Rightarrow> table_row list \<Rightarrow> string \<Rightarrow> driver \<Rightarrow> bool option \<Rightarrow> export_options \<Rightarrow> string" where
  "buildTableExportContent format columns rows tableName driver includeHeaders options =
     (let mergedOptions = options\<lparr>eo_includeHeaders := Some (or_else includeHeaders True)\<rparr>
      in if format = EF_csv then toCsv columns rows mergedOptions
         else if format = EF_tsv then toTsv columns rows mergedOptions
         else toInsertSql tableName columns rows driver)"

text \<open>\<open>value.replace(/[^a-z0-9._-]+/gi, "_").replace(/^_+|_+$/g, "") || "table"\<close>\<close>

definition is_filename_char :: "char \<Rightarrow> bool" where
  "is_filename_char c \<longleftrightarrow> is_lower c \<or> is_upper c \<or> is_digit c \<or> c = CHR ''.'' \<or> c = CHR ''_'' \<or> c = CHR ''-''"

fun squash_runs :: "string \<Rightarrow> bool \<Rightarrow> string" where
  "squash_runs [] inrun = []"
| "squash_runs (c # s) inrun =
     (if is_filename_char c then c # squash_runs s False
      else if inrun then squash_runs s True
      else CHR ''_'' # squash_runs s True)"

definition strip_underscores :: "string \<Rightarrow> string" where
  "strip_underscores s =
     rev (dropWhile (\<lambda>c. c = CHR ''_'') (rev (dropWhile (\<lambda>c. c = CHR ''_'') s)))"

definition safeTableExportFilenamePart :: "string \<Rightarrow> string" where
  "safeTableExportFilenamePart value =
     (let s = strip_underscores (squash_runs value False) in if s = [] then ''table'' else s)"

record select_input =
  si_database :: string
  si_table :: string
  si_driver :: driver
  si_page_scope :: bool
  si_whereClause :: string
  si_orderByClause :: string
  si_sortColumn :: "string option"
  si_sortAsc :: "bool option"
  si_page :: nat
  si_pageSize :: nat

definition buildTableExportSelectSql :: "select_input \<Rightarrow> string" where
  "buildTableExportSelectSql i =
     (let tableName = quoteTableRef (si_database i) (si_table i) (si_driver i);
          wher = trim (si_whereClause i);
          orderBy = (case (si_sortColumn i, si_sortAsc i) of
              (Some (c # cs), Some asc) \<Rightarrow> quoteIdent (c # cs) (si_driver i) @ '' '' @ (if asc then ''ASC'' else ''DESC'')
            | _ \<Rightarrow> trim (si_orderByClause i));
          wherePart = (if wher \<noteq> [] then '' WHERE '' @ wher else []);
          orderByPart = (if orderBy \<noteq> [] then '' ORDER BY '' @ orderBy else []);
          pagePart = (if si_page_scope i
                      then '' LIMIT '' @ nat_str (si_pageSize i) @ '' OFFSET '' @ nat_str (si_page i * si_pageSize i)
                      else [])
      in ''SELECT * FROM '' @ tableName @ wherePart @ orderByPart @ pagePart)"

section \<open>Inserting a row\<close>

record column_rule =
  cr_name :: string
  cr_nullable :: bool
  cr_hasDefault :: bool
  cr_autoIncrement :: "bool option"

definition hasOwnValue :: "table_row \<Rightarrow> string \<Rightarrow> bool" where
  "hasOwnValue values key \<longleftrightarrow> map_of values key \<noteq> None"

definition isMissingRequiredValue :: "jsval \<Rightarrow> bool" where
  "isMissingRequiredValue v \<longleftrightarrow> nullish v \<or> v = JStr []"

definition validateInsertRow :: "column_rule list \<Rightarrow> table_row \<Rightarrow> string list" where
  "validateInsertRow rules values =
     map cr_name
       (filter (\<lambda>rule. \<not> hasOwnValue values (cr_name rule) \<or> isMissingRequiredValue (get_prop values (cr_name rule)))
         (filter (\<lambda>rule. \<not> cr_nullable rule \<and> \<not> cr_hasDefault rule \<and> cr_autoIncrement rule \<noteq> Some True) rules))"

definition buildInsertStatement :: "string \<Rightarrow> string \<Rightarrow> driver \<Rightarrow> table_row \<Rightarrow> string" where
  "buildInsertStatement database table driver values =
     (let tableName = quoteTableRef database table driver;
          columns = map fst values
      in if columns = [] then
           (if is_pg driver then ''INSERT INTO '' @ tableName @ '' DEFAULT VALUES;''
            else ''INSERT INTO '' @ tableName @ '' () VALUES ();'')
         else ''INSERT INTO '' @ tableName @ '' ('' @ join '', '' (map (\<lambda>column. quoteIdent column driver) columns) @
              '') VALUES ('' @ join '', '' (map (\<lambda>column. sqlQuote (get_prop values column)) columns) @ '');'')"

text \<open>
  The text of a cell on screen. \<open>JSON.stringify\<close> does not throw on the values modelled (no cycles,
  no big integers).
\<close>

definition cellValueToText :: "jsval \<Rightarrow> string" where
  "cellValueToText v =
     (if nullish v then []
      else case v of
          JArr vs \<Rightarrow> or_else (json_stringify v) []
        | JObj ps \<Rightarrow> or_else (json_stringify v) []
        | JDate d t u \<Rightarrow> or_else (json_stringify v) []
        | JBytes bs \<Rightarrow> or_else (json_stringify v) []
        | _ \<Rightarrow> js_string v)"

end
