(* ===== verification/TableImport.thy ===== *)
theory TableImport
  imports TableSql Base64
begin

text \<open>
  Importing data into a table, \<^verbatim>\<open>lib/tableImport.ts\<close>: delimited, fixed-width, JSON and XML sources
  to a table of texts, the conversion of cells to literals, and the statements of each import mode.
  \<open>JSON.parse\<close> and the DOM parser are parameters: the value and the element tree they return, or the
  message of the error they throw.
\<close>

section \<open>Delimited text\<close>

datatype import_field_delimiter = IF_comma | IF_tab | IF_semicolon | IF_pipe | IF_space
datatype import_record_delimiter = IR_auto | IR_lf | IR_cr | IR_crlf
datatype import_text_qualifier = IQ_double | IQ_single | IQ_none
datatype import_null_strategy = NS_empty_is_empty_string | NS_empty_is_null | NS_literal_null
datatype import_data_format = DF_text | DF_csv | DF_json | DF_xml
datatype import_mode = IM_append | IM_update | IM_append_update | IM_append_skip | IM_delete | IM_copy
datatype import_date_order = IO_dmy | IO_mdy | IO_ymd
datatype import_binary_encoding = IB_base64 | IB_hex

fun delimiter_char :: "import_field_delimiter \<Rightarrow> char" where
  "delimiter_char IF_comma = CHR '',''"
| "delimiter_char IF_tab = TAB"
| "delimiter_char IF_semicolon = CHR '';''"
| "delimiter_char IF_pipe = CHR ''|''"
| "delimiter_char IF_space = CHR '' ''"

text \<open>\<open>text.split(/\r?\n/, 1)[0]\<close>\<close>

fun first_line :: "string \<Rightarrow> string" where
  "first_line [] = []"
| "first_line (c # s) =
     (if c = LF \<or> (c = CR \<and> s \<noteq> [] \<and> hd s = LF) then [] else c # first_line s)"

definition detectDelimiter :: "string \<Rightarrow> import_field_delimiter" where
  "detectDelimiter text =
     (let firstLine = first_line text
      in if count_list firstLine TAB > count_list firstLine CHR '','' then IF_tab else IF_comma)"

text \<open>\<open>newlineAt\<close> on the text from position \<open>i\<close> on: the length of the newline there, if any.\<close>

fun newlineAt :: "string \<Rightarrow> import_record_delimiter \<Rightarrow> nat option" where
  "newlineAt [] mode = None"
| "newlineAt (ch # rest) mode =
     (let next_lf = (rest \<noteq> [] \<and> hd rest = LF)
      in case mode of
           IR_lf \<Rightarrow> if ch = LF then Some 1 else None
         | IR_cr \<Rightarrow> if ch = CR \<and> \<not> next_lf then Some 1 else None
         | IR_crlf \<Rightarrow> if ch = CR \<and> next_lf then Some 2 else None
         | IR_auto \<Rightarrow>
             if ch = CR \<and> next_lf then Some 2
             else if ch = LF \<or> ch = CR then Some 1
             else None)"

text \<open>A row is kept when some cell of it is not empty.\<close>

definition push_row :: "string list list \<Rightarrow> string list \<Rightarrow> string list list" where
  "push_row rows row = (if list_ex (\<lambda>cell. cell \<noteq> []) row then rows @ [row] else rows)"

text \<open>The loop over the text; its state is \<open>rows\<close>, \<open>currentRow\<close>, \<open>current\<close> and \<open>inQuotes\<close>.\<close>

function (sequential) parse_rows ::
  "char \<Rightarrow> char option \<Rightarrow> import_record_delimiter \<Rightarrow>
   string list list \<Rightarrow> string list \<Rightarrow> string \<Rightarrow> bool \<Rightarrow> string \<Rightarrow> string list list" where
  "parse_rows d q mode rows row cur inq [] = push_row rows (row @ [cur])"
| "parse_rows d q mode rows row cur inq (ch # rest) =
     (if q = Some ch then
        (if inq \<and> rest \<noteq> [] \<and> hd rest = ch then parse_rows d q mode rows row (cur @ [ch]) inq (tl rest)
         else parse_rows d q mode rows row cur (\<not> inq) rest)
      else if ch = d \<and> \<not> inq then parse_rows d q mode rows (row @ [cur]) [] inq rest
      else
        case (if inq then None else newlineAt (ch # rest) mode) of
          Some len \<Rightarrow> parse_rows d q mode (push_row rows (row @ [cur])) [] [] inq (drop (len - 1) rest)
        | None \<Rightarrow> parse_rows d q mode rows row (cur @ [ch]) inq rest)"
  by pat_completeness auto
termination
  by (relation "measure (\<lambda>(d, q, mode, rows, row, cur, inq, s). length s)") auto

definition qualifier_char :: "import_text_qualifier \<Rightarrow> char option" where
  "qualifier_char q = (case q of IQ_double \<Rightarrow> Some DQ | IQ_single \<Rightarrow> Some SQ | IQ_none \<Rightarrow> None)"

text \<open>Options left out take the defaults of the code.\<close>

definition parseDelimitedRows ::
  "string \<Rightarrow> import_field_delimiter option \<Rightarrow> import_record_delimiter option \<Rightarrow> import_text_qualifier option
   \<Rightarrow> string list list" where
  "parseDelimitedRows text delimiter recordDelimiter textQualifier =
     (let d = (case delimiter of None \<Rightarrow> detectDelimiter text | Some d \<Rightarrow> d);
          mode = (case recordDelimiter of None \<Rightarrow> IR_auto | Some m \<Rightarrow> m);
          q = (case textQualifier of None \<Rightarrow> IQ_double | Some q \<Rightarrow> q)
      in parse_rows (delimiter_char d) (qualifier_char q) mode [] [] [] False text)"

record parsed_table =
  pt_headers :: "string list"
  pt_rows :: "string list list"

definition parseDelimitedText :: "string \<Rightarrow> import_field_delimiter option \<Rightarrow> parsed_table" where
  "parseDelimitedText text delimiter =
     (let rows = parseDelimitedRows text delimiter None None
      in \<lparr>pt_headers = (case rows of [] \<Rightarrow> [] | row # _ \<Rightarrow> row), pt_rows = drop 1 rows\<rparr>)"

section \<open>JSON and XML sources\<close>

fun normalizeCell :: "jsval \<Rightarrow> string" where
  "normalizeCell JUndef = []"
| "normalizeCell JNull = []"
| "normalizeCell (JStr s) = s"
| "normalizeCell (JInt i) = int_str i"
| "normalizeCell (JFloat t) = t"
| "normalizeCell (JBool b) = js_string (JBool b)"
| "normalizeCell v = (case json_stringify v of None \<Rightarrow> [] | Some s \<Rightarrow> s)"

fun add_headers :: "string list \<Rightarrow> string list \<Rightarrow> string list" where
  "add_headers headers [] = headers"
| "add_headers headers (key # keys) =
     (if key \<in> set headers then add_headers headers keys else add_headers (headers @ [key]) keys)"

definition tableFromRecords :: "table_row list \<Rightarrow> parsed_table" where
  "tableFromRecords records =
     (let headers = foldl (\<lambda>headers record. add_headers headers (map fst record)) [] records
      in \<lparr>pt_headers = headers,
          pt_rows = map (\<lambda>record. map (\<lambda>header. normalizeCell (get_prop record header)) headers) records\<rparr>)"

definition is_array :: "jsval \<Rightarrow> bool" where
  "is_array v = (case v of JArr _ \<Rightarrow> True | _ \<Rightarrow> False)"

definition array_items :: "jsval \<Rightarrow> jsval list" where
  "array_items v = (case v of JArr vs \<Rightarrow> vs | _ \<Rightarrow> [])"

definition json_rows :: "jsval \<Rightarrow> jsval list" where
  "json_rows data =
     (case data of
        JArr vs \<Rightarrow> vs
      | JObj ps \<Rightarrow>
          (case find is_array (map snd ps) of
             Some v \<Rightarrow> array_items v
           | None \<Rightarrow> [data])
      | _ \<Rightarrow> [])"

definition json_record :: "jsval \<Rightarrow> table_row" where
  "json_record row = (case row of JObj ps \<Rightarrow> ps | _ \<Rightarrow> [(''value'', row)])"

definition parseJsonText :: "(string \<Rightarrow> string + jsval) \<Rightarrow> string \<Rightarrow> string + parsed_table" where
  "parseJsonText json_parse text =
     (case json_parse text of
        Inl message \<Rightarrow> Inl message
      | Inr data \<Rightarrow> Inr (tableFromRecords (map json_record (json_rows data))))"

text \<open>An element is its tag, its attributes and its child nodes.\<close>

datatype xml_node =
    XText string
  | XElem string "(string \<times> string) list" "xml_node list"

fun is_elem :: "xml_node \<Rightarrow> bool" where
  "is_elem (XElem t as ns) = True"
| "is_elem (XText s) = False"

fun textContent :: "xml_node \<Rightarrow> string" where
  "textContent (XText s) = s"
| "textContent (XElem t as ns) = concat (map textContent ns)"

fun tagName :: "xml_node \<Rightarrow> string" where
  "tagName (XElem t as ns) = t"
| "tagName (XText s) = []"

fun elementChildren :: "xml_node \<Rightarrow> xml_node list" where
  "elementChildren (XElem t as ns) = filter is_elem ns"
| "elementChildren (XText s) = []"

text \<open>Adding the value of a child: a second truthy value under a name makes an array.\<close>

definition add_child :: "table_row \<Rightarrow> string \<Rightarrow> jsval \<Rightarrow> table_row" where
  "add_child record tag value =
     (let existing = get_prop record tag
      in if truthy existing then
           set_prop record tag (JArr (case existing of JArr vs \<Rightarrow> vs @ [value] | _ \<Rightarrow> [existing, value]))
         else set_prop record tag value)"

fun element_record :: "xml_node \<Rightarrow> table_row" and add_children :: "xml_node list \<Rightarrow> table_row \<Rightarrow> table_row" where
  "element_record (XText s) = []"
| "element_record (XElem t as ns) =
     (let record = add_children ns (foldl (\<lambda>r (name, v). set_prop r (CHR ''@'' # name) (JStr v)) [] as)
      in if record = [] then [(''value'', JStr (trim (concat (map textContent ns))))] else record)"
| "add_children [] record = record"
| "add_children (XText s # ns) record = add_children ns record"
| "add_children (XElem t as cs # ns) record =
     (let value = (if filter is_elem cs \<noteq> [] then JObj (element_record (XElem t as cs))
                   else JStr (trim (concat (map textContent cs))))
      in add_children ns (add_child record t value))"

definition elementToRecord :: "xml_node \<Rightarrow> table_row" where
  "elementToRecord element = element_record element"

text \<open>\<open>byName\<close>: the children of each tag, in the order the tags are met.\<close>

fun group_by_tag :: "xml_node list \<Rightarrow> (string \<times> xml_node list) list \<Rightarrow> (string \<times> xml_node list) list" where
  "group_by_tag [] m = m"
| "group_by_tag (child # children) m =
     group_by_tag children
       (set_prop m (tagName child) ((case map_of m (tagName child) of None \<Rightarrow> [] | Some items \<Rightarrow> items) @ [child]))"

text \<open>The first of the longest of the groups with several elements (\<open>sort\<close> is stable).\<close>

definition longest_group :: "xml_node list list \<Rightarrow> xml_node list option" where
  "longest_group groups =
     (case sort_key (\<lambda>items. - int (length items)) (filter (\<lambda>items. length items > 1) groups) of
        [] \<Rightarrow> None
      | items # _ \<Rightarrow> Some items)"

definition row_elements :: "xml_node \<Rightarrow> xml_node list" where
  "row_elements root =
     (let children = elementChildren root
      in case longest_group (map snd (group_by_tag children [])) of
           Some items \<Rightarrow> items
         | None \<Rightarrow>
             if children \<noteq> [] \<and> list_all (\<lambda>child. elementChildren child \<noteq> []) children then children else [root])"

definition parseXmlText :: "(string \<Rightarrow> string + xml_node option) \<Rightarrow> string \<Rightarrow> string + parsed_table" where
  "parseXmlText xml_parse text =
     (case xml_parse text of
        Inl message \<Rightarrow> Inl message
      | Inr None \<Rightarrow> Inr \<lparr>pt_headers = [], pt_rows = []\<rparr>
      | Inr (Some root) \<Rightarrow> Inr (tableFromRecords (map elementToRecord (row_elements root))))"

section \<open>Fixed-width text and the row options\<close>

text \<open>\<open>split(/\r?\n/)\<close> and \<open>split(/\s{2,}|\t+/)\<close>: a separator is a run of white space of two or more, or a tab.\<close>

fun split_lines :: "string \<Rightarrow> string \<Rightarrow> string list" where
  "split_lines cur [] = [cur]"
| "split_lines cur (c # s) =
     (if c = LF then cur # split_lines [] s
      else if c = CR \<and> s \<noteq> [] \<and> hd s = LF then cur # split_lines [] (tl s)
      else split_lines (cur @ [c]) s)"

function (sequential) split_fixed :: "string \<Rightarrow> string \<Rightarrow> string list" where
  "split_fixed cur [] = [cur]"
| "split_fixed cur (c # s) =
     (let run = takeWhile is_space (c # s)
      in if length run \<ge> 2 then cur # split_fixed [] (drop (length run) (c # s))
         else if c = TAB then cur # split_fixed [] s
         else split_fixed (cur @ [c]) s)"
  by pat_completeness auto
termination
  by (relation "measure (\<lambda>(cur, s). length s)") auto

definition parseFixedWidthRows :: "string \<Rightarrow> string list list" where
  "parseFixedWidthRows text =
     map (\<lambda>line. filter (\<lambda>cell. cell \<noteq> []) (split_fixed [] line))
       (filter (\<lambda>line. line \<noteq> []) (map trim (split_lines [] text)))"

record source_args =
  sa_text :: string
  sa_format :: import_data_format
  sa_fieldDelimiter :: "import_field_delimiter option"
  sa_recordDelimiter :: "import_record_delimiter option"
  sa_textQualifier :: "import_text_qualifier option"
  sa_fixedWidth :: bool
  sa_fieldNameRowEnabled :: "bool option"
  sa_fieldNameRow :: "int option"
  sa_dataStartRow :: "int option"
  sa_dataEndRow :: "int option"

definition applyRowOptions :: "string list list \<Rightarrow> source_args \<Rightarrow> parsed_table" where
  "applyRowOptions rows args =
     (let hasHeader = (case sa_fieldNameRowEnabled args of None \<Rightarrow> True | Some b \<Rightarrow> b);
          headerIndex = max ((case sa_fieldNameRow args of None \<Rightarrow> 1 | Some n \<Rightarrow> n) - 1) 0;
          dataStartIndex = max ((case sa_dataStartRow args of
              None \<Rightarrow> if hasHeader then headerIndex + 2 else 1
            | Some n \<Rightarrow> n) - 1) 0;
          dataEndIndex = (case sa_dataEndRow args of
              None \<Rightarrow> None
            | Some n \<Rightarrow> if n = 0 then None else Some (max n (dataStartIndex + 1)));
          maxColumns = fold max (map length rows) 0;
          headers = (if hasHeader then (if nat headerIndex < length rows then rows ! nat headerIndex else [])
                     else map (\<lambda>index. ''Column '' @ nat_str (index + 1)) [0..<maxColumns])
      in \<lparr>pt_headers = headers,
          pt_rows = (case dataEndIndex of
              None \<Rightarrow> drop (nat dataStartIndex) rows
            | Some e \<Rightarrow> slice (nat dataStartIndex) (nat e) rows)\<rparr>)"

definition parseImportSourceText ::
  "(string \<Rightarrow> string + jsval) \<Rightarrow> (string \<Rightarrow> string + xml_node option) \<Rightarrow> source_args \<Rightarrow> string + parsed_table" where
  "parseImportSourceText json_parse xml_parse args =
     (if sa_format args = DF_json then parseJsonText json_parse (sa_text args)
      else if sa_format args = DF_xml then parseXmlText xml_parse (sa_text args)
      else
        let rows = (if sa_fixedWidth args then parseFixedWidthRows (sa_text args)
                    else parseDelimitedRows (sa_text args) (sa_fieldDelimiter args) (sa_recordDelimiter args)
                           (sa_textQualifier args))
        in Inr (applyRowOptions rows args))"

section \<open>Cells to literals\<close>

definition importValue :: "string \<Rightarrow> import_null_strategy \<Rightarrow> string option" where
  "importValue cell nullStrategy =
     (if nullStrategy = NS_empty_is_null \<and> cell = [] then None
      else if nullStrategy = NS_literal_null \<and> to_upper cell = ''NULL'' then None
      else Some cell)"

definition MONTH_NAMES :: "(string \<times> nat) list" where
  "MONTH_NAMES =
     [(''jan'', 1), (''january'', 1), (''feb'', 2), (''february'', 2), (''mar'', 3), (''march'', 3),
      (''apr'', 4), (''april'', 4), (''may'', 5), (''jun'', 6), (''june'', 6), (''jul'', 7), (''july'', 7),
      (''aug'', 8), (''august'', 8), (''sep'', 9), (''sept'', 9), (''september'', 9), (''oct'', 10),
      (''october'', 10), (''nov'', 11), (''november'', 11), (''dec'', 12), (''december'', 12)]"

definition has_prefix_in :: "string list \<Rightarrow> string \<Rightarrow> bool" where
  "has_prefix_in prefixes s = list_ex (starts_with (to_lower s)) prefixes"

definition isNumericType :: "string \<Rightarrow> bool" where
  "isNumericType type = has_prefix_in
     [''tinyint'', ''smallint'', ''mediumint'', ''int'', ''bigint'', ''integer'', ''float'', ''double'',
      ''decimal'', ''numeric'', ''real''] type"

definition isDateOnlyType :: "string \<Rightarrow> bool" where
  "isDateOnlyType type \<longleftrightarrow> has_prefix_in [''date''] type \<and> \<not> has_prefix_in [''datetime''] type"

definition isDateTimeType :: "string \<Rightarrow> bool" where
  "isDateTimeType type = has_prefix_in [''datetime'', ''timestamp''] type"

definition isBinaryType :: "string \<Rightarrow> bool" where
  "isBinaryType type = has_prefix_in
     [''blob'', ''tinyblob'', ''mediumblob'', ''longblob'', ''binary'', ''varbinary'', ''bytea''] type"

definition pad :: "nat \<Rightarrow> nat \<Rightarrow> string" where
  "pad value width = pad_start width CHR ''0'' (nat_str value)"

definition expandTwoDigitYear :: "string \<Rightarrow> nat option" where
  "expandTwoDigitYear text =
     (let t = trim text
      in if \<not> all_digits t then None
         else let n = digits_val t
              in if length t \<le> 2 then Some (n + (if n < 70 then 2000 else 1900)) else Some n)"

definition parseMonth :: "string \<Rightarrow> nat option" where
  "parseMonth text =
     (let t = to_lower (trim text)
      in case map_of MONTH_NAMES t of
           Some n \<Rightarrow> Some n
         | None \<Rightarrow>
             if \<not> all_digits t then None
             else let n = digits_val t in if n < 1 \<or> n > 12 then None else Some n)"

text \<open>\<open>indexOf\<close> and \<open>lastIndexOf\<close> of a substring.\<close>

fun str_index :: "string \<Rightarrow> string \<Rightarrow> nat option" where
  "str_index p [] = (if p = [] then Some 0 else None)"
| "str_index p (c # s) = (if starts_with (c # s) p then Some 0 else map_option Suc (str_index p s))"

fun str_last_index :: "string \<Rightarrow> string \<Rightarrow> nat option" where
  "str_last_index p [] = (if p = [] then Some 0 else None)"
| "str_last_index p (c # s) =
     (case str_last_index p s of
        Some n \<Rightarrow> Some (Suc n)
      | None \<Rightarrow> if starts_with (c # s) p then Some 0 else None)"

fun two_parts :: "string list \<Rightarrow> (string \<times> string) option" where
  "two_parts [a, b] = Some (a, b)"
| "two_parts _ = None"

fun three_parts :: "string list \<Rightarrow> (string \<times> string \<times> string) option" where
  "three_parts [a, b, c] = Some (a, b, c)"
| "three_parts _ = None"

definition splitDateParts ::
  "string \<Rightarrow> import_date_order \<Rightarrow> string \<Rightarrow> string option \<Rightarrow> (string \<times> string \<times> string) option" where
  "splitDateParts text order dateDelimiter yearDelimiter =
     (let t = trim text
      in if t = [] then None
         else case yearDelimiter of
             Some (y # ys) \<Rightarrow>
               if y # ys \<noteq> dateDelimiter then
                 (if order = IO_ymd then
                    (case str_index (y # ys) t of
                       None \<Rightarrow> None
                     | Some idx \<Rightarrow>
                         map_option (\<lambda>(a, b). (take idx t, a, b))
                           (two_parts (split dateDelimiter (drop (idx + length (y # ys)) t))))
                  else
                    (case str_last_index (y # ys) t of
                       None \<Rightarrow> None
                     | Some idx \<Rightarrow>
                         map_option (\<lambda>(a, b). (a, b, drop (idx + length (y # ys)) t))
                           (two_parts (split dateDelimiter (take idx t)))))
               else three_parts (split dateDelimiter t)
           | _ \<Rightarrow> three_parts (split dateDelimiter t))"

record conversion_options =
  vo_dateOrder :: "import_date_order option"
  vo_timeFirst :: bool
  vo_dateDelimiter :: "string option"
  vo_yearDelimiter :: "string option"
  vo_timeDelimiter :: "string option"
  vo_decimalSymbol :: "string option"
  vo_binaryEncoding :: "import_binary_encoding option"

text \<open>\<open>o?.d && o.d.length > 0 ? o.d : fallback\<close>\<close>

definition nonempty_or :: "string option \<Rightarrow> string \<Rightarrow> string" where
  "nonempty_or d fallback = (case d of Some (c # cs) \<Rightarrow> c # cs | _ \<Rightarrow> fallback)"

definition parseImportDate :: "string \<Rightarrow> conversion_options \<Rightarrow> string option" where
  "parseImportDate text options =
     (let order = (case vo_dateOrder options of None \<Rightarrow> IO_ymd | Some order \<Rightarrow> order);
          delim = nonempty_or (vo_dateDelimiter options) ''-'';
          yearDelim = (case vo_yearDelimiter options of Some (c # cs) \<Rightarrow> Some (c # cs) | _ \<Rightarrow> None)
      in case splitDateParts text order delim yearDelim of
           None \<Rightarrow> None
         | Some (p1, p2, p3) \<Rightarrow>
             let (yearText, monthText, dayText) =
                   (if order = IO_dmy then (p3, p2, p1) else if order = IO_mdy then (p3, p1, p2) else (p1, p2, p3));
                 dTrim = trim dayText;
                 d = (if all_digits dTrim then Some (digits_val dTrim) else None)
             in (case (expandTwoDigitYear yearText, parseMonth monthText, d) of
                  (Some y, Some m, Some d) \<Rightarrow>
                    if d < 1 \<or> d > 31 then None
                    else Some (pad y 4 @ ''-'' @ pad m 2 @ ''-'' @ pad d 2)
                | _ \<Rightarrow> None))"

text \<open>A time part: digits up to a bound.\<close>

definition time_part :: "string \<Rightarrow> nat \<Rightarrow> nat option" where
  "time_part s bound = (if all_digits s \<and> digits_val s \<le> bound then Some (digits_val s) else None)"

definition parseImportTime :: "string \<Rightarrow> conversion_options \<Rightarrow> string option" where
  "parseImportTime text options =
     (let delim = nonempty_or (vo_timeDelimiter options) '':'';
          t = trim text;
          parts = split delim t
      in if t = [] then None
         else if length parts < 2 \<or> length parts > 3 then None
         else case (time_part (parts ! 0) 23, time_part (parts ! 1) 59,
                    time_part (if length parts = 3 then parts ! 2 else ''0'') 59) of
             (Some h, Some m, Some s) \<Rightarrow> Some (pad h 2 @ '':'' @ pad m 2 @ '':'' @ pad s 2)
           | _ \<Rightarrow> None)"

definition parseImportDateTime :: "string \<Rightarrow> conversion_options \<Rightarrow> string option" where
  "parseImportDateTime text options =
     (let t = trim text
      in if t = [] then None
         else case find_index is_space t of
             None \<Rightarrow> map_option (\<lambda>date. date @ '' 00:00:00'') (parseImportDate t options)
           | Some idx \<Rightarrow>
               let left = take idx t;
                   right = trim (drop (idx + 1) t);
                   datePart = (if vo_timeFirst options then right else left);
                   timePart = (if vo_timeFirst options then left else right)
               in (case parseImportDate datePart options of
                    None \<Rightarrow> None
                  | Some date \<Rightarrow> map_option (\<lambda>time. date @ '' '' @ time) (parseImportTime timePart options)))"

definition is_hex_char :: "char \<Rightarrow> bool" where
  "is_hex_char c \<longleftrightarrow> is_digit c \<or> lower_char c \<in> set ''abcdef''"

definition bytesToHex :: "nat list \<Rightarrow> string" where
  "bytesToHex bs = concat (map hex_byte bs)"

definition hex_literal :: "string \<Rightarrow> driver \<Rightarrow> string" where
  "hex_literal hex driver =
     (if is_pg driver then [SQ, BSL] @ ''x'' @ hex @ [SQ] @ ''::bytea'' else ''X'' @ [SQ] @ hex @ [SQ])"

definition formatBinaryLiteral :: "string \<Rightarrow> import_binary_encoding \<Rightarrow> driver \<Rightarrow> string option" where
  "formatBinaryLiteral text encoding driver =
     (let cleaned = filter (\<lambda>c. \<not> is_space c) text
      in if encoding = IB_base64 then
           (if cleaned = [] then Some (hex_literal [] driver)
            else if \<not> list_all (\<lambda>c. is_upper c \<or> is_lower c \<or> is_digit c \<or> c \<in> set ''+/='') cleaned then None
            else map_option (\<lambda>bs. hex_literal (bytesToHex bs) driver) (atob cleaned))
         else
           (if \<not> list_all is_hex_char cleaned then None
            else let hex = to_lower cleaned
                 in Some (hex_literal (if length hex mod 2 \<noteq> 0 then CHR ''0'' # hex else hex) driver)))"

definition emitImportLiteral ::
  "string \<Rightarrow> string \<Rightarrow> import_null_strategy \<Rightarrow> (string \<times> string) list \<Rightarrow> conversion_options \<Rightarrow> driver \<Rightarrow> string" where
  "emitImportLiteral cell target nullStrategy columnTypes conversion driver =
     (case importValue cell nullStrategy of
        None \<Rightarrow> ''NULL''
      | Some text \<Rightarrow>
          (case map_of columnTypes target of
             Some (c # cs) \<Rightarrow>
               let type = c # cs;
                   binary = (if isBinaryType type then
                               Option.bind (vo_binaryEncoding conversion)
                                 (\<lambda>enc. formatBinaryLiteral text enc driver)
                             else None)
               in (case binary of
                     Some literal \<Rightarrow> literal
                   | None \<Rightarrow>
                       if isDateOnlyType type then
                         (case parseImportDate text conversion of
                            Some d \<Rightarrow> sqlQuote (JStr d)
                          | None \<Rightarrow> sqlQuote (JStr text))
                       else if isDateTimeType type then
                         (case parseImportDateTime text conversion of
                            Some d \<Rightarrow> sqlQuote (JStr d)
                          | None \<Rightarrow> sqlQuote (JStr text))
                       else if isNumericType type \<and> vo_decimalSymbol conversion \<notin> {None, Some [], Some ''.''} then
                         sqlQuote (JStr (join ''.'' (split (the (vo_decimalSymbol conversion)) text)))
                       else sqlQuote (JStr text))
           | _ \<Rightarrow> sqlQuote (JStr text)))"

section \<open>The import statements\<close>

record mapped_column =
  mc_source :: string
  mc_index :: nat
  mc_target :: string

definition cell_at :: "string list \<Rightarrow> mapped_column \<Rightarrow> string" where
  "cell_at row item = (if mc_index item < length row then row ! mc_index item else [])"

definition whereClauseForRow ::
  "string list \<Rightarrow> mapped_column list \<Rightarrow> (string \<Rightarrow> string \<Rightarrow> string) \<Rightarrow> driver \<Rightarrow> string" where
  "whereClauseForRow row mapped emit driver =
     join '' AND '' (map (\<lambda>item.
       let literal = emit (cell_at row item) (mc_target item);
           column = quoteIdent (mc_target item) driver
       in if literal = ''NULL'' then column @ '' IS NULL'' else column @ '' = '' @ literal) mapped)"

definition extended_statement :: "string \<Rightarrow> string list \<Rightarrow> string \<Rightarrow> string" where
  "extended_statement insertPrefix chunk suffix = insertPrefix @ '' '' @ join '', '' chunk @ suffix @ '';''"

text \<open>The loop of \<open>chunkExtendedInsertStatements\<close>; its state is \<open>statements\<close> and \<open>chunk\<close>.\<close>

fun chunk_loop :: "string \<Rightarrow> string \<Rightarrow> nat \<Rightarrow> string list \<Rightarrow> string list \<Rightarrow> string list \<Rightarrow> string list" where
  "chunk_loop insertPrefix suffix maxSize statements chunk [] =
     (if chunk \<noteq> [] then statements @ [extended_statement insertPrefix chunk suffix] else statements)"
| "chunk_loop insertPrefix suffix maxSize statements chunk (valueSql # valuesSql) =
     (let candidate = chunk @ [valueSql];
          statement = extended_statement insertPrefix candidate suffix
      in if chunk \<noteq> [] \<and> length statement > maxSize then
           chunk_loop insertPrefix suffix maxSize
             (statements @ [extended_statement insertPrefix chunk suffix]) [valueSql] valuesSql
         else chunk_loop insertPrefix suffix maxSize statements candidate valuesSql)"

definition chunkExtendedInsertStatements :: "string \<Rightarrow> string list \<Rightarrow> string \<Rightarrow> nat \<Rightarrow> string list" where
  "chunkExtendedInsertStatements insertPrefix valuesSql suffix maxStatementSize =
     chunk_loop insertPrefix suffix maxStatementSize [] [] valuesSql"

record import_args =
  ia_tableName :: string
  ia_headers :: "string list"
  ia_rows :: "string list list"
  ia_mapping :: "(string \<times> string) list"
  ia_nullStrategy :: import_null_strategy
  ia_mode :: "import_mode option"
  ia_primaryKeys :: "string list option"
  ia_extendedInsert :: bool
  ia_maxStatementSizeKb :: "nat option"
  ia_emptyStringAsNull :: bool
  ia_driver :: driver
  ia_columnTypes :: "(string \<times> string) list"
  ia_conversion :: conversion_options

definition effective_null_strategy :: "import_args \<Rightarrow> import_null_strategy" where
  "effective_null_strategy a = (if ia_emptyStringAsNull a then NS_empty_is_null else ia_nullStrategy a)"

definition mapped_columns :: "import_args \<Rightarrow> mapped_column list" where
  "mapped_columns a =
     filter (\<lambda>item. mc_target item \<noteq> [])
       (map (\<lambda>(index, source). \<lparr>mc_source = source, mc_index = index,
               mc_target = (case map_of (ia_mapping a) source of None \<Rightarrow> [] | Some t \<Rightarrow> t)\<rparr>)
         (enumerate 0 (ia_headers a)))"

definition primary_keys :: "import_args \<Rightarrow> string list" where
  "primary_keys a = (case ia_primaryKeys a of None \<Rightarrow> [] | Some ks \<Rightarrow> ks)"

definition key_mapped :: "import_args \<Rightarrow> mapped_column list" where
  "key_mapped a = filter (\<lambda>item. mc_target item \<in> set (primary_keys a)) (mapped_columns a)"

definition value_mapped :: "import_args \<Rightarrow> mapped_column list" where
  "value_mapped a = filter (\<lambda>item. mc_target item \<notin> set (primary_keys a)) (mapped_columns a)"

definition import_emit :: "import_args \<Rightarrow> string \<Rightarrow> string \<Rightarrow> string" where
  "import_emit a cell target =
     emitImportLiteral cell target (effective_null_strategy a) (ia_columnTypes a) (ia_conversion a) (ia_driver a)"

definition row_values_sql :: "import_args \<Rightarrow> string list \<Rightarrow> string" where
  "row_values_sql a row =
     ''('' @ join '', '' (map (\<lambda>item. import_emit a (cell_at row item) (mc_target item)) (mapped_columns a)) @ '')''"

definition insert_prefix :: "import_args \<Rightarrow> string \<Rightarrow> string" where
  "insert_prefix a insertKeyword =
     insertKeyword @ '' '' @ quoteQualifiedIdent (ia_tableName a) (ia_driver a) @ '' ('' @
     join '', '' (map (\<lambda>item. quoteIdent (mc_target item) (ia_driver a)) (mapped_columns a)) @ '') VALUES''"

definition buildInsertStatements :: "import_args \<Rightarrow> string \<Rightarrow> string \<Rightarrow> string list" where
  "buildInsertStatements a insertKeyword suffix =
     (let rowValuesSql = map (row_values_sql a) (ia_rows a)
      in if ia_extendedInsert a then
           chunkExtendedInsertStatements (insert_prefix a insertKeyword) rowValuesSql suffix
             (max 1 (case ia_maxStatementSizeKb a of None \<Rightarrow> 1024 | Some n \<Rightarrow> n) * 1024)
         else map (\<lambda>values. insert_prefix a insertKeyword @ '' '' @ values @ suffix @ '';'') rowValuesSql)"

definition key_columns_sql :: "import_args \<Rightarrow> string" where
  "key_columns_sql a = join '', '' (map (\<lambda>item. quoteIdent (mc_target item) (ia_driver a)) (key_mapped a))"

definition update_statement :: "import_args \<Rightarrow> string list \<Rightarrow> string" where
  "update_statement a row =
     (let setSql = join '', '' (map (\<lambda>item. quoteIdent (mc_target item) (ia_driver a) @ '' = '' @
                     import_emit a (cell_at row item) (mc_target item)) (value_mapped a))
      in ''UPDATE '' @ quoteQualifiedIdent (ia_tableName a) (ia_driver a) @ '' SET '' @ setSql @ '' WHERE '' @
         whereClauseForRow row (key_mapped a) (import_emit a) (ia_driver a) @ '';'')"

definition delete_row_statement :: "import_args \<Rightarrow> string list \<Rightarrow> string" where
  "delete_row_statement a row =
     ''DELETE FROM '' @ quoteQualifiedIdent (ia_tableName a) (ia_driver a) @ '' WHERE '' @
     whereClauseForRow row (key_mapped a) (import_emit a) (ia_driver a) @ '';''"

definition update_suffix :: "import_args \<Rightarrow> string" where
  "update_suffix a =
     (let q = (\<lambda>item. quoteIdent (mc_target item) (ia_driver a))
      in if is_pg (ia_driver a) then
           '' ON CONFLICT ('' @ key_columns_sql a @ '') DO UPDATE SET '' @
           join '', '' (map (\<lambda>item. q item @ '' = excluded.'' @ q item) (value_mapped a))
         else
           '' ON DUPLICATE KEY UPDATE '' @
           join '', '' (map (\<lambda>item. q item @ '' = VALUES('' @ q item @ '')'') (value_mapped a)))"

definition buildImportInsertSql :: "import_args \<Rightarrow> string list" where
  "buildImportInsertSql a =
     (let mode = (case ia_mode a of None \<Rightarrow> IM_append | Some m \<Rightarrow> m);
          pg = is_pg (ia_driver a);
          nothing_suffix = '' ON CONFLICT ('' @ key_columns_sql a @ '') DO NOTHING''
      in if mapped_columns a = [] then []
         else if mode \<in> {IM_update, IM_append_update, IM_append_skip, IM_delete} \<and> key_mapped a = [] then []
         else case mode of
             IM_update \<Rightarrow> if value_mapped a = [] then [] else map (update_statement a) (ia_rows a)
           | IM_append_update \<Rightarrow>
               if value_mapped a = [] then
                 (if pg then buildInsertStatements a ''INSERT INTO'' nothing_suffix
                  else buildInsertStatements a ''INSERT IGNORE INTO'' [])
               else buildInsertStatements a ''INSERT INTO'' (update_suffix a)
           | IM_append_skip \<Rightarrow>
               if pg then buildInsertStatements a ''INSERT INTO'' nothing_suffix
               else buildInsertStatements a ''INSERT IGNORE INTO'' []
           | IM_delete \<Rightarrow> map (delete_row_statement a) (ia_rows a)
           | IM_append \<Rightarrow> buildInsertStatements a ''INSERT INTO'' []
           | IM_copy \<Rightarrow>
               (''DELETE FROM '' @ quoteQualifiedIdent (ia_tableName a) (ia_driver a) @ '';'') #
               buildInsertStatements a ''INSERT INTO'' [])"

section \<open>Extended inserts lose no row and respect the size\<close>

lemma chunk_loop_spec:
  "\<exists>chunks.
     chunk_loop p sfx n stmts chunk vals = stmts @ map (\<lambda>c. extended_statement p c sfx) chunks \<and>
     concat chunks = chunk @ vals \<and> [] \<notin> set chunks \<and>
     (\<forall>c\<in>set chunks. c = chunk \<or> length c = 1 \<or> length (extended_statement p c sfx) \<le> n)"
proof (induction p sfx n stmts chunk vals rule: chunk_loop.induct)
  case (1 p sfx n stmts chunk)
  show ?case by (rule exI [of _ "if chunk = [] then [] else [chunk]"]) simp
next
  case (2 p sfx n stmts chunk v vals)
  let ?over = "chunk \<noteq> [] \<and> length (extended_statement p (chunk @ [v]) sfx) > n"
  show ?case
  proof (cases ?over)
    case True
    from "2.IH"(1) [OF refl refl True] obtain chunks where
      "chunk_loop p sfx n (stmts @ [extended_statement p chunk sfx]) [v] vals =
         (stmts @ [extended_statement p chunk sfx]) @ map (\<lambda>c. extended_statement p c sfx) chunks"
      "concat chunks = [v] @ vals" "[] \<notin> set chunks"
      "\<forall>c\<in>set chunks. c = [v] \<or> length c = 1 \<or> length (extended_statement p c sfx) \<le> n" by blast
    with True show ?thesis by (intro exI [of _ "chunk # chunks"]) auto
  next
    case False
    from "2.IH"(2) [OF refl refl False] obtain chunks where
      "chunk_loop p sfx n stmts (chunk @ [v]) vals = stmts @ map (\<lambda>c. extended_statement p c sfx) chunks"
      "concat chunks = (chunk @ [v]) @ vals" "[] \<notin> set chunks"
      "\<forall>c\<in>set chunks. c = chunk @ [v] \<or> length c = 1 \<or> length (extended_statement p c sfx) \<le> n" by blast
    with False show ?thesis by (intro exI [of _ chunks]) (auto simp: not_less)
  qed
qed

text \<open>
  Splitting an extended insert into statements of bounded size loses, repeats and reorders no
  row: the statements are the renderings of consecutive non-empty groups whose concatenation is the
  list of rows, and every statement is within the limit unless it holds a single row.
\<close>

theorem chunks_keep_rows_within_size:
  "\<exists>chunks.
     chunkExtendedInsertStatements p vals sfx n = map (\<lambda>c. extended_statement p c sfx) chunks \<and>
     concat chunks = vals \<and> [] \<notin> set chunks \<and>
     (\<forall>c\<in>set chunks. length c \<noteq> 1 \<longrightarrow> length (extended_statement p c sfx) \<le> n)"
proof -
  obtain chunks where c:
    "chunk_loop p sfx n [] [] vals = map (\<lambda>c. extended_statement p c sfx) chunks"
    "concat chunks = vals" "[] \<notin> set chunks"
    "\<forall>c\<in>set chunks. c = [] \<or> length c = 1 \<or> length (extended_statement p c sfx) \<le> n"
    using chunk_loop_spec [of p sfx n "[]" "[]" vals] by auto
  then show ?thesis by (intro exI [of _ chunks]) (auto simp: chunkExtendedInsertStatements_def)
qed

theorem chunks_keep_rows_within_size_witness:
  "chunkExtendedInsertStatements ''I'' [''(1)'', ''(2)'', ''(3)''] [] 12 = [''I (1), (2);'', ''I (3);''] \<and>
   (\<exists>chunks. concat chunks = [''(1)'', ''(2)'', ''(3)''] \<and>
      [''I (1), (2);'', ''I (3);''] = map (\<lambda>c. extended_statement ''I'' c []) chunks)"
proof -
  have "chunkExtendedInsertStatements ''I'' [''(1)'', ''(2)'', ''(3)''] [] 12 = [''I (1), (2);'', ''I (3);'']"
    by (simp add: chunkExtendedInsertStatements_def extended_statement_def)
  with chunks_keep_rows_within_size [of "''I''" "[''(1)'', ''(2)'', ''(3)'']" "[]" 12] show ?thesis by metis
qed

section \<open>What the server reads of an import\<close>

datatype import_lit = L_null | L_text string | L_hex string

text \<open>The literal a cell becomes, before it is rendered.\<close>

definition hex_of_text :: "string \<Rightarrow> import_binary_encoding \<Rightarrow> string option" where
  "hex_of_text text encoding =
     (let cleaned = filter (\<lambda>c. \<not> is_space c) text
      in if encoding = IB_base64 then
           (if cleaned = [] then Some []
            else if \<not> list_all (\<lambda>c. is_upper c \<or> is_lower c \<or> is_digit c \<or> c \<in> set ''+/='') cleaned then None
            else map_option bytesToHex (atob cleaned))
         else if \<not> list_all is_hex_char cleaned then None
         else Some (if length cleaned mod 2 \<noteq> 0 then CHR ''0'' # to_lower cleaned else to_lower cleaned))"

definition typed_text :: "string \<Rightarrow> string \<Rightarrow> conversion_options \<Rightarrow> string" where
  "typed_text type text conversion =
     (if isDateOnlyType type then (case parseImportDate text conversion of Some d \<Rightarrow> d | None \<Rightarrow> text)
      else if isDateTimeType type then (case parseImportDateTime text conversion of Some d \<Rightarrow> d | None \<Rightarrow> text)
      else if isNumericType type \<and> vo_decimalSymbol conversion \<notin> {None, Some [], Some ''.''} then
        join ''.'' (split (the (vo_decimalSymbol conversion)) text)
      else text)"

definition cell_literal ::
  "string \<Rightarrow> string \<Rightarrow> import_null_strategy \<Rightarrow> (string \<times> string) list \<Rightarrow> conversion_options \<Rightarrow> import_lit" where
  "cell_literal cell target nullStrategy columnTypes conversion =
     (case importValue cell nullStrategy of
        None \<Rightarrow> L_null
      | Some text \<Rightarrow>
          (case map_of columnTypes target of
             Some (c # cs) \<Rightarrow>
               (case (if isBinaryType (c # cs) then Option.bind (vo_binaryEncoding conversion) (hex_of_text text) else None) of
                  Some hex \<Rightarrow> L_hex hex
                | None \<Rightarrow> L_text (typed_text (c # cs) text conversion))
           | _ \<Rightarrow> L_text text))"

fun import_lit_text :: "driver \<Rightarrow> import_lit \<Rightarrow> string" where
  "import_lit_text driver L_null = ''NULL''"
| "import_lit_text driver (L_text s) = quote_with SQ s"
| "import_lit_text driver (L_hex h) = hex_literal h driver"

fun import_lit_toks :: "driver \<Rightarrow> import_lit \<Rightarrow> sql_tok list" where
  "import_lit_toks driver L_null = [TWord ''NULL'']"
| "import_lit_toks driver (L_text s) = [TStr s]"
| "import_lit_toks driver (L_hex h) =
     (if is_pg driver then [TStr ([BSL] @ ''x'' @ h), TSym CHR '':'', TSym CHR '':'', TWord ''bytea'']
      else [TWord ''X'', TStr h])"

lemma formatBinary_hex: "formatBinaryLiteral text enc driver = map_option (\<lambda>h. hex_literal h driver) (hex_of_text text enc)"
  by (cases enc) (auto simp: formatBinaryLiteral_def hex_of_text_def Let_def option.map_comp comp_def)

lemma binary_hex:
  "Option.bind b (\<lambda>enc. formatBinaryLiteral s enc driver) =
   map_option (\<lambda>h. hex_literal h driver) (Option.bind b (hex_of_text s))"
  by (cases b) (simp_all add: formatBinary_hex)

lemma emit_literal:
  "emitImportLiteral cell target ns types conv driver = import_lit_text driver (cell_literal cell target ns types conv)"
proof (cases "importValue cell ns")
  case None
  then show ?thesis by (simp add: emitImportLiteral_def cell_literal_def)
next
  case (Some s)
  note cell = Some
  have plain: "sqlQuote (JStr u) = quote_with SQ u" for u by (simp add: sqlQuote_def)
  consider "map_of types target = None" | "map_of types target = Some []"
    | c cs where "map_of types target = Some (c # cs)"
    by (cases "map_of types target") (auto, metis neq_Nil_conv)
  then show ?thesis
  proof cases
    case 3
    show ?thesis
    proof (cases "if isBinaryType (c # cs) then Option.bind (vo_binaryEncoding conv) (hex_of_text s) else None")
      case None
      with cell 3 show ?thesis
        by (cases "isBinaryType (c # cs)")
           (auto simp: emitImportLiteral_def cell_literal_def typed_text_def binary_hex plain Let_def
             split: option.split)
    next
      case (Some h)
      with cell 3 show ?thesis
        by (cases "isBinaryType (c # cs)") (simp_all add: emitImportLiteral_def cell_literal_def binary_hex Let_def)
    qed
  qed (simp_all add: cell emitImportLiteral_def cell_literal_def plain)
qed

definition safe_lit :: "driver \<Rightarrow> import_lit \<Rightarrow> bool" where
  "safe_lit driver l = (case l of L_text s \<Rightarrow> safe_text driver s | _ \<Rightarrow> True)"

definition hex_text :: "string \<Rightarrow> bool" where
  "hex_text h = list_all is_hex_char h"

lemma hex_no_special: "hex_text h \<Longrightarrow> SQ \<notin> set h \<and> BSL \<notin> set h"
proof -
  have "\<not> is_hex_char SQ" "\<not> is_hex_char BSL" by code_simp+
  then show "hex_text h \<Longrightarrow> ?thesis" by (auto simp: hex_text_def list_all_iff)
qed

lemma hex_literal_tokens:
  assumes "hex_text h"
  shows "sql_tokens (sql_dialect (is_pg driver)) (hex_literal h driver) = Some (import_lit_toks driver (L_hex h))"
proof -
  have q: "quote_with SQ h = [SQ] @ h @ [SQ]" "quote_with SQ ([BSL] @ ''x'' @ h) = [SQ, BSL] @ ''x'' @ h @ [SQ]"
    using hex_no_special [OF assms] by (simp_all add: quote_with_def)
  show ?thesis
  proof (cases "is_pg driver")
    case True
    then have "sql_tokens (sql_dialect True) (quote_with SQ ([BSL] @ ''x'' @ h)) = Some [TStr ([BSL] @ ''x'' @ h)]"
      by (intro sql_tokens_string) simp
    then have "sql_tokens (sql_dialect True) (quote_with SQ ([BSL] @ ''x'' @ h) @ ''::bytea'') =
        Some [TStr ([BSL] @ ''x'' @ h), TSym CHR '':'', TSym CHR '':'', TWord ''bytea'']"
      by (simp add: sql_lex)
    then show ?thesis using True by (simp only: hex_literal_def q) simp
  next
    case False
    have "word_tokens (sql_dialect False) ''X'' (quote_with SQ h) = Some [TWord ''X'', TStr h]"
      using hex_no_special [OF assms] by (intro word_tokens_string) simp
    then show ?thesis using False by (simp add: hex_literal_def q sql_tokens_word char_class)
  qed
qed

lemma hex_digit_hex: "n < 16 \<Longrightarrow> is_hex_char (hex_digit n)"
proof -
  have "\<forall>n<16. is_hex_char (hex_digit n)" by code_simp
  then show "n < 16 \<Longrightarrow> ?thesis" by simp
qed

lemma bytesToHex_hex: "hex_text (bytesToHex bs)"
  by (induction bs) (simp_all add: hex_text_def bytesToHex_def hex_byte_def hex_digit_hex)

lemma to_lower_hex: "list_all is_hex_char s \<Longrightarrow> list_all is_hex_char (to_lower s)"
proof -
  have "is_hex_char (lower_char c) = is_hex_char c" for c
    by (auto simp: is_hex_char_def lower_char_def is_upper_def is_digit_def)
  then show "list_all is_hex_char s \<Longrightarrow> ?thesis" by (simp add: to_lower_def list_all_iff)
qed

lemma hex_of_text_hex: "hex_of_text s enc = Some h \<Longrightarrow> hex_text h"
proof -
  have "is_hex_char CHR ''0''" by code_simp
  then show "hex_of_text s enc = Some h \<Longrightarrow> ?thesis"
    using to_lower_hex [of "filter (\<lambda>c. \<not> is_space c) s"] bytesToHex_hex
    by (auto simp: hex_of_text_def Let_def hex_text_def split: if_splits)
qed

lemma cell_literal_hex: "cell_literal cell target ns types conv = L_hex h \<Longrightarrow> hex_text h"
  by (auto simp: cell_literal_def split: option.splits list.splits if_splits bind_splits dest: hex_of_text_hex)

lemma emit_tokens:
  assumes "safe_lit driver (cell_literal cell target ns types conv)"
  shows "sql_tokens (sql_dialect (is_pg driver)) (emitImportLiteral cell target ns types conv driver) =
         Some (import_lit_toks driver (cell_literal cell target ns types conv))"
proof (cases "cell_literal cell target ns types conv")
  case (L_text s)
  with assms show ?thesis by (simp add: emit_literal safe_lit_def quoted_tokens)
next
  case (L_hex h)
  then show ?thesis using hex_literal_tokens cell_literal_hex by (simp add: emit_literal)
qed (simp add: emit_literal)
text \<open>The literal of a cell of a row, and the tokens of the parts of a statement.\<close>

definition row_literal :: "import_args \<Rightarrow> string list \<Rightarrow> mapped_column \<Rightarrow> import_lit" where
  "row_literal a row item =
     cell_literal (cell_at row item) (mc_target item) (effective_null_strategy a) (ia_columnTypes a) (ia_conversion a)"

definition safe_row :: "import_args \<Rightarrow> string list \<Rightarrow> bool" where
  "safe_row a row \<longleftrightarrow> (\<forall>item\<in>set (mapped_columns a). safe_lit (ia_driver a) (row_literal a row item))"

definition import_table_toks :: "import_args \<Rightarrow> sql_tok list" where
  "import_table_toks a = ident_toks (filter (\<lambda>part. part \<noteq> []) (split ''.'' (ia_tableName a)))"

definition key_toks :: "import_args \<Rightarrow> string list \<Rightarrow> sql_tok list" where
  "key_toks a row = join [TWord ''AND''] (map (\<lambda>item.
     case row_literal a row item of
       L_null \<Rightarrow> [TId (mc_target item), TWord ''IS'', TWord ''NULL'']
     | l \<Rightarrow> [TId (mc_target item), TSym CHR ''=''] @ import_lit_toks (ia_driver a) l) (key_mapped a))"

definition delete_row_toks :: "import_args \<Rightarrow> string list \<Rightarrow> sql_tok list" where
  "delete_row_toks a row =
     [TWord ''DELETE'', TWord ''FROM''] @ import_table_toks a @ [TWord ''WHERE''] @ key_toks a row @ [TSym CHR '';'']"

definition row_toks :: "import_args \<Rightarrow> string list \<Rightarrow> sql_tok list" where
  "row_toks a row =
     [TSym CHR ''(''] @
     join [TSym CHR '',''] (map (\<lambda>item. import_lit_toks (ia_driver a) (row_literal a row item)) (mapped_columns a)) @
     [TSym CHR '')'']"

definition insert_toks :: "import_args \<Rightarrow> string list list \<Rightarrow> sql_tok list" where
  "insert_toks a rows =
     [TWord ''INSERT'', TWord ''INTO''] @ import_table_toks a @ [TSym CHR ''(''] @
     join [TSym CHR '',''] (map (\<lambda>item. [TId (mc_target item)]) (mapped_columns a)) @
     [TSym CHR '')'', TWord ''VALUES''] @ join [TSym CHR '',''] (map (row_toks a) rows) @ [TSym CHR '';'']"

lemma import_emit_tokens:
  "safe_row a row \<Longrightarrow> item \<in> set (mapped_columns a) \<Longrightarrow>
   sql_tokens (sql_dialect (is_pg (ia_driver a))) (import_emit a (cell_at row item) (mc_target item)) =
   Some (import_lit_toks (ia_driver a) (row_literal a row item))"
  by (simp add: import_emit_def row_literal_def safe_row_def emit_tokens)

lemma import_emit_null: "import_emit a (cell_at row item) (mc_target item) = ''NULL'' \<longleftrightarrow> row_literal a row item = L_null"
  by (cases "row_literal a row item")
     (simp_all add: import_emit_def emit_literal row_literal_def quote_with_def hex_literal_def)

lemma where_row_tokens:
  assumes "safe_row a row"
  shows "sql_tokens (sql_dialect (is_pg (ia_driver a)))
           (whereClauseForRow row (key_mapped a) (import_emit a) (ia_driver a)) = Some (key_toks a row)"
  unfolding whereClauseForRow_def key_toks_def
proof (rule conj.join_tokens)
  fix item
  assume "item \<in> set (key_mapped a)"
  then have "item \<in> set (mapped_columns a)" by (simp add: key_mapped_def)
  note v = import_emit_tokens [OF assms this]
  note c = quoteIdent_tokens [of "ia_driver a" "mc_target item"]
  show "sql_tokens (sql_dialect (is_pg (ia_driver a)))
     (let literal = import_emit a (cell_at row item) (mc_target item); column = quoteIdent (mc_target item) (ia_driver a)
      in if literal = ''NULL'' then column @ '' IS NULL'' else column @ '' = '' @ literal) =
     Some (case row_literal a row item of
             L_null \<Rightarrow> [TId (mc_target item), TWord ''IS'', TWord ''NULL'']
           | l \<Rightarrow> [TId (mc_target item), TSym CHR ''=''] @ import_lit_toks (ia_driver a) l)"
  proof (cases "row_literal a row item = L_null")
    case True
    then show ?thesis using c by (simp add: import_emit_null Let_def sql_lex)
  next
    case False
    then show ?thesis using c v by (cases "row_literal a row item") (auto simp: import_emit_null Let_def sql_lex)
  qed
qed

lemma import_table_tokens:
  "sql_tokens (sql_dialect (is_pg (ia_driver a))) (quoteQualifiedIdent (ia_tableName a) (ia_driver a)) =
   Some (import_table_toks a)"
  by (simp add: import_table_toks_def quoteQualifiedIdent_tokens)

text \<open>
  An import in delete mode deletes by key only: one statement per row of the source, in order,
  read by the server as a DELETE from the target table whose WHERE equates exactly the mapped
  primary-key columns with the literals of that row's cells; without a mapped key column there is no
  statement at all.
\<close>

theorem import_delete_by_key:
  assumes "ia_mode a = Some IM_delete" and "\<forall>row\<in>set (ia_rows a). safe_row a row"
  shows "map (reads (ia_driver a)) (buildImportInsertSql a) =
         (if key_mapped a = [] then [] else map (\<lambda>row. Some (delete_row_toks a row)) (ia_rows a))"
proof -
  have "reads (ia_driver a) (delete_row_statement a row) = Some (delete_row_toks a row)" if "row \<in> set (ia_rows a)" for row
    using where_row_tokens [of a row] import_table_tokens [of a] that assms(2)
    by (simp add: reads_def delete_row_statement_def delete_row_toks_def sql_lex)
  moreover have "mapped_columns a = [] \<Longrightarrow> key_mapped a = []" by (simp add: key_mapped_def)
  ultimately show ?thesis using assms(1) by (simp add: buildImportInsertSql_def Let_def)
qed

definition ex_import :: import_args where
  "ex_import =
     \<lparr>ia_tableName = ''shop.users'', ia_headers = [''ID'', ''n'', ''x''], ia_rows = [[''1'', ''ann''], [''2'', ''bob'', ''y'']],
      ia_mapping = [(''ID'', ''id''), (''n'', ''name'')], ia_nullStrategy = NS_empty_is_null, ia_mode = Some IM_delete,
      ia_primaryKeys = Some [''id''], ia_extendedInsert = True, ia_maxStatementSizeKb = None,
      ia_emptyStringAsNull = False, ia_driver = Some ''mysql'', ia_columnTypes = [],
      ia_conversion = \<lparr>vo_dateOrder = None, vo_timeFirst = False, vo_dateDelimiter = None, vo_yearDelimiter = None,
        vo_timeDelimiter = None, vo_decimalSymbol = None, vo_binaryEncoding = None\<rparr>\<rparr>"

lemma ex_import_columns:
  "mapped_columns ex_import =
     [\<lparr>mc_source = ''ID'', mc_index = 0, mc_target = ''id''\<rparr>, \<lparr>mc_source = ''n'', mc_index = 1, mc_target = ''name''\<rparr>]"
  by (simp add: mapped_columns_def ex_import_def)

lemma ex_import_safe: "\<forall>row\<in>set (ia_rows ex_import). safe_row ex_import row"
  by (simp add: safe_row_def ex_import_columns)
     (simp add: ex_import_def row_literal_def cell_literal_def cell_at_def importValue_def effective_null_strategy_def
       safe_lit_def safe_text_def)

theorem import_delete_by_key_witness:
  "map (reads (Some ''mysql'')) (buildImportInsertSql ex_import) =
   map (\<lambda>row. Some (delete_row_toks ex_import row)) [[''1'', ''ann''], [''2'', ''bob'', ''y'']]"
proof -
  have "key_mapped ex_import \<noteq> []"
    by (simp add: key_mapped_def ex_import_columns) (simp add: ex_import_def primary_keys_def)
  moreover have "ia_mode ex_import = Some IM_delete" "ia_driver ex_import = Some ''mysql''"
    "ia_rows ex_import = [[''1'', ''ann''], [''2'', ''bob'', ''y'']]"
    by (simp_all add: ex_import_def)
  ultimately show ?thesis using import_delete_by_key [OF _ ex_import_safe] by simp
qed

lemma row_values_tokens:
  assumes "safe_row a row"
  shows "sql_tokens (sql_dialect (is_pg (ia_driver a))) (row_values_sql a row) = Some (row_toks a row)"
proof -
  have "sql_tokens (sql_dialect (is_pg (ia_driver a)))
      (join '', '' (map (\<lambda>item. import_emit a (cell_at row item) (mc_target item)) (mapped_columns a))) =
    Some (join [TSym CHR '',''] (map (\<lambda>item. import_lit_toks (ia_driver a) (row_literal a row item)) (mapped_columns a)))"
    by (rule comma.join_tokens) (rule import_emit_tokens [OF assms])
  then show ?thesis by (simp add: row_values_sql_def row_toks_def sql_lex)
qed

lemma insert_statement_tokens:
  assumes "\<forall>row\<in>set rows. safe_row a row"
  shows "reads (ia_driver a) (extended_statement (insert_prefix a ''INSERT INTO'') (map (row_values_sql a) rows) []) =
         Some (insert_toks a rows)"
proof -
  have "sql_tokens (sql_dialect (is_pg (ia_driver a))) (join '', '' (map (row_values_sql a) rows)) =
      Some (join [TSym CHR '',''] (map (row_toks a) rows))"
    by (rule comma.join_tokens) (use assms row_values_tokens in blast)
  moreover have "sql_tokens (sql_dialect (is_pg (ia_driver a)))
      (join '', '' (map (\<lambda>item. quoteIdent (mc_target item) (ia_driver a)) (mapped_columns a))) =
    Some (join [TSym CHR '',''] (map (\<lambda>item. [TId (mc_target item)]) (mapped_columns a)))"
    by (rule comma.join_tokens) (rule quoteIdent_tokens)
  ultimately show ?thesis
    using import_table_tokens [of a]
    by (simp add: reads_def extended_statement_def insert_prefix_def insert_toks_def sql_lex)
qed

lemma map_chunks: "concat chunks = map f xs \<Longrightarrow> \<exists>yss. chunks = map (map f) yss \<and> concat yss = xs"
proof (induction chunks arbitrary: xs)
  case Nil
  then show ?case by simp
next
  case (Cons c cs)
  from Cons.prems have "map f (take (length c) xs) = c" "map f (drop (length c) xs) = concat cs"
    by (metis append_eq_conv_conj concat.simps(2) take_map, metis append_eq_conv_conj concat.simps(2) drop_map)
  moreover from Cons.IH [of "drop (length c) xs"] this(2)
  obtain yss where "cs = map (map f) yss" "concat yss = drop (length c) xs" by auto
  ultimately show ?case by (intro exI [of _ "take (length c) xs # yss"]) simp
qed

text \<open>
  C6: An import in append mode inserts every row of the source exactly once and in order, with or
  without extended inserts: the server reads the statements as INSERTs of consecutive non-empty
  groups of the rows into the mapped columns of the target table, each cell one literal.
\<close>

theorem import_append_inserts_rows:
  assumes "ia_mode a \<in> {None, Some IM_append}" and "mapped_columns a \<noteq> []"
    and "\<forall>row\<in>set (ia_rows a). safe_row a row"
  shows "\<exists>groups. concat groups = ia_rows a \<and> [] \<notin> set groups \<and>
           map (reads (ia_driver a)) (buildImportInsertSql a) = map (\<lambda>rows. Some (insert_toks a rows)) groups"
proof -
  have stmts: "buildImportInsertSql a = buildInsertStatements a ''INSERT INTO'' []"
    using assms(1,2) by (auto simp: buildImportInsertSql_def Let_def)
  have "\<exists>groups. concat groups = ia_rows a \<and> [] \<notin> set groups \<and>
      buildInsertStatements a ''INSERT INTO'' [] =
      map (\<lambda>rows. extended_statement (insert_prefix a ''INSERT INTO'') (map (row_values_sql a) rows) []) groups"
  proof (cases "ia_extendedInsert a")
    case True
    obtain chunks where c: "buildInsertStatements a ''INSERT INTO'' [] =
        map (\<lambda>c. extended_statement (insert_prefix a ''INSERT INTO'') c []) chunks"
      "concat chunks = map (row_values_sql a) (ia_rows a)" "[] \<notin> set chunks"
      using chunk_loop_spec [of "insert_prefix a ''INSERT INTO''" "[]" _ "[]" "[]" "map (row_values_sql a) (ia_rows a)"] True
      unfolding buildInsertStatements_def chunkExtendedInsertStatements_def Let_def by (metis append_Nil)
    from map_chunks [OF c(2)] obtain yss where "chunks = map (map (row_values_sql a)) yss" "concat yss = ia_rows a"
      by blast
    with c show ?thesis by (intro exI [of _ yss]) auto
  next
    case False
    have "concat (map (\<lambda>row. [row]) rows) = rows" for rows :: "string list list" by (induction rows) simp_all
    with False show ?thesis
      by (intro exI [of _ "map (\<lambda>row. [row]) (ia_rows a)"]) (auto simp: buildInsertStatements_def extended_statement_def)
  qed
  then obtain groups where g: "concat groups = ia_rows a" "[] \<notin> set groups"
    "buildInsertStatements a ''INSERT INTO'' [] =
      map (\<lambda>rows. extended_statement (insert_prefix a ''INSERT INTO'') (map (row_values_sql a) rows) []) groups" by blast
  have "\<forall>rows\<in>set groups. \<forall>row\<in>set rows. safe_row a row"
    using g(1) assms(3) by (metis UN_I set_concat)
  then have "map (reads (ia_driver a)) (buildInsertStatements a ''INSERT INTO'' []) =
      map (\<lambda>rows. Some (insert_toks a rows)) groups"
    by (simp add: g(3) insert_statement_tokens)
  with g(1,2) stmts show ?thesis by auto
qed

lemma mode_independent:
  "mapped_columns (a\<lparr>ia_mode := m\<rparr>) = mapped_columns a"
  "row_literal (a\<lparr>ia_mode := m\<rparr>) row item = row_literal a row item"
  by (simp_all add: mapped_columns_def row_literal_def effective_null_strategy_def)

theorem import_append_inserts_rows_witness:
  "\<exists>groups. concat groups = [[''1'', ''ann''], [''2'', ''bob'', ''y'']] \<and>
     map (reads (Some ''mysql'')) (buildImportInsertSql (ex_import\<lparr>ia_mode := None\<rparr>)) =
     map (\<lambda>rows. Some (insert_toks (ex_import\<lparr>ia_mode := None\<rparr>) rows)) groups"
proof -
  let ?a = "ex_import\<lparr>ia_mode := None\<rparr>"
  have safe: "\<forall>row\<in>set (ia_rows ?a). safe_row ?a row"
    using ex_import_safe by (simp add: safe_row_def mode_independent)
  have "ia_driver ?a = Some ''mysql''" "ia_rows ?a = [[''1'', ''ann''], [''2'', ''bob'', ''y'']]"
    by (simp_all add: ex_import_def)
  with import_append_inserts_rows [OF _ _ safe] show ?thesis
    by (auto simp: mode_independent ex_import_columns)
qed

end
