(* ===== verification/TableRoundTrip.thy ===== *)
theory TableRoundTrip
  imports TableExport TableImport
begin

text \<open>
  What the export writes and the import reads back: delimited text, binary cells and dates, with
  the same settings on both sides.
\<close>

section \<open>Delimited text\<close>

text \<open>
  Interface: a delimiter, a qualifier and a record separator that the reader in a given mode keeps
  apart. Under these laws the reader undoes the writer.
\<close>

definition quoted_field :: "char \<Rightarrow> char \<Rightarrow> string \<Rightarrow> string" where
  "quoted_field d q t =
     (if d \<notin> set t \<and> q \<notin> set t \<and> LF \<notin> set t \<and> CR \<notin> set t then t else q # double_char q t @ [q])"

definition nonblank :: "string list \<Rightarrow> bool" where
  "nonblank row = list_ex (\<lambda>cell. cell \<noteq> []) row"

locale delimited =
  fixes d q :: char and nl :: string and mode :: import_record_delimiter
  assumes apart: "d \<noteq> q" "d \<notin> {LF, CR}" "q \<notin> {LF, CR}"
    and newline: "newlineAt (nl @ s) mode = Some (length nl)"
    and newline_chars: "nl \<noteq> []" "set nl \<subseteq> {LF, CR}"
begin

lemma newline_none: "c \<notin> {LF, CR} \<Longrightarrow> newlineAt (c # s) mode = None"
  by (cases mode) auto

lemma inside_quotes:
  "s = [] \<or> hd s \<noteq> q \<Longrightarrow>
   parse_rows d (Some q) mode rows row cur True (double_char q t @ q # s) =
   parse_rows d (Some q) mode rows row (cur @ t) False s"
  by (induction t arbitrary: cur) auto

lemma plain_text:
  "d \<notin> set t \<Longrightarrow> q \<notin> set t \<Longrightarrow> LF \<notin> set t \<Longrightarrow> CR \<notin> set t \<Longrightarrow>
   parse_rows d (Some q) mode rows row cur False (t @ s) = parse_rows d (Some q) mode rows row (cur @ t) False s"
  by (induction t arbitrary: cur) (auto simp: newline_none simp del: newlineAt.simps)

lemma field:
  "s = [] \<or> hd s \<noteq> q \<Longrightarrow>
   parse_rows d (Some q) mode rows row [] False (quoted_field d q t @ s) = parse_rows d (Some q) mode rows row t False s"
  using plain_text [of t rows row "[]" s] inside_quotes [of s rows row "[]" t]
  by (auto simp: quoted_field_def)

lemma fields:
  "ts \<noteq> [] \<Longrightarrow> s = [] \<or> hd s \<noteq> q \<Longrightarrow>
   parse_rows d (Some q) mode rows row [] False (join [d] (map (quoted_field d q) ts) @ s) =
   parse_rows d (Some q) mode rows (row @ butlast ts) (last ts) False s"
proof (induction ts arbitrary: row)
  case (Cons t ts)
  show ?case
  proof (cases "ts = []")
    case True
    with Cons.prems show ?thesis by (simp add: field)
  next
    case False
    have "parse_rows d (Some q) mode rows row [] False
        (quoted_field d q t @ d # join [d] (map (quoted_field d q) ts) @ s) =
      parse_rows d (Some q) mode rows (row @ [t]) [] False (join [d] (map (quoted_field d q) ts) @ s)"
      using apart by (simp add: field)
    with Cons.IH [of "row @ [t]"] Cons.prems False show ?thesis by (simp add: join_Cons)
  qed
qed simp

lemma at_newline:
  "parse_rows d (Some q) mode rows row cur False (nl @ s) =
   parse_rows d (Some q) mode (push_row rows (row @ [cur])) [] [] False s"
proof -
  obtain c r where c: "nl = c # r" using newline_chars by (cases nl) auto
  then have "c \<in> {LF, CR}" using newline_chars by auto
  then have "c \<noteq> d" "c \<noteq> q" using apart by auto
  then show ?thesis using newline [of s] c by simp
qed

lemma push_row_nonblank: "push_row rows row = rows @ filter nonblank [row]"
  by (simp add: push_row_def nonblank_def)

lemma one_row:
  assumes "ts \<noteq> []"
  shows "parse_rows d (Some q) mode rows [] [] False (join [d] (map (quoted_field d q) ts) @ nl @ s) =
         parse_rows d (Some q) mode (rows @ filter nonblank [ts]) [] [] False s"
proof -
  have "nl @ s = [] \<or> hd (nl @ s) \<noteq> q"
    using newline_chars apart by (cases nl) auto
  from fields [OF assms this] show ?thesis
    using assms by (simp add: at_newline push_row_nonblank)
qed

theorem all_rows:
  "[] \<notin> set tss \<Longrightarrow>
   parse_rows d (Some q) mode rows [] [] False (join nl (map (\<lambda>ts. join [d] (map (quoted_field d q) ts)) tss)) =
   rows @ filter nonblank tss"
proof (induction tss arbitrary: rows)
  case Nil
  then show ?case by (simp add: push_row_def)
next
  case (Cons ts tss)
  show ?case
  proof (cases "tss = []")
    case True
    with Cons.prems fields [of ts "[]" rows "[]"] show ?thesis
      by (simp add: push_row_nonblank)
  next
    case False
    from Cons.prems have "ts \<noteq> []" by auto
    from Cons False one_row [OF this] show ?thesis by (simp add: join_Cons)
  qed
qed

end

text \<open>Every delimiter, both qualifiers, both record separators of the export, read in the automatic or the same mode.\<close>

definition q_of :: "bool \<Rightarrow> char" where
  "q_of single = (if single then SQ else DQ)"

definition nl_of :: "bool \<Rightarrow> string" where
  "nl_of crlf = (if crlf then [CR, LF] else [LF])"

definition mode_of :: "bool \<Rightarrow> bool \<Rightarrow> import_record_delimiter" where
  "mode_of auto crlf = (if auto then IR_auto else if crlf then IR_crlf else IR_lf)"

interpretation csv: delimited "delimiter_char fd" "q_of single" "nl_of crlf" "mode_of auto crlf"
  for fd single crlf auto
  by unfold_locales (cases fd; auto simp: q_of_def nl_of_def mode_of_def)+

definition import_delim :: "field_delimiter \<Rightarrow> import_field_delimiter" where
  "import_delim f = (case f of FD_comma \<Rightarrow> IF_comma | FD_tab \<Rightarrow> IF_tab | FD_semicolon \<Rightarrow> IF_semicolon | FD_pipe \<Rightarrow> IF_pipe)"

definition import_qual :: "text_qualifier option \<Rightarrow> import_text_qualifier" where
  "import_qual q = (if q = Some TQ_single then IQ_single else if q = Some TQ_none then IQ_none else IQ_double)"

text \<open>The texts of the cells of an exported table, its header row first when it is written.\<close>

definition exported_texts :: "string list \<Rightarrow> table_row list \<Rightarrow> bool option \<Rightarrow> export_options \<Rightarrow> string list list" where
  "exported_texts columns rows includeHeaders options =
     (if or_else includeHeaders True then [map (\<lambda>col. cellText (JStr col) options) columns] else []) @
     map (\<lambda>row. map (\<lambda>col. cellText (get_prop row col) options) columns) rows"

lemma escape_quoted_field:
  assumes "eo_textQualifier options \<noteq> Some TQ_none"
  shows "escapeDelimited v d options =
         quoted_field d (q_of (eo_textQualifier options = Some TQ_single)) (cellText v options)"
proof -
  have "textQualifierValue (eo_textQualifier options) = [q_of (eo_textQualifier options = Some TQ_single)]"
    using assms by (simp add: textQualifierValue_def q_of_def)
  then show ?thesis by (simp add: escapeDelimited_def quoted_field_def Let_def join_split_double)
qed

lemma cellText_headers [simp]: "cellText v (options\<lparr>eo_includeHeaders := h\<rparr>) = cellText v options"
  by (cases "(v, options)" rule: cellText.cases) (simp_all add: number_text_def date_or_string_def formatDateParts_def cong: option.case_cong)

lemma exported_text:
  assumes "eo_textQualifier options \<noteq> Some TQ_none" and "format \<noteq> EF_sql"
    and "fd = (case eo_fieldDelimiter options of
                 Some f \<Rightarrow> import_delim f | None \<Rightarrow> if format = EF_csv then IF_comma else IF_tab)"
  shows "buildTableExportContent format columns rows tableName driver includeHeaders options =
     join (nl_of (eo_recordDelimiter options = Some RD_crlf))
       (map (\<lambda>ts. join [delimiter_char fd] (map (quoted_field (delimiter_char fd)
          (q_of (eo_textQualifier options = Some TQ_single))) ts))
       (exported_texts columns rows includeHeaders options))"
proof -
  let ?o = "options\<lparr>eo_includeHeaders := Some (or_else includeHeaders True)\<rparr>"
  have d: "fieldDelimiterValue (eo_fieldDelimiter options) (if format = EF_csv then CHR '','' else TAB) = delimiter_char fd"
    using assms(3) by (cases "eo_fieldDelimiter options")
      (auto simp: fieldDelimiterValue_def import_delim_def split: field_delimiter.split)
  have n: "recordDelimiterValue (eo_recordDelimiter options) = nl_of (eo_recordDelimiter options = Some RD_crlf)"
    by (simp add: recordDelimiterValue_def nl_of_def)
  have "buildTableExportContent format columns rows tableName driver includeHeaders options =
      toDelimited columns rows (if format = EF_csv then CHR '','' else TAB) ?o"
    using assms(2) by (cases format) (simp_all add: buildTableExportContent_def toCsv_def toTsv_def)
  then show ?thesis
    using assms(1)
    by (simp add: toDelimited_def d n export_line_def exported_texts_def escape_quoted_field comp_def Let_def
        del: cellText.simps)
qed

text \<open>
  C5: Exported delimited text imports back as the exported table. With the delimiter, qualifier
  and record separator of the export (or automatic record separators), the import reads exactly the
  rows of cell texts, header first, whatever the cells hold: delimiters, qualifiers and line breaks
  included. Only rows whose cells are all empty are dropped.
\<close>

theorem delimited_export_import:
  assumes "columns \<noteq> []" and "format \<noteq> EF_sql" and "eo_textQualifier options \<noteq> Some TQ_none"
    and "fd = (case eo_fieldDelimiter options of
                 Some f \<Rightarrow> import_delim f | None \<Rightarrow> if format = EF_csv then IF_comma else IF_tab)"
    and "mode \<in> {IR_auto, if eo_recordDelimiter options = Some RD_crlf then IR_crlf else IR_lf}"
  shows "parseDelimitedRows (buildTableExportContent format columns rows tableName driver includeHeaders options)
           (Some fd) (Some mode) (Some (import_qual (eo_textQualifier options))) =
         filter nonblank (exported_texts columns rows includeHeaders options)"
proof -
  let ?crlf = "eo_recordDelimiter options = Some RD_crlf"
  have ne: "[] \<notin> set (exported_texts columns rows includeHeaders options)"
    using assms(1) by (auto simp: exported_texts_def)
  have q: "qualifier_char (import_qual (eo_textQualifier options)) = Some (q_of (eo_textQualifier options = Some TQ_single))"
    using assms(3) by (simp add: qualifier_char_def import_qual_def q_of_def)
  have m: "mode = mode_of (mode = IR_auto) ?crlf"
    using assms(5) by (auto simp: mode_of_def)
  show ?thesis
    unfolding exported_text [OF assms(3,2,4)]
    using csv.all_rows [OF ne, of fd "eo_textQualifier options = Some TQ_single" "mode = IR_auto" ?crlf "[]"]
    by (simp add: parseDelimitedRows_def q m [symmetric])
qed

theorem delimited_export_import_witness:
  "parseDelimitedRows (buildTableExportContent EF_csv [''a'', ''b'']
     [[(''a'', JStr [CHR ''x'', CHR '','', DQ, LF]), (''b'', JNull)], [(''c'', JStr ''z'')]] ''t'' None None no_export_options)
     (Some IF_comma) (Some IR_auto) (Some IQ_double) =
   [[''a'', ''b''], [[CHR ''x'', CHR '','', DQ, LF], []]]"
proof -
  have "import_qual (eo_textQualifier no_export_options) = IQ_double"
    by (simp add: import_qual_def no_export_options_def)
  then show ?thesis
    using delimited_export_import [of "[''a'', ''b'']" EF_csv no_export_options IF_comma IR_auto
        "[[(''a'', JStr [CHR ''x'', CHR '','', DQ, LF]), (''b'', JNull)], [(''c'', JStr ''z'')]]" "''t''" None None]
    by (simp add: no_export_options_def exported_texts_def nonblank_def get_prop_def date_or_string_def trim_def
        trim_start_def trim_end_def is_space_def match_date_def take_digits_def is_digit_def)
qed

section \<open>Binary cells\<close>

definition import_encoding :: "binary_encoding option \<Rightarrow> import_binary_encoding" where
  "import_encoding e = (if e = Some BE_hex then IB_hex else IB_base64)"

lemma hex_digit_plain:
  "n < 16 \<Longrightarrow> \<not> is_space (hex_digit n) \<and> lower_char (hex_digit n) = hex_digit n \<and> is_hex_char (hex_digit n)"
proof -
  have "\<forall>n<16. \<not> is_space (hex_digit n) \<and> lower_char (hex_digit n) = hex_digit n \<and> is_hex_char (hex_digit n)"
    by code_simp
  then show "n < 16 \<Longrightarrow> ?thesis" by simp
qed

lemma hex_bytes_plain:
  "filter (\<lambda>c. \<not> is_space c) (bytesToHex bs) = bytesToHex bs \<and> to_lower (bytesToHex bs) = bytesToHex bs \<and>
   list_all is_hex_char (bytesToHex bs) \<and> even (length (bytesToHex bs))"
  by (induction bs) (simp_all add: bytesToHex_def hex_byte_def hex_digit_plain to_lower_def)

lemma b64_text_plain:
  "bytes bs \<Longrightarrow> list_all (\<lambda>c. is_upper c \<or> is_lower c \<or> is_digit c \<or> c \<in> set ''+/='') (btoa bs) \<and>
   (\<forall>c\<in>set (btoa bs). \<not> is_space c)"
proof -
  assume b: "bytes bs"
  have "is_upper (b64_char n) \<or> is_lower (b64_char n) \<or> is_digit (b64_char n) \<or> b64_char n \<in> set ''+/=''"
    if "n < 64" for n
    using b64_val_char [OF that] by (auto simp: b64_val_def split: if_splits)
  with sextets_bound [OF b] b64_char_plain show ?thesis
    by (auto simp: btoa_def b64_padding_def list_all_iff is_space_def split: if_splits)
qed

text \<open>
  A binary cell survives export and import: the text the export writes for its bytes, in
  base64 or in hexadecimal, is imported (with that encoding) as the hexadecimal literal of the same
  bytes, for both drivers.
\<close>

theorem binary_export_import:
  assumes "bytes bs"
  shows "formatBinaryLiteral (cellText (JBytes bs) options) (import_encoding (eo_binaryDataEncoding options)) driver =
         Some (hex_literal (bytesToHex bs) driver)"
proof (cases "eo_binaryDataEncoding options = Some BE_hex")
  case True
  then show ?thesis
    using hex_bytes_plain [of bs]
    by (simp add: formatBinaryLiteral_def import_encoding_def encodeBinary_def bytesToHex_def [symmetric] Let_def
        even_iff_mod_2_eq_zero)
next
  case False
  have f: "filter (\<lambda>c. \<not> is_space c) (btoa bs) = btoa bs"
    using b64_text_plain [OF assms] by simp
  have "btoa bs = [] \<Longrightarrow> bs = []" by (cases bs rule: sextets.cases) (simp_all add: btoa_def)
  then show ?thesis
    using False f b64_text_plain [OF assms] atob_btoa [OF assms]
    by (auto simp: formatBinaryLiteral_def import_encoding_def encodeBinary_def bytesToHex_def Let_def)
qed

theorem binary_export_import_witness:
  "formatBinaryLiteral (cellText (JBytes [0, 255, 16, 7]) no_export_options) IB_base64 (Some ''postgresql'') =
   Some ([SQ, BSL] @ ''x00ff1007'' @ [SQ] @ ''::bytea'')"
proof -
  have "bytesToHex [0, 255, 16, 7] = ''00ff1007''" by code_simp
  then show ?thesis
    using binary_export_import [of "[0, 255, 16, 7]" no_export_options "Some ''postgresql''"]
    by (simp add: bytes_def import_encoding_def no_export_options_def hex_literal_def)
qed

section \<open>Dates\<close>

text \<open>The order settings of the two sides that agree, and the ISO text of a date.\<close>

definition import_order :: "date_order \<Rightarrow> import_date_order" where
  "import_order ord = (case ord of DO_ymd \<Rightarrow> IO_ymd | DO_dmy \<Rightarrow> IO_dmy | DO_mdy \<Rightarrow> IO_mdy)"

definition iso_date :: "nat \<Rightarrow> nat \<Rightarrow> nat \<Rightarrow> string" where
  "iso_date y m d = pad y 4 @ ''-'' @ pad m 2 @ ''-'' @ pad d 2"

lemma digits_no_delim: "all_digits s \<Longrightarrow> \<not> is_digit c \<Longrightarrow> c \<notin> set s"
  by (auto simp: all_digits_def list_all_iff)

lemma digit_not_space: "is_digit c \<Longrightarrow> \<not> is_space c"
  by (auto simp: is_digit_def is_space_def)

lemma digits_trimmed: "all_digits s \<Longrightarrow> trimmed s"
  by (cases s) (auto simp: all_digits_def trimmed_def list_all_iff digit_not_space)

lemma lower_digits: "all_digits s \<Longrightarrow> to_lower s = s"
proof -
  have "is_digit c \<Longrightarrow> lower_char c = c" for c
    by (simp add: lower_char_def is_upper_def is_digit_def)
  then show "all_digits s \<Longrightarrow> ?thesis" by (simp add: to_lower_def all_digits_def list_all_iff map_idI)
qed

lemma month_names_not_digits: "all_digits s \<Longrightarrow> map_of MONTH_NAMES s = None"
proof -
  have "\<forall>n\<in>set (map fst MONTH_NAMES). \<not> all_digits n" by code_simp
  then show "all_digits s \<Longrightarrow> ?thesis" by (auto simp: map_of_eq_None_iff)
qed

text \<open>A number written with or without leading zeros.\<close>

definition writes :: "string \<Rightarrow> nat \<Rightarrow> bool" where
  "writes s n \<longleftrightarrow> all_digits s \<and> digits_val s = n"

lemma writes_month: "writes s m \<Longrightarrow> 1 \<le> m \<Longrightarrow> m \<le> 12 \<Longrightarrow> parseMonth s = Some m"
  by (simp add: writes_def parseMonth_def trim_id digits_trimmed lower_digits month_names_not_digits Let_def)

lemma writes_year: "writes s y \<Longrightarrow> 3 \<le> length s \<Longrightarrow> expandTwoDigitYear s = Some y"
  by (simp add: writes_def expandTwoDigitYear_def trim_id digits_trimmed Let_def)

lemma join_three_split:
  assumes "all_digits a" "all_digits b" "all_digits c" "\<not> is_digit x"
  shows "three_parts (split [x] (trim (join [x] [a, b, c]))) = Some (a, b, c)"
proof -
  have ends: "\<not> is_space (hd a)" "\<not> is_space (last c)" "a \<noteq> []" "c \<noteq> []"
    using assms digit_not_space by (auto simp: all_digits_def list_all_iff)
  then have "trimmed (join [x] [a, b, c])" by (simp add: trimmed_def hd_append last_append)
  moreover have "split [x] (join [x] [a, b, c]) = [a, b, c]"
    by (rule split_join) (use assms digits_no_delim in auto)
  ultimately show ?thesis by (simp add: trim_id)
qed

lemma parse_written_date:
  assumes "writes sy y" "3 \<le> length sy" "writes sm m" "writes sd d" "1 \<le> m" "m \<le> 12" "1 \<le> d" "d \<le> 31"
    and "\<not> is_digit x"
    and "vo_dateOrder conv = Some (import_order ord)" "vo_dateDelimiter conv = Some [x]" "vo_yearDelimiter conv = None"
    and "t = join [x] (if ord = DO_dmy then [sd, sm, sy] else if ord = DO_mdy then [sm, sd, sy] else [sy, sm, sd])"
  shows "parseImportDate t conv = Some (iso_date y m d)"
proof -
  have ds: "all_digits sy" "all_digits sm" "all_digits sd" using assms(1,3,4) by (simp_all add: writes_def)
  have "trim t \<noteq> []"
  proof
    assume "trim t = []"
    then have "three_parts (split [x] (trim t)) = None" by (simp add: split_def)
    then show False using assms(13) ds assms(9) by (auto simp: join_three_split simp del: join.simps split: if_splits)
  qed
  then have "splitDateParts t (import_order ord) [x] None =
      Some (if ord = DO_dmy then (sd, sm, sy) else if ord = DO_mdy then (sm, sd, sy) else (sy, sm, sd))"
    using assms(13) ds assms(9) by (auto simp: splitDateParts_def Let_def join_three_split simp del: join.simps)
  moreover have "trim sd = sd" "digits_val sd = d" using ds assms(4) by (simp_all add: trim_id digits_trimmed writes_def)
  ultimately show ?thesis
    using assms ds writes_month [OF assms(3)] writes_year [OF assms(1)]
    by (cases ord) (simp_all add: parseImportDate_def nonempty_or_def import_order_def Let_def iso_date_def)
qed

text \<open>
  A date survives export and import: whatever the date order, the delimiter (one character
  that is not a digit) and the zero padding of the export, the import with the same order and
  delimiter reads the exported text as that date in ISO form. The year has at least three digits.
\<close>

theorem date_export_import:
  assumes "100 \<le> y" "1 \<le> m" "m \<le> 12" "1 \<le> d" "d \<le> 31" and "\<not> is_digit x"
    and "eo_dateDelimiter options = Some [x]" and "eo_dateOrder options = Some ord"
    and "vo_dateOrder conv = Some (import_order ord)" "vo_dateDelimiter conv = Some [x]" "vo_yearDelimiter conv = None"
  shows "parseImportDate
           (formatDateParts \<lparr>dp_year = y, dp_month = m, dp_day = d, dp_hour = None, dp_minute = None, dp_second = None\<rparr> options)
           conv = Some (iso_date y m d)"
proof -
  let ?num = "\<lambda>n. if or_else (eo_zeroPaddingDate options) True then pad_start 2 CHR ''0'' (nat_str n) else nat_str n"
  have w: "writes (?num n) n" for n
    by (simp add: writes_def all_digits_nat_str all_digits_pad digits_val_pad)
  have y: "writes (nat_str y) y" by (simp add: writes_def all_digits_nat_str)
  have "length (nat_str y) \<ge> 3" using assms(1) by (subst nat_str.simps, subst nat_str.simps, subst nat_str.simps) auto
  from parse_written_date [OF y this w [of m] w [of d] assms(2-6) assms(9-11) refl] show ?thesis
    using assms(7,8) by (simp add: formatDateParts_def Let_def)
qed

definition ex_date_export :: export_options where
  "ex_date_export = no_export_options\<lparr>eo_dateDelimiter := Some ''/'', eo_dateOrder := Some DO_mdy, eo_zeroPaddingDate := Some False\<rparr>"

definition ex_date_import :: conversion_options where
  "ex_date_import = \<lparr>vo_dateOrder = Some IO_mdy, vo_timeFirst = False, vo_dateDelimiter = Some ''/'',
     vo_yearDelimiter = None, vo_timeDelimiter = None, vo_decimalSymbol = None, vo_binaryEncoding = None\<rparr>"

theorem date_export_import_witness:
  "parseImportDate ''7/4/2026'' ex_date_import = Some ''2026-07-04''"
proof -
  let ?p = "\<lparr>dp_year = 2026, dp_month = 7, dp_day = 4, dp_hour = None, dp_minute = None, dp_second = None\<rparr>"
  have "formatDateParts ?p ex_date_export = ''7/4/2026''" and "iso_date 2026 7 4 = ''2026-07-04''" by code_simp+
  moreover have "parseImportDate (formatDateParts ?p ex_date_export) ex_date_import = Some (iso_date 2026 7 4)"
    by (rule date_export_import [where x = "CHR ''/''" and ord = DO_mdy])
       (simp_all add: ex_date_export_def ex_date_import_def import_order_def is_digit_def)
  ultimately show ?thesis by simp
qed

text \<open>
  The export changes a text that only begins like a date: the date pattern is matched at the
  start of the cell and what follows is dropped, so a note such as \<open>2024-01-05: ...\<close> is exported,
  with default options, as the bare date whatever the note says.
\<close>

theorem export_truncates_dated_text:
  "\<not> is_space (last (CHR '':'' # note)) \<Longrightarrow> cellText (JStr (''2024-01-05:'' @ note)) no_export_options = ''2024-01-05''"
proof -
  assume l: "\<not> is_space (last (CHR '':'' # note))"
  have "trimmed (''2024-01-05:'' @ note)"
    using l by (auto simp: trimmed_def is_space_def split: if_splits)
  then have t: "trim (''2024-01-05:'' @ note) = ''2024-01-05:'' @ note" by (rule trim_id)
  have "match_date (''2024-01-05:'' @ note) =
      Some \<lparr>dp_year = 2024, dp_month = 1, dp_day = 5, dp_hour = None, dp_minute = None, dp_second = None\<rparr>"
    by (simp add: match_date_def take_digits_def take_char_def match_time_def is_digit_def digits_val_def digit_val_def)
  moreover have "formatDateParts \<lparr>dp_year = 2024, dp_month = 1, dp_day = 5, dp_hour = None, dp_minute = None, dp_second = None\<rparr>
      no_export_options = ''2024-01-05''" by code_simp
  ultimately show ?thesis using t by (simp add: date_or_string_def)
qed

theorem export_truncates_dated_text_witness:
  "cellText (JStr ''2024-01-05: call the customer back'') no_export_options = ''2024-01-05''"
  using export_truncates_dated_text [of "'' call the customer back''"] by (simp add: is_space_def)

end
