(* ===== verification/TabStore.thy ===== *)
theory TabStore
  imports JsValue
begin

text \<open>
  The open tabs (\<^verbatim>\<open>stores/tabStore.ts\<close>) and the recently opened assets
  (\<^verbatim>\<open>stores/recentAssetStore.ts\<close>). The close, replace and restore hooks are functions on the
  state of the stores that register them, the type variable \<open>'w\<close>; no hook of the program writes
  the tab store while it runs. An item of \<open>localStorage\<close> is absent, text that the reader cannot
  use (not JSON, or not of the shape it checks), or the value whose JSON it is; a value read back
  has the type the source annotates it with.
\<close>

datatype 'a item = Absent | Unusable | Stored 'a

section \<open>Recently opened assets\<close>

record recent_store =
  recentIds :: "int list"
  ls_recent :: "int list item"

definition MAX_RECENT :: nat where
  "MAX_RECENT = 20"

definition loadRecent :: "int list item \<Rightarrow> int list" where
  "loadRecent raw = (case raw of Stored ids \<Rightarrow> ids | _ \<Rightarrow> [])"

definition saveRecent :: "int list \<Rightarrow> recent_store \<Rightarrow> recent_store" where
  "saveRecent ids s = s\<lparr>ls_recent := Stored ids\<rparr>"

definition recent_touch :: "int \<Rightarrow> recent_store \<Rightarrow> recent_store" where
  "recent_touch i s =
     (let updated = take MAX_RECENT (i # filter (\<lambda>x. x \<noteq> i) (recentIds s))
      in (saveRecent updated s)\<lparr>recentIds := updated\<rparr>)"

definition recent_remove :: "int \<Rightarrow> recent_store \<Rightarrow> recent_store" where
  "recent_remove i s =
     (let updated = filter (\<lambda>x. x \<noteq> i) (recentIds s)
      in (saveRecent updated s)\<lparr>recentIds := updated\<rparr>)"

definition recent_ok :: "recent_store \<Rightarrow> bool" where
  "recent_ok s \<longleftrightarrow> distinct (recentIds s) \<and> length (recentIds s) \<le> MAX_RECENT \<and>
     recentIds s = loadRecent (ls_recent s)"

lemma recent_ok_touch: "recent_ok s \<Longrightarrow> recent_ok (recent_touch i s)"
  by (auto simp: recent_ok_def recent_touch_def saveRecent_def Let_def loadRecent_def MAX_RECENT_def
      dest: in_set_takeD)

lemma recent_ok_remove: "recent_ok s \<Longrightarrow> recent_ok (recent_remove i s)"
  unfolding recent_ok_def recent_remove_def saveRecent_def Let_def
  by (auto simp: loadRecent_def intro: le_trans [OF length_filter_le])

section \<open>Tabs\<close>

datatype tab_type = TT_terminal | TT_ai | TT_query | TT_page | TT_info

datatype query_asset_type = QA_database | QA_redis | QA_mongodb | QA_kafka | QA_k8s

datatype info_target = IT_asset | IT_group

record terminal_meta =
  tm_assetId :: int
  tm_assetName :: string
  tm_assetIcon :: string
  tm_host :: string
  tm_port :: int
  tm_username :: string

record ai_meta =
  am_conversationId :: "int option"
  am_title :: string

record query_meta =
  qm_assetId :: int
  qm_assetName :: string
  qm_assetIcon :: string
  qm_assetType :: query_asset_type
  qm_driver :: "string option"
  qm_defaultDatabase :: "string option"
  qm_redisDatabase :: "int option"
  qm_redisScanPageSize :: "int option"
  qm_redisKeySeparator :: "string option"

record page_meta =
  pm_pageId :: string
  pm_extensionName :: "string option"
  pm_assetId :: "int option"

record info_meta =
  im_targetType :: info_target
  im_targetId :: int
  im_name :: string
  im_icon :: "string option"

datatype tab_meta =
    TerminalMeta terminal_meta
  | AIMeta ai_meta
  | QueryMeta query_meta
  | PageMeta page_meta
  | InfoMeta info_meta

record tab =
  tb_id :: string
  tb_type :: tab_type
  tb_label :: string
  tb_icon :: "string option"
  tb_iconColor :: "string option"
  tb_meta :: tab_meta

text \<open>The fields \<open>updateTab\<close> may patch; \<open>None\<close> leaves a field alone.\<close>

record tab_patch =
  tp_label :: "string option"
  tp_icon :: "string option option"
  tp_iconColor :: "string option option"
  tp_meta :: "tab_meta option"

section \<open>The store, its hooks and the rest of the application\<close>

record saved_tab_store =
  sv_tabs :: "tab list"
  sv_activeTabId :: "string option"

record tab_store =
  ts_tabs :: "tab list"
  ts_activeTabId :: "string option"
  ts_persistReady :: bool
  ts_restoreComplete :: bool
  ts_storage :: "saved_tab_store item"

record 'w hooks =
  closeHooks :: "(tab \<Rightarrow> 'w \<Rightarrow> 'w) list"
  replaceHooks :: "(string \<Rightarrow> string \<Rightarrow> 'w \<Rightarrow> 'w) list"
  restoreHooks :: "(tab_type \<times> (tab list \<Rightarrow> 'w \<Rightarrow> 'w) list) list"

record 'w app =
  ap_tabs :: tab_store
  ap_recent :: recent_store
  ap_rest :: 'w

abbreviation open_tabs :: "'w app \<Rightarrow> tab list" where
  "open_tabs a \<equiv> ts_tabs (ap_tabs a)"

abbreviation active_id :: "'w app \<Rightarrow> string option" where
  "active_id a \<equiv> ts_activeTabId (ap_tabs a)"

abbreviation tab_ids :: "'w app \<Rightarrow> string list" where
  "tab_ids a \<equiv> map tb_id (open_tabs a)"

text \<open>\<open>set\<close> with the subscriber that writes every change of the tabs to \<open>localStorage\<close>.\<close>

definition persist :: "tab_store \<Rightarrow> tab_store \<Rightarrow> tab_store" where
  "persist state prevState =
     (if \<not> ts_persistReady state then state
      else if ts_tabs state \<noteq> ts_tabs prevState \<or> ts_activeTabId state \<noteq> ts_activeTabId prevState
      then state\<lparr>ts_storage := Stored \<lparr>sv_tabs = ts_tabs state, sv_activeTabId = ts_activeTabId state\<rparr>\<rparr>
      else state)"

definition set_state :: "tab list \<Rightarrow> string option \<Rightarrow> 'w app \<Rightarrow> 'w app" where
  "set_state tabs act a =
     a\<lparr>ap_tabs := persist ((ap_tabs a)\<lparr>ts_tabs := tabs, ts_activeTabId := act\<rparr>) (ap_tabs a)\<rparr>"

definition run_close_hooks :: "'w hooks \<Rightarrow> tab list \<Rightarrow> 'w \<Rightarrow> 'w" where
  "run_close_hooks hs closing w = fold (\<lambda>tab. fold (\<lambda>hook. hook tab) (closeHooks hs)) closing w"

definition registerTabCloseHook :: "(tab \<Rightarrow> 'w \<Rightarrow> 'w) \<Rightarrow> 'w hooks \<Rightarrow> 'w hooks" where
  "registerTabCloseHook hook hs = hs\<lparr>closeHooks := closeHooks hs @ [hook]\<rparr>"

definition registerTabReplaceHook :: "(string \<Rightarrow> string \<Rightarrow> 'w \<Rightarrow> 'w) \<Rightarrow> 'w hooks \<Rightarrow> 'w hooks" where
  "registerTabReplaceHook hook hs = hs\<lparr>replaceHooks := replaceHooks hs @ [hook]\<rparr>"

definition tabs_of_type :: "tab_type \<Rightarrow> tab list \<Rightarrow> tab list" where
  "tabs_of_type tabType tabs = filter (\<lambda>t. tb_type t = tabType) tabs"

fun push_hook :: "tab_type \<Rightarrow> 'h \<Rightarrow> (tab_type \<times> 'h list) list \<Rightarrow> (tab_type \<times> 'h list) list" where
  "push_hook tabType hook [] = [(tabType, [hook])]"
| "push_hook tabType hook ((k, hs) # rest) =
     (if k = tabType then (k, hs @ [hook]) # rest else (k, hs) # push_hook tabType hook rest)"

definition registerTabRestoreHook ::
  "tab_type \<Rightarrow> (tab list \<Rightarrow> 'w \<Rightarrow> 'w) \<Rightarrow> 'w hooks \<times> 'w app \<Rightarrow> 'w hooks \<times> 'w app" where
  "registerTabRestoreHook tabType hook = (\<lambda>(hs, a).
     (hs\<lparr>restoreHooks := push_hook tabType hook (restoreHooks hs)\<rparr>,
      if ts_restoreComplete (ap_tabs a)
      then a\<lparr>ap_rest := hook (tabs_of_type tabType (open_tabs a)) (ap_rest a)\<rparr> else a))"

definition fireRestoreHooks :: "'w hooks \<Rightarrow> 'w app \<Rightarrow> 'w app" where
  "fireRestoreHooks hs a =
     a\<lparr>ap_tabs := (ap_tabs a)\<lparr>ts_restoreComplete := True\<rparr>,
       ap_rest := fold (\<lambda>(type, hooks). fold (\<lambda>hook. hook (tabs_of_type type (open_tabs a))) hooks)
                    (restoreHooks hs) (ap_rest a)\<rparr>"

section \<open>Operations\<close>

definition tab_assetId :: "tab_meta \<Rightarrow> int" where
  "tab_assetId meta =
     (case meta of
        TerminalMeta m \<Rightarrow> tm_assetId m
      | QueryMeta m \<Rightarrow> qm_assetId m
      | PageMeta m \<Rightarrow> (case pm_assetId m of None \<Rightarrow> 0 | Some i \<Rightarrow> i)
      | InfoMeta m \<Rightarrow> (if im_targetType m = IT_asset then im_targetId m else 0)
      | AIMeta m \<Rightarrow> 0)"

definition openTab :: "tab \<Rightarrow> bool \<Rightarrow> 'w app \<Rightarrow> 'w app" where
  "openTab tab activate a =
     (case find (\<lambda>t. tb_id t = tb_id tab) (open_tabs a) of
        Some existing \<Rightarrow> (if activate then set_state (open_tabs a) (Some (tb_id tab)) a else a)
      | None \<Rightarrow>
          let a' = set_state (open_tabs a @ [tab]) (if activate then Some (tb_id tab) else active_id a) a;
              assetId = tab_assetId (tb_meta tab)
          in if assetId > 0 then a'\<lparr>ap_recent := recent_touch assetId (ap_recent a')\<rparr> else a')"

definition closeTab :: "'w hooks \<Rightarrow> string \<Rightarrow> 'w app \<Rightarrow> 'w app" where
  "closeTab hs i a =
     (case find_index (\<lambda>t. tb_id t = i) (open_tabs a) of
        None \<Rightarrow> a
      | Some idx \<Rightarrow>
          let a' = a\<lparr>ap_rest := run_close_hooks hs [open_tabs a ! idx] (ap_rest a)\<rparr>;
              newTabs = filter (\<lambda>t. tb_id t \<noteq> i) (open_tabs a);
              newActiveId =
                (if active_id a = Some i then
                   (if newTabs = [] then None
                    else if idx < length newTabs then Some (tb_id (newTabs ! idx))
                    else Some (tb_id (newTabs ! (length newTabs - 1))))
                 else active_id a)
          in set_state newTabs newActiveId a')"

definition activateTab :: "string \<Rightarrow> 'w app \<Rightarrow> 'w app" where
  "activateTab i a = set_state (open_tabs a) (Some i) a"

definition patch_tab :: "tab_patch \<Rightarrow> tab \<Rightarrow> tab" where
  "patch_tab p t =
     \<lparr>tb_id = tb_id t, tb_type = tb_type t,
      tb_label = (case tp_label p of None \<Rightarrow> tb_label t | Some l \<Rightarrow> l),
      tb_icon = (case tp_icon p of None \<Rightarrow> tb_icon t | Some i \<Rightarrow> i),
      tb_iconColor = (case tp_iconColor p of None \<Rightarrow> tb_iconColor t | Some c \<Rightarrow> c),
      tb_meta = (case tp_meta p of None \<Rightarrow> tb_meta t | Some m \<Rightarrow> m)\<rparr>"

definition updateTab :: "string \<Rightarrow> tab_patch \<Rightarrow> 'w app \<Rightarrow> 'w app" where
  "updateTab i p a = set_state (map (\<lambda>t. if tb_id t = i then patch_tab p t else t) (open_tabs a)) (active_id a) a"

definition replaceTabId :: "'w hooks \<Rightarrow> string \<Rightarrow> string \<Rightarrow> 'w app \<Rightarrow> 'w app" where
  "replaceTabId hs oldId newId a =
     (let a' = set_state (map (\<lambda>t. if tb_id t = oldId then t\<lparr>tb_id := newId\<rparr> else t) (open_tabs a))
                 (if active_id a = Some oldId then Some newId else active_id a) a
      in a'\<lparr>ap_rest := fold (\<lambda>hook. hook oldId newId) (replaceHooks hs) (ap_rest a')\<rparr>)"

definition reorderTab :: "string \<Rightarrow> string \<Rightarrow> 'w app \<Rightarrow> 'w app" where
  "reorderTab fromId toId a =
     (case (find_index (\<lambda>t. tb_id t = fromId) (open_tabs a), find_index (\<lambda>t. tb_id t = toId) (open_tabs a)) of
        (Some fromIdx, Some toIdx) \<Rightarrow>
          if fromIdx = toIdx then a
          else set_state (move_elem fromIdx toIdx (open_tabs a)) (active_id a) a
      | _ \<Rightarrow> a)"

definition moveTabTo :: "string \<Rightarrow> int \<Rightarrow> 'w app \<Rightarrow> 'w app" where
  "moveTabTo i toIndex a =
     (case find_index (\<lambda>t. tb_id t = i) (open_tabs a) of
        None \<Rightarrow> a
      | Some fromIdx \<Rightarrow>
          if int fromIdx = toIndex then a
          else
            let clamped = max 0 (min toIndex (int (length (open_tabs a)) - 1))
            in set_state (move_elem fromIdx (nat clamped) (open_tabs a)) (active_id a) a)"

definition closeOtherTabs :: "'w hooks \<Rightarrow> string \<Rightarrow> 'w app \<Rightarrow> 'w app" where
  "closeOtherTabs hs i a =
     (let closingTabs = filter (\<lambda>t. tb_id t \<noteq> i) (open_tabs a);
          a' = a\<lparr>ap_rest := run_close_hooks hs closingTabs (ap_rest a)\<rparr>
      in set_state (filter (\<lambda>t. tb_id t = i) (open_tabs a)) (Some i) a')"

definition active_or :: "string \<Rightarrow> tab list \<Rightarrow> string option \<Rightarrow> string option" where
  "active_or i newTabs act = (if list_ex (\<lambda>t. Some (tb_id t) = act) newTabs then act else Some i)"

definition closeLeftTabs :: "'w hooks \<Rightarrow> string \<Rightarrow> 'w app \<Rightarrow> 'w app" where
  "closeLeftTabs hs i a =
     (case find_index (\<lambda>t. tb_id t = i) (open_tabs a) of
        None \<Rightarrow> a
      | Some idx \<Rightarrow>
          if idx = 0 then a
          else
            let closingTabs = slice 0 idx (open_tabs a);
                a' = a\<lparr>ap_rest := run_close_hooks hs closingTabs (ap_rest a)\<rparr>;
                newTabs = drop idx (open_tabs a)
            in set_state newTabs (active_or i newTabs (active_id a)) a')"

definition closeRightTabs :: "'w hooks \<Rightarrow> string \<Rightarrow> 'w app \<Rightarrow> 'w app" where
  "closeRightTabs hs i a =
     (case find_index (\<lambda>t. tb_id t = i) (open_tabs a) of
        None \<Rightarrow> a
      | Some idx \<Rightarrow>
          if idx \<ge> length (open_tabs a) - 1 then a
          else
            let closingTabs = drop (Suc idx) (open_tabs a);
                a' = a\<lparr>ap_rest := run_close_hooks hs closingTabs (ap_rest a)\<rparr>;
                newTabs = slice 0 (Suc idx) (open_tabs a)
            in set_state newTabs (active_or i newTabs (active_id a)) a')"

section \<open>Restoring the tabs at startup\<close>

text \<open>
  The items written before the tabs had a store of their own. A terminal item holds the six fields
  of its tab; a query item those of its tab up to \<open>defaultDatabase\<close>; a page item is a page id.
\<close>

record old_info =
  oi_id :: string
  oi_type :: info_target
  oi_targetId :: int
  oi_name :: string
  oi_icon :: "string option"

record old_query =
  oq_assetId :: int
  oq_assetName :: string
  oq_assetIcon :: string
  oq_assetType :: query_asset_type
  oq_driver :: "string option"
  oq_defaultDatabase :: "string option"

record old_storage =
  terminal_open_tabs :: "terminal_meta list item"
  terminal_info_tabs :: "old_info list item"
  ai_open_tabs :: "int list item"
  query_open_tabs :: "old_query list item"
  open_page_tabs :: "string list item"
  last_active_tab :: "string option"
  terminal_active_tab_idx :: "int option"
  ai_active_tab_conv :: "int option"

definition no_old_storage :: old_storage where
  "no_old_storage =
     \<lparr>terminal_open_tabs = Absent, terminal_info_tabs = Absent, ai_open_tabs = Absent,
      query_open_tabs = Absent, open_page_tabs = Absent, last_active_tab = None,
      terminal_active_tab_idx = Some 0, ai_active_tab_conv = Some 0\<rparr>"

definition items_of :: "'a list item \<Rightarrow> 'a list" where
  "items_of it = (case it of Stored xs \<Rightarrow> xs | _ \<Rightarrow> [])"

definition icon_or_none :: "string \<Rightarrow> string option" where
  "icon_or_none icon = (if icon = [] then None else Some icon)"

definition migrate_terminal :: "nat \<times> terminal_meta \<Rightarrow> tab" where
  "migrate_terminal = (\<lambda>(i, st).
     \<lparr>tb_id = ''restored-'' @ int_str (tm_assetId st) @ ''-'' @ nat_str i, tb_type = TT_terminal,
      tb_label = tm_assetName st, tb_icon = icon_or_none (tm_assetIcon st), tb_iconColor = None,
      tb_meta = TerminalMeta st\<rparr>)"

definition migrate_info :: "old_info \<Rightarrow> tab" where
  "migrate_info it =
     \<lparr>tb_id = oi_id it, tb_type = TT_info, tb_label = oi_name it, tb_icon = oi_icon it, tb_iconColor = None,
      tb_meta = InfoMeta \<lparr>im_targetType = oi_type it, im_targetId = oi_targetId it, im_name = oi_name it,
                          im_icon = oi_icon it\<rparr>\<rparr>"

definition migrate_ai :: "int \<Rightarrow> tab" where
  "migrate_ai convId =
     (let title = ''Conversation '' @ int_str convId
      in \<lparr>tb_id = ''ai-'' @ int_str convId, tb_type = TT_ai, tb_label = title, tb_icon = None, tb_iconColor = None,
          tb_meta = AIMeta \<lparr>am_conversationId = Some convId, am_title = title\<rparr>\<rparr>)"

definition migrate_query :: "old_query \<Rightarrow> tab" where
  "migrate_query st =
     \<lparr>tb_id = ''query-'' @ int_str (oq_assetId st), tb_type = TT_query, tb_label = oq_assetName st,
      tb_icon = icon_or_none (oq_assetIcon st), tb_iconColor = None,
      tb_meta = QueryMeta \<lparr>qm_assetId = oq_assetId st, qm_assetName = oq_assetName st,
        qm_assetIcon = oq_assetIcon st, qm_assetType = oq_assetType st, qm_driver = oq_driver st,
        qm_defaultDatabase = oq_defaultDatabase st, qm_redisDatabase = None, qm_redisScanPageSize = None,
        qm_redisKeySeparator = None\<rparr>\<rparr>"

definition migrate_page :: "string \<Rightarrow> tab" where
  "migrate_page pageId =
     \<lparr>tb_id = pageId, tb_type = TT_page, tb_label = pageId, tb_icon = None, tb_iconColor = None,
      tb_meta = PageMeta \<lparr>pm_pageId = pageId, pm_extensionName = None, pm_assetId = None\<rparr>\<rparr>"

definition migrated_tabs :: "old_storage \<Rightarrow> tab list" where
  "migrated_tabs ls =
     map migrate_terminal (enumerate 0 (items_of (terminal_open_tabs ls))) @
     map migrate_info (items_of (terminal_info_tabs ls)) @
     map migrate_ai (items_of (ai_open_tabs ls)) @
     map migrate_query (items_of (query_open_tabs ls)) @
     map migrate_page (items_of (open_page_tabs ls))"

definition open_id :: "tab list \<Rightarrow> string \<Rightarrow> string option" where
  "open_id tabs i = (if list_ex (\<lambda>t. tb_id t = i) tabs then Some i else None)"

definition last_active :: "tab list \<Rightarrow> string option \<Rightarrow> string option" where
  "last_active tabs lastActive =
     (case lastActive of
        None \<Rightarrow> None
      | Some la \<Rightarrow>
          if la = [] then None
          else if starts_with la ''ai:'' then open_id tabs (drop 3 la)
          else if starts_with la ''query:'' then open_id tabs (''query-'' @ drop 6 la)
          else open_id tabs la)"

text \<open>\<open>Number\<close> of a text that is no integer compares like no index (\<open>None\<close>); an absent item counts 0.\<close>

definition migrated_active :: "old_storage \<Rightarrow> tab list \<Rightarrow> string option" where
  "migrated_active ls tabs =
     (let a1 = last_active tabs (last_active_tab ls);
          terminalTabs = tabs_of_type TT_terminal tabs;
          a2 = (if a1 = None \<and> (last_active_tab ls = Some [] \<or> last_active_tab ls = None) then
                  (case terminal_active_tab_idx ls of
                     None \<Rightarrow> None
                   | Some savedIdx \<Rightarrow>
                       if savedIdx \<ge> 0 \<and> savedIdx < int (length terminalTabs)
                       then Some (tb_id (terminalTabs ! nat savedIdx)) else None)
                else a1)
      in if a2 = None then
           (case ai_active_tab_conv ls of
              None \<Rightarrow> None
            | Some savedConv \<Rightarrow>
                if savedConv \<noteq> 0 then
                  map_option tb_id (find (\<lambda>t. tb_type t = TT_ai \<and>
                    (case tb_meta t of AIMeta m \<Rightarrow> am_conversationId m = Some savedConv | _ \<Rightarrow> False)) tabs)
                else None)
         else a2)"

definition migrateOldKeys :: "old_storage \<Rightarrow> saved_tab_store option \<times> old_storage" where
  "migrateOldKeys ls =
     (let hasOldKeys = open_page_tabs ls \<noteq> Absent \<or> terminal_open_tabs ls \<noteq> Absent \<or>
            ai_open_tabs ls \<noteq> Absent \<or> query_open_tabs ls \<noteq> Absent
      in if \<not> hasOldKeys then (None, ls)
         else
           let tabs = migrated_tabs ls
           in (Some \<lparr>sv_tabs = tabs, sv_activeTabId = migrated_active ls tabs\<rparr>, no_old_storage))"

definition restoreTabStore :: "'w hooks \<Rightarrow> old_storage \<Rightarrow> 'w app \<Rightarrow> old_storage \<times> 'w app" where
  "restoreTabStore hs ls a =
     (case ts_storage (ap_tabs a) of
        Stored data \<Rightarrow>
          (ls, fireRestoreHooks hs (a\<lparr>ap_tabs := (ap_tabs a)
             \<lparr>ts_tabs := sv_tabs data, ts_activeTabId := sv_activeTabId data, ts_persistReady := True\<rparr>\<rparr>))
      | _ \<Rightarrow>
          let (migrated, ls') = migrateOldKeys ls;
              a' = (case migrated of
                      None \<Rightarrow> a
                    | Some m \<Rightarrow> a\<lparr>ap_tabs := (ap_tabs a)
                        \<lparr>ts_tabs := sv_tabs m, ts_activeTabId := sv_activeTabId m, ts_storage := Stored m\<rparr>\<rparr>)
          in (ls', fireRestoreHooks hs (a'\<lparr>ap_tabs := (ap_tabs a')\<lparr>ts_persistReady := True\<rparr>\<rparr>)))"

text \<open>A start of the application: no tabs yet, and what the last run left in \<open>localStorage\<close>.\<close>

definition startup :: "saved_tab_store item \<Rightarrow> recent_store \<Rightarrow> 'w \<Rightarrow> 'w app" where
  "startup storage recent w =
     \<lparr>ap_tabs = \<lparr>ts_tabs = [], ts_activeTabId = None, ts_persistReady = False, ts_restoreComplete = False,
                ts_storage = storage\<rparr>,
      ap_recent = recent, ap_rest = w\<rparr>"

section \<open>Runs\<close>

datatype tab_op =
    OpenTab tab bool
  | CloseTab string
  | ActivateTab string
  | UpdateTab string tab_patch
  | ReplaceTabId string string
  | ReorderTab string string
  | MoveTabTo string int
  | CloseOtherTabs string
  | CloseLeftTabs string
  | CloseRightTabs string

fun run_op :: "'w hooks \<Rightarrow> tab_op \<Rightarrow> 'w app \<Rightarrow> 'w app" where
  "run_op hs (OpenTab tab activate) = openTab tab activate"
| "run_op hs (CloseTab i) = closeTab hs i"
| "run_op hs (ActivateTab i) = activateTab i"
| "run_op hs (UpdateTab i p) = updateTab i p"
| "run_op hs (ReplaceTabId i j) = replaceTabId hs i j"
| "run_op hs (ReorderTab i j) = reorderTab i j"
| "run_op hs (MoveTabTo i k) = moveTabTo i k"
| "run_op hs (CloseOtherTabs i) = closeOtherTabs hs i"
| "run_op hs (CloseLeftTabs i) = closeLeftTabs hs i"
| "run_op hs (CloseRightTabs i) = closeRightTabs hs i"

text \<open>
  Nothing but the code's own conditions guards an operation: any of them may come in any state. A new tab
  id comes from the backend (the id of a session that was just made), so that it is free is a condition on the run
  that the properties name (\<open>takes_free\<close>). That a tab to be activated, or to be kept alone, is open is
  not checked by the code and not so for every caller: \<open>handlePageChange\<close> of App.tsx activates the empty id
  when there is no tab, and the menu of a tab may outlive it. Both conditions together are \<open>op_ok\<close>.
\<close>

fun takes_free :: "tab_op \<Rightarrow> 'w app \<Rightarrow> bool" where
  "takes_free (ReplaceTabId i j) a \<longleftrightarrow> j \<notin> set (tab_ids a)"
| "takes_free _ a \<longleftrightarrow> True"

fun shows_open :: "tab_op \<Rightarrow> 'w app \<Rightarrow> bool" where
  "shows_open (ActivateTab i) a \<longleftrightarrow> i \<in> set (tab_ids a)"
| "shows_open (CloseOtherTabs i) a \<longleftrightarrow> i \<in> set (tab_ids a)"
| "shows_open _ a \<longleftrightarrow> True"

definition op_ok :: "tab_op \<Rightarrow> 'w app \<Rightarrow> bool" where
  "op_ok p a \<longleftrightarrow> takes_free p a \<and> shows_open p a"

lemma op_ok_simps [simp]:
  "op_ok (ActivateTab i) a \<longleftrightarrow> i \<in> set (tab_ids a)" "op_ok (CloseOtherTabs i) a \<longleftrightarrow> i \<in> set (tab_ids a)"
  "op_ok (ReplaceTabId i j) a \<longleftrightarrow> j \<notin> set (tab_ids a)" "op_ok (OpenTab t f) a" "op_ok (CloseTab i) a"
  "op_ok (UpdateTab i q) a" "op_ok (ReorderTab i j) a" "op_ok (MoveTabTo i k) a" "op_ok (CloseLeftTabs i) a"
  "op_ok (CloseRightTabs i) a"
  by (simp_all add: op_ok_def)

text \<open>A condition at every operation of a run.\<close>

fun along :: "(tab_op \<Rightarrow> 'w app \<Rightarrow> bool) \<Rightarrow> 'w hooks \<Rightarrow> tab_op list \<Rightarrow> 'w app \<Rightarrow> bool" where
  "along P hs [] a \<longleftrightarrow> True"
| "along P hs (p # ps) a \<longleftrightarrow> P p a \<and> along P hs ps (run_op hs p a)"

inductive tab_run :: "'w hooks \<Rightarrow> 'w app \<Rightarrow> 'w app \<Rightarrow> bool" for hs :: "'w hooks" where
  run_refl: "tab_run hs a a"
| run_step: "tab_run hs a b \<Longrightarrow> tab_run hs a (run_op hs p b)"

inductive_cases tab_runE: "tab_run hs a b"

text \<open>The tabs as a list of ids: distinct, with the active one, if any, among them.\<close>

definition tabs_ok :: "tab list \<Rightarrow> string option \<Rightarrow> bool" where
  "tabs_ok tabs act \<longleftrightarrow> distinct (map tb_id tabs) \<and> (\<forall>i. act = Some i \<longrightarrow> i \<in> set (map tb_id tabs))"

lemma tabs_set_state [simp]:
  "open_tabs (set_state tabs act a) = tabs" "active_id (set_state tabs act a) = act"
  "ap_recent (set_state tabs act a) = ap_recent a" "ap_rest (set_state tabs act a) = ap_rest a"
  "ts_persistReady (ap_tabs (set_state tabs act a)) = ts_persistReady (ap_tabs a)"
  "ts_restoreComplete (ap_tabs (set_state tabs act a)) = ts_restoreComplete (ap_tabs a)"
  by (simp_all add: set_state_def persist_def)

text \<open>What \<open>localStorage\<close> would restore is the state of the tabs.\<close>

definition saved_state :: "saved_tab_store item \<Rightarrow> tab list \<times> string option" where
  "saved_state st = (case st of Stored d \<Rightarrow> (sv_tabs d, sv_activeTabId d) | _ \<Rightarrow> ([], None))"

definition storage_ok :: "'w app \<Rightarrow> bool" where
  "storage_ok a \<longleftrightarrow> ts_persistReady (ap_tabs a) \<and> saved_state (ts_storage (ap_tabs a)) = (open_tabs a, active_id a)"

lemma storage_ok_set_state: "storage_ok a \<Longrightarrow> storage_ok (set_state tabs act a)"
  by (auto simp: storage_ok_def set_state_def persist_def saved_state_def)

lemma storage_ok_upd [simp]:
  "storage_ok (a\<lparr>ap_rest := w\<rparr>) \<longleftrightarrow> storage_ok a" "storage_ok (a\<lparr>ap_recent := r\<rparr>) \<longleftrightarrow> storage_ok a"
  by (simp_all add: storage_ok_def)

lemmas op_defs = openTab_def closeTab_def activateTab_def updateTab_def replaceTabId_def reorderTab_def
  moveTabTo_def closeOtherTabs_def closeLeftTabs_def closeRightTabs_def

lemma storage_ok_op: "storage_ok a \<Longrightarrow> storage_ok (run_op hs p a)"
  by (cases p) (auto simp: op_defs Let_def storage_ok_set_state split: option.splits)

lemma recent_ok_op: "recent_ok (ap_recent a) \<Longrightarrow> recent_ok (ap_recent (run_op hs p a))"
  by (cases p) (auto simp: op_defs Let_def recent_ok_touch split: option.splits)

lemma tabs_ok_sub:
  "tabs_ok tabs act \<Longrightarrow> distinct (map tb_id tabs') \<Longrightarrow> set tabs' \<subseteq> set tabs \<Longrightarrow>
   act' = None \<or> (\<exists>t\<in>set tabs'. act' = Some (tb_id t)) \<Longrightarrow> tabs_ok tabs' act'"
  by (auto simp: tabs_ok_def)

lemma active_or_open: "t \<in> set tabs \<Longrightarrow> tb_id t = i \<Longrightarrow> \<exists>t\<in>set tabs. active_or i tabs act = Some (tb_id t)"
  by (auto simp: active_or_def list_ex_iff)

lemma distinct_map_filter: "distinct (map f xs) \<Longrightarrow> distinct (map f (filter P xs))"
  by (simp add: distinct_map inj_on_def)

lemma find_index_split:
  "find_index P xs = Some k \<Longrightarrow> \<exists>ys x zs. xs = ys @ x # zs \<and> length ys = k \<and> P x \<and> (\<forall>y\<in>set ys. \<not> P y)"
  by (drule find_index_Some, rule exI [of _ "take k xs"], rule exI [of _ "xs ! k"], rule exI [of _ "drop (Suc k) xs"])
    (auto simp: id_take_nth_drop in_set_conv_nth)

text \<open>Where a tab is found by its id, and what the other tabs are.\<close>

lemma tab_split:
  assumes "find_index (\<lambda>t. tb_id t = i) tabs = Some idx" and "distinct (map tb_id tabs)"
  obtains xs t ys where "tabs = xs @ t # ys" "length xs = idx" "tb_id t = i"
    "filter (\<lambda>t. tb_id t \<noteq> i) tabs = xs @ ys" "filter (\<lambda>t. tb_id t = i) tabs = [t]"
    "i \<notin> tb_id ` set (xs @ ys)"
proof -
  from find_index_split [OF assms(1)] obtain xs t ys
    where s: "tabs = xs @ t # ys" "length xs = idx" "tb_id t = i" by blast
  with assms(2) have n: "i \<notin> tb_id ` set xs" "i \<notin> tb_id ` set ys" by auto
  then have "filter (\<lambda>t. tb_id t \<noteq> i) xs = xs" "filter (\<lambda>t. tb_id t \<noteq> i) ys = ys"
    "filter (\<lambda>t. tb_id t = i) xs = []" "filter (\<lambda>t. tb_id t = i) ys = []"
    by (auto simp: filter_id_conv filter_empty_conv)
  with s n show ?thesis by (intro that [of xs t ys]) auto
qed

text \<open>Closing a tab, with the tabs to its left and right.\<close>

definition neighbour :: "tab list \<Rightarrow> tab list \<Rightarrow> string option" where
  "neighbour xs ys = (if ys \<noteq> [] then Some (tb_id (hd ys)) else if xs \<noteq> [] then Some (tb_id (last xs)) else None)"

lemma find_tab:
  "distinct (map tb_id (xs @ t # ys)) \<Longrightarrow> find_index (\<lambda>u. tb_id u = tb_id t) (xs @ t # ys) = Some (length xs)"
  by (induction xs) auto

lemma find_tab_absent: "i \<notin> set (map tb_id tabs) \<Longrightarrow> find_index (\<lambda>t. tb_id t = i) tabs = None"
  by auto

lemma closeTab_split:
  assumes "open_tabs a = xs @ t # ys" and "distinct (tab_ids a)"
  shows "closeTab hs (tb_id t) a =
           set_state (xs @ ys) (if active_id a = Some (tb_id t) then neighbour xs ys else active_id a)
             (a\<lparr>ap_rest := run_close_hooks hs [t] (ap_rest a)\<rparr>)"
proof -
  have f: "find_index (\<lambda>u. tb_id u = tb_id t) (open_tabs a) = Some (length xs)"
    using find_tab [of xs t ys] assms by simp
  from tab_split [OF f assms(2)] have r: "filter (\<lambda>u. tb_id u \<noteq> tb_id t) (open_tabs a) = xs @ ys"
    by (metis (no_types, lifting) append_eq_append_conv assms(1) list.inject)
  show ?thesis
    unfolding closeTab_def f r
    using assms(1) by (cases ys) (auto simp: Let_def neighbour_def nth_append last_conv_nth)
qed

lemma closeTab_absent: "i \<notin> set (tab_ids a) \<Longrightarrow> closeTab hs i a = a"
  by (simp only: closeTab_def find_tab_absent option.case not_False_eq_True)

lemma tab_cases:
  assumes "i \<in> set (map tb_id tabs)"
  obtains xs t ys where "tabs = xs @ t # ys" "tb_id t = i"
  using assms by (auto dest!: split_list)

lemma tabs_ok_close:
  assumes "tabs_ok (open_tabs a) (active_id a)"
  shows "tabs_ok (open_tabs (closeTab hs i a)) (active_id (closeTab hs i a))"
proof (cases "i \<in> set (tab_ids a)")
  case True
  then obtain xs t ys where s: "open_tabs a = xs @ t # ys" "tb_id t = i" by (rule tab_cases)
  with assms have "distinct (tab_ids a)" by (simp add: tabs_ok_def)
  from closeTab_split [OF s(1) this] s assms show ?thesis
    by (auto simp: tabs_ok_def neighbour_def)
qed (use assms in \<open>simp add: closeTab_absent\<close>)

lemma closeOtherTabs_split:
  assumes "open_tabs a = xs @ t # ys" and "distinct (tab_ids a)"
  shows "closeOtherTabs hs (tb_id t) a =
           set_state [t] (Some (tb_id t)) (a\<lparr>ap_rest := run_close_hooks hs (xs @ ys) (ap_rest a)\<rparr>)"
proof -
  have f: "find_index (\<lambda>u. tb_id u = tb_id t) (open_tabs a) = Some (length xs)"
    using find_tab [of xs t ys] assms by simp
  from tab_split [OF f assms(2)] have
    "filter (\<lambda>u. tb_id u \<noteq> tb_id t) (open_tabs a) = xs @ ys \<and> filter (\<lambda>u. tb_id u = tb_id t) (open_tabs a) = [t]"
    by (metis (no_types, lifting) append_eq_append_conv assms(1) list.inject)
  then show ?thesis by (simp add: closeOtherTabs_def Let_def)
qed

lemma closeLeftTabs_split:
  assumes "open_tabs a = xs @ t # ys" and "distinct (tab_ids a)" and "xs \<noteq> []"
  shows "closeLeftTabs hs (tb_id t) a =
           set_state (t # ys) (active_or (tb_id t) (t # ys) (active_id a))
             (a\<lparr>ap_rest := run_close_hooks hs xs (ap_rest a)\<rparr>)"
proof -
  have f: "find_index (\<lambda>u. tb_id u = tb_id t) (open_tabs a) = Some (length xs)"
    using find_tab [of xs t ys] assms by simp
  show ?thesis
    unfolding closeLeftTabs_def f using assms(1,3) by (simp add: Let_def slice_def)
qed

lemma closeRightTabs_split:
  assumes "open_tabs a = xs @ t # ys" and "distinct (tab_ids a)" and "ys \<noteq> []"
  shows "closeRightTabs hs (tb_id t) a =
           set_state (xs @ [t]) (active_or (tb_id t) (xs @ [t]) (active_id a))
             (a\<lparr>ap_rest := run_close_hooks hs ys (ap_rest a)\<rparr>)"
proof -
  have f: "find_index (\<lambda>u. tb_id u = tb_id t) (open_tabs a) = Some (length xs)"
    using find_tab [of xs t ys] assms by simp
  show ?thesis
    unfolding closeRightTabs_def f using assms(1,3) by (cases ys) (simp_all add: Let_def slice_def)
qed

lemma close_sides_absent:
  "i \<notin> set (tab_ids a) \<Longrightarrow> closeLeftTabs hs i a = a"
  "i \<notin> set (tab_ids a) \<Longrightarrow> closeRightTabs hs i a = a"
  by (simp_all only: closeLeftTabs_def closeRightTabs_def find_tab_absent option.case not_False_eq_True)

lemma closeLeftTabs_first: "open_tabs a = t # ys \<Longrightarrow> closeLeftTabs hs (tb_id t) a = a"
  by (simp add: closeLeftTabs_def)

lemma closeRightTabs_last: "open_tabs a = xs @ [t] \<Longrightarrow> distinct (tab_ids a) \<Longrightarrow> closeRightTabs hs (tb_id t) a = a"
  using find_tab [of xs t "[]"] by (simp add: closeRightTabs_def)

text \<open>Every closing operation, at once: the closed tabs, their hooks, the tabs that stay.\<close>

inductive closes :: "'w app \<Rightarrow> tab_op \<Rightarrow> tab list \<Rightarrow> tab list \<Rightarrow> string option \<Rightarrow> bool" for a :: "'w app" where
  close_one: "open_tabs a = xs @ t # ys \<Longrightarrow>
    closes a (CloseTab (tb_id t)) [t] (xs @ ys) (if active_id a = Some (tb_id t) then neighbour xs ys else active_id a)"
| close_others: "open_tabs a = xs @ t # ys \<Longrightarrow>
    closes a (CloseOtherTabs (tb_id t)) (xs @ ys) [t] (Some (tb_id t))"
| close_left: "open_tabs a = xs @ t # ys \<Longrightarrow> xs \<noteq> [] \<Longrightarrow>
    closes a (CloseLeftTabs (tb_id t)) xs (t # ys) (active_or (tb_id t) (t # ys) (active_id a))"
| close_right: "open_tabs a = xs @ t # ys \<Longrightarrow> ys \<noteq> [] \<Longrightarrow>
    closes a (CloseRightTabs (tb_id t)) ys (xs @ [t]) (active_or (tb_id t) (xs @ [t]) (active_id a))"

lemma closes_effect:
  "closes a p closed kept act \<Longrightarrow> distinct (tab_ids a) \<Longrightarrow>
   run_op hs p a = set_state kept act (a\<lparr>ap_rest := run_close_hooks hs closed (ap_rest a)\<rparr>)"
  by (induction rule: closes.induct)
    (simp_all add: closeTab_split closeOtherTabs_split closeLeftTabs_split closeRightTabs_split)

fun closing :: "tab_op \<Rightarrow> bool" where
  "closing (CloseTab i) \<longleftrightarrow> True"
| "closing (CloseOtherTabs i) \<longleftrightarrow> True"
| "closing (CloseLeftTabs i) \<longleftrightarrow> True"
| "closing (CloseRightTabs i) \<longleftrightarrow> True"
| "closing _ \<longleftrightarrow> False"

lemma closing_cases:
  assumes "closing p" and "distinct (tab_ids a)" and "op_ok p a"
  shows "run_op hs p a = a \<or> (\<exists>closed kept act. closes a p closed kept act)"
proof (cases p)
  case (CloseTab i)
  show ?thesis
  proof (cases "i \<in> set (tab_ids a)")
    case True
    then obtain xs t ys where s: "open_tabs a = xs @ t # ys" "tb_id t = i" by (rule tab_cases)
    with CloseTab closes.close_one [OF s(1)] show ?thesis by blast
  qed (use CloseTab in \<open>simp add: closeTab_absent\<close>)
next
  case (CloseOtherTabs i)
  with assms(3) have "i \<in> set (tab_ids a)" by simp
  then obtain xs t ys where s: "open_tabs a = xs @ t # ys" "tb_id t = i" by (rule tab_cases)
  with CloseOtherTabs closes.close_others [OF s(1)] show ?thesis by blast
next
  case (CloseLeftTabs i)
  show ?thesis
  proof (cases "i \<in> set (tab_ids a)")
    case True
    then obtain xs t ys where s: "open_tabs a = xs @ t # ys" "tb_id t = i" by (rule tab_cases)
    show ?thesis
    proof (cases "xs = []")
      case True
      with CloseLeftTabs s closeLeftTabs_first [of a t ys hs] show ?thesis by simp
    next
      case False
      with CloseLeftTabs s closes.close_left [OF s(1)] show ?thesis by blast
    qed
  qed (use CloseLeftTabs in \<open>simp add: close_sides_absent\<close>)
next
  case (CloseRightTabs i)
  show ?thesis
  proof (cases "i \<in> set (tab_ids a)")
    case True
    then obtain xs t ys where s: "open_tabs a = xs @ t # ys" "tb_id t = i" by (rule tab_cases)
    show ?thesis
    proof (cases "ys = []")
      case True
      with CloseRightTabs s assms(2) closeRightTabs_last [of a xs t hs] show ?thesis by simp
    next
      case False
      with CloseRightTabs s closes.close_right [OF s(1)] show ?thesis by blast
    qed
  qed (use CloseRightTabs in \<open>simp add: close_sides_absent\<close>)
qed (use assms(1) in simp_all)

section \<open>What every run keeps\<close>

lemma ids_replace:
  "distinct (map tb_id tabs) \<Longrightarrow> newId \<notin> set (map tb_id tabs) \<Longrightarrow>
   distinct (map tb_id (map (\<lambda>t. if tb_id t = oldId then t\<lparr>tb_id := newId\<rparr> else t) tabs))"
  by (induction tabs) (auto simp: image_iff)

lemma ids_patch [simp]: "map tb_id (map (\<lambda>t. if tb_id t = i then patch_tab p t else t) tabs) = map tb_id tabs"
  by (simp add: patch_tab_def)

lemma active_or_cases: "active_or i tabs act = Some j \<Longrightarrow> j = i \<or> j \<in> tb_id ` set tabs"
  by (auto simp: active_or_def list_ex_iff split: if_splits)

lemma find_id: "find (\<lambda>t. tb_id t = i) tabs = Some t \<Longrightarrow> i \<in> tb_id ` set tabs"
  by (auto dest!: find_Some_prop)

lemma filter_not_in: "set xs \<inter> A = {} \<Longrightarrow> filter (\<lambda>t. t \<notin> A) xs = xs"
  by (auto simp: filter_id_conv)

lemma tabs_ok_closes:
  assumes "closes a p closed kept act" and "tabs_ok (open_tabs a) (active_id a)"
  shows "tabs_ok kept act"
  using assms
proof (induction rule: closes.induct)
  case (close_one xs t ys)
  then show ?case by (auto simp: tabs_ok_def neighbour_def)
next
  case (close_left xs t ys)
  then show ?case by (auto simp: tabs_ok_def dest!: active_or_cases)
next
  case (close_right xs t ys)
  then show ?case by (auto simp: tabs_ok_def dest!: active_or_cases)
qed (auto simp: tabs_ok_def)

lemma tabs_ok_move:
  "i < length tabs \<Longrightarrow> tabs_ok (move_elem i j tabs) act \<longleftrightarrow> tabs_ok tabs act"
  by (simp add: tabs_ok_def distinct_map_move_elem)

lemma tabs_ok_op:
  assumes "op_ok p a" and "tabs_ok (open_tabs a) (active_id a)"
  shows "tabs_ok (open_tabs (run_op hs p a)) (active_id (run_op hs p a))"
proof (cases "closing p")
  case True
  from assms(2) have d: "distinct (tab_ids a)" by (simp add: tabs_ok_def)
  from closing_cases [OF True d assms(1)] closes_effect [OF _ d] show ?thesis
    using assms(2) tabs_ok_closes by fastforce
next
  case False
  then show ?thesis
  proof (cases p)
    case (OpenTab tab activate)
    with assms show ?thesis
      by (auto simp: openTab_def Let_def tabs_ok_def find_None_iff_set dest: find_id split: option.split)
  next
    case (ReplaceTabId i j)
    with assms ids_replace [of "open_tabs a" j i] show ?thesis
      by (auto simp: replaceTabId_def Let_def tabs_ok_def rev_image_eqI)
  next
    case (UpdateTab i q)
    with assms show ?thesis by (simp add: updateTab_def tabs_ok_def del: map_map set_map)
  next
    case (ReorderTab i j)
    with assms show ?thesis
      by (auto simp: reorderTab_def tabs_ok_move dest: find_index_Some split: option.split)
  next
    case (MoveTabTo i k)
    with assms show ?thesis
      by (auto simp: moveTabTo_def Let_def tabs_ok_move dest: find_index_Some split: option.split)
  qed (use assms in \<open>auto simp: activateTab_def tabs_ok_def\<close>)
qed

text \<open>The ids alone stay distinct whether or not a shown tab is open.\<close>

lemma distinct_ids_op:
  assumes "takes_free p a" and "distinct (tab_ids a)"
  shows "distinct (tab_ids (run_op hs p a))"
proof -
  show ?thesis
  proof (cases p)
    case (OpenTab tab activate)
    with assms show ?thesis by (auto simp: openTab_def Let_def find_None_iff_set split: option.split)
  next
    case (CloseTab i)
    with assms show ?thesis by (auto simp: closeTab_def Let_def distinct_map_filter split: option.split)
  next
    case (ReplaceTabId i j)
    with assms ids_replace [of "open_tabs a" j i] show ?thesis by (simp add: replaceTabId_def Let_def)
  next
    case (UpdateTab i q)
    with assms show ?thesis by (simp add: updateTab_def del: map_map set_map)
  next
    case (ReorderTab i j)
    with assms show ?thesis
      by (auto simp: reorderTab_def distinct_map_move_elem dest: find_index_Some split: option.split)
  next
    case (MoveTabTo i k)
    with assms show ?thesis
      by (auto simp: moveTabTo_def Let_def distinct_map_move_elem dest: find_index_Some split: option.split)
  next
    case (CloseLeftTabs i)
    with assms show ?thesis
      by (auto simp: closeLeftTabs_def slice_def Let_def drop_map [symmetric] split: option.split)
  next
    case (CloseRightTabs i)
    with assms show ?thesis
      by (auto simp: closeRightTabs_def slice_def Let_def take_map [symmetric] split: option.split)
  qed (use assms in \<open>auto simp: activateTab_def closeOtherTabs_def Let_def distinct_map_filter\<close>)
qed

definition active_open :: "'w app \<Rightarrow> bool" where
  "active_open a \<longleftrightarrow> (case active_id a of None \<Rightarrow> True | Some i \<Rightarrow> i \<in> set (tab_ids a))"

lemma tabs_ok_iff: "tabs_ok (open_tabs a) (active_id a) \<longleftrightarrow> distinct (tab_ids a) \<and> active_open a"
  by (auto simp: tabs_ok_def active_open_def split: option.split)

text \<open>
  C12: Whatever sequence of operations runs, with no condition but that a tab takes a new id no other tab has: the
  ids of the open tabs stay distinct; the recent assets stay distinct and at most 20; and
  \<open>localStorage\<close> holds the tabs, the active tab and the recent assets as they are. The active tab is an
  open one as long as every tab the run activated, or kept alone, was open then; the code checks neither.
\<close>

theorem tabs_stay_consistent:
  assumes "along takes_free hs ops a" and "distinct (tab_ids a)" and "recent_ok (ap_recent a)" and "storage_ok a"
  shows "distinct (tab_ids (fold (run_op hs) ops a)) \<and> recent_ok (ap_recent (fold (run_op hs) ops a)) \<and>
     storage_ok (fold (run_op hs) ops a) \<and>
     (active_open a \<and> along shows_open hs ops a \<longrightarrow> active_open (fold (run_op hs) ops a))"
  using assms
proof (induction ops arbitrary: a)
  case (Cons p ops)
  have "active_open a \<and> shows_open p a \<longrightarrow> active_open (run_op hs p a)"
    using Cons.prems(1,2) tabs_ok_op [of p a hs] by (simp add: tabs_ok_iff op_ok_def)
  with Cons show ?case by (simp add: distinct_ids_op recent_ok_op storage_ok_op)
qed simp

lemma closes_parts:
  "closes a p closed kept act \<Longrightarrow> distinct (tab_ids a) \<Longrightarrow>
   distinct closed \<and> set closed \<subseteq> set (open_tabs a) \<and> kept = filter (\<lambda>t. t \<notin> set closed) (open_tabs a)"
proof (induction rule: closes.induct)
  case (close_one xs t ys)
  then have "t \<notin> set xs" "t \<notin> set ys" by auto
  with close_one show ?case using filter_not_in [of xs "{t}"] filter_not_in [of ys "{t}"] by simp
next
  case (close_others xs t ys)
  then have "t \<notin> set xs" "t \<notin> set ys" "distinct (xs @ ys)" by (auto simp: distinct_map)
  with close_others show ?case by (auto simp: filter_empty_conv)
next
  case (close_left xs t ys)
  then have d: "set (t # ys) \<inter> set xs = {}" "distinct xs" by (auto simp: distinct_map)
  with close_left show ?case using filter_not_in [OF d(1)] by (auto simp: filter_empty_conv)
next
  case (close_right xs t ys)
  then have d: "set (xs @ [t]) \<inter> set ys = {}" "distinct ys" by (auto simp: distinct_map)
  with close_right show ?case using filter_not_in [OF d(1)] by (auto simp: filter_empty_conv)
qed

text \<open>
  An operation that closes tabs calls the close hooks once for each tab that disappears, in
  their order, and for no other tab; the tabs that stay keep their order.
\<close>

theorem close_hooks_called_once:
  assumes "closing p" and "distinct (tab_ids a)" and "op_ok p a"
  shows "\<exists>closed. distinct closed \<and> set closed \<subseteq> set (open_tabs a) \<and>
           ap_rest (run_op hs p a) = run_close_hooks hs closed (ap_rest a) \<and>
           open_tabs (run_op hs p a) = filter (\<lambda>t. t \<notin> set closed) (open_tabs a)"
  using closing_cases [OF assms]
proof
  assume "run_op hs p a = a"
  then show ?thesis by (intro exI [of _ "[]"]) (simp add: run_close_hooks_def)
next
  assume "\<exists>closed kept act. closes a p closed kept act"
  then obtain closed kept act where c: "closes a p closed kept act" by blast
  from closes_parts [OF c assms(2)] closes_effect [OF c assms(2), of hs] show ?thesis
    by (intro exI [of _ closed]) simp
qed

text \<open>The restore hooks see the restored tabs of their type.\<close>

lemma fire_simps [simp]:
  "open_tabs (fireRestoreHooks hs a) = open_tabs a" "active_id (fireRestoreHooks hs a) = active_id a"
  "ts_persistReady (ap_tabs (fireRestoreHooks hs a)) = ts_persistReady (ap_tabs a)"
  "ts_storage (ap_tabs (fireRestoreHooks hs a)) = ts_storage (ap_tabs a)"
  by (simp_all add: fireRestoreHooks_def)

lemma restore_storage_ok: "storage_ok (snd (restoreTabStore hs ls (startup st r w)))"
  by (cases st) (auto simp: restoreTabStore_def startup_def storage_ok_def saved_state_def Let_def
      split: prod.split option.split)

text \<open>After a start, the old items are of no more use: either the new item is there, or there are no old ones.\<close>

definition settled :: "old_storage \<Rightarrow> saved_tab_store item \<Rightarrow> bool" where
  "settled ls st \<longleftrightarrow> fst (migrateOldKeys ls) = None \<or> (\<exists>d. st = Stored d)"

lemma migrate_none: "fst (migrateOldKeys ls) = None \<Longrightarrow> migrateOldKeys ls = (None, ls)"
  by (auto simp: migrateOldKeys_def Let_def split: if_splits)

lemma restore_settled:
  "settled (fst (restoreTabStore hs ls (startup st r w)))
           (ts_storage (ap_tabs (snd (restoreTabStore hs ls (startup st r w)))))"
  by (cases st) (auto simp: restoreTabStore_def startup_def settled_def migrateOldKeys_def no_old_storage_def Let_def)

lemma storage_stays: "settled ls (ts_storage (ap_tabs a)) \<Longrightarrow> settled ls (ts_storage (ap_tabs (run_op hs p a)))"
  by (cases p) (auto simp: op_defs Let_def settled_def set_state_def persist_def split: option.splits)

lemma run_storage:
  "tab_run hs a b \<Longrightarrow> storage_ok a \<Longrightarrow> settled ls (ts_storage (ap_tabs a)) \<Longrightarrow>
   storage_ok b \<and> settled ls (ts_storage (ap_tabs b))"
  by (induction rule: tab_run.induct) (simp_all add: storage_ok_op storage_stays)

text \<open>
  C13: A restart restores the tabs: after a start from any contents of \<open>localStorage\<close> and any
  run of operations, the next start opens the same tabs in the same order with the same active tab,
  and gives each restore hook the tabs of its type.
\<close>

theorem restart_restores_tabs:
  assumes "restoreTabStore hs ls (startup st r w) = (ls1, a)" and "tab_run hs a b"
    and "restoreTabStore hs' ls1 (startup (ts_storage (ap_tabs b)) r' w') = (ls2, c)"
  shows "open_tabs c = open_tabs b \<and> active_id c = active_id b \<and> storage_ok c \<and>
         ap_rest c = fold (\<lambda>(type, hooks). fold (\<lambda>hook. hook (tabs_of_type type (open_tabs b))) hooks) (restoreHooks hs') w'"
proof -
  have "storage_ok a" "settled ls1 (ts_storage (ap_tabs a))"
    using restore_storage_ok [of hs ls st r w] restore_settled [of hs ls st r w] assms(1) by auto
  with run_storage [OF assms(2)] have b: "storage_ok b" "settled ls1 (ts_storage (ap_tabs b))" by auto
  have "storage_ok c"
    using restore_storage_ok [of hs' ls1 "ts_storage (ap_tabs b)" r' w'] assms(3) by simp
  moreover have "open_tabs c = open_tabs b \<and> active_id c = active_id b \<and>
      ap_rest c = fold (\<lambda>(type, hooks). fold (\<lambda>hook. hook (tabs_of_type type (open_tabs b))) hooks) (restoreHooks hs') w'"
  proof (cases "ts_storage (ap_tabs b)")
    case (Stored d)
    with b(1) assms(3) show ?thesis
      by (auto simp: restoreTabStore_def startup_def storage_ok_def saved_state_def fireRestoreHooks_def)
  next
    case Absent
    with b have "migrateOldKeys ls1 = (None, ls1)" "open_tabs b = [] \<and> active_id b = None"
      by (auto simp: settled_def storage_ok_def saved_state_def migrate_none)
    with Absent assms(3) show ?thesis
      by (auto simp: restoreTabStore_def startup_def fireRestoreHooks_def Let_def)
  next
    case Unusable
    with b have "migrateOldKeys ls1 = (None, ls1)" "open_tabs b = [] \<and> active_id b = None"
      by (auto simp: settled_def storage_ok_def saved_state_def migrate_none)
    with Unusable assms(3) show ?thesis
      by (auto simp: restoreTabStore_def startup_def fireRestoreHooks_def Let_def)
  qed
  ultimately show ?thesis by blast
qed

text \<open>The tabs other than the moved one keep their order.\<close>

lemma filter_move:
  assumes "i < length xs" and "P (xs ! i)"
  shows "filter (\<lambda>x. \<not> P x) (move_elem i j xs) = filter (\<lambda>x. \<not> P x) xs"
proof -
  have "filter (\<lambda>x. \<not> P x) (move_elem i j xs) = filter (\<lambda>x. \<not> P x) (remove_at i xs)"
  proof -
    have "filter Q (take j ys @ y # drop j ys) = filter Q ys" if "\<not> Q y" for Q y and ys :: "'a list"
      using that by (metis append_take_drop_id filter.simps(2) filter_append)
    then show ?thesis using assms(2) by (simp add: move_elem_def insert_at_def)
  qed
  also have "\<dots> = filter (\<lambda>x. \<not> P x) xs"
    using assms unfolding remove_at_def by (subst (3) id_take_nth_drop [OF assms(1)]) simp
  finally show ?thesis .
qed

text \<open>
  Dragging a tab puts it at the place asked for, cut to the ends of the bar, and moves no other
  tab with respect to the rest; a drag onto another tab puts it at that tab's place.
\<close>

theorem drag_places_tab:
  assumes "find_index (\<lambda>t. tb_id t = i) (open_tabs a) = Some m" and "find_index (\<lambda>t. tb_id t = j) (open_tabs a) = Some n"
  shows "tb_id (open_tabs (moveTabTo i k a) ! nat (max 0 (min k (int (length (open_tabs a)) - 1)))) = i \<and>
         filter (\<lambda>t. tb_id t \<noteq> i) (open_tabs (moveTabTo i k a)) = filter (\<lambda>t. tb_id t \<noteq> i) (open_tabs a) \<and>
         tb_id (open_tabs (reorderTab i j a) ! n) = i \<and>
         filter (\<lambda>t. tb_id t \<noteq> i) (open_tabs (reorderTab i j a)) = filter (\<lambda>t. tb_id t \<noteq> i) (open_tabs a) \<and>
         active_id (moveTabTo i k a) = active_id a \<and> active_id (reorderTab i j a) = active_id a"
proof -
  from assms have m: "m < length (open_tabs a)" "tb_id (open_tabs a ! m) = i" and n: "n < length (open_tabs a)"
    by (auto dest: find_index_Some)
  let ?k = "nat (max 0 (min k (int (length (open_tabs a)) - 1)))"
  from m(1) have k: "?k < length (open_tabs a)" by linarith
  have "tb_id (open_tabs (moveTabTo i k a) ! ?k) = i"
    using m k nth_move_elem [OF m(1) k] by (cases "int m = k") (auto simp: moveTabTo_def assms(1) Let_def)
  moreover have "filter (\<lambda>t. tb_id t \<noteq> i) (open_tabs (moveTabTo i k a)) = filter (\<lambda>t. tb_id t \<noteq> i) (open_tabs a)"
    using filter_move [OF m(1), of "\<lambda>t. tb_id t = i"] m(2) by (simp add: moveTabTo_def assms(1) Let_def)
  moreover have "tb_id (open_tabs (reorderTab i j a) ! n) = i"
    using m n nth_move_elem [OF m(1) n] by (cases "m = n") (simp_all add: reorderTab_def assms)
  moreover have "filter (\<lambda>t. tb_id t \<noteq> i) (open_tabs (reorderTab i j a)) = filter (\<lambda>t. tb_id t \<noteq> i) (open_tabs a)"
    using filter_move [OF m(1), of "\<lambda>t. tb_id t = i"] m(2) by (simp add: reorderTab_def assms)
  moreover have "active_id (moveTabTo i k a) = active_id a" "active_id (reorderTab i j a) = active_id a"
    by (simp_all add: moveTabTo_def reorderTab_def assms Let_def)
  ultimately show ?thesis by simp
qed

text \<open>A run on concrete tabs.\<close>

definition ex_page :: "string \<Rightarrow> tab" where
  "ex_page i = migrate_page i"

definition ex_hooks :: "tab list hooks" where
  "ex_hooks = registerTabCloseHook (\<lambda>t w. w @ [t]) \<lparr>closeHooks = [], replaceHooks = [], restoreHooks = [(TT_page, [\<lambda>ts w. ts])]\<rparr>"

definition ex_start :: "tab list app" where
  "ex_start = snd (restoreTabStore ex_hooks no_old_storage (startup Absent \<lparr>recentIds = [], ls_recent = Absent\<rparr> []))"

definition ex_three :: "tab list app" where
  "ex_three = run_op ex_hooks (OpenTab (ex_page ''c'') True) (run_op ex_hooks (OpenTab (ex_page ''b'') True)
     (run_op ex_hooks (OpenTab (ex_page ''a'') True) ex_start))"

lemma ex_run: "tab_run ex_hooks ex_start ex_three"
  unfolding ex_three_def by (intro tab_run.intros)

lemma ex_three_tabs: "open_tabs ex_three = map ex_page [''a'', ''b'', ''c'']" "active_id ex_three = Some ''c''"
  by code_simp+

theorem tabs_stay_consistent_witness:
  "distinct (tab_ids (fold (run_op ex_hooks) [CloseTab ''b'', ReplaceTabId ''a'' ''s'', ActivateTab ''s''] ex_three)) \<and>
   storage_ok (fold (run_op ex_hooks) [CloseTab ''b'', ReplaceTabId ''a'' ''s'', ActivateTab ''s''] ex_three) \<and>
   active_open (fold (run_op ex_hooks) [CloseTab ''b'', ReplaceTabId ''a'' ''s'', ActivateTab ''s''] ex_three)"
proof -
  let ?ops = "[CloseTab ''b'', ReplaceTabId ''a'' ''s'', ActivateTab ''s'']"
  have "recent_ok (ap_recent ex_start)"
    by (simp add: ex_start_def restoreTabStore_def startup_def migrateOldKeys_def no_old_storage_def
        fireRestoreHooks_def recent_ok_def loadRecent_def MAX_RECENT_def)
  then have r: "recent_ok (ap_recent ex_three)" unfolding ex_three_def by (intro recent_ok_op)
  have "storage_ok ex_start" unfolding ex_start_def by (rule restore_storage_ok)
  then have s: "storage_ok ex_three" unfolding ex_three_def by (intro storage_ok_op)
  have d: "distinct (tab_ids ex_three)" by (simp add: ex_three_tabs ex_page_def migrate_page_def)
  have a: "along takes_free ex_hooks ?ops ex_three" "active_open ex_three" "along shows_open ex_hooks ?ops ex_three"
    by code_simp+
  show ?thesis using tabs_stay_consistent [OF a(1) d r s] a(2,3) by blast
qed

theorem close_hooks_called_once_witness:
  "\<exists>closed. distinct closed \<and> set closed \<subseteq> set (open_tabs ex_three) \<and>
     ap_rest (run_op ex_hooks (CloseLeftTabs ''c'') ex_three) = run_close_hooks ex_hooks closed (ap_rest ex_three) \<and>
     open_tabs (run_op ex_hooks (CloseLeftTabs ''c'') ex_three) = filter (\<lambda>t. t \<notin> set closed) (open_tabs ex_three)"
  by (rule close_hooks_called_once) (simp_all add: ex_three_tabs ex_page_def migrate_page_def)

theorem restart_restores_tabs_witness:
  "open_tabs (snd (restoreTabStore ex_hooks no_old_storage (startup (ts_storage (ap_tabs ex_three)) (ap_recent ex_three) []))) =
     open_tabs ex_three"
proof -
  have l: "fst (restoreTabStore ex_hooks no_old_storage (startup Absent \<lparr>recentIds = [], ls_recent = Absent\<rparr> ([] :: tab list))) = no_old_storage"
    by (simp add: restoreTabStore_def startup_def migrateOldKeys_def no_old_storage_def)
  then have "restoreTabStore ex_hooks no_old_storage (startup Absent \<lparr>recentIds = [], ls_recent = Absent\<rparr> ([] :: tab list)) = (no_old_storage, ex_start)"
    by (simp add: ex_start_def prod_eq_iff)
  from conjunct1 [OF restart_restores_tabs [OF this ex_run surjective_pairing]] show ?thesis .
qed

theorem drag_places_tab_witness:
  "open_tabs (moveTabTo ''a'' 9 ex_three) ! 2 = ex_page ''a'' \<and> tb_id (open_tabs (reorderTab ''a'' ''b'' ex_three) ! 1) = ''a''"
proof -
  have i: "find_index (\<lambda>t. tb_id t = ''a'') (open_tabs ex_three) = Some 0"
    "find_index (\<lambda>t. tb_id t = ''b'') (open_tabs ex_three) = Some 1"
    by (simp_all add: ex_three_tabs ex_page_def migrate_page_def)
  have "open_tabs (moveTabTo ''a'' 9 ex_three) ! 2 = ex_page ''a''" by code_simp
  with drag_places_tab [OF i, of 9] show ?thesis by simp
qed

section \<open>Stores keyed by tab id\<close>

text \<open>
  Several stores keep an entry per tab and drop it in their close hook. The contract: the hook
  removes the key of a tab of the store's kind and no other.
\<close>

locale tab_keyed_store =
  fixes keys :: "'w \<Rightarrow> string set"
    and hook :: "tab \<Rightarrow> 'w \<Rightarrow> 'w"
    and keyed :: "tab \<Rightarrow> bool"
  assumes hook_keys: "keys (hook t w) = (if keyed t then keys w - {tb_id t} else keys w)"
begin

definition in_step :: "'w \<Rightarrow> tab list \<Rightarrow> bool" where
  "in_step w tabs \<longleftrightarrow> keys w \<subseteq> tb_id ` set (filter keyed tabs)"

lemma fold_hook_keys: "keys (fold hook closed w) = keys w - tb_id ` set (filter keyed closed)"
  by (induction closed arbitrary: w) (auto simp: hook_keys)

text \<open>When the store is the only one with a hook, closing tabs leaves no entry of a closed tab behind.\<close>

lemma in_step_closes:
  assumes "closes a p closed kept act" and "tabs_ok (open_tabs a) (active_id a)" and "in_step w (open_tabs a)"
  shows "in_step (fold hook closed w) kept"
proof -
  from assms(2) have d: "distinct (tab_ids a)" by (simp add: tabs_ok_def)
  from closes_parts [OF assms(1) d] assms(3) show ?thesis
    by (auto simp: in_step_def fold_hook_keys)
qed

end

end
