(* ===== verification/GroupPath.thy ===== *)
theory GroupPath
  imports Prelude "HOL-Library.While_Combinator"
begin

text \<open>
  Assets and groups as the client holds them, and the path of a group, \<^verbatim>\<open>lib/groupPath.ts\<close>: the walk
  up the parents, which stops at a missing group and at a group it has seen, the map of all paths
  with its cache, and the path of an asset.
\<close>

record asset =
  as_ID :: int
  as_Name :: string
  as_Type :: string
  as_GroupID :: int
  as_Icon :: string
  as_Status :: int

record asset_group =
  gr_ID :: int
  gr_Name :: string
  gr_ParentID :: int
  gr_Icon :: string

definition DEFAULT_SEPARATOR :: string where
  "DEFAULT_SEPARATOR = ''/''"

text \<open>Later groups with the same id replace earlier ones.\<close>

definition buildGroupLookup :: "asset_group list \<Rightarrow> int \<Rightarrow> asset_group option" where
  "buildGroupLookup groups = map_of (rev (map (\<lambda>g. (gr_ID g, g)) groups))"

lemma lookup_in: "buildGroupLookup groups i = Some g \<Longrightarrow> g \<in> set groups \<and> gr_ID g = i"
  by (auto simp: buildGroupLookup_def dest!: map_of_SomeD)

lemma lookup_distinct:
  "distinct (map gr_ID groups) \<Longrightarrow> g \<in> set groups \<Longrightarrow> buildGroupLookup groups (gr_ID g) = Some g"
  unfolding buildGroupLookup_def
  by (rule map_of_is_SomeI) (simp_all add: rev_map [symmetric] comp_def image_iff)

text \<open>The \<open>while\<close> loop; its state is \<open>seen\<close>, \<open>names\<close> and \<open>currentId\<close>.\<close>

function climb :: "asset_group list \<Rightarrow> int list \<Rightarrow> string list \<Rightarrow> int \<Rightarrow> string list" where
  "climb groups seen names currentId =
     (if currentId > 0 \<and> currentId \<notin> set seen then
        (case buildGroupLookup groups currentId of
           None \<Rightarrow> names
         | Some g \<Rightarrow> climb groups (currentId # seen) (gr_Name g # names) (gr_ParentID g))
      else names)"
  by pat_completeness auto
termination
proof (relation "measure (\<lambda>(groups, seen, names, i). card (gr_ID ` set groups - set seen))")
  fix groups :: "asset_group list" and seen :: "int list" and names :: "string list" and i :: int and g :: asset_group
  assume "i > 0 \<and> i \<notin> set seen" and "buildGroupLookup groups i = Some g"
  then have "i \<in> gr_ID ` set groups - set seen" using lookup_in by force
  then have "card (gr_ID ` set groups - set (i # seen)) < card (gr_ID ` set groups - set seen)"
    by (intro psubset_card_mono) auto
  then show "((groups, i # seen, gr_Name g # names, gr_ParentID g), (groups, seen, names, i)) \<in>
      measure (\<lambda>(groups, seen, names, i). card (gr_ID ` set groups - set seen))" by simp
qed simp

declare climb.simps [simp del]

definition resolveGroupPathFromLookup :: "asset_group list \<Rightarrow> int option \<Rightarrow> string \<Rightarrow> string" where
  "resolveGroupPathFromLookup groups groupId sep =
     (case groupId of
        None \<Rightarrow> []
      | Some i \<Rightarrow> if i = 0 then [] else join sep (climb groups [] [] i))"

definition resolveGroupPath :: "asset_group list \<Rightarrow> int option \<Rightarrow> string option \<Rightarrow> string" where
  "resolveGroupPath groups groupId sep =
     resolveGroupPathFromLookup groups groupId (case sep of None \<Rightarrow> DEFAULT_SEPARATOR | Some s \<Rightarrow> s)"

text \<open>
  The map of all paths. The cache is keyed by the identity of the group array (here a number) and
  the separator; a hit returns the stored map.
\<close>

type_synonym path_map = "int \<Rightarrow> string option"
type_synonym path_cache = "nat \<times> string \<Rightarrow> path_map option"

definition group_paths :: "asset_group list \<Rightarrow> string \<Rightarrow> path_map" where
  "group_paths groups sep =
     map_of (rev (map (\<lambda>g. (gr_ID g, resolveGroupPathFromLookup groups (Some (gr_ID g)) sep)) groups))"

definition buildGroupPathMap ::
  "path_cache \<Rightarrow> nat \<Rightarrow> asset_group list \<Rightarrow> string option \<Rightarrow> path_map \<times> path_cache" where
  "buildGroupPathMap cache groupsRef groups sep =
     (let s = (case sep of None \<Rightarrow> DEFAULT_SEPARATOR | Some s \<Rightarrow> s)
      in case cache (groupsRef, s) of
           Some cached \<Rightarrow> (cached, cache)
         | None \<Rightarrow> let m = group_paths groups s in (m, cache((groupsRef, s) \<mapsto> m)))"

definition formatAssetPath :: "asset \<Rightarrow> asset_group list \<Rightarrow> string option \<Rightarrow> string" where
  "formatAssetPath asset groups sep =
     (let s = (case sep of None \<Rightarrow> DEFAULT_SEPARATOR | Some s \<Rightarrow> s);
          groupPath = resolveGroupPath groups (Some (as_GroupID asset)) (Some s)
      in if groupPath \<noteq> [] then groupPath @ s @ as_Name asset else as_Name asset)"

section \<open>Paths are chains of parents\<close>

text \<open>
  \<open>chain groups p gs\<close>: \<open>gs\<close> leads down from the container \<open>p\<close>, each group the parent of the next.
\<close>

fun chain :: "asset_group list \<Rightarrow> int \<Rightarrow> asset_group list \<Rightarrow> bool" where
  "chain groups p [] \<longleftrightarrow> True"
| "chain groups p (g # gs) \<longleftrightarrow> g \<in> set groups \<and> gr_ParentID g = p \<and> chain groups (gr_ID g) gs"

definition proper_ids :: "asset_group list \<Rightarrow> bool" where
  "proper_ids groups \<longleftrightarrow> distinct (map gr_ID groups) \<and> (\<forall>g\<in>set groups. gr_ID g > 0)"

lemma chain_append:
  "chain groups p (gs @ hs) \<longleftrightarrow> chain groups p gs \<and> chain groups (if gs = [] then p else gr_ID (last gs)) hs"
  by (induction gs arbitrary: p) auto

lemma chain_set: "chain groups p gs \<Longrightarrow> set gs \<subseteq> set groups"
  by (induction gs arbitrary: p) auto

lemma chain_nth_parent: "chain groups p gs \<Longrightarrow> Suc i < length gs \<Longrightarrow> gr_ParentID (gs ! Suc i) = gr_ID (gs ! i)"
proof (induction gs arbitrary: p i)
  case (Cons g gs)
  then show ?case by (cases i; cases gs) auto
qed simp

lemma proper_inj: "proper_ids groups \<Longrightarrow> g \<in> set groups \<Longrightarrow> h \<in> set groups \<Longrightarrow> gr_ID g = gr_ID h \<Longrightarrow> g = h"
  by (auto simp: proper_ids_def distinct_map dest: inj_onD)

lemma chain_from_root_distinct:
  assumes "proper_ids groups" and "chain groups 0 gs"
  shows "distinct gs"
proof -
  have "gs ! i \<noteq> gs ! j" if "i < j" "j < length gs" for i j
    using that
  proof (induction i arbitrary: j)
    case 0
    then obtain k where k: "j = Suc k" by (cases j) auto
    from 0 assms(2) have "gr_ParentID (gs ! 0) = 0" by (cases gs) auto
    moreover from k 0 have "gr_ParentID (gs ! j) = gr_ID (gs ! k)"
      using chain_nth_parent [OF assms(2), of k] by simp
    moreover have "gs ! k \<in> set groups"
      using chain_set [OF assms(2)] nth_mem [of k gs] k 0 by auto
    ultimately show ?case using assms(1) by (force simp: proper_ids_def)
  next
    case (Suc i)
    then obtain k where k: "j = Suc k" by (cases j) auto
    show ?case
    proof
      assume "gs ! Suc i = gs ! j"
      then have "gr_ID (gs ! i) = gr_ID (gs ! k)"
        using chain_nth_parent [OF assms(2), of i] chain_nth_parent [OF assms(2), of k] Suc.prems k by simp
      moreover have "gs ! i \<in> set groups" "gs ! k \<in> set groups"
        using chain_set [OF assms(2)] nth_mem [of i gs] nth_mem [of k gs] Suc.prems k by auto
      ultimately have "gs ! i = gs ! k"
        using proper_inj [OF assms(1)] by blast
      with Suc.IH [of k] Suc.prems k show False by simp
    qed
  qed
  then show ?thesis by (auto simp: distinct_conv_nth) (metis nat_neq_iff)
qed

lemma climb_chain:
  assumes "proper_ids groups" and "chain groups 0 (gs @ hs)" and "gs \<noteq> []" and "set hs' = set hs"
  shows "climb groups (map gr_ID hs') (map gr_Name hs) (gr_ID (last gs)) = map gr_Name (gs @ hs)"
  using assms
proof (induction gs arbitrary: hs hs' rule: rev_induct)
  case (snoc g gs)
  have ch: "chain groups 0 (gs @ g # hs)" using snoc.prems(2) by simp
  then have g: "g \<in> set groups" using chain_set by fastforce
  have dist: "distinct (gs @ g # hs)" using chain_from_root_distinct [OF snoc.prems(1) ch] .
  have pos: "gr_ID g > 0" using snoc.prems(1) g by (simp add: proper_ids_def)
  have "gr_ID g \<noteq> gr_ID h" if "h \<in> set hs" for h
    using that dist proper_inj [OF snoc.prems(1) g, of h] chain_set [OF ch] by auto
  then have "gr_ID g \<notin> set (map gr_ID hs')"
    using snoc.prems(4) by auto
  then have step: "climb groups (map gr_ID hs') (map gr_Name hs) (gr_ID g) =
      climb groups (map gr_ID (g # hs')) (map gr_Name (g # hs)) (gr_ParentID g)"
    using pos lookup_distinct [of groups g] snoc.prems(1) g
    by (subst climb.simps) (simp add: proper_ids_def)
  show ?case
  proof (cases "gs = []")
    case True
    then have "gr_ParentID g = 0" using ch by simp
    then show ?thesis using step True by (simp add: climb.simps)
  next
    case False
    have "gr_ParentID g = gr_ID (last gs)" using ch False by (simp add: chain_append)
    moreover have "climb groups (map gr_ID (g # hs')) (map gr_Name (g # hs)) (gr_ID (last gs)) = map gr_Name (gs @ g # hs)"
      by (rule snoc.IH) (use snoc.prems(1,4) ch False in auto)
    ultimately show ?thesis using step by simp
  qed
qed simp

text \<open>
  The path of a group is the names of the groups from the root down to it, joined by the
  separator. The walk itself returns for every asset_group list, with missing parents and parent cycles
  included, by its termination measure.
\<close>

theorem group_path_is_chain:
  assumes "proper_ids groups" and "chain groups 0 gs" and "gs \<noteq> []"
  shows "resolveGroupPath groups (Some (gr_ID (last gs))) (Some sep) = join sep (map gr_Name gs)"
proof -
  have "gr_ID (last gs) > 0"
    using assms(1,3) chain_set [OF assms(2)] last_in_set [OF assms(3)] unfolding proper_ids_def by blast
  then show ?thesis
    using climb_chain [OF assms(1), of gs "[]" "[]"] assms(2,3)
    by (simp add: resolveGroupPath_def resolveGroupPathFromLookup_def)
qed

definition ex_groups :: "asset_group list" where
  "ex_groups =
     [\<lparr>gr_ID = 3, gr_Name = ''db'', gr_ParentID = 1, gr_Icon = []\<rparr>,
      \<lparr>gr_ID = 1, gr_Name = ''prod'', gr_ParentID = 0, gr_Icon = []\<rparr>]"

theorem group_path_is_chain_witness:
  "resolveGroupPath ex_groups (Some 3) (Some '' / '') = ''prod / db''"
  using group_path_is_chain [of ex_groups "[ex_groups ! 1, ex_groups ! 0]" "'' / ''"]
  by (simp add: ex_groups_def proper_ids_def)

text \<open>A cycle is cut at the first group met twice.\<close>

lemma group_cycle_cut:
  "resolveGroupPath [\<lparr>gr_ID = 1, gr_Name = ''a'', gr_ParentID = 2, gr_Icon = []\<rparr>,
                     \<lparr>gr_ID = 2, gr_Name = ''b'', gr_ParentID = 1, gr_Icon = []\<rparr>] (Some 1) None = ''b/a''"
  by (simp add: resolveGroupPath_def resolveGroupPathFromLookup_def DEFAULT_SEPARATOR_def climb.simps
      buildGroupLookup_def)

section \<open>The walk ends\<close>

text \<open>The \<open>while\<close> loop as it is written: when it goes on, and one round of it.\<close>

definition climb_goes :: "asset_group list \<Rightarrow> int list \<times> string list \<times> int \<Rightarrow> bool" where
  "climb_goes groups = (\<lambda>(seen, names, currentId).
     currentId > 0 \<and> currentId \<notin> set seen \<and> buildGroupLookup groups currentId \<noteq> None)"

definition climb_round :: "asset_group list \<Rightarrow> int list \<times> string list \<times> int \<Rightarrow> int list \<times> string list \<times> int" where
  "climb_round groups = (\<lambda>(seen, names, currentId).
     (case buildGroupLookup groups currentId of
        None \<Rightarrow> (currentId # seen, names, currentId)
      | Some g \<Rightarrow> (currentId # seen, gr_Name g # names, gr_ParentID g)))"

lemma climb_loop:
  "distinct seen \<Longrightarrow> set seen \<subseteq> gr_ID ` set groups \<Longrightarrow>
   \<exists>seen' j. while_option (climb_goes groups) (climb_round groups) (seen, names, i) = Some (seen', climb groups seen names i, j) \<and>
     distinct seen' \<and> set seen' \<subseteq> gr_ID ` set groups"
proof (induction groups seen names i rule: climb.induct)
  case (1 groups seen names i)
  show ?case
  proof (cases "climb_goes groups (seen, names, i)")
    case False
    then have "while_option (climb_goes groups) (climb_round groups) (seen, names, i) = Some (seen, names, i)"
      by (subst while_option_unfold) simp
    moreover have "climb groups seen names i = names"
      using False by (subst climb.simps) (auto simp: climb_goes_def)
    ultimately show ?thesis using "1.prems" by simp
  next
    case True
    then obtain g where g: "i > 0 \<and> i \<notin> set seen" "buildGroupLookup groups i = Some g"
      by (auto simp: climb_goes_def)
    have "while_option (climb_goes groups) (climb_round groups) (seen, names, i) =
        while_option (climb_goes groups) (climb_round groups) (i # seen, gr_Name g # names, gr_ParentID g)"
      using True g by (subst while_option_unfold) (simp add: climb_round_def)
    moreover have "climb groups seen names i = climb groups (i # seen) (gr_Name g # names) (gr_ParentID g)"
      using g by (subst climb.simps) simp
    moreover have "i \<in> gr_ID ` set groups" using lookup_in [OF g(2)] by force
    ultimately show ?thesis using "1.IH" [OF g] "1.prems" g(1) by simp
  qed
qed

text \<open>
  C8: The walk up from a group ends for every list of groups, with missing parents and with parents in a
  circle: the loop returns the names of the path after at most as many rounds as there are group ids.
\<close>

theorem group_walk_ends:
  "\<exists>seen j. while_option (climb_goes groups) (climb_round groups) ([], [], i) = Some (seen, climb groups [] [] i, j) \<and>
     length seen \<le> card (gr_ID ` set groups)"
proof -
  obtain seen j where "while_option (climb_goes groups) (climb_round groups) ([], [], i) = Some (seen, climb groups [] [] i, j)"
    and "distinct seen" "set seen \<subseteq> gr_ID ` set groups"
    using climb_loop [of "[]" groups "[]" i] by auto
  then show ?thesis by (metis card_mono distinct_card finite_imageI finite_set)
qed

text \<open>
  The cache is correct while it holds, for every array identity, maps of that array's content.
\<close>

definition cache_ok :: "(nat \<Rightarrow> asset_group list) \<Rightarrow> path_cache \<Rightarrow> bool" where
  "cache_ok content cache \<longleftrightarrow> (\<forall>r s m. cache (r, s) = Some m \<longrightarrow> m = group_paths (content r) s)"

lemma path_map_cached:
  assumes "cache_ok content cache"
  shows "fst (buildGroupPathMap cache r (content r) (Some s)) = group_paths (content r) s \<and>
         cache_ok content (snd (buildGroupPathMap cache r (content r) (Some s)))"
  using assms by (auto simp: buildGroupPathMap_def cache_ok_def Let_def split: option.split)

end
