(* ===== verification/QueryStore.thy ===== *)
theory QueryStore
  imports TabStore GroupPath "HOL-Library.AList"
begin

text \<open>
  The state of the query tabs (\<^verbatim>\<open>stores/queryStore.ts\<close>): the sidebar metadata of databases and of
  MongoDB, the keys of Redis, and what of it is kept in \<open>localStorage\<close>. An operation that awaits the
  backend leaves an entry in \<open>query_waits\<close>, and \<open>..._answered\<close> is the code after the \<open>await\<close>. A field that
  is an \<open>option\<close> in a state is \<open>undefined\<close> in a state written by an answer that came when the tab was
  closed; reading it throws, which leaves the store as it is. Times, and the text of such an error, are
  arguments; the reply to a statement is the parsed JSON of the result.
\<close>

section \<open>Types\<close>

record sql_tab =
  sq_title :: string
  sq_sql :: "string option"
  sq_selectedDb :: "string option"
  sq_editorHeight :: "int option"
  sq_history :: "string list option"

datatype inner_tab =
    TableTab (it_id: string) string string "bool option"
  | SqlTab (it_id: string) sql_tab

record db_state =
  qd_databases :: "string list option"
  qd_tables :: "(string \<times> string list) list option"
  qd_loadingTables :: "(string \<times> bool) list option"
  qd_expandedDbs :: "string list option"
  qd_loadingDbs :: bool
  qd_innerTabs :: "inner_tab list option"
  qd_activeInnerTabId :: "string option"
  qd_error :: "string option"

record redis_key_info =
  rk_type :: string
  rk_ttl :: int
  rk_size :: int
  rk_value :: jsval
  rk_total :: int
  rk_valueCursor :: string
  rk_valueOffset :: int
  rk_hasMoreValues :: bool
  rk_loadingMore :: bool

record redis_tab_state =
  rs_currentDb :: "int option"
  rs_scanCursor :: "string option"
  rs_keys :: "string list option"
  rs_keyFilter :: "string option"
  rs_selectedKey :: "string option"
  rs_keyInfo :: "redis_key_info option"
  rs_loadingKeys :: bool
  rs_hasMore :: bool
  rs_dbKeyCounts :: "(int \<times> int) list option"
  rs_scanRequestId :: "nat option"
  rs_keyDetailRequestId :: "nat option"
  rs_openKeyTabs :: "string list option"
  rs_activeRedisKey :: "string option option"
  rs_removedKey :: "string option"
  rs_removedKeySeq :: "nat option"
  rs_error :: "string option"

record mongo_query_tab =
  mq_title :: string
  mq_database :: "string option"
  mq_collection :: "string option"
  mq_operation :: "string option"
  mq_queryText :: "string option"
  mq_editorHeight :: "int option"

datatype mongo_inner_tab =
    CollectionTab (mt_id: string) string string "bool option"
  | MongoQueryTab (mt_id: string) mongo_query_tab

record mongo_state =
  qm_databases :: "string list option"
  qm_collections :: "(string \<times> string list) list option"
  qm_expandedDbs :: "string list option"
  qm_activeDatabase :: "string option"
  qm_innerTabs :: "mongo_inner_tab list option"
  qm_activeInnerTabId :: "string option"
  qm_error :: "string option"

record redis_detail =
  dt_type :: string
  dt_ttl :: int
  dt_size :: int
  dt_total :: int
  dt_value :: jsval
  dt_valueCursor :: string
  dt_valueOffset :: int
  dt_hasMoreValues :: bool

record persisted_db =
  pd_databases :: "string list option"
  pd_tables :: "(string \<times> string list) list option"
  pd_expandedDbs :: "string list option"
  pd_innerTabs :: "inner_tab list option"
  pd_activeInnerTabId :: "string option"

record persisted_mongo =
  pm_databases :: "string list option"
  pm_collections :: "(string \<times> string list) list option"
  pm_expandedDbs :: "string list option"
  pm_innerTabs :: "mongo_inner_tab list option"
  pm_activeInnerTabId :: "string option"

record persisted_query =
  pq_dbStates :: "(string \<times> persisted_db) list"
  pq_mongoStates :: "(string \<times> persisted_mongo) list"

datatype query_call =
    QC_SQL int string string
  | QC_Scan int "int option" "string option" string int
  | QC_Detail int "int option" string string int
  | QC_RedisDatabases int
  | QC_MongoDatabases int
  | QC_MongoCollections int string

datatype query_wait =
    QW_databases string
  | QW_tables string string bool
  | QW_scan string bool nat
  | QW_key string string "int option" nat
  | QW_values string string "int option" nat redis_key_info
  | QW_counts string
  | QW_mongo_databases string
  | QW_mongo_collections string string

record query_store =
  dbStates :: "(string \<times> db_state) list"
  redisStates :: "(string \<times> redis_tab_state) list"
  mongoStates :: "(string \<times> mongo_state) list"
  query_persistReady :: bool
  query_saveTimer :: bool
  ls_query :: "persisted_query item"
  query_waits :: "query_wait list"
  query_calls :: "query_call list"

datatype 'a reply = Reply 'a | Failed string

section \<open>Helpers\<close>

definition makeTabId :: "int \<Rightarrow> string" where
  "makeTabId assetId = ''query-'' @ int_str assetId"

definition defaultDbState :: db_state where
  "defaultDbState =
     \<lparr>qd_databases = Some [], qd_tables = Some [], qd_loadingTables = Some [], qd_expandedDbs = Some [], qd_loadingDbs = False,
      qd_innerTabs = Some [], qd_activeInnerTabId = None, qd_error = None\<rparr>"

text \<open>What spreading \<open>undefined\<close> gives.\<close>

definition no_db :: db_state where
  "no_db =
     \<lparr>qd_databases = None, qd_tables = None, qd_loadingTables = None, qd_expandedDbs = None, qd_loadingDbs = False,
      qd_innerTabs = None, qd_activeInnerTabId = None, qd_error = None\<rparr>"

definition defaultRedisState :: "int option \<Rightarrow> redis_tab_state" where
  "defaultRedisState database =
     \<lparr>rs_currentDb = Some (max 0 (case database of None \<Rightarrow> 0 | Some d \<Rightarrow> d)), rs_scanCursor = Some ''0'', rs_keys = Some [],
      rs_keyFilter = Some ''*'', rs_selectedKey = None, rs_keyInfo = None, rs_loadingKeys = False, rs_hasMore = True,
      rs_dbKeyCounts = Some [], rs_scanRequestId = Some 0, rs_keyDetailRequestId = Some 0, rs_openKeyTabs = Some [],
      rs_activeRedisKey = Some None, rs_removedKey = None, rs_removedKeySeq = None, rs_error = None\<rparr>"

definition no_redis :: redis_tab_state where
  "no_redis =
     \<lparr>rs_currentDb = None, rs_scanCursor = None, rs_keys = None, rs_keyFilter = None, rs_selectedKey = None, rs_keyInfo = None,
      rs_loadingKeys = False, rs_hasMore = False, rs_dbKeyCounts = None, rs_scanRequestId = None, rs_keyDetailRequestId = None,
      rs_openKeyTabs = None, rs_activeRedisKey = None, rs_removedKey = None, rs_removedKeySeq = None, rs_error = None\<rparr>"

definition getRedisOpenKeyTabs :: "redis_tab_state \<Rightarrow> string list" where
  "getRedisOpenKeyTabs state =
     (case rs_openKeyTabs state of
        Some ks \<Rightarrow> ks
      | None \<Rightarrow> (case rs_selectedKey state of None \<Rightarrow> [] | Some k \<Rightarrow> if k = [] then [] else [k]))"

definition getRedisActiveKey :: "redis_tab_state \<Rightarrow> string option" where
  "getRedisActiveKey state = (case rs_activeRedisKey state of None \<Rightarrow> rs_selectedKey state | Some k \<Rightarrow> k)"

definition defaultMongoState :: mongo_state where
  "defaultMongoState =
     \<lparr>qm_databases = Some [], qm_collections = Some [], qm_expandedDbs = Some [], qm_activeDatabase = None,
      qm_innerTabs = Some [], qm_activeInnerTabId = None, qm_error = None\<rparr>"

definition no_mongo :: mongo_state where
  "no_mongo =
     \<lparr>qm_databases = None, qm_collections = None, qm_expandedDbs = None, qm_activeDatabase = None,
      qm_innerTabs = None, qm_activeInnerTabId = None, qm_error = None\<rparr>"

definition toRedisMatchPattern :: "string \<Rightarrow> string" where
  "toRedisMatchPattern p =
     (let trimmed = trim p
      in if trimmed = [] then ''*''
         else if CHR ''*'' \<in> set trimmed \<or> CHR ''?'' \<in> set trimmed \<or> CHR ''['' \<in> set trimmed then trimmed
         else ''*'' @ trimmed @ ''*'')"

text \<open>The values of a key. \<open>None\<close> is a \<open>TypeError\<close>: a property of \<open>null\<close>, or spreading what is not iterable.\<close>

definition string_or :: "jsval \<Rightarrow> string \<Rightarrow> jsval" where
  "string_or v d = JStr (if nullish v then d else js_string v)"

definition elem_at :: "jsval list \<Rightarrow> nat \<Rightarrow> jsval" where
  "elem_at vs i = (if i < length vs then vs ! i else JUndef)"

definition prop_of :: "jsval \<Rightarrow> string \<Rightarrow> jsval option" where
  "prop_of v k = (if nullish v then None else Some (case v of JObj ps \<Rightarrow> get_prop ps k | _ \<Rightarrow> JUndef))"

definition pair_entry :: "string \<Rightarrow> string \<Rightarrow> string \<Rightarrow> jsval \<Rightarrow> jsval option" where
  "pair_entry a b d entry =
     (case entry of
        JArr es \<Rightarrow> Some (JArr [string_or (elem_at es 0) [], string_or (elem_at es 1) d])
      | _ \<Rightarrow>
          (case (prop_of entry a, prop_of entry b) of
             (Some x, Some y) \<Rightarrow> Some (JArr [string_or x [], string_or y d])
           | _ \<Rightarrow> None))"

definition stream_entry :: "jsval \<Rightarrow> jsval option" where
  "stream_entry entry =
     (case (prop_of entry ''id'', prop_of entry ''fields'') of
        (Some i, Some f) \<Rightarrow> Some (JObj [(''id'', string_or i []), (''fields'', if truthy f then f else JObj [])])
      | _ \<Rightarrow> None)"

fun map_entries :: "(jsval \<Rightarrow> jsval option) \<Rightarrow> jsval list \<Rightarrow> jsval list option" where
  "map_entries f [] = Some []"
| "map_entries f (v # vs) =
     (case (f v, map_entries f vs) of (Some x, Some xs) \<Rightarrow> Some (x # xs) | _ \<Rightarrow> None)"

definition normalizeRedisDetailValue :: "string \<Rightarrow> jsval \<Rightarrow> jsval option" where
  "normalizeRedisDetailValue type v =
     (case v of
        JArr vs \<Rightarrow>
          if type = ''hash'' then map_option JArr (map_entries (pair_entry ''field'' ''value'' []) vs)
          else if type = ''zset'' then map_option JArr (map_entries (pair_entry ''member'' ''score'' ''0'') vs)
          else if type = ''stream'' then map_option JArr (map_entries stream_entry vs)
          else Some v
      | _ \<Rightarrow> Some v)"

definition toRedisKeyInfo :: "redis_detail \<Rightarrow> redis_key_info option" where
  "toRedisKeyInfo detail =
     map_option (\<lambda>v. \<lparr>rk_type = dt_type detail, rk_ttl = dt_ttl detail, rk_size = dt_size detail, rk_value = v,
         rk_total = dt_total detail, rk_valueCursor = dt_valueCursor detail, rk_valueOffset = dt_valueOffset detail,
         rk_hasMoreValues = dt_hasMoreValues detail, rk_loadingMore = False\<rparr>)
       (normalizeRedisDetailValue (dt_type detail) (dt_value detail))"

section \<open>Tabs, calls and writes\<close>

definition getQueryActiveAssetIds :: "tab list \<Rightarrow> int list" where
  "getQueryActiveAssetIds tabs =
     remdups (List.map_filter (\<lambda>t. case (tb_type t, tb_meta t) of (TT_query, QueryMeta m) \<Rightarrow> Some (qm_assetId m) | _ \<Rightarrow> None) tabs)"

definition getQueryTabFromTabStore :: "tab list \<Rightarrow> string \<Rightarrow> query_meta option" where
  "getQueryTabFromTabStore tabs tabId =
     (case find (\<lambda>t. tb_id t = tabId) tabs of
        None \<Rightarrow> None
      | Some tab \<Rightarrow>
          if tb_type tab \<noteq> TT_query then None
          else (case tb_meta tab of QueryMeta m \<Rightarrow> Some m | _ \<Rightarrow> None))"

definition awaiting :: "query_wait \<Rightarrow> query_call \<Rightarrow> query_store \<Rightarrow> query_store" where
  "awaiting wt c q = q\<lparr>query_waits := query_waits q @ [wt], query_calls := query_calls q @ [c]\<rparr>"

definition settled_wait :: "query_wait \<Rightarrow> query_store \<Rightarrow> query_store" where
  "settled_wait wt q = q\<lparr>query_waits := remove1 wt (query_waits q)\<rparr>"

text \<open>The subscriber: a new \<open>dbStates\<close> or \<open>mongoStates\<close> starts the timer of the next save again.\<close>

definition schedule_save :: "query_store \<Rightarrow> query_store" where
  "schedule_save q = (if query_persistReady q then q\<lparr>query_saveTimer := True\<rparr> else q)"

definition set_db :: "string \<Rightarrow> db_state \<Rightarrow> query_store \<Rightarrow> query_store" where
  "set_db tabId st q = schedule_save (q\<lparr>dbStates := set_prop (dbStates q) tabId st\<rparr>)"

definition set_redis :: "string \<Rightarrow> redis_tab_state \<Rightarrow> query_store \<Rightarrow> query_store" where
  "set_redis tabId st q = q\<lparr>redisStates := set_prop (redisStates q) tabId st\<rparr>"

definition set_mongo :: "string \<Rightarrow> mongo_state \<Rightarrow> query_store \<Rightarrow> query_store" where
  "set_mongo tabId st q = schedule_save (q\<lparr>mongoStates := set_prop (mongoStates q) tabId st\<rparr>)"

definition db_spread :: "query_store \<Rightarrow> string \<Rightarrow> db_state" where
  "db_spread q tabId = (case map_of (dbStates q) tabId of None \<Rightarrow> no_db | Some st \<Rightarrow> st)"

definition redis_spread :: "query_store \<Rightarrow> string \<Rightarrow> redis_tab_state" where
  "redis_spread q tabId = (case map_of (redisStates q) tabId of None \<Rightarrow> no_redis | Some st \<Rightarrow> st)"

definition mongo_spread :: "query_store \<Rightarrow> string \<Rightarrow> mongo_state" where
  "mongo_spread q tabId = (case map_of (mongoStates q) tabId of None \<Rightarrow> no_mongo | Some st \<Rightarrow> st)"

definition error_or :: "string option \<Rightarrow> string \<Rightarrow> string option" where
  "error_or e err = (case e of Some (c # cs) \<Rightarrow> Some (c # cs) | _ \<Rightarrow> Some err)"

definition entries_of :: "'v list option \<Rightarrow> 'v list" where
  "entries_of m = (case m of None \<Rightarrow> [] | Some ps \<Rightarrow> ps)"

section \<open>Databases\<close>

text \<open>The names in the first column of a result.\<close>

definition first_text :: "(string \<times> jsval) list \<Rightarrow> string" where
  "first_text row = (case row of [] \<Rightarrow> [] | (k, v) # _ \<Rightarrow> if truthy v then js_string v else [])"

definition first_column :: "(string \<times> jsval) list list option \<Rightarrow> string list" where
  "first_column rows = filter (\<lambda>n. n \<noteq> []) (map first_text (entries_of rows))"

definition databases_sql :: "query_meta \<Rightarrow> string" where
  "databases_sql tab =
     (if qm_driver tab = Some ''postgresql''
      then ''SELECT datname FROM pg_database WHERE datistemplate = false ORDER BY datname''
      else ''SHOW DATABASES'')"

definition tables_sql :: "query_meta \<Rightarrow> string \<Rightarrow> string" where
  "tables_sql tab database =
     (if qm_driver tab = Some ''postgresql''
      then ''SELECT tablename FROM pg_tables WHERE schemaname = '' @ [SQ] @ ''public'' @ [SQ] @ '' ORDER BY tablename''
      else ''SHOW TABLES FROM `'' @ database @ ''`'')"

text \<open>The flag says that \<open>loadDatabases\<close> waits for the tables.\<close>

definition load_tables :: "tab list \<Rightarrow> string \<Rightarrow> bool \<Rightarrow> string \<Rightarrow> query_store \<Rightarrow> query_store" where
  "load_tables tabs tabId refreshing database q =
     (case (getQueryTabFromTabStore tabs tabId, map_of (dbStates q) tabId) of
        (Some tab, Some st) \<Rightarrow>
          awaiting (QW_tables tabId database refreshing) (QC_SQL (qm_assetId tab) (tables_sql tab database) database)
            (set_db tabId (st\<lparr>qd_loadingTables := Some (set_prop (entries_of (qd_loadingTables st)) database True)\<rparr>) q)
      | _ \<Rightarrow> q)"

definition loadTables :: "tab list \<Rightarrow> string \<Rightarrow> string \<Rightarrow> query_store \<Rightarrow> query_store" where
  "loadTables tabs tabId database q = load_tables tabs tabId False database q"

definition databases_failed :: "string \<Rightarrow> string \<Rightarrow> query_store \<Rightarrow> query_store" where
  "databases_failed tabId err q = set_db tabId ((db_spread q tabId)\<lparr>qd_loadingDbs := False, qd_error := Some err\<rparr>) q"

text \<open>When the state of the tab is gone both branches throw, and the error reaches \<open>loadDatabases\<close>.\<close>

definition tables_answered :: "string \<Rightarrow> string \<Rightarrow> string \<Rightarrow> bool \<Rightarrow> (string \<times> jsval) list list option reply \<Rightarrow> query_store \<Rightarrow> query_store" where
  "tables_answered type_error tabId database refreshing answer q0 =
     (let q = settled_wait (QW_tables tabId database refreshing) q0
      in case map_of (dbStates q) tabId of
           None \<Rightarrow> if refreshing then databases_failed tabId type_error q else q
         | Some st \<Rightarrow>
             let st1 = st\<lparr>qd_loadingTables := Some (set_prop (entries_of (qd_loadingTables st)) database False)\<rparr>
             in (case answer of
                   Reply rows \<Rightarrow>
                     set_db tabId (st1\<lparr>qd_tables := Some (set_prop (entries_of (qd_tables st)) database (first_column rows))\<rparr>) q
                 | Failed err \<Rightarrow>
                     set_db tabId (st1\<lparr>qd_tables := Some (set_prop (entries_of (qd_tables st)) database []),
                                       qd_error := error_or (qd_error st) err\<rparr>) q))"

definition loadDatabases :: "tab list \<Rightarrow> string \<Rightarrow> query_store \<Rightarrow> query_store" where
  "loadDatabases tabs tabId q =
     (case getQueryTabFromTabStore tabs tabId of
        None \<Rightarrow> q
      | Some tab \<Rightarrow>
          awaiting (QW_databases tabId) (QC_SQL (qm_assetId tab) (databases_sql tab) [])
            (set_db tabId ((db_spread q tabId)\<lparr>qd_loadingDbs := True\<rparr>) q))"

definition databases_answered :: "tab list \<Rightarrow> string \<Rightarrow> (string \<times> jsval) list list option reply \<Rightarrow> query_store \<Rightarrow> query_store" where
  "databases_answered tabs tabId answer q0 =
     (let q = settled_wait (QW_databases tabId) q0
      in case answer of
           Failed err \<Rightarrow> databases_failed tabId err q
         | Reply rows \<Rightarrow>
             let databases = first_column rows;
                 st = (db_spread q tabId)\<lparr>qd_databases := Some databases, qd_loadingDbs := False, qd_error := None\<rparr>;
                 expanded = filter (\<lambda>d. d \<in> set databases) (entries_of (qd_expandedDbs st))
             in fold (load_tables tabs tabId True) expanded (set_db tabId st q))"

definition refreshTables :: "tab list \<Rightarrow> string \<Rightarrow> string \<Rightarrow> query_store \<Rightarrow> query_store" where
  "refreshTables tabs tabId database q =
     (case map_of (dbStates q) tabId of None \<Rightarrow> q | Some st \<Rightarrow> loadTables tabs tabId database q)"

definition toggled :: "'a \<Rightarrow> 'a list \<Rightarrow> 'a list" where
  "toggled x xs = (if x \<in> set xs then filter (\<lambda>y. y \<noteq> x) xs else xs @ [x])"

definition toggleDbExpand :: "tab list \<Rightarrow> string \<Rightarrow> string \<Rightarrow> query_store \<Rightarrow> query_store" where
  "toggleDbExpand tabs tabId database q =
     (case map_of (dbStates q) tabId of
        None \<Rightarrow> q
      | Some st \<Rightarrow>
          (case (qd_expandedDbs st, qd_tables st) of
             (Some expanded, tables) \<Rightarrow>
               let opened = (\<lambda>q. set_db tabId ((db_spread q tabId)\<lparr>qd_expandedDbs := Some (toggled database expanded)\<rparr>) q)
               in if database \<in> set expanded then opened q
                  else (case tables of
                      None \<Rightarrow> q
                    | Some ts \<Rightarrow> opened (if map_of ts database = None then loadTables tabs tabId database q else q))
           | _ \<Rightarrow> q))"

text \<open>The operations on the inner tabs of a state that has them.\<close>

definition on_inner_tabs :: "string \<Rightarrow> (inner_tab list \<Rightarrow> db_state \<Rightarrow> db_state) \<Rightarrow> query_store \<Rightarrow> query_store" where
  "on_inner_tabs tabId f q =
     (case map_of (dbStates q) tabId of
        None \<Rightarrow> q
      | Some st \<Rightarrow> (case qd_innerTabs st of None \<Rightarrow> q | Some its \<Rightarrow> set_db tabId (f its st) q))"

definition openTableTab :: "string \<Rightarrow> string \<Rightarrow> string \<Rightarrow> query_store \<Rightarrow> query_store" where
  "openTableTab tabId database table =
     on_inner_tabs tabId (\<lambda>its st.
       let innerId = ''table:'' @ database @ ''.'' @ table
       in if list_ex (\<lambda>t. it_id t = innerId) its then st\<lparr>qd_activeInnerTabId := Some innerId\<rparr>
          else st\<lparr>qd_innerTabs := Some (its @ [TableTab innerId database table None]), qd_activeInnerTabId := Some innerId\<rparr>)"

definition is_sql_tab :: "inner_tab \<Rightarrow> bool" where
  "is_sql_tab t = (case t of SqlTab i s \<Rightarrow> True | _ \<Rightarrow> False)"

definition openSqlTab :: "string \<Rightarrow> string \<Rightarrow> string option \<Rightarrow> string option \<Rightarrow> query_store \<Rightarrow> query_store" where
  "openSqlTab now tabId database sql =
     on_inner_tabs tabId (\<lambda>its st.
       let count = length (filter is_sql_tab its) + 1; innerId = ''sql:'' @ now
       in st\<lparr>qd_innerTabs := Some (its @ [SqlTab innerId
              \<lparr>sq_title = ''SQL '' @ nat_str count, sq_sql = sql, sq_selectedDb = database, sq_editorHeight = None, sq_history = None\<rparr>]),
            qd_activeInnerTabId := Some innerId\<rparr>)"

text \<open>The active tab after one is closed: the next one, else the one before, of all tabs.\<close>

definition neighbor_id :: "('t \<Rightarrow> string) \<Rightarrow> string \<Rightarrow> 't list \<Rightarrow> string option \<Rightarrow> string option" where
  "neighbor_id tid gone its active =
     (if active \<noteq> Some gone then active
      else
        let found = find_index (\<lambda>t. tid t = gone) its;
            at = (\<lambda>k. if k < length its then Some (tid (its ! k)) else None);
            neighbor = (case found of
                None \<Rightarrow> at 0
              | Some idx \<Rightarrow> (case at (Suc idx) of Some i \<Rightarrow> Some i | None \<Rightarrow> if idx = 0 then None else at (idx - 1)))
        in case neighbor of Some (c # cs) \<Rightarrow> Some (c # cs) | _ \<Rightarrow> None)"

definition closeInnerTab :: "string \<Rightarrow> string \<Rightarrow> query_store \<Rightarrow> query_store" where
  "closeInnerTab tabId innerTabId =
     on_inner_tabs tabId (\<lambda>its st.
       st\<lparr>qd_innerTabs := Some (filter (\<lambda>t. it_id t \<noteq> innerTabId) its),
         qd_activeInnerTabId := neighbor_id it_id innerTabId its (qd_activeInnerTabId st)\<rparr>)"

definition setActiveInnerTab :: "string \<Rightarrow> string \<Rightarrow> query_store \<Rightarrow> query_store" where
  "setActiveInnerTab tabId innerTabId q =
     (case map_of (dbStates q) tabId of
        None \<Rightarrow> q
      | Some st \<Rightarrow> set_db tabId (st\<lparr>qd_activeInnerTabId := Some innerTabId\<rparr>) q)"

definition updateInnerTab :: "string \<Rightarrow> string \<Rightarrow> (inner_tab \<Rightarrow> inner_tab) \<Rightarrow> query_store \<Rightarrow> query_store" where
  "updateInnerTab tabId innerTabId patch =
     on_inner_tabs tabId (\<lambda>its st. st\<lparr>qd_innerTabs := Some (map (\<lambda>t. if it_id t = innerTabId then patch t else t) its)\<rparr>)"

definition markTableTabLoaded :: "string \<Rightarrow> string \<Rightarrow> query_store \<Rightarrow> query_store" where
  "markTableTabLoaded tabId innerTabId =
     updateInnerTab tabId innerTabId (\<lambda>t. case t of TableTab i d tb p \<Rightarrow> TableTab i d tb (Some False) | _ \<Rightarrow> t)"

definition add_history :: "string \<Rightarrow> inner_tab \<Rightarrow> inner_tab" where
  "add_history sql t =
     (case t of
        SqlTab i s \<Rightarrow> SqlTab i (s\<lparr>sq_history := Some (take 30 (sql # filter (\<lambda>h. h \<noteq> sql) (entries_of (sq_history s))))\<rparr>)
      | _ \<Rightarrow> t)"

definition addSqlHistory :: "string \<Rightarrow> string \<Rightarrow> string \<Rightarrow> query_store \<Rightarrow> query_store" where
  "addSqlHistory tabId innerTabId sql q =
     (if trim sql = [] then q else updateInnerTab tabId innerTabId (add_history (trim sql)) q)"

section \<open>Redis\<close>

definition next_id :: "nat option \<Rightarrow> nat" where
  "next_id i = (case i of None \<Rightarrow> 0 | Some n \<Rightarrow> n) + 1"

definition some_text :: "string option \<Rightarrow> string \<Rightarrow> string" where
  "some_text s d = (case s of Some (c # cs) \<Rightarrow> c # cs | _ \<Rightarrow> d)"

definition scanKeys :: "tab list \<Rightarrow> string \<Rightarrow> bool \<Rightarrow> query_store \<Rightarrow> query_store" where
  "scanKeys tabs tabId reset q =
     (case (getQueryTabFromTabStore tabs tabId, map_of (redisStates q) tabId) of
        (Some tab, Some st) \<Rightarrow>
          let cursor = (if reset then Some ''0'' else rs_scanCursor st);
              requestId = next_id (rs_scanRequestId st);
              count = (case qm_redisScanPageSize tab of Some n \<Rightarrow> if n = 0 then 200 else n | None \<Rightarrow> 200)
          in if \<not> reset \<and> rs_loadingKeys st then q
             else if \<not> reset \<and> cursor = Some ''0'' \<and> rs_keys st \<noteq> Some [] then q
             else awaiting (QW_scan tabId reset requestId)
                    (QC_Scan (qm_assetId tab) (rs_currentDb st) cursor (toRedisMatchPattern (some_text (rs_keyFilter st) ''*'')) count)
                    (set_redis tabId (st\<lparr>rs_loadingKeys := True, rs_scanRequestId := Some requestId\<rparr>) q)
      | _ \<Rightarrow> q)"

record scan_result =
  sr_cursor :: string
  sr_keys :: "string list option"
  sr_hasMore :: bool

definition scan_failed :: "string \<Rightarrow> string \<Rightarrow> redis_tab_state \<Rightarrow> query_store \<Rightarrow> query_store" where
  "scan_failed tabId err st q = set_redis tabId (st\<lparr>rs_loadingKeys := False, rs_error := Some err\<rparr>) q"

definition scan_answered :: "string \<Rightarrow> string \<Rightarrow> bool \<Rightarrow> nat \<Rightarrow> scan_result reply \<Rightarrow> query_store \<Rightarrow> query_store" where
  "scan_answered type_error tabId reset requestId answer q0 =
     (let q = settled_wait (QW_scan tabId reset requestId) q0
      in case map_of (redisStates q) tabId of
           None \<Rightarrow> q
         | Some st \<Rightarrow>
             if rs_scanRequestId st \<noteq> Some requestId then q
             else (case answer of
                 Failed err \<Rightarrow> scan_failed tabId err st q
               | Reply result \<Rightarrow>
                   (case (if reset then Some [] else rs_keys st) of
                      None \<Rightarrow> scan_failed tabId type_error st q
                    | Some before \<Rightarrow>
                        set_redis tabId (st\<lparr>rs_scanCursor := Some (if sr_cursor result = [] then ''0'' else sr_cursor result),
                          rs_keys := Some (before @ entries_of (sr_keys result)), rs_hasMore := sr_hasMore result,
                          rs_loadingKeys := False, rs_error := None\<rparr>) q)))"

definition selectRedisDb :: "tab list \<Rightarrow> string \<Rightarrow> int \<Rightarrow> query_store \<Rightarrow> query_store" where
  "selectRedisDb tabs tabId db q =
     (case getQueryTabFromTabStore tabs tabId of
        None \<Rightarrow> q
      | Some tab \<Rightarrow>
          let prev = redis_spread q tabId
          in scanKeys tabs tabId True
               (set_redis tabId ((defaultRedisState None)\<lparr>rs_currentDb := Some db, rs_keyFilter := Some (some_text (rs_keyFilter prev) ''*''),
                  rs_dbKeyCounts := Some (entries_of (rs_dbKeyCounts prev))\<rparr>) q))"

definition selectKey :: "tab list \<Rightarrow> string \<Rightarrow> string \<Rightarrow> query_store \<Rightarrow> query_store" where
  "selectKey tabs tabId key q =
     (case (getQueryTabFromTabStore tabs tabId, map_of (redisStates q) tabId) of
        (Some tab, Some st) \<Rightarrow>
          let requestId = next_id (rs_keyDetailRequestId st); openKeyTabs = getRedisOpenKeyTabs st
          in awaiting (QW_key tabId key (rs_currentDb st) requestId) (QC_Detail (qm_assetId tab) (rs_currentDb st) key [] 0)
               (set_redis tabId (st\<lparr>rs_selectedKey := Some key, rs_keyInfo := None, rs_keyDetailRequestId := Some requestId,
                  rs_openKeyTabs := Some (if key \<in> set openKeyTabs then openKeyTabs else openKeyTabs @ [key]),
                  rs_activeRedisKey := Some (Some key)\<rparr>) q)
      | _ \<Rightarrow> q)"

text \<open>An answer about a key is used while its request is the last one, for the selected key of the database.\<close>

definition for_key :: "string \<Rightarrow> string \<Rightarrow> int option \<Rightarrow> nat \<Rightarrow> (redis_tab_state \<Rightarrow> redis_tab_state) \<Rightarrow> query_store \<Rightarrow> query_store" where
  "for_key tabId key db requestId f q =
     (case map_of (redisStates q) tabId of
        None \<Rightarrow> q
      | Some current \<Rightarrow>
          if rs_keyDetailRequestId current \<noteq> Some requestId \<or> rs_selectedKey current \<noteq> Some key \<or> rs_currentDb current \<noteq> db then q
          else set_redis tabId (f current) q)"

definition key_answered :: "string \<Rightarrow> string \<Rightarrow> int option \<Rightarrow> nat \<Rightarrow> redis_detail reply \<Rightarrow> query_store \<Rightarrow> query_store" where
  "key_answered tabId key db requestId answer q0 =
     (let q = settled_wait (QW_key tabId key db requestId) q0
      in case answer of
           Failed err \<Rightarrow> q
         | Reply detail \<Rightarrow>
             (case toRedisKeyInfo detail of
                None \<Rightarrow> q
              | Some keyInfo \<Rightarrow> for_key tabId key db requestId (\<lambda>st. st\<lparr>rs_keyInfo := Some keyInfo\<rparr>) q))"

definition loadMoreValues :: "tab list \<Rightarrow> string \<Rightarrow> query_store \<Rightarrow> query_store" where
  "loadMoreValues tabs tabId q =
     (case (getQueryTabFromTabStore tabs tabId, map_of (redisStates q) tabId) of
        (Some tab, Some st) \<Rightarrow>
          (case (rs_keyInfo st, rs_selectedKey st) of
             (Some keyInfo, Some (c # cs)) \<Rightarrow>
               if \<not> rk_hasMoreValues keyInfo \<or> rk_loadingMore keyInfo then q
               else
                 let key = c # cs; requestId = next_id (rs_keyDetailRequestId st)
                 in awaiting (QW_values tabId key (rs_currentDb st) requestId keyInfo)
                      (QC_Detail (qm_assetId tab) (rs_currentDb st) key (rk_valueCursor keyInfo) (rk_valueOffset keyInfo))
                      (set_redis tabId (st\<lparr>rs_keyDetailRequestId := Some requestId, rs_keyInfo := Some (keyInfo\<lparr>rk_loadingMore := True\<rparr>)\<rparr>) q)
           | _ \<Rightarrow> q)
      | _ \<Rightarrow> q)"

text \<open>Spreading a value into an array.\<close>

definition spread_values :: "jsval \<Rightarrow> jsval list option" where
  "spread_values v = (case v of JArr vs \<Rightarrow> Some vs | JStr s \<Rightarrow> Some (map (\<lambda>c. JStr [c]) s) | _ \<Rightarrow> None)"

definition more_values :: "string \<Rightarrow> jsval \<Rightarrow> jsval \<Rightarrow> jsval option" where
  "more_values type old new =
     (let later = (if type = ''hash'' \<or> type = ''zset'' \<or> type = ''stream'' then new else if truthy new then new else JArr [])
      in case (spread_values old, spread_values later) of (Some xs, Some ys) \<Rightarrow> Some (JArr (xs @ ys)) | _ \<Rightarrow> None)"

definition next_page :: "redis_key_info \<Rightarrow> redis_detail \<Rightarrow> redis_key_info option" where
  "next_page keyInfo detail =
     Option.bind (toRedisKeyInfo detail) (\<lambda>later.
       map_option (\<lambda>v. keyInfo\<lparr>rk_value := v, rk_valueCursor := rk_valueCursor later, rk_valueOffset := rk_valueOffset later,
           rk_hasMoreValues := rk_hasMoreValues later, rk_loadingMore := False\<rparr>)
         (more_values (rk_type keyInfo) (rk_value keyInfo) (rk_value later)))"

definition values_answered :: "string \<Rightarrow> string \<Rightarrow> int option \<Rightarrow> nat \<Rightarrow> redis_key_info \<Rightarrow> redis_detail reply \<Rightarrow> query_store \<Rightarrow> query_store" where
  "values_answered tabId key db requestId keyInfo answer q0 =
     (let q = settled_wait (QW_values tabId key db requestId keyInfo) q0;
          merged = (case answer of Failed err \<Rightarrow> None | Reply detail \<Rightarrow> next_page keyInfo detail)
      in for_key tabId key db requestId
           (\<lambda>st. st\<lparr>rs_keyInfo := Some (case merged of None \<Rightarrow> keyInfo\<lparr>rk_loadingMore := False\<rparr> | Some i \<Rightarrow> i)\<rparr>) q)"

definition setKeyFilter :: "string \<Rightarrow> string \<Rightarrow> query_store \<Rightarrow> query_store" where
  "setKeyFilter tabId p q = set_redis tabId ((redis_spread q tabId)\<lparr>rs_keyFilter := Some (if p = [] then ''*'' else p)\<rparr>) q"

definition loadDbKeyCounts :: "tab list \<Rightarrow> string \<Rightarrow> query_store \<Rightarrow> query_store" where
  "loadDbKeyCounts tabs tabId q =
     (case getQueryTabFromTabStore tabs tabId of
        None \<Rightarrow> q
      | Some tab \<Rightarrow> awaiting (QW_counts tabId) (QC_RedisDatabases (qm_assetId tab)) q)"

definition counts_answered :: "string \<Rightarrow> (int \<times> int) list option reply \<Rightarrow> query_store \<Rightarrow> query_store" where
  "counts_answered tabId answer q0 =
     (let q = settled_wait (QW_counts tabId) q0; st = redis_spread q tabId
      in case answer of
           Reply databases \<Rightarrow>
             set_redis tabId (st\<lparr>rs_dbKeyCounts := Some (fold (\<lambda>(db, n) cs. AList.update db n cs) (entries_of databases) [])\<rparr>) q
         | Failed err \<Rightarrow> set_redis tabId (st\<lparr>rs_error := error_or (rs_error st) err\<rparr>) q)"

text \<open>The second argument is \<open>None\<close> when no key is given; an empty key counts as none.\<close>

definition clearSelectedKey :: "string \<Rightarrow> string option \<Rightarrow> query_store \<Rightarrow> query_store" where
  "clearSelectedKey tabId key q =
     (case map_of (redisStates q) tabId of
        None \<Rightarrow> q
      | Some st \<Rightarrow>
          if key \<noteq> None \<and> key \<noteq> Some [] \<and> rs_selectedKey st \<noteq> key then q
          else set_redis tabId (st\<lparr>rs_selectedKey := None, rs_keyInfo := None,
                 rs_activeRedisKey := Some (if rs_selectedKey st = None \<or> getRedisActiveKey st = rs_selectedKey st then None else getRedisActiveKey st),
                 rs_keyDetailRequestId := Some (next_id (rs_keyDetailRequestId st))\<rparr>) q)"

definition activateRedisOverview :: "string \<Rightarrow> query_store \<Rightarrow> query_store" where
  "activateRedisOverview tabId q =
     (case map_of (redisStates q) tabId of None \<Rightarrow> q | Some st \<Rightarrow> set_redis tabId (st\<lparr>rs_activeRedisKey := Some None\<rparr>) q)"

definition activateRedisKeyTab :: "tab list \<Rightarrow> string \<Rightarrow> string \<Rightarrow> query_store \<Rightarrow> query_store" where
  "activateRedisKeyTab tabs tabId key q =
     (case map_of (redisStates q) tabId of
        None \<Rightarrow> q
      | Some st \<Rightarrow>
          if key \<notin> set (getRedisOpenKeyTabs st) then q
          else if rs_selectedKey st \<noteq> Some key then selectKey tabs tabId key q
          else set_redis tabId (st\<lparr>rs_activeRedisKey := Some (Some key)\<rparr>) q)"

definition fallback_key :: "string \<Rightarrow> redis_tab_state \<Rightarrow> string option" where
  "fallback_key key st =
     (let openKeyTabs = getRedisOpenKeyTabs st; rest = filter (\<lambda>k. k \<noteq> key) openKeyTabs
      in if getRedisActiveKey st \<noteq> Some key then getRedisActiveKey st
         else (case find_index (\<lambda>k. k = key) openKeyTabs of
             None \<Rightarrow> None
           | Some currentIndex \<Rightarrow> if rest = [] then None else Some (rest ! min currentIndex (length rest - 1))))"

definition without_key :: "string \<Rightarrow> redis_tab_state \<Rightarrow> redis_tab_state" where
  "without_key key st =
     st\<lparr>rs_openKeyTabs := Some (filter (\<lambda>k. k \<noteq> key) (getRedisOpenKeyTabs st)),
       rs_activeRedisKey := Some (fallback_key key st),
       rs_selectedKey := (if rs_selectedKey st = Some key then fallback_key key st else rs_selectedKey st),
       rs_keyInfo := (if rs_selectedKey st = Some key then None else rs_keyInfo st),
       rs_keyDetailRequestId := (if rs_selectedKey st = Some key then Some (next_id (rs_keyDetailRequestId st)) else rs_keyDetailRequestId st)\<rparr>"

text \<open>The key that takes over is loaded.\<close>

definition load_fallback :: "tab list \<Rightarrow> string \<Rightarrow> string \<Rightarrow> redis_tab_state \<Rightarrow> query_store \<Rightarrow> query_store" where
  "load_fallback tabs tabId key st q =
     (case fallback_key key st of
        Some (c # cs) \<Rightarrow>
          if (getRedisActiveKey st = Some key \<or> rs_selectedKey st = Some key) \<and> rs_selectedKey st \<noteq> Some (c # cs)
          then selectKey tabs tabId (c # cs) q else q
      | _ \<Rightarrow> q)"

definition closeRedisKeyTab :: "tab list \<Rightarrow> string \<Rightarrow> string \<Rightarrow> query_store \<Rightarrow> query_store" where
  "closeRedisKeyTab tabs tabId key q =
     (case map_of (redisStates q) tabId of
        None \<Rightarrow> q
      | Some st \<Rightarrow> load_fallback tabs tabId key st (set_redis tabId (without_key key st) q))"

definition removeKey :: "tab list \<Rightarrow> string \<Rightarrow> string \<Rightarrow> query_store \<Rightarrow> query_store" where
  "removeKey tabs tabId key q =
     (case map_of (redisStates q) tabId of
        None \<Rightarrow> q
      | Some st \<Rightarrow>
          (case rs_keys st of
             None \<Rightarrow> q
           | Some ks \<Rightarrow>
               load_fallback tabs tabId key st
                 (set_redis tabId ((without_key key st)\<lparr>rs_keys := Some (filter (\<lambda>k. k \<noteq> key) ks), rs_removedKey := Some key,
                    rs_removedKeySeq := Some (next_id (rs_removedKeySeq st))\<rparr>) q)))"

section \<open>MongoDB\<close>

definition loadMongoDatabases :: "tab list \<Rightarrow> string \<Rightarrow> query_store \<Rightarrow> query_store" where
  "loadMongoDatabases tabs tabId q =
     (case getQueryTabFromTabStore tabs tabId of
        None \<Rightarrow> q
      | Some tab \<Rightarrow> awaiting (QW_mongo_databases tabId) (QC_MongoDatabases (qm_assetId tab)) q)"

definition mongo_failed :: "string \<Rightarrow> string \<Rightarrow> query_store \<Rightarrow> query_store" where
  "mongo_failed tabId err q =
     (let st = mongo_spread q tabId in set_mongo tabId (st\<lparr>qm_error := error_or (qm_error st) err\<rparr>) q)"

definition mongo_databases_answered :: "string \<Rightarrow> string list reply \<Rightarrow> query_store \<Rightarrow> query_store" where
  "mongo_databases_answered tabId answer q0 =
     (let q = settled_wait (QW_mongo_databases tabId) q0
      in case answer of
           Reply databases \<Rightarrow> set_mongo tabId ((mongo_spread q tabId)\<lparr>qm_databases := Some databases, qm_error := None\<rparr>) q
         | Failed err \<Rightarrow> mongo_failed tabId err q)"

definition loadMongoCollections :: "tab list \<Rightarrow> string \<Rightarrow> string \<Rightarrow> query_store \<Rightarrow> query_store" where
  "loadMongoCollections tabs tabId database q =
     (case getQueryTabFromTabStore tabs tabId of
        None \<Rightarrow> q
      | Some tab \<Rightarrow> awaiting (QW_mongo_collections tabId database) (QC_MongoCollections (qm_assetId tab) database) q)"

definition mongo_collections_answered :: "string \<Rightarrow> string \<Rightarrow> string \<Rightarrow> string list reply \<Rightarrow> query_store \<Rightarrow> query_store" where
  "mongo_collections_answered type_error tabId database answer q0 =
     (let q = settled_wait (QW_mongo_collections tabId database) q0
      in case answer of
           Failed err \<Rightarrow> mongo_failed tabId err q
         | Reply collections \<Rightarrow>
             (case map_of (mongoStates q) tabId of
                None \<Rightarrow> mongo_failed tabId type_error q
              | Some st \<Rightarrow> set_mongo tabId (st\<lparr>qm_collections := Some (set_prop (entries_of (qm_collections st)) database collections)\<rparr>) q))"

definition toggleMongoDbExpand :: "tab list \<Rightarrow> string \<Rightarrow> string \<Rightarrow> query_store \<Rightarrow> query_store" where
  "toggleMongoDbExpand tabs tabId database q =
     (case map_of (mongoStates q) tabId of
        None \<Rightarrow> q
      | Some st \<Rightarrow>
          (case (qm_expandedDbs st, qm_collections st) of
             (Some expanded, collections) \<Rightarrow>
               let opened = (\<lambda>active q. set_mongo tabId
                     ((mongo_spread q tabId)\<lparr>qm_expandedDbs := Some (toggled database expanded), qm_activeDatabase := active\<rparr>) q)
               in if database \<in> set expanded then opened (qm_activeDatabase st) q
                  else (case collections of
                      None \<Rightarrow> q
                    | Some cs \<Rightarrow> opened (Some database)
                        (if map_of cs database = None then loadMongoCollections tabs tabId database q else q))
           | _ \<Rightarrow> q))"

definition on_mongo_tabs :: "string \<Rightarrow> (mongo_inner_tab list \<Rightarrow> mongo_state \<Rightarrow> mongo_state) \<Rightarrow> query_store \<Rightarrow> query_store" where
  "on_mongo_tabs tabId f q =
     (case map_of (mongoStates q) tabId of
        None \<Rightarrow> q
      | Some st \<Rightarrow> (case qm_innerTabs st of None \<Rightarrow> q | Some its \<Rightarrow> set_mongo tabId (f its st) q))"

definition openCollectionTab :: "string \<Rightarrow> string \<Rightarrow> string \<Rightarrow> query_store \<Rightarrow> query_store" where
  "openCollectionTab tabId database collection =
     on_mongo_tabs tabId (\<lambda>its st.
       let innerId = ''collection:'' @ database @ ''.'' @ collection
       in if list_ex (\<lambda>t. mt_id t = innerId) its then st\<lparr>qm_activeInnerTabId := Some innerId\<rparr>
          else st\<lparr>qm_innerTabs := Some (its @ [CollectionTab innerId database collection None]), qm_activeInnerTabId := Some innerId\<rparr>)"

definition is_mongo_query :: "mongo_inner_tab \<Rightarrow> bool" where
  "is_mongo_query t = (case t of MongoQueryTab i s \<Rightarrow> True | _ \<Rightarrow> False)"

definition openMongoQueryTab :: "string \<Rightarrow> string \<Rightarrow> string option \<Rightarrow> string option \<Rightarrow> query_store \<Rightarrow> query_store" where
  "openMongoQueryTab now tabId database collection =
     on_mongo_tabs tabId (\<lambda>its st.
       let count = length (filter is_mongo_query its) + 1;
           innerId = ''mongo-query:'' @ now;
           resolvedDb = (case database of None \<Rightarrow> qm_activeDatabase st | Some d \<Rightarrow> Some d);
           queryText = (case collection of Some (c # cs) \<Rightarrow> ''db.'' @ (c # cs) @ ''.find({})'' | _ \<Rightarrow> [])
       in st\<lparr>qm_activeDatabase := (case resolvedDb of None \<Rightarrow> qm_activeDatabase st | Some d \<Rightarrow> Some d),
            qm_innerTabs := Some (its @ [MongoQueryTab innerId
              \<lparr>mq_title = ''Query '' @ nat_str count, mq_database = resolvedDb, mq_collection = collection, mq_operation = None,
               mq_queryText = Some queryText, mq_editorHeight = None\<rparr>]),
            qm_activeInnerTabId := Some innerId\<rparr>)"

definition closeMongoInnerTab :: "string \<Rightarrow> string \<Rightarrow> query_store \<Rightarrow> query_store" where
  "closeMongoInnerTab tabId innerTabId =
     on_mongo_tabs tabId (\<lambda>its st.
       st\<lparr>qm_innerTabs := Some (filter (\<lambda>t. mt_id t \<noteq> innerTabId) its),
         qm_activeInnerTabId := neighbor_id mt_id innerTabId its (qm_activeInnerTabId st)\<rparr>)"

definition setActiveMongoInnerTab :: "string \<Rightarrow> string \<Rightarrow> query_store \<Rightarrow> query_store" where
  "setActiveMongoInnerTab tabId innerTabId q =
     (case map_of (mongoStates q) tabId of
        None \<Rightarrow> q
      | Some st \<Rightarrow> set_mongo tabId (st\<lparr>qm_activeInnerTabId := Some innerTabId\<rparr>) q)"

definition updateMongoInnerTab :: "string \<Rightarrow> string \<Rightarrow> (mongo_inner_tab \<Rightarrow> mongo_inner_tab) \<Rightarrow> query_store \<Rightarrow> query_store" where
  "updateMongoInnerTab tabId innerTabId patch =
     on_mongo_tabs tabId (\<lambda>its st. st\<lparr>qm_innerTabs := Some (map (\<lambda>t. if mt_id t = innerTabId then patch t else t) its)\<rparr>)"

definition markMongoCollectionTabLoaded :: "string \<Rightarrow> string \<Rightarrow> query_store \<Rightarrow> query_store" where
  "markMongoCollectionTabLoaded tabId innerTabId =
     updateMongoInnerTab tabId innerTabId (\<lambda>t. case t of CollectionTab i d c p \<Rightarrow> CollectionTab i d c (Some False) | _ \<Rightarrow> t)"

section \<open>Opening a query tab\<close>

text \<open>
  \<open>cfg\<close> is the parsed configuration, \<open>None\<close> when \<open>JSON.parse\<close> throws; its \<open>database\<close> is a number for Redis
  and a name otherwise. \<open>assetType\<close> is the type of the asset, one of those a query tab shows.
\<close>

record query_config =
  qc_driver :: "string option"
  qc_database :: "string option"
  qc_redis_database :: "int option"
  qc_scan_page_size :: "int option"
  qc_key_separator :: "string option"

record open_opts =
  oo_initialSQL :: "string option"
  oo_initialMongo :: "string option"

definition upd_query :: "(query_store \<Rightarrow> query_store) \<Rightarrow> query_store app \<Rightarrow> query_store app" where
  "upd_query f a = a\<lparr>ap_rest := f (ap_rest a)\<rparr>"

definition positive :: "int option \<Rightarrow> int" where
  "positive n = max 0 (case n of None \<Rightarrow> 0 | Some i \<Rightarrow> i)"

definition query_meta_of :: "query_asset_type \<Rightarrow> query_config option \<Rightarrow> asset \<Rightarrow> query_meta" where
  "query_meta_of assetType cfg asset =
     (let redis = (assetType = QA_redis)
      in \<lparr>qm_assetId = as_ID asset, qm_assetName = as_Name asset, qm_assetIcon = as_Icon asset, qm_assetType = assetType,
          qm_driver = Option.bind cfg qc_driver,
          qm_defaultDatabase = (if redis then None else Option.bind cfg qc_database),
          qm_redisDatabase = (if redis then map_option (\<lambda>c. positive (qc_redis_database c)) cfg else None),
          qm_redisScanPageSize =
            (if redis then Option.bind cfg (\<lambda>c. if positive (qc_scan_page_size c) = 0 then None else Some (positive (qc_scan_page_size c)))
             else None),
          qm_redisKeySeparator = (if redis then Option.bind cfg qc_key_separator else None)\<rparr>)"

definition given_text :: "string option \<Rightarrow> bool" where
  "given_text s \<longleftrightarrow> s \<noteq> None \<and> s \<noteq> Some []"

definition set_query_text :: "string option \<Rightarrow> mongo_inner_tab \<Rightarrow> mongo_inner_tab" where
  "set_query_text txt0 t = (case t of MongoQueryTab i s \<Rightarrow> MongoQueryTab i (s\<lparr>mq_queryText := txt0\<rparr>) | _ \<Rightarrow> t)"

definition inject_mongo :: "string \<Rightarrow> string \<Rightarrow> string option \<Rightarrow> query_store \<Rightarrow> query_store" where
  "inject_mongo now tabId initial q0 =
     (let q = openMongoQueryTab now tabId None None q0
      in case Option.bind (map_of (mongoStates q) tabId) qm_activeInnerTabId of
           Some (c # cs) \<Rightarrow> updateMongoInnerTab tabId (c # cs) (set_query_text initial) q
         | _ \<Rightarrow> q)"

definition openQueryTab ::
  "query_config option \<Rightarrow> asset_group list \<Rightarrow> string \<Rightarrow> query_asset_type \<Rightarrow> asset \<Rightarrow> open_opts \<Rightarrow> query_store app \<Rightarrow> query_store app" where
  "openQueryTab cfg groups now assetType asset opts a =
     (let tabId = makeTabId (as_ID asset);
          inject_sql = (if given_text (oo_initialSQL opts) then openSqlTab now tabId None (oo_initialSQL opts) else id);
          inject = (if given_text (oo_initialMongo opts) then inject_mongo now tabId (oo_initialMongo opts) else id)
      in if list_ex (\<lambda>t. tb_id t = tabId) (open_tabs a) then
           upd_query (if assetType = QA_database then inject_sql else if assetType = QA_mongodb then inject else id) (activateTab tabId a)
         else
           let meta = query_meta_of assetType cfg asset;
               a1 = openTab \<lparr>tb_id = tabId, tb_type = TT_query, tb_label = formatAssetPath asset groups (Some '' / ''),
                      tb_icon = (if as_Icon asset = [] then None else Some (as_Icon asset)), tb_iconColor = None,
                      tb_meta = QueryMeta meta\<rparr> True a
           in upd_query (case assetType of
                  QA_database \<Rightarrow> inject_sql \<circ> set_db tabId defaultDbState
                | QA_mongodb \<Rightarrow> inject \<circ> set_mongo tabId defaultMongoState
                | QA_redis \<Rightarrow> set_redis tabId (defaultRedisState (qm_redisDatabase meta))
                | _ \<Rightarrow> id) a1)"

section \<open>Persistence and hooks\<close>

definition stripDbState :: "db_state \<Rightarrow> persisted_db" where
  "stripDbState s = \<lparr>pd_databases = qd_databases s, pd_tables = qd_tables s, pd_expandedDbs = qd_expandedDbs s,
     pd_innerTabs = qd_innerTabs s, pd_activeInnerTabId = qd_activeInnerTabId s\<rparr>"

definition stripMongoState :: "mongo_state \<Rightarrow> persisted_mongo" where
  "stripMongoState s = \<lparr>pm_databases = qm_databases s, pm_collections = qm_collections s, pm_expandedDbs = qm_expandedDbs s,
     pm_innerTabs = qm_innerTabs s, pm_activeInnerTabId = qm_activeInnerTabId s\<rparr>"

definition loadPersistedQueryStore :: "persisted_query item \<Rightarrow> persisted_query" where
  "loadPersistedQueryStore raw = (case raw of Stored p \<Rightarrow> p | _ \<Rightarrow> \<lparr>pq_dbStates = [], pq_mongoStates = []\<rparr>)"

definition savePersistedQueryStore :: "query_store \<Rightarrow> query_store" where
  "savePersistedQueryStore q =
     q\<lparr>ls_query := Stored \<lparr>pq_dbStates = map (\<lambda>(i, s). (i, stripDbState s)) (dbStates q),
                          pq_mongoStates = map (\<lambda>(i, s). (i, stripMongoState s)) (mongoStates q)\<rparr>\<rparr>"

definition save_timer_fired :: "query_store \<Rightarrow> query_store" where
  "save_timer_fired q = (if query_saveTimer q then savePersistedQueryStore (q\<lparr>query_saveTimer := False\<rparr>) else q)"

definition query_close_hook :: "tab \<Rightarrow> query_store \<Rightarrow> query_store" where
  "query_close_hook tab q =
     (if tb_type tab \<noteq> TT_query then q
      else schedule_save (q\<lparr>dbStates := del_prop (dbStates q) (tb_id tab), redisStates := del_prop (redisStates q) (tb_id tab),
             mongoStates := del_prop (mongoStates q) (tb_id tab)\<rparr>))"

definition pending_table :: "inner_tab \<Rightarrow> inner_tab" where
  "pending_table it = (case it of TableTab i d t p \<Rightarrow> TableTab i d t (Some True) | _ \<Rightarrow> it)"

definition pending_collection :: "mongo_inner_tab \<Rightarrow> mongo_inner_tab" where
  "pending_collection it = (case it of CollectionTab i d c p \<Rightarrow> CollectionTab i d c (Some True) | _ \<Rightarrow> it)"

definition restored_db :: "persisted_db option \<Rightarrow> db_state" where
  "restored_db saved =
     (case saved of
        None \<Rightarrow> defaultDbState
      | Some p \<Rightarrow> defaultDbState\<lparr>qd_databases := Some (entries_of (pd_databases p)), qd_tables := Some (entries_of (pd_tables p)),
          qd_expandedDbs := Some (entries_of (pd_expandedDbs p)), qd_innerTabs := Some (map pending_table (entries_of (pd_innerTabs p))),
          qd_activeInnerTabId := pd_activeInnerTabId p\<rparr>)"

definition restored_mongo :: "persisted_mongo option \<Rightarrow> mongo_state" where
  "restored_mongo saved =
     (case saved of
        None \<Rightarrow> defaultMongoState
      | Some p \<Rightarrow> defaultMongoState\<lparr>qm_databases := Some (entries_of (pm_databases p)), qm_collections := Some (entries_of (pm_collections p)),
          qm_expandedDbs := Some (entries_of (pm_expandedDbs p)), qm_innerTabs := Some (map pending_collection (entries_of (pm_innerTabs p))),
          qm_activeInnerTabId := pm_activeInnerTabId p\<rparr>)"

definition restore_tab :: "persisted_query \<Rightarrow> tab \<Rightarrow> query_store \<Rightarrow> query_store" where
  "restore_tab persisted tab q =
     (case tb_meta tab of
        QueryMeta m \<Rightarrow>
          (case qm_assetType m of
             QA_database \<Rightarrow> q\<lparr>dbStates := set_prop (dbStates q) (tb_id tab) (restored_db (map_of (pq_dbStates persisted) (tb_id tab)))\<rparr>
           | QA_mongodb \<Rightarrow> q\<lparr>mongoStates := set_prop (mongoStates q) (tb_id tab) (restored_mongo (map_of (pq_mongoStates persisted) (tb_id tab)))\<rparr>
           | QA_redis \<Rightarrow> q\<lparr>redisStates := set_prop (redisStates q) (tb_id tab) (defaultRedisState (qm_redisDatabase m))\<rparr>
           | _ \<Rightarrow> q)
      | _ \<Rightarrow> q)"

definition query_restore_hook :: "tab list \<Rightarrow> query_store \<Rightarrow> query_store" where
  "query_restore_hook tabs q =
     (let persisted = loadPersistedQueryStore (ls_query q);
          q1 = (schedule_save (fold (restore_tab persisted) tabs (q\<lparr>dbStates := [], redisStates := [], mongoStates := []\<rparr>)))\<lparr>query_persistReady := True\<rparr>;
          hasStale = (list_ex (\<lambda>(i, s). i \<notin> tb_id ` set tabs) (pq_dbStates persisted) \<or>
                      list_ex (\<lambda>(i, s). i \<notin> tb_id ` set tabs) (pq_mongoStates persisted))
      in if hasStale then savePersistedQueryStore q1 else q1)"

end
