(* ===== verification/QueryRuns.thy ===== *)
theory QueryRuns
  imports QueryStore
begin

text \<open>
  What holds of the query tabs over every run: the open keys of a Redis tab and the values it shows, the
  inner tabs and their active one, the statement history; what a reload restores; and where answers that
  come late do harm.
\<close>

section \<open>Reading the states after a write\<close>

named_theorems query_reads \<open>the states after the writes of the store\<close>

lemma set_db_reads [query_reads]:
  "dbStates (set_db i st q) = set_prop (dbStates q) i st" "redisStates (set_db i st q) = redisStates q"
  "mongoStates (set_db i st q) = mongoStates q" "query_waits (set_db i st q) = query_waits q" "ls_query (set_db i st q) = ls_query q"
  "query_persistReady (set_db i st q) = query_persistReady q"
  by (simp_all add: set_db_def schedule_save_def)

lemma set_redis_reads [query_reads]:
  "dbStates (set_redis i r q) = dbStates q" "redisStates (set_redis i r q) = set_prop (redisStates q) i r"
  "mongoStates (set_redis i r q) = mongoStates q" "query_waits (set_redis i r q) = query_waits q" "ls_query (set_redis i r q) = ls_query q"
  "query_persistReady (set_redis i r q) = query_persistReady q"
  by (simp_all add: set_redis_def)

lemma set_mongo_reads [query_reads]:
  "dbStates (set_mongo i m q) = dbStates q" "redisStates (set_mongo i m q) = redisStates q"
  "mongoStates (set_mongo i m q) = set_prop (mongoStates q) i m" "query_waits (set_mongo i m q) = query_waits q"
  "ls_query (set_mongo i m q) = ls_query q" "query_persistReady (set_mongo i m q) = query_persistReady q"
  by (simp_all add: set_mongo_def schedule_save_def)

lemma awaiting_reads [query_reads]:
  "dbStates (awaiting w c q) = dbStates q" "redisStates (awaiting w c q) = redisStates q" "mongoStates (awaiting w c q) = mongoStates q"
  "query_waits (awaiting w c q) = query_waits q @ [w]" "ls_query (awaiting w c q) = ls_query q"
  "query_persistReady (awaiting w c q) = query_persistReady q"
  by (simp_all add: awaiting_def)

lemma settled_reads [query_reads]:
  "dbStates (settled_wait w q) = dbStates q" "redisStates (settled_wait w q) = redisStates q"
  "mongoStates (settled_wait w q) = mongoStates q" "query_waits (settled_wait w q) = remove1 w (query_waits q)"
  "ls_query (settled_wait w q) = ls_query q" "query_persistReady (settled_wait w q) = query_persistReady q"
  by (simp_all add: settled_wait_def)

text \<open>A predicate on the states of a kind.\<close>

definition db_all :: "(db_state \<Rightarrow> bool) \<Rightarrow> query_store \<Rightarrow> bool" where
  "db_all P q \<longleftrightarrow> (\<forall>(i, st)\<in>set (dbStates q). P st)"

definition redis_all :: "(string \<Rightarrow> redis_tab_state \<Rightarrow> bool) \<Rightarrow> query_store \<Rightarrow> bool" where
  "redis_all P q \<longleftrightarrow> (\<forall>(i, r)\<in>set (redisStates q). P i r)"

definition mongo_all :: "(mongo_state \<Rightarrow> bool) \<Rightarrow> query_store \<Rightarrow> bool" where
  "mongo_all P q \<longleftrightarrow> (\<forall>(i, m)\<in>set (mongoStates q). P m)"

lemma db_allD: "db_all P q \<Longrightarrow> map_of (dbStates q) i = Some st \<Longrightarrow> P st"
  by (auto simp: db_all_def dest: map_of_SomeD)

lemma redis_allD: "redis_all P q \<Longrightarrow> map_of (redisStates q) i = Some r \<Longrightarrow> P i r"
  by (auto simp: redis_all_def dest: map_of_SomeD)

lemma mongo_allD: "mongo_all P q \<Longrightarrow> map_of (mongoStates q) i = Some m \<Longrightarrow> P m"
  by (auto simp: mongo_all_def dest: map_of_SomeD)

lemma db_all_writes [simp]:
  "db_all P q \<Longrightarrow> P st \<Longrightarrow> db_all P (set_db i st q)"
  "db_all P (set_redis i r q) = db_all P q" "db_all P (set_mongo i m q) = db_all P q"
  "db_all P (awaiting w c q) = db_all P q" "db_all P (settled_wait w q) = db_all P q"
  by (auto simp: db_all_def query_reads dest!: set_prop_values)

lemma redis_all_writes [simp]:
  "redis_all R q \<Longrightarrow> R i r \<Longrightarrow> redis_all R (set_redis i r q)"
  "redis_all R (set_db i st q) = redis_all R q" "redis_all R (set_mongo i m q) = redis_all R q"
  "redis_all R (awaiting w c q) = redis_all R q" "redis_all R (settled_wait w q) = redis_all R q"
  by (auto simp: redis_all_def query_reads dest!: set_prop_values)

lemma mongo_all_writes [simp]:
  "mongo_all P q \<Longrightarrow> P m \<Longrightarrow> mongo_all P (set_mongo i m q)"
  "mongo_all P (set_redis i r q) = mongo_all P q" "mongo_all P (set_db i st q) = mongo_all P q"
  "mongo_all P (awaiting w c q) = mongo_all P q" "mongo_all P (settled_wait w q) = mongo_all P q"
  by (auto simp: mongo_all_def query_reads dest!: set_prop_values)

section \<open>The keys of a Redis tab\<close>

text \<open>
  \<open>D\<close> is what the backend holds: the detail of a key of a tab's server, for a database, a cursor and an
  offset. \<open>showing\<close>: the first page of the key and the pages after it, in order, as far as they are loaded.
\<close>

type_synonym redis_backend = "string \<Rightarrow> int option \<Rightarrow> string \<Rightarrow> string \<Rightarrow> int \<Rightarrow> redis_detail"

inductive showing :: "redis_backend \<Rightarrow> string \<Rightarrow> int option \<Rightarrow> string \<Rightarrow> redis_key_info \<Rightarrow> bool"
  for D :: redis_backend and i :: string and db :: "int option" and key :: string where
  first_page: "toRedisKeyInfo (D i db key [] 0) = Some p \<Longrightarrow> showing D i db key p"
| later_page: "showing D i db key p \<Longrightarrow> rk_hasMoreValues p \<Longrightarrow>
    next_page p (D i db key (rk_valueCursor p) (rk_valueOffset p)) = Some p' \<Longrightarrow> showing D i db key p'"

definition idle :: "redis_key_info \<Rightarrow> redis_key_info" where
  "idle p = p\<lparr>rk_loadingMore := False\<rparr>"

lemma idle_idle [simp]: "idle (idle p) = idle p" "idle (p\<lparr>rk_loadingMore := b\<rparr>) = idle p"
  by (simp_all add: idle_def)

lemma showing_idle: "showing D i db key p \<Longrightarrow> idle p = p"
  by (induction rule: showing.induct) (auto simp: idle_def toRedisKeyInfo_def next_page_def bind_eq_Some_conv)

text \<open>The open keys are distinct, the active key is the selected one, which is open, and the values are its.\<close>

definition redis_tab_ok :: "redis_backend \<Rightarrow> string \<Rightarrow> redis_tab_state \<Rightarrow> bool" where
  "redis_tab_ok D i st \<longleftrightarrow>
     distinct (getRedisOpenKeyTabs st) \<and>
     (rs_openKeyTabs st = None \<longrightarrow> rs_selectedKey st = None) \<and>
     (\<forall>k. rs_selectedKey st = Some k \<longrightarrow> k \<in> set (getRedisOpenKeyTabs st)) \<and>
     (\<forall>k. getRedisActiveKey st = Some k \<longrightarrow> rs_selectedKey st = Some k) \<and>
     (\<forall>p. rs_keyInfo st = Some p \<longrightarrow> (\<exists>k. rs_selectedKey st = Some k \<and> showing D i (rs_currentDb st) k (idle p)))"

definition redis_ok :: "redis_backend \<Rightarrow> query_store \<Rightarrow> bool" where
  "redis_ok D q \<longleftrightarrow>
     redis_all (redis_tab_ok D) q \<and>
     (\<forall>i key db n p. QW_values i key db n p \<in> set (query_waits q) \<longrightarrow> showing D i db key p \<and> rk_hasMoreValues p)"

lemma redis_ok_write:
  "redis_ok D q \<Longrightarrow> redis_tab_ok D i st \<Longrightarrow> redis_ok D (set_redis i st q)"
  by (simp add: redis_ok_def query_reads)

lemma redis_ok_tab: "redis_ok D q \<Longrightarrow> map_of (redisStates q) i = Some st \<Longrightarrow> redis_tab_ok D i st"
  by (auto simp: redis_ok_def dest: redis_allD)

lemma redis_ok_frame:
  "redisStates q' = redisStates q \<Longrightarrow>
   (\<And>i key db n p. QW_values i key db n p \<in> set (query_waits q') \<Longrightarrow> QW_values i key db n p \<in> set (query_waits q)) \<Longrightarrow>
   redis_ok D q \<Longrightarrow> redis_ok D q'"
  unfolding redis_ok_def redis_all_def by (elim conjE, intro conjI) (simp, blast)

lemma redis_ok_settled: "redis_ok D q \<Longrightarrow> redis_ok D (settled_wait w q)"
  by (rule redis_ok_frame) (use set_remove1_subset [of w "query_waits q"] in \<open>auto simp: query_reads\<close>)

lemma redis_ok_awaiting:
  "redis_ok D q \<Longrightarrow> (\<And>i key db n p. w = QW_values i key db n p \<Longrightarrow> showing D i db key p \<and> rk_hasMoreValues p) \<Longrightarrow>
   redis_ok D (awaiting w c q)"
  by (auto simp: redis_ok_def query_reads)

lemma redis_tab_ok_fields [simp]:
  "redis_tab_ok D i (st\<lparr>rs_loadingKeys := b\<rparr>) = redis_tab_ok D i st" "redis_tab_ok D i (st\<lparr>rs_error := e\<rparr>) = redis_tab_ok D i st"
  "redis_tab_ok D i (st\<lparr>rs_scanRequestId := n\<rparr>) = redis_tab_ok D i st" "redis_tab_ok D i (st\<lparr>rs_scanCursor := c\<rparr>) = redis_tab_ok D i st"
  "redis_tab_ok D i (st\<lparr>rs_keys := ks\<rparr>) = redis_tab_ok D i st" "redis_tab_ok D i (st\<lparr>rs_hasMore := b\<rparr>) = redis_tab_ok D i st"
  "redis_tab_ok D i (st\<lparr>rs_keyFilter := f\<rparr>) = redis_tab_ok D i st" "redis_tab_ok D i (st\<lparr>rs_dbKeyCounts := cs\<rparr>) = redis_tab_ok D i st"
  "redis_tab_ok D i (st\<lparr>rs_removedKey := e\<rparr>) = redis_tab_ok D i st" "redis_tab_ok D i (st\<lparr>rs_removedKeySeq := n\<rparr>) = redis_tab_ok D i st"
  "redis_tab_ok D i (st\<lparr>rs_keyDetailRequestId := n\<rparr>) = redis_tab_ok D i st"
  by (simp_all add: redis_tab_ok_def getRedisOpenKeyTabs_def getRedisActiveKey_def cong: option.case_cong)

lemma redis_tab_ok_start [simp]:
  "redis_tab_ok D i (defaultRedisState d)" "redis_tab_ok D i no_redis"
  by (simp_all add: redis_tab_ok_def defaultRedisState_def no_redis_def getRedisOpenKeyTabs_def getRedisActiveKey_def)

lemma redis_tab_ok_spread: "redis_ok D q \<Longrightarrow> redis_tab_ok D i (redis_spread q i)"
  by (auto simp: redis_spread_def redis_ok_tab split: option.split)

lemma redis_ok_scan: "redis_ok D q \<Longrightarrow> redis_ok D (scanKeys tabs i reset q)"
  by (auto simp: scanKeys_def Let_def split: option.split
      intro!: redis_ok_awaiting redis_ok_write dest: redis_ok_tab)

lemma redis_ok_scan_answered: "redis_ok D q \<Longrightarrow> redis_ok D (scan_answered te i reset n a q)"
  by (auto simp: scan_answered_def scan_failed_def Let_def query_reads split: option.split reply.split
      intro!: redis_ok_settled redis_ok_write dest: redis_ok_tab)

lemma redis_ok_select_db: "redis_ok D q \<Longrightarrow> redis_ok D (selectRedisDb tabs i db q)"
  by (auto simp: selectRedisDb_def Let_def redis_tab_ok_def defaultRedisState_def getRedisOpenKeyTabs_def getRedisActiveKey_def
      split: option.split intro!: redis_ok_scan redis_ok_write)

lemma open_key_reads [simp]:
  "getRedisOpenKeyTabs (st\<lparr>rs_keyInfo := p\<rparr>) = getRedisOpenKeyTabs st"
  "getRedisOpenKeyTabs (st\<lparr>rs_keyDetailRequestId := n\<rparr>) = getRedisOpenKeyTabs st"
  "getRedisOpenKeyTabs (st\<lparr>rs_openKeyTabs := Some ks\<rparr>) = ks"
  "getRedisOpenKeyTabs (st\<lparr>rs_activeRedisKey := a\<rparr>) = getRedisOpenKeyTabs st"
  "getRedisActiveKey (st\<lparr>rs_keyInfo := p\<rparr>) = getRedisActiveKey st"
  "getRedisActiveKey (st\<lparr>rs_openKeyTabs := ks0\<rparr>) = getRedisActiveKey st"
  "getRedisActiveKey (st\<lparr>rs_keyDetailRequestId := n\<rparr>) = getRedisActiveKey st"
  "getRedisActiveKey (st\<lparr>rs_activeRedisKey := Some k0\<rparr>) = k0"
  by (simp_all add: getRedisOpenKeyTabs_def getRedisActiveKey_def cong: option.case_cong)

lemma selected_tab_ok:
  assumes "redis_tab_ok D i st"
  shows "key \<in> set (getRedisOpenKeyTabs st) \<Longrightarrow>
      redis_tab_ok D i (st\<lparr>rs_selectedKey := Some key, rs_keyInfo := None, rs_keyDetailRequestId := n,
        rs_openKeyTabs := Some (getRedisOpenKeyTabs st), rs_activeRedisKey := Some (Some key)\<rparr>)"
    "key \<notin> set (getRedisOpenKeyTabs st) \<Longrightarrow>
      redis_tab_ok D i (st\<lparr>rs_selectedKey := Some key, rs_keyInfo := None, rs_keyDetailRequestId := n,
        rs_openKeyTabs := Some (getRedisOpenKeyTabs st @ [key]), rs_activeRedisKey := Some (Some key)\<rparr>)"
  using assms by (auto simp: redis_tab_ok_def)

lemma redis_ok_select: "redis_ok D q \<Longrightarrow> redis_ok D (selectKey tabs i key q)"
  by (auto simp: selectKey_def Let_def split: option.split
      intro!: redis_ok_awaiting redis_ok_write selected_tab_ok intro: redis_ok_tab)

lemma redis_ok_for_key:
  assumes "redis_ok D q"
    and "\<And>st. map_of (redisStates q) i = Some st \<Longrightarrow> rs_selectedKey st = Some key \<Longrightarrow> rs_currentDb st = db \<Longrightarrow> redis_tab_ok D i (f st)"
  shows "redis_ok D (for_key i key db n f q)"
  using assms by (auto simp: for_key_def split: option.split intro!: redis_ok_write)

lemma with_info_ok:
  "redis_tab_ok D i st \<Longrightarrow> rs_selectedKey st = Some key \<Longrightarrow> showing D i (rs_currentDb st) key (idle p) \<Longrightarrow>
   redis_tab_ok D i (st\<lparr>rs_keyInfo := Some p\<rparr>)"
  by (auto simp: redis_tab_ok_def)

text \<open>An answer about a key is its first page, or the page asked for.\<close>

lemma redis_ok_key_answered:
  assumes "redis_ok D q" and "a = Reply (D i db key [] 0) \<or> (\<exists>e. a = Failed e)"
  shows "redis_ok D (key_answered i key db n a q)"
proof -
  have "redis_tab_ok D i (st\<lparr>rs_keyInfo := Some p\<rparr>)"
    if "toRedisKeyInfo (D i db key [] 0) = Some p" "map_of (redisStates (settled_wait w q)) i = Some st"
      "rs_selectedKey st = Some key" "rs_currentDb st = db" for p st w
    using that assms(1) showing.first_page [of D i db key p]
    by (intro with_info_ok) (auto simp: query_reads showing_idle dest: redis_ok_tab)
  then show ?thesis using assms
    by (auto simp: key_answered_def Let_def split: option.split intro!: redis_ok_settled redis_ok_for_key)
qed

lemma redis_ok_load_more:
  assumes "redis_ok D q"
  shows "redis_ok D (loadMoreValues tabs i q)"
proof -
  have "redis_ok D (awaiting (QW_values i k (rs_currentDb st) n p) c
      (set_redis i (st\<lparr>rs_keyDetailRequestId := m, rs_keyInfo := Some (p\<lparr>rk_loadingMore := True\<rparr>)\<rparr>) q))"
    if st: "map_of (redisStates q) i = Some st" "rs_keyInfo st = Some p" "rs_selectedKey st = Some k"
      and p: "rk_hasMoreValues p" "\<not> rk_loadingMore p" for st p k n m c
  proof -
    have ok: "redis_tab_ok D i st" using assms st by (simp add: redis_ok_tab)
    have "idle p = p" using p by (simp add: idle_def)
    with ok st have "showing D i (rs_currentDb st) k p" by (auto simp: redis_tab_ok_def)
    moreover from ok st have "redis_tab_ok D i (st\<lparr>rs_keyDetailRequestId := m, rs_keyInfo := Some (p\<lparr>rk_loadingMore := True\<rparr>)\<rparr>)"
      by (auto simp: redis_tab_ok_def)
    ultimately show ?thesis using assms p by (intro redis_ok_awaiting redis_ok_write) auto
  qed
  then show ?thesis using assms
    by (auto simp: loadMoreValues_def Let_def split: option.split list.split)
qed

lemma redis_ok_values_answered:
  assumes "redis_ok D q" and "QW_values i key db n p \<in> set (query_waits q)"
    and "a = Reply (D i db key (rk_valueCursor p) (rk_valueOffset p)) \<or> (\<exists>e. a = Failed e)"
  shows "redis_ok D (values_answered i key db n p a q)"
proof -
  have p: "showing D i db key p" "rk_hasMoreValues p" using assms(1,2) by (auto simp: redis_ok_def)
  have page: "showing D i db key (idle (case next_page p (D i db key (rk_valueCursor p) (rk_valueOffset p)) of
       None \<Rightarrow> p\<lparr>rk_loadingMore := False\<rparr> | Some x \<Rightarrow> x))"
    using p showing.later_page [OF p] by (auto simp: showing_idle split: option.split)
  have merged: "showing D i db key (idle (case (case a of Failed e \<Rightarrow> None | Reply d \<Rightarrow> next_page p d) of
       None \<Rightarrow> p\<lparr>rk_loadingMore := False\<rparr> | Some x \<Rightarrow> x))"
    using assms(3) page p by (auto simp: showing_idle)
  show ?thesis unfolding values_answered_def Let_def
    by (rule redis_ok_for_key [OF redis_ok_settled [OF assms(1)]], rule with_info_ok)
      (use merged assms(1) in \<open>auto simp: query_reads simp del: idle_idle dest: redis_ok_tab\<close>)
qed

lemma redis_ok_filter: "redis_ok D q \<Longrightarrow> redis_ok D (setKeyFilter i f q)"
  by (simp add: setKeyFilter_def redis_ok_write redis_tab_ok_spread)

lemma redis_ok_counts: "redis_ok D q \<Longrightarrow> redis_ok D (loadDbKeyCounts tabs i q)"
  by (auto simp: loadDbKeyCounts_def split: option.split intro!: redis_ok_awaiting)

lemma redis_ok_counts_answered: "redis_ok D q \<Longrightarrow> redis_ok D (counts_answered i a q)"
  by (auto simp: counts_answered_def Let_def split: reply.split
      intro!: redis_ok_write redis_ok_settled redis_tab_ok_spread [THEN redis_tab_ok_fields(8) [THEN iffD2]]
        redis_tab_ok_spread [THEN redis_tab_ok_fields(2) [THEN iffD2]])

lemma cleared_ok:
  assumes "redis_tab_ok D i st"
  shows "redis_tab_ok D i (st\<lparr>rs_selectedKey := None, rs_keyInfo := None,
     rs_activeRedisKey := Some (if rs_selectedKey st = None \<or> getRedisActiveKey st = rs_selectedKey st then None else getRedisActiveKey st),
     rs_keyDetailRequestId := n\<rparr>)"
proof -
  have "rs_selectedKey st = None \<or> getRedisActiveKey st = rs_selectedKey st \<or> getRedisActiveKey st = None"
    using assms by (cases "getRedisActiveKey st") (auto simp: redis_tab_ok_def)
  then have a: "(if rs_selectedKey st = None \<or> getRedisActiveKey st = rs_selectedKey st then None else getRedisActiveKey st) = None"
    by auto
  have "distinct (getRedisOpenKeyTabs (st\<lparr>rs_selectedKey := None\<rparr>))"
    using assms by (auto simp: redis_tab_ok_def getRedisOpenKeyTabs_def split: option.splits)
  with assms show ?thesis unfolding a by (simp add: redis_tab_ok_def)
qed

lemma redis_ok_clear:
  assumes "redis_ok D q"
  shows "redis_ok D (clearSelectedKey i k q)"
proof (cases "map_of (redisStates q) i")
  case None
  with assms show ?thesis by (simp add: clearSelectedKey_def)
next
  case (Some st)
  from redis_ok_write [OF assms cleared_ok [OF redis_ok_tab [OF assms Some]]] assms
  show ?thesis unfolding clearSelectedKey_def Some option.case
    by (cases "k \<noteq> None \<and> k \<noteq> Some [] \<and> rs_selectedKey st \<noteq> k") (simp_all only: if_True if_False simp_thms)
qed

lemma redis_ok_overview: "redis_ok D q \<Longrightarrow> redis_ok D (activateRedisOverview i q)"
  by (auto simp: activateRedisOverview_def redis_tab_ok_def split: option.split dest: redis_ok_tab intro!: redis_ok_write)

lemma redis_ok_activate: "redis_ok D q \<Longrightarrow> redis_ok D (activateRedisKeyTab tabs i k q)"
  by (auto simp: activateRedisKeyTab_def redis_tab_ok_def split: option.split dest: redis_ok_tab intro!: redis_ok_write redis_ok_select)

lemma fallback_key_in:
  assumes "fallback_key key st = Some k" and "getRedisActiveKey st = Some key"
  shows "k \<in> set (filter (\<lambda>x. x \<noteq> key) (getRedisOpenKeyTabs st))"
proof -
  define rest where "rest = filter (\<lambda>x. x \<noteq> key) (getRedisOpenKeyTabs st)"
  have "min n (length rest - 1) < length rest" if "rest \<noteq> []" for n
    using that by (cases rest) auto
  then have "rest ! min n (length rest - 1) \<in> set rest" if "rest \<noteq> []" for n
    using that nth_mem by blast
  with assms show ?thesis unfolding rest_def [symmetric]
    by (auto simp: fallback_key_def Let_def simp flip: rest_def simp del: find_index_None split: option.split_asm if_split_asm)
qed

lemma fallback_key_else: "getRedisActiveKey st \<noteq> Some key \<Longrightarrow> fallback_key key st = getRedisActiveKey st"
  by (simp add: fallback_key_def Let_def)

lemma without_key_ok:
  assumes ok: "redis_tab_ok D i st"
  shows "redis_tab_ok D i (without_key key st)"
proof (cases "rs_selectedKey st = Some key")
  case True
  have "k \<in> set (filter (\<lambda>x. x \<noteq> key) (getRedisOpenKeyTabs st))" if f: "fallback_key key st = Some k" for k
  proof (cases "getRedisActiveKey st = Some key")
    case act: True
    then show ?thesis by (rule fallback_key_in [OF f])
  next
    case False
    with f have "getRedisActiveKey st = Some k" by (simp add: fallback_key_else)
    with ok True False show ?thesis by (auto simp: redis_tab_ok_def)
  qed
  with True ok show ?thesis by (auto simp: redis_tab_ok_def without_key_def getRedisOpenKeyTabs_def getRedisActiveKey_def)
next
  case False
  with ok have "getRedisActiveKey st \<noteq> Some key" by (auto simp: redis_tab_ok_def)
  with False ok show ?thesis
    by (auto simp: redis_tab_ok_def without_key_def fallback_key_else getRedisOpenKeyTabs_def [of "st\<lparr>rs_openKeyTabs := _, rs_activeRedisKey := _,
       rs_selectedKey := _, rs_keyInfo := _, rs_keyDetailRequestId := _\<rparr>"] getRedisActiveKey_def [of "st\<lparr>rs_openKeyTabs := _, rs_activeRedisKey := _,
       rs_selectedKey := _, rs_keyInfo := _, rs_keyDetailRequestId := _\<rparr>"])
qed

lemma redis_ok_fallback: "redis_ok D q \<Longrightarrow> redis_ok D (load_fallback tabs i k st q)"
  by (auto simp: load_fallback_def split: option.split list.split intro: redis_ok_select)

lemma redis_ok_close_key: "redis_ok D q \<Longrightarrow> redis_ok D (closeRedisKeyTab tabs i k q)"
  by (auto simp: closeRedisKeyTab_def split: option.split intro!: redis_ok_fallback redis_ok_write without_key_ok dest: redis_ok_tab)

lemma redis_ok_remove_key: "redis_ok D q \<Longrightarrow> redis_ok D (removeKey tabs i k q)"
  by (auto simp: removeKey_def split: option.split intro!: redis_ok_fallback redis_ok_write without_key_ok dest: redis_ok_tab)

text \<open>The operations of the other kinds, and the hooks.\<close>

lemma redis_ok_set_db: "redis_ok D q \<Longrightarrow> redis_ok D (set_db i st q)"
  by (rule redis_ok_frame [of _ q]) (simp_all add: query_reads)

lemma redis_ok_set_mongo: "redis_ok D q \<Longrightarrow> redis_ok D (set_mongo i st q)"
  by (rule redis_ok_frame [of _ q]) (simp_all add: query_reads)

lemma redis_ok_on_inner: "redis_ok D q \<Longrightarrow> redis_ok D (on_inner_tabs i f q)"
  by (simp add: on_inner_tabs_def redis_ok_set_db split: option.split)

lemma redis_ok_on_mongo: "redis_ok D q \<Longrightarrow> redis_ok D (on_mongo_tabs i f q)"
  by (simp add: on_mongo_tabs_def redis_ok_set_mongo split: option.split)

lemma redis_ok_load_tables: "redis_ok D q \<Longrightarrow> redis_ok D (load_tables tabs i r d q)"
  by (auto simp: load_tables_def split: option.split intro!: redis_ok_awaiting redis_ok_set_db)

lemmas redis_ok_db_ops = redis_ok_set_db redis_ok_on_inner redis_ok_load_tables redis_ok_settled

lemma redis_ok_loads: "redis_ok D q \<Longrightarrow> redis_ok D (fold (load_tables tabs i r) ds q)"
  by (induction ds arbitrary: q) (simp_all add: redis_ok_load_tables)

section \<open>Inner tabs and history\<close>

definition inner_ok :: "string list \<Rightarrow> string option \<Rightarrow> bool" where
  "inner_ok ids active \<longleftrightarrow> distinct ids \<and> (\<forall>a. active = Some a \<longrightarrow> a \<in> set ids)"

text \<open>Statements without blanks at their ends, none empty, none twice, at most 30.\<close>

definition history_ok :: "string list \<Rightarrow> bool" where
  "history_ok h \<longleftrightarrow> length h \<le> 30 \<and> distinct h \<and> (\<forall>s\<in>set h. s \<noteq> [] \<and> trimmed s)"

definition history_of :: "inner_tab \<Rightarrow> string list" where
  "history_of t = (case t of SqlTab i s \<Rightarrow> entries_of (sq_history s) | _ \<Rightarrow> [])"

definition inner_tabs_ok :: "inner_tab list \<Rightarrow> string option \<Rightarrow> bool" where
  "inner_tabs_ok its active \<longleftrightarrow> inner_ok (map it_id its) active \<and> (\<forall>t\<in>set its. history_ok (history_of t))"

definition db_ok :: "db_state \<Rightarrow> bool" where
  "db_ok st \<longleftrightarrow> inner_tabs_ok (entries_of (qd_innerTabs st)) (qd_activeInnerTabId st)"

definition mongo_ok :: "mongo_state \<Rightarrow> bool" where
  "mongo_ok st \<longleftrightarrow> inner_ok (map mt_id (entries_of (qm_innerTabs st))) (qm_activeInnerTabId st)"

definition saved_ok :: "persisted_query item \<Rightarrow> bool" where
  "saved_ok raw \<longleftrightarrow>
     (\<forall>(i, p)\<in>set (pq_dbStates (loadPersistedQueryStore raw)). inner_tabs_ok (entries_of (pd_innerTabs p)) (pd_activeInnerTabId p)) \<and>
     (\<forall>(i, p)\<in>set (pq_mongoStates (loadPersistedQueryStore raw)). inner_ok (map mt_id (entries_of (pm_innerTabs p))) (pm_activeInnerTabId p))"

definition tabs_inner_ok :: "query_store \<Rightarrow> bool" where
  "tabs_inner_ok q \<longleftrightarrow> db_all db_ok q \<and> mongo_all mongo_ok q \<and> saved_ok (ls_query q)"

lemma inner_ok_simps [simp]: "inner_ok [] None" "history_ok []" "entries_of None = []" "entries_of (Some xs) = xs"
  by (simp_all add: inner_ok_def history_ok_def entries_of_def)

lemma db_ok_fields [simp]:
  "db_ok (st\<lparr>qd_databases := ds\<rparr>) = db_ok st" "db_ok (st\<lparr>qd_tables := ts\<rparr>) = db_ok st" "db_ok (st\<lparr>qd_loadingTables := l\<rparr>) = db_ok st"
  "db_ok (st\<lparr>qd_expandedDbs := ds\<rparr>) = db_ok st" "db_ok (st\<lparr>qd_loadingDbs := b\<rparr>) = db_ok st" "db_ok (st\<lparr>qd_error := e\<rparr>) = db_ok st"
  "db_ok defaultDbState" "db_ok no_db"
  by (simp_all add: db_ok_def defaultDbState_def no_db_def inner_tabs_ok_def)

lemma mongo_ok_fields [simp]:
  "mongo_ok (m\<lparr>qm_databases := ds\<rparr>) = mongo_ok m" "mongo_ok (m\<lparr>qm_collections := cs\<rparr>) = mongo_ok m"
  "mongo_ok (m\<lparr>qm_expandedDbs := ds\<rparr>) = mongo_ok m" "mongo_ok (m\<lparr>qm_activeDatabase := a\<rparr>) = mongo_ok m"
  "mongo_ok (m\<lparr>qm_error := e\<rparr>) = mongo_ok m" "mongo_ok defaultMongoState" "mongo_ok no_mongo"
  by (simp_all add: mongo_ok_def defaultMongoState_def no_mongo_def)

lemma tabs_inner_writes [simp]:
  "tabs_inner_ok q \<Longrightarrow> db_ok st \<Longrightarrow> tabs_inner_ok (set_db i st q)"
  "tabs_inner_ok q \<Longrightarrow> mongo_ok m \<Longrightarrow> tabs_inner_ok (set_mongo i m q)"
  "tabs_inner_ok (set_redis i r q) = tabs_inner_ok q" "tabs_inner_ok (awaiting w c q) = tabs_inner_ok q"
  "tabs_inner_ok (settled_wait w q) = tabs_inner_ok q"
  by (simp_all add: tabs_inner_ok_def query_reads)

lemma inner_db: "tabs_inner_ok q \<Longrightarrow> map_of (dbStates q) i = Some st \<Longrightarrow> db_ok st"
  by (auto simp: tabs_inner_ok_def dest: db_allD)

lemma inner_mongo: "tabs_inner_ok q \<Longrightarrow> map_of (mongoStates q) i = Some m \<Longrightarrow> mongo_ok m"
  by (auto simp: tabs_inner_ok_def dest: mongo_allD)

lemma inner_spreads: "tabs_inner_ok q \<Longrightarrow> db_ok (db_spread q i)" "tabs_inner_ok q \<Longrightarrow> mongo_ok (mongo_spread q i)"
  by (auto simp: db_spread_def mongo_spread_def inner_db inner_mongo split: option.split)

lemma neighbor_inner_ok:
  assumes "inner_ok (map tid its) active"
  shows "inner_ok (map tid (filter (\<lambda>t. tid t \<noteq> gone) its)) (neighbor_id tid gone its active)"
proof -
  have d: "distinct (map tid its)" using assms by (simp add: inner_ok_def)
  have other: "tid (its ! k) \<in> set (map tid (filter (\<lambda>t. tid t \<noteq> gone) its))"
    if "k < length its" "tid (its ! k) \<noteq> gone" for k
    using that by auto
  have apart: "tid (its ! k) \<noteq> gone" if "tid (its ! j) = gone" "j < length its" "k < length its" "k \<noteq> j" for j k
    using that d by (metis length_map nth_eq_iff_index_eq nth_map)
  have "a \<in> set (map tid (filter (\<lambda>t. tid t \<noteq> gone) its))" if "neighbor_id tid gone its active = Some a" for a
  proof (cases "active = Some gone")
    case False
    with that assms show ?thesis by (auto simp: neighbor_id_def inner_ok_def)
  next
    case True
    then have "\<exists>t\<in>set its. tid t = gone" using assms by (auto simp: inner_ok_def)
    then obtain j where j: "find_index (\<lambda>t. tid t = gone) its = Some j"
      by (cases "find_index (\<lambda>t. tid t = gone) its") auto
    from find_index_Some [OF j] have at: "j < length its" "tid (its ! j) = gone" by simp_all
    from that True j obtain k where "k < length its" "a = tid (its ! k)" "k = Suc j \<or> (j \<noteq> 0 \<and> k = j - 1)"
      by (auto simp: neighbor_id_def Let_def simp del: find_index_None split: if_split_asm list.split_asm option.split_asm)
    with apart [OF at(2,1)] other show ?thesis by auto
  qed
  with d show ?thesis by (auto simp: inner_ok_def distinct_map intro: inj_on_subset)
qed

lemma inner_on_db:
  assumes "tabs_inner_ok q"
    and "\<And>st its. map_of (dbStates q) i = Some st \<Longrightarrow> qd_innerTabs st = Some its \<Longrightarrow> db_ok st \<Longrightarrow> db_ok (f its st)"
  shows "tabs_inner_ok (on_inner_tabs i f q)"
  using assms inner_db [OF assms(1)] by (auto simp: on_inner_tabs_def split: option.split)

lemma inner_on_mongo:
  assumes "tabs_inner_ok q"
    and "\<And>m its. map_of (mongoStates q) i = Some m \<Longrightarrow> qm_innerTabs m = Some its \<Longrightarrow> mongo_ok m \<Longrightarrow> mongo_ok (f its m)"
  shows "tabs_inner_ok (on_mongo_tabs i f q)"
  using assms inner_mongo [OF assms(1)] by (auto simp: on_mongo_tabs_def split: option.split)

text \<open>The ids made from the time are new.\<close>

definition fresh_now :: "string \<Rightarrow> query_store \<Rightarrow> bool" where
  "fresh_now now q \<longleftrightarrow>
     (\<forall>(i, st)\<in>set (dbStates q). ''sql:'' @ now \<notin> it_id ` set (entries_of (qd_innerTabs st))) \<and>
     (\<forall>(i, m)\<in>set (mongoStates q). ''mongo-query:'' @ now \<notin> mt_id ` set (entries_of (qm_innerTabs m)))"

lemma fresh_nowD:
  "fresh_now now q \<Longrightarrow> map_of (dbStates q) i = Some st \<Longrightarrow> ''sql:'' @ now \<notin> it_id ` set (entries_of (qd_innerTabs st))"
  "fresh_now now q \<Longrightarrow> map_of (mongoStates q) i = Some m \<Longrightarrow> ''mongo-query:'' @ now \<notin> mt_id ` set (entries_of (qm_innerTabs m))"
  by (auto simp: fresh_now_def dest!: map_of_SomeD)

lemma inner_open_table: "tabs_inner_ok q \<Longrightarrow> tabs_inner_ok (openTableTab i d t q)"
  unfolding openTableTab_def Let_def
  by (rule inner_on_db) (auto simp: db_ok_def inner_tabs_ok_def inner_ok_def history_of_def list_ex_iff intro: rev_image_eqI)

lemma inner_open_sql: "tabs_inner_ok q \<Longrightarrow> fresh_now now q \<Longrightarrow> tabs_inner_ok (openSqlTab now i d s q)"
  unfolding openSqlTab_def Let_def
  by (rule inner_on_db) (auto simp: db_ok_def inner_tabs_ok_def inner_ok_def history_of_def dest: fresh_nowD(1))

lemma inner_close: "tabs_inner_ok q \<Longrightarrow> tabs_inner_ok (closeInnerTab i t q)"
  unfolding closeInnerTab_def
  by (rule inner_on_db) (auto simp: db_ok_def inner_tabs_ok_def neighbor_inner_ok)

definition keeps_history :: "(inner_tab \<Rightarrow> inner_tab) \<Rightarrow> bool" where
  "keeps_history f \<longleftrightarrow> (\<forall>t. it_id (f t) = it_id t \<and> (history_ok (history_of t) \<longrightarrow> history_ok (history_of (f t))))"

lemma inner_update: "tabs_inner_ok q \<Longrightarrow> keeps_history f \<Longrightarrow> tabs_inner_ok (updateInnerTab i t f q)"
  unfolding updateInnerTab_def
  by (rule inner_on_db) (auto simp: db_ok_def inner_tabs_ok_def keeps_history_def comp_def if_distrib cong: if_cong)

lemma keeps_history_loaded: "keeps_history (\<lambda>t. case t of TableTab i d tb p \<Rightarrow> TableTab i d tb (Some False) | _ \<Rightarrow> t)"
  by (auto simp: keeps_history_def history_of_def split: inner_tab.split)

lemma keeps_history_add: "trim s \<noteq> [] \<Longrightarrow> keeps_history (add_history (trim s))"
  by (auto simp: keeps_history_def history_of_def add_history_def history_ok_def trimmed_trim distinct_take
      dest!: in_set_takeD split: inner_tab.split)

lemma inner_history: "tabs_inner_ok q \<Longrightarrow> tabs_inner_ok (addSqlHistory i t s q)"
  by (simp add: addSqlHistory_def inner_update keeps_history_add)

lemma inner_mark: "tabs_inner_ok q \<Longrightarrow> tabs_inner_ok (markTableTabLoaded i t q)"
  by (simp add: markTableTabLoaded_def inner_update keeps_history_loaded)

lemma db_ok_active:
  "db_ok st \<Longrightarrow> t \<in> it_id ` set (entries_of (qd_innerTabs st)) \<Longrightarrow> db_ok (st\<lparr>qd_activeInnerTabId := Some t\<rparr>)"
  by (simp add: db_ok_def inner_tabs_ok_def inner_ok_def)

lemma mongo_ok_active:
  "mongo_ok m \<Longrightarrow> t \<in> mt_id ` set (entries_of (qm_innerTabs m)) \<Longrightarrow> mongo_ok (m\<lparr>qm_activeInnerTabId := Some t\<rparr>)"
  by (simp add: mongo_ok_def inner_ok_def)

lemma inner_set_active:
  "tabs_inner_ok q \<Longrightarrow> (\<And>st. map_of (dbStates q) i = Some st \<Longrightarrow> t \<in> it_id ` set (entries_of (qd_innerTabs st))) \<Longrightarrow>
   tabs_inner_ok (setActiveInnerTab i t q)"
  by (auto simp: setActiveInnerTab_def split: option.split dest: inner_db intro!: tabs_inner_writes(1) db_ok_active)

lemma inner_open_collection: "tabs_inner_ok q \<Longrightarrow> tabs_inner_ok (openCollectionTab i d c q)"
  unfolding openCollectionTab_def Let_def
  by (rule inner_on_mongo) (auto simp: mongo_ok_def inner_ok_def list_ex_iff intro: rev_image_eqI)

lemma inner_open_mongo: "tabs_inner_ok q \<Longrightarrow> fresh_now now q \<Longrightarrow> tabs_inner_ok (openMongoQueryTab now i d c q)"
  unfolding openMongoQueryTab_def Let_def
  by (rule inner_on_mongo) (auto simp: mongo_ok_def inner_ok_def dest: fresh_nowD(2))

lemma inner_close_mongo: "tabs_inner_ok q \<Longrightarrow> tabs_inner_ok (closeMongoInnerTab i t q)"
  unfolding closeMongoInnerTab_def
  by (rule inner_on_mongo) (auto simp: mongo_ok_def neighbor_inner_ok)

lemma inner_update_mongo:
  "tabs_inner_ok q \<Longrightarrow> (\<And>t. mt_id (f t) = mt_id t) \<Longrightarrow> tabs_inner_ok (updateMongoInnerTab i t f q)"
  unfolding updateMongoInnerTab_def
  by (rule inner_on_mongo) (auto simp: mongo_ok_def comp_def if_distrib cong: if_cong)

lemma inner_mark_mongo: "tabs_inner_ok q \<Longrightarrow> tabs_inner_ok (markMongoCollectionTabLoaded i t q)"
  unfolding markMongoCollectionTabLoaded_def by (rule inner_update_mongo) (simp_all split: mongo_inner_tab.split)

lemma inner_set_active_mongo:
  "tabs_inner_ok q \<Longrightarrow> (\<And>m. map_of (mongoStates q) i = Some m \<Longrightarrow> t \<in> mt_id ` set (entries_of (qm_innerTabs m))) \<Longrightarrow>
   tabs_inner_ok (setActiveMongoInnerTab i t q)"
  by (auto simp: setActiveMongoInnerTab_def split: option.split dest: inner_mongo intro!: tabs_inner_writes(2) mongo_ok_active)

lemma inner_inject: "tabs_inner_ok q \<Longrightarrow> fresh_now now q \<Longrightarrow> tabs_inner_ok (inject_mongo now i s q)"
  by (auto simp: inject_mongo_def Let_def set_query_text_def inner_open_mongo split: option.split list.split mongo_inner_tab.split
      intro!: inner_update_mongo)

text \<open>The loads of the databases and of MongoDB, and the operations of Redis.\<close>

lemma inner_load_tables: "tabs_inner_ok q \<Longrightarrow> tabs_inner_ok (load_tables tabs i r d q)"
  by (auto simp: load_tables_def split: option.split dest: inner_db intro!: tabs_inner_writes(1))

lemma inner_loads: "tabs_inner_ok q \<Longrightarrow> tabs_inner_ok (fold (load_tables tabs i r) ds q)"
  by (induction ds arbitrary: q) (simp_all add: inner_load_tables)

lemma inner_load_databases: "tabs_inner_ok q \<Longrightarrow> tabs_inner_ok (loadDatabases tabs i q)"
  by (auto simp: loadDatabases_def inner_spreads split: option.split)

lemma inner_databases_answered: "tabs_inner_ok q \<Longrightarrow> tabs_inner_ok (databases_answered tabs i a q)"
  by (auto simp: databases_answered_def databases_failed_def Let_def inner_spreads split: reply.split intro!: inner_loads)

lemma inner_tables_answered: "tabs_inner_ok q \<Longrightarrow> tabs_inner_ok (tables_answered te i d r a q)"
  by (auto simp: tables_answered_def databases_failed_def Let_def inner_spreads query_reads split: reply.split option.split dest: inner_db intro!: tabs_inner_writes(1))

lemma inner_toggle: "tabs_inner_ok q \<Longrightarrow> tabs_inner_ok (toggleDbExpand tabs i d q)"
  by (auto simp: toggleDbExpand_def loadTables_def Let_def inner_spreads inner_load_tables split: option.split)

lemma inner_mongo_databases_answered: "tabs_inner_ok q \<Longrightarrow> tabs_inner_ok (mongo_databases_answered i a q)"
  by (auto simp: mongo_databases_answered_def mongo_failed_def Let_def inner_spreads split: reply.split)

lemma inner_mongo_collections_answered: "tabs_inner_ok q \<Longrightarrow> tabs_inner_ok (mongo_collections_answered te i d a q)"
  by (auto simp: mongo_collections_answered_def mongo_failed_def Let_def inner_spreads query_reads split: reply.split option.split dest: inner_mongo intro!: tabs_inner_writes(2))

lemma inner_load_collections: "tabs_inner_ok q \<Longrightarrow> tabs_inner_ok (loadMongoCollections tabs i d q)"
  by (auto simp: loadMongoCollections_def split: option.split)

lemma inner_toggle_mongo: "tabs_inner_ok q \<Longrightarrow> tabs_inner_ok (toggleMongoDbExpand tabs i d q)"
  by (auto simp: toggleMongoDbExpand_def Let_def inner_spreads inner_load_collections split: option.split)

lemma inner_redis_ops [simp]:
  "tabs_inner_ok (scanKeys tabs i reset q) = tabs_inner_ok q" "tabs_inner_ok (scan_answered te i reset n sa q) = tabs_inner_ok q"
  "tabs_inner_ok (selectKey tabs i k q) = tabs_inner_ok q" "tabs_inner_ok (for_key i k db n f q) = tabs_inner_ok q"
  "tabs_inner_ok (key_answered i k db n ka q) = tabs_inner_ok q" "tabs_inner_ok (loadMoreValues tabs i q) = tabs_inner_ok q"
  "tabs_inner_ok (values_answered i k db n p ka q) = tabs_inner_ok q" "tabs_inner_ok (setKeyFilter i k q) = tabs_inner_ok q"
  "tabs_inner_ok (loadDbKeyCounts tabs i q) = tabs_inner_ok q" "tabs_inner_ok (counts_answered i ca q) = tabs_inner_ok q"
  "tabs_inner_ok (clearSelectedKey i ko q) = tabs_inner_ok q" "tabs_inner_ok (activateRedisOverview i q) = tabs_inner_ok q"
  by (simp_all add: scanKeys_def scan_answered_def scan_failed_def selectKey_def for_key_def key_answered_def loadMoreValues_def
      values_answered_def setKeyFilter_def loadDbKeyCounts_def counts_answered_def clearSelectedKey_def activateRedisOverview_def Let_def
      split: option.split reply.split list.split)

lemma inner_redis_switch [simp]:
  "tabs_inner_ok (selectRedisDb tabs i db q) = tabs_inner_ok q" "tabs_inner_ok (activateRedisKeyTab tabs i k q) = tabs_inner_ok q"
  "tabs_inner_ok (load_fallback tabs i k st q) = tabs_inner_ok q"
  by (simp_all add: selectRedisDb_def activateRedisKeyTab_def load_fallback_def Let_def split: option.split list.split)

lemma inner_redis_close [simp]:
  "tabs_inner_ok (closeRedisKeyTab tabs i k q) = tabs_inner_ok q" "tabs_inner_ok (removeKey tabs i k q) = tabs_inner_ok q"
  by (simp_all add: closeRedisKeyTab_def removeKey_def split: option.split)

section \<open>Hooks, opening and saving\<close>

lemma saved_reads [query_reads]:
  "dbStates (savePersistedQueryStore q) = dbStates q" "redisStates (savePersistedQueryStore q) = redisStates q"
  "mongoStates (savePersistedQueryStore q) = mongoStates q" "query_waits (savePersistedQueryStore q) = query_waits q"
  by (simp_all add: savePersistedQueryStore_def)

lemma schedule_reads [query_reads]:
  "dbStates (schedule_save q) = dbStates q" "redisStates (schedule_save q) = redisStates q" "mongoStates (schedule_save q) = mongoStates q"
  "query_waits (schedule_save q) = query_waits q" "ls_query (schedule_save q) = ls_query q"
  by (simp_all add: schedule_save_def)

lemma inner_saved: "tabs_inner_ok q \<Longrightarrow> tabs_inner_ok (savePersistedQueryStore q)"
  by (auto simp: tabs_inner_ok_def db_all_def mongo_all_def saved_ok_def savePersistedQueryStore_def loadPersistedQueryStore_def
      stripDbState_def stripMongoState_def db_ok_def mongo_ok_def)

lemma inner_timer: "tabs_inner_ok q \<Longrightarrow> tabs_inner_ok (save_timer_fired q)"
  using inner_saved [of "q\<lparr>query_saveTimer := False\<rparr>"]
  by (simp add: save_timer_fired_def tabs_inner_ok_def db_all_def mongo_all_def)

lemma inner_close_hook: "tabs_inner_ok q \<Longrightarrow> tabs_inner_ok (query_close_hook t q)"
  using set_del_prop [of "dbStates q" "tb_id t"] set_del_prop [of "mongoStates q" "tb_id t"]
  by (auto simp: query_close_hook_def tabs_inner_ok_def db_all_def mongo_all_def query_reads)

lemma redis_ok_timer: "redis_ok D q \<Longrightarrow> redis_ok D (save_timer_fired q)"
  by (rule redis_ok_frame [of _ q]) (simp_all add: save_timer_fired_def query_reads split: if_split_asm)

lemma redis_ok_close_hook: "redis_ok D q \<Longrightarrow> redis_ok D (query_close_hook t q)"
  using set_del_prop [of "redisStates q" "tb_id t"]
  by (auto simp: query_close_hook_def redis_ok_def redis_all_def query_reads)

lemma pending_ids [simp]: "it_id (pending_table t) = it_id t" "mt_id (pending_collection m) = mt_id m"
    "history_of (pending_table t) = history_of t"
  by (simp_all add: pending_table_def pending_collection_def history_of_def split: inner_tab.split mongo_inner_tab.split)

lemma restored_ok:
  "saved_ok raw \<Longrightarrow> db_ok (restored_db (map_of (pq_dbStates (loadPersistedQueryStore raw)) i))"
  "saved_ok raw \<Longrightarrow> mongo_ok (restored_mongo (map_of (pq_mongoStates (loadPersistedQueryStore raw)) i))"
  by (auto simp: saved_ok_def restored_db_def restored_mongo_def db_ok_def mongo_ok_def inner_tabs_ok_def comp_def
      defaultDbState_def defaultMongoState_def split: option.split dest!: map_of_SomeD)

lemma restore_tab_fields [simp]: "ls_query (restore_tab p t q) = ls_query q" "query_waits (restore_tab p t q) = query_waits q"
  by (simp_all add: restore_tab_def split: tab_meta.split query_asset_type.split)

lemma inner_restore_tabs:
  "saved_ok raw \<Longrightarrow> db_all db_ok q \<and> mongo_all mongo_ok q \<and> ls_query q = r \<Longrightarrow>
   db_all db_ok (fold (restore_tab (loadPersistedQueryStore raw)) ts q) \<and>
   mongo_all mongo_ok (fold (restore_tab (loadPersistedQueryStore raw)) ts q) \<and>
   ls_query (fold (restore_tab (loadPersistedQueryStore raw)) ts q) = r"
proof (induction ts arbitrary: q)
  case (Cons t ts)
  have "db_all db_ok (restore_tab (loadPersistedQueryStore raw) t q) \<and> mongo_all mongo_ok (restore_tab (loadPersistedQueryStore raw) t q)"
    using Cons.prems restored_ok [OF Cons.prems(1)]
    by (auto simp: restore_tab_def db_all_def mongo_all_def dest!: set_prop_values split: tab_meta.split query_asset_type.split)
  with Cons show ?case by simp
qed simp

lemma inner_restore:
  assumes "tabs_inner_ok q"
  shows "tabs_inner_ok (query_restore_hook ts q)"
proof -
  have s: "saved_ok (ls_query q)" using assms by (simp add: tabs_inner_ok_def)
  let ?q = "fold (restore_tab (loadPersistedQueryStore (ls_query q))) ts (q\<lparr>dbStates := [], redisStates := [], mongoStates := []\<rparr>)"
  have "db_all db_ok ?q \<and> mongo_all mongo_ok ?q \<and> ls_query ?q = ls_query q"
    using inner_restore_tabs [OF s, of "q\<lparr>dbStates := [], redisStates := [], mongoStates := []\<rparr>" "ls_query q" ts] by (simp add: db_all_def mongo_all_def)
  with s have "tabs_inner_ok ((schedule_save ?q)\<lparr>query_persistReady := True\<rparr>)"
    by (simp add: tabs_inner_ok_def db_all_def mongo_all_def query_reads)
  then show ?thesis by (simp add: query_restore_hook_def Let_def inner_saved)
qed

lemma redis_restore_tabs:
  "redis_all (redis_tab_ok D) q \<Longrightarrow>
   redis_all (redis_tab_ok D) (fold (restore_tab p) ts q) \<and> query_waits (fold (restore_tab p) ts q) = query_waits q"
proof (induction ts arbitrary: q)
  case (Cons t ts)
  have "redis_all (redis_tab_ok D) (restore_tab p t q)" using Cons.prems
    by (auto simp: restore_tab_def redis_all_def dest!: set_prop_values split: tab_meta.split query_asset_type.split)
  with Cons show ?case by simp
qed simp

lemma redis_ok_restore: "redis_ok D q \<Longrightarrow> redis_ok D (query_restore_hook ts q)"
  using redis_restore_tabs [of D "q\<lparr>dbStates := [], redisStates := [], mongoStates := []\<rparr>" "loadPersistedQueryStore (ls_query q)" ts]
  by (simp add: query_restore_hook_def Let_def redis_ok_def redis_all_def query_reads)

lemma ap_rest_open [simp]: "ap_rest (openTab t act a) = ap_rest a" "ap_rest (activateTab i a) = ap_rest a"
  by (simp_all add: openTab_def activateTab_def Let_def split: option.split)

lemma fresh_set [simp]:
  "fresh_now now q \<Longrightarrow> fresh_now now (set_db i defaultDbState q)" "fresh_now now q \<Longrightarrow> fresh_now now (set_mongo i defaultMongoState q)"
  by (auto simp: fresh_now_def query_reads defaultDbState_def defaultMongoState_def dest!: set_prop_values)

lemma inner_open_query:
  "tabs_inner_ok (ap_rest a) \<Longrightarrow> fresh_now now (ap_rest a) \<Longrightarrow> tabs_inner_ok (ap_rest (openQueryTab cfg gs now ty x opts a))"
  by (auto simp: openQueryTab_def upd_query_def Let_def inner_open_sql inner_inject split: query_asset_type.split)

lemma redis_ok_inject: "redis_ok D q \<Longrightarrow> redis_ok D (inject_mongo now i s q)"
  by (simp add: inject_mongo_def Let_def openMongoQueryTab_def updateMongoInnerTab_def redis_ok_on_mongo split: option.split list.split)

lemma redis_ok_open_query: "redis_ok D (ap_rest a) \<Longrightarrow> redis_ok D (ap_rest (openQueryTab cfg gs now ty x opts a))"
  by (auto simp: openQueryTab_def upd_query_def Let_def openSqlTab_def redis_ok_on_inner redis_ok_inject redis_ok_set_db redis_ok_set_mongo
      redis_ok_write split: query_asset_type.split)

section \<open>Runs\<close>

text \<open>
  Every operation of the store, with any tabs open in the tab store. An answer comes for a request that is
  awaited; what the backend says of a key is \<open>D\<close>. A tab is made active, and patched, as the panels do it: the
  active one is an inner tab, and a patch changes neither the id nor the history.
\<close>

inductive query_step :: "redis_backend \<Rightarrow> query_store \<Rightarrow> query_store \<Rightarrow> bool" for D :: redis_backend where
  qs_open: "ap_rest a = q \<Longrightarrow> fresh_now now q \<Longrightarrow> query_step D q (ap_rest (openQueryTab cfg groups now ty asset opts a))"
| qs_databases: "query_step D q (loadDatabases tabs i q)"
| qs_databases_answer: "QW_databases i \<in> set (query_waits q) \<Longrightarrow> query_step D q (databases_answered tabs i rows q)"
| qs_tables: "query_step D q (loadTables tabs i d q)"
| qs_tables_answer: "QW_tables i d r \<in> set (query_waits q) \<Longrightarrow> query_step D q (tables_answered te i d r rows q)"
| qs_refresh: "query_step D q (refreshTables tabs i d q)"
| qs_toggle: "query_step D q (toggleDbExpand tabs i d q)"
| qs_table_tab: "query_step D q (openTableTab i d table q)"
| qs_sql_tab: "fresh_now now q \<Longrightarrow> query_step D q (openSqlTab now i dbo sql q)"
| qs_close_inner: "query_step D q (closeInnerTab i t q)"
| qs_active_inner: "(\<And>st. map_of (dbStates q) i = Some st \<Longrightarrow> t \<in> it_id ` set (entries_of (qd_innerTabs st))) \<Longrightarrow>
    query_step D q (setActiveInnerTab i t q)"
| qs_update_inner: "keeps_history patch \<Longrightarrow> query_step D q (updateInnerTab i t patch q)"
| qs_table_loaded: "query_step D q (markTableTabLoaded i t q)"
| qs_history: "query_step D q (addSqlHistory i t s q)"
| qs_scan: "query_step D q (scanKeys tabs i reset q)"
| qs_scan_answer: "QW_scan i reset n \<in> set (query_waits q) \<Longrightarrow> query_step D q (scan_answered te i reset n result q)"
| qs_select_db: "query_step D q (selectRedisDb tabs i n q)"
| qs_select: "query_step D q (selectKey tabs i k q)"
| qs_key_answer: "QW_key i k db n \<in> set (query_waits q) \<Longrightarrow> answer = Reply (D i db k [] 0) \<or> (\<exists>e. answer = Failed e) \<Longrightarrow>
    query_step D q (key_answered i k db n answer q)"
| qs_more: "query_step D q (loadMoreValues tabs i q)"
| qs_values_answer: "QW_values i k db n p \<in> set (query_waits q) \<Longrightarrow>
    answer = Reply (D i db k (rk_valueCursor p) (rk_valueOffset p)) \<or> (\<exists>e. answer = Failed e) \<Longrightarrow>
    query_step D q (values_answered i k db n p answer q)"
| qs_filter: "query_step D q (setKeyFilter i f q)"
| qs_counts: "query_step D q (loadDbKeyCounts tabs i q)"
| qs_counts_answer: "QW_counts i \<in> set (query_waits q) \<Longrightarrow> query_step D q (counts_answered i counts q)"
| qs_clear: "query_step D q (clearSelectedKey i ko q)"
| qs_overview: "query_step D q (activateRedisOverview i q)"
| qs_key_tab: "query_step D q (activateRedisKeyTab tabs i k q)"
| qs_close_key: "query_step D q (closeRedisKeyTab tabs i k q)"
| qs_remove_key: "query_step D q (removeKey tabs i k q)"
| qs_mongo: "query_step D q (loadMongoDatabases tabs i q)"
| qs_mongo_answer: "QW_mongo_databases i \<in> set (query_waits q) \<Longrightarrow> query_step D q (mongo_databases_answered i ds q)"
| qs_collections: "query_step D q (loadMongoCollections tabs i d q)"
| qs_collections_answer: "QW_mongo_collections i d \<in> set (query_waits q) \<Longrightarrow> query_step D q (mongo_collections_answered te i d cs q)"
| qs_toggle_mongo: "query_step D q (toggleMongoDbExpand tabs i d q)"
| qs_collection_tab: "query_step D q (openCollectionTab i d c q)"
| qs_mongo_tab: "fresh_now now q \<Longrightarrow> query_step D q (openMongoQueryTab now i dbo co q)"
| qs_close_mongo: "query_step D q (closeMongoInnerTab i t q)"
| qs_active_mongo: "(\<And>m. map_of (mongoStates q) i = Some m \<Longrightarrow> t \<in> mt_id ` set (entries_of (qm_innerTabs m))) \<Longrightarrow>
    query_step D q (setActiveMongoInnerTab i t q)"
| qs_update_mongo: "(\<And>t. mt_id (mpatch t) = mt_id t) \<Longrightarrow> query_step D q (updateMongoInnerTab i t mpatch q)"
| qs_collection_loaded: "query_step D q (markMongoCollectionTabLoaded i t q)"
| qs_timer: "query_step D q (save_timer_fired q)"
| qs_closed: "query_step D q (query_close_hook tab q)"
| qs_restored: "query_step D q (query_restore_hook tabs q)"

inductive query_run :: "redis_backend \<Rightarrow> query_store \<Rightarrow> query_store \<Rightarrow> bool" for D :: redis_backend and q :: query_store where
  query_start: "query_run D q q"
| query_next: "query_run D q r \<Longrightarrow> query_step D r s \<Longrightarrow> query_run D q s"

definition query_init :: "persisted_query item \<Rightarrow> query_store" where
  "query_init raw = \<lparr>dbStates = [], redisStates = [], mongoStates = [], query_persistReady = False, query_saveTimer = False,
     ls_query = raw, query_waits = [], query_calls = []\<rparr>"

lemmas redis_ok_ops = redis_ok_scan redis_ok_scan_answered redis_ok_select_db redis_ok_select redis_ok_key_answered redis_ok_load_more
  redis_ok_values_answered redis_ok_filter redis_ok_counts redis_ok_counts_answered redis_ok_clear redis_ok_overview redis_ok_activate
  redis_ok_close_key redis_ok_remove_key redis_ok_timer redis_ok_close_hook redis_ok_restore redis_ok_open_query redis_ok_on_inner
  redis_ok_on_mongo redis_ok_load_tables

lemma redis_ok_await_other:
  "redis_ok D q \<Longrightarrow> (\<forall>i key db n p. w \<noteq> QW_values i key db n p) \<Longrightarrow> redis_ok D (awaiting w c q)"
  by (erule redis_ok_awaiting) simp

lemma redis_ok_other_ops:
  assumes "redis_ok D q"
  shows "redis_ok D (loadDatabases tabs i q)" "redis_ok D (databases_answered tabs i rows q)" "redis_ok D (tables_answered te i d r rows q)"
    "redis_ok D (toggleDbExpand tabs i d q)" "redis_ok D (setActiveInnerTab i t q)" "redis_ok D (loadMongoDatabases tabs i q)"
    "redis_ok D (mongo_databases_answered i ds q)" "redis_ok D (loadMongoCollections tabs i d q)"
    "redis_ok D (mongo_collections_answered te i d cs q)" "redis_ok D (toggleMongoDbExpand tabs i d q)" "redis_ok D (setActiveMongoInnerTab i t q)"
  using assms
  by (simp_all add: loadDatabases_def databases_answered_def databases_failed_def tables_answered_def toggleDbExpand_def loadTables_def
      setActiveInnerTab_def loadMongoDatabases_def mongo_databases_answered_def mongo_failed_def loadMongoCollections_def
      mongo_collections_answered_def toggleMongoDbExpand_def setActiveMongoInnerTab_def Let_def redis_ok_await_other redis_ok_set_db
      redis_ok_set_mongo redis_ok_load_tables redis_ok_loads redis_ok_settled split: option.split reply.split)

lemma redis_ok_step: "query_step D q q' \<Longrightarrow> redis_ok D q \<Longrightarrow> redis_ok D q'"
  by (induction rule: query_step.induct)
     (auto simp: redis_ok_ops redis_ok_other_ops loadTables_def refreshTables_def openTableTab_def openSqlTab_def closeInnerTab_def
        updateInnerTab_def markTableTabLoaded_def addSqlHistory_def openCollectionTab_def openMongoQueryTab_def closeMongoInnerTab_def
        updateMongoInnerTab_def markMongoCollectionTabLoaded_def split: option.split)

lemma redis_ok_run: "query_run D (query_init raw) q \<Longrightarrow> redis_ok D q"
proof (induction rule: query_run.induct)
  case query_start
  show ?case by (simp add: redis_ok_def redis_all_def query_init_def)
qed (rule redis_ok_step)

lemma inner_step: "query_step D q q' \<Longrightarrow> tabs_inner_ok q \<Longrightarrow> tabs_inner_ok q'"
  by (induction rule: query_step.induct)
     (auto simp: inner_open_query inner_load_databases inner_databases_answered inner_load_tables inner_tables_answered inner_toggle
        inner_open_table inner_open_sql inner_close inner_set_active inner_update inner_mark inner_history inner_mongo_databases_answered
        inner_mongo_collections_answered inner_load_collections inner_toggle_mongo inner_open_collection inner_open_mongo inner_close_mongo
        inner_set_active_mongo inner_update_mongo inner_mark_mongo inner_timer inner_close_hook inner_restore loadTables_def refreshTables_def
        loadMongoDatabases_def split: option.split)

lemma inner_run: "query_run D (query_init raw) q \<Longrightarrow> saved_ok raw \<Longrightarrow> tabs_inner_ok q"
proof (induction rule: query_run.induct)
  case query_start
  then show ?case by (simp add: tabs_inner_ok_def db_all_def mongo_all_def query_init_def)
qed (blast intro: inner_step)

section \<open>Properties\<close>

text \<open>
  C29: In every run, the open keys of a Redis tab are distinct, an active key is the selected one, the
  selected key is open, and the values shown are the first page of the selected key in the current
  database followed by the pages after it, in order, without a gap.
\<close>

theorem redis_shows_selected_key:
  assumes "query_run D (query_init raw) q" and "map_of (redisStates q) i = Some st"
  shows "distinct (getRedisOpenKeyTabs st) \<and>
    (\<forall>k. getRedisActiveKey st = Some k \<longrightarrow> rs_selectedKey st = Some k) \<and>
    (\<forall>k. rs_selectedKey st = Some k \<longrightarrow> k \<in> set (getRedisOpenKeyTabs st)) \<and>
    (\<forall>p. rs_keyInfo st = Some p \<longrightarrow> (\<exists>k. rs_selectedKey st = Some k \<and> showing D i (rs_currentDb st) k (idle p)))"
  using redis_ok_tab [OF redis_ok_run [OF assms(1)] assms(2)] by (simp add: redis_tab_ok_def)

text \<open>
  C30: In every run from an undamaged store, the inner tabs of a database or MongoDB tab have distinct ids, the
  active one is among them, and the history of a statement tab holds at most 30 statements, none twice and
  none with blanks around it.
\<close>

theorem inner_tabs_consistent:
  assumes "query_run D (query_init raw) q" and "saved_ok raw"
  shows "(\<forall>(i, st)\<in>set (dbStates q). inner_ok (map it_id (entries_of (qd_innerTabs st))) (qd_activeInnerTabId st) \<and>
           (\<forall>t\<in>set (entries_of (qd_innerTabs st)). history_ok (history_of t))) \<and>
    (\<forall>(i, m)\<in>set (mongoStates q). inner_ok (map mt_id (entries_of (qm_innerTabs m))) (qm_activeInnerTabId m))"
  using inner_run [OF assms] by (auto simp: tabs_inner_ok_def db_all_def mongo_all_def db_ok_def mongo_ok_def inner_tabs_ok_def)

lemma restore_tabs_miss:
  "i \<notin> tb_id ` set ts \<Longrightarrow> map_of (dbStates (fold (restore_tab p) ts q)) i = map_of (dbStates q) i"
  "i \<notin> tb_id ` set ts \<Longrightarrow> map_of (mongoStates (fold (restore_tab p) ts q)) i = map_of (mongoStates q) i"
  by (induction ts arbitrary: q) (auto simp: restore_tab_def split: tab_meta.split query_asset_type.split)

lemma restore_tabs_hit:
  assumes "distinct (map tb_id ts)" and "t \<in> set ts" and "tb_meta t = QueryMeta m"
  shows "qm_assetType m = QA_database \<Longrightarrow>
      map_of (dbStates (fold (restore_tab p) ts q)) (tb_id t) = Some (restored_db (map_of (pq_dbStates p) (tb_id t)))"
    "qm_assetType m = QA_mongodb \<Longrightarrow>
      map_of (mongoStates (fold (restore_tab p) ts q)) (tb_id t) = Some (restored_mongo (map_of (pq_mongoStates p) (tb_id t)))"
  using assms by (induction ts arbitrary: q) (auto simp: restore_tabs_miss restore_tab_def)

lemma map_of_saved: "map_of (map (\<lambda>(i, s). (i, f s)) ps) k = map_option f (map_of ps k)"
  by (induction ps) auto

definition complete_db :: "db_state \<Rightarrow> bool" where
  "complete_db st \<longleftrightarrow> qd_databases st \<noteq> None \<and> qd_tables st \<noteq> None \<and> qd_expandedDbs st \<noteq> None \<and> qd_innerTabs st \<noteq> None"

definition complete_mongo :: "mongo_state \<Rightarrow> bool" where
  "complete_mongo st \<longleftrightarrow> qm_databases st \<noteq> None \<and> qm_collections st \<noteq> None \<and> qm_expandedDbs st \<noteq> None \<and> qm_innerTabs st \<noteq> None"

definition reloaded :: "tab list \<Rightarrow> query_store \<Rightarrow> query_store" where
  "reloaded tabs q = query_restore_hook tabs (query_init (ls_query (savePersistedQueryStore q)))"

text \<open>
  C31: A reload restores the sidebar of every open tab from the last save: databases, tables, expanded databases,
  inner tabs and the active one, for databases and for MongoDB; a table or collection is marked as not
  loaded, nothing is loading, and no error is left.
\<close>

theorem reload_restores_sidebar:
  assumes "distinct (map tb_id tabs)" and "t \<in> set tabs" and "tb_meta t = QueryMeta m"
  shows "(qm_assetType m = QA_database \<and> map_of (dbStates q) (tb_id t) = Some st \<and> complete_db st \<longrightarrow>
      map_of (dbStates (reloaded tabs q)) (tb_id t) =
        Some (st\<lparr>qd_loadingTables := Some [], qd_loadingDbs := False, qd_error := None,
                 qd_innerTabs := map_option (map pending_table) (qd_innerTabs st)\<rparr>)) \<and>
    (qm_assetType m = QA_mongodb \<and> map_of (mongoStates q) (tb_id t) = Some mst \<and> complete_mongo mst \<longrightarrow>
      map_of (mongoStates (reloaded tabs q)) (tb_id t) =
        Some (mst\<lparr>qm_activeDatabase := None, qm_error := None,
                  qm_innerTabs := map_option (map pending_collection) (qm_innerTabs mst)\<rparr>))"
  using restore_tabs_hit [OF assms]
  by (auto simp: reloaded_def query_restore_hook_def Let_def query_reads query_init_def savePersistedQueryStore_def
      loadPersistedQueryStore_def map_of_saved stripDbState_def stripMongoState_def restored_db_def restored_mongo_def
      defaultDbState_def defaultMongoState_def complete_db_def complete_mongo_def)

text \<open>
  Selecting another Redis database starts the request ids again, so that the answer to the first scan of the
  database before is taken for the new one, whatever order the two answers come in: the tab says
  database \<open>db\<close> and lists the keys of the other.
\<close>

theorem stale_scan_crosses_databases:
  assumes "getQueryTabFromTabStore tabs i = Some tab" and "map_of (redisStates q) i = Some st" and "rs_scanRequestId st = Some 0"
    and "q1 = scanKeys tabs i True q" and "q2 = selectRedisDb tabs i db q1"
  shows "(\<exists>c m n. query_calls q1 = query_calls q @ [QC_Scan (qm_assetId tab) (rs_currentDb st) c m n]) \<and>
    query_waits q2 = query_waits q @ [QW_scan i True 1, QW_scan i True 1] \<and>
    (\<exists>st'. map_of (redisStates (scan_answered te i True 1 (Reply old) (scan_answered te i True 1 (Reply new) q2))) i = Some st' \<and>
           rs_currentDb st' = Some db \<and> rs_keys st' = Some (entries_of (sr_keys old)) \<and> \<not> rs_loadingKeys st')"
  using assms
  by (auto simp: scanKeys_def selectRedisDb_def Let_def query_reads next_id_def scan_answered_def defaultRedisState_def awaiting_def
      set_redis_def)

text \<open>
  The answer to a load of the databases that comes after the tab was closed makes a state for it again,
  without inner tabs; it stays until the asset is opened anew, and every open of a table in it does nothing.
\<close>

theorem late_answer_revives_closed_tab:
  assumes "tb_type tab = TT_query" and "r = databases_answered [] (tb_id tab) (Reply rows) (query_close_hook tab q)"
  shows "map_of (dbStates r) (tb_id tab) = Some (no_db\<lparr>qd_databases := Some (first_column rows)\<rparr>) \<and>
    openTableTab (tb_id tab) d t r = r"
  using assms
  by (simp add: query_close_hook_def databases_answered_def Let_def db_spread_def no_db_def query_reads openTableTab_def on_inner_tabs_def load_tables_def
      getQueryTabFromTabStore_def)

section \<open>The close hook\<close>

interpretation db_tabs: tab_keyed_store "\<lambda>q. fst ` set (dbStates q)" query_close_hook "\<lambda>t. tb_type t = TT_query"
  by unfold_locales (auto simp: query_close_hook_def query_reads keys_of_del_prop)

interpretation redis_tabs: tab_keyed_store "\<lambda>q. fst ` set (redisStates q)" query_close_hook "\<lambda>t. tb_type t = TT_query"
  by unfold_locales (auto simp: query_close_hook_def query_reads keys_of_del_prop)

interpretation mongo_tabs: tab_keyed_store "\<lambda>q. fst ` set (mongoStates q)" query_close_hook "\<lambda>t. tb_type t = TT_query"
  by unfold_locales (auto simp: query_close_hook_def query_reads keys_of_del_prop)

lemma closing_drops_states:
  "fst ` set (dbStates (fold query_close_hook ts q)) = fst ` set (dbStates q) - tb_id ` set (filter (\<lambda>t. tb_type t = TT_query) ts) \<and>
   fst ` set (redisStates (fold query_close_hook ts q)) = fst ` set (redisStates q) - tb_id ` set (filter (\<lambda>t. tb_type t = TT_query) ts) \<and>
   fst ` set (mongoStates (fold query_close_hook ts q)) = fst ` set (mongoStates q) - tb_id ` set (filter (\<lambda>t. tb_type t = TT_query) ts)"
  by (intro conjI db_tabs.fold_hook_keys redis_tabs.fold_hook_keys mongo_tabs.fold_hook_keys)

section \<open>Witnesses\<close>

definition ex_tab :: "string \<Rightarrow> query_asset_type \<Rightarrow> tab" where
  "ex_tab i ty = \<lparr>tb_id = i, tb_type = TT_query, tb_label = i, tb_icon = None, tb_iconColor = None,
     tb_meta = QueryMeta \<lparr>qm_assetId = 1, qm_assetName = i, qm_assetIcon = [], qm_assetType = ty, qm_driver = None, qm_defaultDatabase = None,
       qm_redisDatabase = None, qm_redisScanPageSize = None, qm_redisKeySeparator = None\<rparr>\<rparr>"

definition ex_tabs :: "tab list" where
  "ex_tabs = [ex_tab ''r'' QA_redis, ex_tab ''d'' QA_database]"

definition ex_backend :: redis_backend where
  "ex_backend i db k c n =
     (if n = 0 then \<lparr>dt_type = ''list'', dt_ttl = -1, dt_size = 3, dt_total = 3, dt_value = JArr [JStr ''a'', JStr ''b''],
        dt_valueCursor = [], dt_valueOffset = 2, dt_hasMoreValues = True\<rparr>
      else \<lparr>dt_type = ''list'', dt_ttl = -1, dt_size = 3, dt_total = 3, dt_value = JArr [JStr ''c''],
        dt_valueCursor = [], dt_valueOffset = 3, dt_hasMoreValues = False\<rparr>)"

definition ex_first :: redis_key_info where
  "ex_first = \<lparr>rk_type = ''list'', rk_ttl = -1, rk_size = 3, rk_value = JArr [JStr ''a'', JStr ''b''], rk_total = 3, rk_valueCursor = [],
     rk_valueOffset = 2, rk_hasMoreValues = True, rk_loadingMore = False\<rparr>"

definition ex_loaded :: query_store where
  "ex_loaded = loadMoreValues ex_tabs ''r''
     (key_answered ''r'' ''k'' (Some 0) 1 (Reply (ex_backend ''r'' (Some 0) ''k'' [] 0))
       (selectKey ex_tabs ''r'' ''k'' (query_restore_hook ex_tabs (query_init Absent))))"

definition ex_shown :: query_store where
  "ex_shown = values_answered ''r'' ''k'' (Some 0) 2 ex_first (Reply (ex_backend ''r'' (Some 0) ''k'' [] 2)) ex_loaded"

lemmas ex_query_defs = ex_tab_def ex_tabs_def ex_backend_def ex_first_def selectKey_def key_answered_def loadMoreValues_def values_answered_def
  query_restore_hook_def query_init_def restore_tab_def defaultRedisState_def restored_db_def defaultDbState_def loadPersistedQueryStore_def
  getQueryTabFromTabStore_def schedule_save_def awaiting_def settled_wait_def set_redis_def next_id_def getRedisOpenKeyTabs_def
  toRedisKeyInfo_def normalizeRedisDetailValue_def for_key_def next_page_def more_values_def spread_values_def Let_def

lemma ex_first_waits: "QW_key ''r'' ''k'' (Some 0) 1 \<in>
    set (query_waits (selectKey ex_tabs ''r'' ''k'' (query_restore_hook ex_tabs (query_init Absent))))"
  by code_simp

lemma ex_more_waits: "QW_values ''r'' ''k'' (Some 0) 2 ex_first \<in> set (query_waits ex_loaded)"
  by code_simp

definition ex_state :: redis_tab_state where
  "ex_state = (defaultRedisState None)\<lparr>rs_selectedKey := Some ''k'', rs_openKeyTabs := Some [''k''], rs_activeRedisKey := Some (Some ''k''),
     rs_keyDetailRequestId := Some 2, rs_keyInfo := Some (ex_first\<lparr>rk_value := JArr [JStr ''a'', JStr ''b'', JStr ''c''], rk_valueOffset := 3,
       rk_hasMoreValues := False\<rparr>)\<rparr>"

lemma ex_key_state: "map_of (redisStates ex_shown) ''r'' = Some ex_state"
  by code_simp

lemma ex_shown_run: "query_run ex_backend (query_init Absent) ex_shown"
proof -
  have "query_run ex_backend (query_init Absent) (query_restore_hook ex_tabs (query_init Absent))"
    by (rule query_next [OF query_start qs_restored])
  from query_next [OF query_next [OF query_next [OF this qs_select] qs_key_answer [OF ex_first_waits]] qs_more]
  have "query_run ex_backend (query_init Absent) ex_loaded" unfolding ex_loaded_def by blast
  then show ?thesis unfolding ex_shown_def
    by (rule query_next [OF _ qs_values_answer [OF ex_more_waits]]) (simp add: ex_first_def)
qed

theorem redis_shows_selected_key_witness:
  "\<exists>st p. map_of (redisStates ex_shown) ''r'' = Some st \<and> rs_keyInfo st = Some p \<and> rk_value p = JArr [JStr ''a'', JStr ''b'', JStr ''c''] \<and>
     (\<exists>k. rs_selectedKey st = Some k \<and> showing ex_backend ''r'' (rs_currentDb st) k (idle p))"
proof -
  have "\<exists>st p. map_of (redisStates ex_shown) ''r'' = Some st \<and> rs_keyInfo st = Some p \<and> rk_value p = JArr [JStr ''a'', JStr ''b'', JStr ''c'']"
    unfolding ex_key_state by (simp add: ex_state_def)
  then show ?thesis using redis_shows_selected_key [OF ex_shown_run] by blast
qed

definition ex_inner :: query_store where
  "ex_inner = closeInnerTab ''d'' ''sql:1'' (addSqlHistory ''d'' ''sql:1'' '' SELECT 1 '' (openSqlTab ''1'' ''d'' None None
     (openTableTab ''d'' ''db'' ''t'' (query_restore_hook ex_tabs (query_init Absent)))))"

theorem inner_tabs_consistent_witness:
  "map_option (\<lambda>st. (inner_ok (map it_id (entries_of (qd_innerTabs st))) (qd_activeInnerTabId st), qd_activeInnerTabId st))
     (map_of (dbStates ex_inner) ''d'') = Some (True, Some ''table:db.t'')"
proof -
  have r1: "query_run ex_backend (query_init Absent) (query_restore_hook ex_tabs (query_init Absent))"
    by (rule query_next [OF query_start qs_restored])
  have "fresh_now ''1'' (openTableTab ''d'' ''db'' ''t'' (query_restore_hook ex_tabs (query_init Absent)))"
    by (simp add: fresh_now_def openTableTab_def on_inner_tabs_def set_db_def ex_query_defs)
  from query_next [OF query_next [OF query_next [OF query_next [OF r1 qs_table_tab] qs_sql_tab [OF this]] qs_history] qs_close_inner]
  have "query_run ex_backend (query_init Absent) ex_inner" unfolding ex_inner_def by blast
  moreover have "saved_ok Absent" by (simp add: saved_ok_def loadPersistedQueryStore_def)
  ultimately have ok: "\<forall>(i, st)\<in>set (dbStates ex_inner). inner_ok (map it_id (entries_of (qd_innerTabs st))) (qd_activeInnerTabId st)"
    using inner_tabs_consistent by fast
  have "map_option qd_activeInnerTabId (map_of (dbStates ex_inner) ''d'') = Some (Some ''table:db.t'')"
    by (simp add: ex_inner_def closeInnerTab_def addSqlHistory_def updateInnerTab_def openSqlTab_def openTableTab_def on_inner_tabs_def
        set_db_def neighbor_id_def is_sql_tab_def trim_def trim_start_def trim_end_def is_space_def add_history_def ex_query_defs)
  then obtain st where "map_of (dbStates ex_inner) ''d'' = Some st" "qd_activeInnerTabId st = Some ''table:db.t''" by auto
  with ok show ?thesis by (force dest: map_of_SomeD)
qed

theorem reload_restores_sidebar_witness:
  "map_option (\<lambda>st. (qd_innerTabs st, qd_activeInnerTabId st)) (map_of (dbStates (reloaded ex_tabs ex_inner)) ''d'') =
     Some (Some [TableTab ''table:db.t'' ''db'' ''t'' (Some True)], Some ''table:db.t'')"
proof -
  obtain m where m: "tb_meta (ex_tab ''d'' QA_database) = QueryMeta m" "qm_assetType m = QA_database" by (simp add: ex_tab_def)
  define st where "st = the (map_of (dbStates ex_inner) ''d'')"
  have st: "map_of (dbStates ex_inner) (tb_id (ex_tab ''d'' QA_database)) = Some st" "complete_db st"
    "qd_innerTabs st = Some [TableTab ''table:db.t'' ''db'' ''t'' None]" "qd_activeInnerTabId st = Some ''table:db.t''"
    by (simp_all add: st_def ex_inner_def closeInnerTab_def addSqlHistory_def updateInnerTab_def openSqlTab_def openTableTab_def on_inner_tabs_def
        set_db_def neighbor_id_def is_sql_tab_def trim_def trim_start_def trim_end_def is_space_def add_history_def complete_db_def ex_query_defs)
  from reload_restores_sidebar [of ex_tabs "ex_tab ''d'' QA_database" m ex_inner st undefined] m st
  show ?thesis by (simp add: ex_tabs_def ex_tab_def pending_table_def)
qed

theorem stale_scan_crosses_databases_witness:
  "\<exists>q2. map_option (\<lambda>st. (rs_currentDb st, rs_keys st)) (map_of (redisStates (scan_answered [] ''r'' True 1
       (Reply \<lparr>sr_cursor = [], sr_keys = Some [''of db 0''], sr_hasMore = False\<rparr>) (scan_answered [] ''r'' True 1
       (Reply \<lparr>sr_cursor = [], sr_keys = Some [''of db 5''], sr_hasMore = False\<rparr>) q2))) ''r'') = Some (Some 5, Some [''of db 0''])"
proof -
  let ?q = "query_restore_hook ex_tabs (query_init Absent)"
  obtain tab st where "getQueryTabFromTabStore ex_tabs ''r'' = Some tab" "map_of (redisStates ?q) ''r'' = Some st" "rs_scanRequestId st = Some 0"
    by (simp add: ex_query_defs)
  from stale_scan_crosses_databases [OF this refl refl, of 5 "[]" "\<lparr>sr_cursor = [], sr_keys = Some [''of db 0''], sr_hasMore = False\<rparr>"
      "\<lparr>sr_cursor = [], sr_keys = Some [''of db 5''], sr_hasMore = False\<rparr>"]
  show ?thesis by fastforce
qed

theorem late_answer_revives_closed_tab_witness:
  "openTableTab ''d'' ''db'' ''t'' (databases_answered [] ''d'' (Reply None) (query_close_hook (ex_tab ''d'' QA_database) (query_init Absent))) =
     databases_answered [] ''d'' (Reply None) (query_close_hook (ex_tab ''d'' QA_database) (query_init Absent))"
  using late_answer_revives_closed_tab [OF _ refl, of "ex_tab ''d'' QA_database" None "query_init Absent" "''db''" "''t''"]
  by (simp add: ex_tab_def)

end
