(* ===== verification/RedisCommand.thy ===== *)
theory RedisCommand
  imports Prelude
begin

text \<open>
  The command line of the Redis panel, \<^verbatim>\<open>lib/redisCommand.ts\<close>: the loop over the trimmed input as a
  fold of one step per character; a thrown error is \<open>Inl\<close> of its message.
\<close>

record redis_state =
  rs_args :: "string list"
  rs_current :: string
  rs_quote :: "char option"
  rs_escaping :: bool
  rs_started :: bool

definition redis_start :: redis_state where
  "redis_start = \<lparr>rs_args = [], rs_current = [], rs_quote = None, rs_escaping = False, rs_started = False\<rparr>"

definition redis_step :: "redis_state \<Rightarrow> char \<Rightarrow> redis_state" where
  "redis_step st c =
     (if rs_escaping st then
        st\<lparr>rs_current := rs_current st @ [c], rs_escaping := False, rs_started := True\<rparr>
      else if c = BSL \<and> rs_quote st \<noteq> Some SQ then
        st\<lparr>rs_escaping := True, rs_started := True\<rparr>
      else if rs_quote st \<noteq> None then
        (if rs_quote st = Some c then st\<lparr>rs_quote := None, rs_started := True\<rparr>
         else st\<lparr>rs_current := rs_current st @ [c], rs_started := True\<rparr>)
      else if c = DQ \<or> c = SQ then
        st\<lparr>rs_quote := Some c, rs_started := True\<rparr>
      else if is_space c then
        (if rs_started st then st\<lparr>rs_args := rs_args st @ [rs_current st], rs_current := [], rs_started := False\<rparr>
         else st)
      else st\<lparr>rs_current := rs_current st @ [c], rs_started := True\<rparr>)"

definition redis_finish :: "redis_state \<Rightarrow> string + string list" where
  "redis_finish st =
     (let current = (if rs_escaping st then rs_current st @ [BSL] else rs_current st)
      in if rs_quote st \<noteq> None then Inl ''unterminated quoted argument''
         else Inr (if rs_started st then rs_args st @ [current] else rs_args st))"

definition parseRedisCommandLine :: "string \<Rightarrow> string + string list" where
  "parseRedisCommandLine input = redis_finish (foldl redis_step redis_start (trim input))"

section \<open>What is written is read\<close>

text \<open>Escaping inside double quotes, and the three ways to write an argument.\<close>

definition dq_escape :: "string \<Rightarrow> string" where
  "dq_escape s = concat (map (\<lambda>c. if c = DQ \<or> c = BSL then [BSL, c] else [c]) s)"

definition plain_arg :: "string \<Rightarrow> bool" where
  "plain_arg s \<longleftrightarrow> s \<noteq> [] \<and> (\<forall>c\<in>set s. c \<noteq> BSL \<and> c \<noteq> DQ \<and> c \<noteq> SQ \<and> \<not> is_space c)"

definition writes_arg :: "string \<Rightarrow> string \<Rightarrow> bool" where
  "writes_arg w s \<longleftrightarrow>
     (plain_arg s \<and> w = s) \<or>
     w = DQ # dq_escape s @ [DQ] \<or>
     (SQ \<notin> set s \<and> w = SQ # s @ [SQ])"

definition at_arg :: "string list \<Rightarrow> string \<Rightarrow> bool \<Rightarrow> redis_state" where
  "at_arg args cur started =
     \<lparr>rs_args = args, rs_current = cur, rs_quote = None, rs_escaping = False, rs_started = started\<rparr>"

definition in_quote :: "string list \<Rightarrow> string \<Rightarrow> char \<Rightarrow> redis_state" where
  "in_quote args cur q =
     \<lparr>rs_args = args, rs_current = cur, rs_quote = Some q, rs_escaping = False, rs_started = True\<rparr>"

lemmas redis_states = at_arg_def in_quote_def redis_step_def

lemma fold_plain:
  "\<forall>c\<in>set s. c \<noteq> BSL \<and> c \<noteq> DQ \<and> c \<noteq> SQ \<and> \<not> is_space c \<Longrightarrow>
   foldl redis_step (at_arg args cur started) s = at_arg args (cur @ s) (started \<or> s \<noteq> [])"
  by (induction s arbitrary: cur started) (auto simp: redis_states)

lemma fold_dq: "foldl redis_step (in_quote args cur DQ) (dq_escape s) = in_quote args (cur @ s) DQ"
  by (induction s arbitrary: cur) (auto simp: redis_states dq_escape_def)

lemma fold_sq: "SQ \<notin> set s \<Longrightarrow> foldl redis_step (in_quote args cur SQ) s = in_quote args (cur @ s) SQ"
  by (induction s arbitrary: cur) (auto simp: redis_states)

lemma quote_steps:
  "q = DQ \<or> q = SQ \<Longrightarrow> redis_step (at_arg args [] False) q = in_quote args [] q"
  "q = DQ \<or> q = SQ \<Longrightarrow> redis_step (in_quote args s q) q = at_arg args s True"
  by (auto simp: redis_states)

lemma fold_arg:
  "writes_arg w s \<Longrightarrow> foldl redis_step (at_arg args [] False) w = at_arg args s True"
proof -
  assume "writes_arg w s"
  then consider "plain_arg s" "w = s" | "w = DQ # dq_escape s @ [DQ]" | "SQ \<notin> set s" "w = SQ # s @ [SQ]"
    unfolding writes_arg_def by blast
  then show ?thesis
  proof cases
    case 1
    then show ?thesis using fold_plain [of s args "[]" False] by (simp add: plain_arg_def)
  next
    case 2
    then show ?thesis by (simp add: quote_steps fold_dq)
  next
    case 3
    then show ?thesis by (simp add: quote_steps fold_sq)
  qed
qed

lemma fold_args:
  "list_all2 writes_arg ws ss \<Longrightarrow> ss \<noteq> [] \<Longrightarrow>
   foldl redis_step (at_arg args [] False) (join '' '' ws) = at_arg (args @ butlast ss) (last ss) True"
proof (induction ws ss arbitrary: args rule: list_all2_induct)
  case (Cons w ws s ss)
  have space: "redis_step (at_arg args s True) CHR '' '' = at_arg (args @ [s]) [] False"
    by (simp add: redis_states is_space_def)
  show ?case
  proof (cases "ss = []")
    case True
    with Cons show ?thesis by (simp add: fold_arg)
  next
    case False
    with Cons have "ws \<noteq> []" by auto
    with False Cons show ?thesis by (simp add: join_Cons fold_arg space)
  qed
qed simp

lemma arg_ends: "writes_arg w s \<Longrightarrow> w \<noteq> [] \<and> \<not> is_space (hd w) \<and> \<not> is_space (last w)"
proof -
  assume "writes_arg w s"
  then consider "plain_arg s" "w = s" | "w = DQ # dq_escape s @ [DQ]" | "w = SQ # s @ [SQ]"
    unfolding writes_arg_def by blast
  then show ?thesis
  proof cases
    case 1
    then have "s \<noteq> []" "\<forall>c\<in>set s. \<not> is_space c" by (simp_all add: plain_arg_def)
    then show ?thesis using 1 by simp
  qed (simp_all add: is_space_def)
qed

lemma join_ends:
  "list_all2 writes_arg ws ss \<Longrightarrow> trimmed (join '' '' ws)"
proof -
  assume a: "list_all2 writes_arg ws ss"
  have "ws \<noteq> [] \<Longrightarrow> join '' '' ws \<noteq> [] \<and> \<not> is_space (hd (join '' '' ws)) \<and> \<not> is_space (last (join '' '' ws))"
    using a
  proof (induction ws ss rule: list_all2_induct)
    case (Cons w ws s ss)
    then show ?case using arg_ends [of w s] by (cases "ws = []") (auto simp: join_Cons)
  qed simp
  then show ?thesis by (cases "ws = []") (auto simp: trimmed_def)
qed

text \<open>
  Arguments written for the Redis command line are read back exactly: a list of arguments,
  each written bare (when it has no quote, backslash or space), in double quotes with quotes and
  backslashes escaped, or in single quotes (when it has none), and joined by spaces, parses to that
  list, empty arguments and arguments with spaces included.
\<close>

theorem redis_args_round_trip:
  assumes "list_all2 writes_arg ws args"
  shows "parseRedisCommandLine (join '' '' ws) = Inr args"
proof (cases "args = []")
  case True
  with assms show ?thesis
    by (simp add: parseRedisCommandLine_def redis_start_def redis_finish_def)
next
  case False
  have "redis_start = at_arg [] [] False" by (simp add: redis_start_def at_arg_def)
  then have "foldl redis_step redis_start (trim (join '' '' ws)) = at_arg (butlast args) (last args) True"
    using fold_args [OF assms False, of "[]"] trim_id [OF join_ends [OF assms]] by simp
  then show ?thesis using False by (simp add: parseRedisCommandLine_def redis_finish_def at_arg_def)
qed

theorem redis_args_round_trip_witness:
  "parseRedisCommandLine (''SET '' @ [DQ] @ ''a b'' @ [BSL, DQ, DQ] @ '' '' @ [SQ, SQ]) =
   Inr [''SET'', ''a b'' @ [DQ], []]"
proof -
  have "list_all2 writes_arg [''SET'', DQ # dq_escape (''a b'' @ [DQ]) @ [DQ], [SQ, SQ]] [''SET'', ''a b'' @ [DQ], []]"
    by (simp add: writes_arg_def plain_arg_def is_space_def)
  from redis_args_round_trip [OF this] show ?thesis by (simp add: dq_escape_def)
qed

text \<open>
  The input is trimmed before it is split, so an escaped space at its end is lost and its backslash
  becomes part of the argument.
\<close>

lemma trailing_escaped_space:
  "parseRedisCommandLine (''GET a'' @ [BSL] @ '' '') = Inr [''GET'', ''a'' @ [BSL]] \<and>
   parseRedisCommandLine (''GET a'' @ [BSL] @ ''  b'') = Inr [''GET'', ''a '', ''b'']"
  by code_simp

end
