(* ===== verification/RedisKeyTree.thy ===== *)
theory RedisKeyTree
  imports JsValue "HOL-Library.Sublist"
begin

text \<open>
  The key browser of the Redis panel, \<^verbatim>\<open>lib/redisKeyTree.ts\<close>: the tree of keys split at the
  separator, its rows on screen, and the local key filter. A node's \<open>children\<close> map is an association
  list in insertion order; the nodes the source updates in place are rebuilt along the path. The
  order of \<open>localeCompare\<close> is a parameter.
\<close>

datatype rnode = RNode string "string option" "(string \<times> rnode) list" nat

fun rn_name :: "rnode \<Rightarrow> string" where "rn_name (RNode n f cs k) = n"
fun rn_fullKey :: "rnode \<Rightarrow> string option" where "rn_fullKey (RNode n f cs k) = f"
fun rn_children :: "rnode \<Rightarrow> (string \<times> rnode) list" where "rn_children (RNode n f cs k) = cs"
fun rn_keyCount :: "rnode \<Rightarrow> nat" where "rn_keyCount (RNode n f cs k) = k"

definition separator_or_default :: "string \<Rightarrow> string" where
  "separator_or_default sep = (if sep = [] then '':'' else sep)"

text \<open>The first loop over the parts of a key: the nodes of the path, and the key on the last one.\<close>

fun insert_path :: "rnode \<Rightarrow> string list \<Rightarrow> string \<Rightarrow> rnode" where
  "insert_path node [] key = node"
| "insert_path (RNode n f cs k) (segment # rest) key =
     (if rest = [] then
        (case map_of cs segment of
           Some (RNode n' f' cs' k') \<Rightarrow>
             if f' = None then RNode n f (set_prop cs segment (RNode n' (Some key) cs' (k' + 1))) k
             else RNode n f cs k
         | None \<Rightarrow> RNode n f (set_prop cs segment (RNode segment (Some key) [] 1)) k)
      else
        (let child = (case map_of cs segment of Some c \<Rightarrow> c | None \<Rightarrow> RNode segment None [] 0)
         in RNode n f (set_prop cs segment (insert_path child rest key)) k))"

text \<open>The second loop: one more key below every proper prefix of the path.\<close>

fun add_count :: "rnode \<Rightarrow> rnode" where
  "add_count (RNode n f cs k) = RNode n f cs (k + 1)"

fun bump_path :: "rnode \<Rightarrow> string list \<Rightarrow> rnode" where
  "bump_path node [] = node"
| "bump_path (RNode n f cs k) (segment # rest) =
     (case map_of cs segment of
        Some child \<Rightarrow> RNode n f (set_prop cs segment (bump_path (add_count child) rest)) k
      | None \<Rightarrow> bump_path (RNode n f cs k) rest)"

definition insert_key :: "string \<Rightarrow> rnode \<Rightarrow> string \<Rightarrow> rnode" where
  "insert_key sep root key =
     (let parts = split sep key
      in add_count (bump_path (insert_path root parts key) (butlast parts)))"

definition buildKeyTree :: "string list \<Rightarrow> string \<Rightarrow> rnode" where
  "buildKeyTree keys separator =
     foldl (insert_key (separator_or_default separator)) (RNode [] None [] 0) keys"

section \<open>Rows on screen\<close>

record flat_row =
  fr_depth :: nat
  fr_name :: string
  fr_fullKey :: "string option"
  fr_keyCount :: nat
  fr_isExpanded :: bool
  fr_hasChildren :: bool
  fr_nodeId :: string

text \<open>Folders before leaves, then by name; \<open>sort\<close> is stable.\<close>

definition node_before :: "(string \<Rightarrow> string \<Rightarrow> int) \<Rightarrow> rnode \<Rightarrow> rnode \<Rightarrow> bool" where
  "node_before localeCompare a b =
     (let fa = (rn_children a \<noteq> []); fb = (rn_children b \<noteq> [])
      in if fa \<noteq> fb then fa else localeCompare (rn_name a) (rn_name b) \<le> 0)"

definition node_id :: "string \<Rightarrow> string \<Rightarrow> string \<Rightarrow> string" where
  "node_id sep pre name = (if pre \<noteq> [] then pre @ sep @ name else name)"

lemma child_size: "(name, child) \<in> set (rn_children node) \<Longrightarrow> size child < size node"
proof (cases node)
  case (RNode n f cs k)
  assume "(name, child) \<in> set (rn_children node)"
  with RNode have "size_prod (\<lambda>x. 0) size (name, child) \<le> size_list (size_prod (\<lambda>x. 0) size) cs"
    by (intro size_list_estimation' [OF _ order_refl]) simp
  with RNode show ?thesis by simp
qed

text \<open>\<open>walk\<close>, on the sorted children of a node; the sort does not change which nodes there are.\<close>

function walk :: "(string \<Rightarrow> string \<Rightarrow> int) \<Rightarrow> string set \<Rightarrow> string \<Rightarrow> rnode \<Rightarrow> nat \<Rightarrow> string \<Rightarrow> flat_row list" where
  "walk localeCompare expanded sep node depth pre =
     concat (map (\<lambda>child.
         let nodeId = node_id sep pre (rn_name child);
             isExpanded = (nodeId \<in> expanded)
         in \<lparr>fr_depth = depth, fr_name = rn_name child, fr_fullKey = rn_fullKey child,
             fr_keyCount = rn_keyCount child, fr_isExpanded = isExpanded,
             fr_hasChildren = (rn_children child \<noteq> []), fr_nodeId = nodeId\<rparr> #
            (if rn_children child \<noteq> [] \<and> isExpanded
             then walk localeCompare expanded sep child (depth + 1) nodeId else []))
       (sort_by (node_before localeCompare) (map snd (rn_children node))))"
  by pat_completeness auto
termination
  by (relation "measure (\<lambda>(lc, e, s, node, d, p). size node)") (auto dest: child_size)

declare walk.simps [simp del]

definition flattenTree :: "(string \<Rightarrow> string \<Rightarrow> int) \<Rightarrow> rnode \<Rightarrow> string set \<Rightarrow> string \<Rightarrow> flat_row list" where
  "flattenTree localeCompare root expandedSet separator =
     walk localeCompare expandedSet (separator_or_default separator) root 0 []"

section \<open>The local filter\<close>

definition isDefaultRedisKeyFilter :: "string \<Rightarrow> bool" where
  "isDefaultRedisKeyFilter pattern \<longleftrightarrow> trim pattern = [] \<or> trim pattern = ''*''"

text \<open>
  The regular expression built from a glob is anchored and case-insensitive: each character of the
  glob is \<open>.*\<close>, \<open>.\<close> or itself (\<open>escapeRegex\<close> quotes the special ones). \<open>.\<close> matches no line break.
\<close>

definition any_char :: "char \<Rightarrow> bool" where
  "any_char c \<longleftrightarrow> c \<noteq> LF \<and> c \<noteq> CR"

fun glob_match :: "string \<Rightarrow> string \<Rightarrow> bool" where
  "glob_match [] s \<longleftrightarrow> s = []"
| "glob_match (p # ps) [] \<longleftrightarrow> p = CHR ''*'' \<and> glob_match ps []"
| "glob_match (p # ps) (c # s) \<longleftrightarrow>
     (if p = CHR ''*'' then glob_match ps (c # s) \<or> (any_char c \<and> glob_match (p # ps) s)
      else if p = CHR ''?'' then any_char c \<and> glob_match ps s
      else lower_char p = lower_char c \<and> glob_match ps s)"

definition makeLocalKeyMatcher :: "string \<Rightarrow> string \<Rightarrow> bool" where
  "makeLocalKeyMatcher pattern key =
     (let trimmed = trim pattern
      in if isDefaultRedisKeyFilter trimmed then True
         else if CHR ''*'' \<in> set trimmed \<or> CHR ''?'' \<in> set trimmed then glob_match trimmed key
         else str_includes (to_lower key) (to_lower trimmed))"

section \<open>What the tree counts\<close>

text \<open>The key and the count of the node at a path.\<close>

fun node_at :: "rnode \<Rightarrow> string list \<Rightarrow> rnode option" where
  "node_at node [] = Some node"
| "node_at node (segment # rest) =
     (case map_of (rn_children node) segment of None \<Rightarrow> None | Some child \<Rightarrow> node_at child rest)"

definition info :: "rnode \<Rightarrow> string list \<Rightarrow> (string option \<times> nat) option" where
  "info node path = map_option (\<lambda>n. (rn_fullKey n, rn_keyCount n)) (node_at node path)"

lemma info_Nil [simp]: "info node [] = Some (rn_fullKey node, rn_keyCount node)"
  by (simp add: info_def)

lemma info_Cons: "info node (segment # rest) =
   (case map_of (rn_children node) segment of None \<Rightarrow> None | Some child \<Rightarrow> info child rest)"
  by (simp add: info_def split: option.split)

lemma info_leaf: "info (RNode n f [] k) (segment # rest) = None"
  by (simp add: info_Cons)

definition place_key :: "string \<Rightarrow> (string option \<times> nat) option \<Rightarrow> string option \<times> nat" where
  "place_key key i =
     (case i of None \<Rightarrow> (Some key, 1) | Some (None, k) \<Rightarrow> (Some key, k + 1) | Some (Some f, k) \<Rightarrow> (Some f, k))"

lemma insert_path_info:
  "parts \<noteq> [] \<Longrightarrow> info (insert_path node parts key) path =
     (if path = [] then info node []
      else if path = parts then Some (place_key key (info node path))
      else if strict_prefix path parts then Some (case info node path of None \<Rightarrow> (None, 0) | Some x \<Rightarrow> x)
      else info node path)"
proof (induction node parts key arbitrary: path rule: insert_path.induct)
  case (1 node key)
  then show ?case by simp
next
  case (2 n f cs k segment rest key)
  show ?case
  proof (cases path)
    case Nil
    then show ?thesis
      by (auto simp: Let_def split: option.split rnode.split)
  next
    case (Cons p ps)
    show ?thesis
    proof (cases "rest = []")
      case True
      then show ?thesis
        using Cons by (cases ps) (auto simp: info_Cons place_key_def info_leaf split: option.splits rnode.splits)
    next
      case False
      then show ?thesis
        using Cons "2.IH" [OF False refl, of ps]
        by (cases "ps = []") (auto simp: info_Cons info_leaf Let_def neq_Nil_conv split: option.splits)
    qed
  qed
qed

lemma add_count_info: "info (add_count node) path =
   (if path = [] then Some (rn_fullKey node, rn_keyCount node + 1) else info node path)"
  by (cases node; cases path) (simp_all add: info_Cons)

lemma add_count_fields [simp]:
  "rn_fullKey (add_count node) = rn_fullKey node" "rn_keyCount (add_count node) = Suc (rn_keyCount node)"
  by (cases node; simp)+

lemma bump_path_info:
  "info node q \<noteq> None \<Longrightarrow>
   info (bump_path node q) path =
     (if path \<noteq> [] \<and> prefix path q then map_option (\<lambda>(f, k). (f, k + 1)) (info node path) else info node path)"
proof (induction node q arbitrary: path rule: bump_path.induct)
  case (1 node)
  then show ?case by simp
next
  case (2 n f cs k segment rest)
  then obtain child where c: "map_of cs segment = Some child" "info child rest \<noteq> None"
    by (auto simp: info_Cons split: option.splits)
  have "info (add_count child) rest \<noteq> None" using c(2) by (simp add: add_count_info)
  from "2.IH"(2) [OF c(1) this] c show ?case
    by (cases path) (auto simp: info_Cons add_count_info split: option.splits)
qed

lemma split_inject: "sep \<noteq> [] \<Longrightarrow> split sep a = split sep b \<longleftrightarrow> a = b"
  by (metis join_split)

lemma prefix_butlast: "xs \<noteq> [] \<Longrightarrow> prefix p (butlast xs) \<longleftrightarrow> strict_prefix p xs"
  by (cases xs rule: rev_cases) (auto simp: strict_prefix_def dest: prefix_length_le)

lemma insert_key_info:
  assumes "sep \<noteq> []" and "path \<noteq> []"
  shows "info (insert_key sep root key) path =
     (if path = split sep key then Some (place_key key (info root path))
      else if strict_prefix path (split sep key)
      then Some (case info root path of None \<Rightarrow> (None, 1) | Some (f, k) \<Rightarrow> (f, k + 1))
      else info root path)"
proof -
  let ?parts = "split sep key"
  have ne: "?parts \<noteq> []" using assms(1) by (rule split_nonempty)
  have sp: "prefix p (butlast ?parts) \<longleftrightarrow> strict_prefix p ?parts" for p
    using ne by (rule prefix_butlast)
  then have "info (insert_path root ?parts key) (butlast ?parts) \<noteq> None"
    using ne sp [of "butlast ?parts"] by (simp add: insert_path_info)
  from bump_path_info [OF this, of path] show ?thesis
    using assms ne sp [of path] by (auto simp: insert_key_def Let_def add_count_info insert_path_info split: option.split)
qed

definition keys_below :: "string \<Rightarrow> string list \<Rightarrow> string list \<Rightarrow> string list" where
  "keys_below sep keys path = filter (\<lambda>k. prefix path (split sep k)) keys"

definition key_at :: "string \<Rightarrow> string list \<Rightarrow> string list \<Rightarrow> string option" where
  "key_at sep keys path = find (\<lambda>k. split sep k = path) keys"

lemma find_append: "find P (xs @ ys) = (case find P xs of None \<Rightarrow> find P ys | Some x \<Rightarrow> Some x)"
  by (induction xs) auto

text \<open>
  C7: The key tree counts keys correctly. For keys without duplicates and any separator, there is
  a node at a path exactly when some key begins with that path, its count is the number of those
  keys, and it carries the key that ends there, if there is one.
\<close>

theorem key_tree_counts:
  assumes "distinct keys" and "path \<noteq> []"
  shows "map_option (\<lambda>n. (rn_fullKey n, rn_keyCount n)) (node_at (buildKeyTree keys separator) path) =
     (let below = keys_below (separator_or_default separator) keys path
      in if below = [] then None
         else Some (key_at (separator_or_default separator) keys path, length below))"
proof -
  let ?sep = "separator_or_default separator"
  have sep: "?sep \<noteq> []" by (simp add: separator_or_default_def)
  have "info (foldl (insert_key ?sep) (RNode [] None [] 0) keys) path =
      (if keys_below ?sep keys path = [] then None
       else Some (key_at ?sep keys path, length (keys_below ?sep keys path)))"
    using assms(1)
  proof (induction keys rule: rev_induct)
    case Nil
    then show ?case using assms(2) by (cases path) (simp_all add: info_leaf keys_below_def)
  next
    case (snoc key keys)
    let ?root = "foldl (insert_key ?sep) (RNode [] None [] 0) keys"
    have IH: "info ?root path = (if keys_below ?sep keys path = [] then None
        else Some (key_at ?sep keys path, length (keys_below ?sep keys path)))"
      using snoc by simp
    have step: "info (foldl (insert_key ?sep) (RNode [] None [] 0) (keys @ [key])) path =
        info (insert_key ?sep ?root key) path" by simp
    consider "path = split ?sep key" | "strict_prefix path (split ?sep key)"
      | "path \<noteq> split ?sep key" "\<not> strict_prefix path (split ?sep key)" by blast
    then show ?case
    proof cases
      case 1
      have "key_at ?sep keys path = None"
        using snoc.prems sep 1 by (auto simp: key_at_def find_None_iff split_inject)
      moreover have "keys_below ?sep (keys @ [key]) path = keys_below ?sep keys path @ [key]"
        using 1 by (simp add: keys_below_def)
      moreover have "key_at ?sep (keys @ [key]) path = Some key"
        using 1 calculation(1) by (simp add: key_at_def find_append)
      ultimately show ?thesis
        unfolding step insert_key_info [OF sep assms(2)] IH using 1 by (simp add: place_key_def)
    next
      case 2
      then have "keys_below ?sep (keys @ [key]) path = keys_below ?sep keys path @ [key]"
        and "key_at ?sep (keys @ [key]) path = key_at ?sep keys path"
        by (auto simp: keys_below_def key_at_def find_append split: option.split)
      moreover have "keys_below ?sep keys path = [] \<Longrightarrow> key_at ?sep keys path = None"
        by (auto simp: keys_below_def key_at_def find_None_iff filter_empty_conv)
      ultimately show ?thesis
        unfolding step insert_key_info [OF sep assms(2)] IH using 2 by auto
    next
      case 3
      then have "\<not> prefix path (split ?sep key)" by (simp add: strict_prefix_def)
      with 3 have "keys_below ?sep (keys @ [key]) path = keys_below ?sep keys path"
        and "key_at ?sep (keys @ [key]) path = key_at ?sep keys path"
        by (auto simp: keys_below_def key_at_def find_append split: option.split)
      then show ?thesis unfolding step insert_key_info [OF sep assms(2)] IH using 3 by simp
    qed
  qed
  then show ?thesis by (simp add: buildKeyTree_def info_def Let_def)
qed

theorem key_tree_counts_witness:
  "map_option (\<lambda>n. (rn_fullKey n, rn_keyCount n)) (node_at (buildKeyTree [''a:b'', ''a:c:d'', ''a''] []) [''a'']) =
   Some (Some ''a'', 3)"
proof -
  have "split '':'' ''a:b'' = [''a'', ''b'']" "split '':'' ''a:c:d'' = [''a'', ''c'', ''d'']" "split '':'' ''a'' = [''a'']"
    by code_simp+
  then show ?thesis
    using key_tree_counts [of "[''a:b'', ''a:c:d'', ''a'']" "[''a'']" "[]"]
    by (simp add: keys_below_def key_at_def separator_or_default_def eval_nat_numeral)
qed

end
