(* ===== verification/AssetTree.thy ===== *)
theory AssetTree
  imports GroupPath
begin

text \<open>
  The asset and group pickers, \<^verbatim>\<open>lib/assetTree.ts\<close>, and the target of a drag in the asset tree,
  \<^verbatim>\<open>lib/assetTreeReorder.ts\<close>. The recursive \<open>visit\<close> follows group ids with nothing to stop it on a
  malformed group list, so it takes fuel: \<open>None\<close> is the stack overflow. A node's icon is kept as the
  entity's icon name with its fallback; drawing it is left out.
\<close>

datatype entity_icon = Icon_named string | Icon_server | Icon_folder

definition renderEntityIcon :: "string \<Rightarrow> entity_icon \<Rightarrow> entity_icon" where
  "renderEntityIcon icon fallback = (if icon \<noteq> [] then Icon_named icon else fallback)"

text \<open>id, label, icon, \<open>selectable\<close> and \<open>children\<close>, the last two optional.\<close>

datatype tree_node = TreeNode int string entity_icon "bool option" "tree_node list option"

record tree_options =
  to_filterType :: "string option"
  to_excludeIds :: "int list option"
  to_activeOnly :: bool

definition asset_shown :: "tree_options \<Rightarrow> asset \<Rightarrow> bool" where
  "asset_shown opts a \<longleftrightarrow>
     \<not> (to_activeOnly opts \<and> as_Status a \<noteq> 1) \<and>
     (case to_filterType opts of Some (c # cs) \<Rightarrow> as_Type a = c # cs | _ \<Rightarrow> True) \<and>
     (case to_excludeIds opts of Some ids \<Rightarrow> as_ID a \<notin> set ids | None \<Rightarrow> True)"

definition filterAssetTreeAssets :: "asset list \<Rightarrow> tree_options \<Rightarrow> asset list" where
  "filterAssetTreeAssets assets opts = filter (asset_shown opts) assets"

definition asset_node :: "asset \<Rightarrow> tree_node" where
  "asset_node a = TreeNode (as_ID a) (as_Name a) (renderEntityIcon (as_Icon a) Icon_server) None None"

definition assets_in :: "asset list \<Rightarrow> int \<Rightarrow> asset list" where
  "assets_in assets g = filter (\<lambda>a. as_GroupID a = g) assets"

definition groups_in :: "asset_group list \<Rightarrow> int \<Rightarrow> asset_group list" where
  "groups_in groups p = filter (\<lambda>g. gr_ParentID g = p) groups"

text \<open>\<open>map\<close> with a callback that may not return.\<close>

fun map_opt :: "('a \<Rightarrow> 'b option) \<Rightarrow> 'a list \<Rightarrow> 'b list option" where
  "map_opt f [] = Some []"
| "map_opt f (x # xs) =
     (case f x of None \<Rightarrow> None | Some y \<Rightarrow> map_option ((#) y) (map_opt f xs))"

fun has_children :: "tree_node \<Rightarrow> bool" where
  "has_children (TreeNode i l ic s (Some (c # cs))) = True"
| "has_children (TreeNode i l ic s _) = False"

definition group_node :: "asset list \<Rightarrow> asset_group \<Rightarrow> tree_node list \<Rightarrow> tree_node" where
  "group_node assets g childGroups =
     TreeNode (- gr_ID g) (gr_Name g) (renderEntityIcon (gr_Icon g) Icon_folder) (Some False)
       (Some (childGroups @ map asset_node (assets_in assets (gr_ID g))))"

fun visit :: "nat \<Rightarrow> asset list \<Rightarrow> asset_group list \<Rightarrow> int \<Rightarrow> tree_node list option" where
  "visit 0 assets groups parentId = None"
| "visit (Suc fuel) assets groups parentId =
     map_option (filter has_children)
       (map_opt (\<lambda>g. map_option (group_node assets g) (visit fuel assets groups (gr_ID g))) (groups_in groups parentId))"

definition buildAssetTree :: "nat \<Rightarrow> asset list \<Rightarrow> asset_group list \<Rightarrow> tree_options \<Rightarrow> tree_node list option" where
  "buildAssetTree fuel assets groups opts =
     (let visibleAssets = filterAssetTreeAssets assets opts
      in map_option (\<lambda>nodes. nodes @ map asset_node (assets_in visibleAssets 0)) (visit fuel visibleAssets groups 0))"

fun collectLeafIds :: "tree_node \<Rightarrow> int list" where
  "collectLeafIds (TreeNode i l ic s cs) =
     (if s = Some False then (case cs of None \<Rightarrow> [] | Some children \<Rightarrow> concat (map collectLeafIds children)) else [i])"

fun group_visit :: "nat \<Rightarrow> asset_group list \<Rightarrow> int list \<Rightarrow> int \<Rightarrow> tree_node list option" where
  "group_visit 0 groups exclude parentId = None"
| "group_visit (Suc fuel) groups exclude parentId =
     map_opt (\<lambda>g. map_option (\<lambda>cs. TreeNode (gr_ID g) (gr_Name g) (renderEntityIcon (gr_Icon g) Icon_folder) None (Some cs))
                    (group_visit fuel groups exclude (gr_ID g)))
       (filter (\<lambda>g. gr_ParentID g = parentId \<and> gr_ID g \<notin> set exclude) groups)"

definition buildGroupTree :: "nat \<Rightarrow> asset_group list \<Rightarrow> int list option \<Rightarrow> tree_node list option" where
  "buildGroupTree fuel groups excludeIds =
     group_visit fuel groups (case excludeIds of None \<Rightarrow> [] | Some ids \<Rightarrow> ids) 0"

text \<open>The groups that may still be excluded become fewer.\<close>

lemma exclude_measure:
  assumes "i \<notin> set ids"
  shows "card (gr_ID ` set groups \<union> set (rev (map gr_ID (groups_in groups i)) @ stack) - set (i # ids))
         < card (gr_ID ` set groups \<union> set (i # stack) - set ids)"
  by (rule psubset_card_mono) (use assms in \<open>auto simp: groups_in_def\<close>)

text \<open>
  The excluded groups of \<open>useGroupTree\<close>: each seed with everything below it. The stack has its top
  first; children are pushed in list order, so the last one is on top.
\<close>

function exclude_loop :: "asset_group list \<Rightarrow> int list \<Rightarrow> int list \<Rightarrow> int list" where
  "exclude_loop groups ids [] = ids"
| "exclude_loop groups ids (i # stack) =
     (if i \<in> set ids then exclude_loop groups ids stack
      else exclude_loop groups (i # ids) (rev (map gr_ID (groups_in groups i)) @ stack))"
  by pat_completeness auto

termination
proof (relation "measures [\<lambda>(groups, ids, stack). card (gr_ID ` set groups \<union> set stack - set ids),
    \<lambda>(groups, ids, stack). length stack]")
  fix groups ids and i :: int and stack
  show "i \<in> set ids \<Longrightarrow> ((groups, ids, stack), (groups, ids, i # stack)) \<in>
      measures [\<lambda>(groups, ids, stack). card (gr_ID ` set groups \<union> set stack - set ids), \<lambda>(groups, ids, stack). length stack]"
  proof -
    assume "i \<in> set ids"
    then have "gr_ID ` set groups \<union> set (i # stack) - set ids = gr_ID ` set groups \<union> set stack - set ids" by auto
    then show ?thesis by simp
  qed
qed (use exclude_measure in auto)

definition fullExclude :: "asset_group list \<Rightarrow> int list option \<Rightarrow> int list" where
  "fullExclude groups excludeIds =
     (case excludeIds of None \<Rightarrow> [] | Some seeds \<Rightarrow> foldl (\<lambda>ids seed. exclude_loop groups ids [seed]) [] seeds)"

definition useGroupTree :: "nat \<Rightarrow> asset_group list \<Rightarrow> int list option \<Rightarrow> tree_node list option" where
  "useGroupTree fuel groups excludeIds = buildGroupTree fuel groups (Some (fullExclude groups excludeIds))"

section \<open>The tree is built and holds the assets\<close>

lemma map_opt_None: "map_opt f xs = None \<longleftrightarrow> (\<exists>x\<in>set xs. f x = None)"
  by (induction xs) (auto split: option.split)

lemma map_opt_Some: "map_opt f xs = Some ys \<longleftrightarrow> list_all2 (\<lambda>x y. f x = Some y) xs ys"
  by (induction xs arbitrary: ys) (auto split: option.splits simp: list_all2_Cons1)

lemma visit_overflow: "visit fuel assets groups p = None \<Longrightarrow> \<exists>gs. length gs = fuel \<and> chain groups p gs"
proof (induction fuel arbitrary: p)
  case (Suc fuel)
  then obtain g where g: "g \<in> set (groups_in groups p)" "visit fuel assets groups (gr_ID g) = None"
    by (auto simp: map_opt_None)
  with Suc.IH obtain gs where "length gs = fuel" "chain groups (gr_ID g) gs" by blast
  with g(1) show ?case by (intro exI [of _ "g # gs"]) (simp add: groups_in_def)
qed simp

text \<open>
  The recursion returns when ids are positive and distinct: one level more than there are groups is
  deep enough.
\<close>

lemma visit_returns:
  assumes "proper_ids groups" and "length groups < fuel"
  shows "visit fuel assets groups 0 \<noteq> None"
proof
  assume "visit fuel assets groups 0 = None"
  then obtain gs where gs: "length gs = fuel" "chain groups 0 gs" using visit_overflow by blast
  have "card (set gs) \<le> card (set groups)"
    using chain_set [OF gs(2)] by (intro card_mono) simp_all
  also have "\<dots> \<le> length groups" by (rule card_length)
  finally show False
    using chain_from_root_distinct [OF assms(1) gs(2)] gs(1) assms(2) by (simp add: distinct_card)
qed

definition leaves :: "tree_node list \<Rightarrow> int set" where
  "leaves nodes = (\<Union>n\<in>set nodes. set (collectLeafIds n))"

lemma leaves_simps [simp]:
  "leaves [] = {}" "leaves (n # ns) = set (collectLeafIds n) \<union> leaves ns" "leaves (ns @ ms) = leaves ns \<union> leaves ms"
  by (auto simp: leaves_def)

lemma leaves_assets [simp]: "leaves (map asset_node as) = as_ID ` set as"
  by (induction as) (simp_all add: asset_node_def)

lemma leaves_group_node [simp]: "set (collectLeafIds (group_node assets g ns)) = leaves ns \<union> as_ID ` set (assets_in assets (gr_ID g))"
  using leaves_assets [of "assets_in assets (gr_ID g)"] by (simp add: group_node_def leaves_def)

lemma leaves_pruned: "\<forall>n\<in>set ns. \<not> has_children n \<longrightarrow> collectLeafIds n = [] \<Longrightarrow> leaves (filter has_children ns) = leaves ns"
  by (induction ns) auto

lemma childless_group: "\<not> has_children (group_node assets g ns) \<Longrightarrow> collectLeafIds (group_node assets g ns) = []"
  by (cases ns; cases "assets_in assets (gr_ID g)") (simp_all add: group_node_def)

lemma leaves_list_all2:
  "list_all2 (\<lambda>g n. \<exists>ns. n = group_node assets g ns \<and> leaves ns = L g) gs ns \<Longrightarrow>
   leaves ns = (\<Union>g\<in>set gs. L g \<union> as_ID ` set (assets_in assets (gr_ID g)))"
  by (induction gs ns rule: list_all2_induct) auto

lemma visit_leaves:
  "visit fuel assets groups p = Some nodes \<Longrightarrow>
   leaves nodes = {as_ID a | a. a \<in> set assets \<and> (\<exists>gs. gs \<noteq> [] \<and> chain groups p gs \<and> gr_ID (last gs) = as_GroupID a)}"
proof (induction fuel arbitrary: p nodes)
  case (Suc fuel)
  let ?below = "\<lambda>p. {as_ID a | a. a \<in> set assets \<and> (\<exists>gs. gs \<noteq> [] \<and> chain groups p gs \<and> gr_ID (last gs) = as_GroupID a)}"
  from Suc.prems obtain ns where
    ns: "list_all2 (\<lambda>g n. map_option (group_node assets g) (visit fuel assets groups (gr_ID g)) = Some n) (groups_in groups p) ns"
    and nodes: "nodes = filter has_children ns"
    by (auto simp: map_opt_Some)
  have all2: "list_all2 (\<lambda>g n. \<exists>ms. n = group_node assets g ms \<and> leaves ms = ?below (gr_ID g)) (groups_in groups p) ns"
    using ns
  proof (rule list_all2_mono)
    fix g n
    assume "map_option (group_node assets g) (visit fuel assets groups (gr_ID g)) = Some n"
    then obtain ms where "visit fuel assets groups (gr_ID g) = Some ms" "n = group_node assets g ms" by auto
    with Suc.IH [of "gr_ID g" ms]
    show "\<exists>ms. n = group_node assets g ms \<and> leaves ms = ?below (gr_ID g)" by (intro exI [of _ ms] conjI)
  qed
  have "\<forall>n\<in>set ns. \<not> has_children n \<longrightarrow> collectLeafIds n = []"
    using all2 childless_group by (fastforce simp: list_all2_conv_all_nth in_set_conv_nth)
  then have "leaves nodes = leaves ns" by (simp add: nodes leaves_pruned)
  also have "\<dots> = (\<Union>g\<in>set (groups_in groups p). ?below (gr_ID g) \<union> as_ID ` set (assets_in assets (gr_ID g)))"
    by (rule leaves_list_all2 [OF all2])
  also have "\<dots> = ?below p"
  proof (intro equalityI subsetI)
    fix i
    assume "i \<in> (\<Union>g\<in>set (groups_in groups p). ?below (gr_ID g) \<union> as_ID ` set (assets_in assets (gr_ID g)))"
    then obtain g where g: "g \<in> set groups" "gr_ParentID g = p"
      and "i \<in> ?below (gr_ID g) \<or> i \<in> as_ID ` set (assets_in assets (gr_ID g))" by (auto simp: groups_in_def)
    then consider a gs where "i = as_ID a" "a \<in> set assets" "gs \<noteq> []" "chain groups (gr_ID g) gs" "gr_ID (last gs) = as_GroupID a"
      | a where "i = as_ID a" "a \<in> set assets" "as_GroupID a = gr_ID g" by (auto simp: assets_in_def)
    then show "i \<in> ?below p"
    proof cases
      case 1
      with g show ?thesis by (intro CollectI exI [of _ a] conjI exI [of _ "g # gs"]) auto
    next
      case 2
      with g show ?thesis by (intro CollectI exI [of _ a] conjI exI [of _ "[g]"]) auto
    qed
  next
    fix i
    assume "i \<in> ?below p"
    then obtain a gs where a: "i = as_ID a" "a \<in> set assets" "gs \<noteq> []" "chain groups p gs" "gr_ID (last gs) = as_GroupID a" by blast
    then obtain g hs where gs: "gs = g # hs" by (cases gs) auto
    then have g: "g \<in> set (groups_in groups p)" using a(4) by (simp add: groups_in_def)
    show "i \<in> (\<Union>g\<in>set (groups_in groups p). ?below (gr_ID g) \<union> as_ID ` set (assets_in assets (gr_ID g)))"
      by (rule UN_I [OF g]) (use a gs in \<open>cases "hs = []"; auto simp: assets_in_def\<close>)
  qed
  finally show ?case .
qed simp

text \<open>
  The asset picker shows exactly the assets that pass its filters and hang on the root, directly
  or through a chain of groups; no asset is lost by pruning empty groups. With distinct positive
  group ids the recursion returns when it may go one level deeper than there are groups.
\<close>

theorem asset_tree_shows:
  assumes "proper_ids groups" and "length groups < fuel"
  shows "\<exists>nodes. buildAssetTree fuel assets groups opts = Some nodes \<and>
           leaves nodes = {as_ID a | a. a \<in> set assets \<and> asset_shown opts a \<and>
             (as_GroupID a = 0 \<or> (\<exists>gs. gs \<noteq> [] \<and> chain groups 0 gs \<and> gr_ID (last gs) = as_GroupID a))}"
proof -
  let ?v = "filterAssetTreeAssets assets opts"
  obtain nodes where v: "visit fuel ?v groups 0 = Some nodes"
    using visit_returns [OF assms] by blast
  have "leaves (nodes @ map asset_node (assets_in ?v 0)) =
      {as_ID a | a. a \<in> set assets \<and> asset_shown opts a \<and>
         (as_GroupID a = 0 \<or> (\<exists>gs. gs \<noteq> [] \<and> chain groups 0 gs \<and> gr_ID (last gs) = as_GroupID a))}"
    using visit_leaves [OF v] by (auto simp: filterAssetTreeAssets_def assets_in_def)
  with v show ?thesis by (simp add: buildAssetTree_def Let_def)
qed

definition ex_asset :: "int \<Rightarrow> int \<Rightarrow> asset" where
  "ex_asset i g = \<lparr>as_ID = i, as_Name = ''a'', as_Type = ''ssh'', as_GroupID = g, as_Icon = [], as_Status = 1\<rparr>"

theorem asset_tree_shows_witness:
  "\<exists>nodes. buildAssetTree 3 [ex_asset 10 0, ex_asset 11 3, ex_asset 12 9] ex_groups
      \<lparr>to_filterType = None, to_excludeIds = None, to_activeOnly = True\<rparr> = Some nodes \<and> 11 \<in> leaves nodes \<and> 10 \<in> leaves nodes"
proof -
  let ?as = "[ex_asset 10 0, ex_asset 11 3, ex_asset 12 9]"
  let ?o = "\<lparr>to_filterType = None, to_excludeIds = None, to_activeOnly = True\<rparr>"
  have p: "proper_ids ex_groups" "length ex_groups < 3" by (simp_all add: ex_groups_def proper_ids_def)
  have ch: "chain ex_groups 0 [ex_groups ! 1, ex_groups ! 0]" "gr_ID (last [ex_groups ! 1, ex_groups ! 0]) = 3"
    by (simp_all add: ex_groups_def)
  have shown: "asset_shown ?o (ex_asset i g)" for i g by (simp add: asset_shown_def ex_asset_def)
  have r: "\<exists>gs. gs \<noteq> [] \<and> chain ex_groups 0 gs \<and> gr_ID (last gs) = 3"
    using ch by (intro exI [of _ "[ex_groups ! 1, ex_groups ! 0]"]) simp
  obtain nodes where n: "buildAssetTree 3 ?as ex_groups ?o = Some nodes"
    "leaves nodes = {as_ID a | a. a \<in> set ?as \<and> asset_shown ?o a \<and>
       (as_GroupID a = 0 \<or> (\<exists>gs. gs \<noteq> [] \<and> chain ex_groups 0 gs \<and> gr_ID (last gs) = as_GroupID a))}"
    using asset_tree_shows [OF p, of ?as ?o] by blast
  have f: "as_ID (ex_asset i g) = i" "as_GroupID (ex_asset i g) = g" for i g by (simp_all add: ex_asset_def)
  have "11 \<in> leaves nodes" unfolding n(2)
    by (intro CollectI exI [of _ "ex_asset 11 3"]) (simp add: f shown r)
  moreover have "10 \<in> leaves nodes" unfolding n(2)
    by (intro CollectI exI [of _ "ex_asset 10 0"]) (simp add: f shown)
  ultimately show ?thesis using n(1) by blast
qed

section \<open>The group picker never offers a group below an excluded one\<close>

declare exclude_loop.simps [simp del]

lemma exclude_loop_Nil [simp]: "exclude_loop groups ids [] = ids"
  by (simp add: exclude_loop.simps)

definition child_rel :: "asset_group list \<Rightarrow> (int \<times> int) set" where
  "child_rel groups = {(gr_ParentID g, gr_ID g) | g. g \<in> set groups}"

definition closed_but :: "asset_group list \<Rightarrow> int set \<Rightarrow> int set \<Rightarrow> bool" where
  "closed_but groups ids rest \<longleftrightarrow> child_rel groups `` ids \<subseteq> ids \<union> rest"

lemma groups_in_children: "gr_ID ` set (groups_in groups i) = child_rel groups `` {i}"
  by (auto simp: groups_in_def child_rel_def)

lemma exclude_loop_closure:
  "closed_but groups (set ids) (set stack) \<Longrightarrow>
   set ids \<union> set stack \<subseteq> set (exclude_loop groups ids stack) \<and>
   set (exclude_loop groups ids stack) \<subseteq> set ids \<union> (child_rel groups)\<^sup>* `` set stack \<and>
   closed_but groups (set (exclude_loop groups ids stack)) {}"
proof (induction groups ids stack rule: exclude_loop.induct)
  case (1 groups ids)
  then show ?case by simp
next
  case (2 groups ids i stack)
  show ?case
  proof (cases "i \<in> set ids")
    case True
    then have "closed_but groups (set ids) (set stack)"
      using 2(3) by (auto simp: closed_but_def)
    with 2(1) [OF True] True show ?thesis by (auto simp: exclude_loop.simps)
  next
    case False
    let ?stack = "rev (map gr_ID (groups_in groups i)) @ stack"
    have st: "set ?stack = child_rel groups `` {i} \<union> set stack" by (simp add: groups_in_children)
    have "closed_but groups (set (i # ids)) (set ?stack)"
      using 2(3) unfolding st by (auto simp: closed_but_def)
    from False have loop: "exclude_loop groups ids (i # stack) = exclude_loop groups (i # ids) ?stack"
      by (simp add: exclude_loop.simps)
    from \<open>closed_but groups (set (i # ids)) (set ?stack)\<close> have IH:
      "set (i # ids) \<union> set ?stack \<subseteq> set (exclude_loop groups (i # ids) ?stack)"
      "set (exclude_loop groups (i # ids) ?stack) \<subseteq> set (i # ids) \<union> (child_rel groups)\<^sup>* `` set ?stack"
      "closed_but groups (set (exclude_loop groups (i # ids) ?stack)) {}" using 2(2) [OF False] by auto
    have "(child_rel groups)\<^sup>* `` set ?stack \<subseteq> (child_rel groups)\<^sup>* `` set (i # stack)"
      unfolding st by (auto intro: converse_rtrancl_into_rtrancl)
    with IH show ?thesis unfolding loop by auto
  qed
qed

lemma closed_rtrancl: "closed_but groups R {} \<Longrightarrow> S \<subseteq> R \<Longrightarrow> (child_rel groups)\<^sup>* `` S \<subseteq> R"
proof
  fix y
  assume c: "closed_but groups R {}" "S \<subseteq> R" and "y \<in> (child_rel groups)\<^sup>* `` S"
  then obtain x where "x \<in> S" "(x, y) \<in> (child_rel groups)\<^sup>*" by blast
  from this(2,1) show "y \<in> R"
    by (induction rule: rtrancl_induct) (use c in \<open>auto simp: closed_but_def\<close>)
qed

lemma fullExclude_descendants: "set (fullExclude groups (Some seeds)) = (child_rel groups)\<^sup>* `` set seeds"
proof -
  have "closed_but groups (set (fullExclude groups (Some seeds))) {} \<and>
      set (fullExclude groups (Some seeds)) = (child_rel groups)\<^sup>* `` set seeds"
  proof (induction seeds rule: rev_induct)
    case Nil
    then show ?case by (simp add: fullExclude_def closed_but_def)
  next
    case (snoc i seeds)
    let ?ids = "fullExclude groups (Some seeds)"
    have next_ids: "fullExclude groups (Some (seeds @ [i])) = exclude_loop groups ?ids [i]"
      by (simp add: fullExclude_def)
    from snoc have "closed_but groups (set ?ids) {}" by (rule conjunct1)
    then have "closed_but groups (set ?ids) (set [i])" by (auto simp: closed_but_def)
    from exclude_loop_closure [OF this] have l:
      "set ?ids \<union> {i} \<subseteq> set (exclude_loop groups ?ids [i])"
      "set (exclude_loop groups ?ids [i]) \<subseteq> set ?ids \<union> (child_rel groups)\<^sup>* `` {i}"
      "closed_but groups (set (exclude_loop groups ?ids [i])) {}" by auto
    have "(child_rel groups)\<^sup>* `` {i} \<subseteq> set (exclude_loop groups ?ids [i])"
      using closed_rtrancl [OF l(3)] l(1) by blast
    then have "set (exclude_loop groups ?ids [i]) = (child_rel groups)\<^sup>* `` set seeds \<union> (child_rel groups)\<^sup>* `` {i}"
      using l(1,2) conjunct2 [OF snoc] by blast
    moreover have "(child_rel groups)\<^sup>* `` set (seeds @ [i]) = (child_rel groups)\<^sup>* `` set seeds \<union> (child_rel groups)\<^sup>* `` {i}"
      by auto
    ultimately show ?case unfolding next_ids using l(3) by (intro conjI) (assumption, simp only:)
  qed
  then show ?thesis by simp
qed

fun node_ids :: "tree_node \<Rightarrow> int list" where
  "node_ids (TreeNode i l ic s cs) = i # (case cs of None \<Rightarrow> [] | Some ns \<Rightarrow> concat (map node_ids ns))"

lemma group_visit_overflow: "group_visit fuel groups ex p = None \<Longrightarrow> \<exists>gs. length gs = fuel \<and> chain groups p gs"
proof (induction fuel arbitrary: p)
  case (Suc fuel)
  then obtain g where g: "g \<in> set groups" "gr_ParentID g = p" "group_visit fuel groups ex (gr_ID g) = None"
    by (auto simp: map_opt_None)
  with Suc.IH obtain gs where "length gs = fuel" "chain groups (gr_ID g) gs" by blast
  with g show ?case by (intro exI [of _ "g # gs"]) simp
qed simp

lemma list_all2_right: "list_all2 P xs ys \<Longrightarrow> y \<in> set ys \<Longrightarrow> \<exists>x\<in>set xs. P x y"
  by (induction xs ys rule: list_all2_induct) auto

lemma group_visit_excludes:
  "group_visit fuel groups ex p = Some nodes \<Longrightarrow> \<forall>n\<in>set nodes. set (node_ids n) \<inter> set ex = {}"
proof (induction fuel arbitrary: p nodes)
  case (Suc fuel)
  then have "list_all2 (\<lambda>g n. map_option (\<lambda>cs. TreeNode (gr_ID g) (gr_Name g) (renderEntityIcon (gr_Icon g) Icon_folder) None (Some cs))
      (group_visit fuel groups ex (gr_ID g)) = Some n) (filter (\<lambda>g. gr_ParentID g = p \<and> gr_ID g \<notin> set ex) groups) nodes"
    by (simp add: map_opt_Some)
  then have all2: "n \<in> set nodes \<Longrightarrow> \<exists>g\<in>set (filter (\<lambda>g. gr_ParentID g = p \<and> gr_ID g \<notin> set ex) groups).
      map_option (\<lambda>cs. TreeNode (gr_ID g) (gr_Name g) (renderEntityIcon (gr_Icon g) Icon_folder) None (Some cs))
        (group_visit fuel groups ex (gr_ID g)) = Some n" for n
    by (rule list_all2_right)
  show ?case
  proof
    fix n
    assume "n \<in> set nodes"
    from all2 [OF this] obtain g where g: "g \<in> set (filter (\<lambda>g. gr_ParentID g = p \<and> gr_ID g \<notin> set ex) groups)"
      and m: "map_option (\<lambda>cs. TreeNode (gr_ID g) (gr_Name g) (renderEntityIcon (gr_Icon g) Icon_folder) None (Some cs))
        (group_visit fuel groups ex (gr_ID g)) = Some n" by (rule bexE)
    from m obtain cs where "group_visit fuel groups ex (gr_ID g) = Some cs"
      "n = TreeNode (gr_ID g) (gr_Name g) (renderEntityIcon (gr_Icon g) Icon_folder) None (Some cs)"
      by (cases "group_visit fuel groups ex (gr_ID g)") simp_all
    with g Suc.IH [of "gr_ID g" cs] show "set (node_ids n) \<inter> set ex = {}" by auto
  qed
qed simp

text \<open>
  C9: Choosing a new parent for a group cannot make a cycle: the picker, given the group as an
  excluded id, returns a tree with neither that group nor any group below it, at any depth and also
  when the stored groups already contain a parent cycle.
\<close>

theorem group_picker_excludes_descendants:
  assumes "proper_ids groups" and "length groups < fuel"
  shows "\<exists>nodes. useGroupTree fuel groups (Some seeds) = Some nodes \<and>
           (\<forall>n\<in>set nodes. set (node_ids n) \<inter> (child_rel groups)\<^sup>* `` set seeds = {})"
proof -
  have "useGroupTree fuel groups (Some seeds) \<noteq> None"
  proof
    assume "useGroupTree fuel groups (Some seeds) = None"
    then have "group_visit fuel groups (fullExclude groups (Some seeds)) 0 = None"
      by (simp add: useGroupTree_def buildGroupTree_def)
    from group_visit_overflow [OF this] obtain gs where gs: "length gs = fuel" "chain groups 0 gs" by blast
    have "card (set gs) \<le> card (set groups)"
      using chain_set [OF gs(2)] by (intro card_mono) simp_all
    also have "\<dots> \<le> length groups" by (rule card_length)
    finally show False
      using chain_from_root_distinct [OF assms(1) gs(2)] gs(1) assms(2) by (simp add: distinct_card)
  qed
  then obtain nodes where n: "useGroupTree fuel groups (Some seeds) = Some nodes" by blast
  then have "\<forall>n\<in>set nodes. set (node_ids n) \<inter> set (fullExclude groups (Some seeds)) = {}"
    by (intro group_visit_excludes [of fuel groups _ 0]) (simp add: useGroupTree_def buildGroupTree_def)
  with n show ?thesis by (simp add: fullExclude_descendants)
qed

theorem group_picker_excludes_descendants_witness:
  "\<exists>nodes. useGroupTree 3 ex_groups (Some [1]) = Some nodes \<and> (\<forall>n\<in>set nodes. 3 \<notin> set (node_ids n))"
proof -
  have p: "proper_ids ex_groups" "length ex_groups < 3" by (simp_all add: ex_groups_def proper_ids_def)
  have "(1, 3) \<in> child_rel ex_groups" by (force simp: child_rel_def ex_groups_def)
  then have "3 \<in> (child_rel ex_groups)\<^sup>* `` set [1]" by auto
  with group_picker_excludes_descendants [OF p, of "[1]"] show ?thesis by blast
qed

section \<open>Reordering by dragging\<close>

datatype sortable_kind = K_asset | K_group

record sortable_item =
  si_kind :: sortable_kind
  si_id :: nat

text \<open>\<open>/^(asset|group)-(\d+)$/\<close>\<close>

definition parseAssetTreeSortableId :: "string \<Rightarrow> sortable_item option" where
  "parseAssetTreeSortableId s =
     (case strip_prefix ''asset-'' s of
        Some ds \<Rightarrow> if all_digits ds then Some \<lparr>si_kind = K_asset, si_id = digits_val ds\<rparr> else None
      | None \<Rightarrow>
          (case strip_prefix ''group-'' s of
             Some ds \<Rightarrow> if all_digits ds then Some \<lparr>si_kind = K_group, si_id = digits_val ds\<rparr> else None
           | None \<Rightarrow> None))"

definition moveSortableId :: "string list \<Rightarrow> nat \<Rightarrow> nat \<Rightarrow> string list" where
  "moveSortableId sortableIds fromIndex toIndex = move_elem fromIndex toIndex sortableIds"

text \<open>The loop over the items after the moved one.\<close>

fun first_in_container ::
  "sortable_kind \<Rightarrow> int \<Rightarrow> (sortable_item \<Rightarrow> int option) \<Rightarrow> string list \<Rightarrow> nat" where
  "first_in_container kind container getContainerId [] = 0"
| "first_in_container kind container getContainerId (s # ss) =
     (case parseAssetTreeSortableId s of
        Some item \<Rightarrow>
          if si_kind item = kind \<and> getContainerId item = Some container then si_id item
          else first_in_container kind container getContainerId ss
      | None \<Rightarrow> first_in_container kind container getContainerId ss)"

definition getAssetTreeMoveBeforeId ::
  "string list \<Rightarrow> string \<Rightarrow> string \<Rightarrow> sortable_kind \<Rightarrow> int \<Rightarrow> (sortable_item \<Rightarrow> int option) \<Rightarrow> nat option" where
  "getAssetTreeMoveBeforeId sortableIds activeId overId targetKind targetContainerId getContainerId =
     (case (index_of activeId sortableIds, index_of overId sortableIds) of
        (Some activeIndex, Some overIndex) \<Rightarrow>
          (let projectedIds = moveSortableId sortableIds activeIndex overIndex
           in case index_of activeId projectedIds of
                None \<Rightarrow> None
              | Some movedIndex \<Rightarrow>
                  Some (first_in_container targetKind targetContainerId getContainerId (drop (movedIndex + 1) projectedIds)))
      | _ \<Rightarrow> None)"

text \<open>The ids of the items of a container, in the order of a list of sortable ids.\<close>

definition in_container ::
  "sortable_kind \<Rightarrow> int \<Rightarrow> (sortable_item \<Rightarrow> int option) \<Rightarrow> string list \<Rightarrow> nat list" where
  "in_container kind container getContainerId ss =
     map si_id (filter (\<lambda>item. si_kind item = kind \<and> getContainerId item = Some container)
       (List.map_filter parseAssetTreeSortableId ss))"

definition insert_before :: "nat \<Rightarrow> nat \<Rightarrow> nat list \<Rightarrow> nat list" where
  "insert_before b x xs = takeWhile (\<lambda>y. y \<noteq> b) xs @ x # dropWhile (\<lambda>y. y \<noteq> b) xs"

lemma in_container_append [simp]:
  "in_container kind c gc (ss @ ts) = in_container kind c gc ss @ in_container kind c gc ts"
  by (simp add: in_container_def map_filter_def)

lemma in_container_mono: "set ss \<subseteq> set ts \<Longrightarrow> set (in_container kind c gc ss) \<subseteq> set (in_container kind c gc ts)"
  by (auto simp: in_container_def map_filter_def)

lemma first_in_container_hd:
  "first_in_container kind c gc ss = (case in_container kind c gc ss of [] \<Rightarrow> 0 | x # xs \<Rightarrow> x)"
  by (induction ss) (auto simp: in_container_def map_filter_def split: option.split)

lemma insert_before_append:
  "distinct (xs @ ys) \<Longrightarrow> 0 \<notin> set (xs @ ys) \<Longrightarrow>
   insert_before (case ys of [] \<Rightarrow> 0 | y # _ \<Rightarrow> y) a (xs @ ys) = xs @ a # ys"
proof -
  assume d: "distinct (xs @ ys)" "0 \<notin> set (xs @ ys)"
  let ?b = "case ys of [] \<Rightarrow> 0 | y # _ \<Rightarrow> y"
  have "\<forall>x\<in>set xs. x \<noteq> ?b" using d by (cases ys) (auto intro!: Nat.gr0I)
  then have "takeWhile (\<lambda>y. y \<noteq> ?b) (xs @ ys) = xs" "dropWhile (\<lambda>y. y \<noteq> ?b) (xs @ ys) = ys"
    by (simp_all add: takeWhile_append2 dropWhile_append2) (cases ys; simp)+
  then show ?thesis by (simp add: insert_before_def)
qed

text \<open>
  The id the drop computes is the right neighbour: storing the dragged item before that id in
  the order of the target container (at the end for 0) gives exactly the order of the container in
  the list as it looks after the drop. The other items of the container have distinct non-zero ids.
\<close>

theorem move_before_matches_projection:
  assumes "distinct ids"
    and "getAssetTreeMoveBeforeId ids active over kind c gc = Some b"
    and "distinct (in_container kind c gc (remove1 active ids))" and "0 \<notin> set (in_container kind c gc ids)"
  shows "\<exists>left right. remove1 active ids = left @ right \<and>
           (\<exists>i j. moveSortableId ids i j = left @ active # right) \<and>
           insert_before b a (in_container kind c gc (remove1 active ids)) =
           in_container kind c gc left @ a # in_container kind c gc right"
proof -
  from assms(2) obtain i j where i: "index_of active ids = Some i" and j: "index_of over ids = Some j"
    by (auto simp: getAssetTreeMoveBeforeId_def split: option.splits)
  have il: "i < length ids" "ids ! i = active" using find_index_Some i by (auto simp: index_of_def)
  have jl: "j < length ids" using find_index_Some j by (auto simp: index_of_def)
  define left where "left = take j (remove_at i ids)"
  define right where "right = drop j (remove_at i ids)"
  have rem: "remove1 active ids = remove_at i ids"
    using assms(1) il by (metis id_take_nth_drop distinct_append distinct.simps(2) remove1_append remove1.simps(2)
        remove_at_def not_distinct_conv_prefix in_set_takeD)
  have lr: "remove_at i ids = left @ right" by (simp add: left_def right_def)
  have proj: "moveSortableId ids i j = left @ active # right"
    by (simp add: moveSortableId_def move_elem_def insert_at_def left_def right_def il)
  have len: "length left = j" using il jl by (simp add: left_def length_remove_at)
  have "active \<notin> set left"
    using assms(1) rem lr by (metis Un_iff distinct_remove1_removeAll removeAll_id set_append set_removeAll insert_Diff_single Diff_iff insertI1)
  then have "index_of active (left @ active # right) = Some j"
    using len unfolding index_of_def by (intro find_index_eqI) (auto simp: nth_append)
  then have "b = first_in_container kind c gc right"
    using assms(2) i j len by (simp add: getAssetTreeMoveBeforeId_def proj Let_def)
  moreover have "0 \<notin> set (in_container kind c gc (left @ right))"
    using assms(4) in_container_mono [of "left @ right" ids kind c gc] set_remove1_subset [of active ids]
    by (auto simp: rem [symmetric] lr [symmetric])
  ultimately have "insert_before b a (in_container kind c gc (left @ right)) =
      in_container kind c gc left @ a # in_container kind c gc right"
    using assms(3) insert_before_append [of "in_container kind c gc left" "in_container kind c gc right" a]
    by (simp add: rem lr first_in_container_hd)
  then show ?thesis using rem lr proj by (intro exI [of _ left] exI [of _ right]) auto
qed

theorem move_before_matches_projection_witness:
  "\<exists>left right.
     insert_before 3 1 (in_container K_asset 0 (\<lambda>item. Some 0) (remove1 ''asset-1'' [''asset-1'', ''group-7'', ''asset-2'', ''asset-3''])) =
     in_container K_asset 0 (\<lambda>item. Some 0) left @ 1 # in_container K_asset 0 (\<lambda>item. Some 0) right"
proof -
  let ?ids = "[''asset-1'', ''group-7'', ''asset-2'', ''asset-3'']"
  have "getAssetTreeMoveBeforeId ?ids ''asset-1'' ''asset-2'' K_asset 0 (\<lambda>item. Some 0) = Some 3"
    and "distinct (in_container K_asset 0 (\<lambda>item. Some 0) (remove1 ''asset-1'' ?ids))"
    and "0 \<notin> set (in_container K_asset 0 (\<lambda>item. Some 0) ?ids)" by code_simp+
  with move_before_matches_projection [of ?ids "''asset-1''" "''asset-2''" K_asset 0 "\<lambda>item. Some 0" 3 1]
  show ?thesis by auto
qed

end
