(* ===== verification/AssetSearch.thy ===== *)
theory AssetSearch
  imports GroupPath
begin

text \<open>
  Searching assets: the pinyin match of \<^verbatim>\<open>lib/pinyin.ts\<close>, the ranking of \<^verbatim>\<open>lib/assetSearch.ts\<close> and
  the highlighting of \<^verbatim>\<open>lib/highlightMatch.ts\<close>. The package \<open>pinyin-pro\<close> is a parameter: nothing
  while it loads, then two functions that give, for each character of a text, its pinyin and the
  first letter of it. The collation of \<open>localeCompare\<close> is a parameter.
\<close>

section \<open>Pinyin\<close>

text \<open>\<open>tryConsume\<close> on the characters from \<open>charIdx\<close> on (their pinyin and initial) and the rest of the query.\<close>

fun tryConsume :: "(string \<times> string) list \<Rightarrow> string \<Rightarrow> bool" where
  "tryConsume [] q \<longleftrightarrow> q = []"
| "tryConsume ((py, initial) # chars) q \<longleftrightarrow>
     q = [] \<or>
     (\<exists>len\<in>set (rev [1..<Suc (min (length (to_lower py)) (length q))]).
        starts_with (to_lower py) (take len q) \<and> tryConsume chars (drop len q)) \<or>
     ([hd q] = to_lower initial \<and> tryConsume chars (tl q))"

definition mixedPinyinMatch :: "string list \<Rightarrow> string list \<Rightarrow> string \<Rightarrow> bool" where
  "mixedPinyinMatch pinyinArr firstArr query \<longleftrightarrow>
     (\<exists>start\<in>set [0..<length pinyinArr]. tryConsume (drop start (zip pinyinArr firstArr)) query)"

record pinyin_fn =
  py_full :: "string \<Rightarrow> string list"
  py_first :: "string \<Rightarrow> string list"

definition pinyinMatch :: "pinyin_fn option \<Rightarrow> string \<Rightarrow> string \<Rightarrow> bool" where
  "pinyinMatch fn text query =
     (if query = [] then True
      else
        let lowerText = to_lower text; lowerQuery = to_lower query
        in if str_includes lowerText lowerQuery then True
           else case fn of
               None \<Rightarrow> False
             | Some f \<Rightarrow>
                 let pinyinArr = py_full f text; firstArr = py_first f text
                 in str_includes (to_lower (concat firstArr)) lowerQuery \<or>
                    str_includes (to_lower (concat pinyinArr)) lowerQuery \<or>
                    mixedPinyinMatch pinyinArr firstArr lowerQuery)"

section \<open>Ranking and filtering\<close>

definition rankAsset :: "pinyin_fn option \<Rightarrow> string \<Rightarrow> string \<Rightarrow> string \<Rightarrow> nat option" where
  "rankAsset fn name groupPath query =
     (if query = [] then Some 0
      else
        let lowerName = to_lower name; lowerQuery = to_lower query
        in if starts_with lowerName lowerQuery then Some 0
           else if str_includes lowerName lowerQuery then Some 1
           else if pinyinMatch fn name query then Some 2
           else if groupPath \<noteq> [] then
             (if str_includes (to_lower groupPath) lowerQuery then Some 3
              else if pinyinMatch fn groupPath query then Some 3
              else None)
           else None)"

record filtered_asset =
  fa_asset :: asset
  fa_groupPath :: string
  fa_rank :: nat

definition asset_group_path :: "path_map \<Rightarrow> asset \<Rightarrow> string" where
  "asset_group_path paths a =
     (if as_GroupID a \<noteq> 0 then (case paths (as_GroupID a) of None \<Rightarrow> [] | Some p \<Rightarrow> p) else [])"

definition ranked_assets :: "pinyin_fn option \<Rightarrow> path_map \<Rightarrow> string \<Rightarrow> asset list \<Rightarrow> filtered_asset list" where
  "ranked_assets fn paths query assets =
     concat (map (\<lambda>a.
       let groupPath = asset_group_path paths a
       in case rankAsset fn (as_Name a) groupPath query of
            None \<Rightarrow> []
          | Some rank \<Rightarrow> [\<lparr>fa_asset = a, fa_groupPath = groupPath, fa_rank = rank\<rparr>]) assets)"

definition ranked_before :: "(string \<Rightarrow> string \<Rightarrow> int) \<Rightarrow> filtered_asset \<Rightarrow> filtered_asset \<Rightarrow> bool" where
  "ranked_before collate a b =
     (if fa_rank a \<noteq> fa_rank b then fa_rank a < fa_rank b
      else collate (as_Name (fa_asset a)) (as_Name (fa_asset b)) \<le> 0)"

definition filterAssets ::
  "pinyin_fn option \<Rightarrow> (string \<Rightarrow> string \<Rightarrow> int) \<Rightarrow> path_map \<Rightarrow> asset list \<Rightarrow> string \<Rightarrow> nat option \<Rightarrow> filtered_asset list" where
  "filterAssets fn collate groupPathMap assets query limit =
     (let trimmed = trim query;
          items = ranked_assets fn groupPathMap trimmed assets;
          items = (if trimmed \<noteq> [] then sort_by (ranked_before collate) items else items)
      in case limit of None \<Rightarrow> items | Some n \<Rightarrow> take n items)"

section \<open>Highlighting\<close>

record highlight_segment =
  hs_text :: string
  hs_match :: bool

definition sub_index :: "string \<Rightarrow> string \<Rightarrow> nat option" where
  "sub_index s p = find_index (\<lambda>i. starts_with (drop i s) p) [0..<Suc (length s)]"

definition highlightMatch :: "string \<Rightarrow> string \<Rightarrow> highlight_segment list" where
  "highlightMatch label query =
     (if query = [] then [\<lparr>hs_text = label, hs_match = False\<rparr>]
      else case sub_index (to_lower label) (to_lower query) of
          None \<Rightarrow> [\<lparr>hs_text = label, hs_match = False\<rparr>]
        | Some idx \<Rightarrow>
            (if idx > 0 then [\<lparr>hs_text = slice 0 idx label, hs_match = False\<rparr>] else []) @
            [\<lparr>hs_text = slice idx (idx + length query) label, hs_match = True\<rparr>] @
            (if idx + length query < length label
             then [\<lparr>hs_text = drop (idx + length query) label, hs_match = False\<rparr>] else []))"

definition filterMatches :: "string \<Rightarrow> string \<Rightarrow> bool" where
  "filterMatches label query = (if query = [] then True else str_includes (to_lower label) (to_lower query))"

section \<open>What matches\<close>

text \<open>A part of the query that one character can consume.\<close>

definition part_ok :: "string \<times> string \<Rightarrow> string \<Rightarrow> bool" where
  "part_ok c part \<longleftrightarrow>
     (case c of (py, initial) \<Rightarrow> part \<noteq> [] \<and> (starts_with (to_lower py) part \<or> (length part = 1 \<and> part = to_lower initial)))"

lemma part_ok_pair:
  "part_ok (py, initial) part \<longleftrightarrow>
     part \<noteq> [] \<and> (starts_with (to_lower py) part \<or> (length part = 1 \<and> part = to_lower initial))"
  by (simp add: part_ok_def)

lemma tryConsume_sound:
  "tryConsume chars q \<Longrightarrow> \<exists>parts. concat parts = q \<and> length parts \<le> length chars \<and>
     list_all2 part_ok (take (length parts) chars) parts"
proof (induction chars q rule: tryConsume.induct)
  case (1 q)
  then show ?case by simp
next
  case (2 py initial chars q)
  consider "q = []"
    | len where "q \<noteq> []" "1 \<le> len" "len \<le> length q" "starts_with (to_lower py) (take len q)" "tryConsume chars (drop len q)"
    | "q \<noteq> []" "[hd q] = to_lower initial" "tryConsume chars (tl q)"
    using 2(3) by (cases "q = []") (auto simp: less_Suc_eq_le simp del: upt_Suc)
  then show ?case
  proof cases
    case 1
    then show ?thesis by (intro exI [of _ "[]"]) simp
  next
    case (2 len)
    from 2(4) have "length (take len q) \<le> length (to_lower py)" by (metis starts_with_iff length_append le_add1)
    with 2(2,3) have mem: "len \<in> set (rev [1..<Suc (min (length (to_lower py)) (length q))])"
      by (simp add: less_Suc_eq_le del: upt_Suc)
    from "2.IH"(1) [OF mem 2(5)] obtain parts where "concat parts = drop len q" "length parts \<le> length chars"
      "list_all2 part_ok (take (length parts) chars) parts" by blast
    with 2 show ?thesis by (intro exI [of _ "take len q # parts"]) (auto simp: part_ok_pair)
  next
    case 3
    from "2.IH"(2) 3 obtain parts where "concat parts = tl q" "length parts \<le> length chars"
      "list_all2 part_ok (take (length parts) chars) parts" by blast
    moreover have "part_ok (py, initial) [hd q]" unfolding part_ok_pair using 3(2) by (metis One_nat_def length_Cons list.distinct(1) list.size(3))
    moreover have "hd q # tl q = q" using 3(1) by simp
    ultimately show ?thesis by (intro exI [of _ "[hd q] # parts"]) simp
  qed
qed

lemma tryConsume_complete:
  "list_all2 part_ok (take (length parts) chars) parts \<Longrightarrow> tryConsume chars (concat parts)"
proof (induction parts arbitrary: chars)
  case Nil
  then show ?case by (cases chars) auto
next
  case (Cons part parts)
  then obtain py initial rest where chars: "chars = (py, initial) # rest" by (cases chars) auto
  with Cons have p: "part_ok (py, initial) part" and rest: "tryConsume rest (concat parts)" by auto
  then consider "part \<noteq> []" "starts_with (to_lower py) part" | "length part = 1" "part = to_lower initial"
    by (auto simp: part_ok_def)
  then show ?case
  proof cases
    case 1
    then have "length part \<le> length (to_lower py)" by (auto simp: starts_with_iff) (metis le_add1 length_append length_to_lower)
    with 1 rest show ?thesis
      by (auto simp: chars Suc_le_eq simp del: upt_Suc intro!: bexI [of _ "length part"])
  next
    case 2
    from 2(1) obtain c where "part = [c]" by (metis length_0_conv length_Suc_conv One_nat_def)
    with 2(2) rest have "tryConsume ((py, initial) # rest) (c # concat parts)" by simp
    with \<open>part = [c]\<close> show ?thesis by (simp add: chars)
  qed
qed

text \<open>
  C11: The mixed pinyin match accepts exactly the queries that can be cut into consecutive
  non-empty parts, each a beginning of the pinyin of one character or its initial, for successive
  characters of the text from some position on. The greedy, longest-first order loses no match.
\<close>

theorem mixed_pinyin_spec:
  "mixedPinyinMatch pinyinArr firstArr query \<longleftrightarrow>
     (\<exists>start parts. start < length pinyinArr \<and> concat parts = query \<and>
        list_all2 part_ok (take (length parts) (drop start (zip pinyinArr firstArr))) parts)"
proof
  assume "mixedPinyinMatch pinyinArr firstArr query"
  then obtain start where "start < length pinyinArr" "tryConsume (drop start (zip pinyinArr firstArr)) query"
    by (auto simp: mixedPinyinMatch_def)
  with tryConsume_sound show "\<exists>start parts. start < length pinyinArr \<and> concat parts = query \<and>
      list_all2 part_ok (take (length parts) (drop start (zip pinyinArr firstArr))) parts" by blast
next
  assume "\<exists>start parts. start < length pinyinArr \<and> concat parts = query \<and>
      list_all2 part_ok (take (length parts) (drop start (zip pinyinArr firstArr))) parts"
  then show "mixedPinyinMatch pinyinArr firstArr query"
    using tryConsume_complete by (fastforce simp: mixedPinyinMatch_def)
qed

text \<open>The segments of a highlight are the label cut in pieces.\<close>

lemma highlight_joins: "concat (map hs_text (highlightMatch label query)) = label"
proof (cases "query = [] \<or> sub_index (to_lower label) (to_lower query) = None")
  case False
  then obtain idx where i: "sub_index (to_lower label) (to_lower query) = Some idx" by blast
  have "label = take idx label @ take (length query) (drop idx label) @ drop (idx + length query) label"
    by (metis add.commute append_take_drop_id drop_drop)
  with False i show ?thesis by (auto simp: highlightMatch_def slice_def)
qed (auto simp: highlightMatch_def)

definition collation :: "(string \<Rightarrow> string \<Rightarrow> int) \<Rightarrow> bool" where
  "collation collate \<longleftrightarrow>
     (\<forall>a b. collate a b \<le> 0 \<or> collate b a \<le> 0) \<and>
     (\<forall>a b c. collate a b \<le> 0 \<longrightarrow> collate b c \<le> 0 \<longrightarrow> collate a c \<le> 0)"

definition rank_of :: "pinyin_fn option \<Rightarrow> path_map \<Rightarrow> string \<Rightarrow> asset \<Rightarrow> nat option" where
  "rank_of fn paths query a = rankAsset fn (as_Name a) (asset_group_path paths a) query"

lemma ranked_assets_spec:
  "map fa_asset (ranked_assets fn paths query assets) = filter (\<lambda>a. rank_of fn paths query a \<noteq> None) assets \<and>
   (\<forall>f\<in>set (ranked_assets fn paths query assets). rank_of fn paths query (fa_asset f) = Some (fa_rank f))"
  by (induction assets) (auto simp: ranked_assets_def rank_of_def Let_def split: option.splits)

lemma ranked_sorted:
  assumes "collation collate"
  shows "sorted_wrt (ranked_before collate) (sort_by (ranked_before collate) items)"
  by (rule sorted_sort_by) (use assms in \<open>auto simp: ranked_before_def collation_def split: if_splits\<close>)

lemma sorted_ranks: "sorted_wrt (ranked_before collate) items \<Longrightarrow> sorted (map fa_rank items)"
  by (induction items) (auto simp: ranked_before_def split: if_splits)

text \<open>
  C10: A search returns the matching assets, best first: with a non-blank query and no limit the
  results are a permutation of the assets that match, each with its rank, in order of rank, and by
  the collation among equal ranks; a limit cuts this list.
\<close>

theorem search_ranks_matches:
  assumes "collation collate" and "trim query \<noteq> []"
  shows "\<exists>items. filterAssets fn collate paths assets query limit = (case limit of None \<Rightarrow> items | Some n \<Rightarrow> take n items) \<and>
           mset (map fa_asset items) = mset (filter (\<lambda>a. rank_of fn paths (trim query) a \<noteq> None) assets) \<and>
           (\<forall>f\<in>set items. rank_of fn paths (trim query) (fa_asset f) = Some (fa_rank f)) \<and>
           sorted (map fa_rank items) \<and> sorted_wrt (ranked_before collate) items"
proof -
  let ?r = "ranked_assets fn paths (trim query) assets"
  let ?s = "sort_by (ranked_before collate) ?r"
  have "mset (map fa_asset ?s) = mset (map fa_asset ?r)" by simp
  then have "mset (map fa_asset ?s) = mset (filter (\<lambda>a. rank_of fn paths (trim query) a \<noteq> None) assets)"
    using ranked_assets_spec [of fn paths "trim query" assets] by metis
  moreover have "\<forall>f\<in>set ?s. rank_of fn paths (trim query) (fa_asset f) = Some (fa_rank f)"
    using ranked_assets_spec [of fn paths "trim query" assets] by simp
  ultimately show ?thesis
    using ranked_sorted [OF assms(1), of ?r] sorted_ranks assms(2)
    by (intro exI [of _ ?s]) (simp add: filterAssets_def Let_def)
qed

definition ex_named :: "int \<Rightarrow> string \<Rightarrow> asset" where
  "ex_named i name = \<lparr>as_ID = i, as_Name = name, as_Type = ''ssh'', as_GroupID = 0, as_Icon = [], as_Status = 1\<rparr>"

theorem search_ranks_matches_witness:
  "\<exists>items. filterAssets None (\<lambda>a b. 0) (\<lambda>i. None) [ex_named 1 ''my-db'', ex_named 2 ''web'', ex_named 3 ''DB1''] ''db'' None = items \<and>
     mset (map fa_asset items) = {#ex_named 1 ''my-db'', ex_named 3 ''DB1''#} \<and> sorted (map fa_rank items)"
proof -
  have t: "trim ''db'' = ''db''" by code_simp
  have c: "collation (\<lambda>a b. 0)" by (simp add: collation_def)
  have r: "rank_of None (\<lambda>i. None) ''db'' (ex_named 1 ''my-db'') = Some 1" "rank_of None (\<lambda>i. None) ''db'' (ex_named 2 ''web'') = None"
    "rank_of None (\<lambda>i. None) ''db'' (ex_named 3 ''DB1'') = Some 0" by code_simp+
  from search_ranks_matches [OF c, of "''db''" None "\<lambda>i. None" "[ex_named 1 ''my-db'', ex_named 2 ''web'', ex_named 3 ''DB1'']" None]
  show ?thesis unfolding t by (auto simp: r)
qed

end
