(* ===== verification/SftpStore.thy ===== *)
theory SftpStore
  imports TabStore
begin

text \<open>
  File transfers and the file manager panels (\<^verbatim>\<open>stores/sftpStore.ts\<close>). The calls that start a
  transfer return its id or the empty string; the model receives that answer. The progress events of
  a transfer reach the store while it listens to them (\<open>sf_listening\<close>), and the timer that removes a
  finished transfer is pending in \<open>sf_timers\<close>. Sizes, counts and the width are integers.
\<close>

datatype direction = Upload | Download

datatype transfer_status = St_active | St_done | St_error | St_cancelled

record sftp_transfer =
  tr_transferId :: string
  tr_tabId :: string
  tr_sessionId :: string
  tr_direction :: direction
  tr_currentFile :: string
  tr_filesCompleted :: int
  tr_filesTotal :: int
  tr_bytesDone :: int
  tr_bytesTotal :: int
  tr_speed :: int
  tr_status :: transfer_status
  tr_error :: "string option"

record transfer_target =
  tt_tabId :: string
  tt_sessionId :: string

record sftp_store =
  transfers :: "(string \<times> sftp_transfer) list"
  fileManagerOpenTabs :: "(string \<times> bool) list"
  fileManagerPaths :: "(string \<times> string) list"
  fileManagerWidth :: int
  sf_listening :: "string list"
  sf_timers :: "string list"

record progress_event =
  pe_status :: string
  pe_currentFile :: "string option"
  pe_filesCompleted :: "int option"
  pe_filesTotal :: "int option"
  pe_bytesDone :: "int option"
  pe_bytesTotal :: "int option"
  pe_speed :: "int option"
  pe_error :: "string option"

definition DEFAULT_FILE_MANAGER_WIDTH :: int where "DEFAULT_FILE_MANAGER_WIDTH = 280"
definition MIN_FILE_MANAGER_WIDTH :: int where "MIN_FILE_MANAGER_WIDTH = 200"
definition MAX_FILE_MANAGER_WIDTH :: int where "MAX_FILE_MANAGER_WIDTH = 600"

definition sftp_init :: sftp_store where
  "sftp_init =
     \<lparr>transfers = [], fileManagerOpenTabs = [], fileManagerPaths = [],
      fileManagerWidth = DEFAULT_FILE_MANAGER_WIDTH, sf_listening = [], sf_timers = []\<rparr>"

section \<open>Transfers\<close>

definition new_transfer :: "string \<Rightarrow> transfer_target \<Rightarrow> direction \<Rightarrow> sftp_transfer" where
  "new_transfer i target dir =
     \<lparr>tr_transferId = i, tr_tabId = tt_tabId target, tr_sessionId = tt_sessionId target, tr_direction = dir,
      tr_currentFile = [], tr_filesCompleted = 0, tr_filesTotal = 0, tr_bytesDone = 0, tr_bytesTotal = 0,
      tr_speed = 0, tr_status = St_active, tr_error = None\<rparr>"

definition subscribeProgress :: "string \<Rightarrow> transfer_target \<Rightarrow> direction \<Rightarrow> sftp_store \<Rightarrow> sftp_store" where
  "subscribeProgress i target dir s =
     s\<lparr>transfers := set_prop (transfers s) i (new_transfer i target dir),
       sf_listening := i # sf_listening s\<rparr>"

definition or_old :: "'a option \<Rightarrow> 'a \<Rightarrow> 'a" where
  "or_old new old = (case new of None \<Rightarrow> old | Some x \<Rightarrow> x)"

definition progressed :: "progress_event \<Rightarrow> sftp_transfer \<Rightarrow> sftp_transfer" where
  "progressed e t =
     t\<lparr>tr_currentFile := (if pe_currentFile e = None \<or> pe_currentFile e = Some [] then tr_currentFile t
                         else the (pe_currentFile e)),
       tr_filesCompleted := or_old (pe_filesCompleted e) (tr_filesCompleted t),
       tr_filesTotal := or_old (pe_filesTotal e) (tr_filesTotal t),
       tr_bytesDone := or_old (pe_bytesDone e) (tr_bytesDone t),
       tr_bytesTotal := or_old (pe_bytesTotal e) (tr_bytesTotal t),
       tr_speed := or_old (pe_speed e) (tr_speed t)\<rparr>"

definition failed :: "progress_event \<Rightarrow> sftp_transfer \<Rightarrow> sftp_transfer" where
  "failed e t =
     t\<lparr>tr_status := (case pe_error e of
                      Some m \<Rightarrow> if str_includes m ''context canceled'' then St_cancelled else St_error
                    | None \<Rightarrow> St_error),
       tr_error := pe_error e\<rparr>"

definition unlisten :: "string \<Rightarrow> sftp_store \<Rightarrow> sftp_store" where
  "unlisten i s = s\<lparr>sf_listening := filter (\<lambda>j. j \<noteq> i) (sf_listening s)\<rparr>"

text \<open>The listener of one transfer.\<close>

definition on_progress :: "string \<Rightarrow> progress_event \<Rightarrow> sftp_store \<Rightarrow> sftp_store" where
  "on_progress i e s =
     (case map_of (transfers s) i of
        None \<Rightarrow> s
      | Some existing \<Rightarrow>
          if pe_status e = ''progress'' then s\<lparr>transfers := set_prop (transfers s) i (progressed e existing)\<rparr>
          else if pe_status e = ''done'' then
            (let s' = unlisten i (s\<lparr>transfers := set_prop (transfers s) i (existing\<lparr>tr_status := St_done\<rparr>)\<rparr>)
             in s'\<lparr>sf_timers := i # sf_timers s'\<rparr>)
          else if pe_status e = ''error'' then
            unlisten i (s\<lparr>transfers := set_prop (transfers s) i (failed e existing)\<rparr>)
          else s)"

definition on_timer :: "string \<Rightarrow> sftp_store \<Rightarrow> sftp_store" where
  "on_timer i s =
     (let s' = s\<lparr>sf_timers := remove1 i (sf_timers s)\<rparr>
      in case map_of (transfers s') i of
           Some current \<Rightarrow>
             if tr_status current = St_done then s'\<lparr>transfers := del_prop (transfers s') i\<rparr> else s'
         | None \<Rightarrow> s')"

text \<open>The five start operations, with the id the backend answers; no id ends the call.\<close>

definition start_transfer :: "string \<Rightarrow> transfer_target \<Rightarrow> direction \<Rightarrow> sftp_store \<Rightarrow> string option \<times> sftp_store" where
  "start_transfer answer target dir s =
     (if answer = [] then (None, s) else (Some answer, subscribeProgress answer target dir s))"

definition startUpload :: "string \<Rightarrow> transfer_target \<Rightarrow> sftp_store \<Rightarrow> string option \<times> sftp_store" where
  "startUpload answer target = start_transfer answer target Upload"

definition startUploadDir :: "string \<Rightarrow> transfer_target \<Rightarrow> sftp_store \<Rightarrow> string option \<times> sftp_store" where
  "startUploadDir answer target = start_transfer answer target Upload"

definition startUploadFile :: "string \<Rightarrow> transfer_target \<Rightarrow> sftp_store \<Rightarrow> string option \<times> sftp_store" where
  "startUploadFile answer target = start_transfer answer target Upload"

definition startDownload :: "string \<Rightarrow> transfer_target \<Rightarrow> sftp_store \<Rightarrow> string option \<times> sftp_store" where
  "startDownload answer target = start_transfer answer target Download"

definition startDownloadDir :: "string \<Rightarrow> transfer_target \<Rightarrow> sftp_store \<Rightarrow> string option \<times> sftp_store" where
  "startDownloadDir answer target = start_transfer answer target Download"

definition clearTransfer :: "string \<Rightarrow> sftp_store \<Rightarrow> sftp_store" where
  "clearTransfer i s = s\<lparr>transfers := del_prop (transfers s) i\<rparr>"

definition clearCompleted :: "sftp_store \<Rightarrow> sftp_store" where
  "clearCompleted s = s\<lparr>transfers := filter (\<lambda>(i, t). tr_status t = St_active) (transfers s)\<rparr>"

definition clearCompletedForSession :: "string \<Rightarrow> sftp_store \<Rightarrow> sftp_store" where
  "clearCompletedForSession sid s =
     s\<lparr>transfers := filter (\<lambda>(i, t). tr_sessionId t \<noteq> sid \<or> tr_status t = St_active) (transfers s)\<rparr>"

definition clearCompletedForTab :: "string \<Rightarrow> sftp_store \<Rightarrow> sftp_store" where
  "clearCompletedForTab tid s =
     s\<lparr>transfers := filter (\<lambda>(i, t). tr_tabId t \<noteq> tid \<or> tr_status t = St_active) (transfers s)\<rparr>"

definition getSessionTransfers :: "string \<Rightarrow> sftp_store \<Rightarrow> sftp_transfer list" where
  "getSessionTransfers sid s = filter (\<lambda>t. tr_sessionId t = sid) (map snd (transfers s))"

definition getTabTransfers :: "string \<Rightarrow> sftp_store \<Rightarrow> sftp_transfer list" where
  "getTabTransfers tid s = filter (\<lambda>t. tr_tabId t = tid) (map snd (transfers s))"

section \<open>File manager panels\<close>

definition toggleFileManager :: "string \<Rightarrow> sftp_store \<Rightarrow> sftp_store" where
  "toggleFileManager tid s =
     s\<lparr>fileManagerOpenTabs := set_prop (fileManagerOpenTabs s) tid
        (case map_of (fileManagerOpenTabs s) tid of None \<Rightarrow> True | Some b \<Rightarrow> \<not> b)\<rparr>"

definition setFileManagerPath :: "string \<Rightarrow> string \<Rightarrow> sftp_store \<Rightarrow> sftp_store" where
  "setFileManagerPath tid path s = s\<lparr>fileManagerPaths := set_prop (fileManagerPaths s) tid path\<rparr>"

definition setFileManagerWidth :: "int \<Rightarrow> sftp_store \<Rightarrow> sftp_store" where
  "setFileManagerWidth width s =
     s\<lparr>fileManagerWidth := max MIN_FILE_MANAGER_WIDTH (min MAX_FILE_MANAGER_WIDTH width)\<rparr>"

definition sftp_close_hook :: "tab \<Rightarrow> sftp_store \<Rightarrow> sftp_store" where
  "sftp_close_hook tab s =
     (if tb_type tab \<noteq> TT_terminal then s
      else s\<lparr>fileManagerOpenTabs := del_prop (fileManagerOpenTabs s) (tb_id tab),
             fileManagerPaths := del_prop (fileManagerPaths s) (tb_id tab)\<rparr>)"

definition move_key :: "string \<Rightarrow> string \<Rightarrow> (string \<times> 'v) list \<Rightarrow> (string \<times> 'v) list" where
  "move_key oldId newId ps =
     (case map_of ps oldId of None \<Rightarrow> ps | Some v \<Rightarrow> del_prop (set_prop ps newId v) oldId)"

definition sftp_replace_hook :: "string \<Rightarrow> string \<Rightarrow> sftp_store \<Rightarrow> sftp_store" where
  "sftp_replace_hook oldId newId s =
     (let hasOpen = map_of (fileManagerOpenTabs s) oldId \<noteq> None;
          hasPath = map_of (fileManagerPaths s) oldId \<noteq> None
      in if \<not> hasOpen \<and> \<not> hasPath then s
         else s\<lparr>fileManagerOpenTabs := move_key oldId newId (fileManagerOpenTabs s),
                fileManagerPaths := move_key oldId newId (fileManagerPaths s)\<rparr>)"

declare map_of_eq_Some_iff [simp del] Some_eq_map_of_iff [simp del]

section \<open>Runs\<close>

text \<open>
  What can happen to the store: a transfer starts under an id the backend has not given before, an
  event arrives for a transfer that is listened to, a timer fires, the user clears transfers or works
  with the panels, the tab store calls the hooks.
\<close>

inductive sftp_step :: "sftp_store \<Rightarrow> sftp_store \<Rightarrow> bool" where
  step_start: "i \<notin> fst ` set (transfers s) \<Longrightarrow> i \<notin> set (sf_listening s) \<Longrightarrow> i \<notin> set (sf_timers s) \<Longrightarrow>
    sftp_step s (snd (start_transfer i target dir s))"
| step_event: "i \<in> set (sf_listening s) \<Longrightarrow> sftp_step s (on_progress i e s)"
| step_timer: "i \<in> set (sf_timers s) \<Longrightarrow> sftp_step s (on_timer i s)"
| step_clear: "sftp_step s (clearTransfer i s)"
| step_clear_completed: "sftp_step s (clearCompleted s)"
| step_clear_session: "sftp_step s (clearCompletedForSession sid s)"
| step_clear_tab: "sftp_step s (clearCompletedForTab tid s)"
| step_toggle: "sftp_step s (toggleFileManager tid s)"
| step_path: "sftp_step s (setFileManagerPath tid path s)"
| step_width: "sftp_step s (setFileManagerWidth w s)"
| step_close: "sftp_step s (sftp_close_hook tab s)"
| step_replace: "sftp_step s (sftp_replace_hook oldId newId s)"

inductive_cases sftp_stepE: "sftp_step s s'"

inductive sftp_run :: "sftp_store \<Rightarrow> sftp_store \<Rightarrow> bool" where
  sftp_refl: "sftp_run s s"
| sftp_trans: "sftp_run s t \<Longrightarrow> sftp_step t u \<Longrightarrow> sftp_run s u"

definition transfers_ok :: "sftp_store \<Rightarrow> bool" where
  "transfers_ok s \<longleftrightarrow>
     distinct (map fst (transfers s)) \<and> distinct (sf_listening s) \<and>
     (\<forall>i t. map_of (transfers s) i = Some t \<longrightarrow> tr_transferId t = i \<and>
        (tr_status t = St_active \<longleftrightarrow> i \<in> set (sf_listening s)) \<and>
        (i \<in> set (sf_timers s) \<longrightarrow> tr_status t = St_done))"

definition width_ok :: "sftp_store \<Rightarrow> bool" where
  "width_ok s \<longleftrightarrow> MIN_FILE_MANAGER_WIDTH \<le> fileManagerWidth s \<and> fileManagerWidth s \<le> MAX_FILE_MANAGER_WIDTH"

lemma progressed_simps [simp]:
  "tr_transferId (progressed e t) = tr_transferId t" "tr_status (progressed e t) = tr_status t"
  "tr_transferId (failed e t) = tr_transferId t" "tr_status (failed e t) \<noteq> St_active"
  by (auto simp: progressed_def failed_def split: option.splits if_splits)

lemma failed_done [simp]: "tr_status (failed e t) \<noteq> St_done"
  by (auto simp: failed_def split: option.splits if_splits)

lemma unlisten_simps [simp]:
  "transfers (unlisten i s) = transfers s" "sf_listening (unlisten i s) = filter (\<lambda>j. j \<noteq> i) (sf_listening s)"
  "sf_timers (unlisten i s) = sf_timers s" "fileManagerWidth (unlisten i s) = fileManagerWidth s"
  by (simp_all add: unlisten_def)

lemma transfers_ok_panels:
  "transfers s' = transfers s \<Longrightarrow> sf_listening s' = sf_listening s \<Longrightarrow> sf_timers s' = sf_timers s \<Longrightarrow>
   transfers_ok s' = transfers_ok s"
  by (simp add: transfers_ok_def)

lemma panels_ok:
  "transfers_ok s \<Longrightarrow> transfers_ok (toggleFileManager tid s)"
  "transfers_ok s \<Longrightarrow> transfers_ok (setFileManagerPath tid path s)"
  "transfers_ok s \<Longrightarrow> transfers_ok (setFileManagerWidth w s)"
  "transfers_ok s \<Longrightarrow> transfers_ok (sftp_close_hook tab s)"
  by (simp_all add: toggleFileManager_def setFileManagerPath_def setFileManagerWidth_def sftp_close_hook_def transfers_ok_def)

lemma transfers_ok_filter:
  "transfers_ok s \<Longrightarrow> transfers_ok (s\<lparr>transfers := filter P (transfers s)\<rparr>)"
  by (auto simp: transfers_ok_def map_of_filter_distinct distinct_map_filter split: option.splits if_splits)

lemma transfers_ok_start:
  assumes "transfers_ok s" "i \<notin> fst ` set (transfers s)" "i \<notin> set (sf_listening s)" "i \<notin> set (sf_timers s)"
  shows "transfers_ok (snd (start_transfer i target dir s))"
  using assms by (auto simp: transfers_ok_def start_transfer_def subscribeProgress_def new_transfer_def)

lemma transfers_ok_event:
  assumes "transfers_ok s" "i \<in> set (sf_listening s)"
  shows "transfers_ok (on_progress i e s)"
proof (cases "map_of (transfers s) i")
  case None
  with assms show ?thesis by (simp add: on_progress_def)
next
  case (Some t)
  with assms(1) have "tr_transferId t = i \<and> (tr_status t = St_active \<longleftrightarrow> i \<in> set (sf_listening s)) \<and>
      (i \<in> set (sf_timers s) \<longrightarrow> tr_status t = St_done)"
    unfolding transfers_ok_def by blast
  with assms(2) have t: "tr_transferId t = i" "tr_status t = St_active" "i \<notin> set (sf_timers s)" by auto
  show ?thesis
    using Some assms t by (auto simp: on_progress_def transfers_ok_def Let_def)
qed

lemma transfers_ok_timer: "transfers_ok s \<Longrightarrow> transfers_ok (on_timer i s)"
  by (auto simp: on_timer_def transfers_ok_def Let_def dest: notin_set_remove1 split: option.split)

lemma transfers_ok_step: "sftp_step s s' \<Longrightarrow> transfers_ok s \<Longrightarrow> transfers_ok s'"
proof (induction rule: sftp_step.induct)
  case (step_clear s i)
  then show ?case using transfers_ok_filter by (simp add: clearTransfer_def del_prop_def)
next
  case (step_replace s oldId newId)
  then show ?case by (simp add: sftp_replace_hook_def transfers_ok_def)
qed (simp_all add: transfers_ok_start transfers_ok_event transfers_ok_timer clearCompleted_def clearCompletedForSession_def
    clearCompletedForTab_def transfers_ok_filter panels_ok)

lemma width_ok_step: "sftp_step s s' \<Longrightarrow> width_ok s \<Longrightarrow> width_ok s'"
  by (induction rule: sftp_step.induct)
    (auto simp: width_ok_def start_transfer_def subscribeProgress_def on_progress_def on_timer_def clearTransfer_def
      clearCompleted_def clearCompletedForSession_def clearCompletedForTab_def toggleFileManager_def setFileManagerPath_def
      setFileManagerWidth_def sftp_close_hook_def sftp_replace_hook_def Let_def MIN_FILE_MANAGER_WIDTH_def MAX_FILE_MANAGER_WIDTH_def
      split: option.split)

text \<open>A finished transfer is not written again.\<close>

lemma finished_step:
  assumes "sftp_step s s'" "transfers_ok s" "map_of (transfers s) i = Some t" "tr_status t \<noteq> St_active"
  shows "map_of (transfers s') i = Some t \<or> map_of (transfers s') i = None"
  using assms
proof (induction rule: sftp_step.induct)
  case (step_start j s target dir)
  then have "i \<noteq> j" by (auto dest: map_of_SomeD intro: rev_image_eqI)
  with step_start show ?case by (simp add: start_transfer_def subscribeProgress_def)
next
  case (step_event j s e)
  then have "i \<noteq> j" by (auto simp: transfers_ok_def)
  with step_event show ?case by (auto simp: on_progress_def Let_def split: option.split)
next
  case (step_timer j s)
  then show ?case by (auto simp: on_timer_def Let_def split: option.split)
qed (auto simp: clearTransfer_def clearCompleted_def clearCompletedForSession_def clearCompletedForTab_def
    toggleFileManager_def setFileManagerPath_def setFileManagerWidth_def sftp_close_hook_def sftp_replace_hook_def
    Let_def transfers_ok_def map_of_filter_distinct)

text \<open>The listeners without a transfer in the list: what is left of a transfer that was cleared while active.\<close>

definition orphans :: "sftp_store \<Rightarrow> string set" where
  "orphans s = set (sf_listening s) - fst ` set (transfers s)"

lemma listed_iff: "i \<in> fst ` set ps \<longleftrightarrow> map_of ps i \<noteq> None"
  by (simp add: map_of_eq_None_iff)

lemma orphans_iff: "i \<in> orphans s \<longleftrightarrow> i \<in> set (sf_listening s) \<and> map_of (transfers s) i = None"
  by (auto simp: orphans_def map_of_eq_None_iff)

lemma orphans_filter:
  assumes "transfers_ok s" and "\<And>i t. tr_status t = St_active \<Longrightarrow> P (i, t)"
  shows "orphans (s\<lparr>transfers := filter P (transfers s)\<rparr>) = orphans s"
  using assms by (auto simp: set_eq_iff orphans_iff transfers_ok_def map_of_filter_distinct split: option.splits if_splits)

lemma orphans_clear:
  assumes "transfers_ok s"
  shows "orphans (clearTransfer i s) = orphans s \<or>
    ((\<exists>t. map_of (transfers s) i = Some t \<and> tr_status t = St_active) \<and> orphans (clearTransfer i s) = insert i (orphans s))"
  using assms by (auto simp: set_eq_iff orphans_iff clearTransfer_def transfers_ok_def)

lemma orphans_event:
  assumes "transfers_ok s"
  shows "orphans (on_progress i e s) = orphans s"
  using assms by (auto simp: set_eq_iff orphans_iff on_progress_def Let_def split: option.splits)

lemma orphans_timer:
  assumes "transfers_ok s" and "i \<in> set (sf_timers s)"
  shows "orphans (on_timer i s) = orphans s"
proof (cases "map_of (transfers s) i")
  case (Some t)
  with assms(1) have "(tr_status t = St_active \<longleftrightarrow> i \<in> set (sf_listening s)) \<and> (i \<in> set (sf_timers s) \<longrightarrow> tr_status t = St_done)"
    unfolding transfers_ok_def by blast
  with assms(2) have "tr_status t = St_done" "i \<notin> set (sf_listening s)" by auto
  with Some show ?thesis by (auto simp: set_eq_iff orphans_iff on_timer_def Let_def)
qed (simp add: on_timer_def Let_def orphans_def)

lemma orphans_start:
  "i \<notin> fst ` set (transfers s) \<Longrightarrow> i \<notin> set (sf_listening s) \<Longrightarrow>
   orphans (snd (start_transfer i target dir s)) = orphans s"
  by (auto simp: set_eq_iff orphans_iff start_transfer_def subscribeProgress_def)

lemma orphans_step:
  assumes "sftp_step s s'" and "transfers_ok s"
  shows "orphans s' = orphans s \<or>
    (\<exists>i t. s' = clearTransfer i s \<and> map_of (transfers s) i = Some t \<and> tr_status t = St_active \<and> orphans s' = insert i (orphans s))"
  using assms
proof (induction rule: sftp_step.induct)
  case (step_start i s target dir)
  then show ?case using orphans_start by blast
next
  case (step_clear s i)
  then show ?case using orphans_clear [of s i] by blast
next
  case (step_event i s e)
  then show ?case using orphans_event by blast
next
  case (step_timer i s)
  then show ?case using orphans_timer by blast
next
  case (step_clear_completed s)
  then show ?case by (simp add: clearCompleted_def orphans_filter)
next
  case (step_clear_session s sid)
  then show ?case by (simp add: clearCompletedForSession_def orphans_filter)
next
  case (step_clear_tab s tid)
  then show ?case by (simp add: clearCompletedForTab_def orphans_filter)
qed (simp_all add: orphans_def toggleFileManager_def setFileManagerPath_def setFileManagerWidth_def sftp_close_hook_def
    sftp_replace_hook_def Let_def)

text \<open>
  C14: Over every run of events, timers and user actions, a listed transfer is listened to exactly while it is
  active; a transfer that is done, failed or cancelled is never written again until it is removed; and the panel
  width stays between 200 and 600. A listener whose transfer is not listed any more comes from removing an active
  transfer from the list, and from nothing else, and it is never given up.
\<close>

theorem transfers_listened_while_active:
  assumes "sftp_run sftp_init s"
  shows "transfers_ok s \<and> width_ok s \<and>
         (\<forall>s' i t. sftp_step s s' \<longrightarrow> map_of (transfers s) i = Some t \<longrightarrow> tr_status t \<noteq> St_active \<longrightarrow>
            map_of (transfers s') i = Some t \<or> map_of (transfers s') i = None) \<and>
         (\<forall>s'. sftp_step s s' \<longrightarrow> orphans s' = orphans s \<or>
            (\<exists>i t. s' = clearTransfer i s \<and> map_of (transfers s) i = Some t \<and> tr_status t = St_active \<and>
               orphans s' = insert i (orphans s)))"
proof -
  have "sftp_run a s \<Longrightarrow> a = sftp_init \<Longrightarrow> transfers_ok s \<and> width_ok s" for a
  proof (induction rule: sftp_run.induct)
    case (sftp_refl s)
    then show ?case
      by (simp add: sftp_init_def transfers_ok_def width_ok_def DEFAULT_FILE_MANAGER_WIDTH_def
          MIN_FILE_MANAGER_WIDTH_def MAX_FILE_MANAGER_WIDTH_def)
  next
    case (sftp_trans s t u)
    then show ?case using transfers_ok_step width_ok_step by blast
  qed
  with assms have "transfers_ok s" "width_ok s" by blast+
  then show ?thesis by (intro conjI allI impI orphans_step) (blast, blast, rule finished_step, auto)
qed

text \<open>
  When a connecting tab takes the id of its session, the open panel and the path of the tab go
  with it, and no other tab's panel changes.
\<close>

theorem panel_follows_tab:
  assumes "oldId \<noteq> newId"
  shows "map_of (fileManagerOpenTabs (sftp_replace_hook oldId newId s)) =
           (map_of (fileManagerOpenTabs s))
             (newId := (if map_of (fileManagerOpenTabs s) oldId = None then map_of (fileManagerOpenTabs s) newId
                        else map_of (fileManagerOpenTabs s) oldId), oldId := None) \<and>
         map_of (fileManagerPaths (sftp_replace_hook oldId newId s)) =
           (map_of (fileManagerPaths s))
             (newId := (if map_of (fileManagerPaths s) oldId = None then map_of (fileManagerPaths s) newId
                        else map_of (fileManagerPaths s) oldId), oldId := None)"
  using assms
  by (auto simp: sftp_replace_hook_def move_key_def fun_eq_iff split: option.split)

definition ex_panel :: sftp_store where
  "ex_panel = setFileManagerPath ''conn'' ''/srv'' (toggleFileManager ''conn'' (snd (startUpload ''t1'' \<lparr>tt_tabId = ''conn'', tt_sessionId = ''s''\<rparr> sftp_init)))"

theorem panel_follows_tab_witness:
  "map_of (fileManagerPaths (sftp_replace_hook ''conn'' ''sess'' ex_panel)) ''sess'' = Some ''/srv''"
  by (subst conjunct2 [OF panel_follows_tab]) (simp_all add: ex_panel_def setFileManagerPath_def toggleFileManager_def
      startUpload_def start_transfer_def subscribeProgress_def sftp_init_def)

theorem transfers_listened_while_active_witness:
  "transfers_ok ex_panel"
proof -
  have "sftp_run sftp_init ex_panel"
    unfolding ex_panel_def startUpload_def
    by (rule sftp_trans [OF sftp_trans [OF sftp_trans [OF sftp_refl step_start] step_toggle] step_path])
      (simp_all add: sftp_init_def)
  from transfers_listened_while_active [OF this] show ?thesis by simp
qed

text \<open>The panels are stores keyed by the terminal tabs.\<close>

interpretation panels: tab_keyed_store "\<lambda>s. fst ` set (fileManagerOpenTabs s)" sftp_close_hook "\<lambda>t. tb_type t = TT_terminal"
  by unfold_locales (auto simp: sftp_close_hook_def del_prop_def image_iff)

interpretation paths: tab_keyed_store "\<lambda>s. fst ` set (fileManagerPaths s)" sftp_close_hook "\<lambda>t. tb_type t = TT_terminal"
  by unfold_locales (auto simp: sftp_close_hook_def del_prop_def image_iff)

end
