(* ===== verification/Shortcuts.thy ===== *)
theory Shortcuts
  imports TabStore
begin

text \<open>
  The keyboard shortcuts (\<^verbatim>\<open>stores/shortcutStore.ts\<close>): the bindings, what of them is kept in
  \<open>localStorage\<close>, and the action of a key event. The texts shown for a binding are left out.
\<close>

record binding =
  bd_code :: string
  bd_mod :: bool
  bd_shift :: bool
  bd_alt :: bool

definition key :: "string \<Rightarrow> bool \<Rightarrow> binding" where
  "key c shift = \<lparr>bd_code = c, bd_mod = True, bd_shift = shift, bd_alt = False\<rparr>"

type_synonym bindings = "(string \<times> binding) list"

definition DEFAULT_SHORTCUTS :: bindings where
  "DEFAULT_SHORTCUTS =
     [(''tab.1'', key ''Digit1'' False), (''tab.2'', key ''Digit2'' False), (''tab.3'', key ''Digit3'' False),
      (''tab.4'', key ''Digit4'' False), (''tab.5'', key ''Digit5'' False), (''tab.6'', key ''Digit6'' False),
      (''tab.7'', key ''Digit7'' False), (''tab.8'', key ''Digit8'' False), (''tab.9'', key ''Digit9'' False),
      (''tab.close'', key ''KeyW'' False), (''tab.prev'', key ''BracketLeft'' True), (''tab.next'', key ''BracketRight'' True),
      (''split.vertical'', key ''KeyD'' False), (''split.horizontal'', key ''KeyD'' True),
      (''panel.ai'', key ''KeyB'' False), (''panel.sidebar'', key ''KeyE'' False), (''panel.switch'', key ''KeyE'' True),
      (''panel.filter'', key ''KeyF'' False), (''page.home'', key ''KeyH'' True), (''page.settings'', key ''Comma'' False),
      (''page.sshkeys'', key ''KeyK'' True), (''command.quickopen'', key ''KeyP'' False)]"

definition SHORTCUT_ACTIONS :: "string list" where
  "SHORTCUT_ACTIONS =
     [''tab.1'', ''tab.2'', ''tab.3'', ''tab.4'', ''tab.5'', ''tab.6'', ''tab.7'', ''tab.8'', ''tab.9'',
      ''tab.close'', ''tab.prev'', ''tab.next'', ''split.vertical'', ''split.horizontal'', ''panel.ai'', ''panel.sidebar'',
      ''panel.switch'', ''panel.filter'', ''page.home'', ''page.settings'', ''page.sshkeys'', ''command.quickopen'']"

record shortcut_store =
  sh_shortcuts :: bindings
  sh_isRecording :: bool
  sh_saved :: "bindings item"

definition loadCustom :: "bindings item \<Rightarrow> bindings" where
  "loadCustom raw = (case raw of Stored custom \<Rightarrow> custom | _ \<Rightarrow> [])"

definition custom_of :: "bindings \<Rightarrow> bindings" where
  "custom_of shortcuts =
     filter (\<lambda>(k, val). case map_of DEFAULT_SHORTCUTS k of None \<Rightarrow> False | Some def \<Rightarrow> val \<noteq> def) shortcuts"

definition saveCustom :: "bindings \<Rightarrow> bindings item" where
  "saveCustom shortcuts = (let custom = custom_of shortcuts in if custom \<noteq> [] then Stored custom else Absent)"

text \<open>\<open>{ ...a, ...b }\<close>.\<close>

definition spread :: "bindings \<Rightarrow> bindings \<Rightarrow> bindings" where
  "spread a b = fold (\<lambda>(k, v) m. set_prop m k v) b a"

definition shortcut_init :: "bindings item \<Rightarrow> shortcut_store" where
  "shortcut_init raw = \<lparr>sh_shortcuts = spread DEFAULT_SHORTCUTS (loadCustom raw), sh_isRecording = False, sh_saved = raw\<rparr>"

definition setIsRecording :: "bool \<Rightarrow> shortcut_store \<Rightarrow> shortcut_store" where
  "setIsRecording v s = s\<lparr>sh_isRecording := v\<rparr>"

definition updateShortcut :: "string \<Rightarrow> binding \<Rightarrow> shortcut_store \<Rightarrow> shortcut_store" where
  "updateShortcut action b s =
     (let shortcuts = set_prop (sh_shortcuts s) action b in s\<lparr>sh_shortcuts := shortcuts, sh_saved := saveCustom shortcuts\<rparr>)"

definition default_binding :: "string \<Rightarrow> binding" where
  "default_binding action = the (map_of DEFAULT_SHORTCUTS action)"

definition resetShortcut :: "string \<Rightarrow> shortcut_store \<Rightarrow> shortcut_store" where
  "resetShortcut action s =
     (let shortcuts = set_prop (sh_shortcuts s) action (default_binding action)
      in s\<lparr>sh_shortcuts := shortcuts, sh_saved := saveCustom shortcuts\<rparr>)"

definition resetAll :: "shortcut_store \<Rightarrow> shortcut_store" where
  "resetAll s = s\<lparr>sh_shortcuts := DEFAULT_SHORTCUTS, sh_saved := Absent\<rparr>"

record key_event =
  ke_code :: string
  ke_meta :: bool
  ke_ctrl :: bool
  ke_shift :: bool
  ke_alt :: bool

definition matchShortcut :: "bool \<Rightarrow> key_event \<Rightarrow> bindings \<Rightarrow> string option" where
  "matchShortcut isMac e shortcuts =
     (let modPressed = (if isMac then ke_meta e else ke_ctrl e)
      in map_option fst (find (\<lambda>(action, b). ke_code e = bd_code b \<and> modPressed = bd_mod b \<and>
           ke_shift e = bd_shift b \<and> ke_alt e = bd_alt b) shortcuts))"

section \<open>A restart keeps the bindings\<close>

datatype shortcut_op = Set_recording bool | Update string binding | Reset string | Reset_all

fun run_shortcut :: "shortcut_op \<Rightarrow> shortcut_store \<Rightarrow> shortcut_store" where
  "run_shortcut (Set_recording v) = setIsRecording v"
| "run_shortcut (Update a b) = updateShortcut a b"
| "run_shortcut (Reset a) = resetShortcut a"
| "run_shortcut Reset_all = resetAll"

fun op_action_ok :: "shortcut_op \<Rightarrow> bool" where
  "op_action_ok (Update a b) \<longleftrightarrow> a \<in> set SHORTCUT_ACTIONS"
| "op_action_ok (Reset a) \<longleftrightarrow> a \<in> set SHORTCUT_ACTIONS"
| "op_action_ok p \<longleftrightarrow> True"

lemma default_keys: "map fst DEFAULT_SHORTCUTS = SHORTCUT_ACTIONS"
  by (simp add: DEFAULT_SHORTCUTS_def SHORTCUT_ACTIONS_def)

lemma distinct_actions: "distinct SHORTCUT_ACTIONS"
  by code_simp

text \<open>Two lists of bindings with the same names in the same order.\<close>

lemma set_prop_same: "map_of m k = Some v \<Longrightarrow> distinct (map fst m) \<Longrightarrow> set_prop m k v = m"
  by (induction m) (auto split: if_splits)

lemma set_prop_cons_other: "k \<noteq> j \<Longrightarrow> set_prop ((j, u) # m) k v = (j, u) # set_prop m k v"
  by simp

lemma spread_skip: "k \<notin> fst ` set b \<Longrightarrow> spread ((k, v) # a) b = (k, v) # spread a b"
  by (induction b arbitrary: a) (auto simp: spread_def)

lemma spread_restores:
  assumes "map fst cur = map fst def" and "distinct (map fst def)"
    and "\<And>k v. (k, v) \<in> set cur \<Longrightarrow> P (k, v) \<or> map_of def k = Some v"
  shows "spread def (filter P cur) = cur"
  using assms
proof (induction cur arbitrary: def)
  case (Cons kv cur)
  obtain k v where kv: "kv = (k, v)" by (cases kv)
  with Cons.prems(1) obtain d def' where d: "def = (k, d) # def'" "map fst cur = map fst def'" by (cases def) auto
  from Cons.prems(2) d have new: "k \<notin> fst ` set (filter P cur)"
    by (metis distinct.simps(2) filter_is_subset image_mono list.set_map list.simps(9) fst_conv subsetD)
  have rest: "spread def' (filter P cur) = cur"
  proof (rule Cons.IH [OF d(2)])
    show "distinct (map fst def')" using Cons.prems(2) d by simp
    fix j u assume j: "(j, u) \<in> set cur"
    then have "j \<in> fst ` set def'" using d(2) by (metis fst_conv image_eqI list.set_map)
    then have "j \<noteq> k" using Cons.prems(2) d by auto
    with Cons.prems(3) [of j u] j kv d show "P (j, u) \<or> map_of def' j = Some u" by auto
  qed
  show ?case
  proof (cases "P (k, v)")
    case True
    then have "spread def (filter P (kv # cur)) = spread ((k, v) # def') (filter P cur)"
      by (simp add: kv d spread_def)
    then show ?thesis using rest by (simp add: spread_skip [OF new] kv)
  next
    case False
    with Cons.prems(3) [of k v] kv d have "d = v" by auto
    with False rest show ?thesis by (simp add: kv d spread_skip [OF new])
  qed
qed (simp add: spread_def)

lemma reload_custom:
  assumes "map fst shortcuts = SHORTCUT_ACTIONS"
  shows "spread DEFAULT_SHORTCUTS (loadCustom (saveCustom shortcuts)) = shortcuts"
proof -
  have "loadCustom (saveCustom shortcuts) = custom_of shortcuts"
    by (simp add: loadCustom_def saveCustom_def Let_def)
  moreover have "spread DEFAULT_SHORTCUTS (custom_of shortcuts) = shortcuts"
    unfolding custom_of_def
  proof (rule spread_restores)
    show "map fst shortcuts = map fst DEFAULT_SHORTCUTS" using assms default_keys by simp
    show "distinct (map fst DEFAULT_SHORTCUTS)" using default_keys distinct_actions by simp
    fix k v assume "(k, v) \<in> set shortcuts"
    then have "k \<in> set (map fst DEFAULT_SHORTCUTS)" using assms default_keys by (metis fst_conv image_eqI list.set_map)
    then obtain d where "map_of DEFAULT_SHORTCUTS k = Some d" by (metis domD dom_map_of_conv_image_fst list.set_map)
    then show "(case (k, v) of (k, val) \<Rightarrow> case map_of DEFAULT_SHORTCUTS k of None \<Rightarrow> False | Some def \<Rightarrow> val \<noteq> def) \<or>
        map_of DEFAULT_SHORTCUTS k = Some v" by auto
  qed
  ultimately show ?thesis by simp
qed

definition shortcuts_ok :: "shortcut_store \<Rightarrow> bool" where
  "shortcuts_ok s \<longleftrightarrow> map fst (sh_shortcuts s) = SHORTCUT_ACTIONS \<and>
     spread DEFAULT_SHORTCUTS (loadCustom (sh_saved s)) = sh_shortcuts s"

lemma keys_set_prop_known: "k \<in> set (map fst m) \<Longrightarrow> map fst (set_prop m k v) = map fst m"
  by (simp add: keys_set_prop)

lemma shortcuts_ok_op: "shortcuts_ok s \<Longrightarrow> op_action_ok p \<Longrightarrow> shortcuts_ok (run_shortcut p s)"
proof (cases p)
  case Reset_all
  have "spread DEFAULT_SHORTCUTS [] = DEFAULT_SHORTCUTS" by (simp add: spread_def)
  then show ?thesis by (simp add: Reset_all resetAll_def shortcuts_ok_def default_keys loadCustom_def)
qed (auto simp: shortcuts_ok_def setIsRecording_def updateShortcut_def resetShortcut_def Let_def keys_set_prop_known reload_custom)

lemma spread_keys: "set (map fst b) \<subseteq> set (map fst a) \<Longrightarrow> map fst (spread a b) = map fst a"
proof (induction b arbitrary: a)
  case (Cons x b)
  obtain k v where x: "x = (k, v)" by (cases x)
  with Cons.prems have k: "map fst (set_prop a k v) = map fst a" by (intro keys_set_prop_known) simp
  then have "set (map fst b) \<subseteq> set (map fst (set_prop a k v))" using Cons.prems by auto
  from Cons.IH [OF this] k show ?case by (simp add: spread_def x)
qed (simp add: spread_def)

text \<open>From a start with saved bindings of known actions, any changes and a restart: the same bindings,
  in the same order, so that a key event has the same action.\<close>

lemma restart_keeps_shortcuts:
  assumes "set (map fst (loadCustom raw)) \<subseteq> set SHORTCUT_ACTIONS" and "\<forall>p\<in>set ops. op_action_ok p"
  shows "sh_shortcuts (shortcut_init (sh_saved (fold run_shortcut ops (shortcut_init raw)))) =
    sh_shortcuts (fold run_shortcut ops (shortcut_init raw))"
proof -
  have "shortcuts_ok (shortcut_init raw)"
    using assms(1) spread_keys [of "loadCustom raw" DEFAULT_SHORTCUTS] unfolding default_keys
    by (simp add: shortcuts_ok_def shortcut_init_def)
  then have "shortcuts_ok (fold run_shortcut ops (shortcut_init raw))"
    using assms(2) by (induction ops arbitrary: raw rule: rev_induct) (auto intro: shortcuts_ok_op)
  then show ?thesis by (simp add: shortcuts_ok_def shortcut_init_def)
qed

end
