(* ===== verification/TerminalTree.thy ===== *)
theory TerminalTree
  imports Complex_Main Prelude
begin

text \<open>
  The split tree of a terminal tab (\<^verbatim>\<open>stores/terminalStore.ts\<close>): panes with a session, panes that
  wait for one, panes that connect, and splits. The share of a split is a rational number.
\<close>

datatype split_direction = Horizontal | Vertical

datatype split_node =
    N_terminal string
  | N_pending string
  | N_connecting string
  | N_split split_direction rat split_node split_node

fun getSessionIds :: "split_node \<Rightarrow> string list" where
  "getSessionIds (N_terminal s) = [s]"
| "getSessionIds (N_pending p) = []"
| "getSessionIds (N_connecting c) = []"
| "getSessionIds (N_split d r first second) = getSessionIds first @ getSessionIds second"

fun replaceNode :: "split_node \<Rightarrow> string \<Rightarrow> split_node \<Rightarrow> split_node" where
  "replaceNode (N_terminal s) i new = (if s = i then new else N_terminal s)"
| "replaceNode (N_pending p) i new = (if p = i then new else N_pending p)"
| "replaceNode (N_connecting c) i new = (if c = i then new else N_connecting c)"
| "replaceNode (N_split d r first second) i new = N_split d r (replaceNode first i new) (replaceNode second i new)"

fun removeNode :: "split_node \<Rightarrow> string \<Rightarrow> split_node option" where
  "removeNode (N_terminal s) i = (if s = i then None else Some (N_terminal s))"
| "removeNode (N_pending p) i = (if p = i then None else Some (N_pending p))"
| "removeNode (N_connecting c) i = (if c = i then None else Some (N_connecting c))"
| "removeNode (N_split d r first second) i =
     (case (removeNode first i, removeNode second i) of
        (None, newSecond) \<Rightarrow> newSecond
      | (Some newFirst, None) \<Rightarrow> Some newFirst
      | (Some newFirst, Some newSecond) \<Rightarrow> Some (N_split d r newFirst newSecond))"

fun setRatioAtPath :: "split_node \<Rightarrow> nat list \<Rightarrow> rat \<Rightarrow> split_node" where
  "setRatioAtPath (N_split d r first second) [] ratio = N_split d ratio first second"
| "setRatioAtPath (N_split d r first second) (h # rest) ratio =
     (if h = 0 then N_split d r (setRatioAtPath first rest ratio) second
      else N_split d r first (setRatioAtPath second rest ratio))"
| "setRatioAtPath tree path ratio = tree"

section \<open>The leaves\<close>

fun pane_leaves :: "split_node \<Rightarrow> split_node list" where
  "pane_leaves (N_split d r first second) = pane_leaves first @ pane_leaves second"
| "pane_leaves leaf = [leaf]"

fun leaf_id :: "split_node \<Rightarrow> string" where
  "leaf_id (N_terminal s) = s"
| "leaf_id (N_pending p) = p"
| "leaf_id (N_connecting c) = c"
| "leaf_id (N_split d r first second) = []"

definition leaf_ids :: "split_node \<Rightarrow> string list" where
  "leaf_ids tree = map leaf_id (pane_leaves tree)"

definition connecting_ids :: "split_node \<Rightarrow> string list" where
  "connecting_ids tree = concat (map (\<lambda>n. case n of N_connecting c \<Rightarrow> [c] | _ \<Rightarrow> []) (pane_leaves tree))"

lemma leaf_ids_simps [simp]:
  "leaf_ids (N_terminal s) = [s]" "leaf_ids (N_pending p) = [p]" "leaf_ids (N_connecting c) = [c]"
  "leaf_ids (N_split d r f s') = leaf_ids f @ leaf_ids s'"
  by (simp_all add: leaf_ids_def)

lemma connecting_ids_simps [simp]:
  "connecting_ids (N_terminal s) = []" "connecting_ids (N_pending p) = []" "connecting_ids (N_connecting c) = [c]"
  "connecting_ids (N_split d r f s') = connecting_ids f @ connecting_ids s'"
  by (simp_all add: connecting_ids_def)

lemma leaf_ids_nonempty [simp]: "leaf_ids tree \<noteq> []"
  by (induction tree) auto

lemma session_leaf: "set (getSessionIds tree) \<subseteq> set (leaf_ids tree)"
  by (induction tree) auto

lemma connecting_leaf: "set (connecting_ids tree) \<subseteq> set (leaf_ids tree)"
  by (induction tree) auto

lemma distinct_sessions: "distinct (leaf_ids tree) \<Longrightarrow> distinct (getSessionIds tree)"
  using session_leaf by (induction tree) (auto, blast)

text \<open>Replacing puts the leaves of the replacement where the leaf was.\<close>

lemma leaves_replace: "pane_leaves (replaceNode tree i new) = concat (map (\<lambda>n. if leaf_id n = i then pane_leaves new else [n]) (pane_leaves tree))"
  by (induction tree) simp_all

lemma leaf_ids_replace: "leaf_ids (replaceNode tree i new) = concat (map (\<lambda>j. if j = i then leaf_ids new else [j]) (leaf_ids tree))"
  by (induction tree) simp_all

lemma replace_absent: "i \<notin> set (leaf_ids tree) \<Longrightarrow> replaceNode tree i new = tree"
  by (induction tree) auto

lemma sessions_replace:
  "distinct (leaf_ids tree) \<Longrightarrow> i \<in> set (leaf_ids tree) \<Longrightarrow>
   set (getSessionIds (replaceNode tree i new)) = set (getSessionIds tree) - {i} \<union> set (getSessionIds new)"
proof (induction tree)
  case (N_split d r f s)
  have sub: "i \<notin> set (getSessionIds t)" if "i \<notin> set (leaf_ids t)" for t
    using that session_leaf by blast
  from N_split.prems consider "i \<in> set (leaf_ids f)" "i \<notin> set (leaf_ids s)" | "i \<notin> set (leaf_ids f)" "i \<in> set (leaf_ids s)"
    by auto
  then show ?case
    using N_split by cases (auto simp: replace_absent sub)
qed auto

lemma connecting_replace:
  "distinct (leaf_ids tree) \<Longrightarrow> i \<in> set (leaf_ids tree) \<Longrightarrow>
   set (connecting_ids (replaceNode tree i new)) = set (connecting_ids tree) - {i} \<union> set (connecting_ids new)"
proof (induction tree)
  case (N_split d r f s)
  have sub: "i \<notin> set (connecting_ids t)" if "i \<notin> set (leaf_ids t)" for t
    using that connecting_leaf by blast
  from N_split.prems consider "i \<in> set (leaf_ids f)" "i \<notin> set (leaf_ids s)" | "i \<notin> set (leaf_ids f)" "i \<in> set (leaf_ids s)"
    by auto
  then show ?case
    using N_split by cases (auto simp: replace_absent sub)
qed auto

lemma set_leaf_ids_replace:
  "i \<in> set (leaf_ids tree) \<Longrightarrow> set (leaf_ids (replaceNode tree i new)) = set (leaf_ids tree) - {i} \<union> set (leaf_ids new)"
  by (auto simp: leaf_ids_replace split: if_splits)

lemma distinct_replace:
  "distinct (leaf_ids tree) \<Longrightarrow> distinct (leaf_ids new) \<Longrightarrow> set (leaf_ids new) \<inter> (set (leaf_ids tree) - {i}) = {} \<Longrightarrow>
   distinct (leaf_ids (replaceNode tree i new))"
proof (induction tree)
  case (N_split d r f s)
  have disj: "set (leaf_ids (replaceNode f i new)) \<inter> set (leaf_ids (replaceNode s i new)) = {}"
    using N_split.prems by (auto simp: leaf_ids_replace split: if_splits)
  have "distinct (leaf_ids (replaceNode f i new))" "distinct (leaf_ids (replaceNode s i new))"
    using N_split.IH N_split.prems by auto
  with disj show ?case by simp
qed auto

text \<open>Removing a leaf keeps the others, in their order, and leaves no split with one part.\<close>

lemma leaves_remove:
  "case removeNode tree i of None \<Rightarrow> filter (\<lambda>n. leaf_id n \<noteq> i) (pane_leaves tree) = []
   | Some tree' \<Rightarrow> pane_leaves tree' = filter (\<lambda>n. leaf_id n \<noteq> i) (pane_leaves tree)"
  by (induction tree) (auto split: option.splits)

lemma remove_leaf_ids:
  "removeNode tree i = Some tree' \<Longrightarrow> leaf_ids tree' = filter (\<lambda>j. j \<noteq> i) (leaf_ids tree)"
  using leaves_remove [where tree = tree and i = i] by (simp add: leaf_ids_def filter_map comp_def)

lemma remove_None: "removeNode tree i = None \<longleftrightarrow> set (leaf_ids tree) \<subseteq> {i}"
proof (induction tree)
  case (N_split d r f s)
  then show ?case by (auto split: option.splits)
qed auto

lemma remove_sessions:
  "removeNode tree i = Some tree' \<Longrightarrow> getSessionIds tree' = filter (\<lambda>j. j \<noteq> i) (getSessionIds tree)"
proof (induction tree arbitrary: tree')
  case (N_split d r f s)
  have n: "filter (\<lambda>j. j \<noteq> i) (getSessionIds t) = []" if "removeNode t i = None" for t
    using that session_leaf [of t] by (auto simp: remove_None filter_empty_conv)
  show ?case using N_split by (auto simp: n split: option.splits)
qed (auto split: if_splits)

lemma remove_connecting:
  "removeNode tree i = Some tree' \<Longrightarrow> connecting_ids tree' = filter (\<lambda>j. j \<noteq> i) (connecting_ids tree)"
proof (induction tree arbitrary: tree')
  case (N_split d r f s)
  have n: "filter (\<lambda>j. j \<noteq> i) (connecting_ids t) = []" if "removeNode t i = None" for t
    using that connecting_leaf [of t] by (auto simp: remove_None filter_empty_conv)
  show ?case using N_split by (auto simp: n split: option.splits)
qed (auto split: if_splits)

lemma ratio_leaves [simp]: "pane_leaves (setRatioAtPath tree path ratio) = pane_leaves tree"
  by (induction tree path ratio rule: setRatioAtPath.induct) auto

lemma ratio_parts [simp]:
  "leaf_ids (setRatioAtPath tree path ratio) = leaf_ids tree"
  "connecting_ids (setRatioAtPath tree path ratio) = connecting_ids tree"
  by (simp_all add: leaf_ids_def connecting_ids_def)

lemma ratio_sessions [simp]: "getSessionIds (setRatioAtPath tree path ratio) = getSessionIds tree"
  by (induction tree path ratio rule: setRatioAtPath.induct) auto

section \<open>Pending leaves, and the three kinds apart\<close>

definition pending_ids :: "split_node \<Rightarrow> string list" where
  "pending_ids tree = concat (map (\<lambda>n. case n of N_pending p \<Rightarrow> [p] | _ \<Rightarrow> []) (pane_leaves tree))"

lemma pending_ids_simps [simp]:
  "pending_ids (N_terminal s) = []" "pending_ids (N_pending p) = [p]" "pending_ids (N_connecting c) = []"
  "pending_ids (N_split d r f s') = pending_ids f @ pending_ids s'"
  by (simp_all add: pending_ids_def)

lemma pending_leaf: "set (pending_ids tree) \<subseteq> set (leaf_ids tree)"
  by (induction tree) auto

lemma leaf_kinds: "set (leaf_ids tree) = set (getSessionIds tree) \<union> set (pending_ids tree) \<union> set (connecting_ids tree)"
  by (induction tree) auto

lemma kinds_disjoint:
  "distinct (leaf_ids tree) \<Longrightarrow>
   set (getSessionIds tree) \<inter> set (pending_ids tree) = {} \<and>
   set (getSessionIds tree) \<inter> set (connecting_ids tree) = {} \<and>
   set (pending_ids tree) \<inter> set (connecting_ids tree) = {}"
proof (induction tree)
  case (N_split d r f s)
  then have "set (leaf_ids f) \<inter> set (leaf_ids s) = {}" by simp
  with N_split show ?case unfolding leaf_kinds by auto
qed auto

lemma pending_replace:
  "distinct (leaf_ids tree) \<Longrightarrow> i \<in> set (leaf_ids tree) \<Longrightarrow>
   set (pending_ids (replaceNode tree i new)) = set (pending_ids tree) - {i} \<union> set (pending_ids new)"
proof (induction tree)
  case (N_split d r f s)
  have sub: "i \<notin> set (pending_ids t)" if "i \<notin> set (leaf_ids t)" for t
    using that pending_leaf by blast
  from N_split.prems consider "i \<in> set (leaf_ids f)" "i \<notin> set (leaf_ids s)" | "i \<notin> set (leaf_ids f)" "i \<in> set (leaf_ids s)"
    by auto
  then show ?case
    using N_split by cases (auto simp: replace_absent sub)
qed auto

lemma remove_pending:
  "removeNode tree i = Some tree' \<Longrightarrow> pending_ids tree' = filter (\<lambda>j. j \<noteq> i) (pending_ids tree)"
proof (induction tree arbitrary: tree')
  case (N_split d r f s)
  have n: "filter (\<lambda>j. j \<noteq> i) (pending_ids t) = []" if "removeNode t i = None" for t
    using that pending_leaf [of t] by (auto simp: remove_None filter_empty_conv)
  show ?case using N_split by (auto simp: n split: option.splits)
qed (auto split: if_splits)

lemma ratio_pending [simp]: "pending_ids (setRatioAtPath tree path ratio) = pending_ids tree"
  by (simp add: pending_ids_def)

lemmas replace_kinds = sessions_replace connecting_replace pending_replace set_leaf_ids_replace
lemmas remove_kinds = remove_sessions remove_connecting remove_pending remove_leaf_ids

end
