(* ===== verification/TerminalStore.thy ===== *)
theory TerminalStore
  imports TerminalTree SftpStore GroupPath Base64
begin

text \<open>
  The terminal tabs (\<^verbatim>\<open>stores/terminalStore.ts\<close>): the panes of each tab, the connections under way
  and the sessions whose directory is followed. The stores are one state: the tabs of
  \<^theory_text>\<open>TabStore\<close> and, behind them, this store, the transfers, and the assets and groups it reads.

  A call to the backend is written to \<open>tm_calls\<close>. A promise is an entry of \<open>tm_waiting\<close>: the rest of
  the function runs when it is resolved or rejected, with the backend's answer as an argument. A
  listener of connection events is an entry of \<open>tm_listeners\<close> that holds what its closure captured.
\<close>

datatype transport = Ssh | Serial

definition inferTransportFromSessionId :: "string \<Rightarrow> transport" where
  "inferTransportFromSessionId sessionId = (if starts_with sessionId ''serial-'' then Serial else Ssh)"

record terminal_pane =
  pn_sessionId :: string
  pn_transport :: transport
  pn_connected :: bool
  pn_connectedAt :: int

datatype sync_status = Sy_initializing | Sy_ready | Sy_unsupported

record sync_state =
  sy_sessionId :: string
  sy_cwd :: "string option"
  sy_cwdKnown :: bool
  sy_shell :: "string option"
  sy_shellType :: "string option"
  sy_supported :: bool
  sy_promptReady :: bool
  sy_promptClean :: bool
  sy_busy :: bool
  sy_status :: sync_status
  sy_lastError :: "string option"

datatype follow_mode = Follow_off | Follow_always

record terminal_tab_data =
  td_splitTree :: split_node
  td_activePaneId :: string
  td_panes :: "(string \<times> terminal_pane) list"
  td_directoryFollowMode :: follow_mode
  td_pendingInput :: "string option"

record ssh_metadata =
  md_host :: string
  md_port :: int
  md_username :: string

datatype log_type = Log_info | Log_error

record log_entry =
  lg_message :: string
  lg_timestamp :: int
  lg_type :: log_type

datatype connection_step = Cs_resolve | Cs_open | Cs_connect | Cs_auth | Cs_shell

datatype connection_status = Cx_connecting | Cx_auth_challenge | Cx_host_key_verify | Cx_connected | Cx_error

record challenge =
  ch_challengeId :: string
  ch_prompts :: "string list"
  ch_echo :: "bool list"

record host_key_verify =
  hk_verifyId :: string
  hk_host :: string
  hk_port :: int
  hk_keyType :: string
  hk_fingerprint :: string
  hk_isChanged :: bool
  hk_oldFingerprint :: "string option"

record connection_state =
  cn_connectionId :: string
  cn_assetId :: int
  cn_assetName :: string
  cn_transport :: transport
  cn_password :: string
  cn_logs :: "log_entry list"
  cn_status :: connection_status
  cn_currentStep :: connection_step
  cn_error :: "string option"
  cn_authFailed :: "bool option"
  cn_challenge :: "challenge option"
  cn_hostKeyVerify :: "host_key_verify option"

section \<open>The backend, its promises and its events\<close>

datatype backend_call =
    C_ConnectSSHAsync int string
  | C_ConnectSerialAsync int
  | C_DisconnectSSH string
  | C_DisconnectSerial string
  | C_CancelSSHConnect string
  | C_RespondAuthChallenge string "string list"
  | C_RespondHostKeyVerify string int
  | C_SplitSSH string
  | C_GetSSHSyncState string
  | C_UpdateAssetPassword int string
  | C_WriteSSH string string
  | C_WriteSerial string string
  | C_SyncOn string
  | C_SyncOff string
  | C_DisposeTerminal string

record connect_request =
  cr_asset :: asset
  cr_assetPath :: string
  cr_assetIcon :: string
  cr_metadata :: "ssh_metadata option"
  cr_password :: string
  cr_isSerial :: bool
  cr_initialInput :: "string option"

record reconnect_request =
  rr_tabId :: string
  rr_sessionId :: string
  rr_meta :: terminal_meta
  rr_transport :: transport

datatype waiting =
    W_connect connect_request
  | W_reconnect reconnect_request
  | W_split string string
  | W_sync string

datatype listener =
    L_connect int bool
  | L_reconnect string transport

datatype connection_event =
    E_progress "connection_step option" "string option"
  | E_connected string
  | E_error "string option" "bool option"
  | E_auth_challenge string "string list option" "bool list option"
  | E_host_key_verify host_key_verify

record terminal_state =
  tm_tabData :: "(string \<times> terminal_tab_data) list"
  tm_sessionSync :: "(string \<times> sync_state) list"
  tm_connectingAssetIds :: "int set"
  tm_connections :: "(string \<times> connection_state) list"
  tm_syncListeners :: "string set"
  tm_listeners :: "((transport \<times> string) \<times> listener) list"
  tm_waiting :: "waiting list"
  tm_calls :: "backend_call list"

record stores =
  st_term :: terminal_state
  st_sftp :: sftp_store
  st_assets :: "asset list"
  st_groups :: "asset_group list"

type_synonym world = "stores app"

abbreviation term_of :: "world \<Rightarrow> terminal_state" where
  "term_of w \<equiv> st_term (ap_rest w)"

definition upd_term :: "(terminal_state \<Rightarrow> terminal_state) \<Rightarrow> world \<Rightarrow> world" where
  "upd_term f w = w\<lparr>ap_rest := (ap_rest w)\<lparr>st_term := f (st_term (ap_rest w))\<rparr>\<rparr>"

definition call :: "backend_call \<Rightarrow> terminal_state \<Rightarrow> terminal_state" where
  "call c s = s\<lparr>tm_calls := tm_calls s @ [c]\<rparr>"

definition wait :: "waiting \<Rightarrow> terminal_state \<Rightarrow> terminal_state" where
  "wait p s = s\<lparr>tm_waiting := p # tm_waiting s\<rparr>"

definition settle :: "waiting \<Rightarrow> terminal_state \<Rightarrow> terminal_state" where
  "settle p s = s\<lparr>tm_waiting := remove1 p (tm_waiting s)\<rparr>"

definition events_on :: "transport \<times> string \<Rightarrow> listener \<Rightarrow> terminal_state \<Rightarrow> terminal_state" where
  "events_on name l s = s\<lparr>tm_listeners := tm_listeners s @ [(name, l)]\<rparr>"

definition events_off :: "transport \<times> string \<Rightarrow> terminal_state \<Rightarrow> terminal_state" where
  "events_off name s = s\<lparr>tm_listeners := filter (\<lambda>(n, l). n \<noteq> name) (tm_listeners s)\<rparr>"

definition set_tab :: "string \<Rightarrow> terminal_tab_data \<Rightarrow> terminal_state \<Rightarrow> terminal_state" where
  "set_tab i d s = s\<lparr>tm_tabData := set_prop (tm_tabData s) i d\<rparr>"

definition del_tab :: "string \<Rightarrow> terminal_state \<Rightarrow> terminal_state" where
  "del_tab i s = s\<lparr>tm_tabData := del_prop (tm_tabData s) i\<rparr>"

definition set_conn :: "string \<Rightarrow> connection_state \<Rightarrow> terminal_state \<Rightarrow> terminal_state" where
  "set_conn i c s = s\<lparr>tm_connections := set_prop (tm_connections s) i c\<rparr>"

definition del_conn :: "string \<Rightarrow> terminal_state \<Rightarrow> terminal_state" where
  "del_conn i s = s\<lparr>tm_connections := del_prop (tm_connections s) i\<rparr>"

definition connecting_asset :: "int \<Rightarrow> terminal_state \<Rightarrow> terminal_state" where
  "connecting_asset i s = s\<lparr>tm_connectingAssetIds := insert i (tm_connectingAssetIds s)\<rparr>"

definition connecting_done :: "int \<Rightarrow> terminal_state \<Rightarrow> terminal_state" where
  "connecting_done i s = s\<lparr>tm_connectingAssetIds := tm_connectingAssetIds s - {i}\<rparr>"

section \<open>Sessions\<close>

definition disconnectSession :: "string \<Rightarrow> transport \<Rightarrow> terminal_state \<Rightarrow> terminal_state" where
  "disconnectSession sid t = call (if t = Serial then C_DisconnectSerial sid else C_DisconnectSSH sid)"

definition writeSessionInput :: "string \<Rightarrow> transport \<Rightarrow> string \<Rightarrow> terminal_state \<Rightarrow> terminal_state" where
  "writeSessionInput sid t data = call (if t = Serial then C_WriteSerial sid data else C_WriteSSH sid data)"

text \<open>\<open>TextEncoder\<close> on code units below 256, and \<open>bytesToBase64\<close> of \<^verbatim>\<open>lib/terminalEncode.ts\<close>.\<close>

definition utf8_encode :: "string \<Rightarrow> nat list" where
  "utf8_encode s = concat (map (\<lambda>c. let n = of_char c in if n < 128 then [n] else [192 + n div 64, 128 + n mod 64]) s)"

function binary_string :: "nat list \<Rightarrow> nat list" where
  "binary_string bs = (if bs = [] then [] else take 32768 bs @ binary_string (drop 32768 bs))"
  by auto
termination
  by (relation "measure length") auto

declare binary_string.simps [simp del]

definition bytesToBase64 :: "nat list \<Rightarrow> string" where
  "bytesToBase64 bs = btoa (binary_string bs)"

lemma binary_string [simp]: "binary_string bs = bs"
  by (induction bs rule: binary_string.induct) (subst binary_string.simps, simp)

definition unregisterSessionSyncListener :: "string \<Rightarrow> terminal_state \<Rightarrow> terminal_state" where
  "unregisterSessionSyncListener sid s =
     (if sid \<notin> tm_syncListeners s then s
      else call (C_SyncOff sid)
        (s\<lparr>tm_syncListeners := tm_syncListeners s - {sid}, tm_sessionSync := del_prop (tm_sessionSync s) sid\<rparr>))"

definition registerSessionSyncListener :: "string \<Rightarrow> terminal_state \<Rightarrow> terminal_state" where
  "registerSessionSyncListener sid s =
     (if sid = [] \<or> sid \<in> tm_syncListeners s then s
      else wait (W_sync sid) (call (C_GetSSHSyncState sid) (call (C_SyncOn sid)
        (s\<lparr>tm_syncListeners := insert sid (tm_syncListeners s)\<rparr>))))"

definition setSessionSyncState :: "string \<Rightarrow> sync_state \<Rightarrow> terminal_state \<Rightarrow> terminal_state" where
  "setSessionSyncState sid st s = s\<lparr>tm_sessionSync := set_prop (tm_sessionSync s) sid st\<rparr>"

text \<open>The answer to \<open>GetSSHSyncState\<close>; a rejection is ignored.\<close>

definition sync_answered :: "string \<Rightarrow> sync_state option \<Rightarrow> terminal_state \<Rightarrow> terminal_state" where
  "sync_answered sid answer s =
     (let s' = settle (W_sync sid) s
      in case answer of
           None \<Rightarrow> s'
         | Some st \<Rightarrow> if sid \<in> tm_syncListeners s' then setSessionSyncState sid st s' else s')"

section \<open>Closing a terminal tab\<close>

definition drop_pane :: "terminal_pane \<Rightarrow> terminal_state \<Rightarrow> terminal_state" where
  "drop_pane pane s =
     (let s1 = unregisterSessionSyncListener (pn_sessionId pane) s;
          s2 = (if pn_connected pane then disconnectSession (pn_sessionId pane) (pn_transport pane) s1 else s1)
      in call (C_DisposeTerminal (pn_sessionId pane)) s2)"

definition close_panes :: "terminal_pane list \<Rightarrow> terminal_state \<Rightarrow> terminal_state" where
  "close_panes panes s = fold drop_pane panes s"

definition terminal_close_hook :: "tab \<Rightarrow> terminal_state \<Rightarrow> terminal_state" where
  "terminal_close_hook tab s =
     (if tb_type tab \<noteq> TT_terminal then s
      else
        let data = map_of (tm_tabData s) (tb_id tab);
            conn = map_of (tm_connections s) (tb_id tab);
            s1 = (case conn of
                    None \<Rightarrow> s
                  | Some c \<Rightarrow> events_off (cn_transport c, tb_id tab) (call (C_CancelSSHConnect (tb_id tab)) s));
            s2 = (case data of None \<Rightarrow> s1 | Some d \<Rightarrow> close_panes (map snd (td_panes d)) s1);
            s3 = del_conn (tb_id tab) (del_tab (tb_id tab) s2)
        in case conn of None \<Rightarrow> s3 | Some c \<Rightarrow> connecting_done (cn_assetId c) s3)"

text \<open>The hooks the two stores register, on the state of all stores.\<close>

definition on_term :: "(terminal_state \<Rightarrow> terminal_state) \<Rightarrow> stores \<Rightarrow> stores" where
  "on_term f st = st\<lparr>st_term := f (st_term st)\<rparr>"

definition on_sftp :: "(sftp_store \<Rightarrow> sftp_store) \<Rightarrow> stores \<Rightarrow> stores" where
  "on_sftp f st = st\<lparr>st_sftp := f (st_sftp st)\<rparr>"

definition app_hooks :: "stores hooks" where
  "app_hooks =
     registerTabReplaceHook (\<lambda>o1 n1. on_sftp (sftp_replace_hook o1 n1))
       (registerTabCloseHook (\<lambda>t. on_sftp (sftp_close_hook t))
         (registerTabCloseHook (\<lambda>t. on_term (terminal_close_hook t))
           \<lparr>closeHooks = [], replaceHooks = [], restoreHooks = []\<rparr>))"

section \<open>Connecting\<close>

text \<open>
  \<open>cfg\<close> is what \<open>JSON.parse\<close> gives for the asset's configuration, \<open>None\<close> when it throws; an absent
  field is the empty string or 0. The operation returns the tab it switched to, or nothing while the
  backend is asked.
\<close>

definition connect_metadata :: "ssh_metadata option \<Rightarrow> ssh_metadata option" where
  "connect_metadata cfg =
     map_option (\<lambda>c. \<lparr>md_host = md_host c, md_port = (if md_port c = 0 then 22 else md_port c), md_username = md_username c\<rparr>) cfg"

definition terminal_tab_of :: "int \<Rightarrow> tab \<Rightarrow> bool" where
  "terminal_tab_of assetId t \<longleftrightarrow>
     tb_type t = TT_terminal \<and> (case tb_meta t of TerminalMeta m \<Rightarrow> tm_assetId m = assetId | _ \<Rightarrow> False)"

definition connect ::
  "(asset \<Rightarrow> ssh_metadata option) \<Rightarrow> asset \<Rightarrow> string \<Rightarrow> bool \<Rightarrow> string option \<Rightarrow> world \<Rightarrow> string option \<times> world" where
  "connect cfg asset password forceNew initialInput w =
     (let assetId = as_ID asset;
          assetPath = formatAssetPath asset (st_groups (ap_rest w)) (Some '' / '');
          existingTab = (if forceNew then None else find (terminal_tab_of assetId) (open_tabs w))
      in case existingTab of
           Some t \<Rightarrow> (Some (tb_id t), activateTab (tb_id t) w)
         | None \<Rightarrow>
             let isSerial = (as_Type asset = ''serial'');
                 request = \<lparr>cr_asset = asset, cr_assetPath = assetPath, cr_assetIcon = as_Icon asset,
                            cr_metadata = connect_metadata (cfg asset), cr_password = password,
                            cr_isSerial = isSerial, cr_initialInput = initialInput\<rparr>
             in (None, upd_term (\<lambda>s. wait (W_connect request)
                   (call (if isSerial then C_ConnectSerialAsync assetId else C_ConnectSSHAsync assetId password)
                     (connecting_asset assetId s))) w))"

definition new_connection :: "string \<Rightarrow> int \<Rightarrow> string \<Rightarrow> transport \<Rightarrow> string \<Rightarrow> connection_state" where
  "new_connection connectionId assetId assetName t password =
     \<lparr>cn_connectionId = connectionId, cn_assetId = assetId, cn_assetName = assetName, cn_transport = t,
      cn_password = password, cn_logs = [], cn_status = Cx_connecting, cn_currentStep = Cs_resolve,
      cn_error = None, cn_authFailed = None, cn_challenge = None, cn_hostKeyVerify = None\<rparr>"

definition transport_of :: "bool \<Rightarrow> transport" where
  "transport_of isSerial = (if isSerial then Serial else Ssh)"

definition connect_tab :: "connect_request \<Rightarrow> string \<Rightarrow> tab" where
  "connect_tab r connectionId =
     \<lparr>tb_id = connectionId, tb_type = TT_terminal, tb_label = cr_assetPath r,
      tb_icon = icon_or_none (cr_assetIcon r), tb_iconColor = None,
      tb_meta = TerminalMeta \<lparr>tm_assetId = as_ID (cr_asset r), tm_assetName = cr_assetPath r,
        tm_assetIcon = cr_assetIcon r,
        tm_host = (case cr_metadata r of None \<Rightarrow> [] | Some m \<Rightarrow> md_host m),
        tm_port = (case cr_metadata r of None \<Rightarrow> 22 | Some m \<Rightarrow> if md_port m = 0 then 22 else md_port m),
        tm_username = (case cr_metadata r of None \<Rightarrow> [] | Some m \<Rightarrow> md_username m)\<rparr>\<rparr>"

text \<open>The data of a tab whose first connection is under way.\<close>

definition opened_data :: "string \<Rightarrow> string option \<Rightarrow> terminal_tab_data" where
  "opened_data connectionId input =
     \<lparr>td_splitTree = N_connecting connectionId, td_activePaneId = connectionId, td_panes = [],
      td_directoryFollowMode = Follow_off, td_pendingInput = input\<rparr>"

text \<open>The backend has given the connection its id.\<close>

definition connect_resolved :: "connect_request \<Rightarrow> string \<Rightarrow> world \<Rightarrow> world" where
  "connect_resolved r connectionId w =
     (let t = transport_of (cr_isSerial r);
          assetId = as_ID (cr_asset r);
          w1 = openTab (connect_tab r connectionId) True (upd_term (settle (W_connect r)) w)
      in upd_term (\<lambda>s. events_on (t, connectionId) (L_connect assetId (cr_isSerial r))
           (set_conn connectionId (new_connection connectionId assetId (cr_assetPath r) t (cr_password r))
             (set_tab connectionId (opened_data connectionId (cr_initialInput r)) s))) w1)"

definition connect_rejected :: "connect_request \<Rightarrow> world \<Rightarrow> world" where
  "connect_rejected r = upd_term (\<lambda>s. connecting_done (as_ID (cr_asset r)) (settle (W_connect r) s))"

definition connected_pane :: "string \<Rightarrow> transport \<Rightarrow> int \<Rightarrow> terminal_pane" where
  "connected_pane sid t now = \<lparr>pn_sessionId = sid, pn_transport = t, pn_connected = True, pn_connectedAt = now\<rparr>"

text \<open>The first connection of a tab is established: the tab takes the id of the session.\<close>

definition first_data :: "string \<Rightarrow> string \<Rightarrow> terminal_pane \<Rightarrow> terminal_tab_data \<Rightarrow> terminal_tab_data" where
  "first_data connectionId sid pane d =
     \<lparr>td_splitTree = replaceNode (td_splitTree d) connectionId (N_terminal sid), td_activePaneId = sid,
      td_panes = [(sid, pane)], td_directoryFollowMode = td_directoryFollowMode d, td_pendingInput = None\<rparr>"

definition first_connected :: "string \<Rightarrow> transport \<Rightarrow> string \<Rightarrow> int \<Rightarrow> world \<Rightarrow> world" where
  "first_connected connectionId t sid now w =
     (let data = map_of (tm_tabData (term_of w)) connectionId;
          pendingInput = (case data of None \<Rightarrow> None | Some d \<Rightarrow> td_pendingInput d);
          w1 = (case data of
                  None \<Rightarrow> w
                | Some d \<Rightarrow> upd_term (\<lambda>s. del_conn connectionId
                    (set_tab sid (first_data connectionId sid (connected_pane sid t now) d)
                      (del_tab connectionId s))) w);
          w2 = replaceTabId app_hooks connectionId sid w1;
          w3 = (if t = Serial then w2 else upd_term (registerSessionSyncListener sid) w2)
      in case pendingInput of
           None \<Rightarrow> w3
         | Some input \<Rightarrow>
             if input = [] then w3
             else upd_term (writeSessionInput sid t (bytesToBase64 (utf8_encode input))) w3)"

text \<open>The active pane of a tab is connected again.\<close>

definition again_connected :: "string \<Rightarrow> string \<Rightarrow> transport \<Rightarrow> string \<Rightarrow> int \<Rightarrow> world \<Rightarrow> world" where
  "again_connected tabId connectionId t sid now w =
     (let w1 = upd_term (\<lambda>s. case map_of (tm_tabData s) tabId of
                  None \<Rightarrow> s
                | Some d \<Rightarrow> del_conn connectionId
                    (set_tab tabId (d\<lparr>td_splitTree := replaceNode (td_splitTree d) connectionId (N_terminal sid),
                       td_activePaneId := sid,
                       td_panes := set_prop (td_panes d) sid (connected_pane sid t now)\<rparr>) s)) w
      in if t = Serial then w1 else upd_term (registerSessionSyncListener sid) w1)"

section \<open>Connection events\<close>

definition add_log :: "string \<Rightarrow> int \<Rightarrow> log_type \<Rightarrow> connection_state \<Rightarrow> connection_state" where
  "add_log message now ty c = c\<lparr>cn_logs := cn_logs c @ [\<lparr>lg_message = message, lg_timestamp = now, lg_type = ty\<rparr>]\<rparr>"

definition text_or :: "string option \<Rightarrow> string \<Rightarrow> string" where
  "text_or x d = (case x of None \<Rightarrow> d | Some t \<Rightarrow> if t = [] then d else t)"

text \<open>The message texts of the source are Chinese; they are the tags in brackets here.\<close>

definition on_finished :: "listener \<Rightarrow> terminal_state \<Rightarrow> terminal_state" where
  "on_finished l = (case l of L_connect assetId isSerial \<Rightarrow> connecting_done assetId | L_reconnect tabId t \<Rightarrow> id)"

definition on_connected :: "listener \<Rightarrow> string \<Rightarrow> string \<Rightarrow> int \<Rightarrow> world \<Rightarrow> world" where
  "on_connected l connectionId sid now =
     (case l of
        L_connect assetId isSerial \<Rightarrow> first_connected connectionId (transport_of isSerial) sid now
      | L_reconnect tabId t \<Rightarrow> again_connected tabId connectionId t sid now)"

definition on_event ::
  "transport \<Rightarrow> string \<Rightarrow> listener \<Rightarrow> int \<Rightarrow> connection_event \<Rightarrow> world \<Rightarrow> world" where
  "on_event t connectionId l now event w =
     (case map_of (tm_connections (term_of w)) connectionId of
        None \<Rightarrow> w
      | Some conn \<Rightarrow>
          (case event of
             E_progress step message \<Rightarrow>
               upd_term (set_conn connectionId
                 (add_log (text_or message []) now Log_info
                   (conn\<lparr>cn_currentStep := (case step of None \<Rightarrow> cn_currentStep conn | Some st \<Rightarrow> st)\<rparr>))) w
           | E_connected sid \<Rightarrow>
               upd_term (\<lambda>s. on_finished l (events_off (t, connectionId) s)) (on_connected l connectionId sid now w)
           | E_error err authFailed \<Rightarrow>
               upd_term (\<lambda>s. on_finished l (set_conn connectionId
                 (add_log (text_or err ''[connection failed]'') now Log_error
                   (conn\<lparr>cn_status := Cx_error, cn_error := err, cn_authFailed := authFailed\<rparr>)) s)) w
           | E_auth_challenge i prompts echo \<Rightarrow>
               upd_term (set_conn connectionId
                 (add_log ''[waiting for the user]'' now Log_info
                   (conn\<lparr>cn_status := Cx_auth_challenge,
                     cn_challenge := Some \<lparr>ch_challengeId = i,
                       ch_prompts = (case prompts of None \<Rightarrow> [] | Some ps \<Rightarrow> ps),
                       ch_echo = (case echo of None \<Rightarrow> [] | Some es \<Rightarrow> es)\<rparr>\<rparr>))) w
           | E_host_key_verify hk \<Rightarrow>
               upd_term (set_conn connectionId
                 (add_log (if hk_isChanged hk then ''[host key changed]'' else ''[waiting for host key]'') now
                   (if hk_isChanged hk then Log_error else Log_info)
                   (conn\<lparr>cn_status := Cx_host_key_verify, cn_hostKeyVerify := Some hk\<rparr>))) w))"

section \<open>Connecting again\<close>

text \<open>The transport of the tab's active pane, and what \<open>reconnect\<close> does to its session first.\<close>

definition reconnect_transport :: "terminal_meta \<Rightarrow> terminal_tab_data \<Rightarrow> asset list \<Rightarrow> transport" where
  "reconnect_transport meta data assets =
     (case map_of (td_panes data) (td_activePaneId data) of
        Some p \<Rightarrow> pn_transport p
      | None \<Rightarrow>
          if (case find (\<lambda>a. as_ID a = tm_assetId meta) assets of None \<Rightarrow> False | Some a \<Rightarrow> as_Type a = ''serial'') then Serial
          else inferTransportFromSessionId (td_activePaneId data))"

definition leave_session :: "terminal_tab_data \<Rightarrow> transport \<Rightarrow> terminal_state \<Rightarrow> terminal_state" where
  "leave_session data t s =
     (let sid = td_activePaneId data;
          s1 = unregisterSessionSyncListener sid s
      in case map_of (td_panes data) sid of
           Some p \<Rightarrow> if pn_connected p then disconnectSession sid t s1 else s1
         | None \<Rightarrow> s1)"

definition reconnect :: "string \<Rightarrow> world \<Rightarrow> world" where
  "reconnect tabId w =
     (case (find (\<lambda>t. tb_id t = tabId) (open_tabs w), map_of (tm_tabData (term_of w)) tabId) of
        (Some tab, Some data) \<Rightarrow>
          (case tb_meta tab of
             TerminalMeta meta \<Rightarrow>
               if tb_type tab \<noteq> TT_terminal then w
               else
                 let t = reconnect_transport meta data (st_assets (ap_rest w))
                 in upd_term (\<lambda>s.
                      wait (W_reconnect \<lparr>rr_tabId = tabId, rr_sessionId = td_activePaneId data, rr_meta = meta, rr_transport = t\<rparr>)
                        (call (if t = Serial then C_ConnectSerialAsync (tm_assetId meta)
                               else C_ConnectSSHAsync (tm_assetId meta) []) (leave_session data t s))) w
           | _ \<Rightarrow> w)
      | _ \<Rightarrow> w)"

definition reconnect_resolved :: "reconnect_request \<Rightarrow> string \<Rightarrow> world \<Rightarrow> world" where
  "reconnect_resolved r connectionId = upd_term (\<lambda>s0.
     let s = call (C_DisposeTerminal (rr_sessionId r)) (settle (W_reconnect r) s0);
         s1 = (case map_of (tm_tabData s) (rr_tabId r) of
                 None \<Rightarrow> s
               | Some d \<Rightarrow>
                   set_conn connectionId
                     (new_connection connectionId (tm_assetId (rr_meta r)) (tm_assetName (rr_meta r)) (rr_transport r) [])
                     (set_tab (rr_tabId r)
                       (d\<lparr>td_splitTree := replaceNode (td_splitTree d) (rr_sessionId r) (N_connecting connectionId),
                          td_activePaneId := connectionId,
                          td_panes := del_prop (td_panes d) (rr_sessionId r)\<rparr>) s))
     in events_on (rr_transport r, connectionId) (L_reconnect (rr_tabId r) (rr_transport r)) s1)"

definition reconnect_rejected :: "reconnect_request \<Rightarrow> world \<Rightarrow> world" where
  "reconnect_rejected r = upd_term (settle (W_reconnect r))"

definition reconnectBySession :: "string \<Rightarrow> world \<Rightarrow> world" where
  "reconnectBySession sid w =
     (case find (\<lambda>(i, d). map_of (td_panes d) sid \<noteq> None) (tm_tabData (term_of w)) of
        None \<Rightarrow> w
      | Some (tabId, d) \<Rightarrow> if tabId = [] then w else reconnect tabId w)"

definition retryConnect ::
  "(asset \<Rightarrow> ssh_metadata option) \<Rightarrow> string \<Rightarrow> string option \<Rightarrow> world \<Rightarrow> world" where
  "retryConnect cfg connectionId password w =
     (case map_of (tm_connections (term_of w)) connectionId of
        None \<Rightarrow> w
      | Some conn \<Rightarrow>
          (case find (\<lambda>a. as_ID a = cn_assetId conn) (st_assets (ap_rest w)) of
             None \<Rightarrow> w
           | Some asset \<Rightarrow>
               let w1 = upd_term (\<lambda>s. del_tab connectionId (del_conn connectionId
                          (events_off (cn_transport conn, connectionId) s))) w;
                   w2 = closeTab app_hooks connectionId w1;
                   w3 = snd (connect cfg asset (case password of None \<Rightarrow> [] | Some p \<Rightarrow> p) False None w2)
               in (case password of
                     None \<Rightarrow> w3
                   | Some p \<Rightarrow> if p = [] then w3 else upd_term (call (C_UpdateAssetPassword (cn_assetId conn) p)) w3)))"

definition respondChallenge :: "string \<Rightarrow> string list \<Rightarrow> world \<Rightarrow> world" where
  "respondChallenge connectionId answers w =
     (case map_of (tm_connections (term_of w)) connectionId of
        None \<Rightarrow> w
      | Some conn \<Rightarrow>
          (case cn_challenge conn of
             None \<Rightarrow> w
           | Some ch \<Rightarrow> upd_term (\<lambda>s. set_conn connectionId
               (conn\<lparr>cn_status := Cx_connecting, cn_challenge := None\<rparr>)
               (call (C_RespondAuthChallenge (ch_challengeId ch) answers) s)) w))"

definition respondHostKeyVerify :: "string \<Rightarrow> int \<Rightarrow> int \<Rightarrow> world \<Rightarrow> world" where
  "respondHostKeyVerify connectionId action now w =
     (case map_of (tm_connections (term_of w)) connectionId of
        None \<Rightarrow> w
      | Some conn \<Rightarrow>
          (case cn_hostKeyVerify conn of
             None \<Rightarrow> w
           | Some hk \<Rightarrow> upd_term (\<lambda>s. set_conn connectionId
               (add_log (if action = 2 then ''[user refused]'' else ''[host key accepted]'') now Log_info
                 (conn\<lparr>cn_status := Cx_connecting, cn_hostKeyVerify := None\<rparr>))
               (call (C_RespondHostKeyVerify (hk_verifyId hk) action) s)) w))"

definition cancelConnect :: "string \<Rightarrow> world \<Rightarrow> world" where
  "cancelConnect connectionId w =
     (case map_of (tm_connections (term_of w)) connectionId of
        None \<Rightarrow> w
      | Some conn \<Rightarrow>
          closeTab app_hooks connectionId
            (upd_term (\<lambda>s. del_tab connectionId (del_conn connectionId
              (connecting_done (cn_assetId conn)
                (events_off (cn_transport conn, connectionId) (call (C_CancelSSHConnect connectionId) s))))) w))"

section \<open>Panes\<close>

definition mark_disconnected :: "string \<Rightarrow> terminal_state \<Rightarrow> terminal_state" where
  "mark_disconnected sid s =
     s\<lparr>tm_tabData := map (\<lambda>(tabId, data).
        case map_of (td_panes data) sid of
          None \<Rightarrow> (tabId, data)
        | Some p \<Rightarrow> (tabId, data\<lparr>td_panes := set_prop (td_panes data) sid (p\<lparr>pn_connected := False\<rparr>)\<rparr>)) (tm_tabData s)\<rparr>"

definition session_transport :: "terminal_state \<Rightarrow> string \<Rightarrow> transport" where
  "session_transport s sid =
     (case concat (map (\<lambda>(i, d). case map_of (td_panes d) sid of None \<Rightarrow> [] | Some p \<Rightarrow> [pn_transport p]) (tm_tabData s)) of
        [] \<Rightarrow> inferTransportFromSessionId sid
      | t # ts \<Rightarrow> t)"

definition disconnect :: "string \<Rightarrow> terminal_state \<Rightarrow> terminal_state" where
  "disconnect sid s0 =
     (let s = unregisterSessionSyncListener sid s0
      in mark_disconnected sid (disconnectSession sid (session_transport s sid) s))"

definition markClosed :: "string \<Rightarrow> terminal_state \<Rightarrow> terminal_state" where
  "markClosed sid s = mark_disconnected sid (unregisterSessionSyncListener sid s)"

definition on_tab :: "string \<Rightarrow> (terminal_tab_data \<Rightarrow> terminal_tab_data) \<Rightarrow> terminal_state \<Rightarrow> terminal_state" where
  "on_tab tabId f s = (case map_of (tm_tabData s) tabId of None \<Rightarrow> s | Some d \<Rightarrow> set_tab tabId (f d) s)"

definition setActivePaneId :: "string \<Rightarrow> string \<Rightarrow> terminal_state \<Rightarrow> terminal_state" where
  "setActivePaneId tabId paneId = on_tab tabId (\<lambda>d. d\<lparr>td_activePaneId := paneId\<rparr>)"

definition setDirectoryFollowMode :: "string \<Rightarrow> follow_mode \<Rightarrow> terminal_state \<Rightarrow> terminal_state" where
  "setDirectoryFollowMode tabId mode = on_tab tabId (\<lambda>d. d\<lparr>td_directoryFollowMode := mode\<rparr>)"

definition setSplitRatio :: "string \<Rightarrow> nat list \<Rightarrow> rat \<Rightarrow> terminal_state \<Rightarrow> terminal_state" where
  "setSplitRatio tabId path ratio = on_tab tabId (\<lambda>d. d\<lparr>td_splitTree := setRatioAtPath (td_splitTree d) path ratio\<rparr>)"

definition splitPane :: "string \<Rightarrow> split_direction \<Rightarrow> int \<Rightarrow> terminal_state \<Rightarrow> terminal_state" where
  "splitPane tabId dir now s =
     (case map_of (tm_tabData s) tabId of
        None \<Rightarrow> s
      | Some data \<Rightarrow>
          if (case map_of (td_panes data) (td_activePaneId data) of None \<Rightarrow> False | Some p \<Rightarrow> pn_transport p = Serial) then s
          else
            let pendingId = ''pending-'' @ int_str now;
                s1 = on_tab tabId (\<lambda>d. d\<lparr>td_splitTree := replaceNode (td_splitTree d) (td_activePaneId d)
                       (N_split dir (1 / 2) (N_terminal (td_activePaneId d)) (N_pending pendingId))\<rparr>) s
            in wait (W_split tabId pendingId) (call (C_SplitSSH (td_activePaneId data)) s1))"

definition split_resolved :: "string \<Rightarrow> string \<Rightarrow> string \<Rightarrow> int \<Rightarrow> terminal_state \<Rightarrow> terminal_state" where
  "split_resolved tabId pendingId sid now s =
     registerSessionSyncListener sid
       (on_tab tabId (\<lambda>d. d\<lparr>td_splitTree := replaceNode (td_splitTree d) pendingId (N_terminal sid),
          td_activePaneId := sid,
          td_panes := set_prop (td_panes d) sid (connected_pane sid Ssh now)\<rparr>)
         (settle (W_split tabId pendingId) s))"

definition split_rejected :: "string \<Rightarrow> string \<Rightarrow> terminal_state \<Rightarrow> terminal_state" where
  "split_rejected tabId pendingId s =
     on_tab tabId (\<lambda>d. case removeNode (td_splitTree d) pendingId of
         None \<Rightarrow> d
       | Some newTree \<Rightarrow> d\<lparr>td_splitTree := newTree\<rparr>)
       (settle (W_split tabId pendingId) s)"

definition closePane :: "string \<Rightarrow> string \<Rightarrow> world \<Rightarrow> world" where
  "closePane tabId sid w =
     (case map_of (tm_tabData (term_of w)) tabId of
        None \<Rightarrow> w
      | Some data \<Rightarrow>
          let w1 = upd_term (\<lambda>s.
                let s1 = unregisterSessionSyncListener sid s
                in case map_of (td_panes data) sid of
                     None \<Rightarrow> s1
                   | Some pane \<Rightarrow> if pn_connected pane then disconnectSession sid (pn_transport pane) s1 else s1) w;
              allSessions = getSessionIds (td_splitTree data)
          in if length allSessions \<le> 1 then closeTab app_hooks tabId w1
             else (case removeNode (td_splitTree data) sid of
                 None \<Rightarrow> closeTab app_hooks tabId w1
               | Some newTree \<Rightarrow>
                   let newActivePaneId =
                         (if td_activePaneId data = sid then hd (getSessionIds newTree) else td_activePaneId data)
                   in upd_term (\<lambda>s. call (C_DisposeTerminal sid)
                        (set_tab tabId (data\<lparr>td_splitTree := newTree, td_activePaneId := newActivePaneId,
                           td_panes := del_prop (td_panes data) sid\<rparr>) s)) w1))"

definition getTerminalActiveAssetIds :: "world \<Rightarrow> int set" where
  "getTerminalActiveAssetIds w =
     set (concat (map (\<lambda>tab.
       if tb_type tab \<noteq> TT_terminal then []
       else case map_of (tm_tabData (term_of w)) (tb_id tab) of
           None \<Rightarrow> []
         | Some d \<Rightarrow>
             if list_ex (\<lambda>(i, p). pn_connected p) (td_panes d)
             then (case tb_meta tab of TerminalMeta m \<Rightarrow> [tm_assetId m] | _ \<Rightarrow> []) else []) (open_tabs w)))"

section \<open>The restore hook\<close>

definition restored_data :: "string \<Rightarrow> terminal_tab_data" where
  "restored_data i =
     \<lparr>td_splitTree = N_terminal i, td_activePaneId = i,
      td_panes = [(i, \<lparr>pn_sessionId = i, pn_transport = inferTransportFromSessionId i,
                       pn_connected = False, pn_connectedAt = 0\<rparr>)],
      td_directoryFollowMode = Follow_off, td_pendingInput = None\<rparr>"

definition terminal_restore_hook :: "tab list \<Rightarrow> world \<Rightarrow> world" where
  "terminal_restore_hook tabs w =
     (if tabs = [] then w
      else fold (\<lambda>t. reconnect (tb_id t)) tabs
             (upd_term (\<lambda>s. s\<lparr>tm_tabData := foldl (\<lambda>data t. set_prop data (tb_id t) (restored_data (tb_id t))) [] tabs\<rparr>) w))"

end
