(* ===== verification/TerminalRuns.thy ===== *)
theory TerminalRuns
  imports TerminalStore
begin

text \<open>
  What holds of the terminal tabs over every run: the panes of each tab are the sessions of its
  split tree, what connects has a connection and a listener, and the tabs of the store are the open
  terminal tabs.
\<close>

section \<open>One tab\<close>

definition data_ok :: "terminal_tab_data \<Rightarrow> bool" where
  "data_ok d \<longleftrightarrow>
     distinct (leaf_ids (td_splitTree d)) \<and>
     fst ` set (td_panes d) = set (getSessionIds (td_splitTree d)) \<and>
     distinct (map fst (td_panes d)) \<and>
     (\<forall>(i, p)\<in>set (td_panes d). pn_sessionId p = i) \<and>
     td_activePaneId d \<in> set (getSessionIds (td_splitTree d)) \<union> set (connecting_ids (td_splitTree d))"

abbreviation connecting_of :: "terminal_tab_data \<Rightarrow> string set" where
  "connecting_of d \<equiv> set (connecting_ids (td_splitTree d))"

abbreviation pending_of :: "terminal_tab_data \<Rightarrow> string set" where
  "pending_of d \<equiv> set (pending_ids (td_splitTree d))"

abbreviation sessions_of :: "terminal_tab_data \<Rightarrow> string set" where
  "sessions_of d \<equiv> set (getSessionIds (td_splitTree d))"

abbreviation leaves_of :: "terminal_tab_data \<Rightarrow> string set" where
  "leaves_of d \<equiv> set (leaf_ids (td_splitTree d))"

lemma data_ok_panes: "data_ok d \<Longrightarrow> fst ` set (td_panes d) = sessions_of d"
  by (simp add: data_ok_def)

lemma data_ok_kinds:
  "data_ok d \<Longrightarrow> sessions_of d \<inter> pending_of d = {} \<and> sessions_of d \<inter> connecting_of d = {} \<and>
     pending_of d \<inter> connecting_of d = {} \<and> sessions_of d \<subseteq> leaves_of d \<and> pending_of d \<subseteq> leaves_of d \<and> connecting_of d \<subseteq> leaves_of d"
  using kinds_disjoint [of "td_splitTree d"] session_leaf pending_leaf connecting_leaf by (simp add: data_ok_def)

text \<open>A leaf that connects or waits becomes a pane with a session.\<close>

definition seat :: "string \<Rightarrow> string \<Rightarrow> terminal_pane \<Rightarrow> terminal_tab_data \<Rightarrow> terminal_tab_data" where
  "seat i sid p d =
     d\<lparr>td_splitTree := replaceNode (td_splitTree d) i (N_terminal sid), td_activePaneId := sid,
       td_panes := set_prop (td_panes d) sid p\<rparr>"

lemma seat_ok:
  assumes "data_ok d" "i \<in> leaves_of d" "i \<notin> sessions_of d" "sid \<notin> leaves_of d" "pn_sessionId p = sid"
  shows "data_ok (seat i sid p d)" "connecting_of (seat i sid p d) = connecting_of d - {i}"
    "pending_of (seat i sid p d) = pending_of d - {i}" "fst ` set (td_panes (seat i sid p d)) = insert sid (fst ` set (td_panes d))"
    "leaves_of (seat i sid p d) = leaves_of d - {i} \<union> {sid}"
proof -
  from assms(1) have d: "distinct (leaf_ids (td_splitTree d))" by (simp add: data_ok_def)
  have "distinct (leaf_ids (replaceNode (td_splitTree d) i (N_terminal sid)))"
    by (rule distinct_replace [OF d]) (use assms(4) in auto)
  with assms d show "data_ok (seat i sid p d)"
    by (auto simp: data_ok_def seat_def replace_kinds keys_of_set_prop dest!: set_prop_values)
  show "connecting_of (seat i sid p d) = connecting_of d - {i}" "pending_of (seat i sid p d) = pending_of d - {i}"
    "fst ` set (td_panes (seat i sid p d)) = insert sid (fst ` set (td_panes d))"
    "leaves_of (seat i sid p d) = leaves_of d - {i} \<union> {sid}"
    using assms d by (auto simp: seat_def replace_kinds keys_of_set_prop)
qed

text \<open>A pane with a session connects again.\<close>

definition unseat :: "string \<Rightarrow> string \<Rightarrow> terminal_tab_data \<Rightarrow> terminal_tab_data" where
  "unseat sid c d =
     d\<lparr>td_splitTree := replaceNode (td_splitTree d) sid (N_connecting c), td_activePaneId := c,
       td_panes := del_prop (td_panes d) sid\<rparr>"

lemma unseat_ok:
  assumes "data_ok d" "sid \<in> sessions_of d" "c \<notin> leaves_of d"
  shows "data_ok (unseat sid c d)" "connecting_of (unseat sid c d) = connecting_of d \<union> {c}"
    "pending_of (unseat sid c d) = pending_of d" "fst ` set (td_panes (unseat sid c d)) = fst ` set (td_panes d) - {sid}"
proof -
  from assms(1) have d: "distinct (leaf_ids (td_splitTree d))" by (simp add: data_ok_def)
  from data_ok_kinds [OF assms(1)] assms(2) have k: "sid \<in> leaves_of d" "sid \<notin> connecting_of d" "sid \<notin> pending_of d" by auto
  have "distinct (leaf_ids (replaceNode (td_splitTree d) sid (N_connecting c)))"
    by (rule distinct_replace [OF d]) (use assms(3) in auto)
  moreover have "set (del_prop (td_panes d) sid) \<subseteq> set (td_panes d)" by (rule set_del_prop)
  ultimately show "data_ok (unseat sid c d)"
    using assms d k by (auto simp: data_ok_def unseat_def replace_kinds keys_of_del_prop)
  show "connecting_of (unseat sid c d) = connecting_of d \<union> {c}" "pending_of (unseat sid c d) = pending_of d"
    "fst ` set (td_panes (unseat sid c d)) = fst ` set (td_panes d) - {sid}"
    using assms d k by (auto simp: unseat_def replace_kinds keys_of_del_prop)
qed

text \<open>A pane is split.\<close>

definition divide :: "split_direction \<Rightarrow> string \<Rightarrow> terminal_tab_data \<Rightarrow> terminal_tab_data" where
  "divide dir p d =
     d\<lparr>td_splitTree := replaceNode (td_splitTree d) (td_activePaneId d)
        (N_split dir (1 / 2) (N_terminal (td_activePaneId d)) (N_pending p))\<rparr>"

lemma divide_ok:
  assumes "data_ok d" "td_activePaneId d \<in> sessions_of d" "p \<notin> leaves_of d"
  shows "data_ok (divide dir p d)" "connecting_of (divide dir p d) = connecting_of d"
    "pending_of (divide dir p d) = pending_of d \<union> {p}" "td_panes (divide dir p d) = td_panes d"
proof -
  from assms(1) have d: "distinct (leaf_ids (td_splitTree d))" by (simp add: data_ok_def)
  from data_ok_kinds [OF assms(1)] assms(2)
  have k: "td_activePaneId d \<in> leaves_of d" "td_activePaneId d \<notin> connecting_of d" "td_activePaneId d \<notin> pending_of d" by auto
  with assms(3) have n: "td_activePaneId d \<noteq> p" by auto
  have "distinct (leaf_ids (td_splitTree (divide dir p d)))"
    unfolding divide_def by simp (rule distinct_replace [OF d], use assms(3) n in auto)
  with assms d k show "data_ok (divide dir p d)"
    by (auto simp: data_ok_def divide_def replace_kinds)
  show "connecting_of (divide dir p d) = connecting_of d" "pending_of (divide dir p d) = pending_of d \<union> {p}"
    "td_panes (divide dir p d) = td_panes d"
    using assms d k by (auto simp: divide_def replace_kinds)
qed

text \<open>A pane is removed.\<close>

definition drop_leaf :: "string \<Rightarrow> split_node \<Rightarrow> terminal_tab_data \<Rightarrow> terminal_tab_data" where
  "drop_leaf i tree d =
     d\<lparr>td_splitTree := tree,
       td_activePaneId := (if td_activePaneId d = i then hd (getSessionIds tree) else td_activePaneId d),
       td_panes := del_prop (td_panes d) i\<rparr>"

lemma drop_leaf_ok:
  assumes "data_ok d" "removeNode (td_splitTree d) i = Some tree" "td_activePaneId d = i \<Longrightarrow> sessions_of d - {i} \<noteq> {}"
  shows "data_ok (drop_leaf i tree d)" "connecting_of (drop_leaf i tree d) = connecting_of d - {i}"
    "pending_of (drop_leaf i tree d) = pending_of d - {i}" "fst ` set (td_panes (drop_leaf i tree d)) = fst ` set (td_panes d) - {i}"
proof -
  note r = remove_kinds [OF assms(2)]
  have h: "hd (getSessionIds tree) \<in> set (getSessionIds tree)" if "td_activePaneId d = i"
    using assms(3) [OF that] by (intro hd_in_set) (auto simp: r(1) filter_empty_conv)
  have "set (del_prop (td_panes d) i) \<subseteq> set (td_panes d)" by (rule set_del_prop)
  with assms(1) h show "data_ok (drop_leaf i tree d)"
    by (cases "td_activePaneId d = i") (auto simp: data_ok_def drop_leaf_def r keys_of_del_prop)
  show "connecting_of (drop_leaf i tree d) = connecting_of d - {i}" "pending_of (drop_leaf i tree d) = pending_of d - {i}"
    "fst ` set (td_panes (drop_leaf i tree d)) = fst ` set (td_panes d) - {i}"
    by (auto simp: drop_leaf_def r keys_of_del_prop)
qed

section \<open>The tabs with their connections, listeners and promises\<close>

definition listener_tab :: "string \<Rightarrow> listener \<Rightarrow> string" where
  "listener_tab c l = (case l of L_connect a b \<Rightarrow> c | L_reconnect i t \<Rightarrow> i)"

definition listener_ok :: "string set \<Rightarrow> (string \<Rightarrow> terminal_tab_data option) \<Rightarrow> string \<Rightarrow> listener \<Rightarrow> bool" where
  "listener_ok C T c l =
     (case l of
        L_connect a b \<Rightarrow> (c \<in> C \<longrightarrow> T c \<noteq> None) \<and> (\<forall>d. T c = Some d \<longrightarrow> td_splitTree d = N_connecting c \<and> td_panes d = [])
      | L_reconnect i t \<Rightarrow> T c = None \<and> (\<forall>d. T i = Some d \<longrightarrow> c \<in> connecting_of d))"

definition connecting_ok :: "string set \<Rightarrow> ((transport \<times> string) \<times> listener) set \<Rightarrow> string \<Rightarrow> terminal_tab_data \<Rightarrow> bool" where
  "connecting_ok C L i d \<longleftrightarrow> (\<forall>c\<in>connecting_of d. c \<in> C \<and> (\<exists>t l. ((t, c), l) \<in> L \<and> listener_tab c l = i))"

definition term_inv ::
  "(string \<Rightarrow> terminal_tab_data option) \<Rightarrow> string set \<Rightarrow> ((transport \<times> string) \<times> listener) list \<Rightarrow>
   reconnect_request list \<Rightarrow> (string \<times> string) list \<Rightarrow> bool" where
  "term_inv T C L R S \<longleftrightarrow>
     (\<forall>i d. T i = Some d \<longrightarrow> data_ok d \<and> connecting_ok C (set L) i d) \<and>
     distinct (map (snd \<circ> fst) L) \<and>
     (\<forall>t c l. ((t, c), l) \<in> set L \<longrightarrow> listener_ok C T c l) \<and>
     distinct (map rr_tabId R) \<and>
     (\<forall>r\<in>set R. \<forall>d. T (rr_tabId r) = Some d \<longrightarrow> rr_sessionId r \<in> fst ` set (td_panes d)) \<and>
     distinct S \<and>
     (\<forall>i p d. (i, p) \<in> set S \<longrightarrow> T i = Some d \<longrightarrow> p \<in> pending_of d)"

text \<open>An id nothing refers to yet.\<close>

definition unused ::
  "string \<Rightarrow> (string \<Rightarrow> terminal_tab_data option) \<Rightarrow> string set \<Rightarrow> ((transport \<times> string) \<times> listener) list \<Rightarrow>
   reconnect_request list \<Rightarrow> (string \<times> string) list \<Rightarrow> bool" where
  "unused i T C L R S \<longleftrightarrow>
     T i = None \<and> (\<forall>j d. T j = Some d \<longrightarrow> i \<notin> leaves_of d) \<and> i \<notin> C \<and> i \<notin> (snd \<circ> fst) ` set L \<and>
     (\<forall>n l t. (n, l) \<in> set L \<longrightarrow> l \<noteq> L_reconnect i t) \<and> i \<notin> rr_tabId ` set R \<and> i \<notin> fst ` set S"

text \<open>A tab goes, with its connection and its listener.\<close>

lemma term_inv_close:
  assumes "term_inv T C L R S" and "set L' \<subseteq> set L" and "distinct (map (snd \<circ> fst) L')"
    and "\<forall>n l. (n, l) \<in> set L \<longrightarrow> (n, l) \<in> set L' \<or> snd n = i" and "T i \<noteq> None \<or> (L' = L \<and> i \<notin> C)"
  shows "term_inv (T(i := None)) (C - {i}) L' R S"
proof -
  have "data_ok d \<and> connecting_ok (C - {i}) (set L') j d" if d: "(T(i := None)) j = Some d" for j d
  proof -
    from d have j: "j \<noteq> i" "T j = Some d" by (auto split: if_splits)
    with assms(1) have ok: "data_ok d" "connecting_ok C (set L) j d" by (auto simp: term_inv_def)
    have "c \<in> C - {i} \<and> (\<exists>t l. ((t, c), l) \<in> set L' \<and> listener_tab c l = j)" if "c \<in> connecting_of d" for c
    proof -
      from ok(2) that obtain t l where c: "c \<in> C" "((t, c), l) \<in> set L" "listener_tab c l = j"
        by (auto simp: connecting_ok_def)
      show ?thesis
      proof (cases "T i = None")
        case True
        with assms(5) c show ?thesis by auto
      next
        case False
        from assms(1) c(2) have "listener_ok C T c l" by (auto simp: term_inv_def)
        with c(3) j(1) False have "c \<noteq> i" by (auto simp: listener_ok_def listener_tab_def split: listener.splits)
        with c assms(4) show ?thesis by fastforce
      qed
    qed
    with ok(1) show ?thesis by (simp add: connecting_ok_def)
  qed
  moreover have "listener_ok (C - {i}) (T(i := None)) c l" if "((t, c), l) \<in> set L'" for t c l
  proof -
    from that assms(1,2) have "listener_ok C T c l" by (auto simp: term_inv_def)
    then show ?thesis by (auto simp: listener_ok_def split: listener.splits)
  qed
  ultimately show ?thesis
    using assms(1,3) unfolding term_inv_def by (auto split: if_splits)
qed

text \<open>The general change: one tab gets new data, and what does not concern it stays.\<close>

lemma term_inv_change:
  assumes "term_inv T C L R S" and "data_ok d'" and "connecting_ok C' (set L') i d'"
    and "\<And>t c l. ((t, c), l) \<in> set L \<Longrightarrow> listener_tab c l \<noteq> i \<Longrightarrow> ((t, c), l) \<in> set L' \<and> (c \<in> C \<longrightarrow> c \<in> C')"
    and "distinct (map (snd \<circ> fst) L')"
    and "\<And>t c l. ((t, c), l) \<in> set L' \<Longrightarrow> listener_ok C' (T(i \<mapsto> d')) c l"
    and "distinct (map rr_tabId R')"
    and "\<And>r. r \<in> set R' \<Longrightarrow> if rr_tabId r = i then rr_sessionId r \<in> fst ` set (td_panes d') else r \<in> set R"
    and "distinct S'" and "\<And>j p. (j, p) \<in> set S' \<Longrightarrow> if j = i then p \<in> pending_of d' else (j, p) \<in> set S"
  shows "term_inv (T(i \<mapsto> d')) C' L' R' S'"
proof -
  have "data_ok e \<and> connecting_ok C' (set L') j e" if e: "(T(i \<mapsto> d')) j = Some e" for j e
  proof (cases "j = i")
    case True
    with e assms(2,3) show ?thesis by simp
  next
    case False
    with e assms(1) have ok: "data_ok e" "connecting_ok C (set L) j e" by (auto simp: term_inv_def)
    have "c \<in> C' \<and> (\<exists>t l. ((t, c), l) \<in> set L' \<and> listener_tab c l = j)" if "c \<in> connecting_of e" for c
    proof -
      from ok(2) that obtain t l where "c \<in> C" "((t, c), l) \<in> set L" "listener_tab c l = j"
        by (auto simp: connecting_ok_def)
      with assms(4) [of t c l] False show ?thesis by auto
    qed
    with ok(1) show ?thesis by (simp add: connecting_ok_def)
  qed
  moreover have "rr_sessionId r \<in> fst ` set (td_panes e)" if "r \<in> set R'" "(T(i \<mapsto> d')) (rr_tabId r) = Some e" for r e
    using assms(8) [OF that(1)] that(2) assms(1) by (auto simp: term_inv_def split: if_splits)
  moreover have "p \<in> pending_of e" if "(j, p) \<in> set S'" "(T(i \<mapsto> d')) j = Some e" for j p e
    using assms(10) [OF that(1)] that(2) assms(1) by (auto simp: term_inv_def split: if_splits)
  ultimately show ?thesis
    using assms(5-7,9) unfolding term_inv_def by blast
qed

lemma term_inv_settle:
  "term_inv T C L R S \<Longrightarrow> distinct (map rr_tabId R') \<Longrightarrow> set R' \<subseteq> set R \<Longrightarrow> distinct S' \<Longrightarrow> set S' \<subseteq> set S \<Longrightarrow> term_inv T C L R' S'"
  unfolding term_inv_def by (intro conjI; blast)

lemma term_invD:
  assumes "term_inv T C L R S"
  shows "T i = Some d \<Longrightarrow> data_ok d" "T i = Some d \<Longrightarrow> connecting_ok C (set L) i d"
    "((t, c), l) \<in> set L \<Longrightarrow> listener_ok C T c l" "distinct (map (snd \<circ> fst) L)"
    "r \<in> set R \<Longrightarrow> T (rr_tabId r) = Some d \<Longrightarrow> rr_sessionId r \<in> fst ` set (td_panes d)" "distinct (map rr_tabId R)"
    "(i, p) \<in> set S \<Longrightarrow> T i = Some d \<Longrightarrow> p \<in> pending_of d" "distinct S"
  using assms by (auto simp: term_inv_def)

lemma listener_names:
  "distinct (map (snd \<circ> fst) L) \<Longrightarrow> ((t, c), l) \<in> set L \<Longrightarrow> ((t', c), l') \<in> set L \<Longrightarrow> t' = t \<and> l' = l"
  by (induction L) (auto simp: rev_image_eqI image_iff)

lemma distinct_filter_names: "distinct (map (snd \<circ> fst) L) \<Longrightarrow> distinct (map (snd \<circ> fst) (filter P L))"
  by (simp add: distinct_map_filter)

text \<open>The listener of a connection that is established goes.\<close>

abbreviation unheard :: "transport \<times> string \<Rightarrow> ((transport \<times> string) \<times> listener) list \<Rightarrow> ((transport \<times> string) \<times> listener) list" where
  "unheard name L \<equiv> filter (\<lambda>(n, l). n \<noteq> name) L"

lemma term_inv_again:
  assumes inv: "term_inv T C L R S" and d: "T i = Some d" and l: "((t, c), L_reconnect i u) \<in> set L"
    and sid: "unused sid T C L R S" and p: "pn_sessionId p = sid"
  shows "term_inv (T(i \<mapsto> seat c sid p d)) (C - {c}) (unheard (t, c) L) R S"
proof (rule term_inv_change [OF inv])
  note names = term_invD(4) [OF inv]
  from term_invD(1) [OF inv d] have ok: "data_ok d" .
  from term_invD(3) [OF inv l] d have c: "c \<in> connecting_of d" "T c = None" by (auto simp: listener_ok_def)
  with data_ok_kinds [OF ok] have "c \<in> leaves_of d" "c \<notin> sessions_of d" "c \<notin> pending_of d" by auto
  moreover from sid d have "sid \<notin> leaves_of d" by (auto simp: unused_def)
  ultimately have s: "data_ok (seat c sid p d)" "connecting_of (seat c sid p d) = connecting_of d - {c}"
    "pending_of (seat c sid p d) = pending_of d" "fst ` set (td_panes (seat c sid p d)) = insert sid (fst ` set (td_panes d))"
    using seat_ok [OF ok, of c sid p] p by auto
  show "data_ok (seat c sid p d)" by (rule s(1))
  show "connecting_ok (C - {c}) (set (unheard (t, c) L)) i (seat c sid p d)"
    using term_invD(2) [OF inv d] unfolding connecting_ok_def s(2) by fastforce
  show "((t', c'), l') \<in> set (unheard (t, c) L) \<and> (c' \<in> C \<longrightarrow> c' \<in> C - {c})"
    if "((t', c'), l') \<in> set L" "listener_tab c' l' \<noteq> i" for t' c' l'
  proof -
    have "c' \<noteq> c"
    proof
      assume "c' = c"
      with that(1) listener_names [OF names l] have "l' = L_reconnect i u" by blast
      with that(2) show False by (simp add: listener_tab_def)
    qed
    with that(1) show ?thesis by simp
  qed
  show "distinct (map (snd \<circ> fst) (unheard (t, c) L))" by (rule distinct_filter_names [OF names])
  show "listener_ok (C - {c}) (T(i \<mapsto> seat c sid p d)) c' l'" if l': "((t', c'), l') \<in> set (unheard (t, c) L)" for t' c' l'
  proof -
    from l' have "listener_ok C T c' l'" "c' \<noteq> c" using term_invD(3) [OF inv] listener_names [OF names l] by auto
    with d c s(2) show ?thesis by (auto simp: listener_ok_def split: listener.splits)
  qed
  show "if rr_tabId r = i then rr_sessionId r \<in> fst ` set (td_panes (seat c sid p d)) else r \<in> set R" if "r \<in> set R" for r
    using that term_invD(5) [OF inv that] d s(4) by auto
  show "if j = i then q \<in> pending_of (seat c sid p d) else (j, q) \<in> set S" if "(j, q) \<in> set S" for j q
    using that term_invD(7) [OF inv that] d s(3) by auto
qed (use term_invD(6,8) [OF inv] in auto)

text \<open>A connection for a tab that is gone: its listener goes.\<close>

lemma term_inv_gone:
  assumes inv: "term_inv T C L R S" and l: "((t, c), l) \<in> set L" and gone: "T (listener_tab c l) = None"
  shows "term_inv T C (unheard (t, c) L) R S"
proof -
  have "connecting_ok C (set (unheard (t, c) L)) i d" if d: "T i = Some d" for i d
    using term_invD(2) [OF inv d] gone d listener_names [OF term_invD(4) [OF inv] l] unfolding connecting_ok_def by fastforce
  then show ?thesis
    using inv distinct_filter_names [OF term_invD(4) [OF inv]] by (auto simp: term_inv_def)
qed

text \<open>A tab is opened for a first connection.\<close>

lemma listener_ok_unused:
  "unused i T C L R S \<Longrightarrow> ((t, c), l) \<in> set L \<Longrightarrow> listener_ok C T c l \<Longrightarrow> C' \<subseteq> insert i C \<Longrightarrow> listener_ok C' (T(i \<mapsto> d')) c l"
  by (auto simp: unused_def listener_ok_def rev_image_eqI split: listener.splits)

lemma unused_less:
  "unused i T C L R S \<Longrightarrow> (\<And>j. T' j = None \<or> T' j = T j) \<Longrightarrow> C' \<subseteq> C \<Longrightarrow> set L' \<subseteq> set L \<Longrightarrow> unused i T' C' L' R S"
  unfolding unused_def by (metis (no_types, lifting) image_mono option.distinct(1) subset_iff)

lemma distinct_new_name:
  "unused c T C L R S \<Longrightarrow> distinct (map (snd \<circ> fst) L) \<Longrightarrow> distinct (map (snd \<circ> fst) (L @ [((t, c), l)]))"
  by (auto simp: unused_def)

lemma term_inv_open:
  assumes inv: "term_inv T C L R S" and c: "unused c T C L R S"
  shows "term_inv (T(c \<mapsto> opened_data c input)) (insert c C) (L @ [((t, c), L_connect a b)]) R S"
proof (rule term_inv_change [OF inv])
  show "data_ok (opened_data c input)" by (simp add: data_ok_def opened_data_def)
  show "connecting_ok (insert c C) (set (L @ [((t, c), L_connect a b)])) c (opened_data c input)"
    by (simp add: connecting_ok_def opened_data_def) (rule exI [of _ t], rule exI [of _ "L_connect a b"], simp add: listener_tab_def)
  show "distinct (map (snd \<circ> fst) (L @ [((t, c), L_connect a b)]))"
    by (rule distinct_new_name [OF c term_invD(4) [OF inv]])
  show "listener_ok (insert c C) (T(c \<mapsto> opened_data c input)) c' l'" if "((t', c'), l') \<in> set (L @ [((t, c), L_connect a b)])" for t' c' l'
  proof (cases "((t', c'), l') \<in> set L")
    case True
    from listener_ok_unused [OF c True term_invD(3) [OF inv True]] show ?thesis by blast
  next
    case False
    with that show ?thesis by (simp add: listener_ok_def opened_data_def)
  qed
  show "if rr_tabId r = c then rr_sessionId r \<in> fst ` set (td_panes (opened_data c input)) else r \<in> set R" if "r \<in> set R" for r
    using that c by (auto simp: unused_def)
  show "if j = c then p \<in> pending_of (opened_data c input) else (j, p) \<in> set S" if "(j, p) \<in> set S" for j p
    using that c by (auto simp: unused_def rev_image_eqI)
qed (use term_invD(6,8) [OF inv] in auto)

text \<open>Its session is established: the tab gets the session's id.\<close>

lemma term_inv_first:
  assumes inv: "term_inv T C L R S" and d: "T c = Some d" and l: "((t, c), L_connect a b) \<in> set L"
    and sid: "unused sid T C L R S" and p: "pn_sessionId p = sid"
  shows "term_inv (T(c := None, sid \<mapsto> first_data c sid p d)) (C - {c}) (unheard (t, c) L) R S"
proof -
  note names = term_invD(4) [OF inv]
  have only: "l' = L_connect a b" if "((t', c), l') \<in> set L" for t' l'
    using listener_names [OF names l that] by simp
  have closed: "term_inv (T(c := None)) (C - {c}) (unheard (t, c) L) R S"
    by (rule term_inv_close [OF inv]) (use d listener_names [OF names l] in \<open>auto intro: distinct_filter_names [OF names]\<close>)
  show ?thesis
  proof (rule term_inv_change [OF closed])
    from term_invD(3) [OF inv l] d have tree: "td_splitTree d = N_connecting c" by (simp add: listener_ok_def)
    then show "data_ok (first_data c sid p d)" by (simp add: data_ok_def first_data_def p)
    show "connecting_ok (C - {c}) (set (unheard (t, c) L)) sid (first_data c sid p d)"
      by (simp add: connecting_ok_def first_data_def tree)
    show "listener_ok (C - {c}) ((T(c := None))(sid \<mapsto> first_data c sid p d)) c' l'"
      if l': "((t', c'), l') \<in> set (unheard (t, c) L)" for t' c' l'
    proof -
      from l' term_invD(3) [OF closed] have "listener_ok (C - {c}) (T(c := None)) c' l'" by blast
      moreover from sid have "unused sid (T(c := None)) (C - {c}) (unheard (t, c) L) R S"
        by (rule unused_less) auto
      ultimately show ?thesis using listener_ok_unused [OF _ l'] by blast
    qed
    show "if rr_tabId r = sid then rr_sessionId r \<in> fst ` set (td_panes (first_data c sid p d)) else r \<in> set R" if "r \<in> set R" for r
      using that sid by (auto simp: unused_def)
    show "if j = sid then q \<in> pending_of (first_data c sid p d) else (j, q) \<in> set S" if "(j, q) \<in> set S" for j q
      using that sid by (auto simp: unused_def rev_image_eqI)
  qed (use term_invD(4,6,8) [OF closed] in auto)
qed

text \<open>A reconnect is asked for; the backend names the new connection.\<close>

lemma term_inv_ask:
  assumes "term_inv T C L R S" "T (rr_tabId r) = Some d" "rr_sessionId r \<in> fst ` set (td_panes d)" "rr_tabId r \<notin> rr_tabId ` set R"
  shows "term_inv T C L (r # R) S"
  using assms unfolding term_inv_def by auto

lemma term_inv_unseat:
  assumes inv: "term_inv T C L R S" and r: "r \<in> set R" and d: "T (rr_tabId r) = Some d" and c: "unused c T C L R S"
  shows "term_inv (T(rr_tabId r \<mapsto> unseat (rr_sessionId r) c d)) (insert c C)
           (L @ [((u, c), L_reconnect (rr_tabId r) u)]) (remove1 r R) S"
proof (rule term_inv_change [OF inv])
  let ?d = "unseat (rr_sessionId r) c d"
  from term_invD(1) [OF inv d] have ok: "data_ok d" .
  from term_invD(5) [OF inv r d] data_ok_panes [OF ok] have "rr_sessionId r \<in> sessions_of d" by simp
  moreover from c d have "c \<notin> leaves_of d" by (auto simp: unused_def)
  ultimately have s: "data_ok ?d" "connecting_of ?d = connecting_of d \<union> {c}" "pending_of ?d = pending_of d"
    using unseat_ok [OF ok, of "rr_sessionId r" c] by auto
  show "data_ok ?d" by (rule s(1))
  show "connecting_ok (insert c C) (set (L @ [((u, c), L_reconnect (rr_tabId r) u)])) (rr_tabId r) ?d"
    using term_invD(2) [OF inv d] unfolding connecting_ok_def s(2) by (fastforce simp: listener_tab_def)
  show "distinct (map (snd \<circ> fst) (L @ [((u, c), L_reconnect (rr_tabId r) u)]))"
    by (rule distinct_new_name [OF c term_invD(4) [OF inv]])
  show "listener_ok (insert c C) (T(rr_tabId r \<mapsto> ?d)) c' l'" if "((t', c'), l') \<in> set (L @ [((u, c), L_reconnect (rr_tabId r) u)])" for t' c' l'
  proof (cases "((t', c'), l') \<in> set L")
    case True
    with term_invD(3) [OF inv] have "listener_ok C T c' l'" by blast
    moreover have "td_panes d \<noteq> []" using term_invD(5) [OF inv r d] by auto
    moreover from c True have "c' \<noteq> c" by (auto simp: unused_def rev_image_eqI)
    ultimately show ?thesis using d s(2) by (auto simp: listener_ok_def split: listener.splits)
  next
    case False
    with that have "c' = c" "l' = L_reconnect (rr_tabId r) u" by auto
    with c d s(2) show ?thesis by (auto simp: listener_ok_def unused_def)
  qed
  have dist: "distinct (map rr_tabId R)" by (rule term_invD(6) [OF inv])
  then show "distinct (map rr_tabId (remove1 r R))"
    by (auto simp: distinct_map intro: inj_on_subset)
  show "if rr_tabId q = rr_tabId r then rr_sessionId q \<in> fst ` set (td_panes ?d) else q \<in> set R" if q: "q \<in> set (remove1 r R)" for q
  proof -
    from dist have "distinct R" by (simp add: distinct_map)
    with q have "q \<in> set R" "q \<noteq> r" by auto
    with dist r have "rr_tabId q \<noteq> rr_tabId r" by (auto simp: distinct_map inj_on_def)
    with \<open>q \<in> set R\<close> show ?thesis by simp
  qed
  show "if j = rr_tabId r then p \<in> pending_of ?d else (j, p) \<in> set S" if "(j, p) \<in> set S" for j p
    using that term_invD(7) [OF inv that] d s(3) by auto
qed (use term_invD(8) [OF inv] in \<open>auto simp: listener_tab_def\<close>)

lemma term_inv_heard:
  assumes inv: "term_inv T C L R S" and gone: "T i = None" and c: "unused c T C L R S"
  shows "term_inv T C (L @ [((u, c), L_reconnect i u)]) R S"
proof -
  have "connecting_ok C (set (L @ [((u, c), L_reconnect i u)])) j d" if "T j = Some d" for j d
    using term_invD(2) [OF inv that] unfolding connecting_ok_def by fastforce
  moreover have "listener_ok C T c' l'" if "((t', c'), l') \<in> set (L @ [((u, c), L_reconnect i u)])" for t' c' l'
    using that term_invD(3) [OF inv] gone c by (auto simp: listener_ok_def unused_def)
  ultimately show ?thesis
    using inv distinct_new_name [OF c term_invD(4) [OF inv]] unfolding term_inv_def by blast
qed

text \<open>A change of one tab that leaves the connections, the listeners and what connects alone.\<close>

lemma term_inv_panes:
  assumes inv: "term_inv T C L R S" and d: "T i = Some d" and ok: "data_ok d'" and conn: "connecting_of d' = connecting_of d"
    and some: "(\<forall>c. td_splitTree d \<noteq> N_connecting c) \<or> td_splitTree d' = td_splitTree d \<and> td_panes d' = td_panes d"
    and R: "\<And>r. r \<in> set R \<Longrightarrow> rr_tabId r = i \<Longrightarrow> rr_sessionId r \<in> fst ` set (td_panes d')"
    and S': "distinct S'" "\<And>j p. (j, p) \<in> set S' \<Longrightarrow> if j = i then p \<in> pending_of d' else (j, p) \<in> set S"
  shows "term_inv (T(i \<mapsto> d')) C L R S'"
proof (rule term_inv_change [OF inv ok])
  show "connecting_ok C (set L) i d'"
    using term_invD(2) [OF inv d] by (simp add: connecting_ok_def conn)
  show "listener_ok C (T(i \<mapsto> d')) c l" if "((t, c), l) \<in> set L" for t c l
  proof -
    from that term_invD(3) [OF inv] have "listener_ok C T c l" by blast
    with d conn some show ?thesis by (auto simp: listener_ok_def split: listener.splits)
  qed
qed (use R S' term_invD(4,6) [OF inv] in auto)

lemma term_inv_divide:
  assumes inv: "term_inv T C L R S" and d: "T i = Some d" and a: "td_activePaneId d \<in> fst ` set (td_panes d)"
    and p: "p \<notin> leaves_of d" "(i, p) \<notin> set S"
  shows "term_inv (T(i \<mapsto> divide dir p d)) C L R ((i, p) # S)"
proof (rule term_inv_panes [OF inv d])
  note ok = term_invD(1) [OF inv d]
  from a data_ok_panes [OF ok] have sess: "td_activePaneId d \<in> sessions_of d" by simp
  note s = divide_ok [OF ok sess p(1), of dir]
  show "data_ok (divide dir p d)" "connecting_of (divide dir p d) = connecting_of d" by (rule s)+
  from sess have "td_splitTree d \<noteq> N_connecting c" for c by auto
  then show "(\<forall>c. td_splitTree d \<noteq> N_connecting c) \<or> td_splitTree (divide dir p d) = td_splitTree d \<and> td_panes (divide dir p d) = td_panes d"
    by blast
  show "rr_sessionId r \<in> fst ` set (td_panes (divide dir p d))" if "r \<in> set R" "rr_tabId r = i" for r
    using term_invD(5) [OF inv that(1)] that(2) d s(4) by simp
  show "distinct ((i, p) # S)" using p(2) term_invD(8) [OF inv] by simp
  show "if j = i then q \<in> pending_of (divide dir p d) else (j, q) \<in> set S" if "(j, q) \<in> set ((i, p) # S)" for j q
    using that term_invD(7) [OF inv] d s(3) by auto
qed

lemma distinct_other: "distinct S \<Longrightarrow> (j, q) \<in> set (remove1 x S) \<Longrightarrow> (j, q) \<in> set S \<and> (j, q) \<noteq> x"
  by auto

lemma term_inv_seat_split:
  assumes inv: "term_inv T C L R S" and d: "T i = Some d" and s: "(i, p) \<in> set S" and sid: "unused sid T C L R S"
    and pn: "pn_sessionId pane = sid"
  shows "term_inv (T(i \<mapsto> seat p sid pane d)) C L R (remove1 (i, p) S)"
proof (rule term_inv_panes [OF inv d])
  note ok = term_invD(1) [OF inv d]
  from term_invD(7) [OF inv s d] have p: "p \<in> pending_of d" .
  with data_ok_kinds [OF ok] have k: "p \<in> leaves_of d" "p \<notin> sessions_of d" "p \<notin> connecting_of d" by auto
  from sid d have "sid \<notin> leaves_of d" by (auto simp: unused_def)
  note t = seat_ok [OF ok k(1,2) this pn]
  show "data_ok (seat p sid pane d)" by (rule t)
  show "connecting_of (seat p sid pane d) = connecting_of d" using t(2) k(3) by simp
  have "td_splitTree d \<noteq> N_connecting c" for c using p by auto
  then show "(\<forall>c. td_splitTree d \<noteq> N_connecting c) \<or>
      td_splitTree (seat p sid pane d) = td_splitTree d \<and> td_panes (seat p sid pane d) = td_panes d" by blast
  show "rr_sessionId r \<in> fst ` set (td_panes (seat p sid pane d))" if "r \<in> set R" "rr_tabId r = i" for r
    using term_invD(5) [OF inv that(1)] that(2) d t(4) by auto
  show "distinct (remove1 (i, p) S)" using term_invD(8) [OF inv] by simp
  show "if j = i then q \<in> pending_of (seat p sid pane d) else (j, q) \<in> set S" if "(j, q) \<in> set (remove1 (i, p) S)" for j q
    using distinct_other [OF term_invD(8) [OF inv] that] term_invD(7) [OF inv] d t(3) by auto
qed

lemma term_inv_drop_split:
  assumes inv: "term_inv T C L R S" and d: "T i = Some d" and s: "(i, p) \<in> set S"
    and tree: "removeNode (td_splitTree d) p = Some tree"
  shows "term_inv (T(i \<mapsto> d\<lparr>td_splitTree := tree\<rparr>)) C L R (remove1 (i, p) S)"
proof -
  note ok = term_invD(1) [OF inv d]
  from term_invD(7) [OF inv s d] have p: "p \<in> pending_of d" .
  with data_ok_kinds [OF ok] ok data_ok_panes [OF ok]
  have k: "p \<notin> fst ` set (td_panes d)" "p \<noteq> td_activePaneId d" "p \<notin> connecting_of d"
    by (auto simp: data_ok_def)
  then have "del_prop (td_panes d) p = td_panes d"
    by (auto simp: del_prop_def filter_id_conv rev_image_eqI)
  with k(2) have same: "d\<lparr>td_splitTree := tree\<rparr> = drop_leaf p tree d" by (simp add: drop_leaf_def)
  from k(2) have "td_activePaneId d = p \<Longrightarrow> sessions_of d - {p} \<noteq> {}" by simp
  note t = drop_leaf_ok [OF ok tree this]
  show ?thesis unfolding same
  proof (rule term_inv_panes [OF inv d t(1)])
    show "connecting_of (drop_leaf p tree d) = connecting_of d" using t(2) k(3) by simp
    have "td_splitTree d \<noteq> N_connecting c" for c using p by auto
    then show "(\<forall>c. td_splitTree d \<noteq> N_connecting c) \<or>
        td_splitTree (drop_leaf p tree d) = td_splitTree d \<and> td_panes (drop_leaf p tree d) = td_panes d" by blast
    show "rr_sessionId r \<in> fst ` set (td_panes (drop_leaf p tree d))" if "r \<in> set R" "rr_tabId r = i" for r
      using term_invD(5) [OF inv that(1)] that(2) d t(4) k(1) by auto
    show "distinct (remove1 (i, p) S)" using term_invD(8) [OF inv] by simp
    show "if j = i then q \<in> pending_of (drop_leaf p tree d) else (j, q) \<in> set S" if "(j, q) \<in> set (remove1 (i, p) S)" for j q
      using distinct_other [OF term_invD(8) [OF inv] that] term_invD(7) [OF inv] d t(3) by auto
  qed
qed

lemma term_inv_drop_pane:
  assumes inv: "term_inv T C L R S" and d: "T i = Some d" and sid: "sid \<in> fst ` set (td_panes d)"
    and many: "length (getSessionIds (td_splitTree d)) > 1" and tree: "removeNode (td_splitTree d) sid = Some tree"
    and R: "\<forall>r\<in>set R. rr_tabId r = i \<longrightarrow> rr_sessionId r \<noteq> sid"
  shows "term_inv (T(i \<mapsto> drop_leaf sid tree d)) C L R S"
proof -
  note ok = term_invD(1) [OF inv d]
  from sid data_ok_panes [OF ok] have sess: "sid \<in> sessions_of d" by simp
  with data_ok_kinds [OF ok] have k: "sid \<notin> connecting_of d" "sid \<notin> pending_of d" by auto
  have "distinct (getSessionIds (td_splitTree d))" using ok distinct_sessions by (simp add: data_ok_def)
  with many have "card (sessions_of d) > 1" by (simp add: distinct_card)
  then have "sessions_of d - {sid} \<noteq> {}" by (metis card.empty card_Diff_singleton less_numeral_extra(3) sess zero_less_diff)
  then have "td_activePaneId d = sid \<Longrightarrow> sessions_of d - {sid} \<noteq> {}" by simp
  note t = drop_leaf_ok [OF ok tree this]
  show ?thesis
  proof (rule term_inv_panes [OF inv d t(1)])
    show "connecting_of (drop_leaf sid tree d) = connecting_of d" using t(2) k(1) by simp
    have "td_splitTree d \<noteq> N_connecting c" for c using sess by auto
    then show "(\<forall>c. td_splitTree d \<noteq> N_connecting c) \<or>
        td_splitTree (drop_leaf sid tree d) = td_splitTree d \<and> td_panes (drop_leaf sid tree d) = td_panes d" by blast
    show "rr_sessionId r \<in> fst ` set (td_panes (drop_leaf sid tree d))" if "r \<in> set R" "rr_tabId r = i" for r
      using term_invD(5) [OF inv that(1)] that d t(4) R by auto
    show "distinct S" by (rule term_invD(8) [OF inv])
    show "if j = i then q \<in> pending_of (drop_leaf sid tree d) else (j, q) \<in> set S" if "(j, q) \<in> set S" for j q
      using that term_invD(7) [OF inv that] d t(3) k(2) by auto
  qed
qed

section \<open>The parts of the state the invariant is about\<close>

definition asked :: "waiting list \<Rightarrow> reconnect_request list" where
  "asked ws = concat (map (\<lambda>w. case w of W_reconnect r \<Rightarrow> [r] | _ \<Rightarrow> []) ws)"

definition splits :: "waiting list \<Rightarrow> (string \<times> string) list" where
  "splits ws = concat (map (\<lambda>w. case w of W_split i p \<Rightarrow> [(i, p)] | _ \<Rightarrow> []) ws)"

lemma asked_simps [simp]:
  "asked [] = []" "asked (W_connect q # ws) = asked ws" "asked (W_reconnect r # ws) = r # asked ws"
  "asked (W_split i p # ws) = asked ws" "asked (W_sync i # ws) = asked ws"
  by (simp_all add: asked_def)

lemma splits_simps [simp]:
  "splits [] = []" "splits (W_connect q # ws) = splits ws" "splits (W_reconnect r # ws) = splits ws"
  "splits (W_split i p # ws) = (i, p) # splits ws" "splits (W_sync i # ws) = splits ws"
  by (simp_all add: splits_def)

lemma asked_remove [simp]:
  "asked (remove1 (W_connect q) ws) = asked ws" "asked (remove1 (W_reconnect r) ws) = remove1 r (asked ws)"
  "asked (remove1 (W_split i p) ws) = asked ws" "asked (remove1 (W_sync i) ws) = asked ws"
  by (induction ws) (auto simp: asked_def split: waiting.split)

lemma splits_remove [simp]:
  "splits (remove1 (W_connect q) ws) = splits ws" "splits (remove1 (W_reconnect r) ws) = splits ws"
  "splits (remove1 (W_split i p) ws) = remove1 (i, p) (splits ws)" "splits (remove1 (W_sync i) ws) = splits ws"
  by (induction ws) (auto simp: splits_def split: waiting.split)

lemma in_asked: "r \<in> set (asked ws) \<longleftrightarrow> W_reconnect r \<in> set ws"
  by (induction ws) (auto simp: asked_def split: waiting.splits)

lemma in_splits: "(i, p) \<in> set (splits ws) \<longleftrightarrow> W_split i p \<in> set ws"
  by (induction ws) (auto simp: splits_def split: waiting.splits)

definition tabs_of :: "terminal_state \<Rightarrow> string \<Rightarrow> terminal_tab_data option" where
  "tabs_of s = map_of (tm_tabData s)"

definition conns_of :: "terminal_state \<Rightarrow> string set" where
  "conns_of s = dom (map_of (tm_connections s))"

definition asked_of :: "terminal_state \<Rightarrow> reconnect_request list" where
  "asked_of s = asked (tm_waiting s)"

definition splits_of :: "terminal_state \<Rightarrow> (string \<times> string) list" where
  "splits_of s = splits (tm_waiting s)"

definition term_ok :: "terminal_state \<Rightarrow> bool" where
  "term_ok s \<longleftrightarrow> term_inv (tabs_of s) (conns_of s) (tm_listeners s) (asked_of s) (splits_of s)"

lemmas part_defs = tabs_of_def conns_of_def asked_of_def splits_of_def
lemmas update_defs = call_def wait_def settle_def events_on_def events_off_def set_tab_def del_tab_def
  set_conn_def del_conn_def connecting_asset_def connecting_done_def

lemma tabs_of_updates [simp]:
  "tabs_of (call c s) = tabs_of s" "tabs_of (wait q s) = tabs_of s" "tabs_of (settle q s) = tabs_of s"
  "tabs_of (events_on n l s) = tabs_of s" "tabs_of (events_off n s) = tabs_of s"
  "tabs_of (set_tab i d s) = (tabs_of s)(i \<mapsto> d)" "tabs_of (del_tab i s) = (tabs_of s)(i := None)"
  "tabs_of (set_conn i c' s) = tabs_of s" "tabs_of (del_conn i s) = tabs_of s"
  "tabs_of (connecting_asset a s) = tabs_of s" "tabs_of (connecting_done a s) = tabs_of s"
  by (simp_all add: part_defs update_defs)

lemma conns_of_updates [simp]:
  "conns_of (call c s) = conns_of s" "conns_of (wait q s) = conns_of s" "conns_of (settle q s) = conns_of s"
  "conns_of (events_on n l s) = conns_of s" "conns_of (events_off n s) = conns_of s"
  "conns_of (set_tab i d s) = conns_of s" "conns_of (del_tab i s) = conns_of s"
  "conns_of (set_conn i c' s) = insert i (conns_of s)" "conns_of (del_conn i s) = conns_of s - {i}"
  "conns_of (connecting_asset a s) = conns_of s" "conns_of (connecting_done a s) = conns_of s"
  by (simp_all add: part_defs update_defs)

lemma listeners_updates [simp]:
  "tm_listeners (call c s) = tm_listeners s" "tm_listeners (wait q s) = tm_listeners s" "tm_listeners (settle q s) = tm_listeners s"
  "tm_listeners (events_on n l s) = tm_listeners s @ [(n, l)]"
  "tm_listeners (events_off n s) = unheard n (tm_listeners s)"
  "tm_listeners (set_tab i d s) = tm_listeners s" "tm_listeners (del_tab i s) = tm_listeners s"
  "tm_listeners (set_conn i c' s) = tm_listeners s" "tm_listeners (del_conn i s) = tm_listeners s"
  "tm_listeners (connecting_asset a s) = tm_listeners s" "tm_listeners (connecting_done a s) = tm_listeners s"
  by (simp_all add: update_defs)

lemma waiting_updates [simp]:
  "tm_waiting (call c s) = tm_waiting s" "tm_waiting (events_on n l s) = tm_waiting s" "tm_waiting (events_off n s) = tm_waiting s"
  "tm_waiting (set_tab i d s) = tm_waiting s" "tm_waiting (del_tab i s) = tm_waiting s"
  "tm_waiting (set_conn i c' s) = tm_waiting s" "tm_waiting (del_conn i s) = tm_waiting s"
  "tm_waiting (connecting_asset a s) = tm_waiting s" "tm_waiting (connecting_done a s) = tm_waiting s"
  "tm_waiting (wait q s) = q # tm_waiting s" "tm_waiting (settle q s) = remove1 q (tm_waiting s)"
  by (simp_all add: update_defs)

lemma map_of_lookup: "map_of (tm_tabData s) i = tabs_of s i"
  by (simp add: tabs_of_def)

text \<open>Steps that touch none of these parts.\<close>

definition same_parts :: "terminal_state \<Rightarrow> terminal_state \<Rightarrow> bool" where
  "same_parts s s' \<longleftrightarrow> tabs_of s' = tabs_of s \<and> conns_of s' = conns_of s \<and> tm_listeners s' = tm_listeners s \<and>
     asked_of s' = asked_of s \<and> splits_of s' = splits_of s"

lemma same_parts_ok: "same_parts s s' \<Longrightarrow> term_ok s' = term_ok s"
  by (simp add: same_parts_def term_ok_def)

lemma same_parts_refl [simp]: "same_parts s s"
  by (simp add: same_parts_def)

lemma same_parts_trans: "same_parts s t \<Longrightarrow> same_parts t u \<Longrightarrow> same_parts s u"
  by (simp add: same_parts_def)

lemma same_parts_step:
  "same_parts s (call c s)" "same_parts s (connecting_asset a s)" "same_parts s (connecting_done a s)"
  "same_parts s (wait (W_sync i) s)" "same_parts s (wait (W_connect q) s)"
  "same_parts s (settle (W_sync i) s)" "same_parts s (settle (W_connect q) s)"
  by (simp_all add: same_parts_def asked_of_def splits_of_def)

lemma same_parts_disconnect: "same_parts s (disconnectSession i t s)"
  by (simp add: disconnectSession_def same_parts_step)

lemma same_parts_write: "same_parts s (writeSessionInput i t x s)"
  by (simp add: writeSessionInput_def same_parts_step)

lemma same_parts_fields:
  "same_parts s (s\<lparr>tm_sessionSync := x\<rparr>)" "same_parts s (s\<lparr>tm_syncListeners := y\<rparr>)"
  "same_parts s (s\<lparr>tm_syncListeners := y, tm_sessionSync := x\<rparr>)"
  by (simp_all add: same_parts_def part_defs)

lemma same_parts_unregister: "same_parts s (unregisterSessionSyncListener i s)"
  unfolding unregisterSessionSyncListener_def
  by (auto intro: same_parts_trans [OF same_parts_fields(3) same_parts_step(1)])

lemma same_parts_register: "same_parts s (registerSessionSyncListener i s)"
  unfolding registerSessionSyncListener_def
  by (auto intro!: same_parts_trans [OF _ same_parts_step(4)] same_parts_trans [OF _ same_parts_step(1)] same_parts_fields)

lemma same_parts_drop_pane: "same_parts s (drop_pane p s)"
  unfolding drop_pane_def Let_def
  by (rule same_parts_trans [OF _ same_parts_step(1)])
    (auto intro: same_parts_trans [OF same_parts_unregister same_parts_disconnect] same_parts_unregister)

lemma same_parts_close_panes: "same_parts s (close_panes panes s)"
  unfolding close_panes_def
  by (induction panes arbitrary: s) (auto intro: same_parts_trans [OF same_parts_drop_pane])

lemma same_parts_sync_answered: "same_parts s (sync_answered i a s)"
  by (auto simp: sync_answered_def setSessionSyncState_def Let_def same_parts_step
      intro: same_parts_trans [OF same_parts_step(6) same_parts_fields(1)] split: option.split)

lemmas same_parts_rules = same_parts_step same_parts_disconnect same_parts_write same_parts_unregister same_parts_register
  same_parts_close_panes same_parts_sync_answered

section \<open>Closing tabs\<close>

lemma close_hook_parts:
  "tb_type t = TT_terminal \<Longrightarrow>
   tabs_of (terminal_close_hook t s) = (tabs_of s)(tb_id t := None) \<and>
   conns_of (terminal_close_hook t s) = conns_of s - {tb_id t} \<and>
   asked_of (terminal_close_hook t s) = asked_of s \<and> splits_of (terminal_close_hook t s) = splits_of s \<and>
   (tm_listeners (terminal_close_hook t s) = tm_listeners s \<or>
    tb_id t \<in> conns_of s \<and> (\<exists>u. tm_listeners (terminal_close_hook t s) = unheard (u, tb_id t) (tm_listeners s)))"
proof -
  assume t: "tb_type t = TT_terminal"
  let ?i = "tb_id t"
  define s1 where "s1 = (case map_of (tm_connections s) ?i of None \<Rightarrow> s
      | Some c \<Rightarrow> events_off (cn_transport c, ?i) (call (C_CancelSSHConnect ?i) s))"
  define s2 where "s2 = (case map_of (tm_tabData s) ?i of None \<Rightarrow> s1 | Some d \<Rightarrow> close_panes (map snd (td_panes d)) s1)"
  have hook: "terminal_close_hook t s = (case map_of (tm_connections s) ?i of
      None \<Rightarrow> del_conn ?i (del_tab ?i s2) | Some c \<Rightarrow> connecting_done (cn_assetId c) (del_conn ?i (del_tab ?i s2)))"
    using t by (simp add: terminal_close_hook_def Let_def s1_def s2_def split: option.split)
  have "same_parts s1 s2"
    by (auto simp: s2_def same_parts_close_panes split: option.split)
  moreover have "tabs_of s1 = tabs_of s \<and> conns_of s1 = conns_of s \<and> asked_of s1 = asked_of s \<and> splits_of s1 = splits_of s \<and>
      (tm_listeners s1 = tm_listeners s \<or> ?i \<in> conns_of s \<and> (\<exists>u. tm_listeners s1 = unheard (u, ?i) (tm_listeners s)))"
  proof (cases "map_of (tm_connections s) ?i")
    case (Some c)
    then have "?i \<in> conns_of s" by (simp add: conns_of_def domIff)
    with Some show ?thesis by (auto simp: s1_def asked_of_def splits_of_def)
  qed (simp add: s1_def)
  ultimately show ?thesis
    unfolding hook by (auto simp: same_parts_def asked_of_def splits_of_def split: option.split)
qed

lemma close_hook_other [simp]: "tb_type t \<noteq> TT_terminal \<Longrightarrow> terminal_close_hook t s = s"
  by (simp add: terminal_close_hook_def)

lemma close_hook_ok:
  assumes "term_ok s" and "tabs_of s (tb_id t) \<noteq> None \<or> tb_id t \<notin> conns_of s"
  shows "term_ok (terminal_close_hook t s)"
proof (cases "tb_type t = TT_terminal")
  case True
  let ?s = "terminal_close_hook t s"
  note p = close_hook_parts [OF True, of s]
  from assms(1) have inv: "term_inv (tabs_of s) (conns_of s) (tm_listeners s) (asked_of s) (splits_of s)" by (simp add: term_ok_def)
  have "term_inv ((tabs_of s)(tb_id t := None)) (conns_of s - {tb_id t}) (tm_listeners ?s) (asked_of s) (splits_of s)"
  proof (rule term_inv_close [OF inv])
    have L: "set (tm_listeners ?s) \<subseteq> set (tm_listeners s) \<and> distinct (map (snd \<circ> fst) (tm_listeners ?s)) \<and>
        (\<forall>n l. (n, l) \<in> set (tm_listeners s) \<longrightarrow> (n, l) \<in> set (tm_listeners ?s) \<or> snd n = tb_id t)"
    proof (cases "tm_listeners ?s = tm_listeners s")
      case False
      with p obtain u where u: "tm_listeners ?s = unheard (u, tb_id t) (tm_listeners s)" by blast
      then show ?thesis using distinct_filter_names [OF term_invD(4) [OF inv]] by (simp only: u) auto
    qed (use term_invD(4) [OF inv] in simp)
    then show "set (tm_listeners ?s) \<subseteq> set (tm_listeners s)" "distinct (map (snd \<circ> fst) (tm_listeners ?s))"
      "\<forall>n l. (n, l) \<in> set (tm_listeners s) \<longrightarrow> (n, l) \<in> set (tm_listeners ?s) \<or> snd n = tb_id t" by blast+
    show "tabs_of s (tb_id t) \<noteq> None \<or> tm_listeners ?s = tm_listeners s \<and> tb_id t \<notin> conns_of s"
      using p assms(2) by blast
  qed
  then show ?thesis using p by (simp add: term_ok_def)
qed (use assms in simp)

lemma close_hooks_term:
  "st_term (run_close_hooks app_hooks gone st) = fold terminal_close_hook gone (st_term st)"
  by (induction gone arbitrary: st) (simp_all add: run_close_hooks_def app_hooks_def registerTabCloseHook_def
      registerTabReplaceHook_def on_term_def on_sftp_def)

lemma close_hooks_ok:
  "term_ok s \<Longrightarrow> distinct (map tb_id gone) \<Longrightarrow>
   \<forall>t\<in>set gone. tb_type t = TT_terminal \<longrightarrow> tabs_of s (tb_id t) \<noteq> None \<or> tb_id t \<notin> conns_of s \<Longrightarrow>
   term_ok (fold terminal_close_hook gone s) \<and>
   tabs_of (fold terminal_close_hook gone s) = (\<lambda>i. if i \<in> tb_id ` set (filter (\<lambda>t. tb_type t = TT_terminal) gone) then None else tabs_of s i)"
proof (induction gone arbitrary: s)
  case (Cons t gone)
  let ?s = "terminal_close_hook t s"
  show ?case
  proof (cases "tb_type t = TT_terminal")
    case True
    note p = close_hook_parts [OF True, of s]
    have "term_ok ?s" by (rule close_hook_ok) (use Cons.prems True in auto)
    moreover have "\<forall>u\<in>set gone. tb_type u = TT_terminal \<longrightarrow> tabs_of ?s (tb_id u) \<noteq> None \<or> tb_id u \<notin> conns_of ?s"
      using Cons.prems(2,3) p by (auto simp: rev_image_eqI)
    ultimately show ?thesis
      using Cons.IH [of ?s] Cons.prems(2) True p by auto
  qed (use Cons in auto)
qed simp

section \<open>The whole state\<close>

definition terminal_ids :: "tab list \<Rightarrow> string set" where
  "terminal_ids tabs = tb_id ` set (filter (\<lambda>t. tb_type t = TT_terminal) tabs)"

definition world_ok :: "world \<Rightarrow> bool" where
  "world_ok w \<longleftrightarrow>
     term_ok (term_of w) \<and> tabs_ok (open_tabs w) (active_id w) \<and> dom (tabs_of (term_of w)) = terminal_ids (open_tabs w)"

definition fresh :: "string \<Rightarrow> world \<Rightarrow> bool" where
  "fresh i w \<longleftrightarrow>
     unused i (tabs_of (term_of w)) (conns_of (term_of w)) (tm_listeners (term_of w)) (asked_of (term_of w)) (splits_of (term_of w)) \<and>
     i \<notin> set (tab_ids w)"

lemma upd_term_simps [simp]:
  "ap_tabs (upd_term f w) = ap_tabs w" "ap_recent (upd_term f w) = ap_recent w"
  "st_term (ap_rest (upd_term f w)) = f (st_term (ap_rest w))" "st_assets (ap_rest (upd_term f w)) = st_assets (ap_rest w)"
  by (simp_all add: upd_term_def)

lemma world_ok_term:
  "world_ok w \<Longrightarrow> term_ok (f (term_of w)) \<Longrightarrow> dom (tabs_of (f (term_of w))) = dom (tabs_of (term_of w)) \<Longrightarrow> world_ok (upd_term f w)"
  by (simp add: world_ok_def)

lemma world_ok_same: "world_ok w \<Longrightarrow> same_parts (term_of w) (f (term_of w)) \<Longrightarrow> world_ok (upd_term f w)"
proof (rule world_ok_term)
  assume w: "world_ok w" and s: "same_parts (term_of w) (f (term_of w))"
  from same_parts_ok [OF s] w show "term_ok (f (term_of w))" by (simp add: world_ok_def)
  from s show "dom (tabs_of (f (term_of w))) = dom (tabs_of (term_of w))" by (simp add: same_parts_def)
qed

lemma term_of_set_state [simp]: "st_term (ap_rest (set_state tabs act w)) = st_term (ap_rest w)"
  by simp

lemma world_ok_closes:
  assumes ok: "world_ok w" and c: "closes w p gone kept act"
  shows "world_ok (run_op app_hooks p w)"
proof -
  from ok have t: "tabs_ok (open_tabs w) (active_id w)" and d: "distinct (tab_ids w)" by (auto simp: world_ok_def tabs_ok_def)
  note parts = closes_parts [OF c d]
  have dist: "distinct (map tb_id gone)"
    using parts d by (auto simp: distinct_map intro: inj_on_subset)
  have "\<forall>u\<in>set gone. tb_type u = TT_terminal \<longrightarrow> tabs_of (term_of w) (tb_id u) \<noteq> None \<or> tb_id u \<notin> conns_of (term_of w)"
  proof (intro ballI impI)
    fix u
    assume "u \<in> set gone" "tb_type u = TT_terminal"
    with parts have "tb_id u \<in> terminal_ids (open_tabs w)" by (auto simp: terminal_ids_def)
    with ok have "tb_id u \<in> dom (tabs_of (term_of w))" by (simp add: world_ok_def)
    then show "tabs_of (term_of w) (tb_id u) \<noteq> None \<or> tb_id u \<notin> conns_of (term_of w)" by auto
  qed
  with ok dist have h: "term_ok (fold terminal_close_hook gone (term_of w))"
    "tabs_of (fold terminal_close_hook gone (term_of w)) =
       (\<lambda>i. if i \<in> tb_id ` set (filter (\<lambda>t. tb_type t = TT_terminal) gone) then None else tabs_of (term_of w) i)"
    using close_hooks_ok [of "term_of w" gone] by (auto simp: world_ok_def)
  have "tb_id ` set (filter (\<lambda>t. tb_type t = TT_terminal) kept) =
      terminal_ids (open_tabs w) - tb_id ` set (filter (\<lambda>t. tb_type t = TT_terminal) gone)"
    using parts d by (auto simp: terminal_ids_def distinct_map inj_on_def)
  moreover have "dom (tabs_of (fold terminal_close_hook gone (term_of w))) =
      dom (tabs_of (term_of w)) - tb_id ` set (filter (\<lambda>t. tb_type t = TT_terminal) gone)"
    unfolding h(2) by (auto split: if_splits)
  ultimately have "dom (tabs_of (fold terminal_close_hook gone (term_of w))) = terminal_ids kept"
    using ok unfolding world_ok_def terminal_ids_def by simp
  with h(1) tabs_ok_closes [OF c t] show ?thesis
    by (simp add: closes_effect [OF c d] world_ok_def close_hooks_term)
qed

lemma world_ok_closing:
  assumes "world_ok w" and "closing p" and "op_ok p w"
  shows "world_ok (run_op app_hooks p w)"
proof -
  from assms(1) have "distinct (tab_ids w)" by (simp add: world_ok_def tabs_ok_def)
  with closing_cases [OF assms(2) this assms(3), of app_hooks] assms(1) world_ok_closes show ?thesis by metis
qed

lemma world_ok_closeTab: "world_ok w \<Longrightarrow> world_ok (closeTab app_hooks i w)"
  using world_ok_closing [of w "CloseTab i"] by simp

lemma terminal_ids_map:
  "(\<And>t. tb_id (f t) = tb_id t) \<Longrightarrow> (\<And>t. tb_type (f t) = tb_type t) \<Longrightarrow> terminal_ids (map f tabs) = terminal_ids tabs"
  by (induction tabs) (simp_all add: terminal_ids_def)

text \<open>The operations of the tab bar that close nothing.\<close>

lemma tabs_op_parts:
  assumes "\<not> closing p" and "\<forall>i j. p \<noteq> ReplaceTabId i j" and "\<forall>t a. p = OpenTab t a \<longrightarrow> tb_type t \<noteq> TT_terminal"
  shows "terminal_ids (open_tabs (run_op app_hooks p w)) = terminal_ids (open_tabs w) \<and> term_of (run_op app_hooks p w) = term_of w"
proof (cases p)
  case (OpenTab t a)
  with assms(3) show ?thesis by (auto simp: openTab_def Let_def terminal_ids_def split: option.split)
next
  case (UpdateTab i q)
  have "terminal_ids (map (\<lambda>t. if tb_id t = i then patch_tab q t else t) (open_tabs w)) = terminal_ids (open_tabs w)"
    by (rule terminal_ids_map) (simp_all add: patch_tab_def)
  with UpdateTab show ?thesis by (simp add: updateTab_def)
next
  case (ReorderTab i j)
  then show ?thesis by (auto simp: reorderTab_def terminal_ids_def dest: find_index_Some split: option.split)
next
  case (MoveTabTo i k)
  then show ?thesis by (auto simp: moveTabTo_def Let_def terminal_ids_def dest: find_index_Some split: option.split)
qed (use assms in \<open>auto simp: activateTab_def\<close>)

lemma world_ok_tabs:
  assumes "world_ok w" and "op_ok p w" and "\<not> closing p" and "\<forall>i j. p \<noteq> ReplaceTabId i j"
    and "\<forall>t a. p = OpenTab t a \<longrightarrow> tb_type t \<noteq> TT_terminal"
  shows "world_ok (run_op app_hooks p w)"
  using assms(1,2) tabs_ok_op [OF assms(2)] tabs_op_parts [OF assms(3-5), of w] by (simp add: world_ok_def)

lemma asked_of_updates [simp]:
  "asked_of (call c s) = asked_of s" "asked_of (events_on n l s) = asked_of s" "asked_of (events_off n s) = asked_of s"
  "asked_of (set_tab i d s) = asked_of s" "asked_of (del_tab i s) = asked_of s" "asked_of (set_conn i c' s) = asked_of s"
  "asked_of (del_conn i s) = asked_of s" "asked_of (connecting_asset a s) = asked_of s" "asked_of (connecting_done a s) = asked_of s"
  "asked_of (wait q s) = asked (q # tm_waiting s)" "asked_of (settle (W_connect cr) s) = asked_of s"
  "asked_of (settle (W_reconnect r) s) = remove1 r (asked_of s)" "asked_of (settle (W_split j p) s) = asked_of s"
  by (simp_all add: asked_of_def)

lemma splits_of_updates [simp]:
  "splits_of (call c s) = splits_of s" "splits_of (events_on n l s) = splits_of s" "splits_of (events_off n s) = splits_of s"
  "splits_of (set_tab i d s) = splits_of s" "splits_of (del_tab i s) = splits_of s" "splits_of (set_conn i c' s) = splits_of s"
  "splits_of (del_conn i s) = splits_of s" "splits_of (connecting_asset a s) = splits_of s" "splits_of (connecting_done a s) = splits_of s"
  "splits_of (wait q s) = splits (q # tm_waiting s)" "splits_of (settle (W_connect cr) s) = splits_of s"
  "splits_of (settle (W_reconnect r) s) = splits_of s" "splits_of (settle (W_split j p) s) = remove1 (j, p) (splits_of s)"
  by (simp_all add: splits_of_def)

section \<open>Every operation keeps the whole state in order\<close>

lemma world_okD:
  assumes "world_ok w"
  shows "term_inv (tabs_of (term_of w)) (conns_of (term_of w)) (tm_listeners (term_of w)) (asked_of (term_of w)) (splits_of (term_of w))"
    "tabs_ok (open_tabs w) (active_id w)" "dom (tabs_of (term_of w)) = terminal_ids (open_tabs w)"
  using assms by (simp_all add: world_ok_def term_ok_def)

lemma freshD:
  assumes "fresh i w"
  shows "unused i (tabs_of (term_of w)) (conns_of (term_of w)) (tm_listeners (term_of w)) (asked_of (term_of w)) (splits_of (term_of w))"
    "i \<notin> set (tab_ids w)"
  using assms by (simp_all add: fresh_def)

lemma world_okI:
  "term_inv (tabs_of (term_of w)) (conns_of (term_of w)) (tm_listeners (term_of w)) (asked_of (term_of w)) (splits_of (term_of w)) \<Longrightarrow>
   tabs_ok (open_tabs w) (active_id w) \<Longrightarrow> dom (tabs_of (term_of w)) = terminal_ids (open_tabs w) \<Longrightarrow> world_ok w"
  by (simp add: world_ok_def term_ok_def)

lemma world_ok_activate: "world_ok w \<Longrightarrow> i \<in> set (tab_ids w) \<Longrightarrow> world_ok (activateTab i w)"
  using world_ok_tabs [of w "ActivateTab i"] by simp

lemma same_parts_connect: "same_parts s (wait (W_connect q) (call c (connecting_asset a s)))"
  by (intro same_parts_trans [OF _ same_parts_step(5)] same_parts_trans [OF _ same_parts_step(1)] same_parts_step)

lemma world_ok_connect: "world_ok w \<Longrightarrow> world_ok (snd (connect cfg asset pw forceNew inp w))"
proof (cases "if forceNew then None else find (terminal_tab_of (as_ID asset)) (open_tabs w)")
  case (Some t)
  assume ok: "world_ok w"
  from Some have "tb_id t \<in> set (tab_ids w)" by (auto dest: find_Some_prop split: if_splits)
  with ok Some show ?thesis by (simp add: connect_def Let_def world_ok_activate)
next
  case None
  assume ok: "world_ok w"
  from None show ?thesis unfolding connect_def Let_def
    by simp (intro conjI impI; rule world_ok_same [OF ok]; rule same_parts_connect)
qed

lemma term_of_openTab [simp]: "st_term (ap_rest (openTab t a w)) = st_term (ap_rest w)"
  by (simp add: openTab_def Let_def split: option.split)

lemma world_ok_connect_resolved:
  assumes ok: "world_ok w" and c: "fresh c w"
  shows "world_ok (connect_resolved r c w)"
proof (rule world_okI)
  let ?w = "connect_resolved r c w"
  have new: "find (\<lambda>t. tb_id t = c) (open_tabs w) = None"
    using freshD(2) [OF c] by (auto simp: find_None_iff_set)
  have parts: "tabs_of (term_of ?w) = (tabs_of (term_of w))(c \<mapsto> opened_data c (cr_initialInput r))"
    "conns_of (term_of ?w) = insert c (conns_of (term_of w))"
    "tm_listeners (term_of ?w) = tm_listeners (term_of w) @ [((transport_of (cr_isSerial r), c), L_connect (as_ID (cr_asset r)) (cr_isSerial r))]"
    "asked_of (term_of ?w) = asked_of (term_of w)" "splits_of (term_of ?w) = splits_of (term_of w)"
    by (simp_all add: connect_resolved_def Let_def asked_of_def splits_of_def)
  show "term_inv (tabs_of (term_of ?w)) (conns_of (term_of ?w)) (tm_listeners (term_of ?w)) (asked_of (term_of ?w)) (splits_of (term_of ?w))"
    unfolding parts by (rule term_inv_open [OF world_okD(1) [OF ok] freshD(1) [OF c]])
  have tabs: "open_tabs ?w = open_tabs w @ [connect_tab r c]" "active_id ?w = Some c"
    by (simp_all add: connect_resolved_def Let_def openTab_def connect_tab_def new)
  show "tabs_ok (open_tabs ?w) (active_id ?w)"
    unfolding tabs using world_okD(2) [OF ok] freshD(2) [OF c] by (auto simp: tabs_ok_def connect_tab_def)
  show "dom (tabs_of (term_of ?w)) = terminal_ids (open_tabs ?w)"
    unfolding parts tabs using world_okD(3) [OF ok] by (auto simp: terminal_ids_def connect_tab_def)
qed

lemma term_of_replaceTabId [simp]: "st_term (ap_rest (replaceTabId app_hooks i j w)) = st_term (ap_rest w)"
  by (simp add: replaceTabId_def Let_def app_hooks_def registerTabReplaceHook_def registerTabCloseHook_def on_sftp_def)

lemma tabs_replaceTabId:
  "open_tabs (replaceTabId hs i j w) = map (\<lambda>t. if tb_id t = i then t\<lparr>tb_id := j\<rparr> else t) (open_tabs w)"
  "active_id (replaceTabId hs i j w) = (if active_id w = Some i then Some j else active_id w)"
  by (simp_all add: replaceTabId_def Let_def)

lemma terminal_ids_simps:
  "terminal_ids [] = {}"
  "terminal_ids (t # tabs) = (if tb_type t = TT_terminal then insert (tb_id t) (terminal_ids tabs) else terminal_ids tabs)"
  by (simp_all add: terminal_ids_def)

lemma terminal_ids_sub: "i \<in> terminal_ids tabs \<Longrightarrow> i \<in> tb_id ` set tabs"
  by (auto simp: terminal_ids_def)

lemma terminal_ids_rename:
  "distinct (map tb_id tabs) \<Longrightarrow> i \<in> terminal_ids tabs \<Longrightarrow>
   terminal_ids (map (\<lambda>t. if tb_id t = i then t\<lparr>tb_id := j\<rparr> else t) tabs) = terminal_ids tabs - {i} \<union> {j}"
proof (induction tabs)
  case (Cons t tabs)
  have absent: "map (\<lambda>t. if tb_id t = i then t\<lparr>tb_id := j\<rparr> else t) tabs = tabs" if "i \<notin> tb_id ` set tabs"
    using that by (induction tabs) auto
  show ?case
  proof (cases "tb_id t = i")
    case True
    with Cons.prems have "i \<notin> tb_id ` set tabs" by simp
    with True Cons.prems show ?thesis by (auto simp: terminal_ids_simps absent dest: terminal_ids_sub split: if_splits)
  next
    case False
    with Cons.prems have "i \<in> terminal_ids tabs" by (simp add: terminal_ids_simps split: if_splits)
    with False Cons show ?thesis by (auto simp: terminal_ids_simps)
  qed
qed (simp add: terminal_ids_simps)

lemma world_ok_first_connected:
  assumes ok: "world_ok w" and l: "((t, c), L_connect a b) \<in> set (tm_listeners (term_of w))" and sid: "fresh sid w"
    and conn: "c \<in> conns_of (term_of w)"
  shows "world_ok (upd_term (\<lambda>s. on_finished (L_connect a b) (events_off (t, c) s)) (first_connected c u sid now w))"
proof (rule world_okI)
  let ?w = "upd_term (\<lambda>s. on_finished (L_connect a b) (events_off (t, c) s)) (first_connected c u sid now w)"
  note inv = world_okD(1) [OF ok]
  from term_invD(3) [OF inv l] conn obtain d where d: "tabs_of (term_of w) c = Some d" by (auto simp: listener_ok_def)
  have reg: "tabs_of (registerSessionSyncListener sid s) = tabs_of s" "conns_of (registerSessionSyncListener sid s) = conns_of s"
    "tm_listeners (registerSessionSyncListener sid s) = tm_listeners s" "asked_of (registerSessionSyncListener sid s) = asked_of s"
    "splits_of (registerSessionSyncListener sid s) = splits_of s" for s
    using same_parts_register [of s sid] by (auto simp: same_parts_def)
  have wr: "tabs_of (writeSessionInput sid v x s) = tabs_of s" "conns_of (writeSessionInput sid v x s) = conns_of s"
    "tm_listeners (writeSessionInput sid v x s) = tm_listeners s" "asked_of (writeSessionInput sid v x s) = asked_of s"
    "splits_of (writeSessionInput sid v x s) = splits_of s" for v x s
    using same_parts_write [of s sid v x] by (auto simp: same_parts_def)
  have parts: "tabs_of (term_of ?w) = (tabs_of (term_of w))(c := None, sid \<mapsto> first_data c sid (connected_pane sid u now) d)"
    "conns_of (term_of ?w) = conns_of (term_of w) - {c}"
    "tm_listeners (term_of ?w) = unheard (t, c) (tm_listeners (term_of w))"
    "asked_of (term_of ?w) = asked_of (term_of w)" "splits_of (term_of ?w) = splits_of (term_of w)"
    using d by (simp_all add: first_connected_def Let_def map_of_lookup on_finished_def reg wr split: option.split)
  show "term_inv (tabs_of (term_of ?w)) (conns_of (term_of ?w)) (tm_listeners (term_of ?w)) (asked_of (term_of ?w)) (splits_of (term_of ?w))"
    unfolding parts by (rule term_inv_first [OF inv d l freshD(1) [OF sid]]) (simp add: connected_pane_def)
  have tabs: "open_tabs ?w = map (\<lambda>t. if tb_id t = c then t\<lparr>tb_id := sid\<rparr> else t) (open_tabs w)"
    "active_id ?w = (if active_id w = Some c then Some sid else active_id w)"
    using d by (simp_all add: first_connected_def Let_def map_of_lookup tabs_replaceTabId split: option.split)
  from world_okD(2) [OF ok] have dist: "distinct (tab_ids w)" by (simp add: tabs_ok_def)
  from d world_okD(3) [OF ok] have c: "c \<in> terminal_ids (open_tabs w)" by auto
  show "tabs_ok (open_tabs ?w) (active_id ?w)"
    unfolding tabs using tabs_ok_op [of "ReplaceTabId c sid" w app_hooks] world_okD(2) [OF ok] freshD(2) [OF sid]
    by (simp add: tabs_replaceTabId)
  show "dom (tabs_of (term_of ?w)) = terminal_ids (open_tabs ?w)"
    unfolding parts tabs terminal_ids_rename [OF dist c] using world_okD(3) [OF ok] by auto
qed

lemma world_ok_event:
  assumes ok: "world_ok w" and l: "((t, c), l) \<in> set (tm_listeners (term_of w))" and sid: "\<And>sid. e = E_connected sid \<Longrightarrow> fresh sid w"
  shows "world_ok (on_event t c l now e w)"
proof (cases "map_of (tm_connections (term_of w)) c")
  case None
  with ok show ?thesis by (simp add: on_event_def)
next
  case (Some conn)
  then have c: "c \<in> conns_of (term_of w)" by (auto simp: conns_of_def)
  note inv = world_okD(1) [OF ok]
  have written: "world_ok (upd_term (set_conn c x) w)" for x
    by (rule world_ok_same [OF ok]) (use c in \<open>simp add: same_parts_def insert_absorb\<close>)
  have finish: "same_parts s (on_finished l s)" for s
    by (simp add: on_finished_def same_parts_step split: listener.split)
  show ?thesis
  proof (cases e)
    case (E_connected s)
    show ?thesis
    proof (cases l)
      case (L_connect a b)
      from world_ok_first_connected [OF ok l [unfolded L_connect] sid [OF E_connected] c] show ?thesis
        by (simp add: on_event_def Some E_connected L_connect on_connected_def)
    next
      case (L_reconnect i u)
      have reg: "tabs_of (registerSessionSyncListener s st) = tabs_of st" "conns_of (registerSessionSyncListener s st) = conns_of st"
        "tm_listeners (registerSessionSyncListener s st) = tm_listeners st" "asked_of (registerSessionSyncListener s st) = asked_of st"
        "splits_of (registerSessionSyncListener s st) = splits_of st" for st
        using same_parts_register [of st s] by (auto simp: same_parts_def)
      let ?w = "upd_term (\<lambda>st. on_finished l (events_off (t, c) st)) (on_connected l c s now w)"
      have eq: "on_event t c l now e w = ?w" by (simp add: on_event_def Some E_connected)
      have rest: "open_tabs ?w = open_tabs w" "active_id ?w = active_id w"
        "asked_of (term_of ?w) = asked_of (term_of w)" "splits_of (term_of ?w) = splits_of (term_of w)"
        "tm_listeners (term_of ?w) = unheard (t, c) (tm_listeners (term_of w))"
        by (simp_all add: L_reconnect on_connected_def again_connected_def Let_def on_finished_def reg split: option.split)
      show ?thesis
      proof (cases "tabs_of (term_of w) i")
        case None
        then have "tabs_of (term_of ?w) = tabs_of (term_of w)" "conns_of (term_of ?w) = conns_of (term_of w)"
          by (simp_all add: L_reconnect on_connected_def again_connected_def Let_def on_finished_def reg map_of_lookup)
        with rest None term_inv_gone [OF inv l] world_okD(2,3) [OF ok] L_reconnect show ?thesis
          unfolding eq by (intro world_okI) (simp_all add: listener_tab_def)
      next
        case (Some d)
        then have parts: "tabs_of (term_of ?w) = (tabs_of (term_of w))(i \<mapsto> seat c s (connected_pane s u now) d)"
          "conns_of (term_of ?w) = conns_of (term_of w) - {c}"
          by (simp_all add: L_reconnect on_connected_def again_connected_def Let_def on_finished_def reg map_of_lookup seat_def)
        have inv': "term_inv ((tabs_of (term_of w))(i \<mapsto> seat c s (connected_pane s u now) d)) (conns_of (term_of w) - {c})
            (unheard (t, c) (tm_listeners (term_of w))) (asked_of (term_of w)) (splits_of (term_of w))"
          by (rule term_inv_again [OF inv Some l [unfolded L_reconnect] freshD(1) [OF sid [OF E_connected]]]) (simp add: connected_pane_def)
        show ?thesis
          unfolding eq
        proof (rule world_okI)
          show "term_inv (tabs_of (term_of ?w)) (conns_of (term_of ?w)) (tm_listeners (term_of ?w)) (asked_of (term_of ?w)) (splits_of (term_of ?w))"
            unfolding parts rest by (rule inv')
          show "tabs_ok (open_tabs ?w) (active_id ?w)" unfolding rest by (rule world_okD(2) [OF ok])
          show "dom (tabs_of (term_of ?w)) = terminal_ids (open_tabs ?w)"
            unfolding rest parts using world_okD(3) [OF ok] Some by auto
        qed
      qed
    qed
  next
    case (E_error err authFailed)
    have "world_ok (upd_term (\<lambda>s. on_finished l (set_conn c x s)) w)" for x
      by (rule world_ok_same [OF ok], rule same_parts_trans [OF _ finish]) (use c in \<open>simp add: same_parts_def insert_absorb\<close>)
    then show ?thesis by (simp add: on_event_def Some E_error)
  qed (simp_all add: on_event_def Some written)
qed

lemma world_ok_conn_update:
  "world_ok w \<Longrightarrow> c \<in> conns_of (term_of w) \<Longrightarrow> world_ok (upd_term (\<lambda>s. set_conn c x (call k s)) w)"
  by (rule world_ok_same) (simp_all add: same_parts_def insert_absorb)

lemma world_ok_respondChallenge: "world_ok w \<Longrightarrow> world_ok (respondChallenge c answers w)"
  by (auto simp: respondChallenge_def conns_of_def intro!: world_ok_conn_update split: option.split)

lemma world_ok_respondHostKeyVerify: "world_ok w \<Longrightarrow> world_ok (respondHostKeyVerify c action now w)"
  by (auto simp: respondHostKeyVerify_def conns_of_def intro!: world_ok_conn_update split: option.split)

lemma world_ok_connect_rejected: "world_ok w \<Longrightarrow> world_ok (connect_rejected r w)"
  unfolding connect_rejected_def
  by (erule world_ok_same) (rule same_parts_trans [OF same_parts_step(7) same_parts_step(3)])

text \<open>A reconnect is asked for when the active pane has a session and no other reconnect of the tab is under way.\<close>

definition may_reconnect :: "string \<Rightarrow> world \<Rightarrow> bool" where
  "may_reconnect tabId w \<longleftrightarrow>
     (\<forall>d. tabs_of (term_of w) tabId = Some d \<longrightarrow> td_activePaneId d \<in> fst ` set (td_panes d)) \<and>
     tabId \<notin> rr_tabId ` set (asked_of (term_of w))"

lemma same_parts_leave: "same_parts s (leave_session data t s)"
  unfolding leave_session_def Let_def
  by (auto intro: same_parts_unregister same_parts_trans [OF same_parts_unregister same_parts_disconnect] split: option.split)

lemma world_ok_reconnect:
  assumes ok: "world_ok w" and may: "may_reconnect tabId w"
  shows "world_ok (reconnect tabId w)"
proof (cases "reconnect tabId w = w")
  case False
  then obtain tab data meta where t: "find (\<lambda>t. tb_id t = tabId) (open_tabs w) = Some tab"
    "map_of (tm_tabData (term_of w)) tabId = Some data" "tb_meta tab = TerminalMeta meta" "tb_type tab = TT_terminal"
    by (auto simp: reconnect_def split: option.splits tab_meta.splits if_splits)
  from t(2) have d: "tabs_of (term_of w) tabId = Some data" by (simp add: tabs_of_def)
  define t' where "t' = reconnect_transport meta data (st_assets (ap_rest w))"
  define r where "r = \<lparr>rr_tabId = tabId, rr_sessionId = td_activePaneId data, rr_meta = meta, rr_transport = t'\<rparr>"
  define k where "k = (if t' = Serial then C_ConnectSerialAsync (tm_assetId meta) else C_ConnectSSHAsync (tm_assetId meta) [])"
  have eq: "reconnect tabId w = upd_term (\<lambda>s. wait (W_reconnect r) (call k (leave_session data t' s))) w"
    by (simp add: reconnect_def t Let_def r_def k_def t'_def)
  have s: "tabs_of (leave_session data t' s) = tabs_of s" "conns_of (leave_session data t' s) = conns_of s"
    "tm_listeners (leave_session data t' s) = tm_listeners s"
    "asked (tm_waiting (leave_session data t' s)) = asked_of s" "splits (tm_waiting (leave_session data t' s)) = splits_of s" for s
    using same_parts_leave [of s data t'] by (auto simp: same_parts_def asked_of_def splits_of_def)
  have "term_inv (tabs_of (term_of w)) (conns_of (term_of w)) (tm_listeners (term_of w)) (r # asked_of (term_of w)) (splits_of (term_of w))"
    by (rule term_inv_ask [OF world_okD(1) [OF ok]]) (use may d in \<open>auto simp: r_def may_reconnect_def\<close>)
  then show ?thesis
    unfolding eq using ok by (intro world_ok_term) (simp_all add: term_ok_def s)
qed (use ok in simp)

lemma world_ok_reconnect_resolved:
  assumes ok: "world_ok w" and r: "W_reconnect r \<in> set (tm_waiting (term_of w))" and c: "fresh c w"
  shows "world_ok (reconnect_resolved r c w)"
proof -
  note inv = world_okD(1) [OF ok]
  from r have r': "r \<in> set (asked_of (term_of w))" by (simp add: asked_of_def in_asked)
  let ?L = "tm_listeners (term_of w) @ [((rr_transport r, c), L_reconnect (rr_tabId r) (rr_transport r))]"
  show ?thesis
  proof (cases "tabs_of (term_of w) (rr_tabId r)")
    case None
    have "term_inv (tabs_of (term_of w)) (conns_of (term_of w)) ?L (remove1 r (asked_of (term_of w))) (splits_of (term_of w))"
    proof (rule term_inv_settle [OF term_inv_heard [OF inv None freshD(1) [OF c]]])
      show "distinct (map rr_tabId (remove1 r (asked_of (term_of w))))"
        using term_invD(6) [OF inv] by (auto simp: distinct_map intro: inj_on_subset)
    qed (use term_invD(8) [OF inv] in \<open>simp_all add: set_remove1_subset\<close>)
    with None ok show ?thesis
      unfolding reconnect_resolved_def by (intro world_ok_term) (simp_all add: term_ok_def Let_def map_of_lookup)
  next
    case (Some d)
    from term_inv_unseat [OF inv r' Some freshD(1) [OF c], of "rr_transport r"] Some ok
    show ?thesis
      unfolding reconnect_resolved_def
      by (intro world_ok_term) (auto simp: term_ok_def Let_def map_of_lookup unseat_def)
  qed
qed

lemma world_ok_reconnect_rejected: "world_ok w \<Longrightarrow> world_ok (reconnect_rejected r w)"
proof -
  assume ok: "world_ok w"
  have "term_inv (tabs_of (term_of w)) (conns_of (term_of w)) (tm_listeners (term_of w)) (remove1 r (asked_of (term_of w))) (splits_of (term_of w))"
  proof (rule term_inv_settle [OF world_okD(1) [OF ok]])
    show "distinct (map rr_tabId (remove1 r (asked_of (term_of w))))"
      using term_invD(6) [OF world_okD(1) [OF ok]] by (auto simp: distinct_map intro: inj_on_subset)
  qed (use term_invD(8) [OF world_okD(1) [OF ok]] in \<open>simp_all add: set_remove1_subset\<close>)
  with ok show ?thesis unfolding reconnect_rejected_def by (intro world_ok_term) (simp_all add: term_ok_def)
qed

text \<open>Dropping a first connection and its tab.\<close>

lemma terminal_ids_append: "terminal_ids (xs @ ys) = terminal_ids xs \<union> terminal_ids ys"
  by (auto simp: terminal_ids_def)

lemma world_ok_drop_connection:
  assumes ok: "world_ok w" and c: "tabs_of (term_of w) c \<noteq> None"
    and f: "tabs_of (f (term_of w)) = (tabs_of (term_of w))(c := None)" "conns_of (f (term_of w)) = conns_of (term_of w) - {c}"
      "tm_listeners (f (term_of w)) = unheard (u, c) (tm_listeners (term_of w))"
      "asked_of (f (term_of w)) = asked_of (term_of w)" "splits_of (f (term_of w)) = splits_of (term_of w)"
  shows "world_ok (closeTab app_hooks c (upd_term f w))"
proof -
  note inv = world_okD(1) [OF ok]
  have inv': "term_ok (f (term_of w))"
    unfolding term_ok_def f
    by (rule term_inv_close [OF inv]) (use c distinct_filter_names [OF term_invD(4) [OF inv]] in auto)
  from c world_okD(3) [OF ok] have "c \<in> terminal_ids (open_tabs w)" by auto
  then obtain t where t: "t \<in> set (open_tabs w)" "tb_id t = c" "tb_type t = TT_terminal" by (auto simp: terminal_ids_def)
  then obtain xs ys where split: "open_tabs w = xs @ t # ys" by (auto dest: split_list)
  from world_okD(2) [OF ok] have d: "distinct (tab_ids w)" by (simp add: tabs_ok_def)
  from d have ids: "tb_id t \<notin> terminal_ids xs" "tb_id t \<notin> terminal_ids ys" by (auto simp: split dest: terminal_ids_sub)
  let ?w = "closeTab app_hooks c (upd_term f w)"
  have eq: "?w = set_state (xs @ ys) (if active_id w = Some c then neighbour xs ys else active_id w)
      ((upd_term f w)\<lparr>ap_rest := run_close_hooks app_hooks [t] (ap_rest (upd_term f w))\<rparr>)"
    using closeTab_split [of "upd_term f w" xs t ys app_hooks] split d t(2) by simp
  have hooked: "term_of ?w = terminal_close_hook t (f (term_of w))"
    unfolding eq by (simp add: close_hooks_term)
  note p = close_hook_parts [OF t(3), of "f (term_of w)"]
  show ?thesis
  proof (rule world_okI)
    have "term_ok (terminal_close_hook t (f (term_of w)))"
      by (rule close_hook_ok [OF inv']) (simp add: f t(2))
    then show "term_inv (tabs_of (term_of ?w)) (conns_of (term_of ?w)) (tm_listeners (term_of ?w)) (asked_of (term_of ?w)) (splits_of (term_of ?w))"
      by (simp add: hooked term_ok_def)
    show "tabs_ok (open_tabs ?w) (active_id ?w)"
      by (rule tabs_ok_close) (use world_okD(2) [OF ok] in simp)
    have "dom (tabs_of (term_of ?w)) = terminal_ids (open_tabs w) - {c}"
      using p world_okD(3) [OF ok] unfolding hooked f t(2) by auto
    also have "\<dots> = terminal_ids (xs @ ys)"
      unfolding split by (simp add: terminal_ids_append terminal_ids_simps t(3)) (use ids t(2) in auto)
    finally show "dom (tabs_of (term_of ?w)) = terminal_ids (open_tabs ?w)" unfolding eq by simp
  qed
qed

lemma world_ok_cancelConnect: "world_ok w \<Longrightarrow> tabs_of (term_of w) c \<noteq> None \<Longrightarrow> world_ok (cancelConnect c w)"
  unfolding cancelConnect_def
  by (cases "map_of (tm_connections (term_of w)) c") (simp, auto intro!: world_ok_drop_connection)

lemma world_ok_retryConnect: "world_ok w \<Longrightarrow> tabs_of (term_of w) c \<noteq> None \<Longrightarrow> world_ok (retryConnect cfg c password w)"
proof -
  assume ok: "world_ok w" and c: "tabs_of (term_of w) c \<noteq> None"
  have "world_ok (snd (connect cfg a pw False None (closeTab app_hooks c
      (upd_term (\<lambda>s. del_tab c (del_conn c (events_off (u, c) s))) w))))" for a pw u
    by (rule world_ok_connect, rule world_ok_drop_connection [OF ok c]) auto
  then show ?thesis
    unfolding retryConnect_def Let_def
    by (auto intro!: ok world_ok_same same_parts_step split: option.split)
qed

section \<open>Panes\<close>

text \<open>Every tab keeps its tree and the keys of its panes.\<close>

lemma term_inv_marked:
  assumes inv: "term_inv T C L R S"
    and f: "\<And>d. data_ok d \<Longrightarrow> data_ok (f d)" "\<And>d. td_splitTree (f d) = td_splitTree d" "\<And>d. fst ` set (td_panes (f d)) = fst ` set (td_panes d)"
  shows "term_inv (\<lambda>i. map_option f (T i)) C L R S"
proof -
  have panes: "td_panes (f d) = [] \<longleftrightarrow> td_panes d = []" for d
    using f(3) [of d] by (metis image_is_empty set_empty)
  have "listener_ok C (\<lambda>i. map_option f (T i)) c l" if "((t, c), l) \<in> set L" for t c l
    using term_invD(3) [OF inv that] by (auto simp: listener_ok_def f(2) panes split: listener.splits)
  then show ?thesis
    using inv f unfolding term_inv_def connecting_ok_def by (fastforce simp: f(2))
qed

definition marked :: "string \<Rightarrow> terminal_tab_data \<Rightarrow> terminal_tab_data" where
  "marked sid d = (case map_of (td_panes d) sid of
     None \<Rightarrow> d
   | Some p \<Rightarrow> d\<lparr>td_panes := set_prop (td_panes d) sid (p\<lparr>pn_connected := False\<rparr>)\<rparr>)"

lemma keys_marked: "fst ` set (td_panes (marked sid d)) = fst ` set (td_panes d)"
  by (auto simp: marked_def keys_of_set_prop dest: map_of_SomeD split: option.split intro: rev_image_eqI)

lemma tree_marked: "td_splitTree (marked sid d) = td_splitTree d" "td_activePaneId (marked sid d) = td_activePaneId d"
  by (simp_all add: marked_def split: option.split)

lemma data_ok_marked:
  assumes ok: "data_ok d"
  shows "data_ok (marked sid d)"
proof -
  have pn: "pn_sessionId p = i" if "(i, p) \<in> set (td_panes d)" for i p
    using ok that by (auto simp: data_ok_def)
  have "distinct (map fst (td_panes (marked sid d)))"
    using ok by (simp add: data_ok_def marked_def split: option.split)
  moreover have "\<forall>(i, p)\<in>set (td_panes (marked sid d)). pn_sessionId p = i"
    using pn by (auto simp: marked_def dest!: set_prop_values map_of_SomeD split: option.split_asm)
  ultimately show ?thesis
    using ok keys_marked [of sid d] unfolding data_ok_def tree_marked by simp
qed

lemma marked_tabs: "tm_tabData (mark_disconnected sid s) = map (\<lambda>(i, d). (i, marked sid d)) (tm_tabData s)"
  by (auto simp: mark_disconnected_def marked_def split: option.split)

lemma tabs_of_mark_disconnected: "tabs_of (mark_disconnected sid s) = (\<lambda>i. map_option (marked sid) (tabs_of s i))"
  unfolding tabs_of_def marked_tabs by (rule ext) (simp add: map_of_map)

lemma world_ok_mark_disconnected:
  assumes "world_ok w" shows "world_ok (upd_term (mark_disconnected sid) w)"
proof (rule world_ok_term [OF assms])
  have "conns_of (mark_disconnected sid s) = conns_of s" "tm_listeners (mark_disconnected sid s) = tm_listeners s"
    "asked_of (mark_disconnected sid s) = asked_of s" "splits_of (mark_disconnected sid s) = splits_of s" for s
    by (simp_all add: part_defs mark_disconnected_def)
  then show "term_ok (mark_disconnected sid (term_of w))"
    using term_inv_marked [OF world_okD(1) [OF assms], of "marked sid"] data_ok_marked keys_marked tree_marked(1)
    by (simp add: term_ok_def tabs_of_mark_disconnected)
qed (auto simp: tabs_of_mark_disconnected)

lemma upd_term_comp: "upd_term f (upd_term g w) = upd_term (\<lambda>s. f (g s)) w"
  by (simp add: upd_term_def)

lemma world_ok_disconnect: "world_ok w \<Longrightarrow> world_ok (upd_term (disconnect sid) w)"
proof -
  assume ok: "world_ok w"
  let ?f = "\<lambda>s. disconnectSession sid (session_transport (unregisterSessionSyncListener sid s) sid) (unregisterSessionSyncListener sid s)"
  have "world_ok (upd_term ?f w)"
    by (rule world_ok_same [OF ok]) (rule same_parts_trans [OF same_parts_unregister same_parts_disconnect])
  from world_ok_mark_disconnected [OF this, of sid] show ?thesis
    unfolding upd_term_comp disconnect_def Let_def .
qed

lemma world_ok_markClosed: "world_ok w \<Longrightarrow> world_ok (upd_term (markClosed sid) w)"
proof -
  assume "world_ok w"
  then have "world_ok (upd_term (unregisterSessionSyncListener sid) w)" by (rule world_ok_same) (rule same_parts_unregister)
  from world_ok_mark_disconnected [OF this, of sid] show ?thesis
    unfolding upd_term_comp markClosed_def .
qed

text \<open>One tab changes, and nothing else.\<close>

lemma world_ok_on_tab:
  assumes ok: "world_ok w"
    and f: "\<And>d. tabs_of (term_of w) i = Some d \<Longrightarrow> data_ok d \<Longrightarrow> data_ok (f d) \<and> connecting_of (f d) = connecting_of d \<and>
        ((\<forall>c. td_splitTree d \<noteq> N_connecting c) \<or> td_splitTree (f d) = td_splitTree d) \<and> td_panes (f d) = td_panes d \<and> pending_of (f d) = pending_of d"
  shows "world_ok (upd_term (on_tab i f) w)"
proof (cases "tabs_of (term_of w) i")
  case None
  then show ?thesis using ok by (simp add: upd_term_def on_tab_def map_of_lookup)
next
  case (Some d)
  note inv = world_okD(1) [OF ok]
  from f [OF Some term_invD(1) [OF inv Some]]
  have "term_inv ((tabs_of (term_of w))(i \<mapsto> f d)) (conns_of (term_of w)) (tm_listeners (term_of w)) (asked_of (term_of w)) (splits_of (term_of w))"
    by (intro term_inv_panes [OF inv Some]) (use term_invD(5,7) [OF inv] Some term_invD(8) [OF inv] in auto)
  moreover have "upd_term (on_tab i f) w = upd_term (set_tab i (f d)) w"
    using Some by (simp add: upd_term_def on_tab_def map_of_lookup)
  moreover have "dom (tabs_of (set_tab i (f d) (term_of w))) = dom (tabs_of (term_of w))" using Some by auto
  ultimately show ?thesis
    by (metis (no_types, lifting) world_ok_term [OF ok] term_ok_def tabs_of_updates(6) conns_of_updates(6) listeners_updates(6)
        asked_of_updates(4) splits_of_updates(4))
qed

lemma world_ok_setActivePaneId:
  "world_ok w \<Longrightarrow> (\<And>d. tabs_of (term_of w) i = Some d \<Longrightarrow> p \<in> fst ` set (td_panes d)) \<Longrightarrow> world_ok (upd_term (setActivePaneId i p) w)"
  unfolding setActivePaneId_def by (rule world_ok_on_tab) (auto simp: data_ok_def)

lemma world_ok_setDirectoryFollowMode: "world_ok w \<Longrightarrow> world_ok (upd_term (setDirectoryFollowMode i m) w)"
  unfolding setDirectoryFollowMode_def by (rule world_ok_on_tab) (auto simp: data_ok_def)

lemma ratio_connecting [simp]: "setRatioAtPath (N_connecting c) path r = N_connecting c"
  by (cases path) simp_all

lemma world_ok_setSplitRatio: "world_ok w \<Longrightarrow> world_ok (upd_term (setSplitRatio i path r) w)"
  unfolding setSplitRatio_def
proof (rule world_ok_on_tab)
  fix d assume "data_ok d"
  then show "data_ok (d\<lparr>td_splitTree := setRatioAtPath (td_splitTree d) path r\<rparr>) \<and>
    connecting_of (d\<lparr>td_splitTree := setRatioAtPath (td_splitTree d) path r\<rparr>) = connecting_of d \<and>
    ((\<forall>c. td_splitTree d \<noteq> N_connecting c) \<or> td_splitTree (d\<lparr>td_splitTree := setRatioAtPath (td_splitTree d) path r\<rparr>) = td_splitTree d) \<and>
    td_panes (d\<lparr>td_splitTree := setRatioAtPath (td_splitTree d) path r\<rparr>) = td_panes d \<and>
    pending_of (d\<lparr>td_splitTree := setRatioAtPath (td_splitTree d) path r\<rparr>) = pending_of d"
    by (cases "td_splitTree d") (simp_all add: data_ok_def)
qed

text \<open>A pane is split while it has a session, and the new leaf's id is not in use in the tab.\<close>

definition may_split :: "string \<Rightarrow> string \<Rightarrow> terminal_state \<Rightarrow> bool" where
  "may_split tabId pendingId s \<longleftrightarrow>
     (\<forall>d. tabs_of s tabId = Some d \<longrightarrow> td_activePaneId d \<in> fst ` set (td_panes d) \<and> pendingId \<notin> leaves_of d) \<and>
     (tabId, pendingId) \<notin> set (splits_of s)"

lemma splitPane_cases:
  "splitPane i dir now s = s \<or>
   (\<exists>d. tabs_of s i = Some d \<and> splitPane i dir now s =
     wait (W_split i (''pending-'' @ int_str now)) (call (C_SplitSSH (td_activePaneId d)) (set_tab i (divide dir (''pending-'' @ int_str now) d) s)))"
  by (simp add: splitPane_def map_of_lookup Let_def on_tab_def divide_def split: option.split)

lemma world_ok_splitPane:
  assumes ok: "world_ok w" and may: "may_split i (''pending-'' @ int_str now) (term_of w)"
  shows "world_ok (upd_term (splitPane i dir now) w)"
  using splitPane_cases [of i dir now "term_of w"]
proof (elim disjE exE conjE)
  fix d
  let ?p = "''pending-'' @ int_str now"
  assume d: "tabs_of (term_of w) i = Some d"
    and eq: "splitPane i dir now (term_of w) = wait (W_split i ?p) (call (C_SplitSSH (td_activePaneId d)) (set_tab i (divide dir ?p d) (term_of w)))"
  have "term_inv ((tabs_of (term_of w))(i \<mapsto> divide dir ?p d)) (conns_of (term_of w)) (tm_listeners (term_of w)) (asked_of (term_of w))
      ((i, ?p) # splits_of (term_of w))"
    by (rule term_inv_divide [OF world_okD(1) [OF ok] d]) (use may d in \<open>auto simp: may_split_def\<close>)
  then show ?thesis
    by (intro world_ok_term [OF ok]) (use d in \<open>auto simp: term_ok_def eq\<close>, simp_all add: asked_of_def splits_of_def)
qed (use ok in \<open>simp add: upd_term_def\<close>)

lemma world_ok_settle_split:
  assumes ok: "world_ok w"
  shows "world_ok (upd_term (settle (W_split i p)) w)"
proof -
  note inv = world_okD(1) [OF ok]
  have "term_inv (tabs_of (term_of w)) (conns_of (term_of w)) (tm_listeners (term_of w)) (asked_of (term_of w)) (remove1 (i, p) (splits_of (term_of w)))"
    by (rule term_inv_settle [OF inv]) (use term_invD(6,8) [OF inv] in \<open>simp_all add: set_remove1_subset\<close>)
  then show ?thesis by (intro world_ok_term [OF ok]) (simp_all add: term_ok_def)
qed

lemma world_ok_split_resolved:
  assumes ok: "world_ok w" and s: "W_split i p \<in> set (tm_waiting (term_of w))" and sid: "fresh sid w"
  shows "world_ok (upd_term (split_resolved i p sid now) w)"
proof -
  note inv = world_okD(1) [OF ok]
  let ?f = "\<lambda>s. on_tab i (seat p sid (connected_pane sid Ssh now)) (settle (W_split i p) s)"
  have "world_ok (upd_term ?f w)"
  proof (cases "tabs_of (term_of w) i")
    case None
    then have "upd_term ?f w = upd_term (settle (W_split i p)) w" by (simp add: upd_term_def on_tab_def map_of_lookup)
    then show ?thesis using world_ok_settle_split [OF ok] by simp
  next
    case (Some d)
    then have eq: "upd_term ?f w = upd_term (\<lambda>s. set_tab i (seat p sid (connected_pane sid Ssh now) d) (settle (W_split i p) s)) w"
      by (simp add: upd_term_def on_tab_def map_of_lookup)
    from s have "(i, p) \<in> set (splits_of (term_of w))" by (simp add: splits_of_def in_splits)
    from term_inv_seat_split [OF inv Some this freshD(1) [OF sid], of "connected_pane sid Ssh now"] Some
    show ?thesis
      unfolding eq by (intro world_ok_term [OF ok]) (auto simp: term_ok_def connected_pane_def)
  qed
  then have "world_ok (upd_term (registerSessionSyncListener sid) (upd_term ?f w))"
    by (rule world_ok_same) (rule same_parts_register)
  then show ?thesis
    unfolding upd_term_comp split_resolved_def seat_def .
qed

lemma world_ok_split_rejected:
  assumes ok: "world_ok w" and s: "W_split i p \<in> set (tm_waiting (term_of w))"
  shows "world_ok (upd_term (split_rejected i p) w)"
proof (cases "\<exists>d tree. tabs_of (term_of w) i = Some d \<and> removeNode (td_splitTree d) p = Some tree")
  case True
  then obtain d tree where d: "tabs_of (term_of w) i = Some d" and tree: "removeNode (td_splitTree d) p = Some tree" by auto
  then have eq: "upd_term (split_rejected i p) w = upd_term (\<lambda>s. set_tab i (d\<lparr>td_splitTree := tree\<rparr>) (settle (W_split i p) s)) w"
    by (simp add: upd_term_def split_rejected_def on_tab_def map_of_lookup)
  from s have "(i, p) \<in> set (splits_of (term_of w))" by (simp add: splits_of_def in_splits)
  from term_inv_drop_split [OF world_okD(1) [OF ok] d this tree] d
  show ?thesis unfolding eq by (intro world_ok_term [OF ok]) (auto simp: term_ok_def)
next
  case False
  let ?w = "upd_term (settle (W_split i p)) w"
  have "tabs_of (term_of (upd_term (split_rejected i p) w)) = tabs_of (term_of ?w)"
    using False by (auto simp: split_rejected_def on_tab_def map_of_lookup split: option.split)
  moreover have "conns_of (split_rejected i p s) = conns_of s" "tm_listeners (split_rejected i p s) = tm_listeners s"
    "asked_of (split_rejected i p s) = asked_of s" "splits_of (split_rejected i p s) = remove1 (i, p) (splits_of s)" for s
    by (simp_all add: split_rejected_def on_tab_def split: option.split)
  ultimately show ?thesis
    using world_ok_settle_split [OF ok, of i p] by (simp add: world_ok_def term_ok_def)
qed

text \<open>A pane is closed while its session is the tab's and no reconnection of it is asked for.\<close>

definition may_close :: "string \<Rightarrow> string \<Rightarrow> terminal_state \<Rightarrow> bool" where
  "may_close tabId sid s \<longleftrightarrow>
     (\<forall>d. tabs_of s tabId = Some d \<longrightarrow> sid \<in> fst ` set (td_panes d)) \<and>
     (\<forall>r\<in>set (asked_of s). rr_tabId r = tabId \<longrightarrow> rr_sessionId r \<noteq> sid)"

definition leave_pane :: "string \<Rightarrow> terminal_tab_data \<Rightarrow> terminal_state \<Rightarrow> terminal_state" where
  "leave_pane sid d s =
     (case map_of (td_panes d) sid of
        None \<Rightarrow> unregisterSessionSyncListener sid s
      | Some pane \<Rightarrow> if pn_connected pane then disconnectSession sid (pn_transport pane) (unregisterSessionSyncListener sid s)
          else unregisterSessionSyncListener sid s)"

lemma same_parts_leave_pane: "same_parts s (leave_pane sid d s)"
  by (auto simp: leave_pane_def intro: same_parts_unregister same_parts_trans [OF same_parts_unregister same_parts_disconnect] split: option.split)

lemma closePane_cases:
  "closePane i sid w = w \<or>
   (\<exists>d. tabs_of (term_of w) i = Some d \<and>
     (closePane i sid w = closeTab app_hooks i (upd_term (leave_pane sid d) w) \<or>
      (\<exists>tree. removeNode (td_splitTree d) sid = Some tree \<and> length (getSessionIds (td_splitTree d)) > 1 \<and>
         closePane i sid w = upd_term (\<lambda>s. call (C_DisposeTerminal sid) (set_tab i (drop_leaf sid tree d) s)) (upd_term (leave_pane sid d) w))))"
proof (cases "tabs_of (term_of w) i")
  case (Some d)
  have "leave_pane sid d = (\<lambda>s. let s1 = unregisterSessionSyncListener sid s
      in case map_of (td_panes d) sid of
           None \<Rightarrow> s1
         | Some pane \<Rightarrow> if pn_connected pane then disconnectSession sid (pn_transport pane) s1 else s1)"
    by (rule ext) (simp add: leave_pane_def Let_def)
  then show ?thesis
    using Some by (auto simp: closePane_def map_of_lookup Let_def drop_leaf_def split: option.split)
qed (simp add: closePane_def map_of_lookup)

lemma world_ok_closePane:
  assumes ok: "world_ok w" and may: "may_close i sid (term_of w)"
  shows "world_ok (closePane i sid w)"
  using closePane_cases [of i sid w]
proof (elim disjE exE conjE)
  fix d tree
  assume d: "tabs_of (term_of w) i = Some d"
    and eq: "closePane i sid w = closeTab app_hooks i (upd_term (leave_pane sid d) w)"
  show ?thesis
    unfolding eq by (rule world_ok_closeTab [OF world_ok_same [OF ok]]) (rule same_parts_leave_pane)
next
  fix d tree
  assume d: "tabs_of (term_of w) i = Some d" and tree: "removeNode (td_splitTree d) sid = Some tree"
    and many: "length (getSessionIds (td_splitTree d)) > 1"
    and eq: "closePane i sid w = upd_term (\<lambda>s. call (C_DisposeTerminal sid) (set_tab i (drop_leaf sid tree d) s)) (upd_term (leave_pane sid d) w)"
  let ?w = "upd_term (leave_pane sid d) w"
  have ok': "world_ok ?w" by (rule world_ok_same [OF ok]) (rule same_parts_leave_pane)
  from same_parts_leave_pane [of "term_of w" sid d]
  have p: "tabs_of (term_of ?w) = tabs_of (term_of w)" "asked_of (term_of ?w) = asked_of (term_of w)" by (simp_all add: same_parts_def)
  have "term_inv ((tabs_of (term_of ?w))(i \<mapsto> drop_leaf sid tree d)) (conns_of (term_of ?w)) (tm_listeners (term_of ?w)) (asked_of (term_of ?w)) (splits_of (term_of ?w))"
    by (rule term_inv_drop_pane [OF world_okD(1) [OF ok'] _ _ many tree]) (use may d p in \<open>auto simp: may_close_def\<close>)
  then show ?thesis
    unfolding eq by (intro world_ok_term [OF ok']) (use d p in \<open>auto simp: term_ok_def\<close>)
qed (use ok in simp)

end
