(* ===== verification/TerminalTabs.thy ===== *)
theory TerminalTabs
  imports TerminalRuns
begin

text \<open>
  What every operation on the terminal tabs keeps, whatever the user does and in whatever state: the
  tabs have distinct ids, the store has data for exactly the open terminal tabs, and every pane is kept
  under the id of its session. No condition on the operations is used but that an id of the backend is new.
\<close>

section \<open>The invariant\<close>

definition panes_ok :: "terminal_tab_data \<Rightarrow> bool" where
  "panes_ok d \<longleftrightarrow> distinct (map fst (td_panes d)) \<and> (\<forall>(i, p)\<in>set (td_panes d). pn_sessionId p = i)"

definition all_panes :: "(string \<Rightarrow> terminal_tab_data option) \<Rightarrow> bool" where
  "all_panes T \<longleftrightarrow> (\<forall>i d. T i = Some d \<longrightarrow> panes_ok d)"

definition store_ok :: "world \<Rightarrow> bool" where
  "store_ok w \<longleftrightarrow> distinct (tab_ids w) \<and> dom (tabs_of (term_of w)) = terminal_ids (open_tabs w) \<and> all_panes (tabs_of (term_of w))"

lemma panes_ok_intros [intro]:
  "panes_ok d \<Longrightarrow> panes_ok (d\<lparr>td_splitTree := tree\<rparr>)" "panes_ok d \<Longrightarrow> panes_ok (d\<lparr>td_activePaneId := a\<rparr>)"
  "panes_ok d \<Longrightarrow> panes_ok (d\<lparr>td_directoryFollowMode := m\<rparr>)" "panes_ok d \<Longrightarrow> panes_ok (divide dir p d)"
  by (simp_all add: panes_ok_def divide_def)

lemma panes_ok_seat: "panes_ok d \<Longrightarrow> pn_sessionId p = sid \<Longrightarrow> panes_ok (seat i sid p d)"
  by (auto simp: panes_ok_def seat_def dest!: set_prop_values)

lemma panes_ok_drop: "panes_ok d \<Longrightarrow> panes_ok (unseat sid c d)" "panes_ok d \<Longrightarrow> panes_ok (drop_leaf i tree d)"
  using set_del_prop by (fastforce simp: panes_ok_def unseat_def drop_leaf_def)+

lemma panes_ok_first: "pn_sessionId p = sid \<Longrightarrow> panes_ok (first_data c sid p d)" "panes_ok (opened_data c input)"
  by (simp_all add: panes_ok_def first_data_def opened_data_def)

lemma panes_ok_marked: "panes_ok d \<Longrightarrow> panes_ok (marked sid d)"
proof -
  assume ok: "panes_ok d"
  then have pn: "pn_sessionId p = i" if "(i, p) \<in> set (td_panes d)" for i p
    using that by (auto simp: panes_ok_def)
  have "distinct (map fst (td_panes (marked sid d)))"
    using ok by (simp add: panes_ok_def marked_def split: option.split)
  moreover have "\<forall>(i, p)\<in>set (td_panes (marked sid d)). pn_sessionId p = i"
    using pn by (auto simp: marked_def dest!: set_prop_values map_of_SomeD split: option.split_asm)
  ultimately show ?thesis by (simp add: panes_ok_def)
qed

lemma all_panes_upd: "all_panes T \<Longrightarrow> panes_ok d \<Longrightarrow> all_panes (T(i \<mapsto> d))" "all_panes T \<Longrightarrow> all_panes (T(i := None))"
  by (simp_all add: all_panes_def)

lemma all_panesD: "all_panes T \<Longrightarrow> T i = Some d \<Longrightarrow> panes_ok d"
  by (simp add: all_panes_def)

lemma store_okD:
  assumes "store_ok w"
  shows "distinct (tab_ids w)" "dom (tabs_of (term_of w)) = terminal_ids (open_tabs w)" "all_panes (tabs_of (term_of w))"
  using assms by (simp_all add: store_ok_def)

lemma store_ok_world: "world_ok w \<Longrightarrow> store_ok w"
  by (auto simp: world_ok_def term_ok_def store_ok_def tabs_ok_def all_panes_def panes_ok_def term_inv_def data_ok_def)

lemma store_ok_term:
  "store_ok w \<Longrightarrow> dom (tabs_of (f (term_of w))) = dom (tabs_of (term_of w)) \<Longrightarrow> all_panes (tabs_of (f (term_of w))) \<Longrightarrow>
   store_ok (upd_term f w)"
  by (simp add: store_ok_def)

lemma store_ok_same: "store_ok w \<Longrightarrow> tabs_of (f (term_of w)) = tabs_of (term_of w) \<Longrightarrow> store_ok (upd_term f w)"
  by (simp add: store_ok_def)

lemma store_ok_like:
  "store_ok w \<Longrightarrow> open_tabs w' = open_tabs w \<Longrightarrow> tabs_of (term_of w') = tabs_of (term_of w) \<Longrightarrow> store_ok w'"
  by (simp add: store_ok_def)

lemma same_tabs [simp]:
  "tabs_of (unregisterSessionSyncListener i s) = tabs_of s" "tabs_of (disconnectSession i t s) = tabs_of s"
  "tabs_of (writeSessionInput i t x s) = tabs_of s" "tabs_of (registerSessionSyncListener i s) = tabs_of s"
  "tabs_of (leave_session data t s) = tabs_of s" "tabs_of (leave_pane i d s) = tabs_of s"
  "tabs_of (sync_answered i a s) = tabs_of s" "tabs_of (setSessionSyncState i y s) = tabs_of s" "tabs_of (on_finished l s) = tabs_of s"
  using same_parts_unregister [of s i] same_parts_disconnect [of s i t] same_parts_write [of s i t x] same_parts_register [of s i]
    same_parts_leave [of s data t] same_parts_leave_pane [of s i d] same_parts_sync_answered [of s i a]
  by (simp_all add: same_parts_def setSessionSyncState_def tabs_of_def on_finished_def connecting_done_def split: listener.split)

section \<open>Closing and moving tabs\<close>

lemma tabs_after_hooks:
  "tabs_of (fold terminal_close_hook gone s) = (\<lambda>i. if i \<in> terminal_ids gone then None else tabs_of s i)"
proof (induction gone arbitrary: s)
  case (Cons t gone)
  show ?case
  proof (cases "tb_type t = TT_terminal")
    case True
    with close_hook_parts [OF True, of s] Cons show ?thesis by (auto simp: terminal_ids_simps fun_eq_iff)
  qed (use Cons in \<open>simp add: terminal_ids_simps\<close>)
qed (simp add: terminal_ids_simps)

lemma terminal_ids_diff:
  assumes "distinct (map tb_id tabs)" and "set gone \<subseteq> set tabs"
  shows "terminal_ids (filter (\<lambda>t. t \<notin> set gone) tabs) = terminal_ids tabs - terminal_ids gone"
  using assms by (auto simp: terminal_ids_def distinct_map inj_on_def)

lemma store_ok_gone:
  assumes ok: "store_ok w" and gone: "set gone \<subseteq> set (open_tabs w)"
  shows "store_ok (set_state (filter (\<lambda>t. t \<notin> set gone) (open_tabs w)) act (w\<lparr>ap_rest := run_close_hooks app_hooks gone (ap_rest w)\<rparr>))"
proof -
  note d = store_okD(1) [OF ok]
  have "dom (\<lambda>i. if i \<in> terminal_ids gone then None else T i) = dom T - terminal_ids gone" for T :: "string \<Rightarrow> terminal_tab_data option"
    by (auto split: if_splits)
  then have "dom (\<lambda>i. if i \<in> terminal_ids gone then None else tabs_of (term_of w) i) = terminal_ids (open_tabs w) - terminal_ids gone"
    using store_okD(2) [OF ok] by simp
  with d store_okD(3) [OF ok] show ?thesis
    by (simp add: store_ok_def close_hooks_term tabs_after_hooks terminal_ids_diff [OF d gone] distinct_map_filter all_panes_def)
qed

lemma store_ok_closing:
  assumes ok: "store_ok w" and "closing p"
  shows "store_ok (run_op app_hooks p w)"
proof (cases "op_ok p w")
  case True
  note d = store_okD(1) [OF ok]
  from closing_cases [OF assms(2) d True, of app_hooks] show ?thesis
  proof (elim disjE exE)
    fix gone kept act assume c: "closes w p gone kept act"
    from closes_parts [OF c d] store_ok_gone [OF ok] closes_effect [OF c d, of app_hooks] show ?thesis by simp
  qed (use ok in simp)
next
  case False
  with assms(2) obtain i where p: "p = CloseOtherTabs i" and i: "i \<notin> set (tab_ids w)" by (cases p) auto
  from i have none: "filter (\<lambda>t. tb_id t = i) (open_tabs w) = []" "filter (\<lambda>t. tb_id t \<noteq> i) (open_tabs w) = open_tabs w"
    by (auto simp: filter_empty_conv filter_id_conv)
  from store_ok_gone [OF ok, of "open_tabs w" "Some i"] show ?thesis
    by (simp add: p closeOtherTabs_def Let_def none)
qed

lemma store_ok_closeTab: "store_ok w \<Longrightarrow> store_ok (closeTab app_hooks i w)"
  using store_ok_closing [of w "CloseTab i"] by simp

lemma store_ok_tabs:
  assumes ok: "store_ok w" and "\<forall>i j. p \<noteq> ReplaceTabId i j" and "\<forall>t a. p = OpenTab t a \<longrightarrow> tb_type t \<noteq> TT_terminal"
  shows "store_ok (run_op app_hooks p w)"
proof (cases "closing p")
  case False
  from tabs_op_parts [OF False assms(2,3)] have "terminal_ids (open_tabs (run_op app_hooks p w)) = terminal_ids (open_tabs w)"
    "term_of (run_op app_hooks p w) = term_of w" by blast+
  moreover have "takes_free p w" using assms(2) by (cases p) auto
  then have "distinct (tab_ids (run_op app_hooks p w))" by (rule distinct_ids_op) (rule store_okD(1) [OF ok])
  ultimately show ?thesis using ok by (simp add: store_ok_def)
qed (use store_ok_closing [OF ok] in simp)

lemma store_ok_activate: "store_ok w \<Longrightarrow> store_ok (activateTab i w)"
  using store_ok_tabs [of w "ActivateTab i"] by simp

text \<open>A tab goes whose data is gone already.\<close>

lemma store_ok_drop:
  assumes ok: "store_ok w" and f: "tabs_of (f (term_of w)) = (tabs_of (term_of w))(c := None)"
  shows "store_ok (closeTab app_hooks c (upd_term f w))"
proof (cases "c \<in> set (tab_ids w)")
  case False
  with store_okD(2) [OF ok] have "tabs_of (term_of w) c = None" by (auto simp: terminal_ids_def dom_def)
  with False ok f show ?thesis by (simp add: closeTab_absent store_ok_same fun_upd_idem)
next
  case True
  then obtain xs t ys where t: "open_tabs w = xs @ t # ys" "tb_id t = c" by (rule tab_cases)
  note d = store_okD(1) [OF ok]
  let ?w = "closeTab app_hooks c (upd_term f w)"
  have eq: "?w = set_state (xs @ ys) (if active_id w = Some c then neighbour xs ys else active_id w)
      ((upd_term f w)\<lparr>ap_rest := run_close_hooks app_hooks [t] (ap_rest (upd_term f w))\<rparr>)"
    using closeTab_split [of "upd_term f w" xs t ys app_hooks] t d by simp
  have T: "tabs_of (term_of ?w) = (tabs_of (term_of w))(c := None)"
    unfolding eq using t(2) tabs_after_hooks [of "[t]" "f (term_of w)"]
    by (auto simp: close_hooks_term terminal_ids_simps f fun_eq_iff)
  have "terminal_ids (open_tabs w) - {c} = terminal_ids (xs @ ys)"
    unfolding t(1) using d t by (auto simp: terminal_ids_append terminal_ids_simps dest: terminal_ids_sub)
  then have "dom (tabs_of (term_of ?w)) = terminal_ids (open_tabs ?w)"
    unfolding T using store_okD(2) [OF ok] by (simp add: eq)
  moreover have "distinct (tab_ids ?w)" using d t by (simp add: eq)
  moreover have "all_panes (tabs_of (term_of ?w))" unfolding T by (rule all_panes_upd(2) [OF store_okD(3) [OF ok]])
  ultimately show ?thesis by (simp add: store_ok_def)
qed

section \<open>Connecting\<close>

lemma store_ok_connect: "store_ok w \<Longrightarrow> store_ok (snd (connect cfg asset pw forceNew inp w))"
  by (auto simp: connect_def Let_def intro!: store_ok_activate store_ok_same split: option.split)

lemma store_ok_connect_resolved:
  assumes ok: "store_ok w" and c: "c \<notin> set (tab_ids w)"
  shows "store_ok (connect_resolved r c w)"
proof -
  have "find (\<lambda>t. tb_id t = c) (open_tabs w) = None" using c by (auto simp: find_None_iff_set)
  then have "open_tabs (connect_resolved r c w) = open_tabs w @ [connect_tab r c]"
    "tabs_of (term_of (connect_resolved r c w)) = (tabs_of (term_of w))(c \<mapsto> opened_data c (cr_initialInput r))"
    by (simp_all add: connect_resolved_def Let_def openTab_def connect_tab_def)
  with ok c show ?thesis
    by (auto simp: store_ok_def terminal_ids_def connect_tab_def intro!: all_panes_upd(1) panes_ok_first(2))
qed

lemma terminal_ids_rename_other:
  "distinct (map tb_id tabs) \<Longrightarrow> i \<notin> terminal_ids tabs \<Longrightarrow>
   terminal_ids (map (\<lambda>t. if tb_id t = i then t\<lparr>tb_id := j\<rparr> else t) tabs) = terminal_ids tabs"
  by (induction tabs) (auto simp: terminal_ids_simps split: if_splits)

lemma store_ok_first_connected:
  assumes ok: "store_ok w" and sid: "sid \<notin> set (tab_ids w)"
  shows "store_ok (first_connected c u sid now w)"
proof -
  let ?w = "first_connected c u sid now w" and ?T = "tabs_of (term_of w)"
  have tabs: "open_tabs ?w = map (\<lambda>t. if tb_id t = c then t\<lparr>tb_id := sid\<rparr> else t) (open_tabs w)"
    by (simp add: first_connected_def Let_def tabs_replaceTabId split: option.split)
  have T: "tabs_of (term_of ?w) = (case ?T c of None \<Rightarrow> ?T
      | Some d \<Rightarrow> ?T(c := None, sid \<mapsto> first_data c sid (connected_pane sid u now) d))"
    by (simp add: first_connected_def Let_def map_of_lookup split: option.split)
  note d = store_okD(1) [OF ok]
  have "distinct (tab_ids ?w)" unfolding tabs by (rule ids_replace [OF d sid])
  moreover have "dom (tabs_of (term_of ?w)) = terminal_ids (open_tabs ?w)"
  proof (cases "?T c")
    case None
    then have "c \<notin> terminal_ids (open_tabs w)" using store_okD(2) [OF ok] by auto
    from terminal_ids_rename_other [OF d this, of sid] None store_okD(2) [OF ok] show ?thesis by (simp add: T tabs)
  next
    case (Some e)
    then have "c \<in> terminal_ids (open_tabs w)" using store_okD(2) [OF ok] by auto
    with Some show ?thesis using store_okD(2) [OF ok] by (simp add: T tabs terminal_ids_rename [OF d])
  qed
  moreover have "all_panes (tabs_of (term_of ?w))"
    unfolding T using store_okD(3) [OF ok]
    by (auto intro!: all_panes_upd panes_ok_first(1) simp: connected_pane_def split: option.split)
  ultimately show ?thesis by (simp add: store_ok_def)
qed

lemma store_ok_again_connected: "store_ok w \<Longrightarrow> store_ok (again_connected i c t sid now w)"
proof -
  assume ok: "store_ok w"
  have "tabs_of (term_of (again_connected i c t sid now w)) = (case tabs_of (term_of w) i of None \<Rightarrow> tabs_of (term_of w)
      | Some d \<Rightarrow> (tabs_of (term_of w))(i \<mapsto> seat c sid (connected_pane sid t now) d))"
    "open_tabs (again_connected i c t sid now w) = open_tabs w"
    by (simp_all add: again_connected_def Let_def map_of_lookup seat_def split: option.split)
  with ok show ?thesis
    by (auto simp: store_ok_def connected_pane_def dest: all_panesD intro!: all_panes_upd(1) panes_ok_seat split: option.split)
qed

lemma store_ok_event:
  assumes ok: "store_ok w" and sid: "\<And>sid. e = E_connected sid \<Longrightarrow> sid \<notin> set (tab_ids w)"
  shows "store_ok (on_event t c l now e w)"
proof (cases "map_of (tm_connections (term_of w)) c")
  case (Some conn)
  show ?thesis
  proof (cases e)
    case (E_connected s)
    have "store_ok (on_connected l c s now w)"
      unfolding on_connected_def using store_ok_first_connected [OF ok sid [OF E_connected]] store_ok_again_connected [OF ok]
      by (simp split: listener.split)
    then show ?thesis by (simp add: on_event_def Some E_connected store_ok_same)
  qed (simp_all add: on_event_def Some store_ok_same [OF ok])
qed (use ok in \<open>simp add: on_event_def\<close>)

lemma reconnect_tabs:
  "tabs_of (term_of (reconnect i w)) = tabs_of (term_of w)" "ap_tabs (reconnect i w) = ap_tabs w"
  by (auto simp: reconnect_def Let_def split: option.splits tab_meta.splits)

lemma store_ok_reconnect: "store_ok w \<Longrightarrow> store_ok (reconnect i w)" "store_ok w \<Longrightarrow> store_ok (reconnectBySession sid w)"
proof -
  show r: "store_ok w \<Longrightarrow> store_ok (reconnect i w)" for i
    by (erule store_ok_like) (simp_all add: reconnect_tabs)
  then show "store_ok w \<Longrightarrow> store_ok (reconnectBySession sid w)"
    by (auto simp: reconnectBySession_def split: option.split)
qed

lemma store_ok_reconnect_resolved: "store_ok w \<Longrightarrow> store_ok (reconnect_resolved r c w)"
proof -
  assume ok: "store_ok w"
  have "tabs_of (term_of (reconnect_resolved r c w)) = (case tabs_of (term_of w) (rr_tabId r) of None \<Rightarrow> tabs_of (term_of w)
      | Some d \<Rightarrow> (tabs_of (term_of w))(rr_tabId r \<mapsto> unseat (rr_sessionId r) c d))" "open_tabs (reconnect_resolved r c w) = open_tabs w"
    by (simp_all add: reconnect_resolved_def Let_def map_of_lookup unseat_def split: option.split)
  with ok show ?thesis
    by (auto simp: store_ok_def dest: all_panesD intro!: all_panes_upd(1) panes_ok_drop split: option.split)
qed

lemma store_ok_answers:
  assumes "store_ok w"
  shows "store_ok (connect_rejected r w)" "store_ok (reconnect_rejected q w)" "store_ok (respondChallenge c a w)"
    "store_ok (respondHostKeyVerify c k now w)" "store_ok (cancelConnect c w)" "store_ok (retryConnect cfg c pw w)"
proof -
  show "store_ok (connect_rejected r w)" "store_ok (reconnect_rejected q w)" "store_ok (respondChallenge c a w)"
    "store_ok (respondHostKeyVerify c k now w)"
    by (auto simp: connect_rejected_def reconnect_rejected_def respondChallenge_def respondHostKeyVerify_def
        intro!: assms store_ok_same split: option.split)
  show "store_ok (cancelConnect c w)"
    by (auto simp: cancelConnect_def intro!: assms store_ok_drop split: option.split)
  show "store_ok (retryConnect cfg c pw w)"
    unfolding retryConnect_def Let_def
    by (auto intro!: assms store_ok_same store_ok_connect store_ok_drop split: option.split)
qed

section \<open>Panes\<close>

lemma store_ok_on_tab:
  assumes ok: "store_ok w" and f: "\<And>d. panes_ok d \<Longrightarrow> panes_ok (f d)"
  shows "store_ok (upd_term (on_tab i f) w)"
  using ok f all_panesD [OF store_okD(3) [OF ok], of i]
  by (auto simp: store_ok_def on_tab_def map_of_lookup intro!: all_panes_upd(1) split: option.split)

lemma store_ok_panes:
  assumes ok: "store_ok w"
  shows "store_ok (upd_term (disconnect sid) w)" "store_ok (upd_term (markClosed sid) w)" "store_ok (upd_term (setActivePaneId i p) w)"
    "store_ok (upd_term (setDirectoryFollowMode i m) w)" "store_ok (upd_term (setSplitRatio i path ratio) w)"
    "store_ok (upd_term (splitPane i dir now) w)" "store_ok (upd_term (split_resolved i p sid now) w)"
    "store_ok (upd_term (split_rejected i p) w)" "store_ok (closePane i sid w)"
proof -
  have marked: "store_ok (upd_term (\<lambda>s. mark_disconnected sid (f s)) w)" if "tabs_of (f (term_of w)) = tabs_of (term_of w)" for f
    using store_okD(3) [OF ok] that
    by (intro store_ok_term [OF ok]) (auto simp: tabs_of_mark_disconnected all_panes_def intro: panes_ok_marked)
  show "store_ok (upd_term (disconnect sid) w)" "store_ok (upd_term (markClosed sid) w)"
    using marked [of "\<lambda>s. disconnectSession sid (session_transport (unregisterSessionSyncListener sid s) sid) (unregisterSessionSyncListener sid s)"]
      marked [of "unregisterSessionSyncListener sid"]
    by (simp_all add: disconnect_def markClosed_def Let_def upd_term_def)
  show "store_ok (upd_term (setActivePaneId i p) w)" "store_ok (upd_term (setDirectoryFollowMode i m) w)"
    "store_ok (upd_term (setSplitRatio i path ratio) w)"
    unfolding setActivePaneId_def setDirectoryFollowMode_def setSplitRatio_def by (auto intro!: store_ok_on_tab [OF ok])
  have "store_ok (upd_term (\<lambda>s. wait q (call k (set_tab i (divide dir p' d) s))) w)" if "tabs_of (term_of w) i = Some d" for q k p' d
    using store_okD(3) [OF ok] that
    by (intro store_ok_term [OF ok]) (auto intro!: all_panes_upd(1) dest: all_panesD)
  then show "store_ok (upd_term (splitPane i dir now) w)"
    using splitPane_cases [of i dir now "term_of w"] ok by (auto simp: upd_term_def)
  have settled: "store_ok (upd_term (settle q) w)" for q by (rule store_ok_same [OF ok]) simp
  have "store_ok (upd_term (registerSessionSyncListener sid)
      (upd_term (on_tab i (seat p sid (connected_pane sid Ssh now))) (upd_term (settle (W_split i p)) w)))"
    by (rule store_ok_same [OF store_ok_on_tab [OF settled]]) (auto intro: panes_ok_seat simp: connected_pane_def)
  then show "store_ok (upd_term (split_resolved i p sid now) w)"
    unfolding upd_term_comp split_resolved_def seat_def .
  have "store_ok (upd_term (on_tab i (\<lambda>d. case removeNode (td_splitTree d) p of None \<Rightarrow> d | Some newTree \<Rightarrow> d\<lparr>td_splitTree := newTree\<rparr>))
      (upd_term (settle (W_split i p)) w))"
    by (rule store_ok_on_tab [OF settled]) (auto split: option.split)
  then show "store_ok (upd_term (split_rejected i p) w)"
    unfolding upd_term_comp split_rejected_def .
  have left: "store_ok (upd_term (leave_pane sid d) w)" for d by (rule store_ok_same [OF ok]) simp
  show "store_ok (closePane i sid w)"
    using closePane_cases [of i sid w]
  proof (elim disjE exE conjE)
    fix d tree assume d: "tabs_of (term_of w) i = Some d"
      and eq: "closePane i sid w = upd_term (\<lambda>s. call (C_DisposeTerminal sid) (set_tab i (drop_leaf sid tree d) s)) (upd_term (leave_pane sid d) w)"
    show ?thesis
      unfolding eq
      by (rule store_ok_term [OF left]) (use d all_panesD [OF store_okD(3) [OF ok] d] store_okD(3) [OF ok] in \<open>auto intro!: all_panes_upd(1) panes_ok_drop(2)\<close>)
  qed (use ok store_ok_closeTab [OF left] in auto)
qed

end
