(* ===== verification/TerminalSteps.thy ===== *)
theory TerminalSteps
  imports TerminalTabs
begin

text \<open>
  The runs of the terminal tabs: a relation with a rule for every operation a user or the backend
  may start, what every run keeps, and what a first connection, a closed tab, a failed split and
  a retry do.
\<close>

section \<open>Steps\<close>

text \<open>
  \<open>cfg\<close> parses an asset's configuration. A promise is settled only while it is pending, an event
  comes to a listener, and an id the backend gives is new; terminal tabs are opened, and ids of tabs replaced, by the
  terminal store only. What the user starts is not restricted: any operation may be called with any
  argument in any state.
\<close>

inductive term_step :: "(asset \<Rightarrow> ssh_metadata option) \<Rightarrow> world \<Rightarrow> world \<Rightarrow> bool" for cfg where
  st_connect: "term_step cfg w (snd (connect cfg a password forceNew input w))"
| st_connect_resolved: "W_connect r \<in> set (tm_waiting (term_of w)) \<Longrightarrow> fresh c w \<Longrightarrow> term_step cfg w (connect_resolved r c w)"
| st_connect_rejected: "W_connect r \<in> set (tm_waiting (term_of w)) \<Longrightarrow> term_step cfg w (connect_rejected r w)"
| st_event: "((t, c), l) \<in> set (tm_listeners (term_of w)) \<Longrightarrow> (\<forall>sid. e = E_connected sid \<longrightarrow> fresh sid w) \<Longrightarrow>
    term_step cfg w (on_event t c l now e w)"
| st_reconnect: "term_step cfg w (reconnect i w)"
| st_reconnectBySession: "term_step cfg w (reconnectBySession sid w)"
| st_reconnect_resolved: "W_reconnect r \<in> set (tm_waiting (term_of w)) \<Longrightarrow> fresh c w \<Longrightarrow> term_step cfg w (reconnect_resolved r c w)"
| st_reconnect_rejected: "W_reconnect r \<in> set (tm_waiting (term_of w)) \<Longrightarrow> term_step cfg w (reconnect_rejected r w)"
| st_retry: "term_step cfg w (retryConnect cfg c pw w)"
| st_cancel: "term_step cfg w (cancelConnect c w)"
| st_challenge: "term_step cfg w (respondChallenge c answers w)"
| st_host_key: "term_step cfg w (respondHostKeyVerify c action now w)"
| st_disconnect: "term_step cfg w (upd_term (disconnect sid) w)"
| st_closed: "term_step cfg w (upd_term (markClosed sid) w)"
| st_active: "term_step cfg w (upd_term (setActivePaneId i p) w)"
| st_follow: "term_step cfg w (upd_term (setDirectoryFollowMode i m) w)"
| st_ratio: "term_step cfg w (upd_term (setSplitRatio i path ratio) w)"
| st_sync: "term_step cfg w (upd_term (setSessionSyncState sid sy) w)"
| st_synced: "W_sync sid \<in> set (tm_waiting (term_of w)) \<Longrightarrow> term_step cfg w (upd_term (sync_answered sid answer) w)"
| st_split: "term_step cfg w (upd_term (splitPane i dir now) w)"
| st_split_resolved: "W_split i p \<in> set (tm_waiting (term_of w)) \<Longrightarrow> fresh sid w \<Longrightarrow> term_step cfg w (upd_term (split_resolved i p sid now) w)"
| st_split_rejected: "W_split i p \<in> set (tm_waiting (term_of w)) \<Longrightarrow> term_step cfg w (upd_term (split_rejected i p) w)"
| st_closePane: "term_step cfg w (closePane i sid w)"
| st_tabs: "(\<forall>i j. op \<noteq> ReplaceTabId i j) \<Longrightarrow> (\<forall>t a. op = OpenTab t a \<longrightarrow> tb_type t \<noteq> TT_terminal) \<Longrightarrow>
    term_step cfg w (run_op app_hooks op w)"

inductive_cases term_stepE: "term_step cfg w w'"

text \<open>
  The steps of an orderly use. The code does not enforce it: the store has no check of these conditions, and the view
  offers some of the steps left out here (retrying or cancelling the connection of a tab that connects again, from
  \<open>ConnectionProgress.tsx\<close>; a second reconnect while one is asked for; a split or a close of the pane that
  connects). In an orderly use a pane with a session is split, closed or shown as the active one, a tab is reconnected
  while its active pane has a session and no reconnect is asked for, the first connection of a tab is the one
  that is retried or cancelled, and a tab that is activated or kept alone is open.
\<close>

inductive orderly_step :: "(asset \<Rightarrow> ssh_metadata option) \<Rightarrow> world \<Rightarrow> world \<Rightarrow> bool" for cfg where
  os_connect: "orderly_step cfg w (snd (connect cfg a password forceNew input w))"
| os_connect_resolved: "W_connect r \<in> set (tm_waiting (term_of w)) \<Longrightarrow> fresh c w \<Longrightarrow> orderly_step cfg w (connect_resolved r c w)"
| os_connect_rejected: "W_connect r \<in> set (tm_waiting (term_of w)) \<Longrightarrow> orderly_step cfg w (connect_rejected r w)"
| os_event: "((t, c), l) \<in> set (tm_listeners (term_of w)) \<Longrightarrow> (\<forall>sid. e = E_connected sid \<longrightarrow> fresh sid w) \<Longrightarrow>
    orderly_step cfg w (on_event t c l now e w)"
| os_reconnect: "may_reconnect i w \<Longrightarrow> orderly_step cfg w (reconnect i w)"
| os_reconnectBySession: "(\<forall>i d. (i, d) \<in> set (tm_tabData (term_of w)) \<and> map_of (td_panes d) sid \<noteq> None \<longrightarrow> may_reconnect i w) \<Longrightarrow>
    orderly_step cfg w (reconnectBySession sid w)"
| os_reconnect_resolved: "W_reconnect r \<in> set (tm_waiting (term_of w)) \<Longrightarrow> fresh c w \<Longrightarrow> orderly_step cfg w (reconnect_resolved r c w)"
| os_reconnect_rejected: "W_reconnect r \<in> set (tm_waiting (term_of w)) \<Longrightarrow> orderly_step cfg w (reconnect_rejected r w)"
| os_retry: "map_of (tm_tabData (term_of w)) c \<noteq> None \<Longrightarrow> orderly_step cfg w (retryConnect cfg c pw w)"
| os_cancel: "map_of (tm_tabData (term_of w)) c \<noteq> None \<Longrightarrow> orderly_step cfg w (cancelConnect c w)"
| os_challenge: "orderly_step cfg w (respondChallenge c answers w)"
| os_hoos_key: "orderly_step cfg w (respondHostKeyVerify c action now w)"
| os_disconnect: "orderly_step cfg w (upd_term (disconnect sid) w)"
| os_closed: "orderly_step cfg w (upd_term (markClosed sid) w)"
| os_active: "(\<forall>d. map_of (tm_tabData (term_of w)) i = Some d \<longrightarrow> p \<in> fst ` set (td_panes d)) \<Longrightarrow>
    orderly_step cfg w (upd_term (setActivePaneId i p) w)"
| os_follow: "orderly_step cfg w (upd_term (setDirectoryFollowMode i m) w)"
| os_ratio: "orderly_step cfg w (upd_term (setSplitRatio i path ratio) w)"
| os_sync: "orderly_step cfg w (upd_term (setSessionSyncState sid sy) w)"
| os_synced: "W_sync sid \<in> set (tm_waiting (term_of w)) \<Longrightarrow> orderly_step cfg w (upd_term (sync_answered sid answer) w)"
| os_split: "may_split i (''pending-'' @ int_str now) (term_of w) \<Longrightarrow> orderly_step cfg w (upd_term (splitPane i dir now) w)"
| os_split_resolved: "W_split i p \<in> set (tm_waiting (term_of w)) \<Longrightarrow> fresh sid w \<Longrightarrow> orderly_step cfg w (upd_term (split_resolved i p sid now) w)"
| os_split_rejected: "W_split i p \<in> set (tm_waiting (term_of w)) \<Longrightarrow> orderly_step cfg w (upd_term (split_rejected i p) w)"
| os_closePane: "may_close i sid (term_of w) \<Longrightarrow> orderly_step cfg w (closePane i sid w)"
| os_tabs: "op_ok op w \<Longrightarrow> (\<forall>i j. op \<noteq> ReplaceTabId i j) \<Longrightarrow> (\<forall>t a. op = OpenTab t a \<longrightarrow> tb_type t \<noteq> TT_terminal) \<Longrightarrow>
    orderly_step cfg w (run_op app_hooks op w)"

inductive_cases orderly_stepE: "orderly_step cfg w w'"

lemma orderly_is_step: "orderly_step cfg w w' \<Longrightarrow> term_step cfg w w'"
  by (induction rule: orderly_step.induct) (blast intro: term_step.intros)+

lemma orderly_run: "(orderly_step cfg)\<^sup>*\<^sup>* w w' \<Longrightarrow> (term_step cfg)\<^sup>*\<^sup>* w w'"
  by (induction rule: rtranclp_induct) (auto intro: rtranclp.rtrancl_into_rtrancl orderly_is_step)

lemma term_step_store: "term_step cfg w w' \<Longrightarrow> store_ok w \<Longrightarrow> store_ok w'"
proof (induction rule: term_step.induct)
  case (st_event t c l w e now)
  then show ?case using store_ok_event freshD(2) by blast
next
  case (st_connect_resolved r w c)
  then show ?case using store_ok_connect_resolved freshD(2) by blast
qed (auto intro: store_ok_same store_ok_connect store_ok_answers store_ok_reconnect store_ok_reconnect_resolved store_ok_panes store_ok_tabs)

lemma term_steps_store: "(term_step cfg)\<^sup>*\<^sup>* w w' \<Longrightarrow> store_ok w \<Longrightarrow> store_ok w'"
  by (induction rule: rtranclp_induct) (auto intro: term_step_store)


lemma world_ok_reconnectBySession:
  assumes ok: "world_ok w"
    and may: "\<forall>i d. (i, d) \<in> set (tm_tabData (term_of w)) \<and> map_of (td_panes d) sid \<noteq> None \<longrightarrow> may_reconnect i w"
  shows "world_ok (reconnectBySession sid w)"
proof (cases "find (\<lambda>(i, d). map_of (td_panes d) sid \<noteq> None) (tm_tabData (term_of w))")
  case (Some x)
  obtain i d where x: "x = (i, d)" by (cases x)
  with find_Some_prop [OF Some] have "(i, d) \<in> set (tm_tabData (term_of w))" "map_of (td_panes d) sid \<noteq> None" by auto
  with may have "may_reconnect i w" by blast
  with Some x ok world_ok_reconnect show ?thesis by (simp add: reconnectBySession_def)
qed (use ok in \<open>simp add: reconnectBySession_def\<close>)

lemma same_parts_sync_state: "same_parts s (setSessionSyncState i y s)"
  by (simp add: setSessionSyncState_def same_parts_fields)

lemma orderly_step_ok: "orderly_step cfg w w' \<Longrightarrow> world_ok w \<Longrightarrow> world_ok w'"
proof (induction rule: orderly_step.induct)
  case (os_tabs op w)
  then show ?case by (cases "closing op") (auto intro: world_ok_closing world_ok_tabs)
next
  case (os_event t c l w e now)
  then show ?case using world_ok_event by blast
next
  case (os_active i w p)
  then show ?case by (intro world_ok_setActivePaneId) (auto simp: map_of_lookup)
next
  case (os_sync w sid sy)
  then show ?case by (rule world_ok_same) (rule same_parts_sync_state)
next
  case (os_synced sid w answer)
  from os_synced(2) show ?case by (rule world_ok_same) (rule same_parts_sync_answered)
qed (auto simp: map_of_lookup intro!: world_ok_connect world_ok_connect_resolved world_ok_connect_rejected world_ok_reconnect
    world_ok_reconnectBySession world_ok_reconnect_resolved world_ok_reconnect_rejected world_ok_retryConnect world_ok_cancelConnect
    world_ok_respondChallenge world_ok_respondHostKeyVerify world_ok_disconnect world_ok_markClosed world_ok_setDirectoryFollowMode
    world_ok_setSplitRatio world_ok_splitPane world_ok_split_resolved world_ok_split_rejected world_ok_closePane)

lemma orderly_steps_ok: "(orderly_step cfg)\<^sup>*\<^sup>* w w' \<Longrightarrow> world_ok w \<Longrightarrow> world_ok w'"
  by (induction rule: rtranclp_induct) (auto intro: orderly_step_ok)

section \<open>A start of the application\<close>

definition quiet :: "terminal_state \<Rightarrow> bool" where
  "quiet s \<longleftrightarrow> tm_tabData s = [] \<and> tm_connections s = [] \<and> tm_listeners s = [] \<and> tm_waiting s = []"

lemma restored_lookup:
  "map_of (foldl (\<lambda>data t. set_prop data (tb_id t) (restored_data (tb_id t))) ds tabs) i =
     (if i \<in> tb_id ` set tabs then Some (restored_data i) else map_of ds i)"
  by (induction tabs arbitrary: ds) auto

lemma data_ok_restored: "data_ok (restored_data i)" "connecting_ids (td_splitTree (restored_data i)) = []"
  by (simp_all add: data_ok_def restored_data_def)

lemma reconnect_parts:
  "tabs_of (term_of (reconnect i w)) = tabs_of (term_of w)" "ap_tabs (reconnect i w) = ap_tabs w"
  "set (asked_of (term_of (reconnect i w))) \<subseteq> set (asked_of (term_of w)) \<union> {r. rr_tabId r = i}"
proof -
  have s: "tabs_of (leave_session data t s) = tabs_of s" "asked (tm_waiting (leave_session data t s)) = asked (tm_waiting s)" for data t s
    using same_parts_leave [of s data t] by (auto simp: same_parts_def asked_of_def)
  show "tabs_of (term_of (reconnect i w)) = tabs_of (term_of w)" "ap_tabs (reconnect i w) = ap_tabs w"
    "set (asked_of (term_of (reconnect i w))) \<subseteq> set (asked_of (term_of w)) \<union> {r. rr_tabId r = i}"
    by (auto simp: reconnect_def Let_def s asked_of_def split: option.splits tab_meta.splits)
qed

lemma world_ok_reconnects:
  "world_ok w \<Longrightarrow> distinct (map tb_id tabs) \<Longrightarrow>
   \<forall>t\<in>set tabs. tabs_of (term_of w) (tb_id t) = Some (restored_data (tb_id t)) \<and> tb_id t \<notin> rr_tabId ` set (asked_of (term_of w)) \<Longrightarrow>
   world_ok (fold (\<lambda>t. reconnect (tb_id t)) tabs w)"
proof (induction tabs arbitrary: w)
  case (Cons t tabs)
  have "may_reconnect (tb_id t) w"
    using Cons.prems(3) by (auto simp: may_reconnect_def restored_data_def)
  then have ok: "world_ok (reconnect (tb_id t) w)" by (rule world_ok_reconnect [OF Cons.prems(1)])
  have "tb_id t' \<noteq> tb_id t" if "t' \<in> set tabs" for t'
    using Cons.prems(2) that by (metis distinct.simps(2) image_eqI list.map(2) list.set_map)
  then have "\<forall>t'\<in>set tabs. tb_id t' \<notin> rr_tabId ` set (asked_of (term_of (reconnect (tb_id t) w)))"
    using Cons.prems(3) reconnect_parts(3) [of "tb_id t" w] by fastforce
  then show ?case
    using Cons.IH [OF ok] Cons.prems by (simp add: reconnect_parts)
qed simp

lemma world_ok_restored:
  assumes q: "quiet (term_of w)" and tabs: "tabs_ok (open_tabs w) (active_id w)"
  shows "world_ok (terminal_restore_hook (tabs_of_type TT_terminal (open_tabs w)) w)"
proof -
  let ?ts = "tabs_of_type TT_terminal (open_tabs w)"
  let ?w = "upd_term (\<lambda>s. s\<lparr>tm_tabData := foldl (\<lambda>data t. set_prop data (tb_id t) (restored_data (tb_id t))) [] ?ts\<rparr>) w"
  have look: "tabs_of (term_of ?w) = (\<lambda>i. if i \<in> tb_id ` set ?ts then Some (restored_data i) else None)"
    by (rule ext) (simp add: tabs_of_def restored_lookup)
  from q have rest: "conns_of (term_of ?w) = {}" "tm_listeners (term_of ?w) = []" "asked_of (term_of ?w) = []" "splits_of (term_of ?w) = []"
    by (simp_all add: quiet_def part_defs)
  have ok: "world_ok ?w"
  proof (rule world_okI)
    show "term_inv (tabs_of (term_of ?w)) (conns_of (term_of ?w)) (tm_listeners (term_of ?w)) (asked_of (term_of ?w)) (splits_of (term_of ?w))"
      unfolding look rest by (auto simp: term_inv_def data_ok_restored connecting_ok_def split: if_splits)
    show "tabs_ok (open_tabs ?w) (active_id ?w)" using tabs by simp
    show "dom (tabs_of (term_of ?w)) = terminal_ids (open_tabs ?w)"
      unfolding look by (auto simp: terminal_ids_def tabs_of_type_def split: if_splits)
  qed
  from tabs have d: "distinct (map tb_id ?ts)" by (simp add: tabs_ok_def tabs_of_type_def distinct_map_filter)
  have "world_ok (fold (\<lambda>t. reconnect (tb_id t)) ?ts ?w)"
    by (rule world_ok_reconnects [OF ok d]) (unfold look rest, simp)
  moreover have "w = ?w" if "?ts = []"
    using that q by (simp add: upd_term_def quiet_def)
  ultimately show ?thesis
    by (cases "?ts = []") (simp_all add: terminal_restore_hook_def ok)
qed

section \<open>Every run\<close>

text \<open>C15: over every run from a start of the application, whatever the user does, the ids of the open
  tabs stay distinct, the store has data for exactly the open terminal tabs, and every pane is kept once,
  under the id of its session. When the use is orderly (see \<open>orderly_step\<close>; the code does not enforce it), more
  holds in each tab: the panes are the sessions of the split tree, none twice, the active pane is a
  session or a connection under way of that tree, and every leaf that connects has a connection and a listener for
  its events.\<close>
theorem terminal_tabs_consistent:
  assumes "quiet (term_of w)" and "tabs_ok (open_tabs w) (active_id w)"
    and "w0 = terminal_restore_hook (tabs_of_type TT_terminal (open_tabs w)) w" and "(term_step cfg)\<^sup>*\<^sup>* w0 w'"
  shows "distinct (tab_ids w') \<and>
    dom (map_of (tm_tabData (term_of w'))) = tb_id ` set (tabs_of_type TT_terminal (open_tabs w')) \<and>
    (\<forall>i d. map_of (tm_tabData (term_of w')) i = Some d \<longrightarrow>
       distinct (map fst (td_panes d)) \<and> (\<forall>(s, p)\<in>set (td_panes d). pn_sessionId p = s)) \<and>
    ((orderly_step cfg)\<^sup>*\<^sup>* w0 w' \<longrightarrow>
      (\<forall>i d. map_of (tm_tabData (term_of w')) i = Some d \<longrightarrow>
         distinct (leaf_ids (td_splitTree d)) \<and>
         set (map fst (td_panes d)) = set (getSessionIds (td_splitTree d)) \<and>
         td_activePaneId d \<in> set (getSessionIds (td_splitTree d)) \<union> set (connecting_ids (td_splitTree d)) \<and>
         (\<forall>c \<in> set (connecting_ids (td_splitTree d)). map_of (tm_connections (term_of w')) c \<noteq> None \<and>
            (\<exists>t l. ((t, c), l) \<in> set (tm_listeners (term_of w'))))))"
proof -
  from world_ok_restored [OF assms(1,2)] have start: "world_ok w0" by (simp add: assms(3))
  have st: "store_ok w'" by (rule term_steps_store [OF assms(4) store_ok_world [OF start]])
  show ?thesis
  proof (intro conjI impI allI)
    show "dom (map_of (tm_tabData (term_of w'))) = tb_id ` set (tabs_of_type TT_terminal (open_tabs w'))"
      using store_okD(2) [OF st] by (simp add: tabs_of_def terminal_ids_def tabs_of_type_def)
    show "distinct (tab_ids w')" by (rule store_okD(1) [OF st])
  next
    fix i d assume "map_of (tm_tabData (term_of w')) i = Some d"
    then show "distinct (map fst (td_panes d))" "\<forall>(s, p)\<in>set (td_panes d). pn_sessionId p = s"
      using all_panesD [OF store_okD(3) [OF st], of i d] by (simp_all add: tabs_of_def panes_ok_def)
  next
    fix i d
    assume run: "(orderly_step cfg)\<^sup>*\<^sup>* w0 w'" and "map_of (tm_tabData (term_of w')) i = Some d"
    then have d: "tabs_of (term_of w') i = Some d" by (simp add: tabs_of_def)
    note inv = world_okD(1) [OF orderly_steps_ok [OF run start]]
    from term_invD(1) [OF inv d] show "distinct (leaf_ids (td_splitTree d))"
      "set (map fst (td_panes d)) = set (getSessionIds (td_splitTree d))"
      "td_activePaneId d \<in> set (getSessionIds (td_splitTree d)) \<union> set (connecting_ids (td_splitTree d))"
      by (simp_all add: data_ok_def)
    show "\<forall>c\<in>connecting_of d. map_of (tm_connections (term_of w')) c \<noteq> None \<and> (\<exists>t l. ((t, c), l) \<in> set (tm_listeners (term_of w')))"
      using term_invD(2) [OF inv d] by (fastforce simp: connecting_ok_def conns_of_def)
  qed
qed

text \<open>A run from an empty window: one asset is connected, the backend accepts, the session opens.\<close>

definition ex_asset :: asset where
  "ex_asset = \<lparr>as_ID = 1, as_Name = ''web'', as_Type = ''ssh'', as_GroupID = 0, as_Icon = [], as_Status = 1\<rparr>"

definition ex_window :: world where
  "ex_window = startup Absent \<lparr>recentIds = [], ls_recent = Absent\<rparr>
     \<lparr>st_term = \<lparr>tm_tabData = [], tm_sessionSync = [], tm_connectingAssetIds = {}, tm_connections = [], tm_syncListeners = {},
                  tm_listeners = [], tm_waiting = [], tm_calls = []\<rparr>,
      st_sftp = \<lparr>transfers = [], fileManagerOpenTabs = [], fileManagerPaths = [], fileManagerWidth = 280, sf_listening = [], sf_timers = []\<rparr>,
      st_assets = [ex_asset], st_groups = []\<rparr>"

definition ex_request :: connect_request where
  "ex_request = \<lparr>cr_asset = ex_asset, cr_assetPath = ''web'', cr_assetIcon = [], cr_metadata = None, cr_password = [],
     cr_isSerial = False, cr_initialInput = Some ''ls''\<rparr>"

definition ex_asked :: world where
  "ex_asked = snd (connect (\<lambda>a. None) ex_asset [] False (Some ''ls'') ex_window)"

definition ex_opening :: world where
  "ex_opening = connect_resolved ex_request ''c1'' ex_asked"

definition ex_open :: world where
  "ex_open = on_event Ssh ''c1'' (L_connect 1 False) 7 (E_connected ''s1'') ex_opening"

lemma ex_asked_parts:
  "tm_waiting (term_of ex_asked) = [W_connect ex_request]" "tm_tabData (term_of ex_asked) = []"
  "tm_connections (term_of ex_asked) = []" "tm_listeners (term_of ex_asked) = []" "open_tabs ex_asked = []"
  by code_simp+

lemma ex_opening_parts:
  "tm_waiting (term_of ex_opening) = []" "tm_tabData (term_of ex_opening) = [(''c1'', opened_data ''c1'' (Some ''ls''))]"
  "tm_connections (term_of ex_opening) = [(''c1'', new_connection ''c1'' 1 ''web'' Ssh [])]"
  "tm_listeners (term_of ex_opening) = [((Ssh, ''c1''), L_connect 1 False)]" "open_tabs ex_opening = [connect_tab ex_request ''c1'']"
  by code_simp+

lemma ex_open_parts:
  "tm_tabData (term_of ex_open) = [(''s1'', first_data ''c1'' ''s1'' (connected_pane ''s1'' Ssh 7) (opened_data ''c1'' (Some ''ls'')))]"
  "tab_ids ex_open = [''s1'']"
  by (simp_all add: ex_open_def on_event_def on_connected_def first_connected_def Let_def ex_opening_parts tabs_replaceTabId
      transport_of_def on_finished_def opened_data_def set_tab_def del_tab_def del_conn_def registerSessionSyncListener_def
      writeSessionInput_def call_def wait_def events_off_def connecting_done_def del_prop_def connect_tab_def)

lemma ex_run_opening: "(orderly_step (\<lambda>a. None))\<^sup>*\<^sup>* ex_window ex_opening"
proof -
  have "orderly_step (\<lambda>a. None) ex_window ex_asked"
    unfolding ex_asked_def by (rule os_connect)
  moreover have "orderly_step (\<lambda>a. None) ex_asked ex_opening"
    unfolding ex_opening_def
    by (rule os_connect_resolved) (simp_all add: ex_asked_parts fresh_def unused_def part_defs)
  ultimately show ?thesis by (meson r_into_rtranclp rtranclp_trans)
qed

lemma ex_fresh: "fresh ''s1'' ex_opening"
  by (auto simp: ex_opening_parts connect_tab_def fresh_def unused_def part_defs opened_data_def split: if_splits)

lemma ex_open_run: "(orderly_step (\<lambda>a. None))\<^sup>*\<^sup>* ex_window ex_open"
proof -
  have "orderly_step (\<lambda>a. None) ex_opening ex_open"
    unfolding ex_open_def by (rule os_event) (auto simp: ex_opening_parts ex_fresh)
  with ex_run_opening show ?thesis by (rule rtranclp.rtrancl_into_rtrancl)
qed

lemma ex_window_start:
  "quiet (term_of ex_window)" "tabs_ok (open_tabs ex_window) (active_id ex_window)"
  "terminal_restore_hook (tabs_of_type TT_terminal (open_tabs ex_window)) ex_window = ex_window"
  by (simp_all add: ex_window_def quiet_def startup_def tabs_ok_def tabs_of_type_def terminal_restore_hook_def)

lemma ex_window_ok: "world_ok ex_window"
  using world_ok_restored [OF ex_window_start(1,2)] unfolding ex_window_start(3) .

theorem terminal_tabs_consistent_witness:
  "distinct (tab_ids ex_open) \<and> dom (map_of (tm_tabData (term_of ex_open))) = tb_id ` set (tabs_of_type TT_terminal (open_tabs ex_open)) \<and>
   map fst (tm_tabData (term_of ex_open)) = [''s1''] \<and>
   set (map fst (td_panes (the (map_of (tm_tabData (term_of ex_open)) ''s1'')))) =
     set (getSessionIds (td_splitTree (the (map_of (tm_tabData (term_of ex_open)) ''s1''))))"
proof -
  note c = terminal_tabs_consistent [OF ex_window_start(1,2) ex_window_start(3) [symmetric] orderly_run [OF ex_open_run]]
  have "map_of (tm_tabData (term_of ex_open)) ''s1'' = Some (first_data ''c1'' ''s1'' (connected_pane ''s1'' Ssh 7) (opened_data ''c1'' (Some ''ls'')))"
    by (simp add: ex_open_parts)
  moreover from c ex_open_run have "\<forall>i d. map_of (tm_tabData (term_of ex_open)) i = Some d \<longrightarrow>
      set (map fst (td_panes d)) = set (getSessionIds (td_splitTree d))" by blast
  ultimately show ?thesis using c by (simp add: ex_open_parts)
qed

section \<open>A first connection\<close>

text \<open>What the listener of a first connection does when the session is there.\<close>

definition sync_calls :: "string \<Rightarrow> terminal_state \<Rightarrow> backend_call list" where
  "sync_calls sid s = (if sid = [] \<or> sid \<in> tm_syncListeners s then [] else [C_SyncOn sid, C_GetSSHSyncState sid])"

lemma calls_updates [simp]:
  "tm_calls (call c s) = tm_calls s @ [c]" "tm_calls (wait q s) = tm_calls s" "tm_calls (settle q s) = tm_calls s"
  "tm_calls (events_on n l s) = tm_calls s" "tm_calls (events_off n s) = tm_calls s"
  "tm_calls (set_tab i d s) = tm_calls s" "tm_calls (del_tab i s) = tm_calls s"
  "tm_calls (set_conn i c' s) = tm_calls s" "tm_calls (del_conn i s) = tm_calls s"
  "tm_calls (connecting_asset a s) = tm_calls s" "tm_calls (connecting_done a s) = tm_calls s"
  by (simp_all add: update_defs)

lemma sync_listeners_updates [simp]:
  "tm_syncListeners (call c s) = tm_syncListeners s" "tm_syncListeners (wait q s) = tm_syncListeners s" "tm_syncListeners (settle q s) = tm_syncListeners s"
  "tm_syncListeners (events_on n l s) = tm_syncListeners s" "tm_syncListeners (events_off n s) = tm_syncListeners s"
  "tm_syncListeners (set_tab i d s) = tm_syncListeners s" "tm_syncListeners (del_tab i s) = tm_syncListeners s"
  "tm_syncListeners (set_conn i c' s) = tm_syncListeners s" "tm_syncListeners (del_conn i s) = tm_syncListeners s"
  "tm_syncListeners (connecting_asset a s) = tm_syncListeners s" "tm_syncListeners (connecting_done a s) = tm_syncListeners s"
  by (simp_all add: update_defs)

lemma connecting_updates [simp]:
  "tm_connectingAssetIds (call c s) = tm_connectingAssetIds s" "tm_connectingAssetIds (wait q s) = tm_connectingAssetIds s"
  "tm_connectingAssetIds (events_off n s) = tm_connectingAssetIds s" "tm_connectingAssetIds (set_tab i d s) = tm_connectingAssetIds s"
  "tm_connectingAssetIds (del_tab i s) = tm_connectingAssetIds s" "tm_connectingAssetIds (del_conn i s) = tm_connectingAssetIds s"
  "tm_connectingAssetIds (connecting_done a s) = tm_connectingAssetIds s - {a}"
  by (simp_all add: update_defs)

lemma register_parts [simp]:
  "tabs_of (registerSessionSyncListener i s) = tabs_of s" "conns_of (registerSessionSyncListener i s) = conns_of s"
  "tm_listeners (registerSessionSyncListener i s) = tm_listeners s" "tm_calls (registerSessionSyncListener i s) = tm_calls s @ sync_calls i s"
  "tm_connectingAssetIds (registerSessionSyncListener i s) = tm_connectingAssetIds s"
  using same_parts_register [of s i]
  by (auto simp: same_parts_def registerSessionSyncListener_def sync_calls_def call_def wait_def)

text \<open>C16: when the session of a tab's first connection is there, the tab takes the session's id and
  keeps its place; its data moves to that id with one connected pane in place of the connecting leaf;
  the connection, its listener and the mark on the asset are gone; an SSH session's directory is
  followed; and the initial input, if any, is sent once, to the new session.\<close>
theorem first_connection_established:
  assumes "world_ok w" and "((t, c), L_connect a isSerial) \<in> set (tm_listeners (term_of w))"
    and "map_of (tm_connections (term_of w)) c = Some conn" and "fresh sid w"
  shows "let w' = on_event t c (L_connect a isSerial) now (E_connected sid) w; s = term_of w; s' = term_of w'; u = transport_of isSerial
    in \<exists>d. map_of (tm_tabData s) c = Some d \<and> td_splitTree d = N_connecting c \<and>
      open_tabs w' = map (\<lambda>x. if tb_id x = c then x\<lparr>tb_id := sid\<rparr> else x) (open_tabs w) \<and>
      map_of (tm_tabData s') = (map_of (tm_tabData s))(c := None, sid \<mapsto>
        d\<lparr>td_splitTree := N_terminal sid, td_activePaneId := sid, td_panes := [(sid, connected_pane sid u now)], td_pendingInput := None\<rparr>) \<and>
      map_of (tm_connections s') c = None \<and> (t, c) \<notin> fst ` set (tm_listeners s') \<and> a \<notin> tm_connectingAssetIds s' \<and>
      tm_calls s' = tm_calls s @ (if isSerial then [] else sync_calls sid s) @
        (case td_pendingInput d of
           None \<Rightarrow> []
         | Some x \<Rightarrow> if x = [] then []
             else if isSerial then [C_WriteSerial sid (btoa (utf8_encode x))] else [C_WriteSSH sid (btoa (utf8_encode x))])"
proof -
  note inv = world_okD(1) [OF assms(1)]
  from assms(3) have conn: "c \<in> conns_of (term_of w)" by (auto simp: conns_of_def)
  from term_invD(3) [OF inv assms(2)] conn obtain d where d: "tabs_of (term_of w) c = Some d" and tree: "td_splitTree d = N_connecting c"
    by (auto simp: listener_ok_def)
  have fd: "first_data c sid p d = d\<lparr>td_splitTree := N_terminal sid, td_activePaneId := sid, td_panes := [(sid, p)], td_pendingInput := None\<rparr>" for p
    by (simp add: first_data_def tree)
  have gone: "map_of (tm_connections s) c = None \<longleftrightarrow> c \<notin> conns_of s" for s by (auto simp: conns_of_def)
  have lookup: "map_of (tm_tabData s) = tabs_of s" for s by (simp add: tabs_of_def)
  show ?thesis
    unfolding Let_def gone lookup
    by (rule exI [of _ d], cases isSerial; cases "td_pendingInput d")
      (auto simp: on_event_def assms(3) on_connected_def first_connected_def Let_def lookup d tree on_finished_def
        fd tabs_replaceTabId transport_of_def writeSessionInput_def bytesToBase64_def upd_term_comp sync_calls_def)
qed

theorem first_connection_established_witness:
  "open_tabs ex_open = map (\<lambda>x. if tb_id x = ''c1'' then x\<lparr>tb_id := ''s1''\<rparr> else x) (open_tabs ex_opening) \<and>
   map_of (tm_connections (term_of ex_open)) ''c1'' = None"
proof -
  have "world_ok ex_opening" by (rule orderly_steps_ok [OF ex_run_opening ex_window_ok])
  from first_connection_established [OF this, of Ssh "''c1''" 1 False "new_connection ''c1'' 1 ''web'' Ssh []" "''s1''" 7] ex_fresh
  show ?thesis by (auto simp: ex_opening_parts Let_def ex_open_def)
qed

section \<open>Closing a tab\<close>

definition pane_closing_calls :: "string set \<Rightarrow> terminal_pane \<Rightarrow> backend_call list" where
  "pane_closing_calls followed p =
     (if pn_sessionId p \<in> followed then [C_SyncOff (pn_sessionId p)] else []) @
     (if pn_connected p
      then [if pn_transport p = Serial then C_DisconnectSerial (pn_sessionId p) else C_DisconnectSSH (pn_sessionId p)] else []) @
     [C_DisposeTerminal (pn_sessionId p)]"

lemma unregister_parts [simp]:
  "tm_syncListeners (unregisterSessionSyncListener i s) = tm_syncListeners s - {i}"
  "tm_calls (unregisterSessionSyncListener i s) = tm_calls s @ (if i \<in> tm_syncListeners s then [C_SyncOff i] else [])"
  by (auto simp: unregisterSessionSyncListener_def)

lemma drop_pane_parts:
  "tm_calls (drop_pane p s) = tm_calls s @ pane_closing_calls (tm_syncListeners s) p"
  "tm_syncListeners (drop_pane p s) = tm_syncListeners s - {pn_sessionId p}"
  by (simp_all add: drop_pane_def Let_def pane_closing_calls_def disconnectSession_def)

lemma close_panes_parts:
  "distinct (map pn_sessionId panes) \<Longrightarrow>
   tm_calls (close_panes panes s) = tm_calls s @ concat (map (pane_closing_calls (tm_syncListeners s)) panes) \<and>
   tm_syncListeners (close_panes panes s) = tm_syncListeners s - pn_sessionId ` set panes"
proof (induction panes arbitrary: s)
  case (Cons p panes)
  have "pane_closing_calls (tm_syncListeners s - {pn_sessionId p}) q = pane_closing_calls (tm_syncListeners s) q" if "q \<in> set panes" for q
  proof -
    from that have "pn_sessionId q \<in> set (map pn_sessionId panes)" by simp
    with Cons.prems have "pn_sessionId q \<noteq> pn_sessionId p" by fastforce
    then show ?thesis by (simp add: pane_closing_calls_def)
  qed
  then have later: "map (pane_closing_calls (tm_syncListeners s - {pn_sessionId p})) panes = map (pane_closing_calls (tm_syncListeners s)) panes"
    by (rule map_cong [OF refl])
  from Cons.prems have "distinct (map pn_sessionId panes)" by simp
  from Cons.IH [OF this, of "drop_pane p s"] show ?case
    unfolding close_panes_def by (simp add: drop_pane_parts later) blast
qed (simp add: close_panes_def)

lemma ex_open_more:
  "open_tabs ex_open = [(connect_tab ex_request ''c1'')\<lparr>tb_id := ''s1''\<rparr>]" "tm_connections (term_of ex_open) = []"
  "tm_listeners (term_of ex_open) = []" "tm_waiting (term_of ex_open) = [W_sync ''s1'']" "st_assets (ap_rest ex_open) = [ex_asset]"
proof -
  have sync: "tm_syncListeners (term_of ex_opening) = {}" "st_assets (ap_rest ex_opening) = [ex_asset]" by code_simp+
  show "open_tabs ex_open = [(connect_tab ex_request ''c1'')\<lparr>tb_id := ''s1''\<rparr>]" "tm_connections (term_of ex_open) = []"
    "tm_listeners (term_of ex_open) = []" "tm_waiting (term_of ex_open) = [W_sync ''s1'']" "st_assets (ap_rest ex_open) = [ex_asset]"
    by (simp_all add: sync ex_open_def on_event_def on_connected_def first_connected_def Let_def ex_opening_parts tabs_replaceTabId
      transport_of_def on_finished_def opened_data_def set_tab_def del_tab_def del_conn_def registerSessionSyncListener_def
      writeSessionInput_def call_def wait_def events_off_def connecting_done_def del_prop_def connect_tab_def new_connection_def upd_term_def
      replaceTabId_def app_hooks_def registerTabReplaceHook_def registerTabCloseHook_def on_sftp_def)
qed

lemma ex_open_followed: "''s1'' \<in> tm_syncListeners (term_of ex_open)"
proof -
  have "tm_syncListeners (term_of ex_opening) = {}" by code_simp
  then show ?thesis
    by (simp add: ex_open_def on_event_def on_connected_def first_connected_def Let_def ex_opening_parts tabs_replaceTabId
      transport_of_def on_finished_def opened_data_def set_tab_def del_tab_def del_conn_def registerSessionSyncListener_def
      writeSessionInput_def call_def wait_def events_off_def connecting_done_def del_prop_def connect_tab_def new_connection_def)
qed

lemma close_hook_conns:
  "tb_type t = TT_terminal \<Longrightarrow> map_of (tm_connections (terminal_close_hook t s)) = (map_of (tm_connections s))(tb_id t := None)"
proof -
  have "tm_connections (close_panes ps s) = tm_connections s" for ps s
    by (induction ps arbitrary: s) (simp_all add: close_panes_def drop_pane_def Let_def call_def disconnectSession_def unregisterSessionSyncListener_def)
  then show "tb_type t = TT_terminal \<Longrightarrow> ?thesis"
    by (auto simp: terminal_close_hook_def Let_def del_conn_def del_tab_def connecting_done_def events_off_def call_def split: option.split)
qed

lemma close_tab_term:
  assumes ok: "store_ok w" and t: "t \<in> set (open_tabs w)"
  shows "term_of (closeTab app_hooks (tb_id t) w) = terminal_close_hook t (term_of w)"
proof -
  from t obtain xs ys where split: "open_tabs w = xs @ t # ys" by (auto dest: split_list)
  from store_okD(1) [OF ok] have d: "distinct (tab_ids w)" .
  have "closeTab app_hooks (tb_id t) w = set_state (xs @ ys) (if active_id w = Some (tb_id t) then neighbour xs ys else active_id w)
      (w\<lparr>ap_rest := run_close_hooks app_hooks [t] (ap_rest w)\<rparr>)"
    using closeTab_split [of w xs t ys app_hooks] split d by simp
  then show ?thesis by (simp add: close_hooks_term)
qed

text \<open>C17: closing a terminal tab, in any state a run can reach, frees the panes the tab holds: every
  pane's directory is no longer followed, every connected session is disconnected once, over its own
  transport, and every terminal view is disposed, in the order of the panes; no other session is touched. Of the
  connections under way only the first one of the tab, which has the tab's id, is cancelled: a tab that connects
  again leaves its connection and its listener behind.\<close>
theorem closing_tab_frees_sessions:
  assumes "quiet (term_of w0)" and "tabs_ok (open_tabs w0) (active_id w0)"
    and "(term_step cfg)\<^sup>*\<^sup>* (terminal_restore_hook (tabs_of_type TT_terminal (open_tabs w0)) w0) w"
    and "t \<in> set (open_tabs w)" and "tb_type t = TT_terminal"
  shows "let w' = closeTab app_hooks (tb_id t) w; s = term_of w; s' = term_of w'
    in \<exists>d. map_of (tm_tabData s) (tb_id t) = Some d \<and>
      tm_calls s' = tm_calls s @
        (if map_of (tm_connections s) (tb_id t) = None then [] else [C_CancelSSHConnect (tb_id t)]) @
        concat (map (pane_closing_calls (tm_syncListeners s)) (map snd (td_panes d))) \<and>
      tm_syncListeners s' = tm_syncListeners s - fst ` set (td_panes d) \<and>
      map_of (tm_tabData s') = (map_of (tm_tabData s))(tb_id t := None) \<and>
      map_of (tm_connections s') = (map_of (tm_connections s))(tb_id t := None) \<and>
      (\<forall>x. snd (fst x) \<noteq> tb_id t \<longrightarrow> x \<in> set (tm_listeners s) \<longrightarrow> x \<in> set (tm_listeners s'))"
proof -
  have ok: "store_ok w" by (rule term_steps_store [OF assms(3) store_ok_world [OF world_ok_restored [OF assms(1,2)]]])
  from assms(4,5) store_okD(2) [OF ok] have "tb_id t \<in> dom (tabs_of (term_of w))" by (auto simp: terminal_ids_def)
  then obtain d where d: "tabs_of (term_of w) (tb_id t) = Some d" by auto
  from all_panesD [OF store_okD(3) [OF ok] d] have p_ok: "panes_ok d" .
  then have ids: "map pn_sessionId (map snd (td_panes d)) = map fst (td_panes d)" by (auto simp: panes_ok_def)
  have dist: "distinct (map pn_sessionId (map snd (td_panes d)))" unfolding ids using p_ok by (simp add: panes_ok_def)
  from ids have sessions: "pn_sessionId ` set (map snd (td_panes d)) = fst ` set (td_panes d)"
    by (metis list.set_map)
  note parts = close_panes_parts [OF dist]
  have lookup: "map_of (tm_tabData s) = tabs_of s" for s by (simp add: tabs_of_def)
  have d': "map_of (tm_tabData (term_of w)) (tb_id t) = Some d" using d by (simp add: lookup)
  have calls: "tm_calls (terminal_close_hook t s) = tm_calls s @ (if map_of (tm_connections s) (tb_id t) = None then [] else [C_CancelSSHConnect (tb_id t)]) @
        concat (map (pane_closing_calls (tm_syncListeners s)) (map snd (td_panes d))) \<and>
      tm_syncListeners (terminal_close_hook t s) = tm_syncListeners s - fst ` set (td_panes d)"
    if "map_of (tm_tabData s) (tb_id t) = Some d" for s
    using parts that assms(5) sessions by (auto simp: terminal_close_hook_def Let_def split: option.split)
  note p = close_hook_parts [OF assms(5), of "term_of w"]
  show ?thesis
    unfolding Let_def close_tab_term [OF ok assms(4)]
  proof (rule exI [of _ d], intro conjI)
    show "map_of (tm_connections (terminal_close_hook t (term_of w))) = (map_of (tm_connections (term_of w)))(tb_id t := None)"
      by (rule close_hook_conns [OF assms(5)])
    show "map_of (tm_tabData (terminal_close_hook t (term_of w))) = (map_of (tm_tabData (term_of w)))(tb_id t := None)" unfolding lookup using p by simp
    show "\<forall>x. snd (fst x) \<noteq> tb_id t \<longrightarrow> x \<in> set (tm_listeners (term_of w)) \<longrightarrow> x \<in> set (tm_listeners (terminal_close_hook t (term_of w)))"
      using p by (fastforce split: prod.splits)
  qed (rule d', rule conjunct1 [OF calls [OF d']], rule conjunct2 [OF calls [OF d']])
qed

text \<open>A run that opens a session and closes its tab: the session is disconnected and its view disposed.\<close>

theorem closing_tab_frees_sessions_witness:
  "tm_calls (term_of (closeTab app_hooks ''s1'' ex_open)) =
     tm_calls (term_of ex_open) @ [C_SyncOff ''s1'', C_DisconnectSSH ''s1'', C_DisposeTerminal ''s1''] \<and>
   ''s1'' \<notin> tm_syncListeners (term_of (closeTab app_hooks ''s1'' ex_open))"
proof -
  have t: "(connect_tab ex_request ''c1'')\<lparr>tb_id := ''s1''\<rparr> \<in> set (open_tabs ex_open)" "tb_type ((connect_tab ex_request ''c1'')\<lparr>tb_id := ''s1''\<rparr>) = TT_terminal"
    by (simp_all add: ex_open_more(1) connect_tab_def)
  have c: "map_of (tm_tabData (term_of ex_open)) ''s1'' = Some (first_data ''c1'' ''s1'' (connected_pane ''s1'' Ssh 7) (opened_data ''c1'' (Some ''ls'')))"
    "map_of (tm_connections (term_of ex_open)) ''s1'' = None" "''s1'' \<in> tm_syncListeners (term_of ex_open)"
    by (simp_all add: ex_open_parts ex_open_more ex_open_followed)
  from closing_tab_frees_sessions [OF ex_window_start(1,2), unfolded ex_window_start(3), OF orderly_run [OF ex_open_run] t] c
  show ?thesis
    by (simp add: Let_def first_data_def opened_data_def connected_pane_def pane_closing_calls_def)
qed

section \<open>A split that fails\<close>

lemma remove_leaf_absent: "i \<notin> set (leaf_ids tree) \<Longrightarrow> removeNode tree i = Some tree"
  by (induction tree) auto

lemma split_undone:
  assumes "distinct (leaf_ids tree)" and "a \<in> set (getSessionIds tree)" and "p \<notin> set (leaf_ids tree)"
  shows "removeNode (replaceNode tree a (N_split dir r (N_terminal a) (N_pending p))) p = Some tree"
  using assms
proof (induction tree)
  case (N_split d r' f s)
  show ?case
  proof (cases "a \<in> set (leaf_ids f)")
    case True
    with N_split.prems session_leaf [of s] have "a \<notin> set (leaf_ids s)" "a \<in> set (getSessionIds f)" by auto
    with N_split show ?thesis by (simp add: replace_absent remove_leaf_absent)
  next
    case False
    with N_split.prems session_leaf [of f] have "a \<in> set (getSessionIds s)" by auto
    with N_split False show ?thesis by (simp add: replace_absent remove_leaf_absent)
  qed
qed auto

lemma rejected_undoes:
  assumes "tabs_of s i = Some d" and "removeNode (td_splitTree (divide dir p d)) p = Some (td_splitTree d)"
  shows "tabs_of (split_rejected i p (wait (W_split i p) (call k (set_tab i (divide dir p d) s)))) = tabs_of s"
proof -
  have "(divide dir p d)\<lparr>td_splitTree := td_splitTree d\<rparr> = d" by (simp add: divide_def)
  with assms show ?thesis
    by (simp add: split_rejected_def on_tab_def map_of_lookup fun_upd_idem)
qed

text \<open>A split the backend refuses leaves the tabs as they were: the tree the pane was in, with its
  ratios, comes back, and no split is pending any more.\<close>
theorem failed_split_undone:
  assumes "map_of (tm_tabData s) i = Some d" and "distinct (leaf_ids (td_splitTree d))"
    and "td_activePaneId d \<in> set (getSessionIds (td_splitTree d))"
    and "''pending-'' @ int_str now \<notin> set (leaf_ids (td_splitTree d))"
    and "case map_of (td_panes d) (td_activePaneId d) of None \<Rightarrow> True | Some p \<Rightarrow> pn_transport p = Ssh"
  shows "let s' = split_rejected i (''pending-'' @ int_str now) (splitPane i dir now s)
    in map_of (tm_tabData s') = map_of (tm_tabData s) \<and> tm_waiting s' = tm_waiting s"
proof -
  let ?p = "''pending-'' @ int_str now"
  from assms(1,5) have split: "splitPane i dir now s = wait (W_split i ?p) (call (C_SplitSSH (td_activePaneId d)) (set_tab i (divide dir ?p d) s))"
    by (auto simp: splitPane_def Let_def on_tab_def divide_def split: option.splits)
  have restored: "removeNode (td_splitTree (divide dir ?p d)) ?p = Some (td_splitTree d)"
    using split_undone [OF assms(2-4)] by (simp add: divide_def)
  have "tabs_of s i = Some d" using assms(1) by (simp add: tabs_of_def)
  then have "tabs_of (split_rejected i ?p (splitPane i dir now s)) = tabs_of s"
    unfolding split by (rule rejected_undoes) (rule restored)
  moreover have "tm_waiting (split_rejected i ?p (splitPane i dir now s)) = tm_waiting s"
    unfolding split split_rejected_def on_tab_def by (simp split: option.split)
  ultimately show ?thesis by (simp add: tabs_of_def)
qed

theorem failed_split_undone_witness:
  "map_of (tm_tabData (split_rejected ''s1'' (''pending-'' @ int_str 5) (splitPane ''s1'' Horizontal 5 (term_of ex_open)))) =
   map_of (tm_tabData (term_of ex_open))"
  using failed_split_undone [of "term_of ex_open" "''s1''" _ 5 Horizontal]
  by (simp add: ex_open_parts first_data_def opened_data_def connected_pane_def Let_def)

section \<open>Retrying a connection of an open tab\<close>

text \<open>C21: while an open tab of an asset connects again, the view of its leaf offers to retry or cancel the
  connection. Retrying (with or without a new password) asks the backend for no connection: the old connection is
  dropped and a tab of the asset is only shown. Cancelling it tells the backend and drops the connection. After
  both the tab is still there, with a leaf that connects under the id of a connection that is gone: no event, retry
  or cancel under that id has an effect any more. This is what the code does, and not what a retry is for.\<close>
theorem retry_of_reconnect_strands_pane:
  assumes "map_of (tm_tabData (term_of w)) i = Some d" and "c \<in> set (connecting_ids (td_splitTree d))"
    and "map_of (tm_tabData (term_of w)) c = None" and "c \<notin> set (map tb_id (open_tabs w))"
    and "map_of (tm_connections (term_of w)) c = Some conn"
    and "find (\<lambda>a. as_ID a = cn_assetId conn) (st_assets (ap_rest w)) = Some asset"
    and "find (terminal_tab_of (as_ID asset)) (open_tabs w) = Some tab"
  shows "let w' = retryConnect cfg c pw w; s' = term_of w'; w'' = cancelConnect c w; s'' = term_of w''
    in tm_calls s' = tm_calls (term_of w) @
        (case pw of None \<Rightarrow> [] | Some p \<Rightarrow> if p = [] then [] else [C_UpdateAssetPassword (cn_assetId conn) p]) \<and>
      tm_waiting s' = tm_waiting (term_of w) \<and> open_tabs w' = open_tabs w \<and> active_id w' = Some (tb_id tab) \<and>
      map_of (tm_tabData s') i = Some d \<and> map_of (tm_connections s') c = None \<and>
      retryConnect cfg c pw' w' = w' \<and> cancelConnect c w' = w' \<and> on_event t c l now e w' = w' \<and>
      tm_calls s'' = tm_calls (term_of w) @ [C_CancelSSHConnect c] \<and> open_tabs w'' = open_tabs w \<and>
      map_of (tm_tabData s'') i = Some d \<and> map_of (tm_connections s'') c = None \<and>
      retryConnect cfg c pw' w'' = w'' \<and> cancelConnect c w'' = w'' \<and> on_event t c l now e w'' = w''"
proof -
  from assms(1,3) have i: "i \<noteq> c" by auto
  have T: "tabs_of (term_of w) i = Some d" using assms(1) by (simp add: tabs_of_def)
  have closed: "closeTab app_hooks c w0 = w0" if "open_tabs w0 = open_tabs w" for w0
    by (rule closeTab_absent) (use assms(4) that in simp)
  have gone: "map_of (tm_connections s) c = None \<longleftrightarrow> c \<notin> conns_of s" for s by (auto simp: conns_of_def)
  have dead: "retryConnect cfg c pw' w1 = w1 \<and> cancelConnect c w1 = w1 \<and> on_event t c l now e w1 = w1"
    if "map_of (tm_connections (term_of w1)) c = None" for w1
    using that by (simp add: retryConnect_def cancelConnect_def on_event_def)
  have retried: "tm_calls (term_of (retryConnect cfg c pw w)) = tm_calls (term_of w) @
        (case pw of None \<Rightarrow> [] | Some p \<Rightarrow> if p = [] then [] else [C_UpdateAssetPassword (cn_assetId conn) p]) \<and>
      tm_waiting (term_of (retryConnect cfg c pw w)) = tm_waiting (term_of w) \<and> open_tabs (retryConnect cfg c pw w) = open_tabs w \<and>
      active_id (retryConnect cfg c pw w) = Some (tb_id tab) \<and> tabs_of (term_of (retryConnect cfg c pw w)) i = Some d \<and>
      c \<notin> conns_of (term_of (retryConnect cfg c pw w))"
    using assms(5-7) i T by (cases pw) (auto simp: retryConnect_def Let_def closed connect_def activateTab_def)
  have cancelled: "tm_calls (term_of (cancelConnect c w)) = tm_calls (term_of w) @ [C_CancelSSHConnect c] \<and>
      open_tabs (cancelConnect c w) = open_tabs w \<and> tabs_of (term_of (cancelConnect c w)) i = Some d \<and>
      c \<notin> conns_of (term_of (cancelConnect c w))"
    using assms(5) i T by (auto simp: cancelConnect_def closed)
  from retried cancelled dead gone show ?thesis by (simp add: Let_def map_of_lookup)
qed

definition ex_again_request :: reconnect_request where
  "ex_again_request = \<lparr>rr_tabId = ''s1'', rr_sessionId = ''s1'',
     rr_meta = \<lparr>tm_assetId = 1, tm_assetName = ''web'', tm_assetIcon = [], tm_host = [], tm_port = 22, tm_username = []\<rparr>, rr_transport = Ssh\<rparr>"

definition ex_again :: world where
  "ex_again = reconnect_resolved ex_again_request ''c2'' (reconnect ''s1'' ex_open)"

lemma reconnect_rest:
  "conns_of (term_of (reconnect i w)) = conns_of (term_of w)" "tm_listeners (term_of (reconnect i w)) = tm_listeners (term_of w)"
  "splits_of (term_of (reconnect i w)) = splits_of (term_of w)" "st_assets (ap_rest (reconnect i w)) = st_assets (ap_rest w)"
proof -
  have s: "conns_of (leave_session data t s) = conns_of s" "tm_listeners (leave_session data t s) = tm_listeners s"
    "splits (tm_waiting (leave_session data t s)) = splits (tm_waiting s)" for data t s
    using same_parts_leave [of s data t] by (auto simp: same_parts_def splits_of_def)
  show "conns_of (term_of (reconnect i w)) = conns_of (term_of w)" "tm_listeners (term_of (reconnect i w)) = tm_listeners (term_of w)"
    "splits_of (term_of (reconnect i w)) = splits_of (term_of w)" "st_assets (ap_rest (reconnect i w)) = st_assets (ap_rest w)"
    by (auto simp: reconnect_def Let_def s splits_of_def split: option.split tab_meta.split)
qed

lemma ex_open_views:
  "tabs_of (term_of ex_open) = [''s1'' \<mapsto> first_data ''c1'' ''s1'' (connected_pane ''s1'' Ssh 7) (opened_data ''c1'' (Some ''ls''))]"
  "conns_of (term_of ex_open) = {}" "splits_of (term_of ex_open) = []" "asked_of (term_of ex_open) = []"
  by (simp_all add: part_defs ex_open_parts ex_open_more)

lemma ex_again_parts:
  "tm_listeners (term_of ex_again) = [((Ssh, ''c2''), L_reconnect ''s1'' Ssh)]"
  "map_of (tm_connections (term_of ex_again)) ''c2'' = Some (new_connection ''c2'' 1 ''web'' Ssh [])"
  "open_tabs ex_again = [(connect_tab ex_request ''c1'')\<lparr>tb_id := ''s1''\<rparr>]" "st_assets (ap_rest ex_again) = [ex_asset]"
  "map_of (tm_tabData (term_of ex_again)) ''s1'' =
     Some \<lparr>td_splitTree = N_connecting ''c2'', td_activePaneId = ''c2'', td_panes = [],
           td_directoryFollowMode = Follow_off, td_pendingInput = None\<rparr>"
  by (simp_all add: ex_again_def reconnect_resolved_def Let_def map_of_lookup reconnect_parts reconnect_rest ex_open_more ex_open_parts
      ex_open_views first_data_def opened_data_def ex_again_request_def del_prop_def set_conn_def events_on_def)

theorem retry_of_reconnect_strands_pane_witness:
  "map_of (tm_connections (term_of (retryConnect (\<lambda>a. None) ''c2'' None ex_again))) ''c2'' = None \<and>
   tm_waiting (term_of (retryConnect (\<lambda>a. None) ''c2'' None ex_again)) = tm_waiting (term_of ex_again) \<and>
   retryConnect (\<lambda>a. None) ''c2'' None (cancelConnect ''c2'' ex_again) = cancelConnect ''c2'' ex_again"
proof -
  have "tabs_of (term_of ex_again) ''c2'' = None"
    by (simp add: ex_again_def reconnect_resolved_def Let_def map_of_lookup reconnect_parts ex_open_views ex_again_request_def split: option.split)
  then have "map_of (tm_tabData (term_of ex_again)) ''c2'' = None" by (simp add: tabs_of_def)
  from retry_of_reconnect_strands_pane [OF ex_again_parts(5) _ this _ ex_again_parts(2), of ex_asset "(connect_tab ex_request ''c1'')\<lparr>tb_id := ''s1''\<rparr>" "\<lambda>a. None" None None]
  show ?thesis
    by (simp add: ex_again_parts new_connection_def ex_asset_def connect_tab_def terminal_tab_of_def ex_request_def Let_def)
qed

section \<open>A connection under way can be established\<close>

lemma connected_tabs_first:
  assumes "map_of (tm_connections (term_of w)) c \<noteq> None" and "tabs_of (term_of w) c = Some d"
  shows "tabs_of (term_of (on_event t c (L_connect a s) now (E_connected sid) w)) =
    (tabs_of (term_of w))(c := None, sid \<mapsto> first_data c sid (connected_pane sid (transport_of s) now) d)"
  using assms
  by (auto simp: on_event_def on_connected_def first_connected_def Let_def map_of_lookup on_finished_def writeSessionInput_def split: option.split)

lemma connected_tabs_again:
  assumes "map_of (tm_connections (term_of w)) c \<noteq> None" and "tabs_of (term_of w) i = Some d"
  shows "tabs_of (term_of (on_event t c (L_reconnect i u) now (E_connected sid) w)) =
    (tabs_of (term_of w))(i \<mapsto> seat c sid (connected_pane sid u now) d)"
  using assms
  by (auto simp: on_event_def on_connected_def again_connected_def Let_def map_of_lookup on_finished_def seat_def split: option.split)

text \<open>No pane is left connecting for want of a listener: in every state an orderly run reaches, for every leaf that
  connects, the event that reports its session leads to a state in which the leaf is a connected pane
  with that session, in the same tab (which takes the session's id when it was the tab's first connection).\<close>
theorem connecting_pane_can_connect:
  assumes "quiet (term_of w0)" and "tabs_ok (open_tabs w0) (active_id w0)"
    and "(orderly_step cfg)\<^sup>*\<^sup>* (terminal_restore_hook (tabs_of_type TT_terminal (open_tabs w0)) w0) w"
    and "map_of (tm_tabData (term_of w)) i = Some d" and "c \<in> set (connecting_ids (td_splitTree d))" and "fresh sid w"
  shows "\<exists>t l. ((t, c), l) \<in> set (tm_listeners (term_of w)) \<and>
    (\<exists>w' j d' p. w' = on_event t c l now (E_connected sid) w \<and> term_step cfg w w' \<and> j \<in> {i, sid} \<and>
       map_of (tm_tabData (term_of w')) j = Some d' \<and> map_of (td_panes d') sid = Some p \<and> pn_connected p \<and>
       sid \<in> set (getSessionIds (td_splitTree d')) \<and> c \<notin> set (connecting_ids (td_splitTree d')))"
proof -
  from orderly_steps_ok [OF assms(3) world_ok_restored [OF assms(1,2)]] have ok: "world_ok w" .
  note inv = world_okD(1) [OF ok]
  from assms(4) have d: "tabs_of (term_of w) i = Some d" by (simp add: tabs_of_def)
  from term_invD(2) [OF inv d] assms(5) obtain t l
    where c: "c \<in> conns_of (term_of w)" and l: "((t, c), l) \<in> set (tm_listeners (term_of w))" "listener_tab c l = i"
    by (auto simp: connecting_ok_def)
  from c have conn: "map_of (tm_connections (term_of w)) c \<noteq> None" by (auto simp: conns_of_def)
  let ?w = "on_event t c l now (E_connected sid) w"
  have step: "term_step cfg w ?w" by (rule st_event [OF l(1)]) (use assms(6) in auto)
  have ok': "world_ok ?w" by (rule world_ok_event [OF ok l(1)]) (use assms(6) in auto)
  have data: "data_ok e \<Longrightarrow> sid \<in> fst ` set (td_panes e) \<Longrightarrow> sid \<in> sessions_of e" for e by (simp add: data_ok_panes)
  have "\<exists>j d' p. j \<in> {i, sid} \<and> tabs_of (term_of ?w) j = Some d' \<and> map_of (td_panes d') sid = Some p \<and> pn_connected p \<and> c \<notin> connecting_of d'"
  proof (cases l)
    case (L_connect a b)
    with l d have ci: "i = c" by (simp add: listener_tab_def)
    with term_invD(3) [OF inv l(1)] L_connect d have tree: "td_splitTree d = N_connecting c" by (simp add: listener_ok_def)
    have "tabs_of (term_of ?w) sid = Some (first_data c sid (connected_pane sid (transport_of b) now) d)"
      using connected_tabs_first [OF conn, of d] d ci L_connect by simp
    then show ?thesis
      by (intro exI [of _ sid] exI [of _ "first_data c sid (connected_pane sid (transport_of b) now) d"] exI [of _ "connected_pane sid (transport_of b) now"])
        (simp add: first_data_def tree connected_pane_def)
  next
    case (L_reconnect k u)
    with l have k: "k = i" by (simp add: listener_tab_def)
    have s: "tabs_of (term_of ?w) i = Some (seat c sid (connected_pane sid u now) d)"
      using connected_tabs_again [OF conn, of i d] d k L_reconnect by simp
    from term_invD(1) [OF inv d] data_ok_kinds [of d] assms(5,6) d
    have "data_ok d" "c \<in> leaves_of d" "c \<notin> sessions_of d" "sid \<notin> leaves_of d" by (auto simp: fresh_def unused_def)
    then have "c \<notin> connecting_of (seat c sid (connected_pane sid u now) d)"
      using seat_ok(2) [of d c sid "connected_pane sid u now"] by (simp add: connected_pane_def)
    then show ?thesis
      by (intro exI [of _ i] exI [of _ "seat c sid (connected_pane sid u now) d"] exI [of _ "connected_pane sid u now"])
        (simp add: s, simp add: seat_def connected_pane_def)
  qed
  then obtain j d' p where j: "j \<in> {i, sid}" "tabs_of (term_of ?w) j = Some d'" "map_of (td_panes d') sid = Some p" "pn_connected p" "c \<notin> connecting_of d'"
    by blast
  from j(3) have "sid \<in> fst ` set (td_panes d')" by (metis domI dom_map_of_conv_image_fst)
  with term_invD(1) [OF world_okD(1) [OF ok'] j(2)] data have "sid \<in> sessions_of d'" by blast
  moreover from j(2) have "map_of (tm_tabData (term_of ?w)) j = Some d'" by (simp add: tabs_of_def)
  ultimately show ?thesis using j(1,3-5) l(1) step by blast
qed

theorem connecting_pane_can_connect_witness:
  "\<exists>w' j d' p. term_step (\<lambda>a. None) ex_opening w' \<and> j \<in> {''c1'', ''s1''} \<and>
     map_of (tm_tabData (term_of w')) j = Some d' \<and> map_of (td_panes d') ''s1'' = Some p \<and> pn_connected p"
proof -
  have "map_of (tm_tabData (term_of ex_opening)) ''c1'' = Some (opened_data ''c1'' (Some ''ls''))"
    "''c1'' \<in> connecting_of (opened_data ''c1'' (Some ''ls''))"
    by (simp_all add: ex_opening_parts opened_data_def)
  from connecting_pane_can_connect [OF ex_window_start(1,2), unfolded ex_window_start(3), OF ex_run_opening this ex_fresh, of 7]
  show ?thesis by blast
qed

end
