(* ===== verification/Keyboard.thy ===== *)
theory Keyboard
  imports Shortcuts TerminalSteps
begin

text \<open>
  The layout of the window (\<^verbatim>\<open>stores/layoutStore.ts\<close>) and the handler of key events
  (\<^verbatim>\<open>hooks/useKeyboardShortcuts.ts\<close>), which acts on the tabs, the terminals, the layout and the
  shortcuts at once.
\<close>

section \<open>The layout\<close>

datatype tab_bar_layout = Top | Left

datatype side_panel = SP_assets | SP_tabs

record saved_layout =
  sl_tabBarLayout :: "tab_bar_layout option"
  sl_leftPanelWidth :: "rat option"
  sl_leftPanelVisible :: "bool option"
  sl_activeSidePanel :: "side_panel option"

record layout_store =
  ly_tabBarLayout :: tab_bar_layout
  ly_leftPanelWidth :: int
  ly_leftPanelVisible :: bool
  ly_activeSidePanel :: side_panel
  ly_filterOpen :: bool
  ly_saved :: "saved_layout item"

definition MIN_PANEL_WIDTH :: int where "MIN_PANEL_WIDTH = 48"
definition COLLAPSE_THRESHOLD :: int where "COLLAPSE_THRESHOLD = 100"
definition DEFAULT_PANEL_WIDTH :: int where "DEFAULT_PANEL_WIDTH = 220"

definition isCollapsed :: "layout_store \<Rightarrow> bool" where
  "isCollapsed s \<longleftrightarrow> ly_leftPanelWidth s < COLLAPSE_THRESHOLD"

text \<open>\<open>Math.round\<close> rounds a half up.\<close>

definition clampWidth :: "int \<Rightarrow> rat \<Rightarrow> int" where
  "clampWidth innerWidth w = max MIN_PANEL_WIDTH (min (innerWidth div 2) \<lfloor>w + 1 / 2\<rfloor>)"

text \<open>The subscriber: what is kept changes with the four fields.\<close>

definition save_layout :: "layout_store \<Rightarrow> layout_store \<Rightarrow> layout_store" where
  "save_layout prev s =
     (if ly_tabBarLayout s \<noteq> ly_tabBarLayout prev \<or> ly_leftPanelWidth s \<noteq> ly_leftPanelWidth prev \<or>
         ly_leftPanelVisible s \<noteq> ly_leftPanelVisible prev \<or> ly_activeSidePanel s \<noteq> ly_activeSidePanel prev
      then s\<lparr>ly_saved := Stored \<lparr>sl_tabBarLayout = Some (ly_tabBarLayout s), sl_leftPanelWidth = Some (of_int (ly_leftPanelWidth s)),
             sl_leftPanelVisible = Some (ly_leftPanelVisible s), sl_activeSidePanel = Some (ly_activeSidePanel s)\<rparr>\<rparr>
      else s)"

definition upd_layout :: "(layout_store \<Rightarrow> layout_store) \<Rightarrow> layout_store \<Rightarrow> layout_store" where
  "upd_layout f s = save_layout s (f s)"

definition setLayout :: "tab_bar_layout \<Rightarrow> layout_store \<Rightarrow> layout_store" where
  "setLayout l = upd_layout (\<lambda>s. s\<lparr>ly_tabBarLayout := l, ly_filterOpen := False\<rparr>)"

definition setPanelWidth :: "int \<Rightarrow> rat \<Rightarrow> layout_store \<Rightarrow> layout_store" where
  "setPanelWidth innerWidth w = upd_layout (\<lambda>s. s\<lparr>ly_leftPanelWidth := clampWidth innerWidth w\<rparr>)"

definition toggleVisible :: "layout_store \<Rightarrow> layout_store" where
  "toggleVisible = upd_layout (\<lambda>s. s\<lparr>ly_leftPanelVisible := \<not> ly_leftPanelVisible s\<rparr>)"

definition switchPanel :: "layout_store \<Rightarrow> layout_store" where
  "switchPanel = upd_layout (\<lambda>s. s\<lparr>ly_activeSidePanel := (if ly_activeSidePanel s = SP_assets then SP_tabs else SP_assets)\<rparr>)"

definition setActivePanel :: "side_panel \<Rightarrow> layout_store \<Rightarrow> layout_store" where
  "setActivePanel p = upd_layout (\<lambda>s. s\<lparr>ly_activeSidePanel := p\<rparr>)"

definition setFilterOpen :: "bool \<Rightarrow> layout_store \<Rightarrow> layout_store" where
  "setFilterOpen b = upd_layout (\<lambda>s. s\<lparr>ly_filterOpen := b\<rparr>)"

definition requestOpenFilter :: "layout_store \<Rightarrow> layout_store" where
  "requestOpenFilter = upd_layout (\<lambda>s.
     if ly_tabBarLayout s = Left then s\<lparr>ly_filterOpen := True, ly_activeSidePanel := SP_tabs, ly_leftPanelVisible := True\<rparr>
     else s\<lparr>ly_filterOpen := True\<rparr>)"

definition layout_default :: "saved_layout item \<Rightarrow> layout_store" where
  "layout_default raw =
     \<lparr>ly_tabBarLayout = Top, ly_leftPanelWidth = DEFAULT_PANEL_WIDTH, ly_leftPanelVisible = True,
      ly_activeSidePanel = SP_assets, ly_filterOpen = False, ly_saved = raw\<rparr>"

definition or_default :: "'a option \<Rightarrow> 'a \<Rightarrow> 'a" where
  "or_default x d = (case x of None \<Rightarrow> d | Some y \<Rightarrow> y)"

definition restore_layout :: "int \<Rightarrow> saved_layout item \<Rightarrow> layout_store" where
  "restore_layout innerWidth raw =
     (case raw of
        Stored d \<Rightarrow> (layout_default raw)
          \<lparr>ly_tabBarLayout := or_default (sl_tabBarLayout d) Top,
           ly_leftPanelWidth := clampWidth innerWidth (or_default (sl_leftPanelWidth d) (of_int DEFAULT_PANEL_WIDTH)),
           ly_leftPanelVisible := or_default (sl_leftPanelVisible d) True,
           ly_activeSidePanel := or_default (sl_activeSidePanel d) SP_assets\<rparr>
      | _ \<Rightarrow> layout_default raw)"

lemma clamp_width_bounds: "MIN_PANEL_WIDTH \<le> clampWidth v w" "clampWidth v w \<le> max MIN_PANEL_WIDTH (v div 2)"
  by (auto simp: clampWidth_def)

lemma clamp_width_again: "clampWidth v (of_int (clampWidth v w)) = clampWidth v w"
proof -
  have "\<lfloor>rat_of_int i + 1 / 2\<rfloor> = i" for i by (rule floor_unique) simp_all
  then show ?thesis by (simp add: clampWidth_def)
qed

section \<open>Key events\<close>

datatype callback = CB_toggleAIPanel | CB_toggleSidebar | CB_toggleCommandPalette

record desk =
  dk_world :: world
  dk_layout :: layout_store
  dk_shortcuts :: shortcut_store
  dk_callbacks :: "callback list"

text \<open>Where the event went: an input element outside a terminal, and whether a terminal has the focus.\<close>

record key_target =
  kt_inputOutsideXterm :: bool
  kt_focusInXterm :: bool

definition on_world :: "(world \<Rightarrow> world) \<Rightarrow> desk \<Rightarrow> desk" where
  "on_world f d = d\<lparr>dk_world := f (dk_world d)\<rparr>"

definition on_layout :: "(layout_store \<Rightarrow> layout_store) \<Rightarrow> desk \<Rightarrow> desk" where
  "on_layout f d = d\<lparr>dk_layout := f (dk_layout d)\<rparr>"

definition callback :: "callback \<Rightarrow> desk \<Rightarrow> desk" where
  "callback c d = d\<lparr>dk_callbacks := dk_callbacks d @ [c]\<rparr>"

text \<open>The number of \<open>tab.1\<close> to \<open>tab.9\<close> (and of \<open>tab.0\<close>, which is no action), as an index.\<close>

definition tab_number :: "string \<Rightarrow> int option" where
  "tab_number action =
     (case strip_prefix ''tab.'' action of
        Some [c] \<Rightarrow> if is_digit c then Some (int (digit_val c) - 1) else None
      | _ \<Rightarrow> None)"

definition active_tab :: "world \<Rightarrow> tab option" where
  "active_tab w = find (\<lambda>t. Some (tb_id t) = active_id w) (open_tabs w)"

definition active_terminal :: "world \<Rightarrow> bool" where
  "active_terminal w \<longleftrightarrow> (case active_tab w of None \<Rightarrow> False | Some t \<Rightarrow> tb_type t = TT_terminal)"

definition key_close :: "world \<Rightarrow> world" where
  "key_close w =
     (case active_id w of
        None \<Rightarrow> w
      | Some i \<Rightarrow>
          if i = [] then w
          else if active_terminal w then
            (case map_of (tm_tabData (term_of w)) i of
               None \<Rightarrow> w
             | Some data \<Rightarrow> closePane i (td_activePaneId data) w)
          else closeTab app_hooks i w)"

definition current_index :: "world \<Rightarrow> int" where
  "current_index w =
     (case find_index (\<lambda>t. Some (tb_id t) = active_id w) (open_tabs w) of None \<Rightarrow> - 1 | Some k \<Rightarrow> int k)"

definition show_index :: "int \<Rightarrow> world \<Rightarrow> world" where
  "show_index k w = activateTab (tb_id (open_tabs w ! nat k)) w"

definition key_prev :: "world \<Rightarrow> world" where
  "key_prev w =
     (if open_tabs w = [] then w
      else let cur = current_index w
           in show_index (if cur \<le> 0 then int (length (open_tabs w)) - 1 else cur - 1) w)"

definition key_next :: "world \<Rightarrow> world" where
  "key_next w =
     (if open_tabs w = [] then w
      else let cur = current_index w
           in show_index (if cur \<ge> int (length (open_tabs w)) - 1 then 0 else cur + 1) w)"

definition key_split :: "split_direction \<Rightarrow> int \<Rightarrow> world \<Rightarrow> world" where
  "key_split dir now w =
     (case active_id w of
        Some i \<Rightarrow> if active_terminal w then upd_term (splitPane i dir now) w else w
      | None \<Rightarrow> w)"

definition open_page :: "string \<Rightarrow> world \<Rightarrow> world" where
  "open_page i w =
     (if find (\<lambda>t. tb_id t = i) (open_tabs w) \<noteq> None then activateTab i w
      else openTab \<lparr>tb_id = i, tb_type = TT_page, tb_label = i, tb_icon = None, tb_iconColor = None,
                    tb_meta = PageMeta \<lparr>pm_pageId = i, pm_extensionName = None, pm_assetId = None\<rparr>\<rparr> True w)"

definition open_home :: "world \<Rightarrow> world" where
  "open_home w =
     (case find (\<lambda>t. tb_type t = TT_terminal \<or> tb_type t = TT_info) (open_tabs w) of
        None \<Rightarrow> w
      | Some t \<Rightarrow> activateTab (tb_id t) w)"

definition switch_side :: "layout_store \<Rightarrow> layout_store" where
  "switch_side s = (if \<not> ly_leftPanelVisible s then toggleVisible (switchPanel s) else switchPanel s)"

definition run_action :: "string \<Rightarrow> int \<Rightarrow> desk \<Rightarrow> desk" where
  "run_action action now d =
     (case tab_number action of
        Some k \<Rightarrow>
          if 0 \<le> k \<and> k < int (length (open_tabs (dk_world d))) then on_world (show_index k) d else d
      | None \<Rightarrow>
          if action = ''tab.close'' then on_world key_close d
          else if action = ''tab.prev'' then on_world key_prev d
          else if action = ''tab.next'' then on_world key_next d
          else if action = ''split.vertical'' then on_world (key_split Vertical now) d
          else if action = ''split.horizontal'' then on_world (key_split Horizontal now) d
          else if action = ''panel.switch'' then on_layout switch_side d
          else if action = ''panel.ai'' then callback CB_toggleAIPanel d
          else if action = ''panel.sidebar'' then
            (if ly_tabBarLayout (dk_layout d) = Left then on_layout toggleVisible d else callback CB_toggleSidebar d)
          else if action = ''page.home'' then on_world open_home d
          else if action = ''page.settings'' then on_world (open_page ''settings'') d
          else if action = ''page.sshkeys'' then on_world (open_page ''sshkeys'') d
          else d)"

text \<open>The result says whether the event is kept from the page.\<close>

definition handle_key :: "bool \<Rightarrow> int \<Rightarrow> key_event \<Rightarrow> key_target \<Rightarrow> desk \<Rightarrow> bool \<times> desk" where
  "handle_key isMac now e target d =
     (if sh_isRecording (dk_shortcuts d) then (False, d)
      else case matchShortcut isMac e (sh_shortcuts (dk_shortcuts d)) of
        None \<Rightarrow> (False, d)
      | Some action \<Rightarrow>
          if action = [] then (False, d)
          else if action = ''command.quickopen'' then (True, callback CB_toggleCommandPalette d)
          else if kt_inputOutsideXterm target then (False, d)
          else if action = ''panel.filter'' then
            (if kt_focusInXterm target then (False, d) else (True, on_layout requestOpenFilter d))
          else (True, run_action action now d))"

section \<open>No key breaks the terminals\<close>

lemma desk_updates [simp]:
  "dk_world (on_world f d) = f (dk_world d)" "dk_world (on_layout g d) = dk_world d" "dk_world (callback c d) = dk_world d"
  by (simp_all add: on_world_def on_layout_def callback_def)

text \<open>At most one operation on the tabs and the terminals.\<close>

definition one_step :: "(asset \<Rightarrow> ssh_metadata option) \<Rightarrow> world \<Rightarrow> world \<Rightarrow> bool" where
  "one_step cfg w w' \<longleftrightarrow> w' = w \<or> term_step cfg w w'"

lemma one_step_refl [simp]: "one_step cfg w w"
  by (simp add: one_step_def)

lemma one_step_activate: "one_step cfg w (activateTab i w)"
  using st_tabs [of "ActivateTab i" cfg w] by (simp add: one_step_def)

lemma one_step_close: "one_step cfg w (closeTab app_hooks i w)"
  using st_tabs [of "CloseTab i" cfg w] by (simp add: one_step_def)

lemma one_step_open: "tb_type t \<noteq> TT_terminal \<Longrightarrow> one_step cfg w (openTab t f w)"
  using st_tabs [of "OpenTab t f" cfg w] by (simp add: one_step_def)

lemma one_step_pane: "one_step cfg w (closePane i sid w)" "one_step cfg w (upd_term (splitPane i dir now) w)"
  by (auto simp: one_step_def intro: term_step.intros)

lemma one_step_keys:
  "one_step cfg w (key_close w)" "one_step cfg w (key_prev w)" "one_step cfg w (key_next w)"
  "one_step cfg w (key_split dir now w)" "one_step cfg w (open_home w)" "one_step cfg w (open_page i w)" "one_step cfg w (show_index k w)"
  by (auto simp: key_close_def key_prev_def key_next_def key_split_def open_home_def open_page_def show_index_def Let_def
      intro!: one_step_activate one_step_close one_step_open one_step_pane split: option.split)

lemma one_step_if:
  "one_step cfg w (dk_world a) \<Longrightarrow> one_step cfg w (dk_world b) \<Longrightarrow> one_step cfg w (dk_world (if c then a else b))"
  by simp

lemma one_step_run_action: "one_step cfg (dk_world d) (dk_world (run_action action now d))"
  unfolding run_action_def
  by (cases "tab_number action"; simp only: option.case; intro one_step_if; simp add: one_step_keys)

lemma one_step_handle_key: "one_step cfg (dk_world d) (dk_world (snd (handle_key isMac now e target d)))"
  by (auto simp: handle_key_def one_step_run_action split: option.split)


definition ex_desk :: desk where
  "ex_desk = \<lparr>dk_world = ex_open, dk_layout = layout_default Absent, dk_shortcuts = shortcut_init Absent, dk_callbacks = []\<rparr>"

definition ex_close_key :: key_event where
  "ex_close_key = \<lparr>ke_code = ''KeyW'', ke_meta = False, ke_ctrl = True, ke_shift = False, ke_alt = False\<rparr>"

lemma ex_close_action: "matchShortcut False ex_close_key (sh_shortcuts (shortcut_init Absent)) = Some ''tab.close''"
  by code_simp


section \<open>Closing a pane that connects\<close>

text \<open>Closing the active pane by key while it connects, in a tab with other panes,
  takes the leaf out of the tree but leaves its connection and its listener, so the session that is
  established later is a pane of the tab that no leaf shows.\<close>

lemma close_connecting_pane_leaks:
  assumes ok: "world_ok w" and i: "active_id w = Some i" "i \<noteq> []" "active_terminal w"
    and d: "map_of (tm_tabData (term_of w)) i = Some d" and many: "length (getSessionIds (td_splitTree d)) > 1"
    and c: "td_activePaneId d \<in> connecting_of d"
  shows "map_of (tm_connections (term_of (key_close w))) (td_activePaneId d) \<noteq> None \<and>
    (\<exists>t l. ((t, td_activePaneId d), l) \<in> set (tm_listeners (term_of (key_close w)))) \<and>
    (\<exists>d'. map_of (tm_tabData (term_of (key_close w))) i = Some d' \<and> td_activePaneId d \<notin> leaves_of d')"
proof -
  note inv = world_okD(1) [OF ok]
  let ?c = "td_activePaneId d"
  from d have d': "tabs_of (term_of w) i = Some d" by (simp add: tabs_of_def)
  from term_invD(1) [OF inv d'] have dok: "data_ok d" .
  with c data_ok_kinds have nc: "?c \<notin> sessions_of d" by blast
  obtain tree where tree: "removeNode (td_splitTree d) ?c = Some tree"
  proof (cases "removeNode (td_splitTree d) ?c")
    case None
    with remove_None have "leaves_of d \<subseteq> {?c}" by blast
    with session_leaf [of "td_splitTree d"] have "sessions_of d \<subseteq> {?c}" by (rule_tac order_trans)
    with nc have "sessions_of d = {}" by (metis subset_singletonD insertI1)
    with many show ?thesis by simp
  qed
  have close: "key_close w = closePane i ?c w" using i d by (simp add: key_close_def)
  have eq: "closePane i ?c w = upd_term (\<lambda>s. call (C_DisposeTerminal ?c) (set_tab i (drop_leaf ?c tree d) s)) (upd_term (leave_pane ?c d) w)"
  proof -
    have "leave_pane ?c d = (\<lambda>s. let s1 = unregisterSessionSyncListener ?c s
        in case map_of (td_panes d) ?c of
             None \<Rightarrow> s1
           | Some pane \<Rightarrow> if pn_connected pane then disconnectSession ?c (pn_transport pane) s1 else s1)"
      by (rule ext) (simp add: leave_pane_def Let_def)
    with d' tree many show ?thesis by (simp add: closePane_def map_of_lookup Let_def drop_leaf_def)
  qed
  from term_invD(2) [OF inv d'] c obtain t l where conn: "?c \<in> conns_of (term_of w)" "((t, ?c), l) \<in> set (tm_listeners (term_of w))"
    by (auto simp: connecting_ok_def)
  from same_parts_leave_pane [of "term_of w" ?c d]
  have p: "conns_of (leave_pane ?c d (term_of w)) = conns_of (term_of w)" "tm_listeners (leave_pane ?c d (term_of w)) = tm_listeners (term_of w)"
    by (simp_all add: same_parts_def)
  have "map_of (tm_connections (term_of (key_close w))) ?c \<noteq> None"
  proof -
    have "?c \<in> conns_of (term_of (key_close w))" unfolding close eq using conn(1) p by simp
    then show ?thesis by (auto simp: conns_of_def)
  qed
  moreover have "((t, ?c), l) \<in> set (tm_listeners (term_of (key_close w)))" unfolding close eq using conn(2) p by simp
  moreover have "tabs_of (term_of (key_close w)) i = Some (drop_leaf ?c tree d)" unfolding close eq by simp
  moreover have "?c \<notin> leaves_of (drop_leaf ?c tree d)" using remove_leaf_ids [OF tree] by (auto simp: drop_leaf_def)
  ultimately show ?thesis by (auto simp: tabs_of_def)
qed

end
