(* ===== verification/MentionXml.thy ===== *)
theory MentionXml
  imports Prelude
begin

text \<open>
  Mentions of assets in a message (\<^verbatim>\<open>lib/mentionXml.ts\<close>): the tags as text, and the text as
  segments again. The regular expressions \<open>TAG_RE\<close> and \<open>ATTR_RE\<close> are matchers at a position, and the
  loops over \<open>re.exec\<close> try one position after the other.
\<close>

section \<open>Replacing every occurrence\<close>

text \<open>\<open>s.replace(/p/g, r)\<close> for a pattern that is a plain text.\<close>

definition replace_all :: "string \<Rightarrow> string \<Rightarrow> string \<Rightarrow> string" where
  "replace_all p r s = join r (split p s)"

lemma split_scan_cur: "split_scan p cur s = (cur @ hd (split_scan p [] s)) # tl (split_scan p [] s)" if "p \<noteq> []" for cur
proof (induction s arbitrary: cur rule: length_induct)
  case (1 s)
  show ?case
  proof (cases s)
    case (Cons c cs)
    show ?thesis
    proof (cases "starts_with s p")
      case True
      with that show ?thesis by (simp add: split_scan.simps [of p cur "c # cs"] split_scan.simps [of p "[]" "c # cs"] Cons)
    next
      case False
      have *: "split_scan p (cur @ [c]) cs = (cur @ [c] @ hd (split_scan p [] cs)) # tl (split_scan p [] cs)"
        "split_scan p [c] cs = ([c] @ hd (split_scan p [] cs)) # tl (split_scan p [] cs)"
        by (subst "1.IH" [rule_format]; simp add: Cons)+
      have "split_scan p x s = split_scan p (x @ [c]) cs" for x
        by (subst split_scan.simps) (use False Cons in simp)
      from this [of cur] this [of "[]"] show ?thesis unfolding * append_Nil by simp
    qed
  qed simp
qed

lemma replace_all_Nil [simp]: "p \<noteq> [] \<Longrightarrow> replace_all p r [] = []"
  by (simp add: replace_all_def split_def)

lemma replace_all_match: "p \<noteq> [] \<Longrightarrow> replace_all p r (p @ s) = r @ replace_all p r s"
proof -
  assume p: "p \<noteq> []"
  then obtain c cs where c: "p @ s = c # cs" by (cases "p @ s") auto
  have "starts_with (p @ s) p" by (auto simp: starts_with_iff)
  with p c have "split_scan p [] (p @ s) = [] # split_scan p [] s"
    by (subst split_scan.simps) (use p c in \<open>auto split: list.split\<close>, metis append_eq_conv_conj c)
  with p show ?thesis
    by (simp add: replace_all_def split_def join_Cons)
qed

lemma replace_all_skip: "p \<noteq> [] \<Longrightarrow> \<not> starts_with (c # s) p \<Longrightarrow> replace_all p r (c # s) = c # replace_all p r s"
proof -
  assume p: "p \<noteq> []" and n: "\<not> starts_with (c # s) p"
  then have "split_scan p [] (c # s) = split_scan p [c] s"
    by (simp add: split_scan.simps [of p "[]" "c # s"])
  also have "\<dots> = (c # hd (split_scan p [] s)) # tl (split_scan p [] s)"
    using split_scan_cur [OF p, of "[c]" s] by simp
  finally show ?thesis
    using p by (cases "split_scan p [] s") (auto simp: replace_all_def split_def join_Cons)
qed

lemma replace_all_other: "p \<noteq> [] \<Longrightarrow> c \<noteq> hd p \<Longrightarrow> replace_all p r (c # s) = c # replace_all p r s"
  by (rule replace_all_skip) (auto simp: starts_with_iff Cons_eq_append_conv)

text \<open>A text that is written piece by piece is replaced piece by piece.\<close>

lemma replace_all_pieces:
  assumes "p \<noteq> []" and "\<And>c rest. c \<in> set s \<Longrightarrow> replace_all p r (f c @ rest) = g c @ replace_all p r rest"
  shows "replace_all p r (concat (map f s)) = concat (map g s)"
  using assms(2) by (induction s) (simp_all add: assms(1))

lemma replace_all_char: "replace_all [q] r s = concat (map (\<lambda>c. if c = q then r else [c]) s)"
proof -
  have "replace_all [q] r ([c] @ rest) = (if c = q then r else [c]) @ replace_all [q] r rest" for c rest
    using replace_all_match [of "[q]" r rest] replace_all_other [of "[q]" c r rest] by simp
  then have "replace_all [q] r (concat (map (\<lambda>c. [c]) s)) = concat (map (\<lambda>c. if c = q then r else [c]) s)"
    by (intro replace_all_pieces) simp_all
  then show ?thesis by simp
qed

section \<open>Escapes\<close>

definition escapeXmlText :: "string \<Rightarrow> string" where
  "escapeXmlText s = replace_all ''>'' ''&gt;'' (replace_all ''<'' ''&lt;'' (replace_all ''&'' ''&amp;'' s))"

definition escapeXmlAttr :: "string \<Rightarrow> string" where
  "escapeXmlAttr s = replace_all [DQ] ''&quot;'' (escapeXmlText s)"

definition unescapeXml :: "string \<Rightarrow> string" where
  "unescapeXml s = replace_all ''&amp;'' ''&'' (replace_all ''&gt;'' ''>'' (replace_all ''&lt;'' ''<'' (replace_all ''&quot;'' [DQ] s)))"

definition xml_text_char :: "char \<Rightarrow> string" where
  "xml_text_char c = (if c = CHR ''&'' then ''&amp;'' else if c = CHR ''<'' then ''&lt;'' else if c = CHR ''>'' then ''&gt;'' else [c])"

definition xml_attr_char :: "char \<Rightarrow> string" where
  "xml_attr_char c = (if c = DQ then ''&quot;'' else xml_text_char c)"

lemma concat_map_concat: "concat (map f (concat (map g s))) = concat (map (\<lambda>c. concat (map f (g c))) s)"
  by (induction s) simp_all

lemma escapeXmlText_chars: "escapeXmlText s = concat (map xml_text_char s)"
  unfolding escapeXmlText_def replace_all_char concat_map_concat
  by (rule arg_cong [where f = concat], rule map_cong) (auto simp: xml_text_char_def)

lemma escapeXmlAttr_chars: "escapeXmlAttr s = concat (map xml_attr_char s)"
  unfolding escapeXmlAttr_def escapeXmlText_chars replace_all_char concat_map_concat
  by (rule arg_cong [where f = concat], rule map_cong) (auto simp: xml_text_char_def xml_attr_char_def)

text \<open>Unescaping piece by piece: each replacement leaves the pieces of the others alone.\<close>

definition unescape_stage :: "nat \<Rightarrow> char \<Rightarrow> string" where
  "unescape_stage k c =
     (if c = DQ \<and> k = 0 then ''&quot;'' else if c = CHR ''<'' \<and> k \<le> 1 then ''&lt;'' else if c = CHR ''>'' \<and> k \<le> 2 then ''&gt;''
      else if c = CHR ''&'' then ''&amp;'' else [c])"

lemmas entity_simps = replace_all_match [of "''&quot;''", simplified] replace_all_match [of "''&lt;''", simplified]
  replace_all_match [of "''&gt;''", simplified] replace_all_match [of "''&amp;''", simplified]

lemma unescape_pieces:
  "replace_all ''&quot;'' [DQ] (unescape_stage 0 c @ rest) = unescape_stage 1 c @ replace_all ''&quot;'' [DQ] rest"
  "replace_all ''&quot;'' [DQ] (unescape_stage 1 c @ rest) = unescape_stage 1 c @ replace_all ''&quot;'' [DQ] rest"
  "replace_all ''&lt;'' ''<'' (unescape_stage 1 c @ rest) = unescape_stage 2 c @ replace_all ''&lt;'' ''<'' rest"
  "replace_all ''&gt;'' ''>'' (unescape_stage 2 c @ rest) = unescape_stage 3 c @ replace_all ''&gt;'' ''>'' rest"
  "replace_all ''&amp;'' ''&'' (unescape_stage 3 c @ rest) = [c] @ replace_all ''&amp;'' ''&'' rest"
  by (auto simp: unescape_stage_def entity_simps replace_all_skip starts_with_def)

lemma unescape_staged: "k \<le> 1 \<Longrightarrow> unescapeXml (concat (map (unescape_stage k) s)) = s"
proof -
  assume "k \<le> 1"
  then have "k = 0 \<or> k = 1" by auto
  then have "replace_all ''&quot;'' [DQ] (concat (map (unescape_stage k) s)) = concat (map (unescape_stage 1) s)"
    by (elim disjE; hypsubst; intro replace_all_pieces unescape_pieces; simp)
  moreover have "replace_all ''&lt;'' ''<'' (concat (map (unescape_stage 1) s)) = concat (map (unescape_stage 2) s)"
    by (intro replace_all_pieces unescape_pieces) simp
  moreover have "replace_all ''&gt;'' ''>'' (concat (map (unescape_stage 2) s)) = concat (map (unescape_stage 3) s)"
    by (intro replace_all_pieces unescape_pieces) simp
  moreover have "replace_all ''&amp;'' ''&'' (concat (map (unescape_stage 3) s)) = concat (map (\<lambda>c. [c]) s)"
    by (intro replace_all_pieces unescape_pieces) simp
  ultimately show ?thesis by (simp add: unescapeXml_def)
qed

lemma unescape_attr [simp]: "unescapeXml (escapeXmlAttr s) = s"
proof -
  have "xml_attr_char = unescape_stage 0"
    by (rule ext) (auto simp: xml_attr_char_def xml_text_char_def unescape_stage_def)
  then show ?thesis unfolding escapeXmlAttr_chars using unescape_staged [of 0] by simp
qed

lemma unescape_text [simp]: "unescapeXml (escapeXmlText s) = s"
proof -
  have "xml_text_char = unescape_stage 1"
    by (rule ext) (auto simp: xml_text_char_def unescape_stage_def)
  then show ?thesis unfolding escapeXmlText_chars using unescape_staged [of 1] by simp
qed

section \<open>Writing a mention\<close>

record mention_attrs =
  at_assetId :: int
  at_name :: string
  at_type :: "string option"
  at_host :: "string option"
  at_groupPath :: "string option"

definition attr_part :: "string \<Rightarrow> string option \<Rightarrow> string list" where
  "attr_part key v = (case v of None \<Rightarrow> [] | Some x \<Rightarrow> if x = [] then [] else [key @ ''='' @ [DQ] @ escapeXmlAttr x @ [DQ]])"

definition buildMentionXml :: "mention_attrs \<Rightarrow> string" where
  "buildMentionXml a =
     (let parts = [''asset-id='' @ [DQ] @ int_str (at_assetId a) @ [DQ]] @ attr_part ''type'' (at_type a) @
                  attr_part ''host'' (at_host a) @ attr_part ''group'' (at_groupPath a)
      in ''<mention '' @ join '' '' parts @ ''>@'' @ escapeXmlText (at_name a) @ ''</mention>'')"

section \<open>Reading attributes\<close>

definition is_letter :: "char \<Rightarrow> bool" where
  "is_letter c \<longleftrightarrow> is_upper c \<or> is_lower c"

definition is_word :: "char \<Rightarrow> bool" where
  "is_word c \<longleftrightarrow> is_letter c \<or> is_digit c \<or> c = CHR ''_''"

text \<open>\<open>ATTR_RE\<close> at the front of a text: the key, the value and what follows.\<close>

definition match_attr :: "string \<Rightarrow> (string \<times> string \<times> string) option" where
  "match_attr s =
     (if s = [] \<or> \<not> is_letter (hd s) then None
      else
        let key = takeWhile (\<lambda>c. is_word c \<or> c = CHR ''-'') s
        in case dropWhile is_space (dropWhile (\<lambda>c. is_word c \<or> c = CHR ''-'') s) of
             [] \<Rightarrow> None
           | e # r \<Rightarrow>
               if e \<noteq> CHR ''='' then None
               else case dropWhile is_space r of
                 [] \<Rightarrow> None
               | q # r' \<Rightarrow>
                   if q \<noteq> DQ then None
                   else case dropWhile (\<lambda>c. c \<noteq> DQ) r' of
                     [] \<Rightarrow> None
                   | q' # rest \<Rightarrow> Some (key, takeWhile (\<lambda>c. c \<noteq> DQ) r', rest))"

lemma dropWhile_shorter: "length (dropWhile P xs) \<le> length xs"
  by (rule length_dropWhile_le)

lemma match_attr_shorter: "match_attr s = Some (k, v, rest) \<Longrightarrow> length rest < length s"
proof -
  have d: "dropWhile P xs = y # ys \<Longrightarrow> length ys < length xs" for P and xs ys :: string and y
    using length_dropWhile_le [of P xs] by simp
  have d2: "dropWhile P (dropWhile Q xs) = y # ys \<Longrightarrow> length ys < length xs" for P Q and xs ys :: string and y
    using d [of P "dropWhile Q xs" y ys] length_dropWhile_le [of Q xs] by simp
  assume "match_attr s = Some (k, v, rest)"
  then show ?thesis
    by (auto simp: match_attr_def Let_def split: if_splits list.splits dest!: d d2)
qed

function attr_matches :: "string \<Rightarrow> (string \<times> string) list" where
  "attr_matches s =
     (if s = [] then []
      else case match_attr s of
        Some (k, v, rest) \<Rightarrow> (k, v) # attr_matches rest
      | None \<Rightarrow> attr_matches (tl s))"
  by pat_completeness auto
termination
  by (relation "measure length") (auto dest: match_attr_shorter)

declare attr_matches.simps [simp del]

text \<open>\<open>Number.parseInt(value, 10)\<close>; \<open>None\<close> is \<open>NaN\<close>.\<close>

definition parse_int :: "string \<Rightarrow> int option" where
  "parse_int value =
     (let s = trim_start value;
          neg = starts_with s ''-'';
          ds = takeWhile is_digit (if neg \<or> starts_with s ''+'' then tl s else s)
      in if ds = [] then None else Some (if neg then - int (digits_val ds) else int (digits_val ds)))"

record partial_attrs =
  pa_assetId :: "int option"
  pa_type :: "string option"
  pa_host :: "string option"
  pa_groupPath :: "string option"

definition put_attr :: "string \<times> string \<Rightarrow> partial_attrs \<Rightarrow> partial_attrs" where
  "put_attr kv out =
     (let value = unescapeXml (snd kv)
      in if fst kv = ''asset-id'' then (case parse_int value of None \<Rightarrow> out | Some n \<Rightarrow> out\<lparr>pa_assetId := Some n\<rparr>)
         else if fst kv = ''type'' then out\<lparr>pa_type := Some value\<rparr>
         else if fst kv = ''host'' then out\<lparr>pa_host := Some value\<rparr>
         else if fst kv = ''group'' then out\<lparr>pa_groupPath := Some value\<rparr>
         else out)"

definition parseAttrs :: "string \<Rightarrow> partial_attrs" where
  "parseAttrs raw =
     fold put_attr (attr_matches raw) \<lparr>pa_assetId = None, pa_type = None, pa_host = None, pa_groupPath = None\<rparr>"

section \<open>Reading a message\<close>

text \<open>The first occurrence of a text: what is before it and what follows.\<close>

fun find_text :: "string \<Rightarrow> string \<Rightarrow> (string \<times> string) option" where
  "find_text p [] = (if p = [] then Some ([], []) else None)"
| "find_text p (c # s) =
     (case strip_prefix p (c # s) of
        Some rest \<Rightarrow> Some ([], rest)
      | None \<Rightarrow> map_option (\<lambda>(a, b). (c # a, b)) (find_text p s))"

text \<open>\<open>TAG_RE\<close> at the front of a text: the attributes, the inner text and what follows.\<close>

definition match_tag :: "string \<Rightarrow> (string \<times> string \<times> string) option" where
  "match_tag s =
     (case strip_prefix ''<mention'' s of
        None \<Rightarrow> None
      | Some r \<Rightarrow>
          if r \<noteq> [] \<and> is_word (hd r) then None
          else case dropWhile (\<lambda>c. c \<noteq> CHR ''>'') r of
            [] \<Rightarrow> None
          | g # r' \<Rightarrow>
              (case find_text ''</mention>'' r' of
                 None \<Rightarrow> None
               | Some (inner, rest) \<Rightarrow> Some (takeWhile (\<lambda>c. c \<noteq> CHR ''>'') r, inner, rest)))"

lemma find_text_shorter: "find_text p s = Some (a, b) \<Longrightarrow> length b \<le> length s"
proof (induction s arbitrary: a b)
  case (Cons c s)
  have "length b \<le> Suc (length s)" if "c # s = p @ b" using arg_cong [OF that, of length] by simp
  with Cons show ?case by (auto simp: strip_prefix_Some le_SucI split: option.splits)
qed (auto split: if_splits)

lemma match_tag_shorter: "match_tag s = Some (a, i, rest) \<Longrightarrow> length rest < length s"
proof -
  have d: "dropWhile P xs = y # ys \<Longrightarrow> length ys < length xs" for P and xs ys :: string and y
    using length_dropWhile_le [of P xs] by simp
  assume "match_tag s = Some (a, i, rest)"
  then obtain r g r' where "s = ''<mention'' @ r" "dropWhile (\<lambda>c. c \<noteq> CHR ''>'') r = g # r'" "length rest \<le> length r'"
    by (auto simp: match_tag_def strip_prefix_Some split: option.splits if_splits list.splits dest: find_text_shorter)
  with d show ?thesis by fastforce
qed

datatype mention_segment =
    Seg_text string
  | Seg_mention string mention_attrs

definition tag_segment :: "string \<Rightarrow> string \<Rightarrow> mention_segment" where
  "tag_segment rawAttrs rawInner =
     (let attrs = parseAttrs rawAttrs;
          inner = unescapeXml rawInner;
          name = (if starts_with inner ''@'' then tl inner else inner)
      in case pa_assetId attrs of
           Some i \<Rightarrow> Seg_mention inner \<lparr>at_assetId = i, at_name = name, at_type = pa_type attrs, at_host = pa_host attrs, at_groupPath = pa_groupPath attrs\<rparr>
         | None \<Rightarrow> Seg_text inner)"

definition text_segment :: "string \<Rightarrow> mention_segment list" where
  "text_segment s = (if s = [] then [] else [Seg_text (unescapeXml s)])"

text \<open>\<open>cur\<close> is the content between the last tag and the position the next one is looked for at.\<close>

function parse_from :: "string \<Rightarrow> string \<Rightarrow> mention_segment list" where
  "parse_from cur s =
     (if s = [] then text_segment cur
      else case match_tag s of
        Some (attrs, inner, rest) \<Rightarrow> text_segment cur @ tag_segment attrs inner # parse_from [] rest
      | None \<Rightarrow> parse_from (cur @ [hd s]) (tl s))"
  by pat_completeness auto
termination
  by (relation "measure (\<lambda>(cur, s). length s)") (auto dest: match_tag_shorter)

declare parse_from.simps [simp del]

definition parseMentionContent :: "string \<Rightarrow> mention_segment list" where
  "parseMentionContent content = parse_from [] content"

definition extractMentions :: "string \<Rightarrow> mention_attrs list" where
  "extractMentions content =
     concat (map (\<lambda>s. case s of Seg_text t \<Rightarrow> [] | Seg_mention t a \<Rightarrow> [a]) (parseMentionContent content))"

function stripMentionTags :: "string \<Rightarrow> string" where
  "stripMentionTags s =
     (if s = [] then []
      else case match_tag s of
        Some (attrs, inner, rest) \<Rightarrow> unescapeXml inner @ stripMentionTags rest
      | None \<Rightarrow> hd s # stripMentionTags (tl s))"
  by pat_completeness auto
termination
  by (relation "measure length") (auto dest: match_tag_shorter)

declare stripMentionTags.simps [simp del]

section \<open>What is written is read back\<close>

lemma is_digit_props: "is_digit c \<Longrightarrow> c \<noteq> CHR ''>'' \<and> c \<noteq> DQ \<and> c \<noteq> CHR ''&'' \<and> \<not> is_space c \<and> c \<noteq> CHR ''-'' \<and> c \<noteq> CHR ''+''"
  by (auto simp: is_digit_def is_space_def)

lemma nat_str_digits: "c \<in> set (nat_str n) \<Longrightarrow> is_digit c"
  using all_digits_nat_str [of n] by (auto simp: all_digits_def list_all_iff)

lemma nat_str_nonempty [simp]: "nat_str n \<noteq> []"
  using all_digits_nat_str [of n] by (auto simp: all_digits_def)

lemma int_str_chars: "c \<in> set (int_str i) \<Longrightarrow> is_digit c \<or> c = CHR ''-''"
  by (auto simp: int_str_def dest: nat_str_digits split: if_splits)

lemma parse_int_str [simp]: "parse_int (int_str i) = Some i"
proof -
  have ds: "takeWhile is_digit (nat_str n) = nat_str n" for n
    by (rule takeWhile_eq_all_conv [THEN iffD2]) (simp add: nat_str_digits)
  have hd: "hd (nat_str n) = c \<Longrightarrow> is_digit c" for n c
    using nat_str_digits [OF hd_in_set [OF nat_str_nonempty]] by blast
  have sp: "trim_start (nat_str n) = nat_str n" for n
    using hd [of n] is_digit_props unfolding trim_start_def by (cases "nat_str n") auto
  show ?thesis
  proof (cases "i < 0")
    case True
    then have "int_str i = CHR ''-'' # nat_str (nat (- i))" by (simp add: int_str_def)
    moreover have "trim_start (CHR ''-'' # s) = CHR ''-'' # s" for s by (simp add: trim_start_def is_space_def)
    ultimately show ?thesis using True by (simp add: parse_int_def ds)
  next
    case False
    then have "int_str i = nat_str (nat i)" by (simp add: int_str_def)
    moreover have "hd (nat_str (nat i)) \<noteq> CHR ''-''" "hd (nat_str (nat i)) \<noteq> CHR ''+''"
      using hd [of "nat i"] is_digit_props by blast+
    ultimately show ?thesis using False by (simp add: parse_int_def sp ds)
  qed
qed

lemma unescape_plain: "CHR ''&'' \<notin> set s \<Longrightarrow> unescapeXml s = s"
proof -
  assume n: "CHR ''&'' \<notin> set s"
  have "replace_all p r s = s" if "p \<noteq> []" "hd p = CHR ''&''" for p r
    using n by (induction s) (auto simp: that replace_all_other)
  then show ?thesis by (simp add: unescapeXml_def)
qed

lemma unescape_int_str [simp]: "unescapeXml (int_str i) = int_str i"
  by (rule unescape_plain) (use int_str_chars is_digit_props in fastforce)

lemma escaped_text_plain: "CHR ''<'' \<notin> set (escapeXmlText s)" "CHR ''>'' \<notin> set (escapeXmlText s)"
  unfolding escapeXmlText_chars by (auto simp: xml_text_char_def split: if_splits)

lemma escaped_attr_plain: "CHR ''>'' \<notin> set (escapeXmlAttr s)" "DQ \<notin> set (escapeXmlAttr s)"
  unfolding escapeXmlAttr_chars by (auto simp: xml_attr_char_def xml_text_char_def split: if_splits)

text \<open>Attributes as pairs.\<close>

definition show_attr :: "string \<times> string \<Rightarrow> string" where
  "show_attr kv = fst kv @ ''='' @ [DQ] @ snd kv @ [DQ]"

definition attr_pair :: "string \<Rightarrow> string option \<Rightarrow> (string \<times> string) list" where
  "attr_pair key v = (case v of None \<Rightarrow> [] | Some x \<Rightarrow> if x = [] then [] else [(key, escapeXmlAttr x)])"

definition attr_pairs :: "mention_attrs \<Rightarrow> (string \<times> string) list" where
  "attr_pairs a = [(''asset-id'', int_str (at_assetId a))] @ attr_pair ''type'' (at_type a) @ attr_pair ''host'' (at_host a) @ attr_pair ''group'' (at_groupPath a)"

lemma attr_part_pair: "attr_part k v = map show_attr (attr_pair k v)"
  by (simp add: attr_part_def attr_pair_def show_attr_def split: option.split)

lemma buildMentionXml_pairs:
  "buildMentionXml a = ''<mention '' @ join '' '' (map show_attr (attr_pairs a)) @ ''>@'' @ escapeXmlText (at_name a) @ ''</mention>''"
  by (simp add: buildMentionXml_def attr_pairs_def attr_part_pair Let_def show_attr_def)

definition plain_key :: "string \<Rightarrow> bool" where
  "plain_key k \<longleftrightarrow> k \<noteq> [] \<and> is_letter (hd k) \<and> (\<forall>c\<in>set k. is_word c \<or> c = CHR ''-'')"

lemma eq_sign: "\<not> is_word (CHR ''='')" "\<not> is_space (CHR ''='')" "\<not> is_space DQ" "\<not> is_letter (CHR '' '')"
  by (simp_all add: is_word_def is_letter_def is_upper_def is_lower_def is_digit_def is_space_def)

lemma match_attr_show:
  assumes "plain_key k" and "DQ \<notin> set v"
  shows "match_attr (show_attr (k, v) @ rest) = Some (k, v, rest)"
proof -
  let ?P = "\<lambda>c. is_word c \<or> c = CHR ''-''"
  from assms(1) have k: "takeWhile ?P (k @ CHR ''='' # r) = k" "dropWhile ?P (k @ CHR ''='' # r) = CHR ''='' # r" "k @ CHR ''='' # r \<noteq> []" "is_letter (hd (k @ CHR ''='' # r))" for r
    by (simp_all add: plain_key_def takeWhile_append2 dropWhile_append2 eq_sign)
  from assms(2) have v: "takeWhile (\<lambda>c. c \<noteq> DQ) (v @ DQ # rest) = v" "dropWhile (\<lambda>c. c \<noteq> DQ) (v @ DQ # rest) = DQ # rest"
    by (induction v) auto
  show ?thesis
    unfolding match_attr_def show_attr_def Let_def using k v by (simp add: eq_sign)
qed

lemma attr_matches_show:
  "plain_key k \<Longrightarrow> DQ \<notin> set v \<Longrightarrow> attr_matches (show_attr (k, v) @ rest) = (k, v) # attr_matches rest"
  by (subst attr_matches.simps) (simp add: match_attr_show, simp add: show_attr_def)

lemma attr_matches_space: "attr_matches (CHR '' '' # s) = attr_matches s"
  by (subst attr_matches.simps) (simp add: match_attr_def eq_sign)

lemma attr_matches_Nil: "attr_matches [] = []"
  by (simp add: attr_matches.simps)

lemma attr_matches_join:
  "\<forall>(k, v)\<in>set kvs. plain_key k \<and> DQ \<notin> set v \<Longrightarrow> attr_matches (join '' '' (map show_attr kvs)) = kvs"
proof (induction kvs)
  case (Cons kv kvs)
  obtain k v where kv: "kv = (k, v)" by (cases kv)
  with Cons show ?case
    using attr_matches_show [of k v "[]"] by (auto simp: join_Cons attr_matches_Nil attr_matches_show attr_matches_space)
qed (simp add: attr_matches_Nil)

definition given :: "string option \<Rightarrow> string option" where
  "given v = (if v = Some [] then None else v)"

definition norm_attrs :: "mention_attrs \<Rightarrow> mention_attrs" where
  "norm_attrs a = a\<lparr>at_type := given (at_type a), at_host := given (at_host a), at_groupPath := given (at_groupPath a)\<rparr>"

definition full_attrs :: "mention_attrs \<Rightarrow> bool" where
  "full_attrs a \<longleftrightarrow> at_type a \<noteq> Some [] \<and> at_host a \<noteq> Some [] \<and> at_groupPath a \<noteq> Some []"

lemma norm_full [simp]: "full_attrs a \<Longrightarrow> norm_attrs a = a"
  by (cases a) (simp add: full_attrs_def norm_attrs_def given_def)

lemma attr_keys_plain: "plain_key ''asset-id''" "plain_key ''type''" "plain_key ''host''" "plain_key ''group''"
  by (simp_all add: plain_key_def is_word_def is_letter_def is_upper_def is_lower_def)

lemma attr_pairs_plain: "(k, v) \<in> set (attr_pairs a) \<Longrightarrow> plain_key k \<and> DQ \<notin> set v \<and> CHR ''>'' \<notin> set v"
  using int_str_chars is_digit_props
  by (fastforce simp: attr_pairs_def attr_pair_def attr_keys_plain escaped_attr_plain split: option.splits if_splits)

lemma parseAttrs_build:
  "parseAttrs (CHR '' '' # join '' '' (map show_attr (attr_pairs a))) =
    \<lparr>pa_assetId = Some (at_assetId a), pa_type = given (at_type a), pa_host = given (at_host a), pa_groupPath = given (at_groupPath a)\<rparr>"
proof -
  have "attr_matches (CHR '' '' # join '' '' (map show_attr (attr_pairs a))) = attr_pairs a"
    unfolding attr_matches_space by (rule attr_matches_join) (use attr_pairs_plain in blast)
  then show ?thesis
    by (auto simp: parseAttrs_def attr_pairs_def attr_pair_def put_attr_def Let_def given_def split: option.splits)
qed

lemma up_to_char:
  "q \<notin> set x \<Longrightarrow> dropWhile (\<lambda>c. c \<noteq> q) (x @ q # r) = q # r" "q \<notin> set x \<Longrightarrow> takeWhile (\<lambda>c. c \<noteq> q) (x @ q # r) = x"
  by (induction x) auto

lemma find_text_first:
  assumes "hd p \<notin> set s" and "p \<noteq> []"
  shows "find_text p (s @ p @ rest) = Some (s, rest)"
  using assms
proof (induction s)
  case Nil
  from Nil(2) obtain c cs where "p = c # cs" by (cases p) auto
  moreover have "strip_prefix p (p @ rest) = Some rest" by (simp add: strip_prefix_Some)
  ultimately show ?case by simp
next
  case (Cons c s)
  have "strip_prefix p (c # s @ p @ rest) = None"
    using Cons.prems by (cases p) auto
  with Cons show ?case by simp
qed

lemma match_tag_parts:
  assumes "r \<noteq> []" and "\<not> is_word (hd r)" and "CHR ''>'' \<notin> set r"
  shows "match_tag (''<mention'' @ r @ CHR ''>'' # x) =
    (case find_text ''</mention>'' x of None \<Rightarrow> None | Some (inner, rest) \<Rightarrow> Some (r, inner, rest))"
proof -
  have "strip_prefix ''<mention'' (''<mention'' @ y) = Some y" for y by (simp add: strip_prefix_Some)
  then show ?thesis
    unfolding match_tag_def using assms up_to_char [OF assms(3), of x] by (simp split: option.split)
qed

lemma match_tag_build:
  "match_tag (buildMentionXml a @ rest) =
     Some (CHR '' '' # join '' '' (map show_attr (attr_pairs a)), CHR ''@'' # escapeXmlText (at_name a), rest)"
proof -
  let ?r = "CHR '' '' # join '' '' (map show_attr (attr_pairs a))"
  let ?x = "(CHR ''@'' # escapeXmlText (at_name a)) @ ''</mention>'' @ rest"
  have no_gt: "CHR ''>'' \<notin> set (join '' '' ss)" if "\<forall>s\<in>set ss. CHR ''>'' \<notin> set s" for ss
    using that by (induction ss) (auto simp: join_Cons)
  have key: "CHR ''>'' \<notin> set k" if "plain_key k" for k
    using that by (auto simp: plain_key_def is_word_def is_letter_def is_upper_def is_lower_def is_digit_def)
  have r: "?r \<noteq> []" "\<not> is_word (hd ?r)" "CHR ''>'' \<notin> set ?r"
    using no_gt [of "map show_attr (attr_pairs a)"] attr_pairs_plain key
    by (fastforce simp: show_attr_def is_word_def is_letter_def is_upper_def is_lower_def is_digit_def)+
  have f: "find_text ''</mention>'' ?x = Some (CHR ''@'' # escapeXmlText (at_name a), rest)"
    by (rule find_text_first) (use escaped_text_plain in auto)
  have "buildMentionXml a @ rest = ''<mention'' @ ?r @ CHR ''>'' # ?x" by (simp add: buildMentionXml_pairs)
  then show ?thesis using match_tag_parts [OF r, of ?x] unfolding f by simp
qed

lemma tag_segment_build:
  "tag_segment (CHR '' '' # join '' '' (map show_attr (attr_pairs a))) (CHR ''@'' # escapeXmlText (at_name a)) =
    Seg_mention (CHR ''@'' # at_name a) (norm_attrs a)"
proof -
  have "CHR ''@'' # escapeXmlText (at_name a) = escapeXmlText (CHR ''@'' # at_name a)"
    by (simp add: escapeXmlText_chars xml_text_char_def)
  then have "unescapeXml (CHR ''@'' # escapeXmlText (at_name a)) = CHR ''@'' # at_name a" by (simp only: unescape_text)
  then show ?thesis by (simp add: tag_segment_def parseAttrs_build norm_attrs_def)
qed

lemma match_tag_text: "s \<noteq> [] \<Longrightarrow> hd s \<noteq> CHR ''<'' \<Longrightarrow> match_tag s = None"
  by (cases s) (simp_all add: match_tag_def)

lemma parse_from_text: "CHR ''<'' \<notin> set t \<Longrightarrow> parse_from cur (t @ s) = parse_from (cur @ t) s"
proof (induction t arbitrary: cur)
  case (Cons c t)
  then have "match_tag (c # t @ s) = None" by (intro match_tag_text) auto
  with Cons show ?case by (simp add: parse_from.simps [of cur "c # t @ s"])
qed simp

lemma buildMentionXml_nonempty [simp]: "buildMentionXml a \<noteq> []"
  by (simp add: buildMentionXml_def Let_def)

lemma parse_from_build:
  "parse_from cur (buildMentionXml a @ s) = text_segment cur @ Seg_mention (CHR ''@'' # at_name a) (norm_attrs a) # parse_from [] s"
  by (subst parse_from.simps) (simp add: match_tag_build tag_segment_build)

text \<open>A message as the editor writes it.\<close>

fun render_segment :: "mention_segment \<Rightarrow> string" where
  "render_segment (Seg_text t) = escapeXmlText t"
| "render_segment (Seg_mention t a) = buildMentionXml a"

fun segments_ok :: "mention_segment list \<Rightarrow> bool" where
  "segments_ok [] = True"
| "segments_ok (Seg_text t # segs) \<longleftrightarrow> t \<noteq> [] \<and> (case segs of Seg_text t' # _ \<Rightarrow> False | _ \<Rightarrow> True) \<and> segments_ok segs"
| "segments_ok (Seg_mention t a # segs) \<longleftrightarrow> t = CHR ''@'' # at_name a \<and> full_attrs a \<and> segments_ok segs"

lemma text_segment_escape: "text_segment (escapeXmlText t) = (if t = [] then [] else [Seg_text t])"
proof (cases "t = []")
  case False
  then have "escapeXmlText t \<noteq> []" unfolding escapeXmlText_chars by (cases t) (simp_all add: xml_text_char_def)
  with False show ?thesis by (simp add: text_segment_def)
qed (simp add: text_segment_def escapeXmlText_chars)

lemma escapeXmlText_Nil [simp]: "escapeXmlText [] = []"
  by (simp add: escapeXmlText_chars)

lemma parse_rendered:
  "segments_ok segs \<Longrightarrow> (t \<noteq> [] \<longrightarrow> (case segs of Seg_text t' # _ \<Rightarrow> False | _ \<Rightarrow> True)) \<Longrightarrow>
   parse_from (escapeXmlText t) (concat (map render_segment segs)) = (if t = [] then [] else [Seg_text t]) @ segs"
proof (induction segs arbitrary: t)
  case Nil
  then show ?case by (simp add: parse_from.simps text_segment_escape)
next
  case (Cons seg segs)
  show ?case
  proof (cases seg)
    case (Seg_text t')
    with Cons.prems have "t = []" by auto
    with Cons Seg_text show ?thesis
      by (simp add: parse_from_text escaped_text_plain)
  next
    case (Seg_mention t' a)
    with Cons Cons.IH [of "[]"] show ?thesis
      by (simp add: parse_from_build text_segment_escape)
  qed
qed

text \<open>C18: a message written from text and mentions is read back as exactly these segments, whatever
  characters the texts, the names and the attributes contain.\<close>
theorem mentions_read_back:
  assumes "segments_ok segs"
  shows "parseMentionContent (concat (map render_segment segs)) = segs"
  using parse_rendered [OF assms, of "[]"] by (simp add: parseMentionContent_def)

theorem mentions_read_back_witness:
  "parseMentionContent (''a '' @ buildMentionXml \<lparr>at_assetId = 7, at_name = ''</mention>&'', at_type = Some ''ssh'', at_host = None, at_groupPath = Some [DQ]\<rparr>) =
     [Seg_text ''a '', Seg_mention ''@</mention>&'' \<lparr>at_assetId = 7, at_name = ''</mention>&'', at_type = Some ''ssh'', at_host = None, at_groupPath = Some [DQ]\<rparr>]"
  using mentions_read_back [of "[Seg_text ''a '', Seg_mention ''@</mention>&'' \<lparr>at_assetId = 7, at_name = ''</mention>&'', at_type = Some ''ssh'', at_host = None, at_groupPath = Some [DQ]\<rparr>]"]
  by (simp add: full_attrs_def escapeXmlText_chars xml_text_char_def)

section \<open>Stripping\<close>

text \<open>Stripping the tags of stored text does not always leave text without a mention: a tag that is
  escaped inside another one is a tag of the result, with the attributes its writer chose.\<close>
theorem stripped_text_may_mention:
  assumes "full_attrs a"
  shows "extractMentions (stripMentionTags (''<mention asset-id='' @ [DQ] @ ''1'' @ [DQ] @ ''>'' @
      escapeXmlText (buildMentionXml a) @ ''</mention>'')) = [a]"
proof -
  let ?in = "escapeXmlText (buildMentionXml a)"
  have "find_text ''</mention>'' (?in @ ''</mention>'') = Some (?in, [])"
    using find_text_first [of "''</mention>''" ?in "[]"] escaped_text_plain by simp
  then have "match_tag (''<mention asset-id='' @ [DQ] @ ''1'' @ [DQ] @ ''>'' @ ?in @ ''</mention>'') =
      Some ('' asset-id='' @ [DQ] @ ''1'' @ [DQ], ?in, [])"
    by (simp add: match_tag_def is_word_def is_letter_def is_upper_def is_lower_def is_digit_def)
  then have "stripMentionTags (''<mention asset-id='' @ [DQ] @ ''1'' @ [DQ] @ ''>'' @ ?in @ ''</mention>'') = buildMentionXml a"
    by (subst stripMentionTags.simps) (simp add: stripMentionTags.simps [of "[]"])
  moreover have "parseMentionContent (buildMentionXml a) = [Seg_mention (CHR ''@'' # at_name a) a]"
    using parse_from_build [of "[]" a "[]"] assms by (simp add: parseMentionContent_def text_segment_def parse_from.simps [of "[]" "[]"])
  ultimately show ?thesis by (simp add: extractMentions_def)
qed

theorem stripped_text_may_mention_witness:
  "extractMentions (stripMentionTags (''<mention asset-id='' @ [DQ] @ ''1'' @ [DQ] @ ''>'' @
      escapeXmlText (buildMentionXml \<lparr>at_assetId = 9, at_name = ''db'', at_type = None, at_host = Some ''10.0.0.9'', at_groupPath = None\<rparr>) @ ''</mention>'')) =
   [\<lparr>at_assetId = 9, at_name = ''db'', at_type = None, at_host = Some ''10.0.0.9'', at_groupPath = None\<rparr>]"
  by (rule stripped_text_may_mention) (simp add: full_attrs_def)

end
