(* ===== verification/AiInput.thy ===== *)
theory AiInput
  imports MentionXml GroupPath
begin

text \<open>
  The text field of the assistant (\<^verbatim>\<open>components/ai/input/content.ts\<close> and \<^verbatim>\<open>keyboard.ts\<close>): what is in
  the editor as the content that is sent and kept as a draft, a draft as what is put into the editor
  again, and the history of sent messages under the arrow keys.
\<close>

section \<open>The content of the editor\<close>

text \<open>A node of the editor's document; the id of a mention is the decimal text of the number given here.\<close>

datatype pm_node =
    Pm_text "string option"
  | Pm_hardBreak
  | Pm_mention int "string option"
  | Pm_paragraph "pm_node list"
  | Pm_other "pm_node list"

definition or_empty :: "string option \<Rightarrow> string" where
  "or_empty x = (case x of None \<Rightarrow> [] | Some s \<Rightarrow> s)"

text \<open>\<open>hostFromConfig\<close> gives the host of an asset's configuration; an empty one counts as none.\<close>

definition mention_of :: "asset list \<Rightarrow> (asset \<Rightarrow> string option) \<Rightarrow> path_map \<Rightarrow> int \<Rightarrow> string \<Rightarrow> mention_attrs" where
  "mention_of assets hostFromConfig groupPathMap i label =
     (let a = find (\<lambda>x. as_ID x = i) assets
      in \<lparr>at_assetId = i, at_name = label, at_type = map_option as_Type a,
          at_host = (case a of None \<Rightarrow> None | Some x \<Rightarrow> hostFromConfig x),
          at_groupPath = (case a of None \<Rightarrow> None | Some x \<Rightarrow> if as_GroupID x = 0 then None else groupPathMap (as_GroupID x))\<rparr>)"

text \<open>\<open>doc.descendants\<close> visits the nodes below the document from the first to the last, a node before its children.\<close>

fun visit_node :: "(int \<Rightarrow> string \<Rightarrow> mention_attrs) \<Rightarrow> pm_node \<Rightarrow> string \<Rightarrow> string"
and visit_nodes :: "(int \<Rightarrow> string \<Rightarrow> mention_attrs) \<Rightarrow> pm_node list \<Rightarrow> string \<Rightarrow> string" where
  "visit_node attrs (Pm_text t) out = out @ escapeXmlText (or_empty t)"
| "visit_node attrs Pm_hardBreak out = out @ [LF]"
| "visit_node attrs (Pm_mention i label) out = out @ buildMentionXml (attrs i (or_empty label))"
| "visit_node attrs (Pm_paragraph ns) out = visit_nodes attrs ns (if out = [] then out else out @ [LF])"
| "visit_node attrs (Pm_other ns) out = visit_nodes attrs ns out"
| "visit_nodes attrs [] out = out"
| "visit_nodes attrs (n # ns) out = visit_nodes attrs ns (visit_node attrs n out)"

definition drop_newlines :: "string \<Rightarrow> string" where
  "drop_newlines s = rev (dropWhile (\<lambda>c. c = LF) (rev s))"

definition extractContentXml ::
  "asset list \<Rightarrow> (asset \<Rightarrow> string option) \<Rightarrow> path_map \<Rightarrow> pm_node list \<Rightarrow> string" where
  "extractContentXml assets hostFromConfig groupPathMap doc =
     drop_newlines (visit_nodes (mention_of assets hostFromConfig groupPathMap) doc [])"

section \<open>A draft in the editor\<close>

datatype inline =
    I_text string
  | I_mention int string

type_synonym paragraph_node = "inline list"

text \<open>The lines of a text: the first one continues the open paragraph, each further one opens a new one.\<close>

fun append_lines :: "string list \<Rightarrow> paragraph_node list \<times> paragraph_node \<Rightarrow> paragraph_node list \<times> paragraph_node" where
  "append_lines [] (ps, cur) = (ps, cur)"
| "append_lines [l] (ps, cur) = (ps, if l = [] then cur else cur @ [I_text l])"
| "append_lines (l # ls) (ps, cur) = append_lines ls (ps @ [if l = [] then cur else cur @ [I_text l]], [])"

definition appendTextToParagraphs :: "string \<Rightarrow> paragraph_node list \<times> paragraph_node \<Rightarrow> paragraph_node list \<times> paragraph_node" where
  "appendTextToParagraphs t = append_lines (split [LF] t)"

definition add_segment :: "mention_segment \<Rightarrow> paragraph_node list \<times> paragraph_node \<Rightarrow> paragraph_node list \<times> paragraph_node" where
  "add_segment seg st =
     (case seg of
        Seg_text t \<Rightarrow> appendTextToParagraphs t st
      | Seg_mention t a \<Rightarrow> (fst st, snd st @ [I_mention (at_assetId a) (at_name a)]))"

definition buildEditorDocFromMessage :: "string \<Rightarrow> paragraph_node list" where
  "buildEditorDocFromMessage content =
     (let (ps, cur) = fold add_segment (parseMentionContent content) ([], []) in ps @ [cur])"

section \<open>A draft comes back\<close>

lemma split_scan_snoc:
  "split_scan [q] cur (t @ [c]) =
     (if c = q then split_scan [q] cur t @ [[]] else butlast (split_scan [q] cur t) @ [last (split_scan [q] cur t) @ [c]])"
  by (induction t arbitrary: cur) (auto simp: split_scan_char_Cons)

lemma split_snoc:
  "split [q] (t @ [c]) = (if c = q then split [q] t @ [[]] else butlast (split [q] t) @ [last (split [q] t) @ [c]])"
  by (simp add: split_def split_scan_snoc)

lemma split_plain:
  "q \<notin> set x \<Longrightarrow> split [q] (t @ x) = butlast (split [q] t) @ [last (split [q] t) @ x]"
proof (induction x rule: rev_induct)
  case (snoc c x)
  then have "split [q] ((t @ x) @ [c]) = butlast (split [q] (t @ x)) @ [last (split [q] (t @ x)) @ [c]]" by (subst split_snoc) auto
  with snoc show ?case by simp
qed (simp add: split_nonempty)

text \<open>The last line is the one still open.\<close>

lemma append_lines_snoc:
  "ls \<noteq> [] \<Longrightarrow> append_lines (ls @ [l]) st =
     (let (ps, cur) = append_lines ls st in (ps @ [cur], if l = [] then [] else [I_text l]))"
proof (induction ls st rule: append_lines.induct)
  case (3 l1 l2 ls ps cur)
  then show ?case by simp
qed simp_all

lemma append_lines_last:
  "append_lines (ls @ [l]) st = (let (ps, cur) = append_lines (ls @ [[]]) st in (ps, if l = [] then cur else cur @ [I_text l]))"
proof (cases ls)
  case Nil
  then show ?thesis by (cases st) simp
next
  case (Cons x xs)
  then have "ls \<noteq> []" by simp
  then show ?thesis by (simp add: append_lines_snoc case_prod_beta Let_def)
qed

definition open_line :: "string \<Rightarrow> string" where
  "open_line t = last (split [LF] t)"

lemma open_line_simps [simp]:
  "open_line [] = []" "open_line (t @ [LF]) = []" "LF \<notin> set x \<Longrightarrow> open_line (t @ x) = open_line t @ x"
  by (simp_all add: open_line_def split_snoc split_plain) (simp add: split_def)

lemma append_text_newline:
  "appendTextToParagraphs (t @ [LF]) st = (let (ps, cur) = appendTextToParagraphs t st in (ps @ [cur], []))"
  by (simp add: appendTextToParagraphs_def split_snoc append_lines_snoc split_nonempty)

lemma append_text_line:
  assumes "open_line t = []" and "LF \<notin> set x" and "x \<noteq> []"
  shows "appendTextToParagraphs (t @ x) st = (let (ps, cur) = appendTextToParagraphs t st in (ps, cur @ [I_text x]))"
proof -
  have t: "split [LF] t = butlast (split [LF] t) @ [[]]"
    using assms(1) by (metis append_butlast_last_id open_line_def split_nonempty list.discI)
  have "split [LF] (t @ x) = butlast (split [LF] t) @ [x]"
    using split_plain [OF assms(2), of t] assms(1) by (simp add: open_line_def)
  then show ?thesis
    unfolding appendTextToParagraphs_def using append_lines_last [of "butlast (split [LF] t)" x st] t assms(3) by simp
qed

lemma append_text_Nil [simp]: "appendTextToParagraphs [] st = st"
  by (cases st) (simp add: appendTextToParagraphs_def split_def)

text \<open>What the editor shows as nodes of its document.\<close>

fun inline_node :: "inline \<Rightarrow> pm_node" where
  "inline_node (I_text t) = Pm_text (Some t)"
| "inline_node (I_mention i n) = Pm_mention i (Some n)"

definition doc_nodes :: "paragraph_node list \<Rightarrow> pm_node list" where
  "doc_nodes ps = map (\<lambda>p. Pm_paragraph (map inline_node p)) ps"

text \<open>Neighbouring texts of a paragraph are one text, which is not empty and has no line break.\<close>

fun inlines_ok :: "inline list \<Rightarrow> bool" where
  "inlines_ok [] = True"
| "inlines_ok (I_text t # r) \<longleftrightarrow> t \<noteq> [] \<and> LF \<notin> set t \<and> (case r of I_text t' # _ \<Rightarrow> False | _ \<Rightarrow> True) \<and> inlines_ok r"
| "inlines_ok (I_mention i n # r) = inlines_ok r"

fun show_inline :: "(int \<Rightarrow> string \<Rightarrow> mention_attrs) \<Rightarrow> inline \<Rightarrow> string" where
  "show_inline attrs (I_text t) = escapeXmlText t"
| "show_inline attrs (I_mention i n) = buildMentionXml (attrs i n)"

definition show_inlines :: "(int \<Rightarrow> string \<Rightarrow> mention_attrs) \<Rightarrow> inline list \<Rightarrow> string" where
  "show_inlines attrs p = concat (map (show_inline attrs) p)"

definition show_rest :: "(int \<Rightarrow> string \<Rightarrow> mention_attrs) \<Rightarrow> paragraph_node list \<Rightarrow> string" where
  "show_rest attrs ps = concat (map (\<lambda>p. LF # show_inlines attrs p) ps)"

lemma visit_inlines: "visit_nodes attrs (map inline_node p) out = out @ show_inlines attrs p"
proof (induction p arbitrary: out)
  case (Cons x p)
  then show ?case by (cases x) (simp_all add: show_inlines_def or_empty_def)
qed (simp add: show_inlines_def)

lemma visit_paragraphs: "out \<noteq> [] \<Longrightarrow> visit_nodes attrs (doc_nodes ps) out = out @ show_rest attrs ps"
proof (induction ps arbitrary: out)
  case (Cons p ps)
  then show ?case by (simp add: doc_nodes_def show_rest_def visit_inlines)
qed (simp add: doc_nodes_def show_rest_def)

lemma escape_append: "escapeXmlText (s @ t) = escapeXmlText s @ escapeXmlText t"
  by (simp add: escapeXmlText_chars)

lemma escape_LF: "escapeXmlText [LF] = [LF]"
  by (simp add: escapeXmlText_chars xml_text_char_def)

lemma fold_text_segment: "fold add_segment (text_segment (escapeXmlText t)) st = appendTextToParagraphs t st"
  by (simp add: text_segment_escape add_segment_def)

definition ends_with_text :: "inline list \<Rightarrow> bool" where
  "ends_with_text r = (case r of I_text t # _ \<Rightarrow> True | _ \<Rightarrow> False)"

definition finish :: "paragraph_node list \<times> paragraph_node \<Rightarrow> paragraph_node list" where
  "finish st = fst st @ [snd st]"

text \<open>Reading on, with a text that is still open: what is left of the paragraph and the paragraphs after it
  follow what has been read.\<close>

lemma read_on:
  assumes attrs: "\<And>i n. at_assetId (attrs i n) = i \<and> at_name (attrs i n) = n"
  shows "inlines_ok r \<Longrightarrow> \<forall>p\<in>set ps. inlines_ok p \<Longrightarrow> (open_line t \<noteq> [] \<longrightarrow> \<not> ends_with_text r) \<Longrightarrow>
    finish (fold add_segment (parse_from (escapeXmlText t) (show_inlines attrs r @ show_rest attrs ps)) st) =
    (let (P, C) = appendTextToParagraphs t st in P @ [C @ r] @ ps)"
proof (induction "length r + (\<Sum>p\<leftarrow>ps. Suc (length p))" arbitrary: r ps t st rule: less_induct)
  case less
  show ?case
  proof (cases r)
    case Nil
    show ?thesis
    proof (cases ps)
      case Nil
      with \<open>r = []\<close> show ?thesis
        by (simp add: show_inlines_def show_rest_def parse_from.simps fold_text_segment finish_def case_prod_beta)
    next
      case (Cons p ps')
      have "show_inlines attrs r @ show_rest attrs ps = [LF] @ (show_inlines attrs p @ show_rest attrs ps')"
        using \<open>r = []\<close> Cons by (simp add: show_inlines_def show_rest_def)
      then have "parse_from (escapeXmlText t) (show_inlines attrs r @ show_rest attrs ps) =
          parse_from (escapeXmlText (t @ [LF])) (show_inlines attrs p @ show_rest attrs ps')"
        using parse_from_text [of "[LF]" "escapeXmlText t"] by (simp add: escape_append escape_LF)
      with less.hyps [of p ps' "t @ [LF]" st] less.prems Cons \<open>r = []\<close> show ?thesis
        by (simp add: append_text_newline case_prod_beta Let_def)
    qed
  next
    case (Cons x r')
    show ?thesis
    proof (cases x)
      case (I_text u)
      from less.prems(1,3) Cons I_text have u: "u \<noteq> []" "LF \<notin> set u" "open_line t = []" "inlines_ok r'" "\<not> ends_with_text r'"
        by (auto simp: ends_with_text_def split: list.splits inline.splits)
      have "show_inlines attrs r = escapeXmlText u @ show_inlines attrs r'"
        using Cons I_text by (simp add: show_inlines_def)
      then have "parse_from (escapeXmlText t) (show_inlines attrs r @ show_rest attrs ps) =
          parse_from (escapeXmlText (t @ u)) (show_inlines attrs r' @ show_rest attrs ps)"
        using parse_from_text [of "escapeXmlText u" "escapeXmlText t"] by (simp add: escaped_text_plain escape_append)
      with less.hyps [of r' ps "t @ u" st] less.prems(2) Cons u show ?thesis
        by (simp add: append_text_line case_prod_beta Let_def I_text)
    next
      case (I_mention i n)
      have "show_inlines attrs r = buildMentionXml (attrs i n) @ show_inlines attrs r'"
        using Cons I_mention by (simp add: show_inlines_def)
      then have "parse_from (escapeXmlText t) (show_inlines attrs r @ show_rest attrs ps) =
          text_segment (escapeXmlText t) @ Seg_mention (CHR ''@'' # at_name (attrs i n)) (norm_attrs (attrs i n)) #
          parse_from (escapeXmlText []) (show_inlines attrs r' @ show_rest attrs ps)"
        by (simp add: parse_from_build)
      with less.hyps [of r' ps "[]"] less.prems Cons show ?thesis
        by (simp add: fold_text_segment add_segment_def attrs norm_attrs_def case_prod_beta Let_def I_mention)
    qed
  qed
qed

lemma drop_newlines_id: "s \<noteq> [] \<Longrightarrow> last s \<noteq> LF \<Longrightarrow> drop_newlines s = s"
  by (cases s rule: rev_cases) (simp_all add: drop_newlines_def)

lemma last_show_inlines:
  "p \<noteq> [] \<Longrightarrow> inlines_ok p \<Longrightarrow> show_inlines attrs p \<noteq> [] \<and> last (show_inlines attrs p) \<noteq> LF"
proof (induction p rule: inlines_ok.induct)
  case (2 t r)
  have "escapeXmlText t \<noteq> [] \<and> last (escapeXmlText t) \<noteq> LF"
    using 2 unfolding escapeXmlText_chars
    by (cases t rule: rev_cases) (auto simp: xml_text_char_def)
  with 2 show ?case by (cases "r = []") (auto simp: show_inlines_def)
next
  case (3 i n r)
  have "last (buildMentionXml a) = CHR ''>''" for a by (simp add: buildMentionXml_def Let_def)
  with 3 show ?case by (cases "r = []") (auto simp: show_inlines_def)
qed simp

text \<open>A draft comes back as it was: what the editor shows, kept as content and put into the editor
  again, gives the same paragraphs with the same texts and mentions, when the first and the last
  paragraph are not empty.\<close>
theorem draft_comes_back:
  assumes "ps \<noteq> []" and "hd ps \<noteq> []" and "last ps \<noteq> []" and "\<forall>p\<in>set ps. inlines_ok p"
  shows "buildEditorDocFromMessage (extractContentXml assets hostFromConfig groupPathMap (doc_nodes ps)) = ps"
proof -
  let ?attrs = "mention_of assets hostFromConfig groupPathMap"
  have attrs: "at_assetId (?attrs i n) = i \<and> at_name (?attrs i n) = n" for i n by (simp add: mention_of_def Let_def)
  obtain p qs where ps: "ps = p # qs" using assms(1) by (cases ps) auto
  have p: "show_inlines ?attrs p \<noteq> []" using last_show_inlines [of p] assms ps by simp
  have vis: "visit_nodes ?attrs (doc_nodes ps) [] = show_inlines ?attrs p @ show_rest ?attrs qs"
    using visit_paragraphs [OF p, of ?attrs qs] by (simp add: ps doc_nodes_def visit_inlines)
  have "last (show_inlines ?attrs p @ show_rest ?attrs qs) \<noteq> LF"
  proof (cases qs rule: rev_cases)
    case Nil
    then show ?thesis using last_show_inlines [of p] assms ps by (simp add: show_rest_def)
  next
    case (snoc qs' q)
    then have "show_inlines ?attrs q \<noteq> [] \<and> last (show_inlines ?attrs q) \<noteq> LF"
      using last_show_inlines [of q] assms ps by simp
    then show ?thesis by (simp add: snoc show_rest_def)
  qed
  with p have content: "extractContentXml assets hostFromConfig groupPathMap (doc_nodes ps) = show_inlines ?attrs p @ show_rest ?attrs qs"
    unfolding extractContentXml_def vis by (intro drop_newlines_id) simp_all
  from read_on [of ?attrs p qs "[]" "([], [])", OF attrs] assms(4) ps show ?thesis
    unfolding content buildEditorDocFromMessage_def parseMentionContent_def
    by (simp add: finish_def case_prod_beta Let_def)
qed

theorem draft_comes_back_witness:
  "buildEditorDocFromMessage (extractContentXml [] (\<lambda>a. None) (\<lambda>g. None)
     (doc_nodes [[I_text ''a<b'', I_mention 3 ''web''], [], [I_text ''&'']])) = [[I_text ''a<b'', I_mention 3 ''web''], [], [I_text ''&'']]"
  by (rule draft_comes_back) simp_all

section \<open>The history of messages\<close>

datatype direction_key = Up | Down

text \<open>\<open>historyIndex\<close> is -1 while no message of the history is shown; the newest message has index 0. The
  result is the index and the message shown next, or \<open>None\<close> when the key is left to the editor.\<close>

definition getInputHistoryNavigationState ::
  "direction_key \<Rightarrow> string \<Rightarrow> int \<Rightarrow> string list \<Rightarrow> bool \<Rightarrow> bool \<Rightarrow> (int \<times> string) option" where
  "getInputHistoryNavigationState direction currentText historyIndex history canStart canContinue =
     (let currentHistoryMessage =
            (if 0 \<le> historyIndex \<and> nat historyIndex < length history then Some (history ! nat historyIndex) else None);
          isBrowsing = (currentHistoryMessage = Some currentText)
      in if \<not> (if isBrowsing then canContinue else canStart) then None
         else if direction = Up \<and> history = [] then None
         else if direction = Down \<and> (\<not> isBrowsing \<or> historyIndex < 0) then None
         else
           let next = (if direction = Up then min (historyIndex + 1) (int (length history) - 1) else historyIndex - 1)
           in Some (next, if 0 \<le> next then history ! nat next else []))"

lemma history_in_bounds:
  assumes "getInputHistoryNavigationState d cur i history a b = Some (j, m)" and "-1 \<le> i"
  shows "-1 \<le> j \<and> j < int (length history)" "0 \<le> j \<Longrightarrow> m = history ! nat j"
  using assms by (cases d; auto simp: getInputHistoryNavigationState_def Let_def split: if_splits)+

lemma history_up_down:
  assumes "getInputHistoryNavigationState Up cur i history a b = Some (j, m)" and "-1 \<le> i" and "i + 1 < int (length history)" and "b'"
  shows "getInputHistoryNavigationState Down m j history a' b' = Some (i, if 0 \<le> i then history ! nat i else [])"
  using assms by (auto simp: getInputHistoryNavigationState_def Let_def split: if_splits)

end
