(* ===== verification/Mongosh.thy ===== *)
theory Mongosh
  imports JsValue
begin

text \<open>
  The statements of the MongoDB console (\<^verbatim>\<open>lib/mongosh-parser.ts\<close>): from the tree that \<open>acorn\<close> gives
  for an expression to the operation, the collection and the query the backend is called with. The
  package is a parameter; its tree is \<open>ast\<close>, with one constructor for every node type the parser
  names and \<open>A_Other\<close> for all the others. An error is a value.
\<close>

section \<open>The tree of an expression\<close>

datatype ast =
    A_Literal jsval
  | A_Regex string string
  | A_Identifier string
  | A_Object "ast_property list"
  | A_Array "ast option list"
  | A_Unary string ast
  | A_Call ast "ast list"
  | A_New ast "ast list"
  | A_Template "string list" "ast list"
  | A_Member ast ast bool
  | A_Other string
and ast_property =
    A_Property ast ast bool bool
  | A_NoProperty

datatype mongosh_error =
    E_emptyStatement
  | E_syntax string
  | E_trailing string
  | E_notACall
  | E_computedAccess
  | E_notAnOperation
  | E_propertyName
  | E_notDb
  | E_noDatabase
  | E_siblingArg
  | E_identifier string
  | E_literal string
  | E_property
  | E_computedKey
  | E_shorthand
  | E_unary string
  | E_interpolation
  | E_expression string
  | E_callee
  | E_argument string
  | E_function string
  | E_invalidDate
  | E_operation string
  | E_modifier string string

fun propertyName :: "ast \<Rightarrow> mongosh_error + string" where
  "propertyName (A_Identifier name) = Inr name"
| "propertyName (A_Literal (JStr s)) = Inr s"
| "propertyName other = Inl E_propertyName"

section \<open>Values\<close>

text \<open>
  Writing a property of a new object: the name of the prototype is no property of its own, and
  array indices stand before the other names, in ascending order.
\<close>

definition index_key :: "string \<Rightarrow> bool" where
  "index_key k \<longleftrightarrow> all_digits k \<and> k = nat_str (digits_val k) \<and> digits_val k < 4294967295"

definition put_key :: "(string \<times> jsval) list \<Rightarrow> string \<Rightarrow> jsval \<Rightarrow> (string \<times> jsval) list" where
  "put_key obj k v =
     (if k = ''__proto__'' then obj
      else if k \<in> set (map fst obj) \<or> \<not> index_key k then set_prop obj k v
      else takeWhile (\<lambda>(j, u). index_key j \<and> digits_val j < digits_val k) obj @ (k, v) #
           dropWhile (\<lambda>(j, u). index_key j \<and> digits_val j < digits_val k) obj)"

definition is_number :: "jsval \<Rightarrow> bool" where
  "is_number v = (case v of JInt i \<Rightarrow> True | JFloat t \<Rightarrow> True | _ \<Rightarrow> False)"

text \<open>The negation of a number; \<open>JFloat ''0''\<close> is -0.\<close>

fun negate :: "jsval \<Rightarrow> jsval" where
  "negate (JInt i) = (if i = 0 then JFloat ''0'' else JInt (- i))"
| "negate (JFloat t) =
     (if t = ''0'' then JInt 0 else if t = ''NaN'' then JFloat t
      else if starts_with t ''-'' then JFloat (tl t) else JFloat (CHR ''-'' # t))"
| "negate v = v"

text \<open>
  \<open>new Date(n).toISOString()\<close>: the milliseconds are cut to an integer, none outside the range of a
  date; the year, month and day come from the number of days since 1970-01-01 in the Gregorian calendar.
\<close>

definition cut_number :: "jsval \<Rightarrow> int option" where
  "cut_number v =
     (case v of
        JInt i \<Rightarrow> Some i
      | JFloat t \<Rightarrow>
          let neg = starts_with t ''-'';
              ds = takeWhile is_digit (if neg then tl t else t)
          in if ds = [] \<or> str_includes t ''e+'' then None
             else if str_includes t ''e-'' then Some 0
             else Some (if neg then - int (digits_val ds) else int (digits_val ds))
      | _ \<Rightarrow> None)"

definition civil_of_days :: "int \<Rightarrow> int \<times> int \<times> int" where
  "civil_of_days days =
     (let z = days + 719468;
          era = z div 146097;
          doe = z mod 146097;
          yoe = (doe - doe div 1460 + doe div 36524 - doe div 146096) div 365;
          doy = doe - (365 * yoe + yoe div 4 - yoe div 100);
          mp = (5 * doy + 2) div 153;
          m = (if mp < 10 then mp + 3 else mp - 9)
      in (yoe + era * 400 + (if m \<le> 2 then 1 else 0), m, doy - (153 * mp + 2) div 5 + 1))"

definition pad_int :: "nat \<Rightarrow> int \<Rightarrow> string" where
  "pad_int w i = pad_start w CHR ''0'' (nat_str (nat i))"

definition iso_year :: "int \<Rightarrow> string" where
  "iso_year y =
     (if 0 \<le> y \<and> y \<le> 9999 then pad_int 4 y
      else (if y < 0 then ''-'' else ''+'') @ pad_int 6 (abs y))"

definition iso_string :: "jsval \<Rightarrow> string option" where
  "iso_string v =
     (case cut_number v of
        None \<Rightarrow> None
      | Some n \<Rightarrow>
          if abs n > 8640000000000000 then None
          else
            let (y, m, d) = civil_of_days (n div 86400000);
                ms = n mod 86400000
            in Some (iso_year y @ ''-'' @ pad_int 2 m @ ''-'' @ pad_int 2 d @ ''T'' @ pad_int 2 (ms div 3600000) @ '':'' @
                 pad_int 2 (ms div 60000 mod 60) @ '':'' @ pad_int 2 (ms div 1000 mod 60) @ ''.'' @ pad_int 3 (ms mod 1000) @ ''Z''))"

definition arg :: "jsval list \<Rightarrow> nat \<Rightarrow> jsval" where
  "arg args i = (if i < length args then args ! i else JUndef)"

text \<open>\<open>typeof v === "string" ? v : typeof v === "number" ? String(v) : null\<close>.\<close>

definition ejson_number_text :: "jsval \<Rightarrow> string option" where
  "ejson_number_text v = (case v of JStr s \<Rightarrow> Some s | _ \<Rightarrow> if is_number v then Some (js_string v) else None)"

definition convertEjsonCall :: "string \<Rightarrow> jsval list \<Rightarrow> mongosh_error + jsval" where
  "convertEjsonCall name args =
     (if name = ''ObjectId'' then
        (case arg args 0 of JStr s \<Rightarrow> Inr (JObj [(''$oid'', JStr s)]) | _ \<Rightarrow> Inl (E_argument name))
      else if name = ''ISODate'' \<or> name = ''Date'' then
        (case arg args 0 of
           JStr s \<Rightarrow> Inr (JObj [(''$date'', JStr s)])
         | v \<Rightarrow>
             if is_number v then
               (case iso_string v of None \<Rightarrow> Inl E_invalidDate | Some t \<Rightarrow> Inr (JObj [(''$date'', JStr t)]))
             else Inl (E_argument name))
      else if name = ''NumberLong'' \<or> name = ''NumberInt'' then
        (case ejson_number_text (arg args 0) of
           None \<Rightarrow> Inl (E_argument name)
         | Some s \<Rightarrow> Inr (JObj [(if name = ''NumberLong'' then ''$numberLong'' else ''$numberInt'', JStr s)]))
      else if name = ''NumberDecimal'' then
        (case ejson_number_text (arg args 0) of
           None \<Rightarrow> Inl (E_argument name)
         | Some s \<Rightarrow> Inr (JObj [(''$numberDecimal'', JStr s)]))
      else if name = ''Timestamp'' then
        (if is_number (arg args 0) \<and> is_number (arg args 1)
         then Inr (JObj [(''$timestamp'', JObj [(''t'', arg args 0), (''i'', arg args 1)])])
         else Inl (E_argument name))
      else Inl (E_function name))"

fun convertValue :: "ast \<Rightarrow> mongosh_error + jsval"
and convert_args :: "ast list \<Rightarrow> mongosh_error + jsval list"
and convert_elements :: "ast option list \<Rightarrow> mongosh_error + jsval list"
and convert_properties :: "ast_property list \<Rightarrow> (string \<times> jsval) list \<Rightarrow> mongosh_error + (string \<times> jsval) list" where
  "convertValue (A_Literal v) = Inr (if v = JUndef then JNull else v)"
| "convertValue (A_Regex pattern flags) = Inr (JObj [(''$regex'', JStr pattern), (''$options'', JStr flags)])"
| "convertValue (A_Identifier name) = (if name = ''undefined'' then Inr JNull
      else if name = ''NaN'' \<or> name = ''Infinity'' then Inl (E_literal name)
      else Inl (E_identifier name))"
| "convertValue (A_Object ps) = (case convert_properties ps [] of Inl e \<Rightarrow> Inl e | Inr obj \<Rightarrow> Inr (JObj obj))"
| "convertValue (A_Array es) = (case convert_elements es of Inl e \<Rightarrow> Inl e | Inr vs \<Rightarrow> Inr (JArr vs))"
| "convertValue (A_Unary operator a) =
     (case convertValue a of
        Inl e \<Rightarrow> Inl e
      | Inr v \<Rightarrow>
          if operator = ''-'' \<and> is_number v then Inr (negate v)
          else if operator = ''+'' \<and> is_number v then Inr v
          else if operator = ''!'' then (case v of JBool b \<Rightarrow> Inr (JBool (\<not> b)) | _ \<Rightarrow> Inl (E_unary operator))
          else Inl (E_unary operator))"
| "convertValue (A_Call callee args) =
     (case callee of
        A_Identifier name \<Rightarrow> (case convert_args args of Inl e \<Rightarrow> Inl e | Inr vs \<Rightarrow> convertEjsonCall name vs)
      | _ \<Rightarrow> Inl E_callee)"
| "convertValue (A_New callee args) =
     (case callee of
        A_Identifier name \<Rightarrow> (case convert_args args of Inl e \<Rightarrow> Inl e | Inr vs \<Rightarrow> convertEjsonCall name vs)
      | _ \<Rightarrow> Inl E_callee)"
| "convertValue (A_Template cooked expressions) =
     (if expressions \<noteq> [] then Inl E_interpolation else Inr (JStr (concat cooked)))"
| "convertValue (A_Member object property computed) = Inl (E_expression ''MemberExpression'')"
| "convertValue (A_Other type) = Inl (E_expression type)"
| "convert_args [] = Inr []"
| "convert_args (a # as) =
     (case convertValue a of
        Inl e \<Rightarrow> Inl e
      | Inr v \<Rightarrow> (case convert_args as of Inl e \<Rightarrow> Inl e | Inr vs \<Rightarrow> Inr (v # vs)))"
| "convert_elements [] = Inr []"
| "convert_elements (el # els) =
     (case (case el of None \<Rightarrow> Inr JNull | Some a \<Rightarrow> convertValue a) of
        Inl e \<Rightarrow> Inl e
      | Inr v \<Rightarrow> (case convert_elements els of Inl e \<Rightarrow> Inl e | Inr vs \<Rightarrow> Inr (v # vs)))"
| "convert_properties [] obj = Inr obj"
| "convert_properties (A_NoProperty # ps) obj = Inl E_property"
| "convert_properties (A_Property k v computed shorthand # ps) obj =
     (if computed then Inl E_computedKey
      else if shorthand then Inl E_shorthand
      else case propertyName k of
        Inl e \<Rightarrow> Inl e
      | Inr key \<Rightarrow>
          (case convertValue v of
             Inl e \<Rightarrow> Inl e
           | Inr u \<Rightarrow> convert_properties ps (put_key obj key u)))"

lemma iso_examples:
  "iso_string (JInt 0) = Some ''1970-01-01T00:00:00.000Z''"
  "iso_string (JInt (- 1)) = Some ''1969-12-31T23:59:59.999Z''"
  "iso_string (JInt 1709164800000) = Some ''2024-02-29T00:00:00.000Z''"
  "iso_string (JInt (- 62198755200000)) = Some ''-000001-01-01T00:00:00.000Z''"
  "iso_string (JFloat ''1.5'') = Some ''1970-01-01T00:00:00.001Z''"
  "iso_string (JFloat ''1e+21'') = None"
  by code_simp+

section \<open>Operations\<close>

datatype mongosh_operation =
    Op_find | Op_findOne | Op_insertOne | Op_insertMany | Op_updateOne | Op_updateMany
  | Op_deleteOne | Op_deleteMany | Op_aggregate | Op_countDocuments

text \<open>\<open>value ?? {}\<close>.\<close>

definition or_empty_object :: "jsval \<Rightarrow> jsval" where
  "or_empty_object v = (if nullish v then JObj [] else v)"

type_synonym query = "(string \<times> jsval) list"
type_synonym modifier = "string \<times> jsval list"

definition find_query :: "jsval list \<Rightarrow> query" where
  "find_query args =
     (let q = [(''filter'', or_empty_object (arg args 0))]
      in if arg args 1 = JUndef then q else set_prop q ''projection'' (arg args 1))"

definition is_js_array :: "jsval \<Rightarrow> bool" where
  "is_js_array v = (case v of JArr vs \<Rightarrow> True | _ \<Rightarrow> False)"

definition operation_query :: "string \<Rightarrow> jsval list \<Rightarrow> mongosh_error + (mongosh_operation \<times> query)" where
  "operation_query name args =
     (if name = ''find'' then Inr (Op_find, find_query args)
      else if name = ''findOne'' then Inr (Op_findOne, find_query args)
      else if name = ''insertOne'' then
        (if args = [] then Inl (E_argument name) else Inr (Op_insertOne, [(''document'', arg args 0)]))
      else if name = ''insertMany'' then
        (if \<not> is_js_array (arg args 0) then Inl (E_argument name) else Inr (Op_insertMany, [(''documents'', arg args 0)]))
      else if name = ''updateOne'' \<or> name = ''updateMany'' then
        (if arg args 1 = JUndef then Inl (E_argument name)
         else Inr (if name = ''updateOne'' then Op_updateOne else Op_updateMany,
                   [(''filter'', or_empty_object (arg args 0)), (''update'', arg args 1)]))
      else if name = ''deleteOne'' \<or> name = ''deleteMany'' then
        Inr (if name = ''deleteOne'' then Op_deleteOne else Op_deleteMany, [(''filter'', or_empty_object (arg args 0))])
      else if name = ''aggregate'' then
        (if \<not> is_js_array (arg args 0) then Inl (E_argument name) else Inr (Op_aggregate, [(''pipeline'', arg args 0)]))
      else if name = ''countDocuments'' \<or> name = ''count'' then
        Inr (Op_countDocuments, [(''filter'', or_empty_object (arg args 0))])
      else Inl (E_operation name))"

definition FIND_MODIFIERS :: "string list" where
  "FIND_MODIFIERS = [''sort'', ''limit'', ''skip'', ''project'']"

fun add_modifiers :: "mongosh_operation \<Rightarrow> modifier list \<Rightarrow> query \<Rightarrow> mongosh_error + query" where
  "add_modifiers operation [] q = Inr q"
| "add_modifiers operation ((name, args) # ms) q =
     (if operation \<noteq> Op_find then Inl (E_modifier name ''operation'')
      else if name \<notin> set FIND_MODIFIERS then Inl (E_modifier name ''find'')
      else if name = ''sort'' then add_modifiers operation ms (set_prop q ''sort'' (arg args 0))
      else if name = ''limit'' then
        (if is_number (arg args 0) then add_modifiers operation ms (set_prop q ''limit'' (arg args 0)) else Inl (E_argument name))
      else if name = ''skip'' then
        (if is_number (arg args 0) then add_modifiers operation ms (set_prop q ''skip'' (arg args 0)) else Inl (E_argument name))
      else add_modifiers operation ms (set_prop q ''projection'' (arg args 0)))"

definition buildOpQuery :: "string \<Rightarrow> jsval list \<Rightarrow> modifier list \<Rightarrow> mongosh_error + (mongosh_operation \<times> query)" where
  "buildOpQuery name args modifiers =
     (case operation_query name args of
        Inl e \<Rightarrow> Inl e
      | Inr (operation, q) \<Rightarrow>
          (case add_modifiers operation modifiers q of Inl e \<Rightarrow> Inl e | Inr q' \<Rightarrow> Inr (operation, q')))"

section \<open>Statements\<close>

definition resolveCollection :: "ast \<Rightarrow> string \<Rightarrow> mongosh_error + (string \<times> string)" where
  "resolveCollection obj currentDb =
     (case obj of
        A_Member dbRef property computed \<Rightarrow>
          if computed then Inl E_computedAccess
          else (case propertyName property of
             Inl e \<Rightarrow> Inl e
           | Inr collection \<Rightarrow>
               (case dbRef of
                  A_Identifier d \<Rightarrow>
                    if d = ''db'' then (if currentDb = [] then Inl E_noDatabase else Inr (currentDb, collection))
                    else Inl E_notDb
                | A_Call (A_Member (A_Identifier d) callee c) args \<Rightarrow>
                    if d \<noteq> ''db'' then Inl E_notDb
                    else (case propertyName callee of
                       Inl e \<Rightarrow> Inl e
                     | Inr name \<Rightarrow>
                         if name \<noteq> ''getSiblingDB'' then Inl E_notDb
                         else (case convert_args args of
                            Inl e \<Rightarrow> Inl e
                          | Inr vs \<Rightarrow>
                              (case arg vs 0 of
                                 JStr s \<Rightarrow> if s = [] then Inl E_siblingArg else Inr (s, collection)
                               | _ \<Rightarrow> Inl E_siblingArg)))
                | _ \<Rightarrow> Inl E_notDb))
      | _ \<Rightarrow> Inl E_notDb)"

text \<open>
  The chain of modifiers is taken off from the outside: the name and the arguments of a call, while its
  callee is a member of another call.
\<close>

fun peel :: "ast \<Rightarrow> ast list \<Rightarrow> modifier list \<Rightarrow> mongosh_error + (ast \<times> ast list \<times> modifier list)" where
  "peel callee args modifiers =
     (case callee of
        A_Member object property computed \<Rightarrow>
          (case object of
             A_Call callee' args' \<Rightarrow>
               if computed then Inl E_computedAccess
               else (case propertyName property of
                  Inl e \<Rightarrow> Inl e
                | Inr name \<Rightarrow>
                    (case convert_args args of
                       Inl e \<Rightarrow> Inl e
                     | Inr vs \<Rightarrow> peel callee' args' ((name, vs) # modifiers)))
           | _ \<Rightarrow> Inr (callee, args, modifiers))
      | _ \<Rightarrow> Inr (callee, args, modifiers))"

declare peel.simps [simp del]

record parsed_mongosh =
  pm_database :: string
  pm_collection :: string
  pm_operation :: mongosh_operation
  pm_query :: query

definition parseStatement :: "ast \<Rightarrow> string \<Rightarrow> mongosh_error + parsed_mongosh" where
  "parseStatement root currentDb =
     (case root of
        A_Call callee0 args0 \<Rightarrow>
          (case peel callee0 args0 [] of
             Inl e \<Rightarrow> Inl e
           | Inr (callee, callArgs, modifiers) \<Rightarrow>
               (case callee of
                  A_Member object property computed \<Rightarrow>
                    if computed then Inl E_computedAccess
                    else (case propertyName property of
                       Inl e \<Rightarrow> Inl e
                     | Inr operationName \<Rightarrow>
                         (case resolveCollection object currentDb of
                            Inl e \<Rightarrow> Inl e
                          | Inr (database, collection) \<Rightarrow>
                              (case convert_args callArgs of
                                 Inl e \<Rightarrow> Inl e
                               | Inr args \<Rightarrow>
                                   (case buildOpQuery operationName args modifiers of
                                      Inl e \<Rightarrow> Inl e
                                    | Inr (operation, query) \<Rightarrow>
                                        Inr \<lparr>pm_database = database, pm_collection = collection,
                                             pm_operation = operation, pm_query = query\<rparr>))))
                | _ \<Rightarrow> Inl E_notAnOperation))
      | _ \<Rightarrow> Inl E_notACall)"

text \<open>\<open>acorn\<close> is \<open>parseExpressionAt(text, 0)\<close>: the message of its error, or the tree and where it ends.\<close>

definition strip_semicolon :: "string \<Rightarrow> string" where
  "strip_semicolon s = (if s \<noteq> [] \<and> last s = CHR '';'' then butlast s else s)"

definition parseMongosh :: "(string \<Rightarrow> string + (ast \<times> nat)) \<Rightarrow> string \<Rightarrow> string \<Rightarrow> mongosh_error + parsed_mongosh" where
  "parseMongosh acorn src currentDb =
     (let trimmed = strip_semicolon (trim src)
      in if trimmed = [] then Inl E_emptyStatement
         else case acorn trimmed of
           Inl message \<Rightarrow> Inl (E_syntax message)
         | Inr (root, end) \<Rightarrow>
             let tail = trim (drop end trimmed)
             in if tail \<noteq> [] then Inl (E_trailing (take 30 tail)) else parseStatement root currentDb)"

section \<open>What is written arrives\<close>

text \<open>A JSON value as the literal a user writes; a negative number is a minus before a literal.\<close>

fun literal_of :: "jsval \<Rightarrow> ast"
and property_of :: "string \<times> jsval \<Rightarrow> ast_property" where
  "literal_of (JInt i) = (if i < 0 then A_Unary ''-'' (A_Literal (JInt (- i))) else A_Literal (JInt i))"
| "literal_of (JFloat t) =
     (if t = ''0'' then A_Unary ''-'' (A_Literal (JInt 0))
      else if starts_with t ''-'' then A_Unary ''-'' (A_Literal (JFloat (tl t))) else A_Literal (JFloat t))"
| "literal_of (JArr vs) = A_Array (map (\<lambda>v. Some (literal_of v)) vs)"
| "literal_of (JObj ps) = A_Object (map property_of ps)"
| "literal_of v = A_Literal v"
| "property_of (k, v) = A_Property (A_Literal (JStr k)) (literal_of v) False False"

text \<open>
  The names of an object in the order in which a JavaScript object keeps them: array indices first, in ascending
  order. (Written in another order they arrive in this one.) A name is not used twice, and none is
  \<open>__proto__\<close>, which is lost (\<open>proto_field_lost\<close> below).
\<close>

fun js_order :: "string list \<Rightarrow> bool" where
  "js_order [] \<longleftrightarrow> True"
| "js_order (k # ks) \<longleftrightarrow> list_all (\<lambda>j. index_key j \<longrightarrow> index_key k \<and> digits_val k < digits_val j) ks \<and> js_order ks"

definition names_ok :: "string list \<Rightarrow> bool" where
  "names_ok ks \<longleftrightarrow> distinct ks \<and> ''__proto__'' \<notin> set ks \<and> js_order ks"

text \<open>The text \<open>String\<close> gives for a finite number that is not an integer in plain decimal; ''0'' is for -0.\<close>

definition float_text :: "string \<Rightarrow> bool" where
  "float_text t \<longleftrightarrow> t = ''0'' \<or>
     (let u = (if starts_with t ''-'' then tl t else t) in u \<noteq> [] \<and> is_digit (hd u) \<and> u \<noteq> ''0'')"

fun json_value :: "jsval \<Rightarrow> bool"
and json_property :: "string \<times> jsval \<Rightarrow> bool" where
  "json_value JNull = True"
| "json_value (JBool b) = True"
| "json_value (JInt i) = True"
| "json_value (JFloat t) = float_text t"
| "json_value (JStr s) = True"
| "json_value (JArr vs) = (\<forall>v\<in>set vs. json_value v)"
| "json_value (JObj ps) = (names_ok (map fst ps) \<and> (\<forall>p\<in>set ps. json_property p))"
| "json_value v = False"
| "json_property (k, v) = json_value v"

lemma set_prop_new: "k \<notin> fst ` set ps \<Longrightarrow> set_prop ps k v = ps @ [(k, v)]"
  by (induction ps) auto

lemma put_key_new:
  assumes "k \<notin> fst ` set obj" and "k \<noteq> ''__proto__''"
    and "\<forall>j\<in>fst ` set obj. index_key k \<longrightarrow> index_key j \<and> digits_val j < digits_val k"
  shows "put_key obj k v = obj @ [(k, v)]"
proof (cases "index_key k")
  case True
  with assms(3) have "\<forall>x\<in>set obj. case x of (j, u) \<Rightarrow> index_key j \<and> digits_val j < digits_val k" by force
  then have "takeWhile (\<lambda>(j, u). index_key j \<and> digits_val j < digits_val k) obj = obj"
    "dropWhile (\<lambda>(j, u). index_key j \<and> digits_val j < digits_val k) obj = []"
    by (simp_all add: takeWhile_eq_all_conv dropWhile_eq_Nil_conv)
  with True assms show ?thesis by (simp add: put_key_def)
qed (use assms in \<open>simp add: put_key_def set_prop_new\<close>)

lemma js_order_append: "js_order (xs @ ys) \<Longrightarrow> x \<in> set xs \<Longrightarrow> y \<in> set ys \<Longrightarrow> index_key y \<Longrightarrow> index_key x \<and> digits_val x < digits_val y"
  by (induction xs) (auto simp: list_all_iff)

lemma convert_elements_all:
  "\<forall>v\<in>set vs. convertValue (f v) = Inr v \<Longrightarrow> convert_elements (map (\<lambda>v. Some (f v)) vs) = Inr vs"
  by (induction vs) simp_all

lemma convert_properties_all:
  "\<forall>p\<in>set ps. convertValue (literal_of (snd p)) = Inr (snd p) \<Longrightarrow> names_ok (map fst obj @ map fst ps) \<Longrightarrow>
   convert_properties (map property_of ps) obj = Inr (obj @ ps)"
proof (induction ps arbitrary: obj)
  case (Cons p ps)
  obtain k v where p: "p = (k, v)" by (cases p)
  from Cons.prems p have "put_key obj k v = obj @ [(k, v)]"
    by (intro put_key_new) (auto simp: names_ok_def dest: js_order_append [of "map fst obj" "k # map fst ps", simplified])
  with Cons.IH [of "obj @ [(k, v)]"] Cons.prems p show ?case by simp
qed simp

lemma convert_literal: "json_value v \<Longrightarrow> convertValue (literal_of v) = Inr v"
proof (induction v)
  case (JArr vs)
  then show ?case by (simp add: convert_elements_all)
next
  case (JObj ps)
  have "\<forall>p\<in>set ps. convertValue (literal_of (snd p)) = Inr (snd p)"
  proof
    fix p assume "p \<in> set ps"
    obtain k u where "p = (k, u)" by (cases p)
    with JObj.prems \<open>p \<in> set ps\<close> have "json_value u" by force
    with JObj.IH [of p u] \<open>p = (k, u)\<close> \<open>p \<in> set ps\<close> show "convertValue (literal_of (snd p)) = Inr (snd p)" by simp
  qed
  then show ?case using convert_properties_all [of ps "[]"] JObj.prems by simp
next
  case (JFloat t)
  then consider "t = ''0''" | u where "t = CHR ''-'' # u" "u \<noteq> []" "is_digit (hd u)" "u \<noteq> ''0''" | "t \<noteq> ''0''" "\<not> starts_with t ''-''"
    by (cases "starts_with t ''-''") (auto simp: float_text_def starts_with_iff)
  then show ?case
  proof cases
    case 2
    then obtain c cs where u: "u = c # cs" "is_digit c" by (cases u) auto
    then have "c \<noteq> CHR ''-''" "c \<noteq> CHR ''N''" by (auto simp: is_digit_def)
    with 2 u show ?thesis by (auto simp: is_number_def starts_with_iff)
  next
    case 3
    then have "literal_of (JFloat t) = A_Literal (JFloat t)" by (simp only: literal_of.simps if_False)
    then show ?thesis by simp
  qed (simp add: is_number_def)
qed (auto simp: is_number_def)

lemma convert_literals: "\<forall>v\<in>set vs. json_value v \<Longrightarrow> convert_args (map literal_of vs) = Inr vs"
  by (induction vs) (simp_all add: convert_literal)

text \<open>\<open>db.coll.op(args).m\<^sub>1(args\<^sub>1) ... m\<^sub>n(args\<^sub>n)\<close> as a tree.\<close>

definition call_of :: "ast \<Rightarrow> string \<Rightarrow> jsval list \<Rightarrow> ast" where
  "call_of object name args = A_Call (A_Member object (A_Identifier name) False) (map literal_of args)"

definition statement_of :: "string \<Rightarrow> string \<Rightarrow> jsval list \<Rightarrow> modifier list \<Rightarrow> ast" where
  "statement_of coll op args modifiers =
     fold (\<lambda>(m, as) e. call_of e m as) modifiers
       (call_of (A_Member (A_Identifier ''db'') (A_Identifier coll) False) op args)"

lemma peel_chain:
  "\<forall>(m, as)\<in>set ms. \<forall>v\<in>set as. json_value v \<Longrightarrow>
   (case fold (\<lambda>(m, as) e. call_of e m as) ms (A_Call callee args) of
      A_Call c as \<Rightarrow> peel c as later
    | _ \<Rightarrow> Inl E_notACall) = peel callee args (ms @ later)"
proof (induction ms arbitrary: later rule: rev_induct)
  case (snoc x ms)
  obtain m as where x: "x = (m, as)" by (cases x)
  let ?e = "fold (\<lambda>(m, as) e. call_of e m as) ms (A_Call callee args)"
  have "\<exists>c' as'. ?e = A_Call c' as'"
    by (cases ms rule: rev_cases) (auto simp: call_of_def)
  then obtain c' as' where e: "?e = A_Call c' as'" by blast
  have "fold (\<lambda>(m, as) e. call_of e m as) (ms @ [x]) (A_Call callee args) =
      A_Call (A_Member (A_Call c' as') (A_Identifier m) False) (map literal_of as)"
    by (simp add: x e call_of_def [of "A_Call c' as'" m as])
  with snoc x show ?case
    by (simp add: e peel.simps [of "A_Member (A_Call c' as') (A_Identifier m) False"] convert_literals)
qed simp

lemma peel_base: "peel (A_Member (A_Member d p c) q c') args later = Inr (A_Member (A_Member d p c) q c', args, later)"
  by (simp add: peel.simps)

lemma parseStatement_statement:
  assumes "db \<noteq> []" and "\<forall>v\<in>set args. json_value v" and "\<forall>(m, as)\<in>set modifiers. \<forall>v\<in>set as. json_value v"
  shows "parseStatement (statement_of coll op args modifiers) db =
    (case buildOpQuery op args modifiers of
       Inl e \<Rightarrow> Inl e
     | Inr (operation, query) \<Rightarrow> Inr \<lparr>pm_database = db, pm_collection = coll, pm_operation = operation, pm_query = query\<rparr>)"
proof -
  let ?base = "A_Member (A_Member (A_Identifier ''db'') (A_Identifier coll) False) (A_Identifier op) False"
  let ?root = "statement_of coll op args modifiers"
  have "\<exists>c as. ?root = A_Call c as"
    unfolding statement_of_def by (cases modifiers rule: rev_cases) (auto simp: call_of_def)
  then obtain c as where root: "?root = A_Call c as" by blast
  have "peel c as [] = Inr (?base, map literal_of args, modifiers)"
    using peel_chain [OF assms(3), where callee = ?base and args = "map literal_of args" and later = "[]"] root
    unfolding statement_of_def call_of_def [of _ op] by (simp add: peel_base)
  then show ?thesis
    unfolding root parseStatement_def using assms(1)
    by (simp add: resolveCollection_def convert_literals [OF assms(2)] split: sum.split)
qed

text \<open>What the modifiers of a \<open>find\<close> ask for: of each kind the last one counts.\<close>

definition modifier_ok :: "modifier \<Rightarrow> bool" where
  "modifier_ok m \<longleftrightarrow> (case m of (name, as) \<Rightarrow>
     name \<in> set FIND_MODIFIERS \<and> (name = ''limit'' \<or> name = ''skip'' \<longrightarrow> is_number (arg as 0)))"

definition modifier_field :: "string \<Rightarrow> string" where
  "modifier_field name = (if name = ''project'' then ''projection'' else name)"

fun requested :: "modifier list \<Rightarrow> (string \<rightharpoonup> jsval) \<Rightarrow> string \<rightharpoonup> jsval" where
  "requested [] f = f"
| "requested ((name, as) # ms) f = requested ms (f(modifier_field name \<mapsto> arg as 0))"

lemma add_modifiers_requested:
  "list_all modifier_ok ms \<Longrightarrow> \<exists>q'. add_modifiers Op_find ms q = Inr q' \<and> map_of q' = requested ms (map_of q)"
proof (induction ms arbitrary: q)
  case (Cons m ms)
  obtain name as where m: "m = (name, as)" by (cases m)
  from Cons.prems have ok: "modifier_ok m" and rest: "list_all modifier_ok ms" by simp_all
  from ok m have "\<exists>q1. add_modifiers Op_find (m # ms) q = add_modifiers Op_find ms q1 \<and> map_of q1 = (map_of q)(modifier_field name \<mapsto> arg as 0)"
  proof -
    have f: "modifier_field ''sort'' = ''sort''" "modifier_field ''limit'' = ''limit''" "modifier_field ''skip'' = ''skip''"
      "modifier_field ''project'' = ''projection''" by (simp_all add: modifier_field_def)
    from ok have names: "name \<in> {''sort'', ''limit'', ''skip'', ''project''}"
      and num: "name = ''limit'' \<or> name = ''skip'' \<Longrightarrow> is_number (arg as 0)"
      unfolding modifier_ok_def FIND_MODIFIERS_def m prod.case by (simp only: list.set, elim conjE mp)
    from names consider "name = ''sort''" | "name = ''limit''" | "name = ''skip''" | "name = ''project''"
      by (elim insertE emptyE)
    then show ?thesis
    proof cases
      case 1
      show ?thesis unfolding m 1 f by (rule exI [of _ "set_prop q ''sort'' (arg as 0)"]) (simp add: FIND_MODIFIERS_def)
    next
      case 2
      show ?thesis unfolding m 2 f using num [OF disjI1 [OF 2]] by (intro exI [of _ "set_prop q ''limit'' (arg as 0)"]) (simp add: FIND_MODIFIERS_def)
    next
      case 3
      show ?thesis unfolding m 3 f using num [OF disjI2 [OF 3]] by (intro exI [of _ "set_prop q ''skip'' (arg as 0)"]) (simp add: FIND_MODIFIERS_def)
    next
      case 4
      show ?thesis unfolding m 4 f by (rule exI [of _ "set_prop q ''projection'' (arg as 0)"]) (simp add: FIND_MODIFIERS_def)
    qed
  qed
  then obtain q1 where "add_modifiers Op_find (m # ms) q = add_modifiers Op_find ms q1" "map_of q1 = (map_of q)(modifier_field name \<mapsto> arg as 0)"
    by blast
  with Cons.IH [OF rest, of q1] show ?case unfolding m requested.simps by (simp only:)
qed simp

lemma find_requested:
  assumes "list_all modifier_ok ms"
  shows "\<exists>q. buildOpQuery ''find'' args ms = Inr (Op_find, q) \<and>
    map_of q = requested ms ((if arg args 1 = JUndef then Map.empty else [''projection'' \<mapsto> arg args 1])(''filter'' \<mapsto> or_empty_object (arg args 0)))"
proof -
  from add_modifiers_requested [OF assms] obtain q where
    q: "add_modifiers Op_find ms (find_query args) = Inr q" "map_of q = requested ms (map_of (find_query args))" by blast
  have f: "map_of (find_query args) = (if arg args 1 = JUndef then Map.empty else [''projection'' \<mapsto> arg args 1])(''filter'' \<mapsto> or_empty_object (arg args 0))"
    by (auto simp: find_query_def Let_def)
  show ?thesis using q by (simp add: buildOpQuery_def operation_query_def f)
qed

lemma json_arg: "\<forall>v\<in>set args. json_value v \<Longrightarrow> arg args i = JUndef \<longleftrightarrow> length args \<le> i"
proof -
  assume a: "\<forall>v\<in>set args. json_value v"
  have "args ! i \<noteq> JUndef" if "i < length args"
    using bspec [OF a nth_mem [OF that]] by (cases "args ! i") simp_all
  then show ?thesis by (auto simp: arg_def)
qed

lemma if_InrE: "(if c then a else b) = Inr x \<Longrightarrow> (c \<Longrightarrow> a = Inr x \<Longrightarrow> P) \<Longrightarrow> (\<not> c \<Longrightarrow> b = Inr x \<Longrightarrow> P) \<Longrightarrow> P"
  by (cases c) simp_all

text \<open>What the query of an operation other than \<open>find\<close> holds, and what it needs.\<close>

lemma sent_operations:
  assumes "\<forall>v\<in>set args. json_value v" and "flt = (if args = [] \<or> hd args = JNull then JObj [] else hd args)"
  shows "buildOpQuery ''findOne'' args [] = Inr (Op_findOne, (''filter'', flt) # (if length args < 2 then [] else [(''projection'', args ! 1)]))"
    "args \<noteq> [] \<Longrightarrow> buildOpQuery ''insertOne'' args [] = Inr (Op_insertOne, [(''document'', hd args)])"
    "args \<noteq> [] \<Longrightarrow> is_js_array (hd args) \<Longrightarrow> buildOpQuery ''insertMany'' args [] = Inr (Op_insertMany, [(''documents'', hd args)])"
    "2 \<le> length args \<Longrightarrow> buildOpQuery ''updateOne'' args [] = Inr (Op_updateOne, [(''filter'', flt), (''update'', args ! 1)])"
    "2 \<le> length args \<Longrightarrow> buildOpQuery ''updateMany'' args [] = Inr (Op_updateMany, [(''filter'', flt), (''update'', args ! 1)])"
    "buildOpQuery ''deleteOne'' args [] = Inr (Op_deleteOne, [(''filter'', flt)])"
    "buildOpQuery ''deleteMany'' args [] = Inr (Op_deleteMany, [(''filter'', flt)])"
    "args \<noteq> [] \<Longrightarrow> is_js_array (hd args) \<Longrightarrow> buildOpQuery ''aggregate'' args [] = Inr (Op_aggregate, [(''pipeline'', hd args)])"
    "op = ''countDocuments'' \<or> op = ''count'' \<Longrightarrow> buildOpQuery op args [] = Inr (Op_countDocuments, [(''filter'', flt)])"
proof -
  have flt: "or_empty_object (arg args 0) = flt"
    using assms(1) by (cases args) (auto simp: assms(2) or_empty_object_def arg_def nullish_def)
  have a0: "args \<noteq> [] \<Longrightarrow> arg args 0 = hd args" by (simp add: arg_def hd_conv_nth)
  have a1: "2 \<le> length args \<Longrightarrow> arg args 1 = args ! 1" "arg args 1 = JUndef \<longleftrightarrow> length args < 2"
    using json_arg [OF assms(1), of 1] by (auto simp: arg_def)
  note eval = buildOpQuery_def operation_query_def flt
  show "buildOpQuery ''findOne'' args [] = Inr (Op_findOne, (''filter'', flt) # (if length args < 2 then [] else [(''projection'', args ! 1)]))"
    using a1 by (simp add: eval find_query_def)
  show "buildOpQuery ''insertOne'' args [] = Inr (Op_insertOne, [(''document'', hd args)])" if "args \<noteq> []"
    using that a0 by (simp add: eval)
  show "buildOpQuery ''insertMany'' args [] = Inr (Op_insertMany, [(''documents'', hd args)])" if "args \<noteq> []" "is_js_array (hd args)"
    using that a0 by (simp add: eval)
  have two: "arg args 1 \<noteq> JUndef" "arg args 1 = args ! 1" if "2 \<le> length args" using that a1 by auto
  show "buildOpQuery ''updateOne'' args [] = Inr (Op_updateOne, [(''filter'', flt), (''update'', args ! 1)])" if "2 \<le> length args"
    using two [OF that] by (simp add: eval)
  show "buildOpQuery ''updateMany'' args [] = Inr (Op_updateMany, [(''filter'', flt), (''update'', args ! 1)])" if "2 \<le> length args"
    using two [OF that] by (simp add: eval)
  show "buildOpQuery ''deleteOne'' args [] = Inr (Op_deleteOne, [(''filter'', flt)])" by (simp add: eval)
  show "buildOpQuery ''deleteMany'' args [] = Inr (Op_deleteMany, [(''filter'', flt)])" by (simp add: eval)
  show "buildOpQuery ''aggregate'' args [] = Inr (Op_aggregate, [(''pipeline'', hd args)])" if "args \<noteq> []" "is_js_array (hd args)"
    using that a0 by (simp add: eval)
  show "buildOpQuery op args [] = Inr (Op_countDocuments, [(''filter'', flt)])" if "op = ''countDocuments'' \<or> op = ''count''"
    using that by (elim disjE) (simp_all add: eval)
qed

lemma find_only: "operation_query op args = Inr (Op_find, q) \<Longrightarrow> op = ''find''"
  unfolding operation_query_def by (elim if_InrE; simp split: if_split_asm)

text \<open>C19: a statement \<open>db.coll.op(...).m(...)...\<close> whose arguments are JSON literals (numbers of any kind; the
  names of an object in the order JavaScript keeps them, none of them \<open>__proto__\<close>) reaches the backend as
  written: with the current database, the collection, the operation and exactly the values of the
  literals; a blank after it or one semicolon changes nothing. The query of a \<open>find\<close> has the filter, the
  projection and what its modifiers ask for, of each kind the last. Every other operation has its first argument as
  the filter (an absent or null one is the empty filter), the document, the documents or the pipeline, and the
  second as the projection or the update; a modifier of it is an error.\<close>
theorem statement_arrives:
  assumes "acorn (strip_semicolon (trim src)) = Inr (statement_of coll op args modifiers, stop)"
    and "trim (drop stop (strip_semicolon (trim src))) = []" and "strip_semicolon (trim src) \<noteq> []"
    and "db \<noteq> []" and "\<forall>v\<in>set args. json_value v" and "\<forall>(m, as)\<in>set modifiers. \<forall>v\<in>set as. json_value v"
    and "sent = (\<lambda>operation q. parseMongosh acorn src db =
      Inr \<lparr>pm_database = db, pm_collection = coll, pm_operation = operation, pm_query = q\<rparr>)"
    and "flt = (if args = [] \<or> hd args = JNull then JObj [] else hd args)"
  shows "(op = ''find'' \<and> list_all modifier_ok modifiers \<longrightarrow>
      (\<exists>q. sent Op_find q \<and>
        map_of q = requested modifiers ((if length args < 2 then Map.empty else [''projection'' \<mapsto> args ! 1])(''filter'' \<mapsto> flt)))) \<and>
    (op \<noteq> ''find'' \<and> modifiers \<noteq> [] \<longrightarrow> (\<exists>e. parseMongosh acorn src db = Inl e)) \<and>
    (modifiers = [] \<longrightarrow>
      (op = ''findOne'' \<longrightarrow> sent Op_findOne ((''filter'', flt) # (if length args < 2 then [] else [(''projection'', args ! 1)]))) \<and>
      (op = ''insertOne'' \<and> args \<noteq> [] \<longrightarrow> sent Op_insertOne [(''document'', hd args)]) \<and>
      (op = ''insertMany'' \<and> args \<noteq> [] \<and> is_js_array (hd args) \<longrightarrow> sent Op_insertMany [(''documents'', hd args)]) \<and>
      (op = ''updateOne'' \<and> 2 \<le> length args \<longrightarrow> sent Op_updateOne [(''filter'', flt), (''update'', args ! 1)]) \<and>
      (op = ''updateMany'' \<and> 2 \<le> length args \<longrightarrow> sent Op_updateMany [(''filter'', flt), (''update'', args ! 1)]) \<and>
      (op = ''deleteOne'' \<longrightarrow> sent Op_deleteOne [(''filter'', flt)]) \<and>
      (op = ''deleteMany'' \<longrightarrow> sent Op_deleteMany [(''filter'', flt)]) \<and>
      (op = ''aggregate'' \<and> args \<noteq> [] \<and> is_js_array (hd args) \<longrightarrow> sent Op_aggregate [(''pipeline'', hd args)]) \<and>
      (op = ''countDocuments'' \<or> op = ''count'' \<longrightarrow> sent Op_countDocuments [(''filter'', flt)]))"
proof -
  have p: "parseMongosh acorn src db =
    (case buildOpQuery op args modifiers of
       Inl e \<Rightarrow> Inl e
     | Inr (operation, query) \<Rightarrow> Inr \<lparr>pm_database = db, pm_collection = coll, pm_operation = operation, pm_query = query\<rparr>)"
    using assms(1-3) parseStatement_statement [OF assms(4-6)] by (simp add: parseMongosh_def Let_def)
  have find: "\<exists>q. sent Op_find q \<and>
      map_of q = requested modifiers ((if length args < 2 then Map.empty else [''projection'' \<mapsto> args ! 1])(''filter'' \<mapsto> flt))"
    if f: "op = ''find''" "list_all modifier_ok modifiers"
  proof -
    have "or_empty_object (arg args 0) = flt"
      using assms(5) by (cases args) (auto simp: assms(8) or_empty_object_def arg_def nullish_def)
    moreover have "(if arg args 1 = JUndef then Map.empty else [''projection'' \<mapsto> arg args 1]) =
        (if length args < 2 then Map.empty else [''projection'' \<mapsto> args ! 1])"
      using json_arg [OF assms(5), of 1] by (auto simp: arg_def)
    ultimately show ?thesis using find_requested [OF f(2), of args] f(1) p by (auto simp: assms(7))
  qed
  have modified: "\<exists>e. parseMongosh acorn src db = Inl e" if m: "op \<noteq> ''find''" "modifiers \<noteq> []"
  proof -
    obtain name as ms where ms: "modifiers = (name, as) # ms" using m(2) by (cases modifiers) auto
    have "operation_query op args = Inr (operation, q) \<Longrightarrow> operation \<noteq> Op_find" for operation q
      using m(1) find_only by blast
    then have "\<exists>e. buildOpQuery op args modifiers = Inl e"
      by (auto simp: buildOpQuery_def ms split: sum.split)
    with p show ?thesis by auto
  qed
  note sent = sent_operations [OF assms(5,8)]
  show ?thesis
    by (intro conjI impI; (elim conjE)?; (rule find modified; assumption)?; simp only: p assms(7) sent sum.case prod.case simp_thms)
qed

theorem statement_arrives_witness:
  "parseMongosh (\<lambda>s. Inr (statement_of ''users'' ''updateOne'' [JObj [(''2'', JFloat ''-0.5''), (''age'', JInt (- 3))], JObj [(''$set'', JObj [(''n'', JNull)])]] [], length s))
       ''db.users.updateOne({2: -0.5, age: -3}, {$set: {n: null}});'' ''app'' =
     Inr \<lparr>pm_database = ''app'', pm_collection = ''users'', pm_operation = Op_updateOne,
          pm_query = [(''filter'', JObj [(''2'', JFloat ''-0.5''), (''age'', JInt (- 3))]), (''update'', JObj [(''$set'', JObj [(''n'', JNull)])])]\<rparr>"
proof -
  let ?src = "''db.users.updateOne({2: -0.5, age: -3}, {$set: {n: null}});''"
  let ?args = "[JObj [(''2'', JFloat ''-0.5''), (''age'', JInt (- 3))], JObj [(''$set'', JObj [(''n'', JNull)])]]"
  let ?acorn = "\<lambda>s. Inr (statement_of ''users'' ''updateOne'' ?args [], length s) :: string + (ast \<times> nat)"
  have n: "strip_semicolon (trim ?src) = butlast ?src" by code_simp
  have s: "?acorn (strip_semicolon (trim ?src)) = Inr (statement_of ''users'' ''updateOne'' ?args [], length (strip_semicolon (trim ?src)))"
    "trim (drop (length (strip_semicolon (trim ?src))) (strip_semicolon (trim ?src))) = []" "strip_semicolon (trim ?src) \<noteq> []"
    by (rule refl, simp only: drop_all order_refl, simp add: trim_def trim_start_def trim_end_def, simp add: n)
  have k: "\<not> index_key ''age''" "\<not> index_key ''$set''" "\<not> index_key ''n''" by (simp_all add: index_key_def all_digits_def is_digit_def)
  then have j: "\<forall>v\<in>set ?args. json_value v"
    by (simp add: names_ok_def float_text_def starts_with_def is_digit_def)
  show ?thesis
    using statement_arrives [where acorn = ?acorn and src = ?src and db = "''app''" and modifiers = "[]" and coll = "''users''" and op = "''updateOne''"
        and args = ?args and stop = "length (strip_semicolon (trim ?src))", OF s _ j _ refl refl] by simp
qed

section \<open>The shape of a query\<close>

definition query_shape :: "mongosh_operation \<Rightarrow> query \<Rightarrow> bool" where
  "query_shape operation q \<longleftrightarrow>
     distinct (map fst q) \<and>
     (case operation of
        Op_find \<Rightarrow> set (map fst q) \<subseteq> {''filter'', ''projection'', ''sort'', ''limit'', ''skip''} \<and> ''filter'' \<in> set (map fst q) \<and>
          (\<forall>v. map_of q ''limit'' = Some v \<or> map_of q ''skip'' = Some v \<longrightarrow> is_number v)
      | Op_findOne \<Rightarrow> map fst q = [''filter''] \<or> map fst q = [''filter'', ''projection'']
      | Op_insertOne \<Rightarrow> map fst q = [''document'']
      | Op_insertMany \<Rightarrow> (\<exists>vs. q = [(''documents'', JArr vs)])
      | Op_updateOne \<Rightarrow> map fst q = [''filter'', ''update'']
      | Op_updateMany \<Rightarrow> map fst q = [''filter'', ''update'']
      | Op_deleteOne \<Rightarrow> map fst q = [''filter'']
      | Op_deleteMany \<Rightarrow> map fst q = [''filter'']
      | Op_aggregate \<Rightarrow> (\<exists>vs. q = [(''pipeline'', JArr vs)])
      | Op_countDocuments \<Rightarrow> map fst q = [''filter'']) \<and>
     (\<forall>v. map_of q ''filter'' = Some v \<longrightarrow> \<not> nullish v)"

lemma keys_set_prop_set: "set (map fst (set_prop q k v)) = insert k (set (map fst q))"
  by (simp flip: dom_map_of_conv_image_fst)

lemma shape_find_modifier:
  assumes "query_shape Op_find q" and "k \<in> {''sort'', ''projection''} \<or> (k \<in> {''limit'', ''skip''} \<and> is_number v)"
  shows "query_shape Op_find (set_prop q k v)"
proof -
  from assms(1) have q: "distinct (map fst q)" "set (map fst q) \<subseteq> {''filter'', ''projection'', ''sort'', ''limit'', ''skip''}" "''filter'' \<in> set (map fst q)"
    "\<And>v. map_of q ''limit'' = Some v \<or> map_of q ''skip'' = Some v \<Longrightarrow> is_number v" "\<And>v. map_of q ''filter'' = Some v \<Longrightarrow> \<not> nullish v"
    by (simp_all only: query_shape_def mongosh_operation.case) blast+
  have k: "k \<in> {''sort'', ''projection'', ''limit'', ''skip''}" "k \<noteq> ''filter''" "k = ''limit'' \<or> k = ''skip'' \<Longrightarrow> is_number v"
    using assms(2) by auto
  show ?thesis
    unfolding query_shape_def mongosh_operation.case keys_set_prop_set map_of_set_prop
  proof (intro conjI allI impI)
    show "distinct (map fst (set_prop q k v))" using q(1) by simp
    show "insert k (set (map fst q)) \<subseteq> {''filter'', ''projection'', ''sort'', ''limit'', ''skip''}" using q(2) k(1) by blast
    show "''filter'' \<in> insert k (set (map fst q))" using q(3) by blast
    show "is_number u" if "((map_of q)(k \<mapsto> v)) ''limit'' = Some u \<or> ((map_of q)(k \<mapsto> v)) ''skip'' = Some u" for u
      using that q(4) k(3) by (auto simp only: fun_upd_apply option.inject split: if_split_asm)
    show "\<not> nullish u" if "((map_of q)(k \<mapsto> v)) ''filter'' = Some u" for u
      using that q(5) k(2) by (metis fun_upd_other)
  qed
qed

lemma shape_modifiers:
  "add_modifiers operation ms q = Inr q' \<Longrightarrow> query_shape operation q \<Longrightarrow> query_shape operation q'"
proof (induction operation ms q rule: add_modifiers.induct)
  case (2 operation name args ms q)
  then show ?case by (auto simp: shape_find_modifier split: if_splits)
qed simp

lemma shape_find_query: "query_shape Op_find (find_query args)" "query_shape Op_findOne (find_query args)"
  by (auto simp: query_shape_def find_query_def or_empty_object_def Let_def)

lemma shape_simple:
  "query_shape Op_insertOne [(''document'', v)]" "query_shape Op_insertMany [(''documents'', JArr vs)]"
  "query_shape Op_updateOne [(''filter'', or_empty_object u), (''update'', v)]" "query_shape Op_updateMany [(''filter'', or_empty_object u), (''update'', v)]"
  "query_shape Op_deleteOne [(''filter'', or_empty_object u)]" "query_shape Op_deleteMany [(''filter'', or_empty_object u)]"
  "query_shape Op_aggregate [(''pipeline'', JArr vs)]" "query_shape Op_countDocuments [(''filter'', or_empty_object u)]"
  by (simp_all add: query_shape_def or_empty_object_def)

lemma is_js_array_JArr: "is_js_array v \<longleftrightarrow> (\<exists>vs. v = JArr vs)"
  by (cases v) (simp_all add: is_js_array_def)

lemma shape_operation: "operation_query name args = Inr (operation, q) \<Longrightarrow> query_shape operation q"
  unfolding operation_query_def is_js_array_JArr not_not
  by (elim if_InrE; (simp only: sum.inject prod.inject sum.distinct)?; (elim conjE exE)?; (hypsubst)?; (auto simp: shape_simple shape_find_query)?)

text \<open>C20: every statement that is accepted becomes a query of the shape its operation needs: the right keys,
  none twice, arrays where arrays are needed, numbers for limits, a filter that is never null; only
  a \<open>find\<close> has a sort order, a limit or an offset.\<close>
theorem accepted_statement_shape:
  assumes "parseMongosh acorn src db = Inr p"
  shows "query_shape (pm_operation p) (pm_query p) \<and> pm_database p \<noteq> []"
proof -
  have q: "buildOpQuery name args ms = Inr (operation, query) \<Longrightarrow> query_shape operation query" for name args ms operation query
    by (auto simp: buildOpQuery_def dest: shape_operation intro: shape_modifiers split: sum.splits prod.splits)
  have d: "resolveCollection obj db = Inr (d, c) \<Longrightarrow> d \<noteq> []" for obj d c
    by (auto simp: resolveCollection_def split: ast.splits sum.splits if_splits jsval.splits)
  from assms obtain root where "parseStatement root db = Inr p"
    by (auto simp: parseMongosh_def Let_def split: if_splits sum.splits prod.splits)
  then show ?thesis
    by (auto simp: parseStatement_def dest: q d split: ast.splits sum.splits if_splits prod.splits)
qed

theorem accepted_statement_shape_witness:
  "query_shape Op_find [(''filter'', JObj [(''age'', JInt (- 3))]), (''limit'', JInt 10)]"
proof -
  have "parseMongosh (\<lambda>s. Inr (statement_of ''users'' ''find'' [JObj [(''age'', JInt (- 3))]] [(''limit'', [JInt 10])], length s)) ''db.users.find({age: -3}).limit(10);'' ''app'' =
     Inr \<lparr>pm_database = ''app'', pm_collection = ''users'', pm_operation = Op_find,
          pm_query = [(''filter'', JObj [(''age'', JInt (- 3))]), (''limit'', JInt 10)]\<rparr>"
    by code_simp
  from accepted_statement_shape [OF this] show ?thesis by simp
qed

section \<open>A field that is lost\<close>

text \<open>A field named \<open>__proto__\<close> is not kept: written as the only field of the filter of a \<open>deleteMany\<close>,
  it leaves the empty filter, and every document of the collection is deleted.\<close>
theorem proto_field_lost:
  assumes "convertValue v = Inr u" and "db \<noteq> []"
  shows "parseStatement
      (A_Call (A_Member (A_Member (A_Identifier ''db'') (A_Identifier coll) False) (A_Identifier ''deleteMany'') False)
        [A_Object [A_Property (A_Literal (JStr ''__proto__'')) v False False]]) db =
    Inr \<lparr>pm_database = db, pm_collection = coll, pm_operation = Op_deleteMany, pm_query = [(''filter'', JObj [])]\<rparr>"
  using assms
  by (simp add: parseStatement_def peel_base resolveCollection_def put_key_def buildOpQuery_def operation_query_def arg_def or_empty_object_def)

theorem proto_field_lost_witness:
  "parseStatement
      (A_Call (A_Member (A_Member (A_Identifier ''db'') (A_Identifier ''users'') False) (A_Identifier ''deleteMany'') False)
        [A_Object [A_Property (A_Literal (JStr ''__proto__'')) (A_Literal (JInt 1)) False False]]) ''app'' =
    Inr \<lparr>pm_database = ''app'', pm_collection = ''users'', pm_operation = Op_deleteMany, pm_query = [(''filter'', JObj [])]\<rparr>"
  by (rule proto_field_lost) simp_all

end
