(* ===== verification/AiError.thy ===== *)
theory AiError
  imports Prelude
begin

text \<open>
  The classes of errors of a conversation (\<^verbatim>\<open>lib/aiError.ts\<close>) and the error codes of the directory
  synchronisation (\<^verbatim>\<open>lib/dirSyncErrors.ts\<close>). A regular expression is a matcher at a position, given
  the character before it; the flag \<open>i\<close> is a match against the lower case text. The translation
  function of the user interface is a parameter.
\<close>

section \<open>Errors of a conversation\<close>

datatype error_kind = EK_rate_limit | EK_server | EK_network | EK_auth | EK_interrupted | EK_unknown

fun I18N_KEY_BY_KIND :: "error_kind \<Rightarrow> string" where
  "I18N_KEY_BY_KIND EK_rate_limit = ''ai.error.rate_limit''"
| "I18N_KEY_BY_KIND EK_server = ''ai.error.server''"
| "I18N_KEY_BY_KIND EK_network = ''ai.error.network''"
| "I18N_KEY_BY_KIND EK_auth = ''ai.error.auth''"
| "I18N_KEY_BY_KIND EK_interrupted = ''ai.error.interrupted''"
| "I18N_KEY_BY_KIND EK_unknown = ''ai.error.unknown''"

type_synonym matcher = "char option \<Rightarrow> string \<Rightarrow> bool"

definition word_char :: "char \<Rightarrow> bool" where
  "word_char c \<longleftrightarrow> is_digit c \<or> is_upper c \<or> is_lower c \<or> c = CHR ''_''"

definition re_lit :: "string \<Rightarrow> matcher" where
  "re_lit w prev s = starts_with s w"

text \<open>\<open>\b...\b\<close> around a text that begins and ends with a word character.\<close>

definition ends_word :: "string \<Rightarrow> bool" where
  "ends_word s \<longleftrightarrow> (case s of [] \<Rightarrow> True | c # _ \<Rightarrow> \<not> word_char c)"

definition begins_word :: "char option \<Rightarrow> bool" where
  "begins_word prev \<longleftrightarrow> (case prev of None \<Rightarrow> True | Some c \<Rightarrow> \<not> word_char c)"

definition re_word :: "string \<Rightarrow> matcher" where
  "re_word w prev s \<longleftrightarrow> begins_word prev \<and> starts_with s w \<and> ends_word (drop (length w) s)"

text \<open>\<open>\b5\d{2}\b\<close>\<close>

definition re_5xx :: matcher where
  "re_5xx prev s \<longleftrightarrow> begins_word prev \<and>
     (case s of a # b # c # rest \<Rightarrow> a = CHR ''5'' \<and> is_digit b \<and> is_digit c \<and> ends_word rest | _ \<Rightarrow> False)"

text \<open>\<open>a[\s._-]?b\<close>\<close>

definition re_opt_sep :: "string \<Rightarrow> string \<Rightarrow> matcher" where
  "re_opt_sep a b prev s \<longleftrightarrow>
     (case strip_prefix a s of
        None \<Rightarrow> False
      | Some rest \<Rightarrow> starts_with rest b \<or>
          (rest \<noteq> [] \<and> (is_space (hd rest) \<or> hd rest \<in> {CHR ''.'', CHR ''_'', CHR ''-''}) \<and> starts_with (tl rest) b))"

definition re_alt :: "matcher list \<Rightarrow> matcher" where
  "re_alt ms prev s \<longleftrightarrow> list_ex (\<lambda>m. m prev s) ms"

fun re_search :: "matcher \<Rightarrow> char option \<Rightarrow> string \<Rightarrow> bool" where
  "re_search m prev [] \<longleftrightarrow> m prev []"
| "re_search m prev (c # s) \<longleftrightarrow> m prev (c # s) \<or> re_search m (Some c) s"

definition PATTERNS :: "(error_kind \<times> matcher) list" where
  "PATTERNS =
     [(EK_auth, re_alt [re_word ''401'', re_word ''403'', re_opt_sep ''api'' ''key'', re_lit ''invalid_api'',
                        re_lit ''authentication'', re_lit ''unauthorized'']),
      (EK_rate_limit, re_alt [re_word ''429'', re_lit ''too many'', re_opt_sep ''rate'' ''limit'']),
      (EK_network, re_alt [re_lit ''timeout'', re_lit ''eof'', re_lit ''connection reset'', re_lit ''broken pipe'',
                           re_lit ''i/o timeout'', re_lit ''tls handshake'']),
      (EK_server, re_alt [re_5xx, re_lit ''service unavailable'', re_lit ''bad gateway'', re_lit ''gateway timeout'',
                          re_lit ''server error''])]"

record classified_error =
  ce_kind :: error_kind
  ce_message :: string

fun first_kind :: "(error_kind \<times> matcher) list \<Rightarrow> string \<Rightarrow> error_kind" where
  "first_kind [] text = EK_unknown"
| "first_kind ((k, re) # ps) text = (if re_search re None (to_lower text) then k else first_kind ps text)"

definition classifyError :: "(string \<Rightarrow> string) \<Rightarrow> string option \<Rightarrow> error_kind option \<Rightarrow> classified_error" where
  "classifyError t raw explicitKind =
     (let text = trim (case raw of None \<Rightarrow> [] | Some r \<Rightarrow> r);
          kind = (case explicitKind of Some k \<Rightarrow> k | None \<Rightarrow> first_kind PATTERNS text)
      in \<lparr>ce_kind = kind, ce_message = t (I18N_KEY_BY_KIND kind)\<rparr>)"

text \<open>A text that names an authentication failure is never classified as a server failure, whatever
  else it says.\<close>

lemma classify_auth_first:
  "re_search (snd (hd PATTERNS)) None (to_lower (trim raw)) \<Longrightarrow> ce_kind (classifyError t (Some raw) None) = EK_auth"
  by (simp add: classifyError_def PATTERNS_def)

section \<open>Errors of the directory synchronisation\<close>

definition DIRSYNC_ERROR_MESSAGE_KEYS :: "(string \<times> string) list" where
  "DIRSYNC_ERROR_MESSAGE_KEYS =
     [(''DIRSYNC_MARKER_OVERFLOW'', ''sftp.sync.markerOverflow''),
      (''DIRSYNC_INVALID_TARGET'', ''sftp.sync.invalidTarget''),
      (''DIRSYNC_SESSION_CLOSED'', ''sftp.sync.sessionClosed''),
      (''DIRSYNC_SESSION_NOT_FOUND'', ''sftp.sync.sessionNotFound''),
      (''DIRSYNC_UNSUPPORTED'', ''sftp.sync.unsupported''),
      (''DIRSYNC_PROBE_UNSUPPORTED'', ''sftp.sync.probeUnsupported''),
      (''DIRSYNC_CWD_UNKNOWN'', ''sftp.sync.cwdUnknown''),
      (''DIRSYNC_BUSY'', ''sftp.sync.busy''),
      (''DIRSYNC_PENDING'', ''sftp.sync.pending''),
      (''DIRSYNC_TIMEOUT'', ''sftp.sync.timeout''),
      (''DIRSYNC_NOT_FOUND'', ''sftp.sync.notFound''),
      (''DIRSYNC_NOT_DIRECTORY'', ''sftp.sync.notDirectory''),
      (''DIRSYNC_ACCESS_DENIED'', ''sftp.sync.accessDenied''),
      (''DIRSYNC_REMOTE_CHDIR_FAILED'', ''sftp.sync.remoteFailed''),
      (''DIRSYNC_NONCE_FAILED'', ''sftp.sync.nonceFailed'')]"

text \<open>The argument is the text \<open>String(error)\<close>.\<close>

definition getDirSyncErrorMessageKey :: "string \<Rightarrow> string option" where
  "getDirSyncErrorMessageKey code = map_of DIRSYNC_ERROR_MESSAGE_KEYS code"

definition formatDirSyncError :: "(string \<Rightarrow> string) \<Rightarrow> string \<Rightarrow> string" where
  "formatDirSyncError t err = (case getDirSyncErrorMessageKey err of Some k \<Rightarrow> t k | None \<Rightarrow> err)"

end
