(* ===== verification/AiMessages.thy ===== *)
theory AiMessages
  imports AiError
begin

text \<open>
  The messages of a conversation with the assistant (\<^verbatim>\<open>stores/aiStore.ts\<close>): content blocks, what a
  stream event does to the last message, the form in which messages are kept by the backend, and the
  form in which they are sent to the model. Ids of messages are numbered in the order in which
  \<open>crypto.randomUUID\<close> made them.
\<close>

section \<open>Blocks and messages\<close>

datatype block_type = K_text | K_tool | K_agent | K_approval | K_thinking | K_error

datatype block_status = S_running | S_completed | S_error | S_pending_confirm | S_cancelled

datatype approval_kind = AK_single | AK_batch | AK_grant | AK_local_tool

record approval_item =
  ai_type :: string
  ai_asset_id :: int
  ai_asset_name :: string
  ai_group_id :: "int option"
  ai_group_name :: "string option"
  ai_command :: string
  ai_detail :: "string option"

record block_info =
  cb_type :: block_type
  cb_content :: string
  cb_toolName :: "string option"
  cb_toolInput :: "string option"
  cb_toolCallId :: "string option"
  cb_status :: "block_status option"
  cb_confirmId :: "string option"
  cb_agentRole :: "string option"
  cb_agentTask :: "string option"
  cb_approvalKind :: "approval_kind option"
  cb_approvalItems :: "approval_item list option"
  cb_approvalDescription :: "string option"
  cb_approvalSessionId :: "string option"
  cb_approvalToolName :: "string option"
  cb_approvalPatterns :: "string list option"
  cb_errorKind :: "error_kind option"
  cb_errorDetail :: "string option"

datatype content_block = Block (info: block_info) (childBlocks: "content_block list option")

definition on_info :: "(block_info \<Rightarrow> block_info) \<Rightarrow> content_block \<Rightarrow> content_block" where
  "on_info f b = Block (f (info b)) (childBlocks b)"

definition plain_block :: "block_type \<Rightarrow> string \<Rightarrow> block_info" where
  "plain_block k content =
     \<lparr>cb_type = k, cb_content = content, cb_toolName = None, cb_toolInput = None, cb_toolCallId = None,
      cb_status = None, cb_confirmId = None, cb_agentRole = None, cb_agentTask = None,
      cb_approvalKind = None, cb_approvalItems = None, cb_approvalDescription = None,
      cb_approvalSessionId = None, cb_approvalToolName = None, cb_approvalPatterns = None,
      cb_errorKind = None, cb_errorDetail = None\<rparr>"

abbreviation b_type :: "content_block \<Rightarrow> block_type" where "b_type b \<equiv> cb_type (info b)"
abbreviation b_status :: "content_block \<Rightarrow> block_status option" where "b_status b \<equiv> cb_status (info b)"
abbreviation b_content :: "content_block \<Rightarrow> string" where "b_content b \<equiv> cb_content (info b)"

record token_usage =
  tu_inputTokens :: "int option"
  tu_outputTokens :: "int option"
  tu_cacheCreationTokens :: "int option"
  tu_cacheReadTokens :: "int option"

record retry_status =
  rt_attempt :: int
  rt_delayMs :: int
  rt_startedAt :: int
  rt_cause :: "string option"

datatype role = R_user | R_assistant | R_tool

record chat_message =
  cm_id :: "nat option"
  cm_role :: role
  cm_content :: string
  cm_blocks :: "content_block list"
  cm_streaming :: "bool option"
  cm_tokenUsage :: "token_usage option"
  cm_retryStatus :: "retry_status option"

abbreviation is_streaming :: "chat_message \<Rightarrow> bool" where
  "is_streaming m \<equiv> cm_streaming m = Some True"

section \<open>The last assistant message\<close>

definition updateLastAssistant :: "chat_message list \<Rightarrow> (chat_message \<Rightarrow> chat_message) \<Rightarrow> chat_message list option" where
  "updateLastAssistant msgs updater =
     (if msgs = [] \<or> cm_role (last msgs) \<noteq> R_assistant then None
      else Some (butlast msgs @ [updater (last msgs)]))"

definition appendText :: "content_block list \<Rightarrow> string \<Rightarrow> content_block list" where
  "appendText blocks text =
     (if blocks \<noteq> [] \<and> b_type (last blocks) = K_text
      then butlast blocks @ [on_info (\<lambda>i. i\<lparr>cb_content := cb_content i @ text\<rparr>) (last blocks)]
      else blocks @ [Block (plain_block K_text text) None])"

definition append_thinking :: "content_block list \<Rightarrow> string \<Rightarrow> content_block list" where
  "append_thinking blocks td =
     (if blocks \<noteq> [] \<and> b_type (last blocks) = K_thinking \<and> b_status (last blocks) = Some S_running
      then butlast blocks @ [on_info (\<lambda>i. i\<lparr>cb_content := cb_content i @ td\<rparr>) (last blocks)]
      else blocks @ [Block ((plain_block K_thinking td)\<lparr>cb_status := Some S_running\<rparr>) None])"

text \<open>What a flush of the stream buffer writes: the thinking first, then the text.\<close>

definition flush_message :: "string \<Rightarrow> string \<Rightarrow> chat_message \<Rightarrow> chat_message" where
  "flush_message cd td msg =
     (let blocks = (if td \<noteq> [] then append_thinking (cm_blocks msg) td else cm_blocks msg)
      in if cd \<noteq> [] then msg\<lparr>cm_content := cm_content msg @ cd, cm_blocks := appendText blocks cd\<rparr>
         else msg\<lparr>cm_blocks := blocks\<rparr>)"

definition sum_tokens :: "int option \<Rightarrow> int option \<Rightarrow> int option" where
  "sum_tokens a b = Some ((case a of None \<Rightarrow> 0 | Some x \<Rightarrow> x) + (case b of None \<Rightarrow> 0 | Some y \<Rightarrow> y))"

definition no_usage :: token_usage where
  "no_usage = \<lparr>tu_inputTokens = None, tu_outputTokens = None, tu_cacheCreationTokens = None, tu_cacheReadTokens = None\<rparr>"

definition add_usage :: "token_usage \<Rightarrow> chat_message \<Rightarrow> chat_message" where
  "add_usage delta msg =
     (let prev = (case cm_tokenUsage msg of None \<Rightarrow> no_usage | Some u \<Rightarrow> u)
      in msg\<lparr>cm_tokenUsage := Some
           \<lparr>tu_inputTokens = sum_tokens (tu_inputTokens prev) (tu_inputTokens delta),
            tu_outputTokens = sum_tokens (tu_outputTokens prev) (tu_outputTokens delta),
            tu_cacheCreationTokens = sum_tokens (tu_cacheCreationTokens prev) (tu_cacheCreationTokens delta),
            tu_cacheReadTokens = sum_tokens (tu_cacheReadTokens prev) (tu_cacheReadTokens delta)\<rparr>\<rparr>)"

text \<open>The loops that look from the end for the last block of a kind.\<close>

definition last_index :: "('a \<Rightarrow> bool) \<Rightarrow> 'a list \<Rightarrow> nat option" where
  "last_index P xs = (case find_index P (rev xs) of None \<Rightarrow> None | Some k \<Rightarrow> Some (length xs - 1 - k))"

definition running_agent :: "content_block \<Rightarrow> bool" where
  "running_agent b \<longleftrightarrow> b_type b = K_agent \<and> b_status b = Some S_running"

definition start_agent :: "string \<Rightarrow> string \<Rightarrow> chat_message \<Rightarrow> chat_message" where
  "start_agent agentRole agentTask msg =
     msg\<lparr>cm_blocks := cm_blocks msg @
       [Block ((plain_block K_agent [])\<lparr>cb_agentRole := Some agentRole, cb_agentTask := Some agentTask,
                cb_status := Some S_running\<rparr>) (Some [])]\<rparr>"

definition end_agent :: "string \<Rightarrow> chat_message \<Rightarrow> chat_message" where
  "end_agent content msg =
     (case last_index running_agent (cm_blocks msg) of
        None \<Rightarrow> msg
      | Some i \<Rightarrow> msg\<lparr>cm_blocks := (cm_blocks msg)[i := on_info (\<lambda>b. b\<lparr>cb_content := content, cb_status := Some S_completed\<rparr>) (cm_blocks msg ! i)]\<rparr>)"

definition tool_block :: "string option \<Rightarrow> string option \<Rightarrow> string option \<Rightarrow> content_block" where
  "tool_block name input callId =
     Block ((plain_block K_tool [])\<lparr>cb_toolName := Some (if name = None \<or> name = Some [] then ''Tool'' else the name),
              cb_toolInput := Some (case input of None \<Rightarrow> [] | Some s \<Rightarrow> s), cb_toolCallId := callId,
              cb_status := Some S_running\<rparr>) None"

definition children :: "content_block \<Rightarrow> content_block list" where
  "children b = (case childBlocks b of None \<Rightarrow> [] | Some cs \<Rightarrow> cs)"

definition start_tool :: "content_block \<Rightarrow> chat_message \<Rightarrow> chat_message" where
  "start_tool tool msg =
     (case last_index running_agent (cm_blocks msg) of
        Some i \<Rightarrow>
          let agent = cm_blocks msg ! i
          in msg\<lparr>cm_blocks := (cm_blocks msg)[i := Block (info agent) (Some (children agent @ [tool]))]\<rparr>
      | None \<Rightarrow> msg\<lparr>cm_blocks := cm_blocks msg @ [tool]\<rparr>)"

text \<open>The tool block a result belongs to: by call id, then by name, then any that runs.\<close>

definition findToolMatch :: "string option \<Rightarrow> string option \<Rightarrow> content_block list \<Rightarrow> nat option" where
  "findToolMatch callId name arr =
     (let by_id = (if callId \<noteq> None \<and> callId \<noteq> Some []
                   then last_index (\<lambda>b. b_type b = K_tool \<and> cb_toolCallId (info b) = callId) arr else None);
          by_name = last_index (\<lambda>b. b_type b = K_tool \<and> b_status b = Some S_running \<and> cb_toolName (info b) = name) arr;
          any = last_index (\<lambda>b. b_type b = K_tool \<and> b_status b = Some S_running) arr
      in if by_id \<noteq> None then by_id else if by_name \<noteq> None then by_name else any)"

definition complete_tool :: "string \<Rightarrow> content_block \<Rightarrow> content_block" where
  "complete_tool content = on_info (\<lambda>b. b\<lparr>cb_content := content, cb_status := Some S_completed\<rparr>)"

definition top_result :: "string option \<Rightarrow> string option \<Rightarrow> string \<Rightarrow> chat_message \<Rightarrow> chat_message" where
  "top_result callId name content msg =
     (case findToolMatch callId name (cm_blocks msg) of
        None \<Rightarrow> msg
      | Some j \<Rightarrow> msg\<lparr>cm_blocks := (cm_blocks msg)[j := complete_tool content (cm_blocks msg ! j)]\<rparr>)"

definition tool_result :: "string option \<Rightarrow> string option \<Rightarrow> string \<Rightarrow> chat_message \<Rightarrow> chat_message" where
  "tool_result callId name content msg =
     (case last_index running_agent (cm_blocks msg) of
        None \<Rightarrow> top_result callId name content msg
      | Some i \<Rightarrow>
          let agent = cm_blocks msg ! i
          in (case childBlocks agent of
                None \<Rightarrow> top_result callId name content msg
              | Some cs \<Rightarrow>
                  (case findToolMatch callId name cs of
                     None \<Rightarrow> top_result callId name content msg
                   | Some j \<Rightarrow>
                       msg\<lparr>cm_blocks := (cm_blocks msg)[i := Block (info agent) (Some (cs[j := complete_tool content (cs ! j)]))]\<rparr>)))"

definition set_status :: "block_status \<Rightarrow> content_block \<Rightarrow> content_block" where
  "set_status st = on_info (\<lambda>b. b\<lparr>cb_status := Some st\<rparr>)"

definition on_blocks :: "(content_block list \<Rightarrow> content_block list) \<Rightarrow> chat_message \<Rightarrow> chat_message" where
  "on_blocks f msg = msg\<lparr>cm_blocks := f (cm_blocks msg)\<rparr>"

definition answer_approval :: "string option \<Rightarrow> string option \<Rightarrow> chat_message \<Rightarrow> chat_message" where
  "answer_approval confirmId content =
     on_blocks (map (\<lambda>b. if cb_confirmId (info b) = confirmId \<and> b_status b = Some S_pending_confirm
       then set_status (if content = Some ''deny'' then S_error else S_running) b else b))"

definition end_thinking :: "chat_message \<Rightarrow> chat_message" where
  "end_thinking = on_blocks (map (\<lambda>b. if b_type b = K_thinking \<and> b_status b = Some S_running then set_status S_completed b else b))"

definition stop_block :: "content_block \<Rightarrow> content_block" where
  "stop_block b =
     (if b_type b = K_tool \<and> b_status b = Some S_running then set_status S_cancelled b
      else if b_type b = K_thinking \<and> b_status b = Some S_running then set_status S_completed b
      else if b_type b = K_agent \<and> b_status b = Some S_running then
        Block ((info b)\<lparr>cb_status := Some S_cancelled\<rparr>)
          (map_option (map (\<lambda>c. if b_status c = Some S_running then set_status S_cancelled c else c)) (childBlocks b))
      else b)"

definition stop_message :: "chat_message \<Rightarrow> chat_message" where
  "stop_message msg = (on_blocks (map stop_block) msg)\<lparr>cm_streaming := Some False\<rparr>"

definition done_message :: "chat_message \<Rightarrow> chat_message" where
  "done_message msg =
     (on_blocks (map (\<lambda>b. if b_type b = K_tool \<and> (b_status b = Some S_running \<or> b_status b = Some S_pending_confirm)
        then set_status S_completed b else b)) msg)\<lparr>cm_streaming := Some False\<rparr>"

definition error_block :: "classified_error \<Rightarrow> string option \<Rightarrow> content_block" where
  "error_block ce raw =
     Block ((plain_block K_error (ce_message ce))\<lparr>cb_errorKind := Some (ce_kind ce),
              cb_errorDetail := Some (case raw of None \<Rightarrow> [] | Some s \<Rightarrow> s)\<rparr>) None"

definition error_message :: "content_block \<Rightarrow> chat_message \<Rightarrow> chat_message" where
  "error_message err msg = (on_blocks (\<lambda>bs. bs @ [err]) msg)\<lparr>cm_streaming := Some False\<rparr>"

section \<open>The status of a conversation\<close>

function visitBlockStatuses :: "(block_status option \<Rightarrow> bool) \<Rightarrow> content_block list \<Rightarrow> bool" where
  "visitBlockStatuses visitor [] \<longleftrightarrow> False"
| "visitBlockStatuses visitor (b # bs) \<longleftrightarrow>
     visitor (b_status b) \<or> visitBlockStatuses visitor (children b) \<or> visitBlockStatuses visitor bs"
  by pat_completeness auto
termination
proof (relation "measure (\<lambda>(v, bs). size_list size bs)", goal_cases)
  case (2 v b bs)
  then show ?case by (cases b) (auto simp: children_def split: option.split)
qed auto

datatype sidebar_status = SB_waiting_approval | SB_error | SB_running | SB_done

definition message_list_status :: "chat_message list \<Rightarrow> bool \<Rightarrow> sidebar_status option" where
  "message_list_status messages sending =
     (let lastAssistant = find (\<lambda>m. cm_role m = R_assistant) (rev messages);
          blocks = (case lastAssistant of None \<Rightarrow> [] | Some m \<Rightarrow> cm_blocks m)
      in if messages = [] then None
         else if visitBlockStatuses (\<lambda>s. s = Some S_pending_confirm) blocks then Some SB_waiting_approval
         else if visitBlockStatuses (\<lambda>s. s = Some S_error) blocks then Some SB_error
         else if sending \<or> (case lastAssistant of None \<Rightarrow> False | Some m \<Rightarrow> is_streaming m) \<or>
                 visitBlockStatuses (\<lambda>s. s = Some S_running) blocks then Some SB_running
         else Some SB_done)"

section \<open>The form the backend keeps\<close>

record display_block =
  db_type :: block_type
  db_content :: string
  db_toolName :: "string option"
  db_toolInput :: "string option"
  db_status :: "block_status option"
  db_errorKind :: "error_kind option"
  db_errorDetail :: "string option"

record display_message =
  dm_role :: role
  dm_content :: string
  dm_blocks :: "display_block list"
  dm_tokenUsage :: "token_usage option"

fun normalizeSnapshotStatus :: "block_status option \<Rightarrow> block_status option" where
  "normalizeSnapshotStatus (Some S_running) = Some S_cancelled"
| "normalizeSnapshotStatus (Some S_pending_confirm) = Some S_cancelled"
| "normalizeSnapshotStatus s = s"

definition materializeRetryStatusAsError :: "(string \<Rightarrow> string) \<Rightarrow> chat_message \<Rightarrow> chat_message" where
  "materializeRetryStatusAsError t msg =
     (case cm_retryStatus msg of
        None \<Rightarrow> msg
      | Some r \<Rightarrow>
          msg\<lparr>cm_blocks := cm_blocks msg @ [error_block (classifyError t (rt_cause r) (Some EK_interrupted)) (rt_cause r)],
              cm_retryStatus := None\<rparr>)"

definition display_of_block :: "bool \<Rightarrow> content_block \<Rightarrow> display_block" where
  "display_of_block includeStreaming b =
     \<lparr>db_type = b_type b, db_content = b_content b, db_toolName = cb_toolName (info b), db_toolInput = cb_toolInput (info b),
      db_status = (if includeStreaming then normalizeSnapshotStatus (b_status b) else b_status b),
      db_errorKind = cb_errorKind (info b), db_errorDetail = cb_errorDetail (info b)\<rparr>"

definition display_of_message :: "bool \<Rightarrow> chat_message \<Rightarrow> display_message" where
  "display_of_message includeStreaming m =
     \<lparr>dm_role = cm_role m, dm_content = cm_content m, dm_blocks = map (display_of_block includeStreaming) (cm_blocks m),
      dm_tokenUsage = cm_tokenUsage m\<rparr>"

definition toDisplayMessages :: "(string \<Rightarrow> string) \<Rightarrow> chat_message list \<Rightarrow> bool \<Rightarrow> display_message list" where
  "toDisplayMessages t msgs includeStreaming =
     (let prepared = (if includeStreaming then map (materializeRetryStatusAsError t) msgs else msgs)
      in map (display_of_message includeStreaming) (filter (\<lambda>m. includeStreaming \<or> \<not> is_streaming m) prepared))"

definition block_of_display :: "display_block \<Rightarrow> content_block" where
  "block_of_display b =
     Block ((plain_block (db_type b) (db_content b))\<lparr>cb_toolName := db_toolName b, cb_toolInput := db_toolInput b,
              cb_status := db_status b, cb_errorKind := db_errorKind b, cb_errorDetail := db_errorDetail b\<rparr>) None"

text \<open>The messages that come back get new ids, the next numbers.\<close>

fun convertDisplayMessages :: "nat \<Rightarrow> display_message list \<Rightarrow> chat_message list" where
  "convertDisplayMessages uuid [] = []"
| "convertDisplayMessages uuid (dm # dms) =
     \<lparr>cm_id = Some uuid, cm_role = dm_role dm, cm_content = dm_content dm, cm_blocks = map block_of_display (dm_blocks dm),
      cm_streaming = Some False, cm_tokenUsage = dm_tokenUsage dm, cm_retryStatus = None\<rparr> # convertDisplayMessages (Suc uuid) dms"

section \<open>The form the model gets\<close>

record tool_call =
  tl_id :: string
  tl_name :: string
  tl_arguments :: string

record api_message =
  am_role :: role
  am_content :: string
  am_thinking :: "string option"
  am_tool_calls :: "tool_call list"
  am_tool_call_id :: "string option"

definition plain_api :: "role \<Rightarrow> string \<Rightarrow> api_message" where
  "plain_api r c = \<lparr>am_role = r, am_content = c, am_thinking = None, am_tool_calls = [], am_tool_call_id = None\<rparr>"

definition nonempty :: "string option \<Rightarrow> bool" where
  "nonempty s \<longleftrightarrow> s \<noteq> None \<and> s \<noteq> Some []"

definition or_text :: "string option \<Rightarrow> string \<Rightarrow> string" where
  "or_text s d = (case s of None \<Rightarrow> d | Some x \<Rightarrow> if x = [] then d else x)"

definition flushAssistant :: "string \<Rightarrow> string \<Rightarrow> tool_call list \<Rightarrow> api_message list" where
  "flushAssistant thinking text pendingToolCalls =
     (if thinking = [] \<and> text = [] \<and> pendingToolCalls = [] then []
      else [\<lparr>am_role = R_assistant, am_content = text, am_thinking = (if thinking = [] then None else Some thinking),
             am_tool_calls = pendingToolCalls, am_tool_call_id = None\<rparr>])"

fun expand_blocks :: "string \<Rightarrow> string \<Rightarrow> content_block list \<Rightarrow> api_message list" where
  "expand_blocks thinking text [] = flushAssistant thinking text []"
| "expand_blocks thinking text (b # bs) =
     (if b_type b = K_thinking then expand_blocks (thinking @ b_content b) text bs
      else if b_type b = K_text then expand_blocks thinking (text @ b_content b) bs
      else if b_type b = K_tool \<and> nonempty (cb_toolCallId (info b)) then
        flushAssistant thinking text
          [\<lparr>tl_id = the (cb_toolCallId (info b)), tl_name = or_text (cb_toolName (info b)) [],
            tl_arguments = or_text (cb_toolInput (info b)) ''{}''\<rparr>] @
        \<lparr>am_role = R_tool, am_content = b_content b, am_thinking = None, am_tool_calls = [],
         am_tool_call_id = cb_toolCallId (info b)\<rparr> # expand_blocks [] [] bs
      else expand_blocks thinking text bs)"

definition can_expand :: "chat_message \<Rightarrow> bool" where
  "can_expand m \<longleftrightarrow> \<not> list_ex (\<lambda>b. b_type b = K_tool \<and> \<not> nonempty (cb_toolCallId (info b))) (cm_blocks m)"

definition collapsed :: "chat_message \<Rightarrow> api_message" where
  "collapsed m =
     (let allThinking = concat (map b_content (filter (\<lambda>b. b_type b = K_thinking) (cm_blocks m)))
      in (plain_api R_assistant (cm_content m))\<lparr>am_thinking := (if allThinking = [] then None else Some allThinking)\<rparr>)"

definition expand_message :: "chat_message \<Rightarrow> api_message list" where
  "expand_message m =
     (if cm_role m \<noteq> R_assistant then [plain_api (cm_role m) (cm_content m)]
      else if \<not> can_expand m then [collapsed m]
      else expand_blocks [] [] (cm_blocks m))"

definition expandToAPIMessages :: "chat_message list \<Rightarrow> api_message list" where
  "expandToAPIMessages messages = concat (map expand_message messages)"

section \<open>What the backend does with the kept form\<close>

text \<open>\<^verbatim>\<open>SaveConversationMessages\<close> and \<^verbatim>\<open>loadConversationDisplayMessages\<close> of the backend keep the messages in
  their order, the blocks and the token usage as JSON whose optional fields are marked \<^verbatim>\<open>omitempty\<close>: an
  empty text or a zero is not written and comes back as an absent field. A usage of zeros is not kept.\<close>

definition kept_text :: "string option \<Rightarrow> string option" where
  "kept_text s = (if s = Some [] then None else s)"

definition kept_count :: "int option \<Rightarrow> int option" where
  "kept_count n = (if n = Some 0 then None else n)"

definition stored_block :: "display_block \<Rightarrow> display_block" where
  "stored_block b = b\<lparr>db_toolName := kept_text (db_toolName b), db_toolInput := kept_text (db_toolInput b),
     db_errorDetail := kept_text (db_errorDetail b)\<rparr>"

definition stored_usage :: "token_usage option \<Rightarrow> token_usage option" where
  "stored_usage u =
     (case u of
        None \<Rightarrow> None
      | Some x \<Rightarrow>
          let y = \<lparr>tu_inputTokens = kept_count (tu_inputTokens x), tu_outputTokens = kept_count (tu_outputTokens x),
                   tu_cacheCreationTokens = kept_count (tu_cacheCreationTokens x), tu_cacheReadTokens = kept_count (tu_cacheReadTokens x)\<rparr>
          in if y = no_usage then None else Some y)"

definition stored_message :: "display_message \<Rightarrow> display_message" where
  "stored_message dm = dm\<lparr>dm_blocks := map stored_block (dm_blocks dm), dm_tokenUsage := stored_usage (dm_tokenUsage dm)\<rparr>"

section \<open>What is kept and what is lost\<close>

text \<open>A message that was saved and loaded again. Of a block its type, content, tool, input, status and
  error are kept, of the error and the tool only texts that are not empty; lost are the ids of the tool call
  and of the confirmation, role, task and child blocks of a sub agent, and everything of an approval but
  its status.\<close>

definition kept_block :: "content_block \<Rightarrow> content_block" where
  "kept_block b =
     Block ((plain_block (b_type b) (b_content b))\<lparr>cb_toolName := kept_text (cb_toolName (info b)),
       cb_toolInput := kept_text (cb_toolInput (info b)), cb_status := b_status b,
       cb_errorKind := cb_errorKind (info b), cb_errorDetail := kept_text (cb_errorDetail (info b))\<rparr>) None"

definition kept_message :: "nat \<Rightarrow> chat_message \<Rightarrow> chat_message" where
  "kept_message uuid m =
     \<lparr>cm_id = Some uuid, cm_role = cm_role m, cm_content = cm_content m, cm_blocks = map kept_block (cm_blocks m),
      cm_streaming = Some False, cm_tokenUsage = stored_usage (cm_tokenUsage m), cm_retryStatus = None\<rparr>"

text \<open>A message of a conversation that is left while it is answered: a pending retry has become an error
  block, and a block that waited is cancelled.\<close>

definition settled_message :: "(string \<Rightarrow> string) \<Rightarrow> chat_message \<Rightarrow> chat_message" where
  "settled_message t m =
     (let p = materializeRetryStatusAsError t m
      in p\<lparr>cm_blocks := map (on_info (\<lambda>i. i\<lparr>cb_status := normalizeSnapshotStatus (cb_status i)\<rparr>)) (cm_blocks p)\<rparr>)"

text \<open>Saving with the snapshot, the backend, and loading with new ids.\<close>

abbreviation read_back :: "nat \<Rightarrow> (string \<Rightarrow> string) \<Rightarrow> bool \<Rightarrow> chat_message list \<Rightarrow> chat_message list" where
  "read_back uuid t includeStreaming msgs \<equiv>
     convertDisplayMessages uuid (map stored_message (toDisplayMessages t msgs includeStreaming))"

lemma block_kept:
  "block_of_display (stored_block (display_of_block False b)) = kept_block b"
  "block_of_display (stored_block (display_of_block True b)) =
     kept_block (on_info (\<lambda>i. i\<lparr>cb_status := normalizeSnapshotStatus (cb_status i)\<rparr>) b)"
  by (simp_all add: block_of_display_def display_of_block_def kept_block_def plain_block_def stored_block_def on_info_def)

lemma upt_next: "[uuid..<uuid + length (m # ms)] = uuid # [Suc uuid..<Suc uuid + length ms]"
  by (simp add: upt_conv_Cons del: upt_Suc)

lemma convert_display:
  "convertDisplayMessages uuid (map (stored_message \<circ> display_of_message False) ms) = map2 kept_message [uuid..<uuid + length ms] ms"
proof (induction ms arbitrary: uuid)
  case (Cons m ms)
  from Cons.IH [of "Suc uuid"] show ?case
    unfolding upt_next by (simp add: display_of_message_def stored_message_def kept_message_def o_def block_kept)
qed simp

lemma convert_snapshot:
  "convertDisplayMessages uuid (map (stored_message \<circ> (display_of_message True \<circ> materializeRetryStatusAsError t)) ms) =
     map2 kept_message [uuid..<uuid + length ms] (map (settled_message t) ms)"
proof (induction ms arbitrary: uuid)
  case (Cons m ms)
  from Cons.IH [of "Suc uuid"] show ?case
    unfolding upt_next
    by (simp add: display_of_message_def stored_message_def kept_message_def settled_message_def o_def block_kept Let_def)
qed simp

lemma kept_blocks_no_call: "cb_toolCallId (info (kept_block b)) = None" "b_type (kept_block b) = b_type b" "b_content (kept_block b) = b_content b"
  by (simp_all add: kept_block_def plain_block_def)

lemma kept_collapsed: "collapsed (kept_message i m) = collapsed m"
proof -
  have "filter (\<lambda>b. b_type b = K_thinking) (map kept_block bs) = map kept_block (filter (\<lambda>b. b_type b = K_thinking) bs)" for bs
    by (induction bs) (simp_all add: kept_blocks_no_call)
  then show ?thesis by (simp add: collapsed_def kept_message_def o_def kept_blocks_no_call)
qed

text \<open>C28: a conversation that is saved, kept by the backend and loaded again comes back message by message in
  the same order, with new ids. Role, text and token usage of each message are kept (a usage of zeros is
  no usage), and of each block its type, content, status, error kind and the texts of tool, input and error
  that are not empty. Not kept are the message being streamed, the ids of tool calls and confirmations, role,
  task and child blocks of a sub agent, and the details of an approval. When the conversation is left while
  it is answered, the message being streamed is kept too, a pending retry as an error block and a block
  that waited as cancelled. Since the ids of tool calls are lost, an assistant message with a tool call, once
  loaded, reaches the model collapsed, without any of its tool calls.\<close>
theorem conversation_read_back:
  "read_back uuid t False msgs =
     map2 kept_message [uuid..<uuid + length (filter (\<lambda>m. \<not> is_streaming m) msgs)] (filter (\<lambda>m. \<not> is_streaming m) msgs) \<and>
   read_back uuid t True msgs =
     map2 kept_message [uuid..<uuid + length msgs] (map (settled_message t) msgs) \<and>
   (\<forall>m i. cm_role m = R_assistant \<and> (\<exists>b\<in>set (cm_blocks m). b_type b = K_tool) \<longrightarrow>
      expand_message (kept_message i m) = [collapsed m])"
proof (intro conjI allI impI)
  show "read_back uuid t False msgs =
     map2 kept_message [uuid..<uuid + length (filter (\<lambda>m. \<not> is_streaming m) msgs)] (filter (\<lambda>m. \<not> is_streaming m) msgs)"
    by (simp add: toDisplayMessages_def convert_display)
  show "read_back uuid t True msgs = map2 kept_message [uuid..<uuid + length msgs] (map (settled_message t) msgs)"
    by (simp add: toDisplayMessages_def convert_snapshot)
  show "expand_message (kept_message i m) = [collapsed m]"
    if "cm_role m = R_assistant \<and> (\<exists>b\<in>set (cm_blocks m). b_type b = K_tool)" for m i
  proof -
    from that have "\<not> can_expand (kept_message i m)"
      by (auto simp: can_expand_def list_ex_iff nonempty_def kept_blocks_no_call kept_message_def)
    with that show ?thesis by (simp add: expand_message_def kept_collapsed) (simp add: kept_message_def)
  qed
qed

text \<open>A snapshot that includes the message being streamed has no block left that waits for an event.\<close>

lemma normalized: "normalizeSnapshotStatus s \<noteq> Some S_running" "normalizeSnapshotStatus s \<noteq> Some S_pending_confirm"
  by (cases s rule: normalizeSnapshotStatus.cases; simp)+

lemma snapshot_settled:
  assumes "dm \<in> set (toDisplayMessages t msgs True)" and "b \<in> set (dm_blocks dm)"
  shows "db_status b \<noteq> Some S_running \<and> db_status b \<noteq> Some S_pending_confirm"
  using assms normalized by (auto simp: toDisplayMessages_def display_of_message_def display_of_block_def)

section \<open>The sequence the model gets is well formed\<close>

text \<open>Every tool message answers the tool call of the assistant message right before it, and every tool
  call is answered right after it.\<close>

fun tools_answered :: "api_message list \<Rightarrow> bool" where
  "tools_answered [] \<longleftrightarrow> True"
| "tools_answered (m # ms) \<longleftrightarrow>
     (if am_tool_calls m \<noteq> [] then
        (case ms of
           [] \<Rightarrow> False
         | a # rest \<Rightarrow> am_role m = R_assistant \<and> am_role a = R_tool \<and> am_tool_calls a = [] \<and>
             map tl_id (am_tool_calls m) = [the (am_tool_call_id a)] \<and> am_tool_call_id a \<noteq> None \<and> tools_answered rest)
      else am_role m \<noteq> R_tool \<and> tools_answered ms)"

lemma tools_answered_append: "tools_answered ms \<Longrightarrow> tools_answered ns \<Longrightarrow> tools_answered (ms @ ns)"
proof (induction ms rule: tools_answered.induct)
  case (2 m ms)
  then show ?case by (cases ms) (auto split: if_splits)
qed simp

lemma tools_answered_flush: "tools_answered (flushAssistant thinking text [])"
  by (simp add: flushAssistant_def)

lemma tools_answered_blocks: "tools_answered (expand_blocks thinking said bs)"
proof (induction thinking said bs rule: expand_blocks.induct)
  case (2 thinking said b bs)
  then show ?case by (auto simp: flushAssistant_def nonempty_def)
qed (simp add: tools_answered_flush)

definition api_text :: "api_message list \<Rightarrow> string" where
  "api_text ms = concat (map am_content (filter (\<lambda>m. am_role m = R_assistant) ms))"

lemma api_text_append: "api_text (ms @ ns) = api_text ms @ api_text ns"
  by (simp add: api_text_def)

lemma api_text_blocks:
  "api_text (expand_blocks thinking said bs) = said @ concat (map b_content (filter (\<lambda>b. b_type b = K_text) bs))"
proof (induction thinking said bs rule: expand_blocks.induct)
  case (2 thinking said b bs)
  then show ?case by (auto simp: flushAssistant_def api_text_def)
qed (simp add: flushAssistant_def api_text_def)

text \<open>C27: what is sent to a model that needs the tool calls of earlier turns is a well-formed sequence,
  as long as no message of the conversation is itself a tool message: each tool message answers the one
  tool call of the assistant message right before it and no call is left unanswered. No text is lost:
  each assistant message that can be expanded is sent with the text of its text blocks, in order.\<close>
theorem api_messages_well_formed:
  assumes "\<forall>m\<in>set messages. cm_role m \<noteq> R_tool"
  shows "tools_answered (expandToAPIMessages messages) \<and>
    (\<forall>m\<in>set messages. cm_role m = R_assistant \<and> can_expand m \<longrightarrow>
       api_text (expand_message m) = concat (map b_content (filter (\<lambda>b. b_type b = K_text) (cm_blocks m))))"
proof
  have "tools_answered (expand_message m)" if "m \<in> set messages" for m
    using that assms tools_answered_blocks by (auto simp: expand_message_def collapsed_def plain_api_def Let_def)
  then have "tools_answered (concat (map expand_message ms))" if "set ms \<subseteq> set messages" for ms
    using that by (induction ms) (auto intro: tools_answered_append)
  then show "tools_answered (expandToAPIMessages messages)" by (simp add: expandToAPIMessages_def)
qed (auto simp: expand_message_def api_text_blocks)

definition ex_call_message :: chat_message where
  "ex_call_message = \<lparr>cm_id = None, cm_role = R_assistant, cm_content = ''ok'',
     cm_blocks = [complete_tool ''up'' (tool_block (Some ''run'') (Some ''{}'') (Some ''call_1'')), Block (plain_block K_text ''ok'') None],
     cm_streaming = Some False, cm_tokenUsage = None, cm_retryStatus = None\<rparr>"

theorem api_messages_well_formed_witness:
  "tools_answered (expandToAPIMessages [ex_call_message])"
  using api_messages_well_formed [of "[ex_call_message]"] by (simp add: ex_call_message_def)

theorem conversation_read_back_witness:
  "expand_message (kept_message 3 ex_call_message) = [collapsed ex_call_message] \<and> length (expand_message ex_call_message) = 3"
proof
  have "cm_role ex_call_message = R_assistant \<and> (\<exists>b\<in>set (cm_blocks ex_call_message). b_type b = K_tool)"
    by (simp add: ex_call_message_def complete_tool_def on_info_def tool_block_def plain_block_def)
  with conversation_read_back [of 0 id "[]"] show "expand_message (kept_message 3 ex_call_message) = [collapsed ex_call_message]"
    by blast
  show "length (expand_message ex_call_message) = 3" by code_simp
qed

end
