(* ===== verification/AiStore.thy ===== *)
theory AiStore
  imports AiMessages MentionXml TabStore "HOL-Library.AList"
begin

text \<open>
  The state of the assistant (\<^verbatim>\<open>stores/aiStore.ts\<close>): the store, the variables of the module beside it,
  the calls to the backend in the order in which they are made, and what is kept in \<open>localStorage\<close>. The
  hosts of a conversation are the sidebar tabs and the AI tabs of the tab store that show it. A promise is
  split where the source awaits: the part before the call, and what its answer does. The listener of a
  conversation is subscribed at most once; an event that reaches it carries the generation it subscribed
  with. The field \<open>ai_t\<close> is the translation function.
\<close>

section \<open>The state\<close>

record queue_item =
  qi_id :: string
  qi_text :: string

record conv_streaming =
  cs_sending :: bool
  cs_pendingQueue :: "queue_item list"

record conversation =
  cv_ID :: int
  cv_Title :: string

record edit_target =
  et_conversationId :: int
  et_messageIndex :: int
  et_draft :: string

record sidebar_ui =
  ui_inputDraft :: string
  ui_scrollTop :: int
  ui_editTarget :: "edit_target option"

record sidebar_tab =
  sd_id :: string
  sd_conversationId :: "int option"
  sd_title :: string
  sd_createdAt :: int
  sd_uiState :: sidebar_ui

record conv_listener =
  cl_cancel :: "nat option"
  cl_generation :: nat

record stream_buffer =
  sb_content :: string
  sb_thinking :: string
  sb_timer :: bool

record list_request =
  lr_requestId :: nat
  lr_barrier :: nat

record tab_info =
  ti_type :: tab_type
  ti_assetId :: int
  ti_assetName :: string

datatype ai_call =
    CA_Save int "display_message list"
  | CA_Send int "api_message list" "tab_info list"
  | CA_Stop int
  | CA_Queue int string string
  | CA_RemoveQueued int string
  | CA_ClearQueued int
  | CA_Create
  | CA_List
  | CA_Load int
  | CA_Delete int
  | CA_Title int string
  | CA_Provider
  | CA_Notify "string option"
  | CA_FlushDone

text \<open>An entry of the kept sidebar tabs as it is read back: a field holds a value if it has the type the
  reader checks for. An entry that is no object is \<open>None\<close>.\<close>

record raw_ui =
  ru_inputDraft :: "string option"
  ru_scrollTop :: "int option"
  ru_editTarget :: "edit_target option"

record raw_tab =
  rt_id :: "string option"
  rt_conversationId :: "int option"
  rt_title :: "string option"
  rt_createdAt :: "int option"
  rt_uiState :: "raw_ui option"

text \<open>Why a list of conversations was asked for.\<close>

datatype list_purpose = LP_fetch | LP_done int | LP_rename int nat bool | LP_restore "conversation list" "tab list"

text \<open>What waits for an answer of the backend, with what the code after the \<open>await\<close> still needs.\<close>

datatype rename_then = RT_return | RT_refresh | RT_send int string | RT_replay int "chat_message list" string

datatype create_for = CF_tab string string | CF_sidebar string string

datatype ai_wait =
    AW_provider
  | AW_title int nat string rename_then
  | AW_create create_for
  | AW_stop int "chat_message list" string
  | AW_open int string
  | AW_delete int
  | AW_restore_provider "tab list"
  | AW_restore "conversation list" "tab list"

record ai_store =
  tabStates :: "string list"
  conversationMessages :: "(int \<times> chat_message list) list"
  conversationStreaming :: "(int \<times> conv_streaming) list"
  conversations :: "conversation list"
  configured :: bool
  providerName :: string
  modelName :: string
  sidebarTabs :: "sidebar_tab list"
  activeSidebarTabId :: "string option"
  conversationListeners :: "(int \<times> conv_listener) list"
  conversationStopRequests :: "int list"
  conversationRenameVersions :: "(int \<times> nat) list"
  conversationRenameInFlight :: "int list"
  conversationListBarrier :: nat
  conversationListRequestId :: nat
  latestAppliedConversationListRequestId :: nat
  streamBuffers :: "(int \<times> stream_buffer) list"
  ai_drains :: "int list"
  ai_lists :: "(list_request \<times> list_purpose) list"
  ai_waits :: "ai_wait list"
  ai_calls :: "ai_call list"
  ai_uuid :: nat
  ai_t :: "string \<Rightarrow> string"
  sidebarPersistPending :: "(sidebar_tab list \<times> string option) option"
  sidebarPersistTimer :: bool
  ls_sidebarTabs :: "raw_tab option list item"
  ls_sidebarActive :: "string option"
  ls_legacyConversation :: "string option"
  ls_legacyDraft :: "string option"
  ls_legacyLastBound :: "string option"

type_synonym ai_world = "ai_store app"

abbreviation ai_of :: "ai_world \<Rightarrow> ai_store" where "ai_of w \<equiv> ap_rest w"

definition upd_ai :: "(ai_store \<Rightarrow> ai_store) \<Rightarrow> ai_world \<Rightarrow> ai_world" where
  "upd_ai f w = w\<lparr>ap_rest := f (ap_rest w)\<rparr>"

definition ai_call :: "ai_call \<Rightarrow> ai_store \<Rightarrow> ai_store" where
  "ai_call c s = s\<lparr>ai_calls := ai_calls s @ [c]\<rparr>"

definition no_streaming :: conv_streaming where
  "no_streaming = \<lparr>cs_sending = False, cs_pendingQueue = []\<rparr>"

definition messages_of :: "ai_store \<Rightarrow> int \<Rightarrow> chat_message list" where
  "messages_of s c = (case map_of (conversationMessages s) c of None \<Rightarrow> [] | Some ms \<Rightarrow> ms)"

definition streaming_of :: "ai_store \<Rightarrow> int \<Rightarrow> conv_streaming" where
  "streaming_of s c = (case map_of (conversationStreaming s) c of None \<Rightarrow> no_streaming | Some st \<Rightarrow> st)"

section \<open>Listeners, buffers, snapshots\<close>

definition getOrCreateConvListener :: "int \<Rightarrow> ai_store \<Rightarrow> conv_listener \<times> ai_store" where
  "getOrCreateConvListener c s =
     (case map_of (conversationListeners s) c of
        Some l \<Rightarrow> (l, s)
      | None \<Rightarrow>
          let l = \<lparr>cl_cancel = None, cl_generation = 0\<rparr>
          in (l, s\<lparr>conversationListeners := AList.update c l (conversationListeners s)\<rparr>))"

definition cleanupStreamBuffer :: "int \<Rightarrow> ai_store \<Rightarrow> ai_store" where
  "cleanupStreamBuffer c s = s\<lparr>streamBuffers := AList.delete c (streamBuffers s)\<rparr>"

definition cleanupConvListener :: "int \<Rightarrow> ai_store \<Rightarrow> ai_store" where
  "cleanupConvListener c s =
     cleanupStreamBuffer c
       (s\<lparr>conversationListeners := AList.delete c (conversationListeners s),
          conversationStopRequests := removeAll c (conversationStopRequests s)\<rparr>)"

definition invalidateConvListenerForReplay :: "int \<Rightarrow> ai_store \<Rightarrow> ai_store" where
  "invalidateConvListenerForReplay c s =
     (let (l, s') = getOrCreateConvListener c s
      in cleanupStreamBuffer c
           (s'\<lparr>conversationListeners := AList.update c \<lparr>cl_cancel = None, cl_generation = Suc (cl_generation l)\<rparr> (conversationListeners s')\<rparr>))"

definition persistConversationSnapshot :: "int \<Rightarrow> bool \<Rightarrow> ai_store \<Rightarrow> ai_store" where
  "persistConversationSnapshot c includeStreaming s =
     (case map_of (conversationMessages s) c of
        None \<Rightarrow> s
      | Some msgs \<Rightarrow> ai_call (CA_Save c (toDisplayMessages (ai_t s) msgs includeStreaming)) s)"

definition empty_buffer :: stream_buffer where
  "empty_buffer = \<lparr>sb_content = [], sb_thinking = [], sb_timer = False\<rparr>"

definition buffer_of :: "ai_store \<Rightarrow> int \<Rightarrow> stream_buffer" where
  "buffer_of s c = (case map_of (streamBuffers s) c of None \<Rightarrow> empty_buffer | Some b \<Rightarrow> b)"

definition flushStreamBuffer :: "int \<Rightarrow> ai_store \<Rightarrow> ai_store" where
  "flushStreamBuffer c s =
     (case map_of (streamBuffers s) c of
        None \<Rightarrow> s
      | Some buf \<Rightarrow>
          let s1 = s\<lparr>streamBuffers := AList.update c empty_buffer (streamBuffers s)\<rparr>
          in if sb_content buf = [] \<and> sb_thinking buf = [] then s1
             else (case map_of (conversationMessages s1) c of
                     None \<Rightarrow> s1
                   | Some msgs \<Rightarrow>
                       (case updateLastAssistant msgs (flush_message (sb_content buf) (sb_thinking buf)) of
                          None \<Rightarrow> s1
                        | Some updated \<Rightarrow> s1\<lparr>conversationMessages := AList.update c updated (conversationMessages s1)\<rparr>)))"

text \<open>Adding to the buffer of a conversation; the timer is started unless it runs.\<close>

definition buffer_event :: "int \<Rightarrow> string \<Rightarrow> string \<Rightarrow> ai_store \<Rightarrow> ai_store" where
  "buffer_event c content thinking s =
     (let b = buffer_of s c
      in s\<lparr>streamBuffers := AList.update c \<lparr>sb_content = sb_content b @ content, sb_thinking = sb_thinking b @ thinking, sb_timer = True\<rparr> (streamBuffers s)\<rparr>)"

definition updateConversation :: "int \<Rightarrow> chat_message list option \<Rightarrow> bool option \<Rightarrow> queue_item list option \<Rightarrow> ai_store \<Rightarrow> ai_store" where
  "updateConversation c messages sending pendingQueue s =
     (let cur = streaming_of s c;
          s1 = (case messages of None \<Rightarrow> s | Some ms \<Rightarrow> s\<lparr>conversationMessages := AList.update c ms (conversationMessages s)\<rparr>)
      in if sending \<noteq> None \<or> pendingQueue \<noteq> None then
           s1\<lparr>conversationStreaming := AList.update c
               \<lparr>cs_sending = (case sending of None \<Rightarrow> cs_sending cur | Some b \<Rightarrow> b),
                cs_pendingQueue = (case pendingQueue of None \<Rightarrow> cs_pendingQueue cur | Some q \<Rightarrow> q)\<rparr> (conversationStreaming s1)\<rparr>
         else s1)"

section \<open>Loading the messages of a conversation\<close>

definition ensureConversationMessagesLoaded :: "int \<Rightarrow> ai_store \<Rightarrow> ai_store" where
  "ensureConversationMessagesLoaded c s =
     (if map_of (conversationMessages s) c \<noteq> None then s else ai_call (CA_Load c) s)"

definition if_missing :: "int \<Rightarrow> 'v \<Rightarrow> (int \<times> 'v) list \<Rightarrow> (int \<times> 'v) list" where
  "if_missing c v ps = (case map_of ps c of None \<Rightarrow> AList.update c v ps | Some u \<Rightarrow> ps)"

definition messages_loaded :: "int \<Rightarrow> display_message list \<Rightarrow> ai_store \<Rightarrow> ai_store" where
  "messages_loaded c dms s =
     s\<lparr>conversationMessages := if_missing c (convertDisplayMessages (ai_uuid s) dms) (conversationMessages s),
       conversationStreaming := if_missing c no_streaming (conversationStreaming s),
       ai_uuid := ai_uuid s + length dms\<rparr>"

section \<open>Hosts\<close>

definition ai_tab_shows :: "int \<Rightarrow> tab \<Rightarrow> bool" where
  "ai_tab_shows c t \<longleftrightarrow> tb_type t = TT_ai \<and> (case tb_meta t of AIMeta m \<Rightarrow> am_conversationId m = Some c | _ \<Rightarrow> False)"

definition getConversationHostCount :: "tab list \<Rightarrow> int \<Rightarrow> string option \<Rightarrow> string option \<Rightarrow> ai_store \<Rightarrow> nat" where
  "getConversationHostCount tabs c ignoreSidebarTabId ignoreMainTabId s =
     length (filter (\<lambda>t. Some (sd_id t) \<noteq> ignoreSidebarTabId \<and> sd_conversationId t = Some c) (sidebarTabs s)) +
     length (filter (\<lambda>t. Some (tb_id t) \<noteq> ignoreMainTabId \<and> ai_tab_shows c t) tabs)"

definition hasConversationHosts :: "tab list \<Rightarrow> int \<Rightarrow> string option \<Rightarrow> string option \<Rightarrow> ai_store \<Rightarrow> bool" where
  "hasConversationHosts tabs c ignoreSidebarTabId ignoreMainTabId s \<longleftrightarrow>
     getConversationHostCount tabs c ignoreSidebarTabId ignoreMainTabId s > 0"

definition cleanupConversationIfUnused :: "tab list \<Rightarrow> int \<Rightarrow> string option \<Rightarrow> string option \<Rightarrow> ai_store \<Rightarrow> ai_store" where
  "cleanupConversationIfUnused tabs c ignoreSidebarTabId ignoreMainTabId s =
     (if hasConversationHosts tabs c ignoreSidebarTabId ignoreMainTabId s then
        s\<lparr>conversationStopRequests := removeAll c (conversationStopRequests s)\<rparr>
      else if cs_sending (streaming_of s c) then
        (if c \<in> set (conversationStopRequests s) then s
         else ai_call (CA_Stop c) (s\<lparr>conversationStopRequests := c # conversationStopRequests s\<rparr>))
      else cleanupConvListener c s)"

text \<open>The backend refuses the stop.\<close>

definition stop_refused :: "int \<Rightarrow> ai_store \<Rightarrow> ai_store" where
  "stop_refused c s = s\<lparr>conversationStopRequests := removeAll c (conversationStopRequests s)\<rparr>"

definition getConversationStatus :: "ai_store \<Rightarrow> int option \<Rightarrow> sidebar_status option" where
  "getConversationStatus s convId =
     (case convId of None \<Rightarrow> None | Some c \<Rightarrow> message_list_status (messages_of s c) (cs_sending (streaming_of s c)))"

definition isAnySending :: "ai_store \<Rightarrow> bool" where
  "isAnySending s \<longleftrightarrow> list_ex (\<lambda>(c, st). cs_sending st) (conversationStreaming s)"

section \<open>Lemmas about the state\<close>

named_theorems ai_simps \<open>what the operations of the assistant do to the state\<close>

lemma buffer_lookup [simp]:
  "buffer_of (buffer_event c x y s) d = (if d = c then \<lparr>sb_content = sb_content (buffer_of s c) @ x, sb_thinking = sb_thinking (buffer_of s c) @ y, sb_timer = True\<rparr> else buffer_of s d)"
  by (simp add: buffer_event_def Let_def buffer_of_def update_conv')

lemma flush_cases:
  "flushStreamBuffer c s =
     (if map_of (streamBuffers s) c = None then s
      else (s\<lparr>streamBuffers := AList.update c empty_buffer (streamBuffers s)\<rparr>)
        \<lparr>conversationMessages :=
           (if sb_content (buffer_of s c) = [] \<and> sb_thinking (buffer_of s c) = [] then conversationMessages s
            else case map_of (conversationMessages s) c of
              None \<Rightarrow> conversationMessages s
            | Some msgs \<Rightarrow>
                (case updateLastAssistant msgs (flush_message (sb_content (buffer_of s c)) (sb_thinking (buffer_of s c))) of
                   None \<Rightarrow> conversationMessages s
                 | Some updated \<Rightarrow> AList.update c updated (conversationMessages s)))\<rparr>)"
  by (auto simp: flushStreamBuffer_def buffer_of_def Let_def split: option.split)

lemma flush_frame [ai_simps]:
  "conversationStreaming (flushStreamBuffer c s) = conversationStreaming s"
  "conversationListeners (flushStreamBuffer c s) = conversationListeners s"
  "sidebarTabs (flushStreamBuffer c s) = sidebarTabs s"
  "activeSidebarTabId (flushStreamBuffer c s) = activeSidebarTabId s"
  "ai_calls (flushStreamBuffer c s) = ai_calls s"
  by (simp_all add: flush_cases)

end
