(* ===== verification/AiSidebar.thy ===== *)
theory AiSidebar
  imports AiStore
begin

text \<open>
  The sidebar of the assistant (\<^verbatim>\<open>stores/aiStore.ts\<close>): its tabs, how they are kept and read back, and the
  operations on them. Ids and times that the source makes are arguments; the operations that may change
  the hosts of a conversation also get the tabs of the tab store.
\<close>

section \<open>Tabs and their state\<close>

definition createDefaultSidebarUiState :: "raw_ui option \<Rightarrow> sidebar_ui" where
  "createDefaultSidebarUiState overrides =
     (case overrides of
        None \<Rightarrow> \<lparr>ui_inputDraft = [], ui_scrollTop = 0, ui_editTarget = None\<rparr>
      | Some r \<Rightarrow> \<lparr>ui_inputDraft = (case ru_inputDraft r of None \<Rightarrow> [] | Some d \<Rightarrow> d),
                   ui_scrollTop = (case ru_scrollTop r of None \<Rightarrow> 0 | Some n \<Rightarrow> n),
                   ui_editTarget = ru_editTarget r\<rparr>)"

definition resolveNextActiveId :: "string option \<Rightarrow> string \<Rightarrow> bool option \<Rightarrow> string option" where
  "resolveNextActiveId prevActive candidate activate =
     (if activate = Some False \<and> nonempty prevActive then prevActive else Some candidate)"

definition getDefaultSidebarTitle :: "ai_store \<Rightarrow> string" where
  "getDefaultSidebarTitle s = ai_t s ''ai.newConversation''"

text \<open>The id is the given one or a new one, the time the given one or now.\<close>

definition createSidebarTab :: "(string \<Rightarrow> string) \<Rightarrow> string \<Rightarrow> int \<Rightarrow> int option \<Rightarrow> string option \<Rightarrow> raw_ui option \<Rightarrow> sidebar_tab" where
  "createSidebarTab t i createdAt conversationId title uiState =
     \<lparr>sd_id = i, sd_conversationId = conversationId,
      sd_title = (case title of None \<Rightarrow> t ''ai.newConversation'' | Some x \<Rightarrow> x),
      sd_createdAt = createdAt, sd_uiState = createDefaultSidebarUiState uiState\<rparr>"

definition strip_target :: "edit_target \<Rightarrow> edit_target" where
  "strip_target e = e\<lparr>et_draft := stripMentionTags (et_draft e)\<rparr>"

definition sanitizeSidebarUiStateForPersistence :: "raw_ui option \<Rightarrow> sidebar_ui option" where
  "sanitizeSidebarUiStateForPersistence uiState =
     (case uiState of
        None \<Rightarrow> None
      | Some r \<Rightarrow> Some (createDefaultSidebarUiState (Some
          (r\<lparr>ru_inputDraft := Some (stripMentionTags (case ru_inputDraft r of None \<Rightarrow> [] | Some d \<Rightarrow> d)),
             ru_editTarget := map_option strip_target (ru_editTarget r)\<rparr>))))"

definition raw_of_ui :: "sidebar_ui \<Rightarrow> raw_ui" where
  "raw_of_ui u = \<lparr>ru_inputDraft = Some (ui_inputDraft u), ru_scrollTop = Some (ui_scrollTop u), ru_editTarget = ui_editTarget u\<rparr>"

definition sanitizeSidebarTab :: "(string \<Rightarrow> string) \<Rightarrow> int \<Rightarrow> raw_tab option \<Rightarrow> sidebar_tab option" where
  "sanitizeSidebarTab t now raw =
     (case raw of
        None \<Rightarrow> None
      | Some tab \<Rightarrow>
          (case rt_id tab of
             None \<Rightarrow> None
           | Some i \<Rightarrow>
               if i = [] then None
               else Some (createSidebarTab t i (case rt_createdAt tab of None \<Rightarrow> now | Some c \<Rightarrow> c) (rt_conversationId tab)
                       (if rt_title tab = Some [] then None else rt_title tab)
                       (map_option raw_of_ui (sanitizeSidebarUiStateForPersistence (rt_uiState tab))))))"

section \<open>Keeping the tabs\<close>

definition clearLegacySidebarKeys :: "ai_store \<Rightarrow> ai_store" where
  "clearLegacySidebarKeys s = s\<lparr>ls_legacyConversation := None, ls_legacyDraft := None, ls_legacyLastBound := None\<rparr>"

definition raw_of_tab :: "sidebar_tab \<Rightarrow> raw_tab" where
  "raw_of_tab tab =
     \<lparr>rt_id = Some (sd_id tab), rt_conversationId = sd_conversationId tab, rt_title = Some (sd_title tab),
      rt_createdAt = Some (sd_createdAt tab),
      rt_uiState = map_option raw_of_ui (sanitizeSidebarUiStateForPersistence (Some (raw_of_ui (sd_uiState tab))))\<rparr>"

definition persistSidebarTabs :: "sidebar_tab list \<Rightarrow> string option \<Rightarrow> ai_store \<Rightarrow> ai_store" where
  "persistSidebarTabs tabs activeId s =
     clearLegacySidebarKeys
       (if tabs = [] then s\<lparr>ls_sidebarTabs := Absent, ls_sidebarActive := None\<rparr>
        else s\<lparr>ls_sidebarTabs := Stored (map (\<lambda>t. Some (raw_of_tab t)) tabs),
               ls_sidebarActive := Some (case activeId of None \<Rightarrow> sd_id (hd tabs) | Some a \<Rightarrow> a)\<rparr>)"

definition flushSidebarPersist :: "ai_store \<Rightarrow> ai_store" where
  "flushSidebarPersist s =
     (let s1 = s\<lparr>sidebarPersistTimer := False\<rparr>
      in case sidebarPersistPending s1 of
           None \<Rightarrow> s1
         | Some (tabs, a) \<Rightarrow> persistSidebarTabs tabs a (s1\<lparr>sidebarPersistPending := None\<rparr>))"

definition scheduleSidebarPersist :: "sidebar_tab list \<Rightarrow> string option \<Rightarrow> ai_store \<Rightarrow> ai_store" where
  "scheduleSidebarPersist tabs a s = s\<lparr>sidebarPersistPending := Some (tabs, a), sidebarPersistTimer := True\<rparr>"

definition didSidebarStructureChange :: "sidebar_tab list \<Rightarrow> sidebar_tab list \<Rightarrow> bool" where
  "didSidebarStructureChange next_tabs prev \<longleftrightarrow>
     length next_tabs \<noteq> length prev \<or>
     list_ex (\<lambda>(a, b). sd_id a \<noteq> sd_id b \<or> sd_conversationId a \<noteq> sd_conversationId b \<or> sd_title a \<noteq> sd_title b) (zip next_tabs prev)"

text \<open>\<open>set\<close> with a new array of sidebar tabs, and the subscriber.\<close>

definition set_sidebar :: "sidebar_tab list \<Rightarrow> string option \<Rightarrow> ai_store \<Rightarrow> ai_store" where
  "set_sidebar tabs a s =
     (let s1 = s\<lparr>sidebarTabs := tabs, activeSidebarTabId := a\<rparr>
      in if a \<noteq> activeSidebarTabId s \<or> didSidebarStructureChange tabs (sidebarTabs s)
         then persistSidebarTabs tabs a (flushSidebarPersist s1)
         else scheduleSidebarPersist tabs a s1)"

definition set_active_sidebar :: "string option \<Rightarrow> ai_store \<Rightarrow> ai_store" where
  "set_active_sidebar a s =
     (if a = activeSidebarTabId s then s
      else persistSidebarTabs (sidebarTabs s) a (flushSidebarPersist (s\<lparr>activeSidebarTabId := a\<rparr>)))"

text \<open>The tabs at startup: the kept ones, or one tab made from the keys of the time before there were
  several.\<close>

definition loadInitialSidebarState :: "string \<Rightarrow> int \<Rightarrow> ai_store \<Rightarrow> sidebar_tab list \<times> string option \<times> bool" where
  "loadInitialSidebarState newId now s =
     (case ls_sidebarTabs s of
        Stored parsed \<Rightarrow>
          let tabs = List.map_filter (sanitizeSidebarTab (ai_t s) now) parsed
          in (tabs, if list_ex (\<lambda>t. Some (sd_id t) = ls_sidebarActive s) tabs then ls_sidebarActive s
                    else (case tabs of [] \<Rightarrow> None | t # _ \<Rightarrow> Some (sd_id t)), False)
      | _ \<Rightarrow>
          let conversationId = (case ls_legacyConversation s of None \<Rightarrow> None | Some c \<Rightarrow> if c = [] then None else parse_int c);
              hasLegacyState = (ls_legacyConversation s \<noteq> None \<or> ls_legacyLastBound s \<noteq> None \<or> ls_legacyDraft s \<noteq> None)
          in if \<not> hasLegacyState then ([], None, False)
             else
               let tab = createSidebarTab (ai_t s) newId now conversationId None
                     (Some \<lparr>ru_inputDraft = Some (case ls_legacyDraft s of None \<Rightarrow> [] | Some d \<Rightarrow> d), ru_scrollTop = Some 0, ru_editTarget = None\<rparr>)
               in ([tab], Some newId, True))"

definition start_sidebar :: "string \<Rightarrow> int \<Rightarrow> ai_store \<Rightarrow> ai_store" where
  "start_sidebar newId now s =
     (let (tabs, a, migrated) = loadInitialSidebarState newId now s
      in persistSidebarTabs tabs a (s\<lparr>sidebarTabs := tabs, activeSidebarTabId := a\<rparr>))"

section \<open>Operations\<close>

definition find_sidebar :: "string \<Rightarrow> ai_store \<Rightarrow> sidebar_tab option" where
  "find_sidebar i s = find (\<lambda>t. sd_id t = i) (sidebarTabs s)"

definition getActiveSidebarTab :: "ai_store \<Rightarrow> sidebar_tab option" where
  "getActiveSidebarTab s = find (\<lambda>t. Some (sd_id t) = activeSidebarTabId s) (sidebarTabs s)"

definition getActiveSidebarConversationId :: "ai_store \<Rightarrow> int option" where
  "getActiveSidebarConversationId s = (case getActiveSidebarTab s of None \<Rightarrow> None | Some t \<Rightarrow> sd_conversationId t)"

definition getSidebarTabState :: "string \<Rightarrow> ai_store \<Rightarrow> sidebar_ui" where
  "getSidebarTabState i s = (case find_sidebar i s of None \<Rightarrow> createDefaultSidebarUiState None | Some t \<Rightarrow> sd_uiState t)"

definition getSidebarTabStatus :: "string \<Rightarrow> ai_store \<Rightarrow> sidebar_status option" where
  "getSidebarTabStatus i s = getConversationStatus s (case find_sidebar i s of None \<Rightarrow> None | Some t \<Rightarrow> sd_conversationId t)"

definition activateSidebarTab :: "string \<Rightarrow> ai_store \<Rightarrow> ai_store" where
  "activateSidebarTab i s = (if find_sidebar i s = None then s else set_active_sidebar (Some i) s)"

definition activate_found :: "string \<Rightarrow> bool option \<Rightarrow> ai_store \<Rightarrow> ai_store" where
  "activate_found i activate s =
     (if activate \<noteq> Some False \<or> \<not> nonempty (activeSidebarTabId s) then activateSidebarTab i s else s)"

definition openNewSidebarTab :: "string \<Rightarrow> int \<Rightarrow> bool option \<Rightarrow> ai_store \<Rightarrow> string \<times> ai_store" where
  "openNewSidebarTab newId now activate s =
     (case find (\<lambda>t. sd_conversationId t = None) (sidebarTabs s) of
        Some blankTab \<Rightarrow> (sd_id blankTab, activate_found (sd_id blankTab) activate s)
      | None \<Rightarrow>
          (newId, set_sidebar (sidebarTabs s @ [createSidebarTab (ai_t s) newId now None None None])
             (resolveNextActiveId (activeSidebarTabId s) newId activate) s))"

definition title_of_conversation :: "int \<Rightarrow> string \<Rightarrow> ai_store \<Rightarrow> string" where
  "title_of_conversation c fallback s =
     or_text (map_option cv_Title (find (\<lambda>v. cv_ID v = c) (conversations s))) fallback"

definition forget_stop_request :: "int \<Rightarrow> ai_store \<Rightarrow> ai_store" where
  "forget_stop_request c s = s\<lparr>conversationStopRequests := removeAll c (conversationStopRequests s)\<rparr>"

definition openSidebarConversationInSidebar :: "string \<Rightarrow> int \<Rightarrow> int \<Rightarrow> bool option \<Rightarrow> bool option \<Rightarrow> ai_store \<Rightarrow> string \<times> ai_store" where
  "openSidebarConversationInSidebar newId now c activate reuseIfOpen s =
     (case (find (\<lambda>t. sd_conversationId t = Some c) (sidebarTabs s), reuseIfOpen = Some False) of
        (Some existingTab, False) \<Rightarrow> (sd_id existingTab, ensureConversationMessagesLoaded c (activate_found (sd_id existingTab) activate s))
      | _ \<Rightarrow>
          let nextTab = createSidebarTab (ai_t s) newId now (Some c) (Some (title_of_conversation c (getDefaultSidebarTitle s) s)) None
          in (newId, ensureConversationMessagesLoaded c (forget_stop_request c
               (set_sidebar (sidebarTabs s @ [nextTab]) (resolveNextActiveId (activeSidebarTabId s) newId activate) s))))"

definition bindSidebarTabToConversation :: "tab list \<Rightarrow> string \<Rightarrow> int \<Rightarrow> string \<Rightarrow> int \<Rightarrow> bool option \<Rightarrow> ai_store \<Rightarrow> string \<times> ai_store" where
  "bindSidebarTabToConversation tabs newId now tabId c activate s =
     (case find_sidebar tabId s of
        None \<Rightarrow> openSidebarConversationInSidebar newId now c activate (Some True) s
      | Some targetTab \<Rightarrow>
          (case find (\<lambda>t. sd_id t \<noteq> tabId \<and> sd_conversationId t = Some c) (sidebarTabs s) of
             Some reusedTab \<Rightarrow> (sd_id reusedTab, activate_found (sd_id reusedTab) activate s)
           | None \<Rightarrow>
               let previous = sd_conversationId targetTab;
                   title = title_of_conversation c (sd_title targetTab) s;
                   s1 = ensureConversationMessagesLoaded c (forget_stop_request c
                     (set_sidebar (map (\<lambda>t. if sd_id t = tabId
                          then t\<lparr>sd_conversationId := Some c, sd_title := title, sd_uiState := createDefaultSidebarUiState None\<rparr> else t) (sidebarTabs s))
                        (resolveNextActiveId (activeSidebarTabId s) tabId activate) s))
               in (tabId, case previous of
                     None \<Rightarrow> s1
                   | Some p \<Rightarrow> if p \<noteq> c then cleanupConversationIfUnused tabs p (Some tabId) None s1 else s1)))"

definition nth_id :: "sidebar_tab list \<Rightarrow> int \<Rightarrow> string option" where
  "nth_id tabs k = (if 0 \<le> k \<and> k < int (length tabs) then Some (sd_id (tabs ! nat k)) else None)"

definition first_some :: "'a option \<Rightarrow> 'a option \<Rightarrow> 'a option" where
  "first_some a b = (case a of None \<Rightarrow> b | Some x \<Rightarrow> Some x)"

definition closeSidebarTab :: "tab list \<Rightarrow> string \<Rightarrow> ai_store \<Rightarrow> ai_store" where
  "closeSidebarTab tabs tabId s =
     (case find_index (\<lambda>t. sd_id t = tabId) (sidebarTabs s) of
        None \<Rightarrow> s
      | Some index \<Rightarrow>
          let closingTab = sidebarTabs s ! index;
              s1 = (case sd_conversationId closingTab of None \<Rightarrow> s | Some c \<Rightarrow> persistConversationSnapshot c True s);
              rest = filter (\<lambda>t. sd_id t \<noteq> tabId) (sidebarTabs s1);
              act = (if activeSidebarTabId s1 = Some tabId
                     then first_some (nth_id rest (int index)) (first_some (nth_id rest (int index - 1)) (nth_id rest 0))
                     else activeSidebarTabId s1);
              s2 = set_sidebar rest act s1
          in (case sd_conversationId closingTab of None \<Rightarrow> s2 | Some c \<Rightarrow> cleanupConversationIfUnused tabs c (Some tabId) None s2))"

definition validated_tab :: "conversation list \<Rightarrow> sidebar_tab \<Rightarrow> sidebar_tab" where
  "validated_tab convs tab =
     (case sd_conversationId tab of
        None \<Rightarrow> tab
      | Some c \<Rightarrow>
          (case find (\<lambda>v. cv_ID v = c) (rev convs) of
             None \<Rightarrow> tab
           | Some v \<Rightarrow> if cv_Title v \<noteq> sd_title tab then tab\<lparr>sd_title := cv_Title v\<rparr> else tab))"

definition known_tab :: "conversation list \<Rightarrow> sidebar_tab \<Rightarrow> bool" where
  "known_tab convs tab \<longleftrightarrow> (case sd_conversationId tab of None \<Rightarrow> True | Some c \<Rightarrow> c \<in> set (map cv_ID convs))"

definition distinct_ids :: "int list \<Rightarrow> int list" where
  "distinct_ids ids = rev (remdups (rev ids))"

definition validateSidebarTabs :: "tab list \<Rightarrow> ai_store \<Rightarrow> ai_store" where
  "validateSidebarTabs tabs s =
     (let convs = conversations s;
          removed = List.map_filter sd_conversationId (filter (\<lambda>t. \<not> known_tab convs t) (sidebarTabs s));
          kept = map (validated_tab convs) (filter (known_tab convs) (sidebarTabs s));
          s1 = set_sidebar kept (if list_ex (\<lambda>t. Some (sd_id t) = activeSidebarTabId s) kept then activeSidebarTabId s else nth_id kept 0) s
      in fold (\<lambda>c. cleanupConversationIfUnused tabs c None None) (distinct_ids removed) s1)"

text \<open>A patch of the state of a tab; \<open>None\<close> leaves a field alone.\<close>

definition patchSidebarTabUiState :: "string \<Rightarrow> (sidebar_ui \<Rightarrow> sidebar_ui) \<Rightarrow> ai_store \<Rightarrow> ai_store" where
  "patchSidebarTabUiState tabId patch s =
     set_sidebar (map (\<lambda>t. if sd_id t = tabId then t\<lparr>sd_uiState := patch (sd_uiState t)\<rparr> else t) (sidebarTabs s)) (activeSidebarTabId s) s"

definition setSidebarTabInputDraft :: "string \<Rightarrow> string \<Rightarrow> ai_store \<Rightarrow> ai_store" where
  "setSidebarTabInputDraft tabId draft = patchSidebarTabUiState tabId (\<lambda>u. u\<lparr>ui_inputDraft := draft\<rparr>)"

definition setSidebarTabScrollTop :: "string \<Rightarrow> int \<Rightarrow> ai_store \<Rightarrow> ai_store" where
  "setSidebarTabScrollTop tabId pos = patchSidebarTabUiState tabId (\<lambda>u. u\<lparr>ui_scrollTop := pos\<rparr>)"

definition setSidebarTabEditTarget :: "string \<Rightarrow> edit_target option \<Rightarrow> ai_store \<Rightarrow> ai_store" where
  "setSidebarTabEditTarget tabId target = patchSidebarTabUiState tabId (\<lambda>u. u\<lparr>ui_editTarget := target\<rparr>)"

definition stopSidebarTab :: "string \<Rightarrow> ai_store \<Rightarrow> ai_store" where
  "stopSidebarTab tabId s =
     (case find_sidebar tabId s of
        None \<Rightarrow> s
      | Some t \<Rightarrow> (case sd_conversationId t of None \<Rightarrow> s | Some c \<Rightarrow> ai_call (CA_Stop c) s))"

section \<open>A conversation gets a tab, or goes\<close>

definition sync_title :: "int \<Rightarrow> string \<Rightarrow> ai_store \<Rightarrow> ai_store" where
  "sync_title c title s =
     set_sidebar (map (\<lambda>t. if sd_conversationId t = Some c then t\<lparr>sd_title := title\<rparr> else t) (sidebarTabs s)) (activeSidebarTabId s)
       (s\<lparr>conversations := map (\<lambda>v. if cv_ID v = c then v\<lparr>cv_Title := title\<rparr> else v) (conversations s)\<rparr>)"

text \<open>The new conversation of a blank sidebar tab that sends its first message.\<close>

definition attach_sidebar :: "string \<Rightarrow> conversation \<Rightarrow> ai_store \<Rightarrow> ai_store" where
  "attach_sidebar tabId conv s =
     set_sidebar (map (\<lambda>t. if sd_id t = tabId
          then t\<lparr>sd_conversationId := Some (cv_ID conv), sd_title := (if cv_Title conv = [] then sd_title t else cv_Title conv),
                 sd_uiState := createDefaultSidebarUiState None\<rparr> else t) (sidebarTabs s)) (activeSidebarTabId s)
       (s\<lparr>conversations := (if list_ex (\<lambda>v. cv_ID v = cv_ID conv) (conversations s) then conversations s else conv # conversations s),
          conversationMessages := if_missing (cv_ID conv) [] (conversationMessages s),
          conversationStreaming := if_missing (cv_ID conv) no_streaming (conversationStreaming s)\<rparr>)"

text \<open>The active tab after a conversation is deleted: the next tab to the right of it that stays, else the
  next to the left.\<close>

definition deleted_active :: "int \<Rightarrow> ai_store \<Rightarrow> string option" where
  "deleted_active c s =
     (let stays = (\<lambda>t. sd_conversationId t \<noteq> Some c);
          rest = filter stays (sidebarTabs s)
      in if list_ex (\<lambda>t. Some (sd_id t) = activeSidebarTabId s) rest then activeSidebarTabId s
         else (case find_index (\<lambda>t. Some (sd_id t) = activeSidebarTabId s) (sidebarTabs s) of
             None \<Rightarrow> nth_id rest 0
           | Some k \<Rightarrow>
               if sd_conversationId (sidebarTabs s ! k) = Some c then
                 map_option sd_id (first_some (find stays (drop (Suc k) (sidebarTabs s))) (find stays (rev (take k (sidebarTabs s)))))
               else nth_id rest 0))"

definition delete_sidebar :: "int \<Rightarrow> ai_store \<Rightarrow> ai_store" where
  "delete_sidebar c s =
     set_sidebar (filter (\<lambda>t. sd_conversationId t \<noteq> Some c) (sidebarTabs s)) (deleted_active c s)
       (s\<lparr>conversations := filter (\<lambda>v. cv_ID v \<noteq> c) (conversations s),
          conversationMessages := AList.delete c (conversationMessages s),
          conversationStreaming := AList.delete c (conversationStreaming s)\<rparr>)"

section \<open>The sidebar stays consistent and survives a restart\<close>

text \<open>Ids are unique, no conversation and no more than one blank tab is there twice, and the active tab is
  one of the tabs.\<close>

definition sidebar_tabs_ok :: "sidebar_tab list \<Rightarrow> string option \<Rightarrow> bool" where
  "sidebar_tabs_ok tabs a \<longleftrightarrow>
     distinct (map sd_id tabs) \<and> distinct (map sd_conversationId tabs) \<and> [] \<notin> set (map sd_id tabs) \<and>
     (case a of None \<Rightarrow> tabs = [] | Some i \<Rightarrow> i \<in> set (map sd_id tabs))"

text \<open>What is kept is the tabs as they are, or a flush of the tabs as they are is pending.\<close>

definition sidebar_kept :: "ai_store \<Rightarrow> bool" where
  "sidebar_kept s \<longleftrightarrow>
     (case sidebarPersistPending s of
        None \<Rightarrow>
          ls_sidebarTabs s = (if sidebarTabs s = [] then Absent else Stored (map (\<lambda>t. Some (raw_of_tab t)) (sidebarTabs s))) \<and>
          ls_sidebarActive s = (if sidebarTabs s = [] then None else activeSidebarTabId s)
      | Some (tabs, a) \<Rightarrow> tabs = sidebarTabs s \<and> a = activeSidebarTabId s \<and> sidebarPersistTimer s) \<and>
     ls_legacyConversation s = None \<and> ls_legacyDraft s = None \<and> ls_legacyLastBound s = None"

definition sidebar_ok :: "ai_store \<Rightarrow> bool" where
  "sidebar_ok s \<longleftrightarrow> sidebar_tabs_ok (sidebarTabs s) (activeSidebarTabId s) \<and> sidebar_kept s"

text \<open>The fields the sidebar consists of.\<close>

definition side :: "ai_store \<Rightarrow> _" where
  "side s = ((sidebarTabs s, activeSidebarTabId s, sidebarPersistPending s, sidebarPersistTimer s),
     (ls_sidebarTabs s, ls_sidebarActive s, ls_legacyConversation s, ls_legacyDraft s, ls_legacyLastBound s))"

lemma sidebar_ok_side: "side s' = side s \<Longrightarrow> sidebar_ok s' = sidebar_ok s"
  by (auto simp: side_def sidebar_ok_def sidebar_kept_def split: option.split)

lemma side_call [ai_simps]: "side (ai_call c s) = side s"
  by (simp add: side_def ai_call_def)

lemma side_loaded [ai_simps]: "side (messages_loaded c dms s) = side s" "side (ensureConversationMessagesLoaded c s) = side s"
  by (simp_all add: side_def messages_loaded_def ensureConversationMessagesLoaded_def ai_call_def)

lemma side_snapshot [ai_simps]: "side (persistConversationSnapshot c b s) = side s"
  by (simp add: persistConversationSnapshot_def side_call split: option.split)

lemma side_stop [ai_simps]: "side (forget_stop_request c s) = side s" "side (stop_refused c s) = side s"
  by (simp_all add: side_def forget_stop_request_def stop_refused_def)

lemma side_listeners [ai_simps]:
  "side (cleanupStreamBuffer c s) = side s" "side (cleanupConvListener c s) = side s"
  "side (invalidateConvListenerForReplay c s) = side s"
  by (simp_all add: side_def cleanupStreamBuffer_def cleanupConvListener_def invalidateConvListenerForReplay_def
      getOrCreateConvListener_def Let_def split: option.split)

lemma side_cleanup [ai_simps]: "side (cleanupConversationIfUnused tabs c a b s) = side s"
proof -
  have "side (s\<lparr>conversationStopRequests := x\<rparr>) = side s" for x s by (simp add: side_def)
  then show ?thesis by (simp add: cleanupConversationIfUnused_def ai_simps)
qed

lemma side_update [ai_simps]: "side (updateConversation c m b q s) = side s"
  by (simp add: side_def updateConversation_def Let_def split: option.split)

lemma side_flush [ai_simps]: "side (flushStreamBuffer c s) = side s" "side (buffer_event c x y s) = side s"
  by (simp_all add: side_def flush_cases buffer_event_def Let_def)

lemmas sidebar_ok_same [simp] =
  side_call [THEN sidebar_ok_side] side_loaded [THEN sidebar_ok_side] side_snapshot [THEN sidebar_ok_side]
  side_stop [THEN sidebar_ok_side] side_listeners [THEN sidebar_ok_side] side_cleanup [THEN sidebar_ok_side]
  side_update [THEN sidebar_ok_side] side_flush [THEN sidebar_ok_side]

lemma sidebar_fields_snapshot [simp]:
  "sidebarTabs (persistConversationSnapshot c b s) = sidebarTabs s"
  "activeSidebarTabId (persistConversationSnapshot c b s) = activeSidebarTabId s"
  using side_snapshot [of c b s] by (simp_all add: side_def)

lemma sidebar_ok_set:
  assumes "sidebar_ok s" and "sidebar_tabs_ok tabs a"
  shows "sidebar_ok (set_sidebar tabs a s)"
proof -
  have "ls_legacyConversation s = None \<and> ls_legacyDraft s = None \<and> ls_legacyLastBound s = None"
    using assms(1) by (simp add: sidebar_ok_def sidebar_kept_def)
  with assms(2) show ?thesis
    by (auto simp: sidebar_ok_def sidebar_kept_def sidebar_tabs_ok_def set_sidebar_def Let_def persistSidebarTabs_def
        clearLegacySidebarKeys_def flushSidebarPersist_def scheduleSidebarPersist_def split: option.split)
qed

lemma sidebar_fields_set [simp]:
  "sidebarTabs (set_sidebar tabs a s) = tabs" "activeSidebarTabId (set_sidebar tabs a s) = a"
  by (auto simp: set_sidebar_def Let_def persistSidebarTabs_def
        clearLegacySidebarKeys_def flushSidebarPersist_def scheduleSidebarPersist_def split: option.split)

lemma sidebar_tabs_okI: "sidebar_ok s \<Longrightarrow> sidebar_tabs_ok (sidebarTabs s) (activeSidebarTabId s)"
  by (simp add: sidebar_ok_def)

lemma find_sidebar_Some: "find_sidebar i s = Some t \<Longrightarrow> t \<in> set (sidebarTabs s) \<and> sd_id t = i"
  by (auto simp: find_sidebar_def find_Some_iff)

lemma sidebar_ok_activate: "sidebar_ok s \<Longrightarrow> sidebar_ok (activateSidebarTab i s)"
proof (cases "find_sidebar i s")
  case (Some t)
  assume ok: "sidebar_ok s"
  with Some have "sidebar_tabs_ok (sidebarTabs s) (Some i)" "sidebarTabs s \<noteq> []"
    by (auto simp: sidebar_ok_def sidebar_tabs_ok_def dest: find_sidebar_Some)
  with ok Some show ?thesis
    by (auto simp: activateSidebarTab_def set_active_sidebar_def sidebar_ok_def sidebar_kept_def persistSidebarTabs_def
        clearLegacySidebarKeys_def flushSidebarPersist_def Let_def split: option.split)
qed (simp add: activateSidebarTab_def)

lemma sidebar_ok_activate_found: "sidebar_ok s \<Longrightarrow> sidebar_ok (activate_found i activate s)"
  by (simp add: activate_found_def sidebar_ok_activate)

text \<open>A new tab at the end.\<close>

lemma sidebar_tabs_ok_add:
  assumes "sidebar_tabs_ok tabs a" and "sd_id t \<notin> set (map sd_id tabs)" "sd_id t \<noteq> []"
    and "sd_conversationId t \<notin> set (map sd_conversationId tabs)"
  shows "sidebar_tabs_ok (tabs @ [t]) (resolveNextActiveId a (sd_id t) activate)"
  using assms by (auto simp: sidebar_tabs_ok_def resolveNextActiveId_def nonempty_def split: option.splits)

lemma created_fields [simp]:
  "sd_id (createSidebarTab t i c conv title ui) = i" "sd_conversationId (createSidebarTab t i c conv title ui) = conv"
  by (simp_all add: createSidebarTab_def)

lemma sidebar_ok_openNew:
  assumes "sidebar_ok s" and "newId \<notin> set (map sd_id (sidebarTabs s))" "newId \<noteq> []"
  shows "sidebar_ok (snd (openNewSidebarTab newId now activate s))"
proof (cases "find (\<lambda>t. sd_conversationId t = None) (sidebarTabs s)")
  case None
  then have n: "None \<notin> set (map sd_conversationId (sidebarTabs s))" by (auto simp: find_None_iff)
  have "sidebar_tabs_ok (sidebarTabs s @ [createSidebarTab (ai_t s) newId now None None None]) (resolveNextActiveId (activeSidebarTabId s) newId activate)"
    using sidebar_tabs_ok_add [OF sidebar_tabs_okI [OF assms(1)], of "createSidebarTab (ai_t s) newId now None None None"] assms n by simp
  with assms(1) None show ?thesis by (simp add: openNewSidebarTab_def sidebar_ok_set)
qed (use assms in \<open>simp add: openNewSidebarTab_def sidebar_ok_activate_found\<close>)

lemma sidebar_ok_openConversation:
  assumes "sidebar_ok s" and "newId \<notin> set (map sd_id (sidebarTabs s))" "newId \<noteq> []" and "reuse \<noteq> Some False"
  shows "sidebar_ok (snd (openSidebarConversationInSidebar newId now c activate reuse s))"
proof (cases "find (\<lambda>t. sd_conversationId t = Some c) (sidebarTabs s)")
  case None
  then have n: "Some c \<notin> set (map sd_conversationId (sidebarTabs s))" by (auto simp: find_None_iff)
  let ?t = "createSidebarTab (ai_t s) newId now (Some c) (Some (title_of_conversation c (getDefaultSidebarTitle s) s)) None"
  have "sidebar_tabs_ok (sidebarTabs s @ [?t]) (resolveNextActiveId (activeSidebarTabId s) newId activate)"
    using sidebar_tabs_ok_add [OF sidebar_tabs_okI [OF assms(1)], of ?t] assms n by simp
  with assms(1) None show ?thesis
    by (simp add: openSidebarConversationInSidebar_def sidebar_ok_set)
qed (use assms in \<open>simp add: openSidebarConversationInSidebar_def sidebar_ok_activate_found\<close>)

lemma resolve_active_ok:
  "sidebar_tabs_ok tabs a \<Longrightarrow> i \<in> set (map sd_id tabs) \<Longrightarrow> sidebar_tabs_ok tabs (resolveNextActiveId a i activate)"
  by (auto simp: sidebar_tabs_ok_def resolveNextActiveId_def nonempty_def split: option.splits)

text \<open>A tab changes its conversation to one no other tab has.\<close>

lemma distinct_changed:
  assumes "distinct (map sd_id tabs)" "distinct (map sd_conversationId tabs)"
    and "\<And>t. t \<in> set tabs \<Longrightarrow> sd_id t = i \<Longrightarrow> sd_conversationId (f t) = Some c"
    and "\<And>t. t \<in> set tabs \<Longrightarrow> sd_id t \<noteq> i \<Longrightarrow> sd_conversationId t \<noteq> Some c"
  shows "distinct (map sd_conversationId (map (\<lambda>t. if sd_id t = i then f t else t) tabs))"
  using assms
proof (induction tabs)
  case (Cons t tabs)
  let ?g = "\<lambda>t. if sd_id t = i then f t else t"
  from Cons have IH: "distinct (map sd_conversationId (map ?g tabs))" by simp
  have "sd_conversationId (?g t) \<notin> set (map sd_conversationId (map ?g tabs))"
  proof (cases "sd_id t = i")
    case True
    with Cons.prems(1) have "i \<notin> sd_id ` set tabs" by simp
    then have "\<forall>u\<in>set tabs. sd_id u \<noteq> i" by auto
    then have "map ?g tabs = tabs" by (simp add: map_idI)
    moreover have "Some c \<notin> sd_conversationId ` set tabs"
      using \<open>\<forall>u\<in>set tabs. sd_id u \<noteq> i\<close> Cons.prems(4) by (metis imageE list.set_intros(2))
    ultimately show ?thesis using True Cons.prems(3) [of t] by simp
  next
    case False
    with Cons.prems show ?thesis by (fastforce split: if_splits)
  qed
  with IH show ?case by simp
qed simp

lemma sidebar_tabs_ok_change:
  assumes "sidebar_tabs_ok tabs a" and f: "\<And>t. sd_id (f t) = sd_id t" "\<And>t. sd_conversationId (f t) = Some c"
    and "\<And>t. t \<in> set tabs \<Longrightarrow> sd_id t \<noteq> i \<Longrightarrow> sd_conversationId t \<noteq> Some c"
  shows "sidebar_tabs_ok (map (\<lambda>t. if sd_id t = i then f t else t) tabs) a"
proof -
  let ?g = "\<lambda>t. if sd_id t = i then f t else t"
  have ids: "map sd_id (map ?g tabs) = map sd_id tabs" using f(1) by simp
  have "distinct (map sd_conversationId (map ?g tabs))"
    using assms(1,4) f(2) by (intro distinct_changed) (auto simp: sidebar_tabs_ok_def)
  with assms(1) show ?thesis unfolding sidebar_tabs_ok_def ids by (auto split: option.splits)
qed

lemma sidebar_ok_bind:
  assumes ok: "sidebar_ok s" and new: "newId \<notin> set (map sd_id (sidebarTabs s))" "newId \<noteq> []"
  shows "sidebar_ok (snd (bindSidebarTabToConversation tabs newId now tabId c activate s))"
proof (cases "find_sidebar tabId s")
  case None
  then show ?thesis using sidebar_ok_openConversation [OF ok new, of "Some True"] by (simp add: bindSidebarTabToConversation_def)
next
  case (Some target)
  show ?thesis
  proof (cases "find (\<lambda>t. sd_id t \<noteq> tabId \<and> sd_conversationId t = Some c) (sidebarTabs s)")
    case None
    let ?f = "\<lambda>t. t\<lparr>sd_conversationId := Some c, sd_title := title_of_conversation c (sd_title target) s, sd_uiState := createDefaultSidebarUiState None\<rparr>"
    have "sidebar_tabs_ok (map (\<lambda>t. if sd_id t = tabId then ?f t else t) (sidebarTabs s)) (activeSidebarTabId s)"
      by (rule sidebar_tabs_ok_change [OF sidebar_tabs_okI [OF ok], where c = c]) (use None in \<open>auto simp: find_None_iff\<close>)
    moreover have "tabId \<in> set (map sd_id (map (\<lambda>t. if sd_id t = tabId then ?f t else t) (sidebarTabs s)))"
      using find_sidebar_Some [OF Some] by (auto simp: image_iff intro!: bexI [of _ target])
    ultimately have "sidebar_tabs_ok (map (\<lambda>t. if sd_id t = tabId then ?f t else t) (sidebarTabs s)) (resolveNextActiveId (activeSidebarTabId s) tabId activate)"
      by (rule resolve_active_ok)
    with ok None Some show ?thesis
      by (simp add: bindSidebarTabToConversation_def Let_def sidebar_ok_set split: option.split)
  qed (use ok Some in \<open>simp add: bindSidebarTabToConversation_def sidebar_ok_activate_found\<close>)
qed

lemma sidebar_tabs_ok_filter:
  assumes "sidebar_tabs_ok tabs a" and "case b of None \<Rightarrow> filter P tabs = [] | Some i \<Rightarrow> i \<in> set (map sd_id (filter P tabs))"
  shows "sidebar_tabs_ok (filter P tabs) b"
  using assms by (auto simp: sidebar_tabs_ok_def distinct_map_filter split: option.splits)

lemma close_active:
  "case first_some (nth_id rest (int index)) (first_some (nth_id rest (int index - 1)) (nth_id rest 0)) of
     None \<Rightarrow> rest = [] | Some i \<Rightarrow> i \<in> set (map sd_id rest)"
  by (auto simp: first_some_def nth_id_def nat_less_iff split: option.splits if_splits)

lemma sidebar_ok_close: "sidebar_ok s \<Longrightarrow> sidebar_ok (closeSidebarTab tabs tabId s)"
proof (cases "find_index (\<lambda>t. sd_id t = tabId) (sidebarTabs s)")
  case (Some index)
  assume ok: "sidebar_ok s"
  let ?rest = "filter (\<lambda>t. sd_id t \<noteq> tabId) (sidebarTabs s)"
  let ?act = "if activeSidebarTabId s = Some tabId
     then first_some (nth_id ?rest (int index)) (first_some (nth_id ?rest (int index - 1)) (nth_id ?rest 0)) else activeSidebarTabId s"
  have "sidebar_tabs_ok ?rest ?act"
  proof (rule sidebar_tabs_ok_filter [OF sidebar_tabs_okI [OF ok]])
    show "case ?act of None \<Rightarrow> ?rest = [] | Some i \<Rightarrow> i \<in> set (map sd_id ?rest)"
      using close_active [of ?rest index] sidebar_tabs_okI [OF ok] by (auto simp: sidebar_tabs_ok_def split: option.splits if_splits)
  qed
  then have "sidebar_ok (set_sidebar ?rest ?act s')" if "sidebar_ok s'" for s' using that by (simp add: sidebar_ok_set)
  with ok Some show ?thesis
    by (cases "sd_conversationId (sidebarTabs s ! index)") (simp_all add: closeSidebarTab_def Let_def split del: if_split cong: if_cong)
qed (simp add: closeSidebarTab_def del: find_index_None)

lemma validated_fields [simp]: "sd_id (validated_tab convs t) = sd_id t" "sd_conversationId (validated_tab convs t) = sd_conversationId t"
  by (auto simp: validated_tab_def split: option.split)

lemma side_fold_cleanup: "side (fold (\<lambda>c. cleanupConversationIfUnused tabs c None None) cs s) = side s"
  by (induction cs arbitrary: s) (simp_all add: ai_simps)

lemma sidebar_tabs_ok_kept:
  assumes "sidebar_tabs_ok tabs a" and f: "\<And>t. sd_id (f t) = sd_id t" "\<And>t. sd_conversationId (f t) = sd_conversationId t"
  shows "sidebar_tabs_ok (map f (filter P tabs))
    (if list_ex (\<lambda>t. Some (sd_id t) = a) (map f (filter P tabs)) then a else nth_id (map f (filter P tabs)) 0)"
proof -
  have m: "map sd_id (map f ts) = map sd_id ts" "map sd_conversationId (map f ts) = map sd_conversationId ts" for ts
    by (simp_all add: f)
  have e: "list_ex (\<lambda>t. Some (sd_id t) = a) (map f (filter P tabs)) \<longleftrightarrow> a \<in> Some ` set (map sd_id (filter P tabs))"
    by (auto simp: list_ex_iff f image_iff)
  have n: "nth_id (map f ts) 0 = nth_id ts 0" for ts by (cases ts) (simp_all add: nth_id_def f)
  have "sidebar_tabs_ok (filter P tabs) (if a \<in> Some ` set (map sd_id (filter P tabs)) then a else nth_id (filter P tabs) 0)"
  proof (rule sidebar_tabs_ok_filter [OF assms(1)])
    have h: "nth_id (filter P tabs) 0 = (case filter P tabs of [] \<Rightarrow> None | t # ts \<Rightarrow> Some (sd_id t))"
      by (cases "filter P tabs") (simp_all add: nth_id_def)
    show "case if a \<in> Some ` set (map sd_id (filter P tabs)) then a else nth_id (filter P tabs) 0 of
        None \<Rightarrow> filter P tabs = [] | Some i \<Rightarrow> i \<in> set (map sd_id (filter P tabs))"
      unfolding h by (cases "filter P tabs") auto
  qed
  then show ?thesis unfolding e n sidebar_tabs_ok_def m by (auto split: option.splits)
qed

lemma sidebar_ok_validate:
  assumes "sidebar_ok s"
  shows "sidebar_ok (validateSidebarTabs tabs s)"
  unfolding validateSidebarTabs_def Let_def sidebar_ok_side [OF side_fold_cleanup]
  by (rule sidebar_ok_set [OF assms]) (rule sidebar_tabs_ok_kept [OF sidebar_tabs_okI [OF assms]]; simp)

lemma sidebar_ok_patch:
  assumes "sidebar_ok s"
  shows "sidebar_ok (patchSidebarTabUiState tabId patch s)"
proof -
  let ?g = "\<lambda>t. if sd_id t = tabId then t\<lparr>sd_uiState := patch (sd_uiState t)\<rparr> else t"
  have m: "map sd_id (map ?g ts) = map sd_id ts" "map sd_conversationId (map ?g ts) = map sd_conversationId ts" for ts by simp_all
  have "sidebar_tabs_ok (map ?g (sidebarTabs s)) (activeSidebarTabId s)"
    using sidebar_tabs_okI [OF assms] unfolding sidebar_tabs_ok_def m by (auto split: option.splits)
  with assms show ?thesis by (simp add: patchSidebarTabUiState_def sidebar_ok_set)
qed

lemma sidebar_ok_stop: "sidebar_ok s \<Longrightarrow> sidebar_ok (stopSidebarTab tabId s)"
  by (simp add: stopSidebarTab_def split: option.split)

lemma sidebar_ok_flush: "sidebar_ok s \<Longrightarrow> sidebar_ok (flushSidebarPersist s)"
  by (auto simp: sidebar_ok_def sidebar_kept_def sidebar_tabs_ok_def flushSidebarPersist_def persistSidebarTabs_def
      clearLegacySidebarKeys_def Let_def split: option.splits)

lemma side_fields [simp]:
  "side (s\<lparr>conversations := a\<rparr>) = side s" "side (s\<lparr>conversationMessages := b\<rparr>) = side s" "side (s\<lparr>conversationStreaming := c\<rparr>) = side s"
  by (simp_all add: side_def)

lemmas sidebar_ok_fields [simp] = side_fields [THEN sidebar_ok_side]

lemma sidebar_ok_sync: "sidebar_ok s \<Longrightarrow> sidebar_ok (sync_title c title s)"
proof -
  assume ok: "sidebar_ok s"
  let ?g = "\<lambda>t. if sd_conversationId t = Some c then t\<lparr>sd_title := title\<rparr> else t"
  have m: "map sd_id (map ?g ts) = map sd_id ts" "map sd_conversationId (map ?g ts) = map sd_conversationId ts" for ts :: "sidebar_tab list"
    by simp_all
  have "sidebar_tabs_ok (map ?g (sidebarTabs s)) (activeSidebarTabId s)"
    using sidebar_tabs_okI [OF ok] unfolding sidebar_tabs_ok_def m by (auto split: option.splits)
  with ok show ?thesis by (simp add: sync_title_def sidebar_ok_set)
qed

lemma sidebar_ok_attach:
  assumes ok: "sidebar_ok s" and fresh: "Some (cv_ID conv) \<notin> sd_conversationId ` set (sidebarTabs s)"
  shows "sidebar_ok (attach_sidebar tabId conv s)"
proof -
  have "sidebar_tabs_ok (map (\<lambda>t. if sd_id t = tabId
          then t\<lparr>sd_conversationId := Some (cv_ID conv), sd_title := (if cv_Title conv = [] then sd_title t else cv_Title conv),
                 sd_uiState := createDefaultSidebarUiState None\<rparr> else t) (sidebarTabs s)) (activeSidebarTabId s)"
    by (rule sidebar_tabs_ok_change [OF sidebar_tabs_okI [OF ok], where c = "cv_ID conv"]) (use fresh in \<open>auto simp: image_iff\<close>)
  with ok show ?thesis by (simp add: attach_sidebar_def sidebar_ok_set)
qed

lemma find_in: "find P xs = Some x \<Longrightarrow> x \<in> set xs \<and> P x"
  by (auto simp: find_Some_iff)

lemma find_either:
  "case map_option f (first_some (find P xs) (find P (rev ys))) of
     None \<Rightarrow> filter P (ys @ xs) = [] | Some i \<Rightarrow> i \<in> set (map f (filter P (ys @ xs)))"
proof (cases "find P xs")
  case (Some x)
  from find_in [OF this] Some show ?thesis by (auto simp: first_some_def)
next
  case None
  then have n: "filter P xs = []" by (simp add: find_None_iff filter_empty_conv)
  show ?thesis
  proof (cases "find P (rev ys)")
    case (Some x)
    from find_in [OF this] None Some show ?thesis by (auto simp: first_some_def)
  next
    case None
    then have "filter P ys = []" by (simp add: find_None_iff filter_empty_conv)
    with n None \<open>find P xs = None\<close> show ?thesis by (simp add: first_some_def)
  qed
qed

lemma deleted_active_ok:
  assumes "sidebar_tabs_ok (sidebarTabs s) (activeSidebarTabId s)"
  shows "case deleted_active c s of None \<Rightarrow> filter (\<lambda>t. sd_conversationId t \<noteq> Some c) (sidebarTabs s) = []
    | Some i \<Rightarrow> i \<in> set (map sd_id (filter (\<lambda>t. sd_conversationId t \<noteq> Some c) (sidebarTabs s)))"
proof -
  let ?P = "\<lambda>t. sd_conversationId t \<noteq> Some c"
  let ?rest = "filter ?P (sidebarTabs s)"
  have n: "case nth_id ?rest 0 of None \<Rightarrow> ?rest = [] | Some i \<Rightarrow> i \<in> set (map sd_id ?rest)"
    by (cases ?rest) (auto simp: nth_id_def)
  show ?thesis
  proof (cases "list_ex (\<lambda>t. Some (sd_id t) = activeSidebarTabId s) ?rest")
    case True
    then obtain t where "t \<in> set ?rest" "activeSidebarTabId s = Some (sd_id t)" by (auto simp: list_ex_iff)
    with True show ?thesis by (auto simp: deleted_active_def Let_def)
  next
    case False
    show ?thesis
    proof (cases "find_index (\<lambda>t. Some (sd_id t) = activeSidebarTabId s) (sidebarTabs s)")
      case None
      with False n show ?thesis by (simp add: deleted_active_def Let_def del: find_index_None)
    next
      case (Some k)
      let ?r = "drop (Suc k) (sidebarTabs s)" and ?l = "rev (take k (sidebarTabs s))"
      have k: "k < length (sidebarTabs s)" using find_index_Some [OF Some] by simp
      show ?thesis
      proof (cases "sd_conversationId (sidebarTabs s ! k) = Some c")
        case True
        have split: "sidebarTabs s = take k (sidebarTabs s) @ sidebarTabs s ! k # ?r" using k by (simp add: id_take_nth_drop)
        have e: "?rest = filter ?P (take k (sidebarTabs s) @ ?r)" by (subst split) (simp add: True)
        have "deleted_active c s = map_option sd_id (first_some (find ?P ?r) (find ?P ?l))"
          using \<open>\<not> list_ex _ _\<close> Some True by (simp add: deleted_active_def Let_def)
        with find_either [where f = sd_id and P = ?P and xs = ?r and ys = "take k (sidebarTabs s)"] show ?thesis unfolding e by simp
      next
        case False
        with \<open>\<not> list_ex _ _\<close> Some n show ?thesis by (simp add: deleted_active_def Let_def)
      qed
    qed
  qed
qed

lemma sidebar_ok_delete: "sidebar_ok s \<Longrightarrow> sidebar_ok (delete_sidebar c s)"
  by (simp add: delete_sidebar_def sidebar_ok_set sidebar_tabs_ok_filter [OF sidebar_tabs_okI deleted_active_ok [OF sidebar_tabs_okI]])

section \<open>Runs of the sidebar\<close>

text \<open>The steps of the sidebar. New ids are unused, and so is the id of a new conversation; the last rule
  stands for every step of the program that touches no sidebar tab.\<close>

inductive sidebar_step :: "ai_store \<Rightarrow> ai_store \<Rightarrow> bool" where
  sb_new: "i \<notin> set (map sd_id (sidebarTabs s)) \<Longrightarrow> i \<noteq> [] \<Longrightarrow> sidebar_step s (snd (openNewSidebarTab i now activate s))"
| sb_open: "i \<notin> set (map sd_id (sidebarTabs s)) \<Longrightarrow> i \<noteq> [] \<Longrightarrow> reuse \<noteq> Some False \<Longrightarrow>
    sidebar_step s (snd (openSidebarConversationInSidebar i now c activate reuse s))"
| sb_bind: "i \<notin> set (map sd_id (sidebarTabs s)) \<Longrightarrow> i \<noteq> [] \<Longrightarrow>
    sidebar_step s (snd (bindSidebarTabToConversation tabs i now tabId c activate s))"
| sb_activate: "sidebar_step s (activateSidebarTab tabId s)"
| sb_close: "sidebar_step s (closeSidebarTab tabs tabId s)"
| sb_list: "sidebar_step s (validateSidebarTabs tabs (s\<lparr>conversations := convs\<rparr>))"
| sb_draft: "sidebar_step s (setSidebarTabInputDraft tabId draft s)"
| sb_scroll: "sidebar_step s (setSidebarTabScrollTop tabId pos s)"
| sb_target: "sidebar_step s (setSidebarTabEditTarget tabId target s)"
| sb_stop: "sidebar_step s (stopSidebarTab tabId s)"
| sb_title: "sidebar_step s (sync_title c title s)"
| sb_attach: "Some (cv_ID conv) \<notin> sd_conversationId ` set (sidebarTabs s) \<Longrightarrow> sidebar_step s (attach_sidebar tabId conv s)"
| sb_delete: "sidebar_step s (delete_sidebar c s)"
| sb_timer: "sidebar_step s (flushSidebarPersist s)"
| sb_other: "side s' = side s \<Longrightarrow> sidebar_step s s'"

lemma sidebar_ok_step: "sidebar_step s s' \<Longrightarrow> sidebar_ok s \<Longrightarrow> sidebar_ok s'"
proof (induction rule: sidebar_step.induct)
  case (sb_other s' s)
  then show ?case using sidebar_ok_side by blast
qed (auto simp: setSidebarTabInputDraft_def setSidebarTabScrollTop_def setSidebarTabEditTarget_def
    intro!: sidebar_ok_openNew sidebar_ok_openConversation sidebar_ok_bind sidebar_ok_activate sidebar_ok_close
      sidebar_ok_validate sidebar_ok_patch sidebar_ok_stop sidebar_ok_sync sidebar_ok_attach sidebar_ok_delete sidebar_ok_flush)

lemma sidebar_ok_steps: "sidebar_step\<^sup>*\<^sup>* s s' \<Longrightarrow> sidebar_ok s \<Longrightarrow> sidebar_ok s'"
  by (induction rule: rtranclp_induct) (auto intro: sidebar_ok_step)

text \<open>The page is loaded again: only \<open>localStorage\<close> stays.\<close>

definition sidebar_reload :: "ai_store \<Rightarrow> ai_store \<Rightarrow> ai_store" where
  "sidebar_reload fresh s =
     fresh\<lparr>ls_sidebarTabs := ls_sidebarTabs s, ls_sidebarActive := ls_sidebarActive s, ls_legacyConversation := ls_legacyConversation s,
           ls_legacyDraft := ls_legacyDraft s, ls_legacyLastBound := ls_legacyLastBound s\<rparr>"

definition stripped_ui :: "sidebar_ui \<Rightarrow> sidebar_ui" where
  "stripped_ui u =
     u\<lparr>ui_inputDraft := stripMentionTags (stripMentionTags (ui_inputDraft u)),
       ui_editTarget := map_option (strip_target \<circ> strip_target) (ui_editTarget u)\<rparr>"

definition restored_tab :: "(string \<Rightarrow> string) \<Rightarrow> sidebar_tab \<Rightarrow> sidebar_tab" where
  "restored_tab t tab =
     tab\<lparr>sd_title := (if sd_title tab = [] then t ''ai.newConversation'' else sd_title tab), sd_uiState := stripped_ui (sd_uiState tab)\<rparr>"

lemma sanitize_kept: "sd_id tab \<noteq> [] \<Longrightarrow> sanitizeSidebarTab t now (Some (raw_of_tab tab)) = Some (restored_tab t tab)"
  by (simp add: sanitizeSidebarTab_def raw_of_tab_def restored_tab_def createSidebarTab_def stripped_ui_def
      sanitizeSidebarUiStateForPersistence_def createDefaultSidebarUiState_def raw_of_ui_def option.map_comp)

lemma sanitize_all:
  "[] \<notin> set (map sd_id tabs) \<Longrightarrow>
     List.map_filter (sanitizeSidebarTab t now) (map (\<lambda>x. Some (raw_of_tab x)) tabs) = map (restored_tab t) tabs"
proof (induction tabs)
  case (Cons tab tabs)
  then have "sd_id tab \<noteq> []" by auto
  from sanitize_kept [OF this] Cons show ?case by (simp add: map_filter_simps)
qed (simp add: map_filter_simps)

lemma sidebar_ok_start:
  "sidebarPersistPending s = None \<Longrightarrow>
   sidebar_tabs_ok (fst (loadInitialSidebarState i now s)) (fst (snd (loadInitialSidebarState i now s))) \<Longrightarrow>
   sidebar_ok (start_sidebar i now s)"
  by (cases "loadInitialSidebarState i now s")
    (auto simp: start_sidebar_def sidebar_ok_def sidebar_kept_def persistSidebarTabs_def clearLegacySidebarKeys_def sidebar_tabs_ok_def
      split: option.splits)


definition ai_empty :: ai_store where
  "ai_empty =
     \<lparr>tabStates = [], conversationMessages = [], conversationStreaming = [], conversations = [], configured = False,
      providerName = [], modelName = [], sidebarTabs = [], activeSidebarTabId = None, conversationListeners = [],
      conversationStopRequests = [], conversationRenameVersions = [], conversationRenameInFlight = [],
      conversationListBarrier = 0, conversationListRequestId = 0, latestAppliedConversationListRequestId = 0,
      streamBuffers = [], ai_drains = [], ai_lists = [], ai_waits = [], ai_calls = [], ai_uuid = 0, ai_t = id,
      sidebarPersistPending = None, sidebarPersistTimer = False, ls_sidebarTabs = Absent, ls_sidebarActive = None,
      ls_legacyConversation = None, ls_legacyDraft = None, ls_legacyLastBound = None\<rparr>"

definition ex_side1 :: ai_store where
  "ex_side1 = snd (openNewSidebarTab ''t1'' 5 None (start_sidebar ''t0'' 1 ai_empty))"


end
