(* ===== verification/AiStream.thy ===== *)
theory AiStream
  imports AiSidebar
begin

text \<open>
  Sending a message and the events that answer it (\<^verbatim>\<open>stores/aiStore.ts\<close>): the state machine of a stream
  (\<open>handleStreamEvent\<close>), the send path with its queue, and the replay of a conversation. The tabs of the
  tab store, the time and the new ids are arguments. The timer that drains a queue is pending in
  \<open>ai_drains\<close>, the timer of a stream buffer in the buffer.
\<close>

section \<open>Events\<close>

datatype event_type =
    E_content | E_thinking | E_usage | E_agent_start | E_agent_end | E_tool_start | E_tool_result
  | E_approval_request | E_approval_result | E_thinking_done | E_queue_consumed | E_stopped | E_retry
  | E_done | E_error | E_other string

record stream_event =
  se_type :: event_type
  se_content :: "string option"
  se_queue_id :: "string option"
  se_tool_name :: "string option"
  se_tool_input :: "string option"
  se_tool_call_id :: "string option"
  se_confirm_id :: "string option"
  se_error :: "string option"
  se_agent_role :: "string option"
  se_agent_task :: "string option"
  se_kind :: "approval_kind option"
  se_items :: "approval_item list option"
  se_description :: "string option"
  se_session_id :: "string option"
  se_patterns :: "string list option"
  se_usage :: "token_usage option"
  se_retryDelayMs :: "int option"

abbreviation e_text :: "stream_event \<Rightarrow> string" where
  "e_text e \<equiv> or_text (se_content e) []"

definition approval_block :: "stream_event \<Rightarrow> content_block" where
  "approval_block e =
     Block ((plain_block K_approval [])\<lparr>cb_status := Some S_pending_confirm, cb_confirmId := se_confirm_id e,
       cb_agentRole := se_agent_role e, cb_approvalKind := se_kind e, cb_approvalItems := se_items e,
       cb_approvalDescription := se_description e, cb_approvalSessionId := se_session_id e,
       cb_approvalToolName := se_tool_name e, cb_approvalPatterns := se_patterns e\<rparr>) None"

definition retry_message :: "int \<Rightarrow> stream_event \<Rightarrow> chat_message \<Rightarrow> chat_message" where
  "retry_message now e msg =
     msg\<lparr>cm_retryStatus := Some
       \<lparr>rt_attempt = (case parse_int (or_text (se_content e) ''0'') of None \<Rightarrow> 0 | Some n \<Rightarrow> n),
        rt_delayMs = (case se_retryDelayMs e of None \<Rightarrow> 0 | Some d \<Rightarrow> d), rt_startedAt = now, rt_cause = se_error e\<rparr>\<rparr>"

section \<open>Conversation lists and queues\<close>

definition beginConversationListRequest :: "ai_store \<Rightarrow> list_request \<times> ai_store" where
  "beginConversationListRequest s =
     (let n = Suc (conversationListRequestId s)
      in (\<lparr>lr_requestId = n, lr_barrier = conversationListBarrier s\<rparr>, s\<lparr>conversationListRequestId := n\<rparr>))"

text \<open>\<open>fetchConversations\<close> up to the answer of the backend.\<close>

definition start_list :: "list_purpose \<Rightarrow> ai_store \<Rightarrow> ai_store" where
  "start_list purpose s =
     (let (request, s1) = beginConversationListRequest s
      in ai_call CA_List (s1\<lparr>ai_lists := ai_lists s1 @ [(request, purpose)]\<rparr>))"

definition user_message :: "nat \<Rightarrow> bool option \<Rightarrow> string \<Rightarrow> chat_message" where
  "user_message uuid streaming content =
     \<lparr>cm_id = Some uuid, cm_role = R_user, cm_content = content, cm_blocks = [], cm_streaming = streaming,
      cm_tokenUsage = None, cm_retryStatus = None\<rparr>"

definition assistant_message :: "nat \<Rightarrow> chat_message" where
  "assistant_message uuid =
     \<lparr>cm_id = Some uuid, cm_role = R_assistant, cm_content = [], cm_blocks = [], cm_streaming = Some True,
      cm_tokenUsage = None, cm_retryStatus = None\<rparr>"

fun queue_messages :: "nat \<Rightarrow> queue_item list \<Rightarrow> chat_message list" where
  "queue_messages uuid [] = []"
| "queue_messages uuid (q # qs) = user_message uuid (Some False) (qi_text q) # queue_messages (Suc uuid) qs"

definition drainQueue :: "tab list \<Rightarrow> int \<Rightarrow> ai_store \<Rightarrow> ai_store" where
  "drainQueue tabs c s =
     (let queue = cs_pendingQueue (streaming_of s c)
      in if queue = [] \<or> \<not> hasConversationHosts tabs c None None s then s
         else
           let s1 = updateConversation c None None (Some []) s;
               newMsgs = messages_of s1 c @ queue_messages (ai_uuid s1) queue;
               s2 = updateConversation c (Some newMsgs) None None (s1\<lparr>ai_uuid := ai_uuid s1 + length queue\<rparr>)
           in s2\<lparr>ai_drains := ai_drains s2 @ [c]\<rparr>)"

section \<open>The state machine of a stream\<close>

definition clearRetryStatusOnLastAssistant :: "int \<Rightarrow> ai_store \<Rightarrow> ai_store" where
  "clearRetryStatusOnLastAssistant c s =
     (let msgs = messages_of s c
      in if msgs = [] \<or> cm_role (last msgs) \<noteq> R_assistant \<or> cm_retryStatus (last msgs) = None then s
         else updateConversation c (Some (butlast msgs @ [(last msgs)\<lparr>cm_retryStatus := None\<rparr>])) None None s)"

definition upd_last :: "int \<Rightarrow> (chat_message \<Rightarrow> chat_message) \<Rightarrow> ai_store \<Rightarrow> ai_store" where
  "upd_last c f s =
     (case updateLastAssistant (messages_of s c) f of
        None \<Rightarrow> s
      | Some updated \<Rightarrow> updateConversation c (Some updated) None None s)"

text \<open>An update that is kept at once, unfinished blocks included.\<close>

definition upd_last_keep :: "int \<Rightarrow> (chat_message \<Rightarrow> chat_message) \<Rightarrow> ai_store \<Rightarrow> ai_store" where
  "upd_last_keep c f s =
     (case updateLastAssistant (messages_of s c) f of
        None \<Rightarrow> s
      | Some updated \<Rightarrow> persistConversationSnapshot c True (updateConversation c (Some updated) None None s))"

text \<open>An update that ends the generation.\<close>

definition upd_last_end :: "int \<Rightarrow> (chat_message \<Rightarrow> chat_message) \<Rightarrow> ai_store \<Rightarrow> ai_store" where
  "upd_last_end c f s = updateConversation c (updateLastAssistant (messages_of s c) f) (Some False) None s"

definition drain_or_clean :: "tab list \<Rightarrow> int \<Rightarrow> ai_store \<Rightarrow> ai_store" where
  "drain_or_clean tabs c s =
     (if hasConversationHosts tabs c None None s then drainQueue tabs c s else cleanupConversationIfUnused tabs c None None s)"

definition is_empty_message :: "chat_message \<Rightarrow> bool" where
  "is_empty_message m \<longleftrightarrow> cm_content m = [] \<and> cm_blocks m = []"

definition close_answer :: "chat_message list \<Rightarrow> chat_message list" where
  "close_answer msgs =
     (if msgs \<noteq> [] \<and> cm_role (last msgs) = R_assistant then
        (if is_empty_message (last msgs) then butlast msgs else butlast msgs @ [(last msgs)\<lparr>cm_streaming := Some False\<rparr>])
      else msgs)"

definition consume_queue :: "int \<Rightarrow> stream_event \<Rightarrow> ai_store \<Rightarrow> ai_store" where
  "consume_queue c e s =
     (let curQueue = cs_pendingQueue (streaming_of s c);
          nextMsgs = close_answer (messages_of s c) @
            [user_message (ai_uuid s) (Some False) (e_text e), assistant_message (Suc (ai_uuid s))];
          newQueue = (if nonempty (se_queue_id e) then filter (\<lambda>q. Some (qi_id q) \<noteq> se_queue_id e) curQueue else drop 1 curQueue)
      in persistConversationSnapshot c True
           (updateConversation c (Some nextMsgs) None (Some newQueue) (s\<lparr>ai_uuid := ai_uuid s + 2\<rparr>)))"

fun handle_flushed :: "event_type \<Rightarrow> tab list \<Rightarrow> int \<Rightarrow> bool \<Rightarrow> int \<Rightarrow> stream_event \<Rightarrow> ai_store \<Rightarrow> ai_store" where
  "handle_flushed E_usage tabs now hidden c e s =
     (case se_usage e of None \<Rightarrow> s | Some delta \<Rightarrow> upd_last c (add_usage delta) s)"
| "handle_flushed E_agent_start tabs now hidden c e s =
     upd_last_keep c (start_agent (or_text (se_agent_role e) []) (or_text (se_agent_task e) [])) s"
| "handle_flushed E_agent_end tabs now hidden c e s = upd_last_keep c (end_agent (e_text e)) s"
| "handle_flushed E_tool_start tabs now hidden c e s =
     upd_last_keep c (start_tool (tool_block (se_tool_name e) (se_tool_input e) (se_tool_call_id e))) s"
| "handle_flushed E_tool_result tabs now hidden c e s =
     upd_last_keep c (tool_result (se_tool_call_id e) (se_tool_name e) (e_text e)) s"
| "handle_flushed E_approval_request tabs now hidden c e s =
     (let s1 = upd_last_keep c (on_blocks (\<lambda>bs. bs @ [approval_block e])) s
      in if hidden then ai_call (CA_Notify (se_confirm_id e)) s1 else s1)"
| "handle_flushed E_approval_result tabs now hidden c e s =
     upd_last_keep c (answer_approval (se_confirm_id e) (se_content e)) s"
| "handle_flushed E_thinking_done tabs now hidden c e s = upd_last_keep c end_thinking s"
| "handle_flushed E_queue_consumed tabs now hidden c e s = consume_queue c e s"
| "handle_flushed E_stopped tabs now hidden c e s =
     drain_or_clean tabs c (start_list LP_fetch
       (persistConversationSnapshot c False (upd_last_end c stop_message (cleanupStreamBuffer c s))))"
| "handle_flushed E_retry tabs now hidden c e s = upd_last c (retry_message now e) s"
| "handle_flushed E_done tabs now hidden c e s =
     drain_or_clean tabs c (start_list (LP_done c)
       (persistConversationSnapshot c False (upd_last_end c done_message (cleanupStreamBuffer c s))))"
| "handle_flushed E_error tabs now hidden c e s =
     cleanupConversationIfUnused tabs c None None
       (persistConversationSnapshot c True
         (upd_last_end c (error_message (error_block (classifyError (ai_t s) (se_error e) None) (se_error e))) (cleanupStreamBuffer c s)))"
| "handle_flushed E_content tabs now hidden c e s = s"
| "handle_flushed E_thinking tabs now hidden c e s = s"
| "handle_flushed (E_other name) tabs now hidden c e s = s"

definition handleStreamEvent :: "tab list \<Rightarrow> int \<Rightarrow> bool \<Rightarrow> int \<Rightarrow> stream_event \<Rightarrow> ai_store \<Rightarrow> ai_store" where
  "handleStreamEvent tabs now hidden c e s =
     (let s1 = (if se_type e \<noteq> E_retry then clearRetryStatusOnLastAssistant c s else s)
      in if se_type e = E_content then buffer_event c (e_text e) [] s1
         else if se_type e = E_thinking then buffer_event c [] (e_text e) s1
         else handle_flushed (se_type e) tabs now hidden c e (flushStreamBuffer c s1))"

text \<open>An event reaches the handler if the listener is subscribed and of the current generation.\<close>

definition listening :: "ai_store \<Rightarrow> int \<Rightarrow> bool" where
  "listening s c \<longleftrightarrow>
     (case map_of (conversationListeners s) c of None \<Rightarrow> False | Some l \<Rightarrow> cl_cancel l = Some (cl_generation l))"

definition on_stream_event :: "tab list \<Rightarrow> int \<Rightarrow> bool \<Rightarrow> int \<Rightarrow> stream_event \<Rightarrow> ai_store \<Rightarrow> ai_store" where
  "on_stream_event tabs now hidden c e s = (if listening s c then handleStreamEvent tabs now hidden c e s else s)"

definition on_flush_timer :: "int \<Rightarrow> ai_store \<Rightarrow> ai_store" where
  "on_flush_timer c s = flushStreamBuffer c s"

section \<open>Sending\<close>

definition tab_infos :: "tab list \<Rightarrow> tab_info list" where
  "tab_infos tabs =
     List.map_filter (\<lambda>t.
       let name = (\<lambda>n. if n = [] then tb_label t else n)
       in case (tb_type t, tb_meta t) of
            (TT_ai, _) \<Rightarrow> None
          | (TT_page, _) \<Rightarrow> None
          | (ty, TerminalMeta m) \<Rightarrow> Some \<lparr>ti_type = ty, ti_assetId = tm_assetId m, ti_assetName = name (tm_assetName m)\<rparr>
          | (ty, QueryMeta m) \<Rightarrow> Some \<lparr>ti_type = ty, ti_assetId = qm_assetId m, ti_assetName = name (qm_assetName m)\<rparr>
          | _ \<Rightarrow> None) tabs"

definition listen :: "int \<Rightarrow> ai_store \<Rightarrow> ai_store" where
  "listen c s =
     (let (l, s1) = getOrCreateConvListener c s;
          g = Suc (cl_generation l)
      in s1\<lparr>conversationListeners := AList.update c \<lparr>cl_cancel = Some g, cl_generation = g\<rparr> (conversationListeners s1)\<rparr>)"

definition api_messages :: "ai_store \<Rightarrow> chat_message list \<Rightarrow> api_message list" where
  "api_messages s msgs =
     (if starts_with (modelName s) ''deepseek-v4'' then expandToAPIMessages msgs
      else map (\<lambda>m. plain_api (cm_role m) (cm_content m)) msgs)"

text \<open>The part of \<open>_sendForConversation\<close> that starts a generation: the answer, the listener, the call.\<close>

definition start_generation :: "tab list \<Rightarrow> int \<Rightarrow> chat_message list \<Rightarrow> ai_store \<Rightarrow> ai_store" where
  "start_generation tabs c newMessages s =
     (let s1 = updateConversation c (Some (newMessages @ [assistant_message (ai_uuid s)])) None None (s\<lparr>ai_uuid := Suc (ai_uuid s)\<rparr>);
          s2 = listen c s1
      in ai_call (CA_Send c (api_messages s2 newMessages) (tab_infos tabs)) s2)"

definition sendForConversation :: "tab list \<Rightarrow> string \<Rightarrow> int \<Rightarrow> string \<Rightarrow> ai_store \<Rightarrow> ai_store" where
  "sendForConversation tabs queueID c content s0 =
     (let s = forget_stop_request c s0;
          streaming = streaming_of s c
      in if cs_sending streaming then
           (let said = trim content
            in if said = [] then s
               else ai_call (CA_Queue c queueID said)
                 (updateConversation c None None (Some (cs_pendingQueue streaming @ [\<lparr>qi_id = queueID, qi_text = said\<rparr>])) s))
         else if trim content = [] then
           (if messages_of s c = [] then s
            else start_generation tabs c (messages_of s c) (updateConversation c None (Some True) None s))
         else
           let newMessages = messages_of s c @ [user_message (ai_uuid s) None content];
               s1 = updateConversation c (Some newMessages) (Some True) None (s\<lparr>ai_uuid := Suc (ai_uuid s)\<rparr>)
           in start_generation tabs c newMessages (persistConversationSnapshot c True s1))"

text \<open>The backend refuses the message; it refuses to queue it.\<close>

definition send_refused :: "int \<Rightarrow> ai_store \<Rightarrow> ai_store" where
  "send_refused c s = cleanupConvListener c (updateConversation c None (Some False) None s)"

definition drop_queued :: "int \<Rightarrow> (queue_item \<Rightarrow> bool) \<Rightarrow> ai_store \<Rightarrow> ai_store" where
  "drop_queued c P s =
     (case map_of (conversationStreaming s) c of
        None \<Rightarrow> s
      | Some cur \<Rightarrow> updateConversation c None None (Some (filter (\<lambda>q. \<not> P q) (cs_pendingQueue cur))) s)"

definition queue_refused :: "int \<Rightarrow> string \<Rightarrow> ai_store \<Rightarrow> ai_store" where
  "queue_refused c queueID s =
     (if list_ex (\<lambda>q. qi_id q = queueID) (cs_pendingQueue (streaming_of s c)) then drop_queued c (\<lambda>q. qi_id q = queueID) s else s)"

definition on_drain_timer :: "tab list \<Rightarrow> string \<Rightarrow> int \<Rightarrow> ai_store \<Rightarrow> ai_store" where
  "on_drain_timer tabs queueID c s = sendForConversation tabs queueID c [] (s\<lparr>ai_drains := remove1 c (ai_drains s)\<rparr>)"

definition stopConversation :: "int \<Rightarrow> ai_store \<Rightarrow> ai_store" where
  "stopConversation c s = ai_call (CA_Stop c) s"

section \<open>Replay\<close>

definition prepareConversationForReplay :: "int \<Rightarrow> ai_store \<Rightarrow> ai_store" where
  "prepareConversationForReplay c s =
     updateConversation c None (Some False) (Some []) (invalidateConvListenerForReplay c (forget_stop_request c s))"

definition resetConversationForReplay :: "int \<Rightarrow> chat_message list \<Rightarrow> ai_store \<Rightarrow> ai_store" where
  "resetConversationForReplay c messages s = updateConversation c (Some messages) (Some False) (Some []) s"

text \<open>After the stop, if one was needed.\<close>

definition replay_go :: "tab list \<Rightarrow> string \<Rightarrow> int \<Rightarrow> chat_message list \<Rightarrow> string \<Rightarrow> ai_store \<Rightarrow> ai_store" where
  "replay_go tabs queueID c nextMessages content s =
     (let s1 = resetConversationForReplay c nextMessages s
      in if trim content \<noteq> [] then sendForConversation tabs queueID c content s1
         else if nextMessages = [] then s1
         else sendForConversation tabs queueID c [] s1)"

text \<open>The flag says that the answer of the stop is awaited before \<open>replay_go\<close>.\<close>

definition replayConversation :: "tab list \<Rightarrow> string \<Rightarrow> int \<Rightarrow> chat_message list \<Rightarrow> string \<Rightarrow> ai_store \<Rightarrow> bool \<times> ai_store" where
  "replayConversation tabs queueID c nextMessages content s =
     (let s1 = prepareConversationForReplay c s
      in if cs_sending (streaming_of s c) then (True, stopConversation c s1)
         else (False, replay_go tabs queueID c nextMessages content s1))"

definition regenerateConversation :: "tab list \<Rightarrow> string \<Rightarrow> int \<Rightarrow> int \<Rightarrow> ai_store \<Rightarrow> bool \<times> ai_store" where
  "regenerateConversation tabs queueID c messageIndex s =
     (if messageIndex < 0 \<or> messageIndex \<ge> int (length (messages_of s c)) then (False, s)
      else replayConversation tabs queueID c (take (nat messageIndex) (messages_of s c)) [] s)"

section \<open>The queue\<close>

definition removeFromQueue :: "int \<Rightarrow> int \<Rightarrow> ai_store \<Rightarrow> ai_store" where
  "removeFromQueue c index s =
     (let q = cs_pendingQueue (streaming_of s c)
      in if 0 \<le> index \<and> index < int (length q) then ai_call (CA_RemoveQueued c (qi_id (q ! nat index))) s else s)"

definition queue_removed :: "int \<Rightarrow> string \<Rightarrow> bool \<Rightarrow> ai_store \<Rightarrow> ai_store" where
  "queue_removed c itemId removed s = (if removed then drop_queued c (\<lambda>q. qi_id q = itemId) s else s)"

definition clearQueue :: "int \<Rightarrow> ai_store \<Rightarrow> ai_store" where
  "clearQueue c s = (if cs_pendingQueue (streaming_of s c) = [] then s else ai_call (CA_ClearQueued c) s)"

definition queue_cleared :: "int \<Rightarrow> string list \<Rightarrow> ai_store \<Rightarrow> ai_store" where
  "queue_cleared c removedIDs s = (if removedIDs = [] then s else drop_queued c (\<lambda>q. qi_id q \<in> set removedIDs) s)"

section \<open>Reading the state\<close>

lemma messages_of_update [simp]:
  "messages_of (updateConversation c m b q s) d = (case m of None \<Rightarrow> messages_of s d | Some ms \<Rightarrow> if d = c then ms else messages_of s d)"
  by (auto simp: messages_of_def updateConversation_def Let_def update_conv' split: option.split)

lemma streaming_of_update:
  "streaming_of (updateConversation c m b q s) d =
     (if d = c then \<lparr>cs_sending = (case b of None \<Rightarrow> cs_sending (streaming_of s c) | Some x \<Rightarrow> x),
                     cs_pendingQueue = (case q of None \<Rightarrow> cs_pendingQueue (streaming_of s c) | Some x \<Rightarrow> x)\<rparr>
      else streaming_of s d)"
  by (auto simp: streaming_of_def updateConversation_def Let_def update_conv' split: option.split)

lemma buffer_of_update [simp]: "buffer_of (updateConversation c m b q s) d = buffer_of s d"
  by (auto simp: buffer_of_def updateConversation_def Let_def split: option.split)

lemma calls_update [simp]: "ai_calls (updateConversation c m b q s) = ai_calls s" "ai_t (updateConversation c m b q s) = ai_t s"
  by (auto simp: updateConversation_def Let_def split: option.split)

lemma reads_call [simp]:
  "messages_of (ai_call x s) d = messages_of s d" "streaming_of (ai_call x s) d = streaming_of s d"
  "buffer_of (ai_call x s) d = buffer_of s d" "ai_calls (ai_call x s) = ai_calls s @ [x]"
  by (simp_all add: ai_call_def messages_of_def streaming_of_def buffer_of_def)

lemma reads_snapshot [simp]:
  "messages_of (persistConversationSnapshot c b s) d = messages_of s d"
  "streaming_of (persistConversationSnapshot c b s) d = streaming_of s d"
  "buffer_of (persistConversationSnapshot c b s) d = buffer_of s d"
  by (simp_all add: persistConversationSnapshot_def split: option.split)

lemma reads_clean_buffer [simp]:
  "messages_of (cleanupStreamBuffer c s) d = messages_of s d" "streaming_of (cleanupStreamBuffer c s) d = streaming_of s d"
  "ai_calls (cleanupStreamBuffer c s) = ai_calls s" "ai_t (cleanupStreamBuffer c s) = ai_t s"
  by (simp_all add: cleanupStreamBuffer_def messages_of_def streaming_of_def)

lemma reads_clean [simp]:
  "messages_of (cleanupConvListener c s) d = messages_of s d" "streaming_of (cleanupConvListener c s) d = streaming_of s d"
  "ai_calls (cleanupConvListener c s) = ai_calls s"
  by (simp_all add: cleanupConvListener_def cleanupStreamBuffer_def messages_of_def streaming_of_def)

lemma reads_unused:
  "messages_of (cleanupConversationIfUnused tabs c a b s) d = messages_of s d"
  "streaming_of (cleanupConversationIfUnused tabs c a b s) d = streaming_of s d"
proof -
  have "messages_of (s\<lparr>conversationStopRequests := x\<rparr>) d = messages_of s d" "streaming_of (s\<lparr>conversationStopRequests := x\<rparr>) d = streaming_of s d" for x s
    by (simp_all add: messages_of_def streaming_of_def)
  then show "messages_of (cleanupConversationIfUnused tabs c a b s) d = messages_of s d"
    "streaming_of (cleanupConversationIfUnused tabs c a b s) d = streaming_of s d"
    by (simp_all add: cleanupConversationIfUnused_def)
qed

lemma reads_list [simp]:
  "messages_of (start_list p s) d = messages_of s d" "streaming_of (start_list p s) d = streaming_of s d"
  "ai_calls (start_list p s) = ai_calls s @ [CA_List]" "buffer_of (start_list p s) d = buffer_of s d"
  by (simp_all add: start_list_def beginConversationListRequest_def Let_def ai_call_def messages_of_def streaming_of_def buffer_of_def)

lemma calls_unused: "\<not> cs_sending (streaming_of s c) \<Longrightarrow> ai_calls (cleanupConversationIfUnused tabs c a b s) = ai_calls s"
  by (simp add: cleanupConversationIfUnused_def)

lemma calls_drain: "ai_calls (drainQueue tabs c s) = ai_calls s"
  by (simp add: drainQueue_def Let_def)

lemma snapshot_calls:
  "messages_of s c \<noteq> [] \<Longrightarrow> ai_calls (persistConversationSnapshot c b s) = ai_calls s @ [CA_Save c (toDisplayMessages (ai_t s) (messages_of s c) b)]"
  by (simp add: persistConversationSnapshot_def messages_of_def split: option.splits)

lemma updateLast_snoc [simp]: "cm_role a = R_assistant \<Longrightarrow> updateLastAssistant (ms @ [a]) f = Some (ms @ [f a])"
  by (simp add: updateLastAssistant_def)

section \<open>The text of an answer\<close>

definition blocks_text :: "content_block list \<Rightarrow> string" where
  "blocks_text bs = concat (map b_content (filter (\<lambda>b. b_type b = K_text) bs))"

lemma blocks_text_simps [simp]:
  "blocks_text [] = []" "blocks_text (b # bs) = (if b_type b = K_text then b_content b else []) @ blocks_text bs"
  "blocks_text (bs @ cs) = blocks_text bs @ blocks_text cs"
  by (simp_all add: blocks_text_def)

lemma info_on_info [simp]: "info (on_info f b) = f (info b)"
  by (simp add: on_info_def)

lemma blocks_text_butlast: "bs \<noteq> [] \<Longrightarrow> blocks_text bs = blocks_text (butlast bs) @ (if b_type (last bs) = K_text then b_content (last bs) else [])"
  by (induction bs) auto

lemma blocks_text_append: "blocks_text (appendText bs cd) = blocks_text bs @ cd"
  by (auto simp: appendText_def plain_block_def blocks_text_butlast [of bs])

lemma blocks_text_thinking: "blocks_text (append_thinking bs td) = blocks_text bs"
  by (auto simp: append_thinking_def plain_block_def blocks_text_butlast [of bs])

lemma blocks_text_list_update:
  "b_type b \<noteq> K_text \<Longrightarrow> (i < length bs \<Longrightarrow> b_type (bs ! i) \<noteq> K_text) \<Longrightarrow> blocks_text (bs[i := b]) = blocks_text bs"
proof (induction bs arbitrary: i)
  case (Cons x bs)
  then show ?case by (cases i) auto
qed simp

lemma blocks_text_map: "(\<And>b. b_type (g b) = b_type b \<and> (b_type b = K_text \<longrightarrow> b_content (g b) = b_content b)) \<Longrightarrow> blocks_text (map g bs) = blocks_text bs"
  by (induction bs) auto

lemma last_index_Some: "last_index P xs = Some i \<Longrightarrow> i < length xs \<and> P (xs ! i)"
proof -
  assume "last_index P xs = Some i"
  then obtain k where k: "find_index P (rev xs) = Some k" "i = length xs - 1 - k" by (auto simp: last_index_def split: option.splits)
  from find_index_Some [OF k(1)] have "k < length xs" "P (rev xs ! k)" by auto
  then show ?thesis using k(2) by (auto simp: rev_nth)
qed

lemma findToolMatch_tool: "findToolMatch callId name arr = Some i \<Longrightarrow> i < length arr \<and> b_type (arr ! i) = K_tool"
  by (auto simp: findToolMatch_def Let_def split: if_splits dest!: last_index_Some)

text \<open>What an update of the last message keeps while the answer goes on.\<close>

definition keeps_text :: "(chat_message \<Rightarrow> chat_message) \<Rightarrow> bool" where
  "keeps_text f \<longleftrightarrow> (\<forall>m. cm_role (f m) = cm_role m \<and> cm_content (f m) = cm_content m \<and> blocks_text (cm_blocks (f m)) = blocks_text (cm_blocks m))"

lemma keeps_text_blocks: "(\<And>bs. blocks_text (g bs) = blocks_text bs) \<Longrightarrow> keeps_text (on_blocks g)"
  by (simp add: keeps_text_def on_blocks_def)

lemma set_status_type [simp]: "b_type (set_status st b) = b_type b" "b_content (set_status st b) = b_content b"
  by (simp_all add: set_status_def)

lemma complete_tool_type [simp]: "b_type (complete_tool x b) = b_type b"
  by (simp add: complete_tool_def)

named_theorems answer_updates \<open>updates that keep the text of an answer\<close>

lemma keeps_usage [answer_updates]: "keeps_text (add_usage d)"
  by (simp add: keeps_text_def add_usage_def Let_def)

lemma keeps_start_agent [answer_updates]: "keeps_text (start_agent r t)"
  by (simp add: keeps_text_def start_agent_def plain_block_def)

lemma keeps_end_agent [answer_updates]: "keeps_text (end_agent x)"
  by (auto simp: keeps_text_def end_agent_def running_agent_def dest!: last_index_Some intro!: blocks_text_list_update split: option.split)

lemma keeps_start_tool [answer_updates]: "keeps_text (start_tool (tool_block n i c))"
  by (auto simp: keeps_text_def start_tool_def Let_def tool_block_def plain_block_def running_agent_def
      dest!: last_index_Some intro!: blocks_text_list_update split: option.split)

lemma keeps_top_result: "keeps_text (top_result callId name x)"
  by (auto simp: keeps_text_def top_result_def dest!: findToolMatch_tool intro!: blocks_text_list_update split: option.split)

lemma keeps_tool_result [answer_updates]: "keeps_text (tool_result callId name x)"
  using keeps_top_result [of callId name x]
  by (auto simp: keeps_text_def tool_result_def Let_def running_agent_def
      dest!: last_index_Some intro!: blocks_text_list_update split: option.split)

lemma keeps_approval [answer_updates]: "keeps_text (on_blocks (\<lambda>bs. bs @ [approval_block e]))"
  by (rule keeps_text_blocks) (simp add: approval_block_def plain_block_def)

lemma keeps_answer [answer_updates]: "keeps_text (answer_approval i x)"
  unfolding answer_approval_def by (rule keeps_text_blocks) (auto intro!: blocks_text_map)

lemma keeps_end_thinking [answer_updates]: "keeps_text end_thinking"
  unfolding end_thinking_def by (rule keeps_text_blocks) (auto intro!: blocks_text_map)

lemma keeps_retry [answer_updates]: "keeps_text (retry_message now e)"
  by (simp add: keeps_text_def retry_message_def)

lemma keeps_stop [answer_updates]: "keeps_text stop_message"
proof -
  have "blocks_text (map stop_block bs) = blocks_text bs" for bs
    by (rule blocks_text_map) (auto simp: stop_block_def)
  then show ?thesis by (simp add: keeps_text_def stop_message_def on_blocks_def)
qed

lemma keeps_done [answer_updates]: "keeps_text done_message"
proof -
  have "blocks_text (map (\<lambda>b. if b_type b = K_tool \<and> (b_status b = Some S_running \<or> b_status b = Some S_pending_confirm)
        then set_status S_completed b else b) bs) = blocks_text bs" for bs
    by (rule blocks_text_map) auto
  then show ?thesis by (simp add: keeps_text_def done_message_def on_blocks_def)
qed

lemma keeps_error [answer_updates]: "keeps_text (error_message (error_block ce raw))"
  by (simp add: keeps_text_def error_message_def on_blocks_def error_block_def plain_block_def)

lemma keeps_clear [answer_updates]: "keeps_text (\<lambda>m. m\<lparr>cm_retryStatus := None\<rparr>)"
  by (simp add: keeps_text_def)

section \<open>Nothing of a streamed answer is lost\<close>

text \<open>The answer is the last message, and its text with what is buffered is \<open>x\<close>.\<close>

definition answer_at :: "ai_store \<Rightarrow> int \<Rightarrow> chat_message list \<Rightarrow> string \<Rightarrow> bool" where
  "answer_at s c ms x \<longleftrightarrow>
     (\<exists>a. messages_of s c = ms @ [a] \<and> cm_role a = R_assistant \<and> cm_content a @ sb_content (buffer_of s c) = x \<and>
        blocks_text (cm_blocks a) = cm_content a)"

lemma answer_at_upd_last: "answer_at s c ms x \<Longrightarrow> keeps_text f \<Longrightarrow> answer_at (upd_last c f s) c ms x"
  by (auto simp: answer_at_def upd_last_def keeps_text_def)

lemma answer_at_upd_last_keep: "answer_at s c ms x \<Longrightarrow> keeps_text f \<Longrightarrow> answer_at (upd_last_keep c f s) c ms x"
  by (auto simp: answer_at_def upd_last_keep_def keeps_text_def)

lemma answer_at_clear: "answer_at s c ms x \<Longrightarrow> answer_at (clearRetryStatusOnLastAssistant c s) c ms x"
  by (auto simp: answer_at_def clearRetryStatusOnLastAssistant_def Let_def)

lemma answer_at_buffer: "answer_at s c ms x \<Longrightarrow> answer_at (buffer_event c y z s) c ms (x @ y)"
proof -
  have "messages_of (buffer_event c y z s) c = messages_of s c" by (simp add: buffer_event_def Let_def messages_of_def)
  then show "answer_at s c ms x \<Longrightarrow> answer_at (buffer_event c y z s) c ms (x @ y)" by (auto simp: answer_at_def)
qed

lemma answer_at_flush:
  assumes "answer_at s c ms x"
  shows "\<exists>a. messages_of (flushStreamBuffer c s) c = ms @ [a] \<and> cm_role a = R_assistant \<and> cm_content a = x \<and>
    blocks_text (cm_blocks a) = x \<and> sb_content (buffer_of (flushStreamBuffer c s) c) = []"
proof -
  from assms obtain a where a: "messages_of s c = ms @ [a]" "cm_role a = R_assistant" "cm_content a @ sb_content (buffer_of s c) = x"
    "blocks_text (cm_blocks a) = cm_content a" by (auto simp: answer_at_def)
  then have m: "map_of (conversationMessages s) c = Some (ms @ [a])" by (simp add: messages_of_def split: option.splits)
  show ?thesis
  proof (cases "map_of (streamBuffers s) c")
    case None
    then have "sb_content (buffer_of s c) = []" by (simp add: buffer_of_def empty_buffer_def)
    with a None show ?thesis by (simp add: flush_cases)
  next
    case (Some b)
    then have b: "buffer_of s c = b" by (simp add: buffer_of_def)
    have fb: "sb_content (buffer_of (flushStreamBuffer c s) c) = []" using Some by (simp add: flush_cases buffer_of_def update_conv' empty_buffer_def)
    show ?thesis
    proof (cases "sb_content b = [] \<and> sb_thinking b = []")
      case True
      with a Some b fb show ?thesis by (simp add: flush_cases messages_of_def)
    next
      case False
      let ?a = "flush_message (sb_content b) (sb_thinking b) a"
      have "messages_of (flushStreamBuffer c s) c = ms @ [?a]"
        using False Some m a(2) by (auto simp: flush_cases b messages_of_def update_conv')
      moreover have "cm_role ?a = R_assistant" "cm_content ?a = x" "blocks_text (cm_blocks ?a) = x"
        using a b by (auto simp: flush_message_def Let_def blocks_text_append blocks_text_thinking)
      ultimately show ?thesis using fb by blast
    qed
  qed
qed

lemma answer_at_flushed: "answer_at s c ms x \<Longrightarrow> answer_at (flushStreamBuffer c s) c ms x"
  using answer_at_flush [of s c ms x] by (auto simp: answer_at_def)

definition goes_on :: "event_type \<Rightarrow> bool" where
  "goes_on ty \<longleftrightarrow> ty \<notin> {E_queue_consumed, E_stopped, E_done, E_error}"

definition event_content :: "stream_event \<Rightarrow> string" where
  "event_content e = (if se_type e = E_content then e_text e else [])"

lemma answer_at_handle_flushed:
  assumes "answer_at s c ms x" and "goes_on ty"
  shows "answer_at (handle_flushed ty tabs now hidden c e s) c ms x"
proof -
  have n: "answer_at (ai_call y s') c ms x = answer_at s' c ms x" for y s' by (simp add: answer_at_def)
  show ?thesis
    using assms
    by (cases ty) (auto simp: goes_on_def n Let_def intro!: answer_at_upd_last answer_at_upd_last_keep answer_updates split: option.split)
qed

lemma answer_at_event:
  assumes "answer_at s c ms x" and "goes_on (se_type e)"
  shows "answer_at (handleStreamEvent tabs now hidden c e s) c ms (x @ event_content e)"
proof -
  let ?s1 = "if se_type e \<noteq> E_retry then clearRetryStatusOnLastAssistant c s else s"
  have s1: "answer_at ?s1 c ms x" using assms(1) answer_at_clear by auto
  show ?thesis
    unfolding handleStreamEvent_def Let_def event_content_def
    using answer_at_buffer [OF s1, of "e_text e" "[]"] answer_at_buffer [OF s1, of "[]" "e_text e"]
      answer_at_handle_flushed [OF answer_at_flushed [OF s1] assms(2)] by auto
qed

text \<open>What reaches the store of a conversation while it is answered: an event, or the timer of its buffer.\<close>

datatype stream_input = In_event "tab list" int bool stream_event | In_timer

fun run_input :: "int \<Rightarrow> stream_input \<Rightarrow> ai_store \<Rightarrow> ai_store" where
  "run_input c (In_event tabs now hidden e) s = handleStreamEvent tabs now hidden c e s"
| "run_input c In_timer s = on_flush_timer c s"

fun input_goes_on :: "stream_input \<Rightarrow> bool" where
  "input_goes_on (In_event tabs now hidden e) \<longleftrightarrow> goes_on (se_type e)"
| "input_goes_on In_timer \<longleftrightarrow> True"

fun input_content :: "stream_input \<Rightarrow> string" where
  "input_content (In_event tabs now hidden e) = event_content e"
| "input_content In_timer = []"

lemma answer_at_inputs:
  "list_all input_goes_on ins \<Longrightarrow> answer_at s c ms x \<Longrightarrow>
     answer_at (fold (run_input c) ins s) c ms (x @ concat (map input_content ins))"
proof (induction ins arbitrary: s x)
  case (Cons i ins)
  have "answer_at (run_input c i s) c ms (x @ input_content i)"
    using Cons.prems answer_at_event answer_at_flushed by (cases i) (auto simp: on_flush_timer_def)
  from Cons.IH [OF _ this] Cons.prems(1) show ?case by simp
qed simp

lemma display_last:
  assumes "cm_streaming a = Some False"
  shows "\<exists>pre. toDisplayMessages t (ms @ [a]) False = pre @ [display_of_message False a]"
  using assms by (simp add: toDisplayMessages_def)

lemma display_last_streaming:
  "\<exists>pre a'. toDisplayMessages t (ms @ [a]) True = pre @ [display_of_message True a'] \<and> cm_role a' = cm_role a \<and> cm_content a' = cm_content a \<and>
     blocks_text (cm_blocks a') = blocks_text (cm_blocks a)"
  by (auto simp: toDisplayMessages_def materializeRetryStatusAsError_def error_block_def plain_block_def split: option.split)

definition shown_text :: "display_message \<Rightarrow> string" where
  "shown_text dm = concat (map db_content (filter (\<lambda>b. db_type b = K_text) (dm_blocks dm)))"

lemma shown_text_display: "shown_text (display_of_message b m) = blocks_text (cm_blocks m)"
proof -
  have "concat (map db_content (filter (\<lambda>b. db_type b = K_text) (map (display_of_block i) bs))) = blocks_text bs" for i bs
    by (induction bs) (simp_all add: display_of_block_def)
  then show ?thesis by (simp add: shown_text_def display_of_message_def)
qed

definition ends_answer :: "event_type \<Rightarrow> bool" where
  "ends_answer ty \<longleftrightarrow> ty \<in> {E_stopped, E_done, E_error}"

lemma streaming_drain: "cs_sending (streaming_of (drainQueue tabs c s) c) = cs_sending (streaming_of s c)"
proof -
  have "streaming_of (s\<lparr>ai_drains := x\<rparr>) c = streaming_of s c" "streaming_of (s\<lparr>ai_uuid := y\<rparr>) c = streaming_of s c" for s x y
    by (simp_all add: streaming_of_def)
  then show ?thesis by (simp add: drainQueue_def Let_def streaming_of_update)
qed

lemma end_saved:
  assumes "messages_of s c = ms @ [a]" "cm_role a = R_assistant" "cm_content a = x" "blocks_text (cm_blocks a) = x" and "ends_answer (se_type e)"
  shows "\<not> cs_sending (streaming_of (handle_flushed (se_type e) tabs now hidden c e s) c) \<and>
    (\<exists>pre dm calls. ai_calls (handle_flushed (se_type e) tabs now hidden c e s) = ai_calls s @ CA_Save c (pre @ [dm]) # calls \<and>
       dm_role dm = R_assistant \<and> dm_content dm = x \<and> shown_text dm = x)"
proof -
  let ?u = "\<lambda>f. upd_last_end c f (cleanupStreamBuffer c s)"
  have u: "messages_of (?u f) c = ms @ [f a]" "\<not> cs_sending (streaming_of (?u f) c)" "ai_calls (?u f) = ai_calls s" "ai_t (?u f) = ai_t s" for f
    using assms(1,2) by (simp_all add: upd_last_end_def streaming_of_update)
  have fin: "\<exists>pre dm. ai_calls (persistConversationSnapshot c False (?u f)) = ai_calls s @ [CA_Save c (pre @ [dm])] \<and>
      dm_role dm = R_assistant \<and> dm_content dm = x \<and> shown_text dm = x"
    if f: "keeps_text f" "\<And>m. cm_streaming (f m) = Some False" for f
  proof -
    from display_last [OF f(2), of "ai_t s" ms a] obtain pre where
      "toDisplayMessages (ai_t s) (ms @ [f a]) False = pre @ [display_of_message False (f a)]" by blast
    moreover have "cm_role (f a) = R_assistant" "cm_content (f a) = x" "blocks_text (cm_blocks (f a)) = x"
      using f(1) assms(2-4) by (simp_all add: keeps_text_def)
    ultimately show ?thesis
      by (intro exI [of _ pre] exI [of _ "display_of_message False (f a)"])
        (simp add: snapshot_calls u shown_text_display, simp add: display_of_message_def)
  qed
  have err: "\<exists>pre dm. ai_calls (persistConversationSnapshot c True (?u f)) = ai_calls s @ [CA_Save c (pre @ [dm])] \<and>
      dm_role dm = R_assistant \<and> dm_content dm = x \<and> shown_text dm = x"
    if f: "keeps_text f" for f
  proof -
    from display_last_streaming [of "ai_t s" ms "f a"] obtain pre a' where
      "toDisplayMessages (ai_t s) (ms @ [f a]) True = pre @ [display_of_message True a']" "cm_role a' = cm_role (f a)"
      "cm_content a' = cm_content (f a)" "blocks_text (cm_blocks a') = blocks_text (cm_blocks (f a))" by blast
    moreover have "cm_role (f a) = R_assistant" "cm_content (f a) = x" "blocks_text (cm_blocks (f a)) = x"
      using f assms(2-4) by (simp_all add: keeps_text_def)
    ultimately show ?thesis
      by (intro exI [of _ pre] exI [of _ "display_of_message True a'"])
        (simp add: snapshot_calls u shown_text_display, simp add: display_of_message_def)
  qed
  have d: "ai_calls (drain_or_clean tabs c s') = ai_calls s' \<and> \<not> cs_sending (streaming_of (drain_or_clean tabs c s') c)"
    if "\<not> cs_sending (streaming_of s' c)" for s'
    using that by (simp add: drain_or_clean_def calls_drain calls_unused streaming_drain reads_unused)
  from assms(5) consider "se_type e = E_stopped" | "se_type e = E_done" | "se_type e = E_error" by (auto simp: ends_answer_def)
  then show ?thesis
  proof cases
    case 1
    from fin [OF keeps_stop] obtain pre dm where
      p: "ai_calls (persistConversationSnapshot c False (?u stop_message)) = ai_calls s @ [CA_Save c (pre @ [dm])]"
        "dm_role dm = R_assistant" "dm_content dm = x" "shown_text dm = x" by (auto simp: stop_message_def)
    from d [of "start_list LP_fetch (persistConversationSnapshot c False (?u stop_message))"] p u show ?thesis
      unfolding 1 handle_flushed.simps by auto
  next
    case 2
    from fin [OF keeps_done] obtain pre dm where
      p: "ai_calls (persistConversationSnapshot c False (?u done_message)) = ai_calls s @ [CA_Save c (pre @ [dm])]"
        "dm_role dm = R_assistant" "dm_content dm = x" "shown_text dm = x" by (auto simp: done_message_def)
    from d [of "start_list (LP_done c) (persistConversationSnapshot c False (?u done_message))"] p u show ?thesis
      unfolding 2 handle_flushed.simps by auto
  next
    case 3
    let ?f = "error_message (error_block (classifyError (ai_t s) (se_error e) None) (se_error e))"
    from err [OF keeps_error] obtain pre dm where
      p: "ai_calls (persistConversationSnapshot c True (?u ?f)) = ai_calls s @ [CA_Save c (pre @ [dm])]"
        "dm_role dm = R_assistant" "dm_content dm = x" "shown_text dm = x" by blast
    then show ?thesis
      using u unfolding 3 handle_flushed.simps by (auto simp: calls_unused reads_unused)
  qed
qed

text \<open>C24: whatever the timers do and whatever else happens in between, when the answer to a message ends, by
  itself, by a stop or by an error, the conversation is no longer sending and the answer is saved with
  exactly the text that was streamed, and its text blocks show exactly that text.\<close>
theorem streamed_answer_saved:
  assumes "messages_of s c = ms @ [a]" and "cm_role a = R_assistant" and "sb_content (buffer_of s c) = []"
    and "blocks_text (cm_blocks a) = cm_content a" and "list_all input_goes_on ins" and "ends_answer (se_type e)"
  shows "let s1 = fold (run_input c) ins s; s2 = handleStreamEvent tabs now hidden c e s1
    in \<not> cs_sending (streaming_of s2 c) \<and>
      (\<exists>pre dm calls. ai_calls s2 = ai_calls s1 @ CA_Save c (pre @ [dm]) # calls \<and> dm_role dm = R_assistant \<and>
         dm_content dm = cm_content a @ concat (map input_content ins) \<and> shown_text dm = dm_content dm)"
proof -
  let ?x = "cm_content a @ concat (map input_content ins)"
  let ?s1 = "fold (run_input c) ins s"
  have "answer_at s c ms (cm_content a)" using assms by (auto simp: answer_at_def)
  from answer_at_inputs [OF assms(5) this] have "answer_at ?s1 c ms ?x" .
  then have "answer_at (clearRetryStatusOnLastAssistant c ?s1) c ms ?x" by (rule answer_at_clear)
  from answer_at_flush [OF this] obtain a' where
    f: "messages_of (flushStreamBuffer c (clearRetryStatusOnLastAssistant c ?s1)) c = ms @ [a']" "cm_role a' = R_assistant"
      "cm_content a' = ?x" "blocks_text (cm_blocks a') = ?x" by blast
  have calls: "ai_calls (flushStreamBuffer c (clearRetryStatusOnLastAssistant c ?s1)) = ai_calls ?s1"
    by (simp add: ai_simps clearRetryStatusOnLastAssistant_def Let_def)
  have h: "handleStreamEvent tabs now hidden c e ?s1 =
      handle_flushed (se_type e) tabs now hidden c e (flushStreamBuffer c (clearRetryStatusOnLastAssistant c ?s1))"
    using assms(6) by (auto simp: handleStreamEvent_def ends_answer_def Let_def)
  from end_saved [OF f assms(6), of tabs now hidden] obtain pre dm later where
    r: "\<not> cs_sending (streaming_of (handleStreamEvent tabs now hidden c e ?s1) c)"
      "ai_calls (handleStreamEvent tabs now hidden c e ?s1) = ai_calls ?s1 @ CA_Save c (pre @ [dm]) # later"
      "dm_role dm = R_assistant" "dm_content dm = ?x" "shown_text dm = ?x"
    unfolding h calls by blast
  show ?thesis
    unfolding Let_def by (intro conjI exI [of _ pre] exI [of _ dm] exI [of _ later]) (simp_all only: r not_False_eq_True)
qed

definition plain_event :: "event_type \<Rightarrow> string option \<Rightarrow> stream_event" where
  "plain_event ty content =
     \<lparr>se_type = ty, se_content = content, se_queue_id = None, se_tool_name = None, se_tool_input = None, se_tool_call_id = None,
      se_confirm_id = None, se_error = None, se_agent_role = None, se_agent_task = None, se_kind = None, se_items = None,
      se_description = None, se_session_id = None, se_patterns = None, se_usage = None, se_retryDelayMs = None\<rparr>"

definition ex_sent :: ai_store where
  "ex_sent = sendForConversation [] ''q'' 7 ''hello'' ai_empty"

definition ex_inputs :: "stream_input list" where
  "ex_inputs = [In_event [] 0 False (plain_event E_content (Some ''wo'')), In_timer, In_event [] 0 False (plain_event E_content (Some ''rld''))]"

theorem streamed_answer_saved_witness:
  "\<not> cs_sending (streaming_of (handleStreamEvent [] 0 False 7 (plain_event E_done None) (fold (run_input 7) ex_inputs ex_sent)) 7)"
proof -
  have m: "messages_of ex_sent 7 = [user_message 0 None ''hello''] @ [assistant_message 1]" by code_simp
  have b: "sb_content (buffer_of ex_sent 7) = []" by code_simp
  have i: "list_all input_goes_on ex_inputs" by code_simp
  show ?thesis
    using streamed_answer_saved [OF m _ b _ i, of "plain_event E_done None" "[]" 0 False]
    by (simp add: assistant_message_def plain_event_def ends_answer_def Let_def)
qed

section \<open>Queued messages leave no empty answer\<close>

lemma streaming_of_flush [simp]: "streaming_of (flushStreamBuffer c s) d = streaming_of s d"
  by (simp add: streaming_of_def ai_simps)

lemma streaming_of_clear_retry [simp]: "streaming_of (clearRetryStatusOnLastAssistant c s) d = streaming_of s d"
  by (simp add: clearRetryStatusOnLastAssistant_def Let_def streaming_of_update)

definition consumed :: "string option \<Rightarrow> string \<Rightarrow> stream_event" where
  "consumed queueId content = (plain_event E_queue_consumed (Some content))\<lparr>se_queue_id := queueId\<rparr>"

lemma empty_streaming_messages:
  "messages_of s c = ms @ [assistant_message u] \<Longrightarrow> sb_content (buffer_of s c) = [] \<Longrightarrow> sb_thinking (buffer_of s c) = [] \<Longrightarrow>
   messages_of (flushStreamBuffer c (clearRetryStatusOnLastAssistant c s)) c = ms @ [assistant_message u]"
proof -
  assume m: "messages_of s c = ms @ [assistant_message u]" and b: "sb_content (buffer_of s c) = []" "sb_thinking (buffer_of s c) = []"
  then have "clearRetryStatusOnLastAssistant c s = s" by (simp add: clearRetryStatusOnLastAssistant_def assistant_message_def)
  with m b show ?thesis by (simp add: flush_cases messages_of_def)
qed

lemma buffer_of_flush: "sb_content (buffer_of (flushStreamBuffer c s) c) = []" "sb_thinking (buffer_of (flushStreamBuffer c s) c) = []"
  by (simp_all add: flush_cases buffer_of_def update_conv' empty_buffer_def)

lemma uuid_update [simp]: "ai_uuid (updateConversation c m b q s) = ai_uuid s"
  by (simp add: updateConversation_def Let_def split: option.split)

lemma consume_reads:
  "messages_of (consume_queue c e s) c = close_answer (messages_of s c) @ [user_message (ai_uuid s) (Some False) (e_text e), assistant_message (Suc (ai_uuid s))]"
  "buffer_of (consume_queue c e s) d = buffer_of s d"
proof -
  have "messages_of (s\<lparr>ai_uuid := u\<rparr>) c = messages_of s c" "buffer_of (s\<lparr>ai_uuid := u\<rparr>) d = buffer_of s d" for u
    by (simp_all add: messages_of_def buffer_of_def)
  then show "messages_of (consume_queue c e s) c = close_answer (messages_of s c) @ [user_message (ai_uuid s) (Some False) (e_text e), assistant_message (Suc (ai_uuid s))]"
    "buffer_of (consume_queue c e s) d = buffer_of s d"
    by (simp_all add: consume_queue_def Let_def)
qed

lemma consumed_event:
  "handleStreamEvent tabs now hidden c (consumed q x) s = consume_queue c (consumed q x) (flushStreamBuffer c (clearRetryStatusOnLastAssistant c s))"
  by (simp add: handleStreamEvent_def consumed_def plain_event_def Let_def)

lemma consumed_text: "e_text (consumed q x) = x"
  by (simp add: consumed_def plain_event_def or_text_def)

text \<open>A batch of queued messages, consumed one right after the other.\<close>

definition consume_all :: "int \<Rightarrow> (string option \<times> string) list \<Rightarrow> ai_store \<Rightarrow> ai_store" where
  "consume_all c qs s = fold (\<lambda>(q, x). handleStreamEvent [] 0 False c (consumed q x)) qs s"

lemma consume_more:
  assumes "messages_of s c = ms @ [assistant_message u]" "sb_content (buffer_of s c) = []" "sb_thinking (buffer_of s c) = []"
  shows "\<exists>us v. messages_of (consume_all c qs s) c = ms @ us @ [assistant_message v] \<and> map cm_content us = map snd qs \<and> (\<forall>m\<in>set us. cm_role m = R_user)"
  using assms
proof (induction qs arbitrary: s ms u)
  case Nil
  then show ?case by (intro exI [of _ "[]"] exI [of _ u]) (simp add: consume_all_def)
next
  case (Cons qx qs)
  obtain q x where qx: "qx = (q, x)" by (cases qx)
  let ?f = "flushStreamBuffer c (clearRetryStatusOnLastAssistant c s)"
  let ?s = "consume_queue c (consumed q x) ?f"
  have m: "messages_of ?f c = ms @ [assistant_message u]" by (rule empty_streaming_messages) (use Cons.prems in auto)
  have "close_answer (messages_of ?f c) = ms" by (simp add: m close_answer_def assistant_message_def is_empty_message_def)
  then have s: "messages_of ?s c = (ms @ [user_message (ai_uuid ?f) (Some False) x]) @ [assistant_message (Suc (ai_uuid ?f))]"
    by (simp add: consume_reads consumed_text)
  from Cons.IH [OF s] obtain us v where "messages_of (consume_all c qs ?s) c = (ms @ [user_message (ai_uuid ?f) (Some False) x]) @ us @ [assistant_message v]"
    "map cm_content us = map snd qs" "\<forall>m\<in>set us. cm_role m = R_user" by (auto simp: consume_reads buffer_of_flush)
  then show ?case
    by (intro exI [of _ "user_message (ai_uuid ?f) (Some False) x # us"] exI [of _ v])
      (simp add: qx consume_all_def consumed_event user_message_def)
qed

text \<open>when the backend takes queued messages up, one after the other, the answer so far is closed, the
  messages follow it in order, and one new answer is open at the end: no empty answer stays in between,
  however many messages are taken up at once.\<close>
theorem queued_messages_follow:
  assumes "messages_of s c = ms @ [a]" and "cm_role a = R_assistant" and "cm_content a \<noteq> [] \<or> cm_blocks a \<noteq> []"
    and "cm_retryStatus a = None" and "sb_content (buffer_of s c) = []" and "sb_thinking (buffer_of s c) = []" and "qs \<noteq> []"
  shows "\<exists>us v. messages_of (consume_all c qs s) c = ms @ [a\<lparr>cm_streaming := Some False\<rparr>] @ us @ [assistant_message v] \<and>
    map cm_content us = map snd qs \<and> (\<forall>m\<in>set us. cm_role m = R_user)"
proof -
  obtain q x qs' where qs: "qs = (q, x) # qs'" using assms(7) by (cases qs) auto
  have "clearRetryStatusOnLastAssistant c s = s" using assms(1,4) by (simp add: clearRetryStatusOnLastAssistant_def)
  then have m: "messages_of (flushStreamBuffer c (clearRetryStatusOnLastAssistant c s)) c = ms @ [a]"
    using assms(1,5,6) by (simp add: flush_cases messages_of_def)
  let ?f = "flushStreamBuffer c (clearRetryStatusOnLastAssistant c s)"
  let ?s = "consume_queue c (consumed q x) ?f"
  have s: "messages_of ?s c = (ms @ [a\<lparr>cm_streaming := Some False\<rparr>, user_message (ai_uuid ?f) (Some False) x]) @ [assistant_message (Suc (ai_uuid ?f))]"
    using assms(2,3) by (auto simp: consume_reads consumed_text m close_answer_def is_empty_message_def)
  from consume_more [OF s, of qs'] obtain us v where
    "messages_of (consume_all c qs' ?s) c = (ms @ [a\<lparr>cm_streaming := Some False\<rparr>, user_message (ai_uuid ?f) (Some False) x]) @ us @ [assistant_message v]"
    "map cm_content us = map snd qs'" "\<forall>m\<in>set us. cm_role m = R_user" by (auto simp: consume_reads buffer_of_flush)
  then show ?thesis
    by (intro exI [of _ "user_message (ai_uuid ?f) (Some False) x # us"] exI [of _ v])
      (simp add: qs consume_all_def consumed_event user_message_def)
qed

definition ex_answered :: ai_store where
  "ex_answered = on_flush_timer 7 (handleStreamEvent [] 0 False 7 (plain_event E_content (Some ''wait'')) ex_sent)"

theorem queued_messages_follow_witness:
  "\<exists>us v. messages_of (consume_all 7 [(None, ''a''), (Some ''q2'', ''b'')] ex_answered) 7 =
     [user_message 0 None ''hello''] @ [(hd (drop 1 (messages_of ex_answered 7)))\<lparr>cm_streaming := Some False\<rparr>] @ us @ [assistant_message v] \<and>
     map cm_content us = [''a'', ''b''] \<and> (\<forall>m\<in>set us. cm_role m = R_user)"
proof -
  let ?a = "hd (drop 1 (messages_of ex_answered 7))"
  have h: "messages_of ex_answered 7 = [user_message 0 None ''hello''] @ [?a]" "cm_role ?a = R_assistant"
    "cm_content ?a \<noteq> []" "cm_retryStatus ?a = None" "sb_content (buffer_of ex_answered 7) = []" "sb_thinking (buffer_of ex_answered 7) = []"
    by code_simp+
  show ?thesis using queued_messages_follow [OF h(1,2) _ h(4-6), of "[(None, ''a''), (Some ''q2'', ''b'')]"] h(3) by simp
qed

end
