(* ===== verification/AiRuns.thy ===== *)
theory AiRuns
  imports AiStream
begin

text \<open>
  The runs of the assistant: every operation of \<^verbatim>\<open>stores/aiStore.ts\<close> that sends, stops, replays, queues or
  shows conversations, in any order, with any events and any answers of the backend. The invariant: a
  conversation that is sending has a subscribed listener of the current generation and an open answer as
  its last message.
\<close>

section \<open>The invariant\<close>

abbreviation sends :: "ai_store \<Rightarrow> int \<Rightarrow> bool" where
  "sends s c \<equiv> cs_sending (streaming_of s c)"

definition open_message :: "chat_message \<Rightarrow> bool" where
  "open_message a \<longleftrightarrow> cm_role a = R_assistant \<and> is_streaming a \<and> blocks_text (cm_blocks a) = cm_content a"

definition open_answer :: "ai_store \<Rightarrow> int \<Rightarrow> bool" where
  "open_answer s c \<longleftrightarrow> messages_of s c \<noteq> [] \<and> open_message (last (messages_of s c))"

definition busy_ok :: "ai_store \<Rightarrow> bool" where
  "busy_ok s \<longleftrightarrow> (\<forall>c. sends s c \<longrightarrow> listening s c \<and> open_answer s c)"

text \<open>An operation that starts no generation and breaks none that goes on.\<close>

definition calm :: "ai_store \<Rightarrow> ai_store \<Rightarrow> bool" where
  "calm s s' \<longleftrightarrow> (\<forall>d. sends s' d \<longrightarrow> sends s d \<and> (listening s d \<longrightarrow> listening s' d) \<and> (open_answer s d \<longrightarrow> open_answer s' d))"

lemma calm_refl [simp]: "calm s s"
  by (simp add: calm_def)

lemma calm_trans: "calm s t \<Longrightarrow> calm t u \<Longrightarrow> calm s u"
  by (simp add: calm_def)

lemma busy_ok_calm: "calm s s' \<Longrightarrow> busy_ok s \<Longrightarrow> busy_ok s'"
  by (simp add: calm_def busy_ok_def)

text \<open>What the invariant reads.\<close>

lemma calm_same:
  "(\<And>d. streaming_of s' d = streaming_of s d) \<Longrightarrow> conversationListeners s' = conversationListeners s \<Longrightarrow>
   (\<And>d. messages_of s' d = messages_of s d) \<Longrightarrow> calm s s'"
  by (simp add: calm_def listening_def open_answer_def)

named_theorems calm_intros \<open>operations that start no generation and break none\<close>

lemma listeners_frame [simp]:
  "conversationListeners (updateConversation c m b q s) = conversationListeners s"
  "conversationListeners (ai_call x s) = conversationListeners s"
  "conversationListeners (cleanupStreamBuffer c s) = conversationListeners s"
  "conversationListeners (start_list p s) = conversationListeners s"
  "conversationListeners (forget_stop_request c s) = conversationListeners s"
  "conversationListeners (persistConversationSnapshot c i s) = conversationListeners s"
  "conversationListeners (buffer_event c y z s) = conversationListeners s"
  by (simp_all add: updateConversation_def ai_call_def cleanupStreamBuffer_def start_list_def beginConversationListRequest_def Let_def
      forget_stop_request_def persistConversationSnapshot_def buffer_event_def split: option.split)

lemma reads_forget [simp]:
  "messages_of (forget_stop_request c s) d = messages_of s d" "streaming_of (forget_stop_request c s) d = streaming_of s d"
  "messages_of (buffer_event c y z s) d = messages_of s d" "streaming_of (buffer_event c y z s) d = streaming_of s d"
  by (simp_all add: forget_stop_request_def buffer_event_def messages_of_def streaming_of_def Let_def)

lemma calm_frames [calm_intros]:
  "calm s (ai_call x s)" "calm s (persistConversationSnapshot c i s)" "calm s (start_list p s)" "calm s (forget_stop_request c s)"
  "calm s (cleanupStreamBuffer c s)" "calm s (buffer_event c y z s)"
  by (rule calm_same; simp)+

lemma calm_update:
  assumes "b \<noteq> Some True" and "b = Some False \<or> m = None \<or> (\<exists>ms. m = Some ms \<and> (open_answer s c \<longrightarrow> ms \<noteq> [] \<and> open_message (last ms)))"
  shows "calm s (updateConversation c m b q s)"
  using assms by (cases b) (auto simp: calm_def streaming_of_update listening_def open_answer_def split: option.splits)

lemma calm_stop_sending [calm_intros]: "calm s (updateConversation c m (Some False) q s)"
  by (rule calm_update) simp_all

lemma calm_queue [calm_intros]: "calm s (updateConversation c None None q s)"
  by (rule calm_update) simp_all

lemma open_answer_cases: "open_answer s c \<longleftrightarrow> (\<exists>ms a. messages_of s c = ms @ [a] \<and> open_message a)"
  by (metis append_butlast_last_id last_snoc open_answer_def snoc_eq_iff_butlast)

lemma calm_messages: "(\<And>ms' a. messages_of s c = ms' @ [a] \<Longrightarrow> open_message a \<Longrightarrow> ms \<noteq> [] \<and> open_message (last ms)) \<Longrightarrow>
    calm s (updateConversation c (Some ms) None q s)"
  by (rule calm_update) (auto simp: open_answer_cases)

definition keeps_open :: "(chat_message \<Rightarrow> chat_message) \<Rightarrow> bool" where
  "keeps_open f \<longleftrightarrow> (\<forall>m. open_message m \<longrightarrow> open_message (f m))"

lemma keeps_openI: "keeps_text f \<Longrightarrow> (\<And>m. cm_streaming (f m) = cm_streaming m) \<Longrightarrow> keeps_open f"
  by (simp add: keeps_open_def open_message_def keeps_text_def)

lemma keeps_open_updates [calm_intros]:
  "keeps_open (add_usage u)" "keeps_open (start_agent r t)" "keeps_open (end_agent x)" "keeps_open (start_tool (tool_block n i c))"
  "keeps_open (tool_result ci n x)" "keeps_open (on_blocks (\<lambda>bs. bs @ [approval_block e]))" "keeps_open (answer_approval ci y)"
  "keeps_open end_thinking" "keeps_open (retry_message now e)" "keeps_open (\<lambda>m. m\<lparr>cm_retryStatus := None\<rparr>)"
  by (rule keeps_openI, rule answer_updates,
      simp add: add_usage_def Let_def start_agent_def end_agent_def start_tool_def tool_result_def top_result_def on_blocks_def
        answer_approval_def end_thinking_def retry_message_def split: option.split)+

lemma calm_upd_last [calm_intros]: "keeps_open f \<Longrightarrow> calm s (upd_last c f s)"
  unfolding upd_last_def
  by (auto simp: updateLastAssistant_def keeps_open_def split: option.split intro!: calm_messages)

lemma calm_upd_last_keep [calm_intros]: "keeps_open f \<Longrightarrow> calm s (upd_last_keep c f s)"
proof -
  assume "keeps_open f"
  then have "calm s (upd_last c f s)" by (rule calm_upd_last)
  moreover have "calm (upd_last c f s) (upd_last_keep c f s)"
    by (auto simp: upd_last_def upd_last_keep_def calm_intros split: option.split)
  ultimately show ?thesis by (rule calm_trans)
qed

lemma calm_upd_last_end [calm_intros]: "calm s (upd_last_end c f s)"
  unfolding upd_last_end_def by (rule calm_stop_sending)

lemma calm_clear_retry [calm_intros]: "calm s (clearRetryStatusOnLastAssistant c s)"
proof -
  have "keeps_open (\<lambda>m. m\<lparr>cm_retryStatus := None\<rparr>)" by (rule calm_intros)
  then show ?thesis
    unfolding clearRetryStatusOnLastAssistant_def Let_def by (auto simp: keeps_open_def intro!: calm_messages)
qed

lemma open_flush_message: "open_message a \<Longrightarrow> open_message (flush_message x y a)"
  by (simp add: open_message_def flush_message_def Let_def blocks_text_append blocks_text_thinking)

lemma calm_flush [calm_intros]: "calm s (flushStreamBuffer c s)"
proof -
  have "open_answer (flushStreamBuffer c s) d" if o: "open_answer s d" for d
  proof (cases "d = c")
    case False
    then have "messages_of (flushStreamBuffer c s) d = messages_of s d"
      by (auto simp: flush_cases messages_of_def update_conv' split: option.split)
    with o show ?thesis by (simp add: open_answer_def)
  next
    case True
    with o obtain ms a where a: "messages_of s c = ms @ [a]" "open_message a" by (auto simp: open_answer_cases)
    then have m: "map_of (conversationMessages s) c = Some (ms @ [a])" "cm_role a = R_assistant"
      by (auto simp: messages_of_def open_message_def split: option.splits)
    then have "messages_of (flushStreamBuffer c s) c = ms @ [a] \<or>
        (\<exists>x y. messages_of (flushStreamBuffer c s) c = ms @ [flush_message x y a])"
      by (auto simp: flush_cases messages_of_def update_conv')
    with a(2) open_flush_message show ?thesis unfolding True open_answer_cases by blast
  qed
  then show ?thesis by (simp add: calm_def listening_def ai_simps)
qed

lemma calm_clean: "\<not> sends s c \<Longrightarrow> calm s (cleanupConvListener c s)"
proof -
  have "conversationListeners (cleanupConvListener c s) = AList.delete c (conversationListeners s)"
    by (simp add: cleanupConvListener_def cleanupStreamBuffer_def)
  then show "\<not> sends s c \<Longrightarrow> calm s (cleanupConvListener c s)"
    by (auto simp: calm_def listening_def open_answer_def delete_conv')
qed

lemma calm_unused [calm_intros]: "calm s (cleanupConversationIfUnused tabs c a b s)"
proof -
  have f: "calm s (s\<lparr>conversationStopRequests := x\<rparr>)" for x
    by (rule calm_same) (simp_all add: streaming_of_def messages_of_def)
  show ?thesis
    unfolding cleanupConversationIfUnused_def
    by (auto intro: f calm_clean calm_trans [OF f calm_frames(1)])
qed

lemma calm_fields [calm_intros]: "calm s (s\<lparr>ai_drains := x\<rparr>)" "calm s (s\<lparr>ai_uuid := u\<rparr>)" "calm s (s\<lparr>conversationStopRequests := r\<rparr>)"
  by (rule calm_same; simp add: streaming_of_def messages_of_def)+

lemma sends_fields [simp]: "sends (s\<lparr>ai_uuid := u\<rparr>) d = sends s d" "sends (s\<lparr>ai_drains := x\<rparr>) d = sends s d"
  by (simp_all add: streaming_of_def)

text \<open>Messages may change freely while nothing is sent.\<close>

lemma calm_quiet: "\<not> sends s c \<Longrightarrow> calm s (updateConversation c m None q s)"
  by (auto simp: calm_def streaming_of_update listening_def open_answer_def split: option.split)

lemma calm_drain: "\<not> sends s c \<Longrightarrow> calm s (drainQueue tabs c s)"
proof -
  assume q: "\<not> sends s c"
  let ?s1 = "updateConversation c None None (Some []) s"
  let ?s2 = "\<lambda>m u. updateConversation c (Some m) None None (?s1\<lparr>ai_uuid := u\<rparr>)"
  have 1: "calm s (?s1\<lparr>ai_uuid := u\<rparr>)" for u by (rule calm_trans [OF calm_queue calm_fields(2)])
  have 2: "calm (?s1\<lparr>ai_uuid := u\<rparr>) (?s2 m u)" for m u by (rule calm_quiet) (simp add: q streaming_of_update)
  have "calm s (?s2 m u\<lparr>ai_drains := x\<rparr>)" for m u x by (rule calm_trans [OF calm_trans [OF 1 2] calm_fields(1)])
  then show ?thesis by (simp add: drainQueue_def Let_def)
qed

lemma calm_drain_or_clean: "\<not> sends s c \<Longrightarrow> calm s (drain_or_clean tabs c s)"
  by (auto simp: drain_or_clean_def calm_drain calm_unused)

lemma open_assistant [simp]: "open_message (assistant_message u)"
  by (simp add: open_message_def assistant_message_def)

lemma calm_consume [calm_intros]: "calm s (consume_queue c e s)"
proof -
  let ?u = "s\<lparr>ai_uuid := ai_uuid s + 2\<rparr>"
  have "calm ?u (updateConversation c (Some (ms @ [x, assistant_message v])) None q ?u)" for ms x v q
    by (rule calm_messages) simp
  then have "calm s (persistConversationSnapshot c True (updateConversation c (Some (ms @ [x, assistant_message v])) None q ?u))" for ms x v q
    by (rule calm_trans [OF calm_trans [OF calm_fields(2)] calm_frames(2)])
  then show ?thesis unfolding consume_queue_def Let_def .
qed

lemma not_sends_end: "\<not> sends (upd_last_end c f s) c"
  by (simp add: upd_last_end_def streaming_of_update)

lemma calm_handle_flushed [calm_intros]: "calm s (handle_flushed ty tabs now hidden c e s)"
proof -
  have fin: "calm s (drain_or_clean tabs c (start_list p (persistConversationSnapshot c False (upd_last_end c f (cleanupStreamBuffer c s)))))" for p f
    by (rule calm_trans [OF calm_trans [OF calm_trans [OF calm_trans [OF calm_frames(5) calm_upd_last_end] calm_frames(2)] calm_frames(3)] calm_drain_or_clean])
      (simp add: not_sends_end)
  have err: "calm s (cleanupConversationIfUnused tabs c None None (persistConversationSnapshot c True (upd_last_end c f (cleanupStreamBuffer c s))))" for f
    by (rule calm_trans [OF calm_trans [OF calm_trans [OF calm_frames(5) calm_upd_last_end] calm_frames(2)] calm_unused])
  show ?thesis
  proof (cases ty)
    case E_approval_request
    have "calm s (upd_last_keep c (on_blocks (\<lambda>bs. bs @ [approval_block e])) s)" by (rule calm_intros)+
    with E_approval_request show ?thesis by (auto simp: Let_def intro: calm_trans [OF _ calm_frames(1)])
  qed (auto simp: fin err intro!: calm_intros split: option.split)
qed

lemma calm_event [calm_intros]: "calm s (handleStreamEvent tabs now hidden c e s)"
proof -
  let ?s1 = "if se_type e \<noteq> E_retry then clearRetryStatusOnLastAssistant c s else s"
  have c: "calm s ?s1" by (simp add: calm_clear_retry)
  then have "calm s (handle_flushed ty tabs now hidden c e (flushStreamBuffer c ?s1))" for ty
    by (rule calm_trans [OF calm_trans [OF _ calm_flush] calm_handle_flushed])
  with calm_trans [OF c calm_frames(6)] show ?thesis unfolding handleStreamEvent_def Let_def by auto
qed

section \<open>Starting a generation\<close>

lemma listening_listen: "listening (listen c s) d = (if d = c then True else listening s d)"
  by (auto simp: listening_def listen_def getOrCreateConvListener_def Let_def update_conv' split: option.split)

lemma reads_listen [simp]: "messages_of (listen c s) d = messages_of s d" "streaming_of (listen c s) d = streaming_of s d"
  by (simp_all add: listen_def getOrCreateConvListener_def Let_def messages_of_def streaming_of_def split: option.split)

lemma busy_ok_generation:
  assumes "\<And>d. d \<noteq> c \<Longrightarrow> sends s d \<Longrightarrow> listening s d \<and> open_answer s d"
  shows "busy_ok (start_generation tabs c ms s)"
proof -
  have f: "messages_of (s\<lparr>ai_uuid := u\<rparr>) d = messages_of s d" "streaming_of (s\<lparr>ai_uuid := u\<rparr>) d = streaming_of s d"
    "listening (s\<lparr>ai_uuid := u\<rparr>) d = listening s d" for u d
    by (simp_all add: messages_of_def streaming_of_def listening_def)
  have l: "listening (updateConversation c m b q s') d = listening s' d" "listening (ai_call x s') d = listening s' d" for m b q s' d x
    by (simp_all add: listening_def)
  show ?thesis
    using assms by (auto simp: busy_ok_def start_generation_def Let_def l listening_listen open_answer_def streaming_of_update f)
qed

lemma busy_ok_others: "busy_ok s \<Longrightarrow> calm s s' \<Longrightarrow> sends (updateConversation c m (Some True) q s') d \<Longrightarrow> d \<noteq> c \<Longrightarrow>
    listening (updateConversation c m (Some True) q s') d \<and> open_answer (updateConversation c m (Some True) q s') d"
  using busy_ok_calm [of s s'] by (auto simp: busy_ok_def streaming_of_update listening_def open_answer_def split: option.splits)

lemma busy_ok_send: "busy_ok s0 \<Longrightarrow> busy_ok (sendForConversation tabs queueID c content s0)"
proof -
  assume ok: "busy_ok s0"
  let ?s = "forget_stop_request c s0"
  have cs: "calm s0 ?s" by (rule calm_frames)
  with ok have oks: "busy_ok ?s" by (rule busy_ok_calm [rotated])
  have queued: "busy_ok (ai_call x (updateConversation c None None q ?s))" for x q
    by (rule busy_ok_calm [OF calm_trans [OF calm_trans [OF cs calm_queue] calm_frames(1)] ok])
  have again: "busy_ok (start_generation tabs c ms (updateConversation c None (Some True) None ?s))" for ms
    by (rule busy_ok_generation) (rule busy_ok_others [OF ok cs])
  let ?u = "?s\<lparr>ai_uuid := Suc (ai_uuid ?s)\<rparr>"
  have cu: "calm s0 ?u" by (rule calm_trans [OF cs calm_fields(2)])
  have new: "busy_ok (start_generation tabs c ms (persistConversationSnapshot c True (updateConversation c (Some ms) (Some True) None ?u)))" for ms
  proof (rule busy_ok_generation)
    fix d assume d: "d \<noteq> c" "sends (persistConversationSnapshot c True (updateConversation c (Some ms) (Some True) None ?u)) d"
    then have "listening (updateConversation c (Some ms) (Some True) None ?u) d \<and> open_answer (updateConversation c (Some ms) (Some True) None ?u) d"
      by (intro busy_ok_others [OF ok cu]) simp_all
    then show "listening (persistConversationSnapshot c True (updateConversation c (Some ms) (Some True) None ?u)) d \<and>
        open_answer (persistConversationSnapshot c True (updateConversation c (Some ms) (Some True) None ?u)) d"
      by (simp add: listening_def open_answer_def)
  qed
  show ?thesis
    unfolding sendForConversation_def Let_def by (auto simp: oks queued again new)
qed

section \<open>The other operations\<close>

lemma calm_prepare [calm_intros]: "calm s (prepareConversationForReplay c s)"
  unfolding prepareConversationForReplay_def calm_def
proof (intro allI impI)
  fix d
  let ?t = "invalidateConvListenerForReplay c (forget_stop_request c s)"
  let ?s = "updateConversation c None (Some False) (Some []) ?t"
  assume d: "sends ?s d"
  then have "d \<noteq> c" by (auto simp: streaming_of_update)
  have t: "streaming_of ?t e = streaming_of s e" "messages_of ?t e = messages_of s e" for e
    by (simp_all add: invalidateConvListenerForReplay_def getOrCreateConvListener_def forget_stop_request_def cleanupStreamBuffer_def Let_def
        streaming_of_def messages_of_def split: option.split)
  have "listening ?t d = listening s d"
    using \<open>d \<noteq> c\<close> by (simp add: invalidateConvListenerForReplay_def getOrCreateConvListener_def forget_stop_request_def cleanupStreamBuffer_def Let_def
        listening_def update_conv' split: option.split)
  with d \<open>d \<noteq> c\<close> t show "sends s d \<and> (listening s d \<longrightarrow> listening ?s d) \<and> (open_answer s d \<longrightarrow> open_answer ?s d)"
    by (simp add: streaming_of_update listening_def open_answer_def)
qed

lemma busy_ok_replay_go: "busy_ok s \<Longrightarrow> busy_ok (replay_go tabs queueID c ms content s)"
  using busy_ok_calm [OF calm_stop_sending, of s c "Some ms" "Some []"] busy_ok_send
  by (auto simp: replay_go_def resetConversationForReplay_def Let_def)

lemma busy_ok_replay: "busy_ok s \<Longrightarrow> busy_ok (snd (replayConversation tabs queueID c ms content s))"
  using busy_ok_calm [OF calm_prepare [of s c]] busy_ok_calm [OF calm_trans [OF calm_prepare [of s c] calm_frames(1)]] busy_ok_replay_go
  by (auto simp: replayConversation_def Let_def stopConversation_def)

lemma busy_ok_regenerate: "busy_ok s \<Longrightarrow> busy_ok (snd (regenerateConversation tabs queueID c i s))"
  by (simp add: regenerateConversation_def busy_ok_replay)

lemma calm_refused [calm_intros]: "calm s (send_refused c s)"
  unfolding send_refused_def by (rule calm_trans [OF calm_stop_sending calm_clean]) (simp add: streaming_of_update)

lemma calm_drop_queued [calm_intros]: "calm s (drop_queued c P s)"
  by (auto simp: drop_queued_def calm_queue split: option.split)

lemma calm_queue_ops [calm_intros]:
  "calm s (queue_refused c q s)" "calm s (queue_removed c itm r s)" "calm s (queue_cleared c ids s)"
  "calm s (removeFromQueue c k s)" "calm s (clearQueue c s)" "calm s (stopConversation c s)" "calm s (stop_refused c s)"
  by (auto simp: queue_refused_def queue_removed_def queue_cleared_def removeFromQueue_def clearQueue_def stopConversation_def stop_refused_def Let_def
      intro: calm_intros)

lemma if_missing_reads:
  "map_of (if_missing c v ps) d = (case map_of ps d of None \<Rightarrow> if d = c then Some v else None | Some u \<Rightarrow> Some u)"
  by (auto simp: if_missing_def update_conv' split: option.split)

lemma open_answer_listed: "open_answer s d \<Longrightarrow> \<exists>ms. map_of (conversationMessages s) d = Some ms"
  by (cases "map_of (conversationMessages s) d") (auto simp: open_answer_def messages_of_def)

lemma streaming_if_missing: "streaming_of (s\<lparr>conversationStreaming := if_missing c no_streaming (conversationStreaming s)\<rparr>) d = streaming_of s d"
  by (auto simp: streaming_of_def if_missing_reads split: option.split)

lemma calm_loaded [calm_intros]: "calm s (messages_loaded c dms s)"
proof -
  have "streaming_of (messages_loaded c dms s) d = streaming_of s d" for d
    by (auto simp: messages_loaded_def streaming_of_def if_missing_reads split: option.split)
  moreover have "open_answer (messages_loaded c dms s) d" if "open_answer s d" for d
  proof -
    from open_answer_listed [OF that] obtain ms where "map_of (conversationMessages s) d = Some ms" ..
    then have "messages_of (messages_loaded c dms s) d = messages_of s d"
      by (simp add: messages_loaded_def messages_of_def if_missing_reads)
    with that show ?thesis by (simp add: open_answer_def)
  qed
  ultimately show ?thesis by (simp add: calm_def listening_def messages_loaded_def)
qed

lemma calm_ensure [calm_intros]: "calm s (ensureConversationMessagesLoaded c s)"
  by (simp add: ensureConversationMessagesLoaded_def calm_intros)

lemma persist_frame [simp]:
  "conversationMessages (persistSidebarTabs ts a s) = conversationMessages s" "conversationStreaming (persistSidebarTabs ts a s) = conversationStreaming s"
  "conversationListeners (persistSidebarTabs ts a s) = conversationListeners s"
  by (simp_all add: persistSidebarTabs_def clearLegacySidebarKeys_def)

lemma persist_flush_frame [simp]:
  "conversationMessages (flushSidebarPersist s) = conversationMessages s" "conversationStreaming (flushSidebarPersist s) = conversationStreaming s"
  "conversationListeners (flushSidebarPersist s) = conversationListeners s"
  by (simp_all add: flushSidebarPersist_def Let_def split: option.split)

lemma set_sidebar_frame [simp]:
  "conversationMessages (set_sidebar ts a s) = conversationMessages s" "conversationStreaming (set_sidebar ts a s) = conversationStreaming s"
  "conversationListeners (set_sidebar ts a s) = conversationListeners s"
  by (simp_all add: set_sidebar_def Let_def scheduleSidebarPersist_def)

lemma calm_frame: "conversationMessages s' = conversationMessages s \<Longrightarrow> conversationStreaming s' = conversationStreaming s \<Longrightarrow>
    conversationListeners s' = conversationListeners s \<Longrightarrow> calm s s'"
  by (rule calm_same) (simp_all add: streaming_of_def messages_of_def)

lemma calm_set_sidebar [calm_intros]: "calm s (set_sidebar ts a s)" "calm s (flushSidebarPersist s)"
  by (rule calm_frame; simp)+

lemma calm_activate [calm_intros]: "calm s (activateSidebarTab i s)" "calm s (activate_found i activate s)"
  by (rule calm_frame; simp add: activate_found_def activateSidebarTab_def set_active_sidebar_def)+

lemma calm_openNew [calm_intros]: "calm s (snd (openNewSidebarTab i now activate s))"
  by (auto simp: openNewSidebarTab_def intro: calm_intros split: option.split)

lemma calm_shown: "calm s (ensureConversationMessagesLoaded c (forget_stop_request c (set_sidebar ts a s)))"
  by (rule calm_trans [OF calm_trans [OF calm_set_sidebar(1) calm_frames(4)] calm_ensure])

lemma calm_openConversation [calm_intros]: "calm s (snd (openSidebarConversationInSidebar i now c activate reuse s))"
  by (auto simp: openSidebarConversationInSidebar_def Let_def intro: calm_shown calm_trans [OF calm_activate(2) calm_ensure] split: option.split bool.split)

lemma calm_bind [calm_intros]: "calm s (snd (bindSidebarTabToConversation tabs i now tabId c activate s))"
  by (auto simp: bindSidebarTabToConversation_def Let_def intro: calm_intros calm_shown calm_trans [OF calm_shown calm_unused] split: option.split)

lemma calm_close [calm_intros]: "calm s (closeSidebarTab tabs tabId s)"
  by (auto simp: closeSidebarTab_def Let_def intro: calm_intros calm_trans [OF calm_trans [OF calm_frames(2) calm_set_sidebar(1)] calm_unused]
      split: option.split simp del: find_index_None)

lemma calm_fold: "(\<And>x s. calm s (f x s)) \<Longrightarrow> calm s (fold f xs s)"
  by (induction xs arbitrary: s) (auto intro: calm_trans)

lemma calm_validate [calm_intros]: "calm s (validateSidebarTabs tabs s)"
  unfolding validateSidebarTabs_def Let_def by (rule calm_trans [OF calm_set_sidebar(1) calm_fold]) (rule calm_unused)

lemma calm_patch [calm_intros]: "calm s (patchSidebarTabUiState i p s)"
  by (simp add: patchSidebarTabUiState_def calm_set_sidebar)

lemma calm_conversations [calm_intros]: "calm s (s\<lparr>conversations := vs\<rparr>)"
  by (rule calm_frame) simp_all

lemma calm_sync [calm_intros]: "calm s (sync_title c title s)"
  by (rule calm_frame) (simp_all add: sync_title_def)

lemma calm_attach [calm_intros]: "calm s (attach_sidebar i conv s)"
proof -
  have "open_answer (attach_sidebar i conv s) d" if o: "open_answer s d" for d
  proof -
    from open_answer_listed [OF o] obtain ms where "map_of (conversationMessages s) d = Some ms" ..
    then have "messages_of (attach_sidebar i conv s) d = messages_of s d"
      by (simp add: attach_sidebar_def messages_of_def if_missing_reads)
    with o show ?thesis by (simp add: open_answer_def)
  qed
  moreover have "streaming_of (attach_sidebar i conv s) d = streaming_of s d" for d
    by (auto simp: attach_sidebar_def streaming_of_def if_missing_reads split: option.split)
  ultimately show ?thesis by (simp add: calm_def listening_def attach_sidebar_def)
qed

lemma calm_delete [calm_intros]: "calm s (delete_sidebar c s)" and not_sends_delete: "\<not> sends (delete_sidebar c s) c"
  by (auto simp: calm_def delete_sidebar_def streaming_of_def messages_of_def open_answer_def listening_def delete_conv' no_streaming_def
      split: option.splits)

lemma calm_missing: "calm s (s\<lparr>conversationMessages := if_missing c ms (conversationMessages s),
    conversationStreaming := if_missing c no_streaming (conversationStreaming s)\<rparr>)"
  (is "calm s ?t")
proof -
  have "open_answer ?t d" if o: "open_answer s d" for d
  proof -
    from open_answer_listed [OF o] obtain us where "map_of (conversationMessages s) d = Some us" ..
    then have "messages_of ?t d = messages_of s d" by (simp add: messages_of_def if_missing_reads)
    with o show ?thesis by (simp add: open_answer_def)
  qed
  moreover have "streaming_of ?t d = streaming_of s d" for d
    by (auto simp: streaming_of_def if_missing_reads split: option.split)
  ultimately show ?thesis by (simp add: calm_def listening_def)
qed

lemma calm_reset: "calm s (s\<lparr>conversationMessages := AList.update c ms (conversationMessages s),
    conversationStreaming := AList.update c no_streaming (conversationStreaming s)\<rparr>)"
  by (auto simp: calm_def streaming_of_def messages_of_def open_answer_def listening_def update_conv' no_streaming_def)

section \<open>Runs\<close>

text \<open>Requests for the list of conversations carry the barrier of their time; it never falls, and neither does the
  number of the last request whose answer was used.\<close>

definition lists_ok :: "ai_store \<Rightarrow> bool" where
  "lists_ok s \<longleftrightarrow> (\<forall>(r, p) \<in> set (ai_lists s). lr_barrier r \<le> conversationListBarrier s)"

definition lists_forward :: "ai_store \<Rightarrow> ai_store \<Rightarrow> bool" where
  "lists_forward s s' \<longleftrightarrow> conversationListBarrier s \<le> conversationListBarrier s' \<and>
     latestAppliedConversationListRequestId s \<le> latestAppliedConversationListRequestId s' \<and> (lists_ok s \<longrightarrow> lists_ok s')"

definition ai_quiet :: "ai_store \<Rightarrow> ai_store \<Rightarrow> bool" where
  "ai_quiet s s' \<longleftrightarrow> conversationMessages s' = conversationMessages s \<and> conversationStreaming s' = conversationStreaming s \<and>
     conversationListeners s' = conversationListeners s \<and> lists_forward s s'"

inductive ai_step :: "ai_store \<Rightarrow> ai_store \<Rightarrow> bool" where
  st_send: "ai_step s (sendForConversation tabs queueID c content s)"
| st_refused: "ai_step s (send_refused c s)"
| st_queue_refused: "ai_step s (queue_refused c queueID s)"
| st_event: "ai_step s (on_stream_event tabs now hidden c e s)"
| st_flush: "ai_step s (on_flush_timer c s)"
| st_drain: "c \<in> set (ai_drains s) \<Longrightarrow> ai_step s (on_drain_timer tabs queueID c s)"
| st_stop: "ai_step s (stopConversation c s)"
| st_stop_refused: "ai_step s (stop_refused c s)"
| st_replay: "ai_step s (snd (replayConversation tabs queueID c ms content s))"
| st_replay_go: "ai_step s (replay_go tabs queueID c ms content s)"
| st_regenerate: "ai_step s (snd (regenerateConversation tabs queueID c i s))"
| st_remove: "ai_step s (removeFromQueue c i s)"
| st_removed: "ai_step s (queue_removed c itemId removed s)"
| st_clear: "ai_step s (clearQueue c s)"
| st_cleared: "ai_step s (queue_cleared c ids s)"
| st_loaded: "ai_step s (messages_loaded c dms s)"
| st_list: "ai_step s (start_list purpose s)"
| st_listed: "ai_step s (validateSidebarTabs tabs (s\<lparr>conversations := convs\<rparr>))"
| st_new_tab: "ai_step s (snd (openNewSidebarTab i now activate s))"
| st_open: "ai_step s (snd (openSidebarConversationInSidebar i now c activate reuse s))"
| st_bind: "ai_step s (snd (bindSidebarTabToConversation tabs i now tabId c activate s))"
| st_activate: "ai_step s (activateSidebarTab tabId s)"
| st_close: "ai_step s (closeSidebarTab tabs tabId s)"
| st_patch: "ai_step s (patchSidebarTabUiState tabId patch s)"
| st_attach: "ai_step s (attach_sidebar tabId conv s)"
| st_title: "ai_step s (sync_title c title s)"
| st_delete: "ai_step s (delete_sidebar c s)"
| st_clean: "\<not> cs_sending (streaming_of s c) \<Longrightarrow> ai_step s (cleanupConvListener c s)"
| st_unused: "ai_step s (cleanupConversationIfUnused tabs c a b s)"
| st_save: "ai_step s (persistConversationSnapshot c b s)"
| st_missing: "ai_step s (s\<lparr>conversationMessages := if_missing c ms (conversationMessages s),
    conversationStreaming := if_missing c no_streaming (conversationStreaming s)\<rparr>)"
| st_reset: "ai_step s (s\<lparr>conversationMessages := AList.update c ms (conversationMessages s),
    conversationStreaming := AList.update c no_streaming (conversationStreaming s)\<rparr>)"
| st_quiet: "ai_quiet s s' \<Longrightarrow> ai_step s s'"

lemma busy_ok_step: "ai_step s s' \<Longrightarrow> busy_ok s \<Longrightarrow> busy_ok s'"
proof (induction rule: ai_step.induct)
  case (st_drain c s tabs queueID)
  then have "busy_ok (s\<lparr>ai_drains := remove1 c (ai_drains s)\<rparr>)" using busy_ok_calm [OF calm_fields(1)] by blast
  then show ?case unfolding on_drain_timer_def by (rule busy_ok_send)
next
  case (st_event s tabs now hidden c e)
  then show ?case by (auto simp: on_stream_event_def intro: busy_ok_calm [OF calm_event])
next
  case (st_clean s c)
  then show ?case using busy_ok_calm [OF calm_clean] by blast
next
  case (st_listed s tabs convs)
  then show ?case using busy_ok_calm [OF calm_trans [OF calm_conversations calm_validate]] by blast
next
  case (st_quiet s s')
  then show ?case using busy_ok_calm [OF calm_frame] by (simp add: ai_quiet_def)
qed (auto simp: on_flush_timer_def intro: busy_ok_calm [OF calm_missing] busy_ok_calm [OF calm_reset] busy_ok_send busy_ok_replay busy_ok_replay_go busy_ok_regenerate busy_ok_calm calm_intros)

lemma busy_ok_steps: "ai_step\<^sup>*\<^sup>* s s' \<Longrightarrow> busy_ok s \<Longrightarrow> busy_ok s'"
  by (induction rule: rtranclp_induct) (auto intro: busy_ok_step)

lemma busy_can_end:
  assumes "busy_ok s" and "cs_sending (streaming_of s c)" and "ends_answer (se_type e)"
  shows "listening s c \<and>
    (let s' = on_stream_event tabs now hidden c e s
     in \<not> cs_sending (streaming_of s' c) \<and>
       (\<exists>pre dm later. ai_calls s' = ai_calls s @ CA_Save c (pre @ [dm]) # later \<and> dm_role dm = R_assistant \<and>
          dm_content dm = cm_content (last (messages_of s c)) @ sb_content (buffer_of s c) \<and> shown_text dm = dm_content dm))"
proof -
  from assms(1,2) have l: "listening s c" and "open_answer s c" by (auto simp: busy_ok_def)
  then obtain ms a where a: "messages_of s c = ms @ [a]" "open_message a" by (auto simp: open_answer_cases)
  let ?x = "cm_content a @ sb_content (buffer_of s c)"
  have "answer_at s c ms ?x" using a by (auto simp: answer_at_def open_message_def)
  from answer_at_flush [OF answer_at_clear [OF this]] obtain a' where
    f: "messages_of (flushStreamBuffer c (clearRetryStatusOnLastAssistant c s)) c = ms @ [a']" "cm_role a' = R_assistant" "cm_content a' = ?x"
      "blocks_text (cm_blocks a') = ?x" by blast
  have calls: "ai_calls (flushStreamBuffer c (clearRetryStatusOnLastAssistant c s)) = ai_calls s"
    by (simp add: ai_simps clearRetryStatusOnLastAssistant_def Let_def)
  have h: "on_stream_event tabs now hidden c e s =
      handle_flushed (se_type e) tabs now hidden c e (flushStreamBuffer c (clearRetryStatusOnLastAssistant c s))"
    using assms(3) l by (auto simp: on_stream_event_def handleStreamEvent_def ends_answer_def Let_def)
  from end_saved [OF f assms(3), of tabs now hidden] obtain pre dm later where
    r: "\<not> sends (on_stream_event tabs now hidden c e s) c"
      "ai_calls (on_stream_event tabs now hidden c e s) = ai_calls s @ CA_Save c (pre @ [dm]) # later"
      "dm_role dm = R_assistant" "dm_content dm = ?x" "shown_text dm = ?x"
    unfolding h calls by blast
  have last: "cm_content (last (messages_of s c)) = cm_content a" by (simp add: a(1))
  show ?thesis
    unfolding Let_def last
    by (intro conjI l exI [of _ pre] exI [of _ dm] exI [of _ later]) (simp_all only: r not_False_eq_True)
qed

section \<open>An approved tool keeps a conversation running\<close>

lemma visit_append: "visitBlockStatuses v (bs @ cs) \<longleftrightarrow> visitBlockStatuses v bs \<or> visitBlockStatuses v cs"
  by (induction bs) auto

definition ex_approval :: stream_event where
  "ex_approval = (plain_event E_approval_request None)\<lparr>se_confirm_id := Some ''k1'', se_kind := Some AK_single\<rparr>"

definition ex_allow :: stream_event where
  "ex_allow = (plain_event E_approval_result (Some ''allow''))\<lparr>se_confirm_id := Some ''k1''\<rparr>"

definition ex_approved :: ai_store where
  "ex_approved = fold (on_stream_event [] 0 False 7)
     [ex_approval, ex_allow, plain_event E_content (Some ''fine''), plain_event E_done None] ex_sent"

text \<open>the block of an approval that was granted is never settled: neither the end of the answer nor a
  stop touches a block that is no tool, so the conversation has ended, is saved, and still counts as
  running.\<close>
theorem approved_answer_stays_running:
  "\<not> cs_sending (streaming_of ex_approved 7) \<and> getConversationStatus ex_approved (Some 7) = Some SB_running \<and>
   (\<forall>b. b_type b = K_approval \<and> b_status b = Some S_running \<longrightarrow>
      b \<in> set (cm_blocks m) \<longrightarrow> b \<in> set (cm_blocks (done_message m)) \<and> b \<in> set (cm_blocks (stop_message m)))"
proof (intro conjI allI impI)
  show "\<not> cs_sending (streaming_of ex_approved 7)" by code_simp
  show "getConversationStatus ex_approved (Some 7) = Some SB_running" by code_simp
  fix b assume b: "b_type b = K_approval \<and> b_status b = Some S_running" "b \<in> set (cm_blocks m)"
  show "b \<in> set (cm_blocks (done_message m))"
    using b by (auto simp: done_message_def on_blocks_def intro!: rev_image_eqI [of b])
  show "b \<in> set (cm_blocks (stop_message m))"
    using b by (auto simp: stop_message_def on_blocks_def stop_block_def intro!: rev_image_eqI [of b])
qed

theorem approved_answer_stays_running_witness:
  "Block ((plain_block K_approval [])\<lparr>cb_status := Some S_running\<rparr>) None \<in>
     set (cm_blocks (done_message ((assistant_message 0)\<lparr>cm_blocks := [Block ((plain_block K_approval [])\<lparr>cb_status := Some S_running\<rparr>) None]\<rparr>)))"
  using approved_answer_stays_running [of "(assistant_message 0)\<lparr>cm_blocks := [Block ((plain_block K_approval [])\<lparr>cb_status := Some S_running\<rparr>) None]\<rparr>"]
  by (simp add: plain_block_def)

end
