(* ===== verification/AiConversations.thy ===== *)
theory AiConversations
  imports AiRuns
begin

text \<open>
  The conversations of the assistant as the program uses them (\<^verbatim>\<open>stores/aiStore.ts\<close>): their list and
  its answers, renaming, deleting, the AI tabs of the tab store, sending from a tab, the hooks. An operation
  that awaits a call of the backend leaves an entry in \<open>ai_waits\<close> (or, for the list of conversations, in
  \<open>ai_lists\<close>), and the function \<open>..._answered\<close> is the code after the \<open>await\<close>.
\<close>

section \<open>Titles\<close>

text \<open>The default titles are not ASCII: they are given by their UTF-8 bytes.\<close>

definition DEFAULT_CONVERSATION_TITLE :: string where
  "DEFAULT_CONVERSATION_TITLE = [CHR 0xE6, CHR 0x96, CHR 0xB0, CHR 0xE5, CHR 0xAF, CHR 0xB9, CHR 0xE8, CHR 0xAF, CHR 0x9D]"

definition untitled :: string where
  "untitled = [CHR 0xE5, CHR 0xAF, CHR 0xB9, CHR 0xE8, CHR 0xAF, CHR 0x9D]"

definition CONVERSATION_TITLE_MAX_CHARS :: nat where
  "CONVERSATION_TITLE_MAX_CHARS = 50"

definition buildConversationTitle :: "string \<Rightarrow> string" where
  "buildConversationTitle content =
     (let trimmed = trim content
      in if trimmed = [] then DEFAULT_CONVERSATION_TITLE
         else if length trimmed \<le> CONVERSATION_TITLE_MAX_CHARS then trimmed
         else take CONVERSATION_TITLE_MAX_CHARS trimmed)"

section \<open>Requests for the list of conversations\<close>

definition beginConversationRenameVersion :: "int \<Rightarrow> ai_store \<Rightarrow> nat \<times> ai_store" where
  "beginConversationRenameVersion c s =
     (let nextVersion = (case map_of (conversationRenameVersions s) c of None \<Rightarrow> 0 | Some v \<Rightarrow> v) + 1
      in (nextVersion, s\<lparr>conversationRenameVersions := AList.update c nextVersion (conversationRenameVersions s)\<rparr>))"

definition isLatestConversationRename :: "int \<Rightarrow> nat \<Rightarrow> ai_store \<Rightarrow> bool" where
  "isLatestConversationRename c version s \<longleftrightarrow> map_of (conversationRenameVersions s) c = Some version"

definition invalidateConversationListRequests :: "ai_store \<Rightarrow> ai_store" where
  "invalidateConversationListRequests s = s\<lparr>conversationListBarrier := conversationListBarrier s + 1\<rparr>"

definition canApplyConversationListRequest :: "list_request \<Rightarrow> ai_store \<Rightarrow> bool" where
  "canApplyConversationListRequest request s \<longleftrightarrow>
     (if lr_barrier request \<noteq> conversationListBarrier s then False
      else lr_requestId request \<ge> latestAppliedConversationListRequestId s)"

definition markConversationListRequestApplied :: "list_request \<Rightarrow> ai_store \<Rightarrow> ai_store" where
  "markConversationListRequestApplied request s = s\<lparr>latestAppliedConversationListRequestId := lr_requestId request\<rparr>"

definition applyConversationListSnapshot :: "tab list \<Rightarrow> conversation list \<Rightarrow> ai_store \<Rightarrow> ai_store" where
  "applyConversationListSnapshot tabs convs s =
     (let s1 = validateSidebarTabs tabs (s\<lparr>conversations := convs\<rparr>)
      in fold ensureConversationMessagesLoaded (distinct_ids (List.map_filter sd_conversationId (sidebarTabs s1))) s1)"

text \<open>The answer of the backend: a list, \<open>null\<close>, or an error.\<close>

datatype list_answer = LA_list "conversation list" | LA_null | LA_failed

definition fetch_answered :: "tab list \<Rightarrow> list_request \<Rightarrow> list_answer \<Rightarrow> ai_store \<Rightarrow> ai_store" where
  "fetch_answered tabs request answer s =
     (let use = (\<lambda>convs. if canApplyConversationListRequest request s
          then applyConversationListSnapshot tabs convs (markConversationListRequestApplied request s) else s)
      in case answer of LA_list convs \<Rightarrow> use convs | LA_null \<Rightarrow> use [] | LA_failed \<Rightarrow> s)"

definition rename_end :: "int \<Rightarrow> ai_store \<Rightarrow> ai_store" where
  "rename_end c s = s\<lparr>conversationRenameInFlight := removeAll c (conversationRenameInFlight s)\<rparr>"

definition refresh_answered :: "tab list \<Rightarrow> int \<Rightarrow> nat \<Rightarrow> bool \<Rightarrow> list_request \<Rightarrow> list_answer \<Rightarrow> ai_store \<Rightarrow> ai_store" where
  "refresh_answered tabs c version waiting request answer s =
     (let s1 = (case answer of
          LA_list convs \<Rightarrow>
            if \<not> isLatestConversationRename c version s then s
            else if \<not> canApplyConversationListRequest request s then s
            else applyConversationListSnapshot tabs convs (markConversationListRequestApplied request s)
        | _ \<Rightarrow> s)
      in if waiting then rename_end c s1 else s1)"

section \<open>Titles in the tabs\<close>

definition title_patch :: "string \<Rightarrow> tab \<Rightarrow> tab_patch" where
  "title_patch title t =
     \<lparr>tp_label = Some title, tp_icon = None, tp_iconColor = None,
      tp_meta = (case tb_meta t of AIMeta m \<Rightarrow> Some (AIMeta (m\<lparr>am_title := title\<rparr>)) | _ \<Rightarrow> None)\<rparr>"

definition syncConversationTitleLocally :: "int \<Rightarrow> string \<Rightarrow> ai_world \<Rightarrow> ai_world" where
  "syncConversationTitleLocally c title w =
     fold (\<lambda>t. if ai_tab_shows c t then updateTab (tb_id t) (title_patch title t) else id) (open_tabs w)
       (upd_ai (sync_title c title) w)"

definition conversation_title :: "int \<Rightarrow> ai_store \<Rightarrow> string option" where
  "conversation_title c s = map_option cv_Title (find (\<lambda>v. cv_ID v = c) (conversations s))"

definition nonempty_else :: "string \<Rightarrow> string \<Rightarrow> string" where
  "nonempty_else a b = (if a = [] then b else a)"

definition getConversationTitleFallback :: "int \<Rightarrow> ai_world \<Rightarrow> string" where
  "getConversationTitleFallback c w =
     (let sidebarTabTitle = or_text (map_option sd_title (find (\<lambda>t. sd_conversationId t = Some c) (sidebarTabs (ai_of w)))) []
      in if sidebarTabTitle \<noteq> [] then sidebarTabTitle
         else case find (ai_tab_shows c) (open_tabs w) of
             None \<Rightarrow> DEFAULT_CONVERSATION_TITLE
           | Some tab \<Rightarrow>
               (case tb_meta tab of
                  AIMeta m \<Rightarrow> nonempty_else (am_title m) (nonempty_else (tb_label tab) DEFAULT_CONVERSATION_TITLE)
                | _ \<Rightarrow> DEFAULT_CONVERSATION_TITLE))"

definition shouldAutoRenameAfterFirstTurnEdit :: "int \<Rightarrow> string \<Rightarrow> ai_world \<Rightarrow> bool" where
  "shouldAutoRenameAfterFirstTurnEdit c previousFirstUserContent w \<longleftrightarrow>
     (case conversation_title c (ai_of w) of None \<Rightarrow> getConversationTitleFallback c w | Some x \<Rightarrow> x) =
     buildConversationTitle previousFirstUserContent"

text \<open>The open tab of a conversation takes over its title when the answer is done and the list is here.\<close>

definition done_title :: "int \<Rightarrow> ai_world \<Rightarrow> ai_world" where
  "done_title c w =
     (case find (ai_tab_shows c) (open_tabs w) of
        None \<Rightarrow> w
      | Some currentTab \<Rightarrow>
          (case conversation_title c (ai_of w) of
             None \<Rightarrow> w
           | Some title \<Rightarrow> if title \<noteq> tb_label currentTab then updateTab (tb_id currentTab) (title_patch title currentTab) w else w))"

section \<open>Waiting for the backend\<close>

definition wait_for :: "ai_wait \<Rightarrow> ai_call \<Rightarrow> ai_store \<Rightarrow> ai_store" where
  "wait_for a call s = ai_call call (s\<lparr>ai_waits := ai_waits s @ [a]\<rparr>)"

definition answered :: "ai_wait \<Rightarrow> ai_store \<Rightarrow> ai_store" where
  "answered a s = s\<lparr>ai_waits := remove1 a (ai_waits s)\<rparr>"

section \<open>Sending and replaying from the tabs\<close>

definition send :: "string \<Rightarrow> int \<Rightarrow> string \<Rightarrow> ai_world \<Rightarrow> ai_world" where
  "send queueID c content w = upd_ai (sendForConversation (open_tabs w) queueID c content) w"

definition replay :: "string \<Rightarrow> int \<Rightarrow> chat_message list \<Rightarrow> string \<Rightarrow> ai_world \<Rightarrow> ai_world" where
  "replay queueID c nextMessages content w =
     (let (waits, s) = replayConversation (open_tabs w) queueID c nextMessages content (ai_of w)
      in w\<lparr>ap_rest := (if waits then s\<lparr>ai_waits := ai_waits s @ [AW_stop c nextMessages content]\<rparr> else s)\<rparr>)"

definition stop_answered :: "string \<Rightarrow> int \<Rightarrow> chat_message list \<Rightarrow> string \<Rightarrow> ai_world \<Rightarrow> ai_world" where
  "stop_answered queueID c nextMessages content w =
     upd_ai (replay_go (open_tabs w) queueID c nextMessages content \<circ> answered (AW_stop c nextMessages content)) w"

text \<open>The code after the title is up to date.\<close>

definition after_title :: "string \<Rightarrow> int \<Rightarrow> nat \<Rightarrow> rename_then \<Rightarrow> ai_world \<Rightarrow> ai_world" where
  "after_title queueID c version next w =
     (case next of
        RT_return \<Rightarrow> w
      | RT_refresh \<Rightarrow> w
      | RT_send d content \<Rightarrow> send queueID d content w
      | RT_replay d nextMessages content \<Rightarrow> replay queueID d nextMessages content w)"

section \<open>Renaming\<close>

text \<open>\<open>renameConversationInternal\<close> up to the answer of the backend; the result is given when it is known at
  once. An explicit rename (\<open>RT_refresh\<close>) also waits for the list.\<close>

definition renameConversationInternal :: "int \<Rightarrow> string \<Rightarrow> rename_then \<Rightarrow> ai_world \<Rightarrow> bool option \<times> ai_world" where
  "renameConversationInternal c title next w =
     (let normalizedTitle = buildConversationTitle title;
          previousTitle = conversation_title c (ai_of w);
          rollbackTitle = (case previousTitle of None \<Rightarrow> getConversationTitleFallback c w | Some x \<Rightarrow> x)
      in if previousTitle = Some normalizedTitle then (Some True, w)
         else if c \<in> set (conversationRenameInFlight (ai_of w)) then (Some False, w)
         else
           let s0 = ai_of w;
               (renameVersion, s1) = beginConversationRenameVersion c
                 (s0\<lparr>conversationRenameInFlight := c # conversationRenameInFlight s0\<rparr>);
               w1 = syncConversationTitleLocally c normalizedTitle (w\<lparr>ap_rest := invalidateConversationListRequests s1\<rparr>)
           in (None, upd_ai (wait_for (AW_title c renameVersion rollbackTitle next) (CA_Title c normalizedTitle)) w1))"

definition title_answered :: "string \<Rightarrow> int \<Rightarrow> nat \<Rightarrow> string \<Rightarrow> rename_then \<Rightarrow> bool \<Rightarrow> ai_world \<Rightarrow> ai_world" where
  "title_answered queueID c version rollbackTitle next updated w0 =
     (let w = upd_ai (answered (AW_title c version rollbackTitle next)) w0;
          latest = isLatestConversationRename c version (ai_of w);
          w1 = (if updated \<and> latest then upd_ai (start_list (LP_rename c version (next = RT_refresh))) w
                else if latest then syncConversationTitleLocally c rollbackTitle w else w);
          w2 = (if updated \<and> latest \<and> next = RT_refresh then w1 else upd_ai (rename_end c) w1)
      in after_title queueID c version next w2)"

definition renameConversation :: "int \<Rightarrow> string \<Rightarrow> ai_world \<Rightarrow> bool option \<times> ai_world" where
  "renameConversation c title w = renameConversationInternal c title RT_refresh w"

definition updateConversationTitleForMessage :: "string \<Rightarrow> int \<Rightarrow> string \<Rightarrow> rename_then \<Rightarrow> ai_world \<Rightarrow> ai_world" where
  "updateConversationTitleForMessage queueID c content next w =
     (case renameConversationInternal c content next w of
        (Some done_now, w1) \<Rightarrow> after_title queueID c 0 next w1
      | (None, w1) \<Rightarrow> w1)"

definition shouldSyncConversationTitleBeforeSend :: "int \<Rightarrow> string \<Rightarrow> ai_store \<Rightarrow> bool" where
  "shouldSyncConversationTitleBeforeSend c content s \<longleftrightarrow>
     trim content \<noteq> [] \<and> \<not> cs_sending (streaming_of s c) \<and> messages_of s c = []"

definition send_titled :: "string \<Rightarrow> int \<Rightarrow> string \<Rightarrow> ai_world \<Rightarrow> ai_world" where
  "send_titled queueID c content w =
     (if shouldSyncConversationTitleBeforeSend c content (ai_of w)
      then updateConversationTitleForMessage queueID c content (RT_send c content) w
      else send queueID c content w)"

definition first_user :: "chat_message list \<Rightarrow> nat option" where
  "first_user messages = find_index (\<lambda>m. cm_role m = R_user) messages"

definition editAndResendConversation :: "string \<Rightarrow> int \<Rightarrow> int \<Rightarrow> string \<Rightarrow> ai_world \<Rightarrow> ai_world" where
  "editAndResendConversation queueID c messageIndex content w =
     (let messages = messages_of (ai_of w) c
      in if trim content = [] \<or> messages = [] \<or> messageIndex < 0 \<or> messageIndex \<ge> int (length messages) then w
         else
           let k = nat messageIndex; target = messages ! k; truncated = take k messages
           in if cm_role target \<noteq> R_user then w
              else if first_user messages = Some k \<and> shouldAutoRenameAfterFirstTurnEdit c (cm_content target) w
              then updateConversationTitleForMessage queueID c content (RT_replay c truncated content) w
              else replay queueID c truncated content w)"

section \<open>The hooks of the tab store\<close>

definition tab_conversation :: "tab \<Rightarrow> int option" where
  "tab_conversation t =
     (case tb_meta t of
        AIMeta m \<Rightarrow> (case am_conversationId m of None \<Rightarrow> None | Some c \<Rightarrow> if c = 0 then None else Some c)
      | _ \<Rightarrow> None)"

definition close_ai_tab :: "tab list \<Rightarrow> tab \<Rightarrow> ai_store \<Rightarrow> ai_store" where
  "close_ai_tab tabs tab s =
     (if tb_type tab \<noteq> TT_ai then s
      else
        let s1 = (case tab_conversation tab of
            None \<Rightarrow> s
          | Some c \<Rightarrow> cleanupConversationIfUnused tabs c None (Some (tb_id tab)) (persistConversationSnapshot c True s))
        in s1\<lparr>tabStates := removeAll (tb_id tab) (tabStates s1)\<rparr>)"

definition ai_hooks :: "tab list \<Rightarrow> ai_store hooks" where
  "ai_hooks tabs = registerTabCloseHook (close_ai_tab tabs) \<lparr>closeHooks = [], replaceHooks = [], restoreHooks = []\<rparr>"

definition close_tab :: "string \<Rightarrow> ai_world \<Rightarrow> ai_world" where
  "close_tab i w = closeTab (ai_hooks (open_tabs w)) i w"

definition add_tab_state :: "string \<Rightarrow> ai_store \<Rightarrow> ai_store" where
  "add_tab_state i s = s\<lparr>tabStates := (if i \<in> set (tabStates s) then tabStates s else tabStates s @ [i])\<rparr>"

section \<open>Opening AI tabs\<close>

definition ai_tab :: "string \<Rightarrow> int option \<Rightarrow> string \<Rightarrow> tab" where
  "ai_tab i c title =
     \<lparr>tb_id = i, tb_type = TT_ai, tb_label = title, tb_icon = None, tb_iconColor = None,
      tb_meta = AIMeta \<lparr>am_conversationId = c, am_title = title\<rparr>\<rparr>"

definition ai_tab_id :: "int \<Rightarrow> string" where
  "ai_tab_id c = ''ai-'' @ int_str c"

definition open_with :: "int \<Rightarrow> string \<Rightarrow> chat_message list \<Rightarrow> ai_world \<Rightarrow> ai_world" where
  "open_with c title loadedMessages w =
     (let w1 = openTab (ai_tab (ai_tab_id c) (Some c) title) True (upd_ai (forget_stop_request c) w)
      in upd_ai (\<lambda>s. add_tab_state (ai_tab_id c)
           (s\<lparr>conversationMessages := if_missing c loadedMessages (conversationMessages s),
              conversationStreaming := if_missing c no_streaming (conversationStreaming s)\<rparr>)) w1)"

text \<open>\<open>openConversationTab\<close>: messages that are not in memory are loaded first; an error of the load is
  reported to the caller and changes nothing.\<close>

definition openConversationTab :: "int \<Rightarrow> ai_world \<Rightarrow> ai_world" where
  "openConversationTab c w =
     (case find (ai_tab_shows c) (open_tabs w) of
        Some existing \<Rightarrow> activateTab (tb_id existing) w
      | None \<Rightarrow>
          let title = title_of_conversation c untitled (ai_of w)
          in case map_of (conversationMessages (ai_of w)) c of
               Some loadedMessages \<Rightarrow> open_with c title loadedMessages w
             | None \<Rightarrow> upd_ai (wait_for (AW_open c title) (CA_Load c)) w)"

definition open_answered :: "int \<Rightarrow> string \<Rightarrow> display_message list option \<Rightarrow> ai_world \<Rightarrow> ai_world" where
  "open_answered c title loaded w0 =
     (let w = upd_ai (answered (AW_open c title)) w0
      in case loaded of
           None \<Rightarrow> w
         | Some dms \<Rightarrow>
             open_with c title (convertDisplayMessages (ai_uuid (ai_of w)) dms)
               (upd_ai (\<lambda>s. s\<lparr>ai_uuid := ai_uuid s + length dms\<rparr>) w))"

definition openNewConversationTab :: "string \<Rightarrow> ai_world \<Rightarrow> string \<times> ai_world" where
  "openNewConversationTab now w =
     (let tabId = ''ai-new-'' @ now; title = ai_t (ai_of w) ''ai.newConversation''
      in (tabId, upd_ai (add_tab_state tabId) (openTab (ai_tab tabId None title) True w)))"

definition promoteSidebarToTab :: "string option \<Rightarrow> ai_world \<Rightarrow> ai_world" where
  "promoteSidebarToTab tabId w =
     (case (if nonempty tabId then (case tabId of None \<Rightarrow> None | Some i \<Rightarrow> find_sidebar i (ai_of w)) else getActiveSidebarTab (ai_of w)) of
        None \<Rightarrow> w
      | Some targetTab \<Rightarrow>
          (case sd_conversationId targetTab of None \<Rightarrow> w | Some c \<Rightarrow> if c = 0 then w else openConversationTab c w))"

section \<open>Sending from a tab\<close>

text \<open>The new conversation of a blank AI tab; the part of the store is the one of the sidebar, for no tab.\<close>

definition attach_conversation :: "conversation \<Rightarrow> ai_store \<Rightarrow> ai_store" where
  "attach_conversation conv s =
     s\<lparr>conversations := (if list_ex (\<lambda>v. cv_ID v = cv_ID conv) (conversations s) then conversations s else conv # conversations s),
       conversationMessages := if_missing (cv_ID conv) [] (conversationMessages s),
       conversationStreaming := if_missing (cv_ID conv) no_streaming (conversationStreaming s)\<rparr>"

definition attach_tab :: "string \<Rightarrow> conversation \<Rightarrow> ai_world \<Rightarrow> ai_world" where
  "attach_tab tabId conv w =
     (let curLabel = (case find (\<lambda>t. tb_id t = tabId) (open_tabs w) of None \<Rightarrow> [] | Some t \<Rightarrow> tb_label t);
          title = nonempty_else curLabel (nonempty_else (cv_Title conv) DEFAULT_CONVERSATION_TITLE)
      in upd_ai (attach_conversation conv)
           (updateTab tabId \<lparr>tp_label = None, tp_icon = None, tp_iconColor = None,
              tp_meta = Some (AIMeta \<lparr>am_conversationId = Some (cv_ID conv), am_title = title\<rparr>)\<rparr> w))"

definition nothing_to_send :: "string \<Rightarrow> int option \<Rightarrow> ai_store \<Rightarrow> bool" where
  "nothing_to_send content convId s \<longleftrightarrow>
     trim content = [] \<and> (case convId of None \<Rightarrow> True | Some c \<Rightarrow> messages_of s c = [])"

definition sendToTab :: "string \<Rightarrow> string \<Rightarrow> string \<Rightarrow> ai_world \<Rightarrow> ai_world" where
  "sendToTab queueID tabId content w =
     (if tabId \<notin> set (tabStates (ai_of w)) then w
      else case find (\<lambda>t. tb_id t = tabId) (open_tabs w) of
          None \<Rightarrow> w
        | Some existingTab \<Rightarrow>
            (case tb_meta existingTab of
               AIMeta m \<Rightarrow>
                 (if nothing_to_send content (am_conversationId m) (ai_of w) then w
                  else case am_conversationId m of
                      Some c \<Rightarrow> send_titled queueID c content w
                    | None \<Rightarrow> upd_ai (wait_for (AW_create (CF_tab tabId content)) CA_Create) w)
             | _ \<Rightarrow> w))"

definition sendFromSidebarTab :: "string \<Rightarrow> string \<Rightarrow> string \<Rightarrow> ai_world \<Rightarrow> ai_world" where
  "sendFromSidebarTab queueID tabId content w =
     (case find_sidebar tabId (ai_of w) of
        None \<Rightarrow> w
      | Some sidebarTab \<Rightarrow>
          (if nothing_to_send content (sd_conversationId sidebarTab) (ai_of w) then w
           else case sd_conversationId sidebarTab of
               Some c \<Rightarrow> send_titled queueID c content w
             | None \<Rightarrow> upd_ai (wait_for (AW_create (CF_sidebar tabId content)) CA_Create) w))"

text \<open>\<open>createConversationForEmptyHost\<close> after the answer, with what its caller goes on with.\<close>

definition create_answered :: "string \<Rightarrow> create_for \<Rightarrow> conversation option \<Rightarrow> ai_world \<Rightarrow> ai_world" where
  "create_answered queueID for created w0 =
     (let w = upd_ai (answered (AW_create for)) w0
      in case created of
           None \<Rightarrow> w
         | Some conv \<Rightarrow>
             (case for of
                CF_tab tabId content \<Rightarrow> send_titled queueID (cv_ID conv) content (attach_tab tabId conv w)
              | CF_sidebar tabId content \<Rightarrow>
                  send_titled queueID (cv_ID conv) content (upd_ai (attach_sidebar tabId conv) w)))"

definition active_ai_tab :: "ai_world \<Rightarrow> tab option" where
  "active_ai_tab w = find (\<lambda>t. Some (tb_id t) = active_id w \<and> tb_type t = TT_ai) (open_tabs w)"

definition ai_send :: "string \<Rightarrow> string \<Rightarrow> string \<Rightarrow> ai_world \<Rightarrow> ai_world" where
  "ai_send queueID now content w =
     (case active_ai_tab w of
        None \<Rightarrow> (case openNewConversationTab now w of (newTabId, w1) \<Rightarrow> sendToTab queueID newTabId content w1)
      | Some activeTab \<Rightarrow> sendToTab queueID (tb_id activeTab) content w)"

definition ai_clear :: "ai_world \<Rightarrow> ai_world" where
  "ai_clear w = (case active_ai_tab w of None \<Rightarrow> w | Some activeTab \<Rightarrow> close_tab (tb_id activeTab) w)"

definition stopGeneration :: "string \<Rightarrow> ai_world \<Rightarrow> ai_world" where
  "stopGeneration tabId w =
     (case find (\<lambda>t. tb_id t = tabId) (open_tabs w) of
        None \<Rightarrow> w
      | Some tab \<Rightarrow> (case tab_conversation tab of None \<Rightarrow> w | Some c \<Rightarrow> upd_ai (ai_call (CA_Stop c)) w))"

definition regenerate_conversation :: "string \<Rightarrow> int \<Rightarrow> int \<Rightarrow> ai_world \<Rightarrow> ai_world" where
  "regenerate_conversation queueID c messageIndex w =
     (let messages = messages_of (ai_of w) c
      in if messageIndex < 0 \<or> messageIndex \<ge> int (length messages) then w
         else replay queueID c (take (nat messageIndex) messages) [] w)"

definition regenerate :: "string \<Rightarrow> string \<Rightarrow> int \<Rightarrow> ai_world \<Rightarrow> ai_world" where
  "regenerate queueID tabId messageIndex w =
     (case find (\<lambda>t. tb_id t = tabId) (open_tabs w) of
        None \<Rightarrow> w
      | Some tab \<Rightarrow>
          (case tb_meta tab of
             AIMeta m \<Rightarrow> (case am_conversationId m of None \<Rightarrow> w | Some c \<Rightarrow> regenerate_conversation queueID c messageIndex w)
           | _ \<Rightarrow> w))"

section \<open>The provider, deleting, the answers of the list\<close>

definition checkConfigured :: "ai_store \<Rightarrow> ai_store" where
  "checkConfigured s = wait_for AW_provider CA_Provider s"

text \<open>The active provider and its model, none, or an error.\<close>

datatype provider_answer = PA_active string string | PA_none | PA_failed

definition provider_answered :: "provider_answer \<Rightarrow> ai_store \<Rightarrow> ai_store" where
  "provider_answered answer s0 =
     (let s = answered AW_provider s0
      in case answer of
           PA_active name model \<Rightarrow> s\<lparr>configured := True, providerName := name, modelName := model\<rparr>
         | PA_none \<Rightarrow> s\<lparr>configured := False, providerName := [], modelName := []\<rparr>
         | PA_failed \<Rightarrow> s\<lparr>configured := False\<rparr>)"

definition deleteConversation :: "int \<Rightarrow> ai_store \<Rightarrow> ai_store" where
  "deleteConversation c s = wait_for (AW_delete c) (CA_Delete c) s"

definition deleted :: "int \<Rightarrow> ai_world \<Rightarrow> ai_world" where
  "deleted c w =
     (let openAITabIds = map tb_id (filter (ai_tab_shows c) (open_tabs w));
          w1 = upd_ai (delete_sidebar c \<circ> invalidateConversationListRequests) w;
          w2 = fold close_tab openAITabIds w1
      in upd_ai (start_list LP_fetch \<circ> cleanupConvListener c) w2)"

definition delete_answered :: "int \<Rightarrow> bool \<Rightarrow> ai_world \<Rightarrow> ai_world" where
  "delete_answered c ok w0 =
     (let w = upd_ai (answered (AW_delete c)) w0 in if ok then deleted c w else w)"

section \<open>Restoring the AI tabs\<close>

text \<open>The loop over the restored tabs, as far as it gets without an answer of the backend: it stops at a tab
  whose messages are loaded, and goes on with \<open>restore_answered\<close>. The conversations are the ones in the store
  when the provider was known.\<close>

fun restore_tabs :: "conversation list \<Rightarrow> tab list \<Rightarrow> ai_world \<Rightarrow> ai_world" where
  "restore_tabs convs [] w = w"
| "restore_tabs convs (tab # tabs) w =
     (case tab_conversation tab of
        None \<Rightarrow> restore_tabs convs tabs (upd_ai (add_tab_state (tb_id tab)) w)
      | Some c \<Rightarrow>
          if \<not> list_ex (\<lambda>v. cv_ID v = c) convs then restore_tabs convs tabs (close_tab (tb_id tab) w)
          else upd_ai (wait_for (AW_restore convs (tab # tabs)) (CA_Load c)) w)"

definition restored :: "tab \<Rightarrow> int \<Rightarrow> display_message list \<Rightarrow> ai_store \<Rightarrow> ai_store" where
  "restored tab c dms s =
     add_tab_state (tb_id tab)
       (s\<lparr>conversationMessages := AList.update c (convertDisplayMessages (ai_uuid s) dms) (conversationMessages s),
          conversationStreaming := AList.update c no_streaming (conversationStreaming s),
          ai_uuid := ai_uuid s + length dms\<rparr>)"

definition restored_title :: "conversation list \<Rightarrow> tab \<Rightarrow> int \<Rightarrow> ai_world \<Rightarrow> ai_world" where
  "restored_title convs tab c w =
     (case find (\<lambda>v. cv_ID v = c) convs of
        None \<Rightarrow> w
      | Some v \<Rightarrow> if cv_Title v \<noteq> tb_label tab then updateTab (tb_id tab) (title_patch (cv_Title v) tab) w else w)"

definition restore_answered :: "conversation list \<Rightarrow> tab list \<Rightarrow> display_message list option \<Rightarrow> ai_world \<Rightarrow> ai_world" where
  "restore_answered convs waiting loaded w0 =
     (let w = upd_ai (answered (AW_restore convs waiting)) w0
      in case waiting of
           [] \<Rightarrow> w
         | tab # tabs \<Rightarrow>
             restore_tabs convs tabs
               (case (loaded, tab_conversation tab) of
                  (Some dms, Some c) \<Rightarrow> restored_title convs tab c (upd_ai (restored tab c dms) w)
                | _ \<Rightarrow> close_tab (tb_id tab) w))"

definition restoreAITabs :: "tab list \<Rightarrow> ai_store \<Rightarrow> ai_store" where
  "restoreAITabs tabs s = wait_for (AW_restore_provider tabs) CA_Provider s"

definition restore_provider_answered :: "tab list \<Rightarrow> provider_answer \<Rightarrow> ai_store \<Rightarrow> ai_store" where
  "restore_provider_answered tabs answer s0 =
     (let s = answered (AW_restore_provider tabs) s0
      in case answer of
           PA_active name model \<Rightarrow> start_list (LP_restore (conversations s) tabs) (s\<lparr>configured := True\<rparr>)
         | _ \<Rightarrow> s)"

section \<open>The answer of the list of conversations\<close>

definition list_answered :: "list_request \<Rightarrow> list_purpose \<Rightarrow> list_answer \<Rightarrow> ai_world \<Rightarrow> ai_world" where
  "list_answered request purpose answer w0 =
     (let w = upd_ai (\<lambda>s. s\<lparr>ai_lists := remove1 (request, purpose) (ai_lists s)\<rparr>) w0;
          fetched = upd_ai (fetch_answered (open_tabs w) request answer) w
      in case purpose of
           LP_fetch \<Rightarrow> fetched
         | LP_done c \<Rightarrow> done_title c fetched
         | LP_rename c version waiting \<Rightarrow> upd_ai (refresh_answered (open_tabs w) c version waiting request answer) w
         | LP_restore convs tabs \<Rightarrow> restore_tabs convs tabs fetched)"

section \<open>Saving everything when the window goes\<close>

definition flushAllConversations :: "ai_store \<Rightarrow> ai_store" where
  "flushAllConversations s = fold (\<lambda>c. if c = 0 then id else persistConversationSnapshot c True) (map fst (conversationMessages s)) s"

text \<open>The backend waits for the second: it is told when every save has been answered, whatever the answers.\<close>

definition flushAllConversationsAsync :: "ai_store \<Rightarrow> ai_store" where
  "flushAllConversationsAsync s = flushAllConversations s"

definition flush_saved :: "ai_store \<Rightarrow> ai_store" where
  "flush_saved s = ai_call CA_FlushDone s"

section \<open>Sending on Enter\<close>

definition getAISendOnEnter :: "string option \<Rightarrow> bool" where
  "getAISendOnEnter stored = (case stored of None \<Rightarrow> True | Some v \<Rightarrow> v = ''true'')"

definition setAISendOnEnter :: "bool \<Rightarrow> string option" where
  "setAISendOnEnter b = Some (if b then ''true'' else ''false'')"

section \<open>The requests go forward\<close>

definition lists :: "ai_store \<Rightarrow> nat \<times> nat \<times> (list_request \<times> list_purpose) list" where
  "lists s = (conversationListBarrier s, latestAppliedConversationListRequestId s, ai_lists s)"

named_theorems lists_simps \<open>operations that leave the requests for lists alone\<close>

lemma lists_forward_same: "lists s' = lists s \<Longrightarrow> lists_forward s s'"
  by (simp add: lists_def lists_forward_def lists_ok_def)

lemma lists_forward_trans: "lists_forward s s' \<Longrightarrow> lists_forward s' s'' \<Longrightarrow> lists_forward s s''"
  by (auto simp: lists_forward_def)

lemma lists_plain [lists_simps]:
  "lists (ai_call x s) = lists s" "lists (cleanupStreamBuffer c s) = lists s" "lists (cleanupConvListener c s) = lists s"
  "lists (forget_stop_request c s) = lists s" "lists (stop_refused c s) = lists s" "lists (buffer_event c said thought s) = lists s"
  "lists (add_tab_state i s) = lists s" "lists (clearLegacySidebarKeys s) = lists s" "lists (rename_end c s) = lists s"
  "lists (answered a s) = lists s"
  "lists (scheduleSidebarPersist ts act s) = lists s"
  by (simp_all add: lists_def ai_call_def cleanupStreamBuffer_def cleanupConvListener_def forget_stop_request_def stop_refused_def
      buffer_event_def add_tab_state_def clearLegacySidebarKeys_def rename_end_def answered_def
      scheduleSidebarPersist_def Let_def)

lemma lists_fields [lists_simps]:
  "lists (s\<lparr>conversationMessages := m\<rparr>) = lists s" "lists (s\<lparr>conversationStreaming := st\<rparr>) = lists s" "lists (s\<lparr>ai_uuid := u\<rparr>) = lists s"
  "lists (s\<lparr>ai_drains := dr\<rparr>) = lists s" "lists (s\<lparr>ai_waits := wt\<rparr>) = lists s" "lists (s\<lparr>conversations := cv\<rparr>) = lists s"
  "lists (s\<lparr>conversationListeners := ls\<rparr>) = lists s" "lists (s\<lparr>conversationStopRequests := sr\<rparr>) = lists s"
  "lists (s\<lparr>streamBuffers := sb\<rparr>) = lists s" "lists (s\<lparr>sidebarPersistTimer := pt\<rparr>) = lists s"
  "lists (s\<lparr>sidebarPersistPending := pp\<rparr>) = lists s" "lists (s\<lparr>ls_sidebarTabs := lt, ls_sidebarActive := la\<rparr>) = lists s"
  "lists (s\<lparr>sidebarTabs := ts, activeSidebarTabId := act\<rparr>) = lists s" "lists (s\<lparr>activeSidebarTabId := act\<rparr>) = lists s"
  "lists (s\<lparr>sidebarTabs := ts\<rparr>) = lists s" "lists (s\<lparr>tabStates := tst\<rparr>) = lists s" "lists (s\<lparr>configured := cf\<rparr>) = lists s"
  "lists (s\<lparr>conversationRenameInFlight := rif\<rparr>) = lists s" "lists (s\<lparr>conversationRenameVersions := rv\<rparr>) = lists s"
  by (simp_all add: lists_def)

lemma lists_composed [lists_simps]:
  "lists (updateConversation c m b q s) = lists s" "lists (persistConversationSnapshot c streaming s) = lists s"
  "lists (flushStreamBuffer c s) = lists s" "lists (invalidateConvListenerForReplay c s) = lists s"
  "lists (cleanupConversationIfUnused tabs c i1 i2 s) = lists s" "lists (ensureConversationMessagesLoaded c s) = lists s"
  "lists (messages_loaded c dms s) = lists s" "lists (listen c s) = lists s" "lists (persistSidebarTabs ts act s) = lists s"
  by (auto simp: lists_simps updateConversation_def persistConversationSnapshot_def flushStreamBuffer_def invalidateConvListenerForReplay_def
      getOrCreateConvListener_def cleanupConversationIfUnused_def ensureConversationMessagesLoaded_def messages_loaded_def listen_def
      persistSidebarTabs_def Let_def split: option.split)

lemma lists_sidebar [lists_simps]: "lists (flushSidebarPersist s) = lists s" "lists (set_sidebar ts act s) = lists s" "lists (set_active_sidebar act s) = lists s"
  by (simp_all add: lists_simps flushSidebarPersist_def set_sidebar_def set_active_sidebar_def Let_def split: option.split)

lemma lists_fold: "(\<And>x s. lists (f x s) = lists s) \<Longrightarrow> lists (fold f xs s) = lists s"
  by (induction xs arbitrary: s) simp_all

lemma lists_sidebar_ops [lists_simps]:
  "lists (activateSidebarTab i s) = lists s" "lists (activate_found i activate s) = lists s" "lists (snd (openNewSidebarTab i now activate s)) = lists s"
  "lists (snd (openSidebarConversationInSidebar i now c activate reuse s)) = lists s"
  "lists (closeSidebarTab tabs i s) = lists s" "lists (patchSidebarTabUiState i patch s) = lists s"
  "lists (sync_title c title s) = lists s" "lists (attach_sidebar i conv s) = lists s" "lists (delete_sidebar c s) = lists s"
  by (auto simp: lists_simps activateSidebarTab_def activate_found_def openNewSidebarTab_def openSidebarConversationInSidebar_def
      closeSidebarTab_def patchSidebarTabUiState_def sync_title_def attach_sidebar_def delete_sidebar_def Let_def
      split: option.split bool.split simp del: find_index_None)

lemma lists_bind [lists_simps]: "lists (snd (bindSidebarTabToConversation tabs i now tabId c activate s)) = lists s"
  by (auto simp: lists_simps bindSidebarTabToConversation_def Let_def split: option.split)

lemma lists_validate [lists_simps]: "lists (validateSidebarTabs tabs s) = lists s"
  unfolding validateSidebarTabs_def Let_def by (subst lists_fold) (simp_all add: lists_simps)

lemma lists_stream [lists_simps]:
  "lists (drainQueue tabs c s) = lists s" "lists (clearRetryStatusOnLastAssistant c s) = lists s" "lists (upd_last c f s) = lists s"
  "lists (upd_last_keep c f s) = lists s" "lists (upd_last_end c f s) = lists s" "lists (consume_queue c e s) = lists s"
  "lists (start_generation tabs c ms s) = lists s" "lists (drop_queued c P s) = lists s"
  by (simp_all add: lists_simps drainQueue_def clearRetryStatusOnLastAssistant_def upd_last_def upd_last_keep_def upd_last_end_def
      consume_queue_def start_generation_def drop_queued_def Let_def split: option.split)

lemma lists_sending [lists_simps]:
  "lists (drain_or_clean tabs c s) = lists s" "lists (sendForConversation tabs q c content s) = lists s" "lists (send_refused c s) = lists s"
  "lists (queue_refused c q s) = lists s" "lists (queue_removed c q b s) = lists s" "lists (queue_cleared c qs s) = lists s"
  "lists (removeFromQueue c k s) = lists s" "lists (clearQueue c s) = lists s" "lists (stopConversation c s) = lists s"
  by (simp_all add: lists_simps drain_or_clean_def sendForConversation_def send_refused_def queue_refused_def queue_removed_def queue_cleared_def
      removeFromQueue_def clearQueue_def stopConversation_def Let_def)

lemma lists_replay [lists_simps]:
  "lists (replay_go tabs q c ms content s) = lists s" "lists (snd (replayConversation tabs q c ms content s)) = lists s"
  "lists (snd (regenerateConversation tabs q c i s)) = lists s" "lists (on_drain_timer tabs q c s) = lists s"
  by (simp_all add: lists_simps replay_go_def resetConversationForReplay_def replayConversation_def prepareConversationForReplay_def
      regenerateConversation_def on_drain_timer_def Let_def)

lemma forward_start: "lists_forward s (start_list p s)"
  by (auto simp: start_list_def beginConversationListRequest_def ai_call_def lists_forward_def lists_ok_def Let_def)

lemma forward_ended: "lists s' = lists s \<Longrightarrow> (\<And>s. lists (f s) = lists s) \<Longrightarrow> lists_forward s (f (start_list p s'))"
  by (rule lists_forward_trans [OF lists_forward_trans [OF lists_forward_same forward_start] lists_forward_same])

lemma forward_event: "lists_forward s (on_stream_event tabs now hidden c e s)"
proof -
  have h: "lists s' = lists s \<Longrightarrow> lists_forward s (handle_flushed ty tabs now hidden c e s')" for ty s'
    by (cases ty) (auto simp: lists_simps Let_def intro: lists_forward_same forward_ended split: option.split)
  show ?thesis
    by (auto simp: on_stream_event_def handleStreamEvent_def Let_def lists_simps intro!: h intro: lists_forward_same)
qed

lemma forward_step: "ai_step s s' \<Longrightarrow> lists_forward s s'"
proof (induction rule: ai_step.induct)
  case (st_quiet s s')
  then show ?case by (simp add: ai_quiet_def)
next
  case (st_missing s c ms)
  show ?case by (rule lists_forward_same) (simp add: lists_def)
next
  case (st_reset s c ms)
  show ?case by (rule lists_forward_same) (simp add: lists_def)
qed (auto simp: lists_simps on_flush_timer_def intro: lists_forward_same forward_event forward_start)

lemma forward_steps: "ai_step\<^sup>*\<^sup>* s s' \<Longrightarrow> lists_forward s s'"
  by (induction rule: rtranclp_induct) (auto intro: lists_forward_same lists_forward_trans forward_step)

section \<open>Runs of the program\<close>

text \<open>Every step of the program that concerns the assistant: what the user does, what the backend answers, the
  events and timers; \<open>cs_tabs\<close> is any operation of the tab store. An answer belongs to a call that waits.\<close>

inductive conv_step :: "ai_world \<Rightarrow> ai_world \<Rightarrow> bool" where
  cs_tabs: "conv_step w (run_op (ai_hooks (open_tabs w)) p w)"
| cs_event: "conv_step w (upd_ai (on_stream_event (open_tabs w) now hidden c e) w)"
| cs_flush: "conv_step w (upd_ai (on_flush_timer c) w)"
| cs_drain: "c \<in> set (ai_drains (ai_of w)) \<Longrightarrow> conv_step w (upd_ai (on_drain_timer (open_tabs w) queueID c) w)"
| cs_send_refused: "conv_step w (upd_ai (send_refused c) w)"
| cs_queue_refused: "conv_step w (upd_ai (queue_refused c queueID) w)"
| cs_stop: "conv_step w (upd_ai (stopConversation c) w)"
| cs_stop_refused: "conv_step w (upd_ai (stop_refused c) w)"
| cs_stop_answered: "AW_stop c ms content \<in> set (ai_waits (ai_of w)) \<Longrightarrow> conv_step w (stop_answered queueID c ms content w)"
| cs_send_tab: "conv_step w (sendToTab queueID tabId content w)"
| cs_send_sidebar: "conv_step w (sendFromSidebarTab queueID tabId content w)"
| cs_send: "conv_step w (ai_send queueID now content w)"
| cs_clear: "conv_step w (ai_clear w)"
| cs_create: "AW_create for \<in> set (ai_waits (ai_of w)) \<Longrightarrow> conv_step w (create_answered queueID for created w)"
| cs_edit: "conv_step w (editAndResendConversation queueID c messageIndex content w)"
| cs_regenerate_tab: "conv_step w (regenerate queueID tabId messageIndex w)"
| cs_regenerate: "conv_step w (regenerate_conversation queueID c messageIndex w)"
| cs_stop_tab: "conv_step w (stopGeneration tabId w)"
| cs_rename: "conv_step w (snd (renameConversation c title w))"
| cs_title: "AW_title c version rollbackTitle next \<in> set (ai_waits (ai_of w)) \<Longrightarrow>
    conv_step w (title_answered queueID c version rollbackTitle next updated w)"
| cs_fetch: "conv_step w (upd_ai (start_list LP_fetch) w)"
| cs_list: "(request, purpose) \<in> set (ai_lists (ai_of w)) \<Longrightarrow> conv_step w (list_answered request purpose answer w)"
| cs_delete: "conv_step w (upd_ai (deleteConversation c) w)"
| cs_deleted: "AW_delete c \<in> set (ai_waits (ai_of w)) \<Longrightarrow> conv_step w (delete_answered c ok w)"
| cs_open: "conv_step w (openConversationTab c w)"
| cs_opened: "AW_open c title \<in> set (ai_waits (ai_of w)) \<Longrightarrow> conv_step w (open_answered c title loaded w)"
| cs_new: "conv_step w (snd (openNewConversationTab now w))"
| cs_promote: "conv_step w (promoteSidebarToTab tab w)"
| cs_configured: "conv_step w (upd_ai checkConfigured w)"
| cs_provider: "AW_provider \<in> set (ai_waits (ai_of w)) \<Longrightarrow> conv_step w (upd_ai (provider_answered pa) w)"
| cs_restore: "conv_step w (upd_ai (restoreAITabs tabs) w)"
| cs_restore_provider: "AW_restore_provider tabs \<in> set (ai_waits (ai_of w)) \<Longrightarrow> conv_step w (upd_ai (restore_provider_answered tabs pa) w)"
| cs_restored: "AW_restore convs tabs \<in> set (ai_waits (ai_of w)) \<Longrightarrow> conv_step w (restore_answered convs tabs loaded w)"
| cs_loaded: "CA_Load c \<in> set (ai_calls (ai_of w)) \<Longrightarrow> conv_step w (upd_ai (messages_loaded c dms) w)"
| cs_sidebar_new: "conv_step w (upd_ai (\<lambda>s. snd (openNewSidebarTab i at activate s)) w)"
| cs_sidebar_open: "conv_step w (upd_ai (\<lambda>s. snd (openSidebarConversationInSidebar i at c activate reuse s)) w)"
| cs_sidebar_bind: "conv_step w (upd_ai (\<lambda>s. snd (bindSidebarTabToConversation (open_tabs w) i at tabId c activate s)) w)"
| cs_sidebar_activate: "conv_step w (upd_ai (activateSidebarTab tabId) w)"
| cs_sidebar_close: "conv_step w (upd_ai (closeSidebarTab (open_tabs w) tabId) w)"
| cs_sidebar_patch: "conv_step w (upd_ai (patchSidebarTabUiState tabId patch) w)"
| cs_sidebar_stop: "conv_step w (upd_ai (stopSidebarTab tabId) w)"
| cs_sidebar_flush: "conv_step w (upd_ai flushSidebarPersist w)"
| cs_unqueue: "conv_step w (upd_ai (removeFromQueue c k) w)"
| cs_unqueued: "conv_step w (upd_ai (queue_removed c itemId removed) w)"
| cs_clear_queue: "conv_step w (upd_ai (clearQueue c) w)"
| cs_cleared_queue: "conv_step w (upd_ai (queue_cleared c ids) w)"
| cs_flush_all: "conv_step w (upd_ai flushAllConversations w)"
| cs_flush_saved: "conv_step w (upd_ai flush_saved w)"

text \<open>What a step does to the assistant is a run of its operations.\<close>

abbreviation ai_runs :: "ai_world \<Rightarrow> ai_world \<Rightarrow> bool" where
  "ai_runs w w' \<equiv> ai_step\<^sup>*\<^sup>* (ap_rest w) (ap_rest w')"

named_theorems run_intros \<open>operations that run the assistant\<close>

lemma runs_trans: "ai_step\<^sup>*\<^sup>* s s' \<Longrightarrow> ai_step\<^sup>*\<^sup>* s' s'' \<Longrightarrow> ai_step\<^sup>*\<^sup>* s s''"
  by (rule rtranclp_trans)

lemma rest_tabs [simp]:
  "ap_rest (set_state ts act w) = ap_rest w" "ap_rest (updateTab i p w) = ap_rest w" "ap_rest (openTab t activate w) = ap_rest w"
  "ap_rest (activateTab i w) = ap_rest w" "ap_rest (upd_ai f w) = f (ap_rest w)"
  by (simp_all add: set_state_def updateTab_def openTab_def activateTab_def upd_ai_def Let_def split: option.split)

lemma rest_fold_update [simp]: "ap_rest (fold (\<lambda>t. if P t then updateTab (f t) (g t) else id) ts w) = ap_rest (w :: ai_world)"
  by (induction ts arbitrary: w) simp_all

lemma rest_titles [simp]:
  "ap_rest (syncConversationTitleLocally c title w) = sync_title c title (ap_rest w)" "ap_rest (done_title c w) = ap_rest w"
  "ap_rest (restored_title convs tab c w) = ap_rest w"
  by (simp_all add: syncConversationTitleLocally_def done_title_def restored_title_def split: option.split)

lemma runs_quiet: "conversationMessages s' = conversationMessages s \<Longrightarrow> conversationStreaming s' = conversationStreaming s \<Longrightarrow>
    conversationListeners s' = conversationListeners s \<Longrightarrow> lists_forward s s' \<Longrightarrow> ai_step\<^sup>*\<^sup>* s s'"
  by (rule r_into_rtranclp, rule st_quiet) (simp add: ai_quiet_def)

lemma runs_step [run_intros]: "ai_step s s' \<Longrightarrow> ai_step\<^sup>*\<^sup>* s s'"
  by (rule r_into_rtranclp)

lemma runs_plain [run_intros]:
  "ai_step\<^sup>*\<^sup>* s (ai_call x s)" "ai_step\<^sup>*\<^sup>* s (answered a s)" "ai_step\<^sup>*\<^sup>* s (wait_for a x s)" "ai_step\<^sup>*\<^sup>* s (add_tab_state i s)"
  "ai_step\<^sup>*\<^sup>* s (rename_end c s)" "ai_step\<^sup>*\<^sup>* s (forget_stop_request c s)" "ai_step\<^sup>*\<^sup>* s (flushSidebarPersist s)"
  "ai_step\<^sup>*\<^sup>* s (s\<lparr>ai_waits := ws\<rparr>)" "ai_step\<^sup>*\<^sup>* s (s\<lparr>ai_uuid := u\<rparr>)" "ai_step\<^sup>*\<^sup>* s (s\<lparr>tabStates := ts\<rparr>)"
  "ai_step\<^sup>*\<^sup>* s (ensureConversationMessagesLoaded c s)"
  by (rule runs_quiet; (rule lists_forward_same)?; simp add: lists_simps wait_for_def answered_def add_tab_state_def rename_end_def
      forget_stop_request_def ai_call_def ensureConversationMessagesLoaded_def; simp add: lists_def)+

lemma runs_fold: "(\<And>x s. ai_step\<^sup>*\<^sup>* s (f x s)) \<Longrightarrow> ai_step\<^sup>*\<^sup>* s (fold f xs s)"
  by (induction xs arbitrary: s) (auto intro: runs_trans)

lemma runs_fetched [run_intros]: "ai_step\<^sup>*\<^sup>* s (applyConversationListSnapshot tabs convs s)"
  unfolding applyConversationListSnapshot_def Let_def
  by (rule runs_trans [OF runs_step [OF st_listed] runs_fold]) (rule runs_plain)

lemma runs_mark: "canApplyConversationListRequest r s \<Longrightarrow> ai_step\<^sup>*\<^sup>* s (markConversationListRequestApplied r s)"
  by (rule runs_quiet) (auto simp: markConversationListRequestApplied_def canApplyConversationListRequest_def lists_forward_def lists_ok_def split: if_splits)

lemma runs_applied [run_intros]:
  "canApplyConversationListRequest r s \<Longrightarrow> ai_step\<^sup>*\<^sup>* s (applyConversationListSnapshot tabs convs (markConversationListRequestApplied r s))"
  by (rule runs_trans [OF runs_mark runs_fetched])

lemma runs_answers [run_intros]: "ai_step\<^sup>*\<^sup>* s (fetch_answered tabs r answer s)" "ai_step\<^sup>*\<^sup>* s (refresh_answered tabs c v waiting r answer s)"
  by (auto simp: fetch_answered_def refresh_answered_def Let_def intro: run_intros runs_trans [OF runs_applied runs_plain(5)] split: list_answer.split)

lemma runs_close_hook [run_intros]: "ai_step\<^sup>*\<^sup>* s (close_ai_tab tabs tab s)"
proof -
  have "ai_step\<^sup>*\<^sup>* s (cleanupConversationIfUnused tabs c a b (persistConversationSnapshot c d s))" for c a b d
    by (rule runs_trans [OF runs_step [OF st_save] runs_step [OF st_unused]])
  then show ?thesis
    by (auto simp: close_ai_tab_def Let_def intro: runs_plain runs_trans [OF _ runs_plain(10)] split: option.split)
qed

lemma runs_closing: "ai_step\<^sup>*\<^sup>* s (run_close_hooks (ai_hooks tabs) ts s)"
  by (simp add: run_close_hooks_def ai_hooks_def registerTabCloseHook_def runs_fold runs_close_hook)

lemma no_replace_hooks: "replaceHooks (ai_hooks tabs) = []"
  by (simp add: ai_hooks_def registerTabCloseHook_def)

lemma runs_tab_op: "ai_runs w (run_op (ai_hooks tabs) p w)"
  by (cases p) (auto simp: openTab_def closeTab_def activateTab_def updateTab_def replaceTabId_def reorderTab_def moveTabTo_def closeOtherTabs_def
      closeLeftTabs_def closeRightTabs_def Let_def set_state_def no_replace_hooks intro: runs_closing split: option.split)

lemma runs_close_tab [run_intros]: "ai_runs w (close_tab i w)"
  using runs_tab_op [of w "open_tabs w" "CloseTab i"] by (simp add: close_tab_def)

lemma runs_send [run_intros]: "ai_runs w (send queueID c content w)"
  by (simp add: send_def runs_step st_send)

lemma runs_replay [run_intros]: "ai_runs w (replay queueID c ms content w)"
  using runs_step [OF st_replay [of "ap_rest w" "open_tabs w" queueID c ms content]]
  by (auto simp: replay_def Let_def intro: runs_trans [OF _ runs_plain(8)] split: prod.split)

lemma runs_after_title [run_intros]: "ai_runs w (after_title queueID c version next w)"
  by (auto simp: after_title_def intro: run_intros split: rename_then.split)

lemma forward_rename: "lists_forward s (s\<lparr>conversationRenameInFlight := fs, conversationRenameVersions := vs, conversationListBarrier := conversationListBarrier s + 1\<rparr>)"
  by (auto simp: lists_forward_def lists_ok_def)

lemma runs_rename [run_intros]: "ai_runs w (snd (renameConversationInternal c title next w))"
proof -
  have b: "ai_step\<^sup>*\<^sup>* s (invalidateConversationListRequests (snd (beginConversationRenameVersion c (s\<lparr>conversationRenameInFlight := fs\<rparr>))))" for s fs
    unfolding invalidateConversationListRequests_def beginConversationRenameVersion_def Let_def
    by (rule runs_quiet) (auto simp: lists_forward_def lists_ok_def)
  show ?thesis
    by (auto simp: renameConversationInternal_def Let_def case_prod_beta
        intro: runs_trans [OF runs_trans [OF b runs_step [OF st_title]] runs_plain(3)])
qed

lemma runs_update_title [run_intros]: "ai_runs w (updateConversationTitleForMessage queueID c content next w)"
  using runs_rename [of w c content "next"]
  by (auto simp: updateConversationTitleForMessage_def intro: runs_trans runs_after_title split: prod.split option.split)

lemma runs_send_titled [run_intros]: "ai_runs w (send_titled queueID c content w)"
  by (auto simp: send_titled_def intro: run_intros)

lemma runs_title_answered: "ai_runs w (title_answered queueID c version rollbackTitle next updated w)"
proof -
  have e: "ai_step\<^sup>*\<^sup>* s (rename_end c s')" if "ai_step\<^sup>*\<^sup>* s s'" for s s'
    using that by (rule runs_trans) (rule runs_plain)
  have a: "ai_step\<^sup>*\<^sup>* s (start_list p (answered x s))" "ai_step\<^sup>*\<^sup>* s (sync_title d y (answered x s))" for s p x d y
    by (rule runs_trans [OF runs_plain(2) runs_step [OF st_list]], rule runs_trans [OF runs_plain(2) runs_step [OF st_title]])
  show ?thesis
    unfolding title_answered_def Let_def
    by (rule runs_trans [OF _ runs_after_title]) (auto intro: e a runs_plain)
qed

lemma runs_edit: "ai_runs w (editAndResendConversation queueID c i content w)"
  by (auto simp: editAndResendConversation_def Let_def intro: run_intros)

lemma runs_open_with [run_intros]: "ai_runs w (open_with c title ms w)"
  unfolding open_with_def Let_def rest_tabs
  by (rule runs_trans [OF runs_plain(6) runs_trans [OF runs_step [OF st_missing] runs_plain(4)]])

lemma runs_open [run_intros]: "ai_runs w (openConversationTab c w)"
  by (auto simp: openConversationTab_def Let_def intro: run_intros split: option.split)

lemma runs_opened: "ai_runs w (open_answered c title loaded w)"
proof -
  have "ai_step\<^sup>*\<^sup>* (ap_rest w) (answered x (ap_rest w)\<lparr>ai_uuid := u\<rparr>)" for x u
    by (rule runs_trans [OF runs_plain(2) runs_plain(9)])
  then show ?thesis
    by (auto simp: open_answered_def Let_def intro: runs_plain runs_trans [OF _ runs_open_with] split: option.split)
qed

lemma runs_send_tab [run_intros]: "ai_runs w (sendToTab queueID tabId content w)"
  by (auto simp: sendToTab_def intro: run_intros split: option.split tab_meta.split)

lemma runs_new [run_intros]: "ai_runs w (snd (openNewConversationTab now w))"
  by (simp add: openNewConversationTab_def Let_def runs_plain)

lemma runs_ai_send: "ai_runs w (ai_send queueID now content w)"
proof (cases "active_ai_tab w")
  case None
  have "ai_runs w (sendToTab queueID (fst (openNewConversationTab now w)) content (snd (openNewConversationTab now w)))"
    by (rule runs_trans [OF runs_new runs_send_tab])
  with None show ?thesis by (simp add: ai_send_def case_prod_beta)
qed (simp add: ai_send_def runs_send_tab)

lemma runs_create: "ai_runs w (create_answered queueID for created w)"
proof -
  have a: "ai_step\<^sup>*\<^sup>* s (attach_conversation conv s)" for s conv
  proof -
    let ?s = "s\<lparr>conversationMessages := if_missing (cv_ID conv) [] (conversationMessages s),
       conversationStreaming := if_missing (cv_ID conv) no_streaming (conversationStreaming s)\<rparr>"
    have "attach_conversation conv s = ?s\<lparr>conversations := (if list_ex (\<lambda>v. cv_ID v = cv_ID conv) (conversations s) then conversations s else conv # conversations s)\<rparr>"
      by (simp add: attach_conversation_def)
    also have "ai_step\<^sup>*\<^sup>* ?s \<dots>" by (rule runs_quiet) (simp_all add: lists_forward_same lists_def)
    finally show ?thesis using runs_trans [OF runs_step [OF st_missing]] by blast
  qed
  have s: "ai_step\<^sup>*\<^sup>* s (attach_sidebar i conv (answered x s))" "ai_step\<^sup>*\<^sup>* s (attach_conversation conv (answered x s))" for s x i conv
    by (rule runs_trans [OF runs_plain(2) runs_step [OF st_attach]], rule runs_trans [OF runs_plain(2) a])
  have t: "ai_step\<^sup>*\<^sup>* s (ap_rest w) \<Longrightarrow> ai_step\<^sup>*\<^sup>* s (ap_rest (send_titled queueID c content w))" for s w c content
    by (rule runs_trans [OF _ runs_send_titled])
  show ?thesis
  proof (cases created)
    case (Some conv)
    then show ?thesis
      by (cases "for") (auto simp: create_answered_def attach_tab_def Let_def s intro!: t)
  qed (simp add: create_answered_def Let_def runs_plain)
qed

lemma calm_close_hook: "calm s (close_ai_tab tabs tab s)"
proof -
  have t: "calm s (s\<lparr>tabStates := ts\<rparr>)" for s ts by (rule calm_frame) simp_all
  have "calm s ((cleanupConversationIfUnused tabs c a b (persistConversationSnapshot c d s))\<lparr>tabStates := ts\<rparr>)" for c a b d ts
    by (rule calm_trans [OF calm_trans [OF _ calm_unused] t]) (simp add: calm_intros)
  then show ?thesis by (auto simp: close_ai_tab_def Let_def t split: option.split)
qed

lemma calm_close_tab: "calm (ap_rest w) (ap_rest (close_tab i w))"
  by (auto simp: close_tab_def closeTab_def run_close_hooks_def ai_hooks_def registerTabCloseHook_def Let_def set_state_def calm_refl calm_close_hook split: option.split)

lemma runs_deleted: "ai_runs w (delete_answered c ok w)"
proof -
  have i: "ai_step\<^sup>*\<^sup>* s (invalidateConversationListRequests (answered x s))" for s x
    unfolding invalidateConversationListRequests_def answered_def
    by (rule runs_quiet) (auto simp: lists_forward_def lists_ok_def)
  have f: "ai_runs w (fold close_tab ids w) \<and> calm (ap_rest w) (ap_rest (fold close_tab ids w))" for ids w
    by (induction ids arbitrary: w) (auto intro: calm_refl runs_trans runs_close_tab calm_trans calm_close_tab)
  have d: "ai_runs w (deleted c (upd_ai (answered (AW_delete c)) w))"
  proof -
    let ?w1 = "upd_ai (delete_sidebar c \<circ> invalidateConversationListRequests) (upd_ai (answered (AW_delete c)) w)"
    obtain w2 where w2: "ai_runs ?w1 w2" "calm (ap_rest ?w1) (ap_rest w2)"
      "ap_rest (deleted c (upd_ai (answered (AW_delete c)) w)) = start_list LP_fetch (cleanupConvListener c (ap_rest w2))"
      using f by (fastforce simp: deleted_def Let_def)
    have r: "ai_runs w ?w1" by (simp add: runs_trans [OF i runs_step [OF st_delete]])
    have "\<not> cs_sending (streaming_of (ap_rest w2) c)"
      using w2(2) not_sends_delete [of c "invalidateConversationListRequests (answered (AW_delete c) (ap_rest w))"] by (auto simp: calm_def)
    from runs_trans [OF runs_trans [OF r w2(1)] runs_trans [OF runs_step [OF st_clean [OF this]] runs_step [OF st_list]]]
    show ?thesis by (simp only: w2(3))
  qed
  show ?thesis using d by (auto simp: delete_answered_def Let_def runs_plain)
qed

lemma runs_restore_tabs [run_intros]: "ai_runs w (restore_tabs convs tabs w)"
proof (induction tabs arbitrary: w)
  case (Cons tab tabs)
  show ?case
  proof (cases "tab_conversation tab")
    case None
    with Cons.IH [of "upd_ai (add_tab_state (tb_id tab)) w"] show ?thesis by (simp add: runs_trans [OF runs_plain(4)])
  next
    case (Some c)
    with Cons.IH [of "close_tab (tb_id tab) w"] show ?thesis by (simp add: runs_plain runs_trans [OF runs_close_tab])
  qed
qed simp

lemma runs_restored: "ai_runs w (restore_answered convs tabs loaded w)"
proof -
  have r: "ai_step\<^sup>*\<^sup>* s (restored tab c dms s)" for tab c dms s
  proof -
    let ?s = "s\<lparr>conversationMessages := AList.update c (convertDisplayMessages (ai_uuid s) dms) (conversationMessages s),
       conversationStreaming := AList.update c no_streaming (conversationStreaming s)\<rparr>"
    have "restored tab c dms s = add_tab_state (tb_id tab) (?s\<lparr>ai_uuid := ai_uuid s + length dms\<rparr>)" by (simp add: restored_def)
    then show ?thesis
      using runs_trans [OF runs_trans [OF runs_step [OF st_reset] runs_plain(9)] runs_plain(4)] by simp
  qed
  have t: "ai_step\<^sup>*\<^sup>* s (ap_rest w) \<Longrightarrow> ai_step\<^sup>*\<^sup>* s (ap_rest (restore_tabs convs tabs w))" for s w convs tabs
    by (rule runs_trans [OF _ runs_restore_tabs])
  have c: "ai_step\<^sup>*\<^sup>* s (ap_rest (close_tab i (upd_ai (answered x) w)))" if "s = ap_rest w" for s i x and w :: ai_world
    using runs_trans [OF runs_plain(2) runs_close_tab [of "upd_ai (answered x) w", unfolded rest_tabs]] that by simp
  show ?thesis
    by (auto simp: restore_answered_def Let_def c runs_plain runs_trans [OF runs_plain(2) r] intro!: t split: list.split option.split)
qed

lemma runs_list_answered: "ai_runs w (list_answered request purpose answer w)"
proof -
  have q: "ai_step\<^sup>*\<^sup>* s (s\<lparr>ai_lists := remove1 x (ai_lists s)\<rparr>)" for s x
    by (rule runs_quiet) (auto simp: lists_forward_def lists_ok_def dest: notin_set_remove1)
  have f: "ai_step\<^sup>*\<^sup>* s (fetch_answered tabs r answer (s\<lparr>ai_lists := remove1 x (ai_lists s)\<rparr>))"
    "ai_step\<^sup>*\<^sup>* s (refresh_answered tabs c v waiting r answer (s\<lparr>ai_lists := remove1 x (ai_lists s)\<rparr>))" for s tabs r x c v waiting
    by (rule runs_trans [OF q runs_answers(1)], rule runs_trans [OF q runs_answers(2)])
  show ?thesis
    by (cases purpose) (auto simp: list_answered_def Let_def f intro: runs_trans [OF _ runs_restore_tabs])
qed

lemma runs_provider: "ai_step\<^sup>*\<^sup>* s (provider_answered pa s)" "ai_step\<^sup>*\<^sup>* s (restore_provider_answered tabs pa s)"
proof -
  have q: "ai_step\<^sup>*\<^sup>* s (answered a s\<lparr>configured := b\<rparr>)" "ai_step\<^sup>*\<^sup>* s (answered a s\<lparr>configured := b, providerName := n, modelName := m\<rparr>)" for s a b n m
    by (rule runs_quiet; (rule lists_forward_same)?; simp add: answered_def; simp add: lists_def)+
  show "ai_step\<^sup>*\<^sup>* s (provider_answered pa s)" by (auto simp: provider_answered_def Let_def q split: provider_answer.split)
  show "ai_step\<^sup>*\<^sup>* s (restore_provider_answered tabs pa s)"
    by (auto simp: restore_provider_answered_def Let_def runs_plain intro: runs_trans [OF q(1) runs_step [OF st_list]] split: provider_answer.split)
qed

lemma runs_flush_all: "ai_step\<^sup>*\<^sup>* s (flushAllConversations s)"
  unfolding flushAllConversations_def by (rule runs_fold) (auto intro: runs_step st_save)

lemma runs_drain: "c \<in> set (ai_drains s) \<Longrightarrow> ai_step\<^sup>*\<^sup>* s (on_drain_timer tabs queueID c s)"
  by (rule runs_step) (rule st_drain)

lemma runs_conv_step: "conv_step w w' \<Longrightarrow> ai_runs w w'"
proof (induction rule: conv_step.induct)
  case (cs_promote w tab)
  show ?case by (auto simp: promoteSidebarToTab_def runs_open split: option.split)
next
  case (cs_stop_answered c ms content w queueID)
  show ?case by (simp add: stop_answered_def runs_trans [OF runs_plain(2) runs_step [OF st_replay_go]])
next
  case (cs_regenerate_tab w queueID tabId messageIndex)
  show ?case by (auto simp: regenerate_def regenerate_conversation_def Let_def runs_replay split: option.split tab_meta.split)
qed (auto simp: runs_tab_op runs_drain runs_send_tab runs_ai_send runs_create runs_edit runs_title_answered runs_list_answered runs_deleted runs_open
      runs_opened runs_new runs_provider runs_restored runs_flush_all runs_plain runs_close_tab runs_rename runs_step [OF st_list] sendFromSidebarTab_def
      ai_clear_def regenerate_conversation_def Let_def runs_replay stopGeneration_def renameConversation_def deleteConversation_def checkConfigured_def
      restoreAITabs_def stopSidebarTab_def flush_saved_def runs_send_titled
      intro: runs_step ai_step.intros split: option.split)

lemma runs_conv_steps: "conv_step\<^sup>*\<^sup>* w w' \<Longrightarrow> ai_runs w w'"
  by (induction rule: rtranclp_induct) (auto intro: runs_trans runs_conv_step)

section \<open>Properties\<close>

subsection \<open>A conversation that is sending can end\<close>

text \<open>C23: over every run of the program a conversation that is sending stays reachable by its events: its
  listener is subscribed and of the current generation, and its last message is the open answer. So
  whenever the event that ends the answer arrives, the conversation stops sending and the answer is saved,
  with all of the text that has arrived.\<close>
theorem sending_conversation_can_end:
  assumes "conv_step\<^sup>*\<^sup>* w0 w" and "\<forall>c. \<not> cs_sending (streaming_of (ai_of w0) c)"
    and "cs_sending (streaming_of (ai_of w) c)" and "ends_answer (se_type e)"
  shows "listening (ai_of w) c \<and>
    (let s' = on_stream_event (open_tabs w) now hidden c e (ai_of w)
     in \<not> cs_sending (streaming_of s' c) \<and>
       (\<exists>pre dm later. ai_calls s' = ai_calls (ai_of w) @ CA_Save c (pre @ [dm]) # later \<and> dm_role dm = R_assistant \<and>
          dm_content dm = cm_content (last (messages_of (ai_of w) c)) @ sb_content (buffer_of (ai_of w) c) \<and>
          shown_text dm = dm_content dm))"
proof -
  have "busy_ok (ai_of w0)" using assms(2) by (simp add: busy_ok_def)
  then have "busy_ok (ai_of w)" by (rule busy_ok_steps [OF runs_conv_steps [OF assms(1)]])
  then show ?thesis by (rule busy_can_end [OF _ assms(3,4)])
qed

definition ex_conversation :: ai_store where
  "ex_conversation = ai_empty\<lparr>sidebarTabs := [createSidebarTab id ''t1'' 0 (Some 7) (Some ''old'') None], activeSidebarTabId := Some ''t1'',
     conversationMessages := [(7, [user_message 0 None ''old''])]\<rparr>"

definition ex_app :: "ai_store \<Rightarrow> ai_world" where
  "ex_app s = startup Absent \<lparr>recentIds = [], ls_recent = Absent\<rparr> s"

definition ex_ai_asked :: ai_world where
  "ex_ai_asked = sendFromSidebarTab ''q'' ''t1'' ''hi'' (ex_app ex_conversation)"

theorem sending_conversation_can_end_witness:
  "\<not> cs_sending (streaming_of (on_stream_event (open_tabs ex_ai_asked) 0 False 7 (plain_event E_stopped None) (ai_of ex_ai_asked)) 7)"
proof -
  have r: "conv_step\<^sup>*\<^sup>* (ex_app ex_conversation) ex_ai_asked"
    unfolding ex_ai_asked_def by (rule r_into_rtranclp) (rule cs_send_sidebar)
  have q: "\<forall>c. \<not> cs_sending (streaming_of (ai_of (ex_app ex_conversation)) c)"
    by (simp add: ex_app_def startup_def ex_conversation_def ai_empty_def streaming_of_def no_streaming_def Let_def)
  have b: "cs_sending (streaming_of (ai_of ex_ai_asked) 7)" by code_simp
  show ?thesis
    using sending_conversation_can_end [OF r q b, of "plain_event E_stopped None" 0 False]
    by (simp add: plain_event_def ends_answer_def Let_def)
qed

subsection \<open>Stale lists of conversations\<close>

definition shown_list :: "ai_store \<Rightarrow> conversation list \<times> sidebar_tab list" where
  "shown_list s = (conversations s, sidebarTabs s)"

lemma shown_plain [simp]:
  "shown_list (add_tab_state i s) = shown_list s" "shown_list (wait_for a x s) = shown_list s" "shown_list (ai_call x s) = shown_list s"
  "shown_list (cleanupConvListener c s) = shown_list s" "shown_list (persistConversationSnapshot c b s) = shown_list s"
  "shown_list (s\<lparr>tabStates := ts\<rparr>) = shown_list s" "shown_list (s\<lparr>conversationStopRequests := ps\<rparr>) = shown_list s"
  "shown_list (rename_end c s) = shown_list s" "shown_list (s\<lparr>ai_lists := xs\<rparr>) = shown_list s"
  by (simp_all add: shown_list_def add_tab_state_def wait_for_def ai_call_def cleanupConvListener_def cleanupStreamBuffer_def
      persistConversationSnapshot_def rename_end_def split: option.split)

lemma shown_close_hook [simp]: "shown_list (close_ai_tab tabs tab s) = shown_list s"
  by (simp add: close_ai_tab_def cleanupConversationIfUnused_def Let_def split: option.split)

lemma shown_close_tab [simp]: "shown_list (ap_rest (close_tab i w)) = shown_list (ap_rest w)"
  by (simp add: close_tab_def closeTab_def run_close_hooks_def ai_hooks_def registerTabCloseHook_def Let_def set_state_def split: option.split)

lemma shown_restore_tabs [simp]: "shown_list (ap_rest (restore_tabs convs tabs w)) = shown_list (ap_rest w)"
  by (induction tabs arbitrary: w) (simp_all split: option.split)

lemma stale_answer:
  assumes "\<not> canApplyConversationListRequest request (ai_of w)"
  shows "shown_list (ai_of (list_answered request purpose answer w)) = shown_list (ai_of w)"
proof -
  have "\<not> canApplyConversationListRequest request (ai_of w\<lparr>ai_lists := xs\<rparr>)" for xs
    using assms by (auto simp: canApplyConversationListRequest_def split: if_splits)
  then have "shown_list (fetch_answered tabs request answer (ai_of w\<lparr>ai_lists := xs\<rparr>)) = shown_list (ai_of w)"
    "shown_list (refresh_answered tabs c version waiting request answer (ai_of w\<lparr>ai_lists := xs\<rparr>)) = shown_list (ai_of w)"
    for tabs xs c version waiting
    by (simp_all add: fetch_answered_def refresh_answered_def Let_def split: list_answer.split)
  then show ?thesis by (cases purpose) (simp_all add: list_answered_def Let_def)
qed

lemma deleted_barrier: "conversationListBarrier (ai_of w) < conversationListBarrier (ai_of (delete_answered c True w))"
proof -
  let ?w1 = "upd_ai (delete_sidebar c \<circ> invalidateConversationListRequests) (upd_ai (answered (AW_delete c)) w)"
  have f: "lists_forward (ap_rest w) (ap_rest (fold close_tab ids w))" for ids w
    by (induction ids arbitrary: w) (auto intro: lists_forward_same lists_forward_trans [OF forward_steps [OF runs_close_tab]])
  have "conversationListBarrier (ai_of w) < conversationListBarrier (ap_rest ?w1)"
    using lists_sidebar_ops(9) [of c]
    by (simp add: lists_def invalidateConversationListRequests_def answered_def)
  also have "\<dots> \<le> conversationListBarrier (ai_of (delete_answered c True w))"
  proof -
    let ?w2 = "fold close_tab (map tb_id (filter (ai_tab_shows c) (open_tabs (upd_ai (answered (AW_delete c)) w)))) ?w1"
    have "ai_of (delete_answered c True w) = start_list LP_fetch (cleanupConvListener c (ap_rest ?w2))"
      by (simp add: delete_answered_def deleted_def Let_def)
    moreover have "lists_forward (ap_rest ?w2) (start_list LP_fetch (cleanupConvListener c (ap_rest ?w2)))"
      by (rule lists_forward_trans [OF lists_forward_same forward_start]) (rule lists_plain)
    ultimately have "lists_forward (ap_rest ?w1) (ai_of (delete_answered c True w))"
      using lists_forward_trans [OF f [of ?w1]] by simp
    then show ?thesis by (simp add: lists_forward_def)
  qed
  finally show ?thesis .
qed

lemma renamed_barrier:
  "renameConversation c title w = (None, w1) \<Longrightarrow> conversationListBarrier (ai_of w) < conversationListBarrier (ai_of w1)"
  using lists_sidebar_ops(7) [of c]
  by (auto simp: renameConversation_def renameConversationInternal_def Let_def wait_for_def ai_call_def lists_def case_prod_beta
      invalidateConversationListRequests_def beginConversationRenameVersion_def split: if_splits)

text \<open>C25: a list of conversations that was asked for before a conversation was deleted or renamed, or before a
  list whose answer is already in use, is dropped however late its answer comes: the conversations and the
  tabs of the sidebar stay as they are. So a deleted conversation does not come back, and an old title does
  not replace a new one.\<close>
theorem stale_lists_are_dropped:
  assumes "conv_step\<^sup>*\<^sup>* w0 w" and "ai_lists (ai_of w0) = []" and "(request, purpose) \<in> set (ai_lists (ai_of w))"
    and "w1 = delete_answered c True w \<or> renameConversation c title w = (None, w1) \<or>
      w1 = w \<and> lr_requestId request < latestAppliedConversationListRequestId (ai_of w)"
    and "conv_step\<^sup>*\<^sup>* w1 w2"
  shows "conversations (ai_of (list_answered request purpose answer w2)) = conversations (ai_of w2) \<and>
    sidebarTabs (ai_of (list_answered request purpose answer w2)) = sidebarTabs (ai_of w2)"
proof -
  have "lists_ok (ai_of w0)" using assms(2) by (simp add: lists_ok_def)
  then have "lists_ok (ai_of w)" using forward_steps [OF runs_conv_steps [OF assms(1)]] by (simp add: lists_forward_def)
  with assms(3) have b: "lr_barrier request \<le> conversationListBarrier (ai_of w)" by (auto simp: lists_ok_def)
  have "lr_barrier request < conversationListBarrier (ai_of w1) \<or> lr_requestId request < latestAppliedConversationListRequestId (ai_of w1)"
    using assms(4) b deleted_barrier [of w c] renamed_barrier [of c title w w1] by auto
  with forward_steps [OF runs_conv_steps [OF assms(5)]] have "\<not> canApplyConversationListRequest request (ai_of w2)"
    by (auto simp: lists_forward_def canApplyConversationListRequest_def)
  from stale_answer [OF this, of purpose answer] show ?thesis by (simp add: shown_list_def)
qed

definition ex_listing :: ai_world where
  "ex_listing = upd_ai (start_list LP_fetch) (ex_app (ai_empty\<lparr>conversations := [\<lparr>cv_ID = 7, cv_Title = ''old''\<rparr>]\<rparr>))"

theorem stale_lists_are_dropped_witness:
  "conversations (ai_of (list_answered \<lparr>lr_requestId = 1, lr_barrier = 0\<rparr> LP_fetch (LA_list [\<lparr>cv_ID = 7, cv_Title = ''old''\<rparr>])
     (snd (renameConversation 7 ''new'' ex_listing)))) = [\<lparr>cv_ID = 7, cv_Title = ''new''\<rparr>]"
proof -
  let ?w1 = "snd (renameConversation 7 ''new'' ex_listing)"
  have r: "conv_step\<^sup>*\<^sup>* (ex_app (ai_empty\<lparr>conversations := [\<lparr>cv_ID = 7, cv_Title = ''old''\<rparr>]\<rparr>)) ex_listing"
    unfolding ex_listing_def by (rule r_into_rtranclp) (rule cs_fetch)
  have l: "ai_lists (ai_of (ex_app (ai_empty\<lparr>conversations := [\<lparr>cv_ID = 7, cv_Title = ''old''\<rparr>]\<rparr>))) = []"
    by (simp add: ex_app_def startup_def ai_empty_def Let_def)
  have m: "(\<lparr>lr_requestId = 1, lr_barrier = 0\<rparr>, LP_fetch) \<in> set (ai_lists (ai_of ex_listing))"
    by (simp add: ex_listing_def ex_app_def startup_def ai_empty_def Let_def start_list_def beginConversationListRequest_def ai_call_def)
  have f: "fst (renameConversation 7 ''new'' ex_listing) = None" by code_simp
  then have n: "renameConversation 7 ''new'' ex_listing = (None, ?w1)" by (metis prod.collapse)
  have c: "conversations (ai_of ?w1) = [\<lparr>cv_ID = 7, cv_Title = ''new''\<rparr>]" by code_simp
  show ?thesis
    using stale_lists_are_dropped [OF r l m disjI2 [OF disjI1 [OF n]] rtranclp.rtrancl_refl, of "LA_list [\<lparr>cv_ID = 7, cv_Title = ''old''\<rparr>]"] c
    by simp
qed

subsection \<open>Restored tabs\<close>

lemma tabs_upd_ai [simp]: "open_tabs (upd_ai f w) = open_tabs w"
  by (simp add: upd_ai_def)

lemma open_tabs_close: "t \<in> set (open_tabs (close_tab i w)) \<longleftrightarrow> t \<in> set (open_tabs w) \<and> tb_id t \<noteq> i"
  by (auto simp: close_tab_def closeTab_def Let_def split: option.split)

lemma restore_closes: "t \<in> set (open_tabs (restore_tabs [] tabs w)) \<longleftrightarrow>
    t \<in> set (open_tabs w) \<and> tb_id t \<notin> tb_id ` set (filter (\<lambda>t. tab_conversation t \<noteq> None) tabs)"
  by (induction tabs arbitrary: w) (auto simp: open_tabs_close split: option.split)

lemma open_tabs_fetched: "open_tabs (list_answered request (LP_restore convs tabs) answer w) =
    open_tabs (restore_tabs convs tabs (upd_ai (fetch_answered (open_tabs w) request answer \<circ> (\<lambda>s. s\<lparr>ai_lists := remove1 (request, LP_restore convs tabs) (ai_lists s)\<rparr>)) w))"
  by (simp add: list_answered_def Let_def upd_ai_def)

text \<open>the AI tabs of the last session are compared with the conversations that were in the store when the
  provider was known, not with the list that has just been fetched. At startup there are none, so every
  restored tab of a conversation is closed, whatever the list says; the tabs without one stay.\<close>
theorem restore_closes_conversation_tabs:
  assumes "conversations (ai_of w) = []" and "w1 = upd_ai (restore_provider_answered tabs (PA_active name model)) w"
    and "conv_step\<^sup>*\<^sup>* w1 w2"
  shows "\<exists>request. (request, LP_restore [] tabs) \<in> set (ai_lists (ai_of w1)) \<and>
    set (open_tabs (list_answered request (LP_restore [] tabs) answer w2)) =
      {t \<in> set (open_tabs w2). tb_id t \<notin> tb_id ` set (filter (\<lambda>t. tab_conversation t \<noteq> None) tabs)}"
proof -
  obtain request where "(request, LP_restore [] tabs) \<in> set (ai_lists (ai_of w1))"
    using assms(1,2)
    by (auto simp: restore_provider_answered_def answered_def start_list_def beginConversationListRequest_def ai_call_def Let_def)
  then show ?thesis
    by (intro exI [of _ request]) (auto simp: open_tabs_fetched restore_closes)
qed

theorem restore_closes_conversation_tabs_witness:
  "open_tabs (list_answered \<lparr>lr_requestId = 1, lr_barrier = 0\<rparr> (LP_restore [] [ai_tab ''ai-7'' (Some 7) ''old'']) (LA_list [\<lparr>cv_ID = 7, cv_Title = ''old''\<rparr>])
     (upd_ai (restore_provider_answered [ai_tab ''ai-7'' (Some 7) ''old''] (PA_active ''p'' ''m''))
       (openTab (ai_tab ''ai-7'' (Some 7) ''old'') True (ex_app ai_empty)))) = []"
proof -
  let ?tabs = "[ai_tab ''ai-7'' (Some 7) ''old'']"
  let ?w = "openTab (ai_tab ''ai-7'' (Some 7) ''old'') True (ex_app ai_empty)"
  let ?w1 = "upd_ai (restore_provider_answered ?tabs (PA_active ''p'' ''m'')) ?w"
  have c: "conversations (ai_of ?w) = []" by code_simp
  have t: "open_tabs ?w1 = ?tabs" by code_simp
  have e: "{t \<in> set ?tabs. tb_id t \<notin> tb_id ` set (filter (\<lambda>t. tab_conversation t \<noteq> None) ?tabs)} = {}"
    by (simp add: ai_tab_def tab_conversation_def)
  have l: "ai_lists (ai_of ?w1) = [(\<lparr>lr_requestId = 1, lr_barrier = 0\<rparr>, LP_restore [] ?tabs)]"
    by (simp add: restore_provider_answered_def answered_def start_list_def beginConversationListRequest_def ai_call_def Let_def
        openTab_def ex_app_def startup_def ai_empty_def set_state_def)
  from restore_closes_conversation_tabs [OF c refl rtranclp.rtrancl_refl, of ?tabs "''p''" "''m''" "LA_list [\<lparr>cv_ID = 7, cv_Title = ''old''\<rparr>]"]
  obtain request where r: "(request, LP_restore [] ?tabs) \<in> set (ai_lists (ai_of ?w1))"
    and s: "set (open_tabs (list_answered request (LP_restore [] ?tabs) (LA_list [\<lparr>cv_ID = 7, cv_Title = ''old''\<rparr>]) ?w1)) = {}"
    unfolding t e by blast
  from r have "request = \<lparr>lr_requestId = 1, lr_barrier = 0\<rparr>" unfolding l by simp
  with s show ?thesis by (simp only: set_empty)
qed

subsection \<open>Titles\<close>

lemma trim_cut:
  assumes "length (trim s) > n" and "n > 0"
  shows "trim (take n (trim s)) \<noteq> [] \<and> length (trim (take n (trim s))) \<le> n \<and>
    (trim (take n (trim s)) = take n (trim s) \<longleftrightarrow> \<not> is_space (trim s ! (n - 1)))"
proof -
  let ?t = "take n (trim s)"
  have ne: "?t \<noteq> []" using assms by auto
  have h: "\<not> is_space (hd ?t)" using trimmed_trim [of s] assms by (auto simp: trimmed_def hd_take)
  have l: "last ?t = trim s ! (n - 1)" using assms by (simp add: last_conv_nth [OF ne] min_absorb2)
  have start: "trim_start ?t = ?t" using ne h by (cases ?t) (simp_all add: trim_start_def)
  have rev: "rev (trim ?t) = dropWhile is_space (rev ?t)" by (simp only: trim_def [of ?t] start trim_end_def rev_rev_ident)
  have "\<exists>x\<in>set ?t. \<not> is_space x" using ne h hd_in_set by blast
  then have "trim ?t \<noteq> []" using rev by (metis dropWhile_eq_Nil_conv rev.simps(1) set_rev)
  moreover have "length (trim ?t) \<le> n"
    using length_dropWhile_le [of is_space "rev ?t"] rev by (metis length_rev length_take min.boundedE)
  moreover have "trim ?t = ?t \<longleftrightarrow> \<not> is_space (last ?t)"
  proof
    assume "trim ?t = ?t"
    then show "\<not> is_space (last ?t)" using trimmed_trim [of ?t] ne by (simp add: trimmed_def)
  next
    assume "\<not> is_space (last ?t)"
    with h show "trim ?t = ?t" by (intro trim_id) (simp add: trimmed_def)
  qed
  ultimately show ?thesis by (simp add: l)
qed

text \<open>the title made of a message is not empty, has at most 50 characters and is a beginning of the trimmed
  message, or the default. Making the title of a title changes it exactly when the message was cut after
  a white space, so the title the backend keeps, which normalises what it gets, is then another one.\<close>
theorem title_of_message:
  "buildConversationTitle x \<noteq> [] \<and> length (buildConversationTitle x) \<le> 50 \<and>
   (if trim x = [] then buildConversationTitle x = DEFAULT_CONVERSATION_TITLE
    else \<exists>rest. trim x = buildConversationTitle x @ rest) \<and>
   (buildConversationTitle (buildConversationTitle x) = buildConversationTitle x \<longleftrightarrow>
      \<not> (length (trim x) > 50 \<and> is_space (trim x ! 49)))"
proof (cases "length (trim x) > 50")
  case True
  have b: "buildConversationTitle x = take 50 (trim x)" using True by (auto simp: buildConversationTitle_def CONVERSATION_TITLE_MAX_CHARS_def Let_def)
  have bb: "buildConversationTitle (take 50 (trim x)) = trim (take 50 (trim x))"
    using trim_cut [OF True] by (simp add: buildConversationTitle_def [of "take 50 (trim x)"] CONVERSATION_TITLE_MAX_CHARS_def Let_def)
  have "\<exists>rest. trim x = buildConversationTitle x @ rest" unfolding b by (metis append_take_drop_id)
  moreover have "trim (take 50 (trim x)) = take 50 (trim x) \<longleftrightarrow> \<not> is_space (trim x ! 49)" using trim_cut [OF True] by simp
  moreover have "trim x \<noteq> []" "take 50 (trim x) \<noteq> []" "length (take 50 (trim x)) \<le> 50" using True by auto
  ultimately show ?thesis using True unfolding b bb by (simp only: simp_thms if_False)
next
  case False
  have d: "trim DEFAULT_CONVERSATION_TITLE = DEFAULT_CONVERSATION_TITLE" "length DEFAULT_CONVERSATION_TITLE \<le> 50" "DEFAULT_CONVERSATION_TITLE \<noteq> []"
    by (simp_all add: DEFAULT_CONVERSATION_TITLE_def trim_id trimmed_def is_space_def)
  show ?thesis using False d by (simp add: buildConversationTitle_def CONVERSATION_TITLE_MAX_CHARS_def Let_def)
qed

end
