(* ===== verification/JsNumber.thy ===== *)
theory JsNumber
  imports Prelude Complex_Main "HOL-Library.Log_Nat"
begin

text \<open>
  \<open>Number\<close> of a string, as the forms use it: the grammar of numeric literals, and the rounding of the exact
  value to the nearest double, ties to even. \<open>None\<close> stands for \<open>NaN\<close> and the infinities.
\<close>

section \<open>Rounding\<close>

definition round_half_even :: "rat \<Rightarrow> int" where
  "round_half_even x =
     (let f = \<lfloor>x\<rfloor>; d = x - of_int f
      in if d < 1/2 then f else if d > 1/2 then f + 1 else if even f then f else f + 1)"

definition pow2 :: "int \<Rightarrow> rat" where
  "pow2 e = (if e \<ge> 0 then 2 ^ nat e else 1 / 2 ^ nat (- e))"

text \<open>The binary exponent of a positive number.\<close>

definition exponent_of :: "rat \<Rightarrow> int" where
  "exponent_of a =
     (if a \<ge> 1 then int (floorlog 2 (nat \<lfloor>a\<rfloor>)) - 1 else - int (floorlog 2 (nat \<lceil>1 / a\<rceil> - 1)))"

definition round_double :: "rat \<Rightarrow> rat option" where
  "round_double x =
     (if x = 0 then Some 0
      else
        let u = pow2 (max (exponent_of \<bar>x\<bar>) (- 1022) - 52);
            r = of_int (round_half_even (\<bar>x\<bar> / u)) * u
        in if r \<ge> pow2 1024 then None else Some (if x < 0 then - r else r))"

section \<open>Literals\<close>

definition exponent_part :: "string \<Rightarrow> int option" where
  "exponent_part r =
     (case r of
        [] \<Rightarrow> Some 0
      | c # cs \<Rightarrow>
          if c \<noteq> CHR ''e'' \<and> c \<noteq> CHR ''E'' then None
          else (case cs of
              [] \<Rightarrow> None
            | s # ds \<Rightarrow>
                if s = CHR ''-'' then (if all_digits ds then Some (- int (digits_val ds)) else None)
                else if s = CHR ''+'' then (if all_digits ds then Some (int (digits_val ds)) else None)
                else if all_digits cs then Some (int (digits_val cs)) else None))"

definition unsigned_decimal :: "string \<Rightarrow> rat option" where
  "unsigned_decimal s =
     (let ds = takeWhile is_digit s; r1 = dropWhile is_digit s;
          fs = (case r1 of c # cs \<Rightarrow> if c = CHR ''.'' then takeWhile is_digit cs else [] | [] \<Rightarrow> []);
          r2 = (case r1 of c # cs \<Rightarrow> if c = CHR ''.'' then dropWhile is_digit cs else r1 | [] \<Rightarrow> [])
      in if ds = [] \<and> fs = [] then None
         else map_option (\<lambda>e. let k = e - int (length fs); v = of_nat (digits_val (ds @ fs))
                              in if k \<ge> 0 then v * 10 ^ nat k else v / 10 ^ nat (- k))
                (exponent_part r2))"

definition signed_decimal :: "string \<Rightarrow> rat option" where
  "signed_decimal s =
     (case s of
        [] \<Rightarrow> None
      | c # cs \<Rightarrow>
          if c = CHR ''-'' then map_option uminus (unsigned_decimal cs)
          else if c = CHR ''+'' then unsigned_decimal cs
          else unsigned_decimal s)"

definition radix_digit :: "char \<Rightarrow> nat" where
  "radix_digit c =
     (let n = of_char c :: nat
      in if 48 \<le> n \<and> n \<le> 57 then n - 48 else if 97 \<le> n \<and> n \<le> 122 then n - 87 else if 65 \<le> n \<and> n \<le> 90 then n - 55 else 99)"

definition radix_literal :: "nat \<Rightarrow> string \<Rightarrow> rat option" where
  "radix_literal b ds =
     (if ds \<noteq> [] \<and> list_all (\<lambda>c. radix_digit c < b) ds then Some (of_nat (foldl (\<lambda>n c. b * n + radix_digit c) 0 ds)) else None)"

definition radix_of :: "char \<Rightarrow> nat" where
  "radix_of c = (if c = CHR ''x'' \<or> c = CHR ''X'' then 16 else if c = CHR ''o'' \<or> c = CHR ''O'' then 8
     else if c = CHR ''b'' \<or> c = CHR ''B'' then 2 else 0)"

definition numeric_literal :: "string \<Rightarrow> rat option" where
  "numeric_literal t =
     (case t of
        [] \<Rightarrow> Some 0
      | z # rest \<Rightarrow>
          (case rest of
             [] \<Rightarrow> signed_decimal t
           | x # ds \<Rightarrow> if z = CHR ''0'' \<and> radix_of x \<noteq> 0 then radix_literal (radix_of x) ds else signed_decimal t))"

definition js_number :: "string \<Rightarrow> rat option" where
  "js_number s = Option.bind (numeric_literal (trim s)) round_double"

definition js_is_integer :: "rat option \<Rightarrow> bool" where
  "js_is_integer n = (case n of None \<Rightarrow> False | Some x \<Rightarrow> of_int \<lfloor>x\<rfloor> = x)"

section \<open>Integers\<close>

lemma round_half_even_int [simp]: "round_half_even (of_int n) = n"
  by (simp add: round_half_even_def)

lemma exponent_of_nat:
  assumes "n > 0"
  shows "pow2 (exponent_of (of_nat n)) \<le> of_nat n" and "(of_nat n :: rat) < pow2 (exponent_of (of_nat n) + 1)"
    and "exponent_of (of_nat n) = int (floorlog 2 n) - 1" and "floorlog 2 n > 0"
proof -
  have f: "floorlog 2 n > 0" "2 ^ (floorlog 2 n - 1) \<le> n" "n < 2 ^ floorlog 2 n"
    using assms floorlog_bounds [of n 2] floorlog_eq_zero_iff [of 2 n] by auto
  show e: "exponent_of (of_nat n) = int (floorlog 2 n) - 1" using assms by (simp add: exponent_of_def)
  show "floorlog 2 n > 0" by (rule f)
  have "(of_nat (2 ^ (floorlog 2 n - 1)) :: rat) \<le> of_nat n" "(of_nat n :: rat) < of_nat (2 ^ floorlog 2 n)"
    using f(2,3) by (simp_all only: of_nat_le_iff of_nat_less_iff)
  then show "pow2 (exponent_of (of_nat n)) \<le> of_nat n" "(of_nat n :: rat) < pow2 (exponent_of (of_nat n) + 1)"
    using f(1) by (simp_all add: e pow2_def nat_diff_distrib)
qed

text \<open>Integers up to \<open>2^53\<close> are doubles.\<close>

lemma round_double_nat:
  assumes "n > 0" "n \<le> 2 ^ 53"
  shows "\<exists>u. u = pow2 (max (exponent_of (of_nat n)) (- 1022) - 52) \<and> of_int (round_half_even (of_nat n / u)) * u = of_nat n"
proof -
  note e = exponent_of_nat [OF assms(1)]
  define k where "k = floorlog 2 n - 1"
  have k: "exponent_of (of_nat n) = int k" using e(3,4) by (simp add: k_def)
  have "(of_nat (2 ^ k) :: rat) \<le> of_nat n" using e(1) unfolding k pow2_def by simp
  then have low: "2 ^ k \<le> n" by (simp only: of_nat_le_iff)
  show ?thesis
  proof (cases "k \<le> 52")
    case True
    then have u: "pow2 (max (exponent_of (of_nat n)) (- 1022) - 52) = 1 / 2 ^ (52 - k)"
      unfolding k pow2_def by (auto simp: nat_diff_distrib)
    have "(of_nat n :: rat) / (1 / 2 ^ (52 - k)) = of_int (int n * 2 ^ (52 - k))" by simp
    then have r: "round_half_even (of_nat n / (1 / 2 ^ (52 - k))) = int n * 2 ^ (52 - k)" by (simp only: round_half_even_int)
    show ?thesis unfolding u by (rule exI, rule conjI, rule refl, subst r) simp
  next
    case False
    then have "(2 :: nat) ^ 53 \<le> 2 ^ k" by (intro power_increasing) auto
    with low assms(2) have n: "n = 2 ^ 53" by simp
    with low have "(2 :: nat) ^ k \<le> 2 ^ 53" by simp
    then have "k \<le> 53" by (rule power_le_imp_le_exp [rotated]) simp
    with False have "k = 53" by simp
    then have u: "pow2 (max (exponent_of (of_nat n)) (- 1022) - 52) = 2" unfolding k by (simp add: pow2_def)
    have "(of_nat n :: rat) / 2 = of_int (2 ^ 52)" by (simp add: n)
    then have r: "round_half_even (of_nat n / 2) = 2 ^ 52" by (simp only: round_half_even_int)
    show ?thesis unfolding u by (rule exI, rule conjI, rule refl, subst r) (simp add: n)
  qed
qed

lemma round_double_int:
  assumes "\<bar>n\<bar> \<le> 2 ^ 53"
  shows "round_double (of_int n) = Some (of_int n)"
proof (cases "n = 0")
  case True
  then show ?thesis by (simp add: round_double_def)
next
  case False
  define m where "m = nat \<bar>n\<bar>"
  have m: "m > 0" "m \<le> 2 ^ 53" using False assms by (auto simp: m_def nat_le_iff)
  have a: "\<bar>of_int n :: rat\<bar> = of_nat m" by (simp add: m_def)
  obtain u where u: "u = pow2 (max (exponent_of (of_nat m)) (- 1022) - 52)"
    and r: "of_int (round_half_even (of_nat m / u)) * u = of_nat m"
    using round_double_nat [OF m] by blast
  have "(of_nat m :: rat) \<le> of_nat (2 ^ 53)" using m(2) by (simp only: of_nat_le_iff)
  also have "(of_nat (2 ^ 53) :: rat) < pow2 1024" by (simp add: pow2_def)
  finally have "\<not> pow2 1024 \<le> (of_nat m :: rat)" by simp
  then have "round_double (of_int n) = Some (if n < 0 then - of_nat m else of_nat m)"
    using False unfolding round_double_def a Let_def u [symmetric] r by simp
  then show ?thesis using False by (auto simp: m_def)
qed

lemma no_digits [simp]:
  "\<not> is_digit (CHR ''-'')" "\<not> is_digit (CHR ''+'')" "\<not> is_digit (CHR ''.'')" "\<not> is_digit (CHR ''x'')" "\<not> is_digit (CHR ''X'')"
  "\<not> is_digit (CHR ''o'')" "\<not> is_digit (CHR ''O'')" "\<not> is_digit (CHR ''b'')" "\<not> is_digit (CHR ''B'')"
  "\<not> is_digit (CHR 0x20)" "\<not> is_digit TAB" "\<not> is_digit LF" "\<not> is_digit (CHR 0x0B)" "\<not> is_digit (CHR 0x0C)" "\<not> is_digit CR"
  "\<not> is_digit (CHR 0xA0)"
  by (simp_all add: is_digit_def)

lemma digit_not_special:
  assumes "is_digit c"
  shows "c \<noteq> CHR ''-'' \<and> c \<noteq> CHR ''+'' \<and> c \<noteq> CHR ''.'' \<and> radix_of c = 0 \<and> \<not> is_space c"
proof -
  have "c \<noteq> d" if "\<not> is_digit d" for d using assms that by blast
  then show ?thesis by (simp add: radix_of_def is_space_def)
qed

lemma unsigned_digits:
  assumes "all_digits ds"
  shows "unsigned_decimal ds = Some (of_nat (digits_val ds))"
proof -
  have ds: "takeWhile is_digit ds = ds" "dropWhile is_digit ds = []" "ds \<noteq> []"
    using assms by (auto simp: all_digits_def list_all_iff takeWhile_eq_all_conv dropWhile_eq_Nil_conv)
  show ?thesis unfolding unsigned_decimal_def ds(1,2) using ds(3) by (simp add: exponent_part_def)
qed

lemma trimmed_int_str: "trim (int_str n) = int_str n"
proof (rule trim_id)
  have d: "\<not> is_space (hd (nat_str m)) \<and> \<not> is_space (last (nat_str m)) \<and> nat_str m \<noteq> []" for m
    using all_digits_nat_str [of m] by (auto simp: all_digits_def list_all_iff digit_not_special)
  show "trimmed (int_str n)"
    using d [of "nat n"] d [of "nat (- n)"] by (auto simp: trimmed_def int_str_def is_space_def)
qed

lemma numeric_int_str: "numeric_literal (int_str n) = Some (of_int n)"
proof (cases "n < 0")
  case True
  then show ?thesis using unsigned_digits [OF all_digits_nat_str] all_digits_nat_str [of "nat (- n)"]
    by (auto simp: int_str_def numeric_literal_def signed_decimal_def all_digits_def split: list.split)
next
  case False
  obtain c cs where c: "nat_str (nat n) = c # cs" using all_digits_nat_str [of "nat n"]
    by (cases "nat_str (nat n)") (auto simp: all_digits_def)
  have ds: "is_digit c" "\<forall>x\<in>set cs. is_digit x" using all_digits_nat_str [of "nat n"] by (auto simp: c all_digits_def list_all_iff)
  have "signed_decimal (nat_str (nat n)) = Some (of_int n)"
    using unsigned_digits [OF all_digits_nat_str, of "nat n"] digit_not_special [OF ds(1)] False
    unfolding digits_val_nat_str by (simp add: signed_decimal_def c)
  with False ds digit_not_special show ?thesis
    by (auto simp: int_str_def numeric_literal_def c split: list.split)
qed

lemma js_number_int_str: "\<bar>n\<bar> \<le> 2 ^ 53 \<Longrightarrow> js_number (int_str n) = Some (of_int n)"
  by (simp add: js_number_def trimmed_int_str numeric_int_str round_double_int)

text \<open>Beyond them only even integers are doubles.\<close>

lemma round_double_large:
  assumes "2 ^ 53 < \<bar>n\<bar>" and "round_double (of_int n) = Some x"
  shows "\<exists>m. even m \<and> x = of_int m"
proof -
  define k where "k = nat \<bar>n\<bar>"
  have k: "k > 0" "2 ^ 53 < k" and a: "\<bar>of_int n :: rat\<bar> = of_nat k" using assms(1) by (auto simp: k_def)
  note e = exponent_of_nat [OF k(1)]
  have "k < 2 ^ floorlog 2 k" using floorlog_bounds [of k 2] k(1) by simp
  with k(2) have "(2 :: nat) ^ 53 < 2 ^ floorlog 2 k" by simp
  then have "53 < floorlog 2 k" by (rule power_less_imp_less_exp [rotated]) simp
  then have "54 \<le> floorlog 2 k" by simp
  then obtain i where i: "floorlog 2 k = 54 + i" by (auto simp: le_iff_add)
  then have j: "exponent_of (of_nat k) - 52 = int (Suc i)" by (simp add: e(3))
  then have u: "pow2 (max (exponent_of (of_nat k)) (- 1022) - 52) = of_int (2 ^ Suc i)"
    by (simp add: pow2_def max_def nat_add_distrib)
  from assms(1) have "(of_int n :: rat) \<noteq> 0" by auto
  with assms(2) obtain r :: int where "x = (if n < 0 then - (of_int r * of_int (2 ^ Suc i)) else of_int r * of_int (2 ^ Suc i))"
    unfolding round_double_def a u Let_def by (auto split: if_splits)
  then have "x = of_int (if n < 0 then - (r * 2 ^ Suc i) else r * 2 ^ Suc i)" by simp
  moreover have "even (if n < 0 then - (r * 2 ^ Suc i) else r * 2 ^ Suc i)" by simp
  ultimately show ?thesis by blast
qed

lemma round_double_integer: "round_double (of_int n) = Some x \<Longrightarrow> js_is_integer (Some x)"
  using round_double_int [of n] round_double_large [of n x] by (cases "\<bar>n\<bar> \<le> 2 ^ 53") (auto simp: js_is_integer_def)

lemma js_number_blank: "trim s = [] \<Longrightarrow> js_number s = Some 0"
  by (simp add: js_number_def numeric_literal_def round_double_def)

end
