(* ===== verification/KafkaStore.thy ===== *)
theory KafkaStore
  imports TabStore JsNumber
begin

text \<open>
  The state of the Kafka tabs (\<^verbatim>\<open>stores/kafkaStore.ts\<close>): cluster, brokers, topics, consumer groups, ACLs,
  schemas, connectors, the message browser and the form of a message. A call of the backend leaves an entry
  in \<open>kf_waits\<close> and \<open>..._answered\<close> is the code after the \<open>await\<close>. What only passes through the store, from the
  backend to the panels, is a \<open>jsval\<close>. The boolean fields \<open>loading...\<close>, \<open>...AdminLoading\<close> and
  \<open>producingMessage\<close> are one field \<open>kt_busy\<close>, indexed by their names. A field of a state that is an \<open>option\<close>
  is \<open>undefined\<close> where the code leaves it so, among them every field of a state written by an answer that came
  when the tab was closed. An error that an operation throws again to its caller is added to \<open>kf_thrown\<close>.
\<close>

section \<open>Types\<close>

datatype kafka_view = KV_overview | KV_brokers | KV_topics | KV_consumerGroups | KV_acls | KV_schemas | KV_connect

datatype kafka_start_mode = SM_newest | SM_oldest | SM_offset | SM_timestamp

datatype payload_encoding = PE_text | PE_json | PE_hex | PE_base64

datatype kafka_flag =
    K_overview | K_brokers | K_brokerConfig | K_clusterConfigs | K_topics | K_topicDetail | K_messages | K_producing | K_topicAdmin
  | K_groupAdmin | K_groups | K_groupDetail | K_acls | K_aclAdmin | K_schemaSubjects | K_schemaDetail | K_schemaAdmin
  | K_connectClusters | K_connectors | K_connectorDetail | K_connectAdmin

record acl_filters =
  af_resourceType :: string
  af_resourceName :: string
  af_patternType :: string
  af_principal :: string
  af_host :: string
  af_operation :: string
  af_permission :: string

record message_browser =
  mb_partition :: "string option"
  mb_startMode :: "kafka_start_mode option"
  mb_offset :: "string option"
  mb_timestampMillis :: "string option"
  mb_limit :: "int option"
  mb_maxBytes :: "int option"
  mb_decodeMode :: "payload_encoding option"
  mb_maxWaitMillis :: "int option"
  mb_response :: "jsval option"

record produce_form =
  pf_partition :: "string option"
  pf_key :: "string option"
  pf_value :: "string option"
  pf_headers :: "string option"
  pf_keyEncoding :: "payload_encoding option"
  pf_valueEncoding :: "payload_encoding option"

record schema_versions =
  sv_subject :: string
  sv_versions :: "int list option"

record connect_cluster =
  cc_name :: string
  cc_url :: string

record kafka_tab =
  kt_activeView :: "kafka_view option"
  kt_overview :: "jsval option"
  kt_brokers :: "jsval list option"
  kt_selectedBroker :: "int option"
  kt_brokerConfig :: "jsval option"
  kt_clusterConfigs :: "jsval option"
  kt_topics :: "jsval list option"
  kt_topicsTotal :: "int option"
  kt_topicSearch :: "string option"
  kt_includeInternal :: "bool option"
  kt_selectedTopic :: "string option"
  kt_topicDetail :: "jsval option"
  kt_consumerGroups :: "jsval list option"
  kt_selectedGroup :: "string option"
  kt_groupDetail :: "jsval option"
  kt_acls :: "jsval list option"
  kt_aclsTotal :: "int option"
  kt_aclFilters :: "acl_filters option"
  kt_schemaSubjects :: "string list option"
  kt_selectedSchemaSubject :: "string option"
  kt_schemaVersions :: "schema_versions option"
  kt_schemaDetail :: "jsval option"
  kt_connectClusters :: "connect_cluster list option"
  kt_selectedConnectCluster :: "string option"
  kt_connectors :: "jsval list option"
  kt_selectedConnector :: "string option"
  kt_connectorDetail :: "jsval option"
  kt_messageBrowser :: "message_browser option"
  kt_produceMessage :: "produce_form option"
  kt_busy :: "kafka_flag \<Rightarrow> bool"
  kt_error :: "string option"

record create_topic =
  ct_topic :: string
  ct_partitions :: int
  ct_replicationFactor :: int
  ct_configs :: "(string \<times> string) list option"

record acl_mutation =
  ax_resourceType :: string
  ax_resourceName :: "string option"
  ax_patternType :: "string option"
  ax_principal :: string
  ax_host :: "string option"
  ax_operation :: string
  ax_permission :: string

record topic_config =
  tc_name :: string
  tc_value :: "string option"
  tc_op :: "string option"

record offset_reset =
  or_group :: string
  or_topic :: string
  or_partitions :: "int list option"
  or_mode :: string
  or_offset :: "int option"
  or_timestampMillis :: "int option"

record register_schema =
  rg_subject :: string
  rg_schema :: string
  rg_schemaType :: "string option"
  rg_references :: "(string \<times> string \<times> int) list option"

record delete_schema =
  ds_subject :: string
  ds_version :: "string option"
  ds_permanent :: "bool option"

record connector_config =
  kc_cluster :: "string option"
  kc_name :: string
  kc_config :: "(string \<times> string) list"

record browse_request =
  br_assetId :: int
  br_topic :: string
  br_startMode :: "kafka_start_mode option"
  br_limit :: "int option"
  br_maxBytes :: "int option"
  br_decodeMode :: "payload_encoding option"
  br_maxWaitMillis :: "int option"
  br_partition :: "rat option"
  br_offset :: "rat option"
  br_timestampMillis :: "rat option"

record produce_request =
  pr_assetId :: int
  pr_topic :: string
  pr_key :: "string option"
  pr_keyEncoding :: "payload_encoding option"
  pr_value :: "string option"
  pr_valueEncoding :: "payload_encoding option"
  pr_partition :: "rat option"
  pr_headers :: "jsval list option"

datatype kafka_call =
    KC_ClusterOverview int
  | KC_ListBrokers int
  | KC_GetBrokerConfig int int
  | KC_ListClusterConfigs int
  | KC_ListTopics int "bool option" "string option"
  | KC_GetTopic int string
  | KC_CreateTopic int create_topic
  | KC_DeleteTopic int string
  | KC_AlterTopicConfig int string "topic_config list"
  | KC_IncreasePartitions int string int
  | KC_DeleteRecords int string "(int \<times> int) list"
  | KC_ResetOffset int offset_reset
  | KC_DeleteGroup int string
  | KC_ListACLs int acl_filters
  | KC_CreateACL int acl_mutation
  | KC_DeleteACL int acl_filters
  | KC_ListSchemaSubjects int
  | KC_GetSubjectVersions int string
  | KC_GetSchema int string string
  | KC_CheckCompatibility int register_schema "string option"
  | KC_RegisterSchema int register_schema
  | KC_DeleteSchema int delete_schema
  | KC_ListConnectClusters int
  | KC_ListConnectors int string
  | KC_GetConnector int string string
  | KC_CreateConnector int string connector_config
  | KC_UpdateConnector int string connector_config
  | KC_PauseConnector int string string
  | KC_ResumeConnector int string string
  | KC_RestartConnector int string string "bool option" "bool option"
  | KC_DeleteConnector int string string
  | KC_Browse browse_request
  | KC_Produce produce_request
  | KC_ListGroups int
  | KC_GetGroup int string

text \<open>What an operation that awaits a load does when the load has settled.\<close>

datatype kafka_after = After_none | After_created nat | After_versions string | After_connector string

datatype kafka_op =
    KO_overview kafka_after
  | KO_brokers
  | KO_brokerConfig
  | KO_clusterConfigs
  | KO_topics kafka_after
  | KO_topicDetail
  | KO_createTopic string
  | KO_deleteTopic
  | KO_alterTopic string
  | KO_increasePartitions string
  | KO_deleteRecords
  | KO_resetOffset string
  | KO_deleteGroup
  | KO_acls
  | KO_aclAdmin
  | KO_subjects kafka_after
  | KO_versions string
  | KO_schema string
  | KO_check
  | KO_registerSchema string
  | KO_deleteSchema delete_schema
  | KO_clusters
  | KO_connectors kafka_after
  | KO_connector
  | KO_createConnector string string
  | KO_changeConnector string
  | KO_deleteConnector string
  | KO_browse
  | KO_produce
  | KO_groups
  | KO_group

text \<open>\<open>kf_joins\<close>: the pending \<open>Promise.all\<close> of \<open>createTopic\<close>: tab, topic and how many loads are left.\<close>

record kafka_store =
  kf_states :: "(string \<times> kafka_tab) list"
  kf_waits :: "(string \<times> kafka_op) list"
  kf_joins :: "(nat \<times> string \<times> string \<times> nat) list"
  kf_nextJoin :: nat
  kf_calls :: "kafka_call list"
  kf_thrown :: "(string \<times> string) list"

datatype 'a kafka_reply = KR_ok 'a | KR_failed string

section \<open>Defaults\<close>

definition defaultACLFilters :: acl_filters where
  "defaultACLFilters = \<lparr>af_resourceType = ''any'', af_resourceName = [], af_patternType = ''any'', af_principal = [], af_host = [],
     af_operation = ''any'', af_permission = ''any''\<rparr>"

definition defaultMessageBrowserState :: message_browser where
  "defaultMessageBrowserState = \<lparr>mb_partition = Some [], mb_startMode = Some SM_newest, mb_offset = Some [], mb_timestampMillis = Some [],
     mb_limit = Some 50, mb_maxBytes = Some 4096, mb_decodeMode = Some PE_text, mb_maxWaitMillis = Some 1000, mb_response = None\<rparr>"

definition defaultProduceState :: produce_form where
  "defaultProduceState = \<lparr>pf_partition = Some [], pf_key = Some [], pf_value = Some [], pf_headers = Some [],
     pf_keyEncoding = Some PE_text, pf_valueEncoding = Some PE_text\<rparr>"

text \<open>What spreading \<open>undefined\<close> gives.\<close>

definition no_browser :: message_browser where
  "no_browser = \<lparr>mb_partition = None, mb_startMode = None, mb_offset = None, mb_timestampMillis = None, mb_limit = None, mb_maxBytes = None,
     mb_decodeMode = None, mb_maxWaitMillis = None, mb_response = None\<rparr>"

definition no_form :: produce_form where
  "no_form = \<lparr>pf_partition = None, pf_key = None, pf_value = None, pf_headers = None, pf_keyEncoding = None, pf_valueEncoding = None\<rparr>"

definition no_kafka :: kafka_tab where
  "no_kafka =
     \<lparr>kt_activeView = None, kt_overview = None, kt_brokers = None, kt_selectedBroker = None, kt_brokerConfig = None, kt_clusterConfigs = None,
      kt_topics = None, kt_topicsTotal = None, kt_topicSearch = None, kt_includeInternal = None, kt_selectedTopic = None, kt_topicDetail = None,
      kt_consumerGroups = None, kt_selectedGroup = None, kt_groupDetail = None, kt_acls = None, kt_aclsTotal = None, kt_aclFilters = None,
      kt_schemaSubjects = None, kt_selectedSchemaSubject = None, kt_schemaVersions = None, kt_schemaDetail = None, kt_connectClusters = None,
      kt_selectedConnectCluster = None, kt_connectors = None, kt_selectedConnector = None, kt_connectorDetail = None,
      kt_messageBrowser = None, kt_produceMessage = None, kt_busy = (\<lambda>k. False), kt_error = None\<rparr>"

definition defaultKafkaState :: kafka_tab where
  "defaultKafkaState = no_kafka
     \<lparr>kt_activeView := Some KV_overview, kt_brokers := Some [], kt_topics := Some [], kt_topicsTotal := Some 0, kt_topicSearch := Some [],
      kt_includeInternal := Some False, kt_consumerGroups := Some [], kt_acls := Some [], kt_aclsTotal := Some 0,
      kt_aclFilters := Some defaultACLFilters, kt_schemaSubjects := Some [], kt_connectClusters := Some [], kt_connectors := Some [],
      kt_messageBrowser := Some defaultMessageBrowserState, kt_produceMessage := Some defaultProduceState\<rparr>"

text \<open>An asset id of 0 counts as none.\<close>

definition getKafkaAssetId :: "tab list \<Rightarrow> string \<Rightarrow> int option" where
  "getKafkaAssetId tabs tabId =
     (case find (\<lambda>t. tb_id t = tabId) tabs of
        None \<Rightarrow> None
      | Some tab \<Rightarrow>
          if tb_type tab \<noteq> TT_query then None
          else (case tb_meta tab of
              QueryMeta m \<Rightarrow> if qm_assetType m = QA_kafka \<and> qm_assetId m \<noteq> 0 then Some (qm_assetId m) else None
            | _ \<Rightarrow> None))"

section \<open>Writing a state, awaiting a call\<close>

definition kafka_spread :: "kafka_store \<Rightarrow> string \<Rightarrow> kafka_tab" where
  "kafka_spread q tabId = (case map_of (kf_states q) tabId of None \<Rightarrow> no_kafka | Some st \<Rightarrow> st)"

definition put_kafka :: "string \<Rightarrow> kafka_tab \<Rightarrow> kafka_store \<Rightarrow> kafka_store" where
  "put_kafka tabId st q = q\<lparr>kf_states := set_prop (kf_states q) tabId st\<rparr>"

definition change_kafka :: "string \<Rightarrow> (kafka_tab \<Rightarrow> kafka_tab) \<Rightarrow> kafka_store \<Rightarrow> kafka_store" where
  "change_kafka tabId f q = put_kafka tabId (f (kafka_spread q tabId)) q"

definition ensureTab :: "string \<Rightarrow> kafka_store \<Rightarrow> kafka_store" where
  "ensureTab tabId q = (if map_of (kf_states q) tabId = None then put_kafka tabId defaultKafkaState q else q)"

definition set_busy :: "kafka_flag \<Rightarrow> bool \<Rightarrow> kafka_tab \<Rightarrow> kafka_tab" where
  "set_busy k b st = st\<lparr>kt_busy := (kt_busy st)(k := b)\<rparr>"

definition kafka_await :: "string \<Rightarrow> kafka_op \<Rightarrow> kafka_call \<Rightarrow> kafka_store \<Rightarrow> kafka_store" where
  "kafka_await tabId oper c q = q\<lparr>kf_waits := kf_waits q @ [(tabId, oper)], kf_calls := kf_calls q @ [c]\<rparr>"

definition kafka_settled :: "string \<Rightarrow> kafka_op \<Rightarrow> kafka_store \<Rightarrow> kafka_store" where
  "kafka_settled tabId oper q = q\<lparr>kf_waits := remove1 (tabId, oper) (kf_waits q)\<rparr>"

text \<open>The beginning that the operations share: the asset, the state, the flag, the call.\<close>

definition kafka_begin ::
  "tab list \<Rightarrow> string \<Rightarrow> kafka_flag \<Rightarrow> (kafka_tab \<Rightarrow> kafka_tab) \<Rightarrow> kafka_op \<Rightarrow> (kafka_tab \<Rightarrow> int \<Rightarrow> kafka_call) \<Rightarrow> kafka_store \<Rightarrow> kafka_store" where
  "kafka_begin tabs tabId flag prepare oper request q =
     (case getKafkaAssetId tabs tabId of
        None \<Rightarrow> q
      | Some assetId \<Rightarrow>
          let q1 = ensureTab tabId q; st = kafka_spread q1 tabId
          in kafka_await tabId oper (request st assetId) (change_kafka tabId (\<lambda>s. set_busy flag True (prepare s)) q1))"

definition kafka_done :: "string \<Rightarrow> kafka_flag \<Rightarrow> (kafka_tab \<Rightarrow> kafka_tab) \<Rightarrow> kafka_store \<Rightarrow> kafka_store" where
  "kafka_done tabId flag f = change_kafka tabId (\<lambda>s. (set_busy flag False (f s))\<lparr>kt_error := None\<rparr>)"

definition kafka_failed :: "string \<Rightarrow> kafka_flag \<Rightarrow> string \<Rightarrow> kafka_store \<Rightarrow> kafka_store" where
  "kafka_failed tabId flag err = change_kafka tabId (\<lambda>s. (set_busy flag False s)\<lparr>kt_error := Some err\<rparr>)"

definition kafka_thrown :: "string \<Rightarrow> kafka_flag \<Rightarrow> string \<Rightarrow> kafka_store \<Rightarrow> kafka_store" where
  "kafka_thrown tabId flag err q = (kafka_failed tabId flag err q)\<lparr>kf_thrown := kf_thrown q @ [(tabId, err)]\<rparr>"

definition first_text_of :: "string option \<Rightarrow> string option \<Rightarrow> string" where
  "first_text_of a b = (case a of Some (c # cs) \<Rightarrow> c # cs | _ \<Rightarrow> (case b of Some s \<Rightarrow> s | None \<Rightarrow> []))"

definition clear_response :: "kafka_tab \<Rightarrow> kafka_tab" where
  "clear_response st =
     st\<lparr>kt_messageBrowser := Some ((case kt_messageBrowser st of None \<Rightarrow> no_browser | Some b \<Rightarrow> b)\<lparr>mb_response := None\<rparr>)\<rparr>"

section \<open>Setters\<close>

definition setActiveView :: "string \<Rightarrow> kafka_view \<Rightarrow> kafka_store \<Rightarrow> kafka_store" where
  "setActiveView tabId view q = change_kafka tabId (\<lambda>s. s\<lparr>kt_activeView := Some view\<rparr>) (ensureTab tabId q)"

definition setTopicSearch :: "string \<Rightarrow> string \<Rightarrow> kafka_store \<Rightarrow> kafka_store" where
  "setTopicSearch tabId v q = change_kafka tabId (\<lambda>s. s\<lparr>kt_topicSearch := Some v\<rparr>) (ensureTab tabId q)"

definition setIncludeInternal :: "string \<Rightarrow> bool \<Rightarrow> kafka_store \<Rightarrow> kafka_store" where
  "setIncludeInternal tabId v q = change_kafka tabId (\<lambda>s. s\<lparr>kt_includeInternal := Some v\<rparr>) (ensureTab tabId q)"

text \<open>A patch is the function that spreads it.\<close>

definition setACLFilters :: "string \<Rightarrow> (acl_filters \<Rightarrow> acl_filters) \<Rightarrow> kafka_store \<Rightarrow> kafka_store" where
  "setACLFilters tabId patch q =
     change_kafka tabId (\<lambda>s. s\<lparr>kt_aclFilters := Some (patch (case kt_aclFilters s of None \<Rightarrow> defaultACLFilters | Some f \<Rightarrow> f))\<rparr>)
       (ensureTab tabId q)"

definition setMessageBrowser :: "string \<Rightarrow> (message_browser \<Rightarrow> message_browser) \<Rightarrow> kafka_store \<Rightarrow> kafka_store" where
  "setMessageBrowser tabId patch q =
     change_kafka tabId (\<lambda>s. s\<lparr>kt_messageBrowser := Some (patch (case kt_messageBrowser s of None \<Rightarrow> no_browser | Some b \<Rightarrow> b))\<rparr>)
       (ensureTab tabId q)"

definition setProduceMessage :: "string \<Rightarrow> (produce_form \<Rightarrow> produce_form) \<Rightarrow> kafka_store \<Rightarrow> kafka_store" where
  "setProduceMessage tabId patch q =
     change_kafka tabId (\<lambda>s. s\<lparr>kt_produceMessage := Some (patch (case kt_produceMessage s of None \<Rightarrow> no_form | Some f \<Rightarrow> f))\<rparr>)
       (ensureTab tabId q)"

section \<open>Starting the loads\<close>

definition load_overview :: "kafka_after \<Rightarrow> tab list \<Rightarrow> string \<Rightarrow> kafka_store \<Rightarrow> kafka_store" where
  "load_overview aft tabs tabId = kafka_begin tabs tabId K_overview id (KO_overview aft) (\<lambda>st a. KC_ClusterOverview a)"

definition loadOverview :: "tab list \<Rightarrow> string \<Rightarrow> kafka_store \<Rightarrow> kafka_store" where
  "loadOverview = load_overview After_none"

definition loadBrokers :: "tab list \<Rightarrow> string \<Rightarrow> kafka_store \<Rightarrow> kafka_store" where
  "loadBrokers tabs tabId = kafka_begin tabs tabId K_brokers id KO_brokers (\<lambda>st a. KC_ListBrokers a)"

definition loadBrokerConfig :: "tab list \<Rightarrow> string \<Rightarrow> int \<Rightarrow> kafka_store \<Rightarrow> kafka_store" where
  "loadBrokerConfig tabs tabId brokerId =
     kafka_begin tabs tabId K_brokerConfig (\<lambda>s. s\<lparr>kt_selectedBroker := Some brokerId, kt_brokerConfig := None\<rparr>) KO_brokerConfig
       (\<lambda>st a. KC_GetBrokerConfig a brokerId)"

definition loadClusterConfigs :: "tab list \<Rightarrow> string \<Rightarrow> kafka_store \<Rightarrow> kafka_store" where
  "loadClusterConfigs tabs tabId =
     kafka_begin tabs tabId K_clusterConfigs (\<lambda>s. s\<lparr>kt_clusterConfigs := None\<rparr>) KO_clusterConfigs (\<lambda>st a. KC_ListClusterConfigs a)"

definition load_topics :: "kafka_after \<Rightarrow> tab list \<Rightarrow> string \<Rightarrow> kafka_store \<Rightarrow> kafka_store" where
  "load_topics aft tabs tabId =
     kafka_begin tabs tabId K_topics id (KO_topics aft) (\<lambda>st a. KC_ListTopics a (kt_includeInternal st) (kt_topicSearch st))"

definition loadTopics :: "tab list \<Rightarrow> string \<Rightarrow> kafka_store \<Rightarrow> kafka_store" where
  "loadTopics = load_topics After_none"

definition loadTopicDetail :: "tab list \<Rightarrow> string \<Rightarrow> string \<Rightarrow> kafka_store \<Rightarrow> kafka_store" where
  "loadTopicDetail tabs tabId topic q =
     (if topic = [] then q
      else kafka_begin tabs tabId K_topicDetail (\<lambda>s. clear_response (s\<lparr>kt_selectedTopic := Some topic, kt_topicDetail := None\<rparr>)) KO_topicDetail
             (\<lambda>st a. KC_GetTopic a topic) q)"

text \<open>A filter \<open>any\<close> is sent as the empty string.\<close>

definition any_empty :: "string \<Rightarrow> string" where
  "any_empty s = (if s = ''any'' then [] else s)"

definition acl_query :: "acl_filters \<Rightarrow> acl_filters" where
  "acl_query f = f\<lparr>af_resourceType := any_empty (af_resourceType f), af_patternType := any_empty (af_patternType f),
     af_operation := any_empty (af_operation f), af_permission := any_empty (af_permission f)\<rparr>"

definition loadACLs :: "tab list \<Rightarrow> string \<Rightarrow> kafka_store \<Rightarrow> kafka_store" where
  "loadACLs tabs tabId =
     kafka_begin tabs tabId K_acls id KO_acls
       (\<lambda>st a. KC_ListACLs a (acl_query (case kt_aclFilters st of None \<Rightarrow> defaultACLFilters | Some f \<Rightarrow> f)))"

definition load_subjects :: "kafka_after \<Rightarrow> tab list \<Rightarrow> string \<Rightarrow> kafka_store \<Rightarrow> kafka_store" where
  "load_subjects aft tabs tabId = kafka_begin tabs tabId K_schemaSubjects id (KO_subjects aft) (\<lambda>st a. KC_ListSchemaSubjects a)"

definition loadSchemaSubjects :: "tab list \<Rightarrow> string \<Rightarrow> kafka_store \<Rightarrow> kafka_store" where
  "loadSchemaSubjects = load_subjects After_none"

definition loadSchemaVersions :: "tab list \<Rightarrow> string \<Rightarrow> string \<Rightarrow> kafka_store \<Rightarrow> kafka_store" where
  "loadSchemaVersions tabs tabId subject q =
     (if subject = [] then q
      else kafka_begin tabs tabId K_schemaDetail
             (\<lambda>s. s\<lparr>kt_selectedSchemaSubject := Some subject, kt_schemaVersions := None, kt_schemaDetail := None\<rparr>)
             (KO_versions subject) (\<lambda>st a. KC_GetSubjectVersions a subject) q)"

definition loadSchema :: "tab list \<Rightarrow> string \<Rightarrow> string \<Rightarrow> string option \<Rightarrow> kafka_store \<Rightarrow> kafka_store" where
  "loadSchema tabs tabId subject version q =
     (if subject = [] then q
      else kafka_begin tabs tabId K_schemaDetail id (KO_schema subject) (\<lambda>st a. KC_GetSchema a subject (first_text_of version (Some ''latest''))) q)"

definition loadConnectClusters :: "tab list \<Rightarrow> string \<Rightarrow> kafka_store \<Rightarrow> kafka_store" where
  "loadConnectClusters tabs tabId = kafka_begin tabs tabId K_connectClusters id KO_clusters (\<lambda>st a. KC_ListConnectClusters a)"

definition load_connectors :: "kafka_after \<Rightarrow> tab list \<Rightarrow> string \<Rightarrow> string option \<Rightarrow> kafka_store \<Rightarrow> kafka_store" where
  "load_connectors aft tabs tabId cluster =
     kafka_begin tabs tabId K_connectors
       (\<lambda>s. s\<lparr>kt_selectedConnectCluster := Some (first_text_of cluster (kt_selectedConnectCluster s)), kt_connectors := Some [],
              kt_selectedConnector := None, kt_connectorDetail := None\<rparr>)
       (KO_connectors aft) (\<lambda>st a. KC_ListConnectors a (first_text_of cluster (kt_selectedConnectCluster st)))"

definition loadConnectors :: "tab list \<Rightarrow> string \<Rightarrow> string option \<Rightarrow> kafka_store \<Rightarrow> kafka_store" where
  "loadConnectors = load_connectors After_none"

definition loadConnectorDetail :: "tab list \<Rightarrow> string \<Rightarrow> string \<Rightarrow> kafka_store \<Rightarrow> kafka_store" where
  "loadConnectorDetail tabs tabId name q =
     (if name = [] then q
      else kafka_begin tabs tabId K_connectorDetail (\<lambda>s. s\<lparr>kt_selectedConnector := Some name, kt_connectorDetail := None\<rparr>) KO_connector
             (\<lambda>st a. KC_GetConnector a (first_text_of (kt_selectedConnectCluster st) None) name) q)"

definition loadConsumerGroups :: "tab list \<Rightarrow> string \<Rightarrow> kafka_store \<Rightarrow> kafka_store" where
  "loadConsumerGroups tabs tabId = kafka_begin tabs tabId K_groups id KO_groups (\<lambda>st a. KC_ListGroups a)"

definition loadConsumerGroupDetail :: "tab list \<Rightarrow> string \<Rightarrow> string \<Rightarrow> kafka_store \<Rightarrow> kafka_store" where
  "loadConsumerGroupDetail tabs tabId grp q =
     (if grp = [] then q
      else kafka_begin tabs tabId K_groupDetail (\<lambda>s. s\<lparr>kt_selectedGroup := Some grp, kt_groupDetail := None\<rparr>) KO_group
             (\<lambda>st a. KC_GetGroup a grp) q)"

text \<open>What follows when a load has settled.\<close>

definition after_load :: "tab list \<Rightarrow> string \<Rightarrow> kafka_after \<Rightarrow> kafka_store \<Rightarrow> kafka_store" where
  "after_load tabs tabId aft q =
     (case aft of
        After_none \<Rightarrow> q
      | After_versions subject \<Rightarrow> loadSchemaVersions tabs tabId subject q
      | After_connector name \<Rightarrow> loadConnectorDetail tabs tabId name q
      | After_created n \<Rightarrow>
          (case map_of (kf_joins q) n of
             None \<Rightarrow> q
           | Some (tabId', topic, left) \<Rightarrow>
               let rest = filter (\<lambda>(m, j). m \<noteq> n) (kf_joins q)
               in if left \<le> 1 then loadTopicDetail tabs tabId' topic (q\<lparr>kf_joins := rest\<rparr>)
                  else q\<lparr>kf_joins := (n, tabId', topic, left - 1) # rest\<rparr>))"

section \<open>Answers to the loads\<close>

definition overview_answered :: "tab list \<Rightarrow> string \<Rightarrow> kafka_after \<Rightarrow> jsval kafka_reply \<Rightarrow> kafka_store \<Rightarrow> kafka_store" where
  "overview_answered tabs i aft answer q =
     after_load tabs i aft
       (case answer of
          KR_ok v \<Rightarrow> kafka_done i K_overview (\<lambda>s. s\<lparr>kt_overview := Some v\<rparr>) (kafka_settled i (KO_overview aft) q)
        | KR_failed e \<Rightarrow> kafka_failed i K_overview e (kafka_settled i (KO_overview aft) q))"

text \<open>The loads without a continuation: how the value is stored, and what the list of values is when it is absent.\<close>

definition load_answered ::
  "string \<Rightarrow> kafka_op \<Rightarrow> kafka_flag \<Rightarrow> ('v \<Rightarrow> kafka_tab \<Rightarrow> kafka_tab) \<Rightarrow> 'v kafka_reply \<Rightarrow> kafka_store \<Rightarrow> kafka_store" where
  "load_answered i oper flag store answer q =
     (case answer of
        KR_ok v \<Rightarrow> kafka_done i flag (store v) (kafka_settled i oper q)
      | KR_failed e \<Rightarrow> kafka_failed i flag e (kafka_settled i oper q))"

definition or_no_values :: "'v list option \<Rightarrow> 'v list option" where
  "or_no_values v = Some (case v of None \<Rightarrow> [] | Some xs \<Rightarrow> xs)"

definition brokers_answered :: "string \<Rightarrow> jsval list option kafka_reply \<Rightarrow> kafka_store \<Rightarrow> kafka_store" where
  "brokers_answered i = load_answered i KO_brokers K_brokers (\<lambda>v s. s\<lparr>kt_brokers := or_no_values v\<rparr>)"

definition broker_config_answered :: "string \<Rightarrow> jsval kafka_reply \<Rightarrow> kafka_store \<Rightarrow> kafka_store" where
  "broker_config_answered i = load_answered i KO_brokerConfig K_brokerConfig (\<lambda>v s. s\<lparr>kt_brokerConfig := Some v\<rparr>)"

definition cluster_configs_answered :: "string \<Rightarrow> jsval kafka_reply \<Rightarrow> kafka_store \<Rightarrow> kafka_store" where
  "cluster_configs_answered i = load_answered i KO_clusterConfigs K_clusterConfigs (\<lambda>v s. s\<lparr>kt_clusterConfigs := Some v\<rparr>)"

definition topics_answered :: "tab list \<Rightarrow> string \<Rightarrow> kafka_after \<Rightarrow> (jsval list option \<times> int) kafka_reply \<Rightarrow> kafka_store \<Rightarrow> kafka_store" where
  "topics_answered tabs i aft answer q =
     after_load tabs i aft
       (load_answered i (KO_topics aft) K_topics (\<lambda>(topics, total) s. s\<lparr>kt_topics := or_no_values topics, kt_topicsTotal := Some total\<rparr>) answer q)"

definition topic_detail_answered :: "string \<Rightarrow> jsval kafka_reply \<Rightarrow> kafka_store \<Rightarrow> kafka_store" where
  "topic_detail_answered i = load_answered i KO_topicDetail K_topicDetail (\<lambda>v s. s\<lparr>kt_topicDetail := Some v\<rparr>)"

definition acls_answered :: "string \<Rightarrow> (jsval list option \<times> int) kafka_reply \<Rightarrow> kafka_store \<Rightarrow> kafka_store" where
  "acls_answered i = load_answered i KO_acls K_acls (\<lambda>(acls, total) s. s\<lparr>kt_acls := or_no_values acls, kt_aclsTotal := Some total\<rparr>)"

definition subjects_answered :: "tab list \<Rightarrow> string \<Rightarrow> kafka_after \<Rightarrow> string list option kafka_reply \<Rightarrow> kafka_store \<Rightarrow> kafka_store" where
  "subjects_answered tabs i aft answer q =
     after_load tabs i aft (load_answered i (KO_subjects aft) K_schemaSubjects (\<lambda>v s. s\<lparr>kt_schemaSubjects := or_no_values v\<rparr>) answer q)"

text \<open>The latest version is the last one; it is loaded next.\<close>

definition versions_answered :: "tab list \<Rightarrow> string \<Rightarrow> string \<Rightarrow> schema_versions kafka_reply \<Rightarrow> kafka_store \<Rightarrow> kafka_store" where
  "versions_answered tabs i subject answer q =
     (let q1 = load_answered i (KO_versions subject) K_schemaDetail (\<lambda>v s. s\<lparr>kt_schemaVersions := Some v\<rparr>) answer q
      in case answer of
           KR_failed e \<Rightarrow> q1
         | KR_ok v \<Rightarrow>
             (case sv_versions v of
                Some (x # xs) \<Rightarrow> loadSchema tabs i subject (Some (int_str (last (x # xs)))) q1
              | _ \<Rightarrow> q1))"

definition schema_answered :: "string \<Rightarrow> string \<Rightarrow> jsval kafka_reply \<Rightarrow> kafka_store \<Rightarrow> kafka_store" where
  "schema_answered i subject =
     load_answered i (KO_schema subject) K_schemaDetail (\<lambda>v s. s\<lparr>kt_selectedSchemaSubject := Some subject, kt_schemaDetail := Some v\<rparr>)"

definition chosen_cluster :: "connect_cluster list \<Rightarrow> kafka_tab \<Rightarrow> string option" where
  "chosen_cluster clusters st =
     (case kt_selectedConnectCluster st of
        Some (c # cs) \<Rightarrow> Some (c # cs)
      | _ \<Rightarrow> (case clusters of [] \<Rightarrow> None | k # ks \<Rightarrow> Some (cc_name k)))"

definition clusters_answered :: "tab list \<Rightarrow> string \<Rightarrow> connect_cluster list option kafka_reply \<Rightarrow> kafka_store \<Rightarrow> kafka_store" where
  "clusters_answered tabs i answer q =
     (case answer of
        KR_failed e \<Rightarrow> kafka_failed i K_connectClusters e (kafka_settled i KO_clusters q)
      | KR_ok v \<Rightarrow>
          let clusters = (case v of None \<Rightarrow> [] | Some ks \<Rightarrow> ks);
              selected = chosen_cluster clusters (kafka_spread q i);
              q1 = kafka_done i K_connectClusters (\<lambda>s. s\<lparr>kt_connectClusters := Some clusters, kt_selectedConnectCluster := selected\<rparr>)
                     (kafka_settled i KO_clusters q)
          in (case selected of Some (c # cs) \<Rightarrow> loadConnectors tabs i selected q1 | _ \<Rightarrow> q1))"

definition connectors_answered :: "tab list \<Rightarrow> string \<Rightarrow> kafka_after \<Rightarrow> jsval list option kafka_reply \<Rightarrow> kafka_store \<Rightarrow> kafka_store" where
  "connectors_answered tabs i aft answer q =
     after_load tabs i aft (load_answered i (KO_connectors aft) K_connectors (\<lambda>v s. s\<lparr>kt_connectors := or_no_values v\<rparr>) answer q)"

definition connector_answered :: "string \<Rightarrow> jsval kafka_reply \<Rightarrow> kafka_store \<Rightarrow> kafka_store" where
  "connector_answered i = load_answered i KO_connector K_connectorDetail (\<lambda>v s. s\<lparr>kt_connectorDetail := Some v\<rparr>)"

definition groups_answered :: "string \<Rightarrow> jsval list option kafka_reply \<Rightarrow> kafka_store \<Rightarrow> kafka_store" where
  "groups_answered i = load_answered i KO_groups K_groups (\<lambda>v s. s\<lparr>kt_consumerGroups := or_no_values v\<rparr>)"

definition group_answered :: "string \<Rightarrow> jsval kafka_reply \<Rightarrow> kafka_store \<Rightarrow> kafka_store" where
  "group_answered i = load_answered i KO_group K_groupDetail (\<lambda>v s. s\<lparr>kt_groupDetail := Some v\<rparr>)"

section \<open>Administration\<close>

text \<open>An answer to an administrative call: on failure the error is stored and thrown; on success the state is changed and the loads follow.\<close>

definition admin_answered ::
  "string \<Rightarrow> kafka_op \<Rightarrow> kafka_flag \<Rightarrow> (kafka_tab \<Rightarrow> kafka_tab) \<Rightarrow> (kafka_store \<Rightarrow> kafka_store) \<Rightarrow> 'v kafka_reply \<Rightarrow> kafka_store \<Rightarrow> kafka_store" where
  "admin_answered i oper flag f next_loads answer q =
     (case answer of
        KR_failed e \<Rightarrow> kafka_thrown i flag e (kafka_settled i oper q)
      | KR_ok v \<Rightarrow> next_loads (kafka_done i flag f (kafka_settled i oper q)))"

definition is_failure :: "'v kafka_reply \<Rightarrow> bool" where
  "is_failure answer = (case answer of KR_failed e \<Rightarrow> True | KR_ok v \<Rightarrow> False)"

text \<open>The writes that spread the message browser throw when the state is gone.\<close>

definition admin_answered_present ::
  "string \<Rightarrow> string \<Rightarrow> kafka_op \<Rightarrow> kafka_flag \<Rightarrow> (kafka_tab \<Rightarrow> kafka_tab) \<Rightarrow> (kafka_store \<Rightarrow> kafka_store) \<Rightarrow> 'v kafka_reply \<Rightarrow> kafka_store \<Rightarrow> kafka_store" where
  "admin_answered_present type_error i oper flag f next_loads answer q =
     (if map_of (kf_states q) i = None \<and> \<not> is_failure answer
      then kafka_thrown i flag type_error (kafka_settled i oper q)
      else admin_answered i oper flag f next_loads answer q)"

definition createTopic :: "tab list \<Rightarrow> string \<Rightarrow> create_topic \<Rightarrow> kafka_store \<Rightarrow> kafka_store" where
  "createTopic tabs i req = kafka_begin tabs i K_topicAdmin id (KO_createTopic (ct_topic req)) (\<lambda>st a. KC_CreateTopic a req)"

definition load_created :: "tab list \<Rightarrow> string \<Rightarrow> string \<Rightarrow> kafka_store \<Rightarrow> kafka_store" where
  "load_created tabs i topic q =
     (if getKafkaAssetId tabs i = None then q
      else
        let n = kf_nextJoin q
        in load_overview (After_created n) tabs i (load_topics (After_created n) tabs i
             (q\<lparr>kf_joins := (n, i, topic, 2) # kf_joins q, kf_nextJoin := Suc n\<rparr>)))"

definition topic_created :: "tab list \<Rightarrow> string \<Rightarrow> string \<Rightarrow> unit kafka_reply \<Rightarrow> kafka_store \<Rightarrow> kafka_store" where
  "topic_created tabs i topic = admin_answered i (KO_createTopic topic) K_topicAdmin id (load_created tabs i topic)"

definition deleteTopic :: "tab list \<Rightarrow> string \<Rightarrow> string \<Rightarrow> kafka_store \<Rightarrow> kafka_store" where
  "deleteTopic tabs i topic = kafka_begin tabs i K_topicAdmin id KO_deleteTopic (\<lambda>st a. KC_DeleteTopic a topic)"

definition topic_deleted :: "string \<Rightarrow> tab list \<Rightarrow> string \<Rightarrow> unit kafka_reply \<Rightarrow> kafka_store \<Rightarrow> kafka_store" where
  "topic_deleted type_error tabs i =
     admin_answered_present type_error i KO_deleteTopic K_topicAdmin
       (\<lambda>s. clear_response (s\<lparr>kt_selectedTopic := None, kt_topicDetail := None\<rparr>))
       (\<lambda>q. loadOverview tabs i (loadTopics tabs i q))"

definition alterTopicConfig :: "tab list \<Rightarrow> string \<Rightarrow> string \<Rightarrow> topic_config list \<Rightarrow> kafka_store \<Rightarrow> kafka_store" where
  "alterTopicConfig tabs i topic configs =
     kafka_begin tabs i K_topicAdmin id (KO_alterTopic topic) (\<lambda>st a. KC_AlterTopicConfig a topic configs)"

definition topic_altered :: "tab list \<Rightarrow> string \<Rightarrow> string \<Rightarrow> unit kafka_reply \<Rightarrow> kafka_store \<Rightarrow> kafka_store" where
  "topic_altered tabs i topic = admin_answered i (KO_alterTopic topic) K_topicAdmin id (loadTopicDetail tabs i topic)"

definition increasePartitions :: "tab list \<Rightarrow> string \<Rightarrow> string \<Rightarrow> int \<Rightarrow> kafka_store \<Rightarrow> kafka_store" where
  "increasePartitions tabs i topic partitions =
     kafka_begin tabs i K_topicAdmin id (KO_increasePartitions topic) (\<lambda>st a. KC_IncreasePartitions a topic partitions)"

definition partitions_increased :: "tab list \<Rightarrow> string \<Rightarrow> string \<Rightarrow> unit kafka_reply \<Rightarrow> kafka_store \<Rightarrow> kafka_store" where
  "partitions_increased tabs i topic =
     admin_answered i (KO_increasePartitions topic) K_topicAdmin id
       (\<lambda>q. loadOverview tabs i (loadTopicDetail tabs i topic (loadTopics tabs i q)))"

definition deleteTopicRecords :: "tab list \<Rightarrow> string \<Rightarrow> string \<Rightarrow> (int \<times> int) list \<Rightarrow> kafka_store \<Rightarrow> kafka_store" where
  "deleteTopicRecords tabs i topic partitions =
     kafka_begin tabs i K_topicAdmin id KO_deleteRecords (\<lambda>st a. KC_DeleteRecords a topic partitions)"

definition records_deleted :: "string \<Rightarrow> string \<Rightarrow> unit kafka_reply \<Rightarrow> kafka_store \<Rightarrow> kafka_store" where
  "records_deleted type_error i = admin_answered_present type_error i KO_deleteRecords K_topicAdmin clear_response id"

definition resetConsumerGroupOffset :: "tab list \<Rightarrow> string \<Rightarrow> offset_reset \<Rightarrow> kafka_store \<Rightarrow> kafka_store" where
  "resetConsumerGroupOffset tabs i req = kafka_begin tabs i K_groupAdmin id (KO_resetOffset (or_group req)) (\<lambda>st a. KC_ResetOffset a req)"

definition offset_was_reset :: "tab list \<Rightarrow> string \<Rightarrow> string \<Rightarrow> unit kafka_reply \<Rightarrow> kafka_store \<Rightarrow> kafka_store" where
  "offset_was_reset tabs i grp = admin_answered i (KO_resetOffset grp) K_groupAdmin id (loadConsumerGroupDetail tabs i grp)"

definition deleteConsumerGroup :: "tab list \<Rightarrow> string \<Rightarrow> string \<Rightarrow> kafka_store \<Rightarrow> kafka_store" where
  "deleteConsumerGroup tabs i grp = kafka_begin tabs i K_groupAdmin id KO_deleteGroup (\<lambda>st a. KC_DeleteGroup a grp)"

definition group_deleted :: "tab list \<Rightarrow> string \<Rightarrow> unit kafka_reply \<Rightarrow> kafka_store \<Rightarrow> kafka_store" where
  "group_deleted tabs i =
     admin_answered i KO_deleteGroup K_groupAdmin (\<lambda>s. s\<lparr>kt_selectedGroup := None, kt_groupDetail := None\<rparr>) (loadConsumerGroups tabs i)"

definition createACL :: "tab list \<Rightarrow> string \<Rightarrow> acl_mutation \<Rightarrow> kafka_store \<Rightarrow> kafka_store" where
  "createACL tabs i req = kafka_begin tabs i K_aclAdmin id KO_aclAdmin (\<lambda>st a. KC_CreateACL a req)"

definition deleteACL :: "tab list \<Rightarrow> string \<Rightarrow> acl_filters \<Rightarrow> kafka_store \<Rightarrow> kafka_store" where
  "deleteACL tabs i acl = kafka_begin tabs i K_aclAdmin id KO_aclAdmin (\<lambda>st a. KC_DeleteACL a acl)"

definition acl_changed :: "tab list \<Rightarrow> string \<Rightarrow> unit kafka_reply \<Rightarrow> kafka_store \<Rightarrow> kafka_store" where
  "acl_changed tabs i = admin_answered i KO_aclAdmin K_aclAdmin id (loadACLs tabs i)"

text \<open>The result of the check goes to the caller.\<close>

definition checkSchemaCompatibility :: "tab list \<Rightarrow> string \<Rightarrow> register_schema \<Rightarrow> string option \<Rightarrow> kafka_store \<Rightarrow> kafka_store" where
  "checkSchemaCompatibility tabs i req version =
     kafka_begin tabs i K_schemaAdmin id KO_check (\<lambda>st a. KC_CheckCompatibility a req version)"

definition schema_checked :: "string \<Rightarrow> jsval kafka_reply \<Rightarrow> kafka_store \<Rightarrow> kafka_store" where
  "schema_checked i = admin_answered i KO_check K_schemaAdmin id id"

definition registerSchema :: "tab list \<Rightarrow> string \<Rightarrow> register_schema \<Rightarrow> kafka_store \<Rightarrow> kafka_store" where
  "registerSchema tabs i req =
     kafka_begin tabs i K_schemaAdmin id (KO_registerSchema (rg_subject req)) (\<lambda>st a. KC_RegisterSchema a req)"

definition schema_registered :: "tab list \<Rightarrow> string \<Rightarrow> string \<Rightarrow> unit kafka_reply \<Rightarrow> kafka_store \<Rightarrow> kafka_store" where
  "schema_registered tabs i subject =
     admin_answered i (KO_registerSchema subject) K_schemaAdmin id (load_subjects (After_versions subject) tabs i)"

definition deleteSchema :: "tab list \<Rightarrow> string \<Rightarrow> delete_schema \<Rightarrow> kafka_store \<Rightarrow> kafka_store" where
  "deleteSchema tabs i req = kafka_begin tabs i K_schemaAdmin id (KO_deleteSchema req) (\<lambda>st a. KC_DeleteSchema a req)"

definition has_version :: "delete_schema \<Rightarrow> bool" where
  "has_version req \<longleftrightarrow> ds_version req \<noteq> None \<and> ds_version req \<noteq> Some []"

definition schema_deleted :: "string \<Rightarrow> tab list \<Rightarrow> string \<Rightarrow> delete_schema \<Rightarrow> unit kafka_reply \<Rightarrow> kafka_store \<Rightarrow> kafka_store" where
  "schema_deleted type_error tabs i req =
     (let change = (\<lambda>s. s\<lparr>kt_selectedSchemaSubject := (if has_version req then kt_selectedSchemaSubject s else None),
                          kt_schemaVersions := None, kt_schemaDetail := None\<rparr>);
          loads = load_subjects (if has_version req then After_versions (ds_subject req) else After_none) tabs i
      in if has_version req then admin_answered_present type_error i (KO_deleteSchema req) K_schemaAdmin change loads
         else admin_answered i (KO_deleteSchema req) K_schemaAdmin change loads)"

definition connector_cluster :: "string option \<Rightarrow> kafka_tab \<Rightarrow> string" where
  "connector_cluster cluster st = first_text_of cluster (kt_selectedConnectCluster st)"

text \<open>The cluster is the one read before the call.\<close>

definition createConnector :: "tab list \<Rightarrow> string \<Rightarrow> connector_config \<Rightarrow> kafka_store \<Rightarrow> kafka_store" where
  "createConnector tabs i req q =
     (let cluster = connector_cluster (kc_cluster req) (kafka_spread q i)
      in kafka_begin tabs i K_connectAdmin id (KO_createConnector cluster (kc_name req)) (\<lambda>st a. KC_CreateConnector a cluster req) q)"

definition connector_created :: "tab list \<Rightarrow> string \<Rightarrow> string \<Rightarrow> string \<Rightarrow> unit kafka_reply \<Rightarrow> kafka_store \<Rightarrow> kafka_store" where
  "connector_created tabs i cluster name =
     admin_answered i (KO_createConnector cluster name) K_connectAdmin id (load_connectors (After_connector name) tabs i (Some cluster))"

definition change_connector :: "tab list \<Rightarrow> string \<Rightarrow> string \<Rightarrow> (string \<Rightarrow> int \<Rightarrow> kafka_call) \<Rightarrow> kafka_store \<Rightarrow> kafka_store" where
  "change_connector tabs i name request =
     kafka_begin tabs i K_connectAdmin id (KO_changeConnector name) (\<lambda>st a. request (connector_cluster None st) a)"

definition updateConnectorConfig :: "tab list \<Rightarrow> string \<Rightarrow> connector_config \<Rightarrow> kafka_store \<Rightarrow> kafka_store" where
  "updateConnectorConfig tabs i req =
     kafka_begin tabs i K_connectAdmin id (KO_changeConnector (kc_name req))
       (\<lambda>st a. KC_UpdateConnector a (connector_cluster (kc_cluster req) st) req)"

definition pauseConnector :: "tab list \<Rightarrow> string \<Rightarrow> string \<Rightarrow> kafka_store \<Rightarrow> kafka_store" where
  "pauseConnector tabs i name = change_connector tabs i name (\<lambda>cluster a. KC_PauseConnector a cluster name)"

definition resumeConnector :: "tab list \<Rightarrow> string \<Rightarrow> string \<Rightarrow> kafka_store \<Rightarrow> kafka_store" where
  "resumeConnector tabs i name = change_connector tabs i name (\<lambda>cluster a. KC_ResumeConnector a cluster name)"

definition restartConnector :: "tab list \<Rightarrow> string \<Rightarrow> string \<Rightarrow> bool option \<Rightarrow> bool option \<Rightarrow> kafka_store \<Rightarrow> kafka_store" where
  "restartConnector tabs i name includeTasks onlyFailed =
     change_connector tabs i name (\<lambda>cluster a. KC_RestartConnector a cluster name includeTasks onlyFailed)"

definition connector_changed :: "tab list \<Rightarrow> string \<Rightarrow> string \<Rightarrow> unit kafka_reply \<Rightarrow> kafka_store \<Rightarrow> kafka_store" where
  "connector_changed tabs i name = admin_answered i (KO_changeConnector name) K_connectAdmin id (loadConnectorDetail tabs i name)"

definition deleteConnector :: "tab list \<Rightarrow> string \<Rightarrow> string \<Rightarrow> kafka_store \<Rightarrow> kafka_store" where
  "deleteConnector tabs i name q =
     (let cluster = connector_cluster None (kafka_spread q i)
      in kafka_begin tabs i K_connectAdmin id (KO_deleteConnector cluster) (\<lambda>st a. KC_DeleteConnector a cluster name) q)"

definition connector_deleted :: "tab list \<Rightarrow> string \<Rightarrow> string \<Rightarrow> unit kafka_reply \<Rightarrow> kafka_store \<Rightarrow> kafka_store" where
  "connector_deleted tabs i cluster =
     admin_answered i (KO_deleteConnector cluster) K_connectAdmin (\<lambda>s. s\<lparr>kt_selectedConnector := None, kt_connectorDetail := None\<rparr>)
       (loadConnectors tabs i (Some cluster))"

section \<open>Messages\<close>

text \<open>A value that is \<open>undefined\<close> throws a \<open>TypeError\<close>; the message of the other errors is the code's.\<close>

definition parseRequiredInteger :: "string \<Rightarrow> string option \<Rightarrow> string \<Rightarrow> string + rat" where
  "parseRequiredInteger type_error v field =
     (case v of
        None \<Rightarrow> Inl type_error
      | Some s \<Rightarrow>
          (case js_number s of
             Some n \<Rightarrow> if js_is_integer (Some n) then Inr n else Inl (''Error: '' @ field @ '' must be an integer'')
           | None \<Rightarrow> Inl (''Error: '' @ field @ '' must be an integer'')))"

definition parseOptionalInteger :: "string \<Rightarrow> string option \<Rightarrow> string \<Rightarrow> string + rat option" where
  "parseOptionalInteger type_error v field =
     (case v of
        None \<Rightarrow> Inl type_error
      | Some s \<Rightarrow>
          if trim s = [] then Inr None
          else (case parseRequiredInteger type_error (Some (trim s)) field of Inl e \<Rightarrow> Inl e | Inr n \<Rightarrow> Inr (Some n)))"

definition parseHeaders :: "(string \<Rightarrow> string + jsval) \<Rightarrow> string \<Rightarrow> string option \<Rightarrow> string + jsval list" where
  "parseHeaders parse_json type_error v =
     (case v of
        None \<Rightarrow> Inl type_error
      | Some s \<Rightarrow>
          if trim s = [] then Inr []
          else (case parse_json (trim s) of
              Inl e \<Rightarrow> Inl e
            | Inr (JArr hs) \<Rightarrow> Inr hs
            | Inr w \<Rightarrow> Inl ''Error: headers must be a JSON array''))"

definition browse_of :: "string \<Rightarrow> message_browser \<Rightarrow> string \<Rightarrow> int \<Rightarrow> string + browse_request" where
  "browse_of type_error b topic assetId =
     (case parseOptionalInteger type_error (mb_partition b) ''partition'' of
        Inl e \<Rightarrow> Inl e
      | Inr part \<Rightarrow>
          (case (if mb_startMode b = Some SM_offset then map_sum id Some (parseRequiredInteger type_error (mb_offset b) ''offset'') else Inr None) of
             Inl e \<Rightarrow> Inl e
           | Inr offset \<Rightarrow>
               (case (if mb_startMode b = Some SM_timestamp
                      then map_sum id Some (parseRequiredInteger type_error (mb_timestampMillis b) ''timestampMillis'') else Inr None) of
                  Inl e \<Rightarrow> Inl e
                | Inr timestamp \<Rightarrow>
                    Inr \<lparr>br_assetId = assetId, br_topic = topic, br_startMode = mb_startMode b, br_limit = mb_limit b, br_maxBytes = mb_maxBytes b,
                         br_decodeMode = mb_decodeMode b, br_maxWaitMillis = mb_maxWaitMillis b, br_partition = part, br_offset = offset,
                         br_timestampMillis = timestamp\<rparr>)))"

definition produce_of :: "(string \<Rightarrow> string + jsval) \<Rightarrow> string \<Rightarrow> produce_form \<Rightarrow> string \<Rightarrow> int \<Rightarrow> string + produce_request" where
  "produce_of parse_json type_error form topic assetId =
     (case parseOptionalInteger type_error (pf_partition form) ''partition'' of
        Inl e \<Rightarrow> Inl e
      | Inr part \<Rightarrow>
          (case parseHeaders parse_json type_error (pf_headers form) of
             Inl e \<Rightarrow> Inl e
           | Inr headers \<Rightarrow>
               Inr \<lparr>pr_assetId = assetId, pr_topic = topic, pr_key = pf_key form, pr_keyEncoding = pf_keyEncoding form, pr_value = pf_value form,
                    pr_valueEncoding = pf_valueEncoding form, pr_partition = part,
                    pr_headers = (if headers = [] then None else Some headers)\<rparr>))"

text \<open>What both share: the selected topic, the flag, and the request that may fail to be made.\<close>

definition send_kafka ::
  "tab list \<Rightarrow> string \<Rightarrow> kafka_flag \<Rightarrow> kafka_op \<Rightarrow> (kafka_tab \<Rightarrow> string \<Rightarrow> int \<Rightarrow> string + kafka_call) \<Rightarrow> kafka_store \<Rightarrow> kafka_store" where
  "send_kafka tabs i flag oper request q =
     (case getKafkaAssetId tabs i of
        None \<Rightarrow> q
      | Some assetId \<Rightarrow>
          let q1 = ensureTab i q; st = kafka_spread q1 i
          in (case kt_selectedTopic st of
                Some (c # cs) \<Rightarrow>
                  let q2 = change_kafka i (set_busy flag True) q1
                  in (case request st (c # cs) assetId of
                        Inl e \<Rightarrow> kafka_failed i flag e q2
                      | Inr req \<Rightarrow> kafka_await i oper req q2)
              | _ \<Rightarrow> q1))"

definition browseMessages :: "string \<Rightarrow> tab list \<Rightarrow> string \<Rightarrow> kafka_store \<Rightarrow> kafka_store" where
  "browseMessages type_error tabs i =
     send_kafka tabs i K_messages KO_browse
       (\<lambda>st topic a. case kt_messageBrowser st of
          None \<Rightarrow> Inl type_error
        | Some b \<Rightarrow> map_sum id KC_Browse (browse_of type_error b topic a))"

definition browse_answered :: "string \<Rightarrow> string \<Rightarrow> jsval kafka_reply \<Rightarrow> kafka_store \<Rightarrow> kafka_store" where
  "browse_answered type_error i answer q =
     (if map_of (kf_states q) i = None \<and> \<not> is_failure answer then kafka_failed i K_messages type_error (kafka_settled i KO_browse q)
      else load_answered i KO_browse K_messages
             (\<lambda>v s. s\<lparr>kt_messageBrowser := Some ((case kt_messageBrowser s of None \<Rightarrow> no_browser | Some b \<Rightarrow> b)\<lparr>mb_response := Some v\<rparr>)\<rparr>) answer q)"

definition produceKafkaMessage :: "(string \<Rightarrow> string + jsval) \<Rightarrow> string \<Rightarrow> tab list \<Rightarrow> string \<Rightarrow> kafka_store \<Rightarrow> kafka_store" where
  "produceKafkaMessage parse_json type_error tabs i =
     send_kafka tabs i K_producing KO_produce
       (\<lambda>st topic a. case kt_produceMessage st of
          None \<Rightarrow> Inl type_error
        | Some form \<Rightarrow> map_sum id KC_Produce (produce_of parse_json type_error form topic a))"

definition produce_answered :: "string \<Rightarrow> tab list \<Rightarrow> string \<Rightarrow> unit kafka_reply \<Rightarrow> kafka_store \<Rightarrow> kafka_store" where
  "produce_answered type_error tabs i answer q =
     (case answer of
        KR_failed e \<Rightarrow> kafka_failed i K_producing e (kafka_settled i KO_produce q)
      | KR_ok v \<Rightarrow>
          if map_of (kf_states q) i = None then kafka_failed i K_producing type_error (kafka_settled i KO_produce q)
          else browseMessages type_error tabs i
                 (kafka_done i K_producing
                    (\<lambda>s. s\<lparr>kt_produceMessage := Some ((case kt_produceMessage s of None \<Rightarrow> no_form | Some f \<Rightarrow> f)\<lparr>pf_value := Some []\<rparr>)\<rparr>)
                    (kafka_settled i KO_produce q)))"

section \<open>Refreshing and closing\<close>

definition refreshActiveView :: "tab list \<Rightarrow> string \<Rightarrow> kafka_store \<Rightarrow> kafka_store" where
  "refreshActiveView tabs i q0 =
     (let q = ensureTab i q0
      in case (case kt_activeView (kafka_spread q i) of None \<Rightarrow> KV_overview | Some v \<Rightarrow> v) of
           KV_overview \<Rightarrow> loadTopics tabs i (loadBrokers tabs i (loadOverview tabs i q))
         | KV_brokers \<Rightarrow> loadBrokers tabs i q
         | KV_topics \<Rightarrow> loadTopics tabs i q
         | KV_acls \<Rightarrow> loadACLs tabs i q
         | KV_schemas \<Rightarrow> loadSchemaSubjects tabs i q
         | KV_connect \<Rightarrow> loadConnectClusters tabs i q
         | KV_consumerGroups \<Rightarrow> loadConsumerGroups tabs i q)"

definition is_kafka_tab :: "tab \<Rightarrow> bool" where
  "is_kafka_tab tab \<longleftrightarrow> tb_type tab = TT_query \<and> (case tb_meta tab of QueryMeta m \<Rightarrow> qm_assetType m = QA_kafka | _ \<Rightarrow> False)"

definition kafka_close_hook :: "tab \<Rightarrow> kafka_store \<Rightarrow> kafka_store" where
  "kafka_close_hook tab q = (if is_kafka_tab tab then q\<lparr>kf_states := del_prop (kf_states q) (tb_id tab)\<rparr> else q)"

interpretation kafka_tabs: tab_keyed_store "\<lambda>q. fst ` set (kf_states q)" kafka_close_hook is_kafka_tab
  by unfold_locales (auto simp: kafka_close_hook_def keys_of_del_prop)

end
