(* ===== verification/KafkaRuns.thy ===== *)
theory KafkaRuns
  imports KafkaStore
begin

text \<open>
  What holds of the Kafka tabs: over every run a spinner that turns has an awaited call; a message leaves as
  the form has it, or not at all; the numbers of the forms; what follows the creation of a topic; and the
  answers that come for a topic no longer selected.
\<close>

section \<open>Runs\<close>

definition flag_of :: "kafka_op \<Rightarrow> kafka_flag" where
  "flag_of oper =
     (case oper of
        KO_overview a \<Rightarrow> K_overview | KO_brokers \<Rightarrow> K_brokers | KO_brokerConfig \<Rightarrow> K_brokerConfig | KO_clusterConfigs \<Rightarrow> K_clusterConfigs
      | KO_topics a \<Rightarrow> K_topics | KO_topicDetail \<Rightarrow> K_topicDetail | KO_createTopic t \<Rightarrow> K_topicAdmin | KO_deleteTopic \<Rightarrow> K_topicAdmin
      | KO_alterTopic t \<Rightarrow> K_topicAdmin | KO_increasePartitions t \<Rightarrow> K_topicAdmin | KO_deleteRecords \<Rightarrow> K_topicAdmin
      | KO_resetOffset g \<Rightarrow> K_groupAdmin | KO_deleteGroup \<Rightarrow> K_groupAdmin | KO_acls \<Rightarrow> K_acls | KO_aclAdmin \<Rightarrow> K_aclAdmin
      | KO_subjects a \<Rightarrow> K_schemaSubjects | KO_versions s \<Rightarrow> K_schemaDetail | KO_schema s \<Rightarrow> K_schemaDetail | KO_check \<Rightarrow> K_schemaAdmin
      | KO_registerSchema s \<Rightarrow> K_schemaAdmin | KO_deleteSchema r \<Rightarrow> K_schemaAdmin | KO_clusters \<Rightarrow> K_connectClusters
      | KO_connectors a \<Rightarrow> K_connectors | KO_connector \<Rightarrow> K_connectorDetail | KO_createConnector c n \<Rightarrow> K_connectAdmin
      | KO_changeConnector n \<Rightarrow> K_connectAdmin | KO_deleteConnector c \<Rightarrow> K_connectAdmin | KO_browse \<Rightarrow> K_messages
      | KO_produce \<Rightarrow> K_producing | KO_groups \<Rightarrow> K_groups | KO_group \<Rightarrow> K_groupDetail)"

text \<open>Every operation, with any tabs open, and every answer to an awaited call.\<close>

inductive kafka_step :: "kafka_store \<Rightarrow> kafka_store \<Rightarrow> bool" where
  ks_ensure: "kafka_step q (ensureTab i q)"
| ks_view: "kafka_step q (setActiveView i v q)"
| ks_search: "kafka_step q (setTopicSearch i s q)"
| ks_internal: "kafka_step q (setIncludeInternal i b q)"
| ks_filters: "kafka_step q (setACLFilters i fp q)"
| ks_browser: "kafka_step q (setMessageBrowser i bp q)"
| ks_form: "kafka_step q (setProduceMessage i pp q)"
| ks_overview: "kafka_step q (loadOverview tabs i q)"
| ks_brokers: "kafka_step q (loadBrokers tabs i q)"
| ks_broker_config: "kafka_step q (loadBrokerConfig tabs i n q)"
| ks_cluster_configs: "kafka_step q (loadClusterConfigs tabs i q)"
| ks_topics: "kafka_step q (loadTopics tabs i q)"
| ks_topic: "kafka_step q (loadTopicDetail tabs i t q)"
| ks_create_topic: "kafka_step q (createTopic tabs i ct q)"
| ks_delete_topic: "kafka_step q (deleteTopic tabs i t q)"
| ks_alter_topic: "kafka_step q (alterTopicConfig tabs i t tcs q)"
| ks_partitions: "kafka_step q (increasePartitions tabs i t n q)"
| ks_records: "kafka_step q (deleteTopicRecords tabs i t ps q)"
| ks_offset: "kafka_step q (resetConsumerGroupOffset tabs i reset q)"
| ks_delete_group: "kafka_step q (deleteConsumerGroup tabs i g q)"
| ks_acls: "kafka_step q (loadACLs tabs i q)"
| ks_create_acl: "kafka_step q (createACL tabs i am q)"
| ks_delete_acl: "kafka_step q (deleteACL tabs i acl q)"
| ks_subjects: "kafka_step q (loadSchemaSubjects tabs i q)"
| ks_versions: "kafka_step q (loadSchemaVersions tabs i s q)"
| ks_schema: "kafka_step q (loadSchema tabs i s vo q)"
| ks_check: "kafka_step q (checkSchemaCompatibility tabs i rs vo q)"
| ks_register: "kafka_step q (registerSchema tabs i rs q)"
| ks_delete_schema: "kafka_step q (deleteSchema tabs i ds q)"
| ks_clusters: "kafka_step q (loadConnectClusters tabs i q)"
| ks_connectors: "kafka_step q (loadConnectors tabs i co q)"
| ks_connector: "kafka_step q (loadConnectorDetail tabs i t q)"
| ks_create_connector: "kafka_step q (createConnector tabs i cfg q)"
| ks_update_connector: "kafka_step q (updateConnectorConfig tabs i cfg q)"
| ks_pause: "kafka_step q (pauseConnector tabs i t q)"
| ks_resume: "kafka_step q (resumeConnector tabs i t q)"
| ks_restart: "kafka_step q (restartConnector tabs i t b1 b2 q)"
| ks_delete_connector: "kafka_step q (deleteConnector tabs i t q)"
| ks_browse: "kafka_step q (browseMessages te tabs i q)"
| ks_produce: "kafka_step q (produceKafkaMessage pj te tabs i q)"
| ks_groups: "kafka_step q (loadConsumerGroups tabs i q)"
| ks_group: "kafka_step q (loadConsumerGroupDetail tabs i g q)"
| ks_refresh: "kafka_step q (refreshActiveView tabs i q)"
| ks_close: "kafka_step q (kafka_close_hook tab q)"
| ka_overview: "(i, KO_overview a) \<in> set (kf_waits q) \<Longrightarrow> kafka_step q (overview_answered tabs i a r q)"
| ka_brokers: "(i, KO_brokers) \<in> set (kf_waits q) \<Longrightarrow> kafka_step q (brokers_answered i rl q)"
| ka_broker_config: "(i, KO_brokerConfig) \<in> set (kf_waits q) \<Longrightarrow> kafka_step q (broker_config_answered i r q)"
| ka_cluster_configs: "(i, KO_clusterConfigs) \<in> set (kf_waits q) \<Longrightarrow> kafka_step q (cluster_configs_answered i r q)"
| ka_topics: "(i, KO_topics a) \<in> set (kf_waits q) \<Longrightarrow> kafka_step q (topics_answered tabs i a rt q)"
| ka_topic: "(i, KO_topicDetail) \<in> set (kf_waits q) \<Longrightarrow> kafka_step q (topic_detail_answered i r q)"
| ka_created: "(i, KO_createTopic t) \<in> set (kf_waits q) \<Longrightarrow> kafka_step q (topic_created tabs i t ru q)"
| ka_deleted: "(i, KO_deleteTopic) \<in> set (kf_waits q) \<Longrightarrow> kafka_step q (topic_deleted te tabs i ru q)"
| ka_altered: "(i, KO_alterTopic t) \<in> set (kf_waits q) \<Longrightarrow> kafka_step q (topic_altered tabs i t ru q)"
| ka_increased: "(i, KO_increasePartitions t) \<in> set (kf_waits q) \<Longrightarrow> kafka_step q (partitions_increased tabs i t ru q)"
| ka_records: "(i, KO_deleteRecords) \<in> set (kf_waits q) \<Longrightarrow> kafka_step q (records_deleted te i ru q)"
| ka_offset: "(i, KO_resetOffset g) \<in> set (kf_waits q) \<Longrightarrow> kafka_step q (offset_was_reset tabs i g ru q)"
| ka_group_deleted: "(i, KO_deleteGroup) \<in> set (kf_waits q) \<Longrightarrow> kafka_step q (group_deleted tabs i ru q)"
| ka_acls: "(i, KO_acls) \<in> set (kf_waits q) \<Longrightarrow> kafka_step q (acls_answered i rt q)"
| ka_acl: "(i, KO_aclAdmin) \<in> set (kf_waits q) \<Longrightarrow> kafka_step q (acl_changed tabs i ru q)"
| ka_subjects: "(i, KO_subjects a) \<in> set (kf_waits q) \<Longrightarrow> kafka_step q (subjects_answered tabs i a rs0 q)"
| ka_versions: "(i, KO_versions s) \<in> set (kf_waits q) \<Longrightarrow> kafka_step q (versions_answered tabs i s rv q)"
| ka_schema: "(i, KO_schema s) \<in> set (kf_waits q) \<Longrightarrow> kafka_step q (schema_answered i s r q)"
| ka_check: "(i, KO_check) \<in> set (kf_waits q) \<Longrightarrow> kafka_step q (schema_checked i r q)"
| ka_registered: "(i, KO_registerSchema s) \<in> set (kf_waits q) \<Longrightarrow> kafka_step q (schema_registered tabs i s ru q)"
| ka_schema_deleted: "(i, KO_deleteSchema ds) \<in> set (kf_waits q) \<Longrightarrow> kafka_step q (schema_deleted te tabs i ds ru q)"
| ka_clusters: "(i, KO_clusters) \<in> set (kf_waits q) \<Longrightarrow> kafka_step q (clusters_answered tabs i rc q)"
| ka_connectors: "(i, KO_connectors a) \<in> set (kf_waits q) \<Longrightarrow> kafka_step q (connectors_answered tabs i a rl q)"
| ka_connector: "(i, KO_connector) \<in> set (kf_waits q) \<Longrightarrow> kafka_step q (connector_answered i r q)"
| ka_connector_created: "(i, KO_createConnector c t) \<in> set (kf_waits q) \<Longrightarrow> kafka_step q (connector_created tabs i c t ru q)"
| ka_connector_changed: "(i, KO_changeConnector t) \<in> set (kf_waits q) \<Longrightarrow> kafka_step q (connector_changed tabs i t ru q)"
| ka_connector_deleted: "(i, KO_deleteConnector c) \<in> set (kf_waits q) \<Longrightarrow> kafka_step q (connector_deleted tabs i c ru q)"
| ka_browse: "(i, KO_browse) \<in> set (kf_waits q) \<Longrightarrow> kafka_step q (browse_answered te i r q)"
| ka_produce: "(i, KO_produce) \<in> set (kf_waits q) \<Longrightarrow> kafka_step q (produce_answered te tabs i ru q)"
| ka_groups: "(i, KO_groups) \<in> set (kf_waits q) \<Longrightarrow> kafka_step q (groups_answered i rl q)"
| ka_group: "(i, KO_group) \<in> set (kf_waits q) \<Longrightarrow> kafka_step q (group_answered i r q)"

inductive kafka_run :: "kafka_store \<Rightarrow> kafka_store \<Rightarrow> bool" for q :: kafka_store where
  kafka_refl: "kafka_run q q"
| kafka_next: "kafka_run q r \<Longrightarrow> kafka_step r s \<Longrightarrow> kafka_run q s"

definition kafka_init :: kafka_store where
  "kafka_init = \<lparr>kf_states = [], kf_waits = [], kf_joins = [], kf_nextJoin = 0, kf_calls = [], kf_thrown = []\<rparr>"

section \<open>A spinner has a call\<close>

definition spin_ok :: "kafka_store \<Rightarrow> bool" where
  "spin_ok q \<longleftrightarrow> (\<forall>i st k. map_of (kf_states q) i = Some st \<longrightarrow> kt_busy st k \<longrightarrow> (\<exists>oper. (i, oper) \<in> set (kf_waits q) \<and> flag_of oper = k))"

named_theorems spin_intros \<open>operations that keep a call behind every spinner\<close>

definition keeps_busy :: "(kafka_tab \<Rightarrow> kafka_tab) \<Rightarrow> bool" where
  "keeps_busy f \<longleftrightarrow> (\<forall>s. kt_busy (f s) = kt_busy s)"

lemma spread_busy: "spin_ok q \<Longrightarrow> kt_busy (kafka_spread q i) k \<Longrightarrow> \<exists>oper. (i, oper) \<in> set (kf_waits q) \<and> flag_of oper = k"
  by (auto simp: spin_ok_def kafka_spread_def no_kafka_def split: option.split_asm)

lemma spin_put:
  "spin_ok q \<Longrightarrow> (\<And>k. kt_busy st k \<Longrightarrow> \<exists>oper. (i, oper) \<in> set (kf_waits q) \<and> flag_of oper = k) \<Longrightarrow> spin_ok (put_kafka i st q)"
  by (auto simp: spin_ok_def put_kafka_def)

lemma spin_change [spin_intros]: "spin_ok q \<Longrightarrow> keeps_busy f \<Longrightarrow> spin_ok (change_kafka i f q)"
  unfolding change_kafka_def by (rule spin_put) (auto simp: keeps_busy_def dest: spread_busy)

lemma spin_ensure [spin_intros]: "spin_ok q \<Longrightarrow> spin_ok (ensureTab i q)"
  by (auto simp: ensureTab_def defaultKafkaState_def no_kafka_def intro!: spin_put)

lemma spin_waits:
  "kf_states q' = kf_states q \<Longrightarrow> set (kf_waits q) \<subseteq> set (kf_waits q') \<Longrightarrow> spin_ok q \<Longrightarrow> spin_ok q'"
  unfolding spin_ok_def by (metis subsetD)

lemma spin_send:
  assumes "spin_ok q" and "keeps_busy f" and "flag_of oper = flag"
  shows "spin_ok (kafka_await i oper c (change_kafka i (\<lambda>s. set_busy flag True (f s)) q))"
proof -
  have "\<exists>op'. (j, op') \<in> set (kf_waits q @ [(i, oper)]) \<and> flag_of op' = k"
    if "map_of (kf_states (change_kafka i (\<lambda>s. set_busy flag True (f s)) q)) j = Some st" "kt_busy st k" for j st k
    using that assms spread_busy [OF assms(1), of i k]
    by (auto simp: change_kafka_def put_kafka_def set_busy_def keeps_busy_def spin_ok_def split: if_splits)
  then show ?thesis by (simp add: spin_ok_def kafka_await_def change_kafka_def put_kafka_def)
qed

lemma spin_begin [spin_intros]:
  "spin_ok q \<Longrightarrow> keeps_busy f \<Longrightarrow> flag_of oper = flag \<Longrightarrow> spin_ok (kafka_begin tabs i flag f oper request q)"
  by (auto simp: kafka_begin_def Let_def split: option.split intro!: spin_send spin_ensure)

text \<open>An answer clears the flag before it takes the waiting entry away.\<close>

lemma spin_cleared:
  assumes "spin_ok q" and "flag_of oper = flag" and "\<And>s. kt_busy (f s) = (kt_busy s)(flag := False)"
  shows "spin_ok (change_kafka i f (kafka_settled i oper q))"
proof -
  have waits: "\<exists>op'. (j, op') \<in> set (remove1 (i, oper) (kf_waits q)) \<and> flag_of op' = k"
    if "\<exists>op'. (j, op') \<in> set (kf_waits q) \<and> flag_of op' = k" "j \<noteq> i \<or> k \<noteq> flag" for j k
    using that assms(2) in_set_remove1 [of _ "(i, oper)" "kf_waits q"] by fastforce
  have "\<exists>op'. (j, op') \<in> set (remove1 (i, oper) (kf_waits q)) \<and> flag_of op' = k"
    if "map_of (kf_states (change_kafka i f (kafka_settled i oper q))) j = Some st" "kt_busy st k" for j st k
  proof (cases "j = i")
    case True
    with that have "kt_busy (kafka_spread q i) k" "k \<noteq> flag"
      by (auto simp: change_kafka_def put_kafka_def assms(3) kafka_settled_def kafka_spread_def split: if_splits)
    with waits spread_busy [OF assms(1)] True show ?thesis by blast
  next
    case False
    with that have "map_of (kf_states q) j = Some st" by (simp add: change_kafka_def put_kafka_def kafka_settled_def)
    with waits that(2) assms(1) False show ?thesis unfolding spin_ok_def by blast
  qed
  then show ?thesis by (simp add: spin_ok_def change_kafka_def put_kafka_def kafka_settled_def)
qed

lemma spin_done [spin_intros]:
  "spin_ok q \<Longrightarrow> keeps_busy f \<Longrightarrow> flag_of oper = flag \<Longrightarrow> spin_ok (kafka_done i flag f (kafka_settled i oper q))"
  unfolding kafka_done_def by (rule spin_cleared) (auto simp: set_busy_def keeps_busy_def)

lemma spin_failed [spin_intros]:
  "spin_ok q \<Longrightarrow> flag_of oper = flag \<Longrightarrow> spin_ok (kafka_failed i flag e (kafka_settled i oper q))"
  unfolding kafka_failed_def by (rule spin_cleared) (auto simp: set_busy_def)

lemma spin_thrown [spin_intros]:
  "spin_ok q \<Longrightarrow> flag_of oper = flag \<Longrightarrow> spin_ok (kafka_thrown i flag e (kafka_settled i oper q))"
  by (rule spin_waits [of _ "kafka_failed i flag e (kafka_settled i oper q)"]) (simp_all add: kafka_thrown_def spin_failed)

lemma busy_clear [simp]: "kt_busy (clear_response s) = kt_busy s"
  by (simp add: clear_response_def)

lemma keeps_id [simp]: "keeps_busy id"
  by (simp add: keeps_busy_def)

text \<open>Every field but the flags.\<close>

lemma keeps_fields [simp]:
  "keeps_busy (\<lambda>s. s\<lparr>kt_activeView := av s\<rparr>)" "keeps_busy (\<lambda>s. s\<lparr>kt_topicSearch := ts s\<rparr>)" "keeps_busy (\<lambda>s. s\<lparr>kt_includeInternal := b s\<rparr>)"
  "keeps_busy (\<lambda>s. s\<lparr>kt_aclFilters := fl s\<rparr>)" "keeps_busy (\<lambda>s. s\<lparr>kt_messageBrowser := mb s\<rparr>)" "keeps_busy (\<lambda>s. s\<lparr>kt_produceMessage := pf s\<rparr>)"
  "keeps_busy (\<lambda>s. s\<lparr>kt_overview := v1 s\<rparr>)" "keeps_busy (\<lambda>s. s\<lparr>kt_brokers := vs1 s\<rparr>)" "keeps_busy (\<lambda>s. s\<lparr>kt_brokerConfig := v2 s\<rparr>)"
  "keeps_busy (\<lambda>s. s\<lparr>kt_clusterConfigs := v3 s\<rparr>)" "keeps_busy (\<lambda>s. s\<lparr>kt_topicDetail := v4 s\<rparr>)" "keeps_busy (\<lambda>s. s\<lparr>kt_schemaSubjects := ss s\<rparr>)"
  "keeps_busy (\<lambda>s. s\<lparr>kt_schemaVersions := sv s\<rparr>)" "keeps_busy (\<lambda>s. s\<lparr>kt_connectors := vs2 s\<rparr>)" "keeps_busy (\<lambda>s. s\<lparr>kt_connectorDetail := v5 s\<rparr>)"
  "keeps_busy (\<lambda>s. s\<lparr>kt_consumerGroups := vs3 s\<rparr>)" "keeps_busy (\<lambda>s. s\<lparr>kt_groupDetail := v6 s\<rparr>)"
  "keeps_busy (\<lambda>s. s\<lparr>kt_selectedBroker := n s, kt_brokerConfig := v2 s\<rparr>)" "keeps_busy (\<lambda>s. clear_response (s\<lparr>kt_selectedTopic := t1 s, kt_topicDetail := v4 s\<rparr>))"
  "keeps_busy (\<lambda>s. s\<lparr>kt_selectedSchemaSubject := t2 s, kt_schemaVersions := sv s, kt_schemaDetail := v7 s\<rparr>)"
  "keeps_busy (\<lambda>s. s\<lparr>kt_selectedSchemaSubject := t2 s, kt_schemaDetail := v7 s\<rparr>)"
  "keeps_busy (\<lambda>s. s\<lparr>kt_selectedConnectCluster := t3 s, kt_connectors := vs2 s, kt_selectedConnector := t4 s, kt_connectorDetail := v5 s\<rparr>)"
  "keeps_busy (\<lambda>s. s\<lparr>kt_selectedConnector := t4 s, kt_connectorDetail := v5 s\<rparr>)" "keeps_busy (\<lambda>s. s\<lparr>kt_selectedGroup := t5 s, kt_groupDetail := v6 s\<rparr>)"
  "keeps_busy (\<lambda>s. s\<lparr>kt_topics := vs4 s, kt_topicsTotal := k1 s\<rparr>)" "keeps_busy (\<lambda>s. s\<lparr>kt_acls := vs5 s, kt_aclsTotal := k2 s\<rparr>)"
  "keeps_busy (\<lambda>s. s\<lparr>kt_connectClusters := ks s, kt_selectedConnectCluster := t3 s\<rparr>)" "keeps_busy clear_response"
  "keeps_busy (\<lambda>s. s\<lparr>kt_schemaVersions := sv s, kt_schemaDetail := v7 s\<rparr>)"
  by (simp_all add: keeps_busy_def)

lemma flag_of_simps [simp]:
  "flag_of (KO_overview a) = K_overview" "flag_of KO_brokers = K_brokers" "flag_of KO_brokerConfig = K_brokerConfig"
  "flag_of KO_clusterConfigs = K_clusterConfigs" "flag_of (KO_topics a) = K_topics" "flag_of KO_topicDetail = K_topicDetail"
  "flag_of (KO_createTopic t) = K_topicAdmin" "flag_of KO_deleteTopic = K_topicAdmin" "flag_of (KO_alterTopic t) = K_topicAdmin"
  "flag_of (KO_increasePartitions t) = K_topicAdmin" "flag_of KO_deleteRecords = K_topicAdmin" "flag_of (KO_resetOffset t) = K_groupAdmin"
  "flag_of KO_deleteGroup = K_groupAdmin" "flag_of KO_acls = K_acls" "flag_of KO_aclAdmin = K_aclAdmin" "flag_of (KO_subjects a) = K_schemaSubjects"
  "flag_of (KO_versions t) = K_schemaDetail" "flag_of (KO_schema t) = K_schemaDetail" "flag_of KO_check = K_schemaAdmin"
  "flag_of (KO_registerSchema t) = K_schemaAdmin" "flag_of (KO_deleteSchema r) = K_schemaAdmin" "flag_of KO_clusters = K_connectClusters"
  "flag_of (KO_connectors a) = K_connectors" "flag_of KO_connector = K_connectorDetail" "flag_of (KO_createConnector t n) = K_connectAdmin"
  "flag_of (KO_changeConnector t) = K_connectAdmin" "flag_of (KO_deleteConnector t) = K_connectAdmin" "flag_of KO_browse = K_messages"
  "flag_of KO_produce = K_producing" "flag_of KO_groups = K_groups" "flag_of KO_group = K_groupDetail"
  by (simp_all add: flag_of_def)

lemma spin_loads [spin_intros]:
  assumes "spin_ok q"
  shows "spin_ok (load_overview a tabs i q)" "spin_ok (loadOverview tabs i q)" "spin_ok (loadBrokers tabs i q)" "spin_ok (loadBrokerConfig tabs i n q)"
    "spin_ok (loadClusterConfigs tabs i q)" "spin_ok (load_topics a tabs i q)" "spin_ok (loadTopics tabs i q)" "spin_ok (loadTopicDetail tabs i t q)"
    "spin_ok (loadACLs tabs i q)" "spin_ok (load_subjects a tabs i q)" "spin_ok (loadSchemaSubjects tabs i q)" "spin_ok (loadSchemaVersions tabs i t q)"
    "spin_ok (loadSchema tabs i t vo q)" "spin_ok (loadConnectClusters tabs i q)" "spin_ok (load_connectors a tabs i co q)"
    "spin_ok (loadConnectors tabs i co q)" "spin_ok (loadConnectorDetail tabs i t q)" "spin_ok (loadConsumerGroups tabs i q)"
    "spin_ok (loadConsumerGroupDetail tabs i t q)"
  using assms
  by (simp_all add: load_overview_def loadOverview_def loadBrokers_def loadBrokerConfig_def loadClusterConfigs_def load_topics_def loadTopics_def
      loadTopicDetail_def loadACLs_def load_subjects_def loadSchemaSubjects_def loadSchemaVersions_def loadSchema_def loadConnectClusters_def
      load_connectors_def loadConnectors_def loadConnectorDetail_def loadConsumerGroups_def loadConsumerGroupDetail_def spin_begin)

lemma spin_joins [simp]: "spin_ok (q\<lparr>kf_joins := js\<rparr>) = spin_ok q" "spin_ok (q\<lparr>kf_joins := js, kf_nextJoin := n\<rparr>) = spin_ok q"
  by (simp_all add: spin_ok_def)

lemma spin_after [spin_intros]: "spin_ok q \<Longrightarrow> spin_ok (after_load tabs i a q)"
  by (auto simp: after_load_def Let_def split: kafka_after.split option.split intro: spin_intros)

lemma spin_answered [spin_intros]:
  "spin_ok q \<Longrightarrow> (\<And>v. keeps_busy (f v)) \<Longrightarrow> flag_of oper = flag \<Longrightarrow> spin_ok (load_answered i oper flag f r q)"
  by (auto simp: load_answered_def split: kafka_reply.split intro: spin_intros)

lemma spin_admin [spin_intros]:
  "spin_ok q \<Longrightarrow> keeps_busy f \<Longrightarrow> flag_of oper = flag \<Longrightarrow> (\<And>s. spin_ok s \<Longrightarrow> spin_ok (g s)) \<Longrightarrow> spin_ok (admin_answered i oper flag f g r q)"
  "spin_ok q \<Longrightarrow> keeps_busy f \<Longrightarrow> flag_of oper = flag \<Longrightarrow> (\<And>s. spin_ok s \<Longrightarrow> spin_ok (g s)) \<Longrightarrow>
    spin_ok (admin_answered_present te i oper flag f g r q)"
  by (auto simp: admin_answered_def admin_answered_present_def split: kafka_reply.split intro: spin_intros)

lemma spin_send_kafka [spin_intros]:
  assumes "spin_ok q" and "flag_of oper = flag"
  shows "spin_ok (send_kafka tabs i flag oper request q)"
proof -
  have "spin_ok (kafka_await i oper c (change_kafka i (set_busy flag True) (ensureTab i q)))" for c
    using spin_send [of "ensureTab i q" id oper flag i c] assms by (simp add: spin_ensure)
  moreover have "spin_ok (kafka_failed i flag e (change_kafka i (set_busy flag True) (ensureTab i q)))" for e
  proof -
    have "kafka_failed i flag e (change_kafka i (set_busy flag True) r) = kafka_failed i flag e r" for r
    proof -
      have "set_prop (set_prop ps i x) i y = set_prop ps i y" for ps :: "(string \<times> kafka_tab) list" and x y
        by (induction ps) auto
      then show ?thesis by (simp add: kafka_failed_def change_kafka_def put_kafka_def set_busy_def kafka_spread_def)
    qed
    moreover have "kafka_settled i oper (kafka_await i oper c r) = kafka_settled i oper (kafka_await i oper c r)" for c r ..
    moreover have "spin_ok (kafka_failed i flag e r)" if "spin_ok r" for r
      using that spread_busy [OF that]
      by (auto simp: kafka_failed_def change_kafka_def set_busy_def intro!: spin_put split: if_split_asm)
    ultimately show ?thesis using assms by (simp add: spin_ensure)
  qed
  ultimately show ?thesis using assms
    by (auto simp: send_kafka_def Let_def spin_ensure split: option.split list.split sum.split)
qed

lemma spin_close: "spin_ok q \<Longrightarrow> spin_ok (kafka_close_hook tab q)"
  by (auto simp: kafka_close_hook_def spin_ok_def split: if_split_asm)

lemma spin_browse_answered: "spin_ok q \<Longrightarrow> spin_ok (browse_answered te i r q)"
  by (auto simp: browse_answered_def intro: spin_intros)

lemma spin_browse: "spin_ok q \<Longrightarrow> spin_ok (browseMessages te tabs i q)"
  by (simp add: browseMessages_def spin_send_kafka)

lemma spin_produce_answered: "spin_ok q \<Longrightarrow> spin_ok (produce_answered te tabs i r q)"
  by (auto simp: produce_answered_def split: kafka_reply.split intro!: spin_browse spin_failed spin_done)

lemma spin_refresh: "spin_ok q \<Longrightarrow> spin_ok (refreshActiveView tabs i q)"
  by (auto simp: refreshActiveView_def Let_def spin_loads spin_ensure split: kafka_view.split)

lemma keeps_busy_pair: "keeps_busy (case v of (a, b) \<Rightarrow> (\<lambda>s. s\<lparr>kt_topics := or_no_values a, kt_topicsTotal := Some b\<rparr>))"
    "keeps_busy (case w of (a, b) \<Rightarrow> (\<lambda>s. s\<lparr>kt_acls := or_no_values a, kt_aclsTotal := Some b\<rparr>))"
  by (simp_all add: keeps_busy_def split: prod.split)

lemma spin_step: "kafka_step q q' \<Longrightarrow> spin_ok q \<Longrightarrow> spin_ok q'"
proof (induction rule: kafka_step.induct)
  case (ka_versions i s q rv tabs)
  then show ?case
    by (auto simp: versions_answered_def Let_def split: kafka_reply.split option.split list.split intro!: spin_loads spin_answered)
next
  case (ka_clusters i q tabs rc)
  then show ?case
    by (auto simp: clusters_answered_def Let_def split: kafka_reply.split option.split list.split intro!: spin_loads spin_done spin_failed)
next
  case (ka_overview i a q tabs r)
  then show ?case by (auto simp: overview_answered_def split: kafka_reply.split intro!: spin_after spin_done spin_failed)
next
  case (ka_created i t q tabs ru)
  then show ?case by (auto simp: topic_created_def load_created_def Let_def intro!: spin_admin spin_loads)
qed (simp_all add: setActiveView_def setTopicSearch_def setIncludeInternal_def setACLFilters_def setMessageBrowser_def setProduceMessage_def
    spin_change spin_ensure spin_loads spin_begin createTopic_def deleteTopic_def alterTopicConfig_def increasePartitions_def
    deleteTopicRecords_def resetConsumerGroupOffset_def deleteConsumerGroup_def createACL_def deleteACL_def checkSchemaCompatibility_def
    registerSchema_def deleteSchema_def createConnector_def Let_def updateConnectorConfig_def pauseConnector_def resumeConnector_def
    restartConnector_def change_connector_def deleteConnector_def spin_browse produceKafkaMessage_def spin_send_kafka spin_refresh spin_close
    brokers_answered_def broker_config_answered_def cluster_configs_answered_def topics_answered_def topic_detail_answered_def
    topic_deleted_def topic_altered_def partitions_increased_def records_deleted_def offset_was_reset_def group_deleted_def acls_answered_def
    acl_changed_def subjects_answered_def schema_answered_def schema_checked_def schema_registered_def schema_deleted_def
    connectors_answered_def connector_answered_def connector_created_def connector_changed_def connector_deleted_def spin_browse_answered
    spin_produce_answered groups_answered_def group_answered_def spin_after spin_answered spin_admin keeps_busy_pair split_def)

lemma spin_run: "kafka_run kafka_init q \<Longrightarrow> spin_ok q"
proof (induction rule: kafka_run.induct)
  case kafka_refl
  show ?case by (simp add: spin_ok_def kafka_init_def)
qed (rule spin_step)

text \<open>
  C32: Over every run a spinner that turns in a Kafka tab has a call of the backend that is awaited for this tab
  and this spinner.
\<close>

theorem kafka_spinner_has_call:
  assumes "kafka_run kafka_init q" and "map_of (kf_states q) i = Some st" and "kt_busy st k"
  shows "\<exists>oper. (i, oper) \<in> set (kf_waits q) \<and> flag_of oper = k"
  using spin_run [OF assms(1)] assms(2,3) by (simp add: spin_ok_def)



lemma asset_begin:
  "getKafkaAssetId tabs i = Some a \<Longrightarrow> map_of (kf_states q) i = Some st \<Longrightarrow> ensureTab i q = q \<and> kafka_spread q i = st"
  by (simp add: ensureTab_def kafka_spread_def)

text \<open>
  C33: A message is sent as the form has it: with a whole number within the doubles for the partition and a JSON
  array of headers, exactly one call leaves, to the selected topic, with the key, the value and the encodings
  of the form; a partition that is no whole number sends nothing and ends with an error.
\<close>

theorem message_sent_as_written:
  assumes "getKafkaAssetId tabs i = Some a" and "map_of (kf_states q) i = Some st" and "kt_selectedTopic st = Some topic" and "topic \<noteq> []"
    and "kt_produceMessage st = Some form" and "pf_headers form = Some h" and "trim h \<noteq> []" and "parse_json (trim h) = Inr (JArr hs)"
  shows "(pf_partition form = Some (int_str n) \<and> \<bar>n\<bar> \<le> 2 ^ 53 \<longrightarrow>
      kf_calls (produceKafkaMessage parse_json te tabs i q) = kf_calls q @
        [KC_Produce \<lparr>pr_assetId = a, pr_topic = topic, pr_key = pf_key form, pr_keyEncoding = pf_keyEncoding form, pr_value = pf_value form,
           pr_valueEncoding = pf_valueEncoding form, pr_partition = Some (of_int n), pr_headers = (if hs = [] then None else Some hs)\<rparr>]) \<and>
    (pf_partition form = Some p \<and> trim p \<noteq> [] \<and> \<not> js_is_integer (js_number (trim p)) \<longrightarrow>
      kf_calls (produceKafkaMessage parse_json te tabs i q) = kf_calls q \<and>
      map_option (\<lambda>s. (kt_error s, kt_busy s K_producing)) (map_of (kf_states (produceKafkaMessage parse_json te tabs i q)) i) =
        Some (Some ''Error: partition must be an integer'', False))"
proof -
  obtain c cs where t: "topic = c # cs" using assms(4) by (cases topic) auto
  have n: "int_str n \<noteq> []" using all_digits_nat_str by (auto simp: int_str_def all_digits_def)
  have part: "parseOptionalInteger te (Some p) ''partition'' = Inl ''Error: partition must be an integer''"
    if "trim p \<noteq> []" "\<not> js_is_integer (js_number (trim p))"
    using that by (auto simp: parseOptionalInteger_def parseRequiredInteger_def split: option.split)
  have whole: "parseOptionalInteger te (Some (int_str n)) ''partition'' = Inr (Some (of_int n))" if "\<bar>n\<bar> \<le> 2 ^ 53"
    using that n by (simp add: parseOptionalInteger_def parseRequiredInteger_def trimmed_int_str js_number_int_str js_is_integer_def)
  show ?thesis using asset_begin [OF assms(1,2)] assms part whole
    by (auto simp: produceKafkaMessage_def send_kafka_def t produce_of_def parseHeaders_def kafka_await_def kafka_failed_def change_kafka_def
        put_kafka_def set_busy_def kafka_spread_def Let_def)
qed

text \<open>
  A whole number of a form, an offset among them, arrives as the double nearest to it, and one too large for
  a double is refused: up to \<open>2^53\<close> it arrives unchanged, and beyond that no odd one does. A blank required
  field is the number 0; a blank optional field, such as the partition, is left out.
\<close>

theorem form_numbers:
  "parseRequiredInteger te (Some (int_str n)) field =
     (case round_double (of_int n) of Some x \<Rightarrow> Inr x | None \<Rightarrow> Inl (''Error: '' @ field @ '' must be an integer'')) \<and>
   (\<bar>n\<bar> \<le> 2 ^ 53 \<longrightarrow> parseRequiredInteger te (Some (int_str n)) field = Inr (of_int n)) \<and>
   (2 ^ 53 < \<bar>n\<bar> \<and> odd n \<longrightarrow> parseRequiredInteger te (Some (int_str n)) field \<noteq> Inr (of_int n)) \<and>
   parseOptionalInteger te (Some (int_str n)) field = map_sum id Some (parseRequiredInteger te (Some (int_str n)) field) \<and>
   (trim b = [] \<longrightarrow> parseRequiredInteger te (Some b) field = Inr 0 \<and> parseOptionalInteger te (Some b) field = Inr None)"
proof -
  have n: "js_number (int_str n) = round_double (of_int n)"
    by (simp add: js_number_def trimmed_int_str numeric_int_str)
  have r: "parseRequiredInteger te (Some (int_str n)) field =
     (case round_double (of_int n) of Some x \<Rightarrow> Inr x | None \<Rightarrow> Inl (''Error: '' @ field @ '' must be an integer''))"
    using round_double_integer [of n] by (simp add: parseRequiredInteger_def n split: option.split)
  have odd: "round_double (of_int n) \<noteq> Some (of_int n)" if "2 ^ 53 < \<bar>n\<bar>" "odd n"
    using round_double_large [OF that(1), of "of_int n"] that(2) by auto
  have o: "parseOptionalInteger te (Some (int_str n)) field = map_sum id Some (parseRequiredInteger te (Some (int_str n)) field)"
  proof -
    have "int_str n \<noteq> []" using numeric_int_str [of n] all_digits_nat_str [of "nat n"] by (auto simp: int_str_def all_digits_def)
    then show ?thesis by (simp add: parseOptionalInteger_def trimmed_int_str split: sum.split)
  qed
  have b: "parseRequiredInteger te (Some b) field = Inr 0 \<and> parseOptionalInteger te (Some b) field = Inr None" if "trim b = []"
    using that by (simp add: parseRequiredInteger_def parseOptionalInteger_def js_number_blank js_is_integer_def)
  show ?thesis
    using odd b by (simp add: o) (auto simp: r round_double_int split: option.split)
qed

definition topic_opened :: "string \<Rightarrow> int \<Rightarrow> string \<Rightarrow> kafka_store \<Rightarrow> bool" where
  "topic_opened i a topic q \<longleftrightarrow>
     map_option kt_selectedTopic (map_of (kf_states q) i) = Some (Some topic) \<and> kf_calls q \<noteq> [] \<and> last (kf_calls q) = KC_GetTopic a topic"

lemma loaded_reads [simp]:
  "kf_joins (kafka_done i flag f q) = kf_joins q" "kf_joins (kafka_failed i flag e q) = kf_joins q" "kf_joins (kafka_settled i oper q) = kf_joins q"
  by (simp_all add: kafka_done_def kafka_failed_def kafka_settled_def change_kafka_def put_kafka_def)

lemma answered_joins [simp]: "kf_joins (load_answered i oper flag f r q) = kf_joins q"
  by (simp add: load_answered_def split: kafka_reply.split)

lemma begin_joins [simp]: "kf_joins (kafka_begin tabs i flag f oper request q) = kf_joins q"
  by (simp add: kafka_begin_def Let_def kafka_await_def change_kafka_def put_kafka_def ensureTab_def split: option.split)

lemma detail_opens:
  "getKafkaAssetId tabs i = Some a \<Longrightarrow> topic \<noteq> [] \<Longrightarrow> topic_opened i a topic (loadTopicDetail tabs i topic q)"
  by (simp add: loadTopicDetail_def kafka_begin_def Let_def topic_opened_def kafka_await_def change_kafka_def put_kafka_def set_busy_def
      clear_response_def)

text \<open>
  C35: After a topic was created the topics and the overview are loaded again, and when both have settled, in
  either order and whatever they answer, the new topic is selected and its detail is asked for.
\<close>

theorem created_topic_opened:
  assumes "getKafkaAssetId tabs i = Some a" and "topic \<noteq> []"
    and "r = topic_created tabs i topic (KR_ok ()) q" and "n = kf_nextJoin q"
  shows "topic_opened i a topic (overview_answered tabs i (After_created n) o1 (topics_answered tabs i (After_created n) t1 r)) \<and>
    topic_opened i a topic (topics_answered tabs i (After_created n) t1 (overview_answered tabs i (After_created n) o1 r))"
proof -
  have "map_of (kf_joins r) n = Some (i, topic, 2)"
    using assms(1,3,4) by (simp add: topic_created_def admin_answered_def load_created_def Let_def load_overview_def load_topics_def)
       (simp add: kafka_done_def change_kafka_def put_kafka_def kafka_settled_def)
  then show ?thesis using detail_opens [OF assms(1,2)]
    by (auto simp: overview_answered_def topics_answered_def after_load_def Let_def split: kafka_reply.split)
qed

text \<open>
  An answer about a topic is stored whatever topic is selected by then: when a second topic is selected
  before the detail of the first has come, and the answers come in the other order, the tab has the second
  topic selected and shows the detail of the first; so it is with the messages of the first.
\<close>

theorem stale_topic_shown:
  assumes "getKafkaAssetId tabs i = Some a" and "t1 \<noteq> []" and "t2 \<noteq> []"
    and "r = loadTopicDetail tabs i t2 (loadTopicDetail tabs i t1 q)"
  shows "(\<exists>st. map_of (kf_states (topic_detail_answered i (KR_ok d1) (topic_detail_answered i (KR_ok d2) r))) i = Some st \<and>
      kt_selectedTopic st = Some t2 \<and> kt_topicDetail st = Some d1) \<and>
    (\<exists>st. map_of (kf_states (browse_answered te i (KR_ok m1) r)) i = Some st \<and>
      kt_selectedTopic st = Some t2 \<and> Option.bind (kt_messageBrowser st) mb_response = Some m1)"
  using assms
  by (simp add: loadTopicDetail_def kafka_begin_def Let_def topic_detail_answered_def browse_answered_def load_answered_def kafka_done_def
      kafka_settled_def kafka_await_def change_kafka_def put_kafka_def set_busy_def clear_response_def kafka_spread_def is_failure_def)


section \<open>Witnesses\<close>

definition ex_kafka_tabs :: "tab list" where
  "ex_kafka_tabs = [\<lparr>tb_id = ''k'', tb_type = TT_query, tb_label = ''k'', tb_icon = None, tb_iconColor = None,
     tb_meta = QueryMeta \<lparr>qm_assetId = 4, qm_assetName = ''k'', qm_assetIcon = [], qm_assetType = QA_kafka, qm_driver = None,
       qm_defaultDatabase = None, qm_redisDatabase = None, qm_redisScanPageSize = None, qm_redisKeySeparator = None\<rparr>\<rparr>]"

lemma ex_kafka_asset: "getKafkaAssetId ex_kafka_tabs ''k'' = Some 4"
  by (simp add: getKafkaAssetId_def ex_kafka_tabs_def)

definition ex_form :: produce_form where
  "ex_form = defaultProduceState\<lparr>pf_partition := Some ''7'', pf_value := Some ''hello'', pf_headers := Some ''[]''\<rparr>"

definition ex_kafka :: kafka_store where
  "ex_kafka = kafka_init\<lparr>kf_states := [(''k'', defaultKafkaState\<lparr>kt_selectedTopic := Some ''t'', kt_produceMessage := Some ex_form\<rparr>)]\<rparr>"

theorem kafka_spinner_has_call_witness:
  "\<exists>oper. (''k'', oper) \<in> set (kf_waits (loadOverview ex_kafka_tabs ''k'' kafka_init)) \<and> flag_of oper = K_overview"
proof -
  have r: "kafka_run kafka_init (loadOverview ex_kafka_tabs ''k'' kafka_init)"
    by (rule kafka_next [OF kafka_refl ks_overview])
  obtain st where "map_of (kf_states (loadOverview ex_kafka_tabs ''k'' kafka_init)) ''k'' = Some st" "kt_busy st K_overview"
    by (auto simp: loadOverview_def load_overview_def kafka_begin_def ex_kafka_asset kafka_await_def change_kafka_def put_kafka_def set_busy_def Let_def)
  then show ?thesis by (rule kafka_spinner_has_call [OF r])
qed

theorem message_sent_as_written_witness:
  "kf_calls (produceKafkaMessage (\<lambda>s. Inr (JArr [])) ''TypeError'' ex_kafka_tabs ''k'' ex_kafka) =
     [KC_Produce \<lparr>pr_assetId = 4, pr_topic = ''t'', pr_key = Some [], pr_keyEncoding = Some PE_text, pr_value = Some ''hello'',
        pr_valueEncoding = Some PE_text, pr_partition = Some 7, pr_headers = None\<rparr>]"
proof -
  have t: "trim ''[]'' \<noteq> []" by (simp add: trim_def trim_start_def trim_end_def is_space_def)
  have seven: "''7'' = int_str 7" by code_simp
  have st: "map_of (kf_states ex_kafka) ''k'' = Some (defaultKafkaState\<lparr>kt_selectedTopic := Some ''t'', kt_produceMessage := Some ex_form\<rparr>)"
    by (simp add: ex_kafka_def)
  from conjunct1 [OF message_sent_as_written [OF ex_kafka_asset st, of "''t''" ex_form "''[]''" "\<lambda>s. Inr (JArr [])" "[]" 7]] t
  show ?thesis by (simp add: ex_form_def defaultProduceState_def seven) (simp add: ex_kafka_def kafka_init_def)
qed

theorem form_numbers_witness:
  "parseRequiredInteger [] (Some (int_str 42)) ''offset'' = Inr 42 \<and>
   parseRequiredInteger [] (Some (int_str 9007199254740993)) ''offset'' \<noteq> Inr 9007199254740993 \<and>
   parseOptionalInteger [] (Some '' '') ''partition'' = Inr None"
proof -
  note parts = conjunct1 [OF conjunct2 [OF form_numbers]] conjunct1 [OF conjunct2 [OF conjunct2 [OF form_numbers]]]
    conjunct2 [OF conjunct2 [OF conjunct2 [OF conjunct2 [OF form_numbers]]]]
  have "trim '' '' = []" by code_simp
  with parts(1) [of 42 "[]" "''offset''"] parts(2) [of 9007199254740993 "[]" "''offset''"] parts(3) [of "'' ''" "[]" "''partition''"]
  show ?thesis by simp
qed

theorem created_topic_opened_witness:
  "topic_opened ''k'' 4 ''t'' (overview_answered ex_kafka_tabs ''k'' (After_created 0) (KR_failed ''e'')
     (topics_answered ex_kafka_tabs ''k'' (After_created 0) (KR_ok (None, 0)) (topic_created ex_kafka_tabs ''k'' ''t'' (KR_ok ()) kafka_init)))"
  using created_topic_opened [OF ex_kafka_asset _ refl refl, of "''t''" kafka_init "KR_failed ''e''" "KR_ok (None, 0)"] by (simp add: kafka_init_def)

theorem stale_topic_shown_witness:
  "\<exists>st. map_of (kf_states (topic_detail_answered ''k'' (KR_ok (JStr ''of a'')) (topic_detail_answered ''k'' (KR_ok (JStr ''of b''))
     (loadTopicDetail ex_kafka_tabs ''k'' ''b'' (loadTopicDetail ex_kafka_tabs ''k'' ''a'' kafka_init))))) ''k'' = Some st \<and>
     kt_selectedTopic st = Some ''b'' \<and> kt_topicDetail st = Some (JStr ''of a'')"
  using conjunct1 [OF stale_topic_shown [OF ex_kafka_asset _ _ refl]] by blast

end
