(* ===== verification/TableGrid.thy ===== *)
theory TableGrid
  imports TableExport TableFilter JsNumber
begin

text \<open>
  The table of \<^verbatim>\<open>components/query/QueryResultTable.tsx\<close>: which rows and columns it shows and in which order,
  the selection, the keys, what editing a cell reports, the menus, and the text that is copied. What it
  reports to the component around it is a list of events; a callback that is not given ignores its event.
  The layout of the page (virtual scrolling, widths while dragging, focus) is left out.
\<close>

section \<open>Values and types of columns\<close>

definition NULL_KEY :: string where
  "NULL_KEY = ''__opskat_null_sentinel__''"

definition DEFAULT_COLUMN_WIDTH :: int where
  "DEFAULT_COLUMN_WIDTH = 160"

definition valueKey :: "jsval \<Rightarrow> string" where
  "valueKey v = (if nullish v then NULL_KEY else cellValueToText v)"

definition cellKey :: "nat \<Rightarrow> string \<Rightarrow> string" where
  "cellKey rowIdx col = nat_str rowIdx @ '':'' @ col"

datatype type_icon = Icon_hash | Icon_calendar | Icon_type

definition includes_any :: "string list \<Rightarrow> string \<Rightarrow> bool" where
  "includes_any ws s \<longleftrightarrow> list_ex (str_includes s) ws"

definition getColumnTypeIcon :: "string option \<Rightarrow> type_icon" where
  "getColumnTypeIcon type =
     (let normalized = (case type of None \<Rightarrow> [] | Some t \<Rightarrow> to_lower t)
      in if includes_any [''int'', ''decimal'', ''numeric'', ''float'', ''double'', ''real'', ''serial'', ''number''] normalized
         then Icon_hash
         else if includes_any [''date'', ''time'', ''timestamp''] normalized then Icon_calendar else Icon_type)"

definition padDatePart :: "string \<Rightarrow> string" where
  "padDatePart s = pad_start 2 CHR ''0'' s"

type_synonym date_fields = "nat \<times> nat \<times> nat \<times> nat \<times> nat \<times> nat"

definition from_date :: "date_fields \<Rightarrow> string" where
  "from_date = (\<lambda>(y, mo, d, h, mi, s).
     nat_str y @ ''-'' @ padDatePart (nat_str mo) @ ''-'' @ padDatePart (nat_str d) @ '' '' @
     padDatePart (nat_str h) @ '':'' @ padDatePart (nat_str mi) @ '':'' @ padDatePart (nat_str s))"

text \<open>
  The pattern of a date with an optional time,
  \<open>^(\d{4})[-/](\d{1,2})[-/](\d{1,2})(?:[T\s,]+(\d{1,2}):(\d{1,2})(?::(\d{1,2}))?)?\<close>; the groups are texts.
\<close>

definition digits_text :: "nat \<Rightarrow> nat \<Rightarrow> string \<Rightarrow> (string \<times> string) option" where
  "digits_text lo hi s = (let ds = takeWhile is_digit (take hi s) in if length ds < lo then None else Some (ds, drop (length ds) s))"

definition input_time :: "string \<Rightarrow> (string \<times> string \<times> string option) option" where
  "input_time s =
     (let sep = (\<lambda>c. c = CHR ''T'' \<or> is_space c \<or> c = CHR '','')
      in if takeWhile sep s = [] then None
         else Option.bind (digits_text 1 2 (dropWhile sep s)) (\<lambda>(h, s1).
              Option.bind (take_char '':'' s1) (\<lambda>s2.
              Option.bind (digits_text 1 2 s2) (\<lambda>(m, s3).
              Some (h, m, Option.bind (take_char '':'' s3) (\<lambda>s4. map_option fst (digits_text 1 2 s4)))))))"

definition input_date :: "string \<Rightarrow> (string \<times> string \<times> string \<times> (string \<times> string \<times> string option) option) option" where
  "input_date s =
     Option.bind (digits_text 4 4 s) (\<lambda>(y, s1).
     Option.bind (take_char ''-/'' s1) (\<lambda>s2.
     Option.bind (digits_text 1 2 s2) (\<lambda>(m, s3).
     Option.bind (take_char ''-/'' s3) (\<lambda>s4.
     Option.bind (digits_text 1 2 s4) (\<lambda>(d, s5). Some (y, m, d, input_time s5))))))"

text \<open>The last argument is the present time.\<close>

fun formatDateToInputValue :: "jsval \<Rightarrow> date_fields \<Rightarrow> string" where
  "formatDateToInputValue (JDate (Some f) t u) now = from_date f"
| "formatDateToInputValue (JStr s) now =
     (case input_date (trim s) of
        None \<Rightarrow> from_date now
      | Some (y, m, d, time) \<Rightarrow>
          (let (hh, mm, ss) = (case time of None \<Rightarrow> (''00'', ''00'', ''00'') | Some (h, mi, sec) \<Rightarrow> (h, mi, or_else sec ''00''))
           in y @ ''-'' @ padDatePart m @ ''-'' @ padDatePart d @ '' '' @ padDatePart hh @ '':'' @ padDatePart mm @ '':'' @ padDatePart ss))"
| "formatDateToInputValue v now = from_date now"

definition splitDateAndTime :: "string \<Rightarrow> string \<times> string" where
  "splitDateAndTime datetime = (case split '' '' datetime of [] \<Rightarrow> ([], ''00:00:00'') | [d] \<Rightarrow> (d, ''00:00:00'') | d # t # _ \<Rightarrow> (d, t))"

datatype date_mode = DM_date | DM_datetime

definition regex_word_char :: "char \<Rightarrow> bool" where
  "regex_word_char c \<longleftrightarrow> is_digit c \<or> is_upper c \<or> is_lower c \<or> c = CHR ''_''"

text \<open>\<open>\bw\b\<close>, for a word \<open>w\<close>; the flag says whether the character before is one of a word.\<close>

fun has_word :: "string \<Rightarrow> bool \<Rightarrow> string \<Rightarrow> bool" where
  "has_word w inside [] = False"
| "has_word w inside (c # s) =
     ((\<not> inside \<and> starts_with (c # s) w \<and> (case drop (length w) (c # s) of [] \<Rightarrow> True | d # _ \<Rightarrow> \<not> regex_word_char d)) \<or>
      has_word w (regex_word_char c) s)"

definition ends_with :: "string \<Rightarrow> string \<Rightarrow> bool" where
  "ends_with s w \<longleftrightarrow> starts_with (rev s) (rev w)"

text \<open>\<open>(^|_)w$\<close>\<close>

definition last_part :: "string \<Rightarrow> string \<Rightarrow> bool" where
  "last_part s w \<longleftrightarrow> s = w \<or> ends_with s (''_'' @ w)"

definition getDateEditMode :: "string \<Rightarrow> string option \<Rightarrow> jsval \<Rightarrow> date_mode option" where
  "getDateEditMode col type value =
     (let normalizedType = (case type of None \<Rightarrow> [] | Some t \<Rightarrow> to_lower t);
          normalizedCol = to_lower col;
          dateLikeName = list_ex (last_part normalizedCol) [''date'', ''time'', ''created_at'', ''updated_at'', ''deleted_at'']
      in if has_word ''date'' False normalizedType \<and> \<not> includes_any [''time'', ''timestamp'', ''datetime''] normalizedType then Some DM_date
         else if includes_any [''timestamp'', ''datetime'', ''time''] normalizedType then Some DM_datetime
         else if \<not> dateLikeName then None
         else (case value of
                 JUndef \<Rightarrow> Some DM_datetime
               | JNull \<Rightarrow> Some DM_datetime
               | JDate f t u \<Rightarrow> Some DM_datetime
               | JStr s \<Rightarrow> if input_date (trim s) \<noteq> None then Some (if CHR '':'' \<in> set s then DM_datetime else DM_date) else None
               | _ \<Rightarrow> None))"

text \<open>\<open>Number(v)\<close> of a cell; the infinities count as no number.\<close>

fun number_of_value :: "jsval \<Rightarrow> rat option" where
  "number_of_value JUndef = None"
| "number_of_value JNull = Some 0"
| "number_of_value (JBool b) = Some (if b then 1 else 0)"
| "number_of_value (JInt i) = Some (of_int i)"
| "number_of_value v = js_number (js_string v)"

text \<open>The sign of what the comparator returns.\<close>

definition compareValues :: "(string \<Rightarrow> string \<Rightarrow> int) \<Rightarrow> jsval \<Rightarrow> jsval \<Rightarrow> rat" where
  "compareValues localeCompare a b =
     (if nullish a \<and> nullish b then 0
      else if nullish a then - 1
      else if nullish b then 1
      else case (number_of_value a, number_of_value b) of
          (Some x, Some y) \<Rightarrow> x - y
        | _ \<Rightarrow> of_int (localeCompare (js_string a) (js_string b)))"

section \<open>What is shown\<close>

record cell_edit =
  ce_rowIdx :: nat
  ce_col :: string
  ce_value :: jsval

record cell_action =
  ca_rowIdx :: nat
  ca_col :: string
  ca_value :: jsval
  ca_operator :: "filter_op option"
  ca_selectedColumns :: "string list option"
  ca_selectedRowIndices :: "nat list option"

datatype copy_format = CF_insert | CF_update | CF_tsv_data | CF_tsv_fields | CF_tsv_fields_data

datatype ctx_menu =
    Menu_cell nat string jsval
  | Menu_row nat
  | Menu_column bool string

record date_editor =
  de_rowIdx :: nat
  de_col :: string
  de_date :: string
  de_time :: string

record grid =
  qg_editingCell :: "string option"
  qg_localSortCol :: "string option"
  qg_localSortDir :: "sort_dir option"
  qg_colWidths :: "(string \<times> int) list"
  qg_openFilterCol :: "string option"
  qg_columnFilters :: "(string \<times> string list) list"
  qg_frozenColumns :: "string list"
  qg_selectedCell :: "(nat \<times> string) option"
  qg_selectedRowIdxs :: "nat list"
  qg_selectedColumns :: "string list"
  qg_columnSelectionAnchor :: "string option"
  qg_showColumnChooser :: bool
  qg_showFieldTypes :: bool
  qg_showColumnComments :: bool
  qg_ctxMenu :: "ctx_menu option"
  qg_copyAsSubOpen :: bool
  qg_filterSubOpen :: bool
  qg_dateEditor :: "date_editor option"

definition grid_init :: grid where
  "grid_init = \<lparr>qg_editingCell = None, qg_localSortCol = None, qg_localSortDir = None, qg_colWidths = [], qg_openFilterCol = None,
     qg_columnFilters = [], qg_frozenColumns = [], qg_selectedCell = None, qg_selectedRowIdxs = [], qg_selectedColumns = [],
     qg_columnSelectionAnchor = None, qg_showColumnChooser = False, qg_showFieldTypes = True, qg_showColumnComments = False,
     qg_ctxMenu = None, qg_copyAsSubOpen = False, qg_filterSubOpen = False, qg_dateEditor = None\<rparr>"

text \<open>
  What the component gets from the one around it. A component that gives \<open>onSortChange\<close> sorts itself
  (\<open>gp_controlledSort\<close>).
\<close>

record grid_props =
  gp_columns :: "string list"
  gp_rows :: "table_row list"
  gp_edits :: "(string \<times> jsval) list"
  gp_editable :: bool
  gp_controlledSort :: bool
  gp_onSortByColumn :: bool
  gp_onClearFilterSort :: bool
  gp_sortColumn :: "string option"
  gp_sortDir :: "sort_dir option"
  gp_visibleColumns :: "string list option"
  gp_columnTypes :: "(string \<times> string) list"

definition grid_sortCol :: "grid_props \<Rightarrow> grid \<Rightarrow> string option" where
  "grid_sortCol p g = (if gp_controlledSort p then gp_sortColumn p else qg_localSortCol g)"

definition grid_sortDir :: "grid_props \<Rightarrow> grid \<Rightarrow> sort_dir option" where
  "grid_sortDir p g = (if gp_controlledSort p then gp_sortDir p else qg_localSortDir g)"

definition displayColumns :: "grid_props \<Rightarrow> grid \<Rightarrow> string list" where
  "displayColumns p g =
     (let base = (case gp_visibleColumns p of None \<Rightarrow> gp_columns p | Some vs \<Rightarrow> filter (\<lambda>col. col \<in> set vs) (gp_columns p));
          frozenOrder = filter (\<lambda>col. col \<in> set (qg_frozenColumns g)) base;
          rest = filter (\<lambda>col. col \<notin> set (qg_frozenColumns g)) base
      in frozenOrder @ rest)"

text \<open>\<open>rows[i]?.[col]\<close>\<close>

definition grid_cell :: "table_row list \<Rightarrow> nat \<Rightarrow> string \<Rightarrow> jsval" where
  "grid_cell rows i col = (if i < length rows then get_prop (rows ! i) col else JUndef)"

record distinct_value =
  dv_value :: jsval
  dv_key :: string
  dv_count :: nat

fun count_values :: "(string \<times> distinct_value) list \<Rightarrow> jsval list \<Rightarrow> (string \<times> distinct_value) list" where
  "count_values counts [] = counts"
| "count_values counts (v # vs) =
     (let k = valueKey v
      in count_values (case map_of counts k of
            Some hit \<Rightarrow> set_prop counts k (hit\<lparr>dv_count := dv_count hit + 1\<rparr>)
          | None \<Rightarrow> set_prop counts k \<lparr>dv_value = (if nullish v then JNull else v), dv_key = k, dv_count = 1\<rparr>) vs)"

definition column_values :: "table_row list \<Rightarrow> string \<Rightarrow> distinct_value list" where
  "column_values rows col =
     sort_by (\<lambda>a b. dv_count b \<le> dv_count a) (map snd (count_values [] (map (\<lambda>row. get_prop row col) rows)))"

definition columnDistincts :: "grid_props \<Rightarrow> grid \<Rightarrow> (string \<times> distinct_value list) list" where
  "columnDistincts p g = map (\<lambda>col. (col, column_values (gp_rows p) col)) (displayColumns p g)"

definition passes :: "(string \<times> string list) list \<Rightarrow> table_row \<Rightarrow> bool" where
  "passes filters row \<longleftrightarrow> list_all (\<lambda>(c, allowed). valueKey (get_prop row c) \<in> set allowed) filters"

definition filteredIndices :: "grid_props \<Rightarrow> grid \<Rightarrow> nat list" where
  "filteredIndices p g = filter (\<lambda>i. passes (qg_columnFilters g) (gp_rows p ! i)) [0..<length (gp_rows p)]"

definition setColumnFilterForCol :: "string \<Rightarrow> string list option \<Rightarrow> grid \<Rightarrow> grid" where
  "setColumnFilterForCol col allowed g =
     g\<lparr>qg_columnFilters := (case allowed of None \<Rightarrow> del_prop (qg_columnFilters g) col | Some ks \<Rightarrow> set_prop (qg_columnFilters g) col ks)\<rparr>"

definition sortedIndices :: "(string \<Rightarrow> string \<Rightarrow> int) \<Rightarrow> grid_props \<Rightarrow> grid \<Rightarrow> nat list" where
  "sortedIndices lc p g =
     (if gp_controlledSort p then filteredIndices p g
      else case (grid_sortCol p g, grid_sortDir p g) of
          (Some col, Some dir) \<Rightarrow>
            if col = [] then filteredIndices p g
            else sort_by (\<lambda>a b. let cmp = compareValues lc (get_prop (gp_rows p ! a) col) (get_prop (gp_rows p ! b) col)
                                in (if dir = Asc then cmp else - cmp) \<le> 0) (filteredIndices p g)
        | _ \<Rightarrow> filteredIndices p g)"

definition width_of :: "grid \<Rightarrow> string \<Rightarrow> int" where
  "width_of g col = (case map_of (qg_colWidths g) col of None \<Rightarrow> DEFAULT_COLUMN_WIDTH | Some w \<Rightarrow> w)"

fun frozen_offsets :: "grid \<Rightarrow> int \<Rightarrow> string list \<Rightarrow> (string \<times> int) list" where
  "frozen_offsets g left [] = []"
| "frozen_offsets g left (col # cols) =
     (if col \<notin> set (qg_frozenColumns g) then [] else (col, left) # frozen_offsets g (left + width_of g col) cols)"

definition frozenColumnOffsets :: "grid_props \<Rightarrow> grid \<Rightarrow> (string \<times> int) list" where
  "frozenColumnOffsets p g = frozen_offsets g 0 (displayColumns p g)"

definition canSort :: "grid_props \<Rightarrow> bool" where
  "canSort p \<longleftrightarrow> gp_controlledSort p \<or> \<not> gp_editable p"

text \<open>The value a cell shows: a pending edit before the value of the row.\<close>

definition displayValue :: "grid_props \<Rightarrow> nat \<Rightarrow> string \<Rightarrow> jsval" where
  "displayValue p i col = (case map_of (gp_edits p) (cellKey i col) of Some v \<Rightarrow> v | None \<Rightarrow> grid_cell (gp_rows p) i col)"

section \<open>Events\<close>

datatype grid_event =
    GE_cellEdit cell_edit
  | GE_setCellValue cell_edit
  | GE_pasteCell cell_edit
  | GE_generateUuid cell_edit
  | GE_copyAs copy_format cell_action
  | GE_filterByCellValue cell_action
  | GE_sortByColumn string sort_dir
  | GE_sortChange string sort_dir
  | GE_clearFilterSort
  | GE_addColumnFilter string
  | GE_removeColumnFilter string
  | GE_removeAllFilters
  | GE_deleteRow nat
  | GE_hideColumn string
  | GE_selectedCell "(nat \<times> string) option"
  | GE_selectedRows "nat list"
  | GE_refresh
  | GE_writeClipboard string
  | GE_readClipboard nat string
  | GE_toastError string
  | GE_toastCopied

text \<open>What is dropped when the columns, the rows or the request for the focus change, in the order of the effects.\<close>

definition deselect :: "grid \<Rightarrow> grid" where
  "deselect g = g\<lparr>qg_selectedCell := None, qg_selectedRowIdxs := [], qg_selectedColumns := [], qg_columnSelectionAnchor := None, qg_editingCell := None\<rparr>"

definition grid_columns_reset :: "grid \<Rightarrow> grid" where
  "grid_columns_reset g = (deselect g)\<lparr>qg_localSortCol := None, qg_localSortDir := None, qg_colWidths := []\<rparr>"

definition focusable :: "grid_props \<Rightarrow> grid \<Rightarrow> nat \<times> string \<Rightarrow> bool" where
  "focusable p g req \<longleftrightarrow> fst req < length (gp_rows p) \<and> snd req \<in> set (displayColumns p g)"

definition grid_focus :: "grid_props \<Rightarrow> (nat \<times> string) option \<Rightarrow> grid \<Rightarrow> grid \<times> grid_event list" where
  "grid_focus p request g =
     (case request of
        None \<Rightarrow> (g, [])
      | Some req \<Rightarrow>
          if \<not> focusable p g req then (g, [])
          else (g\<lparr>qg_selectedCell := Some req, qg_selectedRowIdxs := [], qg_selectedColumns := [], qg_columnSelectionAnchor := None,
                  qg_editingCell := Some (cellKey (fst req) (snd req))\<rparr>,
                [GE_selectedCell (Some req), GE_selectedRows []]))"

definition grid_effects :: "grid_props \<Rightarrow> bool \<Rightarrow> bool \<Rightarrow> bool \<Rightarrow> bool \<Rightarrow> (nat \<times> string) option \<Rightarrow> grid \<Rightarrow> grid \<times> grid_event list" where
  "grid_effects p columnsChanged rowsChanged displayChanged focusChanged request g =
     (let g1 = (if columnsChanged \<or> rowsChanged then g\<lparr>qg_columnFilters := []\<rparr> else g);
          g2 = (if columnsChanged then grid_columns_reset g1 else g1);
          e2 = (if columnsChanged then [GE_selectedCell None, GE_selectedRows []] else []);
          g3 = (if rowsChanged then deselect g2 else g2);
          e3 = (if rowsChanged then [GE_selectedCell None, GE_selectedRows []] else []);
          (g4, e4) = (if columnsChanged \<or> rowsChanged \<or> displayChanged \<or> focusChanged then grid_focus p request g3 else (g3, []))
      in (g4, e2 @ e3 @ e4))"

section \<open>Editing\<close>

text \<open>
  What is typed is compared with the value of the row, not with a pending edit. \<open>newValue = ''''\<close> on a null
  value never gets past the comparison.
\<close>

definition commitEdit :: "grid_props \<Rightarrow> nat \<Rightarrow> string \<Rightarrow> string \<Rightarrow> grid \<Rightarrow> grid \<times> grid_event list" where
  "commitEdit p rowIdx col newValue g =
     (let original = grid_cell (gp_rows p) rowIdx col;
          originalStr = (if nullish original then [] else js_string original)
      in (g\<lparr>qg_editingCell := None\<rparr>,
          if newValue \<noteq> originalStr
          then [GE_cellEdit \<lparr>ce_rowIdx = rowIdx, ce_col = col, ce_value = (if newValue = [] \<and> nullish original then JNull else JStr newValue)\<rparr>]
          else []))"

text \<open>What the field holds when it opens.\<close>

definition edit_text :: "grid_props \<Rightarrow> nat \<Rightarrow> string \<Rightarrow> string" where
  "edit_text p rowIdx col = cellValueToText (displayValue p rowIdx col)"

definition openEditor :: "grid_props \<Rightarrow> nat \<Rightarrow> string \<Rightarrow> grid \<Rightarrow> grid" where
  "openEditor p rowIdx col g = (if gp_editable p then g\<lparr>qg_editingCell := Some (cellKey rowIdx col)\<rparr> else g)"

definition close_menu :: "grid \<Rightarrow> grid" where
  "close_menu g = g\<lparr>qg_ctxMenu := None\<rparr>"

definition close_menus :: "grid \<Rightarrow> grid" where
  "close_menus g = g\<lparr>qg_ctxMenu := None, qg_copyAsSubOpen := False, qg_filterSubOpen := False\<rparr>"

definition menuColumn :: "grid \<Rightarrow> string option" where
  "menuColumn g = (case qg_ctxMenu g of Some (Menu_column v col) \<Rightarrow> Some col | Some (Menu_cell i col v) \<Rightarrow> Some col | _ \<Rightarrow> None)"

definition grid_setCellValue :: "jsval \<Rightarrow> grid \<Rightarrow> grid \<times> grid_event list" where
  "grid_setCellValue value g =
     (case qg_ctxMenu g of
        Some (Menu_cell i col v) \<Rightarrow> (close_menu g, [GE_setCellValue \<lparr>ce_rowIdx = i, ce_col = col, ce_value = value\<rparr>])
      | _ \<Rightarrow> (g, []))"

text \<open>Pasting waits for the clipboard; the cell is that of the menu when it began.\<close>

definition handlePasteCell :: "grid \<Rightarrow> grid_event list" where
  "handlePasteCell g = (case qg_ctxMenu g of Some (Menu_cell i col v) \<Rightarrow> [GE_readClipboard i col] | _ \<Rightarrow> [])"

definition pasted :: "nat \<Rightarrow> string \<Rightarrow> string + string \<Rightarrow> grid \<Rightarrow> grid \<times> grid_event list" where
  "pasted i col answer g =
     (close_menu g,
      case answer of
        Inr t \<Rightarrow> [GE_pasteCell \<lparr>ce_rowIdx = i, ce_col = col, ce_value = JStr t\<rparr>]
      | Inl e \<Rightarrow> [GE_toastError e])"

definition handleGenerateUuid :: "string \<Rightarrow> grid \<Rightarrow> grid \<times> grid_event list" where
  "handleGenerateUuid uuid g =
     (case qg_ctxMenu g of
        Some (Menu_cell i col v) \<Rightarrow> (close_menu g, [GE_generateUuid \<lparr>ce_rowIdx = i, ce_col = col, ce_value = JStr uuid\<rparr>])
      | _ \<Rightarrow> (g, []))"

definition open_date_editor :: "grid_props \<Rightarrow> date_fields \<Rightarrow> nat \<Rightarrow> string \<Rightarrow> jsval \<Rightarrow> grid \<Rightarrow> grid" where
  "open_date_editor p now i col value g =
     (if getDateEditMode col (map_of (gp_columnTypes p) col) value = None then g
      else let (date, time) = splitDateAndTime (formatDateToInputValue value now)
           in g\<lparr>qg_dateEditor := Some \<lparr>de_rowIdx = i, de_col = col, de_date = date, de_time = time\<rparr>\<rparr>)"

definition handleOpenDateEditor :: "grid_props \<Rightarrow> date_fields \<Rightarrow> grid \<Rightarrow> grid" where
  "handleOpenDateEditor p now g =
     (case qg_ctxMenu g of
        Some (Menu_cell i col v) \<Rightarrow>
          if getDateEditMode col (map_of (gp_columnTypes p) col) v = None then g
          else close_menu (open_date_editor p now i col v g)
      | _ \<Rightarrow> g)"

definition handleOpenDateEditorForCell :: "grid_props \<Rightarrow> date_fields \<Rightarrow> nat \<Rightarrow> string \<Rightarrow> jsval \<Rightarrow> grid \<Rightarrow> grid" where
  "handleOpenDateEditorForCell p now i col value g = open_date_editor p now i col value g"

definition handleCommitDateEditor :: "grid \<Rightarrow> grid \<times> grid_event list" where
  "handleCommitDateEditor g =
     (case qg_dateEditor g of
        None \<Rightarrow> (g, [])
      | Some d \<Rightarrow> (g\<lparr>qg_dateEditor := None\<rparr>,
          [GE_setCellValue \<lparr>ce_rowIdx = de_rowIdx d, ce_col = de_col d, ce_value = JStr (de_date d @ '' '' @ de_time d)\<rparr>]))"

section \<open>Columns\<close>

definition getColumnFitWidth :: "grid_props \<Rightarrow> string \<Rightarrow> int" where
  "getColumnFitWidth p col =
     (let maxTextLength = Max (set (length col # length (case map_of (gp_columnTypes p) col of None \<Rightarrow> [] | Some t \<Rightarrow> t) #
            map (\<lambda>row. length (cellValueToText (get_prop row col))) (gp_rows p)))
      in max 80 (min 420 (int maxTextLength * 8 + 48)))"

definition handleOpenColumnChooser :: "grid \<Rightarrow> grid" where
  "handleOpenColumnChooser g = close_menu (g\<lparr>qg_showColumnChooser := True\<rparr>)"

definition toggle_in :: "'a \<Rightarrow> 'a list \<Rightarrow> 'a list" where
  "toggle_in x xs = (if x \<in> set xs then filter (\<lambda>y. y \<noteq> x) xs else xs @ [x])"

definition handleFreezeColumn :: "grid_props \<Rightarrow> grid \<Rightarrow> grid" where
  "handleFreezeColumn p g =
     (case menuColumn g of
        None \<Rightarrow> g
      | Some col \<Rightarrow>
          if col = [] \<or> col \<notin> set (displayColumns p g) then g
          else close_menu (g\<lparr>qg_frozenColumns := toggle_in col (qg_frozenColumns g)\<rparr>))"

text \<open>The argument is what the prompt returned; \<open>Math.round\<close> rounds halves up.\<close>

definition handleSetColumnWidth :: "string option \<Rightarrow> grid \<Rightarrow> grid" where
  "handleSetColumnWidth input g =
     (case menuColumn g of
        None \<Rightarrow> g
      | Some col \<Rightarrow>
          if col = [] then g
          else close_menu (case Option.bind input js_number of
              None \<Rightarrow> g
            | Some width \<Rightarrow> g\<lparr>qg_colWidths := set_prop (qg_colWidths g) col (max 50 \<lfloor>width + 1 / 2\<rfloor>)\<rparr>))"

definition handleSizeColumnToFit :: "grid_props \<Rightarrow> grid \<Rightarrow> grid" where
  "handleSizeColumnToFit p g =
     (case menuColumn g of
        None \<Rightarrow> g
      | Some col \<Rightarrow> if col = [] then g else close_menu (g\<lparr>qg_colWidths := set_prop (qg_colWidths g) col (getColumnFitWidth p col)\<rparr>))"

definition handleSizeAllColumnsToFit :: "grid_props \<Rightarrow> grid \<Rightarrow> grid" where
  "handleSizeAllColumnsToFit p g =
     close_menu (g\<lparr>qg_colWidths := fold (\<lambda>col ws. set_prop ws col (getColumnFitWidth p col)) (displayColumns p g) (qg_colWidths g)\<rparr>)"

definition resized :: "string \<Rightarrow> int \<Rightarrow> int \<Rightarrow> grid \<Rightarrow> grid" where
  "resized col startWidth dx g = g\<lparr>qg_colWidths := set_prop (qg_colWidths g) col (max 50 (startWidth + dx))\<rparr>"

definition handleToggleFieldTypes :: "grid \<Rightarrow> grid" where
  "handleToggleFieldTypes g = close_menu (g\<lparr>qg_showFieldTypes := \<not> qg_showFieldTypes g\<rparr>)"

definition handleToggleColumnComments :: "grid \<Rightarrow> grid" where
  "handleToggleColumnComments g = close_menu (g\<lparr>qg_showColumnComments := \<not> qg_showColumnComments g\<rparr>)"

section \<open>Copying\<close>

definition row_line :: "table_row list \<Rightarrow> string list \<Rightarrow> nat \<Rightarrow> string" where
  "row_line rows cols i = join [TAB] (map (\<lambda>col. cellValueToText (grid_cell rows i col)) cols)"

definition selected_rows :: "(string \<Rightarrow> string \<Rightarrow> int) \<Rightarrow> grid_props \<Rightarrow> grid \<Rightarrow> nat list" where
  "selected_rows lc p g = filter (\<lambda>i. i \<in> set (qg_selectedRowIdxs g)) (sortedIndices lc p g)"

definition selected_columns :: "grid_props \<Rightarrow> grid \<Rightarrow> string list" where
  "selected_columns p g = filter (\<lambda>col. col \<in> set (qg_selectedColumns g)) (displayColumns p g)"

text \<open>The selected rows when the row of the menu is one of them, or the row of a row's menu.\<close>

definition copy_rows :: "(string \<Rightarrow> string \<Rightarrow> int) \<Rightarrow> grid_props \<Rightarrow> grid \<Rightarrow> ctx_menu \<Rightarrow> nat list option" where
  "copy_rows lc p g menu =
     (let sel = selected_rows lc p g
      in case menu of
           Menu_row i \<Rightarrow> Some (if i \<in> set (qg_selectedRowIdxs g) \<and> sel \<noteq> [] then sel else [i])
         | Menu_cell i col v \<Rightarrow> if i \<in> set (qg_selectedRowIdxs g) \<and> sel \<noteq> [] then Some sel else None
         | Menu_column v col \<Rightarrow> None)"

definition copy_columns :: "grid_props \<Rightarrow> grid \<Rightarrow> ctx_menu \<Rightarrow> string list" where
  "copy_columns p g menu =
     (let sel = selected_columns p g
      in case menu of
           Menu_column v col \<Rightarrow> if col \<in> set (qg_selectedColumns g) \<and> sel \<noteq> [] then sel else [col]
         | Menu_cell i col v \<Rightarrow> if col \<in> set (qg_selectedColumns g) \<and> sel \<noteq> [] then sel else []
         | Menu_row i \<Rightarrow> [])"

definition copy_text :: "(string \<Rightarrow> string \<Rightarrow> int) \<Rightarrow> grid_props \<Rightarrow> grid \<Rightarrow> ctx_menu \<Rightarrow> string" where
  "copy_text lc p g menu =
     (case copy_rows lc p g menu of
        Some is \<Rightarrow> join [LF] (map (row_line (gp_rows p) (displayColumns p g)) is)
      | None \<Rightarrow>
          (case menu of
             Menu_column v col \<Rightarrow> join [LF] (map (row_line (gp_rows p) (copy_columns p g menu)) (sortedIndices lc p g))
           | Menu_cell i col v \<Rightarrow>
               if copy_columns p g menu \<noteq> [] \<and> hd (copy_columns p g menu) \<noteq> []
               then join [LF] (map (row_line (gp_rows p) (copy_columns p g menu)) (sortedIndices lc p g))
               else cellValueToText v
           | Menu_row i \<Rightarrow> []))"

definition handleCopyCell :: "(string \<Rightarrow> string \<Rightarrow> int) \<Rightarrow> grid_props \<Rightarrow> grid \<Rightarrow> grid_event list" where
  "handleCopyCell lc p g = (case qg_ctxMenu g of None \<Rightarrow> [] | Some menu \<Rightarrow> [GE_writeClipboard (copy_text lc p g menu)])"

definition handleCopyFieldName :: "grid_props \<Rightarrow> grid \<Rightarrow> grid_event list" where
  "handleCopyFieldName p g =
     (case menuColumn g of
        None \<Rightarrow> []
      | Some col \<Rightarrow>
          if col = [] then []
          else [GE_writeClipboard
            (if col \<in> set (qg_selectedColumns g) \<and> selected_columns p g \<noteq> [] then join [TAB] (selected_columns p g) else col)])"

text \<open>After the clipboard was written, or not.\<close>

definition copied :: "string option \<Rightarrow> grid \<Rightarrow> grid \<times> grid_event list" where
  "copied failure g = (close_menu g, case failure of None \<Rightarrow> [GE_toastCopied] | Some e \<Rightarrow> [GE_toastError e])"

definition copy_action :: "(string \<Rightarrow> string \<Rightarrow> int) \<Rightarrow> grid_props \<Rightarrow> grid \<Rightarrow> ctx_menu \<Rightarrow> cell_action" where
  "copy_action lc p g menu =
     (let is = sortedIndices lc p g;
          fallbackRowIdx = (case is of [] \<Rightarrow> 0 | i # _ \<Rightarrow> i);
          first_col = (case displayColumns p g of [] \<Rightarrow> [] | c # _ \<Rightarrow> c);
          cols = selected_columns p g; rws = selected_rows lc p g;
          plain = (case menu of
             Menu_cell i col v \<Rightarrow> \<lparr>ca_rowIdx = i, ca_col = col, ca_value = v, ca_operator = None, ca_selectedColumns = None, ca_selectedRowIndices = None\<rparr>
           | Menu_row i \<Rightarrow> \<lparr>ca_rowIdx = i, ca_col = first_col, ca_value = (if i < length (gp_rows p) then JObj (gp_rows p ! i) else JUndef),
               ca_operator = None, ca_selectedColumns = None, ca_selectedRowIndices = None\<rparr>
           | Menu_column v col \<Rightarrow> \<lparr>ca_rowIdx = fallbackRowIdx, ca_col = col, ca_value = grid_cell (gp_rows p) fallbackRowIdx col,
               ca_operator = None, ca_selectedColumns = None, ca_selectedRowIndices = None\<rparr>)
      in case menu of
           Menu_row i \<Rightarrow> if i \<in> set (qg_selectedRowIdxs g) \<and> rws \<noteq> [] then plain\<lparr>ca_selectedRowIndices := Some rws\<rparr> else plain
         | _ \<Rightarrow> if ca_col plain \<in> set (qg_selectedColumns g) \<and> cols \<noteq> []
                then plain\<lparr>ca_selectedColumns := Some cols, ca_selectedRowIndices := Some is\<rparr> else plain)"

definition grid_copyAs :: "(string \<Rightarrow> string \<Rightarrow> int) \<Rightarrow> grid_props \<Rightarrow> copy_format \<Rightarrow> grid \<Rightarrow> grid \<times> grid_event list" where
  "grid_copyAs lc p format g =
     (case qg_ctxMenu g of None \<Rightarrow> (g, []) | Some menu \<Rightarrow> (close_menus g, [GE_copyAs format (copy_action lc p g menu)]))"

section \<open>The menus: filters, sorting, deleting\<close>

definition handleRefreshFromMenu :: "grid \<Rightarrow> grid \<times> grid_event list" where
  "handleRefreshFromMenu g = (close_menu g, [GE_refresh])"

definition grid_filterByCellValue :: "filter_op option \<Rightarrow> grid \<Rightarrow> grid \<times> grid_event list" where
  "grid_filterByCellValue operator g =
     (case qg_ctxMenu g of
        Some (Menu_cell i col v) \<Rightarrow>
          (g\<lparr>qg_ctxMenu := None, qg_filterSubOpen := False\<rparr>,
           [GE_filterByCellValue \<lparr>ca_rowIdx = i, ca_col = col, ca_value = v, ca_operator = Some (or_else operator Op_eq),
              ca_selectedColumns = None, ca_selectedRowIndices = None\<rparr>])
      | _ \<Rightarrow> (g, []))"

definition grid_sortByColumn :: "grid_props \<Rightarrow> sort_dir \<Rightarrow> grid \<Rightarrow> grid \<times> grid_event list" where
  "grid_sortByColumn p dir g =
     (case menuColumn g of
        None \<Rightarrow> (g, [])
      | Some col \<Rightarrow>
          if col = [] then (g, [])
          else if gp_onSortByColumn p then (close_menu g, [GE_sortByColumn col dir])
          else if gp_controlledSort p then (close_menu g, [GE_sortChange col dir])
          else (close_menu (g\<lparr>qg_localSortCol := Some col, qg_localSortDir := Some dir\<rparr>), []))"

definition menu_column_event :: "(string \<Rightarrow> grid_event) \<Rightarrow> grid \<Rightarrow> grid_event list" where
  "menu_column_event e g = (case menuColumn g of None \<Rightarrow> [] | Some col \<Rightarrow> if col = [] then [] else [e col])"

definition grid_addColumnFilter :: "grid \<Rightarrow> grid \<times> grid_event list" where
  "grid_addColumnFilter g =
     (let es = menu_column_event GE_addColumnFilter g in if es = [] then (g, []) else (g\<lparr>qg_ctxMenu := None, qg_filterSubOpen := False\<rparr>, es))"

definition grid_removeColumnFilter :: "grid \<Rightarrow> grid \<times> grid_event list" where
  "grid_removeColumnFilter g =
     (let es = menu_column_event GE_removeColumnFilter g in if es = [] then (g, []) else (g\<lparr>qg_ctxMenu := None, qg_filterSubOpen := False\<rparr>, es))"

definition grid_removeAllFilters :: "grid \<Rightarrow> grid \<times> grid_event list" where
  "grid_removeAllFilters g = (g\<lparr>qg_ctxMenu := None, qg_filterSubOpen := False\<rparr>, [GE_removeAllFilters])"

definition grid_hideColumn :: "grid \<Rightarrow> grid \<times> grid_event list" where
  "grid_hideColumn g = (let es = menu_column_event GE_hideColumn g in if es = [] then (g, []) else (close_menu g, es))"

definition grid_clearFilterSort :: "grid_props \<Rightarrow> grid \<Rightarrow> grid \<times> grid_event list" where
  "grid_clearFilterSort p g =
     (let g1 = (if gp_onClearFilterSort p then g else g\<lparr>qg_localSortCol := None, qg_localSortDir := None\<rparr>)
      in (g1\<lparr>qg_ctxMenu := None, qg_filterSubOpen := False\<rparr>, if gp_onClearFilterSort p then [GE_clearFilterSort] else []))"

definition grid_deleteRow :: "grid \<Rightarrow> grid \<times> grid_event list" where
  "grid_deleteRow g =
     (case qg_ctxMenu g of
        Some (Menu_cell i col v) \<Rightarrow> (close_menu g, [GE_deleteRow i])
      | Some (Menu_row i) \<Rightarrow> (close_menu g, [GE_deleteRow i])
      | _ \<Rightarrow> (g, []))"

section \<open>Selection and keys\<close>

definition selectCell :: "nat \<Rightarrow> string \<Rightarrow> grid \<Rightarrow> grid \<times> grid_event list" where
  "selectCell origIdx col g =
     (g\<lparr>qg_selectedCell := Some (origIdx, col), qg_selectedRowIdxs := []\<rparr>, [GE_selectedCell (Some (origIdx, col)), GE_selectedRows []])"

record column_click =
  cc_ctrlKey :: bool
  cc_metaKey :: bool
  cc_shiftKey :: bool

definition selectColumn :: "grid_props \<Rightarrow> string \<Rightarrow> column_click option \<Rightarrow> grid \<Rightarrow> grid \<times> grid_event list" where
  "selectColumn p col click g =
     (let anchor = qg_columnSelectionAnchor g;
          cols = displayColumns p g;
          isToggle = (case click of None \<Rightarrow> False | Some e \<Rightarrow> cc_ctrlKey e \<or> cc_metaKey e);
          shift = (case click of None \<Rightarrow> False | Some e \<Rightarrow> cc_shiftKey e);
          (chosen, anchor') =
            (case (if shift then anchor else None) of
               Some a \<Rightarrow>
                 (case (index_of a cols, index_of col cols) of
                    (Some i, Some j) \<Rightarrow> (slice (min i j) (max i j + 1) cols, Some a)
                  | _ \<Rightarrow> ([col], Some a))
             | None \<Rightarrow>
                 if isToggle then (toggle_in col (qg_selectedColumns g), Some col) else ([col], Some col))
      in (g\<lparr>qg_selectedCell := None, qg_selectedRowIdxs := [], qg_selectedColumns := chosen, qg_columnSelectionAnchor := anchor'\<rparr>,
          [GE_selectedCell None, GE_selectedRows []]))"

definition handleCellContextMenu :: "nat \<Rightarrow> string \<Rightarrow> jsval \<Rightarrow> grid \<Rightarrow> grid \<times> grid_event list" where
  "handleCellContextMenu i col value g =
     (let inRow = i \<in> set (qg_selectedRowIdxs g); inCol = col \<in> set (qg_selectedColumns g);
          (g1, es) =
            (if inRow \<or> inCol then
               (let g1 = g\<lparr>qg_selectedCell := Some (i, col)\<rparr>;
                    g2 = (if inRow then g1 else g1\<lparr>qg_selectedRowIdxs := []\<rparr>);
                    g3 = (if inCol then g2 else g2\<lparr>qg_selectedColumns := [], qg_columnSelectionAnchor := None\<rparr>)
                in (g3, (if inRow then [] else [GE_selectedRows []]) @ [GE_selectedCell (Some (i, col))]))
             else selectCell i col g)
      in (g1\<lparr>qg_ctxMenu := Some (Menu_cell i col value)\<rparr>, es))"

definition handleColumnContextMenu :: "grid_props \<Rightarrow> string \<Rightarrow> grid \<Rightarrow> grid \<times> grid_event list" where
  "handleColumnContextMenu p col g =
     (let (g1, es) =
        (if col \<notin> set (qg_selectedColumns g) then selectColumn p col None g
         else (g\<lparr>qg_selectedCell := None, qg_selectedRowIdxs := []\<rparr>, [GE_selectedCell None, GE_selectedRows []]))
      in (g1\<lparr>qg_ctxMenu := Some (Menu_column False col)\<rparr>, es))"

definition handleColumnActionsClick :: "grid_props \<Rightarrow> string \<Rightarrow> grid \<Rightarrow> grid \<times> grid_event list" where
  "handleColumnActionsClick p col g =
     (let (g1, es) = selectColumn p col None g in (g1\<lparr>qg_ctxMenu := Some (Menu_column True col)\<rparr>, es))"

definition handleCellClick :: "nat \<Rightarrow> string \<Rightarrow> grid \<Rightarrow> grid \<times> grid_event list" where
  "handleCellClick origIdx col g = selectCell origIdx col g"

datatype grid_key = Key_up | Key_down | Key_left | Key_right | Key_enter | Key_f2 | Key_escape | Key_other

definition grid_handleKeyDown :: "(string \<Rightarrow> string \<Rightarrow> int) \<Rightarrow> grid_props \<Rightarrow> grid_key \<Rightarrow> grid \<Rightarrow> grid \<times> grid_event list" where
  "grid_handleKeyDown lc p key g =
     (if qg_editingCell g \<noteq> None then (g, [])
      else case qg_selectedCell g of
          None \<Rightarrow>
            if (qg_selectedRowIdxs g \<noteq> [] \<or> qg_selectedColumns g \<noteq> []) \<and> key = Key_escape
            then (g\<lparr>qg_selectedRowIdxs := [], qg_selectedColumns := [], qg_columnSelectionAnchor := None\<rparr>,
                  [GE_selectedCell None, GE_selectedRows []])
            else (g, [])
        | Some (origIdx, col) \<Rightarrow>
            (let cols = displayColumns p g; is = sortedIndices lc p g
             in case (index_of col cols, index_of origIdx is) of
                  (Some colIdx, Some displayIdx) \<Rightarrow>
                    (case key of
                       Key_up \<Rightarrow> selectCell (is ! (displayIdx - 1)) (cols ! colIdx) g
                     | Key_down \<Rightarrow> selectCell (is ! min (length is - 1) (displayIdx + 1)) (cols ! colIdx) g
                     | Key_left \<Rightarrow> selectCell (is ! displayIdx) (cols ! (colIdx - 1)) g
                     | Key_right \<Rightarrow> selectCell (is ! displayIdx) (cols ! min (length cols - 1) (colIdx + 1)) g
                     | Key_escape \<Rightarrow> (g\<lparr>qg_selectedCell := None\<rparr>, [GE_selectedCell None])
                     | Key_other \<Rightarrow> (g, [])
                     | _ \<Rightarrow> (if gp_editable p then (g\<lparr>qg_editingCell := Some (cellKey origIdx col)\<rparr>, []) else (g, [])))
                | _ \<Rightarrow> (g, [])))"

section \<open>The list of values of a column\<close>

text \<open>The panel keeps what is checked for itself, so that it shows at once, and tells it to the table.\<close>

definition panel_entries :: "string \<Rightarrow> distinct_value list \<Rightarrow> distinct_value list" where
  "panel_entries search entries =
     (let q = to_lower (trim search)
      in if q = [] then entries
         else filter (\<lambda>e. if nullish (dv_value e) then str_includes ''null'' q else str_includes (to_lower (cellValueToText (dv_value e))) q) entries)"

definition panel_commit :: "string list \<Rightarrow> string list option" where
  "panel_commit next = (if next = [] then None else Some next)"

definition toggleOne :: "string \<Rightarrow> string list option \<Rightarrow> string list option" where
  "toggleOne key selected = panel_commit (toggle_in key (or_else selected []))"

definition handleSelectAll :: "distinct_value list \<Rightarrow> string list option" where
  "handleSelectAll entries = Some (map dv_key entries)"

definition handleClearAll :: "string list option" where
  "handleClearAll = None"

text \<open>The marker of an active filter.\<close>

definition filter_active :: "grid_props \<Rightarrow> grid \<Rightarrow> string \<Rightarrow> bool" where
  "filter_active p g col =
     (case map_of (qg_columnFilters g) col of
        None \<Rightarrow> False
      | Some ks \<Rightarrow> ks \<noteq> [] \<and> length ks < (case map_of (columnDistincts p g) col of None \<Rightarrow> 0 | Some vs \<Rightarrow> length vs))"

section \<open>Facts\<close>

lemma set_displayColumns:
  "set (displayColumns p g) = (case gp_visibleColumns p of None \<Rightarrow> set (gp_columns p) | Some vs \<Rightarrow> set (gp_columns p) \<inter> set vs)"
  by (auto simp: displayColumns_def Let_def split: option.split)

lemma set_filteredIndices: "set (filteredIndices p g) = {i. i < length (gp_rows p) \<and> passes (qg_columnFilters g) (gp_rows p ! i)}"
  by (auto simp: filteredIndices_def)

lemma set_sortedIndices [simp]: "set (sortedIndices lc p g) = set (filteredIndices p g)"
  by (simp add: sortedIndices_def split: option.split)

lemma mset_sortedIndices: "mset (sortedIndices lc p g) = mset (filteredIndices p g)"
  by (simp add: sortedIndices_def split: option.split)

lemma index_of_Some: "index_of x xs = Some i \<Longrightarrow> i < length xs \<and> xs ! i = x"
  by (induction xs arbitrary: i) (auto simp: index_of_def split: if_splits)

text \<open>The keys move the selection among the cells that are shown.\<close>

lemma key_stays_in_table:
  assumes "qg_selectedCell g = Some (i, col)" and "qg_editingCell g = None" and "(g', es) = grid_handleKeyDown lc p key g"
    and "i \<in> set (sortedIndices lc p g)" and "col \<in> set (displayColumns p g)"
  shows "case qg_selectedCell g' of
      None \<Rightarrow> key = Key_escape
    | Some (i', col') \<Rightarrow> i' \<in> set (sortedIndices lc p g) \<and> col' \<in> set (displayColumns p g)"
proof -
  have at: "xs ! m \<in> set xs" if "n < length xs" "m \<le> n \<or> m = min (length xs - 1) (n + 1)" for xs :: "'a list" and n m
    using that by (intro nth_mem) auto
  obtain m where m: "index_of col (displayColumns p g) = Some m"
    using assms(5) by (cases "index_of col (displayColumns p g)") (auto simp: index_of_def)
  obtain n where n: "index_of i (sortedIndices lc p g) = Some n"
    using assms(4) by (cases "index_of i (sortedIndices lc p g)") (auto simp: index_of_def)
  note b = index_of_Some [OF m] index_of_Some [OF n]
  show ?thesis
    using assms(1-3) b at [of n "sortedIndices lc p g"] at [of m "displayColumns p g"]
    by (cases key) (auto simp: grid_handleKeyDown_def m n Let_def selectCell_def simp del: set_sortedIndices split: if_splits)
qed

text \<open>
  The comparison of the local sort is no order when numbers and other texts meet: with a collation that compares texts
  character by character, 2 is before 10, 10 before ''1a'' and ''1a'' before 2.
\<close>

lemma compare_goes_round:
  assumes "lc ''10'' ''1a'' < 0" and "lc ''1a'' ''2'' < 0"
  shows "compareValues lc (JInt 2) (JInt 10) < 0" "compareValues lc (JInt 10) (JStr ''1a'') < 0" "compareValues lc (JStr ''1a'') (JInt 2) < 0"
proof -
  have t: "int_str 10 = ''10''" "int_str 2 = ''2''" by code_simp+
  have n: "js_number ''1a'' = None"
    by (simp add: js_number_def trim_def trim_start_def trim_end_def is_space_def numeric_literal_def radix_of_def signed_decimal_def
        unsigned_decimal_def is_digit_def exponent_part_def)
  show "compareValues lc (JInt 2) (JInt 10) < 0" "compareValues lc (JInt 10) (JStr ''1a'') < 0" "compareValues lc (JStr ''1a'') (JInt 2) < 0"
    using assms by (simp_all add: compareValues_def n t)
qed

end
