(* ===== verification/TableData.thy ===== *)
theory TableData
  imports TableGrid MentionXml "HOL-Library.AList"
begin

text \<open>
  The tab that shows and edits the rows of one table, \<^verbatim>\<open>components/query/TableDataTab.tsx\<close>, with the table of
  \<open>TableGrid\<close> inside it: opening, paging, sorting and filtering, the pending edits and inserted rows, the
  statements they become, submitting, deleting, the text of the definition of the table, and what is copied.

  An awaited call is an entry of \<open>td_waits\<close>; its answer is an argument of the step that follows. A handler of React
  reads the state of the render it was made in, so an entry keeps what its handler read (\<open>query_view\<close>). The effects
  of a render run in \<open>commit\<close>: those of the table first, then those of the tab. An array whose identity
  an effect depends on carries a version, which grows when another array is put in its place.
\<close>

section \<open>State\<close>

record table_props =
  tp_assetId :: int
  tp_database :: string
  tp_table :: string
  tp_driver :: driver

text \<open>What \<open>fetchData\<close> and \<open>fetchCount\<close> read.\<close>

record query_view =
  qv_page :: int
  qv_pageSize :: int
  qv_whereClause :: string
  qv_orderByClause :: string
  qv_sortColumn :: "string option"
  qv_sortDir :: "sort_dir option"

record sql_result =
  sr_columns :: "string list option"
  sr_rows :: "table_row list option"
  sr_affected :: jsval

record open_result =
  or_columns :: "string list option"
  or_columnTypes :: "(string \<times> string) list option"
  or_columnRules :: "column_rule list option"
  or_primaryKeys :: "string list option"
  or_totalCount :: jsval
  or_firstPage :: "table_row list option"

datatype 'a db_reply = Reply 'a | Failure string

datatype dialog_mode = Dialog_preview | Dialog_confirm
datatype row_density = Density_compact | Density_default | Density_comfortable

datatype when_counted = Counted_nothing | Counted_deleted
datatype when_loaded = Loaded_nothing | Loaded_count query_view when_counted

record submit_progress =
  sp_view :: query_view
  sp_rest :: "string list"
  sp_affected :: rat
  sp_zero :: nat
  sp_errors :: string

datatype td_wait =
    W_open nat
  | W_data nat when_loaded
  | W_count nat when_counted
  | W_submit submit_progress
  | W_delete query_view
  | W_ddl
  | W_ddl_columns
  | W_ddl_keys "table_row list"

datatype td_toast =
    Toast_required "string list"
  | Toast_updated rat
  | Toast_mismatch nat
  | Toast_error string
  | Toast_stopped
  | Toast_deleted "rat option"
  | Toast_copied

datatype td_call =
    TC_OpenTable int string string int
  | TC_ExecuteSQL int string string
  | TC_clipboard string
  | TC_toast td_toast

record table_data =
  td_columns :: "string list"
  td_columnsVersion :: nat
  td_columnTypes :: "(string \<times> string) list"
  td_columnRules :: "column_rule list"
  td_rows :: "table_row list"
  td_newRows :: "table_row list"
  td_rowsVersion :: nat
  td_totalRows :: "rat option"
  td_page :: int
  td_pageSize :: int
  td_pageInput :: string
  td_loading :: bool
  td_error :: "string option"
  td_edits :: "(string \<times> jsval) list"
  td_submitting :: bool
  td_dialogMode :: "dialog_mode option"
  td_showDDLDialog :: bool
  td_ddlLoading :: bool
  td_ddlSQL :: string
  td_filters :: filter_items
  td_sorts :: "sort_item list"
  td_showFilterSort :: bool
  td_whereClause :: string
  td_orderByClause :: string
  td_sortColumn :: "string option"
  td_sortDir :: "sort_dir option"
  td_applyVersion :: nat
  td_primaryKeys :: "string list"
  td_pkLoaded :: bool
  td_deletePreview :: "delete_statement option"
  td_deleting :: bool
  td_selectedRowIdx :: "nat option"
  td_exportFormat :: export_format
  td_showExportDialog :: bool
  td_showImportDialog :: bool
  td_importing :: bool
  td_visibleColumns :: "string list"
  td_rowDensity :: row_density
  td_focusCellRequest :: "(nat \<times> string) option"
  td_focusVersion :: nat
  td_requestSeq :: nat
  td_latestDataRequest :: nat
  td_latestCountRequest :: nat
  td_latestImportRequest :: nat
  td_cancelledRequests :: "nat list"
  td_opened :: bool
  td_grid :: grid
  td_waits :: "td_wait list"
  td_calls :: "td_call list"

definition DEFAULT_PAGE_SIZE :: int where
  "DEFAULT_PAGE_SIZE = 1000"

definition td_init :: table_data where
  "td_init = \<lparr>td_columns = [], td_columnsVersion = 0, td_columnTypes = [], td_columnRules = [], td_rows = [], td_newRows = [],
     td_rowsVersion = 0, td_totalRows = None, td_page = 0, td_pageSize = DEFAULT_PAGE_SIZE, td_pageInput = ''1'', td_loading = False,
     td_error = None, td_edits = [], td_submitting = False, td_dialogMode = None, td_showDDLDialog = False, td_ddlLoading = False,
     td_ddlSQL = [], td_filters = [], td_sorts = [], td_showFilterSort = False, td_whereClause = [], td_orderByClause = [],
     td_sortColumn = None, td_sortDir = None, td_applyVersion = 0, td_primaryKeys = [], td_pkLoaded = False, td_deletePreview = None,
     td_deleting = False, td_selectedRowIdx = None, td_exportFormat = EF_csv, td_showExportDialog = False, td_showImportDialog = False,
     td_importing = False, td_visibleColumns = [], td_rowDensity = Density_default, td_focusCellRequest = None, td_focusVersion = 0,
     td_requestSeq = 0, td_latestDataRequest = 0, td_latestCountRequest = 0, td_latestImportRequest = 0, td_cancelledRequests = [],
     td_opened = False, td_grid = grid_init, td_waits = [], td_calls = []\<rparr>"

definition set_columns :: "string list \<Rightarrow> table_data \<Rightarrow> table_data" where
  "set_columns cols s = s\<lparr>td_columns := cols, td_columnsVersion := td_columnsVersion s + 1\<rparr>"

definition set_rows :: "table_row list \<Rightarrow> table_data \<Rightarrow> table_data" where
  "set_rows rows s = s\<lparr>td_rows := rows, td_rowsVersion := td_rowsVersion s + 1\<rparr>"

definition set_newRows :: "table_row list \<Rightarrow> table_data \<Rightarrow> table_data" where
  "set_newRows rows s = s\<lparr>td_newRows := rows, td_rowsVersion := td_rowsVersion s + 1\<rparr>"

definition td_call :: "td_call \<Rightarrow> table_data \<Rightarrow> table_data" where
  "td_call c s = s\<lparr>td_calls := td_calls s @ [c]\<rparr>"

definition td_await :: "td_wait \<Rightarrow> table_data \<Rightarrow> table_data" where
  "td_await w s = s\<lparr>td_waits := td_waits s @ [w]\<rparr>"

definition td_settled :: "td_wait \<Rightarrow> table_data \<Rightarrow> table_data" where
  "td_settled w s = s\<lparr>td_waits := remove1 w (td_waits s)\<rparr>"

definition toast :: "td_toast \<Rightarrow> table_data \<Rightarrow> table_data" where
  "toast t s = td_call (TC_toast t) s"

definition clear_edits :: "table_data \<Rightarrow> table_data" where
  "clear_edits s = set_newRows [] (s\<lparr>td_edits := []\<rparr>)"

definition view_of :: "table_data \<Rightarrow> query_view" where
  "view_of s = \<lparr>qv_page = td_page s, qv_pageSize = td_pageSize s, qv_whereClause = td_whereClause s,
     qv_orderByClause = td_orderByClause s, qv_sortColumn = td_sortColumn s, qv_sortDir = td_sortDir s\<rparr>"

definition totalPages :: "table_data \<Rightarrow> int option" where
  "totalPages s = map_option (\<lambda>n. max 1 \<lceil>n / of_int (td_pageSize s)\<rceil>) (td_totalRows s)"

definition hasNext :: "table_data \<Rightarrow> bool" where
  "hasNext s = (case totalPages s of Some n \<Rightarrow> td_page s < n - 1 | None \<Rightarrow> int (length (td_rows s)) = td_pageSize s)"

definition hasPrev :: "table_data \<Rightarrow> bool" where
  "hasPrev s \<longleftrightarrow> td_page s > 0"

definition tableRows :: "table_data \<Rightarrow> table_row list" where
  "tableRows s = td_rows s @ td_newRows s"

definition pendingEditCount :: "table_data \<Rightarrow> nat" where
  "pendingEditCount s = length (td_edits s) + length (td_newRows s)"

definition hasSelectedRow :: "table_data \<Rightarrow> bool" where
  "hasSelectedRow s = (case td_selectedRowIdx s of None \<Rightarrow> False | Some i \<Rightarrow> i < length (tableRows s))"

definition effectiveVisibleColumns :: "table_data \<Rightarrow> string list" where
  "effectiveVisibleColumns s = (if td_visibleColumns s \<noteq> [] then td_visibleColumns s else td_columns s)"

definition hasActiveFilterSort :: "table_data \<Rightarrow> bool" where
  "hasActiveFilterSort s \<longleftrightarrow> td_filters s \<noteq> [] \<or> td_sorts s \<noteq> [] \<or> td_whereClause s \<noteq> [] \<or> td_orderByClause s \<noteq> [] \<or>
     (td_sortColumn s \<noteq> None \<and> td_sortColumn s \<noteq> Some []) \<or> td_sortDir s \<noteq> None"

section \<open>Requests\<close>

definition isCancelled :: "nat \<Rightarrow> table_data \<Rightarrow> bool" where
  "isCancelled requestId s \<longleftrightarrow> requestId \<in> set (td_cancelledRequests s)"

definition forget_request :: "nat \<Rightarrow> table_data \<Rightarrow> table_data" where
  "forget_request requestId s = s\<lparr>td_cancelledRequests := filter (\<lambda>i. i \<noteq> requestId) (td_cancelledRequests s)\<rparr>"

definition nextRequestId :: "table_data \<Rightarrow> table_data" where
  "nextRequestId s = s\<lparr>td_requestSeq := td_requestSeq s + 1\<rparr>"

definition where_part :: "string \<Rightarrow> string" where
  "where_part whereClause = (if trim whereClause \<noteq> [] then '' WHERE '' @ trim whereClause else [])"

definition count_sql :: "table_props \<Rightarrow> query_view \<Rightarrow> string" where
  "count_sql p v = ''SELECT COUNT(*) AS cnt FROM '' @ quoteTableRef (tp_database p) (tp_table p) (tp_driver p) @ where_part (qv_whereClause v)"

definition fetchCount :: "table_props \<Rightarrow> query_view \<Rightarrow> when_counted \<Rightarrow> table_data \<Rightarrow> table_data" where
  "fetchCount p v aft s =
     (if tp_assetId p = 0 then (if aft = Counted_deleted then s\<lparr>td_deleting := False\<rparr> else s)
      else let s1 = nextRequestId s; requestId = td_requestSeq s1
           in td_await (W_count requestId aft)
                (td_call (TC_ExecuteSQL (tp_assetId p) (count_sql p v) (tp_database p)) (s1\<lparr>td_latestCountRequest := requestId\<rparr>)))"

definition order_by :: "table_props \<Rightarrow> query_view \<Rightarrow> string" where
  "order_by p v =
     (case (qv_sortColumn v, qv_sortDir v) of
        (Some col, Some dir) \<Rightarrow>
          if col = [] then trim (qv_orderByClause v) else quoteIdent col (tp_driver p) @ '' '' @ (if dir = Asc then ''ASC'' else ''DESC'')
      | _ \<Rightarrow> trim (qv_orderByClause v))"

definition select_sql :: "table_props \<Rightarrow> query_view \<Rightarrow> int \<Rightarrow> string" where
  "select_sql p v pageNum =
     (let orderBy = order_by p v
      in ''SELECT * FROM '' @ quoteTableRef (tp_database p) (tp_table p) (tp_driver p) @ where_part (qv_whereClause v) @
         (if orderBy \<noteq> [] then '' ORDER BY '' @ orderBy else []) @
         '' LIMIT '' @ int_str (qv_pageSize v) @ '' OFFSET '' @ int_str (pageNum * qv_pageSize v))"

definition fetchData :: "table_props \<Rightarrow> query_view \<Rightarrow> int \<Rightarrow> when_loaded \<Rightarrow> table_data \<Rightarrow> table_data" where
  "fetchData p v pageNum aft s =
     (if tp_assetId p = 0 then (case aft of Loaded_count v' d \<Rightarrow> fetchCount p v' d s | Loaded_nothing \<Rightarrow> s)
      else let s1 = nextRequestId s; requestId = td_requestSeq s1
           in td_await (W_data requestId aft)
                (td_call (TC_ExecuteSQL (tp_assetId p) (select_sql p v pageNum) (tp_database p))
                  (s1\<lparr>td_latestDataRequest := requestId, td_loading := True, td_error := None\<rparr>)))"

section \<open>The render: effects\<close>

definition grid_props_of :: "table_data \<Rightarrow> grid_props" where
  "grid_props_of s = \<lparr>gp_columns = td_columns s, gp_rows = tableRows s, gp_edits = td_edits s, gp_editable = True,
     gp_controlledSort = True, gp_onSortByColumn = True, gp_onClearFilterSort = True, gp_sortColumn = td_sortColumn s,
     gp_sortDir = td_sortDir s, gp_visibleColumns = Some (effectiveVisibleColumns s), gp_columnTypes = td_columnTypes s\<rparr>"

definition handleSelectedCellChange :: "(nat \<times> string) option \<Rightarrow> table_data \<Rightarrow> table_data" where
  "handleSelectedCellChange cell s = s\<lparr>td_selectedRowIdx := map_option fst cell\<rparr>"

text \<open>The effects of the table report nothing but selections.\<close>

definition selection_event :: "grid_event \<Rightarrow> table_data \<Rightarrow> table_data" where
  "selection_event e s = (case e of GE_selectedCell cell \<Rightarrow> handleSelectedCellChange cell s | _ \<Rightarrow> s)"

definition grid_commit :: "table_data \<Rightarrow> table_data \<Rightarrow> table_data" where
  "grid_commit old new =
     (let (g, es) = grid_effects (grid_props_of new)
            (td_columnsVersion old \<noteq> td_columnsVersion new) (td_rowsVersion old \<noteq> td_rowsVersion new)
            (displayColumns (grid_props_of old) (td_grid old) \<noteq> displayColumns (grid_props_of new) (td_grid new))
            (td_focusVersion old \<noteq> td_focusVersion new) (td_focusCellRequest new) (td_grid new)
      in fold selection_event es (new\<lparr>td_grid := g\<rparr>))"

definition count_changed :: "table_data \<Rightarrow> table_data \<Rightarrow> bool" where
  "count_changed old new \<longleftrightarrow> td_whereClause old \<noteq> td_whereClause new \<or> td_applyVersion old \<noteq> td_applyVersion new"

definition data_changed :: "table_data \<Rightarrow> table_data \<Rightarrow> bool" where
  "data_changed old new \<longleftrightarrow> view_of old \<noteq> view_of new \<or> td_applyVersion old \<noteq> td_applyVersion new"

definition retained_columns :: "string list \<Rightarrow> string list \<Rightarrow> string list" where
  "retained_columns columns prev =
     (let retained = filter (\<lambda>col. col \<in> set columns) prev in if retained \<noteq> [] then retained else columns)"

definition load_effects :: "table_props \<Rightarrow> table_data \<Rightarrow> table_data \<Rightarrow> table_data" where
  "load_effects p old new =
     (let v = view_of new;
          s1 = (if count_changed old new \<and> td_opened new then fetchCount p v Counted_nothing new else new)
      in if data_changed old new \<and> td_opened new then fetchData p v (qv_page v) Loaded_nothing s1 else s1)"

definition page_effects :: "table_data \<Rightarrow> table_data \<Rightarrow> table_data \<Rightarrow> table_data" where
  "page_effects old new s =
     (let s3 = (if td_page old \<noteq> td_page new then s\<lparr>td_pageInput := int_str (td_page new + 1)\<rparr> else s)
      in if td_page old \<noteq> td_page new \<or> td_pageSize old \<noteq> td_pageSize new then clear_edits s3 else s3)"

definition column_effects :: "table_data \<Rightarrow> table_data \<Rightarrow> table_data \<Rightarrow> table_data" where
  "column_effects old new s =
     (if td_columnsVersion old \<noteq> td_columnsVersion new
      then s\<lparr>td_visibleColumns := retained_columns (td_columns new) (td_visibleColumns s)\<rparr> else s)"

definition tab_effects :: "table_props \<Rightarrow> table_data \<Rightarrow> table_data \<Rightarrow> table_data" where
  "tab_effects p old new = column_effects old new (page_effects old new (load_effects p old new))"

definition commit :: "table_props \<Rightarrow> table_data \<Rightarrow> table_data \<Rightarrow> table_data" where
  "commit p old new = (let s1 = grid_commit old new; s2 = tab_effects p old s1 in grid_commit s1 s2)"

section \<open>Opening and loading\<close>

definition open_table :: "table_props \<Rightarrow> table_data \<Rightarrow> table_data" where
  "open_table p s =
     (if tp_assetId p = 0 then s
      else let s1 = nextRequestId s; requestId = td_requestSeq s1;
               s2 = set_rows [] (set_columns [] (s1\<lparr>td_latestDataRequest := requestId, td_latestCountRequest := requestId,
                 td_opened := False, td_primaryKeys := [], td_columnTypes := [], td_columnRules := [], td_totalRows := None,
                 td_pkLoaded := False, td_loading := True, td_error := None\<rparr>))
           in td_await (W_open requestId) (td_call (TC_OpenTable (tp_assetId p) (tp_database p) (tp_table p) (td_pageSize s)) s2))"

definition current_data :: "nat \<Rightarrow> table_data \<Rightarrow> bool" where
  "current_data requestId s \<longleftrightarrow> \<not> isCancelled requestId s \<and> td_latestDataRequest s = requestId"

definition number_type :: "jsval \<Rightarrow> rat option" where
  "number_type v = (case v of JInt i \<Rightarrow> Some (of_int i) | JFloat t \<Rightarrow> js_number t | _ \<Rightarrow> None)"

definition opened :: "open_result \<Rightarrow> table_data \<Rightarrow> table_data" where
  "opened r s =
     set_rows (or_else (or_firstPage r) []) (set_columns (or_else (or_columns r) [])
       (s\<lparr>td_primaryKeys := or_else (or_primaryKeys r) [], td_columnTypes := or_else (or_columnTypes r) [],
          td_columnRules := or_else (or_columnRules r) [], td_totalRows := number_type (or_totalCount r), td_opened := True\<rparr>))"

definition table_open_answered :: "table_props \<Rightarrow> nat \<Rightarrow> open_result db_reply \<Rightarrow> table_data \<Rightarrow> table_data" where
  "table_open_answered p requestId answer s0 =
     (let s = td_settled (W_open requestId) s0;
          s1 = (if current_data requestId s
                then (case answer of Reply r \<Rightarrow> opened r s | Failure e \<Rightarrow> s\<lparr>td_error := Some e\<rparr>)\<lparr>td_pkLoaded := True, td_loading := False\<rparr>
                else s)
      in commit p s0 (forget_request requestId s1))"

definition current_count :: "nat \<Rightarrow> table_data \<Rightarrow> bool" where
  "current_count requestId s \<longleftrightarrow> \<not> isCancelled requestId s \<and> td_latestCountRequest s = requestId"

definition counted :: "sql_result \<Rightarrow> table_data \<Rightarrow> table_data" where
  "counted r s =
     (case sr_rows r of
        Some (row # _) \<Rightarrow>
          (case number_of_value (case row of [] \<Rightarrow> JUndef | (k, v) # _ \<Rightarrow> v) of
             Some n \<Rightarrow> s\<lparr>td_totalRows := Some n\<rparr>
           | None \<Rightarrow> s)
      | _ \<Rightarrow> s)"

definition count_answered :: "table_props \<Rightarrow> nat \<Rightarrow> when_counted \<Rightarrow> sql_result db_reply \<Rightarrow> table_data \<Rightarrow> table_data" where
  "count_answered p requestId aft answer s0 =
     (let s = td_settled (W_count requestId aft) s0;
          s1 = (if current_count requestId s
                then (case answer of Reply r \<Rightarrow> counted r s | Failure e \<Rightarrow> s\<lparr>td_totalRows := None\<rparr>) else s);
          s2 = forget_request requestId s1
      in commit p s0 (if aft = Counted_deleted then s2\<lparr>td_deleting := False\<rparr> else s2))"

definition loaded :: "sql_result db_reply \<Rightarrow> table_data \<Rightarrow> table_data" where
  "loaded answer s =
     (case answer of
        Reply r \<Rightarrow> set_rows (or_else (sr_rows r) []) (set_columns (or_else (sr_columns r) []) s)
      | Failure e \<Rightarrow> set_rows [] (set_columns [] (s\<lparr>td_error := Some e\<rparr>)))\<lparr>td_selectedRowIdx := None, td_loading := False\<rparr>"

definition data_answered :: "table_props \<Rightarrow> nat \<Rightarrow> when_loaded \<Rightarrow> sql_result db_reply \<Rightarrow> table_data \<Rightarrow> table_data" where
  "data_answered p requestId aft answer s0 =
     (let s = td_settled (W_data requestId aft) s0;
          s1 = forget_request requestId (if current_data requestId s then loaded answer s else s)
      in commit p s0 (case aft of Loaded_count v d \<Rightarrow> fetchCount p v d s1 | Loaded_nothing \<Rightarrow> s1))"

section \<open>Pending edits\<close>

definition key_row :: "string \<Rightarrow> nat" where
  "key_row key = digits_val (takeWhile (\<lambda>c. c \<noteq> CHR '':'') key)"

definition key_col :: "string \<Rightarrow> string" where
  "key_col key = tl (dropWhile (\<lambda>c. c \<noteq> CHR '':'') key)"

definition handleCellEdit :: "cell_edit \<Rightarrow> table_data \<Rightarrow> table_data" where
  "handleCellEdit e s = s\<lparr>td_edits := set_prop (td_edits s) (cellKey (ce_rowIdx e) (ce_col e)) (ce_value e)\<rparr>"

definition handleDiscard :: "table_data \<Rightarrow> table_data" where
  "handleDiscard s = clear_edits s"

definition handleAddInlineRow :: "table_data \<Rightarrow> table_data" where
  "handleAddInlineRow s =
     (case td_columns s of
        [] \<Rightarrow> s
      | c # _ \<Rightarrow>
          let rowIdx = length (td_rows s) + length (td_newRows s)
          in (set_newRows (td_newRows s @ [[]]) s)\<lparr>td_selectedRowIdx := Some rowIdx, td_focusCellRequest := Some (rowIdx, c),
               td_focusVersion := td_focusVersion s + 1\<rparr>)"

text \<open>The edits of the removed row go; those below it move up.\<close>

definition shift_edits :: "nat \<Rightarrow> (string \<times> jsval) list \<Rightarrow> (string \<times> jsval) list" where
  "shift_edits rowIdx edits =
     fold (\<lambda>(key, value) next.
         let r = key_row key
         in if r = rowIdx then next
            else set_prop next (cellKey (if r > rowIdx then r - 1 else r) (key_col key)) value) edits []"

definition removeNewRow :: "nat \<Rightarrow> table_data \<Rightarrow> table_data" where
  "removeNewRow rowIdx s =
     (let newRowIdx = rowIdx - length (td_rows s)
      in if rowIdx < length (td_rows s) \<or> newRowIdx \<ge> length (td_newRows s) then s
         else (set_newRows (remove_at newRowIdx (td_newRows s)) s)
                \<lparr>td_edits := shift_edits rowIdx (td_edits s), td_selectedRowIdx := None\<rparr>)"

section \<open>Statements\<close>

definition add_edit :: "string \<times> jsval \<Rightarrow> (nat \<times> (string \<times> jsval) list) list \<Rightarrow> (nat \<times> (string \<times> jsval) list) list" where
  "add_edit = (\<lambda>(key, value) rowEdits.
     AList.update (key_row key) (set_prop (or_else (map_of rowEdits (key_row key)) []) (key_col key) value) rowEdits)"

definition group_edits :: "(string \<times> jsval) list \<Rightarrow> (nat \<times> (string \<times> jsval) list) list" where
  "group_edits edits = fold add_edit edits []"

definition where_columns :: "table_data \<Rightarrow> string list" where
  "where_columns s = (if td_primaryKeys s \<noteq> [] then td_primaryKeys s else td_columns s)"

definition set_clause :: "driver \<Rightarrow> string \<times> jsval \<Rightarrow> string" where
  "set_clause driver = (\<lambda>(col, value). quoteIdent col driver @ '' = '' @ sqlQuote value)"

definition cell_update_statement :: "table_props \<Rightarrow> table_data \<Rightarrow> table_row \<Rightarrow> (string \<times> jsval) list \<Rightarrow> string" where
  "cell_update_statement p s row colEdits =
     (let driver = tp_driver p;
          setSQL = join '', '' (map (set_clause driver) colEdits);
          whereSQL = join '' AND '' (map (where_equals driver row) (where_columns s));
          tableName = quoteTableRef (tp_database p) (tp_table p) driver
      in if is_pg driver then
           (if td_primaryKeys s \<noteq> [] then ''UPDATE '' @ tableName @ '' SET '' @ setSQL @ '' WHERE '' @ whereSQL @ '';''
            else ''UPDATE '' @ tableName @ '' SET '' @ setSQL @ '' WHERE ctid = (SELECT ctid FROM '' @ tableName @ '' WHERE '' @ whereSQL @
                 '' LIMIT 1);'')
         else ''UPDATE '' @ tableName @ '' SET '' @ setSQL @ '' WHERE '' @ whereSQL @ '' LIMIT 1;'')"

definition buildUpdateStatements :: "table_props \<Rightarrow> table_data \<Rightarrow> string list" where
  "buildUpdateStatements p s =
     map (\<lambda>(r, colEdits). cell_update_statement p s (td_rows s ! r) colEdits)
       (filter (\<lambda>(r, colEdits). r < length (td_rows s)) (group_edits (td_edits s)))"

definition insert_values :: "table_data \<Rightarrow> nat \<Rightarrow> table_row" where
  "insert_values s newRowIdx =
     fold (\<lambda>column values.
         case map_of (td_edits s) (cellKey (length (td_rows s) + newRowIdx) column) of
           None \<Rightarrow> values
         | Some v \<Rightarrow> set_prop values column v) (td_columns s) []"

definition missing_fields :: "table_data \<Rightarrow> string list" where
  "missing_fields s =
     rev (remdups (rev (concat (map (\<lambda>i. validateInsertRow (td_columnRules s) (insert_values s i)) [0..<length (td_newRows s)]))))"

definition buildInsertStatements_tab :: "table_props \<Rightarrow> table_data \<Rightarrow> string list \<times> string list" where
  "buildInsertStatements_tab p s =
     (let missing = missing_fields s
      in (if missing \<noteq> [] then []
          else map (\<lambda>i. buildInsertStatement (tp_database p) (tp_table p) (tp_driver p) (insert_values s i)) [0..<length (td_newRows s)],
          missing))"

definition buildChangeStatements :: "table_props \<Rightarrow> table_data \<Rightarrow> string list \<times> string list" where
  "buildChangeStatements p s =
     (let (statements, missing) = buildInsertStatements_tab p s
      in if missing \<noteq> [] then (statements, missing) else (statements @ buildUpdateStatements p s, []))"

definition openSqlDialog :: "table_props \<Rightarrow> dialog_mode \<Rightarrow> table_data \<Rightarrow> table_data" where
  "openSqlDialog p mode s =
     (let (statements, missing) = buildChangeStatements p s
      in if missing \<noteq> [] then toast (Toast_required missing) s
         else if statements = [] then s
         else s\<lparr>td_dialogMode := Some mode\<rparr>)"

definition sql_dialog_closed :: "table_data \<Rightarrow> table_data" where
  "sql_dialog_closed s = (if td_submitting s then s else s\<lparr>td_dialogMode := None\<rparr>)"

definition previewStatements :: "table_props \<Rightarrow> table_data \<Rightarrow> string list" where
  "previewStatements p s = (if td_dialogMode s = None then [] else fst (buildChangeStatements p s))"

definition pendingSqlSummary :: "table_props \<Rightarrow> table_data \<Rightarrow> string" where
  "pendingSqlSummary p s =
     (if td_edits s = [] \<and> td_newRows s = [] then []
      else case buildChangeStatements p s of
          (st # _, []) \<Rightarrow> st
        | _ \<Rightarrow> [])"

section \<open>Submitting and deleting\<close>

definition affected_rows :: "sql_result \<Rightarrow> rat option" where
  "affected_rows r = number_of_value (if nullish (sr_affected r) then JInt 0 else sr_affected r)"

definition execute_next :: "table_props \<Rightarrow> submit_progress \<Rightarrow> table_data \<Rightarrow> table_data" where
  "execute_next p sp s =
     (case sp_rest sp of
        [] \<Rightarrow> s
      | sql # rest \<Rightarrow>
          td_await (W_submit (sp\<lparr>sp_rest := rest\<rparr>)) (td_call (TC_ExecuteSQL (tp_assetId p) sql (tp_database p)) s))"

definition handleSubmit :: "table_props \<Rightarrow> table_data \<Rightarrow> table_data" where
  "handleSubmit p s =
     (if (td_edits s = [] \<and> td_newRows s = []) \<or> tp_assetId p = 0 then s
      else
        let (statements, missing) = buildChangeStatements p s
        in if missing \<noteq> [] then toast (Toast_required missing) s
           else if statements = [] then s
           else execute_next p \<lparr>sp_view = view_of s, sp_rest = statements, sp_affected = 0, sp_zero = 0, sp_errors = []\<rparr>
                  (s\<lparr>td_submitting := True\<rparr>))"

definition submitted :: "table_props \<Rightarrow> submit_progress \<Rightarrow> table_data \<Rightarrow> table_data" where
  "submitted p sp s =
     (let s1 = s\<lparr>td_submitting := False, td_dialogMode := None\<rparr>;
          s2 = (if sp_affected sp > 0
                then fetchCount p (sp_view sp) Counted_nothing
                       (fetchData p (sp_view sp) (qv_page (sp_view sp)) Loaded_nothing
                         (clear_edits (toast (Toast_updated (sp_affected sp)) s1)))
                else s1);
          s3 = (if sp_zero sp > 0 then toast (Toast_mismatch (sp_zero sp)) s2 else s2)
      in if sp_errors sp \<noteq> [] then toast (Toast_error (trim (sp_errors sp))) s3 else s3)"

definition executed :: "sql_result db_reply \<Rightarrow> submit_progress \<Rightarrow> submit_progress" where
  "executed answer sp =
     (case answer of
        Failure e \<Rightarrow> sp\<lparr>sp_errors := sp_errors sp @ e @ [LF]\<rparr>
      | Reply r \<Rightarrow>
          (case affected_rows r of
             Some n \<Rightarrow> if n > 0 then sp\<lparr>sp_affected := sp_affected sp + n\<rparr> else sp\<lparr>sp_zero := sp_zero sp + 1\<rparr>
           | None \<Rightarrow> sp\<lparr>sp_zero := sp_zero sp + 1\<rparr>))"

definition submit_answered :: "table_props \<Rightarrow> submit_progress \<Rightarrow> sql_result db_reply \<Rightarrow> table_data \<Rightarrow> table_data" where
  "submit_answered p sp answer s0 =
     (let s = td_settled (W_submit sp) s0; sp' = executed answer sp
      in commit p s0 (if sp_rest sp' = [] then submitted p sp' s else execute_next p sp' s))"

definition handleDeleteRow :: "table_props \<Rightarrow> nat \<Rightarrow> table_data \<Rightarrow> table_data" where
  "handleDeleteRow p rowIdx s =
     (if rowIdx \<ge> length (td_rows s) then removeNewRow rowIdx s
      else s\<lparr>td_deletePreview := Some (buildDeleteStatement \<lparr>da_database = tp_database p, da_table = tp_table p, da_columns = td_columns s,
             da_row = td_rows s ! rowIdx, da_primaryKeys = td_primaryKeys s, da_driver = tp_driver p\<rparr>)\<rparr>)"

definition handleDeleteSelectedRow :: "table_props \<Rightarrow> table_data \<Rightarrow> table_data" where
  "handleDeleteSelectedRow p s = (case td_selectedRowIdx s of None \<Rightarrow> s | Some i \<Rightarrow> handleDeleteRow p i s)"

definition delete_dialog_closed :: "table_data \<Rightarrow> table_data" where
  "delete_dialog_closed s = (if td_deleting s then s else s\<lparr>td_deletePreview := None\<rparr>)"

definition handleConfirmDelete :: "table_props \<Rightarrow> table_data \<Rightarrow> table_data" where
  "handleConfirmDelete p s =
     (case td_deletePreview s of
        None \<Rightarrow> s
      | Some d \<Rightarrow>
          if tp_assetId p = 0 then s
          else td_await (W_delete (view_of s))
                 (td_call (TC_ExecuteSQL (tp_assetId p) (ds_sql d) (tp_database p)) (s\<lparr>td_deleting := True\<rparr>)))"

definition row_delete_answered :: "table_props \<Rightarrow> query_view \<Rightarrow> sql_result db_reply \<Rightarrow> table_data \<Rightarrow> table_data" where
  "row_delete_answered p v answer s0 =
     (let s = td_settled (W_delete v) s0
      in commit p s0 (case answer of
           Failure e \<Rightarrow> (toast (Toast_error e) s)\<lparr>td_deleting := False\<rparr>
         | Reply r \<Rightarrow>
             fetchData p v (qv_page v) (Loaded_count v Counted_deleted)
               (clear_edits ((toast (Toast_deleted (affected_rows r)) s)\<lparr>td_deletePreview := None\<rparr>))))"

section \<open>Paging, sorting, filtering\<close>

text \<open>A page number above \<open>2^53\<close> stays exact here.\<close>

definition handlePageInputConfirm :: "table_data \<Rightarrow> table_data" where
  "handlePageInputConfirm s =
     (case parse_int (td_pageInput s) of
        None \<Rightarrow> s\<lparr>td_pageInput := int_str (td_page s + 1)\<rparr>
      | Some num \<Rightarrow>
          if num < 1 then s\<lparr>td_pageInput := int_str (td_page s + 1)\<rparr>
          else s\<lparr>td_page := (case totalPages s of Some n \<Rightarrow> min num n - 1 | None \<Rightarrow> num - 1)\<rparr>)"

definition handlePageSizeChange :: "int \<Rightarrow> table_data \<Rightarrow> table_data" where
  "handlePageSizeChange nextPageSize s = clear_edits (s\<lparr>td_pageSize := nextPageSize, td_page := 0\<rparr>)"

text \<open>The field for the page size in the status bar: the new draft, and the size when it changes.\<close>

definition commitPageSize :: "int \<Rightarrow> string \<Rightarrow> string \<times> int option" where
  "commitPageSize pageSize draft =
     (case js_number draft of
        None \<Rightarrow> (int_str pageSize, None)
      | Some x \<Rightarrow> (let next = max 1 (min 100000 \<lfloor>x\<rfloor>) in (int_str next, if next \<noteq> pageSize then Some next else None)))"

definition handleRefresh :: "table_props \<Rightarrow> table_data \<Rightarrow> table_data" where
  "handleRefresh p s = (let v = view_of s in fetchCount p v Counted_nothing (fetchData p v (qv_page v) Loaded_nothing s))"

definition handleStopLoading :: "table_data \<Rightarrow> table_data" where
  "handleStopLoading s =
     (if \<not> td_loading s \<and> \<not> td_importing s then s
      else toast Toast_stopped
        (s\<lparr>td_cancelledRequests := td_cancelledRequests s @ [td_latestDataRequest s, td_latestCountRequest s, td_latestImportRequest s],
           td_loading := False, td_importing := False\<rparr>))"

definition first_page :: "table_data \<Rightarrow> table_data" where
  "first_page s = (clear_edits (s\<lparr>td_page := 0\<rparr>))\<lparr>td_applyVersion := td_applyVersion s + 1\<rparr>"

definition handleApplyQuery :: "table_props \<Rightarrow> table_data \<Rightarrow> table_data" where
  "handleApplyQuery p s =
     (let sortClause = buildSortOrderByClause (td_sorts s) (tp_driver p);
          s1 = s\<lparr>td_whereClause := buildFilterWhereClause (td_filters s) (tp_driver p), td_orderByClause := sortClause\<rparr>
      in first_page (if sortClause \<noteq> [] then s1\<lparr>td_sortColumn := None, td_sortDir := None\<rparr> else s1))"

definition handleSortChange :: "string option \<Rightarrow> sort_dir option \<Rightarrow> table_data \<Rightarrow> table_data" where
  "handleSortChange col dir s = first_page (s\<lparr>td_sortColumn := col, td_sortDir := dir, td_sorts := [], td_orderByClause := []\<rparr>)"

definition handleFilterByCellValue :: "table_props \<Rightarrow> cell_action \<Rightarrow> table_data \<Rightarrow> table_data" where
  "handleFilterByCellValue p a s =
     (let oper = or_else (ca_operator a) Op_eq; col = ca_col a;
          filterValue = (if filterOperatorNeedsRange oper then JArr [ca_value a, ca_value a] else ca_value a)
      in first_page (s\<lparr>td_filters := [Condition (createFilterCondition (''cell-'' @ col) col
             \<lparr>co_value = filterValue, co_enabled = None, co_join = None, co_operator = Some oper\<rparr>)],
           td_showFilterSort := True, td_whereClause := buildFilterByCellValueClause col filterValue (tp_driver p) oper\<rparr>))"

definition handleRemoveColumnFilter :: "table_props \<Rightarrow> string \<Rightarrow> table_data \<Rightarrow> table_data" where
  "handleRemoveColumnFilter p column s =
     (let next = removeFilterItemsByColumn (td_filters s) column
      in first_page (s\<lparr>td_filters := next, td_whereClause := buildFilterWhereClause next (tp_driver p)\<rparr>))"

definition handleRemoveAllFilters :: "table_data \<Rightarrow> table_data" where
  "handleRemoveAllFilters s = first_page (s\<lparr>td_filters := [], td_whereClause := []\<rparr>)"

definition handleSortByColumn :: "string \<Rightarrow> sort_dir \<Rightarrow> table_data \<Rightarrow> table_data" where
  "handleSortByColumn col dir s = handleSortChange (Some col) (Some dir) s"

definition handleClearFilterSort :: "table_data \<Rightarrow> table_data" where
  "handleClearFilterSort s =
     first_page (s\<lparr>td_filters := [], td_whereClause := [], td_sorts := [], td_orderByClause := [], td_sortColumn := None, td_sortDir := None\<rparr>)"

definition handleAddColumnFilter :: "nat \<Rightarrow> string \<Rightarrow> table_data \<Rightarrow> table_data" where
  "handleAddColumnFilter now column s =
     s\<lparr>td_filters := td_filters s @ [Condition (createFilterCondition (''column-'' @ column @ ''-'' @ nat_str now) column no_options)],
       td_showFilterSort := True\<rparr>"

definition handleVisibleColumnToggle :: "string \<Rightarrow> table_data \<Rightarrow> table_data" where
  "handleVisibleColumnToggle column s =
     (let current = effectiveVisibleColumns s
      in s\<lparr>td_visibleColumns :=
           (if column \<in> set current
            then (if length current = 1 then current else filter (\<lambda>col. col \<noteq> column) current)
            else filter (\<lambda>col. col = column \<or> col \<in> set current) (td_columns s))\<rparr>)"

definition handleHideColumn :: "string \<Rightarrow> table_data \<Rightarrow> table_data" where
  "handleHideColumn column s =
     (let current = effectiveVisibleColumns s
      in s\<lparr>td_visibleColumns := (if column \<notin> set current \<or> length current = 1 then current else filter (\<lambda>col. col \<noteq> column) current)\<rparr>)"

definition handleFirstPage :: "table_data \<Rightarrow> table_data" where
  "handleFirstPage s = s\<lparr>td_page := 0\<rparr>"

definition handlePreviousPage :: "table_data \<Rightarrow> table_data" where
  "handlePreviousPage s = s\<lparr>td_page := td_page s - 1\<rparr>"

definition handleNextPage :: "table_data \<Rightarrow> table_data" where
  "handleNextPage s = s\<lparr>td_page := td_page s + 1\<rparr>"

definition handleLastPage :: "table_data \<Rightarrow> table_data" where
  "handleLastPage s = (case totalPages s of None \<Rightarrow> s | Some n \<Rightarrow> s\<lparr>td_page := n - 1\<rparr>)"

section \<open>Export, import, copying\<close>

definition handleExport :: "table_data \<Rightarrow> table_data" where
  "handleExport s = (if td_rows s = [] \<or> td_columns s = [] then s else s\<lparr>td_showExportDialog := True\<rparr>)"

definition handleImportSubmitStart :: "table_data \<Rightarrow> table_data" where
  "handleImportSubmitStart s = (let s1 = nextRequestId s in s1\<lparr>td_latestImportRequest := td_requestSeq s1\<rparr>)"

definition isImportSubmitCancelled :: "nat \<Rightarrow> table_data \<Rightarrow> bool" where
  "isImportSubmitCancelled requestId s \<longleftrightarrow> isCancelled requestId s \<or> td_latestImportRequest s \<noteq> requestId"

definition handleImportSuccess :: "table_props \<Rightarrow> query_view \<Rightarrow> table_data \<Rightarrow> table_data" where
  "handleImportSuccess p v s = fetchData p v 0 (Loaded_count v Counted_nothing) (first_page (s\<lparr>td_importing := False\<rparr>))"

text \<open>
  The rows that are copied. A row that was added and is not saved has no entry among \<open>rows\<close>: named by the menu it makes
  the function throw (\<open>None\<close>), among the selected ones it is left out.
\<close>

definition copied_rows :: "table_data \<Rightarrow> cell_action \<Rightarrow> table_row list option" where
  "copied_rows s a =
     (let row = (\<lambda>i. if i < length (td_rows s) then Some (td_rows s ! i) else None)
      in case ca_selectedRowIndices a of
           Some (i # is) \<Rightarrow> Some (List.map_filter row (i # is))
         | _ \<Rightarrow> map_option (\<lambda>r. [r]) (row (ca_rowIdx a)))"

definition copy_content :: "table_props \<Rightarrow> table_data \<Rightarrow> copy_format \<Rightarrow> string list \<Rightarrow> table_row list \<Rightarrow> string" where
  "copy_content p s format cols rows =
     (let tableName = (if is_pg (tp_driver p) then tp_table p else tp_database p @ ''.'' @ tp_table p)
      in case format of
           CF_insert \<Rightarrow> toInsertSql tableName cols rows (tp_driver p)
         | CF_update \<Rightarrow> toUpdateSql tableName cols (hd rows) (td_primaryKeys s) (tp_driver p)
         | CF_tsv_data \<Rightarrow> toTsvData cols rows
         | CF_tsv_fields \<Rightarrow> toTsvFields cols
         | CF_tsv_fields_data \<Rightarrow> toTsv cols rows no_export_options)"

definition handleCopyAs :: "table_props \<Rightarrow> copy_format \<Rightarrow> cell_action \<Rightarrow> table_data \<Rightarrow> table_data option" where
  "handleCopyAs p format a s =
     (let cols = (case ca_selectedColumns a of Some (c # cs) \<Rightarrow> c # cs | _ \<Rightarrow> td_columns s)
      in case copied_rows s a of
           None \<Rightarrow> None
         | Some [] \<Rightarrow> Some s
         | Some rows \<Rightarrow> Some (toast Toast_copied (td_call (TC_clipboard (copy_content p s format cols rows)) s)))"

section \<open>The definition of the table\<close>

definition pg_columns_sql :: "table_props \<Rightarrow> string" where
  "pg_columns_sql p =
     ''SELECT column_name, data_type, udt_name, is_nullable, column_default FROM information_schema.columns WHERE table_schema = '' @
     [SQ] @ ''public'' @ [SQ] @ '' AND table_name = '' @ sqlQuote (JStr (tp_table p)) @ '' ORDER BY ordinal_position''"

definition pg_keys_sql :: "table_props \<Rightarrow> string" where
  "pg_keys_sql p =
     ''SELECT kcu.column_name FROM information_schema.table_constraints tc JOIN information_schema.key_column_usage kcu ON '' @
     ''tc.constraint_name = kcu.constraint_name AND tc.table_schema = kcu.table_schema WHERE tc.table_schema = '' @
     [SQ] @ ''public'' @ [SQ] @ '' AND tc.table_name = '' @ sqlQuote (JStr (tp_table p)) @ '' AND tc.constraint_type = '' @
     [SQ] @ ''PRIMARY KEY'' @ [SQ] @ '' ORDER BY kcu.ordinal_position''"

definition text_or_empty :: "jsval \<Rightarrow> string" where
  "text_or_empty v = (if nullish v then [] else js_string v)"

definition first_value :: "table_row \<Rightarrow> jsval" where
  "first_value row = (case row of [] \<Rightarrow> JUndef | (k, v) # _ \<Rightarrow> v)"

definition pg_column_def :: "driver \<Rightarrow> table_row \<Rightarrow> string" where
  "pg_column_def driver col =
     (let name = text_or_empty (get_prop col ''column_name'');
          dataType = text_or_empty (get_prop col ''data_type'');
          udtName = text_or_empty (get_prop col ''udt_name'');
          columnDefault = text_or_empty (get_prop col ''column_default'');
          type = (if dataType = ''USER-DEFINED'' \<and> udtName \<noteq> [] then udtName else dataType);
          nullable = (to_upper (text_or_empty (get_prop col ''is_nullable'')) = ''YES'')
      in quoteIdent name driver @ '' '' @ type @ (if nullable then [] else '' NOT NULL'') @
         (if columnDefault \<noteq> [] then '' DEFAULT '' @ columnDefault else []))"

definition pg_ddl :: "table_props \<Rightarrow> table_row list \<Rightarrow> table_row list \<Rightarrow> string" where
  "pg_ddl p columns keys =
     (let driver = tp_driver p;
          primaryKeyColumns = filter (\<lambda>c. c \<noteq> []) (map (\<lambda>r. text_or_empty (first_value r)) keys);
          defs = map (pg_column_def driver) columns @
            (if primaryKeyColumns \<noteq> [] then [''PRIMARY KEY ('' @ join '', '' (map (\<lambda>c. quoteIdent c driver) primaryKeyColumns) @ '')''] else [])
      in if columns = [] then []
         else ''CREATE TABLE '' @ quoteIdent ''public'' driver @ ''.'' @ quoteIdent (tp_table p) driver @ '' ('' @ [LF] @ ''  '' @
              join ('','' @ [LF] @ ''  '') defs @ [LF] @ '');'')"

text \<open>\<open>/CREATE\s+(TABLE|VIEW)/i\<close>\<close>

fun has_create :: "string \<Rightarrow> bool" where
  "has_create [] = False"
| "has_create (c # s) =
     ((starts_with (c # s) ''create'' \<and>
       (let r = drop 6 (c # s) in takeWhile is_space r \<noteq> [] \<and>
          (starts_with (dropWhile is_space r) ''table'' \<or> starts_with (dropWhile is_space r) ''view''))) \<or>
      has_create s)"

definition mysql_ddl :: "sql_result \<Rightarrow> string" where
  "mysql_ddl r =
     (case sr_rows r of
        Some (row # _) \<Rightarrow>
          (let values = map snd row;
               found = find (\<lambda>v. case v of JStr t \<Rightarrow> has_create (to_lower t) | _ \<Rightarrow> False) values;
               nth_value = (\<lambda>i. if i < length values then values ! i else JUndef)
           in case found of
                Some v \<Rightarrow> js_string v
              | None \<Rightarrow> text_or_empty (if nullish (nth_value 1) then nth_value 0 else nth_value 1))
      | _ \<Rightarrow> [])"

definition handleViewDDL :: "table_props \<Rightarrow> table_data \<Rightarrow> table_data" where
  "handleViewDDL p s =
     (if tp_assetId p = 0 then s
      else let s1 = s\<lparr>td_showDDLDialog := True, td_ddlLoading := True\<rparr>
           in if is_pg (tp_driver p)
              then td_await W_ddl_columns (td_call (TC_ExecuteSQL (tp_assetId p) (pg_columns_sql p) (tp_database p)) s1)
              else td_await W_ddl (td_call (TC_ExecuteSQL (tp_assetId p)
                     (''SHOW CREATE TABLE '' @ quoteIdent (tp_table p) (tp_driver p)) (tp_database p)) s1))"

definition ddl_shown :: "string \<Rightarrow> string \<Rightarrow> table_data \<Rightarrow> table_data" where
  "ddl_shown ddlEmpty ddl s = s\<lparr>td_ddlSQL := (if ddl \<noteq> [] then ddl else ddlEmpty), td_ddlLoading := False\<rparr>"

definition ddl_failed :: "string \<Rightarrow> table_data \<Rightarrow> table_data" where
  "ddl_failed e s = s\<lparr>td_ddlSQL := e, td_ddlLoading := False\<rparr>"

definition ddl_answered :: "string \<Rightarrow> sql_result db_reply \<Rightarrow> table_data \<Rightarrow> table_data" where
  "ddl_answered ddlEmpty answer s0 =
     (let s = td_settled W_ddl s0
      in case answer of Reply r \<Rightarrow> ddl_shown ddlEmpty (mysql_ddl r) s | Failure e \<Rightarrow> ddl_failed e s)"

text \<open>The columns are kept until the second query has answered. A first result that cannot be parsed counts as a failed query.\<close>

definition ddl_columns_answered :: "table_props \<Rightarrow> sql_result db_reply \<Rightarrow> table_data \<Rightarrow> table_data" where
  "ddl_columns_answered p answer s0 =
     (let s = td_settled W_ddl_columns s0
      in case answer of
           Failure e \<Rightarrow> ddl_failed e s
         | Reply r \<Rightarrow> td_await (W_ddl_keys (or_else (sr_rows r) []))
             (td_call (TC_ExecuteSQL (tp_assetId p) (pg_keys_sql p) (tp_database p)) s))"

definition ddl_keys_answered :: "table_props \<Rightarrow> string \<Rightarrow> table_row list \<Rightarrow> sql_result db_reply \<Rightarrow> table_data \<Rightarrow> table_data" where
  "ddl_keys_answered p ddlEmpty columns answer s0 =
     (let s = td_settled (W_ddl_keys columns) s0
      in case answer of
           Failure e \<Rightarrow> ddl_failed e s
         | Reply r \<Rightarrow> ddl_shown ddlEmpty (pg_ddl p columns (or_else (sr_rows r) [])) s)"

definition handleCopyDDL :: "table_data \<Rightarrow> table_data" where
  "handleCopyDDL s =
     (let t = (if td_ddlLoading s then [] else td_ddlSQL s)
      in if t = [] then s else toast Toast_copied (td_call (TC_clipboard t) s))"

section \<open>The events of the table\<close>

text \<open>
  A failure to copy a row that is not saved leaves the tab as it is. \<open>now\<close> is the time in the id of a new filter.
\<close>

definition grid_event_handler :: "table_props \<Rightarrow> nat \<Rightarrow> grid_event \<Rightarrow> table_data \<Rightarrow> table_data" where
  "grid_event_handler p now e s =
     (case e of
        GE_cellEdit ed \<Rightarrow> handleCellEdit ed s
      | GE_setCellValue ed \<Rightarrow> handleCellEdit ed s
      | GE_pasteCell ed \<Rightarrow> handleCellEdit ed s
      | GE_generateUuid ed \<Rightarrow> handleCellEdit ed s
      | GE_copyAs format a \<Rightarrow> or_else (handleCopyAs p format a s) s
      | GE_filterByCellValue a \<Rightarrow> handleFilterByCellValue p a s
      | GE_sortByColumn col dir \<Rightarrow> handleSortByColumn col dir s
      | GE_sortChange col dir \<Rightarrow> handleSortChange (Some col) (Some dir) s
      | GE_clearFilterSort \<Rightarrow> handleClearFilterSort s
      | GE_addColumnFilter col \<Rightarrow> handleAddColumnFilter now col s
      | GE_removeColumnFilter col \<Rightarrow> handleRemoveColumnFilter p col s
      | GE_removeAllFilters \<Rightarrow> handleRemoveAllFilters s
      | GE_deleteRow i \<Rightarrow> handleDeleteRow p i s
      | GE_hideColumn col \<Rightarrow> handleHideColumn col s
      | GE_selectedCell cell \<Rightarrow> handleSelectedCellChange cell s
      | GE_selectedRows rs \<Rightarrow> s
      | GE_refresh \<Rightarrow> handleRefresh p s
      | GE_writeClipboard t \<Rightarrow> td_call (TC_clipboard t) s
      | GE_readClipboard i col \<Rightarrow> s
      | GE_toastError t \<Rightarrow> toast (Toast_error t) s
      | GE_toastCopied \<Rightarrow> toast Toast_copied s)"

definition grid_action :: "table_props \<Rightarrow> nat \<Rightarrow> (grid_props \<Rightarrow> grid \<Rightarrow> grid \<times> grid_event list) \<Rightarrow> table_data \<Rightarrow> table_data" where
  "grid_action p now f s =
     (let (g, es) = f (grid_props_of s) (td_grid s)
      in commit p s (fold (grid_event_handler p now) es (s\<lparr>td_grid := g\<rparr>)))"

end
