(* ===== verification/TableDataRuns.thy ===== *)
theory TableDataRuns
  imports TableData
begin

text \<open>
  What holds of the tab of a table: the statements its edits become and how a server reads them, removing an added row,
  and over every run the requests behind what turns, the columns shown and the pages; what an edit loses.
\<close>

section \<open>The keys of edits\<close>

lemma digit_not_colon: "is_digit c \<Longrightarrow> c \<noteq> CHR '':''"
  by (auto simp: is_digit_def)

lemma cellKey_parts: "takeWhile (\<lambda>c. c \<noteq> CHR '':'') (cellKey r col) = nat_str r" "dropWhile (\<lambda>c. c \<noteq> CHR '':'') (cellKey r col) = CHR '':'' # col"
  using all_digits_nat_str [of r] digit_not_colon
  by (auto simp: cellKey_def all_digits_def list_all_iff takeWhile_append2 dropWhile_append2)

lemma key_row_cellKey [simp]: "key_row (cellKey r col) = r"
  by (simp add: key_row_def cellKey_parts)

lemma key_col_cellKey [simp]: "key_col (cellKey r col) = col"
  by (simp add: key_col_def cellKey_parts)

lemma cellKey_inject [simp]: "cellKey r col = cellKey r' col' \<longleftrightarrow> r = r' \<and> col = col'"
  by (metis key_row_cellKey key_col_cellKey)

text \<open>Every key of an edit was made by \<open>cellKey\<close>.\<close>

definition edits_ok :: "(string \<times> jsval) list \<Rightarrow> bool" where
  "edits_ok edits \<longleftrightarrow> distinct (map fst edits) \<and> (\<forall>k\<in>fst ` set edits. k = cellKey (key_row k) (key_col k))"

lemma edits_ok_empty [simp]: "edits_ok []"
  by (simp add: edits_ok_def)

lemma edits_ok_set [simp]: "edits_ok edits \<Longrightarrow> edits_ok (set_prop edits (cellKey r col) v)"
  by (auto simp: edits_ok_def keys_of_set_prop)

lemma edits_ok_Cons: "edits_ok ((k, v) # edits) \<Longrightarrow> edits_ok edits \<and> k = cellKey (key_row k) (key_col k) \<and> k \<notin> fst ` set edits"
  by (simp add: edits_ok_def)

lemma edits_ok_snoc:
  "edits_ok (edits @ [(k, v)]) \<Longrightarrow> edits_ok edits \<and> k = cellKey (key_row k) (key_col k) \<and> map_of edits k = None"
  by (auto simp: edits_ok_def map_of_eq_None_iff)

section \<open>Removing an added row\<close>

lemma shift_edits_ok:
  "edits_ok edits \<Longrightarrow> edits_ok (shift_edits i edits)"
proof (induction edits rule: rev_induct)
  case (snoc e edits)
  then show ?case using edits_ok_snoc [of edits "fst e" "snd e"]
    by (auto simp: shift_edits_def Let_def split: prod.split)
qed (simp add: shift_edits_def)

text \<open>The row an edit is moved to.\<close>

lemma map_of_shift_edits:
  "edits_ok edits \<Longrightarrow> map_of (shift_edits i edits) (cellKey j col) = map_of edits (cellKey (if j < i then j else Suc j) col)"
proof (induction edits rule: rev_induct)
  case (snoc e edits)
  obtain k v where e: "e = (k, v)" by (cases e)
  have ok: "edits_ok edits" and k: "k = cellKey (key_row k) (key_col k)" and new: "map_of edits k = None"
    using edits_ok_snoc [of edits k v] snoc.prems e by auto
  have sh: "shift_edits i (edits @ [(k, v)]) =
      (if key_row k = i then shift_edits i edits
       else set_prop (shift_edits i edits) (cellKey (if key_row k > i then key_row k - 1 else key_row k) (key_col k)) v)"
    by (simp add: shift_edits_def Let_def)
  have at: "map_of (edits @ [(k, v)]) x = (if x = k then Some v else map_of edits x)" for x
    using new by (auto simp: map_add_def split: option.split)
  have key: "cellKey r c = k \<longleftrightarrow> r = key_row k \<and> c = key_col k" for r c
    by (subst k) simp
  show ?case
    unfolding e sh at key using snoc.IH [OF ok] by (auto simp del: map_of_append)
qed (simp add: shift_edits_def)

definition shown_row :: "table_data \<Rightarrow> nat \<Rightarrow> string \<Rightarrow> jsval" where
  "shown_row s i = displayValue (grid_props_of s) i"

lemma shown_row_eq:
  "shown_row s i col = (case map_of (td_edits s) (cellKey i col) of Some v \<Rightarrow> v | None \<Rightarrow> grid_cell (tableRows s) i col)"
  by (simp add: shown_row_def displayValue_def grid_props_of_def cong: option.case_cong)

lemma cell_at_removed:
  "n \<le> i \<Longrightarrow> i < length (rows @ added) \<Longrightarrow> length rows = n \<Longrightarrow>
   grid_cell (rows @ remove_at (i - n) added) j col = grid_cell (rows @ added) (if j < i then j else Suc j) col"
  by (auto simp: grid_cell_def remove_at_def nth_append min_def Suc_diff_le)

lemma removed_fields:
  assumes "length (td_rows s) \<le> i" and "i < length (tableRows s)"
  shows "td_edits (removeNewRow i s) = shift_edits i (td_edits s)"
    and "tableRows (removeNewRow i s) = td_rows s @ remove_at (i - length (td_rows s)) (td_newRows s)"
    and "length (tableRows (removeNewRow i s)) = length (tableRows s) - 1"
proof -
  have "\<not> length (td_newRows s) \<le> i - length (td_rows s)" using assms by (auto simp: tableRows_def)
  then show "td_edits (removeNewRow i s) = shift_edits i (td_edits s)"
    and "tableRows (removeNewRow i s) = td_rows s @ remove_at (i - length (td_rows s)) (td_newRows s)"
    and "length (tableRows (removeNewRow i s)) = length (tableRows s) - 1"
    using assms by (auto simp: removeNewRow_def Let_def set_newRows_def tableRows_def remove_at_def min_def)
qed

lemma shown_removed:
  assumes "edits_ok (td_edits s)" and "length (td_rows s) \<le> i" and "i < length (tableRows s)"
  shows "shown_row (removeNewRow i s) j = shown_row s (if j < i then j else Suc j)"
proof
  fix col
  have "grid_cell (tableRows (removeNewRow i s)) j col = grid_cell (tableRows s) (if j < i then j else Suc j) col"
    using cell_at_removed [of "length (td_rows s)" i "td_rows s" "td_newRows s" j col] assms(2,3)
    by (simp only: removed_fields [OF assms(2,3)]) (simp add: tableRows_def)
  then show "shown_row (removeNewRow i s) j col = shown_row s (if j < i then j else Suc j) col"
    using assms(1) by (simp add: shown_row_eq removed_fields(1) [OF assms(2,3)] map_of_shift_edits cong: option.case_cong)
qed

text \<open>
  C37: Removing an added row removes exactly that row from what the tab shows: every other row, saved or added, is
  shown as before, with its pending edits.
\<close>

theorem removed_row_keeps_others:
  assumes "edits_ok (td_edits s)" and "length (td_rows s) \<le> i" and "i < length (tableRows s)"
  shows "map (shown_row (removeNewRow i s)) [0..<length (tableRows (removeNewRow i s))] =
    remove_at i (map (shown_row s) [0..<length (tableRows s)])"
  by (rule nth_equalityI)
    (use assms in \<open>auto simp: shown_removed removed_fields(3) [OF assms(2,3)] remove_at_def nth_append min_def\<close>)

section \<open>The statements\<close>

definition edited_rows :: "table_data \<Rightarrow> (nat \<times> (string \<times> jsval) list) list" where
  "edited_rows s = filter (\<lambda>(r, colEdits). r < length (td_rows s)) (group_edits (td_edits s))"

definition grouped :: "(nat \<times> (string \<times> jsval) list) list \<Rightarrow> nat \<Rightarrow> string \<Rightarrow> jsval option" where
  "grouped g r col = Option.bind (map_of g r) (\<lambda>cols. map_of cols col)"

lemma grouped_add_edit: "grouped (add_edit (k, v) g) r col = (if r = key_row k \<and> col = key_col k then Some v else grouped g r col)"
  by (auto simp: grouped_def add_edit_def update_conv' or_else_def split: option.splits)

lemma group_edits_snoc: "group_edits (edits @ [e]) = add_edit e (group_edits edits)"
  by (simp add: group_edits_def)

text \<open>What the groups hold: the edits of each row, by column.\<close>

lemma grouped_edits: "edits_ok edits \<Longrightarrow> grouped (group_edits edits) r col = map_of edits (cellKey r col)"
proof (induction edits rule: rev_induct)
  case (snoc e edits)
  obtain k v where e: "e = (k, v)" by (cases e)
  have ok: "edits_ok edits" and k: "k = cellKey (key_row k) (key_col k)" and new: "map_of edits k = None"
    using edits_ok_snoc [of edits k v] snoc.prems e by auto
  have "cellKey r col = k \<longleftrightarrow> r = key_row k \<and> col = key_col k" by (subst k) simp
  then show ?case using snoc.IH [OF ok] new
    by (auto simp: e group_edits_snoc grouped_add_edit map_add_def split: option.split)
qed (simp add: grouped_def group_edits_def)

lemma group_edits_keys:
  "distinct (map fst (group_edits edits)) \<and> fst ` set (group_edits edits) = key_row ` fst ` set edits"
proof (induction edits rule: rev_induct)
  case (snoc e edits)
  then show ?case
    by (auto simp: group_edits_snoc add_edit_def dom_map_of_conv_image_fst [symmetric] update_conv' distinct_update split: prod.split)
qed (simp add: group_edits_def)

lemma edited_row_edits:
  assumes "edits_ok (td_edits s)" and "(r, ce) \<in> set (edited_rows s)"
  shows "map_of ce = (\<lambda>col. map_of (td_edits s) (cellKey r col))" and "r < length (td_rows s)"
proof -
  have "(r, ce) \<in> set (group_edits (td_edits s))" "r < length (td_rows s)" using assms(2) by (auto simp: edited_rows_def)
  moreover from this(1) have "map_of (group_edits (td_edits s)) r = Some ce"
    using group_edits_keys [of "td_edits s"] by (simp add: map_of_is_SomeI)
  ultimately show "map_of ce = (\<lambda>col. map_of (td_edits s) (cellKey r col))" and "r < length (td_rows s)"
    using grouped_edits [OF assms(1), of r] by (auto simp: grouped_def)
qed

lemma edited_rows_keys:
  "distinct (map fst (edited_rows s))"
  "set (map fst (edited_rows s)) = {r. r < length (td_rows s) \<and> r \<in> key_row ` fst ` set (td_edits s)}"
proof -
  have "map fst (filter (\<lambda>(r, ce). P r) g) = filter P (map fst g)" for P and g :: "(nat \<times> (string \<times> jsval) list) list"
    by (induction g) auto
  then have keys: "map fst (edited_rows s) = filter (\<lambda>r. r < length (td_rows s)) (map fst (group_edits (td_edits s)))"
    by (simp add: edited_rows_def)
  show "distinct (map fst (edited_rows s))"
    "set (map fst (edited_rows s)) = {r. r < length (td_rows s) \<and> r \<in> key_row ` fst ` set (td_edits s)}"
    using group_edits_keys [of "td_edits s"] unfolding keys by auto
qed

definition set_toks :: "string \<times> jsval \<Rightarrow> sql_tok list" where
  "set_toks = (\<lambda>(col, value). [TId col, TSym CHR ''=''] @ value_toks value)"

definition update_toks :: "table_props \<Rightarrow> table_data \<Rightarrow> table_row \<Rightarrow> (string \<times> jsval) list \<Rightarrow> sql_tok list" where
  "update_toks p s row colEdits =
     (let tbl = table_toks (tp_driver p) (tp_database p) (tp_table p);
          head_toks = [TWord ''UPDATE''] @ tbl @ [TWord ''SET''] @ join [TSym CHR '',''] (map set_toks colEdits) @ [TWord ''WHERE''];
          where_t = join [TWord ''AND''] (map (where_toks row) (if td_primaryKeys s \<noteq> [] then td_primaryKeys s else td_columns s));
          limit_toks = [TWord ''LIMIT'', TWord ''1'']
      in if is_pg (tp_driver p) then
           (if td_primaryKeys s \<noteq> [] then head_toks @ where_t @ [TSym CHR '';'']
            else head_toks @ [TWord ''ctid'', TSym CHR ''='', TSym CHR ''('', TWord ''SELECT'', TWord ''ctid'', TWord ''FROM''] @
                 tbl @ [TWord ''WHERE''] @ where_t @ limit_toks @ [TSym CHR '')'', TSym CHR '';''])
         else head_toks @ where_t @ limit_toks @ [TSym CHR '';''])"

lemma set_clause_tokens:
  "safe_value driver v \<Longrightarrow> sql_tokens (sql_dialect (is_pg driver)) (set_clause driver (col, v)) = Some (set_toks (col, v))"
  using quoteIdent_tokens [of driver col] sqlQuote_tokens [of driver v] by (auto simp: set_clause_def set_toks_def sql_lex)

definition safe_update :: "driver \<Rightarrow> table_data \<Rightarrow> table_row \<Rightarrow> (string \<times> jsval) list \<Rightarrow> bool" where
  "safe_update driver s row colEdits \<longleftrightarrow>
     list_all (\<lambda>e. safe_value driver (snd e)) colEdits \<and> list_all (\<lambda>col. safe_value driver (get_prop row col)) (where_columns s)"

lemma cell_update_statement_tokens:
  assumes "safe_update (tp_driver p) s row colEdits"
  shows "reads (tp_driver p) (cell_update_statement p s row colEdits) = Some (update_toks p s row colEdits)"
proof -
  let ?d = "sql_dialect (is_pg (tp_driver p))"
  have w: "sql_tokens ?d (join '' AND '' (map (where_equals (tp_driver p) row) (where_columns s))) =
      Some (join [TWord ''AND''] (map (where_toks row) (where_columns s)))"
    by (rule conj.join_tokens) (use assms where_equals_tokens in \<open>auto simp: safe_update_def list_all_iff\<close>)
  have c: "sql_tokens ?d (join '', '' (map (set_clause (tp_driver p)) colEdits)) = Some (join [TSym CHR '',''] (map set_toks colEdits))"
    by (rule comma.join_tokens) (use assms set_clause_tokens in \<open>auto simp: safe_update_def list_all_iff\<close>)
  note t = quoteTableRef_tokens [of "tp_driver p" "tp_database p" "tp_table p"]
  show ?thesis
    using w c t
    by (cases "is_pg (tp_driver p)"; cases "td_primaryKeys s = []")
       (auto simp: reads_def cell_update_statement_def update_toks_def where_columns_def Let_def sql_lex)
qed

text \<open>
  C36: The pending edits of saved rows become one UPDATE for each edited row, which a server reads as intended: it
  sets exactly the columns edited in that row, each to one literal, and compares exactly the key columns (without a primary
  key, all columns) with the values the row had; without a key, or outside PostgreSQL, it is limited to one
  row. The values must be safe for the server.
\<close>

theorem update_statements_read:
  assumes "edits_ok (td_edits s)"
    and "list_all (\<lambda>(r, ce). safe_update (tp_driver p) s (td_rows s ! r) ce) (edited_rows s)"
  shows "map (reads (tp_driver p)) (buildUpdateStatements p s) =
      map (\<lambda>(r, ce). Some (update_toks p s (td_rows s ! r) ce)) (edited_rows s) \<and>
    distinct (map fst (edited_rows s)) \<and>
    set (map fst (edited_rows s)) = {r. r < length (td_rows s) \<and> r \<in> key_row ` fst ` set (td_edits s)} \<and>
    (\<forall>(r, ce)\<in>set (edited_rows s). map_of ce = (\<lambda>col. map_of (td_edits s) (cellKey r col)))"
proof (intro conjI edited_rows_keys)
  show "map (reads (tp_driver p)) (buildUpdateStatements p s) =
      map (\<lambda>(r, ce). Some (update_toks p s (td_rows s ! r) ce)) (edited_rows s)"
    using assms(2) cell_update_statement_tokens
    by (auto simp: buildUpdateStatements_def edited_rows_def [symmetric] list_all_iff split_beta)
  show "\<forall>(r, ce)\<in>set (edited_rows s). map_of ce = (\<lambda>col. map_of (td_edits s) (cellKey r col))"
    using edited_row_edits [OF assms(1)] by auto
qed

section \<open>Runs\<close>

text \<open>What the table can do when it is shown.\<close>

inductive grid_op :: "(grid_props \<Rightarrow> grid \<Rightarrow> grid \<times> grid_event list) \<Rightarrow> bool" where
  go_commit: "grid_op (\<lambda>gp. commitEdit gp i col v)"
| go_edit: "grid_op (\<lambda>gp g. (openEditor gp i col g, []))"
| go_cancel: "grid_op (\<lambda>gp g. (g\<lparr>qg_editingCell := None\<rparr>, []))"
| go_set: "grid_op (\<lambda>gp. grid_setCellValue v)"
| go_paste: "grid_op (\<lambda>gp g. (g, handlePasteCell g))"
| go_pasted: "grid_op (\<lambda>gp. pasted i col answer)"
| go_uuid: "grid_op (\<lambda>gp. handleGenerateUuid uuid)"
| go_date: "grid_op (\<lambda>gp g. (handleOpenDateEditor gp time g, []))"
| go_date_cell: "grid_op (\<lambda>gp g. (handleOpenDateEditorForCell gp time i col v g, []))"
| go_date_commit: "grid_op (\<lambda>gp. handleCommitDateEditor)"
| go_chooser: "grid_op (\<lambda>gp g. (handleOpenColumnChooser g, []))"
| go_freeze: "grid_op (\<lambda>gp g. (handleFreezeColumn gp g, []))"
| go_width: "grid_op (\<lambda>gp g. (handleSetColumnWidth input g, []))"
| go_fit: "grid_op (\<lambda>gp g. (handleSizeColumnToFit gp g, []))"
| go_fit_all: "grid_op (\<lambda>gp g. (handleSizeAllColumnsToFit gp g, []))"
| go_resized: "grid_op (\<lambda>gp g. (resized col w dx g, []))"
| go_types: "grid_op (\<lambda>gp g. (handleToggleFieldTypes g, []))"
| go_comments: "grid_op (\<lambda>gp g. (handleToggleColumnComments g, []))"
| go_copy: "grid_op (\<lambda>gp g. (g, handleCopyCell lc gp g))"
| go_copy_name: "grid_op (\<lambda>gp g. (g, handleCopyFieldName gp g))"
| go_copied: "grid_op (\<lambda>gp. copied failure)"
| go_copy_as: "grid_op (\<lambda>gp. grid_copyAs lc gp format)"
| go_refresh: "grid_op (\<lambda>gp. handleRefreshFromMenu)"
| go_filter: "grid_op (\<lambda>gp. grid_filterByCellValue oper)"
| go_sort: "grid_op (\<lambda>gp. grid_sortByColumn gp dir)"
| go_add_filter: "grid_op (\<lambda>gp. grid_addColumnFilter)"
| go_remove_filter: "grid_op (\<lambda>gp. grid_removeColumnFilter)"
| go_remove_filters: "grid_op (\<lambda>gp. grid_removeAllFilters)"
| go_hide: "grid_op (\<lambda>gp. grid_hideColumn)"
| go_clear: "grid_op (\<lambda>gp. grid_clearFilterSort gp)"
| go_delete: "grid_op (\<lambda>gp. grid_deleteRow)"
| go_cell: "grid_op (\<lambda>gp. handleCellClick i col)"
| go_column: "grid_op (\<lambda>gp. selectColumn gp col click)"
| go_cell_menu: "grid_op (\<lambda>gp. handleCellContextMenu i col v)"
| go_column_menu: "grid_op (\<lambda>gp. handleColumnContextMenu gp col)"
| go_column_actions: "grid_op (\<lambda>gp. handleColumnActionsClick gp col)"
| go_key: "grid_op (\<lambda>gp. grid_handleKeyDown lc gp key)"

text \<open>The answers of the clipboard: they come whether or not the table is still shown.\<close>

inductive grid_late :: "(grid_props \<Rightarrow> grid \<Rightarrow> grid \<times> grid_event list) \<Rightarrow> bool" where
  gl_pasted: "grid_late (\<lambda>gp. pasted i col answer)"
| gl_copied: "grid_late (\<lambda>gp. copied failure)"

definition tab_idle :: "table_data \<Rightarrow> bool" where
  "tab_idle s \<longleftrightarrow> \<not> td_loading s \<and> \<not> td_importing s"

definition unsubmitted :: "table_data \<Rightarrow> bool" where
  "unsubmitted s \<longleftrightarrow> \<not> td_submitting s \<and> \<not> td_deleting s"

definition grid_shown :: "table_data \<Rightarrow> bool" where
  "grid_shown s \<longleftrightarrow> tab_idle s \<and> td_error s = None \<and> td_columns s \<noteq> []"

text \<open>
  A change the user makes (\<open>td_change\<close>), which a render follows, and an answer. The guards are those of the
  buttons and of the early returns of \<^verbatim>\<open>QueryResultTable.tsx\<close>, which shows no table while the tab loads or has an error;
  the key that refreshes and the answers of the clipboard have none.
\<close>

inductive td_change :: "table_props \<Rightarrow> table_data \<Rightarrow> table_data \<Rightarrow> bool" for p :: table_props where
  tc_refresh: "td_change p s (handleRefresh p s)"
| tc_stop: "td_change p s (handleStopLoading s)"
| tc_add: "tab_idle s \<Longrightarrow> unsubmitted s \<Longrightarrow> td_change p s (handleAddInlineRow s)"
| tc_delete: "tab_idle s \<Longrightarrow> unsubmitted s \<Longrightarrow> td_change p s (handleDeleteSelectedRow p s)"
| tc_dialog: "unsubmitted s \<Longrightarrow> td_change p s (openSqlDialog p mode s)"
| tc_dialog_closed: "td_change p s (sql_dialog_closed s)"
| tc_submit: "td_dialogMode s = Some Dialog_confirm \<Longrightarrow> \<not> td_submitting s \<Longrightarrow> td_change p s (handleSubmit p s)"
| tc_discard: "unsubmitted s \<Longrightarrow> td_change p s (handleDiscard s)"
| tc_delete_closed: "td_change p s (delete_dialog_closed s)"
| tc_confirm_delete: "\<not> td_deleting s \<Longrightarrow> td_change p s (handleConfirmDelete p s)"
| tc_first: "hasPrev s \<Longrightarrow> tab_idle s \<Longrightarrow> td_change p s (handleFirstPage s)"
| tc_previous: "hasPrev s \<Longrightarrow> tab_idle s \<Longrightarrow> td_change p s (handlePreviousPage s)"
| tc_next: "hasNext s \<Longrightarrow> tab_idle s \<Longrightarrow> td_change p s (handleNextPage s)"
| tc_last: "hasNext s \<Longrightarrow> tab_idle s \<Longrightarrow> td_change p s (handleLastPage s)"
| tc_input: "td_change p s (s\<lparr>td_pageInput := t\<rparr>)"
| tc_confirm: "td_change p s (handlePageInputConfirm s)"
| tc_size: "snd (commitPageSize (td_pageSize s) draft) = Some n \<Longrightarrow> td_change p s (handlePageSizeChange n s)"
| tc_filters: "td_change p s (s\<lparr>td_filters := fs\<rparr>)"
| tc_sorts: "td_change p s (s\<lparr>td_sorts := ss\<rparr>)"
| tc_panel: "td_change p s (s\<lparr>td_showFilterSort := b\<rparr>)"
| tc_apply: "td_change p s (handleApplyQuery p s)"
| tc_toggle: "td_change p s (handleVisibleColumnToggle col s)"
| tc_density: "td_change p s (s\<lparr>td_rowDensity := d\<rparr>)"
| tc_format: "td_change p s (s\<lparr>td_exportFormat := f\<rparr>)"
| tc_export: "td_change p s (handleExport s)"
| tc_export_dialog: "td_change p s (s\<lparr>td_showExportDialog := b\<rparr>)"
| tc_import_dialog: "td_change p s (s\<lparr>td_showImportDialog := b\<rparr>)"
| tc_importing: "td_change p s (s\<lparr>td_importing := b\<rparr>)"
| tc_import_start: "td_change p s (handleImportSubmitStart s)"
| tc_imported: "td_change p s (handleImportSuccess p v s)"
| tc_ddl: "td_change p s (handleViewDDL p s)"
| tc_ddl_dialog: "td_change p s (s\<lparr>td_showDDLDialog := b\<rparr>)"
| tc_copy_ddl: "td_change p s (handleCopyDDL s)"
| tc_ddl_answer: "W_ddl \<in> set (td_waits s) \<Longrightarrow> td_change p s (ddl_answered tr answer s)"
| tc_ddl_columns: "W_ddl_columns \<in> set (td_waits s) \<Longrightarrow> td_change p s (ddl_columns_answered p answer s)"
| tc_ddl_keys: "W_ddl_keys cols \<in> set (td_waits s) \<Longrightarrow> td_change p s (ddl_keys_answered p tr cols answer s)"

inductive td_step :: "table_props \<Rightarrow> table_data \<Rightarrow> table_data \<Rightarrow> bool" for p :: table_props where
  ts_change: "td_change p s s' \<Longrightarrow> td_step p s (commit p s s')"
| ts_grid: "grid_shown s \<Longrightarrow> grid_op f \<Longrightarrow> td_step p s (grid_action p now f s)"
| ts_late: "grid_late f \<Longrightarrow> td_step p s (grid_action p now f s)"
| ts_open: "W_open i \<in> set (td_waits s) \<Longrightarrow> td_step p s (table_open_answered p i oa s)"
| ts_data: "W_data i aft \<in> set (td_waits s) \<Longrightarrow> td_step p s (data_answered p i aft a s)"
| ts_count: "W_count i cnt \<in> set (td_waits s) \<Longrightarrow> td_step p s (count_answered p i cnt a s)"
| ts_submit: "W_submit sp \<in> set (td_waits s) \<Longrightarrow> td_step p s (submit_answered p sp a s)"
| ts_delete: "W_delete v \<in> set (td_waits s) \<Longrightarrow> td_step p s (row_delete_answered p v a s)"

inductive td_run :: "table_props \<Rightarrow> table_data \<Rightarrow> table_data \<Rightarrow> bool" for p :: table_props and s :: table_data where
  run_refl: "td_run p s s"
| run_next: "td_run p s r \<Longrightarrow> td_step p r r' \<Longrightarrow> td_run p s r'"

text \<open>The first render: the effect that opens the table.\<close>

definition td_start :: "table_props \<Rightarrow> table_data" where
  "td_start p = commit p td_init (open_table p td_init)"

section \<open>Renders\<close>

lemma fold_selection: "\<exists>r. fold selection_event es s = s\<lparr>td_selectedRowIdx := r\<rparr>"
proof (induction es arbitrary: s)
  case Nil
  show ?case by (rule exI [of _ "td_selectedRowIdx s"]) simp
next
  case (Cons e es)
  have "\<exists>r. selection_event e s = s\<lparr>td_selectedRowIdx := r\<rparr>"
    by (cases e) (auto simp: selection_event_def handleSelectedCellChange_def intro: exI [of _ "td_selectedRowIdx s"])
  then obtain r where r: "selection_event e s = s\<lparr>td_selectedRowIdx := r\<rparr>" by blast
  from Cons.IH [of "s\<lparr>td_selectedRowIdx := r\<rparr>"] show ?case by (simp add: r)
qed

lemma grid_commit_eq: "\<exists>g r. grid_commit old new = new\<lparr>td_grid := g, td_selectedRowIdx := r\<rparr>"
proof -
  obtain g es where e: "grid_effects (grid_props_of new)
            (td_columnsVersion old \<noteq> td_columnsVersion new) (td_rowsVersion old \<noteq> td_rowsVersion new)
            (displayColumns (grid_props_of old) (td_grid old) \<noteq> displayColumns (grid_props_of new) (td_grid new))
            (td_focusVersion old \<noteq> td_focusVersion new) (td_focusCellRequest new) (td_grid new) = (g, es)"
    by fastforce
  obtain r where "fold selection_event es (new\<lparr>td_grid := g\<rparr>) = new\<lparr>td_grid := g, td_selectedRowIdx := r\<rparr>"
    using fold_selection [of es "new\<lparr>td_grid := g\<rparr>"] by auto
  then show ?thesis by (auto simp: grid_commit_def e)
qed

section \<open>Requests over a run\<close>

fun wait_id :: "td_wait \<Rightarrow> nat list" where
  "wait_id (W_open i) = [i]"
| "wait_id (W_data i aft) = [i]"
| "wait_id (W_count i aft) = [i]"
| "wait_id w = []"

definition wait_ids :: "td_wait list \<Rightarrow> nat list" where
  "wait_ids ws = concat (map wait_id ws)"

fun is_data_wait :: "nat \<Rightarrow> td_wait \<Rightarrow> bool" where
  "is_data_wait i (W_open j) = (i = j)"
| "is_data_wait i (W_data j aft) = (i = j)"
| "is_data_wait i w = False"

fun is_submit_wait :: "td_wait \<Rightarrow> bool" where
  "is_submit_wait (W_submit sp) = True"
| "is_submit_wait w = False"

fun is_delete_wait :: "td_wait \<Rightarrow> bool" where
  "is_delete_wait (W_delete v) = True"
| "is_delete_wait (W_data i (Loaded_count v Counted_deleted)) = True"
| "is_delete_wait (W_count i Counted_deleted) = True"
| "is_delete_wait w = False"

type_synonym requests = "td_wait list \<times> nat \<times> nat \<times> nat \<times> nat \<times> nat list \<times> bool \<times> bool \<times> bool"

definition requests_of :: "table_data \<Rightarrow> requests" where
  "requests_of s = (td_waits s, td_requestSeq s, td_latestDataRequest s, td_latestCountRequest s, td_latestImportRequest s,
     td_cancelledRequests s, td_loading s, td_submitting s, td_deleting s)"

definition requests_ok :: "requests \<Rightarrow> bool" where
  "requests_ok = (\<lambda>(ws, q, d, c, i, cs, loading, submitting, deleting).
     (\<forall>n\<in>set (wait_ids ws). n \<le> q) \<and> distinct (wait_ids ws) \<and> (\<forall>n\<in>set cs. n \<le> q) \<and> d \<le> q \<and> c \<le> q \<and> i \<le> q \<and>
     (loading \<longrightarrow> d \<notin> set cs \<and> list_ex (is_data_wait d) ws) \<and>
     (submitting \<longrightarrow> list_ex is_submit_wait ws) \<and> (deleting \<longrightarrow> list_ex is_delete_wait ws))"

definition req_ok :: "table_data \<Rightarrow> bool" where
  "req_ok s \<longleftrightarrow> requests_ok (requests_of s)"

lemma wait_ids_simps [simp]: "wait_ids [] = []" "wait_ids (w # ws) = wait_id w @ wait_ids ws" "wait_ids (ws @ vs) = wait_ids ws @ wait_ids vs"
  by (simp_all add: wait_ids_def)

lemma wait_ids_remove: "distinct (wait_ids ws) \<Longrightarrow> w \<in> set ws \<Longrightarrow>
    set (wait_ids (remove1 w ws)) = set (wait_ids ws) - set (wait_id w) \<and> distinct (wait_ids (remove1 w ws))"
proof (induction ws)
  case (Cons v ws)
  have "w \<in> set ws \<Longrightarrow> set (wait_id w) \<subseteq> set (wait_ids ws)" by (auto simp: wait_ids_def)
  then show ?case using Cons by (cases "v = w") auto
qed simp

lemma list_ex_remove: "list_ex P ws \<Longrightarrow> \<not> P w \<Longrightarrow> list_ex P (remove1 w ws)"
  by (induction ws) auto

lemma list_ex_remove_data:
  assumes "distinct (wait_ids ws)" and "list_ex (is_data_wait d) ws" and "w \<in> set ws" and "wait_id w = [n]" and "n \<noteq> d"
  shows "list_ex (is_data_wait d) (remove1 w ws)"
  by (rule list_ex_remove [OF assms(2)]) (use assms(4,5) in \<open>cases w; auto\<close>)

lemma requests_frame: "requests_of s' = requests_of s \<Longrightarrow> req_ok s' = req_ok s"
  by (simp add: req_ok_def)

lemma requests_grid_commit [simp]: "requests_of (grid_commit old new) = requests_of new"
  using grid_commit_eq [of old new] by (auto simp: requests_of_def)

text \<open>A new request.\<close>

lemma req_fetchCount: "req_ok s \<Longrightarrow> req_ok (fetchCount p v aft s)"
  by (cases aft) (auto simp: req_ok_def requests_ok_def requests_of_def fetchCount_def Let_def nextRequestId_def td_await_def td_call_def)

lemma req_fetchData: "req_ok s \<Longrightarrow> req_ok (fetchData p v n aft s)"
  by (cases aft) (auto simp: req_ok_def requests_ok_def requests_of_def fetchData_def Let_def nextRequestId_def td_await_def td_call_def
      intro!: req_fetchCount [unfolded req_ok_def requests_ok_def requests_of_def prod.case])

lemma requests_simps [simp]:
  "requests_of (clear_edits s) = requests_of s" "requests_of (set_rows rs s) = requests_of s" "requests_of (set_columns cs s) = requests_of s"
  "requests_of (toast t s) = requests_of s" "requests_of (td_call c s) = requests_of s" "requests_of (first_page s) = requests_of s"
  "requests_of (removeNewRow i s) = requests_of s" "requests_of (handleCellEdit e s) = requests_of s"
  by (simp_all add: requests_of_def clear_edits_def set_newRows_def set_rows_def set_columns_def toast_def td_call_def first_page_def
      removeNewRow_def handleCellEdit_def Let_def)

lemma requests_effects [simp]:
  "requests_of (page_effects old new s) = requests_of s" "requests_of (column_effects old new s) = requests_of s"
  by (simp_all add: page_effects_def column_effects_def Let_def) (simp_all add: requests_of_def)

lemma req_tab_effects: "req_ok new \<Longrightarrow> req_ok (tab_effects p old new)"
  by (simp add: tab_effects_def req_ok_def)
     (simp add: load_effects_def Let_def req_fetchData req_fetchCount flip: req_ok_def)

lemma req_commit: "req_ok new \<Longrightarrow> req_ok (commit p old new)"
  by (simp add: commit_def Let_def req_ok_def) (simp add: req_tab_effects [unfolded req_ok_def])

lemma requests_handlers [simp]:
  "requests_of (handleSortChange c d s) = requests_of s" "requests_of (handleSortByColumn col dir s) = requests_of s"
  "requests_of (handleFilterByCellValue p a s) = requests_of s" "requests_of (handleRemoveColumnFilter p col s) = requests_of s"
  "requests_of (handleRemoveAllFilters s) = requests_of s" "requests_of (handleClearFilterSort s) = requests_of s"
  "requests_of (handleAddColumnFilter now col s) = requests_of s" "requests_of (handleHideColumn col s) = requests_of s"
  "requests_of (handleSelectedCellChange cell s) = requests_of s" "requests_of (handleDeleteRow p i s) = requests_of s"
  "requests_of (handleApplyQuery p s) = requests_of s" "requests_of (handleAddInlineRow s) = requests_of s"
  "requests_of (handleVisibleColumnToggle col s) = requests_of s" "requests_of (handlePageInputConfirm s) = requests_of s"
  "requests_of (handlePageSizeChange n s) = requests_of s"
  by (simp_all add: handleSortChange_def handleSortByColumn_def handleFilterByCellValue_def handleRemoveColumnFilter_def
      handleRemoveAllFilters_def handleClearFilterSort_def handleAddColumnFilter_def handleHideColumn_def handleSelectedCellChange_def
      handleDeleteRow_def handleApplyQuery_def handleAddInlineRow_def handleVisibleColumnToggle_def handlePageInputConfirm_def
      handlePageSizeChange_def Let_def split: list.split option.split)
     (simp_all add: requests_of_def set_newRows_def split: option.split)

lemma requests_copyAs: "handleCopyAs p format a s = Some s' \<Longrightarrow> requests_of s' = requests_of s"
  by (auto simp: handleCopyAs_def Let_def split: option.splits list.splits)

lemma req_refresh: "req_ok s \<Longrightarrow> req_ok (handleRefresh p s)"
  by (simp add: handleRefresh_def Let_def req_fetchCount req_fetchData)

lemma req_event: "req_ok s \<Longrightarrow> req_ok (grid_event_handler p now e s)"
proof (cases e)
  case (GE_copyAs format a)
  then show "req_ok s \<Longrightarrow> req_ok (grid_event_handler p now e s)" using requests_copyAs [of p format a s]
    by (simp add: grid_event_handler_def or_else_def req_ok_def split: option.split)
qed (simp_all add: grid_event_handler_def req_refresh, simp_all add: req_ok_def)

lemma req_events: "req_ok s \<Longrightarrow> req_ok (fold (grid_event_handler p now) es s)"
  by (induction es arbitrary: s) (simp_all add: req_event)

lemma req_grid_action: "req_ok s \<Longrightarrow> req_ok (grid_action p now f s)"
proof -
  assume ok: "req_ok s"
  obtain g es where f: "f (grid_props_of s) (td_grid s) = (g, es)" by fastforce
  have "req_ok (s\<lparr>td_grid := g\<rparr>)" using ok by (simp add: req_ok_def requests_of_def)
  then show ?thesis by (simp add: grid_action_def f req_commit req_events)
qed

lemma req_execute: "req_ok s \<Longrightarrow> sp_rest sp \<noteq> [] \<Longrightarrow> req_ok ((execute_next p sp s))"
  by (auto simp: execute_next_def req_ok_def requests_ok_def requests_of_def td_await_def td_call_def split: list.split)

lemma req_execute_submit: "req_ok s \<Longrightarrow> sp_rest sp \<noteq> [] \<Longrightarrow> req_ok (execute_next p sp (s\<lparr>td_submitting := True\<rparr>))"
  by (auto simp: execute_next_def req_ok_def requests_ok_def requests_of_def td_await_def td_call_def split: list.split)

lemma req_stop: "req_ok s \<Longrightarrow> req_ok (handleStopLoading s)"
  by (auto simp: handleStopLoading_def req_ok_def requests_ok_def requests_of_def toast_def td_call_def)

lemma req_confirm_delete: "req_ok s \<Longrightarrow> req_ok (handleConfirmDelete p s)"
  by (auto simp: handleConfirmDelete_def req_ok_def requests_ok_def requests_of_def td_await_def td_call_def split: option.split)

lemma req_submit: "req_ok s \<Longrightarrow> req_ok (handleSubmit p s)"
proof -
  assume ok: "req_ok s"
  obtain sts missing where b: "buildChangeStatements p s = (sts, missing)" by fastforce
  have "req_ok (toast t s)" for t using ok by (simp add: req_ok_def)
  then show ?thesis using ok by (simp add: handleSubmit_def b req_execute_submit)
qed

text \<open>An answer: its entry goes, and what turned for it stops.\<close>

definition settle_ok :: "td_wait \<Rightarrow> table_data \<Rightarrow> table_data \<Rightarrow> bool" where
  "settle_ok w s s' \<longleftrightarrow>
     td_waits s' = remove1 w (td_waits s) \<and> td_requestSeq s' = td_requestSeq s \<and> td_latestDataRequest s' = td_latestDataRequest s \<and>
     td_latestCountRequest s' = td_latestCountRequest s \<and> td_latestImportRequest s' = td_latestImportRequest s \<and>
     set (td_cancelledRequests s') \<subseteq> set (td_cancelledRequests s) \<and>
     (td_loading s' \<longrightarrow> td_loading s \<and> \<not> is_data_wait (td_latestDataRequest s) w) \<and>
     (td_submitting s' \<longrightarrow> td_submitting s \<and> \<not> is_submit_wait w) \<and>
     (td_deleting s' \<longrightarrow> td_deleting s \<and> \<not> is_delete_wait w)"

lemma settle_req: "req_ok s \<Longrightarrow> w \<in> set (td_waits s) \<Longrightarrow> settle_ok w s s' \<Longrightarrow> req_ok s'"
  using wait_ids_remove [of "td_waits s" w]
  by (auto simp: req_ok_def requests_ok_def requests_of_def settle_ok_def intro: list_ex_remove)

lemma current_not_cancelled: "req_ok s \<Longrightarrow> td_loading s \<Longrightarrow> is_data_wait (td_latestDataRequest s) w \<Longrightarrow> wait_id w = [n] \<Longrightarrow>
    current_data n (td_settled w s)"
  by (cases w) (auto simp: req_ok_def requests_ok_def requests_of_def current_data_def isCancelled_def td_settled_def)

lemma req_open_answered:
  assumes ok: "req_ok s" and w: "W_open i \<in> set (td_waits s)"
  shows "req_ok (table_open_answered p i answer s)"
proof -
  let ?s = "td_settled (W_open i) s"
  let ?s1 = "if current_data i ?s
       then (case answer of Reply r \<Rightarrow> opened r ?s | Failure e \<Rightarrow> ?s\<lparr>td_error := Some e\<rparr>)\<lparr>td_pkLoaded := True, td_loading := False\<rparr> else ?s"
  have "settle_ok (W_open i) s (forget_request i ?s1)"
    using current_not_cancelled [OF ok, of "W_open i" i]
    by (cases answer) (auto simp: settle_ok_def forget_request_def td_settled_def opened_def set_rows_def set_columns_def)
  then show ?thesis using settle_req [OF ok w] by (simp add: table_open_answered_def Let_def req_commit)
qed

lemma loaded_settles: "td_waits (loaded answer s) = td_waits s \<and> td_requestSeq (loaded answer s) = td_requestSeq s \<and>
    td_latestDataRequest (loaded answer s) = td_latestDataRequest s \<and> td_latestCountRequest (loaded answer s) = td_latestCountRequest s \<and>
    td_latestImportRequest (loaded answer s) = td_latestImportRequest s \<and> td_cancelledRequests (loaded answer s) = td_cancelledRequests s \<and>
    \<not> td_loading (loaded answer s) \<and> td_submitting (loaded answer s) = td_submitting s \<and> td_deleting (loaded answer s) = td_deleting s"
  by (cases answer) (simp_all add: loaded_def set_rows_def set_columns_def)

text \<open>A deletion goes on with the count: the flag stays until then.\<close>

lemma settle_then_count:
  assumes ok: "req_ok s" and w: "w \<in> set (td_waits s)" and s': "settle_ok w s (s'\<lparr>td_deleting := False\<rparr>)"
    and d: "td_deleting s' \<longrightarrow> td_deleting s \<and> (is_delete_wait w \<longrightarrow> aft = Counted_deleted)"
  shows "req_ok (fetchCount p v aft s')"
proof (cases "td_deleting s' \<and> is_delete_wait w")
  case True
  then have aft: "aft = Counted_deleted" using d by simp
  have "req_ok (s'\<lparr>td_deleting := False\<rparr>)" using settle_req [OF ok w s'] .
  then show ?thesis unfolding aft
    by (auto simp: req_ok_def requests_ok_def requests_of_def fetchCount_def Let_def nextRequestId_def td_await_def td_call_def)
next
  case False
  then have "settle_ok w s s'" using s' d by (auto simp: settle_ok_def)
  then show ?thesis using settle_req [OF ok w] by (simp add: req_fetchCount)
qed

lemma req_data_answered:
  assumes ok: "req_ok s" and w: "W_data i aft \<in> set (td_waits s)"
  shows "req_ok (data_answered p i aft answer s)"
proof -
  let ?s = "td_settled (W_data i aft) s"
  let ?s1 = "forget_request i (if current_data i ?s then loaded answer ?s else ?s)"
  have st: "settle_ok (W_data i aft) s (?s1\<lparr>td_deleting := False\<rparr>)"
    using current_not_cancelled [OF ok, of "W_data i aft" i] loaded_settles [of answer ?s]
    by (auto simp: settle_ok_def forget_request_def td_settled_def)
  have d: "td_deleting ?s1 = td_deleting s" using loaded_settles [of answer ?s] by (simp add: forget_request_def td_settled_def)
  have "req_ok (case aft of Loaded_count v dl \<Rightarrow> fetchCount p v dl ?s1 | Loaded_nothing \<Rightarrow> ?s1)"
  proof (cases aft)
    case Loaded_nothing
    then have "settle_ok (W_data i aft) s ?s1" using st d by (simp add: settle_ok_def)
    then show ?thesis using settle_req [OF ok w] Loaded_nothing by simp
  next
    case (Loaded_count v dl)
    have "req_ok (fetchCount p v dl ?s1)"
      by (rule settle_then_count [OF ok w st]) (use d Loaded_count in \<open>cases dl; simp\<close>)
    then show ?thesis using Loaded_count by simp
  qed
  then show ?thesis by (simp add: data_answered_def Let_def req_commit)
qed

lemma counted_settles: "requests_of (counted r s) = requests_of s"
  by (simp add: counted_def requests_of_def split: option.split list.split prod.split)

lemma req_count_answered:
  assumes ok: "req_ok s" and w: "W_count i aft \<in> set (td_waits s)"
  shows "req_ok (count_answered p i aft answer s)"
proof -
  let ?s = "td_settled (W_count i aft) s"
  let ?s1 = "if current_count i ?s then (case answer of Reply r \<Rightarrow> counted r ?s | Failure e \<Rightarrow> ?s\<lparr>td_totalRows := None\<rparr>) else ?s"
  have r: "requests_of ?s1 = requests_of ?s" by (cases answer) (simp_all add: counted_settles, simp_all add: requests_of_def)
  have "settle_ok (W_count i aft) s (if aft = Counted_deleted then (forget_request i ?s1)\<lparr>td_deleting := False\<rparr> else forget_request i ?s1)"
    using r by (cases aft) (simp_all only: settle_ok_def forget_request_def, auto simp: requests_of_def td_settled_def)
  then show ?thesis using settle_req [OF ok w] by (simp add: count_answered_def Let_def req_commit)
qed

lemma req_submit_answered:
  assumes ok: "req_ok s" and w: "W_submit sp \<in> set (td_waits s)"
  shows "req_ok (submit_answered p sp answer s)"
proof -
  let ?s = "td_settled (W_submit sp) s" and ?sp = "executed answer sp"
  have off: "req_ok (?s\<lparr>td_submitting := False\<rparr>)"
    by (rule settle_req [OF ok w]) (auto simp: settle_ok_def td_settled_def)
  have "req_ok (if sp_rest ?sp = [] then submitted p ?sp ?s else execute_next p ?sp ?s)"
  proof (cases "sp_rest ?sp = []")
    case True
    have "req_ok (?s\<lparr>td_submitting := False, td_dialogMode := None\<rparr>)" using off by (simp add: req_ok_def requests_of_def)
    then have "req_ok (clear_edits (toast t (?s\<lparr>td_submitting := False, td_dialogMode := None\<rparr>)))" for t by (simp add: req_ok_def)
    note * = this \<open>req_ok (?s\<lparr>td_submitting := False, td_dialogMode := None\<rparr>)\<close>
    have t: "req_ok (toast t x) = req_ok x" for t x by (simp add: req_ok_def)
    show ?thesis using True * by (simp add: submitted_def Let_def t req_fetchCount req_fetchData)
  next
    case False
    have "\<exists>sql rest. sp_rest ?sp = sql # rest" using False by (cases "sp_rest ?sp") auto
    then show ?thesis using off False
      by (auto simp: execute_next_def req_ok_def requests_ok_def requests_of_def td_await_def td_call_def)
  qed
  then show ?thesis by (simp add: submit_answered_def Let_def req_commit)
qed

lemma req_delete_answered:
  assumes ok: "req_ok s" and w: "W_delete v \<in> set (td_waits s)"
  shows "req_ok (row_delete_answered p v answer s)"
proof -
  let ?s = "td_settled (W_delete v) s"
  have off: "req_ok (?s\<lparr>td_deleting := False\<rparr>)" by (rule settle_req [OF ok w]) (auto simp: settle_ok_def td_settled_def)
  have "req_ok (fetchData p v n (Loaded_count v Counted_deleted) (clear_edits ((toast t ?s)\<lparr>td_deletePreview := None\<rparr>)))" for n t
    using off
    by (cases "tp_assetId p = 0")
       (auto simp: req_ok_def requests_ok_def requests_of_def fetchData_def fetchCount_def Let_def nextRequestId_def td_await_def
          td_call_def clear_edits_def set_newRows_def toast_def)
  moreover have "req_ok ((toast t ?s)\<lparr>td_deleting := False\<rparr>)" for t
    using off by (simp add: req_ok_def requests_of_def toast_def td_call_def)
  ultimately show ?thesis by (cases answer) (simp_all add: row_delete_answered_def Let_def req_commit)
qed

lemma req_ddl:
  assumes "req_ok s"
  shows "W_ddl \<in> set (td_waits s) \<Longrightarrow> req_ok (ddl_answered tr answer s)"
    and "W_ddl_columns \<in> set (td_waits s) \<Longrightarrow> req_ok (ddl_columns_answered p answer s)"
    and "W_ddl_keys cols \<in> set (td_waits s) \<Longrightarrow> req_ok (ddl_keys_answered p tr cols answer s)"
    and "req_ok (handleViewDDL p s)"
proof -
  show "W_ddl \<in> set (td_waits s) \<Longrightarrow> req_ok (ddl_answered tr answer s)"
    by (rule settle_req [OF assms])
       (auto simp: ddl_answered_def settle_ok_def td_settled_def ddl_shown_def ddl_failed_def Let_def split: db_reply.split)
  show "W_ddl_keys cols \<in> set (td_waits s) \<Longrightarrow> req_ok (ddl_keys_answered p tr cols answer s)"
    by (rule settle_req [OF assms])
       (auto simp: ddl_keys_answered_def settle_ok_def td_settled_def ddl_shown_def ddl_failed_def Let_def split: db_reply.split)
  have push: "req_ok (td_await (W_ddl_keys cs) (td_call c x))" if "req_ok x" for cs c x
    using that by (auto simp: req_ok_def requests_ok_def requests_of_def td_await_def td_call_def)
  show "req_ok (ddl_columns_answered p answer s)" if w: "W_ddl_columns \<in> set (td_waits s)"
  proof -
    have st: "req_ok (td_settled W_ddl_columns s)" by (rule settle_req [OF assms w]) (auto simp: settle_ok_def td_settled_def)
    then have "req_ok (ddl_failed e (td_settled W_ddl_columns s))" for e by (simp add: req_ok_def requests_of_def ddl_failed_def)
    then show ?thesis using push [OF st] by (simp add: ddl_columns_answered_def Let_def split: db_reply.split)
  qed
  show "req_ok (handleViewDDL p s)"
    using assms by (auto simp: handleViewDDL_def req_ok_def requests_ok_def requests_of_def td_await_def td_call_def Let_def)
qed

lemma req_import: "req_ok s \<Longrightarrow> req_ok (handleImportSubmitStart s)" "req_ok s \<Longrightarrow> req_ok (handleImportSuccess p v s)"
proof -
  show "req_ok s \<Longrightarrow> req_ok (handleImportSubmitStart s)"
    by (auto simp: handleImportSubmitStart_def Let_def nextRequestId_def req_ok_def requests_ok_def requests_of_def)
  have "req_ok (first_page (s\<lparr>td_importing := False\<rparr>)) = req_ok s" by (simp add: req_ok_def) (simp add: requests_of_def)
  then show "req_ok s \<Longrightarrow> req_ok (handleImportSuccess p v s)" by (simp add: handleImportSuccess_def req_fetchData)
qed

lemma req_change: "td_change p s s' \<Longrightarrow> req_ok s \<Longrightarrow> req_ok s'"
proof (induction rule: td_change.induct)
  case (tc_dialog s mode)
  then show ?case
    by (auto simp: openSqlDialog_def req_ok_def split: prod.split) (simp add: requests_of_def)
next
  case (tc_delete s)
  then show ?case by (simp add: handleDeleteSelectedRow_def req_ok_def split: option.split)
next
  case (tc_dialog_closed s)
  then show ?case by (cases "td_submitting s") (simp_all add: sql_dialog_closed_def req_ok_def requests_of_def)
next
  case (tc_delete_closed s)
  then show ?case by (cases "td_deleting s") (simp_all add: delete_dialog_closed_def req_ok_def requests_of_def)
next
  case (tc_copy_ddl s)
  then show ?case by (simp add: handleCopyDDL_def req_ok_def Let_def)
qed (simp_all add: req_refresh req_stop req_submit req_confirm_delete req_ddl req_import, simp_all add: req_ok_def,
    simp_all add: requests_of_def handleDiscard_def clear_edits_def set_newRows_def sql_dialog_closed_def delete_dialog_closed_def
      handleFirstPage_def handlePreviousPage_def handleNextPage_def handleLastPage_def handleExport_def split: option.split)

lemma req_step: "td_step p s s' \<Longrightarrow> req_ok s \<Longrightarrow> req_ok s'"
  by (induction rule: td_step.induct)
     (simp_all add: req_change req_commit req_grid_action req_open_answered req_data_answered req_count_answered req_submit_answered
       req_delete_answered)

lemma req_start: "req_ok (td_start p)"
proof -
  have "req_ok (open_table p td_init)"
    by (simp add: open_table_def req_ok_def requests_ok_def requests_of_def td_init_def nextRequestId_def td_await_def td_call_def
        set_rows_def set_columns_def Let_def)
  then show ?thesis by (simp add: td_start_def req_commit)
qed

lemma req_run: "td_run p (td_start p) s \<Longrightarrow> req_ok s"
  by (induction rule: td_run.induct) (simp_all add: req_start req_step)

section \<open>Pages, columns and edits over a run\<close>

text \<open>
  \<open>new_columns\<close>: either the columns shown are among the columns, or the render that follows sees other columns.
\<close>

definition new_columns :: "table_data \<Rightarrow> table_data \<Rightarrow> bool" where
  "new_columns old s \<longleftrightarrow> td_columnsVersion old \<noteq> td_columnsVersion s \<or> set (td_visibleColumns s) \<subseteq> set (td_columns s)"

definition shape_ok :: "table_data \<Rightarrow> bool" where
  "shape_ok s \<longleftrightarrow> edits_ok (td_edits s) \<and> 0 \<le> td_page s \<and> 1 \<le> td_pageSize s"

type_synonym shape = "(string \<times> jsval) list \<times> int \<times> int \<times> string list \<times> string list \<times> nat"

definition shape_of :: "table_data \<Rightarrow> shape" where
  "shape_of s = (td_edits s, td_page s, td_pageSize s, td_visibleColumns s, td_columns s, td_columnsVersion s)"

lemma shape_grid_commit [simp]: "shape_of (grid_commit old new) = shape_of new"
  using grid_commit_eq [of old new] by (auto simp: shape_of_def)

lemma shape_fetch [simp]:
  "shape_of (fetchCount p v aft s) = shape_of s" "shape_of (fetchData p v n d s) = shape_of s" "shape_of (handleRefresh p s) = shape_of s"
  by (simp_all add: fetchCount_def fetchData_def handleRefresh_def nextRequestId_def td_await_def td_call_def Let_def split: when_loaded.split)
     (simp_all add: shape_of_def fetchCount_def nextRequestId_def td_await_def td_call_def Let_def)

lemma shape_frame: "shape_of s' = shape_of s \<Longrightarrow> shape_ok s' = shape_ok s \<and> new_columns old s' = new_columns old s"
  by (auto simp: shape_of_def shape_ok_def new_columns_def)

definition tab_ok :: "table_data \<Rightarrow> bool" where
  "tab_ok s \<longleftrightarrow> shape_ok s \<and> set (td_visibleColumns s) \<subseteq> set (td_columns s)"

lemma retained_subset: "set (retained_columns columns prev) \<subseteq> set columns"
  by (auto simp: retained_columns_def Let_def)

lemma tab_commit: "shape_ok new \<Longrightarrow> new_columns old new \<Longrightarrow> tab_ok (commit p old new)"
proof -
  assume s: "shape_ok new" "new_columns old new"
  let ?g = "grid_commit old new" and ?l = "load_effects p old (grid_commit old new)"
  have l: "shape_of ?l = shape_of new" by (simp add: load_effects_def Let_def)
  then have "shape_ok ?l" "new_columns old ?l" using s shape_frame [of ?l new old] by simp_all
  moreover have g: "td_columns ?g = td_columns ?l" "td_columnsVersion ?g = td_columnsVersion ?l"
    using l shape_grid_commit [of old new] by (auto simp: shape_of_def)
  ultimately have t: "tab_ok (tab_effects p old ?g)"
    using retained_subset
    by (auto simp: tab_effects_def tab_ok_def shape_ok_def new_columns_def page_effects_def column_effects_def clear_edits_def
        set_newRows_def Let_def)
  have "shape_of (commit p old new) = shape_of (tab_effects p old ?g)" by (simp add: commit_def Let_def)
  with t shape_frame [OF this] show ?thesis by (auto simp: tab_ok_def shape_of_def)
qed

lemma tab_commit_same: "tab_ok new \<Longrightarrow> tab_ok (commit p old new)"
  by (rule tab_commit) (simp_all add: tab_ok_def new_columns_def)

lemma shape_first_page: "shape_of s' = shape_of s \<Longrightarrow> tab_ok s \<Longrightarrow> tab_ok (first_page s')"
  by (auto simp: tab_ok_def shape_ok_def shape_of_def first_page_def clear_edits_def set_newRows_def)

lemma tab_frame: "shape_of s' = shape_of s \<Longrightarrow> tab_ok s' = tab_ok s"
  by (auto simp: tab_ok_def shape_ok_def shape_of_def)

lemma tab_filters:
  assumes "tab_ok s"
  shows "tab_ok (handleSortChange c d s)" "tab_ok (handleSortByColumn col dir s)" "tab_ok (handleFilterByCellValue p a s)"
    "tab_ok (handleRemoveColumnFilter p col s)" "tab_ok (handleRemoveAllFilters s)" "tab_ok (handleClearFilterSort s)"
    "tab_ok (handleApplyQuery p s)"
  using assms
  by (auto simp: handleSortChange_def handleSortByColumn_def handleFilterByCellValue_def handleRemoveColumnFilter_def
      handleRemoveAllFilters_def handleClearFilterSort_def handleApplyQuery_def Let_def intro!: shape_first_page [of _ s])
     (simp_all add: shape_of_def)

lemma tab_edits:
  assumes "tab_ok s"
  shows "tab_ok (handleCellEdit e s)" "tab_ok (handleDeleteRow p i s)" "tab_ok (handleDeleteSelectedRow p s)" "tab_ok (clear_edits s)"
    "tab_ok (handleAddInlineRow s)" "tab_ok (handleVisibleColumnToggle col s)" "tab_ok (handleHideColumn col s)"
  using assms
  by (auto simp: tab_ok_def shape_ok_def handleCellEdit_def handleDeleteRow_def handleDeleteSelectedRow_def removeNewRow_def clear_edits_def
      set_newRows_def handleAddInlineRow_def handleVisibleColumnToggle_def handleHideColumn_def effectiveVisibleColumns_def shift_edits_ok Let_def
      split: list.splits option.splits if_splits)

lemma shape_calls [simp]:
  "shape_of (td_call c s) = shape_of s" "shape_of (toast t s) = shape_of s" "shape_of (handleAddColumnFilter now col s) = shape_of s"
  "shape_of (handleSelectedCellChange cell s) = shape_of s"
  by (simp_all add: shape_of_def td_call_def toast_def handleAddColumnFilter_def handleSelectedCellChange_def)

lemma tab_refresh: "tab_ok (handleRefresh p s) = tab_ok s" "tab_ok (td_call c s) = tab_ok s" "tab_ok (toast t s) = tab_ok s"
  "tab_ok (handleAddColumnFilter now col s) = tab_ok s" "tab_ok (handleSelectedCellChange cell s) = tab_ok s"
  by (rule tab_frame, simp)+

lemma tab_event: "tab_ok s \<Longrightarrow> tab_ok (grid_event_handler p now e s)"
proof (cases e)
  case (GE_copyAs format a)
  have t: "tab_ok s' = tab_ok s" if "handleCopyAs p format a s = Some s'" for s'
    by (rule tab_frame) (use that in \<open>auto simp: handleCopyAs_def Let_def split: option.splits list.splits\<close>)
  show "tab_ok s \<Longrightarrow> tab_ok (grid_event_handler p now e s)"
    by (cases "handleCopyAs p format a s") (simp_all add: GE_copyAs grid_event_handler_def or_else_def t)
qed (simp_all add: grid_event_handler_def tab_edits tab_filters tab_refresh)

lemma tab_grid_action: "tab_ok s \<Longrightarrow> tab_ok (grid_action p now f s)"
proof -
  assume ok: "tab_ok s"
  obtain g es where f: "f (grid_props_of s) (td_grid s) = (g, es)" by fastforce
  have "tab_ok (s\<lparr>td_grid := g\<rparr>)" using ok by (simp add: tab_ok_def shape_ok_def)
  then have "tab_ok (fold (grid_event_handler p now) es (s\<lparr>td_grid := g\<rparr>))"
    by (induction es arbitrary: g rule: rev_induct) (simp_all add: tab_event)
  then show ?thesis by (simp add: grid_action_def f tab_commit_same)
qed

lemma parse_int_page: "1 \<le> n \<Longrightarrow> 0 \<le> (case totalPages s of Some m \<Rightarrow> min n m - 1 | None \<Rightarrow> n - (1::int))"
  by (auto simp: totalPages_def split: option.split)

lemma commitPageSize_pos: "snd (commitPageSize k draft) = Some n \<Longrightarrow> 1 \<le> n"
  by (auto simp: commitPageSize_def Let_def split: option.splits if_splits)

lemma shape_ddl [simp]:
  "shape_of (ddl_answered tr a s) = shape_of s" "shape_of (ddl_columns_answered p a s) = shape_of s"
  "shape_of (ddl_keys_answered p tr cols a s) = shape_of s" "shape_of (handleViewDDL p s) = shape_of s" "shape_of (handleCopyDDL s) = shape_of s"
  "shape_of (handleStopLoading s) = shape_of s" "shape_of (handleConfirmDelete p s) = shape_of s" "shape_of (handleExport s) = shape_of s"
  "shape_of (handleImportSubmitStart s) = shape_of s" "shape_of (sql_dialog_closed s) = shape_of s" "shape_of (delete_dialog_closed s) = shape_of s"
  "shape_of (execute_next p sp s) = shape_of s" "shape_of (openSqlDialog p mode s) = shape_of s" "shape_of (handleSubmit p s) = shape_of s"
  by (simp_all add: shape_of_def ddl_answered_def ddl_columns_answered_def ddl_keys_answered_def handleViewDDL_def handleCopyDDL_def
      handleStopLoading_def handleConfirmDelete_def handleExport_def handleImportSubmitStart_def sql_dialog_closed_def delete_dialog_closed_def
      execute_next_def openSqlDialog_def handleSubmit_def Let_def nextRequestId_def td_await_def td_call_def td_settled_def ddl_shown_def
      ddl_failed_def toast_def split: db_reply.split option.split list.split prod.split)

lemma tab_same:
  "tab_ok (ddl_answered tr a s) = tab_ok s" "tab_ok (ddl_columns_answered p a s) = tab_ok s"
  "tab_ok (ddl_keys_answered p tr cols a s) = tab_ok s" "tab_ok (handleViewDDL p s) = tab_ok s" "tab_ok (handleCopyDDL s) = tab_ok s"
  "tab_ok (handleStopLoading s) = tab_ok s" "tab_ok (handleConfirmDelete p s) = tab_ok s" "tab_ok (handleExport s) = tab_ok s"
  "tab_ok (handleImportSubmitStart s) = tab_ok s" "tab_ok (sql_dialog_closed s) = tab_ok s" "tab_ok (delete_dialog_closed s) = tab_ok s"
  "tab_ok (openSqlDialog p mode s) = tab_ok s" "tab_ok (handleSubmit p s) = tab_ok s"
  by (rule tab_frame, simp)+

lemma tab_change: "td_change p s s' \<Longrightarrow> tab_ok s \<Longrightarrow> tab_ok s'"
proof (induction rule: td_change.induct)
  case (tc_imported s v)
  have "tab_ok (first_page (s\<lparr>td_importing := False\<rparr>))" by (rule shape_first_page [OF _ tc_imported]) (simp add: shape_of_def)
  then show ?case using tab_frame [of "handleImportSuccess p v s" "first_page (s\<lparr>td_importing := False\<rparr>)"]
    by (simp add: handleImportSuccess_def)
next
  case (tc_confirm s)
  then show ?case using parse_int_page [of _ s]
    by (auto simp: handlePageInputConfirm_def tab_ok_def shape_ok_def split: option.split)
next
  case (tc_size s draft n)
  then show ?case using commitPageSize_pos [of "td_pageSize s" draft n]
    by (simp add: handlePageSizeChange_def tab_ok_def shape_ok_def clear_edits_def set_newRows_def)
next
  case (tc_last s)
  then show ?case by (auto simp: handleLastPage_def tab_ok_def shape_ok_def totalPages_def split: option.split)
next
  case (tc_previous s)
  then show ?case by (simp add: handlePreviousPage_def hasPrev_def tab_ok_def shape_ok_def)
qed (simp_all add: tab_refresh tab_edits tab_filters tab_same handleDiscard_def, simp_all add: tab_ok_def shape_ok_def handleFirstPage_def handleNextPage_def)

text \<open>An answer that brings columns brings another array of them.\<close>

lemma loaded_shape: "tab_ok s \<Longrightarrow> td_columnsVersion s = td_columnsVersion old \<Longrightarrow> shape_ok (loaded answer s) \<and> new_columns old (loaded answer s)"
  by (cases answer) (simp_all add: loaded_def tab_ok_def shape_ok_def new_columns_def set_rows_def set_columns_def)

lemma opened_shape: "tab_ok s \<Longrightarrow> td_columnsVersion s = td_columnsVersion old \<Longrightarrow> shape_ok (opened r s) \<and> new_columns old (opened r s)"
  by (simp add: opened_def tab_ok_def shape_ok_def new_columns_def set_rows_def set_columns_def)

lemma shape_settled [simp]:
  "shape_of (td_settled w s) = shape_of s" "shape_of (forget_request i s) = shape_of s"
  by (simp_all add: shape_of_def td_settled_def forget_request_def)

lemma tab_settled [simp]: "tab_ok (td_settled w s) = tab_ok s" "tab_ok (forget_request i s) = tab_ok s"
  by (rule tab_frame, simp)+

lemma tab_shape: "tab_ok s \<Longrightarrow> shape_ok s \<and> new_columns old s"
  by (simp add: tab_ok_def new_columns_def)

lemma tab_open_answered: "tab_ok s \<Longrightarrow> tab_ok (table_open_answered p i answer s)"
proof -
  assume ok: "tab_ok s"
  let ?s = "td_settled (W_open i) s"
  have v: "td_columnsVersion ?s = td_columnsVersion s" by (simp add: td_settled_def)
  define s1 where "s1 = (if current_data i ?s
      then (case answer of Reply r \<Rightarrow> opened r ?s | Failure e \<Rightarrow> ?s\<lparr>td_error := Some e\<rparr>)\<lparr>td_pkLoaded := True, td_loading := False\<rparr> else ?s)"
  have "shape_ok s1 \<and> new_columns s s1"
  proof (cases "current_data i ?s")
    case False
    then show ?thesis using ok by (simp add: s1_def tab_shape)
  next
    case True
    show ?thesis
      by (cases answer) (use ok opened_shape [OF _ v] tab_shape [of ?s s] in \<open>auto simp: s1_def True shape_ok_def new_columns_def\<close>)
  qed
  moreover have "shape_of (forget_request i s1) = shape_of s1" by simp
  ultimately show ?thesis unfolding table_open_answered_def Let_def s1_def [symmetric]
    using shape_frame [of "forget_request i s1" s1 s] by (intro tab_commit) simp_all
qed

lemma tab_data_answered: "tab_ok s \<Longrightarrow> tab_ok (data_answered p i aft answer s)"
proof -
  assume ok: "tab_ok s"
  let ?s = "td_settled (W_data i aft) s"
  have v: "td_columnsVersion ?s = td_columnsVersion s" by (simp add: td_settled_def)
  define s0 where "s0 = (if current_data i ?s then loaded answer ?s else ?s)"
  define s1 where "s1 = forget_request i s0"
  have "shape_ok s0 \<and> new_columns s s0"
    using ok loaded_shape [OF _ v, of answer] tab_shape [of ?s s] by (cases "current_data i ?s") (simp_all add: s0_def)
  moreover have "shape_of s1 = shape_of s0" by (simp add: s1_def)
  ultimately have s1: "shape_ok s1" "new_columns s s1" using shape_frame [of s1 s0 s] by simp_all
  have e: "shape_of (case aft of Loaded_count v d \<Rightarrow> fetchCount p v d s1 | Loaded_nothing \<Rightarrow> s1) = shape_of s1" by (simp split: when_loaded.split)
  show ?thesis unfolding data_answered_def Let_def s0_def [symmetric] s1_def [symmetric]
    using s1 shape_frame [OF e, of s] by (intro tab_commit) simp_all
qed

lemma shape_counted [simp]: "shape_of (counted r s) = shape_of s"
  by (simp add: counted_def shape_of_def split: option.split list.split prod.split)

lemma tab_count_answered: "tab_ok s \<Longrightarrow> tab_ok (count_answered p i aft answer s)"
proof -
  assume ok: "tab_ok s"
  let ?s = "td_settled (W_count i aft) s"
  define s1 where "s1 = (if current_count i ?s then (case answer of Reply r \<Rightarrow> counted r ?s | Failure e \<Rightarrow> ?s\<lparr>td_totalRows := None\<rparr>) else ?s)"
  have "shape_of (?s\<lparr>td_totalRows := None\<rparr>) = shape_of ?s" by (simp add: shape_of_def)
  then have "shape_of s1 = shape_of s" by (simp add: s1_def split: db_reply.split)
  then have "shape_of (forget_request i s1) = shape_of s" by simp
  moreover have "shape_of ((forget_request i s1)\<lparr>td_deleting := False\<rparr>) = shape_of (forget_request i s1)" by (simp add: shape_of_def)
  ultimately have "tab_ok (if aft = Counted_deleted then (forget_request i s1)\<lparr>td_deleting := False\<rparr> else forget_request i s1)"
    using tab_frame [of _ s] ok by (cases "aft = Counted_deleted") simp_all
  then show ?thesis unfolding count_answered_def Let_def s1_def [symmetric] by (rule tab_commit_same)
qed

lemma tab_submit_answered: "tab_ok s \<Longrightarrow> tab_ok (submit_answered p sp answer s)"
proof -
  assume ok: "tab_ok s"
  have "tab_ok (submitted p x (td_settled (W_submit sp) s))" for x
  proof -
    have "tab_ok ((td_settled (W_submit sp) s)\<lparr>td_submitting := False, td_dialogMode := None\<rparr>)"
      by (rule iffD2 [OF tab_frame ok]) (simp add: shape_of_def td_settled_def)
    then show ?thesis
      by (simp add: submitted_def Let_def tab_refresh tab_edits tab_frame [OF shape_fetch(1)] tab_frame [OF shape_fetch(2)])
  qed
  moreover have "tab_ok (execute_next p x (td_settled (W_submit sp) s))" for x by (rule iffD2 [OF tab_frame ok]) simp
  ultimately show ?thesis by (simp add: submit_answered_def Let_def tab_commit_same)
qed

lemma tab_delete_answered: "tab_ok s \<Longrightarrow> tab_ok (row_delete_answered p v answer s)"
proof -
  assume ok: "tab_ok s"
  have "tab_ok ((toast t (td_settled (W_delete v) s))\<lparr>td_deletePreview := None\<rparr>)"
    "tab_ok ((toast t (td_settled (W_delete v) s))\<lparr>td_deleting := False\<rparr>)" for t
    by (rule iffD2 [OF tab_frame ok], simp add: shape_of_def td_settled_def toast_def td_call_def)+
  then show ?thesis
    by (cases answer) (simp_all add: row_delete_answered_def Let_def tab_commit_same tab_edits tab_frame [OF shape_fetch(2)])
qed

lemma tab_run: "td_run p (td_start p) s \<Longrightarrow> tab_ok s"
proof (induction rule: td_run.induct)
  case run_refl
  have "shape_ok (open_table p td_init)" "new_columns td_init (open_table p td_init)"
    by (simp_all add: open_table_def shape_ok_def new_columns_def td_init_def DEFAULT_PAGE_SIZE_def nextRequestId_def td_await_def td_call_def
        set_rows_def set_columns_def Let_def)
  then show ?case by (simp add: td_start_def tab_commit)
next
  case (run_next r r')
  from run_next(2,3) show ?case
    by (induction rule: td_step.induct)
       (simp_all add: tab_change tab_commit_same tab_grid_action tab_open_answered tab_data_answered tab_count_answered tab_submit_answered
         tab_delete_answered)
qed

text \<open>The page a step leads to: the answers keep the page or go to the first, and so does the grid.\<close>

definition page_back :: "table_data \<Rightarrow> table_data \<Rightarrow> bool" where
  "page_back s s' \<longleftrightarrow> td_page s' = td_page s \<or> td_page s' = 0"

lemma page_back_refl: "page_back s s"
  by (simp add: page_back_def)

lemma page_back_trans: "page_back r s \<Longrightarrow> page_back s t \<Longrightarrow> page_back r t"
  by (auto simp: page_back_def)

lemma page_shape: "shape_of s' = shape_of s \<Longrightarrow> td_page s' = td_page s"
  by (simp add: shape_of_def)

lemma page_commit [simp]: "td_page (commit p old new) = td_page new"
proof -
  let ?g = "grid_commit old new"
  have "td_page (load_effects p old ?g) = td_page ?g" by (rule page_shape) (simp add: load_effects_def Let_def)
  then have "td_page (tab_effects p old ?g) = td_page ?g"
    by (simp add: tab_effects_def column_effects_def page_effects_def clear_edits_def set_newRows_def Let_def)
  moreover have "td_page (grid_commit a b) = td_page b" for a b by (rule page_shape) simp
  ultimately show ?thesis by (simp add: commit_def Let_def)
qed

lemma page_event: "page_back s (grid_event_handler p now e s)"
proof (cases e)
  case (GE_copyAs format a)
  have t: "td_page s' = td_page s" if "handleCopyAs p format a s = Some s'" for s'
    using that by (auto simp: handleCopyAs_def Let_def td_call_def toast_def split: option.splits list.splits)
  show ?thesis
    by (cases "handleCopyAs p format a s") (simp_all add: GE_copyAs grid_event_handler_def or_else_def t page_back_def)
next
  case GE_refresh
  then show ?thesis using page_shape [of "handleRefresh p s" s] by (simp add: grid_event_handler_def page_back_def)
qed (auto simp: grid_event_handler_def page_back_def handleSelectedCellChange_def handleSortByColumn_def handleSortChange_def
    handleFilterByCellValue_def handleRemoveColumnFilter_def handleRemoveAllFilters_def handleClearFilterSort_def
    handleAddColumnFilter_def handleHideColumn_def handleDeleteRow_def handleCellEdit_def removeNewRow_def clear_edits_def set_newRows_def
    first_page_def td_call_def toast_def Let_def split: option.split)

lemma page_grid_action: "page_back s (grid_action p now f s)"
proof -
  obtain g es where f: "f (grid_props_of s) (td_grid s) = (g, es)" by fastforce
  have "page_back (s\<lparr>td_grid := g\<rparr>) (fold (grid_event_handler p now) es (s\<lparr>td_grid := g\<rparr>))"
    by (induction es rule: rev_induct) (auto intro: page_back_refl page_back_trans [OF _ page_event])
  then show ?thesis by (simp add: grid_action_def f page_back_def)
qed

lemma page_grid_action_le: "0 \<le> td_page s \<Longrightarrow> td_page (grid_action p now f s) \<le> td_page s"
  using page_grid_action [of s p now f] by (auto simp: page_back_def)

lemma page_fetch: "td_page (fetchCount p v aft s) = td_page s" "td_page (fetchData p v n d s) = td_page s"
  by (rule page_shape, simp)+

lemma page_answers:
  "td_page (table_open_answered p i oa s) = td_page s" "td_page (data_answered p i aft a s) = td_page s"
  "td_page (count_answered p i cnt a s) = td_page s" "td_page (submit_answered p sp a s) = td_page s"
  "td_page (row_delete_answered p v a s) = td_page s"
proof -
  have o: "td_page (opened r x) = td_page x" "td_page (loaded a x) = td_page x" for r x
    by (cases a; simp add: opened_def loaded_def set_rows_def set_columns_def)+
  have c: "td_page (counted r x) = td_page x" for r x by (rule page_shape) simp
  have f: "td_page (forget_request j x) = td_page x" "td_page (td_settled w x) = td_page x" for j w x by (rule page_shape, simp)+
  have e: "td_page (execute_next p y x) = td_page x" for y x by (rule page_shape) simp
  show "td_page (table_open_answered p i oa s) = td_page s"
    by (simp add: table_open_answered_def Let_def f o split: db_reply.split)
  show "td_page (data_answered p i aft a s) = td_page s"
    by (simp add: data_answered_def Let_def f o page_fetch split: when_loaded.split)
  show "td_page (count_answered p i cnt a s) = td_page s" by (simp add: count_answered_def Let_def f c split: db_reply.split)
  show "td_page (submit_answered p sp a s) = td_page s"
    by (simp add: submit_answered_def submitted_def Let_def f e page_fetch clear_edits_def set_newRows_def toast_def td_call_def)
  show "td_page (row_delete_answered p v a s) = td_page s"
    by (simp add: row_delete_answered_def Let_def f page_fetch clear_edits_def set_newRows_def toast_def td_call_def split: db_reply.split)
qed

lemma page_clamped: "totalPages s = Some n \<Longrightarrow> td_page s < td_page (handlePageInputConfirm s) \<Longrightarrow> td_page (handlePageInputConfirm s) < n"
  by (auto simp: handlePageInputConfirm_def split: option.splits if_splits)

lemma page_change:
  assumes "td_change p s s'" and "0 \<le> td_page s" and "totalPages s = Some n" and "td_page s < td_page s'"
  shows "td_page s' < n"
  using assms(1)
proof cases
  case tc_confirm
  then show ?thesis using page_clamped [OF assms(3)] assms(4) by simp
next
  case tc_next
  then show ?thesis using assms(3) by (simp add: handleNextPage_def hasNext_def)
next
  case tc_last
  then show ?thesis using assms(3) by (simp add: handleLastPage_def)
next
  case tc_add
  then show ?thesis using assms(4) by (simp add: handleAddInlineRow_def set_newRows_def Let_def split: list.splits)
next
  case tc_delete
  then show ?thesis using assms(4)
    by (simp add: handleDeleteSelectedRow_def handleDeleteRow_def removeNewRow_def set_newRows_def Let_def split: option.splits if_splits)
next
  case (tc_size draft m)
  then show ?thesis using assms(2,4) by (simp add: handlePageSizeChange_def clear_edits_def set_newRows_def)
next
  case tc_apply
  then show ?thesis using assms(2,4)
    by (simp add: handleApplyQuery_def first_page_def clear_edits_def set_newRows_def Let_def)
next
  case (tc_toggle col)
  then show ?thesis using assms(4) by (simp add: handleVisibleColumnToggle_def Let_def)
next
  case (tc_imported v)
  then show ?thesis using assms(2,4) by (simp add: handleImportSuccess_def page_fetch first_page_def clear_edits_def set_newRows_def)
qed (use assms(2,4) page_shape [of s' s] in \<open>simp_all add: handleFirstPage_def handlePreviousPage_def handleDiscard_def clear_edits_def
    set_newRows_def\<close>)

lemma page_step:
  assumes "td_step p s s'" and "0 \<le> td_page s" and "totalPages s = Some n" and "td_page s < td_page s'"
  shows "td_page s' < n"
  using assms(1)
proof cases
  case (ts_change t)
  then show ?thesis using page_change [OF _ assms(2,3)] assms(4) by simp
qed (use assms(2,4) page_grid_action_le [OF assms(2), of p] in \<open>simp_all add: page_answers not_less [symmetric]\<close>)

text \<open>
  C38: Over every run of the tab of a table, whatever the order of answers, the spinner of a load has a request behind it that
  is awaited, not cancelled and not overtaken; a submission or a deletion that is shown as running is awaited; the page is never
  negative, and while the number of pages is known no step leads forward to a page that does not exist (a table that
  shrinks can leave the shown page behind its end); the columns shown are columns of the result, and every pending edit
  belongs to one cell. The spinner of an import is that of its dialog and not part of this.
\<close>

theorem table_tab_consistent:
  assumes "td_run p (td_start p) s"
  shows "(td_loading s \<longrightarrow> td_latestDataRequest s \<notin> set (td_cancelledRequests s) \<and>
      list_ex (is_data_wait (td_latestDataRequest s)) (td_waits s)) \<and>
    (td_submitting s \<longrightarrow> list_ex is_submit_wait (td_waits s)) \<and> (td_deleting s \<longrightarrow> list_ex is_delete_wait (td_waits s)) \<and>
    0 \<le> td_page s \<and> 1 \<le> td_pageSize s \<and>
    (\<forall>s' n. td_step p s s' \<and> totalPages s = Some n \<and> td_page s < td_page s' \<longrightarrow> td_page s' < n) \<and>
    set (td_visibleColumns s) \<subseteq> set (td_columns s) \<and> edits_ok (td_edits s)"
  using req_run [OF assms] tab_run [OF assms] page_step [of p s]
  by (simp add: req_ok_def requests_ok_def requests_of_def tab_ok_def shape_ok_def)

section \<open>A table that was not opened\<close>

fun is_open_wait :: "td_wait \<Rightarrow> bool" where
  "is_open_wait (W_open i) = True"
| "is_open_wait w = False"

definition unopened :: "table_data \<Rightarrow> bool" where
  "unopened s \<longleftrightarrow> \<not> td_opened s \<and> \<not> list_ex is_open_wait (td_waits s)"

definition open_of :: "table_data \<Rightarrow> bool \<times> td_wait list" where
  "open_of s = (td_opened s, filter is_open_wait (td_waits s))"

lemma unopened_open_of: "unopened s \<longleftrightarrow> open_of s = (False, [])"
  by (auto simp: unopened_def open_of_def list_ex_iff filter_empty_conv)

lemma open_grid_commit [simp]: "open_of (grid_commit old new) = open_of new"
  using grid_commit_eq [of old new] by (auto simp: open_of_def)

lemma open_simps [simp]:
  "open_of (clear_edits s) = open_of s" "open_of (set_rows rs s) = open_of s" "open_of (set_columns cs s) = open_of s"
  "open_of (toast t s) = open_of s" "open_of (td_call c s) = open_of s" "open_of (first_page s) = open_of s"
  "open_of (removeNewRow i s) = open_of s" "open_of (handleCellEdit e s) = open_of s" "open_of (forget_request i s) = open_of s"
  "open_of (page_effects old new s) = open_of s" "open_of (column_effects old new s) = open_of s"
  "\<not> is_open_wait w \<Longrightarrow> open_of (td_await w s) = open_of s"
  by (simp_all add: open_of_def clear_edits_def set_newRows_def set_rows_def set_columns_def toast_def td_call_def first_page_def
      removeNewRow_def handleCellEdit_def forget_request_def page_effects_def column_effects_def td_await_def Let_def)

lemma open_fields [simp]:
  "open_of (s\<lparr>td_deleting := b\<rparr>) = open_of s" "open_of (s\<lparr>td_latestCountRequest := n\<rparr>) = open_of s"
  "open_of (s\<lparr>td_latestDataRequest := n, td_loading := b, td_error := e\<rparr>) = open_of s" "open_of (nextRequestId s) = open_of s"
  "open_of (s\<lparr>td_submitting := b\<rparr>) = open_of s" "open_of (s\<lparr>td_submitting := b, td_dialogMode := m\<rparr>) = open_of s"
  "open_of (s\<lparr>td_deletePreview := d\<rparr>) = open_of s" "open_of (s\<lparr>td_totalRows := n'\<rparr>) = open_of s" "open_of (s\<lparr>td_importing := b\<rparr>) = open_of s"
  "open_of (s\<lparr>td_grid := g\<rparr>) = open_of s"
  by (simp_all add: open_of_def nextRequestId_def)

lemma filter_remove1_other: "\<not> P x \<Longrightarrow> filter P (remove1 x xs) = filter P xs"
  by (induction xs) auto

lemma open_settled [simp]: "\<not> is_open_wait w \<Longrightarrow> open_of (td_settled w s) = open_of s"
  by (simp add: open_of_def td_settled_def filter_remove1_other)

lemma open_fetch [simp]:
  "open_of (fetchCount p v aft s) = open_of s" "open_of (fetchData p v n d s) = open_of s" "open_of (handleRefresh p s) = open_of s"
  by (simp_all add: fetchCount_def fetchData_def handleRefresh_def Let_def split: when_loaded.split)

lemma open_commit [simp]: "open_of (commit p old new) = open_of new"
  by (simp add: commit_def tab_effects_def load_effects_def Let_def)

lemma open_handlers [simp]:
  "open_of (handleSortChange c d s) = open_of s" "open_of (handleSortByColumn col dir s) = open_of s"
  "open_of (handleFilterByCellValue p a s) = open_of s" "open_of (handleRemoveColumnFilter p col s) = open_of s"
  "open_of (handleRemoveAllFilters s) = open_of s" "open_of (handleClearFilterSort s) = open_of s"
  "open_of (handleAddColumnFilter now col s) = open_of s" "open_of (handleHideColumn col s) = open_of s"
  "open_of (handleSelectedCellChange cell s) = open_of s" "open_of (handleDeleteRow p i s) = open_of s"
  "open_of (handleApplyQuery p s) = open_of s" "open_of (handleAddInlineRow s) = open_of s"
  "open_of (handleVisibleColumnToggle col s) = open_of s" "open_of (handlePageInputConfirm s) = open_of s"
  "open_of (handlePageSizeChange n s) = open_of s" "open_of (handleImportSuccess p v s) = open_of s"
  "open_of (handleImportSubmitStart s) = open_of s"
  by (simp_all add: handleSortChange_def handleSortByColumn_def handleFilterByCellValue_def handleRemoveColumnFilter_def
      handleRemoveAllFilters_def handleClearFilterSort_def handleAddColumnFilter_def handleHideColumn_def handleSelectedCellChange_def
      handleDeleteRow_def handleApplyQuery_def handleAddInlineRow_def handleVisibleColumnToggle_def handlePageInputConfirm_def
      handlePageSizeChange_def handleImportSuccess_def handleImportSubmitStart_def Let_def split: list.split option.split)
     (simp_all add: open_of_def set_newRows_def nextRequestId_def split: option.split)

lemma open_awaits [simp]:
  "open_of (execute_next p sp s) = open_of s" "open_of (handleSubmit p s) = open_of s" "open_of (handleConfirmDelete p s) = open_of s"
  "open_of (handleViewDDL p s) = open_of s" "open_of (ddl_answered tr a s) = open_of s" "open_of (ddl_columns_answered p a s) = open_of s"
  "open_of (ddl_keys_answered p tr cols a s) = open_of s" "open_of (handleCopyDDL s) = open_of s" "open_of (openSqlDialog p mode s) = open_of s"
  "open_of (submitted p sp s) = open_of s" "open_of (handleStopLoading s) = open_of s" "open_of (handleDeleteSelectedRow p s) = open_of s"
  by (simp_all add: execute_next_def handleSubmit_def handleConfirmDelete_def handleViewDDL_def ddl_answered_def ddl_columns_answered_def
      ddl_keys_answered_def handleCopyDDL_def openSqlDialog_def submitted_def handleStopLoading_def handleDeleteSelectedRow_def Let_def
      split: list.split option.split db_reply.split prod.split)
     (simp_all add: open_of_def ddl_shown_def ddl_failed_def td_settled_def td_await_def td_call_def toast_def filter_remove1_other)

lemma open_change: "td_change p s s' \<Longrightarrow> open_of s' = open_of s"
  by (induction rule: td_change.induct)
     (simp_all, simp_all add: open_of_def handleDiscard_def clear_edits_def set_newRows_def sql_dialog_closed_def delete_dialog_closed_def
       handleFirstPage_def handlePreviousPage_def handleNextPage_def handleLastPage_def handleExport_def split: option.split)

lemma open_event [simp]: "open_of (grid_event_handler p now e s) = open_of s"
proof (cases e)
  case (GE_copyAs format a)
  have "open_of s' = open_of s" if "handleCopyAs p format a s = Some s'" for s'
    using that by (auto simp: handleCopyAs_def Let_def split: option.splits list.splits)
  then show ?thesis by (cases "handleCopyAs p format a s") (simp_all add: GE_copyAs grid_event_handler_def or_else_def)
qed (simp_all add: grid_event_handler_def)

lemma open_events [simp]: "open_of (fold (grid_event_handler p now) es s) = open_of s"
  by (induction es arbitrary: s) simp_all

lemma open_answers [simp]:
  "open_of (data_answered p i aft a s) = open_of s" "open_of (count_answered p i cnt a s) = open_of s"
  "open_of (submit_answered p sp a s) = open_of s" "open_of (row_delete_answered p v a s) = open_of s" "open_of (grid_action p now f s) = open_of s"
proof -
  have l: "open_of (loaded a x) = open_of x" for x
    by (cases a) (simp_all add: loaded_def open_of_def set_rows_def set_columns_def)
  have c: "open_of (counted r x) = open_of x" for r x by (simp add: counted_def split: option.split list.split prod.split)
  show "open_of (data_answered p i aft a s) = open_of s"
    by (simp add: data_answered_def Let_def l split: when_loaded.split)
  show "open_of (count_answered p i cnt a s) = open_of s" by (simp add: count_answered_def Let_def c split: db_reply.split)
  show "open_of (submit_answered p sp a s) = open_of s" by (simp add: submit_answered_def Let_def)
  show "open_of (row_delete_answered p v a s) = open_of s" by (simp add: row_delete_answered_def Let_def split: db_reply.split)
  show "open_of (grid_action p now f s) = open_of s" by (simp add: grid_action_def split: prod.split)
qed

lemma unopened_run: "td_run p s s' \<Longrightarrow> unopened s \<Longrightarrow> unopened s'"
proof (induction rule: td_run.induct)
  case (run_next r r')
  have "\<not> list_ex is_open_wait (td_waits r)" using run_next.IH run_next.prems by (simp add: unopened_def)
  with run_next(2) have "open_of r' = open_of r"
    by (cases rule: td_step.cases) (auto simp: open_change list_ex_iff)
  with run_next show ?case by (simp add: unopened_open_of)
qed

lemma grid_commit_fields [simp]:
  "td_calls (grid_commit old new) = td_calls new" "td_rows (grid_commit old new) = td_rows new" "td_page (grid_commit old new) = td_page new"
  "td_newRows (grid_commit old new) = td_newRows new" "td_edits (grid_commit old new) = td_edits new" "td_opened (grid_commit old new) = td_opened new"
  "td_primaryKeys (grid_commit old new) = td_primaryKeys new" "td_pageSize (grid_commit old new) = td_pageSize new"
  "td_sortColumn (grid_commit old new) = td_sortColumn new" "view_of (grid_commit old new) = view_of new"
  "td_applyVersion (grid_commit old new) = td_applyVersion new" "td_whereClause (grid_commit old new) = td_whereClause new"
  "td_waits (grid_commit old new) = td_waits new" "td_latestDataRequest (grid_commit old new) = td_latestDataRequest new"
  "td_cancelledRequests (grid_commit old new) = td_cancelledRequests new" "td_loading (grid_commit old new) = td_loading new"
  "td_importing (grid_commit old new) = td_importing new" "td_error (grid_commit old new) = td_error new"
  "td_columns (grid_commit old new) = td_columns new" "td_requestSeq (grid_commit old new) = td_requestSeq new"
  using grid_commit_eq [of old new] by (auto simp: view_of_def)

lemma commit_unopened:
  assumes "\<not> td_opened new"
  shows "td_calls (commit p old new) = td_calls new" "td_rows (commit p old new) = td_rows new" "td_page (commit p old new) = td_page new"
    "td_sortColumn (commit p old new) = td_sortColumn new"
  using assms
  by (simp_all add: commit_def tab_effects_def load_effects_def page_effects_def column_effects_def clear_edits_def set_newRows_def Let_def)

lemma start_waits: "tp_assetId p \<noteq> 0 \<Longrightarrow> td_waits (td_start p) = [W_open 1] \<and> \<not> td_opened (td_start p)"
  by (simp add: td_start_def commit_def tab_effects_def load_effects_def page_effects_def column_effects_def clear_edits_def set_newRows_def
      Let_def open_table_def td_init_def nextRequestId_def td_await_def td_call_def set_rows_def set_columns_def)

lemma failed_unopened: "tp_assetId p \<noteq> 0 \<Longrightarrow> unopened (table_open_answered p 1 (Failure e) (td_start p))"
proof -
  assume a: "tp_assetId p \<noteq> 0"
  have f: "open_of (x\<lparr>td_error := Some e, td_pkLoaded := True, td_loading := False\<rparr>) = open_of x" for x
    by (simp add: open_of_def)
  have "open_of (td_settled (W_open 1) (td_start p)) = (False, [])" using start_waits [OF a] by (simp add: open_of_def td_settled_def)
  then show ?thesis using f by (simp add: unopened_open_of table_open_answered_def Let_def)
qed

lemma refresh_calls:
  assumes "tp_assetId p \<noteq> 0" and "\<not> td_opened s"
  shows "td_calls (commit p s (handleRefresh p s)) = td_calls s @
    [TC_ExecuteSQL (tp_assetId p) (select_sql p (view_of s) (td_page s)) (tp_database p),
     TC_ExecuteSQL (tp_assetId p) (count_sql p (view_of s)) (tp_database p)]"
proof -
  have "open_of (handleRefresh p s) = open_of s" by simp
  then have "\<not> td_opened (handleRefresh p s)" using assms(2) by (simp add: open_of_def)
  then show ?thesis using assms(1)
    by (simp add: commit_unopened) (simp add: handleRefresh_def fetchCount_def fetchData_def Let_def td_await_def td_call_def nextRequestId_def
      view_of_def)
qed

lemma commit_view: "view_of (commit p old new) = view_of new" "td_opened (commit p old new) = td_opened new"
proof -
  have f: "view_of (fetchCount p v aft x) = view_of x" "view_of (fetchData p v n d x) = view_of x" for v aft n d x
    by (simp_all add: fetchCount_def fetchData_def nextRequestId_def td_await_def td_call_def Let_def split: when_loaded.split)
       (simp_all add: view_of_def fetchCount_def nextRequestId_def td_await_def td_call_def Let_def)
  have l: "view_of (load_effects p old x) = view_of x" for x by (simp add: load_effects_def Let_def f)
  have e: "view_of (column_effects old new (page_effects old new x)) = view_of x" for x new
    by (simp add: view_of_def column_effects_def page_effects_def clear_edits_def set_newRows_def Let_def)
  show "view_of (commit p old new) = view_of new" by (simp add: commit_def tab_effects_def e l Let_def)
  have "open_of (commit p old new) = open_of new" by simp
  then show "td_opened (commit p old new) = td_opened new" by (simp add: open_of_def)
qed

text \<open>
  A tab whose first load failed never counts as opened, in every run from there, also after a refresh that brought
  the rows: the next page and a click on a column change the number of the page and the mark of the sort, but
  nothing is asked of the backend and the old rows stay. Only a refresh asks for the new page or order, with
  the statement the changed page and sort make.
\<close>

theorem unopened_table_pages_on_refresh:
  assumes "tp_assetId p \<noteq> 0" and "td_run p (table_open_answered p 1 (Failure e) (td_start p)) s"
    and "n = commit p s (handleNextPage s)" and "o1 = commit p s (handleSortChange c d s)"
  shows "td_page n = td_page s + 1 \<and> td_rows n = td_rows s \<and> td_calls n = td_calls s \<and>
    td_calls (commit p n (handleRefresh p n)) = td_calls s @
      [TC_ExecuteSQL (tp_assetId p) (select_sql p (view_of s) (td_page s + 1)) (tp_database p),
       TC_ExecuteSQL (tp_assetId p) (count_sql p (view_of s)) (tp_database p)] \<and>
    td_page o1 = 0 \<and> td_sortColumn o1 = c \<and> td_sortDir o1 = d \<and> td_rows o1 = td_rows s \<and> td_calls o1 = td_calls s \<and>
    td_calls (commit p o1 (handleRefresh p o1)) = td_calls s @
      [TC_ExecuteSQL (tp_assetId p) (select_sql p ((view_of s)\<lparr>qv_orderByClause := [], qv_sortColumn := c, qv_sortDir := d\<rparr>) 0) (tp_database p),
       TC_ExecuteSQL (tp_assetId p) (count_sql p (view_of s)) (tp_database p)]"
proof -
  have "\<not> td_opened s" using unopened_run [OF assms(2) failed_unopened [OF assms(1)]] by (simp add: unopened_def)
  then have u: "\<not> td_opened (handleNextPage s)" "\<not> td_opened (handleSortChange c d s)"
    by (simp_all add: handleNextPage_def handleSortChange_def first_page_def clear_edits_def set_newRows_def)
  have f: "td_page (handleNextPage s) = td_page s + 1" "td_rows (handleNextPage s) = td_rows s" "td_calls (handleNextPage s) = td_calls s"
    "view_of (handleNextPage s) = (view_of s)\<lparr>qv_page := td_page s + 1\<rparr>"
    "td_page (handleSortChange c d s) = 0" "td_rows (handleSortChange c d s) = td_rows s" "td_calls (handleSortChange c d s) = td_calls s"
    "view_of (handleSortChange c d s) = (view_of s)\<lparr>qv_page := 0, qv_orderByClause := [], qv_sortColumn := c, qv_sortDir := d\<rparr>"
    by (simp_all add: handleNextPage_def handleSortChange_def first_page_def clear_edits_def set_newRows_def view_of_def)
  have v: "view_of n = (view_of s)\<lparr>qv_page := td_page s + 1\<rparr>" "view_of o1 = (view_of s)\<lparr>qv_page := 0, qv_orderByClause := [], qv_sortColumn := c, qv_sortDir := d\<rparr>"
    and w: "\<not> td_opened n" "\<not> td_opened o1"
    using assms(3,4) u f by (simp_all add: commit_view)
  have k: "td_page n = td_page s + 1" "td_rows n = td_rows s" "td_calls n = td_calls s"
    "td_page o1 = 0" "td_rows o1 = td_rows s" "td_calls o1 = td_calls s"
    using assms(3,4) u f by (simp_all add: commit_unopened)
  have q: "select_sql p (x\<lparr>qv_page := m\<rparr>) k = select_sql p x k" "count_sql p (x\<lparr>qv_page := m\<rparr>) = count_sql p x"
    "select_sql p (x\<lparr>qv_page := m, qv_orderByClause := [], qv_sortColumn := c, qv_sortDir := d\<rparr>) k =
      select_sql p (x\<lparr>qv_orderByClause := [], qv_sortColumn := c, qv_sortDir := d\<rparr>) k"
    "count_sql p (x\<lparr>qv_page := m, qv_orderByClause := [], qv_sortColumn := c, qv_sortDir := d\<rparr>) = count_sql p x" for x m k
    by (simp_all add: select_sql_def order_by_def count_sql_def cong: option.case_cong if_cong)
  have "td_sortColumn o1 = qv_sortColumn (view_of o1)" "td_sortDir o1 = qv_sortDir (view_of o1)" by (simp_all add: view_of_def)
  then show ?thesis using k v refresh_calls [OF assms(1) w(1)] refresh_calls [OF assms(1) w(2)] by (simp add: q)
qed

section \<open>What happens to edits\<close>

lemma commit_same_view:
  assumes "view_of new = view_of old" and "td_applyVersion new = td_applyVersion old"
  shows "td_calls (commit p old new) = td_calls new" "td_rows (commit p old new) = td_rows new" "td_newRows (commit p old new) = td_newRows new"
    "td_edits (commit p old new) = td_edits new" "td_primaryKeys (commit p old new) = td_primaryKeys new" "td_page (commit p old new) = td_page new"
    "td_waits (commit p old new) = td_waits new" "td_latestDataRequest (commit p old new) = td_latestDataRequest new"
    "td_cancelledRequests (commit p old new) = td_cancelledRequests new" "td_loading (commit p old new) = td_loading new"
    "td_importing (commit p old new) = td_importing new" "td_error (commit p old new) = td_error new"
    "td_columns (commit p old new) = td_columns new" "td_requestSeq (commit p old new) = td_requestSeq new"
proof -
  have w: "td_whereClause new = td_whereClause old" "td_page new = td_page old" "td_pageSize new = td_pageSize old" using assms(1) by (auto simp: view_of_def)
  have "load_effects p old (grid_commit old new) = grid_commit old new"
    using assms w by (simp add: load_effects_def count_changed_def data_changed_def)
  then show "td_calls (commit p old new) = td_calls new" "td_rows (commit p old new) = td_rows new" "td_newRows (commit p old new) = td_newRows new"
    "td_edits (commit p old new) = td_edits new" "td_primaryKeys (commit p old new) = td_primaryKeys new" "td_page (commit p old new) = td_page new"
    "td_waits (commit p old new) = td_waits new" "td_latestDataRequest (commit p old new) = td_latestDataRequest new"
    "td_cancelledRequests (commit p old new) = td_cancelledRequests new" "td_loading (commit p old new) = td_loading new"
    "td_importing (commit p old new) = td_importing new" "td_error (commit p old new) = td_error new"
    "td_columns (commit p old new) = td_columns new" "td_requestSeq (commit p old new) = td_requestSeq new"
    using w by (simp_all add: commit_def tab_effects_def page_effects_def column_effects_def Let_def)
qed

lemma loaded_fields:
  "td_edits (loaded a s) = td_edits s" "td_newRows (loaded a s) = td_newRows s" "td_primaryKeys (loaded a s) = td_primaryKeys s"
  "view_of (loaded a s) = view_of s" "td_applyVersion (loaded a s) = td_applyVersion s" "td_calls (loaded a s) = td_calls s"
  by (cases a; simp add: loaded_def set_rows_def set_columns_def view_of_def)+

lemma reloaded:
  assumes "current_data i (td_settled (W_data i Loaded_nothing) s)" and "sr_rows r = Some rs" and "s' = data_answered p i Loaded_nothing (Reply r) s"
  shows "td_rows s' = rs" "td_edits s' = td_edits s" "td_newRows s' = td_newRows s" "td_primaryKeys s' = td_primaryKeys s"
proof -
  define n where "n = forget_request i (loaded (Reply r) (td_settled (W_data i Loaded_nothing) s))"
  have s': "s' = commit p s n" using assms(1,3) by (simp add: data_answered_def Let_def n_def)
  have v: "view_of n = view_of s" "td_applyVersion n = td_applyVersion s"
    by (simp_all add: n_def forget_request_def) (simp_all add: view_of_def td_settled_def loaded_def set_rows_def set_columns_def)
  have "td_rows n = rs" using assms(2) by (simp add: n_def loaded_def set_rows_def set_columns_def forget_request_def or_else_def)
  moreover have "td_edits n = td_edits s" "td_newRows n = td_newRows s" "td_primaryKeys n = td_primaryKeys s"
    by (simp_all add: n_def forget_request_def loaded_fields td_settled_def)
  ultimately show "td_rows s' = rs" "td_edits s' = td_edits s" "td_newRows s' = td_newRows s" "td_primaryKeys s' = td_primaryKeys s"
    by (simp_all add: s' commit_same_view [OF v])
qed

text \<open>The request of a refresh is new and awaited.\<close>

lemma refresh_awaits:
  assumes "tp_assetId p \<noteq> 0" and "req_ok s" and "t = commit p s (handleRefresh p s)"
  shows "W_data (td_requestSeq s + 1) Loaded_nothing \<in> set (td_waits t)"
    "current_data (td_requestSeq s + 1) (td_settled (W_data (td_requestSeq s + 1) Loaded_nothing) t)"
    "td_edits t = td_edits s" "td_newRows t = td_newRows s" "td_primaryKeys t = td_primaryKeys s"
proof -
  let ?r = "handleRefresh p s" and ?i = "td_requestSeq s + 1"
  have r: "td_edits ?r = td_edits s" "td_newRows ?r = td_newRows s" "td_primaryKeys ?r = td_primaryKeys s"
    "td_waits ?r = td_waits s @ [W_data ?i Loaded_nothing, W_count (?i + 1) Counted_nothing]" "td_latestDataRequest ?r = ?i"
    "td_cancelledRequests ?r = td_cancelledRequests s" "view_of ?r = view_of s" "td_applyVersion ?r = td_applyVersion s"
    using assms(1)
    by (simp_all add: handleRefresh_def fetchCount_def fetchData_def Let_def td_await_def td_call_def nextRequestId_def view_of_def)
  note c = commit_same_view [OF r(7,8), of p, folded assms(3)]
  have "td_cancelledRequests t = td_cancelledRequests s" using c(9) r(6) by simp
  moreover have "?i \<notin> set (td_cancelledRequests s)" using assms(2) by (auto simp: req_ok_def requests_ok_def requests_of_def)
  ultimately show "current_data ?i (td_settled (W_data ?i Loaded_nothing) t)"
    using c r by (simp add: current_data_def isCancelled_def td_settled_def)
  show "W_data ?i Loaded_nothing \<in> set (td_waits t)" "td_edits t = td_edits s" "td_newRows t = td_newRows s"
    "td_primaryKeys t = td_primaryKeys s"
    using c r by simp_all
qed

text \<open>
  C40: A refresh keeps the pending edits and brings other rows under them: in every state of a run, after a refresh
  and the answer to its request the edits are the same, and they become the UPDATEs of whatever rows have come to
  their places, with the keys of those rows. What was typed into an added row, which stands behind the saved ones,
  becomes the UPDATE of a saved row when the table has grown, and an edit whose place is gone becomes nothing.
\<close>

theorem refresh_moves_edits:
  assumes "td_run p (td_start p) s" and "tp_assetId p \<noteq> 0" and "t = commit p s (handleRefresh p s)" and "i = td_requestSeq s + 1"
    and "sr_rows r = Some rs" and "s' = data_answered p i Loaded_nothing (Reply r) t"
  shows "W_data i Loaded_nothing \<in> set (td_waits t) \<and> td_rows s' = rs \<and> td_edits s' = td_edits s \<and> td_newRows s' = td_newRows s \<and>
    buildUpdateStatements p s' = map (\<lambda>(j, colEdits). cell_update_statement p s' (rs ! j) colEdits)
      (filter (\<lambda>(j, colEdits). j < length rs) (group_edits (td_edits s))) \<and>
    (td_primaryKeys s \<noteq> [] \<longrightarrow> where_columns s' = td_primaryKeys s)"
proof -
  note a = refresh_awaits [OF assms(2) req_run [OF assms(1)] assms(3), folded assms(4)]
  note b = reloaded [OF a(2) assms(5,6)]
  show ?thesis using a b by (simp add: buildUpdateStatements_def where_columns_def)
qed

text \<open>
  What is typed into a cell is compared with the saved value, so typing the saved value over a pending edit leaves the
  edit as it is; and a cell that holds an object becomes edited, with the text of the object, when its editor is opened and
  left.
\<close>

theorem typed_value_compared_with_saved:
  "(i < length (td_rows s) \<and> get_prop (td_rows s ! i) col = JStr x \<longrightarrow>
      td_edits (grid_action p now (\<lambda>gp. commitEdit gp i col x) s) = td_edits s) \<and>
   (i < length (td_rows s) \<and> get_prop (td_rows s ! i) col = JObj ps \<and> map_of (td_edits s) (cellKey i col) = None \<longrightarrow>
      map_of (td_edits (grid_action p now (\<lambda>gp. commitEdit gp i col (edit_text (grid_props_of s) i col)) s)) (cellKey i col) =
        map_option JStr (json_stringify (JObj ps)))"
proof -
  have at: "grid_cell (gp_rows (grid_props_of s)) i col = get_prop (td_rows s ! i) col" if "i < length (td_rows s)"
    using that by (simp add: grid_cell_def grid_props_of_def tableRows_def nth_append)
  have view: "td_edits (commit p s (s\<lparr>td_grid := g\<rparr>)) = td_edits s" for g
    by (rule trans [OF commit_same_view(4)]) (simp_all add: view_of_def)
  have edit: "td_edits (commit p s (handleCellEdit e (s\<lparr>td_grid := g\<rparr>))) =
      set_prop (td_edits s) (cellKey (ce_rowIdx e) (ce_col e)) (ce_value e)" for e g
    by (rule trans [OF commit_same_view(4)]) (simp_all add: view_of_def handleCellEdit_def)
  have json: "\<exists>t. json_stringify (JObj ps) = Some (CHR ''{'' # t)" by simp
  show ?thesis
  proof (intro conjI impI)
    assume a: "i < length (td_rows s) \<and> get_prop (td_rows s ! i) col = JStr x"
    then show "td_edits (grid_action p now (\<lambda>gp. commitEdit gp i col x) s) = td_edits s"
      using at view by (simp add: grid_action_def commitEdit_def Let_def)
  next
    assume a: "i < length (td_rows s) \<and> get_prop (td_rows s ! i) col = JObj ps \<and> map_of (td_edits s) (cellKey i col) = None"
    obtain t where t: "json_stringify (JObj ps) = Some (CHR ''{'' # t)" using json by blast
    have "edit_text (grid_props_of s) i col = CHR ''{'' # t"
      using a at t by (simp add: edit_text_def displayValue_def cellValueToText_def or_else_def) (simp add: grid_props_of_def)
    then show "map_of (td_edits (grid_action p now (\<lambda>gp. commitEdit gp i col (edit_text (grid_props_of s) i col)) s)) (cellKey i col) =
        map_option JStr (json_stringify (JObj ps))"
      using a at edit t by (simp add: grid_action_def commitEdit_def Let_def grid_event_handler_def)
  qed
qed

text \<open>
  A submission answers when another page is shown: the rows of the page it was sent from are asked for again, after
  those of the shown page, and come to stand under its number.
\<close>

theorem submit_reloads_old_page:
  assumes "tp_assetId p \<noteq> 0" and "sp_rest sp = []" and "affected_rows r = Some n" and "n > 0" and "sp_affected sp \<ge> 0"
    and "s' = submit_answered p sp (Reply r) s"
  shows "td_page s' = td_page s \<and> td_edits s' = [] \<and> td_newRows s' = [] \<and>
    (\<exists>i. W_data i Loaded_nothing \<in> set (td_waits s') \<and> td_latestDataRequest s' = i \<and>
      TC_ExecuteSQL (tp_assetId p) (select_sql p (sp_view sp) (qv_page (sp_view sp))) (tp_database p) \<in> set (td_calls s'))"
proof -
  define x where "x = submitted p (executed (Reply r) sp) (td_settled (W_submit sp) s)"
  have s': "s' = commit p s x" using assms(2-4,6) by (simp add: submit_answered_def Let_def x_def executed_def)
  have v: "view_of x = view_of s" "td_applyVersion x = td_applyVersion s"
    using assms(1-5) by (simp_all add: x_def submitted_def executed_def Let_def fetchCount_def fetchData_def nextRequestId_def td_await_def
        td_call_def clear_edits_def set_newRows_def toast_def td_settled_def view_of_def)
  show ?thesis unfolding s' commit_same_view [OF v]
    using assms(1-5) by (auto simp: x_def submitted_def executed_def Let_def fetchCount_def fetchData_def nextRequestId_def td_await_def
        td_call_def clear_edits_def set_newRows_def toast_def td_settled_def)
qed

section \<open>Witnesses\<close>

definition ex_td_props :: table_props where
  "ex_td_props = \<lparr>tp_assetId = 3, tp_database = ''shop'', tp_table = ''users'', tp_driver = Some ''mysql''\<rparr>"

definition ex_td :: table_data where
  "ex_td = td_init\<lparr>td_columns := [''id'', ''name''], td_primaryKeys := [''id''],
     td_rows := [[(''id'', JInt 1), (''name'', JStr ''ann'')], [(''id'', JInt 2), (''name'', JStr ''bob'')]], td_newRows := [[], []],
     td_edits := [(cellKey 1 ''name'', JStr ''eve'')], td_requestSeq := 3, td_latestDataRequest := 3, td_waits := [W_data 3 Loaded_nothing]\<rparr>"

lemma ex_td_edits: "edits_ok (td_edits ex_td)"
  by (simp add: ex_td_def edits_ok_def)

theorem removed_row_keeps_others_witness:
  "map (shown_row (removeNewRow 2 ex_td)) [0..<3] = remove_at 2 (map (shown_row ex_td) [0..<4])"
proof -
  have "length (td_rows ex_td) \<le> 2" "2 < length (tableRows ex_td)" "length (tableRows ex_td) = 4" by (simp_all add: ex_td_def tableRows_def)
  moreover have "length (tableRows (removeNewRow 2 ex_td)) = 3"
    using removed_fields(3) [of ex_td 2] calculation by simp
  ultimately show ?thesis using removed_row_keeps_others [OF ex_td_edits, of 2] by simp
qed

theorem update_statements_read_witness:
  "map (reads (Some ''mysql'')) (buildUpdateStatements ex_td_props ex_td) =
     [Some [TWord ''UPDATE'', TId ''shop'', TSym CHR ''.'', TId ''users'', TWord ''SET'', TId ''name'', TSym CHR ''='', TStr ''eve'',
        TWord ''WHERE'', TId ''id'', TSym CHR ''='', TStr ''2'', TWord ''LIMIT'', TWord ''1'', TSym CHR '';'']]"
proof -
  have two: "int_str 2 = ''2''" by code_simp
  have e: "edited_rows ex_td = [(1, [(''name'', JStr ''eve'')])]"
    by (simp add: edited_rows_def group_edits_def ex_td_def add_edit_def or_else_def)
  have "list_all (\<lambda>(r, ce). safe_update (tp_driver ex_td_props) ex_td (td_rows ex_td ! r) ce) (edited_rows ex_td)"
    unfolding e by (simp add: two safe_update_def safe_value_def where_columns_def ex_td_def ex_td_props_def get_prop_def)
  note r = update_statements_read [OF ex_td_edits this, THEN conjunct1]
  have t: "update_toks ex_td_props ex_td (td_rows ex_td ! 1) [(''name'', JStr ''eve'')] =
      [TWord ''UPDATE'', TId ''shop'', TSym CHR ''.'', TId ''users'', TWord ''SET'', TId ''name'', TSym CHR ''='', TStr ''eve'',
        TWord ''WHERE'', TId ''id'', TSym CHR ''='', TStr ''2'', TWord ''LIMIT'', TWord ''1'', TSym CHR '';'']"
    by (simp add: two update_toks_def set_toks_def value_toks_def where_toks_def table_toks_def ident_toks_def where_columns_def ex_td_def
        ex_td_props_def get_prop_def)
  have d: "tp_driver ex_td_props = Some ''mysql''" by (simp add: ex_td_props_def)
  show ?thesis using r by (simp only: e d t list.map prod.case)
qed

theorem table_tab_consistent_witness:
  "td_loading (td_start ex_td_props) \<and>
   list_ex (is_data_wait (td_latestDataRequest (td_start ex_td_props))) (td_waits (td_start ex_td_props))"
proof -
  have l: "td_loading (td_start ex_td_props)"
    by (simp add: td_start_def commit_def tab_effects_def load_effects_def page_effects_def column_effects_def clear_edits_def set_newRows_def
        Let_def open_table_def td_init_def nextRequestId_def td_await_def td_call_def set_rows_def set_columns_def ex_td_props_def
        grid_commit_def grid_effects_def grid_focus_def selection_event_def handleSelectedCellChange_def)
  with table_tab_consistent [OF run_refl, of ex_td_props] show ?thesis by blast
qed

definition ex_after_refresh :: table_data where
  "ex_after_refresh =
     (let s = table_open_answered ex_td_props 1 (Failure ''timeout'') (td_start ex_td_props)
      in commit ex_td_props s (handleRefresh ex_td_props s))"

theorem unopened_table_pages_on_refresh_witness:
  "td_page (commit ex_td_props ex_after_refresh (handleNextPage ex_after_refresh)) = td_page ex_after_refresh + 1 \<and>
   td_calls (commit ex_td_props ex_after_refresh (handleNextPage ex_after_refresh)) = td_calls ex_after_refresh"
proof -
  let ?s = "table_open_answered ex_td_props 1 (Failure ''timeout'') (td_start ex_td_props)"
  have "td_run ex_td_props ?s ex_after_refresh"
    unfolding ex_after_refresh_def Let_def by (rule run_next [OF run_refl]) (rule ts_change [OF tc_refresh])
  from unopened_table_pages_on_refresh [OF _ this refl refl] show ?thesis by (simp add: ex_td_props_def)
qed

definition ex_first_page :: open_result where
  "ex_first_page = \<lparr>or_columns = Some [''id'', ''name''], or_columnTypes = None, or_columnRules = None, or_primaryKeys = Some [''id''],
     or_totalCount = JInt 2, or_firstPage = Some [[(''id'', JInt 1), (''name'', JStr ''ann'')], [(''id'', JInt 2), (''name'', JStr ''bob'')]]\<rparr>"

definition ex_opened :: table_data where
  "ex_opened = table_open_answered ex_td_props 1 (Reply ex_first_page) (td_start ex_td_props)"

definition ex_edited :: table_data where
  "ex_edited = grid_action ex_td_props 0 (\<lambda>gp. commitEdit gp 1 ''name'' ''eve'') ex_opened"

definition ex_reload :: sql_result where
  "ex_reload = \<lparr>sr_columns = Some [''id'', ''name''],
     sr_rows = Some [[(''id'', JInt 9), (''name'', JStr ''new'')], [(''id'', JInt 1), (''name'', JStr ''ann'')]], sr_affected = JUndef\<rparr>"

definition ex_reloaded :: table_data where
  "ex_reloaded = data_answered ex_td_props 2 Loaded_nothing (Reply ex_reload)
     (commit ex_td_props ex_edited (handleRefresh ex_td_props ex_edited))"

lemma ex_start_state:
  "td_waits (td_start ex_td_props) = [W_open 1]" "td_latestDataRequest (td_start ex_td_props) = 1"
  "td_cancelledRequests (td_start ex_td_props) = []" "td_edits (td_start ex_td_props) = []" "td_importing (td_start ex_td_props) = False"
  "td_error (td_start ex_td_props) = None" "td_newRows (td_start ex_td_props) = []" "td_requestSeq (td_start ex_td_props) = 1"
  by (simp_all add: td_start_def commit_def tab_effects_def load_effects_def page_effects_def column_effects_def clear_edits_def set_newRows_def
      Let_def open_table_def td_init_def nextRequestId_def td_await_def td_call_def set_rows_def set_columns_def ex_td_props_def)

lemma ex_opened_state:
  "grid_shown ex_opened" "td_edits ex_opened = []" "td_requestSeq ex_opened = 1"
  "td_rows ex_opened = [[(''id'', JInt 1), (''name'', JStr ''ann'')], [(''id'', JInt 2), (''name'', JStr ''bob'')]]"
proof -
  let ?s = "td_settled (W_open 1) (td_start ex_td_props)"
  let ?n = "forget_request 1 ((opened ex_first_page ?s)\<lparr>td_pkLoaded := True, td_loading := False\<rparr>)"
  have "current_data 1 ?s" by (simp add: current_data_def isCancelled_def td_settled_def ex_start_state)
  then have o: "ex_opened = commit ex_td_props (td_start ex_td_props) ?n"
    by (simp add: ex_opened_def table_open_answered_def Let_def)
  have v: "view_of ?n = view_of (td_start ex_td_props)" "td_applyVersion ?n = td_applyVersion (td_start ex_td_props)"
    by (simp_all add: view_of_def forget_request_def opened_def set_rows_def set_columns_def td_settled_def)
  note c = commit_same_view [OF v, of ex_td_props, folded o]
  have "\<not> td_loading ?n" "td_importing ?n = False" "td_error ?n = None" "td_columns ?n = [''id'', ''name'']"
    by (simp_all add: forget_request_def opened_def set_rows_def set_columns_def td_settled_def ex_start_state ex_first_page_def or_else_def)
  then show "grid_shown ex_opened" using c by (simp add: grid_shown_def tab_idle_def)
  show "td_edits ex_opened = []" "td_requestSeq ex_opened = 1"
    "td_rows ex_opened = [[(''id'', JInt 1), (''name'', JStr ''ann'')], [(''id'', JInt 2), (''name'', JStr ''bob'')]]"
    using c by (simp_all add: forget_request_def opened_def set_rows_def set_columns_def td_settled_def ex_start_state ex_first_page_def or_else_def)
qed

lemma ex_edited_state: "td_edits ex_edited = [(cellKey 1 ''name'', JStr ''eve'')]" "td_requestSeq ex_edited = 1"
proof -
  let ?g = "(td_grid ex_opened)\<lparr>qg_editingCell := None\<rparr>"
  let ?n = "handleCellEdit \<lparr>ce_rowIdx = 1, ce_col = ''name'', ce_value = JStr ''eve''\<rparr> (ex_opened\<lparr>td_grid := ?g\<rparr>)"
  have "grid_cell (gp_rows (grid_props_of ex_opened)) 1 ''name'' = JStr ''bob''"
    by (simp add: grid_cell_def grid_props_of_def tableRows_def nth_append ex_opened_state get_prop_def)
  then have e: "ex_edited = commit ex_td_props ex_opened ?n"
    by (simp add: ex_edited_def grid_action_def commitEdit_def Let_def grid_event_handler_def)
  have v: "view_of ?n = view_of ex_opened" "td_applyVersion ?n = td_applyVersion ex_opened"
    by (simp_all add: view_of_def handleCellEdit_def)
  note c = commit_same_view [OF v, of ex_td_props, folded e]
  show "td_edits ex_edited = [(cellKey 1 ''name'', JStr ''eve'')]" "td_requestSeq ex_edited = 1"
    using c by (simp_all add: handleCellEdit_def ex_opened_state)
qed

theorem refresh_moves_edits_witness:
  "buildUpdateStatements ex_td_props ex_reloaded =
   [cell_update_statement ex_td_props ex_reloaded [(''id'', JInt 1), (''name'', JStr ''ann'')] [(''name'', JStr ''eve'')]]"
proof -
  have o: "td_run ex_td_props (td_start ex_td_props) ex_opened"
    unfolding ex_opened_def by (rule run_next [OF run_refl]) (rule ts_open, simp add: ex_start_state)
  have "td_run ex_td_props (td_start ex_td_props) ex_edited"
    unfolding ex_edited_def by (rule run_next [OF o]) (rule ts_grid [OF ex_opened_state(1) go_commit])
  from refresh_moves_edits [OF this _ refl _ _ ex_reloaded_def, unfolded ex_edited_state] show ?thesis
    by (simp add: ex_td_props_def ex_reload_def group_edits_def add_edit_def or_else_def)
qed

theorem typed_value_compared_with_saved_witness:
  "td_edits (grid_action ex_td_props 0 (\<lambda>gp. commitEdit gp 1 ''name'' ''bob'') ex_td) = [(cellKey 1 ''name'', JStr ''eve'')]"
proof -
  have "1 < length (td_rows ex_td) \<and> get_prop (td_rows ex_td ! 1) ''name'' = JStr ''bob''" by (simp add: ex_td_def get_prop_def)
  then have "td_edits (grid_action ex_td_props 0 (\<lambda>gp. commitEdit gp 1 ''name'' ''bob'') ex_td) = td_edits ex_td"
    using typed_value_compared_with_saved [of 1 ex_td "''name''" "''bob''" ex_td_props 0] by blast
  then show ?thesis by (simp add: ex_td_def)
qed

end
