(* ===== verification/Spec2Isabelle.thy ===== *)
theory Spec2Isabelle
  imports K8sRuns TableFilter TableRoundTrip QueryRuns RedisCommand RedisKeyTree AssetTree AssetSearch SftpStore Keyboard AiInput Mongosh AiConversations KafkaRuns TableDataRuns
begin

text \<open>
  The verification library of the TypeScript core of OpsKat, a desktop client for servers, databases,
  Redis, MongoDB, Kafka and Kubernetes with an assistant. The client is a Go backend, which holds the
  connections and the saved data, and a React front end under \<^verbatim>\<open>src/frontend/src\<close>, which calls the
  backend through generated bindings and listens to its events. What the front end decides by itself
  is in the stores (\<^verbatim>\<open>stores/*.ts\<close>, one mutable state each, with its operations) and in the functions of
  \<^verbatim>\<open>lib/*.ts\<close>, and for the tab of a table and the page of a Kubernetes cluster in components; these are modelled here. A definition has the name of the function it translates.

  \<^bold>\<open>The parts and how they interact.\<close> The tab store holds the open tabs; every other store with a state
  per tab (terminals, transfers, query tabs, Kafka tabs, the assistant) registers a close hook with it,
  which drops the state of a closed tab, and some a restore hook, which rebuilds it at the next start. The
  query tabs show tables; the builders of \<^verbatim>\<open>tableSql\<close>, the filter panel, export and import make the SQL text that is
  sent to the server. Asset trees, search and group paths serve the lists of assets and the mentions in
  messages to the assistant. The key handler of the window acts on tabs, terminals and the layout.

  \<^bold>\<open>Theories and sources.\<close>
  \<^item> \<^verbatim>\<open>Prelude\<close>, \<^verbatim>\<open>JsValue\<close>, \<^verbatim>\<open>JsNumber\<close>, \<^verbatim>\<open>Base64\<close>: what the sources use of the language and its standard library:
    string and array methods, values of type \<^verbatim>\<open>unknown\<close> with their property order, \<^verbatim>\<open>Number(text)\<close> with the rounding to
    doubles, \<^verbatim>\<open>btoa\<close>, \<^verbatim>\<open>atob\<close> and the UTF-8 encoding.
  \<^item> \<^verbatim>\<open>SqlLex\<close>, \<^verbatim>\<open>SqlCond\<close>: no code but the specification of the SQL builders: a lexer as the server has it, per
    dialect, and the meaning of a condition as a tree.
  \<^item> \<^verbatim>\<open>TableSql\<close> (\<^verbatim>\<open>lib/tableSql.ts\<close>), \<^verbatim>\<open>TableFilterOperators\<close> and \<^verbatim>\<open>TableFilter\<close> (\<^verbatim>\<open>lib/tableFilterOperators.ts\<close>,
    \<^verbatim>\<open>lib/tableFilter.ts\<close>), \<^verbatim>\<open>TableExport\<close> (\<^verbatim>\<open>lib/tableExport.ts\<close>, \<^verbatim>\<open>lib/tableEdit.ts\<close>, \<^verbatim>\<open>lib/cellValue.ts\<close>), \<^verbatim>\<open>TableImport\<close>
    (\<^verbatim>\<open>lib/tableImport.ts\<close>), \<^verbatim>\<open>TableRoundTrip\<close> (export and import together).
  \<^item> \<^verbatim>\<open>RedisCommand\<close>, \<^verbatim>\<open>RedisKeyTree\<close>, \<^verbatim>\<open>Mongosh\<close>: \<^verbatim>\<open>lib/redisCommand.ts\<close>, \<^verbatim>\<open>lib/redisKeyTree.ts\<close>, \<^verbatim>\<open>lib/mongosh-parser.ts\<close>.
  \<^item> \<^verbatim>\<open>GroupPath\<close>, \<^verbatim>\<open>AssetTree\<close>, \<^verbatim>\<open>AssetSearch\<close>: \<^verbatim>\<open>lib/groupPath.ts\<close>, \<^verbatim>\<open>lib/assetTree.ts\<close>, \<^verbatim>\<open>lib/assetTreeReorder.ts\<close>,
    \<^verbatim>\<open>lib/assetSearch.ts\<close>, \<^verbatim>\<open>lib/pinyin.ts\<close>, \<^verbatim>\<open>lib/highlightMatch.ts\<close>.
  \<^item> \<^verbatim>\<open>TabStore\<close>: \<^verbatim>\<open>stores/tabStore.ts\<close> and \<^verbatim>\<open>stores/recentAssetStore.ts\<close>. \<^verbatim>\<open>SftpStore\<close>: \<^verbatim>\<open>stores/sftpStore.ts\<close>.
  \<^item> \<^verbatim>\<open>TerminalTree\<close>, \<^verbatim>\<open>TerminalStore\<close>: \<^verbatim>\<open>stores/terminalStore.ts\<close> and \<^verbatim>\<open>lib/terminalEncode.ts\<close>; \<^verbatim>\<open>TerminalRuns\<close>, \<^verbatim>\<open>TerminalTabs\<close> and \<^verbatim>\<open>TerminalSteps\<close> hold
    the invariants and the step relations of its runs.
  \<^item> \<^verbatim>\<open>Shortcuts\<close>, \<^verbatim>\<open>Keyboard\<close>: \<^verbatim>\<open>stores/shortcutStore.ts\<close>, \<^verbatim>\<open>stores/layoutStore.ts\<close>, \<^verbatim>\<open>hooks/useKeyboardShortcuts.ts\<close>.
  \<^item> \<^verbatim>\<open>MentionXml\<close>, \<^verbatim>\<open>AiInput\<close>: \<^verbatim>\<open>lib/mentionXml.ts\<close> and \<^verbatim>\<open>components/ai/input\<close>.
  \<^item> \<^verbatim>\<open>AiError\<close>, \<^verbatim>\<open>AiMessages\<close>, \<^verbatim>\<open>AiStore\<close>, \<^verbatim>\<open>AiSidebar\<close>, \<^verbatim>\<open>AiStream\<close>, \<^verbatim>\<open>AiRuns\<close>, \<^verbatim>\<open>AiConversations\<close>: \<^verbatim>\<open>lib/aiError.ts\<close>,
    \<^verbatim>\<open>lib/dirSyncErrors.ts\<close> and \<^verbatim>\<open>stores/aiStore.ts\<close>: the messages, the state, the sidebar, the streamed answers, the runs,
    and the lists of conversations with renaming, deleting and starting again.
  \<^item> \<^verbatim>\<open>QueryStore\<close>, \<^verbatim>\<open>QueryRuns\<close>: \<^verbatim>\<open>stores/queryStore.ts\<close>. \<^verbatim>\<open>KafkaStore\<close>, \<^verbatim>\<open>KafkaRuns\<close>: \<^verbatim>\<open>stores/kafkaStore.ts\<close>.
  \<^item> \<^verbatim>\<open>TableGrid\<close>, \<^verbatim>\<open>TableData\<close>, \<^verbatim>\<open>TableDataRuns\<close>: the tab of a table, with its state in React components:
    \<^verbatim>\<open>components/query/QueryResultTable.tsx\<close>, \<^verbatim>\<open>TableDataTab.tsx\<close> and the page size of \<^verbatim>\<open>TableEditorToolbar.tsx\<close>.
  \<^item> \<^verbatim>\<open>K8sPage\<close>, \<^verbatim>\<open>K8sLogs\<close>, \<^verbatim>\<open>K8sRuns\<close>: the page of a cluster, \<^verbatim>\<open>components/k8s/K8sClusterPage.tsx\<close>, \<^verbatim>\<open>K8sLogsPanel.tsx\<close>,
    \<^verbatim>\<open>k8sLogState.ts\<close> and \<^verbatim>\<open>utils.ts\<close>.

  \<^bold>\<open>How the code is translated.\<close> An interface is a record with the fields of the source, a union of string
  literals a datatype; a field that may be absent is an option, and an object used as a dictionary is an
  association list in insertion order. A string is a list of its code units below 256: the case conversions change ASCII letters
  only, and white space is what the sources' \<^verbatim>\<open>trim\<close> removes below 256. A number that is an identifier, a count or an index
  is an \<open>int\<close> or \<open>nat\<close>; a number that is typed into a form is rounded to a double. An \<^verbatim>\<open>async\<close> operation is split at its
  awaits: the first part records the call of the backend and an entry of what waits for it
  (\<open>ai_waits\<close>, \<open>query_waits\<close>, \<open>kf_waits\<close>, \<open>td_waits\<close>, \<open>kp_waits\<close>, the connections of the terminals), the next parts take the answer, which is
  an argument, or the error; so every interleaving of operations and answers is a sequence of steps. Timers are treated in the same
  way. The hooks of a component are fields of a record; a handler reads the state it was rendered with, and after each handler or
  answer the effects whose dependencies have changed run in their order (\<open>commit\<close> of \<^verbatim>\<open>TableData\<close>, \<open>rendered\<close> of \<^verbatim>\<open>K8sLogs\<close>). What the
  Go backend does to a conversation between saving and loading, the JSON of its messages with omitted fields, is part of \<^verbatim>\<open>AiMessages\<close>. Identifiers made from the clock or at random, and the clock, are arguments. An item of \<^verbatim>\<open>localStorage\<close> is the
  value whose JSON it holds, so that reading back what was written gives this value. A call of the
  backend, of an xterm instance or of a callback is an entry of a list of calls. What only passes
  through the program from the backend to a panel is a JSON value.
  Code that is not in the repository is a parameter: \<^verbatim>\<open>JSON.parse\<close>, \<^verbatim>\<open>DOMParser\<close>,
  the package \<^verbatim>\<open>pinyin-pro\<close>, \<^verbatim>\<open>localeCompare\<close>, the parser \<^verbatim>\<open>acorn\<close>, the translations of \<^verbatim>\<open>i18next\<close>; the properties that need a fact about
  one of them name it as a hypothesis, and their witnesses apply them with a concrete function.

  \<^bold>\<open>What the lemmas show.\<close>
  \<^item> The SQL builders are judged by reading: a server that splits the text built for any names and values
    into tokens reads the intended statement, and no part of a name or value as anything else
    (\<open>TableSql\<close>, \<open>TableImport\<close>; the \<open>sql_separator\<close> locale says when pieces may be joined). A filter means the
    chain of conditions that the panel shows, and negation is that of three-valued logic.
  \<^item> Export and import, mentions, statements, messages, tabs and the sidebar are read back as they were
    written; where something is lost, the statement says what.
  \<^item> Every store has a step relation with a rule for every operation, answer and event
    (\<open>term_step\<close>, \<open>sidebar_step\<close>, \<open>ai_step\<close>, \<open>conv_step\<close>, \<open>query_step\<close>, \<open>kafka_step\<close>, \<open>td_step\<close>, \<open>k8s_change\<close>), and its invariant is
    proved by rule induction over the runs. The guards are those of the program: an answer arrives for an entry that
    waits, an event for a listener that is registered, a button is pressed while it is shown and enabled (\<open>td_change\<close>,
    \<open>k8s_action\<close>; a table is used while it is shown, but the answers of the clipboard come at any time).
    Where an invariant needs more than the program ensures, the condition has a name and stands in the statement:
    \<open>takes_free\<close> and \<open>shows_open\<close> for operations on tabs (new ids are free; a tab that is activated or kept is open), and
    \<open>orderly_step\<close> for terminals (no tab with a connecting pane is split, closed in part or reconnected, and a retry or
    cancel is one of a first connection). The properties of the tabs and terminals say first what holds over all runs and then
    what holds over these; what goes wrong outside of them is \<open>retry_of_reconnect_strands_pane\<close>.
  \<^item> The contract between the tab store and the stores with a state per tab is the locale
    \<open>tab_keyed_store\<close> of \<^verbatim>\<open>TabStore\<close>, interpreted on the panels and paths of the file manager, on the three kinds of
    query tabs and on the Kafka tabs: no state survives the closing of its tab. \<open>in_place_edit\<close> is the contract of
    the edits of the filter panel, \<open>delimited\<close> that of the delimited formats of export and import.
  \<^item> Errors are values: each branch of a parser that rejects, each failed call and each thrown
    error of an operation is a branch of the model, and properties say what the state is afterwards.

  \<^bold>\<open>Bounds and fuel.\<close> The recursive walks over groups, which may be linked in a circle, run as while-loops; they are
  shown to end after at most one round for each group more than there are. Parsers recurse with a
  measure on the text that is left. The trees of assets and groups take a depth, \<open>None\<close> being the overflow of the stack;
  a depth above the number of groups is shown to be enough, circles or not.
  The chunk size of an import and the pages of a scan are arguments.

  \<^bold>\<open>Not modelled.\<close> The Go backend and its tools, but for the messages of a kept conversation; the React components but those of the tab of a table and of the page of a cluster: they draw the states of
  the stores and call their operations; the parts of hooks that register listeners of the browser;
  the generated bindings; translations, themes and fonts; the extension loader, which runs
  foreign code; the package of widgets. Of the modelled files are left out: the functions that read the object
  of the rich text editor, and React's memoisation. Characters above 255 and their case conversions are outside the
  model of strings.
\<close>

end
